(* ===== verification/Go_Prelude.thy ===== *)
theory Go_Prelude
  imports Main "HOL-Library.Sublist" "HOL-Library.Char_ord" "HOL-Library.List_Lexorder"
    "HOL-Library.AList"
begin

text \<open>
  What the components share: the part of the Go language and of its standard library the
  sources use, as HOL functions. A Go \<^verbatim>\<open>string\<close> is a sequence of bytes, here a
  \<^typ>\<open>string\<close> (a list of 8-bit characters); \<^verbatim>\<open>strings.Index\<close> answers \<^const>\<open>None\<close>
  where Go answers \<open>-1\<close>. The case mapping of \<^verbatim>\<open>strings.ToLower\<close> is the one on
  ASCII letters.

  The collections \<open>go_string\<close> and \<open>segment\<close> gather the facts on strings and on
  slash-separated paths that the component proofs use; \<open>model\<close> gathers the unfoldings of
  small straight-line helpers.
\<close>

named_theorems go_string
named_theorems segment
named_theorems model

section \<open>Outcomes\<close>

text \<open>
  A Go function that returns \<open>(value, error)\<close> and may panic has one of three outcomes.
\<close>

datatype ('e, 'a) outcome = Ok 'a | Err 'e | Panic string

fun outcome_ok :: "('e, 'a) outcome \<Rightarrow> bool" where
  "outcome_ok (Ok _) = True"
| "outcome_ok _ = False"

fun bind_outcome :: "('e, 'a) outcome \<Rightarrow> ('a \<Rightarrow> ('e, 'b) outcome) \<Rightarrow> ('e, 'b) outcome" where
  "bind_outcome (Ok x) f = f x"
| "bind_outcome (Err e) f = Err e"
| "bind_outcome (Panic p) f = Panic p"

section \<open>The package strings\<close>

definition HasPrefix :: "string \<Rightarrow> string \<Rightarrow> bool" where
  "HasPrefix s p \<longleftrightarrow> take (length p) s = p"

definition HasSuffix :: "string \<Rightarrow> string \<Rightarrow> bool" where
  "HasSuffix s p \<longleftrightarrow> HasPrefix (rev s) (rev p)"

fun Index :: "string \<Rightarrow> string \<Rightarrow> nat option" where
  "Index [] sub = (if sub = [] then Some 0 else None)"
| "Index (x # s) sub =
     (if HasPrefix (x # s) sub then Some 0 else map_option Suc (Index s sub))"

definition Contains :: "string \<Rightarrow> string \<Rightarrow> bool" where
  "Contains s sub \<longleftrightarrow> Index s sub \<noteq> None"

text \<open>\<^verbatim>\<open>strings.LastIndex(s, c)\<close> for a separator of one byte.\<close>

definition LastIndex :: "string \<Rightarrow> char \<Rightarrow> nat option" where
  "LastIndex s c =
     (if c \<in> set s then Some (length s - Suc (length (takeWhile (\<lambda>x. x \<noteq> c) (rev s)))) else None)"

text \<open>\<^verbatim>\<open>strings.Split\<close> and \<^verbatim>\<open>strings.SplitN\<close> for a separator of one byte.\<close>

fun Split :: "string \<Rightarrow> char \<Rightarrow> string list" where
  "Split [] c = [[]]"
| "Split (x # s) c =
     (if x = c then [] # Split s c
      else case Split s c of [] \<Rightarrow> [[x]] | seg # segs \<Rightarrow> (x # seg) # segs)"

fun SplitN :: "string \<Rightarrow> char \<Rightarrow> nat \<Rightarrow> string list" where
  "SplitN s c 0 = []"
| "SplitN s c (Suc n) =
     (if n = 0 \<or> c \<notin> set s then [s]
      else takeWhile (\<lambda>x. x \<noteq> c) s # SplitN (tl (dropWhile (\<lambda>x. x \<noteq> c) s)) c n)"

fun Join :: "string list \<Rightarrow> string \<Rightarrow> string" where
  "Join [] sep = []"
| "Join [s] sep = s"
| "Join (s # t # ss) sep = s @ sep @ Join (t # ss) sep"

text \<open>\<^verbatim>\<open>strings.ReplaceAll\<close> for a non-empty pattern.\<close>

function ReplaceAll :: "string \<Rightarrow> string \<Rightarrow> string \<Rightarrow> string" where
  "ReplaceAll [] old new = []"
| "ReplaceAll (x # s) old new =
     (if old \<noteq> [] \<and> HasPrefix (x # s) old
      then new @ ReplaceAll (drop (length old) (x # s)) old new
      else x # ReplaceAll s old new)"
  by pat_completeness auto
termination
  by (relation "measure (\<lambda>(s, old, new). length s)") auto

definition lower_char :: "char \<Rightarrow> char" where
  "lower_char c = (if CHR ''A'' \<le> c \<and> c \<le> CHR ''Z'' then char_of (of_char c + 32 :: nat) else c)"

definition ToLower :: "string \<Rightarrow> string" where
  "ToLower s = map lower_char s"

section \<open>The package strconv\<close>

definition digit_char :: "nat \<Rightarrow> char" where
  "digit_char d = char_of (48 + d)"

fun nat_string :: "nat \<Rightarrow> string" where
  "nat_string n = (if n < 10 then [digit_char n] else nat_string (n div 10) @ [digit_char (n mod 10)])"

declare nat_string.simps [simp del]

text \<open>\<^verbatim>\<open>strconv.Itoa\<close>, also what \<^verbatim>\<open>%d\<close> prints.\<close>

definition Itoa :: "int \<Rightarrow> string" where
  "Itoa i = (if i < 0 then CHR ''-'' # nat_string (nat (- i)) else nat_string (nat i))"

definition is_digit :: "char \<Rightarrow> bool" where
  "is_digit c \<longleftrightarrow> 48 \<le> (of_char c :: nat) \<and> (of_char c :: nat) \<le> 57"

fun digits_value :: "nat \<Rightarrow> string \<Rightarrow> nat option" where
  "digits_value acc [] = Some acc"
| "digits_value acc (c # s) =
     (if is_digit c then digits_value (10 * acc + (of_char c - 48)) s else None)"

definition max_int64 :: int where "max_int64 = 2 ^ 63 - 1"
definition min_int64 :: int where "min_int64 = - (2 ^ 63)"

text \<open>\<^verbatim>\<open>strconv.Atoi\<close> on a 64-bit platform: an optional sign, at least one digit, in range.\<close>

definition Atoi :: "string \<Rightarrow> int option" where
  "Atoi s =
     (let (neg, ds) = (case s of [] \<Rightarrow> (False, []) | c # t \<Rightarrow>
            if c = CHR ''-'' then (True, t) else if c = CHR ''+'' then (False, t) else (False, s))
      in if ds = [] then None
         else case digits_value 0 ds of
           None \<Rightarrow> None
         | Some n \<Rightarrow> (let i = (if neg then - int n else int n)
                     in if min_int64 \<le> i \<and> i \<le> max_int64 then Some i else None))"

section \<open>Facts on prefixes, indices and containment\<close>

lemma HasPrefix_iff [go_string]: "HasPrefix s p \<longleftrightarrow> (\<exists>t. s = p @ t)"
  unfolding HasPrefix_def by (metis append_eq_conv_conj append_take_drop_id)

lemma HasPrefix_prefix: "HasPrefix s p \<longleftrightarrow> prefix p s"
  by (simp add: HasPrefix_iff prefix_def)

lemma HasPrefix_append [simp]: "HasPrefix (p @ t) p"
  by (auto simp: HasPrefix_iff)

lemma HasPrefix_Nil [simp]: "HasPrefix s []"
  by (simp add: HasPrefix_def)

lemma HasPrefix_Cons [simp]: "HasPrefix (x # s) (y # p) \<longleftrightarrow> x = y \<and> HasPrefix s p"
  by (simp add: HasPrefix_def)

lemma HasPrefix_empty [simp]: "HasPrefix [] p \<longleftrightarrow> p = []"
  by (auto simp: HasPrefix_def)

lemma HasSuffix_iff [go_string]: "HasSuffix s p \<longleftrightarrow> (\<exists>t. s = t @ p)"
  unfolding HasSuffix_def HasPrefix_iff by (metis rev_append rev_rev_ident)

lemma Index_Some_append: "Index s sub = Some i \<Longrightarrow> \<exists>a b. s = a @ sub @ b \<and> length a = i"
proof (induction s arbitrary: i)
  case Nil
  then show ?case by (simp split: if_splits)
next
  case (Cons x s)
  show ?case
  proof (cases "HasPrefix (x # s) sub")
    case True
    with Cons.prems show ?thesis by (auto simp: HasPrefix_iff)
  next
    case False
    with Cons.prems obtain j where j: "Index s sub = Some j" and i: "i = Suc j" by auto
    from Cons.IH [OF j] obtain a b where "s = a @ sub @ b" "length a = j" by blast
    with i have "x # s = (x # a) @ sub @ b \<and> length (x # a) = i" by simp
    then show ?thesis by blast
  qed
qed

lemma Index_prefix: "HasPrefix s sub \<Longrightarrow> Index s sub = Some 0"
  by (cases s) auto

lemma Index_append_Some: "\<exists>i. Index (a @ sub @ b) sub = Some i \<and> i \<le> length a"
proof (induction a)
  case Nil
  show ?case by (simp add: Index_prefix)
next
  case (Cons x a)
  then show ?case by auto
qed

lemma Contains_iff_sublist [go_string]: "Contains s sub \<longleftrightarrow> sublist sub s"
proof
  assume "Contains s sub"
  then obtain i where "Index s sub = Some i" by (auto simp: Contains_def)
  from Index_Some_append [OF this] show "sublist sub s" by (auto simp: sublist_def)
next
  assume "sublist sub s"
  then obtain a b where "s = a @ sub @ b" by (auto simp: sublist_def)
  then show "Contains s sub" using Index_append_Some [of a sub b] by (auto simp: Contains_def)
qed

lemma Contains_simps [simp]:
  "Contains [] sub \<longleftrightarrow> sub = []"
  "Contains (x # s) sub \<longleftrightarrow> HasPrefix (x # s) sub \<or> Contains s sub"
  by (auto simp: Contains_def)

text \<open>Cutting the head of a string at the first occurrence of a marker it starts with.\<close>

lemma Index_self [simp]: "Index (p @ t) p = Some 0"
  by (simp add: Index_prefix)

section \<open>Facts on splitting\<close>

lemma Split_nonempty [simp]: "Split s c \<noteq> []"
  by (cases s) (auto split: list.splits)

lemma length_Split [simp]: "0 < length (Split s c)"
  by simp

lemma Split_no_sep [segment]: "c \<notin> set s \<Longrightarrow> Split s c = [s]"
  by (induction s) auto

lemma Split_append_sep [segment]: "c \<notin> set a \<Longrightarrow> Split (a @ c # s) c = a # Split s c"
  by (induction a) auto

lemma Split_segments: "seg \<in> set (Split s c) \<Longrightarrow> c \<notin> set seg"
proof (induction s arbitrary: seg)
  case Nil
  then show ?case by simp
next
  case (Cons x s)
  then show ?case by (cases "Split s c") (auto split: if_splits)
qed

lemma Split_append: "Split (a @ c # s) c = Split a c @ Split s c"
  by (induction a) (auto split: list.split)

lemma Join_Cons: "ss \<noteq> [] \<Longrightarrow> Join (s # ss) sep = s @ sep @ Join ss sep"
  by (cases ss) auto

lemma Join_Split [segment]: "Join (Split s c) [c] = s"
proof (induction s)
  case Nil
  then show ?case by simp
next
  case (Cons x s)
  show ?case
  proof (cases "Split s c")
    case Nil
    then show ?thesis by simp
  next
    case (Cons seg segs)
    with Cons.IH show ?thesis by (cases segs) auto
  qed
qed

lemma Split_Join [segment]:
  "ss \<noteq> [] \<Longrightarrow> (\<And>s. s \<in> set ss \<Longrightarrow> c \<notin> set s) \<Longrightarrow> Split (Join ss [c]) c = ss"
proof (induction ss rule: induct_list012)
  case (3 s t ss)
  then show ?case by (simp add: Split_append_sep)
qed (auto simp: Split_no_sep)

lemma SplitN_append_sep [segment]:
  "c \<notin> set a \<Longrightarrow> 0 < n \<Longrightarrow> SplitN (a @ c # s) c (Suc n) = a # SplitN s c n"
  by (induction a) auto

lemma takeWhile_neq_append [simp]:
  "c \<notin> set a \<Longrightarrow> takeWhile (\<lambda>x. x \<noteq> c) (a @ c # s) = a"
  by (induction a) auto

lemma dropWhile_neq_append [simp]:
  "c \<notin> set a \<Longrightarrow> dropWhile (\<lambda>x. x \<noteq> c) (a @ c # s) = c # s"
  by (induction a) auto

section \<open>Facts on decimal numerals\<close>

lemma of_char_digit [simp]: "d < 10 \<Longrightarrow> of_char (digit_char d) = 48 + d"
  by (simp add: digit_char_def)

lemma is_digit_digit_char [simp]: "d < 10 \<Longrightarrow> is_digit (digit_char d)"
  by (simp add: is_digit_def)

lemma digits_value_append:
  "digits_value acc (s @ t) = Option.bind (digits_value acc s) (\<lambda>n. digits_value n t)"
  by (induction s arbitrary: acc) auto

lemma digits_value_nat_string: "digits_value 0 (nat_string n) = Some n"
proof (induction n rule: nat_string.induct)
  case (1 n)
  show ?case
  proof (cases "n < 10")
    case True
    then show ?thesis by (simp add: nat_string.simps [of n])
  next
    case False
    with "1.IH" have "digits_value 0 (nat_string (n div 10)) = Some (n div 10)" by blast
    with False show ?thesis by (simp add: nat_string.simps [of n] digits_value_append)
  qed
qed

lemma nat_string_digits: "c \<in> set (nat_string n) \<Longrightarrow> is_digit c"
proof (induction n rule: nat_string.induct)
  case (1 n)
  then show ?case by (cases "n < 10") (auto simp: nat_string.simps [of n])
qed

lemma nat_string_nonempty [simp]: "nat_string n \<noteq> []"
  by (subst nat_string.simps) simp

lemma nat_string_hd: "\<exists>c t. nat_string n = c # t \<and> is_digit c"
  using nat_string_nonempty [of n] nat_string_digits [of _ n] by (cases "nat_string n") auto

lemma is_digit_not_sign [simp]: "is_digit CHR ''-'' = False" "is_digit CHR ''+'' = False"
  "is_digit CHR ''/'' = False" "is_digit CHR ''|'' = False"
  by (simp_all add: is_digit_def)

lemma Atoi_Itoa [simp]:
  assumes "min_int64 \<le> i" and "i \<le> max_int64"
  shows "Atoi (Itoa i) = Some i"
proof (cases "i < 0")
  case True
  with assms show ?thesis
    by (simp add: Itoa_def Atoi_def digits_value_nat_string)
next
  case False
  obtain c t where ct: "nat_string (nat i) = c # t" "is_digit c"
    using nat_string_hd by blast
  then have "c \<noteq> CHR ''-''" "c \<noteq> CHR ''+''" by auto
  with False assms ct show ?thesis
    using digits_value_nat_string [of "nat i"] by (simp add: Itoa_def Atoi_def)
qed

lemma Itoa_no_slash [segment]: "CHR ''/'' \<notin> set (Itoa i)"
  using nat_string_digits [of "CHR ''/''"] by (auto simp: Itoa_def)

end
