(* ===== verification/Json.thy ===== *)
theory Json
  imports Go_Prelude
begin

text \<open>
  The dynamic values of the program (\<^verbatim>\<open>interface{}\<close> holding decoded JSON), the raw
  messages of \<^verbatim>\<open>encoding/json\<close>, and the typed accessors of
  \<^verbatim>\<open>src/pkg/utils/props.go\<close>.

  A \<^verbatim>\<open>map[string]interface{}\<close> is an association list with distinct keys, in the order in
  which Go would range over it; Go leaves that order open, and so does the model: nothing is
  assumed about it. A JSON text is represented by the document it encodes or by the decoder's
  complaint about it; the grammar of JSON itself is not modelled. A number decoded into a
  \<^verbatim>\<open>float64\<close> is its shortest decimal, \<open>m / 10 ^ k\<close>, which is exact for the integers up
  to \<open>2 ^ 53\<close> that these APIs send as numbers.
\<close>

section \<open>Values\<close>

datatype json =
    JNull
  | JBool bool
  | JNum int nat
  | JInt int
  | JInt64 int
  | JNumber string
  | JStr string
  | JArr "json list"
  | JObj "(string \<times> json) list"

type_synonym obj = "(string \<times> json) list"

fun as_string :: "json option \<Rightarrow> string option" where
  "as_string (Some (JStr s)) = Some s"
| "as_string _ = None"

fun as_bool :: "json option \<Rightarrow> bool option" where
  "as_bool (Some (JBool b)) = Some b"
| "as_bool _ = None"

fun as_obj :: "json option \<Rightarrow> obj option" where
  "as_obj (Some (JObj m)) = Some m"
| "as_obj _ = None"

fun as_arr :: "json option \<Rightarrow> json list option" where
  "as_arr (Some (JArr xs)) = Some xs"
| "as_arr _ = None"

text \<open>The comma-ok assertion \<^verbatim>\<open>s, _ := m[k].(string)\<close>: the zero value where it fails.\<close>

definition string_or_empty :: "string option \<Rightarrow> string" where
  "string_or_empty x = (case x of None \<Rightarrow> [] | Some s \<Rightarrow> s)"

fun num_trunc :: "int \<Rightarrow> nat \<Rightarrow> int" where
  "num_trunc m k = sgn m * (\<bar>m\<bar> div 10 ^ k)"

text \<open>
  A conversion of a \<^verbatim>\<open>float64\<close> to a 64-bit integer truncates; outside the range the result
  is the one amd64 gives.
\<close>

definition float_to_int64 :: "int \<Rightarrow> nat \<Rightarrow> int" where
  "float_to_int64 m k =
     (let i = num_trunc m k in if min_int64 \<le> i \<and> i \<le> max_int64 then i else min_int64)"

fun zeros :: "nat \<Rightarrow> string" where
  "zeros 0 = []"
| "zeros (Suc n) = CHR ''0'' # zeros n"

text \<open>\<^verbatim>\<open>strconv.FormatFloat(v, 'f', -1, 64)\<close>: the shortest decimal, never with an exponent.\<close>

definition format_float :: "int \<Rightarrow> nat \<Rightarrow> string" where
  "format_float m k =
     (if k = 0 then Itoa m
      else let ds = nat_string (nat \<bar>m\<bar>);
               padded = zeros (Suc k - length ds) @ ds;
               cut = length padded - k
           in (if m < 0 then ''-'' else []) @ take cut padded @ ''.'' @ drop cut padded)"

text \<open>The type name \<^verbatim>\<open>%T\<close> prints for \<^verbatim>\<open>m[k]\<close>.\<close>

fun type_name :: "json option \<Rightarrow> string" where
  "type_name None = ''<nil>''"
| "type_name (Some JNull) = ''<nil>''"
| "type_name (Some (JBool _)) = ''bool''"
| "type_name (Some (JNum _ _)) = ''float64''"
| "type_name (Some (JInt _)) = ''int''"
| "type_name (Some (JInt64 _)) = ''int64''"
| "type_name (Some (JNumber _)) = ''json.Number''"
| "type_name (Some (JStr _)) = ''string''"
| "type_name (Some (JArr _)) = ''[]interface {}''"
| "type_name (Some (JObj _)) = ''map[string]interface {}''"

section \<open>Sizes, for the recursions over values\<close>

lemma size_map_of [termination_simp]: "map_of m k = Some v \<Longrightarrow> size v < size (JObj m)"
proof (induction m)
  case Nil
  then show ?case by simp
next
  case (Cons kv m)
  then show ?case by (cases kv) (auto split: if_splits)
qed

lemma size_in_obj [termination_simp]: "(k, v) \<in> set m \<Longrightarrow> size v < size (JObj m)"
proof (induction m)
  case Nil
  then show ?case by simp
next
  case (Cons kv m)
  then show ?case by (cases kv) auto
qed

lemma size_in_arr [termination_simp]: "v \<in> set xs \<Longrightarrow> size v < size (JArr xs)"
  by (induction xs) auto

section \<open>Rendering with \<open>%v\<close>\<close>

text \<open>
  What \<^verbatim>\<open>%v\<close> prints for a decoded value: maps in key order, numbers positionally (the
  exponent form Go uses below \<open>10 ^ -4\<close> and from \<open>10 ^ 21\<close> on is not modelled).
\<close>

function show_v :: "json \<Rightarrow> string" where
  "show_v JNull = ''<nil>''"
| "show_v (JBool b) = (if b then ''true'' else ''false'')"
| "show_v (JNum m k) = format_float m k"
| "show_v (JInt i) = Itoa i"
| "show_v (JInt64 i) = Itoa i"
| "show_v (JNumber s) = s"
| "show_v (JStr s) = s"
| "show_v (JArr xs) = ''['' @ Join (map show_v xs) '' '' @ '']''"
| "show_v (JObj m) =
     ''map['' @ Join (map (\<lambda>(k, v). k @ '':'' @ show_v v) (sort_key fst m)) '' '' @ '']''"
  by pat_completeness auto
termination
  by (relation "measure size") (auto dest: size_in_obj size_in_arr)

definition show_opt :: "json option \<Rightarrow> string" where
  "show_opt x = (case x of None \<Rightarrow> ''<nil>'' | Some v \<Rightarrow> show_v v)"

section \<open>Raw messages\<close>

datatype raw = RawNil | RawBad string | RawDoc json

fun json_kind :: "json \<Rightarrow> string" where
  "json_kind (JBool _) = ''bool''"
| "json_kind (JStr _) = ''string''"
| "json_kind (JArr _) = ''array''"
| "json_kind (JObj _) = ''object''"
| "json_kind JNull = ''null''"
| "json_kind _ = ''number''"

text \<open>
  \<^verbatim>\<open>json.Unmarshal(raw, &props)\<close> into a nil \<^verbatim>\<open>map[string]interface{}\<close>: the error text,
  or the map, which stays nil (\<^const>\<open>None\<close>) for the document \<^verbatim>\<open>null\<close>.
\<close>

fun unmarshal_map :: "raw \<Rightarrow> string + obj option" where
  "unmarshal_map RawNil = Inl ''unexpected end of JSON input''"
| "unmarshal_map (RawBad e) = Inl e"
| "unmarshal_map (RawDoc (JObj m)) = Inr (Some m)"
| "unmarshal_map (RawDoc JNull) = Inr None"
| "unmarshal_map (RawDoc v) =
     Inl (''json: cannot unmarshal '' @ json_kind v @ '' into Go value of type map[string]interface {}'')"

text \<open>
  Decoding into the fields of a struct: names match whatever their case, and the last one wins. An
  element of a list of strings that is null becomes the empty string.
\<close>

definition struct_field :: "obj \<Rightarrow> string \<Rightarrow> json option" where
  "struct_field m k = map_of (rev (map (\<lambda>(j, v). (ToLower j, v)) m)) k"

fun string_elements :: "json list \<Rightarrow> string list option" where
  "string_elements [] = Some []"
| "string_elements (JStr s # xs) = map_option (\<lambda>ss. s # ss) (string_elements xs)"
| "string_elements (JNull # xs) = map_option (\<lambda>ss. [] # ss) (string_elements xs)"
| "string_elements (_ # xs) = None"

text \<open>
  \<^verbatim>\<open>json.Marshal\<close> of a value fails only on a \<^verbatim>\<open>json.Number\<close> that is no number. The decoder
  of this program never makes one (nothing calls \<^verbatim>\<open>UseNumber\<close>).
\<close>

fun drop_digits :: "string \<Rightarrow> string" where
  "drop_digits [] = []"
| "drop_digits (c # s) = (if is_digit c then drop_digits s else c # s)"

definition digits1 :: "string \<Rightarrow> string option" where
  "digits1 s = (case s of [] \<Rightarrow> None | c # t \<Rightarrow> if is_digit c then Some (drop_digits t) else None)"

definition number_exponent :: "string \<Rightarrow> bool" where
  "number_exponent s =
     (case s of [] \<Rightarrow> True
      | c # t \<Rightarrow> (c = CHR ''e'' \<or> c = CHR ''E'') \<and>
          digits1 (case t of [] \<Rightarrow> [] | d # u \<Rightarrow> if d = CHR ''+'' \<or> d = CHR ''-'' then u else t) = Some [])"

definition valid_number :: "string \<Rightarrow> bool" where
  "valid_number s =
     (let u = (case s of [] \<Rightarrow> [] | c # t \<Rightarrow> if c = CHR ''-'' then t else s);
          r = (case u of [] \<Rightarrow> None | c # t \<Rightarrow> if c = CHR ''0'' then Some t else digits1 u)
      in case r of None \<Rightarrow> False
         | Some rest \<Rightarrow>
             (case rest of [] \<Rightarrow> True
              | c # t \<Rightarrow> if c = CHR ''.'' then (case digits1 t of None \<Rightarrow> False | Some r' \<Rightarrow> number_exponent r')
                         else number_exponent rest))"

function marshalable :: "json \<Rightarrow> bool" where
  "marshalable (JNumber s) = (s = [] \<or> valid_number s)"
| "marshalable (JArr xs) = list_all marshalable xs"
| "marshalable (JObj m) = list_all (\<lambda>(k, v). marshalable v) m"
| "marshalable JNull = True"
| "marshalable (JBool b) = True"
| "marshalable (JNum i k) = True"
| "marshalable (JInt i) = True"
| "marshalable (JInt64 i) = True"
| "marshalable (JStr s) = True"
  by pat_completeness auto
termination
  by (relation "measure size") (auto dest: size_in_obj size_in_arr)

text \<open>A nil map marshals to \<^verbatim>\<open>null\<close>, an empty one to an empty object.\<close>

definition map_value :: "obj option \<Rightarrow> json" where
  "map_value m = (case m of None \<Rightarrow> JNull | Some kvs \<Rightarrow> JObj kvs)"

definition Marshal :: "json \<Rightarrow> string + raw" where
  "Marshal v =
     (if marshalable v then Inr (RawDoc v)
      else Inl ''json: invalid number literal'')"

text \<open>
  A document the decoder can have produced: distinct keys, and none of the numeric types that
  only Go code can put into a value.
\<close>

function decoded :: "json \<Rightarrow> bool" where
  "decoded (JObj m) = (distinct (map fst m) \<and> list_all (\<lambda>(k, v). decoded v) m)"
| "decoded (JArr xs) = list_all decoded xs"
| "decoded (JInt i) = False"
| "decoded (JInt64 i) = False"
| "decoded (JNumber s) = False"
| "decoded JNull = True"
| "decoded (JBool b) = True"
| "decoded (JNum i k) = True"
| "decoded (JStr s) = True"
  by pat_completeness auto
termination
  by (relation "measure size") (auto dest: size_in_obj size_in_arr)

section \<open>utils/props.go\<close>

datatype props_input = PRaw raw | PBytes raw | PText raw | PMap "obj option" | POther string

definition wrap_unmarshal :: "string \<Rightarrow> raw \<Rightarrow> string + obj option" where
  "wrap_unmarshal what r =
     (case unmarshal_map r of
        Inl e \<Rightarrow> Inl (''failed to unmarshal '' @ what @ '': '' @ e)
      | Inr m \<Rightarrow> Inr m)"

fun ParseProperties :: "props_input \<Rightarrow> string + obj option" where
  "ParseProperties (PRaw r) = wrap_unmarshal ''json.RawMessage'' r"
| "ParseProperties (PBytes r) = wrap_unmarshal ''[]byte'' r"
| "ParseProperties (PText r) = wrap_unmarshal ''string'' r"
| "ParseProperties (PMap m) = Inr m"
| "ParseProperties (POther t) = Inl (''unsupported type: '' @ t)"

definition GetString :: "obj \<Rightarrow> string \<Rightarrow> string" where
  "GetString m k = (case map_of m k of Some (JStr s) \<Rightarrow> s | _ \<Rightarrow> [])"

definition GetBool :: "obj \<Rightarrow> string \<Rightarrow> bool" where
  "GetBool m k = (case map_of m k of Some (JBool b) \<Rightarrow> b | _ \<Rightarrow> False)"

definition GetInt64 :: "obj \<Rightarrow> string \<Rightarrow> int" where
  "GetInt64 m k =
     (case map_of m k of
        Some (JStr s) \<Rightarrow> (case Atoi s of Some i \<Rightarrow> i | None \<Rightarrow> 0)
      | Some (JInt64 i) \<Rightarrow> i
      | Some (JInt i) \<Rightarrow> i
      | Some (JNum n e) \<Rightarrow> float_to_int64 n e
      | _ \<Rightarrow> 0)"

definition GetObject :: "obj \<Rightarrow> string \<Rightarrow> obj option" where
  "GetObject m k = (case map_of m k of Some (JObj o') \<Rightarrow> Some o' | _ \<Rightarrow> None)"

definition GetArray :: "obj \<Rightarrow> string \<Rightarrow> json list option" where
  "GetArray m k = (case map_of m k of Some (JArr xs) \<Rightarrow> Some xs | _ \<Rightarrow> None)"

text \<open>The loops that keep the elements of an array that are objects, or strings, and skip the others.\<close>

definition objects :: "json list \<Rightarrow> obj list" where
  "objects xs = concat (map (\<lambda>x. case as_obj (Some x) of Some m \<Rightarrow> [m] | None \<Rightarrow> []) xs)"

definition strings :: "json list \<Rightarrow> string list" where
  "strings xs = concat (map (\<lambda>x. case as_string (Some x) of Some s \<Rightarrow> [s] | None \<Rightarrow> []) xs)"

section \<open>Facts on maps as association lists\<close>

lemma as_string_Some_iff [simp]: "as_string x = Some s \<longleftrightarrow> x = Some (JStr s)"
  by (cases x rule: as_string.cases) auto

lemma as_obj_Some_iff [simp]: "as_obj x = Some m \<longleftrightarrow> x = Some (JObj m)"
  by (cases x rule: as_obj.cases) auto

lemma as_arr_Some_iff [simp]: "as_arr x = Some xs \<longleftrightarrow> x = Some (JArr xs)"
  by (cases x rule: as_arr.cases) auto

lemma as_bool_Some_iff [simp]: "as_bool x = Some b \<longleftrightarrow> x = Some (JBool b)"
  by (cases x rule: as_bool.cases) auto

lemma GetString_as_string [model]: "GetString m k = string_or_empty (as_string (map_of m k))"
  by (auto simp: GetString_def string_or_empty_def split: option.splits json.splits)

lemma GetObject_as_obj [model]: "GetObject m k = as_obj (map_of m k)"
  by (auto simp: GetObject_def split: option.splits json.splits)

lemma GetArray_as_arr [model]: "GetArray m k = as_arr (map_of m k)"
  by (auto simp: GetArray_def split: option.splits json.splits)

lemma map_of_filter_keys: "map_of (filter (\<lambda>(k, v). P k) m) k = (if P k then map_of m k else None)"
  by (induction m) auto

lemma map_of_update [simp]: "map_of (AList.update k v m) = (map_of m)(k \<mapsto> v)"
  by (rule AList.update_conv')

lemma map_of_delete [simp]: "map_of (AList.delete k m) = (map_of m)(k := None)"
  by (rule AList.delete_conv')

lemma decoded_marshalable: "decoded v \<Longrightarrow> marshalable v"
proof (induction v rule: decoded.induct)
  case (1 m)
  then show ?case by (auto simp: list_all_iff)
next
  case (2 xs)
  then show ?case by (auto simp: list_all_iff)
qed auto

lemma Marshal_decoded [simp]: "decoded v \<Longrightarrow> Marshal v = Inr (RawDoc v)"
  by (simp add: Marshal_def decoded_marshalable)

end
