(* ===== verification/Formae_Sdk.thy ===== *)
theory Formae_Sdk
  imports Json
begin

text \<open>
  The data types of the formae plugin SDK (\<^verbatim>\<open>formae/pkg/plugin/resource\<close>), as far as the
  sources of this repository name them: the operations, the statuses and error codes, the
  requests and the results. The SDK is not part of the repository; only its data shapes are
  used here. The literal behind \<^verbatim>\<open>OperationErrorCodeNotSet\<close> is not visible to the sources,
  so it is kept apart from the zero value \<^verbatim>\<open>""\<close>, which is \<open>NoErrorCode\<close>.
\<close>

datatype Operation =
    OperationCreate | OperationRead | OperationUpdate | OperationDelete
  | OperationList | OperationCheckStatus | NoOperation

datatype OperationStatus =
    OperationStatusPending | OperationStatusInProgress
  | OperationStatusSuccess | OperationStatusFailure

datatype OperationErrorCode =
    NoErrorCode
  | NotSet | InvalidRequest | AccessDenied | NotFound | AlreadyExists | ResourceConflict
  | Throttling | ServiceInternalError | ServiceTimeout | NetworkFailure | UnforeseenError
  | NotStabilized | NotUpdatable | InvalidCredentials | GeneralServiceException

record ProgressResult =
  pr_Operation :: Operation
  pr_Status :: OperationStatus
  pr_ErrorCode :: OperationErrorCode
  pr_NativeID :: string
  pr_RequestID :: string
  pr_Message :: string
  pr_Properties :: "raw option"

record ReadResult =
  rr_ResourceType :: string
  rr_ErrorCode :: OperationErrorCode
  rr_Properties :: "raw option"

record ListResult =
  lr_NativeIDs :: "string list"
  lr_NextPageToken :: "string option"

record CreateRequest =
  cr_ResourceType :: string
  cr_TargetConfig :: raw
  cr_Properties :: raw

record ReadRequest =
  rd_NativeID :: string
  rd_ResourceType :: string
  rd_TargetConfig :: raw

record UpdateRequest =
  up_NativeID :: string
  up_ResourceType :: string
  up_TargetConfig :: raw
  up_DesiredProperties :: raw

record DeleteRequest =
  dl_NativeID :: string
  dl_ResourceType :: string
  dl_TargetConfig :: raw

record StatusRequest =
  st_RequestID :: string
  st_NativeID :: string
  st_ResourceType :: string
  st_TargetConfig :: raw

record ListRequest =
  ls_ResourceType :: string
  ls_TargetConfig :: raw
  ls_PageSize :: int
  ls_PageToken :: "string option"
  ls_AdditionalProperties :: "(string \<times> string) list"

text \<open>The zero value of a progress result, for the fields a literal leaves out.\<close>

definition progress :: "Operation \<Rightarrow> OperationStatus \<Rightarrow> ProgressResult" where
  "progress op st =
     \<lparr>pr_Operation = op, pr_Status = st, pr_ErrorCode = NoErrorCode, pr_NativeID = [],
      pr_RequestID = [], pr_Message = [], pr_Properties = None\<rparr>"

definition read_error :: "OperationErrorCode \<Rightarrow> ReadResult" where
  "read_error c = \<lparr>rr_ResourceType = [], rr_ErrorCode = c, rr_Properties = None\<rparr>"

definition read_properties :: "raw \<Rightarrow> ReadResult" where
  "read_properties r = \<lparr>rr_ResourceType = [], rr_ErrorCode = NoErrorCode, rr_Properties = Some r\<rparr>"

lemma progress_sel [simp]:
  "pr_Operation (progress op st) = op"
  "pr_Status (progress op st) = st"
  "pr_ErrorCode (progress op st) = NoErrorCode"
  "pr_NativeID (progress op st) = []"
  "pr_RequestID (progress op st) = []"
  "pr_Message (progress op st) = []"
  "pr_Properties (progress op st) = None"
  by (simp_all add: progress_def)

lemma read_result_sel [simp]:
  "rr_ErrorCode (read_error c) = c"
  "rr_Properties (read_error c) = None"
  "rr_ErrorCode (read_properties r) = NoErrorCode"
  "rr_Properties (read_properties r) = Some r"
  by (simp_all add: read_error_def read_properties_def)

end
