(* ===== verification/Transport_Errors.thy ===== *)
theory Transport_Errors
  imports Formae_Sdk
begin

text \<open>
  Errors: the classification of \<^verbatim>\<open>src/pkg/transport/errors.go\<close>, the mapping of
  \<^verbatim>\<open>src/pkg/transport/mapper.go\<close>, the test of \<^verbatim>\<open>src/pkg/transport/service_disabled.go\<close>
  and the older mapping of \<^verbatim>\<open>src/pkg/status/errors.go\<close>.

  A Go \<^verbatim>\<open>error\<close> is a chain of values linked by \<^verbatim>\<open>Unwrap\<close>. The constructors of
  \<open>goerr\<close> are the concrete types the sources distinguish; every other error is \<open>ErrText\<close>
  or, when it wraps another, \<open>ErrWrap\<close> with the text its \<^verbatim>\<open>Error\<close> method returns. The errors
  of third-party packages carry the text they render as data, because only those packages
  decide it.
\<close>

section \<open>Error values\<close>

datatype ErrorCode =
    ErrorCodeNone
  | ErrorCodeInvalidInput
  | ErrorCodeUnauthorized
  | ErrorCodeResourceNotFound
  | ErrorCodeAlreadyExists
  | ErrorCodeConcurrencyConflict
  | ErrorCodeThrottling
  | ErrorCodeInternalError
  | ErrorCodeTimeout
  | ErrorCodeNetworkFailure
  | ErrorCodeCancelled
  | ErrorCodeNotStabilized
  | ErrorCodeUnknown

fun code_text :: "ErrorCode \<Rightarrow> string" where
  "code_text ErrorCodeNone = ''NONE''"
| "code_text ErrorCodeInvalidInput = ''INVALID_INPUT''"
| "code_text ErrorCodeUnauthorized = ''UNAUTHORIZED''"
| "code_text ErrorCodeResourceNotFound = ''RESOURCE_NOT_FOUND''"
| "code_text ErrorCodeAlreadyExists = ''ALREADY_EXISTS''"
| "code_text ErrorCodeConcurrencyConflict = ''CONCURRENCY_CONFLICT''"
| "code_text ErrorCodeThrottling = ''THROTTLING''"
| "code_text ErrorCodeInternalError = ''INTERNAL_ERROR''"
| "code_text ErrorCodeTimeout = ''TIMEOUT''"
| "code_text ErrorCodeNetworkFailure = ''NETWORK_FAILURE''"
| "code_text ErrorCodeCancelled = ''CANCELLED''"
| "code_text ErrorCodeNotStabilized = ''NOT_STABILIZED''"
| "code_text ErrorCodeUnknown = ''UNKNOWN''"

text \<open>\<^verbatim>\<open>googleapi.Error\<close>: the fields the sources read, the text it renders, and what its
  body decodes to.\<close>

record google_item =
  gi_Reason :: string
  gi_Message :: string

record google_error =
  ge_Code :: int
  ge_Message :: string
  ge_Body :: string
  ge_BodyDoc :: raw
  ge_Details :: "json list"
  ge_Errors :: "google_item list"
  ge_Text :: string

datatype grpc_code =
    GOK | GCanceled | GUnknown | GInvalidArgument | GDeadlineExceeded | GNotFound
  | GAlreadyExists | GPermissionDenied | GResourceExhausted | GFailedPrecondition | GAborted
  | GOutOfRange | GUnimplemented | GInternal | GUnavailable | GDataLoss | GUnauthenticated

text \<open>\<^verbatim>\<open>apierror.APIError\<close>: its HTTP code (\<open>-1\<close> when it has none), its gRPC status if any,
  its text.\<close>

record api_error =
  ae_HTTPCode :: int
  ae_GRPC :: "(grpc_code \<times> string) option"
  ae_Text :: string

datatype goerr =
    ErrText string
  | ErrWrap string goerr
  | ErrTransport ErrorCode string int "goerr option"
  | ErrGoogle google_error
  | ErrApi api_error "goerr option"
  | ErrOp bool string "goerr option"
  | ErrDNS string "goerr option"
  | ErrDeadline string
  | ErrConnRefused string
  | ErrCanceled string

text \<open>The struct behind \<^verbatim>\<open>*transport.Error\<close>.\<close>

record terror =
  te_Code :: ErrorCode
  te_Message :: string
  te_HTTPCode :: int
  te_Underlying :: "goerr option"

definition terror_err :: "terror \<Rightarrow> goerr" where
  "terror_err t = ErrTransport (te_Code t) (te_Message t) (te_HTTPCode t) (te_Underlying t)"

fun err_text :: "goerr \<Rightarrow> string" where
  "err_text (ErrText t) = t"
| "err_text (ErrWrap t _) = t"
| "err_text (ErrTransport c m _ _) = code_text c @ '': '' @ m"
| "err_text (ErrGoogle g) = ge_Text g"
| "err_text (ErrApi a _) = ae_Text a"
| "err_text (ErrOp _ t _) = t"
| "err_text (ErrDNS t _) = t"
| "err_text (ErrDeadline t) = t"
| "err_text (ErrConnRefused t) = t"
| "err_text (ErrCanceled t) = t"

fun Unwrap :: "goerr \<Rightarrow> goerr option" where
  "Unwrap (ErrWrap _ e) = Some e"
| "Unwrap (ErrTransport _ _ _ u) = u"
| "Unwrap (ErrApi _ u) = u"
| "Unwrap (ErrOp _ _ u) = u"
| "Unwrap (ErrDNS _ u) = u"
| "Unwrap _ = None"

text \<open>\<^verbatim>\<open>fmt.Errorf\<close> with one \<^verbatim>\<open>%w\<close> at the end.\<close>

definition errorf_w :: "string \<Rightarrow> goerr \<Rightarrow> goerr" where
  "errorf_w pre e = ErrWrap (pre @ err_text e) e"

text \<open>The values \<^verbatim>\<open>errors.As\<close> and \<^verbatim>\<open>errors.Is\<close> visit.\<close>

fun chain :: "goerr \<Rightarrow> goerr list" where
  "chain (ErrWrap t e) = ErrWrap t e # chain e"
| "chain (ErrTransport c m h u) =
     ErrTransport c m h u # (case u of None \<Rightarrow> [] | Some e \<Rightarrow> chain e)"
| "chain (ErrApi a u) = ErrApi a u # (case u of None \<Rightarrow> [] | Some e \<Rightarrow> chain e)"
| "chain (ErrOp b t u) = ErrOp b t u # (case u of None \<Rightarrow> [] | Some e \<Rightarrow> chain e)"
| "chain (ErrDNS t u) = ErrDNS t u # (case u of None \<Rightarrow> [] | Some e \<Rightarrow> chain e)"
| "chain e = [e]"

fun first_some :: "('a \<Rightarrow> 'b option) \<Rightarrow> 'a list \<Rightarrow> 'b option" where
  "first_some f [] = None"
| "first_some f (x # xs) = (case f x of Some y \<Rightarrow> Some y | None \<Rightarrow> first_some f xs)"

fun is_terror :: "goerr \<Rightarrow> terror option" where
  "is_terror (ErrTransport c m h u) =
     Some \<lparr>te_Code = c, te_Message = m, te_HTTPCode = h, te_Underlying = u\<rparr>"
| "is_terror _ = None"

fun is_google :: "goerr \<Rightarrow> google_error option" where
  "is_google (ErrGoogle g) = Some g"
| "is_google _ = None"

fun is_api :: "goerr \<Rightarrow> api_error option" where
  "is_api (ErrApi a _) = Some a"
| "is_api _ = None"

fun is_op :: "goerr \<Rightarrow> bool option" where
  "is_op (ErrOp timeout _ _) = Some timeout"
| "is_op _ = None"

fun is_dns :: "goerr \<Rightarrow> bool" where
  "is_dns (ErrDNS _ _) = True"
| "is_dns _ = False"

fun is_deadline :: "goerr \<Rightarrow> bool" where
  "is_deadline (ErrDeadline _) = True"
| "is_deadline _ = False"

fun is_refused :: "goerr \<Rightarrow> bool" where
  "is_refused (ErrConnRefused _) = True"
| "is_refused _ = False"

definition as_terror :: "goerr \<Rightarrow> terror option" where
  "as_terror e = first_some is_terror (chain e)"

definition as_google :: "goerr \<Rightarrow> google_error option" where
  "as_google e = first_some is_google (chain e)"

definition as_api :: "goerr \<Rightarrow> api_error option" where
  "as_api e = first_some is_api (chain e)"

section \<open>errors.go\<close>

text \<open>
  \<^verbatim>\<open>containsAny\<close> lowers both strings byte by byte. \<^verbatim>\<open>string(c)\<close> on a byte is the UTF-8
  encoding of that code point, so a byte from 128 on becomes two.
\<close>

definition rune_bytes :: "char \<Rightarrow> string" where
  "rune_bytes c =
     (let n = of_char c :: nat
      in if n < 128 then [c] else [char_of (192 + n div 64), char_of (128 + n mod 64)])"

definition lower_bytes :: "string \<Rightarrow> string" where
  "lower_bytes s = concat (map (\<lambda>c. rune_bytes (lower_char c)) s)"

definition containsAny :: "string \<Rightarrow> string list \<Rightarrow> bool" where
  "containsAny s subs =
     (let sLower = lower_bytes s
      in list_ex (\<lambda>sub. let subLower = lower_bytes sub in
           length subLower \<le> length sLower \<and>
           list_ex (\<lambda>i. take (length subLower) (drop i sLower) = subLower)
             [0..<Suc (length sLower - length subLower)]) subs)"

definition isReauthError :: "goerr option \<Rightarrow> bool" where
  "isReauthError err =
     (case err of None \<Rightarrow> False
      | Some e \<Rightarrow> (let m = err_text e in Contains m ''invalid_rapt'' \<or> Contains m ''reauth related error''))"

definition isAuthError :: "goerr option \<Rightarrow> bool" where
  "isAuthError err =
     (case err of None \<Rightarrow> False
      | Some e \<Rightarrow>
          if isReauthError (Some e) then True
          else containsAny (err_text e)
                 [''oauth2: cannot fetch token'', ''could not find default credentials'',
                  ''google: could not fetch'', ''failed to obtain token'', ''invalid_grant''])"

definition classifyTransportError :: "goerr option \<Rightarrow> ErrorCode option" where
  "classifyTransportError err =
     (case err of None \<Rightarrow> None
      | Some e \<Rightarrow>
          if list_ex is_deadline (chain e) then Some ErrorCodeTimeout
          else case first_some is_op (chain e) of
            Some timeout \<Rightarrow> Some (if timeout then ErrorCodeTimeout else ErrorCodeNetworkFailure)
          | None \<Rightarrow>
              if list_ex is_dns (chain e) then Some ErrorCodeNetworkFailure
              else if list_ex is_refused (chain e) then Some ErrorCodeNetworkFailure
              else None)"

definition classifyBadRequestError :: "google_error \<Rightarrow> ErrorCode" where
  "classifyBadRequestError g =
     (if containsAny (ge_Body g) [''resourceNotReady'', ''not ready'', ''not in ready state'']
      then ErrorCodeNotStabilized else ErrorCodeInvalidInput)"

definition classifyGoogleError :: "google_error \<Rightarrow> ErrorCode" where
  "classifyGoogleError g =
     (let c = ge_Code g in
      if c = 400 then classifyBadRequestError g
      else if c = 401 \<or> c = 403 then ErrorCodeUnauthorized
      else if c = 404 then ErrorCodeResourceNotFound
      else if c = 409 then ErrorCodeAlreadyExists
      else if c = 412 then ErrorCodeConcurrencyConflict
      else if c = 429 then ErrorCodeThrottling
      else if c = 500 \<or> c = 502 \<or> c = 503 then ErrorCodeInternalError
      else ErrorCodeUnknown)"

definition classifyText :: "string \<Rightarrow> ErrorCode" where
  "classifyText m =
     (if containsAny m [''404'', ''not found'', ''does not exist''] then ErrorCodeResourceNotFound
      else if containsAny m [''401'', ''403'', ''unauthorized'', ''permission denied'']
        then ErrorCodeUnauthorized
      else if containsAny m [''409'', ''already exists'', ''conflict''] then ErrorCodeAlreadyExists
      else if containsAny m [''429'', ''rate limit'', ''quota exceeded''] then ErrorCodeThrottling
      else if containsAny m [''500'', ''502'', ''503'', ''internal error''] then ErrorCodeInternalError
      else ErrorCodeUnknown)"

definition ClassifyError :: "goerr option \<Rightarrow> ErrorCode" where
  "ClassifyError err =
     (case err of None \<Rightarrow> ErrorCodeNone
      | Some e \<Rightarrow>
          (case as_terror e of Some te \<Rightarrow> te_Code te
           | None \<Rightarrow>
               if isAuthError (Some e) then ErrorCodeUnauthorized
               else case as_google e of Some g \<Rightarrow> classifyGoogleError g
               | None \<Rightarrow>
                   (case classifyTransportError (Some e) of Some c \<Rightarrow> c
                    | None \<Rightarrow> classifyText (err_text e))))"

definition IsRetryable :: "ErrorCode \<Rightarrow> bool" where
  "IsRetryable c \<longleftrightarrow>
     c = ErrorCodeThrottling \<or> c = ErrorCodeInternalError \<or>
     c = ErrorCodeNotStabilized \<or> c = ErrorCodeConcurrencyConflict"

definition IsRetryableError :: "goerr option \<Rightarrow> bool" where
  "IsRetryableError err =
     (case err of None \<Rightarrow> False
      | Some e \<Rightarrow>
          (case as_terror e of Some te \<Rightarrow> IsRetryable (te_Code te)
           | None \<Rightarrow> IsRetryable (ClassifyError (Some e))))"

text \<open>A value that is not the nil interface: present and not JSON null.\<close>

definition non_nil :: "json option \<Rightarrow> bool" where
  "non_nil x \<longleftrightarrow> x \<noteq> None \<and> x \<noteq> Some JNull"

definition field_violation :: "string \<Rightarrow> json \<Rightarrow> string" where
  "field_violation msg fv =
     (case fv of JObj m \<Rightarrow>
        (let field = map_of m ''field''; desc = map_of m ''description'' in
         if non_nil field \<and> field \<noteq> Some (JStr [])
         then msg @ '' [field '' @ [CHR 0x27] @ show_opt field @ [CHR 0x27] @ '': '' @ show_opt desc @ '']''
         else if non_nil desc then msg @ '' ['' @ show_opt desc @ '']''
         else msg)
      | _ \<Rightarrow> msg)"

definition precondition_violation :: "string \<Rightarrow> json \<Rightarrow> string" where
  "precondition_violation msg v =
     (case v of JObj m \<Rightarrow>
        (let vType = map_of m ''type''; subject = map_of m ''subject''; desc = map_of m ''description'' in
         if non_nil desc then
           (if non_nil subject
            then msg @ '' ['' @ show_opt vType @ '': '' @ show_opt subject @ '' - '' @ show_opt desc @ '']''
            else msg @ '' ['' @ show_opt desc @ '']'')
         else msg)
      | _ \<Rightarrow> msg)"

definition google_detail :: "string \<Rightarrow> json \<Rightarrow> string" where
  "google_detail msg detail =
     (case detail of JObj m \<Rightarrow>
        (let msg1 = (case as_arr (map_of m ''fieldViolations'') of
                       None \<Rightarrow> msg | Some fvs \<Rightarrow> foldl field_violation msg fvs)
         in case as_arr (map_of m ''violations'') of
              None \<Rightarrow> msg1 | Some vs \<Rightarrow> foldl precondition_violation msg1 vs)
      | _ \<Rightarrow> msg)"

definition google_item_text :: "google_error \<Rightarrow> string \<Rightarrow> google_item \<Rightarrow> string" where
  "google_item_text g msg e =
     (let msg1 = (if gi_Message e \<noteq> [] \<and> gi_Message e \<noteq> ge_Message g
                  then msg @ '' - '' @ gi_Message e else msg)
      in if gi_Reason e \<noteq> [] then msg1 @ '' [reason: '' @ gi_Reason e @ '']'' else msg1)"

definition buildGoogleAPIErrorMessage :: "google_error \<Rightarrow> string" where
  "buildGoogleAPIErrorMessage g =
     (let msg0 = (if ge_Message g = [] then ''HTTP '' @ Itoa (ge_Code g) @ '' error'' else ge_Message g);
          msg1 = foldl google_detail msg0 (ge_Details g);
          msg2 = foldl (google_item_text g) msg1 (ge_Errors g)
      in if ge_Body g \<noteq> [] \<and> msg2 = ''Request contains an invalid argument.''
         then (case unmarshal_map (ge_BodyDoc g) of
                 Inr (Some body) \<Rightarrow>
                   (case as_obj (map_of body ''error'') of
                      Some eo \<Rightarrow>
                        (case as_string (map_of eo ''status'') of
                           Some st \<Rightarrow> if st \<noteq> [] then msg2 @ '' [status: '' @ st @ '']'' else msg2
                         | None \<Rightarrow> msg2)
                    | None \<Rightarrow> msg2)
               | _ \<Rightarrow> msg2)
         else msg2)"

definition extractCleanMessage :: "goerr option \<Rightarrow> string" where
  "extractCleanMessage err =
     (case err of None \<Rightarrow> []
      | Some e \<Rightarrow>
          (case as_google e of Some g \<Rightarrow> buildGoogleAPIErrorMessage g
           | None \<Rightarrow>
               (case first_some as_google (chain e) of
                  Some g \<Rightarrow> buildGoogleAPIErrorMessage g
                | None \<Rightarrow> [])))"

definition WrapError :: "goerr option \<Rightarrow> string \<Rightarrow> terror option" where
  "WrapError err context =
     (case err of None \<Rightarrow> None
      | Some e \<Rightarrow>
          (case as_terror e of
             Some te \<Rightarrow> Some \<lparr>te_Code = te_Code te, te_Message = context,
                              te_HTTPCode = te_HTTPCode te, te_Underlying = te_Underlying te\<rparr>
           | None \<Rightarrow>
               (let cleanMsg = extractCleanMessage (Some e) in
                Some \<lparr>te_Code = ClassifyError (Some e),
                      te_Message = (if cleanMsg \<noteq> [] then context @ '': '' @ cleanMsg else context),
                      te_HTTPCode = (case as_google e of Some g \<Rightarrow> ge_Code g | None \<Rightarrow> 0),
                      te_Underlying = Some e\<rparr>)))"

text \<open>The call sites wrap an error they have, so the result is never nil.\<close>

definition wrap_err :: "goerr \<Rightarrow> string \<Rightarrow> terror" where
  "wrap_err e context = the (WrapError (Some e) context)"

section \<open>service\_disabled.go\<close>

definition IsServiceDisabled :: "goerr option \<Rightarrow> bool" where
  "IsServiceDisabled err =
     (case err of None \<Rightarrow> False
      | Some e \<Rightarrow>
          (case as_google e of None \<Rightarrow> False
           | Some g \<Rightarrow>
               if ge_Code g \<noteq> 403 then False
               else list_ex (\<lambda>d. case d of
                               JObj m \<Rightarrow> as_string (map_of m ''reason'') = Some ''SERVICE_DISABLED''
                             | _ \<Rightarrow> False) (ge_Details g)
                  \<or> list_ex (\<lambda>i. gi_Reason i = ''accessNotConfigured'') (ge_Errors g)))"

section \<open>mapper.go\<close>

fun ToResourceErrorCode :: "ErrorCode \<Rightarrow> OperationErrorCode" where
  "ToResourceErrorCode ErrorCodeNone = NotSet"
| "ToResourceErrorCode ErrorCodeInvalidInput = InvalidRequest"
| "ToResourceErrorCode ErrorCodeUnauthorized = AccessDenied"
| "ToResourceErrorCode ErrorCodeResourceNotFound = NotFound"
| "ToResourceErrorCode ErrorCodeAlreadyExists = AlreadyExists"
| "ToResourceErrorCode ErrorCodeConcurrencyConflict = ResourceConflict"
| "ToResourceErrorCode ErrorCodeThrottling = Throttling"
| "ToResourceErrorCode ErrorCodeInternalError = ServiceInternalError"
| "ToResourceErrorCode ErrorCodeTimeout = ServiceTimeout"
| "ToResourceErrorCode ErrorCodeNetworkFailure = NetworkFailure"
| "ToResourceErrorCode ErrorCodeCancelled = UnforeseenError"
| "ToResourceErrorCode ErrorCodeNotStabilized = NotStabilized"
| "ToResourceErrorCode ErrorCodeUnknown = UnforeseenError"

fun FromResourceErrorCode :: "OperationErrorCode \<Rightarrow> ErrorCode" where
  "FromResourceErrorCode NotSet = ErrorCodeNone"
| "FromResourceErrorCode InvalidRequest = ErrorCodeInvalidInput"
| "FromResourceErrorCode AccessDenied = ErrorCodeUnauthorized"
| "FromResourceErrorCode NotFound = ErrorCodeResourceNotFound"
| "FromResourceErrorCode AlreadyExists = ErrorCodeAlreadyExists"
| "FromResourceErrorCode ResourceConflict = ErrorCodeConcurrencyConflict"
| "FromResourceErrorCode Throttling = ErrorCodeThrottling"
| "FromResourceErrorCode ServiceInternalError = ErrorCodeInternalError"
| "FromResourceErrorCode ServiceTimeout = ErrorCodeTimeout"
| "FromResourceErrorCode NetworkFailure = ErrorCodeNetworkFailure"
| "FromResourceErrorCode NotStabilized = ErrorCodeNotStabilized"
| "FromResourceErrorCode UnforeseenError = ErrorCodeUnknown"
| "FromResourceErrorCode _ = ErrorCodeUnknown"

datatype TransportStatus = TStatusPending | TStatusInProgress | TStatusSuccess | TStatusFailure

fun ToResourceOperationStatus :: "TransportStatus \<Rightarrow> OperationStatus" where
  "ToResourceOperationStatus TStatusPending = OperationStatusPending"
| "ToResourceOperationStatus TStatusInProgress = OperationStatusInProgress"
| "ToResourceOperationStatus TStatusSuccess = OperationStatusSuccess"
| "ToResourceOperationStatus TStatusFailure = OperationStatusFailure"

record OperationResult =
  or_Status :: TransportStatus
  or_Error :: ErrorCode
  or_Message :: string

definition ToResourceProgressResult :: "OperationResult option \<Rightarrow> Operation \<Rightarrow> ProgressResult" where
  "ToResourceProgressResult result op =
     (case result of
        None \<Rightarrow> (progress op OperationStatusFailure)
                  \<lparr>pr_ErrorCode := UnforeseenError, pr_Message := ''nil operation result''\<rparr>
      | Some r \<Rightarrow> (progress op (ToResourceOperationStatus (or_Status r)))
                  \<lparr>pr_ErrorCode := ToResourceErrorCode (or_Error r), pr_Message := or_Message r\<rparr>)"

section \<open>status/errors.go\<close>

definition mapHTTPStatusCode :: "int \<Rightarrow> string \<Rightarrow> OperationErrorCode" where
  "mapHTTPStatusCode code message =
     (if code = 400 then
        (if Contains message ''invalid'' then InvalidRequest
         else if Contains message ''already exists'' then AlreadyExists
         else InvalidRequest)
      else if code = 401 then InvalidCredentials
      else if code = 403 then AccessDenied
      else if code = 404 then NotFound
      else if code = 409 then
        (if Contains message ''already exists'' then AlreadyExists else ResourceConflict)
      else if code = 429 then Throttling
      else if code = 500 \<or> code = 502 \<or> code = 503 \<or> code = 504 then ServiceInternalError
      else UnforeseenError)"

fun mapGRPCStatusCode :: "grpc_code \<Rightarrow> string \<Rightarrow> OperationErrorCode" where
  "mapGRPCStatusCode GOK _ = NotSet"
| "mapGRPCStatusCode GCanceled _ = ServiceInternalError"
| "mapGRPCStatusCode GUnknown _ = UnforeseenError"
| "mapGRPCStatusCode GInvalidArgument m =
     (if Contains m ''already exists'' then AlreadyExists else InvalidRequest)"
| "mapGRPCStatusCode GDeadlineExceeded _ = ServiceInternalError"
| "mapGRPCStatusCode GNotFound _ = NotFound"
| "mapGRPCStatusCode GAlreadyExists _ = AlreadyExists"
| "mapGRPCStatusCode GPermissionDenied _ = AccessDenied"
| "mapGRPCStatusCode GResourceExhausted _ = Throttling"
| "mapGRPCStatusCode GFailedPrecondition m =
     (if Contains m ''not found'' then NotFound else InvalidRequest)"
| "mapGRPCStatusCode GAborted _ = ResourceConflict"
| "mapGRPCStatusCode GOutOfRange _ = InvalidRequest"
| "mapGRPCStatusCode GUnimplemented _ = ServiceInternalError"
| "mapGRPCStatusCode GInternal _ = ServiceInternalError"
| "mapGRPCStatusCode GUnavailable _ = ServiceInternalError"
| "mapGRPCStatusCode GDataLoss _ = ServiceInternalError"
| "mapGRPCStatusCode GUnauthenticated _ = InvalidCredentials"

definition mapGoogleAPIError :: "google_error \<Rightarrow> OperationErrorCode" where
  "mapGoogleAPIError g = mapHTTPStatusCode (ge_Code g) (ToLower (ge_Message g))"

definition mapGoogleOrDefault :: "goerr \<Rightarrow> OperationErrorCode" where
  "mapGoogleOrDefault e =
     (case as_google e of Some g \<Rightarrow> mapGoogleAPIError g | None \<Rightarrow> UnforeseenError)"

definition MapGCPError :: "goerr option \<Rightarrow> OperationErrorCode" where
  "MapGCPError err =
     (case err of None \<Rightarrow> NotSet
      | Some e \<Rightarrow>
          (case as_api e of
             Some a \<Rightarrow>
               if 0 < ae_HTTPCode a then mapHTTPStatusCode (ae_HTTPCode a) (ToLower (ae_Text a))
               else (case ae_GRPC a of
                       Some (c, m) \<Rightarrow> mapGRPCStatusCode c (ToLower m)
                     | None \<Rightarrow> mapGoogleOrDefault e)
           | None \<Rightarrow> mapGoogleOrDefault e))"


section \<open>Facts on error chains\<close>

lemma first_some_append: "first_some f (xs @ ys) = (case first_some f xs of Some y \<Rightarrow> Some y | None \<Rightarrow> first_some f ys)"
  by (induction xs) (auto split: option.splits)

lemma first_some_None_iff: "first_some f xs = None \<longleftrightarrow> (\<forall>x \<in> set xs. f x = None)"
  by (induction xs) (auto split: option.splits)

lemma chain_unfold: "chain e = e # (case Unwrap e of None \<Rightarrow> [] | Some u \<Rightarrow> chain u)"
  by (cases e) auto

lemma chain_nonempty [simp]: "chain e \<noteq> []"
  by (subst chain_unfold) simp

lemma as_simps [simp]:
  "as_terror (ErrTransport c m h u) =
     Some \<lparr>te_Code = c, te_Message = m, te_HTTPCode = h, te_Underlying = u\<rparr>"
  "as_terror (ErrWrap t e) = as_terror e"
  "as_terror (ErrGoogle g) = None"
  "as_terror (ErrText t) = None"
  "as_google (ErrWrap t e) = as_google e"
  "as_google (ErrGoogle g) = Some g"
  "as_google (ErrText t) = None"
  by (simp_all add: as_terror_def as_google_def)

lemma as_terror_errorf [simp]: "as_terror (errorf_w p e) = as_terror e"
  by (simp add: errorf_w_def)

lemma as_google_errorf [simp]: "as_google (errorf_w p e) = as_google e"
  by (simp add: errorf_w_def)

lemma as_terror_terror_err [simp]: "as_terror (terror_err t) = Some t"
  by (simp add: terror_err_def)

text \<open>The unwrapping loop of \<open>extractCleanMessage\<close> finds nothing that the first look did not.\<close>

lemma chain_tails_google: "as_google e = None \<Longrightarrow> x \<in> set (chain e) \<Longrightarrow> as_google x = None"
proof (induction e rule: chain.induct)
  case (1 t e)
  then show ?case by (auto simp: as_google_def)
qed (auto simp: as_google_def split: option.splits)

lemma extractCleanMessage_eq [model]:
  "extractCleanMessage (Some e) =
     (case as_google e of Some g \<Rightarrow> buildGoogleAPIErrorMessage g | None \<Rightarrow> [])"
proof (cases "as_google e")
  case None
  then have "first_some as_google (chain e) = None"
    by (auto simp: first_some_None_iff dest: chain_tails_google)
  with None show ?thesis by (simp add: extractCleanMessage_def)
next
  case (Some g)
  then show ?thesis by (simp add: extractCleanMessage_def)
qed

lemma wrap_err_code [simp]: "te_Code (wrap_err e ctx) = ClassifyError (Some e)"
  by (auto simp: wrap_err_def WrapError_def ClassifyError_def Let_def split: option.splits)

lemma WrapError_Some: "WrapError (Some e) ctx = Some (wrap_err e ctx)"
  by (auto simp: wrap_err_def WrapError_def Let_def split: option.splits)

lemma ClassifyError_terror: "as_terror e = Some t \<Longrightarrow> ClassifyError (Some e) = te_Code t"
  by (simp add: ClassifyError_def)

section \<open>Facts on lower-casing and substring search\<close>

definition ascii :: "string \<Rightarrow> bool" where
  "ascii s \<longleftrightarrow> list_all (\<lambda>c. (of_char c :: nat) < 128) s"

lemma lower_char_ascii: "(of_char c :: nat) < 128 \<Longrightarrow> (of_char (lower_char c) :: nat) < 128"
  by (auto simp: lower_char_def less_eq_char_def)

lemma ascii_ToLower: "ascii s \<Longrightarrow> ascii (ToLower s)"
  by (auto simp: ascii_def ToLower_def list_all_iff lower_char_ascii)

lemma rune_bytes_ascii: "(of_char c :: nat) < 128 \<Longrightarrow> rune_bytes c = [c]"
  by (simp add: rune_bytes_def)

lemma rune_bytes_high:
  assumes "128 \<le> (of_char c :: nat)"
  obtains x y where "rune_bytes c = [x, y]" "128 \<le> (of_char x :: nat)" "128 \<le> (of_char y :: nat)"
proof -
  have "(of_char c :: nat) < 256" by (rule nat_of_char_less_256)
  then have "192 + (of_char c :: nat) div 64 < 256" by linarith
  moreover have "128 + (of_char c :: nat) mod 64 < 256"
    using mod_less_divisor [of 64 "of_char c"] by linarith
  ultimately show ?thesis
    using assms by (intro that [of "char_of (192 + (of_char c :: nat) div 64)"
        "char_of (128 + (of_char c :: nat) mod 64)"])
      (simp_all add: rune_bytes_def Let_def of_char_of)
qed

lemma lower_bytes_ToLower: "lower_bytes s = concat (map rune_bytes (ToLower s))"
  by (simp add: lower_bytes_def ToLower_def comp_def)

lemma concat_rune_bytes_ascii: "ascii u \<Longrightarrow> concat (map rune_bytes u) = u"
  by (induction u) (auto simp: ascii_def rune_bytes_ascii)

lemma prefix_rune_bytes: "ascii u \<Longrightarrow> prefix u (concat (map rune_bytes w)) \<Longrightarrow> prefix u w"
proof (induction w arbitrary: u)
  case Nil
  then show ?case by simp
next
  case (Cons c w)
  show ?case
  proof (cases u)
    case Nil
    then show ?thesis by simp
  next
    case u: (Cons d u')
    show ?thesis
    proof (cases "(of_char c :: nat) < 128")
      case True
      with Cons.prems u have "d = c" "ascii u'" "prefix u' (concat (map rune_bytes w))"
        by (auto simp: rune_bytes_ascii ascii_def)
      with Cons.IH u show ?thesis by simp
    next
      case False
      then have hi: "128 \<le> (of_char c :: nat)" by simp
      obtain x y where "rune_bytes c = [x, y]" "128 \<le> (of_char x :: nat)"
        using hi by (rule rune_bytes_high)
      with Cons.prems u show ?thesis by (auto simp: ascii_def)
    qed
  qed
qed

lemma sublist_rune_bytes:
  assumes u: "ascii u"
  shows "sublist u (concat (map rune_bytes w)) \<longleftrightarrow> sublist u w"
proof
  assume "sublist u w"
  then obtain a b where "w = a @ u @ b" by (auto simp: sublist_def)
  then have "concat (map rune_bytes w)
      = concat (map rune_bytes a) @ u @ concat (map rune_bytes b)"
    using concat_rune_bytes_ascii [OF u] by simp
  then show "sublist u (concat (map rune_bytes w))" by (auto simp: sublist_def)
next
  show "sublist u (concat (map rune_bytes w)) \<Longrightarrow> sublist u w"
  proof (induction w)
    case Nil
    then show ?case by simp
  next
    case (Cons c w)
    show ?case
    proof (cases "(of_char c :: nat) < 128")
      case True
      then have "prefix u (concat (map rune_bytes (c # w))) \<or> sublist u (concat (map rune_bytes w))"
        using Cons.prems by (auto simp: rune_bytes_ascii sublist_Cons_right)
      with prefix_rune_bytes [OF u, of "c # w"] Cons.IH show ?thesis
        by (auto simp: sublist_Cons_right)
    next
      case False
      then have hi: "128 \<le> (of_char c :: nat)" by simp
      obtain x y where "rune_bytes c = [x, y]" "128 \<le> (of_char x :: nat)" "128 \<le> (of_char y :: nat)"
        using hi by (rule rune_bytes_high)
      with Cons.prems u have "u = [] \<or> sublist u (concat (map rune_bytes w))"
        by (cases u) (auto simp: ascii_def sublist_Cons_right)
      with Cons.IH show ?thesis by (auto simp: sublist_Cons_right)
    qed
  qed
qed

lemma window_sublist:
  "(length u \<le> length v \<and>
    list_ex (\<lambda>i. take (length u) (drop i v) = u) [0..<Suc (length v - length u)]) \<longleftrightarrow> sublist u v"
proof
  assume "length u \<le> length v \<and>
    list_ex (\<lambda>i. take (length u) (drop i v) = u) [0..<Suc (length v - length u)]"
  then obtain i where "take (length u) (drop i v) = u" unfolding list_ex_iff by blast
  then have "v = take i v @ u @ drop (length u) (drop i v)"
    by (metis append_take_drop_id)
  then show "sublist u v" by (metis sublist_def)
next
  assume "sublist u v"
  then obtain a b where v: "v = a @ u @ b" by (auto simp: sublist_def)
  then have "take (length u) (drop (length a) v) = u" by simp
  moreover from v have "length a \<in> set [0..<Suc (length v - length u)]" by simp
  ultimately show "length u \<le> length v \<and>
    list_ex (\<lambda>i. take (length u) (drop i v) = u) [0..<Suc (length v - length u)]"
    using v by (auto simp only: list_ex_iff length_append)
qed

lemma containsAny_sublist:
  "containsAny s subs \<longleftrightarrow> (\<exists>sub \<in> set subs. sublist (lower_bytes sub) (lower_bytes s))"
  unfolding containsAny_def Let_def window_sublist by (simp add: list_ex_iff)

lemma containsAny_ascii:
  "list_all ascii subs \<Longrightarrow>
     containsAny s subs \<longleftrightarrow> (\<exists>sub \<in> set subs. Contains (ToLower s) (ToLower sub))"
  by (auto simp: containsAny_sublist lower_bytes_ToLower Contains_iff_sublist list_all_iff
      ascii_ToLower concat_rune_bytes_ascii sublist_rune_bytes)

section \<open>Properties of the classification\<close>

lemma wrap_err_terror:
  "wrap_err (terror_err t) ctx = t\<lparr>te_Message := ctx\<rparr>"
  by (simp add: wrap_err_def WrapError_def)

text \<open>
  Wrapping is stable. Whatever an error \<open>e\<close> was classified as, the transport error made of
  it, wrapped in any further context with \<open>%w\<close> and wrapped as a transport error again, is
  classified the same, keeps the HTTP code and the underlying error, and its retryability agrees.
\<close>
lemma wrapping_keeps_class:
  "ClassifyError (Some (errorf_w pre (terror_err (wrap_err e ctx)))) = ClassifyError (Some e)
   \<and> te_Code (wrap_err (errorf_w pre (terror_err (wrap_err e ctx))) ctx') = ClassifyError (Some e)
   \<and> te_HTTPCode (wrap_err (errorf_w pre (terror_err (wrap_err e ctx))) ctx') = te_HTTPCode (wrap_err e ctx)
   \<and> te_Underlying (wrap_err (errorf_w pre (terror_err (wrap_err e ctx))) ctx') = te_Underlying (wrap_err e ctx)
   \<and> IsRetryableError (Some (errorf_w pre (terror_err (wrap_err e ctx)))) = IsRetryable (ClassifyError (Some e))"
proof -
  have *: "as_terror (errorf_w pre (terror_err (wrap_err e ctx))) = Some (wrap_err e ctx)" by simp
  then have w: "wrap_err (errorf_w pre (terror_err (wrap_err e ctx))) ctx'
      = (wrap_err e ctx)\<lparr>te_Message := ctx'\<rparr>"
    by (simp add: wrap_err_def [of "errorf_w pre _"] WrapError_def)
  show ?thesis
    using ClassifyError_terror [OF *] * w by (simp add: IsRetryableError_def)
qed

lemma classifyGoogleError_answered:
  "classifyGoogleError g \<notin> {ErrorCodeNetworkFailure, ErrorCodeTimeout}"
  by (simp add: classifyGoogleError_def classifyBadRequestError_def Let_def)

lemma classifyText_answered: "classifyText m \<notin> {ErrorCodeNetworkFailure, ErrorCodeTimeout}"
  by (simp add: classifyText_def)

lemma classifyTransportError_codes:
  "classifyTransportError (Some e) = Some c \<Longrightarrow> c \<in> {ErrorCodeNetworkFailure, ErrorCodeTimeout}"
  by (auto simp: classifyTransportError_def split: if_splits option.splits)

text \<open>
  The unreachable signal is exact. A raw error is classified as a network failure or a timeout
  if and only if it is no credential failure, carries no HTTP answer from the API, and its chain
  holds a transport-level failure (an expired deadline, a failed connection or lookup, a refused
  connection). So an answer of the API, of whatever status, and a credential failure are never
  taken for an unreachable API.
\<close>
lemma unreachable_exact:
  assumes "as_terror e = None"
  shows "ClassifyError (Some e) \<in> {ErrorCodeNetworkFailure, ErrorCodeTimeout} \<longleftrightarrow>
           \<not> isAuthError (Some e) \<and> as_google e = None \<and>
           (list_ex is_deadline (chain e) \<or> first_some is_op (chain e) \<noteq> None \<or>
            list_ex is_dns (chain e) \<or> list_ex is_refused (chain e))"
proof -
  have t: "classifyTransportError (Some e) \<noteq> None \<longleftrightarrow>
      list_ex is_deadline (chain e) \<or> first_some is_op (chain e) \<noteq> None \<or>
      list_ex is_dns (chain e) \<or> list_ex is_refused (chain e)"
    by (auto simp: classifyTransportError_def split: option.splits)
  show ?thesis
    unfolding t [symmetric] using assms classifyGoogleError_answered classifyText_answered
      classifyTransportError_codes [of e]
    by (auto simp: ClassifyError_def split: option.splits)
qed

text \<open>
  The two mappings between transport codes and SDK codes are inverse to each other, except that
  a cancellation is reported as the unforeseen error, which reads back as unknown.
\<close>
lemma error_code_roundtrip:
  "FromResourceErrorCode (ToResourceErrorCode c) =
     (if c = ErrorCodeCancelled then ErrorCodeUnknown else c)"
  by (cases c) simp_all

text \<open>
  A disabled API is always an authorization failure to the classifier, so whoever wants to tell
  the two apart has to ask \<open>IsServiceDisabled\<close> first.
\<close>
lemma service_disabled_unauthorized:
  assumes "IsServiceDisabled (Some e)" and "as_terror e = None"
  shows "ClassifyError (Some e) = ErrorCodeUnauthorized"
  using assms by (auto simp: IsServiceDisabled_def ClassifyError_def classifyGoogleError_def Let_def
      split: option.splits if_splits)

definition disabled_example :: goerr where
  "disabled_example =
     ErrGoogle \<lparr>ge_Code = 403, ge_Message = [], ge_Body = [], ge_BodyDoc = RawNil, ge_Details = [],
       ge_Errors = [\<lparr>gi_Reason = ''accessNotConfigured'', gi_Message = []\<rparr>], ge_Text = []\<rparr>"

text \<open>
  The hand-written search of \<open>containsAny\<close> decides case-insensitive containment: for ASCII
  patterns it answers as \<^verbatim>\<open>strings.Contains\<close> on the lower-cased strings does.
\<close>
lemma containsAny_spec:
  assumes "list_all ascii subs"
  shows "containsAny s subs \<longleftrightarrow> (\<exists>sub \<in> set subs. Contains (ToLower s) (ToLower sub))"
  using assms by (rule containsAny_ascii)

end
