(* ===== verification/Config.thy ===== *)
theory Config
  imports Transport_Errors "HOL-Library.Multiset"
begin

text \<open>
  Target configuration and credentials: \<^verbatim>\<open>src/pkg/config/config.go\<close> and
  \<^verbatim>\<open>src/pkg/config/oidc.go\<close>.

  The credential libraries (\<^verbatim>\<open>credentials.DetectDefault\<close>, \<^verbatim>\<open>gcpname.Parse\<close>, the token
  exchange, the HTTP transport) are not part of the repository: they are the fields of the
  record \<open>env\<close>, an argument of every definition that calls them. The state is a record
  \<open>machine\<close>: the outside world, of any type, the credential cache the plugin instance owns, and
  the lines logged so far. Times are integers, in nanoseconds.
\<close>

section \<open>State and environment\<close>

text \<open>\<^verbatim>\<open>credEntry\<close>, \<^verbatim>\<open>oauth2.Token\<close> (a zero expiry is \<^const>\<open>None\<close>), and the parts of a
  parsed provider name the code reads.\<close>

datatype credEntry = CredEntry (accessToken: string) (expiry: int)

record Token =
  tok_AccessToken :: string
  tok_Expiry :: "int option"

record provider_name =
  pn_String :: string
  pn_ProjectNumber :: string
  pn_Pool :: string
  pn_Provider :: string

record exchange_config =
  xc_Scopes :: "string list"
  xc_ProjectNumber :: string
  xc_PoolID :: string
  xc_ProviderID :: string

datatype cred_source = CredentialsJSON string | CredentialsFile string | ApplicationDefault

datatype req_body = NoBody | JsonBody raw | RawBytes string

record http_request =
  hq_Method :: string
  hq_URL :: string
  hq_Headers :: "(string \<times> string) list"
  hq_Body :: req_body

record http_response =
  hr_StatusCode :: int
  hr_Headers :: "(string \<times> string) list"
  hr_Body :: raw

text \<open>\<^verbatim>\<open>OidcDeps\<close>: whether a token source is wired. Its cache is in the machine.\<close>

record OidcDeps =
  od_Source :: bool

datatype client_option =
    WithAuthCredentials string
  | WithTokenSource json "string list"

text \<open>
  The third-party code the program calls, and the runtime: the clock, the context's error,
  \<^verbatim>\<open>time.Sleep\<close>, and the wait for either a timer or the context's end (\<^const>\<open>Some\<close> is the
  context's error, when that came first).
\<close>

record 'w env =
  env_getenv :: "string \<Rightarrow> string"
  env_detect :: "string list \<Rightarrow> cred_source \<Rightarrow> goerr + string"
  env_parse_provider :: "string \<Rightarrow> goerr + provider_name"
  env_exchange :: "'w \<Rightarrow> exchange_config \<Rightarrow> (goerr + Token) \<times> 'w"
  env_clock :: "'w \<Rightarrow> int"
  env_ctx_err :: "'w \<Rightarrow> goerr option"
  env_sleep :: "'w \<Rightarrow> int \<Rightarrow> 'w"
  env_select_after :: "'w \<Rightarrow> int \<Rightarrow> goerr option \<times> 'w"
  env_http_new :: "client_option list \<Rightarrow> goerr option"
  env_http_do :: "'w \<Rightarrow> http_request \<Rightarrow> (goerr + http_response) \<times> 'w"
  env_check_response :: "http_response \<Rightarrow> goerr option"

text \<open>A line of the log: its level, its message and its attributes.\<close>

type_synonym log_line = "string \<times> string \<times> (string \<times> string) list"

record 'w machine =
  m_world :: 'w
  m_creds :: "string \<rightharpoonup> credEntry"
  m_log :: "log_line list"

definition log_add :: "log_line \<Rightarrow> 'w machine \<Rightarrow> 'w machine" where
  "log_add l s = s\<lparr>m_log := m_log s @ [l]\<rparr>"

section \<open>Decoding a struct\<close>

text \<open>
  \<^verbatim>\<open>encoding/json\<close> assigns each member of an object to the field whose name it equals up to
  case, in document order; \<^verbatim>\<open>null\<close> leaves a string field alone and a member of the wrong
  type leaves it alone too and makes the whole call report an error.
\<close>

definition field_match :: "string \<Rightarrow> string \<Rightarrow> bool" where
  "field_match name key \<longleftrightarrow> ToLower key = ToLower name"

fun set_string :: "json \<Rightarrow> string \<Rightarrow> string" where
  "set_string (JStr s) old = s"
| "set_string _ old = old"

fun scope_elem :: "json \<Rightarrow> string" where
  "scope_elem (JStr s) = s"
| "scope_elem _ = []"

fun set_scopes :: "json \<Rightarrow> string list \<Rightarrow> string list" where
  "set_scopes (JArr xs) old = map scope_elem xs"
| "set_scopes JNull old = []"
| "set_scopes _ old = old"

record Config =
  c_Project :: string
  c_Region :: string
  c_Zone :: string
  c_Location :: string
  c_Scopes :: "string list"
  c_Auth :: "json option"
  c_deps :: "OidcDeps option"

definition zero_config :: Config where
  "zero_config = \<lparr>c_Project = [], c_Region = [], c_Zone = [], c_Location = [], c_Scopes = [],
     c_Auth = None, c_deps = None\<rparr>"

definition decode_member :: "Config \<Rightarrow> string \<times> json \<Rightarrow> Config" where
  "decode_member c kv =
     (case kv of (k, v) \<Rightarrow>
        if field_match ''Project'' k then c\<lparr>c_Project := set_string v (c_Project c)\<rparr>
        else if field_match ''Region'' k then c\<lparr>c_Region := set_string v (c_Region c)\<rparr>
        else if field_match ''Zone'' k then c\<lparr>c_Zone := set_string v (c_Zone c)\<rparr>
        else if field_match ''Location'' k then c\<lparr>c_Location := set_string v (c_Location c)\<rparr>
        else if field_match ''Scopes'' k then c\<lparr>c_Scopes := set_scopes v (c_Scopes c)\<rparr>
        else if field_match ''Auth'' k then c\<lparr>c_Auth := Some v\<rparr>
        else c)"

text \<open>\<^verbatim>\<open>_ = json.Unmarshal(targetConfig, config)\<close>: errors are dropped, and what was decoded
  before them stays.\<close>

fun decode_config :: "raw \<Rightarrow> Config" where
  "decode_config (RawDoc (JObj m)) = foldl decode_member zero_config m"
| "decode_config _ = zero_config"

text \<open>
  A struct with one string field: the first error the decoder met, if any, and the value.
\<close>

definition field_error :: "string \<Rightarrow> string \<Rightarrow> json \<Rightarrow> string option" where
  "field_error struct name v =
     (case v of JStr _ \<Rightarrow> None | JNull \<Rightarrow> None
      | _ \<Rightarrow> Some (''json: cannot unmarshal '' @ json_kind v @ '' into Go struct field ''
                   @ struct @ ''.'' @ name @ '' of type string''))"

definition decode_field_step ::
    "string \<Rightarrow> string \<Rightarrow> string option \<times> string \<Rightarrow> string \<times> json \<Rightarrow> string option \<times> string" where
  "decode_field_step struct name acc kv =
     (case (acc, kv) of ((err, old), (k, v)) \<Rightarrow>
        if field_match name k
        then (case err of None \<Rightarrow> field_error struct name v | Some e \<Rightarrow> Some e, set_string v old)
        else (err, old))"

definition decode_string_field :: "string \<Rightarrow> string \<Rightarrow> json \<Rightarrow> string option \<times> string" where
  "decode_string_field struct name doc =
     (case doc of
        JObj m \<Rightarrow> foldl (decode_field_step struct name) (None, []) m
      | JNull \<Rightarrow> (None, [])
      | _ \<Rightarrow> (Some (''json: cannot unmarshal '' @ json_kind doc @ '' into Go value of type config.'' @ struct), []))"

text \<open>\<^verbatim>\<open>%q\<close> of a string of printable characters without quotes or backslashes.\<close>

definition quoted :: "string \<Rightarrow> string" where
  "quoted s = [CHR 0x22] @ s @ [CHR 0x22]"

section \<open>config.go\<close>

definition Deps :: "Config option \<Rightarrow> OidcDeps option" where
  "Deps c = (case c of None \<Rightarrow> None | Some cfg \<Rightarrow> c_deps cfg)"

definition WithOidcDeps :: "Config \<Rightarrow> OidcDeps option \<Rightarrow> Config" where
  "WithOidcDeps c d = c\<lparr>c_deps := d\<rparr>"

record TargetPath =
  tp_Project :: string
  tp_Region :: string
  tp_Zone :: string
  tp_Location :: string

definition PathFromTargetConfig :: "raw \<Rightarrow> TargetPath" where
  "PathFromTargetConfig targetConfig =
     (if targetConfig = RawNil
      then \<lparr>tp_Project = [], tp_Region = [], tp_Zone = [], tp_Location = []\<rparr>
      else let c = decode_config targetConfig
           in \<lparr>tp_Project = c_Project c, tp_Region = c_Region c, tp_Zone = c_Zone c,
               tp_Location = c_Location c\<rparr>)"

definition FromTargetConfig :: "raw \<Rightarrow> OidcDeps option \<Rightarrow> Config" where
  "FromTargetConfig targetConfig deps =
     (if targetConfig = RawNil then zero_config\<lparr>c_deps := deps\<rparr>
      else (decode_config targetConfig)\<lparr>c_deps := deps\<rparr>)"

text \<open>\<^verbatim>\<open>FromTarget\<close>: a nil target, or one without a configuration, is \<^const>\<open>None\<close>.\<close>

definition FromTarget :: "raw option \<Rightarrow> OidcDeps option \<Rightarrow> Config" where
  "FromTarget target deps =
     (case target of None \<Rightarrow> zero_config\<lparr>c_deps := deps\<rparr> | Some tc \<Rightarrow> FromTargetConfig tc deps)"

definition AuthTypeOidc :: string where "AuthTypeOidc = ''Oidc''"

text \<open>\<^const>\<open>None\<close> is the absent block, \<open>("", nil, nil)\<close> in the source.\<close>

definition effectiveAuth :: "Config \<Rightarrow> goerr + (string \<times> json) option" where
  "effectiveAuth c =
     (case c_Auth c of
        None \<Rightarrow> Inr None
      | Some doc \<Rightarrow>
          if doc = JNull then Inr None
          else case decode_string_field ''authDiscriminator'' ''Type'' doc of
            (Some e, ty) \<Rightarrow> Inl (errorf_w ''config: malformed Auth block: '' (ErrText e))
          | (None, ty) \<Rightarrow>
              if ty = [] then Inl (ErrText ''config: Auth block is missing its Type discriminator'')
              else if ty \<noteq> AuthTypeOidc then Inl (ErrText (''config: unknown Auth type '' @ quoted ty))
              else Inr (Some (ty, doc)))"

definition default_scopes :: "string list" where
  "default_scopes =
     [''https://www.googleapis.com/auth/cloud-platform'',
      ''https://www.googleapis.com/auth/compute'',
      ''https://www.googleapis.com/auth/devstorage.full_control'']"

section \<open>The cache: sync.Map and oidc.go\<close>

text \<open>The three operations of \<^verbatim>\<open>sync.Map\<close> the cache uses, each atomic.\<close>

definition map_Load :: "('k \<rightharpoonup> 'v) \<Rightarrow> 'k \<Rightarrow> 'v option" where
  "map_Load m k = m k"

definition map_LoadOrStore :: "('k \<rightharpoonup> 'v) \<Rightarrow> 'k \<Rightarrow> 'v \<Rightarrow> ('v \<times> bool) \<times> ('k \<rightharpoonup> 'v)" where
  "map_LoadOrStore m k v =
     (case m k of Some old \<Rightarrow> ((old, True), m) | None \<Rightarrow> ((v, False), m(k \<mapsto> v)))"

definition map_CompareAndSwap :: "('k \<rightharpoonup> 'v) \<Rightarrow> 'k \<Rightarrow> 'v \<Rightarrow> 'v \<Rightarrow> bool \<times> ('k \<rightharpoonup> 'v)" where
  "map_CompareAndSwap m k old new = (if m k = Some old then (True, m(k \<mapsto> new)) else (False, m))"

text \<open>
  One pass through the loop of \<^verbatim>\<open>cache\<close>. \<open>interfere\<close> is what the other operators do to the
  map between the two atomic steps of this one; \<^const>\<open>True\<close> says the loop is left.
\<close>

definition cache_pass ::
    "(('k \<rightharpoonup> credEntry) \<Rightarrow> ('k \<rightharpoonup> credEntry)) \<Rightarrow> 'k \<Rightarrow> credEntry \<Rightarrow> ('k \<rightharpoonup> credEntry) \<Rightarrow> bool \<times> ('k \<rightharpoonup> credEntry)" where
  "cache_pass interfere key entry m =
     (case map_LoadOrStore m key entry of
        ((prev, loaded), m1) \<Rightarrow>
          if \<not> loaded then (True, m1)
          else if \<not> expiry prev < expiry entry then (True, m1)
          else map_CompareAndSwap (interfere m1) key prev entry)"

text \<open>
  \<^verbatim>\<open>cache\<close> run by one operator alone: the loop is left after the first pass
  (\<open>cache_pass_alone\<close> below), which is the whole of the sequential model.
\<close>

definition cache :: "string \<Rightarrow> Token \<Rightarrow> (string \<rightharpoonup> credEntry) \<Rightarrow> (string \<rightharpoonup> credEntry)" where
  "cache key tok m =
     (case tok_Expiry tok of
        None \<Rightarrow> m
      | Some exp \<Rightarrow> snd (cache_pass (\<lambda>x. x) key (CredEntry (tok_AccessToken tok) exp) m))"

definition refreshMargin :: int where "refreshMargin = 5 * 60 * 1000000000"

definition sortedCopy :: "string list \<Rightarrow> string list" where
  "sortedCopy xs = sort xs"

definition cred_key :: "provider_name \<Rightarrow> string list \<Rightarrow> string" where
  "cred_key name scopes = pn_String name @ [CHR 0x0A] @ Join (sortedCopy scopes) '' ''"

definition exchange_config_for :: "provider_name \<Rightarrow> string list \<Rightarrow> exchange_config" where
  "exchange_config_for name scopes =
     \<lparr>xc_Scopes = scopes, xc_ProjectNumber = pn_ProjectNumber name, xc_PoolID = pn_Pool name,
      xc_ProviderID = pn_Provider name\<rparr>"

definition credentialsFor ::
    "'w env \<Rightarrow> json \<Rightarrow> string list \<Rightarrow> 'w machine \<Rightarrow> (goerr + Token) \<times> 'w machine" where
  "credentialsFor E auth scopes s =
     (case decode_string_field ''oidcAuth'' ''WorkloadIdentityProvider'' auth of
        (Some e, provider) \<Rightarrow> (Inl (errorf_w ''config: malformed Oidc auth block: '' (ErrText e)), s)
      | (None, provider) \<Rightarrow>
        if provider = [] then
          (Inl (ErrText ''config: Oidc auth requires WorkloadIdentityProvider''), s)
        else case env_parse_provider E provider of
          Inl e \<Rightarrow>
            (Inl (errorf_w ''config: Oidc auth WorkloadIdentityProvider is not a workload identity provider resource name: '' e), s)
        | Inr name \<Rightarrow>
            (let key = cred_key name scopes;
                 fresh =
                   (case env_exchange E (m_world s) (exchange_config_for name scopes) of
                      (Inl e, w) \<Rightarrow> (Inl e, s\<lparr>m_world := w\<rparr>)
                    | (Inr tok, w) \<Rightarrow> (Inr tok, s\<lparr>m_world := w, m_creds := cache key tok (m_creds s)\<rparr>))
             in case map_Load (m_creds s) key of
                  None \<Rightarrow> fresh
                | Some entry \<Rightarrow>
                    if env_clock E (m_world s) + refreshMargin < expiry entry
                    then (Inr \<lparr>tok_AccessToken = accessToken entry, tok_Expiry = Some (expiry entry)\<rparr>, s)
                    else fresh))"

definition oidcClientOptions ::
    "'w env \<Rightarrow> Config \<Rightarrow> json \<Rightarrow> string list \<Rightarrow> 'w machine \<Rightarrow> (goerr + client_option list) \<times> 'w machine" where
  "oidcClientOptions E c raw scopes s =
     (if c_deps c = None \<or> \<not> od_Source (the (c_deps c)) then
        (Inl (ErrText ''config: Oidc auth requires an OIDC token source, but this plugin instance has none wired (failing closed rather than falling back to ambient credentials)''), s)
      else case credentialsFor E raw scopes s of
        (Inl e, s1) \<Rightarrow> (Inl e, s1)
      | (Inr tok, s1) \<Rightarrow> (Inr [WithTokenSource raw scopes], s1))"

text \<open>\<^verbatim>\<open>callTokenSource.Token\<close>: the source a client option carries resolves the same block.\<close>

definition callTokenSource_Token ::
    "'w env \<Rightarrow> json \<Rightarrow> string list \<Rightarrow> 'w machine \<Rightarrow> (goerr + Token) \<times> 'w machine" where
  "callTokenSource_Token E raw scopes s = credentialsFor E raw scopes s"

definition env_cred_source :: "'w env \<Rightarrow> cred_source" where
  "env_cred_source E =
     (if env_getenv E ''GCP_CREDENTIALS_JSON'' \<noteq> []
      then CredentialsJSON (env_getenv E ''GCP_CREDENTIALS_JSON'')
      else if env_getenv E ''GCP_CREDENTIALS_FILE'' \<noteq> []
      then CredentialsFile (env_getenv E ''GCP_CREDENTIALS_FILE'')
      else ApplicationDefault)"

definition ToClientOptions ::
    "'w env \<Rightarrow> Config \<Rightarrow> 'w machine \<Rightarrow> (goerr + client_option list) \<times> 'w machine" where
  "ToClientOptions E c s =
     (let scopes = (if c_Scopes c = [] then default_scopes else c_Scopes c)
      in case effectiveAuth c of
           Inl e \<Rightarrow> (Inl e, s)
         | Inr (Some (ty, raw)) \<Rightarrow> oidcClientOptions E c raw scopes s
         | Inr None \<Rightarrow>
             (case env_detect E scopes (env_cred_source E) of
                Inl e \<Rightarrow> (Inl e, s)
              | Inr creds \<Rightarrow> (Inr [WithAuthCredentials creds], s)))"


section \<open>Credentials ordered by how long they stay usable\<close>

instantiation credEntry :: preorder
begin

definition less_eq_credEntry :: "credEntry \<Rightarrow> credEntry \<Rightarrow> bool" where
  "less_eq_credEntry a b \<longleftrightarrow> expiry a \<le> expiry b"

definition less_credEntry :: "credEntry \<Rightarrow> credEntry \<Rightarrow> bool" where
  "less_credEntry a b \<longleftrightarrow> expiry a < expiry b"

instance
  by standard (auto simp: less_eq_credEntry_def less_credEntry_def)

end

text \<open>
  What the cache relies on \<^verbatim>\<open>sync.Map\<close> for, as an interface over any store: reading, an atomic
  load-or-store and an atomic compare-and-swap, over values with a preorder. The lemmas of the
  locale are about publishing a value with those operations, whatever other clients that only
  ever raise values do in between.
\<close>

locale atomic_map =
  fixes load :: "'s \<Rightarrow> 'k \<Rightarrow> 'v::preorder option"
    and load_or_store :: "'s \<Rightarrow> 'k \<Rightarrow> 'v \<Rightarrow> ('v \<times> bool) \<times> 's"
    and compare_and_swap :: "'s \<Rightarrow> 'k \<Rightarrow> 'v \<Rightarrow> 'v \<Rightarrow> bool \<times> 's"
  assumes los_hit: "load s k = Some old \<Longrightarrow> load_or_store s k v = ((old, True), s)"
    and los_miss: "load s k = None \<Longrightarrow>
      \<exists>s'. load_or_store s k v = ((v, False), s') \<and> (\<forall>j. load s' j = (if j = k then Some v else load s j))"
    and cas_hit: "load s k = Some old \<Longrightarrow>
      \<exists>s'. compare_and_swap s k old v = (True, s') \<and> (\<forall>j. load s' j = (if j = k then Some v else load s j))"
    and cas_miss: "load s k \<noteq> Some old \<Longrightarrow> compare_and_swap s k old v = (False, s)"
begin

definition at_least :: "'v option \<Rightarrow> 'v option \<Rightarrow> bool" where
  "at_least old new = (case old of None \<Rightarrow> True | Some a \<Rightarrow> (case new of None \<Rightarrow> False | Some b \<Rightarrow> a \<le> b))"

definition grows :: "'s \<Rightarrow> 's \<Rightarrow> bool" where
  "grows s s' \<longleftrightarrow> (\<forall>j. at_least (load s j) (load s' j))"

definition publish :: "('s \<Rightarrow> 's) \<Rightarrow> 'k \<Rightarrow> 'v \<Rightarrow> 's \<Rightarrow> bool \<times> 's" where
  "publish interfere k v s =
     (case load_or_store s k v of
        ((prev, loaded), s1) \<Rightarrow>
          if \<not> loaded then (True, s1)
          else if \<not> prev < v then (True, s1)
          else compare_and_swap (interfere s1) k prev v)"

lemma at_least_refl [simp]: "at_least x x"
  by (cases x) (auto simp: at_least_def)

lemma at_least_trans: "at_least x y \<Longrightarrow> at_least y z \<Longrightarrow> at_least x z"
  by (auto simp: at_least_def split: option.splits intro: order_trans)

lemma grows_refl [simp]: "grows s s"
  by (simp add: grows_def)

lemma grows_trans: "grows s t \<Longrightarrow> grows t u \<Longrightarrow> grows s u"
  by (auto simp: grows_def intro: at_least_trans)

lemma grows_update:
  "at_least (load s k) (Some v) \<Longrightarrow> (\<forall>j. load s' j = (if j = k then Some v else load s j)) \<Longrightarrow> grows s s'"
  by (auto simp: grows_def)

lemma publish_grows:
  assumes "\<And>t. grows t (interfere t)"
  shows "grows s (snd (publish interfere k v s))"
proof (cases "load s k")
  case None
  with los_miss [OF None, of v] show ?thesis
    by (auto simp: publish_def at_least_def intro!: grows_update)
next
  case (Some prev)
  show ?thesis
  proof (cases "prev < v \<and> load (interfere s) k = Some prev")
    case True
    with cas_hit [of "interfere s" k prev v] los_hit [OF Some, of v] show ?thesis
      by (auto simp: publish_def at_least_def less_le_not_le
          intro!: grows_trans [OF assms [of s]] grows_update)
  next
    case False
    with los_hit [OF Some, of v] cas_miss [of "interfere s" k prev v] assms [of s] show ?thesis
      by (auto simp: publish_def)
  qed
qed

lemma publish_done:
  assumes total: "\<And>a b :: 'v. \<not> a < b \<Longrightarrow> b \<le> a" and "fst (publish interfere k v s)"
  shows "\<exists>u. load (snd (publish interfere k v s)) k = Some u \<and> v \<le> u"
proof (cases "load s k")
  case None
  with los_miss [OF None, of v] show ?thesis by (auto simp: publish_def)
next
  case (Some prev)
  show ?thesis
  proof (cases "prev < v")
    case True
    have "load (interfere s) k = Some prev"
      using True los_hit [OF Some, of v] assms(2) cas_miss [of "interfere s" k prev v]
      by (cases "load (interfere s) k = Some prev") (auto simp: publish_def)
    with cas_hit [of "interfere s" k prev v] True los_hit [OF Some, of v] show ?thesis
      by (auto simp: publish_def)
  next
    case False
    with los_hit [OF Some, of v] Some total show ?thesis by (auto simp: publish_def)
  qed
qed

text \<open>A pass that has to be repeated met a value some other client stored in between.\<close>

lemma publish_retry:
  assumes "\<And>t. grows t (interfere t)" and "\<not> fst (publish interfere k v s)"
  shows "\<exists>prev now. load s k = Some prev \<and> load (snd (publish interfere k v s)) k = Some now \<and>
           now \<noteq> prev \<and> prev \<le> now \<and> prev < v"
proof -
  from assms(2) los_miss [of s k v] obtain prev where prev: "load s k = Some prev"
    by (cases "load s k") (auto simp: publish_def)
  from los_hit [OF prev, of v] assms(2) cas_hit [of "interfere s" k prev v]
  have *: "prev < v" "load (interfere s) k \<noteq> Some prev"
    by (auto simp: publish_def split: if_splits)
  with cas_miss [of "interfere s" k prev v] los_hit [OF prev, of v]
  have "snd (publish interfere k v s) = interfere s" by (simp add: publish_def)
  moreover from assms(1) [of s] prev obtain now where "load (interfere s) k = Some now" "prev \<le> now"
    by (auto simp: grows_def at_least_def split: option.splits elim!: allE [of _ k])
  ultimately show ?thesis using prev * by auto
qed

end

interpretation cred_map: atomic_map map_Load map_LoadOrStore map_CompareAndSwap
  by unfold_locales (auto simp: map_Load_def map_LoadOrStore_def map_CompareAndSwap_def)

lemma cache_pass_publish: "cache_pass f k v m = cred_map.publish f k v m"
  unfolding cache_pass_def cred_map.publish_def less_credEntry_def ..

lemma cache_pass_alone: "fst (cache_pass (\<lambda>x. x) k v m)"
  by (auto simp: cache_pass_def map_LoadOrStore_def map_CompareAndSwap_def split: option.splits)

section \<open>Properties of configuration and credentials\<close>

lemma effectiveAuth_present:
  "c_Auth c = Some doc \<Longrightarrow> doc \<noteq> JNull \<Longrightarrow> effectiveAuth c = Inr r \<Longrightarrow> r = Some (AuthTypeOidc, doc)"
  by (auto simp: effectiveAuth_def split: option.splits if_splits prod.splits)

lemma credentialsFor_ambient:
  "credentialsFor (E\<lparr>env_detect := a, env_getenv := b\<rparr>) doc scopes s = credentialsFor E doc scopes s"
proof -
  have "env_parse_provider (E\<lparr>env_detect := a, env_getenv := b\<rparr>) = env_parse_provider E"
    "env_exchange (E\<lparr>env_detect := a, env_getenv := b\<rparr>) = env_exchange E"
    "env_clock (E\<lparr>env_detect := a, env_getenv := b\<rparr>) = env_clock E"
    by simp_all
  then show ?thesis unfolding credentialsFor_def by presburger
qed

text \<open>
  C31: Authentication fails closed. When the target has an \<^verbatim>\<open>Auth\<close> block, ambient credentials play
  no part: neither the credential files and variables nor the default lookup influence the
  outcome, and if there are client options at all, they are the token source of that very block
  on a plugin instance that has an OIDC source wired.
\<close>
theorem auth_block_fails_closed:
  assumes "c_Auth c = Some doc" and "doc \<noteq> JNull"
  shows "ToClientOptions (E\<lparr>env_detect := d, env_getenv := g\<rparr>) c s =
           ToClientOptions (E\<lparr>env_detect := d', env_getenv := g'\<rparr>) c s
     \<and> (\<forall>opts s'. ToClientOptions E c s = (Inr opts, s') \<longrightarrow>
          opts = [WithTokenSource doc (if c_Scopes c = [] then default_scopes else c_Scopes c)]
          \<and> (\<exists>deps. c_deps c = Some deps \<and> od_Source deps))"
proof (intro conjI allI impI)
  have *: "effectiveAuth c = Inr r \<Longrightarrow> r = Some (AuthTypeOidc, doc)" for r
    using assms effectiveAuth_present by blast
  show "ToClientOptions (E\<lparr>env_detect := d, env_getenv := g\<rparr>) c s =
          ToClientOptions (E\<lparr>env_detect := d', env_getenv := g'\<rparr>) c s"
    using * by (cases "effectiveAuth c")
      (auto simp: ToClientOptions_def oidcClientOptions_def credentialsFor_ambient)
  fix opts s'
  assume ok: "ToClientOptions E c s = (Inr opts, s')"
  then obtain r where "effectiveAuth c = Inr r"
    by (cases "effectiveAuth c") (auto simp: ToClientOptions_def)
  with * ok show "opts = [WithTokenSource doc (if c_Scopes c = [] then default_scopes else c_Scopes c)]"
    "\<exists>deps. c_deps c = Some deps \<and> od_Source deps"
    by (auto simp: ToClientOptions_def oidcClientOptions_def Let_def split: if_splits sum.splits prod.splits)
qed

definition idle_env :: "'w env" where
  "idle_env =
     \<lparr>env_getenv = (\<lambda>v. []), env_detect = (\<lambda>scopes src. Inr ''ambient''),
      env_parse_provider = (\<lambda>n. Inr \<lparr>pn_String = n, pn_ProjectNumber = ''1'', pn_Pool = ''p'', pn_Provider = ''q''\<rparr>),
      env_exchange = (\<lambda>w c. (Inr \<lparr>tok_AccessToken = ''fresh'', tok_Expiry = Some 5\<rparr>, w)),
      env_clock = (\<lambda>w. 0), env_ctx_err = (\<lambda>w. None), env_sleep = (\<lambda>w d. w),
      env_select_after = (\<lambda>w d. (None, w)), env_http_new = (\<lambda>opts. None),
      env_http_do = (\<lambda>w r. (Inl (ErrText ''offline''), w)), env_check_response = (\<lambda>r. None)\<rparr>"

definition idle_machine :: "unit machine" where
  "idle_machine = \<lparr>m_world = (), m_creds = Map.empty, m_log = []\<rparr>"

definition oidc_block :: json where
  "oidc_block = JObj [(''Type'', JStr ''Oidc''), (''WorkloadIdentityProvider'', JStr ''wip'')]"

lemma oidc_block_decodes:
  "decode_string_field ''authDiscriminator'' ''Type'' oidc_block = (None, ''Oidc'')"
  "decode_string_field ''oidcAuth'' ''WorkloadIdentityProvider'' oidc_block = (None, ''wip'')"
  by (simp_all add: oidc_block_def decode_string_field_def decode_field_step_def field_match_def
      field_error_def ToLower_def lower_char_def less_eq_char_def char_of_eq_iff)

theorem auth_block_fails_closed_witness:
  "ToClientOptions idle_env (zero_config\<lparr>c_Auth := Some oidc_block, c_deps := Some \<lparr>od_Source = True\<rparr>\<rparr>) idle_machine
     = ToClientOptions (idle_env\<lparr>env_detect := (\<lambda>scopes src. Inl (ErrText ''none''))\<rparr>)
         (zero_config\<lparr>c_Auth := Some oidc_block, c_deps := Some \<lparr>od_Source = True\<rparr>\<rparr>) idle_machine"
  using auth_block_fails_closed [where c = "zero_config\<lparr>c_Auth := Some oidc_block, c_deps := Some \<lparr>od_Source = True\<rparr>\<rparr>"
      and doc = oidc_block and E = idle_env and d = "env_detect (idle_env :: unit env)" and g = "env_getenv (idle_env :: unit env)"
      and s = idle_machine and d' = "\<lambda>scopes src. Inl (ErrText ''none'')" and g' = "env_getenv (idle_env :: unit env)"]
  by (simp add: oidc_block_def)

lemma cache_covers:
  assumes "tok_Expiry tok = Some x"
  shows "\<exists>e. cache key tok m key = Some e \<and> x \<le> expiry e"
proof -
  define v where "v = CredEntry (tok_AccessToken tok) x"
  have "\<exists>u. map_Load (snd (cred_map.publish (\<lambda>x. x) key v m)) key = Some u \<and> v \<le> u"
  proof (rule cred_map.publish_done)
    show "\<not> a < b \<Longrightarrow> b \<le> a" for a b :: credEntry
      by (simp add: less_credEntry_def less_eq_credEntry_def)
    show "fst (cred_map.publish (\<lambda>x. x) key v m)"
      using cache_pass_alone by (simp add: cache_pass_publish)
  qed
  then show ?thesis
    using assms by (auto simp: cache_def cache_pass_publish v_def map_Load_def less_eq_credEntry_def)
qed

text \<open>
  A credential handed out is either fresh or safely unexpired. On success the token comes from
  the cache, for the same provider and the same set of scopes, and outlives the refresh margin,
  with nothing changed; or it is the answer of an exchange made in this call with the block's
  provider and the requested scopes, and the cache then covers its lifetime.
\<close>
lemma credentials_fresh_or_unexpired:
  assumes "credentialsFor E auth scopes s = (Inr tok, s')"
  shows "\<exists>provider name. decode_string_field ''oidcAuth'' ''WorkloadIdentityProvider'' auth = (None, provider)
     \<and> env_parse_provider E provider = Inr name
     \<and> ((s' = s \<and> (\<exists>e. m_creds s (cred_key name scopes) = Some e
                     \<and> tok = \<lparr>tok_AccessToken = accessToken e, tok_Expiry = Some (expiry e)\<rparr>
                     \<and> env_clock E (m_world s) + refreshMargin < expiry e))
        \<or> (env_exchange E (m_world s) (exchange_config_for name scopes) = (Inr tok, m_world s')
            \<and> (\<forall>x. tok_Expiry tok = Some x \<longrightarrow>
                 (\<exists>e. m_creds s' (cred_key name scopes) = Some e \<and> x \<le> expiry e))))"
proof -
  obtain provider name where p: "decode_string_field ''oidcAuth'' ''WorkloadIdentityProvider'' auth = (None, provider)"
    "provider \<noteq> []" "env_parse_provider E provider = Inr name"
    using assms by (auto simp: credentialsFor_def split: prod.splits option.splits if_splits sum.splits)
  show ?thesis
  proof (cases "\<exists>e. m_creds s (cred_key name scopes) = Some e \<and> env_clock E (m_world s) + refreshMargin < expiry e")
    case True
    with assms p show ?thesis by (auto simp: credentialsFor_def map_Load_def Let_def)
  next
    case False
    with assms p obtain w where w: "env_exchange E (m_world s) (exchange_config_for name scopes) = (Inr tok, w)"
      "s' = s\<lparr>m_world := w, m_creds := cache (cred_key name scopes) tok (m_creds s)\<rparr>"
      by (auto simp: credentialsFor_def map_Load_def Let_def split: option.splits if_splits prod.splits sum.splits)
    with p show ?thesis using cache_covers by fastforce
  qed
qed

text \<open>
  The key of the cache does not depend on the order of the scopes, so two requests for the same
  provider and the same scopes share one entry.
\<close>
lemma cred_key_scope_order:
  assumes "mset scopes = mset scopes'"
  shows "cred_key name scopes = cred_key name scopes'"
  using properties_for_sort [of "sort scopes'" scopes] assms
  by (simp add: cred_key_def sortedCopy_def)

end
