(* ===== verification/Credential_Cache.thy ===== *)
theory Credential_Cache
  imports Config
begin

text \<open>
  The credential cache under concurrency: \<^verbatim>\<open>OidcDeps.cache\<close> of
  \<^verbatim>\<open>src/pkg/config/oidc.go\<close>, run by any number of operators at once against one map.
  Each call is a small program over the atomic operations of \<^verbatim>\<open>sync.Map\<close>; a step of the
  system is one atomic operation of one of them, and any schedule is allowed.
\<close>

section \<open>The program of one call, and the system\<close>

text \<open>
  Where a call stands: before \<^verbatim>\<open>LoadOrStore\<close>, before \<^verbatim>\<open>CompareAndSwap\<close> with the entry it
  loaded, or returned.
\<close>

datatype cache_pc =
    AtLoadOrStore string credEntry
  | AtCompareAndSwap string credEntry credEntry
  | Returned string credEntry

record cache_sys =
  cs_map :: "string \<rightharpoonup> credEntry"
  cs_calls :: "cache_pc list"

inductive cache_step :: "cache_sys \<Rightarrow> cache_sys \<Rightarrow> bool" where
  store: "\<lbrakk>i < length (cs_calls s); cs_calls s ! i = AtLoadOrStore k e;
      map_LoadOrStore (cs_map s) k e = ((prev, False), m)\<rbrakk> \<Longrightarrow>
    cache_step s \<lparr>cs_map = m, cs_calls = (cs_calls s)[i := Returned k e]\<rparr>"
| keep: "\<lbrakk>i < length (cs_calls s); cs_calls s ! i = AtLoadOrStore k e;
      map_LoadOrStore (cs_map s) k e = ((prev, True), m); \<not> expiry prev < expiry e\<rbrakk> \<Longrightarrow>
    cache_step s \<lparr>cs_map = m, cs_calls = (cs_calls s)[i := Returned k e]\<rparr>"
| loaded: "\<lbrakk>i < length (cs_calls s); cs_calls s ! i = AtLoadOrStore k e;
      map_LoadOrStore (cs_map s) k e = ((prev, True), m); expiry prev < expiry e\<rbrakk> \<Longrightarrow>
    cache_step s \<lparr>cs_map = m, cs_calls = (cs_calls s)[i := AtCompareAndSwap k e prev]\<rparr>"
| swapped: "\<lbrakk>i < length (cs_calls s); cs_calls s ! i = AtCompareAndSwap k e prev;
      map_CompareAndSwap (cs_map s) k prev e = (True, m)\<rbrakk> \<Longrightarrow>
    cache_step s \<lparr>cs_map = m, cs_calls = (cs_calls s)[i := Returned k e]\<rparr>"
| retry: "\<lbrakk>i < length (cs_calls s); cs_calls s ! i = AtCompareAndSwap k e prev;
      map_CompareAndSwap (cs_map s) k prev e = (False, m)\<rbrakk> \<Longrightarrow>
    cache_step s \<lparr>cs_map = m, cs_calls = (cs_calls s)[i := AtLoadOrStore k e]\<rparr>"

inductive_cases cache_stepE: "cache_step s t"

text \<open>The start: every call before its first step, on any map.\<close>

definition cache_start :: "(string \<rightharpoonup> credEntry) \<Rightarrow> (string \<times> credEntry) list \<Rightarrow> cache_sys" where
  "cache_start m calls = \<lparr>cs_map = m, cs_calls = map (\<lambda>(k, e). AtLoadOrStore k e) calls\<rparr>"

fun pc_key :: "cache_pc \<Rightarrow> string" where
  "pc_key (AtLoadOrStore k e) = k"
| "pc_key (AtCompareAndSwap k e p) = k"
| "pc_key (Returned k e) = k"

fun pc_entry :: "cache_pc \<Rightarrow> credEntry" where
  "pc_entry (AtLoadOrStore k e) = e"
| "pc_entry (AtCompareAndSwap k e p) = e"
| "pc_entry (Returned k e) = e"

fun returned :: "cache_pc \<Rightarrow> bool" where
  "returned (Returned k e) = True"
| "returned _ = False"

section \<open>Invariants\<close>

text \<open>
  A call that remembers a loaded entry remembers one that expires earlier than its own; a call
  that returned left an entry at least as durable as its own.
\<close>

definition call_ok :: "(string \<rightharpoonup> credEntry) \<Rightarrow> cache_pc \<Rightarrow> bool" where
  "call_ok m pc =
     (case pc of
        AtLoadOrStore k e \<Rightarrow> True
      | AtCompareAndSwap k e prev \<Rightarrow> prev < e
      | Returned k e \<Rightarrow> (case m k of None \<Rightarrow> False | Some u \<Rightarrow> e \<le> u))"

definition cache_inv :: "cache_sys \<Rightarrow> bool" where
  "cache_inv s \<longleftrightarrow> list_all (call_ok (cs_map s)) (cs_calls s)"

lemma grows_map_alt:
  "cred_map.grows m m' \<longleftrightarrow> (\<forall>k a. m k = Some a \<longrightarrow> (\<exists>b. m' k = Some b \<and> a \<le> b))"
  unfolding cred_map.grows_def cred_map.at_least_def map_Load_def
  by (force split: option.splits)

lemmas cred_order = less_eq_credEntry_def less_credEntry_def

lemma call_ok_grows: "cred_map.grows m m' \<Longrightarrow> call_ok m pc \<Longrightarrow> call_ok m' pc"
  by (cases pc) (fastforce simp: call_ok_def grows_map_alt cred_order split: option.splits)+

text \<open>Every step either leaves the map alone or raises one key of it.\<close>

lemma cache_step_map:
  assumes "cache_step s t" and "cache_inv s"
  shows "cred_map.grows (cs_map s) (cs_map t)"
  using assms
proof (cases rule: cache_step.cases)
  case (swapped i k e prev m)
  with assms(2) have "prev < e"
    by (auto simp: cache_inv_def list_all_length call_ok_def)
  with swapped show ?thesis
    by (auto simp: map_CompareAndSwap_def grows_map_alt cred_order split: if_splits)
qed (auto simp: map_LoadOrStore_def map_CompareAndSwap_def grows_map_alt cred_order
    split: option.splits if_splits)

text \<open>The one call that moves ends up as the invariant demands.\<close>

lemma cache_step_moved:
  assumes "cache_step s t"
  obtains i pc where "i < length (cs_calls s)" "cs_calls t = (cs_calls s)[i := pc]"
    "call_ok (cs_map t) pc" "pc_key pc = pc_key (cs_calls s ! i)"
    "pc_entry pc = pc_entry (cs_calls s ! i)" "\<not> returned (cs_calls s ! i)"
  using assms
proof (cases rule: cache_step.cases)
  case (store i k e prev m)
  then show ?thesis
    by (intro that [of i "Returned k e"])
      (auto simp: call_ok_def map_LoadOrStore_def cred_order split: option.splits)
next
  case (keep i k e prev m)
  then show ?thesis
    by (intro that [of i "Returned k e"])
      (auto simp: call_ok_def map_LoadOrStore_def cred_order split: option.splits)
next
  case (loaded i k e prev m)
  then show ?thesis
    by (intro that [of i "AtCompareAndSwap k e prev"]) (auto simp: call_ok_def cred_order)
next
  case (swapped i k e prev m)
  then show ?thesis
    by (intro that [of i "Returned k e"])
      (auto simp: call_ok_def map_CompareAndSwap_def cred_order split: if_splits)
next
  case (retry i k e prev m)
  then show ?thesis
    by (intro that [of i "AtLoadOrStore k e"]) (auto simp: call_ok_def)
qed

lemma cache_step_inv:
  assumes "cache_step s t" and "cache_inv s"
  shows "cache_inv t"
proof -
  obtain i pc where pc: "cs_calls t = (cs_calls s)[i := pc]" "call_ok (cs_map t) pc"
    using assms(1) by (rule cache_step_moved)
  have "list_all (call_ok (cs_map t)) (cs_calls s)"
    using assms(2) call_ok_grows [OF cache_step_map [OF assms]]
    by (auto simp: cache_inv_def list_all_iff)
  then show ?thesis
    using pc set_update_subset_insert [of "cs_calls s" i pc]
    by (auto simp: cache_inv_def list_all_iff)
qed

lemma cache_run_inv: "cache_step\<^sup>*\<^sup>* s t \<Longrightarrow> cache_inv s \<Longrightarrow> cache_inv t"
  by (induction rule: rtranclp_induct) (auto intro: cache_step_inv)

lemma cache_run_grows:
  "cache_step\<^sup>*\<^sup>* s t \<Longrightarrow> cache_inv s \<Longrightarrow> cred_map.grows (cs_map s) (cs_map t)"
proof (induction rule: rtranclp_induct)
  case base
  then show ?case by simp
next
  case (step t u)
  then show ?case
    by (meson cache_run_inv cache_step_map cred_map.grows_trans)
qed

lemma cache_start_inv: "cache_inv (cache_start m calls)"
  by (auto simp: cache_inv_def cache_start_def list_all_iff call_ok_def)

text \<open>A call keeps its key and its entry.\<close>

definition pc_id :: "cache_pc \<Rightarrow> string \<times> credEntry" where
  "pc_id pc = (pc_key pc, pc_entry pc)"

lemma map_update_same: "f y = f (xs ! i) \<Longrightarrow> map f (xs[i := y]) = map f xs"
  by (metis list_update_id map_update)

lemma cache_step_calls: "cache_step s t \<Longrightarrow> map pc_id (cs_calls t) = map pc_id (cs_calls s)"
  by (erule cache_step_moved) (simp add: map_update_same pc_id_def)

lemma cache_run_calls: "cache_step\<^sup>*\<^sup>* s t \<Longrightarrow> map pc_id (cs_calls t) = map pc_id (cs_calls s)"
  by (induction rule: rtranclp_induct) (auto simp: cache_step_calls)

text \<open>Nothing but the initial entries and those of the calls is ever in the map.\<close>

definition cache_source :: "(string \<rightharpoonup> credEntry) \<Rightarrow> cache_sys \<Rightarrow> bool" where
  "cache_source m0 s \<longleftrightarrow>
     (\<forall>k e. cs_map s k = Some e \<longrightarrow> m0 k = Some e \<or> (k, e) \<in> set (map pc_id (cs_calls s)))"

lemma cache_step_update:
  assumes "cache_step s t"
  shows "cs_map t = cs_map s \<or> (\<exists>k e. (k, e) \<in> set (map pc_id (cs_calls s)) \<and> cs_map t = (cs_map s)(k \<mapsto> e))"
  using assms
proof (cases rule: cache_step.cases)
  case (store i k e prev m)
  then have "cs_map t = (cs_map s)(k \<mapsto> e)" "(k, e) = pc_id (cs_calls s ! i)"
    by (auto simp: map_LoadOrStore_def pc_id_def split: option.splits)
  with store(2) show ?thesis by (metis length_map nth_map nth_mem)
next
  case (swapped i k e prev m)
  then have "cs_map t = (cs_map s)(k \<mapsto> e)" "(k, e) = pc_id (cs_calls s ! i)"
    by (auto simp: map_CompareAndSwap_def pc_id_def split: if_splits)
  with swapped(2) show ?thesis by (metis length_map nth_map nth_mem)
qed (auto simp: map_LoadOrStore_def map_CompareAndSwap_def split: option.splits if_splits)

lemma cache_step_source:
  assumes "cache_step s t" and "cache_source m0 s"
  shows "cache_source m0 t"
  unfolding cache_source_def cache_step_calls [OF assms(1)]
proof (intro allI impI)
  fix k e
  assume "cs_map t k = Some e"
  with cache_step_update [OF assms(1)]
  have "cs_map s k = Some e \<or> (k, e) \<in> set (map pc_id (cs_calls s))"
    by (auto split: if_splits)
  with assms(2) show "m0 k = Some e \<or> (k, e) \<in> set (map pc_id (cs_calls s))"
    unfolding cache_source_def by blast
qed

lemma cache_run_source: "cache_step\<^sup>*\<^sup>* s t \<Longrightarrow> cache_source m0 s \<Longrightarrow> cache_source m0 t"
  by (induction rule: rtranclp_induct) (auto intro: cache_step_source)

lemma cache_start_source: "cache_source m (cache_start m calls)"
  by (simp add: cache_source_def cache_start_def)

section \<open>Termination of every schedule\<close>

definition pc_weight :: "(string \<rightharpoonup> credEntry) \<Rightarrow> cache_pc \<Rightarrow> nat" where
  "pc_weight m pc =
     (case pc of
        AtLoadOrStore k e \<Rightarrow> 2
      | AtCompareAndSwap k e prev \<Rightarrow> if m k = Some prev then 1 else 3
      | Returned k e \<Rightarrow> 0)"

definition open_calls :: "cache_sys \<Rightarrow> nat" where
  "open_calls s = length (filter (\<lambda>pc. \<not> returned pc) (cs_calls s))"

definition sys_weight :: "cache_sys \<Rightarrow> nat" where
  "sys_weight s = sum_list (map (pc_weight (cs_map s)) (cs_calls s))"

lemma sum_list_update_less:
  fixes f :: "'a \<Rightarrow> nat"
  assumes "i < length xs" and "f y < f (xs ! i)"
  shows "sum_list (map f (xs[i := y])) < sum_list (map f xs)"
  using assms
proof (induction xs arbitrary: i)
  case Nil
  then show ?case by simp
next
  case (Cons x xs)
  then show ?case by (cases i) auto
qed

lemma filter_update_less:
  assumes "i < length xs" and "P (xs ! i)" and "\<not> P y"
  shows "length (filter P (xs[i := y])) < length (filter P xs)"
  using assms
proof (induction xs arbitrary: i)
  case Nil
  then show ?case by simp
next
  case (Cons x xs)
  then show ?case by (cases i) auto
qed

lemma filter_update_same:
  assumes "i < length xs" and "P (xs ! i) = P y"
  shows "length (filter P (xs[i := y])) = length (filter P xs)"
  using assms
proof (induction xs arbitrary: i)
  case Nil
  then show ?case by simp
next
  case (Cons x xs)
  then show ?case by (cases i) auto
qed

lemma cache_step_decreases: "cache_step s t \<Longrightarrow> (t, s) \<in> measures [open_calls, sys_weight]"
proof (induction rule: cache_step.induct)
  case (loaded i s k e prev m)
  then have "m = cs_map s" "cs_map s k = Some prev"
    by (auto simp: map_LoadOrStore_def split: option.splits)
  with loaded show ?case
    by (auto simp: open_calls_def sys_weight_def filter_update_same pc_weight_def
        intro!: sum_list_update_less)
next
  case (retry i s k e prev m)
  then have "m = cs_map s" "cs_map s k \<noteq> Some prev"
    by (auto simp: map_CompareAndSwap_def split: if_splits)
  with retry show ?case
    by (auto simp: open_calls_def sys_weight_def filter_update_same pc_weight_def
        intro!: sum_list_update_less)
qed (auto simp: open_calls_def intro!: filter_update_less)

text \<open>No call is ever stuck before it has returned.\<close>

lemma cache_progress:
  assumes "i < length (cs_calls s)" and "\<not> returned (cs_calls s ! i)"
  shows "\<exists>t. cache_step s t"
proof (cases "cs_calls s ! i")
  case (AtLoadOrStore k e)
  obtain prev b m where r: "map_LoadOrStore (cs_map s) k e = ((prev, b), m)"
    by (metis surj_pair)
  consider "\<not> b" | "b" "expiry prev < expiry e" | "b" "\<not> expiry prev < expiry e" by blast
  then show ?thesis
  proof cases
    case 1
    with r show ?thesis using store [OF assms(1) AtLoadOrStore] by auto
  next
    case 2
    with r show ?thesis using loaded [OF assms(1) AtLoadOrStore] by auto
  next
    case 3
    with r show ?thesis using keep [OF assms(1) AtLoadOrStore] by auto
  qed
next
  case (AtCompareAndSwap k e prev)
  obtain b m where r: "map_CompareAndSwap (cs_map s) k prev e = (b, m)"
    by (metis surj_pair)
  then show ?thesis
    using swapped [OF assms(1) AtCompareAndSwap] retry [OF assms(1) AtCompareAndSwap]
    by (cases b) auto
next
  case (Returned k e)
  with assms show ?thesis by simp
qed

section \<open>What every schedule guarantees\<close>

lemma final_returned:
  assumes "\<nexists>u. cache_step t u" and "pc \<in> set (cs_calls t)"
  shows "returned pc"
  using assms cache_progress [of _ t] by (metis in_set_conv_nth)

lemma returned_call_ok: "returned pc \<Longrightarrow> call_ok m pc \<Longrightarrow> \<exists>u. m (fst (pc_id pc)) = Some u \<and> snd (pc_id pc) \<le> u"
  by (cases pc) (auto simp: call_ok_def pc_id_def split: option.splits)

text \<open>
  C32: However the calls of any number of operators interleave, no credential is lost to a shorter
  lived one, at no moment. In every state a schedule can reach, and from then on: an entry of the map is only
  ever replaced by one that lives at least as long; a call that has returned leaves an entry for its key that lives
  at least as long as its own; and the map holds nothing but what it started with and what the calls brought. Once
  no call can move, every call has returned.
\<close>
theorem cache_keeps_longest_lived:
  assumes "cache_step\<^sup>*\<^sup>* (cache_start m calls) t" and "cache_step\<^sup>*\<^sup>* t u"
  shows "(\<forall>k e. cs_map t k = Some e \<longrightarrow> (\<exists>e'. cs_map u k = Some e' \<and> expiry e \<le> expiry e'))
    \<and> (\<forall>k e. Returned k e \<in> set (cs_calls t) \<longrightarrow> (\<exists>e'. cs_map u k = Some e' \<and> expiry e \<le> expiry e'))
    \<and> (\<forall>k e. cs_map u k = Some e \<longrightarrow> m k = Some e \<or> (k, e) \<in> set calls)
    \<and> ((\<nexists>v. cache_step u v) \<longrightarrow> cs_calls u = map (\<lambda>(k, e). Returned k e) calls)"
proof -
  have run: "cache_step\<^sup>*\<^sup>* (cache_start m calls) u" using assms by simp
  have inv: "cache_inv t" "cache_inv u" using cache_run_inv [OF _ cache_start_inv] assms(1) run by blast+
  have grows: "\<exists>e'. cs_map u k = Some e' \<and> expiry e \<le> expiry e'" if "cs_map t k = Some e" for k e
    using cache_run_grows [OF assms(2) inv(1)] that by (auto simp: grows_map_alt less_eq_credEntry_def)
  have returned: "\<exists>e'. cs_map t k = Some e' \<and> expiry e \<le> expiry e'" if "Returned k e \<in> set (cs_calls t)" for k e
    using inv(1) that returned_call_ok [of "Returned k e" "cs_map t"]
    by (auto simp: cache_inv_def list_all_iff pc_id_def less_eq_credEntry_def)
  have ids: "map pc_id (cs_calls u) = calls"
    using cache_run_calls [OF run] by (simp add: cache_start_def comp_def pc_id_def case_prod_beta)
  have src: "cache_source m u" using cache_run_source [OF run] cache_start_source by blast
  have "cs_calls u = map (\<lambda>(k, e). Returned k e) calls" if "\<nexists>v. cache_step u v"
    unfolding ids [symmetric] map_map
  proof (rule map_idI [symmetric])
    fix x assume "x \<in> set (cs_calls u)"
    then have "returned x" using final_returned [OF that] by blast
    then show "((\<lambda>(k, e). Returned k e) \<circ> pc_id) x = x" by (cases x) (simp_all add: pc_id_def)
  qed
  moreover have "\<exists>e'. cs_map u k = Some e' \<and> expiry e \<le> expiry e'" if "Returned k e \<in> set (cs_calls t)" for k e
  proof -
    obtain e1 where "cs_map t k = Some e1" "expiry e \<le> expiry e1" using returned \<open>Returned k e \<in> set (cs_calls t)\<close> by blast
    then show ?thesis using grows [of k e1] by auto
  qed
  ultimately show ?thesis using grows src unfolding cache_source_def ids by (intro conjI allI impI) simp_all
qed

theorem cache_keeps_longest_lived_witness:
  "\<exists>t u. cache_step (cache_start [''k'' \<mapsto> CredEntry ''old'' 3] [(''k'', CredEntry ''token'' 7)]) t \<and> cache_step t u
     \<and> cs_map u ''k'' = Some (CredEntry ''token'' 7) \<and> cs_calls u = [Returned ''k'' (CredEntry ''token'' 7)]"
proof -
  let ?old = "CredEntry ''old'' 3" and ?e = "CredEntry ''token'' 7"
  let ?s = "cache_start [''k'' \<mapsto> ?old] [(''k'', ?e)]"
  let ?t = "\<lparr>cs_map = [''k'' \<mapsto> ?old], cs_calls = [AtCompareAndSwap ''k'' ?e ?old]\<rparr>"
  let ?u = "\<lparr>cs_map = [''k'' \<mapsto> ?e], cs_calls = [Returned ''k'' ?e]\<rparr>"
  have t: "cache_step ?s ?t"
    using cache_step.loaded [of 0 ?s "''k''" ?e ?old "[''k'' \<mapsto> ?old]"] by (simp add: cache_start_def map_LoadOrStore_def)
  have u: "cache_step ?t ?u"
    using cache_step.swapped [of 0 ?t "''k''" ?e ?old "[''k'' \<mapsto> ?e]"] by (simp add: map_CompareAndSwap_def)
  have "cache_step\<^sup>*\<^sup>* ?s ?u" using t u by simp
  from cache_keeps_longest_lived [OF this rtranclp.rtrancl_refl]
  have "\<exists>e'. cs_map ?u ''k'' = Some e' \<and> expiry ?e \<le> expiry e'" by simp
  then show ?thesis using t u by (intro exI [of _ ?t] exI [of _ ?u]) simp
qed

text \<open>
  C36: No schedule goes on forever. The retry of a lost compare-and-swap is always paid for by
  another call's progress, so the step relation is well-founded.
\<close>
theorem cache_schedules_terminate: "wf {(t, s). cache_step s t}"
  by (rule wf_subset [OF wf_measures]) (auto dest: cache_step_decreases)

end
