(* ===== verification/Urls.thy ===== *)
theory Urls
  imports Go_Prelude
begin

text \<open>
  The part of \<^verbatim>\<open>net/url\<close> the transport uses: parsing a URL into what stands before the query,
  the query and the fragment; reading, setting and encoding query parameters; printing the URL
  again. \<^verbatim>\<open>url.Parse\<close> refuses control characters and malformed escapes; its checks of the scheme
  and of the host are not modelled, because every host the program names is a constant, and the
  fragment is carried as written.
\<close>

section \<open>Escaping\<close>

definition hex_char :: "nat \<Rightarrow> char" where
  "hex_char d = (if d < 10 then char_of (48 + d) else char_of (55 + d))"

definition hex_value :: "char \<Rightarrow> nat option" where
  "hex_value c =
     (let n = of_char c :: nat in
      if 48 \<le> n \<and> n \<le> 57 then Some (n - 48)
      else if 97 \<le> n \<and> n \<le> 102 then Some (n - 87)
      else if 65 \<le> n \<and> n \<le> 70 then Some (n - 55)
      else None)"

definition unreserved :: "char \<Rightarrow> bool" where
  "unreserved c \<longleftrightarrow>
     (let n = of_char c :: nat in
      (97 \<le> n \<and> n \<le> 122) \<or> (65 \<le> n \<and> n \<le> 90) \<or> (48 \<le> n \<and> n \<le> 57) \<or>
      c = CHR ''-'' \<or> c = CHR ''_'' \<or> c = CHR ''.'' \<or> c = CHR ''~'')"

definition percent :: "char \<Rightarrow> string" where
  "percent c = [CHR ''%'', hex_char (of_char c div 16), hex_char (of_char c mod 16)]"

definition query_escape_char :: "char \<Rightarrow> string" where
  "query_escape_char c =
     (if c = CHR '' '' then ''+'' else if unreserved c then [c] else percent c)"

definition QueryEscape :: "string \<Rightarrow> string" where
  "QueryEscape s = concat (map query_escape_char s)"

text \<open>Unescaping; \<open>sp\<close> says whether \<open>+\<close> stands for a space, as it does in a query.\<close>

fun unescape :: "bool \<Rightarrow> string \<Rightarrow> string option" where
  "unescape sp [] = Some []"
| "unescape sp (c # s) =
     (if c = CHR ''%'' then
        (case s of
           h # l # t \<Rightarrow>
             (case (hex_value h, hex_value l) of
                (Some a, Some b) \<Rightarrow> map_option ((#) (char_of (16 * a + b))) (unescape sp t)
              | _ \<Rightarrow> None)
         | _ \<Rightarrow> None)
      else map_option ((#) (if sp \<and> c = CHR ''+'' then CHR '' '' else c)) (unescape sp s))"

definition path_kept :: "char \<Rightarrow> bool" where
  "path_kept c \<longleftrightarrow> unreserved c \<or> c \<in> set ''$&+,/:;=@''"

definition path_valid :: "char \<Rightarrow> bool" where
  "path_valid c \<longleftrightarrow> path_kept c \<or> c \<in> set ''!()*[]%'' \<or> c = CHR 0x27"

definition path_escape :: "string \<Rightarrow> string" where
  "path_escape s = concat (map (\<lambda>c. if path_kept c then [c] else percent c) s)"

section \<open>Queries\<close>

type_synonym url_values = "(string \<times> string list) list"

text \<open>One segment between ampersands: a pair, or nothing for one that is empty or malformed.\<close>

definition parse_pair :: "string \<Rightarrow> (string \<times> string) list" where
  "parse_pair seg =
     (if CHR '';'' \<in> set seg \<or> seg = [] then []
      else let k = takeWhile (\<lambda>c. c \<noteq> CHR ''='') seg;
               v = tl (dropWhile (\<lambda>c. c \<noteq> CHR ''='') seg)
           in case (unescape True k, unescape True v) of
                (Some k', Some v') \<Rightarrow> [(k', v')] | _ \<Rightarrow> [])"

definition add_value :: "url_values \<Rightarrow> string \<times> string \<Rightarrow> url_values" where
  "add_value q kv =
     AList.update (fst kv) ((case map_of q (fst kv) of None \<Rightarrow> [] | Some vs \<Rightarrow> vs) @ [snd kv]) q"

definition query_pairs :: "string \<Rightarrow> (string \<times> string) list" where
  "query_pairs q = concat (map parse_pair (Split q CHR ''&''))"

definition ParseQuery :: "string \<Rightarrow> url_values" where
  "ParseQuery q = foldl add_value [] (query_pairs q)"

definition flat_values :: "url_values \<Rightarrow> (string \<times> string) list" where
  "flat_values q = concat (map (\<lambda>(k, vs). map (Pair k) vs) (sort_key fst q))"

definition pair_text :: "string \<times> string \<Rightarrow> string" where
  "pair_text kv = QueryEscape (fst kv) @ ''='' @ QueryEscape (snd kv)"

definition Encode :: "url_values \<Rightarrow> string" where
  "Encode q = Join (map pair_text (flat_values q)) ''&''"

section \<open>URLs\<close>

record url =
  u_base :: string
  u_query :: string
  u_force :: bool
  u_fragment :: string

definition control_char :: "char \<Rightarrow> bool" where
  "control_char c \<longleftrightarrow> (of_char c :: nat) < 32 \<or> (of_char c :: nat) = 127"

definition before :: "char \<Rightarrow> string \<Rightarrow> string" where
  "before c s = takeWhile (\<lambda>x. x \<noteq> c) s"

definition after :: "char \<Rightarrow> string \<Rightarrow> string" where
  "after c s = tl (dropWhile (\<lambda>x. x \<noteq> c) s)"

text \<open>The path as \<^verbatim>\<open>EscapedPath\<close> prints it: as written when that is a valid encoding.\<close>

definition normal_base :: "string \<Rightarrow> string \<Rightarrow> string" where
  "normal_base written plain = (if list_all path_valid written then written else path_escape plain)"

definition Parse :: "string \<Rightarrow> url option" where
  "Parse s =
     (let rest = before CHR ''#'' s; base = before CHR ''?'' rest
      in if list_ex control_char rest then None
         else case unescape False base of
           None \<Rightarrow> None
         | Some plain \<Rightarrow> Some \<lparr>u_base = normal_base base plain, u_query = after CHR ''?'' rest,
                               u_force = (CHR ''?'' \<in> set rest \<and> after CHR ''?'' rest = []),
                               u_fragment = after CHR ''#'' s\<rparr>)"

definition url_string :: "url \<Rightarrow> string" where
  "url_string u =
     u_base u @ (if u_query u = [] \<and> \<not> u_force u then [] else ''?'' @ u_query u)
              @ (if u_fragment u = [] then [] else ''#'' @ u_fragment u)"

text \<open>\<^verbatim>\<open>Query().Set(key, value)\<close>.\<close>

definition set_value :: "url_values \<Rightarrow> string \<times> string \<Rightarrow> url_values" where
  "set_value q kv = AList.update (fst kv) [snd kv] q"

section \<open>Escaping and unescaping\<close>

lemma hex_value_hex_char [simp]: "d < 16 \<Longrightarrow> hex_value (hex_char d) = Some d"
  by (auto simp: hex_value_def hex_char_def Let_def)

lemma unreserved_not_special [simp]:
  "\<not> unreserved CHR ''%''" "\<not> unreserved CHR ''+''" "\<not> unreserved CHR ''&''"
  "\<not> unreserved CHR ''=''" "\<not> unreserved CHR '';''" "\<not> unreserved CHR ''#''"
  "\<not> unreserved CHR ''?''" "\<not> unreserved CHR '' ''"
  by (simp_all add: unreserved_def)

lemma char_div_16: "(of_char c :: nat) div 16 < 16"
  using nat_of_char_less_256 [of c] by (intro less_mult_imp_div_less) simp

lemma unescape_percent:
  "unescape sp (percent c @ s) = map_option ((#) c) (unescape sp s)"
proof -
  have "(of_char c :: nat) div 16 < 16" "(of_char c :: nat) mod 16 < 16" by (simp_all add: char_div_16)
  then show ?thesis by (simp add: percent_def)
qed

lemma unescape_escape_char:
  "unescape True (query_escape_char c @ s) = map_option ((#) c) (unescape True s)"
  by (auto simp: query_escape_char_def unescape_percent)

lemma unescape_QueryEscape: "unescape True (QueryEscape s) = Some s"
  by (induction s) (auto simp: QueryEscape_def unescape_escape_char)

lemma hex_char_unreserved: "d < 16 \<Longrightarrow> unreserved (hex_char d)"
  by (auto simp: unreserved_def hex_char_def Let_def)

lemma query_escape_char_set:
  assumes "x \<in> set (query_escape_char c)"
  shows "unreserved x \<or> x = CHR ''%'' \<or> x = CHR ''+''"
  using assms hex_char_unreserved [OF char_div_16 [of c]] hex_char_unreserved [of "of_char c mod 16"]
  by (auto simp: query_escape_char_def percent_def split: if_splits)

lemma QueryEscape_set:
  "x \<in> set (QueryEscape s) \<Longrightarrow> unreserved x \<or> x = CHR ''%'' \<or> x = CHR ''+''"
  by (auto simp: QueryEscape_def dest: query_escape_char_set)

lemma QueryEscape_clean [simp]:
  "CHR ''='' \<notin> set (QueryEscape s)" "CHR ''&'' \<notin> set (QueryEscape s)"
  "CHR '';'' \<notin> set (QueryEscape s)" "CHR ''#'' \<notin> set (QueryEscape s)"
  "CHR ''?'' \<notin> set (QueryEscape s)"
  by (auto dest: QueryEscape_set)

lemma pair_text_clean [simp]:
  "CHR ''&'' \<notin> set (pair_text kv)" "CHR '';'' \<notin> set (pair_text kv)" "pair_text kv \<noteq> []"
  "CHR ''#'' \<notin> set (pair_text kv)"
  by (auto simp: pair_text_def)

lemma parse_pair_text: "parse_pair (pair_text kv) = [kv]"
proof -
  have "takeWhile (\<lambda>c. c \<noteq> CHR ''='') (pair_text kv) = QueryEscape (fst kv)"
    "tl (dropWhile (\<lambda>c. c \<noteq> CHR ''='') (pair_text kv)) = QueryEscape (snd kv)"
    by (simp_all add: pair_text_def)
  then show ?thesis by (simp add: parse_pair_def unescape_QueryEscape)
qed

lemma query_pairs_Encode: "query_pairs (Encode q) = flat_values q"
proof (cases "flat_values q = []")
  case True
  then show ?thesis by (simp add: Encode_def query_pairs_def parse_pair_def)
next
  case False
  then have "Split (Join (map pair_text (flat_values q)) ''&'') CHR ''&'' = map pair_text (flat_values q)"
    by (intro Split_Join) auto
  then show ?thesis by (simp add: query_pairs_def Encode_def comp_def parse_pair_text)
qed

section \<open>Lookup after a round trip\<close>

definition values_of :: "url_values \<Rightarrow> string \<Rightarrow> string list" where
  "values_of q k = (case map_of q k of None \<Rightarrow> [] | Some vs \<Rightarrow> vs)"

lemma values_of_add_value:
  "values_of (add_value q kv) k = values_of q k @ (if k = fst kv then [snd kv] else [])"
  by (auto simp: values_of_def add_value_def AList.update_conv')

lemma values_of_foldl:
  "values_of (foldl add_value q ps) k = values_of q k @ map snd (filter (\<lambda>p. fst p = k) ps)"
  by (induction ps arbitrary: q) (auto simp: values_of_add_value)

lemma filter_flat: "distinct (map fst q) \<Longrightarrow>
    map snd (filter (\<lambda>p. fst p = k) (concat (map (\<lambda>(k, vs). map (Pair k) vs) q))) = values_of q k"
proof (induction q)
  case Nil
  then show ?case by (simp add: values_of_def)
next
  case (Cons a q)
  obtain j vs where a: "a = (j, vs)" by (cases a)
  have mine: "map snd (filter (\<lambda>p. fst p = k) (map (Pair j) vs)) = (if j = k then vs else [])"
    by (auto simp: filter_map comp_def)
  from Cons.prems a have "map_of q j = None" by (simp add: map_of_eq_None_iff)
  with mine Cons a show ?case by (auto simp: values_of_def)
qed

lemma map_of_sort_key: "distinct (map fst q) \<Longrightarrow> map_of (sort_key fst q) = map_of q"
  by (rule map_of_inject_set [THEN iffD2]) (auto simp: distinct_map inj_on_def)

lemma values_ParseQuery_Encode:
  assumes "distinct (map fst q)"
  shows "values_of (ParseQuery (Encode q)) k = values_of q k"
proof -
  have d: "distinct (map fst (sort_key fst q))"
    using assms by (simp add: distinct_map inj_on_def)
  have "values_of (sort_key fst q) k = values_of q k"
    using assms by (simp add: values_of_def map_of_sort_key)
  with filter_flat [OF d, of k] show ?thesis
    unfolding ParseQuery_def query_pairs_Encode values_of_foldl flat_values_def
    by (simp add: values_of_def [of "[]"])
qed

lemma distinct_add_value: "distinct (map fst q) \<Longrightarrow> distinct (map fst (add_value q kv))"
  by (simp add: add_value_def distinct_update)

lemma distinct_ParseQuery: "distinct (map fst (ParseQuery s))"
proof -
  have "distinct (map fst q) \<Longrightarrow> distinct (map fst (foldl add_value q ps))" for q ps
    by (induction ps arbitrary: q) (auto simp: distinct_add_value)
  from this [of "[]"] show ?thesis by (simp add: ParseQuery_def)
qed

lemma distinct_set_value: "distinct (map fst q) \<Longrightarrow> distinct (map fst (set_value q kv))"
  by (simp add: set_value_def distinct_update)

lemma values_of_set_value:
  "values_of (set_value q kv) k = (if k = fst kv then [snd kv] else values_of q k)"
  by (simp add: values_of_def set_value_def AList.update_conv')

section \<open>Printing and parsing back\<close>

lemma unescape_cong_kept:
  "c \<noteq> CHR ''%'' \<Longrightarrow> unescape False (c # s) = map_option ((#) c) (unescape False s)"
  by simp

lemma path_kept_not_percent: "path_kept c \<Longrightarrow> c \<noteq> CHR ''%''"
  by (auto simp: path_kept_def)

lemma unescape_path_escape: "unescape False (path_escape s) = Some s"
proof (induction s)
  case Nil
  then show ?case by (simp add: path_escape_def)
next
  case (Cons c s)
  have "path_escape (c # s) = (if path_kept c then [c] else percent c) @ path_escape s"
    by (simp add: path_escape_def)
  with Cons show ?case by (auto simp: unescape_percent dest: path_kept_not_percent)
qed

lemma percent_valid: "list_all path_valid (percent c)"
  using hex_char_unreserved [OF char_div_16 [of c]] hex_char_unreserved [of "of_char c mod 16"]
  by (simp add: percent_def path_valid_def path_kept_def)

lemma path_kept_valid: "path_kept c \<Longrightarrow> path_valid c"
  by (simp add: path_valid_def)

lemma path_escape_valid: "list_all path_valid (path_escape s)"
  by (induction s) (auto simp: path_escape_def percent_valid path_kept_valid)

lemma normal_base_valid: "list_all path_valid (normal_base b p)"
  by (simp add: normal_base_def path_escape_valid)

lemma normal_base_unescape: "unescape False b = Some p \<Longrightarrow> unescape False (normal_base b p) = Some p"
  by (simp add: normal_base_def unescape_path_escape)

lemma unreserved_clean: "unreserved c \<Longrightarrow> \<not> control_char c \<and> c \<noteq> CHR ''#'' \<and> c \<noteq> CHR ''?''"
  by (auto simp: unreserved_def control_char_def Let_def)

lemma path_valid_clean: "path_valid c \<Longrightarrow> \<not> control_char c \<and> c \<noteq> CHR ''#'' \<and> c \<noteq> CHR ''?''"
  by (auto simp: path_valid_def path_kept_def control_char_def dest: unreserved_clean)

definition query_clean :: "string \<Rightarrow> bool" where
  "query_clean q \<longleftrightarrow> CHR ''#'' \<notin> set q \<and> \<not> list_ex control_char q"

lemma query_clean_append [simp]: "query_clean (a @ b) \<longleftrightarrow> query_clean a \<and> query_clean b"
  by (auto simp: query_clean_def)

lemma query_clean_escape: "query_clean (QueryEscape s)"
  by (auto simp: query_clean_def list_ex_iff control_char_def dest!: QueryEscape_set
      dest: unreserved_clean)

lemma query_clean_pair: "query_clean (pair_text kv)"
proof -
  have "query_clean ''=''" by (simp add: query_clean_def control_char_def)
  then show ?thesis using query_clean_escape unfolding pair_text_def query_clean_append by blast
qed

lemma query_clean_Join: "list_all query_clean ss \<Longrightarrow> query_clean (Join ss ''&'')"
proof (induction ss rule: induct_list012)
  case (3 s t ss)
  then show ?case by (simp add: query_clean_def control_char_def)
qed (simp_all add: query_clean_def)

lemma query_clean_Encode: "query_clean (Encode q)"
  by (auto simp: Encode_def list_all_iff query_clean_pair intro!: query_clean_Join)

lemma before_append: "c \<notin> set a \<Longrightarrow> before c (a @ c # s) = a" "c \<notin> set a \<Longrightarrow> before c a = a"
  by (auto simp: before_def takeWhile_eq_all_conv)

lemma dropWhile_neq_all: "c \<notin> set a \<Longrightarrow> dropWhile (\<lambda>x. x \<noteq> c) a = []"
  by (induction a) auto

lemma after_append: "c \<notin> set a \<Longrightarrow> after c (a @ c # s) = s" "c \<notin> set a \<Longrightarrow> after c a = []"
  by (simp_all add: after_def dropWhile_neq_all)

text \<open>A parsed URL whose query is replaced by a clean one prints to a text that parses back.\<close>

lemma Parse_url_string:
  assumes u: "Parse raw = Some u" and q: "query_clean q" "q \<noteq> []"
  shows "Parse (url_string (u\<lparr>u_query := q\<rparr>)) = Some (u\<lparr>u_query := q, u_force := False\<rparr>)"
proof -
  obtain b p where base: "u_base u = normal_base b p" and p: "unescape False b = Some p"
    using u by (auto simp: Parse_def Let_def split: if_splits option.splits)
  define n where "n = normal_base b p"
  have v: "list_all path_valid n" by (simp add: n_def normal_base_valid)
  then have n: "CHR ''#'' \<notin> set n" "CHR ''?'' \<notin> set n" "\<not> list_ex control_char n"
    by (auto simp: list_all_iff list_ex_iff dest: path_valid_clean)
  have nb: "normal_base n p = n" using v by (simp add: normal_base_def)
  define rest where "rest = n @ CHR ''?'' # q"
  have r: "CHR ''#'' \<notin> set rest" "\<not> list_ex control_char rest"
    using n q by (auto simp: rest_def query_clean_def control_char_def)
  have "url_string (u\<lparr>u_query := q\<rparr>)
      = rest @ (if u_fragment u = [] then [] else CHR ''#'' # u_fragment u)"
    using q base by (simp add: url_string_def rest_def n_def)
  moreover have "before CHR ''#'' (rest @ (if u_fragment u = [] then [] else CHR ''#'' # u_fragment u)) = rest"
    "after CHR ''#'' (rest @ (if u_fragment u = [] then [] else CHR ''#'' # u_fragment u)) = u_fragment u"
    using r by (simp_all add: before_append after_append)
  moreover have "before CHR ''?'' rest = n" "after CHR ''?'' rest = q"
    using n by (simp_all add: rest_def before_append after_append)
  ultimately show ?thesis
    using r q normal_base_unescape [OF p] nb base by (simp add: Parse_def Let_def n_def)
qed

end
