(* ===== verification/Transport.thy ===== *)
theory Transport
  imports Config Urls
begin

text \<open>
  The HTTP transport: \<^verbatim>\<open>src/pkg/transport/transport.go\<close> and
  \<^verbatim>\<open>src/pkg/transport/operation.go\<close>.

  A request goes out through \<open>env_http_do\<close> and comes back as a response whose body has been
  read; \<open>env_check_response\<close> is \<^verbatim>\<open>googleapi.CheckResponse\<close>. A refresh of a token by the HTTP
  client happens inside \<open>env_http_do\<close>.
\<close>

section \<open>transport.go\<close>

record Client =
  cl_config :: Config
  cl_userAgent :: string

definition DefaultUserAgent :: string where
  "DefaultUserAgent = ''formae-gcp-plugin/1.0''"

definition DefaultRequestTimeout :: int where
  "DefaultRequestTimeout = 5 * 60 * 1000000000"

definition NewClient ::
    "'w env \<Rightarrow> Config option \<Rightarrow> 'w machine \<Rightarrow> (goerr + Client) \<times> 'w machine" where
  "NewClient E cfg s =
     (case cfg of
        None \<Rightarrow> (Inl (ErrText ''config cannot be nil''), s)
      | Some c \<Rightarrow>
          (case ToClientOptions E c s of
             (Inl e, s1) \<Rightarrow> (Inl (errorf_w ''failed to create client options: '' e), s1)
           | (Inr opts, s1) \<Rightarrow>
               (case env_http_new E opts of
                  Some e \<Rightarrow> (Inl (errorf_w ''failed to create HTTP client: '' e), s1)
                | None \<Rightarrow> (Inr \<lparr>cl_config = c, cl_userAgent = DefaultUserAgent\<rparr>, s1))))"

record RequestOptions =
  ro_Method :: string
  ro_URL :: string
  ro_Body :: "obj option"
  ro_Headers :: "(string \<times> string) list"
  ro_Timeout :: int
  ro_RawBody :: "string option"
  ro_ContentType :: string

text \<open>A literal that names the method, the URL and the body only.\<close>

definition request_options :: "string \<Rightarrow> string \<Rightarrow> obj option \<Rightarrow> RequestOptions" where
  "request_options method url body =
     \<lparr>ro_Method = method, ro_URL = url, ro_Body = body, ro_Headers = [], ro_Timeout = 0,
      ro_RawBody = None, ro_ContentType = []\<rparr>"

record Response =
  rs_StatusCode :: int
  rs_Body :: "obj option"
  rs_Headers :: "(string \<times> string) list"

text \<open>The error of \<^verbatim>\<open>url.Parse\<close>; which escape it complains about is not reproduced.\<close>

definition parse_error :: "string \<Rightarrow> goerr" where
  "parse_error s =
     errorf_w (''parse '' @ quoted s @ '': '')
       (ErrText (if list_ex control_char (before CHR ''#'' s)
                 then ''net/url: invalid control character in URL'' else ''invalid URL escape''))"

definition AddQueryParam :: "string \<Rightarrow> string \<Rightarrow> string \<Rightarrow> goerr + string" where
  "AddQueryParam rawURL key value =
     (case Parse rawURL of
        None \<Rightarrow> Inl (parse_error rawURL)
      | Some u \<Rightarrow> Inr (url_string (u\<lparr>u_query := Encode (set_value (ParseQuery (u_query u)) (key, value))\<rparr>)))"

definition AddQueryParams :: "string \<Rightarrow> (string \<times> string) list \<Rightarrow> goerr + string" where
  "AddQueryParams rawURL params =
     (case Parse rawURL of
        None \<Rightarrow> Inl (parse_error rawURL)
      | Some u \<Rightarrow> Inr (url_string (u\<lparr>u_query := Encode (foldl set_value (ParseQuery (u_query u)) params)\<rparr>)))"

text \<open>The characters \<^verbatim>\<open>http.NewRequest\<close> allows in a method; the empty method means GET.\<close>

definition method_char :: "char \<Rightarrow> bool" where
  "method_char c \<longleftrightarrow>
     (let n = of_char c :: nat in
      (97 \<le> n \<and> n \<le> 122) \<or> (65 \<le> n \<and> n \<le> 90) \<or> (48 \<le> n \<and> n \<le> 57) \<or>
      c \<in> set ''!#$%&*+-.^_`|~'' \<or> c = CHR 0x27)"

definition new_request ::
    "string \<Rightarrow> string \<Rightarrow> req_body \<Rightarrow> (string \<times> string) list \<Rightarrow> goerr + http_request" where
  "new_request method url body headers =
     (if \<not> list_all method_char method
      then Inl (ErrText (''net/http: invalid method '' @ quoted method))
      else case Parse url of
        None \<Rightarrow> Inl (parse_error url)
      | Some u \<Rightarrow> Inr \<lparr>hq_Method = (if method = [] then ''GET'' else method), hq_URL = url,
                        hq_Headers = headers, hq_Body = body\<rparr>)"

definition project_header :: "Client \<Rightarrow> (string \<times> string) list \<Rightarrow> (string \<times> string) list" where
  "project_header c hs =
     (if c_Project (cl_config c) \<noteq> [] then AList.update ''X-Goog-User-Project'' (c_Project (cl_config c)) hs else hs)"

definition request_headers :: "Client \<Rightarrow> RequestOptions \<Rightarrow> (string \<times> string) list" where
  "request_headers c opts =
     project_header c
       (AList.update ''Content-Type''
         (if ro_ContentType opts \<noteq> [] then ro_ContentType opts else ''application/json'')
         (AList.update ''User-Agent'' (cl_userAgent c) (ro_Headers opts)))"

definition request_body :: "RequestOptions \<Rightarrow> goerr + req_body" where
  "request_body opts =
     (case ro_RawBody opts of
        Some bytes \<Rightarrow> Inr (RawBytes bytes)
      | None \<Rightarrow>
          (case ro_Body opts of
             None \<Rightarrow> Inr NoBody
           | Some m \<Rightarrow>
               (case Marshal (JObj m) of
                  Inl e \<Rightarrow> Inl (errorf_w ''failed to marshal body: '' (ErrText e))
                | Inr r \<Rightarrow> Inr (JsonBody r))))"

text \<open>The decoder reports the end of an empty body as \<^verbatim>\<open>EOF\<close>.\<close>

definition decode_body :: "raw \<Rightarrow> string + obj option" where
  "decode_body r = (if r = RawNil then Inl ''EOF'' else unmarshal_map r)"

definition reauth_message :: string where
  "reauth_message =
     ''GCP reauth required: Workspace org reauth policy returned `invalid_rapt`. ''
     @ ''Re-authenticate with `gcloud auth application-default login`, or switch to a ''
     @ ''service account by setting GOOGLE_APPLICATION_CREDENTIALS '' @ [CHR 0xE2, CHR 0x80, CHR 0x94]
     @ '' service accounts '' @ ''are not subject to reauth policies''"

definition log_reauth :: "goerr \<Rightarrow> http_request \<Rightarrow> 'w machine \<Rightarrow> 'w machine" where
  "log_reauth e req s =
     (if isReauthError (Some e)
      then log_add (''WARN'', reauth_message,
             [(''err'', err_text e), (''url'', hq_URL req), (''method'', hq_Method req)]) s
      else s)"

definition SendRequest ::
    "'w env \<Rightarrow> Client \<Rightarrow> RequestOptions \<Rightarrow> 'w machine \<Rightarrow> (goerr + Response) \<times> 'w machine" where
  "SendRequest E c opts s =
     (case request_body opts of
        Inl e \<Rightarrow> (Inl e, s)
      | Inr body \<Rightarrow>
     (case AddQueryParam (ro_URL opts) ''alt'' ''json'' of
        Inl e \<Rightarrow> (Inl (errorf_w ''failed to add query param: '' e), s)
      | Inr requestURL \<Rightarrow>
     (case new_request (ro_Method opts) requestURL body (request_headers c opts) of
        Inl e \<Rightarrow> (Inl (errorf_w ''failed to create request: '' e), s)
      | Inr req \<Rightarrow>
     (case env_http_do E (m_world s) req of
        (Inl e, w) \<Rightarrow> (Inl (errorf_w ''request failed: '' e), log_reauth e req (s\<lparr>m_world := w\<rparr>))
      | (Inr response, w) \<Rightarrow>
          (case env_check_response E response of
             Some e \<Rightarrow> Inl e
           | None \<Rightarrow>
               if hr_StatusCode response = 204
               then Inr \<lparr>rs_StatusCode = 204, rs_Body = None, rs_Headers = hr_Headers response\<rparr>
               else case decode_body (hr_Body response) of
                 Inl e \<Rightarrow> Inl (errorf_w ''failed to decode response: '' (ErrText e))
               | Inr m \<Rightarrow> Inr \<lparr>rs_StatusCode = hr_StatusCode response, rs_Body = m,
                               rs_Headers = hr_Headers response\<rparr>,
           s\<lparr>m_world := w\<rparr>)))))"

definition SendRaw ::
    "'w env \<Rightarrow> Client \<Rightarrow> RequestOptions \<Rightarrow> 'w machine \<Rightarrow> (goerr + raw) \<times> 'w machine" where
  "SendRaw E c opts s =
     (case new_request (ro_Method opts) (ro_URL opts) NoBody
             (project_header c (AList.update ''User-Agent'' (cl_userAgent c) (ro_Headers opts))) of
        Inl e \<Rightarrow> (Inl (errorf_w ''failed to create request: '' e), s)
      | Inr req \<Rightarrow>
     (case env_http_do E (m_world s) req of
        (Inl e, w) \<Rightarrow> (Inl (errorf_w ''request failed: '' e), s\<lparr>m_world := w\<rparr>)
      | (Inr response, w) \<Rightarrow>
          (case env_check_response E response of
             Some e \<Rightarrow> Inl e
           | None \<Rightarrow> Inr (hr_Body response),
           s\<lparr>m_world := w\<rparr>)))"

section \<open>operation.go\<close>

definition DefaultOperationTimeout :: int where
  "DefaultOperationTimeout = 10 * 60 * 1000000000"

definition DefaultOperationPollInterval :: int where
  "DefaultOperationPollInterval = 5 * 1000000000"

record OperationError =
  oe_Code :: int
  oe_Message :: string

record GcpOperation =
  op_Name :: string
  op_Done :: bool
  op_Error :: "OperationError option"
  op_Status :: string

record OperationWaiter =
  ow_client :: Client
  ow_opName :: string
  ow_getURL :: string
  ow_timeout :: int
  ow_interval :: int

definition NewOperationWaiter :: "Client \<Rightarrow> string \<Rightarrow> string \<Rightarrow> OperationWaiter" where
  "NewOperationWaiter client opName getURL =
     \<lparr>ow_client = client, ow_opName = opName, ow_getURL = getURL,
      ow_timeout = DefaultOperationTimeout, ow_interval = DefaultOperationPollInterval\<rparr>"

definition WithTimeout :: "OperationWaiter \<Rightarrow> int \<Rightarrow> OperationWaiter" where
  "WithTimeout w d = w\<lparr>ow_timeout := d\<rparr>"

definition WithPollInterval :: "OperationWaiter \<Rightarrow> int \<Rightarrow> OperationWaiter" where
  "WithPollInterval w d = w\<lparr>ow_interval := d\<rparr>"

text \<open>The operation a response body describes; fields of another type keep their default.\<close>

definition parse_operation :: "string \<Rightarrow> obj \<Rightarrow> GcpOperation" where
  "parse_operation opName body =
     \<lparr>op_Name = (case as_string (map_of body ''name'') of Some n \<Rightarrow> n | None \<Rightarrow> opName),
      op_Done = (case as_bool (map_of body ''done'') of Some d \<Rightarrow> d | None \<Rightarrow> False),
      op_Error =
        (case as_obj (map_of body ''error'') of
           None \<Rightarrow> None
         | Some e \<Rightarrow> Some \<lparr>oe_Code = (case map_of e ''code'' of
                                        Some (JNum m k) \<Rightarrow> float_to_int64 m k | _ \<Rightarrow> 0),
                          oe_Message = string_or_empty (as_string (map_of e ''message''))\<rparr>),
      op_Status = string_or_empty (as_string (map_of body ''status''))\<rparr>"

definition queryOperation ::
    "'w env \<Rightarrow> OperationWaiter \<Rightarrow> 'w machine \<Rightarrow> (goerr + GcpOperation) \<times> 'w machine" where
  "queryOperation E w s =
     (case SendRequest E (ow_client w)
             ((request_options ''GET'' (ow_getURL w) None)\<lparr>ro_Timeout := 30 * 1000000000\<rparr>) s of
        (Inl e, s1) \<Rightarrow> (Inl e, s1)
      | (Inr resp, s1) \<Rightarrow>
          (case rs_Body resp of
             None \<Rightarrow> (Inl (ErrText ''empty response body''), s1)
           | Some body \<Rightarrow> (Inr (parse_operation (ow_opName w) body), s1)))"

text \<open>What \<^verbatim>\<open>%v\<close> prints for a duration.\<close>

definition fraction :: "nat \<Rightarrow> nat \<Rightarrow> string" where
  "fraction v digits =
     (let ds = nat_string v;
          padded = zeros (digits - length ds) @ ds;
          kept = rev (dropWhile (\<lambda>c. c = CHR ''0'') (rev padded))
      in if kept = [] then [] else CHR ''.'' # kept)"

definition duration_string :: "int \<Rightarrow> string" where
  "duration_string d =
     (let u = nat \<bar>d\<bar>; secs = u div 1000000000; sign = (if d < 0 then ''-'' else []);
          tail = nat_string (secs mod 60) @ fraction (u mod 1000000000) 9 @ ''s''
      in if u = 0 then ''0s''
         else if u < 1000 then sign @ nat_string u @ ''ns''
         else if u < 1000000
           then sign @ nat_string (u div 1000) @ fraction (u mod 1000) 3 @ [CHR 0xC2, CHR 0xB5] @ ''s''
         else if u < 1000000000 then sign @ nat_string (u div 1000000) @ fraction (u mod 1000000) 6 @ ''ms''
         else if secs < 60 then sign @ tail
         else if secs < 3600 then sign @ nat_string (secs div 60) @ ''m'' @ tail
         else sign @ nat_string (secs div 3600) @ ''h'' @ nat_string (secs div 60 mod 60) @ ''m'' @ tail)"

definition op_failed :: "ErrorCode \<Rightarrow> string \<Rightarrow> OperationResult" where
  "op_failed c m = \<lparr>or_Status = TStatusFailure, or_Error = c, or_Message = m\<rparr>"

definition op_result :: "TransportStatus \<Rightarrow> string \<Rightarrow> OperationResult" where
  "op_result st m = \<lparr>or_Status = st, or_Error = ErrorCodeNone, or_Message = m\<rparr>"

text \<open>The loop of \<^verbatim>\<open>Wait\<close>; \<^const>\<open>None\<close> is the value of a loop that never ends.\<close>

partial_function (option) wait_loop ::
    "'w env \<Rightarrow> OperationWaiter \<Rightarrow> int \<Rightarrow> 'w machine
      \<Rightarrow> ((OperationResult \<times> goerr option) \<times> 'w machine) option" where
  "wait_loop E w deadline s =
     (if deadline < env_clock E (m_world s) then
        Some ((op_failed ErrorCodeTimeout
                 (''operation '' @ ow_opName w @ '' timed out after '' @ duration_string (ow_timeout w)),
               Some (ErrText ''operation timed out'')), s)
      else case env_ctx_err E (m_world s) of
        Some e \<Rightarrow> Some ((op_failed ErrorCodeCancelled ''operation cancelled'', Some e), s)
      | None \<Rightarrow>
          (case queryOperation E w s of
             (Inl err, s1) \<Rightarrow>
               if ClassifyError (Some err) = ErrorCodeResourceNotFound
               then wait_loop E w deadline (s1\<lparr>m_world := env_sleep E (m_world s1) (ow_interval w)\<rparr>)
               else Some ((op_failed (ClassifyError (Some err))
                             (''failed to query operation: '' @ err_text err), Some err), s1)
           | (Inr op, s1) \<Rightarrow>
               if op_Done op then
                 (case op_Error op of
                    Some oe \<Rightarrow>
                      Some ((op_failed ErrorCodeUnknown (''operation failed: '' @ oe_Message oe),
                             Some (ErrText (''operation error: code='' @ Itoa (oe_Code oe)
                                              @ '', message='' @ oe_Message oe))), s1)
                  | None \<Rightarrow>
                      Some ((op_result TStatusSuccess ''operation completed successfully'', None), s1))
               else
                 (case env_select_after E (m_world s1) (ow_interval w) of
                    (Some e, w2) \<Rightarrow>
                      Some ((op_failed ErrorCodeCancelled ''operation cancelled'', Some e),
                            s1\<lparr>m_world := w2\<rparr>)
                  | (None, w2) \<Rightarrow> wait_loop E w deadline (s1\<lparr>m_world := w2\<rparr>))))"

definition Wait ::
    "'w env \<Rightarrow> OperationWaiter \<Rightarrow> 'w machine
      \<Rightarrow> ((OperationResult \<times> goerr option) \<times> 'w machine) option" where
  "Wait E w s = wait_loop E w (env_clock E (m_world s) + ow_timeout w) s"

definition ExtractOperationURL :: "obj \<Rightarrow> string \<Rightarrow> goerr + string" where
  "ExtractOperationURL response baseURL =
     (let selfLink = string_or_empty (as_string (map_of response ''selfLink''));
          name = string_or_empty (as_string (map_of response ''name''))
      in if selfLink \<noteq> [] then Inr selfLink
         else if name \<noteq> [] then Inr (if baseURL \<noteq> [] then baseURL @ ''/'' @ name else name)
         else Inl (ErrText ''no operation URL found in response''))"

definition operation_error_text :: "obj \<Rightarrow> string" where
  "operation_error_text e =
     (case as_string (map_of e ''message'') of Some m \<Rightarrow> m | None \<Rightarrow> ''unknown error'')"

definition ParseOperationResponse :: "obj option \<Rightarrow> OperationResult \<times> goerr option" where
  "ParseOperationResponse response =
     (case response of
        None \<Rightarrow> (op_failed ErrorCodeUnknown ''empty operation response'', Some (ErrText ''empty response''))
      | Some body \<Rightarrow>
          (let failed = (\<lambda>e. (op_failed ErrorCodeUnknown (operation_error_text e),
                              Some (ErrText (''operation error: '' @ operation_error_text e))))
           in case as_bool (map_of body ''done'') of
                None \<Rightarrow>
                  (case as_obj (map_of body ''error'') of
                     Some e \<Rightarrow> failed e
                   | None \<Rightarrow> (op_result TStatusSuccess ''operation completed'', None))
              | Some False \<Rightarrow> (op_result TStatusInProgress ''operation in progress'', None)
              | Some True \<Rightarrow>
                  (case as_obj (map_of body ''error'') of
                     Some e \<Rightarrow> failed e
                   | None \<Rightarrow> (op_result TStatusSuccess ''operation completed successfully'', None))))"

section \<open>Query parameters\<close>

lemma set_value_nonempty: "set_value q kv \<noteq> []"
  by (cases q) (auto simp: set_value_def)

lemma flat_values_set_value: "flat_values (set_value q kv) \<noteq> []"
proof -
  have "(fst kv, [snd kv]) \<in> set (sort_key fst (set_value q kv))"
    using map_of_SomeD [of "set_value q kv" "fst kv" "[snd kv]"]
    by (simp add: set_value_def update_conv')
  then show ?thesis by (force simp: flat_values_def)
qed

lemma Join_nonempty: "ss \<noteq> [] \<Longrightarrow> (\<And>x. x \<in> set ss \<Longrightarrow> x \<noteq> []) \<Longrightarrow> Join ss sep \<noteq> []"
  by (induction ss rule: induct_list012) auto

lemma Encode_set_value_nonempty: "Encode (set_value q kv) \<noteq> []"
  unfolding Encode_def using flat_values_set_value [of q kv] by (intro Join_nonempty) auto

lemma query_param_set:
  assumes "AddQueryParam rawURL key value = Inr result"
  shows "\<exists>u u'. Parse rawURL = Some u \<and> Parse result = Some u'
     \<and> u_base u' = u_base u \<and> u_fragment u' = u_fragment u
     \<and> (\<forall>k. values_of (ParseQuery (u_query u')) k
              = (if k = key then [value] else values_of (ParseQuery (u_query u)) k))"
proof -
  obtain u where u: "Parse rawURL = Some u"
    using assms by (auto simp: AddQueryParam_def split: option.splits)
  define q where "q = set_value (ParseQuery (u_query u)) (key, value)"
  have "Parse result = Some (u\<lparr>u_query := Encode q, u_force := False\<rparr>)"
    using Parse_url_string [OF u query_clean_Encode [of q]] assms u Encode_set_value_nonempty
    by (simp add: AddQueryParam_def q_def)
  moreover have "values_of (ParseQuery (Encode q)) k
      = (if k = key then [value] else values_of (ParseQuery (u_query u)) k)" for k
    by (simp add: q_def values_ParseQuery_Encode distinct_set_value distinct_ParseQuery values_of_set_value)
  ultimately show ?thesis using u by simp
qed

text \<open>
  Setting a query parameter does just that: the resulting URL parses to the same base and
  fragment, holds exactly the given value for the key, and keeps the values of every other key,
  whatever characters keys and values contain.
\<close>
lemma AddQueryParam_sets:
  assumes "AddQueryParam rawURL key value = Inr result"
  shows "\<exists>u u'. Parse rawURL = Some u \<and> Parse result = Some u'
     \<and> u_base u' = u_base u \<and> u_fragment u' = u_fragment u
     \<and> (\<forall>k. values_of (ParseQuery (u_query u')) k
              = (if k = key then [value] else values_of (ParseQuery (u_query u)) k))"
  using assms by (rule query_param_set)

definition example_url :: string where
  "example_url = ''https://host/p?a=1&b=2''"

lemma example_url_parses: "Parse example_url \<noteq> None"
  by (simp add: example_url_def Parse_def before_def control_char_def Let_def)

section \<open>One request per call\<close>

text \<open>
  An environment that also records every request it sends, in order. It is the given one in all
  other respects, so what holds of every environment holds of its recorded form, and the record
  shows which requests were sent.
\<close>

definition logged :: "'w env \<Rightarrow> ('w \<times> http_request list) env" where
  "logged E =
     \<lparr>env_getenv = env_getenv E, env_detect = env_detect E, env_parse_provider = env_parse_provider E,
      env_exchange = (\<lambda>w c. case env_exchange E (fst w) c of (r, v) \<Rightarrow> (r, (v, snd w))),
      env_clock = (\<lambda>w. env_clock E (fst w)),
      env_ctx_err = (\<lambda>w. env_ctx_err E (fst w)),
      env_sleep = (\<lambda>w d. (env_sleep E (fst w) d, snd w)),
      env_select_after = (\<lambda>w d. case env_select_after E (fst w) d of (r, v) \<Rightarrow> (r, (v, snd w))),
      env_http_new = env_http_new E,
      env_http_do = (\<lambda>w req. case env_http_do E (fst w) req of (r, v) \<Rightarrow> (r, (v, snd w @ [req]))),
      env_check_response = env_check_response E\<rparr>"

definition sent :: "('w \<times> http_request list) machine \<Rightarrow> http_request list" where
  "sent s = snd (m_world s)"

text \<open>The request a set of options stands for.\<close>

definition sends :: "Client \<Rightarrow> RequestOptions \<Rightarrow> http_request \<Rightarrow> bool" where
  "sends c opts req \<longleftrightarrow>
     hq_Method req = (if ro_Method opts = [] then ''GET'' else ro_Method opts)
     \<and> AddQueryParam (ro_URL opts) ''alt'' ''json'' = Inr (hq_URL req)
     \<and> request_body opts = Inr (hq_Body req)
     \<and> hq_Headers req = request_headers c opts"

lemma log_reauth_world [simp]:
  "m_world (log_reauth e req s) = m_world s" "m_creds (log_reauth e req s) = m_creds s"
  by (simp_all add: log_reauth_def log_add_def)

lemma SendRequest_cases:
  assumes "SendRequest E c opts s = (r, s')"
  obtains (refused) e where "r = Inl e" "s' = s"
    "\<nexists>req. sends c opts req \<and> list_all method_char (ro_Method opts)"
  | (failed) req e w where "sends c opts req" "env_http_do E (m_world s) req = (Inl e, w)"
      "r = Inl (errorf_w ''request failed: '' e)" "s' = log_reauth e req (s\<lparr>m_world := w\<rparr>)"
  | (answered) req hr w where "sends c opts req" "env_http_do E (m_world s) req = (Inr hr, w)"
      "s' = s\<lparr>m_world := w\<rparr>"
      "r = (case env_check_response E hr of
             Some e \<Rightarrow> Inl e
           | None \<Rightarrow>
               if hr_StatusCode hr = 204
               then Inr \<lparr>rs_StatusCode = 204, rs_Body = None, rs_Headers = hr_Headers hr\<rparr>
               else case decode_body (hr_Body hr) of
                 Inl e \<Rightarrow> Inl (errorf_w ''failed to decode response: '' (ErrText e))
               | Inr m \<Rightarrow> Inr \<lparr>rs_StatusCode = hr_StatusCode hr, rs_Body = m, rs_Headers = hr_Headers hr\<rparr>)"
proof (cases "request_body opts")
  case (Inl e)
  with assms show ?thesis by (intro refused) (auto simp: SendRequest_def sends_def)
next
  case body: (Inr body)
  show ?thesis
  proof (cases "AddQueryParam (ro_URL opts) ''alt'' ''json''")
    case (Inl e)
    with assms body show ?thesis by (intro refused) (auto simp: SendRequest_def sends_def)
  next
    case url: (Inr url)
    show ?thesis
    proof (cases "new_request (ro_Method opts) url body (request_headers c opts)")
      case (Inl e)
      moreover have "Parse url \<noteq> None" using query_param_set [OF url] by auto
      ultimately have "\<not> list_all method_char (ro_Method opts)"
        by (auto simp: new_request_def split: if_splits option.splits)
      with assms body url Inl show ?thesis by (intro refused) (auto simp: SendRequest_def)
    next
      case (Inr req)
      then have s: "sends c opts req"
        using body url by (auto simp: new_request_def sends_def split: if_splits option.splits)
      obtain a w where a: "env_http_do E (m_world s) req = (a, w)" by (cases "env_http_do E (m_world s) req")
      show ?thesis
        using assms body url Inr a s
        by (cases a) (auto simp: SendRequest_def intro: failed answered)
    qed
  qed
qed

text \<open>The timeout of a request is defaulted and then never used.\<close>

lemma SendRequest_ignores_timeout: "SendRequest E c (opts\<lparr>ro_Timeout := t\<rparr>) s = SendRequest E c opts s"
proof -
  have same: "request_body (opts\<lparr>ro_Timeout := t\<rparr>) = request_body opts"
    "request_headers c (opts\<lparr>ro_Timeout := t\<rparr>) = request_headers c opts"
    "ro_URL (opts\<lparr>ro_Timeout := t\<rparr>) = ro_URL opts" "ro_Method (opts\<lparr>ro_Timeout := t\<rparr>) = ro_Method opts"
    by (simp_all add: request_body_def request_headers_def split: option.split)
  show ?thesis unfolding SendRequest_def same ..
qed

lemma SendRequest_creds: "SendRequest E c opts s = (r, s') \<Longrightarrow> m_creds s' = m_creds s"
  by (erule SendRequest_cases) auto

lemma SendRequest_logged:
  assumes "SendRequest (logged E) c opts s = (r, s')"
  shows "(sent s' = sent s \<and> (\<exists>e. r = Inl e)) \<or> (\<exists>req. sends c opts req \<and> sent s' = sent s @ [req])"
  using assms
  by (rule SendRequest_cases) (auto simp: logged_def sent_def split: prod.splits)

lemma sends_alt_json:
  assumes "sends c opts req"
  shows "\<exists>u. Parse (hq_URL req) = Some u \<and> values_of (ParseQuery (u_query u)) ''alt'' = [''json'']"
proof -
  have "AddQueryParam (ro_URL opts) ''alt'' ''json'' = Inr (hq_URL req)"
    using assms by (simp add: sends_def)
  from query_param_set [OF this] show ?thesis by auto
qed

lemma request_headers_lookup:
  "map_of (request_headers c opts) ''User-Agent'' = Some (cl_userAgent c)"
  "c_Project (cl_config c) \<noteq> [] \<Longrightarrow>
     map_of (request_headers c opts) ''X-Goog-User-Project'' = Some (c_Project (cl_config c))"
  "map_of (request_headers c opts) ''Content-Type'' =
     Some (if ro_ContentType opts \<noteq> [] then ro_ContentType opts else ''application/json'')"
  by (simp_all add: request_headers_def project_header_def)

text \<open>
  A call of \<open>SendRequest\<close> that answers sent exactly one request: with the method asked for, a
  URL that carries \<^verbatim>\<open>alt=json\<close> exactly once, the plugin's user agent, the billing project of the
  configuration, and the body given. The API accepted it, an answer without content has a nil
  body, and nothing but the outside world changed.
\<close>
lemma SendRequest_sends_one:
  assumes "SendRequest (logged E) c opts s = (Inr resp, s')"
  shows "\<exists>req hr. sent s' = sent s @ [req]
     \<and> hq_Method req = (if ro_Method opts = [] then ''GET'' else ro_Method opts)
     \<and> (\<exists>u. Parse (hq_URL req) = Some u \<and> values_of (ParseQuery (u_query u)) ''alt'' = [''json''])
     \<and> map_of (hq_Headers req) ''User-Agent'' = Some (cl_userAgent c)
     \<and> (c_Project (cl_config c) \<noteq> [] \<longrightarrow>
          map_of (hq_Headers req) ''X-Goog-User-Project'' = Some (c_Project (cl_config c)))
     \<and> request_body opts = Inr (hq_Body req)
     \<and> env_check_response E hr = None \<and> rs_StatusCode resp = hr_StatusCode hr
     \<and> (rs_StatusCode resp = 204 \<longrightarrow> rs_Body resp = None)
     \<and> m_creds s' = m_creds s \<and> m_log s' = m_log s"
  using assms
proof (rule SendRequest_cases)
  fix req hr w
  assume *: "sends c opts req" "env_http_do (logged E) (m_world s) req = (Inr hr, w)"
    "s' = s\<lparr>m_world := w\<rparr>"
    "Inr resp = (case env_check_response (logged E) hr of
             Some e \<Rightarrow> Inl e
           | None \<Rightarrow>
               if hr_StatusCode hr = 204
               then Inr \<lparr>rs_StatusCode = 204, rs_Body = None, rs_Headers = hr_Headers hr\<rparr>
               else case decode_body (hr_Body hr) of
                 Inl e \<Rightarrow> Inl (errorf_w ''failed to decode response: '' (ErrText e))
               | Inr m \<Rightarrow> Inr \<lparr>rs_StatusCode = hr_StatusCode hr, rs_Body = m, rs_Headers = hr_Headers hr\<rparr>)"
  then have a: "env_check_response E hr = None" "rs_StatusCode resp = hr_StatusCode hr"
    "rs_StatusCode resp = 204 \<longrightarrow> rs_Body resp = None"
    by (auto simp: logged_def split: option.splits if_splits sum.splits)
  have b: "sent s' = sent s @ [req]"
    using * by (auto simp: logged_def sent_def split: prod.splits)
  show ?thesis
    using a b * sends_alt_json [OF *(1)] request_headers_lookup [of c opts]
    by (intro exI [of _ req] exI [of _ hr]) (simp add: sends_def)
qed (auto)

text \<open>A world that answers from a script, for concrete runs.\<close>

type_synonym script = "(goerr + http_response) list"

definition script_env :: "script env" where
  "script_env =
     \<lparr>env_getenv = (\<lambda>v. []), env_detect = (\<lambda>scopes src. Inr ''ambient''),
      env_parse_provider = (\<lambda>n. Inl (ErrText ''no provider'')),
      env_exchange = (\<lambda>w c. (Inl (ErrText ''no exchange''), w)),
      env_clock = (\<lambda>w. 0), env_ctx_err = (\<lambda>w. None), env_sleep = (\<lambda>w d. w),
      env_select_after = (\<lambda>w d. (None, w)), env_http_new = (\<lambda>opts. None),
      env_http_do = (\<lambda>w r. case w of [] \<Rightarrow> (Inl (ErrText ''offline''), []) | a # rest \<Rightarrow> (a, rest)),
      env_check_response = (\<lambda>r. if hr_StatusCode r < 300 then None
         else Some (ErrGoogle \<lparr>ge_Code = hr_StatusCode r, ge_Message = ''refused'', ge_Body = [], ge_BodyDoc = RawNil,
                 ge_Details = [], ge_Errors = [], ge_Text = ''refused''\<rparr>))\<rparr>"

definition script_start :: "script \<Rightarrow> (script \<times> http_request list) machine" where
  "script_start rs = \<lparr>m_world = (rs, []), m_creds = Map.empty, m_log = []\<rparr>"

definition scripted :: "int \<Rightarrow> json \<Rightarrow> goerr + http_response" where
  "scripted code doc = Inr \<lparr>hr_StatusCode = code, hr_Headers = [], hr_Body = RawDoc doc\<rparr>"

definition example_client :: Client where
  "example_client = \<lparr>cl_config = zero_config\<lparr>c_Project := ''prj''\<rparr>, cl_userAgent = DefaultUserAgent\<rparr>"

lemma SendRequest_answers:
  assumes "Parse (ro_URL opts) \<noteq> None" and "list_all method_char (ro_Method opts)"
    and "request_body opts = Inr body"
    and "\<And>req. env_http_do E (m_world s) req = (Inr hr, w req)"
    and "env_check_response E hr = None" and "hr_StatusCode hr \<noteq> 204"
    and "decode_body (hr_Body hr) = Inr m"
  shows "\<exists>req. sends c opts req \<and> SendRequest E c opts s =
           (Inr \<lparr>rs_StatusCode = hr_StatusCode hr, rs_Body = m, rs_Headers = hr_Headers hr\<rparr>, s\<lparr>m_world := w req\<rparr>)"
proof -
  obtain r s' where rs: "SendRequest E c opts s = (r, s')" by (cases "SendRequest E c opts s")
  obtain u where u: "AddQueryParam (ro_URL opts) ''alt'' ''json'' = Inr u"
    using assms(1) by (auto simp: AddQueryParam_def)
  have "\<exists>req. sends c opts req \<and> list_all method_char (ro_Method opts)"
    using assms(2,3) u
    by (intro exI [of _ "\<lparr>hq_Method = (if ro_Method opts = [] then ''GET'' else ro_Method opts),
          hq_URL = u, hq_Headers = request_headers c opts, hq_Body = body\<rparr>"]) (simp add: sends_def)
  with rs have "\<exists>req. sends c opts req \<and> s' = s\<lparr>m_world := w req\<rparr> \<and>
      r = Inr \<lparr>rs_StatusCode = hr_StatusCode hr, rs_Body = m, rs_Headers = hr_Headers hr\<rparr>"
    by (elim SendRequest_cases) (use assms in auto)
  with rs show ?thesis by auto
qed

text \<open>Requests to the scripted world.\<close>

lemma script_accepts:
  assumes "Parse url \<noteq> None" and "list_all method_char meth"
    and "request_body (request_options meth url body) = Inr rb"
    and "m_world s = (scripted code (JObj m) # rest, l)" and "code < 300" and "code \<noteq> 204"
  shows "\<exists>req. sends c (request_options meth url body) req \<and>
           SendRequest (logged script_env) c (request_options meth url body) s =
             (Inr \<lparr>rs_StatusCode = code, rs_Body = Some m, rs_Headers = []\<rparr>, s\<lparr>m_world := (rest, l @ [req])\<rparr>)"
  using SendRequest_answers [of "request_options meth url body" rb "logged script_env" s
      "\<lparr>hr_StatusCode = code, hr_Headers = [], hr_Body = RawDoc (JObj m)\<rparr>" "\<lambda>req. (rest, l @ [req])" "Some m" c]
    assms
  by (simp add: logged_def script_env_def scripted_def decode_body_def request_options_def)

definition script_error :: "int \<Rightarrow> goerr" where
  "script_error code =
     ErrGoogle \<lparr>ge_Code = code, ge_Message = ''refused'', ge_Body = [], ge_BodyDoc = RawNil,
       ge_Details = [], ge_Errors = [], ge_Text = ''refused''\<rparr>"

lemma script_refuses:
  assumes "Parse url \<noteq> None" and "list_all method_char meth"
    and "request_body (request_options meth url body) = Inr rb"
    and "m_world s = (scripted code m # rest, l)" and "300 \<le> code"
  shows "\<exists>req. sends c (request_options meth url body) req \<and>
           SendRequest (logged script_env) c (request_options meth url body) s =
             (Inl (script_error code), s\<lparr>m_world := (rest, l @ [req])\<rparr>)"
proof -
  let ?opts = "request_options meth url body"
  obtain r s' where rs: "SendRequest (logged script_env) c ?opts s = (r, s')"
    by (cases "SendRequest (logged script_env) c ?opts s")
  obtain u where u: "AddQueryParam url ''alt'' ''json'' = Inr u"
    using assms(1) by (auto simp: AddQueryParam_def)
  have "\<exists>req. sends c ?opts req \<and> list_all method_char (ro_Method ?opts)"
    using assms(2,3) u
    by (intro exI [of _ "\<lparr>hq_Method = (if meth = [] then ''GET'' else meth),
          hq_URL = u, hq_Headers = request_headers c ?opts, hq_Body = rb\<rparr>"])
      (simp add: sends_def request_options_def)
  with rs have "\<exists>req. sends c ?opts req \<and> s' = s\<lparr>m_world := (rest, l @ [req])\<rparr> \<and> r = Inl (script_error code)"
    by (elim SendRequest_cases)
      (use assms in \<open>auto simp: logged_def script_env_def scripted_def script_error_def\<close>)
  with rs show ?thesis by auto
qed

section \<open>Waiting for an operation\<close>

text \<open>
  What the wait relies on the runtime for: the clock never goes back over a request, and a sleep
  or a timer of length \<open>d\<close> moves it by at least \<open>d\<close>.
\<close>

definition time_passes :: "'w env \<Rightarrow> int \<Rightarrow> bool" where
  "time_passes E d \<longleftrightarrow>
     (\<forall>w req. env_clock E w \<le> env_clock E (snd (env_http_do E w req)))
     \<and> (\<forall>w. env_clock E w + d \<le> env_clock E (env_sleep E w d))
     \<and> (\<forall>w w'. env_select_after E w d = (None, w') \<longrightarrow> env_clock E w + d \<le> env_clock E w')"

lemma SendRequest_clock:
  assumes "time_passes E d" and "SendRequest E c opts s = (r, s')"
  shows "env_clock E (m_world s) \<le> env_clock E (m_world s')"
  using assms(2)
proof (rule SendRequest_cases)
  fix req e w
  assume "env_http_do E (m_world s) req = (Inl e, w)" "s' = log_reauth e req (s\<lparr>m_world := w\<rparr>)"
  then show ?thesis using assms(1) unfolding time_passes_def by (metis log_reauth_world(1) machine.select_convs(1) machine.surjective machine.update_convs(1) snd_conv)
next
  fix req hr w
  assume "env_http_do E (m_world s) req = (Inr hr, w)" "s' = s\<lparr>m_world := w\<rparr>"
  then show ?thesis using assms(1) unfolding time_passes_def by (metis machine.select_convs(1) machine.surjective machine.update_convs(1) snd_conv)
qed simp

lemma queryOperation_clock:
  assumes "time_passes E d" and "queryOperation E w s = (r, s')"
  shows "env_clock E (m_world s) \<le> env_clock E (m_world s')"
  using assms(2) SendRequest_clock [OF assms(1)]
  by (fastforce simp: queryOperation_def split: prod.splits sum.splits option.splits)

lemma time_passes_logged: "time_passes E d \<Longrightarrow> time_passes (logged E) d"
  by (auto simp: time_passes_def logged_def split: prod.splits) (metis snd_conv)

lemma queryOperation_sent:
  assumes "queryOperation (logged E) w s = (r, s')"
  shows "length (sent s') \<le> Suc (length (sent s))"
proof -
  obtain a s1 where a: "SendRequest (logged E) (ow_client w)
      ((request_options ''GET'' (ow_getURL w) None)\<lparr>ro_Timeout := 30 * 1000000000\<rparr>) s = (a, s1)" by (metis surj_pair)
  then have "s' = s1" using assms by (auto simp: queryOperation_def split: sum.splits option.splits)
  then show ?thesis using SendRequest_logged [OF a] by auto
qed

text \<open>How many polls fit between now and the deadline: one, and one more for every full interval.\<close>

definition polls_left :: "int \<Rightarrow> int \<Rightarrow> int \<Rightarrow> nat" where
  "polls_left interval deadline now = nat ((deadline - now) div interval + 1)"

lemma polls_left_later:
  assumes "0 < interval" "now \<le> deadline" "now + interval \<le> later"
  shows "Suc (polls_left interval deadline later) \<le> polls_left interval deadline now"
proof -
  have "(deadline - later) div interval \<le> (deadline - now - interval) div interval"
    using assms by (intro zdiv_mono1) simp_all
  also have "\<dots> = (deadline - now) div interval - 1"
    using assms(1) div_mult_self1 [of interval "deadline - now" "- 1"] by simp
  finally have "(deadline - later) div interval + 1 \<le> (deadline - now) div interval" by simp
  moreover have "0 \<le> (deadline - now) div interval" using assms by (simp add: pos_imp_zdiv_nonneg_iff)
  ultimately show ?thesis by (simp add: polls_left_def)
qed

lemma wait_loop_returns:
  assumes t: "time_passes E (ow_interval w)" and pos: "0 < ow_interval w"
  shows "\<exists>r s'. wait_loop (logged E) w deadline s = Some (r, s')
    \<and> length (sent s') \<le> length (sent s) + polls_left (ow_interval w) deadline (env_clock (logged E) (m_world s))"
proof (induction "polls_left (ow_interval w) deadline (env_clock (logged E) (m_world s))" arbitrary: s rule: less_induct)
  case less
  let ?E = "logged E" and ?left = "\<lambda>s. polls_left (ow_interval w) deadline (env_clock (logged E) (m_world s))"
  note t = time_passes_logged [OF t]
  show ?case
  proof (cases "deadline < env_clock ?E (m_world s) \<or> env_ctx_err ?E (m_world s) \<noteq> None")
    case True
    then show ?thesis by (subst wait_loop.simps) (auto split: option.splits)
  next
    case False
    obtain q s1 where q: "queryOperation ?E w s = (q, s1)" by (cases "queryOperation ?E w s")
    note c = queryOperation_clock [OF t q] and n = queryOperation_sent [OF q]
    have go: "\<exists>r s'. wait_loop ?E w deadline s2 = Some (r, s') \<and> length (sent s') \<le> length (sent s) + ?left s"
      if "env_clock ?E (m_world s1) + ow_interval w \<le> env_clock ?E (m_world s2)" "sent s2 = sent s1" for s2
    proof -
      have l: "Suc (?left s2) \<le> ?left s" using polls_left_later [OF pos, of "env_clock ?E (m_world s)" deadline] c that False by simp
      then obtain r s' where "wait_loop ?E w deadline s2 = Some (r, s')" "length (sent s') \<le> length (sent s2) + ?left s2"
        using less [of s2] by auto
      then show ?thesis using l n that(2) by auto
    qed
    have go1: "\<exists>r s'. wait_loop ?E w deadline (s1\<lparr>m_world := env_sleep ?E (m_world s1) (ow_interval w)\<rparr>) = Some (r, s')
        \<and> length (sent s') \<le> length (sent s) + ?left s"
    proof (rule go)
      show "env_clock ?E (m_world s1) + ow_interval w \<le> env_clock ?E (m_world (s1\<lparr>m_world := env_sleep ?E (m_world s1) (ow_interval w)\<rparr>))"
        using t unfolding time_passes_def by (cases "m_world s1") simp
      show "sent (s1\<lparr>m_world := env_sleep ?E (m_world s1) (ow_interval w)\<rparr>) = sent s1" by (simp add: sent_def logged_def)
    qed
    have go2: "\<exists>r s'. wait_loop ?E w deadline (s1\<lparr>m_world := w2\<rparr>) = Some (r, s') \<and> length (sent s') \<le> length (sent s) + ?left s"
      if "env_select_after ?E (m_world s1) (ow_interval w) = (None, w2)" for w2
    proof (rule go)
      show "env_clock ?E (m_world s1) + ow_interval w \<le> env_clock ?E (m_world (s1\<lparr>m_world := w2\<rparr>))"
        using t that unfolding time_passes_def by (cases "m_world s1"; cases w2) simp
      show "sent (s1\<lparr>m_world := w2\<rparr>) = sent s1" using that by (auto simp: sent_def logged_def split: prod.splits)
    qed
    have "0 < ?left s" using False pos by (simp add: polls_left_def pos_imp_zdiv_nonneg_iff add_strict_increasing)
    moreover have "sent (s1\<lparr>m_world := w2\<rparr>) = sent s1" if "env_select_after ?E (m_world s1) (ow_interval w) = (e, w2)" for e w2
      using that by (auto simp: sent_def logged_def split: prod.splits)
    ultimately show ?thesis
      using False q go1 go2 n
      by (subst wait_loop.simps) (auto split: sum.splits option.splits prod.splits)
  qed
qed

text \<open>
  C38: \<open>Wait\<close> returns, after a bounded number of polls. With a runtime whose sleeps take their time and a positive
  poll interval, the loop ends for every operation and every server, and it has asked at most once, and once
  more for every full interval in the timeout; a timeout in the past asks nothing.
\<close>
theorem Wait_returns:
  assumes "time_passes E (ow_interval w)" and "0 < ow_interval w"
  shows "\<exists>result err s'. Wait (logged E) w s = Some ((result, err), s')
    \<and> length (sent s') \<le> length (sent s) + nat (ow_timeout w div ow_interval w + 1)"
  using wait_loop_returns [OF assms, of "env_clock (logged E) (m_world s) + ow_timeout w" s]
  by (auto simp: Wait_def polls_left_def)

definition clock_env :: "int env" where
  "clock_env =
     \<lparr>env_getenv = (\<lambda>v. []), env_detect = (\<lambda>scopes src. Inr ''ambient''),
      env_parse_provider = (\<lambda>n. Inl (ErrText ''no provider'')),
      env_exchange = (\<lambda>w c. (Inl (ErrText ''no exchange''), w)),
      env_clock = (\<lambda>w. w), env_ctx_err = (\<lambda>w. None), env_sleep = (\<lambda>w d. w + d),
      env_select_after = (\<lambda>w d. (None, w + d)), env_http_new = (\<lambda>opts. None),
      env_http_do = (\<lambda>w r. (scripted 200 (JObj [(''done'', JBool False)]), w + 1)),
      env_check_response = (\<lambda>r. None)\<rparr>"

theorem Wait_returns_witness:
  "\<exists>result err s'. Wait (logged clock_env) (NewOperationWaiter example_client ''op'' example_url)
     \<lparr>m_world = (0, []), m_creds = Map.empty, m_log = []\<rparr> = Some ((result, err), s') \<and> length (sent s') \<le> 121"
  using Wait_returns [of clock_env "NewOperationWaiter example_client ''op'' example_url"
      "\<lparr>m_world = (0, []), m_creds = Map.empty, m_log = []\<rparr>"]
  by (simp add: time_passes_def clock_env_def NewOperationWaiter_def DefaultOperationPollInterval_def DefaultOperationTimeout_def sent_def)

text \<open>What a result of the loop is evidence of.\<close>

definition wait_evidence ::
    "'w env \<Rightarrow> OperationWaiter \<Rightarrow> (OperationResult \<times> goerr option) \<times> 'w machine \<Rightarrow> bool" where
  "wait_evidence E w y =
     (case y of ((r, err), s') \<Rightarrow>
        (or_Status r = TStatusFailure \<and> err \<noteq> None)
        \<or> (or_Status r = TStatusSuccess \<and> err = None
            \<and> (\<exists>s0 op. queryOperation E w s0 = (Inr op, s') \<and> op_Done op \<and> op_Error op = None)))"

lemma wait_loop_result: "wait_loop E w deadline s = Some y \<Longrightarrow> wait_evidence E w y"
proof (rule wait_loop.raw_induct [where P = "\<lambda>E w deadline s y. wait_evidence E w y"])
  fix loop E w deadline s y
  assume IH: "\<And>E w deadline s y. loop E w deadline s = Some y \<Longrightarrow> wait_evidence E w y"
    and step: "(if deadline < env_clock E (m_world s) then
        Some ((op_failed ErrorCodeTimeout
                 (''operation '' @ ow_opName w @ '' timed out after '' @ duration_string (ow_timeout w)),
               Some (ErrText ''operation timed out'')), s)
      else case env_ctx_err E (m_world s) of
        None \<Rightarrow>
          (case queryOperation E w s of
             (Inl err, s1) \<Rightarrow>
               if ClassifyError (Some err) = ErrorCodeResourceNotFound
               then loop E w deadline (s1\<lparr>m_world := env_sleep E (m_world s1) (ow_interval w)\<rparr>)
               else Some ((op_failed (ClassifyError (Some err))
                             (''failed to query operation: '' @ err_text err), Some err), s1)
           | (Inr op, s1) \<Rightarrow>
               if op_Done op then
                 (case op_Error op of
                    None \<Rightarrow>
                      Some ((op_result TStatusSuccess ''operation completed successfully'', None), s1)
                  | Some oe \<Rightarrow>
                      Some ((op_failed ErrorCodeUnknown (''operation failed: '' @ oe_Message oe),
                             Some (ErrText (''operation error: code='' @ Itoa (oe_Code oe)
                                              @ '', message='' @ oe_Message oe))), s1))
               else
                 (case env_select_after E (m_world s1) (ow_interval w) of
                    (None, w2) \<Rightarrow> loop E w deadline (s1\<lparr>m_world := w2\<rparr>)
                  | (Some e, w2) \<Rightarrow>
                      Some ((op_failed ErrorCodeCancelled ''operation cancelled'', Some e),
                            s1\<lparr>m_world := w2\<rparr>)))
      | Some e \<Rightarrow> Some ((op_failed ErrorCodeCancelled ''operation cancelled'', Some e), s)) = Some y"
  have failed: "wait_evidence E w ((op_failed c m, Some e), t)" for c m e t
    by (simp add: wait_evidence_def op_failed_def)
  show "wait_evidence E w y"
  proof (cases "deadline < env_clock E (m_world s) \<or> env_ctx_err E (m_world s) \<noteq> None")
    case True
    with step show ?thesis using failed by (auto split: if_splits)
  next
    case False
    obtain q s1 where q: "queryOperation E w s = (q, s1)" by (cases "queryOperation E w s")
    have succeeded: "q = Inr op \<Longrightarrow> op_Done op \<Longrightarrow> op_Error op = None \<Longrightarrow>
        wait_evidence E w ((op_result TStatusSuccess m, None), s1)" for op m
      using q by (auto simp: wait_evidence_def op_result_def)
    show ?thesis
      using step False q failed succeeded IH
      by (auto split: if_splits sum.splits option.splits prod.splits)
  qed
qed

text \<open>
  \<open>Wait\<close> reports success only on evidence: its result is a success without an error exactly when
  the last poll said that the operation is done and carries no error; every other way out is a
  failure with an error.
\<close>
lemma Wait_success_is_done:
  assumes "Wait E w s = Some ((r, err), s')"
  shows "(err = None \<longleftrightarrow> or_Status r = TStatusSuccess)
     \<and> (err = None \<longrightarrow>
          (\<exists>s0 op. queryOperation E w s0 = (Inr op, s') \<and> op_Done op \<and> op_Error op = None))"
  using wait_loop_result [OF assms [unfolded Wait_def]] by (auto simp: wait_evidence_def)

end
