(* ===== verification/Codec.thy ===== *)
theory Codec
  imports Go_Prelude
begin

text \<open>
  The contract of an identifier: a function that writes it, a function that reads it, and which
  values it can carry. Several components have one (NATs, IAM members, operation IDs); each
  interprets this locale with its own pair of functions.
\<close>

locale id_reader =
  fixes build :: "'a \<Rightarrow> string"
    and parse :: "string \<Rightarrow> 'e + 'a"
    and valid :: "'a \<Rightarrow> bool"
  assumes parse_build: "valid a \<Longrightarrow> parse (build a) = Inr a"
begin

lemma build_inj: "valid a \<Longrightarrow> valid b \<Longrightarrow> build a = build b \<Longrightarrow> a = b"
  using parse_build by (metis sum.inject(2))

end

text \<open>A codec that accepts nothing but what it writes.\<close>

locale id_codec = id_reader +
  assumes parse_sound: "parse s = Inr a \<Longrightarrow> valid a \<and> build a = s"
begin

lemma parse_iff: "parse s = Inr a \<longleftrightarrow> valid a \<and> build a = s"
  using parse_build parse_sound by metis

lemma parse_inj: "parse s = Inr a \<Longrightarrow> parse t = Inr a \<Longrightarrow> s = t"
  using parse_sound by metis

lemma rejected: "(\<exists>e. parse s = Inl e) \<longleftrightarrow> (\<nexists>a. valid a \<and> build a = s)"
proof (cases "parse s")
  case (Inl e)
  then show ?thesis using parse_iff [of s] by auto
next
  case (Inr a)
  then show ?thesis using parse_sound by auto
qed

end

text \<open>Reading back the segments of a path written segment by segment.\<close>

definition seg :: "string \<Rightarrow> bool" where
  "seg s \<longleftrightarrow> CHR ''/'' \<notin> set s"

lemma seg_literals [simp]:
  "seg []" "seg (c # s) \<longleftrightarrow> c \<noteq> CHR ''/'' \<and> seg s"
  by (auto simp: seg_def)

lemma Split_seg [segment]: "seg a \<Longrightarrow> Split a CHR ''/'' = [a]"
  by (simp add: seg_def Split_no_sep)

lemma Split_seg_Cons [segment]: "seg a \<Longrightarrow> Split (a @ CHR ''/'' # s) CHR ''/'' = a # Split s CHR ''/''"
  by (simp add: seg_def Split_append_sep)

lemma Split_member_seg: "x \<in> set (Split s CHR ''/'') \<Longrightarrow> seg x"
  by (simp add: seg_def Split_segments)

end
