(* ===== verification/Base_Config.thy ===== *)
theory Base_Config
  imports Transport Codec
begin

text \<open>
  The declarative half of \<^verbatim>\<open>src/pkg/resources/base\<close>: how an API is addressed
  (\<^verbatim>\<open>api_config.go\<close>), how native IDs are written and read (\<^verbatim>\<open>native_id.go\<close>), how a resource
  type is configured (\<^verbatim>\<open>resource_config.go\<close>, \<^verbatim>\<open>operation_config.go\<close>), the transformers
  (\<^verbatim>\<open>transformers.go\<close>, \<^verbatim>\<open>location_helpers.go\<close>), the check of a long-running operation
  (\<^verbatim>\<open>lro.go\<close>) and the pure helpers of \<^verbatim>\<open>base_resource_helpers.go\<close>.

  A nil map is \<^const>\<open>None\<close>; reading it is reading the empty map, writing to it panics. A nil
  function field is \<^const>\<open>None\<close> and calling it panics.
\<close>

definition nil_panic :: string where
  "nil_panic = ''runtime error: invalid memory address or nil pointer dereference''"

definition obj_of :: "obj option \<Rightarrow> obj" where
  "obj_of m = (case m of None \<Rightarrow> [] | Some kvs \<Rightarrow> kvs)"

text \<open>\<^verbatim>\<open>m[k] = v\<close>.\<close>

definition assign :: "obj option \<Rightarrow> string \<Rightarrow> json \<Rightarrow> ('e, obj option) outcome" where
  "assign m k v =
     (case m of
        None \<Rightarrow> Panic ''assignment to entry in nil map''
      | Some kvs \<Rightarrow> Ok (Some (AList.update k v kvs)))"

section \<open>api\_config.go\<close>

record PaginationConfig =
  pg_Disabled :: bool
  pg_PageSizeParam :: string
  pg_PageTokenParam :: string

record PathContext =
  pc_Project :: string
  pc_Region :: string
  pc_Zone :: string
  pc_Location :: string
  pc_ResourceType :: string
  pc_ResourceName :: string
  pc_ParentResource :: string
  pc_ParentType :: string
  pc_CustomSegments :: "string list"
  pc_IsList :: bool

definition empty_ctx :: PathContext where
  "empty_ctx =
     \<lparr>pc_Project = [], pc_Region = [], pc_Zone = [], pc_Location = [], pc_ResourceType = [],
      pc_ResourceName = [], pc_ParentResource = [], pc_ParentType = [], pc_CustomSegments = [],
      pc_IsList = False\<rparr>"

record APIConfig =
  ac_BaseURL :: string
  ac_APIVersion :: string
  ac_PathBuilder :: "(PathContext \<Rightarrow> string) option"
  ac_Pagination :: "PaginationConfig option"

definition IsPaginationDisabled :: "APIConfig \<Rightarrow> bool" where
  "IsPaginationDisabled c = (case ac_Pagination c of None \<Rightarrow> False | Some p \<Rightarrow> pg_Disabled p)"

definition GetPageSizeParam :: "APIConfig \<Rightarrow> string" where
  "GetPageSizeParam c =
     (case ac_Pagination c of
        Some p \<Rightarrow> if pg_PageSizeParam p \<noteq> [] then pg_PageSizeParam p else ''maxResults''
      | None \<Rightarrow> ''maxResults'')"

definition GetPageTokenParam :: "APIConfig \<Rightarrow> string" where
  "GetPageTokenParam c =
     (case ac_Pagination c of
        Some p \<Rightarrow> if pg_PageTokenParam p \<noteq> [] then pg_PageTokenParam p else ''pageToken''
      | None \<Rightarrow> ''pageToken'')"

record URLBuilder =
  ub_apiConfig :: APIConfig
  ub_context :: PathContext

definition NewURLBuilder :: "APIConfig \<Rightarrow> PathContext \<Rightarrow> URLBuilder" where
  "NewURLBuilder api ctx = \<lparr>ub_apiConfig = api, ub_context = ctx\<rparr>"

definition build_url :: "URLBuilder \<Rightarrow> PathContext \<Rightarrow> (goerr, string) outcome" where
  "build_url b ctx =
     (case ac_PathBuilder (ub_apiConfig b) of
        None \<Rightarrow> Panic nil_panic
      | Some f \<Rightarrow> Ok (ac_BaseURL (ub_apiConfig b) @ f ctx))"

definition CollectionURL :: "URLBuilder \<Rightarrow> (goerr, string) outcome" where
  "CollectionURL b = build_url b ((ub_context b)\<lparr>pc_ResourceName := []\<rparr>)"

definition ResourceURL :: "URLBuilder \<Rightarrow> string \<Rightarrow> (goerr, string) outcome" where
  "ResourceURL b name =
     (if name = [] then CollectionURL b
      else build_url b ((ub_context b)\<lparr>pc_ResourceName := name\<rparr>))"

definition WithContext :: "URLBuilder \<Rightarrow> PathContext \<Rightarrow> URLBuilder" where
  "WithContext b ctx = b\<lparr>ub_context := ctx\<rparr>"

definition WithParent :: "URLBuilder \<Rightarrow> string \<Rightarrow> string \<Rightarrow> URLBuilder" where
  "WithParent b parentType parentResource =
     b\<lparr>ub_context := (ub_context b)\<lparr>pc_ParentType := parentType, pc_ParentResource := parentResource\<rparr>\<rparr>"

section \<open>native\_id.go\<close>

datatype NativeIDFormat =
  SimpleNameFormat | FullPathFormat | FullURLFormat | HierarchicalFormat | NoFormat

fun format_text :: "NativeIDFormat \<Rightarrow> string" where
  "format_text SimpleNameFormat = ''name''"
| "format_text FullPathFormat = ''path''"
| "format_text FullURLFormat = ''url''"
| "format_text HierarchicalFormat = ''hierarchical''"
| "format_text NoFormat = []"

record NativeIDConfig =
  ni_Format :: NativeIDFormat
  ni_PathTemplate :: string
  ni_Parser :: "(string \<Rightarrow> goerr + PathContext) option"

text \<open>
  Go ranges over the replacements in an order of its own; the model goes through them in the
  order of the source. For values without braces the order makes no difference
  (\<open>expand_steps_any_order\<close> in the theory \<open>Native_Id\<close>).
\<close>

definition replacements :: "PathContext \<Rightarrow> string \<Rightarrow> (string \<times> string) list" where
  "replacements ctx name =
     [(''{project}'', pc_Project ctx), (''{region}'', pc_Region ctx), (''{zone}'', pc_Zone ctx),
      (''{location}'', pc_Location ctx), (''{resourceType}'', pc_ResourceType ctx),
      (''{name}'', name), (''{parent}'', pc_ParentResource ctx), (''{parentType}'', pc_ParentType ctx)]"

definition expand_steps :: "(string \<times> string) list \<Rightarrow> string \<Rightarrow> string" where
  "expand_steps rs template = foldl (\<lambda>r (placeholder, value). ReplaceAll r placeholder value) template rs"

definition expandTemplate :: "string \<Rightarrow> PathContext \<Rightarrow> string \<Rightarrow> string" where
  "expandTemplate template ctx name = expand_steps (replacements ctx name) template"

definition BuildNativeID :: "NativeIDConfig \<Rightarrow> string \<Rightarrow> PathContext \<Rightarrow> string" where
  "BuildNativeID c name ctx =
     (case ni_Format c of
        FullPathFormat \<Rightarrow> expandTemplate (ni_PathTemplate c) ctx name
      | FullURLFormat \<Rightarrow> expandTemplate (ni_PathTemplate c) ctx name
      | _ \<Rightarrow> name)"

text \<open>The loop of \<^verbatim>\<open>parsePathNativeID\<close>, two segments at a time.\<close>

fun parse_segments :: "string list \<Rightarrow> PathContext \<Rightarrow> PathContext" where
  "parse_segments (key # value # rest) ctx =
     parse_segments rest
       (if key = ''projects'' then ctx\<lparr>pc_Project := value\<rparr>
        else if key = ''regions'' then ctx\<lparr>pc_Region := value\<rparr>
        else if key = ''zones'' then ctx\<lparr>pc_Zone := value\<rparr>
        else if key = ''locations'' then ctx\<lparr>pc_Location := value\<rparr>
        else if key = ''global'' then ctx
        else ctx\<lparr>pc_ResourceType := key, pc_ResourceName := value\<rparr>)"
| "parse_segments _ ctx = ctx"

definition parsePathNativeID :: "string \<Rightarrow> goerr + PathContext" where
  "parsePathNativeID nativeID = Inr (parse_segments (Split nativeID CHR ''/'') empty_ctx)"

definition parseURLNativeID :: "string \<Rightarrow> goerr + PathContext" where
  "parseURLNativeID nativeID =
     (let id1 = (case Index nativeID ''//'' of Some i \<Rightarrow> drop (i + 2) nativeID | None \<Rightarrow> nativeID);
          id2 = (case Index id1 ''/'' of Some i \<Rightarrow> drop (i + 1) id1 | None \<Rightarrow> id1);
          id3 = (if HasPrefix id2 ''v1/'' \<or> HasPrefix id2 ''v2/'' then drop 3 id2 else id2)
      in parsePathNativeID id3)"

definition ParseNativeID :: "NativeIDConfig \<Rightarrow> string \<Rightarrow> goerr + PathContext" where
  "ParseNativeID c nativeID =
     (case ni_Parser c of
        Some p \<Rightarrow> p nativeID
      | None \<Rightarrow>
          (case ni_Format c of
             SimpleNameFormat \<Rightarrow> Inr (empty_ctx\<lparr>pc_ResourceName := nativeID\<rparr>)
           | FullPathFormat \<Rightarrow> parsePathNativeID nativeID
           | FullURLFormat \<Rightarrow> parseURLNativeID nativeID
           | f \<Rightarrow> Inl (ErrText (''no parser configured for native ID format: '' @ format_text f))))"

section \<open>operation\_config.go and resource\_config.go\<close>

record OperationConfig =
  oc_Synchronous :: bool
  oc_OperationIDExtractor :: "(obj \<Rightarrow> string) option"
  oc_OperationURLBuilder :: "(PathContext \<Rightarrow> string \<Rightarrow> string) option"
  oc_NativeIDExtractor :: "(obj \<Rightarrow> PathContext \<Rightarrow> string) option"
  oc_OperationStatusChecker :: "(obj \<Rightarrow> bool \<times> goerr option) option"
  oc_RetryableError :: "(goerr \<Rightarrow> bool) option"

datatype UpdateMethod = UpdateMethodUnset | UpdateMethodPatch | UpdateMethodPut

datatype ScopeType =
    ScopeGlobal | ScopeRegional | ScopeZonal | ScopeProjectLevel | ScopeLocationBased | ScopeOther string

record ParentResourceConfig =
  pa_ParentType :: string
  pa_PropertyName :: string
  pa_RequiresParent :: bool
  pa_ParentPathSegments :: "string list"
  pa_SecondPropertyName :: string
  pa_GrandParentType :: string
  pa_GrandParentPropertyName :: string

record OptimisticLockingConfig =
  ol_Enabled :: bool
  ol_FieldName :: string
  ol_LocationInURL :: bool

text \<open>The hook on a failed read may send requests of its own, so it runs in the machine.\<close>

record 'w ResourceConfig =
  rc_ResourceType :: string
  rc_Scope :: "ScopeType option"
  rc_ParentResource :: "ParentResourceConfig option"
  rc_SupportsUpdate :: bool
  rc_UpdateMethod :: UpdateMethod
  rc_UpdateQueryParams :: "(string \<times> string) list"
  rc_UpdateMaskFromBody :: bool
  rc_DeleteQueryParams :: "(string \<times> string) list"
  rc_OptimisticLocking :: "OptimisticLockingConfig option"
  rc_RequestWrapper :: string
  rc_ListItemsKey :: string
  rc_ReadTreatAsMissing :: "(obj \<Rightarrow> bool) option"
  rc_ReadErrorTreatAsMissing ::
    "('w env \<Rightarrow> Client \<Rightarrow> PathContext \<Rightarrow> goerr \<Rightarrow> 'w machine \<Rightarrow> bool \<times> 'w machine) option"
  rc_CreateIDParam :: string

definition GetUpdateMethod :: "'w ResourceConfig \<Rightarrow> string" where
  "GetUpdateMethod c = (if rc_UpdateMethod c = UpdateMethodPut then ''PUT'' else ''PATCH'')"

section \<open>transformers.go\<close>

record TransformContext =
  tc_Project :: string
  tc_Region :: string
  tc_Zone :: string
  tc_Location :: string
  tc_ResourceType :: string
  tc_Operation :: Operation
  tc_ParentResource :: string
  tc_ParentType :: string

type_synonym request_transformer = "obj option \<Rightarrow> TransformContext \<Rightarrow> (goerr, obj option) outcome"
type_synonym response_transformer = "obj option \<Rightarrow> TransformContext \<Rightarrow> (goerr, obj option) outcome"

definition WrapperTransformer :: "string \<Rightarrow> request_transformer" where
  "WrapperTransformer field props ctx =
     (if field = [] then Ok props else Ok (Some [(field, map_value props)]))"

definition FieldFilterTransformer :: "string list \<Rightarrow> string list \<Rightarrow> request_transformer" where
  "FieldFilterTransformer exclude include props ctx =
     (if include \<noteq> [] then
        Ok (Some (foldl (\<lambda>result field. case map_of (obj_of props) field of
                           Some v \<Rightarrow> AList.update field v result | None \<Rightarrow> result) [] include))
      else Ok (Some (filter (\<lambda>(k, v). k \<notin> set exclude) (obj_of props))))"

fun CompositeRequestTransformer :: "request_transformer list \<Rightarrow> request_transformer" where
  "CompositeRequestTransformer [] props ctx = Ok props"
| "CompositeRequestTransformer (t # ts) props ctx =
     bind_outcome (t props ctx) (\<lambda>result. CompositeRequestTransformer ts result ctx)"

fun CompositeResponseTransformer :: "response_transformer list \<Rightarrow> response_transformer" where
  "CompositeResponseTransformer [] resp ctx = Ok resp"
| "CompositeResponseTransformer (t # ts) resp ctx =
     bind_outcome (t resp ctx) (\<lambda>result. CompositeResponseTransformer ts result ctx)"

definition PassThroughTransformer :: request_transformer where
  "PassThroughTransformer props ctx = Ok props"

definition ExtractLastSegment :: "string \<Rightarrow> string" where
  "ExtractLastSegment url = last (Split url CHR ''/'')"

lemma ExtractLastSegment_suffix: "CHR ''/'' \<notin> set s \<Longrightarrow> ExtractLastSegment (p @ CHR ''/'' # s) = s"
  by (simp add: ExtractLastSegment_def Split_append Split_no_sep)

definition DefaultURLSegmentFields :: "string list" where
  "DefaultURLSegmentFields = [''region'', ''zone'', ''machineType'']"

definition segment_field :: "obj \<Rightarrow> string \<Rightarrow> obj" where
  "segment_field result field =
     (case as_string (map_of result field) of
        Some val \<Rightarrow> if val \<noteq> [] then AList.update field (JStr (ExtractLastSegment val)) result else result
      | None \<Rightarrow> result)"

definition URLSegmentResponseTransformer :: "string list \<Rightarrow> response_transformer" where
  "URLSegmentResponseTransformer names resp ctx =
     Ok (Some (foldl segment_field (obj_of resp)
                 (if names = [] then DefaultURLSegmentFields else names)))"

definition RegionResponseTransformer :: response_transformer where
  "RegionResponseTransformer = URLSegmentResponseTransformer [''region'']"

definition ZoneResponseTransformer :: response_transformer where
  "ZoneResponseTransformer = URLSegmentResponseTransformer [''zone'']"

definition ProjectResponseTransformer :: response_transformer where
  "ProjectResponseTransformer resp ctx = assign resp ''project'' (JStr (tc_Project ctx))"

definition DropFields :: "string list \<Rightarrow> request_transformer" where
  "DropFields names props ctx = Ok (Some (filter (\<lambda>(k, v). k \<notin> set names) (obj_of props)))"

definition DropFieldsOnUpdate :: "string list \<Rightarrow> request_transformer" where
  "DropFieldsOnUpdate names props ctx =
     (if tc_Operation ctx \<noteq> OperationUpdate then Ok props
      else Ok (Some (filter (\<lambda>(k, v). k \<notin> set names) (obj_of props))))"

definition ShortNameResponseTransformer :: response_transformer where
  "ShortNameResponseTransformer resp ctx =
     (case as_string (map_of (obj_of resp) ''name'') of
        None \<Rightarrow> Ok resp
      | Some name \<Rightarrow>
          (case LastIndex name CHR ''/'' of
             None \<Rightarrow> Ok resp
           | Some i \<Rightarrow> assign resp ''name'' (JStr (drop (i + 1) name))))"

section \<open>location\_helpers.go\<close>

definition location_path :: "string \<Rightarrow> string \<Rightarrow> string \<Rightarrow> string" where
  "location_path project location kind =
     ''projects/'' @ project @ ''/locations/'' @ location @ ''/'' @ kind"

definition LocationPathBuilder :: "PathContext \<Rightarrow> string" where
  "LocationPathBuilder ctx =
     ''/'' @ location_path (pc_Project ctx) (pc_Location ctx) (pc_ResourceType ctx)
       @ (if pc_ResourceName ctx \<noteq> [] then ''/'' @ pc_ResourceName ctx else [])"

definition LocationNativeIDExtractor :: "obj \<Rightarrow> PathContext \<Rightarrow> string" where
  "LocationNativeIDExtractor response ctx =
     (let name = string_or_empty (as_string (map_of response ''name''));
          fallback = (if pc_ResourceName ctx \<noteq> []
                      then location_path (pc_Project ctx) (pc_Location ctx) (pc_ResourceType ctx)
                             @ ''/'' @ pc_ResourceName ctx
                      else [])
      in if name \<noteq> []
         then (case Index name ''projects/'' of Some i \<Rightarrow> drop i name | None \<Rightarrow> fallback)
         else fallback)"

definition FullResourceNameExpander :: request_transformer where
  "FullResourceNameExpander props ctx =
     (case as_string (map_of (obj_of props) ''name'') of
        None \<Rightarrow> Ok props
      | Some name \<Rightarrow>
          if name = [] \<or> Contains name ''/'' then Ok props
          else Ok (Some (AList.update ''name''
                 (JStr (location_path (tc_Project ctx) (tc_Location ctx) (tc_ResourceType ctx) @ ''/'' @ name))
                 (obj_of props))))"

section \<open>lro.go\<close>

definition lroErrorCode :: "obj \<Rightarrow> int" where
  "lroErrorCode e =
     (case map_of e ''code'' of Some (JNum m k) \<Rightarrow> float_to_int64 m k | Some (JInt i) \<Rightarrow> i | _ \<Rightarrow> 0)"

definition CheckLROStatus :: "obj \<Rightarrow> bool \<times> goerr option" where
  "CheckLROStatus op =
     (if as_bool (map_of op ''done'') \<noteq> Some True then (False, None)
      else case as_obj (map_of op ''error'') of
        None \<Rightarrow> (True, None)
      | Some e \<Rightarrow>
          (let msg = string_or_empty (as_string (map_of e ''message'')); code = lroErrorCode e
           in if msg = [] \<and> code = 0 then (True, None)
              else if msg = [] then (True, Some (ErrText (''operation failed with code '' @ Itoa code)))
              else (True, Some (ErrText msg))))"

section \<open>The pure helpers of base\_resource\_helpers.go\<close>

definition buildUpdateMask :: "bool \<Rightarrow> obj \<Rightarrow> string" where
  "buildUpdateMask enabled body =
     (if \<not> enabled \<or> body = [] then [] else Join (sort (map fst body)) '','')"

function unwrapValue :: "json \<Rightarrow> json" where
  "unwrapValue (JObj m) =
     (case map_of m ''$value'' of
        Some inner \<Rightarrow>
          if map_of m ''$res'' = None then unwrapValue inner
          else JObj (map (\<lambda>(k, item). (k, unwrapValue item)) m)
      | None \<Rightarrow> JObj (map (\<lambda>(k, item). (k, unwrapValue item)) m))"
| "unwrapValue (JArr xs) = JArr (map unwrapValue xs)"
| "unwrapValue JNull = JNull"
| "unwrapValue (JBool b) = JBool b"
| "unwrapValue (JNum i k) = JNum i k"
| "unwrapValue (JInt i) = JInt i"
| "unwrapValue (JInt64 i) = JInt64 i"
| "unwrapValue (JNumber s) = JNumber s"
| "unwrapValue (JStr s) = JStr s"
  by pat_completeness auto
termination
  by (relation "measure size") (auto dest: size_in_obj size_in_arr size_map_of)

text \<open>On a nil map the copy is a fresh empty map.\<close>

definition UnwrapValues :: "obj option \<Rightarrow> obj" where
  "UnwrapValues props =
     (case unwrapValue (JObj (obj_of props)) of JObj m \<Rightarrow> m | _ \<Rightarrow> obj_of props)"

definition lockingValueString :: "json option \<Rightarrow> string" where
  "lockingValueString raw =
     (case raw of
        Some (JStr s) \<Rightarrow> s
      | Some (JNum m k) \<Rightarrow> format_float m k
      | Some (JInt i) \<Rightarrow> Itoa i
      | Some (JInt64 i) \<Rightarrow> Itoa i
      | Some (JNumber s) \<Rightarrow> s
      | _ \<Rightarrow> [])"

section \<open>Properties\<close>

text \<open>An object that stands for the value inside it.\<close>

definition is_wrapper :: "obj \<Rightarrow> bool" where
  "is_wrapper m \<longleftrightarrow> map_of m ''$value'' \<noteq> None \<and> map_of m ''$res'' = None"

function wrapper_free :: "json \<Rightarrow> bool" where
  "wrapper_free (JObj m) = (\<not> is_wrapper m \<and> list_all (\<lambda>(k, v). wrapper_free v) m)"
| "wrapper_free (JArr xs) = list_all wrapper_free xs"
| "wrapper_free JNull = True"
| "wrapper_free (JBool b) = True"
| "wrapper_free (JNum i k) = True"
| "wrapper_free (JInt i) = True"
| "wrapper_free (JInt64 i) = True"
| "wrapper_free (JNumber s) = True"
| "wrapper_free (JStr s) = True"
  by pat_completeness auto
termination
  by (relation "measure size") (auto dest: size_in_obj size_in_arr)

lemma unwrapValue_obj:
  "unwrapValue (JObj m) =
     (if is_wrapper m then unwrapValue (the (map_of m ''$value''))
      else JObj (map (\<lambda>(k, item). (k, unwrapValue item)) m))"
  by (auto simp: is_wrapper_def split: option.splits)

declare unwrapValue.simps(1) [simp del]

lemma map_of_map_values: "map_of (map (\<lambda>(k, item). (k, f item)) m) k = map_option f (map_of m k)"
  by (induction m) auto

lemma is_wrapper_map [simp]: "is_wrapper (map (\<lambda>(k, item). (k, f item)) m) = is_wrapper m"
  by (simp add: is_wrapper_def map_of_map_values)

lemma wrapper_free_unwrap: "wrapper_free (unwrapValue v)"
proof (induction v rule: measure_induct_rule [where f = size])
  case (less v)
  show ?case
  proof (cases v)
    case (JObj m)
    show ?thesis
    proof (cases "is_wrapper m")
      case True
      then obtain inner where "map_of m ''$value'' = Some inner" by (auto simp: is_wrapper_def)
      with True JObj less [of inner] size_map_of [of m "''$value''" inner] show ?thesis
        by (simp add: unwrapValue_obj)
    next
      case False
      with JObj less show ?thesis
        by (auto simp: unwrapValue_obj list_all_iff dest: size_in_obj)
    qed
  next
    case (JArr xs)
    with less show ?thesis by (auto simp: list_all_iff dest: size_in_arr)
  qed auto
qed

lemma wrapper_free_fixed: "wrapper_free v \<Longrightarrow> unwrapValue v = v"
proof (induction v rule: measure_induct_rule [where f = size])
  case (less v)
  show ?case
  proof (cases v)
    case (JObj m)
    have "unwrapValue b = b" if "(a, b) \<in> set m" for a b
      using less.IH [of b] less.prems that size_in_obj [OF that] JObj by (auto simp: list_all_iff)
    with JObj less.prems show ?thesis
      by (auto simp: unwrapValue_obj intro!: map_idI)
  next
    case (JArr xs)
    have "unwrapValue x = x" if "x \<in> set xs" for x
      using less.IH [of x] less.prems that size_in_arr [OF that] JArr by (auto simp: list_all_iff)
    with JArr show ?thesis by (auto intro!: map_idI)
  qed auto
qed

text \<open>
  Unwrapping reaches every level and is done once: no wrapped value is left anywhere in the
  result, and unwrapping it again changes nothing. A resolvable reference is not a wrapper and
  stays where it is.
\<close>
lemma unwrapValue_complete:
  "wrapper_free (unwrapValue v) \<and> unwrapValue (unwrapValue v) = unwrapValue v"
  using wrapper_free_unwrap wrapper_free_fixed by blast

text \<open>
  The update mask does not depend on the order in which Go ranges over the body, and it names
  exactly the body's top-level fields, each once.
\<close>
lemma buildUpdateMask_exact:
  assumes "mset (map fst body) = mset (map fst body')"
    and "body \<noteq> []" and "\<forall>k \<in> fst ` set body. CHR '','' \<notin> set k"
  shows "buildUpdateMask True body = buildUpdateMask True body'
     \<and> mset (Split (buildUpdateMask True body) CHR '','') = mset (map fst body)"
proof -
  have s: "sort (map fst body) = sort (map fst body')"
    using assms(1) by (intro properties_for_sort) auto
  have "body' \<noteq> []" using assms(1,2) by (metis list.map_disc_iff mset_zero_iff)
  moreover have "Split (Join (sort (map fst body)) '','') CHR '','' = sort (map fst body)"
    using assms(2,3) by (intro Split_Join) (auto simp flip: set_empty)
  ultimately show ?thesis using assms(1,2) s by (simp add: buildUpdateMask_def)
qed

text \<open>
  A finished operation counts as failed only if its error says something. The checker reports
  an error exactly for a done operation whose error object has a message or a non-zero code, and
  reports every done operation as done; an empty error object is no failure.
\<close>
lemma CheckLROStatus_exact:
  "fst (CheckLROStatus op) = (as_bool (map_of op ''done'') = Some True)
   \<and> (snd (CheckLROStatus op) \<noteq> None \<longleftrightarrow>
        as_bool (map_of op ''done'') = Some True
        \<and> (\<exists>e. map_of op ''error'' = Some (JObj e)
              \<and> \<not> (string_or_empty (as_string (map_of e ''message'')) = [] \<and> lroErrorCode e = 0)))"
  by (auto simp: CheckLROStatus_def Let_def split: option.splits)

end
