(* ===== verification/Base_Resource.thy ===== *)
theory Base_Resource
  imports Base_Config
begin

text \<open>
  The operations every configured resource type shares: \<^verbatim>\<open>src/pkg/resources/base/base_resource.go\<close>
  and the stateful half of \<^verbatim>\<open>base_resource_helpers.go\<close>, with \<^verbatim>\<open>unauthorized_read.go\<close>.

  Every operation takes the environment, the resource's configuration, the request and the
  machine, and returns what the Go method returns (a result, an error, or a panic) with the
  machine it leaves. Create, Update, Delete and Status answer a \<^typ>\<open>ProgressResult\<close>.

  Transformers are functions on values: one that changes its argument in place is modelled by
  what it returns.
\<close>

record 'w BaseResource =
  b_Config :: "Config option"
  b_APIConfig :: APIConfig
  b_OperationConfig :: OperationConfig
  b_ResourceConfig :: "'w ResourceConfig"
  b_NativeIDConfig :: NativeIDConfig
  b_RequestTransformer :: "request_transformer option"
  b_ResponseTransformer :: "response_transformer option"

type_synonym ('w, 'a) op = "'w machine \<Rightarrow> (goerr, 'a) outcome \<times> 'w machine"

section \<open>Addressing\<close>

text \<open>The property that names the parent.\<close>

definition parent_property :: "ParentResourceConfig \<Rightarrow> string" where
  "parent_property pr = (if pa_PropertyName pr = [] then pa_ParentType pr else pa_PropertyName pr)"

definition create_scope :: "ScopeType option \<Rightarrow> PathContext \<Rightarrow> PathContext" where
  "create_scope scope ctx =
     (case scope of
        Some ScopeGlobal \<Rightarrow> ctx\<lparr>pc_Region := [], pc_Zone := []\<rparr>
      | Some ScopeRegional \<Rightarrow> ctx\<lparr>pc_Zone := []\<rparr>
      | _ \<Rightarrow> ctx)"

definition parent_context :: "ParentResourceConfig option \<Rightarrow> obj \<Rightarrow> PathContext \<Rightarrow> PathContext" where
  "parent_context parent props ctx =
     (case parent of
        None \<Rightarrow> ctx
      | Some pr \<Rightarrow>
          if \<not> pa_RequiresParent pr then ctx
          else
            (let ctx1 =
               (case as_string (map_of props (parent_property pr)) of
                  None \<Rightarrow> ctx
                | Some p \<Rightarrow>
                    (let second = (if pa_SecondPropertyName pr = [] then []
                                   else string_or_empty (as_string (map_of props (pa_SecondPropertyName pr))))
                     in ctx\<lparr>pc_ParentResource := (if second = [] then p else p @ ''/'' @ second),
                            pc_ParentType := pa_ParentType pr\<rparr>))
             in if pa_GrandParentType pr = [] then ctx1
                else
                  (let gpProp = (if pa_GrandParentPropertyName pr = [] then pa_GrandParentType pr
                                 else pa_GrandParentPropertyName pr);
                       gp = string_or_empty (as_string (map_of props gpProp))
                   in if gp = [] then ctx1 else ctx1\<lparr>pc_CustomSegments := [gp]\<rparr>)))"

definition buildPathContext :: "'w BaseResource \<Rightarrow> raw \<Rightarrow> obj \<Rightarrow> PathContext" where
  "buildPathContext b targetConfig props =
     (let cfg = PathFromTargetConfig targetConfig; rc = b_ResourceConfig b;
          ctx0 = empty_ctx\<lparr>pc_Project := tp_Project cfg, pc_Region := tp_Region cfg,
                           pc_Zone := tp_Zone cfg, pc_Location := tp_Location cfg,
                           pc_ResourceType := rc_ResourceType rc\<rparr>;
          ctx1 = create_scope (rc_Scope rc) ctx0;
          ctx2 = (case as_string (map_of props ''name'') of
                    Some name \<Rightarrow> ctx1\<lparr>pc_ResourceName := name\<rparr> | None \<Rightarrow> ctx1);
          ctx3 = parent_context (rc_ParentResource rc) props ctx2;
          ctx4 = (case as_string (map_of props ''location'') of
                    Some l \<Rightarrow> ctx3\<lparr>pc_Location := l, pc_Region := l\<rparr> | None \<Rightarrow> ctx3)
      in case as_string (map_of props ''zone'') of
           Some z \<Rightarrow> ctx4\<lparr>pc_Zone := z\<rparr> | None \<Rightarrow> ctx4)"

definition fill :: "string \<Rightarrow> string \<Rightarrow> string" where
  "fill present target_value = (if present = [] then target_value else present)"

definition fillPathContextFromTarget :: "'w BaseResource \<Rightarrow> raw \<Rightarrow> PathContext \<Rightarrow> PathContext" where
  "fillPathContextFromTarget b targetConfig ctx0 =
     (let cfg = PathFromTargetConfig targetConfig;
          ctx = ctx0\<lparr>pc_Project := fill (pc_Project ctx0) (tp_Project cfg)\<rparr>;
          region = fill (pc_Region ctx) (tp_Region cfg);
          zone = fill (pc_Zone ctx) (tp_Zone cfg);
          location = fill (pc_Location ctx) (tp_Location cfg)
      in case rc_Scope (b_ResourceConfig b) of
           Some ScopeGlobal \<Rightarrow> ctx\<lparr>pc_Region := [], pc_Zone := [], pc_Location := []\<rparr>
         | Some ScopeRegional \<Rightarrow> ctx\<lparr>pc_Region := region, pc_Zone := []\<rparr>
         | Some ScopeZonal \<Rightarrow> ctx\<lparr>pc_Region := region, pc_Zone := zone\<rparr>
         | Some ScopeLocationBased \<Rightarrow> ctx\<lparr>pc_Location := location\<rparr>
         | _ \<Rightarrow> ctx\<lparr>pc_Region := region, pc_Zone := zone, pc_Location := location\<rparr>)"

definition buildTransformContext :: "PathContext \<Rightarrow> Operation \<Rightarrow> TransformContext" where
  "buildTransformContext pathCtx operation =
     \<lparr>tc_Project = pc_Project pathCtx, tc_Region = pc_Region pathCtx, tc_Zone = pc_Zone pathCtx,
      tc_Location = pc_Location pathCtx, tc_ResourceType = pc_ResourceType pathCtx,
      tc_Operation = operation, tc_ParentResource = pc_ParentResource pathCtx,
      tc_ParentType = pc_ParentType pathCtx\<rparr>"

text \<open>The context Read, Update and Delete address: what the native ID says, completed.\<close>

definition resource_context :: "'w BaseResource \<Rightarrow> raw \<Rightarrow> PathContext \<Rightarrow> PathContext" where
  "resource_context b targetConfig ctx =
     (fillPathContextFromTarget b targetConfig ctx)
       \<lparr>pc_ResourceType := rc_ResourceType (b_ResourceConfig b)\<rparr>"

definition resource_url :: "'w BaseResource \<Rightarrow> PathContext \<Rightarrow> (goerr, string) outcome" where
  "resource_url b ctx = ResourceURL (NewURLBuilder (b_APIConfig b) ctx) (pc_ResourceName ctx)"

text \<open>\<^verbatim>\<open>url, _ = transport.AddQueryParam(...)\<close>: on an error the URL is empty.\<close>

definition url_or_empty :: "goerr + string \<Rightarrow> string" where
  "url_or_empty r = (case r of Inr u \<Rightarrow> u | Inl e \<Rightarrow> [])"

section \<open>Results\<close>

definition createFailureResult :: "OperationErrorCode \<Rightarrow> string \<Rightarrow> ProgressResult" where
  "createFailureResult code msg =
     (progress OperationCreate OperationStatusFailure)\<lparr>pr_ErrorCode := code, pr_Message := msg\<rparr>"

definition updateFailureResult :: "string \<Rightarrow> OperationErrorCode \<Rightarrow> string \<Rightarrow> ProgressResult" where
  "updateFailureResult nativeID code msg =
     (progress OperationUpdate OperationStatusFailure)
       \<lparr>pr_ErrorCode := code, pr_Message := msg, pr_NativeID := nativeID\<rparr>"

definition deleteFailureResult :: "string \<Rightarrow> OperationErrorCode \<Rightarrow> string \<Rightarrow> ProgressResult" where
  "deleteFailureResult nativeID code msg =
     (progress OperationDelete OperationStatusFailure)
       \<lparr>pr_ErrorCode := code, pr_Message := msg, pr_NativeID := nativeID\<rparr>"

definition retryable :: "'w BaseResource \<Rightarrow> goerr \<Rightarrow> bool" where
  "retryable b e =
     (case oc_RetryableError (b_OperationConfig b) of None \<Rightarrow> False | Some f \<Rightarrow> f e)"

text \<open>Calls through the function fields of \<^verbatim>\<open>OperationConfig\<close>.\<close>

definition call_native_id :: "'w BaseResource \<Rightarrow> obj option \<Rightarrow> PathContext \<Rightarrow> (goerr, string) outcome" where
  "call_native_id b body ctx =
     (case oc_NativeIDExtractor (b_OperationConfig b) of
        None \<Rightarrow> Panic nil_panic | Some f \<Rightarrow> Ok (f (obj_of body) ctx))"

definition call_operation_id :: "'w BaseResource \<Rightarrow> obj option \<Rightarrow> (goerr, string) outcome" where
  "call_operation_id b body =
     (case oc_OperationIDExtractor (b_OperationConfig b) of
        None \<Rightarrow> Panic nil_panic | Some f \<Rightarrow> Ok (f (obj_of body)))"

definition call_operation_url :: "'w BaseResource \<Rightarrow> PathContext \<Rightarrow> string \<Rightarrow> (goerr, string) outcome" where
  "call_operation_url b ctx opID =
     (case oc_OperationURLBuilder (b_OperationConfig b) of
        None \<Rightarrow> Panic nil_panic | Some f \<Rightarrow> Ok (f ctx opID))"

definition transform_request ::
    "'w BaseResource \<Rightarrow> obj \<Rightarrow> PathContext \<Rightarrow> Operation \<Rightarrow> (goerr, obj option) outcome" where
  "transform_request b props ctx operation =
     (case b_RequestTransformer b of
        None \<Rightarrow> Ok (Some props)
      | Some t \<Rightarrow> t (Some props) (buildTransformContext ctx operation))"

definition transform_response ::
    "'w BaseResource \<Rightarrow> obj option \<Rightarrow> PathContext \<Rightarrow> Operation \<Rightarrow> (goerr, obj option) outcome" where
  "transform_response b body ctx operation =
     (case b_ResponseTransformer b of
        None \<Rightarrow> Ok body
      | Some t \<Rightarrow> t body (buildTransformContext ctx operation))"

definition wrap_body :: "'w BaseResource \<Rightarrow> obj option \<Rightarrow> obj option" where
  "wrap_body b body =
     (let wrapper = rc_RequestWrapper (b_ResourceConfig b)
      in if wrapper = [] then body else Some [(wrapper, map_value body)])"

section \<open>Create\<close>

definition handleSynchronousCreate ::
    "'w BaseResource \<Rightarrow> obj option \<Rightarrow> PathContext \<Rightarrow> (goerr, ProgressResult) outcome" where
  "handleSynchronousCreate b body ctx =
     bind_outcome (call_native_id b body ctx) (\<lambda>nativeID.
     bind_outcome (transform_response b body ctx OperationCreate) (\<lambda>apiResponse.
       case Marshal (map_value apiResponse) of
         Inl e \<Rightarrow> Ok (createFailureResult ServiceInternalError (''failed to marshal properties: '' @ e))
       | Inr propsJSON \<Rightarrow>
           Ok ((progress OperationCreate OperationStatusSuccess)
                 \<lparr>pr_NativeID := nativeID, pr_Message := ''Resource created successfully'',
                  pr_Properties := Some propsJSON\<rparr>)))"

definition asynchronous_create ::
    "'w BaseResource \<Rightarrow> obj option \<Rightarrow> PathContext \<Rightarrow> (goerr, ProgressResult) outcome" where
  "asynchronous_create b body ctx =
     bind_outcome (call_native_id b body ctx) (\<lambda>nativeID.
     bind_outcome (call_operation_id b body) (\<lambda>operationID.
     bind_outcome (call_operation_url b ctx operationID) (\<lambda>requestID.
       Ok ((progress OperationCreate OperationStatusInProgress)
             \<lparr>pr_NativeID := nativeID, pr_RequestID := requestID,
              pr_Message := rc_ResourceType (b_ResourceConfig b) @ '' creation in progress''\<rparr>))))"

text \<open>The refusal of a two-property parent whose second property is missing.\<close>

definition missing_second :: "'w BaseResource \<Rightarrow> obj \<Rightarrow> string option" where
  "missing_second b props =
     (case rc_ParentResource (b_ResourceConfig b) of
        None \<Rightarrow> None
      | Some pr \<Rightarrow>
          (let second = pa_SecondPropertyName pr
           in if second \<noteq> [] \<and> string_or_empty (as_string (map_of props second)) = []
              then Some (second @ '' is required to address this resource and was not supplied (got ''
                         @ type_name (map_of props second)
                         @ ''); without it the request would create a different resource'')
              else None))"

text \<open>The id sent as a query parameter, and the body without it.\<close>

definition create_id :: "'w BaseResource \<Rightarrow> obj option \<Rightarrow> string \<times> obj option" where
  "create_id b body =
     (if rc_CreateIDParam (b_ResourceConfig b) = [] then ([], body)
      else
        (let id = string_or_empty (as_string (map_of (obj_of body) ''name''))
         in if id = [] then ([], body) else (id, map_option (AList.delete ''name'') body)))"

definition create_error_context :: "CreateRequest \<Rightarrow> obj \<Rightarrow> PathContext \<Rightarrow> string" where
  "create_error_context request props ctx =
     (let name = (if pc_ResourceName ctx = [] then string_or_empty (as_string (map_of props ''name''))
                  else pc_ResourceName ctx)
      in if name = [] then ''failed to create '' @ cr_ResourceType request
         else ''failed to create '' @ cr_ResourceType request @ '' '' @ [CHR 0x27] @ name @ [CHR 0x27])"

definition create_url :: "'w BaseResource \<Rightarrow> PathContext \<Rightarrow> string \<Rightarrow> (goerr, string) outcome" where
  "create_url b ctx idValue =
     bind_outcome (CollectionURL (NewURLBuilder (b_APIConfig b) ctx)) (\<lambda>url.
       if idValue = [] then Ok url
       else case AddQueryParam url (rc_CreateIDParam (b_ResourceConfig b)) idValue of
         Inr u \<Rightarrow> Ok u | Inl e \<Rightarrow> Ok url)"

definition send_create ::
    "'w env \<Rightarrow> 'w BaseResource \<Rightarrow> Client \<Rightarrow> CreateRequest \<Rightarrow> obj \<Rightarrow> PathContext \<Rightarrow> obj option
      \<Rightarrow> ('w, ProgressResult) op" where
  "send_create E b client request props ctx body s =
     (case create_id b body of (idValue, body1) \<Rightarrow>
       (case create_url b ctx idValue of
          Err e \<Rightarrow> (Err e, s)
        | Panic p \<Rightarrow> (Panic p, s)
        | Ok url \<Rightarrow>
            (case SendRequest E client (request_options ''POST'' url (wrap_body b body1)) s of
               (Inl e, s1) \<Rightarrow>
                 (let te = wrap_err e (create_error_context request props ctx)
                  in (Ok (createFailureResult (ToResourceErrorCode (te_Code te)) (te_Message te)), s1))
             | (Inr response, s1) \<Rightarrow>
                 (if oc_Synchronous (b_OperationConfig b)
                  then handleSynchronousCreate b (rs_Body response) ctx
                  else asynchronous_create b (rs_Body response) ctx, s1))))"

definition client_error :: "goerr \<Rightarrow> goerr" where
  "client_error e = errorf_w ''failed to create transport client: '' e"

definition Create :: "'w env \<Rightarrow> 'w BaseResource \<Rightarrow> CreateRequest \<Rightarrow> ('w, ProgressResult) op" where
  "Create E b request s =
     (case NewClient E (b_Config b) s of
        (Inl e, s1) \<Rightarrow> (Err (client_error e), s1)
      | (Inr client, s1) \<Rightarrow>
          (case unmarshal_map (cr_Properties request) of
             Inl e \<Rightarrow> (Ok (createFailureResult InvalidRequest (''failed to parse properties: '' @ e)), s1)
           | Inr raw_props \<Rightarrow>
               (let props = UnwrapValues raw_props;
                    ctx = buildPathContext b (cr_TargetConfig request) props
                in case missing_second b props of
                     Some msg \<Rightarrow> (Ok (createFailureResult InvalidRequest msg), s1)
                   | None \<Rightarrow>
                       (case transform_request b props ctx OperationCreate of
                          Err e \<Rightarrow>
                            (Ok (createFailureResult InvalidRequest
                                   (''failed to transform request: '' @ err_text e)), s1)
                        | Panic p \<Rightarrow> (Panic p, s1)
                        | Ok body \<Rightarrow> send_create E b client request props ctx body s1))))"

section \<open>Read\<close>

definition logUnauthorizedRead :: "string \<Rightarrow> goerr \<Rightarrow> 'w machine \<Rightarrow> 'w machine" where
  "logUnauthorizedRead url e s =
     (if ClassifyError (Some e) \<noteq> ErrorCodeUnauthorized then s
      else log_add (''WARN'', ''read refused: not authorized'', [(''url'', url), (''error'', err_text e)]) s)"

definition error_is_missing ::
    "'w env \<Rightarrow> 'w BaseResource \<Rightarrow> Client \<Rightarrow> PathContext \<Rightarrow> goerr \<Rightarrow> 'w machine \<Rightarrow> bool \<times> 'w machine" where
  "error_is_missing E b client ctx e s =
     (case rc_ReadErrorTreatAsMissing (b_ResourceConfig b) of
        None \<Rightarrow> (False, s) | Some f \<Rightarrow> f E client ctx e s)"

definition body_is_missing :: "'w BaseResource \<Rightarrow> obj option \<Rightarrow> bool" where
  "body_is_missing b body =
     (case rc_ReadTreatAsMissing (b_ResourceConfig b) of None \<Rightarrow> False | Some f \<Rightarrow> f (obj_of body))"

definition read_body :: "'w BaseResource \<Rightarrow> PathContext \<Rightarrow> obj option \<Rightarrow> (goerr, ReadResult) outcome" where
  "read_body b ctx body =
     (if body_is_missing b body then Ok (read_error NotFound)
      else bind_outcome (transform_response b body ctx OperationRead) (\<lambda>apiResponse.
        case Marshal (map_value apiResponse) of
          Inl e \<Rightarrow> Err (errorf_w ''failed to marshal properties: '' (ErrText e))
        | Inr propsJSON \<Rightarrow> Ok (read_properties propsJSON)))"

definition Read :: "'w env \<Rightarrow> 'w BaseResource \<Rightarrow> ReadRequest \<Rightarrow> ('w, ReadResult) op" where
  "Read E b request s =
     (case NewClient E (b_Config b) s of
        (Inl e, s1) \<Rightarrow> (Err (client_error e), s1)
      | (Inr client, s1) \<Rightarrow>
          (case ParseNativeID (b_NativeIDConfig b) (rd_NativeID request) of
             Inl e \<Rightarrow> (Ok (read_error InvalidRequest), s1)
           | Inr ctx0 \<Rightarrow>
               (let ctx = resource_context b (rd_TargetConfig request) ctx0
                in case resource_url b ctx of
                     Err e \<Rightarrow> (Err e, s1)
                   | Panic p \<Rightarrow> (Panic p, s1)
                   | Ok url \<Rightarrow>
                       (case SendRequest E client (request_options ''GET'' url None) s1 of
                          (Inl e, s2) \<Rightarrow>
                            (case error_is_missing E b client ctx e s2 of
                               (True, s3) \<Rightarrow> (Ok (read_error NotFound), s3)
                             | (False, s3) \<Rightarrow>
                                 (Ok (read_error
                                        (ToResourceErrorCode (te_Code (wrap_err e ''failed to read resource'')))),
                                  logUnauthorizedRead url e s3))
                        | (Inr response, s2) \<Rightarrow> (read_body b ctx (rs_Body response), s2)))))"

section \<open>Update\<close>

text \<open>\<^verbatim>\<open>readBackAfterUpdate\<close>: the properties, or nothing when the read did not give any.\<close>

definition readBackAfterUpdate ::
    "'w env \<Rightarrow> 'w BaseResource \<Rightarrow> UpdateRequest \<Rightarrow> ('w, raw option) op" where
  "readBackAfterUpdate E b request s =
     (if up_NativeID request = [] then (Ok None, s)
      else case Read E b \<lparr>rd_NativeID = up_NativeID request, rd_ResourceType = up_ResourceType request,
                          rd_TargetConfig = up_TargetConfig request\<rparr> s of
        (Panic p, s1) \<Rightarrow> (Panic p, s1)
      | (Err e, s1) \<Rightarrow> (Ok None, s1)
      | (Ok r, s1) \<Rightarrow> (Ok (if rr_ErrorCode r \<noteq> NoErrorCode then None else rr_Properties r), s1))"

text \<open>What both kinds of update do with the answer to the request they sent.\<close>

definition finish_update ::
    "'w env \<Rightarrow> 'w BaseResource \<Rightarrow> UpdateRequest \<Rightarrow> PathContext \<Rightarrow> goerr + Response
      \<Rightarrow> ('w, ProgressResult) op" where
  "finish_update E b request ctx answer s =
     (case answer of
        Inl e \<Rightarrow>
          (let te = wrap_err e ''failed to update resource''
           in (Ok (updateFailureResult (up_NativeID request)
                     (if retryable b e then NotStabilized else ToResourceErrorCode (te_Code te))
                     (te_Message te)), s))
      | Inr response \<Rightarrow>
          if oc_Synchronous (b_OperationConfig b) then
            (case readBackAfterUpdate E b request s of
               (Ok props, s1) \<Rightarrow>
                 (Ok ((progress OperationUpdate OperationStatusSuccess)
                        \<lparr>pr_NativeID := up_NativeID request,
                         pr_Message := ''Resource updated successfully'', pr_Properties := props\<rparr>), s1)
             | (Err e, s1) \<Rightarrow> (Err e, s1)
             | (Panic p, s1) \<Rightarrow> (Panic p, s1))
          else
            (bind_outcome (call_operation_id b (rs_Body response)) (\<lambda>operationID.
             bind_outcome (call_operation_url b ctx operationID) (\<lambda>requestID.
               Ok ((progress OperationUpdate OperationStatusInProgress)
                     \<lparr>pr_NativeID := up_NativeID request, pr_RequestID := requestID,
                      pr_Message := rc_ResourceType (b_ResourceConfig b) @ '' update in progress''\<rparr>))), s))"

definition with_update_params :: "'w BaseResource \<Rightarrow> string \<Rightarrow> string" where
  "with_update_params b url =
     (let params = rc_UpdateQueryParams (b_ResourceConfig b)
      in if params = [] then url else url_or_empty (AddQueryParams url params))"

definition performUpdate ::
    "'w env \<Rightarrow> 'w BaseResource \<Rightarrow> Client \<Rightarrow> UpdateRequest \<Rightarrow> obj \<Rightarrow> PathContext
      \<Rightarrow> ('w, ProgressResult) op" where
  "performUpdate E b client request props ctx s =
     (case transform_request b props ctx OperationUpdate of
        Err e \<Rightarrow>
          (Ok (updateFailureResult (up_NativeID request) InvalidRequest
                 (''failed to transform request: '' @ err_text e)), s)
      | Panic p \<Rightarrow> (Panic p, s)
      | Ok body \<Rightarrow>
          (case resource_url b ctx of
             Err e \<Rightarrow> (Err e, s)
           | Panic p \<Rightarrow> (Panic p, s)
           | Ok url \<Rightarrow>
               (let mask = buildUpdateMask (rc_UpdateMaskFromBody (b_ResourceConfig b)) (obj_of body);
                    url1 = with_update_params b url;
                    url2 = (if mask = [] then url1 else url_or_empty (AddQueryParam url1 ''updateMask'' mask))
                in case SendRequest E client
                          (request_options (GetUpdateMethod (b_ResourceConfig b)) url2 (wrap_body b body)) s of
                     (answer, s1) \<Rightarrow> finish_update E b request ctx answer s1)))"

text \<open>The lock value put into the URL or into the body.\<close>

definition lock_body ::
    "OptimisticLockingConfig \<Rightarrow> json option \<Rightarrow> obj option \<Rightarrow> (goerr, obj option) outcome" where
  "lock_body lock v body =
     (if ol_LocationInURL lock \<or> \<not> non_nil v then Ok body
      else assign body (ol_FieldName lock) (the v))"

definition lock_url :: "OptimisticLockingConfig \<Rightarrow> json option \<Rightarrow> string \<Rightarrow> string" where
  "lock_url lock v url =
     (if ol_LocationInURL lock
      then url_or_empty (AddQueryParam url (ol_FieldName lock) (lockingValueString v)) else url)"

definition updateWithOptimisticLocking ::
    "'w env \<Rightarrow> 'w BaseResource \<Rightarrow> OptimisticLockingConfig \<Rightarrow> Client \<Rightarrow> UpdateRequest \<Rightarrow> obj
      \<Rightarrow> PathContext \<Rightarrow> ('w, ProgressResult) op" where
  "updateWithOptimisticLocking E b lock client request props ctx s =
     (case resource_url b ctx of
        Err e \<Rightarrow> (Err e, s)
      | Panic p \<Rightarrow> (Panic p, s)
      | Ok url \<Rightarrow>
     (case SendRequest E client (request_options ''GET'' url None) s of
        (Inl e, s1) \<Rightarrow>
          (let te = wrap_err e ''failed to read resource for locking''
           in (Ok (updateFailureResult (up_NativeID request) (ToResourceErrorCode (te_Code te))
                     (te_Message te)), s1))
      | (Inr current, s1) \<Rightarrow>
          (let v = map_of (obj_of (rs_Body current)) (ol_FieldName lock)
           in case transform_request b props ctx OperationUpdate of
                Err e \<Rightarrow>
                  (Ok (updateFailureResult (up_NativeID request) InvalidRequest
                         (''failed to transform request: '' @ err_text e)), s1)
              | Panic p \<Rightarrow> (Panic p, s1)
              | Ok body \<Rightarrow>
                  (case lock_body lock v body of
                     Err e \<Rightarrow> (Err e, s1)
                   | Panic p \<Rightarrow> (Panic p, s1)
                   | Ok body1 \<Rightarrow>
                       (case SendRequest E client
                               (request_options (GetUpdateMethod (b_ResourceConfig b))
                                  (with_update_params b (lock_url lock v url)) (wrap_body b body1)) s1 of
                          (answer, s2) \<Rightarrow> finish_update E b request ctx answer s2)))))"

definition Update :: "'w env \<Rightarrow> 'w BaseResource \<Rightarrow> UpdateRequest \<Rightarrow> ('w, ProgressResult) op" where
  "Update E b request s =
     (if \<not> rc_SupportsUpdate (b_ResourceConfig b) then
        (Ok (updateFailureResult (up_NativeID request) NotUpdatable
               (rc_ResourceType (b_ResourceConfig b) @ '' does not support updates'')), s)
      else case NewClient E (b_Config b) s of
        (Inl e, s1) \<Rightarrow> (Err (client_error e), s1)
      | (Inr client, s1) \<Rightarrow>
          (case unmarshal_map (up_DesiredProperties request) of
             Inl e \<Rightarrow>
               (Ok (updateFailureResult (up_NativeID request) InvalidRequest
                      (''failed to parse properties: '' @ e)), s1)
           | Inr raw_props \<Rightarrow>
               (case ParseNativeID (b_NativeIDConfig b) (up_NativeID request) of
                  Inl e \<Rightarrow>
                    (Ok (updateFailureResult (up_NativeID request) InvalidRequest
                           (''invalid native ID: '' @ err_text e)), s1)
                | Inr ctx0 \<Rightarrow>
                    (let props = UnwrapValues raw_props;
                         ctx = resource_context b (up_TargetConfig request) ctx0
                     in case rc_OptimisticLocking (b_ResourceConfig b) of
                          Some lock \<Rightarrow>
                            if ol_Enabled lock
                            then updateWithOptimisticLocking E b lock client request props ctx s1
                            else performUpdate E b client request props ctx s1
                        | None \<Rightarrow> performUpdate E b client request props ctx s1))))"

section \<open>Delete\<close>

definition deleted :: "string \<Rightarrow> string \<Rightarrow> ProgressResult" where
  "deleted nativeID msg =
     (progress OperationDelete OperationStatusSuccess)\<lparr>pr_NativeID := nativeID, pr_Message := msg\<rparr>"

definition finish_delete ::
    "'w BaseResource \<Rightarrow> string \<Rightarrow> PathContext \<Rightarrow> goerr + Response \<Rightarrow> (goerr, ProgressResult) outcome" where
  "finish_delete b nativeID ctx answer =
     (case answer of
        Inl e \<Rightarrow>
          (let te = wrap_err e ''failed to delete resource''; code = ToResourceErrorCode (te_Code te)
           in if code = NotFound
              then Ok (deleted nativeID (rc_ResourceType (b_ResourceConfig b) @ '' already deleted''))
              else if retryable b e then Ok (deleteFailureResult nativeID NotStabilized (te_Message te))
              else Ok (deleteFailureResult nativeID code (te_Message te)))
      | Inr response \<Rightarrow>
          if oc_Synchronous (b_OperationConfig b)
          then Ok (deleted nativeID ''Resource deleted successfully'')
          else
            bind_outcome (call_operation_id b (rs_Body response)) (\<lambda>operationID.
              if operationID = [] then Ok (deleted nativeID ''Resource deleted successfully'')
              else bind_outcome (call_operation_url b ctx operationID) (\<lambda>requestID.
                Ok ((progress OperationDelete OperationStatusInProgress)
                      \<lparr>pr_NativeID := nativeID, pr_RequestID := requestID,
                       pr_Message := rc_ResourceType (b_ResourceConfig b) @ '' deletion in progress''\<rparr>))))"

definition Delete :: "'w env \<Rightarrow> 'w BaseResource \<Rightarrow> DeleteRequest \<Rightarrow> ('w, ProgressResult) op" where
  "Delete E b request s =
     (case NewClient E (b_Config b) s of
        (Inl e, s1) \<Rightarrow> (Err (client_error e), s1)
      | (Inr client, s1) \<Rightarrow>
          (case ParseNativeID (b_NativeIDConfig b) (dl_NativeID request) of
             Inl e \<Rightarrow>
               (Ok (deleteFailureResult (dl_NativeID request) InvalidRequest
                      (''invalid native ID: '' @ err_text e)), s1)
           | Inr ctx0 \<Rightarrow>
               (let ctx = resource_context b (dl_TargetConfig request) ctx0;
                    params = rc_DeleteQueryParams (b_ResourceConfig b)
                in case resource_url b ctx of
                     Err e \<Rightarrow> (Err e, s1)
                   | Panic p \<Rightarrow> (Panic p, s1)
                   | Ok url \<Rightarrow>
                       (case SendRequest E client
                               (request_options ''DELETE''
                                  (if params = [] then url else url_or_empty (AddQueryParams url params)) None) s1 of
                          (answer, s2) \<Rightarrow> (finish_delete b (dl_NativeID request) ctx answer, s2)))))"

section \<open>List\<close>

definition listPathIsDoomed :: "APIConfig \<Rightarrow> PathContext \<Rightarrow> bool" where
  "listPathIsDoomed api ctx =
     (case ac_PathBuilder api of
        None \<Rightarrow> True
      | Some f \<Rightarrow> f ctx = [] \<or> Contains (f ctx) ''//'' \<or> HasSuffix (f ctx) ''/'')"

definition list_scope :: "ScopeType option \<Rightarrow> PathContext \<Rightarrow> PathContext" where
  "list_scope scope ctx =
     (case scope of
        Some ScopeGlobal \<Rightarrow> ctx\<lparr>pc_Region := [], pc_Zone := [], pc_Location := []\<rparr>
      | Some ScopeRegional \<Rightarrow> ctx\<lparr>pc_Zone := []\<rparr>
      | _ \<Rightarrow> ctx)"

definition list_parent ::
    "ParentResourceConfig option \<Rightarrow> (string \<times> string) list \<Rightarrow> PathContext \<Rightarrow> PathContext" where
  "list_parent parent props ctx =
     (case parent of
        None \<Rightarrow> ctx
      | Some pr \<Rightarrow>
          if \<not> pa_RequiresParent pr then ctx
          else
            (let p = string_or_empty (map_of props (parent_property pr));
                 second = (if pa_SecondPropertyName pr = [] then []
                           else string_or_empty (map_of props (pa_SecondPropertyName pr)))
             in if p = [] then ctx
                else ctx\<lparr>pc_ParentResource := (if second = [] then p else p @ ''/'' @ second),
                         pc_ParentType := pa_ParentType pr\<rparr>))"

definition list_base_url :: "'w BaseResource \<Rightarrow> PathContext \<Rightarrow> (goerr, string) outcome" where
  "list_base_url b ctx =
     (let scope = rc_Scope (b_ResourceConfig b)
      in if (scope = Some ScopeZonal \<and> pc_Zone ctx = []) \<or> (scope = Some ScopeRegional \<and> pc_Region ctx = [])
         then Ok (ac_BaseURL (b_APIConfig b) @ ''/projects/'' @ pc_Project ctx @ ''/aggregated/''
                    @ rc_ResourceType (b_ResourceConfig b))
         else CollectionURL (NewURLBuilder (b_APIConfig b) ctx))"

definition page_url :: "APIConfig \<Rightarrow> ListRequest \<Rightarrow> string \<Rightarrow> string" where
  "page_url api request url =
     (if IsPaginationDisabled api then url
      else
        (let url1 = (if 0 < ls_PageSize request
                     then url_or_empty (AddQueryParam url (GetPageSizeParam api) (Itoa (ls_PageSize request)))
                     else url);
             token = string_or_empty (ls_PageToken request)
         in if token = [] then url1
            else url_or_empty (AddQueryParam url1 (GetPageTokenParam api) token)))"

definition extractNativeIDFromItem :: "'w BaseResource \<Rightarrow> obj \<Rightarrow> PathContext \<Rightarrow> string" where
  "extractNativeIDFromItem b item ctx =
     (let nativeID = (case oc_NativeIDExtractor (b_OperationConfig b) of
                        None \<Rightarrow> [] | Some f \<Rightarrow> f item ctx);
          name = string_or_empty (as_string (map_of item ''name''))
      in if nativeID \<noteq> [] then nativeID
         else if name = [] then []
         else BuildNativeID (b_NativeIDConfig b) name ctx)"

fun item_ids :: "'w BaseResource \<Rightarrow> PathContext \<Rightarrow> json \<Rightarrow> string list" where
  "item_ids b ctx (JObj item) =
     (let id = extractNativeIDFromItem b item ctx in if id \<noteq> [] then [id] else [])"
| "item_ids b ctx _ = []"

fun zone_ids :: "'w BaseResource \<Rightarrow> PathContext \<Rightarrow> json \<Rightarrow> string list" where
  "zone_ids b ctx (JObj zone) =
     (case as_arr (map_of zone (rc_ResourceType (b_ResourceConfig b))) of
        None \<Rightarrow> [] | Some xs \<Rightarrow> concat (map (item_ids b ctx) xs))"
| "zone_ids b ctx _ = []"

definition parseListResponse :: "'w BaseResource \<Rightarrow> obj \<Rightarrow> PathContext \<Rightarrow> ListResult" where
  "parseListResponse b body ctx =
     (let kind = rc_ResourceType (b_ResourceConfig b); key = rc_ListItemsKey (b_ResourceConfig b);
          ids = (case map_of body ''items'' of
                   Some (JArr xs) \<Rightarrow> concat (map (item_ids b ctx) xs)
                 | Some (JObj zones) \<Rightarrow> concat (map (\<lambda>(k, z). zone_ids b ctx z) zones)
                 | _ \<Rightarrow>
                   (case as_arr (map_of body kind) of
                      Some xs \<Rightarrow> concat (map (item_ids b ctx) xs)
                    | None \<Rightarrow>
                        if key = [] then []
                        else (case as_arr (map_of body key) of
                                Some xs \<Rightarrow> concat (map (item_ids b ctx) xs) | None \<Rightarrow> [])));
          token = string_or_empty (as_string (map_of body ''nextPageToken''))
      in \<lparr>lr_NativeIDs = ids, lr_NextPageToken = (if token = [] then None else Some token)\<rparr>)"

definition list_context :: "'w BaseResource \<Rightarrow> ListRequest \<Rightarrow> PathContext" where
  "list_context b request =
     (let cfg = FromTargetConfig (ls_TargetConfig request) (Deps (b_Config b));
          rc = b_ResourceConfig b
      in list_scope (rc_Scope rc)
           (empty_ctx\<lparr>pc_Project := c_Project cfg, pc_Region := c_Region cfg, pc_Zone := c_Zone cfg,
                      pc_Location := c_Location cfg, pc_ResourceType := rc_ResourceType rc,
                      pc_IsList := True\<rparr>))"

definition List :: "'w env \<Rightarrow> 'w BaseResource \<Rightarrow> ListRequest \<Rightarrow> ('w, ListResult) op" where
  "List E b request s =
     (case NewClient E (b_Config b) s of
        (Inl e, s1) \<Rightarrow> (Err (client_error e), s1)
      | (Inr client, s1) \<Rightarrow>
          (let ctx0 = list_context b request; rc = b_ResourceConfig b
           in if rc_Scope rc = Some ScopeLocationBased \<and> pc_Location ctx0 = []
                 \<and> listPathIsDoomed (b_APIConfig b) ctx0
              then (Ok \<lparr>lr_NativeIDs = [], lr_NextPageToken = None\<rparr>, s1)
              else
                (let ctx = list_parent (rc_ParentResource rc) (ls_AdditionalProperties request) ctx0
                 in case list_base_url b ctx of
                      Err e \<Rightarrow> (Err e, s1)
                    | Panic p \<Rightarrow> (Panic p, s1)
                    | Ok url \<Rightarrow>
                        (case SendRequest E client
                                (request_options ''GET'' (page_url (b_APIConfig b) request url) None) s1 of
                           (Inl e, s2) \<Rightarrow> (Err (errorf_w ''failed to list resources: '' e), s2)
                         | (Inr response, s2) \<Rightarrow>
                             (Ok (parseListResponse b (obj_of (rs_Body response)) ctx), s2)))))"

section \<open>Status\<close>

definition isTransientPollError :: "ErrorCode \<Rightarrow> bool" where
  "isTransientPollError code \<longleftrightarrow>
     code \<notin> {ErrorCodeResourceNotFound, ErrorCodeUnauthorized, ErrorCodeInvalidInput, ErrorCodeAlreadyExists}"

definition poll_failed :: "StatusRequest \<Rightarrow> string \<Rightarrow> goerr \<Rightarrow> ProgressResult" where
  "poll_failed request url e =
     (let te = wrap_err e ''failed to get operation status'';
          msg = te_Message te @ '' (URL: '' @ url @ '')''
      in if isTransientPollError (te_Code te)
         then (progress OperationCheckStatus OperationStatusInProgress)
                \<lparr>pr_Message := msg, pr_RequestID := st_RequestID request, pr_NativeID := st_NativeID request\<rparr>
         else (progress OperationCheckStatus OperationStatusFailure)
                \<lparr>pr_ErrorCode := ToResourceErrorCode (te_Code te), pr_Message := msg,
                 pr_RequestID := st_RequestID request\<rparr>)"

definition poll_answer ::
    "'w BaseResource \<Rightarrow> StatusRequest \<Rightarrow> obj option \<Rightarrow> (goerr, ProgressResult) outcome" where
  "poll_answer b request body =
     bind_outcome (if st_NativeID request = [] then call_native_id b body empty_ctx
                   else Ok (st_NativeID request)) (\<lambda>nativeID.
       case oc_OperationStatusChecker (b_OperationConfig b) of
         None \<Rightarrow> Panic nil_panic
       | Some checker \<Rightarrow>
           (case checker (obj_of body) of
              (done, Some e) \<Rightarrow>
                Ok ((progress OperationCheckStatus OperationStatusFailure)
                      \<lparr>pr_ErrorCode := (if retryable b e then NotStabilized else ServiceInternalError),
                       pr_Message := err_text e, pr_RequestID := st_RequestID request,
                       pr_NativeID := nativeID\<rparr>)
            | (done, None) \<Rightarrow>
                Ok ((progress OperationCheckStatus
                       (if done then OperationStatusSuccess else OperationStatusInProgress))
                      \<lparr>pr_Message := (if done then ''Operation completed successfully'' else ''Operation in progress''),
                       pr_RequestID := st_RequestID request, pr_NativeID := nativeID\<rparr>)))"

definition Status :: "'w env \<Rightarrow> 'w BaseResource \<Rightarrow> StatusRequest \<Rightarrow> ('w, ProgressResult) op" where
  "Status E b request s =
     (if oc_Synchronous (b_OperationConfig b) then
        (Ok ((progress OperationCheckStatus OperationStatusSuccess)
               \<lparr>pr_Message := ''Operation completed synchronously'', pr_RequestID := st_RequestID request\<rparr>), s)
      else case NewClient E (b_Config b) s of
        (Inl e, s1) \<Rightarrow> (Err (client_error e), s1)
      | (Inr client, s1) \<Rightarrow>
          (let url = ac_BaseURL (b_APIConfig b) @ ''/'' @ st_RequestID request
           in case SendRequest E client (request_options ''GET'' url None) s1 of
                (Inl e, s2) \<Rightarrow> (Ok (poll_failed request url e), s2)
              | (Inr response, s2) \<Rightarrow> (poll_answer b request (rs_Body response), s2)))"

definition status_read_request :: "StatusRequest \<Rightarrow> string \<Rightarrow> ReadRequest" where
  "status_read_request request nativeID =
     \<lparr>rd_NativeID = nativeID, rd_ResourceType = st_ResourceType request,
      rd_TargetConfig = st_TargetConfig request\<rparr>"

definition StatusWithRead ::
    "'w env \<Rightarrow> 'w BaseResource \<Rightarrow> (ReadRequest \<Rightarrow> ('w, ReadResult) op) option \<Rightarrow> StatusRequest
      \<Rightarrow> ('w, ProgressResult) op" where
  "StatusWithRead E b read request s =
     (case Status E b request s of
        (Err e, s1) \<Rightarrow> (Err e, s1)
      | (Panic p, s1) \<Rightarrow> (Panic p, s1)
      | (Ok r, s1) \<Rightarrow>
          (let nativeID = fill (pr_NativeID r) (st_NativeID request)
           in if pr_Status r \<noteq> OperationStatusSuccess then (Ok r, s1)
              else case read of
                None \<Rightarrow> (Ok r, s1)
              | Some rd \<Rightarrow>
                  if nativeID = [] then (Ok r, s1)
                  else case rd (status_read_request request nativeID) s1 of
                    (Panic p, s2) \<Rightarrow> (Panic p, s2)
                  | (Err e, s2) \<Rightarrow> (Ok r, s2)
                  | (Ok rr, s2) \<Rightarrow>
                      (Ok (if rr_ErrorCode rr = NoErrorCode \<and> rr_Properties rr \<noteq> None
                           then r\<lparr>pr_Properties := rr_Properties rr, pr_NativeID := nativeID\<rparr> else r), s2)))"

section \<open>What a client costs\<close>

text \<open>Making a client sends no request of the program's own.\<close>

lemma credentialsFor_sent: "credentialsFor (logged E) doc scopes s = (r, s') \<Longrightarrow> sent s' = sent s"
  by (auto simp: credentialsFor_def logged_def sent_def Let_def map_Load_def
      split: prod.splits option.splits if_splits sum.splits)

lemma ToClientOptions_sent: "ToClientOptions (logged E) c s = (r, s') \<Longrightarrow> sent s' = sent s"
  using credentialsFor_sent
  by (fastforce simp: ToClientOptions_def oidcClientOptions_def Let_def
      split: sum.splits option.splits if_splits prod.splits)

lemma NewClient_sent: "NewClient (logged E) cfg s = (r, s') \<Longrightarrow> sent s' = sent s"
  using ToClientOptions_sent
  by (fastforce simp: NewClient_def split: option.splits prod.splits sum.splits)

lemma request_options_sel [simp]:
  "ro_Method (request_options m u b) = m" "ro_URL (request_options m u b) = u"
  "ro_Body (request_options m u b) = b"
  by (simp_all add: request_options_def)

lemma sends_method: "sends c (request_options m u b) req \<Longrightarrow> m \<noteq> [] \<Longrightarrow> hq_Method req = m"
  by (simp add: sends_def)

text \<open>What \<open>SendRequest\<close> adds to the record, as one fact for every operation below.\<close>

lemma logged_send:
  assumes "SendRequest (logged E) c (request_options m u b) s = (r, s')" and "m \<noteq> []"
  shows "(sent s' = sent s \<and> (\<exists>e. r = Inl e)) \<or> (\<exists>req. sent s' = sent s @ [req] \<and> hq_Method req = m)"
  using SendRequest_logged [OF assms(1)] assms(2) sends_method by blast

section \<open>Properties of Create\<close>

lemma send_create_sent:
  assumes "send_create (logged E) b client request props ctx body s = (r, s')"
  shows "(sent s' = sent s \<and> (\<forall>p. r = Ok p \<longrightarrow> pr_Status p = OperationStatusFailure))
       \<or> (\<exists>req. sent s' = sent s @ [req] \<and> hq_Method req = ''POST'')"
proof -
  obtain idv body1 where i: "create_id b body = (idv, body1)" by (cases "create_id b body")
  show ?thesis
  proof (cases "create_url b ctx idv")
    case (Ok url)
    obtain q s1 where q: "SendRequest (logged E) client (request_options ''POST'' url (wrap_body b body1)) s = (q, s1)"
      by (metis surj_pair)
    from logged_send [OF q] assms i Ok q show ?thesis
      by (cases q) (auto simp: send_create_def createFailureResult_def)
  qed (use assms i in \<open>auto simp: send_create_def\<close>)
qed

text \<open>
  Create asks the API exactly once. Whatever the configuration, a create sends at most one
  request, a POST; a result that is not a failure (in progress or done) comes only after that
  request was sent.
\<close>
lemma Create_one_post:
  assumes "Create (logged E) b request s = (r, s')"
  shows "(sent s' = sent s \<and> (\<forall>p. r = Ok p \<longrightarrow> pr_Status p = OperationStatusFailure))
       \<or> (\<exists>req. sent s' = sent s @ [req] \<and> hq_Method req = ''POST'')"
proof -
  obtain q s1 where q: "NewClient (logged E) (b_Config b) s = (q, s1)" by (metis surj_pair)
  have s1: "sent s1 = sent s" using NewClient_sent [OF q] .
  show ?thesis
  proof (cases q)
    case (Inl e)
    with assms q s1 show ?thesis by (auto simp: Create_def)
  next
    case (Inr client)
    show ?thesis
    proof (cases "unmarshal_map (cr_Properties request)")
      case (Inl e)
      with assms q s1 Inr show ?thesis by (auto simp: Create_def createFailureResult_def)
    next
      case props: (Inr rp)
      define P where "P = UnwrapValues rp"
      define ctx where "ctx = buildPathContext b (cr_TargetConfig request) P"
      note eqs = assms q Inr props
      show ?thesis
      proof (cases "missing_second b P")
        case (Some msg)
        with eqs s1 show ?thesis by (auto simp: Create_def createFailureResult_def P_def Let_def)
      next
        case None
        show ?thesis
        proof (cases "transform_request b P ctx OperationCreate")
          case (Ok body)
          with eqs None have "send_create (logged E) b client request P ctx body s1 = (r, s')"
            by (simp add: Create_def P_def ctx_def Let_def)
          from send_create_sent [OF this] s1 show ?thesis by simp
        qed (use eqs None s1 in \<open>auto simp: Create_def createFailureResult_def P_def ctx_def Let_def\<close>)
      qed
    qed
  qed
qed

text \<open>
  A resource addressed by two parents is never created as the resource of one. If the second
  property is configured and missing, empty or no string, Create sends nothing and answers an
  invalid request (or could not make a client).
\<close>
lemma Create_refuses_half_parent:
  assumes "rc_ParentResource (b_ResourceConfig b) = Some pr" and "pa_SecondPropertyName pr \<noteq> []"
    and "unmarshal_map (cr_Properties request) = Inr props"
    and "string_or_empty (as_string (map_of (UnwrapValues props) (pa_SecondPropertyName pr))) = []"
    and "Create (logged E) b request s = (r, s')"
  shows "sent s' = sent s
    \<and> ((\<exists>p. r = Ok p \<and> pr_Status p = OperationStatusFailure \<and> pr_ErrorCode p = InvalidRequest) \<or> (\<exists>e. r = Err e))"
proof -
  obtain q s1 where q: "NewClient (logged E) (b_Config b) s = (q, s1)" by (metis surj_pair)
  with NewClient_sent [OF q] assms show ?thesis
    by (cases q) (auto simp: Create_def missing_second_def createFailureResult_def Let_def)
qed

section \<open>Properties of Read\<close>

lemma bind_outcome_eq_Ok: "bind_outcome m f = Ok y \<longleftrightarrow> (\<exists>x. m = Ok x \<and> f x = Ok y)"
  by (cases m) auto

text \<open>What a status of the API means: the class of a refusal that the credentials did not cause.\<close>

lemma google_class:
  "\<not> isAuthError (Some (ErrGoogle g)) \<Longrightarrow> ClassifyError (Some (ErrGoogle g)) = classifyGoogleError g"
  by (simp add: ClassifyError_def as_terror_def as_google_def)

lemma google_missing: "classifyGoogleError g = ErrorCodeResourceNotFound \<longleftrightarrow> ge_Code g = 404"
  by (simp add: classifyGoogleError_def classifyBadRequestError_def Let_def)

lemma not_found_code [simp]: "ToResourceErrorCode c = NotFound \<longleftrightarrow> c = ErrorCodeResourceNotFound"
  by (cases c) simp_all

lemma read_results [simp]:
  "rr_ErrorCode (read_error c) = c" "rr_Properties (read_error c) = None"
  "rr_ErrorCode (read_properties r) = NoErrorCode" "rr_Properties (read_properties r) = Some r"
  by (simp_all add: read_error_def read_properties_def)

lemma read_body_result:
  "read_body b ctx body = Ok rr \<Longrightarrow> if body_is_missing b body then rr = read_error NotFound else \<exists>r. rr = read_properties r"
  by (cases "transform_response b body ctx OperationRead") (auto simp: read_body_def split: sum.splits if_splits)

text \<open>A read without the hook for errors costs at most one GET.\<close>

lemma Read_sent:
  assumes "Read (logged E) b request s = (r, s')" and "rc_ReadErrorTreatAsMissing (b_ResourceConfig b) = None"
  shows "\<exists>reqs. sent s' = sent s @ reqs \<and> length reqs \<le> 1 \<and> (\<forall>req \<in> set reqs. hq_Method req = ''GET'')"
proof -
  obtain q s1 where q: "NewClient (logged E) (b_Config b) s = (q, s1)" by (metis surj_pair)
  have n: "sent s1 = sent s" using NewClient_sent [OF q] .
  have log: "sent (logUnauthorizedRead u e t) = sent t" for u e t by (simp add: logUnauthorizedRead_def log_add_def sent_def)
  show ?thesis
  proof (cases "\<exists>client url. q = Inr client \<and> (\<exists>c. ParseNativeID (b_NativeIDConfig b) (rd_NativeID request) = Inr c
      \<and> resource_url b (resource_context b (rd_TargetConfig request) c) = Ok url)")
    case False
    then have "s' = s1" using assms q by (auto simp: Read_def Let_def split: sum.splits outcome.splits)
    then show ?thesis using n by simp
  next
    case True
    then obtain client url c where c: "q = Inr client" "ParseNativeID (b_NativeIDConfig b) (rd_NativeID request) = Inr c"
      "resource_url b (resource_context b (rd_TargetConfig request) c) = Ok url" by blast
    obtain a s2 where a: "SendRequest (logged E) client (request_options ''GET'' url None) s1 = (a, s2)" by (metis surj_pair)
    have "sent s' = sent s2"
      using assms q c a log by (cases a) (auto simp: Read_def Let_def error_is_missing_def)
    then show ?thesis using logged_send [OF a] n by auto
  qed
qed

text \<open>
  C39: A resource is reported as missing exactly when the API said so. A Read that answers reports \<open>NotFound\<close>
  exactly if its GET of the resource was answered by a body the type's own predicate takes for a tombstone, or
  was refused with an error that the type's own hook takes for absence or that is classified as not found, which
  without such a hook means for an HTTP refusal the status 404 and nothing else, unless its text is that of failed
  credentials. Properties are reported exactly if the GET was answered and the body is no tombstone. A refusal for
  lack of authorization is reported as a failure and logged with the URL and the API's words.
\<close>
theorem Read_missing_exact:
  assumes "Read E b request s = (Ok rr, s')"
  shows "\<exists>client s1. NewClient E (b_Config b) s = (Inr client, s1)
    \<and> (case ParseNativeID (b_NativeIDConfig b) (rd_NativeID request) of
         Inl e \<Rightarrow> rr_ErrorCode rr = InvalidRequest \<and> rr_Properties rr = None \<and> s' = s1
       | Inr c \<Rightarrow> \<exists>url answer s2. resource_url b (resource_context b (rd_TargetConfig request) c) = Ok url
           \<and> SendRequest E client (request_options ''GET'' url None) s1 = (answer, s2)
           \<and> (\<forall>response. answer = Inr response \<longrightarrow> s' = s2
                \<and> (rr_ErrorCode rr = NotFound \<longleftrightarrow>
                     (\<exists>f. rc_ReadTreatAsMissing (b_ResourceConfig b) = Some f \<and> f (obj_of (rs_Body response))))
                \<and> (rr_Properties rr = None \<longleftrightarrow> rr_ErrorCode rr = NotFound))
           \<and> (\<forall>e. answer = Inl e \<longrightarrow> rr_Properties rr = None
                \<and> (rr_ErrorCode rr = NotFound \<longleftrightarrow> ClassifyError (Some e) = ErrorCodeResourceNotFound
                     \<or> (\<exists>f. rc_ReadErrorTreatAsMissing (b_ResourceConfig b) = Some f
                          \<and> fst (f E client (resource_context b (rd_TargetConfig request) c) e s2)))
                \<and> (rc_ReadErrorTreatAsMissing (b_ResourceConfig b) = None \<longrightarrow>
                     (ClassifyError (Some e) = ErrorCodeUnauthorized \<longrightarrow> rr_ErrorCode rr = AccessDenied
                        \<and> m_log s' = m_log s2 @ [(''WARN'', ''read refused: not authorized'', [(''url'', url), (''error'', err_text e)])])
                     \<and> (\<forall>g. e = ErrGoogle g \<longrightarrow> \<not> isAuthError (Some e) \<longrightarrow> (rr_ErrorCode rr = NotFound \<longleftrightarrow> ge_Code g = 404)))))"
proof -
  obtain client s1 where c: "NewClient E (b_Config b) s = (Inr client, s1)"
    using assms by (auto simp: Read_def split: prod.splits sum.splits)
  show ?thesis
  proof (cases "ParseNativeID (b_NativeIDConfig b) (rd_NativeID request)")
    case (Inr ctx0)
    let ?ctx = "resource_context b (rd_TargetConfig request) ctx0"
    obtain url where u: "resource_url b ?ctx = Ok url" using assms c Inr by (auto simp: Read_def Let_def split: outcome.splits)
    obtain answer s2 where a: "SendRequest E client (request_options ''GET'' url None) s1 = (answer, s2)" by (metis surj_pair)
    show ?thesis
    proof (cases answer)
      case answer: (Inr response)
      have r: "read_body b ?ctx (rs_Body response) = Ok rr" "s' = s2"
        using assms c Inr u a answer by (simp_all add: Read_def)
      then have "body_is_missing b (rs_Body response) \<longleftrightarrow> rr_ErrorCode rr = NotFound" "rr_Properties rr = None \<longleftrightarrow> rr_ErrorCode rr = NotFound"
        using read_body_result [OF r(1)] by (auto split: if_splits)
      then show ?thesis using c Inr u a answer r(2) by (auto simp: body_is_missing_def split: option.splits)
    next
      case answer: (Inl e)
      obtain gone s3 where g: "error_is_missing E b client ?ctx e s2 = (gone, s3)" by (metis surj_pair)
      have r: "rr = read_error (if gone then NotFound else ToResourceErrorCode (ClassifyError (Some e)))"
          "s' = (if gone then s3 else logUnauthorizedRead url e s3)"
        using assms c Inr u a answer g by (auto simp: Read_def split: bool.splits)
      show ?thesis using c Inr u a answer g google_class google_missing
        by (auto simp: r error_is_missing_def logUnauthorizedRead_def log_add_def split: option.splits)
    qed
  qed (use assms c in \<open>auto simp: Read_def\<close>)
qed

section \<open>Properties of Delete\<close>

text \<open>
  Delete is idempotent and never optimistic. What it answers to the API's error: success exactly
  if the resource is classified as not found, otherwise a failure, \<open>NotStabilized\<close> if the error is
  one the configuration calls retryable and the error's own code if not.
\<close>
lemma Delete_answer_exact:
  "\<exists>p. finish_delete b nativeID ctx (Inl e) = Ok p \<and> pr_NativeID p = nativeID
     \<and> (if ClassifyError (Some e) = ErrorCodeResourceNotFound then pr_Status p = OperationStatusSuccess
        else pr_Status p = OperationStatusFailure
          \<and> pr_ErrorCode p = (if retryable b e then NotStabilized else ToResourceErrorCode (ClassifyError (Some e))))"
proof -
  have "ToResourceErrorCode c = NotFound \<longleftrightarrow> c = ErrorCodeResourceNotFound" for c
    by (cases c) auto
  then show ?thesis by (auto simp: finish_delete_def deleted_def deleteFailureResult_def Let_def)
qed

lemma parsed_sends:
  assumes "SendRequest (logged E) c (request_options m u None) s = (r, s')"
    and "Parse u \<noteq> None" and "list_all method_char m"
  shows "\<exists>req. sends c (request_options m u None) req \<and> sent s' = sent s @ [req]"
proof -
  obtain v where "AddQueryParam u ''alt'' ''json'' = Inr v"
    using assms(2) by (auto simp: AddQueryParam_def)
  then have "\<exists>req. sends c (request_options m u None) req"
    by (intro exI [of _ "\<lparr>hq_Method = (if m = [] then ''GET'' else m), hq_URL = v,
          hq_Headers = request_headers c (request_options m u None), hq_Body = NoBody\<rparr>"])
      (simp add: sends_def request_body_def request_options_def)
  then obtain req0 where r0: "sends c (request_options m u None) req0
      \<and> list_all method_char (ro_Method (request_options m u None))"
    using assms(3) by auto
  show ?thesis
    using assms(1)
  proof (rule SendRequest_cases)
    assume "\<nexists>req. sends c (request_options m u None) req \<and> list_all method_char (ro_Method (request_options m u None))"
    with r0 show ?thesis by blast
  qed (auto simp: logged_def sent_def split: prod.splits)
qed

lemma methods_ok: "list_all method_char ''GET''" "list_all method_char ''POST''"
  "list_all method_char ''DELETE''" "list_all method_char ''PATCH''" "list_all method_char ''PUT''"
  by (simp_all add: method_char_def Let_def)

text \<open>
  Delete asks the API exactly once, for the resource its native ID addresses: once the client is
  made, whatever the answer, one request has been sent, a DELETE of that resource's URL.
\<close>
lemma Delete_one_request:
  assumes "NewClient (logged E) (b_Config b) s = (Inr client, s1)"
    and "ParseNativeID (b_NativeIDConfig b) (dl_NativeID request) = Inr ctx"
    and "resource_url b (resource_context b (dl_TargetConfig request) ctx) = Ok url"
    and "Parse url \<noteq> None" and "rc_DeleteQueryParams (b_ResourceConfig b) = []"
  shows "\<exists>req. sent (snd (Delete (logged E) b request s)) = sent s @ [req]
     \<and> hq_Method req = ''DELETE'' \<and> AddQueryParam url ''alt'' ''json'' = Inr (hq_URL req)"
proof -
  obtain r s2 where q: "SendRequest (logged E) client (request_options ''DELETE'' url None) s1 = (r, s2)"
    by (metis surj_pair)
  from parsed_sends [OF q assms(4) methods_ok(3)] obtain req
    where "sends client (request_options ''DELETE'' url None) req" "sent s2 = sent s1 @ [req]" by auto
  then show ?thesis
    using assms q NewClient_sent [OF assms(1)] by (auto simp: Delete_def sends_def Let_def)
qed

section \<open>Properties of Status\<close>

text \<open>
  A poll that could not look leaves the operation running. An error of the poll is reported as
  still in progress, with the request and the native ID kept for the next poll and no error code,
  unless its class answers the question (not found, unauthorized, invalid, already exists); then
  it is a failure with the code of that class.
\<close>
lemma Status_poll_error:
  assumes "\<not> oc_Synchronous (b_OperationConfig b)"
    and "NewClient E (b_Config b) s = (Inr client, s1)"
    and "SendRequest E client
           (request_options ''GET'' (ac_BaseURL (b_APIConfig b) @ ''/'' @ st_RequestID request) None) s1 = (Inl e, s2)"
  shows "\<exists>p. Status E b request s = (Ok p, s2) \<and> pr_RequestID p = st_RequestID request
     \<and> (if ClassifyError (Some e) \<in> {ErrorCodeResourceNotFound, ErrorCodeUnauthorized, ErrorCodeInvalidInput,
                                       ErrorCodeAlreadyExists}
        then pr_Status p = OperationStatusFailure \<and> pr_ErrorCode p = ToResourceErrorCode (ClassifyError (Some e))
        else pr_Status p = OperationStatusInProgress \<and> pr_ErrorCode p = NoErrorCode
             \<and> pr_NativeID p = st_NativeID request)"
  using assms by (auto simp: Status_def poll_failed_def isTransientPollError_def Let_def)

lemma poll_answer_reflects:
  assumes "poll_answer b request body = Ok p"
  shows "\<exists>check d err. oc_OperationStatusChecker (b_OperationConfig b) = Some check
     \<and> check (obj_of body) = (d, err)
     \<and> pr_Status p = (if err \<noteq> None then OperationStatusFailure
          else if d then OperationStatusSuccess else OperationStatusInProgress)"
proof -
  obtain nid where n: "(if st_NativeID request = [] then call_native_id b body empty_ctx
      else Ok (st_NativeID request)) = Ok nid"
    using assms by (cases "if st_NativeID request = [] then call_native_id b body empty_ctx
        else Ok (st_NativeID request)") (auto simp: poll_answer_def)
  with assms obtain check where k: "oc_OperationStatusChecker (b_OperationConfig b) = Some check"
    by (auto simp: poll_answer_def split: option.splits)
  obtain d err where de: "check (obj_of body) = (d, err)" by (metis surj_pair)
  with assms n k show ?thesis
    by (intro exI [of _ check] exI [of _ d] exI [of _ err]) (cases err; auto simp: poll_answer_def)
qed

text \<open>
  C35: A verdict needs an answer. Whatever Status reports of an asynchronous operation rests on the
  one poll it made. A failure means that the poll was refused as not found, unauthorized, invalid or
  already existing, or that the operation the API returned carries an error; a success that the API said
  the operation is done without error; and everything else is reported as still in progress. Of the
  HTTP statuses exactly 401, 403, 404, 409 and a 400 that does not speak of readiness end the
  operation, unless the text of the error is that of failed credentials, which ends it too.
\<close>
theorem Status_failure_needs_answer:
  assumes "Status E b request s = (Ok p, s')" and "\<not> oc_Synchronous (b_OperationConfig b)"
  shows "\<exists>client s1 poll. NewClient E (b_Config b) s = (Inr client, s1)
     \<and> SendRequest E client
           (request_options ''GET'' (ac_BaseURL (b_APIConfig b) @ ''/'' @ st_RequestID request) None) s1 = (poll, s')
     \<and> (pr_Status p = OperationStatusFailure \<longleftrightarrow>
            (\<exists>e. poll = Inl e \<and> ClassifyError (Some e) \<in> {ErrorCodeResourceNotFound, ErrorCodeUnauthorized,
                 ErrorCodeInvalidInput, ErrorCodeAlreadyExists})
            \<or> (\<exists>resp check e. poll = Inr resp \<and> oc_OperationStatusChecker (b_OperationConfig b) = Some check
                 \<and> snd (check (obj_of (rs_Body resp))) = Some e))
     \<and> (pr_Status p = OperationStatusSuccess \<longleftrightarrow>
            (\<exists>resp check. poll = Inr resp \<and> oc_OperationStatusChecker (b_OperationConfig b) = Some check
                 \<and> check (obj_of (rs_Body resp)) = (True, None)))
     \<and> (\<forall>g. poll = Inl (ErrGoogle g) \<and> \<not> isAuthError (Some (ErrGoogle g)) \<longrightarrow>
            pr_Status p = (if ge_Code g \<in> {401, 403, 404, 409} \<or> ge_Code g = 400
                 \<and> \<not> containsAny (ge_Body g) [''resourceNotReady'', ''not ready'', ''not in ready state'']
               then OperationStatusFailure else OperationStatusInProgress))
     \<and> pr_Status p \<in> {OperationStatusFailure, OperationStatusSuccess, OperationStatusInProgress}"
proof -
  obtain q s1 where q: "NewClient E (b_Config b) s = (q, s1)" by (metis surj_pair)
  obtain client where c: "q = Inr client" using assms q by (cases q) (auto simp: Status_def)
  define url where "url = ac_BaseURL (b_APIConfig b) @ ''/'' @ st_RequestID request"
  obtain a s2 where a: "SendRequest E client (request_options ''GET'' url None) s1 = (a, s2)" by (metis surj_pair)
  show ?thesis
  proof (cases a)
    case (Inl e)
    with assms q c a have "p = poll_failed request url e" "s' = s2" by (simp_all add: Status_def url_def)
    then have "pr_Status p = (if ClassifyError (Some e) \<in> {ErrorCodeResourceNotFound, ErrorCodeUnauthorized,
        ErrorCodeInvalidInput, ErrorCodeAlreadyExists} then OperationStatusFailure else OperationStatusInProgress)"
      by (simp add: poll_failed_def isTransientPollError_def Let_def)
    with q c a Inl \<open>s' = s2\<close> show ?thesis unfolding url_def
      by (intro exI [of _ client] exI [of _ s1] exI [of _ a])
        (auto simp: google_class classifyGoogleError_def classifyBadRequestError_def Let_def)
  next
    case (Inr resp)
    with assms q c a have p: "poll_answer b request (rs_Body resp) = Ok p" and s': "s' = s2"
      by (simp_all add: Status_def url_def)
    from poll_answer_reflects [OF p] obtain check d err
      where k: "oc_OperationStatusChecker (b_OperationConfig b) = Some check" "check (obj_of (rs_Body resp)) = (d, err)"
        "pr_Status p = (if err \<noteq> None then OperationStatusFailure
          else if d then OperationStatusSuccess else OperationStatusInProgress)"
      by blast
    show ?thesis
      by (rule exI [of _ client], rule exI [of _ s1], rule exI [of _ a])
        (use q c a Inr s' k in \<open>cases err; cases d; simp add: url_def\<close>)
  qed
qed

section \<open>Properties of Update\<close>

text \<open>What follows the answer to an update: nothing, or the read of the resource as it is now.\<close>

lemma finish_update_reads:
  assumes "finish_update E b request ctx ans s = (r, s')"
  shows "s' = s \<or> oc_Synchronous (b_OperationConfig b) \<and> (\<exists>response. ans = Inr response)
     \<and> s' = snd (Read E b \<lparr>rd_NativeID = up_NativeID request, rd_ResourceType = up_ResourceType request,
                            rd_TargetConfig = up_TargetConfig request\<rparr> s)"
  using assms
  by (auto simp: finish_update_def readBackAfterUpdate_def Let_def split: sum.splits if_splits prod.splits outcome.splits)

lemma lock_body_value:
  assumes "lock_body lock (Some v) body = Ok body1" and "v \<noteq> JNull" and "\<not> ol_LocationInURL lock"
  shows "\<exists>m. body1 = Some m \<and> map_of m (ol_FieldName lock) = Some v"
  using assms by (auto simp: lock_body_def non_nil_def assign_def split: option.splits)

text \<open>The object inside the configured wrapper.\<close>

definition wrapped_payload :: "'w BaseResource \<Rightarrow> obj \<Rightarrow> json" where
  "wrapped_payload b m =
     (let w = rc_RequestWrapper (b_ResourceConfig b) in if w = [] then JObj m else JObj [(w, JObj m)])"

lemma request_body_wrapped:
  assumes "request_body (request_options meth url (wrap_body b (Some m))) = Inr body"
  shows "body = JsonBody (RawDoc (wrapped_payload b m))"
  using assms
  by (auto simp: request_body_def request_options_def wrap_body_def wrapped_payload_def Marshal_def map_value_def
      Let_def split: if_splits sum.splits)

text \<open>
  C1: A locked update overwrites nothing it did not see. For a lock whose field is in the body, which is every
  lock of the repository: once the preceding GET was answered, at most one request follows that is not a read,
  with the update method of the type, and if the answer had a value for the field, that value, in the API's own
  type, is what the request carries for it, whatever the declared properties or the transformer put there. Nothing
  else follows but, for a synchronous type, the read of the result, which costs at most one GET unless the type has
  a hook for the errors of reads. An update that is not reported as failed has sent its request.
\<close>
theorem locked_update_sends_value_read:
  assumes "resource_url b ctx = Ok url"
    and "SendRequest (logged E) client (request_options ''GET'' url None) s = (Inr current, s1)"
    and "\<not> ol_LocationInURL lock"
    and "updateWithOptimisticLocking (logged E) b lock client request props ctx s = (r, s')"
  shows "\<exists>reqs s2. sent s2 = sent s1 @ reqs \<and> length reqs \<le> 1
     \<and> (\<forall>req \<in> set reqs. hq_Method req = GetUpdateMethod (b_ResourceConfig b)
          \<and> (\<forall>v. map_of (obj_of (rs_Body current)) (ol_FieldName lock) = Some v \<and> v \<noteq> JNull \<longrightarrow>
               (\<exists>m. hq_Body req = JsonBody (RawDoc (wrapped_payload b m)) \<and> map_of m (ol_FieldName lock) = Some v)))
     \<and> (s' = s2 \<or> oc_Synchronous (b_OperationConfig b)
          \<and> s' = snd (Read (logged E) b \<lparr>rd_NativeID = up_NativeID request, rd_ResourceType = up_ResourceType request,
                                       rd_TargetConfig = up_TargetConfig request\<rparr> s2))
     \<and> (rc_ReadErrorTreatAsMissing (b_ResourceConfig b) = None \<longrightarrow>
          (\<exists>reads. sent s' = sent s1 @ reqs @ reads \<and> length reads \<le> 1 \<and> (\<forall>q \<in> set reads. hq_Method q = ''GET'')))
     \<and> (\<forall>p. r = Ok p \<and> pr_Status p \<noteq> OperationStatusFailure \<longrightarrow> reqs \<noteq> [])"
proof -
  define v where "v = map_of (obj_of (rs_Body current)) (ol_FieldName lock)"
  show ?thesis
  proof (cases "\<exists>body body1. transform_request b props ctx OperationUpdate = Ok body \<and> lock_body lock v body = Ok body1")
    case False
    then have "s' = s1 \<and> (\<forall>p. r = Ok p \<longrightarrow> pr_Status p = OperationStatusFailure)"
      using assms
      by (auto simp: updateWithOptimisticLocking_def v_def [symmetric] updateFailureResult_def Let_def split: outcome.splits)
    then show ?thesis by (intro exI [of _ "[]"] exI [of _ s1]) auto
  next
    case True
    then obtain body body1 where b: "transform_request b props ctx OperationUpdate = Ok body" "lock_body lock v body = Ok body1" by blast
    define opts where "opts = request_options (GetUpdateMethod (b_ResourceConfig b))
        (with_update_params b (lock_url lock v url)) (wrap_body b body1)"
    obtain a s2 where a: "SendRequest (logged E) client opts s1 = (a, s2)" by (metis surj_pair)
    have fin: "finish_update (logged E) b request ctx a s2 = (r, s')"
      using assms b a by (simp add: updateWithOptimisticLocking_def v_def [symmetric] opts_def)
    obtain reqs where reqs: "sent s2 = sent s1 @ reqs" "length reqs \<le> 1" "\<forall>req \<in> set reqs. sends client opts req"
        "(\<exists>response. a = Inr response) \<longrightarrow> reqs \<noteq> []"
      using SendRequest_logged [OF a] by fastforce
    have body: "\<exists>m. hq_Body req = JsonBody (RawDoc (wrapped_payload b m)) \<and> map_of m (ol_FieldName lock) = Some w"
      if "req \<in> set reqs" "v = Some w" "w \<noteq> JNull" for req w
      using lock_body_value [of lock w body body1] b(2) that assms(3) reqs(3) request_body_wrapped
      unfolding sends_def opts_def by blast
    have meth: "hq_Method req = GetUpdateMethod (b_ResourceConfig b)" if "req \<in> set reqs" for req
      using reqs(3) that by (auto simp: sends_def opts_def GetUpdateMethod_def)
    have reads: "\<exists>reads. sent s' = sent s2 @ reads \<and> length reads \<le> 1 \<and> (\<forall>q \<in> set reads. hq_Method q = ''GET'')"
      if "rc_ReadErrorTreatAsMissing (b_ResourceConfig b) = None"
      using finish_update_reads [OF fin] Read_sent [OF prod.collapse [symmetric] that] by auto
    have ok: "reqs \<noteq> []" if "r = Ok p" "pr_Status p \<noteq> OperationStatusFailure" for p
      using fin reqs(4) that by (cases a) (auto simp: finish_update_def updateFailureResult_def Let_def)
    show ?thesis
      using reqs(1,2) body meth finish_update_reads [OF fin] reads ok
      by (intro exI [of _ reqs] exI [of _ s2]) (auto simp: v_def)
  qed
qed

section \<open>Properties of List\<close>

text \<open>
  A page request names its size and its token. With pagination on, a positive page size and a
  token, the URL of the list holds exactly those values for the API's two parameters and keeps
  every other query value.
\<close>
lemma page_url_parameters:
  assumes "\<not> IsPaginationDisabled api" and "0 < ls_PageSize request"
    and "ls_PageToken request = Some token" and "token \<noteq> []"
    and "GetPageSizeParam api \<noteq> GetPageTokenParam api" and "Parse url = Some u"
  shows "\<exists>u'. Parse (page_url api request url) = Some u' \<and> u_base u' = u_base u
     \<and> values_of (ParseQuery (u_query u')) (GetPageSizeParam api) = [Itoa (ls_PageSize request)]
     \<and> values_of (ParseQuery (u_query u')) (GetPageTokenParam api) = [token]
     \<and> (\<forall>k. k \<noteq> GetPageSizeParam api \<and> k \<noteq> GetPageTokenParam api \<longrightarrow>
            values_of (ParseQuery (u_query u')) k = values_of (ParseQuery (u_query u)) k)"
proof -
  obtain url1 where 1: "AddQueryParam url (GetPageSizeParam api) (Itoa (ls_PageSize request)) = Inr url1"
    using assms(6) by (simp add: AddQueryParam_def)
  from query_param_set [OF 1] assms(6) obtain u1 where u1: "Parse url1 = Some u1" "u_base u1 = u_base u"
    "\<And>k. values_of (ParseQuery (u_query u1)) k =
       (if k = GetPageSizeParam api then [Itoa (ls_PageSize request)] else values_of (ParseQuery (u_query u)) k)"
    by auto
  obtain url2 where 2: "AddQueryParam url1 (GetPageTokenParam api) token = Inr url2"
    using u1(1) by (simp add: AddQueryParam_def)
  from query_param_set [OF 2] u1(1) obtain u2 where u2: "Parse url2 = Some u2" "u_base u2 = u_base u1"
    "\<And>k. values_of (ParseQuery (u_query u2)) k =
       (if k = GetPageTokenParam api then [token] else values_of (ParseQuery (u_query u1)) k)"
    by auto
  have "page_url api request url = url2"
    using assms 1 2 by (simp add: page_url_def url_or_empty_def string_or_empty_def)
  then show ?thesis using assms(5) u1 u2 by auto
qed

text \<open>
  A list skips the API only when it must. A successful list either sent exactly one GET, or the
  resource is location-based, no location was given and the path the API would be asked has an
  empty segment; then nothing is sent and nothing is reported.
\<close>
lemma List_sends_unless_doomed:
  assumes "List (logged E) b request s = (Ok r, s')"
  shows "(\<exists>req. sent s' = sent s @ [req] \<and> hq_Method req = ''GET'')
    \<or> (sent s' = sent s \<and> r = \<lparr>lr_NativeIDs = [], lr_NextPageToken = None\<rparr>
        \<and> rc_Scope (b_ResourceConfig b) = Some ScopeLocationBased \<and> pc_Location (list_context b request) = []
        \<and> listPathIsDoomed (b_APIConfig b) (list_context b request))"
proof -
  obtain q s1 where q: "NewClient (logged E) (b_Config b) s = (q, s1)" by (metis surj_pair)
  obtain client where c: "q = Inr client" using assms q by (cases q) (auto simp: List_def)
  have s1: "sent s1 = sent s" using NewClient_sent [OF q] .
  show ?thesis
  proof (cases "rc_Scope (b_ResourceConfig b) = Some ScopeLocationBased \<and> pc_Location (list_context b request) = []
        \<and> listPathIsDoomed (b_APIConfig b) (list_context b request)")
    case True
    with assms q c s1 show ?thesis by (auto simp: List_def Let_def)
  next
    case False
    define ctx where "ctx = list_parent (rc_ParentResource (b_ResourceConfig b)) (ls_AdditionalProperties request) (list_context b request)"
    from assms q c False obtain url where url: "list_base_url b ctx = Ok url"
      by (cases "list_base_url b ctx") (auto simp: List_def ctx_def Let_def)
    obtain a s2 where a: "SendRequest (logged E) client (request_options ''GET'' (page_url (b_APIConfig b) request url) None) s1 = (a, s2)"
      by (metis surj_pair)
    from assms q c False url a obtain resp where "a = Inr resp" "s' = s2"
      by (cases a) (auto simp: List_def ctx_def Let_def split: if_splits)
    with logged_send [OF a] s1 show ?thesis by auto
  qed
qed

section \<open>A concrete resource type\<close>

text \<open>
  A location-scoped type with a lock field and a two-property parent, run against the scripted
  world, at which the properties above are instantiated.
\<close>

definition demo_config :: "'w ResourceConfig" where
  "demo_config =
     \<lparr>rc_ResourceType = ''things'', rc_Scope = Some ScopeLocationBased,
      rc_ParentResource =
        Some \<lparr>pa_ParentType = ''buckets'', pa_PropertyName = ''bucket'', pa_RequiresParent = True,
              pa_ParentPathSegments = [], pa_SecondPropertyName = ''object'', pa_GrandParentType = [],
              pa_GrandParentPropertyName = []\<rparr>,
      rc_SupportsUpdate = True, rc_UpdateMethod = UpdateMethodPatch, rc_UpdateQueryParams = [],
      rc_UpdateMaskFromBody = False, rc_DeleteQueryParams = [],
      rc_OptimisticLocking = Some \<lparr>ol_Enabled = True, ol_FieldName = ''etag'', ol_LocationInURL = False\<rparr>,
      rc_RequestWrapper = [], rc_ListItemsKey = [], rc_ReadTreatAsMissing = None,
      rc_ReadErrorTreatAsMissing = None, rc_CreateIDParam = []\<rparr>"

definition demo :: "'w BaseResource" where
  "demo =
     \<lparr>b_Config = Some (zero_config\<lparr>c_Project := ''prj''\<rparr>),
      b_APIConfig = \<lparr>ac_BaseURL = ''https://h/v1'', ac_APIVersion = ''v1'',
         ac_PathBuilder = Some LocationPathBuilder, ac_Pagination = None\<rparr>,
      b_OperationConfig =
        \<lparr>oc_Synchronous = False, oc_OperationIDExtractor = Some (\<lambda>m. ''op''),
         oc_OperationURLBuilder = Some (\<lambda>ctx i. ''operations/'' @ i),
         oc_NativeIDExtractor = Some LocationNativeIDExtractor,
         oc_OperationStatusChecker = Some CheckLROStatus, oc_RetryableError = None\<rparr>,
      b_ResourceConfig = demo_config,
      b_NativeIDConfig = \<lparr>ni_Format = FullPathFormat, ni_PathTemplate = [], ni_Parser = None\<rparr>,
      b_RequestTransformer = None, b_ResponseTransformer = None\<rparr>"

definition demo_client :: Client where
  "demo_client = \<lparr>cl_config = zero_config\<lparr>c_Project := ''prj''\<rparr>, cl_userAgent = DefaultUserAgent\<rparr>"

definition demo_id :: string where "demo_id = ''projects/prj/locations/eu/things/t1''"
definition demo_url :: string where "demo_url = ''https://h/v1/projects/prj/locations/eu/things/t1''"

type_synonym demo_world = "script \<times> http_request list"

definition demo_ctx :: PathContext where
  "demo_ctx = empty_ctx\<lparr>pc_Project := ''prj'', pc_Location := ''eu'', pc_ResourceType := ''things'',
     pc_ResourceName := ''t1''\<rparr>"

lemma demo_NewClient: "NewClient (logged script_env) (b_Config demo) s = (Inr demo_client, s)"
  by (simp add: NewClient_def demo_def demo_client_def ToClientOptions_def effectiveAuth_def zero_config_def
      logged_def script_env_def Let_def)

lemma demo_parse: "ParseNativeID (b_NativeIDConfig demo) demo_id = Inr demo_ctx"
  by (simp add: ParseNativeID_def demo_def parsePathNativeID_def demo_id_def demo_ctx_def empty_ctx_def)

lemma demo_context: "resource_context demo RawNil demo_ctx = demo_ctx"
  by (simp add: resource_context_def fillPathContextFromTarget_def demo_def demo_config_def demo_ctx_def
      empty_ctx_def PathFromTargetConfig_def fill_def Let_def)

lemma demo_resource_url: "resource_url demo demo_ctx = Ok demo_url"
  by (simp add: resource_url_def ResourceURL_def build_url_def NewURLBuilder_def demo_def demo_ctx_def
      empty_ctx_def LocationPathBuilder_def location_path_def demo_url_def)

lemma demo_url_parses: "Parse demo_url \<noteq> None"
  by (simp add: demo_url_def Parse_def before_def control_char_def Let_def)

lemma demo_get_body: "request_body (request_options m u None) = Inr NoBody"
  by (simp add: request_body_def request_options_def)

lemma demo_get_refused:
  assumes "300 \<le> code"
  shows "\<exists>s'. SendRequest (logged script_env) demo_client (request_options ''GET'' demo_url None)
           (script_start [scripted code JNull]) = (Inl (script_error code), s')"
  using script_refuses [OF demo_url_parses methods_ok(1) demo_get_body, of "script_start [scripted code JNull]"
      code JNull "[]" "[]" demo_client] assms
  by (auto simp: script_start_def)

lemma demo_sel:
  "rc_ReadErrorTreatAsMissing (b_ResourceConfig demo) = None"
  "rc_DeleteQueryParams (b_ResourceConfig demo) = []"
  "\<not> oc_Synchronous (b_OperationConfig demo)"
  "ac_BaseURL (b_APIConfig demo) = ''https://h/v1''"
  "rc_CreateIDParam (b_ResourceConfig demo) = []" "rc_RequestWrapper (b_ResourceConfig demo) = []"
  "b_RequestTransformer demo = None"
  by (simp_all add: demo_def demo_config_def)

definition demo_read :: ReadRequest where
  "demo_read = \<lparr>rd_NativeID = demo_id, rd_ResourceType = ''T'', rd_TargetConfig = RawNil\<rparr>"

theorem Read_missing_exact_witness:
  "(\<exists>rr s'. Read (logged script_env) demo demo_read (script_start [scripted 404 JNull]) = (Ok rr, s') \<and> rr_ErrorCode rr = NotFound)
   \<and> (\<exists>rr s'. Read (logged script_env) demo demo_read (script_start [scripted 403 JNull]) = (Ok rr, s')
        \<and> rr_ErrorCode rr = AccessDenied \<and> m_log s' \<noteq> [])"
proof -
  have run: "\<exists>rr s' s2. Read (logged script_env) demo demo_read (script_start [scripted code JNull]) = (Ok rr, s')
      \<and> SendRequest (logged script_env) demo_client (request_options ''GET'' demo_url None) (script_start [scripted code JNull])
          = (Inl (script_error code), s2)" if "300 \<le> code" for code
    using demo_get_refused [OF that]
    by (auto simp: Read_def demo_NewClient demo_read_def demo_parse demo_context demo_resource_url error_is_missing_def demo_sel)
  note parse = demo_parse demo_context demo_resource_url demo_NewClient demo_sel
  have "\<not> isAuthError (Some (script_error 404))" by code_simp
  then have k: "ClassifyError (Some (script_error 403)) = ErrorCodeUnauthorized" "ClassifyError (Some (script_error 404)) = ErrorCodeResourceNotFound"
    by (simp_all add: ClassifyError_def script_error_def classifyGoogleError_def)
  obtain r1 s1 t1 where r1: "Read (logged script_env) demo demo_read (script_start [scripted 404 JNull]) = (Ok r1, s1)"
      "SendRequest (logged script_env) demo_client (request_options ''GET'' demo_url None) (script_start [scripted 404 JNull]) = (Inl (script_error 404), t1)"
    using run [of 404] by auto
  have "rr_ErrorCode r1 = NotFound" using Read_missing_exact [OF r1(1)] k(2) r1(2) by (simp add: demo_read_def parse)
  moreover obtain r2 s2 t2 where r2: "Read (logged script_env) demo demo_read (script_start [scripted 403 JNull]) = (Ok r2, s2)"
      "SendRequest (logged script_env) demo_client (request_options ''GET'' demo_url None) (script_start [scripted 403 JNull]) = (Inl (script_error 403), t2)"
    using run [of 403] by auto
  have "rr_ErrorCode r2 = AccessDenied" "m_log s2 \<noteq> []"
    using Read_missing_exact [OF r2(1)] k(1) r2(2) by (simp_all add: demo_read_def parse)
  ultimately show ?thesis using r1(1) r2(1) by blast
qed

theorem Status_failure_needs_answer_witness:
  "\<exists>p s2. Status (logged script_env) demo
      \<lparr>st_RequestID = ''op'', st_NativeID = demo_id, st_ResourceType = ''T'', st_TargetConfig = RawNil\<rparr>
      (script_start [scripted 200 (JObj [(''done'', JBool True)])]) = (Ok p, s2)
    \<and> pr_Status p = OperationStatusSuccess
    \<and> (\<exists>client s1 resp check. SendRequest (logged script_env) client
             (request_options ''GET'' (ac_BaseURL (b_APIConfig (demo :: demo_world BaseResource)) @ ''/'' @ ''op'') None) s1
           = (Inr resp, s2)
         \<and> oc_OperationStatusChecker (b_OperationConfig (demo :: demo_world BaseResource)) = Some check
         \<and> check (obj_of (rs_Body resp)) = (True, None))"
proof -
  let ?s = "script_start [scripted 200 (JObj [(''done'', JBool True)])]"
  let ?req = "\<lparr>st_RequestID = ''op'', st_NativeID = demo_id, st_ResourceType = ''T'', st_TargetConfig = RawNil\<rparr>"
  have u: "Parse ''https://h/v1/op'' \<noteq> None" by (simp add: Parse_def before_def control_char_def Let_def)
  obtain s1 where s1: "SendRequest (logged script_env) demo_client (request_options ''GET'' ''https://h/v1/op'' None) ?s =
      (Inr \<lparr>rs_StatusCode = 200, rs_Body = Some [(''done'', JBool True)], rs_Headers = []\<rparr>, s1)"
    using script_accepts [OF u methods_ok(1) demo_get_body, of ?s 200 "[(''done'', JBool True)]" "[]" "[]" demo_client]
    by (auto simp: script_start_def)
  have "demo_id \<noteq> []" by (simp add: demo_id_def)
  then have p: "poll_answer (demo :: demo_world BaseResource) ?req (Some [(''done'', JBool True)]) =
      Ok ((progress OperationCheckStatus OperationStatusSuccess)
            \<lparr>pr_Message := ''Operation completed successfully'', pr_RequestID := ''op'', pr_NativeID := demo_id\<rparr>)"
    by (simp add: poll_answer_def demo_def obj_of_def CheckLROStatus_def)
  have st: "Status (logged script_env) demo ?req ?s = (Ok ((progress OperationCheckStatus OperationStatusSuccess)
            \<lparr>pr_Message := ''Operation completed successfully'', pr_RequestID := ''op'', pr_NativeID := demo_id\<rparr>), s1)"
    by (simp add: Status_def demo_sel demo_NewClient s1 p)
  from Status_failure_needs_answer [OF st demo_sel(3)] st show ?thesis by simp blast
qed

definition demo_lock :: OptimisticLockingConfig where
  "demo_lock = \<lparr>ol_Enabled = True, ol_FieldName = ''etag'', ol_LocationInURL = False\<rparr>"

definition demo_update :: UpdateRequest where
  "demo_update = \<lparr>up_NativeID = demo_id, up_ResourceType = ''T'', up_TargetConfig = RawNil,
     up_DesiredProperties = RawDoc (JObj [(''etag'', JStr ''stale'')])\<rparr>"

theorem locked_update_sends_value_read_witness:
  "\<exists>r s' g reqs. updateWithOptimisticLocking (logged script_env) demo demo_lock demo_client demo_update
      [(''etag'', JStr ''stale'')] demo_ctx (script_start [scripted 200 (JObj [(''etag'', JStr ''fresh'')])]) = (r, s')
    \<and> sent s' = g # reqs \<and> hq_Method g = ''GET'' \<and> length reqs \<le> 1
    \<and> (\<forall>req \<in> set reqs. \<exists>m. hq_Body req = JsonBody (RawDoc (JObj m)) \<and> map_of m ''etag'' = Some (JStr ''fresh''))"
proof -
  let ?s = "script_start [scripted 200 (JObj [(''etag'', JStr ''fresh'')])]"
  obtain s1 where s1: "SendRequest (logged script_env) demo_client (request_options ''GET'' demo_url None) ?s =
      (Inr \<lparr>rs_StatusCode = 200, rs_Body = Some [(''etag'', JStr ''fresh'')], rs_Headers = []\<rparr>, s1)"
    using script_accepts [OF demo_url_parses methods_ok(1) demo_get_body, of ?s 200 "[(''etag'', JStr ''fresh'')]" "[]" "[]" demo_client]
    by (auto simp: script_start_def)
  obtain r s' where u: "updateWithOptimisticLocking (logged script_env) demo demo_lock demo_client demo_update
      [(''etag'', JStr ''stale'')] demo_ctx ?s = (r, s')" by (metis surj_pair)
  have "\<not> ol_LocationInURL demo_lock" by (simp add: demo_lock_def)
  from locked_update_sends_value_read [OF demo_resource_url s1 this u] obtain reqs where "sent s' = sent s1 @ reqs" "length reqs \<le> 1"
    "\<forall>req \<in> set reqs. \<exists>m. hq_Body req = JsonBody (RawDoc (JObj m)) \<and> map_of m ''etag'' = Some (JStr ''fresh'')"
    by (auto simp: wrapped_payload_def demo_sel demo_lock_def obj_of_def)
  moreover obtain g where "sent s1 = [g]" "hq_Method g = ''GET''"
    using logged_send [OF s1] by (auto simp: sent_def script_start_def)
  ultimately show ?thesis using u by auto
qed

end
