(* ===== verification/Registry.thy ===== *)
theory Registry
  imports Base_Resource
begin

text \<open>
  Which code serves which resource type: the provisioner interface
  (\<^verbatim>\<open>src/pkg/resources/prov/provisioner.go\<close>), the global table
  (\<^verbatim>\<open>src/pkg/resources/registry/registry.go\<close>) and the per-API registries with the unified
  provisioner they make (\<^verbatim>\<open>src/pkg/resources/base/resource_registry.go\<close>).

  A registered factory of a per-API registry reads that registry's definitions when it is
  called, not when it is registered. So the table holds a reference, \<open>UnifiedFactory i t\<close>, to
  the registry \<open>i\<close> of the store and the type \<open>t\<close>, and a hand-written factory is
  \<open>CustomFactory\<close>.
\<close>

record 'w Provisioner =
  p_Create :: "CreateRequest \<Rightarrow> ('w, ProgressResult) op"
  p_Update :: "UpdateRequest \<Rightarrow> ('w, ProgressResult) op"
  p_Delete :: "DeleteRequest \<Rightarrow> ('w, ProgressResult) op"
  p_Status :: "StatusRequest \<Rightarrow> ('w, ProgressResult) op"
  p_Read :: "ReadRequest \<Rightarrow> ('w, ReadResult) op"
  p_List :: "ListRequest \<Rightarrow> ('w, ListResult) op"

record 'w ResourceDefinition =
  rd_Type :: string
  rd_APIConfig :: APIConfig
  rd_OperationConfig :: OperationConfig
  rd_ResourceConfig :: "'w ResourceConfig"
  rd_NativeIDConfig :: NativeIDConfig
  rd_RequestTransformer :: "request_transformer option"
  rd_ResponseTransformer :: "response_transformer option"
  rd_Operations :: "Operation list option"

definition StandardOperations :: "Operation list" where
  "StandardOperations =
     [OperationCreate, OperationRead, OperationUpdate, OperationDelete, OperationList,
      OperationCheckStatus]"

record 'w ResourceRegistry =
  rg_apiConfig :: APIConfig
  rg_operationConfig :: OperationConfig
  rg_nativeIDConfig :: NativeIDConfig
  rg_Definitions :: "string \<rightharpoonup> 'w ResourceDefinition"

datatype 'w factory =
    UnifiedFactory nat string
  | CustomFactory "Config option \<Rightarrow> 'w Provisioner"

text \<open>The state the package initialisers build: the global table and the registries.\<close>

record 'w registries =
  gr_table :: "string \<rightharpoonup> (Operation \<rightharpoonup> 'w factory)"
  gr_store :: "nat \<rightharpoonup> 'w ResourceRegistry"

section \<open>registry.go\<close>

definition Register_table ::
    "string \<Rightarrow> Operation list \<Rightarrow> 'w factory \<Rightarrow> (string \<rightharpoonup> (Operation \<rightharpoonup> 'w factory))
      \<Rightarrow> (string \<rightharpoonup> (Operation \<rightharpoonup> 'w factory))" where
  "Register_table name operations f table =
     (let inner = (case table name of None \<Rightarrow> Map.empty | Some m \<Rightarrow> m)
      in table(name \<mapsto> foldl (\<lambda>m operation. m(operation \<mapsto> f)) inner operations))"

definition HasProvisioner :: "'w registries \<Rightarrow> string \<Rightarrow> Operation \<Rightarrow> bool" where
  "HasProvisioner R name operation =
     (case gr_table R name of None \<Rightarrow> False | Some m \<Rightarrow> m operation \<noteq> None)"

section \<open>resource\_registry.go\<close>

definition NewResourceRegistry ::
    "APIConfig \<Rightarrow> OperationConfig \<Rightarrow> NativeIDConfig \<Rightarrow> 'w ResourceRegistry" where
  "NewResourceRegistry api oper nid =
     \<lparr>rg_apiConfig = api, rg_operationConfig = oper, rg_nativeIDConfig = nid,
      rg_Definitions = Map.empty\<rparr>"

text \<open>The definition as stored: the registry's configurations where it left them out.\<close>

definition complete_definition ::
    "'w ResourceRegistry \<Rightarrow> 'w ResourceDefinition \<Rightarrow> 'w ResourceDefinition" where
  "complete_definition r def =
     def\<lparr>rd_APIConfig := (if ac_BaseURL (rd_APIConfig def) = [] then rg_apiConfig r else rd_APIConfig def),
         rd_OperationConfig :=
           (if oc_OperationIDExtractor (rd_OperationConfig def) = None then rg_operationConfig r
            else rd_OperationConfig def),
         rd_NativeIDConfig :=
           (if ni_Format (rd_NativeIDConfig def) = NoFormat then rg_nativeIDConfig r
            else rd_NativeIDConfig def),
         rd_Operations := Some (case rd_Operations def of None \<Rightarrow> StandardOperations | Some ops \<Rightarrow> ops)\<rparr>"

definition Register ::
    "nat \<Rightarrow> 'w ResourceDefinition \<Rightarrow> 'w registries \<Rightarrow> (goerr, 'w registries) outcome" where
  "Register i def0 R =
     (if rd_Type def0 = [] then Err (ErrText ''resource type cannot be empty'')
      else case gr_store R i of
        None \<Rightarrow> Panic nil_panic
      | Some r \<Rightarrow>
          (let def = complete_definition r def0
           in Ok (R\<lparr>gr_store := (gr_store R)(i \<mapsto> r\<lparr>rg_Definitions := (rg_Definitions r)(rd_Type def \<mapsto> def)\<rparr>),
                    gr_table := Register_table (rd_Type def) (the (rd_Operations def))
                                  (UnifiedFactory i (rd_Type def)) (gr_table R)\<rparr>)))"

fun RegisterAll ::
    "nat \<Rightarrow> 'w ResourceDefinition list \<Rightarrow> 'w registries \<Rightarrow> goerr option \<times> (goerr, 'w registries) outcome" where
  "RegisterAll i [] R = (None, Ok R)"
| "RegisterAll i (def # defs) R =
     (case Register i def R of
        Ok R1 \<Rightarrow> RegisterAll i defs R1
      | Err e \<Rightarrow> (Some (errorf_w (''failed to register '' @ rd_Type def @ '': '') e), Ok R)
      | Panic p \<Rightarrow> (None, Panic p))"

definition base_resource :: "Config option \<Rightarrow> 'w ResourceDefinition \<Rightarrow> 'w BaseResource" where
  "base_resource cfg def =
     \<lparr>b_Config = cfg, b_APIConfig = rd_APIConfig def, b_OperationConfig = rd_OperationConfig def,
      b_ResourceConfig = rd_ResourceConfig def, b_NativeIDConfig = rd_NativeIDConfig def,
      b_RequestTransformer = rd_RequestTransformer def,
      b_ResponseTransformer = rd_ResponseTransformer def\<rparr>"

definition Unified_Status ::
    "'w env \<Rightarrow> 'w BaseResource \<Rightarrow> StatusRequest \<Rightarrow> ('w, ProgressResult) op" where
  "Unified_Status E b request s =
     (case Status E b request s of
        (Err e, s1) \<Rightarrow> (Err e, s1)
      | (Panic p, s1) \<Rightarrow> (Panic p, s1)
      | (Ok r, s1) \<Rightarrow>
          if pr_Status r = OperationStatusSuccess \<and> pr_NativeID r \<noteq> []
          then (case Read E b (status_read_request request (pr_NativeID r)) s1 of
                  (Panic p, s2) \<Rightarrow> (Panic p, s2)
                | (Err e, s2) \<Rightarrow> (Ok r, s2)
                | (Ok rr, s2) \<Rightarrow>
                    (Ok (if rr_ErrorCode rr = NoErrorCode
                         then r\<lparr>pr_Properties :=
                                  Some (case rr_Properties rr of None \<Rightarrow> RawNil | Some p \<Rightarrow> p)\<rparr> else r), s2))
          else (Ok r, s1))"

definition UnifiedProvisioner :: "'w env \<Rightarrow> 'w BaseResource \<Rightarrow> 'w Provisioner" where
  "UnifiedProvisioner E b =
     \<lparr>p_Create = Create E b, p_Update = Update E b, p_Delete = Delete E b,
      p_Status = Unified_Status E b, p_Read = Read E b, p_List = List E b\<rparr>"

definition CreateProvisioner ::
    "'w env \<Rightarrow> 'w ResourceRegistry \<Rightarrow> Config option \<Rightarrow> string \<Rightarrow> (goerr, 'w Provisioner) outcome" where
  "CreateProvisioner E r cfg resourceType =
     (case rg_Definitions r resourceType of
        None \<Rightarrow> Panic (''no definition found for resource type: '' @ resourceType)
      | Some def \<Rightarrow> Ok (UnifiedProvisioner E (base_resource cfg def)))"

fun run_factory ::
    "'w env \<Rightarrow> 'w registries \<Rightarrow> Config option \<Rightarrow> 'w factory \<Rightarrow> (goerr, 'w Provisioner) outcome" where
  "run_factory E R cfg (UnifiedFactory i t) =
     (case gr_store R i of None \<Rightarrow> Panic nil_panic | Some r \<Rightarrow> CreateProvisioner E r cfg t)"
| "run_factory E R cfg (CustomFactory f) = Ok (f cfg)"

text \<open>
  \<^verbatim>\<open>registry.Get\<close>: \<^const>\<open>None\<close> is the nil provisioner it answers, after logging, for a pair
  that is not registered. The log line lists the registered types, which the model leaves out.
\<close>

definition Get ::
    "'w env \<Rightarrow> 'w registries \<Rightarrow> string \<Rightarrow> Operation \<Rightarrow> Config option \<Rightarrow> (goerr, 'w Provisioner option) outcome" where
  "Get E R name operation cfg =
     (case gr_table R name of
        None \<Rightarrow> Ok None
      | Some m \<Rightarrow>
          (case m operation of
             None \<Rightarrow> Ok None
           | Some f \<Rightarrow> bind_outcome (run_factory E R cfg f) (\<lambda>p. Ok (Some p))))"

section \<open>What the registries promise\<close>

text \<open>Every factory of the table finds its definition.\<close>

definition factory_ok :: "'w registries \<Rightarrow> 'w factory \<Rightarrow> bool" where
  "factory_ok R f =
     (case f of CustomFactory g \<Rightarrow> True
      | UnifiedFactory i t \<Rightarrow>
          (case gr_store R i of None \<Rightarrow> False | Some r \<Rightarrow> rg_Definitions r t \<noteq> None))"

definition registries_ok :: "'w registries \<Rightarrow> bool" where
  "registries_ok R \<longleftrightarrow>
     (\<forall>name m operation f. gr_table R name = Some m \<longrightarrow> m operation = Some f \<longrightarrow> factory_ok R f)"

lemma foldl_map_upd:
  "foldl (\<lambda>m operation. m(operation \<mapsto> f)) m ops operation
     = (if operation \<in> set ops then Some f else m operation)"
  by (induction ops arbitrary: m) auto

lemma Register_table_lookup:
  "Register_table name ops f table n =
     (if n = name
      then Some (\<lambda>operation. if operation \<in> set ops then Some f
                  else case table name of None \<Rightarrow> None | Some m \<Rightarrow> m operation)
      else table n)"
  by (auto simp: Register_table_def Let_def foldl_map_upd fun_eq_iff split: option.splits)

lemma HasProvisioner_Register_table:
  "HasProvisioner (R\<lparr>gr_table := Register_table name ops f (gr_table R)\<rparr>) n operation \<longleftrightarrow>
     (n = name \<and> operation \<in> set ops) \<or> HasProvisioner R n operation"
  by (auto simp: HasProvisioner_def Register_table_lookup split: option.splits)

lemma complete_definition_type [simp]: "rd_Type (complete_definition r def) = rd_Type def"
  by (simp add: complete_definition_def)

lemma complete_definition_operations [simp]:
  "rd_Operations (complete_definition r def) =
     Some (case rd_Operations def of None \<Rightarrow> StandardOperations | Some ops \<Rightarrow> ops)"
  by (simp add: complete_definition_def)

lemma factory_ok_grows:
  assumes "factory_ok R f" and "gr_store R i = Some r"
  shows "factory_ok (R\<lparr>gr_store := (gr_store R)(i \<mapsto> r\<lparr>rg_Definitions := (rg_Definitions r)(t \<mapsto> d)\<rparr>),
                       gr_table := tab\<rparr>) f"
  using assms by (cases f) (auto simp: factory_ok_def split: option.splits)

lemma Register_ok:
  assumes "registries_ok R" and "Register i def R = Ok R'"
  shows "registries_ok R'"
proof -
  obtain r where r: "gr_store R i = Some r" and ne: "rd_Type def \<noteq> []"
    using assms(2) by (auto simp: Register_def split: if_splits option.splits)
  define d where "d = complete_definition r def"
  define S where "S = (gr_store R)(i \<mapsto> r\<lparr>rg_Definitions := (rg_Definitions r)(rd_Type d \<mapsto> d)\<rparr>)"
  define T where "T = Register_table (rd_Type d) (the (rd_Operations d)) (UnifiedFactory i (rd_Type d)) (gr_table R)"
  have R': "R' = R\<lparr>gr_store := S, gr_table := T\<rparr>"
    using assms(2) r ne by (simp add: Register_def Let_def d_def S_def T_def)
  have new: "factory_ok R' (UnifiedFactory i (rd_Type d))"
    by (simp add: R' S_def factory_ok_def)
  have old: "factory_ok R' f" if "gr_table R n = Some m" "m operation = Some f" for n m operation f
    using that assms(1) factory_ok_grows [OF _ r] by (auto simp: registries_ok_def R' S_def)
  show ?thesis
    unfolding registries_ok_def
  proof (intro allI impI)
    fix n m operation f
    assume "gr_table R' n = Some m" "m operation = Some f"
    then show "factory_ok R' f"
      using new old by (auto simp: R' T_def Register_table_lookup split: if_splits option.splits)
  qed
qed

lemma RegisterAll_ok:
  "registries_ok R \<Longrightarrow> RegisterAll i defs R = (e, Ok R') \<Longrightarrow> registries_ok R'"
  by (induction defs arbitrary: R) (auto split: outcome.splits dest: Register_ok)

lemma Get_not_panic:
  assumes "registries_ok R" and "HasProvisioner R name operation"
  shows "\<exists>p. Get E R name operation cfg = Ok (Some p)"
proof -
  obtain m f where m: "gr_table R name = Some m" "m operation = Some f"
    using assms(2) by (auto simp: HasProvisioner_def split: option.splits)
  with assms(1) have "factory_ok R f" by (auto simp: registries_ok_def)
  with m show ?thesis
    by (cases f) (auto simp: Get_def factory_ok_def CreateProvisioner_def split: option.splits)
qed

section \<open>Properties\<close>

lemma Register_serves:
  assumes "Register i def R = Ok R'"
  shows "HasProvisioner R' n operation \<longleftrightarrow>
    (n = rd_Type def \<and> operation \<in> set (case rd_Operations def of None \<Rightarrow> StandardOperations | Some ops \<Rightarrow> ops))
    \<or> HasProvisioner R n operation"
  using assms
  by (auto simp: Register_def HasProvisioner_def Register_table_lookup Let_def split: if_splits option.splits)

lemma RegisterAll_serves:
  "RegisterAll i defs R = (None, Ok R') \<Longrightarrow>
     HasProvisioner R' n operation \<longleftrightarrow>
       (\<exists>def \<in> set defs. n = rd_Type def
          \<and> operation \<in> set (case rd_Operations def of None \<Rightarrow> StandardOperations | Some ops \<Rightarrow> ops))
       \<or> HasProvisioner R n operation"
  by (induction defs arbitrary: R) (auto split: outcome.splits dest!: Register_serves)

text \<open>
  Registration is complete and safe. After all definitions of a registry were registered, exactly
  the pairs of a type and an operation that were registered now or before have a provisioner, and
  asking for one of them always gives one: the panic for a missing definition cannot happen.
\<close>
lemma RegisterAll_complete:
  assumes "registries_ok R" and "RegisterAll i defs R = (None, Ok R')"
  shows "registries_ok R'
    \<and> (HasProvisioner R' n operation \<longleftrightarrow>
         (\<exists>def \<in> set defs. n = rd_Type def
            \<and> operation \<in> set (case rd_Operations def of None \<Rightarrow> StandardOperations | Some ops \<Rightarrow> ops))
         \<or> HasProvisioner R n operation)
    \<and> (HasProvisioner R' n operation \<longrightarrow> (\<exists>p. Get E R' n operation cfg = Ok (Some p)))"
  using RegisterAll_ok [OF assms] RegisterAll_serves [OF assms(2)] Get_not_panic [of R'] by blast

lemma Read_properties_present:
  "Read E b request s = (Ok r, s') \<Longrightarrow> rr_ErrorCode r = NoErrorCode \<Longrightarrow> rr_Properties r \<noteq> None"
proof -
  assume *: "Read E b request s = (Ok r, s')" "rr_ErrorCode r = NoErrorCode"
  have "ToResourceErrorCode c \<noteq> NoErrorCode" for c by (cases c) auto
  moreover have "read_body b ctx body = Ok r \<Longrightarrow> rr_Properties r \<noteq> None" for ctx body
    using *(2) by (cases "transform_response b body ctx OperationRead")
      (auto simp: read_body_def split: if_splits sum.splits)
  ultimately show ?thesis
    using * by (auto simp: Read_def Let_def split: prod.splits sum.splits outcome.splits if_splits bool.splits)
qed

lemma Status_success_id:
  assumes "Status E b request s = (Ok r, s')" and "pr_Status r = OperationStatusSuccess"
    and "\<not> oc_Synchronous (b_OperationConfig b)" and "st_NativeID request \<noteq> []"
  shows "pr_NativeID r = st_NativeID request"
  using assms
  by (auto simp: Status_def poll_failed_def poll_answer_def Let_def
      split: prod.splits sum.splits if_splits option.splits)

text \<open>
  The two ways to a status with properties agree. For an asynchronous API, \<open>StatusWithRead\<close> with
  the resource's own Read, which hand-written provisioners use, does exactly what the unified
  provisioner's Status does, in result and in effect.
\<close>
lemma StatusWithRead_is_unified:
  assumes "\<not> oc_Synchronous (b_OperationConfig b)"
  shows "StatusWithRead E b (Some (Read E b)) request s = Unified_Status E b request s"
proof -
  obtain q s1 where q: "Status E b request s = (q, s1)" by (metis surj_pair)
  show ?thesis
  proof (cases q)
    case (Ok r)
    show ?thesis
    proof (cases "pr_Status r = OperationStatusSuccess")
      case True
      with q Ok assms have n: "fill (pr_NativeID r) (st_NativeID request) = pr_NativeID r"
        using Status_success_id by (fastforce simp: fill_def)
      obtain rd s2 where rd: "Read E b (status_read_request request (pr_NativeID r)) s1 = (rd, s2)"
        by (metis surj_pair)
      have upd: "rr_ErrorCode rr = NoErrorCode \<Longrightarrow> rd = Ok rr \<Longrightarrow>
          r\<lparr>pr_Properties := rr_Properties rr, pr_NativeID := pr_NativeID r\<rparr>
          = r\<lparr>pr_Properties := Some (case rr_Properties rr of None \<Rightarrow> RawNil | Some p \<Rightarrow> p)\<rparr>" for rr
        using Read_properties_present rd by fastforce
      show ?thesis
        using q Ok True n rd upd Read_properties_present [of E b "status_read_request request (pr_NativeID r)" s1]
        by (cases rd) (auto simp: StatusWithRead_def Unified_Status_def Let_def)
    qed (use q Ok in \<open>simp add: StatusWithRead_def Unified_Status_def Let_def\<close>)
  qed (use q in \<open>simp_all add: StatusWithRead_def Unified_Status_def\<close>)
qed

end
