(* ===== verification/Plugin.thy ===== *)
theory Plugin
  imports Registry
begin

text \<open>
  The plugin formae calls: \<^verbatim>\<open>src/gcp.go\<close>, and the generic client it falls back to,
  \<^verbatim>\<open>src/pkg/gcp/client.go\<close>. The registries are those the package initialisers built; they are
  an argument, because nothing changes them once the plugin runs. Rate limits, discovery filters
  and label queries are constants the SDK interprets.
\<close>

record Plugin =
  pl_oidc :: "OidcDeps option"

definition NewOidcDeps :: "bool \<Rightarrow> OidcDeps" where
  "NewOidcDeps src = \<lparr>od_Source = src\<rparr>"

definition SetOidcTokenSource :: "bool \<Rightarrow> Plugin \<Rightarrow> Plugin" where
  "SetOidcTokenSource src p = p\<lparr>pl_oidc := Some (NewOidcDeps src)\<rparr>"

definition targetConfig :: "Plugin \<Rightarrow> raw \<Rightarrow> Config" where
  "targetConfig p r = FromTargetConfig r (pl_oidc p)"

section \<open>gcp/client.go\<close>

text \<open>\<^verbatim>\<open>gcp.NewClient\<close> keeps the configuration, which is never nil here.\<close>

definition generic_message :: "string \<Rightarrow> string \<Rightarrow> string" where
  "generic_message what resourceType =
     ''Generic '' @ what @ '' not implemented for '' @ resourceType @ ''. Use custom provisioner.''"

definition CreateResource :: "CreateRequest \<Rightarrow> ProgressResult" where
  "CreateResource request =
     (progress OperationCreate OperationStatusFailure)
       \<lparr>pr_ErrorCode := NotUpdatable, pr_Message := generic_message ''create'' (cr_ResourceType request)\<rparr>"

definition UpdateResource :: "UpdateRequest \<Rightarrow> ProgressResult" where
  "UpdateResource request =
     (progress OperationUpdate OperationStatusFailure)
       \<lparr>pr_ErrorCode := NotUpdatable, pr_Message := generic_message ''update'' (up_ResourceType request)\<rparr>"

definition DeleteResource :: "DeleteRequest \<Rightarrow> ProgressResult" where
  "DeleteResource request =
     (progress OperationDelete OperationStatusFailure)
       \<lparr>pr_ErrorCode := NotUpdatable, pr_Message := generic_message ''delete'' (dl_ResourceType request)\<rparr>"

definition ReadResource :: "ReadRequest \<Rightarrow> ReadResult" where
  "ReadResource request =
     \<lparr>rr_ResourceType = rd_ResourceType request, rr_ErrorCode = NotUpdatable, rr_Properties = None\<rparr>"

definition StatusResource :: "StatusRequest \<Rightarrow> ProgressResult" where
  "StatusResource request = progress OperationCheckStatus OperationStatusSuccess"

definition ListResources :: "ListRequest \<Rightarrow> ListResult" where
  "ListResources request = \<lparr>lr_NativeIDs = [], lr_NextPageToken = None\<rparr>"

section \<open>gcp.go\<close>

definition stripNonFailureMessage :: "ProgressResult \<Rightarrow> ProgressResult" where
  "stripNonFailureMessage pr =
     (if pr_Status pr \<noteq> OperationStatusFailure then pr\<lparr>pr_Message := []\<rparr> else pr)"

text \<open>The deferred function of the four handlers that answer a progress result.\<close>

fun strip_outcome :: "(goerr, ProgressResult) outcome \<Rightarrow> (goerr, ProgressResult) outcome" where
  "strip_outcome (Ok r) = Ok (stripNonFailureMessage r)"
| "strip_outcome (Err e) = Err e"
| "strip_outcome (Panic p) = Panic p"

definition stripped :: "('w, ProgressResult) op \<Rightarrow> ('w, ProgressResult) op" where
  "stripped f s = (case f s of (r, s1) \<Rightarrow> (strip_outcome r, s1))"

text \<open>
  A handler: the provisioner registered for the type and the operation, or else the generic
  client. A factory that answers no provisioner would make the call panic.
\<close>

definition dispatch ::
    "'w env \<Rightarrow> 'w registries \<Rightarrow> Plugin \<Rightarrow> raw \<Rightarrow> string \<Rightarrow> Operation
      \<Rightarrow> ('w Provisioner \<Rightarrow> ('w, 'a) op) \<Rightarrow> 'a \<Rightarrow> ('w, 'a) op" where
  "dispatch E R p target resourceType operation call generic s =
     (if HasProvisioner R resourceType operation then
        (case Get E R resourceType operation (Some (targetConfig p target)) of
           Ok (Some pv) \<Rightarrow> call pv s
         | Ok None \<Rightarrow> (Panic nil_panic, s)
         | Err e \<Rightarrow> (Err e, s)
         | Panic m \<Rightarrow> (Panic m, s))
      else (Ok generic, s))"

definition Plugin_Create ::
    "'w env \<Rightarrow> 'w registries \<Rightarrow> Plugin \<Rightarrow> CreateRequest \<Rightarrow> ('w, ProgressResult) op" where
  "Plugin_Create E R p request =
     stripped (dispatch E R p (cr_TargetConfig request) (cr_ResourceType request) OperationCreate
       (\<lambda>pv. p_Create pv request) (CreateResource request))"

definition Plugin_Read ::
    "'w env \<Rightarrow> 'w registries \<Rightarrow> Plugin \<Rightarrow> ReadRequest \<Rightarrow> ('w, ReadResult) op" where
  "Plugin_Read E R p request =
     dispatch E R p (rd_TargetConfig request) (rd_ResourceType request) OperationRead
       (\<lambda>pv. p_Read pv request) (ReadResource request)"

definition Plugin_Update ::
    "'w env \<Rightarrow> 'w registries \<Rightarrow> Plugin \<Rightarrow> UpdateRequest \<Rightarrow> ('w, ProgressResult) op" where
  "Plugin_Update E R p request =
     stripped (dispatch E R p (up_TargetConfig request) (up_ResourceType request) OperationUpdate
       (\<lambda>pv. p_Update pv request) (UpdateResource request))"

definition Plugin_Delete ::
    "'w env \<Rightarrow> 'w registries \<Rightarrow> Plugin \<Rightarrow> DeleteRequest \<Rightarrow> ('w, ProgressResult) op" where
  "Plugin_Delete E R p request =
     stripped (dispatch E R p (dl_TargetConfig request) (dl_ResourceType request) OperationDelete
       (\<lambda>pv. p_Delete pv request) (DeleteResource request))"

definition Plugin_Status ::
    "'w env \<Rightarrow> 'w registries \<Rightarrow> Plugin \<Rightarrow> StatusRequest \<Rightarrow> ('w, ProgressResult) op" where
  "Plugin_Status E R p request =
     stripped
       (if st_ResourceType request = [] then (\<lambda>s. (Ok (StatusResource request), s))
        else dispatch E R p (st_TargetConfig request) (st_ResourceType request) OperationCheckStatus
               (\<lambda>pv. p_Status pv request) (StatusResource request))"

definition empty_list :: ListResult where
  "empty_list = \<lparr>lr_NativeIDs = [], lr_NextPageToken = None\<rparr>"

definition unlistable_line :: "string \<Rightarrow> string \<Rightarrow> ListRequest \<Rightarrow> goerr \<Rightarrow> log_line" where
  "unlistable_line level msg request e =
     (level, msg, [(''resourceType'', ls_ResourceType request), (''error'', err_text e)])"

definition emptyIfUnlistable ::
    "ListRequest \<Rightarrow> (goerr, ListResult) outcome \<Rightarrow> ('w, ListResult) op" where
  "emptyIfUnlistable request r s =
     (case r of
        Err e \<Rightarrow>
          if ls_AdditionalProperties request \<noteq> [] \<and> ClassifyError (Some e) = ErrorCodeResourceNotFound
          then (Ok empty_list,
                log_add (unlistable_line ''INFO''
                  ''cannot list resources: the parent is gone, reporting none found'' request e) s)
          else if IsServiceDisabled (Some e)
          then (Ok empty_list,
                log_add (unlistable_line ''INFO''
                  ''cannot list resources: the API is not enabled in this project'' request e) s)
          else if ClassifyError (Some e) = ErrorCodeUnauthorized
          then (Ok empty_list,
                log_add (unlistable_line ''WARN''
                  ''cannot list resources: not authorized, reporting none found'' request e) s)
          else (Err e, s)
      | _ \<Rightarrow> (r, s))"

definition Plugin_List ::
    "'w env \<Rightarrow> 'w registries \<Rightarrow> Plugin \<Rightarrow> ListRequest \<Rightarrow> ('w, ListResult) op" where
  "Plugin_List E R p request s =
     (case dispatch E R p (ls_TargetConfig request) (ls_ResourceType request) OperationList
             (\<lambda>pv. p_List pv request) (ListResources request) s of
        (r, s1) \<Rightarrow> emptyIfUnlistable request r s1)"

section \<open>Properties\<close>

definition quiet :: "(goerr, ProgressResult) outcome \<Rightarrow> bool" where
  "quiet r = (case r of Ok p \<Rightarrow> pr_Status p = OperationStatusFailure \<or> pr_Message p = [] | _ \<Rightarrow> True)"

lemma stripped_quiet: "quiet (fst (stripped f s))"
proof -
  obtain r s' where "f s = (r, s')" by (metis surj_pair)
  then show ?thesis by (cases r) (auto simp: stripped_def quiet_def stripNonFailureMessage_def)
qed

text \<open>
  A reason is given only for a failure. Whatever provisioner serves the request, the four
  handlers that report progress answer an empty status message unless the operation failed.
\<close>
lemma Plugin_messages_only_on_failure:
  "quiet (fst (Plugin_Create E R p cr s)) \<and> quiet (fst (Plugin_Update E R p up s))
   \<and> quiet (fst (Plugin_Delete E R p dl s)) \<and> quiet (fst (Plugin_Status E R p st s))"
  by (simp add: Plugin_Create_def Plugin_Update_def Plugin_Delete_def Plugin_Status_def stripped_quiet)

text \<open>An API that answers every request with the same refusal.\<close>

definition refuses :: "'w env \<Rightarrow> google_error \<Rightarrow> bool" where
  "refuses E g \<longleftrightarrow> (\<forall>w req. \<exists>hr v. env_http_do E w req = (Inr hr, v) \<and> env_check_response E hr = Some (ErrGoogle g))"

lemma refused_send:
  assumes "refuses E g" and "SendRequest (logged E) c opts s = (a, s')" and "sent s' \<noteq> sent s"
  shows "a = Inl (ErrGoogle g)"
  using assms(2)
proof (rule SendRequest_cases)
  fix req hr w
  assume r: "env_http_do (logged E) (m_world s) req = (Inr hr, w)" and a: "a = (case env_check_response (logged E) hr of
      Some e \<Rightarrow> Inl e
    | None \<Rightarrow>
        if hr_StatusCode hr = 204 then Inr \<lparr>rs_StatusCode = 204, rs_Body = None, rs_Headers = hr_Headers hr\<rparr>
        else case decode_body (hr_Body hr) of
          Inl e \<Rightarrow> Inl (errorf_w ''failed to decode response: '' (ErrText e))
        | Inr m \<Rightarrow> Inr \<lparr>rs_StatusCode = hr_StatusCode hr, rs_Body = m, rs_Headers = hr_Headers hr\<rparr>)"
  obtain hr' v where "env_http_do E (fst (m_world s)) req = (Inr hr', v)" "env_check_response E hr' = Some (ErrGoogle g)"
    using assms(1) unfolding refuses_def by blast
  then show ?thesis using r a by (simp add: logged_def)
next
  fix req e w assume "env_http_do (logged E) (m_world s) req = (Inl e, w)"
  moreover obtain hr v where "env_http_do E (fst (m_world s)) req = (Inr hr, v)" using assms(1) unfolding refuses_def by blast
  ultimately show ?thesis by (simp add: logged_def)
qed (use assms(3) in simp)

text \<open>The type is served by the generic resource.\<close>

definition generic_type :: "'w env \<Rightarrow> 'w registries \<Rightarrow> Plugin \<Rightarrow> raw \<Rightarrow> string \<Rightarrow> 'w BaseResource \<Rightarrow> bool" where
  "generic_type E R p target t b \<longleftrightarrow>
     (\<forall>operation \<in> {OperationRead, OperationList}. Get E R t operation (Some (targetConfig p target)) = Ok (Some (UnifiedProvisioner E b)))"

lemma dispatch_generic:
  assumes "Get E R t operation (Some (targetConfig p target)) = Ok (Some pv)"
  shows "dispatch E R p target t operation call generic s = call pv s"
proof -
  have "HasProvisioner R t operation" using assms by (auto simp: Get_def HasProvisioner_def split: option.splits)
  then show ?thesis using assms by (simp add: dispatch_def)
qed

lemma generic_read:
  "generic_type E R p (rd_TargetConfig request) (rd_ResourceType request) b \<Longrightarrow> Plugin_Read E R p request = Read E b request"
  by (simp add: fun_eq_iff Plugin_Read_def generic_type_def dispatch_generic UnifiedProvisioner_def)

lemma generic_list:
  "generic_type E R p (ls_TargetConfig request) (ls_ResourceType request) b
    \<Longrightarrow> Plugin_List E R p request s = (case List E b request s of (r, s1) \<Rightarrow> emptyIfUnlistable request r s1)"
  by (simp add: Plugin_List_def generic_type_def dispatch_generic UnifiedProvisioner_def)

lemma refused_list:
  assumes "refuses E g" and "List (logged E) b request s = (r, s')" and "sent s' \<noteq> sent s"
  shows "r = Err (errorf_w ''failed to list resources: '' (ErrGoogle g))"
proof -
  obtain q s1 where q: "NewClient (logged E) (b_Config b) s = (q, s1)" by fastforce
  have n: "sent s1 = sent s" using NewClient_sent [OF q] .
  obtain client where c: "q = Inr client" using assms(2,3) q n by (cases q) (auto simp: List_def)
  have "\<exists>url. \<exists>a. SendRequest (logged E) client (request_options ''GET'' url None) s1 = (a, s')
      \<and> (\<forall>e. a = Inl e \<longrightarrow> r = Err (errorf_w ''failed to list resources: '' e))"
    using assms(2,3) q n c by (auto simp: List_def Let_def split: if_splits outcome.splits prod.splits sum.splits)
  then show ?thesis using refused_send [OF assms(1)] assms(3) n by metis
qed

lemma refused_read:
  assumes "refuses E g" and "Read (logged E) b request s = (Ok rr, s')" and "sent s' \<noteq> sent s"
    and "rc_ReadErrorTreatAsMissing (b_ResourceConfig b) = None"
  shows "\<exists>url s2. rr = read_error (ToResourceErrorCode (ClassifyError (Some (ErrGoogle g)))) \<and> s' = logUnauthorizedRead url (ErrGoogle g) s2"
proof -
  obtain q s1 where q: "NewClient (logged E) (b_Config b) s = (q, s1)" by fastforce
  have n: "sent s1 = sent s" using NewClient_sent [OF q] .
  obtain client where c: "q = Inr client" using assms(2,3) q n by (cases q) (auto simp: Read_def)
  obtain ctx url where u: "ParseNativeID (b_NativeIDConfig b) (rd_NativeID request) = Inr ctx"
      "resource_url b (resource_context b (rd_TargetConfig request) ctx) = Ok url"
    using assms(2,3) q n c by (auto simp: Read_def Let_def split: sum.splits outcome.splits)
  obtain a s2 where a: "SendRequest (logged E) client (request_options ''GET'' url None) s1 = (a, s2)" by fastforce
  have "sent (logUnauthorizedRead v e t) = sent t" for v e and t :: "('a \<times> http_request list) machine"
    by (simp add: logUnauthorizedRead_def log_add_def sent_def)
  then have "sent s2 \<noteq> sent s1" using assms(2-4) q n c u a
    by (cases a) (auto simp: Read_def Let_def error_is_missing_def split: if_splits)
  from refused_send [OF assms(1) a this] show ?thesis using assms(2,4) q c u a
    by (auto simp: Read_def Let_def error_is_missing_def logUnauthorizedRead_def wrap_err_code split: if_splits)
qed

text \<open>A disabled API, as it says so in the details or the errors of a 403.\<close>

definition names_disabled :: "google_error \<Rightarrow> bool" where
  "names_disabled g \<longleftrightarrow>
     list_ex (\<lambda>d. case d of JObj m \<Rightarrow> as_string (map_of m ''reason'') = Some ''SERVICE_DISABLED'' | _ \<Rightarrow> False) (ge_Details g)
     \<or> list_ex (\<lambda>i. gi_Reason i = ''accessNotConfigured'') (ge_Errors g)"

lemma google_denied: "classifyGoogleError g = ErrorCodeUnauthorized \<longleftrightarrow> ge_Code g \<in> {401, 403}"
  by (simp add: classifyGoogleError_def classifyBadRequestError_def Let_def)

lemma listed_class:
  assumes "\<not> isAuthError (Some (errorf_w pre (ErrGoogle g)))"
  shows "ClassifyError (Some (errorf_w pre (ErrGoogle g))) = classifyGoogleError g"
    and "IsServiceDisabled (Some (errorf_w pre (ErrGoogle g))) \<longleftrightarrow> ge_Code g = 403 \<and> names_disabled g"
proof -
  have "as_terror (errorf_w pre (ErrGoogle g)) = None" "as_google (errorf_w pre (ErrGoogle g)) = Some g"
    unfolding as_terror_errorf as_google_errorf by (simp_all add: as_terror_def as_google_def)
  then show "ClassifyError (Some (errorf_w pre (ErrGoogle g))) = classifyGoogleError g"
    "IsServiceDisabled (Some (errorf_w pre (ErrGoogle g))) \<longleftrightarrow> ge_Code g = 403 \<and> names_disabled g"
    using assms by (simp_all add: ClassifyError_def IsServiceDisabled_def names_disabled_def)
qed

text \<open>
  C40: A refusal is never taken for absence. Take a type served by the generic resource without a hook for read
  errors and an API that refuses every request with the same error, whose text is not that of failed credentials.
  Once a request has gone out, the plugin's Read reports \<open>NotFound\<close> exactly for the status 404, and never any
  properties; 401 and 403 it reports as denied and logs as a warning with the API's words. Its List answers an
  empty list only for 401 and 403, and for 404 if the request names a parent, and each time adds exactly one line
  with the resource type and the API's words: that the parent is gone, that the API is not enabled, both below a
  warning, or, as a warning, that it is not authorized. Every other refusal it reports as an error.
\<close>
theorem refusal_is_not_absence:
  assumes "refuses E g" and "generic_type (logged E) R p target t b" and "rc_ReadErrorTreatAsMissing (b_ResourceConfig b) = None"
    and "\<not> isAuthError (Some (ErrGoogle g))" and "\<not> isAuthError (Some (errorf_w ''failed to list resources: '' (ErrGoogle g)))"
    and "rd_ResourceType rd = t" "rd_TargetConfig rd = target" "Plugin_Read (logged E) R p rd s = (Ok rr, s')" "sent s' \<noteq> sent s"
    and "ls_ResourceType ls = t" "ls_TargetConfig ls = target" "Plugin_List (logged E) R p ls u = (out, u')" "sent u' \<noteq> sent u"
  shows "(rr_ErrorCode rr = NotFound \<longleftrightarrow> ge_Code g = 404) \<and> rr_Properties rr = None
    \<and> (ge_Code g \<in> {401, 403} \<longrightarrow> rr_ErrorCode rr = AccessDenied
         \<and> (\<exists>url. last (m_log s') = (''WARN'', ''read refused: not authorized'', [(''url'', url), (''error'', ge_Text g)])))
    \<and> (\<exists>u0 said. List (logged E) b ls u = (Err (errorf_w ''failed to list resources: '' (ErrGoogle g)), u0)
         \<and> said = [(''resourceType'', t), (''error'', ''failed to list resources: '' @ ge_Text g)]
         \<and> (if ge_Code g = 404 \<and> ls_AdditionalProperties ls \<noteq> []
            then out = Ok empty_list
              \<and> m_log u' = m_log u0 @ [(''INFO'', ''cannot list resources: the parent is gone, reporting none found'', said)]
            else if ge_Code g = 403 \<and> names_disabled g
            then out = Ok empty_list
              \<and> m_log u' = m_log u0 @ [(''INFO'', ''cannot list resources: the API is not enabled in this project'', said)]
            else if ge_Code g \<in> {401, 403}
            then out = Ok empty_list
              \<and> m_log u' = m_log u0 @ [(''WARN'', ''cannot list resources: not authorized, reporting none found'', said)]
            else out = Err (errorf_w ''failed to list resources: '' (ErrGoogle g)) \<and> u' = u0))"
proof -
  let ?e = "errorf_w ''failed to list resources: '' (ErrGoogle g)"
  have read: "Read (logged E) b rd s = (Ok rr, s')" using generic_read [of "logged E" R p rd b] assms(2,6,7,8) by simp
  obtain url s2 where rr: "rr = read_error (ToResourceErrorCode (classifyGoogleError g))" "s' = logUnauthorizedRead url (ErrGoogle g) s2"
    using refused_read [OF assms(1) read assms(9,3)] by (auto simp: google_class [OF assms(4)])
  obtain r u0 where l: "List (logged E) b ls u = (r, u0)" by fastforce
  have out: "emptyIfUnlistable ls r u0 = (out, u')" using generic_list [of "logged E" R p ls b u] assms(2,10,11,12) l by simp
  have "sent u' = sent u0" using out
    by (auto simp: emptyIfUnlistable_def log_add_def sent_def split: outcome.splits if_splits)
  then have r: "r = Err ?e" using refused_list [OF assms(1) l] assms(13) by simp
  have read_half: "(rr_ErrorCode rr = NotFound \<longleftrightarrow> ge_Code g = 404) \<and> rr_Properties rr = None
    \<and> (ge_Code g \<in> {401, 403} \<longrightarrow> rr_ErrorCode rr = AccessDenied
         \<and> (\<exists>url. last (m_log s') = (''WARN'', ''read refused: not authorized'', [(''url'', url), (''error'', ge_Text g)])))"
    using google_missing google_denied [of g]
    by (auto simp: rr logUnauthorizedRead_def log_add_def google_class [OF assms(4)])
  have words: "err_text ?e = ''failed to list resources: '' @ ge_Text g" by (simp add: errorf_w_def)
  show ?thesis
    using read_half l r out
    by (auto simp: emptyIfUnlistable_def unlistable_line_def log_add_def listed_class [OF assms(5)] google_missing google_denied words assms(10)
        split: if_splits)
qed

text \<open>
  A registered type never falls through. With well-formed registries a handler always reaches the
  registered provisioner, made with the request's own target configuration and this plugin
  instance's OIDC source; an unregistered type is answered by the generic client, without any
  effect.
\<close>
lemma dispatch_reaches_provisioner:
  assumes "registries_ok R"
  shows "if HasProvisioner R t operation
         then \<exists>pv. Get E R t operation (Some (FromTargetConfig target (pl_oidc p))) = Ok (Some pv)
                 \<and> dispatch E R p target t operation call generic s = call pv s
         else dispatch E R p target t operation call generic s = (Ok generic, s)"
  using Get_not_panic [OF assms, of t operation E "Some (FromTargetConfig target (pl_oidc p))"]
  by (auto simp: dispatch_def targetConfig_def)

section \<open>Witness\<close>

definition demo_refusal :: google_error where
  "demo_refusal = \<lparr>ge_Code = 403, ge_Message = ''refused'', ge_Body = [], ge_BodyDoc = RawNil, ge_Details = [], ge_Errors = [], ge_Text = ''refused''\<rparr>"

definition deny_env :: "script env" where
  "deny_env = script_env\<lparr>env_http_do := (\<lambda>w req. (scripted 403 JNull, w))\<rparr>"

lemma deny_env_refuses: "refuses deny_env demo_refusal"
  by (simp add: refuses_def deny_env_def script_env_def scripted_def demo_refusal_def)

definition demo_plugin_target :: raw where
  "demo_plugin_target = RawDoc (JObj [(''Project'', JStr ''prj''), (''Location'', JStr ''eu'')])"

definition demo_definition :: "'w ResourceDefinition" where
  "demo_definition = \<lparr>rd_Type = ''T'', rd_APIConfig = b_APIConfig (demo :: 'w BaseResource), rd_OperationConfig = b_OperationConfig (demo :: 'w BaseResource),
     rd_ResourceConfig = demo_config, rd_NativeIDConfig = b_NativeIDConfig (demo :: 'w BaseResource), rd_RequestTransformer = None,
     rd_ResponseTransformer = None, rd_Operations = Some StandardOperations\<rparr>"

definition demo_registered :: "'w registries" where
  "demo_registered = \<lparr>gr_table = [''T'' \<mapsto> (\<lambda>operation. Some (UnifiedFactory 0 ''T''))],
     gr_store = [0 \<mapsto> \<lparr>rg_apiConfig = rd_APIConfig (demo_definition :: 'w ResourceDefinition),
       rg_operationConfig = rd_OperationConfig (demo_definition :: 'w ResourceDefinition),
       rg_nativeIDConfig = rd_NativeIDConfig (demo_definition :: 'w ResourceDefinition), rg_Definitions = [''T'' \<mapsto> demo_definition]\<rparr>]\<rparr>"

definition demo_plugin :: Plugin where "demo_plugin = \<lparr>pl_oidc = None\<rparr>"

definition demo_served :: "demo_world BaseResource" where
  "demo_served = base_resource (Some (targetConfig demo_plugin demo_plugin_target)) demo_definition"

lemma demo_generic: "generic_type (logged deny_env) demo_registered demo_plugin demo_plugin_target ''T'' demo_served"
  by (simp add: generic_type_def Get_def demo_registered_def CreateProvisioner_def demo_served_def)

lemma demo_plugin_config: "targetConfig demo_plugin demo_plugin_target = zero_config\<lparr>c_Project := ''prj'', c_Location := ''eu''\<rparr>"
  by code_simp

lemma demo_served_NewClient: "\<exists>client. NewClient (logged deny_env) (b_Config demo_served) s = (Inr client, s)"
  by (simp add: demo_served_def base_resource_def demo_plugin_config NewClient_def ToClientOptions_def effectiveAuth_def zero_config_def
      logged_def script_env_def deny_env_def Let_def)

lemma demo_served_sel:
  "b_APIConfig demo_served = b_APIConfig (demo :: demo_world BaseResource)" "b_ResourceConfig demo_served = demo_config"
  "b_NativeIDConfig demo_served = b_NativeIDConfig (demo :: demo_world BaseResource)"
  "b_Config demo_served = Some (zero_config\<lparr>c_Project := ''prj'', c_Location := ''eu''\<rparr>)"
  by (simp_all add: demo_served_def base_resource_def demo_definition_def demo_plugin_config)

lemma deny_send:
  assumes "Parse url \<noteq> None"
  shows "\<exists>req. SendRequest (logged deny_env) c (request_options ''GET'' url None) s
    = (Inl (ErrGoogle demo_refusal), s\<lparr>m_world := (fst (m_world s), snd (m_world s) @ [req])\<rparr>)"
proof -
  obtain a s' where q: "SendRequest (logged deny_env) c (request_options ''GET'' url None) s = (a, s')" by fastforce
  from parsed_sends [OF q assms methods_ok(1)] have sent: "sent s' \<noteq> sent s" by auto
  from q show ?thesis
  proof (rule SendRequest_cases)
    fix req hr w assume "env_http_do (logged deny_env) (m_world s) req = (Inr hr, w)" "s' = s\<lparr>m_world := w\<rparr>"
    then show ?thesis using q refused_send [OF deny_env_refuses q sent] by (auto simp: logged_def deny_env_def)
  qed (use sent in \<open>auto simp: logged_def deny_env_def scripted_def\<close>)
qed

definition demo_plugin_read :: ReadRequest where
  "demo_plugin_read = \<lparr>rd_NativeID = demo_id, rd_ResourceType = ''T'', rd_TargetConfig = demo_plugin_target\<rparr>"

definition demo_plugin_list :: ListRequest where
  "demo_plugin_list = \<lparr>ls_ResourceType = ''T'', ls_TargetConfig = demo_plugin_target, ls_PageSize = 0, ls_PageToken = None,
     ls_AdditionalProperties = []\<rparr>"

lemma demo_target_read_path:
  "PathFromTargetConfig demo_plugin_target = \<lparr>tp_Project = ''prj'', tp_Region = [], tp_Zone = [], tp_Location = ''eu''\<rparr>"
  by code_simp

lemma demo_served_context: "resource_context demo_served demo_plugin_target demo_ctx = demo_ctx"
  by (simp add: resource_context_def fillPathContextFromTarget_def demo_served_sel demo_config_def demo_ctx_def empty_ctx_def
      demo_target_read_path fill_def Let_def)

lemma demo_served_urls:
  "resource_url demo_served demo_ctx = Ok demo_url"
  "list_base_url demo_served (list_context demo_served demo_plugin_list) = Ok ''https://h/v1/projects/prj/locations/eu/things''"
  "Parse ''https://h/v1/projects/prj/locations/eu/things'' \<noteq> None"
proof -
  have cfg: "FromTargetConfig demo_plugin_target None = zero_config\<lparr>c_Project := ''prj'', c_Location := ''eu''\<rparr>"
    using demo_plugin_config by (simp add: targetConfig_def demo_plugin_def)
  show "resource_url demo_served demo_ctx = Ok demo_url"
    using demo_resource_url by (simp add: resource_url_def demo_served_sel)
  show "list_base_url demo_served (list_context demo_served demo_plugin_list) = Ok ''https://h/v1/projects/prj/locations/eu/things''"
    by (simp add: list_base_url_def list_context_def list_scope_def demo_served_sel demo_config_def demo_plugin_list_def cfg Deps_def
        CollectionURL_def build_url_def NewURLBuilder_def demo_def LocationPathBuilder_def location_path_def zero_config_def empty_ctx_def Let_def)
  show "Parse ''https://h/v1/projects/prj/locations/eu/things'' \<noteq> None"
    by (simp add: Parse_def before_def control_char_def Let_def)
qed

lemma demo_served_list_location: "pc_Location (list_context demo_served demo_plugin_list) = ''eu''"
proof -
  have cfg: "FromTargetConfig demo_plugin_target None = zero_config\<lparr>c_Project := ''prj'', c_Location := ''eu''\<rparr>"
    using demo_plugin_config by (simp add: targetConfig_def demo_plugin_def)
  show ?thesis
    by (simp add: list_context_def list_scope_def demo_served_sel demo_config_def demo_plugin_list_def cfg Deps_def zero_config_def
        empty_ctx_def Let_def)
qed

lemma demo_served_lists:
  "\<exists>req. List (logged deny_env) demo_served demo_plugin_list s
     = (Err (errorf_w ''failed to list resources: '' (ErrGoogle demo_refusal)), s\<lparr>m_world := (fst (m_world s), snd (m_world s) @ [req])\<rparr>)"
proof -
  let ?url = "''https://h/v1/projects/prj/locations/eu/things''"
  obtain client where c: "NewClient (logged deny_env) (b_Config demo_served) s = (Inr client, s)" using demo_served_NewClient by blast
  have "list_parent (rc_ParentResource (b_ResourceConfig demo_served)) (ls_AdditionalProperties demo_plugin_list) ctx = ctx" for ctx
    by (simp add: list_parent_def demo_served_sel demo_config_def demo_plugin_list_def string_or_empty_def)
  moreover have "page_url (b_APIConfig demo_served) demo_plugin_list ?url = ?url"
    by (simp add: page_url_def demo_plugin_list_def string_or_empty_def)
  moreover obtain req where "SendRequest (logged deny_env) client (request_options ''GET'' ?url None) s
      = (Inl (ErrGoogle demo_refusal), s\<lparr>m_world := (fst (m_world s), snd (m_world s) @ [req])\<rparr>)"
    using deny_send [OF demo_served_urls(3)] by blast
  ultimately show ?thesis using c demo_served_urls(2) demo_served_list_location
    by (intro exI [of _ req]) (simp add: List_def Let_def)
qed

lemma demo_served_reads:
  "\<exists>rr s'. Read (logged deny_env) demo_served demo_plugin_read s = (Ok rr, s') \<and> sent s' \<noteq> sent s"
proof -
  obtain client where c: "NewClient (logged deny_env) (b_Config demo_served) s = (Inr client, s)" using demo_served_NewClient by blast
  moreover obtain req where "SendRequest (logged deny_env) client (request_options ''GET'' demo_url None) s
      = (Inl (ErrGoogle demo_refusal), s\<lparr>m_world := (fst (m_world s), snd (m_world s) @ [req])\<rparr>)"
    using deny_send [OF demo_url_parses] by blast
  moreover have "ParseNativeID (b_NativeIDConfig demo_served) demo_id = Inr demo_ctx" using demo_parse by (simp add: demo_served_sel)
  ultimately show ?thesis
    using demo_served_context demo_served_urls(1)
    by (simp add: Read_def demo_plugin_read_def error_is_missing_def demo_served_sel demo_config_def logUnauthorizedRead_def log_add_def
        sent_def split: prod.splits)
qed

lemma containsAny_chars: "containsAny s subs \<Longrightarrow> \<exists>sub \<in> set subs. set (lower_bytes sub) \<subseteq> set (lower_bytes s)"
proof -
  assume "containsAny s subs"
  then obtain sub i where "sub \<in> set subs" "take (length (lower_bytes sub)) (drop i (lower_bytes s)) = lower_bytes sub"
    unfolding containsAny_def list_ex_iff Let_def by blast
  then show ?thesis using set_take_subset set_drop_subset by (metis subset_trans)
qed

lemma demo_refusal_text:
  "\<not> isAuthError (Some (ErrGoogle demo_refusal))"
  "\<not> isAuthError (Some (errorf_w ''failed to list resources: '' (ErrGoogle demo_refusal)))"
proof -
  show "\<not> isAuthError (Some (ErrGoogle demo_refusal))" by code_simp
  have "err_text (errorf_w ''failed to list resources: '' (ErrGoogle demo_refusal)) = ''failed to list resources: refused''"
    by (simp add: errorf_w_def demo_refusal_def)
  moreover have "\<not> Contains ''failed to list resources: refused'' ''invalid_rapt''"
    "\<not> Contains ''failed to list resources: refused'' ''reauth related error''" by code_simp+
  moreover have "\<not> containsAny ''failed to list resources: refused''
      [''oauth2: cannot fetch token'', ''could not find default credentials'', ''google: could not fetch'', ''failed to obtain token'',
       ''invalid_grant'']"
  proof
    have low: "lower_bytes ''failed to list resources: refused'' = ''failed to list resources: refused''" by code_simp
    have subs: "lower_bytes ''oauth2: cannot fetch token'' = ''oauth2: cannot fetch token''"
      "lower_bytes ''could not find default credentials'' = ''could not find default credentials''"
      "lower_bytes ''google: could not fetch'' = ''google: could not fetch''"
      "lower_bytes ''failed to obtain token'' = ''failed to obtain token''" "lower_bytes ''invalid_grant'' = ''invalid_grant''"
      by code_simp+
    assume "containsAny ''failed to list resources: refused''
      [''oauth2: cannot fetch token'', ''could not find default credentials'', ''google: could not fetch'', ''failed to obtain token'',
       ''invalid_grant'']"
    from containsAny_chars [OF this] show False by (simp add: low subs)
  qed
  ultimately show "\<not> isAuthError (Some (errorf_w ''failed to list resources: '' (ErrGoogle demo_refusal)))"
    by (simp add: isAuthError_def isReauthError_def)
qed

theorem refusal_is_not_absence_witness:
  "\<exists>rr s' u'. Plugin_Read (logged deny_env) demo_registered demo_plugin demo_plugin_read (script_start []) = (Ok rr, s')
     \<and> rr_ErrorCode rr = AccessDenied
     \<and> Plugin_List (logged deny_env) demo_registered demo_plugin demo_plugin_list (script_start []) = (Ok empty_list, u')
     \<and> m_log u' = [(''WARN'', ''cannot list resources: not authorized, reporting none found'',
          [(''resourceType'', ''T''), (''error'', ''failed to list resources: refused'')])]"
proof -
  let ?s = "script_start []"
  have hook: "rc_ReadErrorTreatAsMissing (b_ResourceConfig demo_served) = None" by (simp add: demo_served_sel demo_config_def)
  have target: "rd_ResourceType demo_plugin_read = ''T''" "rd_TargetConfig demo_plugin_read = demo_plugin_target"
    "ls_ResourceType demo_plugin_list = ''T''" "ls_TargetConfig demo_plugin_list = demo_plugin_target"
    by (simp_all add: demo_plugin_read_def demo_plugin_list_def)
  obtain rr s' where read: "Plugin_Read (logged deny_env) demo_registered demo_plugin demo_plugin_read ?s = (Ok rr, s')" "sent s' \<noteq> sent ?s"
    using generic_read [of "logged deny_env" demo_registered demo_plugin demo_plugin_read demo_served] demo_generic demo_served_reads [of ?s]
    by (auto simp: target)
  obtain req where l: "List (logged deny_env) demo_served demo_plugin_list ?s = (Err (errorf_w ''failed to list resources: ''
      (ErrGoogle demo_refusal)), ?s\<lparr>m_world := (fst (m_world ?s), snd (m_world ?s) @ [req])\<rparr>)" using demo_served_lists by blast
  obtain out u' where list: "Plugin_List (logged deny_env) demo_registered demo_plugin demo_plugin_list ?s = (out, u')" by fastforce
  moreover have "sent u' \<noteq> sent ?s"
    using list generic_list [of "logged deny_env" demo_registered demo_plugin demo_plugin_list demo_served ?s] demo_generic l
    by (auto simp: target emptyIfUnlistable_def log_add_def sent_def split: if_splits)
  moreover have "ge_Code demo_refusal = 403" "\<not> names_disabled demo_refusal" "ge_Text demo_refusal = ''refused''"
    by (simp_all add: demo_refusal_def names_disabled_def)
  ultimately show ?thesis
    using refusal_is_not_absence [OF deny_env_refuses demo_generic hook demo_refusal_text target(1,2) read target(3,4) list] l read(1)
    by (auto simp: script_start_def)
qed

end
