(* ===== verification/Gcp_Utils.thy ===== *)
theory Gcp_Utils
  imports Transport_Errors Codec
begin

text \<open>
  \<^verbatim>\<open>src/pkg/utils/gcp_utils.go\<close>: operation IDs and self links.
\<close>

datatype OperationScope = OperationScopeGlobal | OperationScopeRegion | OperationScopeZone | OperationScopeOther string

record ParsedOperationID =
  po_Project :: string
  po_Scope :: OperationScope
  po_Region :: string
  po_OperationName :: string

definition ParseOperationID :: "string \<Rightarrow> goerr + ParsedOperationID" where
  "ParseOperationID operationID =
     (let parts = Split operationID CHR ''/''
      in if length parts = 5 \<and> parts ! 0 = ''projects'' \<and> parts ! 2 = ''global'' \<and> parts ! 3 = ''operations''
         then Inr \<lparr>po_Project = parts ! 1, po_Scope = OperationScopeGlobal, po_Region = [],
                   po_OperationName = parts ! 4\<rparr>
         else if length parts = 6 \<and> parts ! 0 = ''projects'' \<and> parts ! 2 = ''regions'' \<and> parts ! 4 = ''operations''
         then Inr \<lparr>po_Project = parts ! 1, po_Scope = OperationScopeRegion, po_Region = parts ! 3,
                   po_OperationName = parts ! 5\<rparr>
         else Inl (ErrText (''invalid operation ID format: '' @ operationID
                @ '' (expected: projects/{project}/{global|regions/{region}|zones/{zone}}/operations/{operation})'')))"

definition IsGlobal :: "ParsedOperationID \<Rightarrow> bool" where
  "IsGlobal p \<longleftrightarrow> po_Scope p = OperationScopeGlobal"

definition IsRegional :: "ParsedOperationID \<Rightarrow> bool" where
  "IsRegional p \<longleftrightarrow> po_Scope p = OperationScopeRegion"

definition IsZonal :: "ParsedOperationID \<Rightarrow> bool" where
  "IsZonal p \<longleftrightarrow> po_Scope p = OperationScopeZone"

definition operation_id_string :: "ParsedOperationID \<Rightarrow> string" where
  "operation_id_string p =
     (case po_Scope p of
        OperationScopeGlobal \<Rightarrow>
          ''projects/'' @ po_Project p @ ''/global/operations/'' @ po_OperationName p
      | OperationScopeRegion \<Rightarrow>
          ''projects/'' @ po_Project p @ ''/regions/'' @ po_Region p @ ''/operations/'' @ po_OperationName p
      | OperationScopeZone \<Rightarrow>
          ''projects/'' @ po_Project p @ ''/zones/'' @ po_Region p @ ''/operations/'' @ po_OperationName p
      | OperationScopeOther s \<Rightarrow> [])"

definition SelfLinkToNativeID :: "string \<Rightarrow> string" where
  "SelfLinkToNativeID selfLink =
     (if selfLink = [] then []
      else case Index selfLink ''projects/'' of None \<Rightarrow> selfLink | Some idx \<Rightarrow> drop idx selfLink)"

definition compute_link :: string where "compute_link = ''https://www.googleapis.com/compute/v1/''"
definition container_link :: string where "container_link = ''https://container.googleapis.com/v1/''"
definition storage_link :: string where "storage_link = ''https://www.googleapis.com/storage/v1/''"

definition link_base :: "string \<Rightarrow> string \<Rightarrow> string" where
  "link_base nativeID service =
     (if service = ''compute'' then compute_link
      else if service = ''container'' then container_link
      else if service = ''storage'' then storage_link
      else if Contains nativeID ''/locations/'' \<and> Contains nativeID ''/clusters/'' then container_link
      else compute_link)"

definition NativeIDToSelfLink :: "string \<Rightarrow> string \<Rightarrow> string" where
  "NativeIDToSelfLink nativeID service =
     (if nativeID = [] then []
      else if HasPrefix nativeID ''https://'' then nativeID
      else link_base nativeID service @ nativeID)"

section \<open>Operation IDs as a codec\<close>

definition operation_id_valid :: "ParsedOperationID \<Rightarrow> bool" where
  "operation_id_valid p \<longleftrightarrow>
     seg (po_Project p) \<and> seg (po_Region p) \<and> seg (po_OperationName p) \<and>
     (po_Scope p = OperationScopeRegion \<or> po_Scope p = OperationScopeGlobal \<and> po_Region p = [])"

lemma length_5: "length xs = 5 \<longleftrightarrow> (\<exists>a b c d e. xs = [a, b, c, d, e])"
  by (auto simp: length_Suc_conv numeral_eq_Suc)

lemma length_6: "length xs = 6 \<longleftrightarrow> (\<exists>a b c d e f. xs = [a, b, c, d, e, f])"
  by (auto simp: length_Suc_conv numeral_eq_Suc)

lemma ParseOperationID_cases:
  assumes "ParseOperationID s = Inr p"
  shows "(\<exists>project name. Split s CHR ''/'' = [''projects'', project, ''global'', ''operations'', name]
            \<and> p = \<lparr>po_Project = project, po_Scope = OperationScopeGlobal, po_Region = [], po_OperationName = name\<rparr>)
       \<or> (\<exists>project region name. Split s CHR ''/'' = [''projects'', project, ''regions'', region, ''operations'', name]
            \<and> p = \<lparr>po_Project = project, po_Scope = OperationScopeRegion, po_Region = region, po_OperationName = name\<rparr>)"
  using assms by (auto simp: ParseOperationID_def length_5 length_6 Let_def split: if_splits)

interpretation op_codec: id_codec operation_id_string ParseOperationID operation_id_valid
proof
  fix p assume "operation_id_valid p"
  then show "ParseOperationID (operation_id_string p) = Inr p"
    by (auto simp: operation_id_valid_def operation_id_string_def ParseOperationID_def segment Let_def)
next
  fix s p assume p: "ParseOperationID s = Inr p"
  have s: "Join (Split s CHR ''/'') ''/'' = s" by (rule Join_Split)
  have segs: "\<forall>x \<in> set (Split s CHR ''/''). seg x" using Split_member_seg by blast
  from ParseOperationID_cases [OF p] s segs show "operation_id_valid p \<and> operation_id_string p = s"
    by (elim disjE exE conjE) (simp_all add: operation_id_valid_def operation_id_string_def)
qed

text \<open>
  An operation ID that parses is exactly one that prints: parsing succeeds with a result if and
  only if the result is a global or regional ID whose parts have no slash and that prints to the
  text parsed. A zonal ID prints, but its text is refused.
\<close>
lemma ParseOperationID_exact:
  "(ParseOperationID s = Inr p \<longleftrightarrow> operation_id_valid p \<and> operation_id_string p = s)
   \<and> (\<nexists>q. ParseOperationID (''projects/a/zones/b/operations/c'') = Inr q)"
proof -
  have "Split ''projects/a/zones/b/operations/c'' CHR ''/'' = [''projects'', ''a'', ''zones'', ''b'', ''operations'', ''c'']"
    by simp
  then have "\<nexists>q. ParseOperationID (''projects/a/zones/b/operations/c'') = Inr q"
    by (simp add: ParseOperationID_def)
  then show ?thesis using op_codec.parse_iff by blast
qed

lemma link_prefixes:
  "Index (compute_link @ ''projects/'' @ t) ''projects/'' = Some (length compute_link)"
  "Index (container_link @ ''projects/'' @ t) ''projects/'' = Some (length container_link)"
  "Index (storage_link @ ''projects/'' @ t) ''projects/'' = Some (length storage_link)"
  by (simp_all add: compute_link_def container_link_def storage_link_def)

text \<open>
  A native ID survives the way to a self link and back, whichever service it belongs to.
\<close>
lemma self_link_roundtrip:
  "SelfLinkToNativeID (NativeIDToSelfLink (''projects/'' @ t) service) = ''projects/'' @ t"
proof -
  have "link_base n service \<in> {compute_link, container_link, storage_link}" for n
    by (simp add: link_base_def)
  moreover have "SelfLinkToNativeID (b @ ''projects/'' @ t) = ''projects/'' @ t"
    if "b \<in> {compute_link, container_link, storage_link}" for b
    using that link_prefixes [of t] by (auto simp: SelfLinkToNativeID_def)
  ultimately show ?thesis by (simp add: NativeIDToSelfLink_def)
qed

end
