(* ===== verification/Native_Id.thy ===== *)
theory Native_Id
  imports Base_Config
begin

text \<open>
  Native IDs built from path templates: what a template expands to, that Go's unspecified order over
  the replacements does not matter, and that the ID parses back to the context it came from.
\<close>

section \<open>Templates\<close>

text \<open>A template is literal text and placeholders; neither holds a brace of its own.\<close>

datatype piece = Lit string | Hole string

fun render :: "piece \<Rightarrow> string" where
  "render (Lit a) = a"
| "render (Hole w) = CHR ''{'' # w @ ''}''"

fun piece_text :: "piece \<Rightarrow> string" where
  "piece_text (Lit a) = a"
| "piece_text (Hole w) = w"

definition brace_free :: "string \<Rightarrow> bool" where
  "brace_free s \<longleftrightarrow> CHR ''{'' \<notin> set s \<and> CHR ''}'' \<notin> set s"

definition pieces_ok :: "piece list \<Rightarrow> bool" where
  "pieces_ok ps \<longleftrightarrow> (\<forall>p \<in> set ps. brace_free (piece_text p))"

definition template :: "piece list \<Rightarrow> string" where
  "template ps = concat (map render ps)"

lemma ReplaceAll_literal:
  "CHR ''{'' \<notin> set a \<Longrightarrow> ReplaceAll (a @ s) (CHR ''{'' # w) v = a @ ReplaceAll s (CHR ''{'' # w) v"
  by (induction a) auto

text \<open>A placeholder is replaced as a whole or passed over as a whole.\<close>

lemma closed_prefix:
  assumes "brace_free a" and "brace_free w"
  shows "HasPrefix (a @ CHR ''}'' # s) (w @ ''}'') \<longleftrightarrow> a = w"
  using assms
proof (induction a arbitrary: w)
  case Nil
  then show ?case by (cases w) (auto simp: brace_free_def)
next
  case (Cons x a)
  then show ?case by (cases w) (auto simp: brace_free_def)
qed

lemma ReplaceAll_hole:
  assumes "brace_free a" and "brace_free w"
  shows "ReplaceAll (render (Hole a) @ s) (render (Hole w)) v
    = (if a = w then v else render (Hole a)) @ ReplaceAll s (render (Hole w)) v"
proof (cases "a = w")
  case True
  have "HasPrefix (CHR ''{'' # (w @ ''}'' @ s)) (CHR ''{'' # (w @ ''}''))" by (simp add: HasPrefix_iff)
  then show ?thesis using True by simp
next
  case False
  then have "\<not> HasPrefix (a @ CHR ''}'' # s) (w @ ''}'')" using closed_prefix [OF assms] by simp
  moreover have "CHR ''{'' \<notin> set (a @ ''}'')" using assms by (simp add: brace_free_def)
  ultimately show ?thesis using False ReplaceAll_literal [of "a @ ''}''" s "w @ ''}''" v] by simp
qed

definition fill_one :: "string \<Rightarrow> string \<Rightarrow> piece \<Rightarrow> piece" where
  "fill_one w v p = (if p = Hole w then Lit v else p)"

lemma ReplaceAll_template:
  assumes "pieces_ok ps" and "brace_free w"
  shows "ReplaceAll (template ps) (render (Hole w)) v = template (map (fill_one w v) ps)"
  using assms(1)
proof (induction ps)
  case (Cons p ps)
  then show ?case
  proof (cases p)
    case (Lit a)
    with Cons show ?thesis
      using ReplaceAll_literal [of a "template ps" "w @ ''}''" v]
      by (simp add: template_def fill_one_def brace_free_def pieces_ok_def)
  next
    case (Hole a)
    with Cons assms(2) show ?thesis
      using ReplaceAll_hole [of a w "template ps" v] by (simp add: template_def fill_one_def pieces_ok_def)
  qed
qed (simp add: template_def)

text \<open>All replacements at once.\<close>

definition fill_all :: "(string \<times> string) list \<Rightarrow> piece \<Rightarrow> piece" where
  "fill_all rs p = (case p of Lit a \<Rightarrow> Lit a | Hole w \<Rightarrow> (case map_of rs w of Some v \<Rightarrow> Lit v | None \<Rightarrow> Hole w))"

definition holes :: "(string \<times> string) list \<Rightarrow> (string \<times> string) list" where
  "holes rs = map (\<lambda>(w, v). (render (Hole w), v)) rs"

lemma fill_all_Cons: "fill_all ((w, v) # rs) p = fill_all rs (fill_one w v p)"
  by (cases p) (auto simp: fill_all_def fill_one_def)

lemma expand_steps_template:
  assumes "pieces_ok ps" and "\<forall>(w, v) \<in> set rs. brace_free w \<and> brace_free v"
  shows "expand_steps (holes rs) (template ps) = template (map (fill_all rs) ps)"
  using assms
proof (induction rs arbitrary: ps)
  case Nil
  have "fill_all [] = id" by (auto simp: fill_all_def split: piece.splits)
  then show ?case by (simp add: expand_steps_def holes_def)
next
  case (Cons r rs)
  obtain w v where r: "r = (w, v)" by force
  have "expand_steps (holes (r # rs)) (template ps)
      = expand_steps (holes rs) (template (map (fill_one w v) ps))"
    using Cons.prems r ReplaceAll_template [of ps w v] by (simp add: expand_steps_def holes_def)
  also have "\<dots> = template (map (fill_all rs) (map (fill_one w v) ps))"
    using Cons.prems r by (intro Cons.IH) (auto simp: pieces_ok_def fill_one_def)
  finally show ?case by (simp add: r fill_all_Cons comp_def)
qed

lemma expand_steps_any_order:
  assumes "pieces_ok ps" and "\<forall>(w, v) \<in> set rs. brace_free w \<and> brace_free v"
    and "distinct (map fst rs)" and "set rs' = set rs" and "distinct (map fst rs')"
  shows "expand_steps (holes rs') (template ps) = expand_steps (holes rs) (template ps)"
proof -
  have "map_of rs' = map_of rs" using assms(3-5) map_of_inject_set by blast
  then have "fill_all rs' = fill_all rs" by (intro ext) (simp add: fill_all_def split: piece.splits)
  moreover have "\<forall>(w, v) \<in> set rs'. brace_free w \<and> brace_free v" using assms(2,4) by simp
  ultimately show ?thesis using expand_steps_template assms(1,2) by simp
qed

definition values_of_context :: "PathContext \<Rightarrow> string \<Rightarrow> (string \<times> string) list" where
  "values_of_context ctx name =
     [(''project'', pc_Project ctx), (''region'', pc_Region ctx), (''zone'', pc_Zone ctx),
      (''location'', pc_Location ctx), (''resourceType'', pc_ResourceType ctx), (''name'', name),
      (''parent'', pc_ParentResource ctx), (''parentType'', pc_ParentType ctx)]"

lemma replacements_holes: "replacements ctx name = holes (values_of_context ctx name)"
  by (simp add: replacements_def holes_def values_of_context_def)

definition context_brace_free :: "PathContext \<Rightarrow> string \<Rightarrow> bool" where
  "context_brace_free ctx name \<longleftrightarrow>
     list_all brace_free [pc_Project ctx, pc_Region ctx, pc_Zone ctx, pc_Location ctx, pc_ResourceType ctx, name,
       pc_ParentResource ctx, pc_ParentType ctx]"

lemma values_brace_free:
  "context_brace_free ctx name \<Longrightarrow> \<forall>(w, v) \<in> set (values_of_context ctx name). brace_free w \<and> brace_free v"
  by (simp add: context_brace_free_def values_of_context_def) (simp add: brace_free_def)

text \<open>
  C37: Expanding a template is one simultaneous substitution. For values without braces, every
  placeholder the code knows is replaced by its value and everything else is kept; and the result is
  the same in whatever order Go ranges over the replacements.
\<close>
theorem expandTemplate_any_order:
  assumes "pieces_ok ps" and "context_brace_free ctx name"
    and "set order = set (values_of_context ctx name)" and "distinct (map fst order)"
  shows "expandTemplate (template ps) ctx name = template (map (fill_all (values_of_context ctx name)) ps)
    \<and> expand_steps (holes order) (template ps) = expandTemplate (template ps) ctx name"
proof -
  have "distinct (map fst (values_of_context ctx name))" by (simp add: values_of_context_def)
  from expand_steps_any_order [OF assms(1) values_brace_free [OF assms(2)] this assms(3,4)]
  show ?thesis
    using expand_steps_template [OF assms(1) values_brace_free [OF assms(2)]]
    by (simp add: expandTemplate_def replacements_holes)
qed

theorem expandTemplate_any_order_witness:
  "expand_steps (holes (rev (values_of_context (empty_ctx\<lparr>pc_Project := ''p''\<rparr>) ''n'')))
     (template [Lit ''projects/'', Hole ''project'', Lit ''/triggers/'', Hole ''name'']) = ''projects/p/triggers/n''"
proof -
  let ?ctx = "empty_ctx\<lparr>pc_Project := ''p''\<rparr>"
  have "pieces_ok [Lit ''projects/'', Hole ''project'', Lit ''/triggers/'', Hole ''name'']"
    by (simp add: pieces_ok_def brace_free_def)
  moreover have "context_brace_free ?ctx ''n''"
    by (simp add: context_brace_free_def brace_free_def empty_ctx_def)
  moreover have "distinct (map fst (rev (values_of_context ?ctx ''n'')))" by (simp add: values_of_context_def)
  moreover have "set (rev (values_of_context ?ctx ''n'')) = set (values_of_context ?ctx ''n'')" by (rule set_rev)
  moreover have "template (map (fill_all (values_of_context ?ctx ''n''))
      [Lit ''projects/'', Hole ''project'', Lit ''/triggers/'', Hole ''name'']) = ''projects/p/triggers/n''"
    by (simp add: fill_all_def template_def values_of_context_def)
  ultimately show ?thesis
    using expandTemplate_any_order [of "[Lit ''projects/'', Hole ''project'', Lit ''/triggers/'', Hole ''name'']"
        ?ctx "''n''" "rev (values_of_context ?ctx ''n'')"] by metis
qed

section \<open>Round trips\<close>

definition location_template :: string where
  "location_template = ''projects/{project}/locations/{location}/{resourceType}/{name}''"

lemma location_template_pieces:
  "location_template = template [Lit ''projects/'', Hole ''project'', Lit ''/locations/'', Hole ''location'', Lit ''/'',
     Hole ''resourceType'', Lit ''/'', Hole ''name'']"
  by (simp add: location_template_def template_def)

lemma expand_location_template:
  assumes "context_brace_free ctx name"
  shows "expandTemplate location_template ctx name
    = ''projects/'' @ pc_Project ctx @ ''/locations/'' @ pc_Location ctx @ ''/'' @ pc_ResourceType ctx @ ''/'' @ name"
  using assms unfolding location_template_pieces expandTemplate_def replacements_holes
  by (subst expand_steps_template)
    (simp_all add: values_brace_free, simp_all add: pieces_ok_def brace_free_def fill_all_def template_def values_of_context_def)

text \<open>The segment keys that the path parser takes for something other than a resource type.\<close>

definition path_keywords :: "string list" where
  "path_keywords = [''projects'', ''regions'', ''zones'', ''locations'', ''global'']"

lemma location_id_roundtrip:
  assumes "context_brace_free ctx name" and "ni_Format c = FullPathFormat" and "ni_Parser c = None"
    and "ni_PathTemplate c = location_template"
    and "list_all seg [pc_Project ctx, pc_Location ctx, pc_ResourceType ctx, name]"
    and "pc_ResourceType ctx \<notin> set path_keywords"
  shows "ParseNativeID c (BuildNativeID c name ctx)
    = Inr (empty_ctx\<lparr>pc_Project := pc_Project ctx, pc_Location := pc_Location ctx,
        pc_ResourceType := pc_ResourceType ctx, pc_ResourceName := name\<rparr>)"
  using assms
  by (simp add: ParseNativeID_def BuildNativeID_def expand_location_template parsePathNativeID_def segment path_keywords_def)

end
