(* ===== verification/Iam_Member.thy ===== *)
theory Iam_Member
  imports Base_Resource
begin

text \<open>
  One (role, member) pair of a project's IAM policy
  (\<^verbatim>\<open>src/pkg/resources/iam/project_iam_member.go\<close>): every change is a read-modify-write of the
  whole policy under its etag, repeated on conflicts.

  The Cloud Resource Manager client is a third-party package: its constructor and its two calls
  are the fields of \<open>iam_service\<close>, over the same world as the rest.
\<close>

record Binding =
  bi_Role :: string
  bi_Members :: "string list"
  bi_Condition :: "json option"

record Policy =
  pol_Bindings :: "Binding list"
  pol_Etag :: string
  pol_Version :: int
  pol_AuditConfigs :: "json list"

record 'w iam_service =
  is_new :: "client_option list \<Rightarrow> goerr option"
  is_GetIamPolicy :: "'w \<Rightarrow> string \<Rightarrow> (goerr + Policy) \<times> 'w"
  is_SetIamPolicy :: "'w \<Rightarrow> string \<Rightarrow> Policy \<Rightarrow> (goerr + Policy) \<times> 'w"

definition maxSetPolicyAttempts :: nat where "maxSetPolicyAttempts = 3"
definition maxMemberPropagationAttempts :: nat where "maxMemberPropagationAttempts = 5"

definition isMemberNotYetPropagated :: "goerr \<Rightarrow> bool" where
  "isMemberNotYetPropagated e =
     (case as_google e of None \<Rightarrow> False
      | Some g \<Rightarrow> ge_Code g = 400 \<and> Contains (ge_Message g) ''does not exist'')"

definition newService ::
    "'w env \<Rightarrow> 'w iam_service \<Rightarrow> Config \<Rightarrow> 'w machine \<Rightarrow> goerr option \<times> 'w machine" where
  "newService E S cfg s =
     (case ToClientOptions E cfg s of
        (Inl e, s1) \<Rightarrow> (Some (errorf_w ''client options: '' e), s1)
      | (Inr opts, s1) \<Rightarrow> (is_new S opts, s1))"

definition cfgFrom :: "raw \<Rightarrow> Config option \<Rightarrow> Config" where
  "cfgFrom target fallback =
     (let c = FromTargetConfig target (Deps fallback)
      in case fallback of
           Some f \<Rightarrow> if c_Project c = [] then c\<lparr>c_Project := c_Project f\<rparr> else c
         | None \<Rightarrow> c)"

section \<open>Identifiers and properties\<close>

record memberProps =
  mp_Project :: string
  mp_Role :: string
  mp_Member :: string

definition buildMemberID :: "memberProps \<Rightarrow> string" where
  "buildMemberID p = mp_Project p @ ''|'' @ mp_Role p @ ''|'' @ mp_Member p"

definition parseMemberID :: "string \<Rightarrow> goerr + memberProps" where
  "parseMemberID ident =
     (case SplitN ident CHR ''|'' 3 of
        [project, role, member] \<Rightarrow>
          if project = [] \<or> role = [] \<or> member = []
          then Inl (ErrText (''invalid ProjectIamMember NativeID: '' @ quoted ident))
          else Inr \<lparr>mp_Project = project, mp_Role = role, mp_Member = member\<rparr>
      | _ \<Rightarrow> Inl (ErrText (''invalid ProjectIamMember NativeID: '' @ quoted ident)))"

definition decode_props_step ::
    "string option \<times> memberProps \<Rightarrow> string \<times> json \<Rightarrow> string option \<times> memberProps" where
  "decode_props_step acc kv =
     (case (acc, kv) of ((err, p), (k, v)) \<Rightarrow>
        (let first = (\<lambda>name. case err of Some e \<Rightarrow> Some e | None \<Rightarrow> field_error ''memberProps'' name v)
         in if field_match ''project'' k then (first ''project'', p\<lparr>mp_Project := set_string v (mp_Project p)\<rparr>)
            else if field_match ''role'' k then (first ''role'', p\<lparr>mp_Role := set_string v (mp_Role p)\<rparr>)
            else if field_match ''member'' k then (first ''member'', p\<lparr>mp_Member := set_string v (mp_Member p)\<rparr>)
            else (err, p)))"

definition decode_props :: "raw \<Rightarrow> string option \<times> memberProps" where
  "decode_props r =
     (let zero = \<lparr>mp_Project = [], mp_Role = [], mp_Member = []\<rparr>
      in case r of
           RawNil \<Rightarrow> (Some ''unexpected end of JSON input'', zero)
         | RawBad e \<Rightarrow> (Some e, zero)
         | RawDoc (JObj m) \<Rightarrow> foldl decode_props_step (None, zero) m
         | RawDoc JNull \<Rightarrow> (None, zero)
         | RawDoc v \<Rightarrow>
             (Some (''json: cannot unmarshal '' @ json_kind v @ '' into Go value of type iam.memberProps''), zero))"

definition propsFromRaw :: "raw \<Rightarrow> goerr + memberProps" where
  "propsFromRaw r =
     (case decode_props r of
        (Some e, p) \<Rightarrow> Inl (errorf_w ''decode properties: '' (ErrText e))
      | (None, p) \<Rightarrow>
          if mp_Project p = [] then Inl (ErrText ''project is required'')
          else if mp_Role p = [] then Inl (ErrText ''role is required'')
          else if mp_Member p = [] then Inl (ErrText ''member is required'')
          else Inr p)"

definition props_value :: "memberProps \<Rightarrow> json" where
  "props_value p =
     JObj [(''project'', JStr (mp_Project p)), (''role'', JStr (mp_Role p)), (''member'', JStr (mp_Member p))]"

section \<open>The policy\<close>

text \<open>Whether something changed, and the bindings after it.\<close>

fun add_binding :: "Binding list \<Rightarrow> string \<Rightarrow> string \<Rightarrow> bool \<times> Binding list" where
  "add_binding [] role member =
     (True, [\<lparr>bi_Role = role, bi_Members = [member], bi_Condition = None\<rparr>])"
| "add_binding (b # bs) role member =
     (if bi_Role b \<noteq> role then (case add_binding bs role member of (changed, bs') \<Rightarrow> (changed, b # bs'))
      else if member \<in> set (bi_Members b) then (False, b # bs)
      else (True, b\<lparr>bi_Members := bi_Members b @ [member]\<rparr> # bs))"

definition addMember :: "Policy \<Rightarrow> string \<Rightarrow> string \<Rightarrow> bool \<times> Policy" where
  "addMember policy role member =
     (case add_binding (pol_Bindings policy) role member of
        (changed, bs) \<Rightarrow> (changed, policy\<lparr>pol_Bindings := bs\<rparr>))"

fun remove_binding :: "Binding list \<Rightarrow> string \<Rightarrow> string \<Rightarrow> bool \<times> Binding list" where
  "remove_binding [] role member = (False, [])"
| "remove_binding (b # bs) role member =
     (if bi_Role b \<noteq> role then (case remove_binding bs role member of (changed, bs') \<Rightarrow> (changed, b # bs'))
      else if member \<notin> set (bi_Members b) then (False, b # bs)
      else (let ms = remove1 member (bi_Members b)
            in (True, if ms = [] then bs else b\<lparr>bi_Members := ms\<rparr> # bs)))"

definition removeMember :: "Policy \<Rightarrow> string \<Rightarrow> string \<Rightarrow> bool \<times> Policy" where
  "removeMember policy role member =
     (case remove_binding (pol_Bindings policy) role member of
        (changed, bs) \<Rightarrow> (changed, policy\<lparr>pol_Bindings := bs\<rparr>))"

fun has_binding :: "Binding list \<Rightarrow> string \<Rightarrow> string \<Rightarrow> bool" where
  "has_binding [] role member = False"
| "has_binding (b # bs) role member =
     (if bi_Role b \<noteq> role then has_binding bs role member else member \<in> set (bi_Members b))"

definition hasMember :: "Policy \<Rightarrow> string \<Rightarrow> string \<Rightarrow> bool" where
  "hasMember policy role member = has_binding (pol_Bindings policy) role member"

section \<open>The read-modify-write loop\<close>

text \<open>\<open>left\<close> is the number of attempts still allowed.\<close>

fun retry_loop ::
    "'w iam_service \<Rightarrow> string \<Rightarrow> (Policy \<Rightarrow> bool \<times> Policy) \<Rightarrow> nat \<Rightarrow> goerr option \<Rightarrow> 'w
      \<Rightarrow> (goerr + bool) \<times> 'w" where
  "retry_loop S project mutate 0 lastErr w =
     (Inl (errorf_w (''setIamPolicy: '' @ nat_string maxSetPolicyAttempts @ '' attempts hit etag conflict: '')
             (case lastErr of Some e \<Rightarrow> e | None \<Rightarrow> ErrText ''%!w(<nil>)'')), w)"
| "retry_loop S project mutate (Suc left) lastErr w =
     (case is_GetIamPolicy S w project of
        (Inl e, w1) \<Rightarrow> (Inl e, w1)
      | (Inr policy, w1) \<Rightarrow>
          (case mutate policy of
             (False, policy1) \<Rightarrow> (Inr False, w1)
           | (True, policy1) \<Rightarrow>
               (case is_SetIamPolicy S w1 project policy1 of
                  (Inr written, w2) \<Rightarrow> (Inr True, w2)
                | (Inl e, w2) \<Rightarrow>
                    (case as_google e of
                       Some g \<Rightarrow> if ge_Code g \<noteq> 409 then (Inl e, w2)
                                 else retry_loop S project mutate left (Some e) w2
                     | None \<Rightarrow> (Inl e, w2)))))"

definition withRetryOnConflict ::
    "'w iam_service \<Rightarrow> string \<Rightarrow> (Policy \<Rightarrow> bool \<times> Policy) \<Rightarrow> 'w machine \<Rightarrow> (goerr + bool) \<times> 'w machine" where
  "withRetryOnConflict S project mutate s =
     (case retry_loop S project mutate maxSetPolicyAttempts None (m_world s) of
        (r, w) \<Rightarrow> (r, s\<lparr>m_world := w\<rparr>))"

section \<open>Operations\<close>

definition mapGoogleErrorCode :: "goerr option \<Rightarrow> OperationErrorCode" where
  "mapGoogleErrorCode err =
     (case err of None \<Rightarrow> NotSet
      | Some e \<Rightarrow>
          (case as_google e of None \<Rightarrow> ServiceInternalError
           | Some g \<Rightarrow>
               (let c = ge_Code g in
                if c = 400 then InvalidRequest
                else if c = 401 \<or> c = 403 then AccessDenied
                else if c = 404 then NotFound
                else if c = 409 \<or> c = 412 then ResourceConflict
                else if c = 429 then Throttling
                else ServiceInternalError)))"

definition iam_failure :: "Operation \<Rightarrow> OperationErrorCode \<Rightarrow> string \<Rightarrow> ProgressResult" where
  "iam_failure operation code msg =
     (progress operation OperationStatusFailure)\<lparr>pr_ErrorCode := code, pr_Message := msg\<rparr>"

definition createSuccess :: "string \<Rightarrow> raw \<Rightarrow> ProgressResult" where
  "createSuccess nativeID props =
     (progress OperationCreate OperationStatusSuccess)\<lparr>pr_NativeID := nativeID, pr_Properties := Some props\<rparr>"

definition deleteSuccess :: "string \<Rightarrow> ProgressResult" where
  "deleteSuccess nativeID = (progress OperationDelete OperationStatusSuccess)\<lparr>pr_NativeID := nativeID\<rparr>"

text \<open>The loop of \<^verbatim>\<open>Create\<close>; after \<open>left\<close> more failures it gives up.\<close>

fun propagate_loop ::
    "'w env \<Rightarrow> 'w iam_service \<Rightarrow> memberProps \<Rightarrow> raw \<Rightarrow> nat \<Rightarrow> 'w machine
      \<Rightarrow> (goerr, ProgressResult) outcome \<times> 'w machine" where
  "propagate_loop E S p props left s =
     (case withRetryOnConflict S (mp_Project p) (\<lambda>pol. addMember pol (mp_Role p) (mp_Member p)) s of
        (Inr changed, s1) \<Rightarrow> (Ok (createSuccess (buildMemberID p) props), s1)
      | (Inl e, s1) \<Rightarrow>
          if left = 0 \<or> \<not> isMemberNotYetPropagated e
          then (Ok (iam_failure OperationCreate (mapGoogleErrorCode (Some e)) (err_text e)), s1)
          else
            (case env_select_after E (m_world s1)
                    (2 ^ (maxMemberPropagationAttempts - 1 - left) * 1000000000) of
               (Some c, w) \<Rightarrow>
                 (Ok (iam_failure OperationCreate ServiceInternalError (err_text c)), s1\<lparr>m_world := w\<rparr>)
             | (None, w) \<Rightarrow> propagate_loop E S p props (left - 1) (s1\<lparr>m_world := w\<rparr>)))"

declare propagate_loop.simps [simp del]

definition Member_Create ::
    "'w env \<Rightarrow> 'w iam_service \<Rightarrow> Config option \<Rightarrow> CreateRequest \<Rightarrow> ('w, ProgressResult) op" where
  "Member_Create E S cfg request s =
     (case propsFromRaw (cr_Properties request) of
        Inl e \<Rightarrow> (Ok (iam_failure OperationCreate InvalidRequest (err_text e)), s)
      | Inr p \<Rightarrow>
          (case newService E S (cfgFrom (cr_TargetConfig request) cfg) s of
             (Some e, s1) \<Rightarrow> (Err e, s1)
           | (None, s1) \<Rightarrow>
               propagate_loop E S p (cr_Properties request) (maxMemberPropagationAttempts - 1) s1))"

definition Member_Read ::
    "'w env \<Rightarrow> 'w iam_service \<Rightarrow> Config option \<Rightarrow> ReadRequest \<Rightarrow> ('w, ReadResult) op" where
  "Member_Read E S cfg request s =
     (case parseMemberID (rd_NativeID request) of
        Inl e \<Rightarrow> (Ok (read_error InvalidRequest), s)
      | Inr p \<Rightarrow>
          (case newService E S (cfgFrom (rd_TargetConfig request) cfg) s of
             (Some e, s1) \<Rightarrow> (Err e, s1)
           | (None, s1) \<Rightarrow>
               (case is_GetIamPolicy S (m_world s1) (mp_Project p) of
                  (Inl e, w) \<Rightarrow> (Ok (read_error (mapGoogleErrorCode (Some e))), s1\<lparr>m_world := w\<rparr>)
                | (Inr policy, w) \<Rightarrow>
                    (Ok (if \<not> hasMember policy (mp_Role p) (mp_Member p) then read_error NotFound
                         else (read_properties (RawDoc (props_value p)))\<lparr>rr_ResourceType := rd_ResourceType request\<rparr>),
                     s1\<lparr>m_world := w\<rparr>))))"

definition Member_Update :: "UpdateRequest \<Rightarrow> ('w, ProgressResult) op" where
  "Member_Update request s =
     (Ok ((progress OperationUpdate OperationStatusSuccess)\<lparr>pr_NativeID := up_NativeID request\<rparr>), s)"

definition Member_Delete ::
    "'w env \<Rightarrow> 'w iam_service \<Rightarrow> Config option \<Rightarrow> DeleteRequest \<Rightarrow> ('w, ProgressResult) op" where
  "Member_Delete E S cfg request s =
     (case parseMemberID (dl_NativeID request) of
        Inl e \<Rightarrow> (Ok (iam_failure OperationDelete InvalidRequest (err_text e)), s)
      | Inr p \<Rightarrow>
          (case newService E S (cfgFrom (dl_TargetConfig request) cfg) s of
             (Some e, s1) \<Rightarrow> (Err e, s1)
           | (None, s1) \<Rightarrow>
               (case withRetryOnConflict S (mp_Project p)
                       (\<lambda>pol. removeMember pol (mp_Role p) (mp_Member p)) s1 of
                  (Inl e, s2) \<Rightarrow>
                    (Ok (if isMemberNotYetPropagated e then deleteSuccess (dl_NativeID request)
                         else iam_failure OperationDelete (mapGoogleErrorCode (Some e)) (err_text e)), s2)
                | (Inr changed, s2) \<Rightarrow> (Ok (deleteSuccess (dl_NativeID request)), s2))))"

definition policy_ids :: "string \<Rightarrow> Policy \<Rightarrow> string list" where
  "policy_ids project policy =
     concat (map (\<lambda>b. map (\<lambda>m. buildMemberID \<lparr>mp_Project = project, mp_Role = bi_Role b, mp_Member = m\<rparr>)
                         (bi_Members b)) (pol_Bindings policy))"

definition Member_List ::
    "'w env \<Rightarrow> 'w iam_service \<Rightarrow> Config option \<Rightarrow> ListRequest \<Rightarrow> ('w, ListResult) op" where
  "Member_List E S cfg request s =
     (let c = cfgFrom (ls_TargetConfig request) cfg
      in if c_Project c = [] then (Ok \<lparr>lr_NativeIDs = [], lr_NextPageToken = None\<rparr>, s)
         else case newService E S c s of
           (Some e, s1) \<Rightarrow> (Err e, s1)
         | (None, s1) \<Rightarrow>
             (case is_GetIamPolicy S (m_world s1) (c_Project c) of
                (Inl e, w) \<Rightarrow> (Err e, s1\<lparr>m_world := w\<rparr>)
              | (Inr policy, w) \<Rightarrow>
                  (Ok \<lparr>lr_NativeIDs = policy_ids (c_Project c) policy, lr_NextPageToken = None\<rparr>,
                   s1\<lparr>m_world := w\<rparr>)))"

definition Member_Status :: "StatusRequest \<Rightarrow> ('w, ProgressResult) op" where
  "Member_Status request s =
     (Ok ((progress OperationCheckStatus OperationStatusSuccess)
            \<lparr>pr_NativeID := st_NativeID request, pr_RequestID := st_RequestID request\<rparr>), s)"

section \<open>Identifiers read back\<close>

definition member_id_valid :: "memberProps \<Rightarrow> bool" where
  "member_id_valid p \<longleftrightarrow>
     mp_Project p \<noteq> [] \<and> mp_Role p \<noteq> [] \<and> mp_Member p \<noteq> []
     \<and> CHR ''|'' \<notin> set (mp_Project p) \<and> CHR ''|'' \<notin> set (mp_Role p)"

lemma split_at: "c \<in> set s \<Longrightarrow> takeWhile (\<lambda>x. x \<noteq> c) s @ c # tl (dropWhile (\<lambda>x. x \<noteq> c) s) = s"
  by (induction s) auto

lemma SplitN_3:
  assumes "SplitN s c 3 = [x, y, z]"
  shows "s = x @ c # y @ c # z \<and> c \<notin> set x \<and> c \<notin> set y"
proof -
  have c: "c \<in> set s" using assms by (auto simp: numeral_3_eq_3 split: if_splits)
  define t where "t = tl (dropWhile (\<lambda>x. x \<noteq> c) s)"
  have x: "x = takeWhile (\<lambda>x. x \<noteq> c) s" and t: "SplitN t c 2 = [y, z]"
    using assms c by (simp_all add: numeral_3_eq_3 numeral_2_eq_2 t_def)
  have d: "c \<in> set t" using t by (auto simp: numeral_2_eq_2 split: if_splits)
  with t have "y = takeWhile (\<lambda>x. x \<noteq> c) t" "z = tl (dropWhile (\<lambda>x. x \<noteq> c) t)"
    by (simp_all add: numeral_2_eq_2)
  with split_at [OF d] split_at [OF c] x show ?thesis
    by (auto simp: t_def dest: set_takeWhileD)
qed

interpretation member_codec: id_codec buildMemberID parseMemberID member_id_valid
proof
  fix p assume "member_id_valid p"
  then show "parseMemberID (buildMemberID p) = Inr p"
    by (simp add: member_id_valid_def buildMemberID_def parseMemberID_def numeral_3_eq_3 SplitN_append_sep)
next
  fix ident p assume "parseMemberID ident = Inr p"
  then have "SplitN ident CHR ''|'' 3 = [mp_Project p, mp_Role p, mp_Member p]
      \<and> mp_Project p \<noteq> [] \<and> mp_Role p \<noteq> [] \<and> mp_Member p \<noteq> []"
    by (auto simp: parseMemberID_def split: list.splits if_splits)
  with SplitN_3 show "member_id_valid p \<and> buildMemberID p = ident"
    by (fastforce simp: member_id_valid_def buildMemberID_def)
qed

section \<open>What an edit of the policy does\<close>

text \<open>
  The contract of an editable set of grants: each edit changes the set by one pair, says whether
  it did, and keeps the policy well formed.
\<close>

locale membership =
  fixes grants :: "'p \<Rightarrow> ('r \<times> 'm) set"
    and wf :: "'p \<Rightarrow> bool"
    and add remove :: "'p \<Rightarrow> 'r \<Rightarrow> 'm \<Rightarrow> bool \<times> 'p"
    and has :: "'p \<Rightarrow> 'r \<Rightarrow> 'm \<Rightarrow> bool"
  assumes add_wf: "wf p \<Longrightarrow> wf (snd (add p r m))"
    and add_grants: "wf p \<Longrightarrow> grants (snd (add p r m)) = insert (r, m) (grants p)"
    and add_changed: "wf p \<Longrightarrow> fst (add p r m) \<longleftrightarrow> (r, m) \<notin> grants p"
    and remove_wf: "wf p \<Longrightarrow> wf (snd (remove p r m))"
    and remove_grants: "wf p \<Longrightarrow> grants (snd (remove p r m)) = grants p - {(r, m)}"
    and remove_changed: "wf p \<Longrightarrow> fst (remove p r m) \<longleftrightarrow> (r, m) \<in> grants p"
    and has_grants: "wf p \<Longrightarrow> has p r m \<longleftrightarrow> (r, m) \<in> grants p"
begin

lemma has_added: "wf p \<Longrightarrow> has (snd (add p r m)) r' m' \<longleftrightarrow> (r', m') = (r, m) \<or> has p r' m'"
  by (auto simp: has_grants add_wf add_grants)

lemma has_removed: "wf p \<Longrightarrow> has (snd (remove p r m)) r' m' \<longleftrightarrow> (r', m') \<noteq> (r, m) \<and> has p r' m'"
  by (auto simp: has_grants remove_wf remove_grants)

lemma add_twice: "wf p \<Longrightarrow> \<not> fst (add (snd (add p r m)) r m)"
  by (simp add: add_changed add_wf add_grants)

lemma remove_twice: "wf p \<Longrightarrow> \<not> fst (remove (snd (remove p r m)) r m)"
  by (simp add: remove_changed remove_wf remove_grants)

lemma remove_added: "wf p \<Longrightarrow> \<not> has p r m \<Longrightarrow> grants (snd (remove (snd (add p r m)) r m)) = grants p"
  by (auto simp: has_grants add_wf add_grants remove_grants)

end

definition binding_grants :: "Binding list \<Rightarrow> (string \<times> string) set" where
  "binding_grants bs = {(bi_Role b, m) | b m. b \<in> set bs \<and> m \<in> set (bi_Members b)}"

definition grants :: "Policy \<Rightarrow> (string \<times> string) set" where
  "grants p = binding_grants (pol_Bindings p)"

text \<open>A role has one binding and a member occurs once in it, as the API returns policies.\<close>

definition bindings_wf :: "Binding list \<Rightarrow> bool" where
  "bindings_wf bs \<longleftrightarrow> distinct (map bi_Role bs) \<and> (\<forall>b \<in> set bs. distinct (bi_Members b))"

definition policy_wf :: "Policy \<Rightarrow> bool" where
  "policy_wf p \<longleftrightarrow> bindings_wf (pol_Bindings p)"

lemma binding_grants_simps [simp]:
  "binding_grants [] = {}"
  "binding_grants (b # bs) = {bi_Role b} \<times> set (bi_Members b) \<union> binding_grants bs"
  by (auto simp: binding_grants_def)

lemma bindings_wf_simps [simp]:
  "bindings_wf []"
  "bindings_wf (b # bs) \<longleftrightarrow> bi_Role b \<notin> bi_Role ` set bs \<and> distinct (bi_Members b) \<and> bindings_wf bs"
  by (auto simp: bindings_wf_def)

lemma other_role: "r \<notin> bi_Role ` set bs \<Longrightarrow> (r, m) \<notin> binding_grants bs"
  by (auto simp: binding_grants_def)

lemma add_binding_roles:
  "bi_Role ` set (snd (add_binding bs r m)) = insert r (bi_Role ` set bs)"
  by (induction bs) (auto split: prod.splits)

lemma add_binding_spec:
  assumes "bindings_wf bs"
  shows "bindings_wf (snd (add_binding bs r m))
    \<and> binding_grants (snd (add_binding bs r m)) = insert (r, m) (binding_grants bs)
    \<and> (fst (add_binding bs r m) \<longleftrightarrow> (r, m) \<notin> binding_grants bs)"
  using assms
proof (induction bs)
  case (Cons b bs)
  then show ?case
    using add_binding_roles [of bs r m] other_role [of r bs m]
    by (auto split: prod.splits)
qed auto

lemma remove_binding_roles:
  "b \<in> set (snd (remove_binding bs r m)) \<Longrightarrow> bi_Role b \<in> bi_Role ` set bs"
  by (induction bs) (auto simp: Let_def split: prod.splits if_splits)

lemma remove_binding_spec:
  assumes "bindings_wf bs"
  shows "bindings_wf (snd (remove_binding bs r m))
    \<and> binding_grants (snd (remove_binding bs r m)) = binding_grants bs - {(r, m)}
    \<and> (fst (remove_binding bs r m) \<longleftrightarrow> (r, m) \<in> binding_grants bs)"
  using assms
proof (induction bs)
  case (Cons b bs)
  obtain d cs where dc: "remove_binding bs r m = (d, cs)" by (metis surj_pair)
  have roles: "bi_Role x \<in> bi_Role ` set bs" if "x \<in> set cs" for x
    using remove_binding_roles [of x bs r m] dc that by simp
  have one: "remove1 m (bi_Members b) = [] \<Longrightarrow> m \<in> set (bi_Members b) \<Longrightarrow> set (bi_Members b) = {m}"
    by (cases "bi_Members b") (auto split: if_splits)
  show ?case
  proof (cases "bi_Role b = r")
    case True
    with Cons.prems other_role [of r bs] one show ?thesis by (auto simp: Let_def)
  next
    case False
    have "bi_Role b \<notin> bi_Role ` set cs" using Cons.prems roles by auto
    with False Cons dc show ?thesis by auto
  qed
qed auto

lemma has_binding_spec: "bindings_wf bs \<Longrightarrow> has_binding bs r m \<longleftrightarrow> (r, m) \<in> binding_grants bs"
  using other_role by (induction bs) auto

interpretation policy: membership grants policy_wf addMember removeMember hasMember
  by unfold_locales
    (auto simp: policy_wf_def grants_def addMember_def removeMember_def hasMember_def add_binding_spec
      remove_binding_spec has_binding_spec case_prod_beta)

section \<open>No lost update\<close>

text \<open>
  What the API documents of etags, over the versions a project's policy has had, oldest first. A
  read returns the newest version; a write is accepted only while the newest version has the etag
  the written policy carries, and makes the written policy, under an etag never used before, the
  newest version. Other clients may write at any time, so a call may find more versions than there
  were when it began.
\<close>

definition etag_contract :: "'w iam_service \<Rightarrow> ('w \<Rightarrow> string \<Rightarrow> Policy list) \<Rightarrow> bool" where
  "etag_contract S versions \<longleftrightarrow>
     (\<forall>w project. distinct (map pol_Etag (versions w project)))
   \<and> (\<forall>w project p w'. is_GetIamPolicy S w project = (Inr p, w') \<longrightarrow>
        versions w' project \<noteq> [] \<and> p = last (versions w' project))
   \<and> (\<forall>w project p q w'. is_SetIamPolicy S w project p = (Inr q, w') \<longrightarrow>
        (\<exists>others etag. versions w project @ others \<noteq> []
           \<and> pol_Etag (last (versions w project @ others)) = pol_Etag p
           \<and> versions w' project = versions w project @ others @ [p\<lparr>pol_Etag := etag\<rparr>]))"

lemma etag_contract_get:
  "etag_contract S versions \<Longrightarrow> is_GetIamPolicy S w project = (Inr p, w') \<Longrightarrow>
     versions w' project \<noteq> [] \<and> p = last (versions w' project)"
  by (simp add: etag_contract_def)

text \<open>A write that is accepted was made on the newest version, if the writer kept the etag it read.\<close>

lemma etag_contract_set:
  assumes "etag_contract S versions" and "is_SetIamPolicy S w project p = (Inr q, w')"
    and "versions w project \<noteq> []" and "pol_Etag p = pol_Etag (last (versions w project))"
  shows "\<exists>etag. versions w' project = versions w project @ [p\<lparr>pol_Etag := etag\<rparr>]"
proof -
  let ?v = "versions w project"
  from assms(1,2) obtain others etag where o: "pol_Etag (last (?v @ others)) = pol_Etag p"
      "versions w' project = ?v @ others @ [p\<lparr>pol_Etag := etag\<rparr>]"
    unfolding etag_contract_def by blast
  have d: "distinct (map pol_Etag (versions w' project))" using assms(1) by (simp add: etag_contract_def)
  have "others = []"
  proof (rule ccontr)
    assume "others \<noteq> []"
    then have "last others \<in> set others" "last ?v \<in> set ?v" "pol_Etag (last others) = pol_Etag (last ?v)"
      using assms(3,4) o(1) by auto
    moreover have "pol_Etag ` set ?v \<inter> pol_Etag ` set others = {}" using d o(2) by auto
    ultimately show False by (metis disjoint_iff imageI)
  qed
  with o(2) show ?thesis by auto
qed

definition keeps_etag :: "(Policy \<Rightarrow> bool \<times> Policy) \<Rightarrow> bool" where
  "keeps_etag mutate \<longleftrightarrow> (\<forall>p. pol_Etag (snd (mutate p)) = pol_Etag p)"

lemma edits_keep_etag: "keeps_etag (\<lambda>p. addMember p r m)" "keeps_etag (\<lambda>p. removeMember p r m)"
  by (auto simp: keeps_etag_def addMember_def removeMember_def split: prod.splits)

text \<open>
  The specification of the loop: one atomic change of the newest version. \<open>atomic_edit\<close> relates the
  answer and the versions after it.
\<close>

definition atomic_edit :: "(Policy \<Rightarrow> bool \<times> Policy) \<Rightarrow> bool \<Rightarrow> Policy list \<Rightarrow> bool" where
  "atomic_edit mutate changed vs \<longleftrightarrow>
     (if changed
      then \<exists>before etag. before \<noteq> [] \<and> fst (mutate (last before))
             \<and> vs = before @ [(snd (mutate (last before)))\<lparr>pol_Etag := etag\<rparr>]
      else vs \<noteq> [] \<and> \<not> fst (mutate (last vs)))"

lemma retry_loop_atomic:
  assumes "etag_contract S versions" and "keeps_etag mutate"
  shows "retry_loop S project mutate left lastErr w = (Inr changed, w') \<Longrightarrow>
           atomic_edit mutate changed (versions w' project)"
proof (induction left arbitrary: lastErr w)
  case (Suc left)
  obtain g w1 where g: "is_GetIamPolicy S w project = (g, w1)" by (metis surj_pair)
  with Suc.prems obtain p where p: "g = Inr p" by (cases g) auto
  have v: "versions w1 project \<noteq> []" "p = last (versions w1 project)"
    using etag_contract_get [OF assms(1)] g p by auto
  obtain ch p1 where m: "mutate p = (ch, p1)" by (metis surj_pair)
  show ?case
  proof (cases ch)
    case False
    with Suc.prems g p m v show ?thesis by (auto simp: atomic_edit_def)
  next
    case True
    obtain a w2 where a: "is_SetIamPolicy S w1 project p1 = (a, w2)" by (metis surj_pair)
    show ?thesis
    proof (cases a)
      case (Inr q)
      with Suc.prems g p m a True have c: "changed" "w' = w2" by auto
      have "pol_Etag p1 = pol_Etag (last (versions w1 project))"
        using assms(2) m v(2) unfolding keeps_etag_def by (metis snd_conv)
      from etag_contract_set [OF assms(1) a [unfolded Inr] v(1) this] c m v True
      show ?thesis by (auto simp: atomic_edit_def intro!: exI [of _ "versions w1 project"])
    next
      case (Inl e)
      with Suc g p m a True show ?thesis by (auto split: option.splits if_splits)
    qed
  qed
qed simp

lemma withRetryOnConflict_atomic:
  assumes "etag_contract S versions" and "keeps_etag mutate"
    and "withRetryOnConflict S project mutate s = (Inr changed, s')"
  shows "atomic_edit mutate changed (versions (m_world s') project)"
  using retry_loop_atomic [OF assms(1,2)] assms(3) by (auto simp: withRetryOnConflict_def split: prod.splits)

lemma propagate_loop_success:
  assumes "propagate_loop E S p props left s = (Ok r, s')" and "pr_Status r = OperationStatusSuccess"
  shows "r = createSuccess (buildMemberID p) props
    \<and> (\<exists>s0 changed. withRetryOnConflict S (mp_Project p) (\<lambda>pol. addMember pol (mp_Role p) (mp_Member p)) s0
          = (Inr changed, s'))"
  using assms
proof (induction left arbitrary: s)
  case 0
  then show ?case
    by (subst (asm) propagate_loop.simps) (auto simp: iam_failure_def split: prod.splits sum.splits)
next
  case (Suc left)
  obtain a s1 where a: "withRetryOnConflict S (mp_Project p) (\<lambda>pol. addMember pol (mp_Role p) (mp_Member p)) s = (a, s1)"
    by (metis surj_pair)
  show ?case
  proof (cases a)
    case (Inr changed)
    with Suc.prems a show ?thesis by (subst (asm) propagate_loop.simps) auto
  next
    case (Inl e)
    with Suc.prems a obtain w where "propagate_loop E S p props left (s1\<lparr>m_world := w\<rparr>) = (Ok r, s')"
      by (subst (asm) propagate_loop.simps) (auto simp: iam_failure_def split: if_splits prod.splits option.splits)
    from Suc.IH [OF this Suc.prems(2)] show ?thesis .
  qed
qed

lemma atomic_add:
  assumes "atomic_edit (\<lambda>pol. addMember pol r m) changed vs" and "\<forall>p \<in> set vs. policy_wf p"
  shows "vs \<noteq> [] \<and> (r, m) \<in> grants (last vs)
    \<and> (if changed then butlast vs \<noteq> [] \<and> grants (last vs) = insert (r, m) (grants (last (butlast vs)))
         \<and> pol_AuditConfigs (last vs) = pol_AuditConfigs (last (butlast vs)) else True)"
proof (cases changed)
  case True
  with assms(1) obtain before etag where b: "before \<noteq> []"
      "vs = before @ [(snd (addMember (last before) r m))\<lparr>pol_Etag := etag\<rparr>]"
    by (auto simp: atomic_edit_def)
  with assms(2) have "policy_wf (last before)" by auto
  from policy.add_grants [OF this, of r m] b True show ?thesis
    by (simp add: grants_def) (simp add: addMember_def split: prod.splits)
next
  case False
  with assms show ?thesis by (auto simp: atomic_edit_def policy.add_changed)
qed

lemma atomic_remove:
  assumes "atomic_edit (\<lambda>pol. removeMember pol r m) changed vs" and "\<forall>p \<in> set vs. policy_wf p"
  shows "vs \<noteq> [] \<and> (r, m) \<notin> grants (last vs)
    \<and> (if changed then butlast vs \<noteq> [] \<and> grants (last vs) = grants (last (butlast vs)) - {(r, m)}
         \<and> pol_AuditConfigs (last vs) = pol_AuditConfigs (last (butlast vs)) else True)"
proof (cases changed)
  case True
  with assms(1) obtain before etag where b: "before \<noteq> []"
      "vs = before @ [(snd (removeMember (last before) r m))\<lparr>pol_Etag := etag\<rparr>]"
    by (auto simp: atomic_edit_def)
  with assms(2) have "policy_wf (last before)" by auto
  from policy.remove_grants [OF this, of r m] b True show ?thesis
    by (simp add: grants_def) (simp add: removeMember_def split: prod.splits)
next
  case False
  with assms show ?thesis by (auto simp: atomic_edit_def policy.remove_changed)
qed

text \<open>
  C3: Granting a role loses nothing. When Create reports success, the newest version of the
  project's policy grants the member the role, and if this call wrote it, it is the version
  directly before it with that one grant added and its audit configuration kept: no version another
  client wrote in between is overwritten, however the calls interleave.
\<close>
theorem Member_Create_atomic:
  assumes "etag_contract S versions" and "\<forall>project. \<forall>p \<in> set (versions (m_world s') project). policy_wf p"
    and "Member_Create E S cfg request s = (Ok r, s')" and "pr_Status r = OperationStatusSuccess"
  shows "\<exists>p changed. propsFromRaw (cr_Properties request) = Inr p \<and> pr_NativeID r = buildMemberID p
     \<and> atomic_edit (\<lambda>pol. addMember pol (mp_Role p) (mp_Member p)) changed (versions (m_world s') (mp_Project p))
     \<and> (mp_Role p, mp_Member p) \<in> grants (last (versions (m_world s') (mp_Project p)))
     \<and> (if changed then grants (last (versions (m_world s') (mp_Project p)))
            = insert (mp_Role p, mp_Member p) (grants (last (butlast (versions (m_world s') (mp_Project p)))))
          \<and> pol_AuditConfigs (last (versions (m_world s') (mp_Project p)))
            = pol_AuditConfigs (last (butlast (versions (m_world s') (mp_Project p)))) else True)"
proof -
  from assms(3,4) obtain p s1 left where p: "propsFromRaw (cr_Properties request) = Inr p"
      "propagate_loop E S p (cr_Properties request) left s1 = (Ok r, s')"
    by (auto simp: Member_Create_def iam_failure_def split: sum.splits prod.splits option.splits)
  from propagate_loop_success [OF p(2) assms(4)] obtain s0 changed
    where r: "r = createSuccess (buildMemberID p) (cr_Properties request)"
      and w: "withRetryOnConflict S (mp_Project p) (\<lambda>pol. addMember pol (mp_Role p) (mp_Member p)) s0 = (Inr changed, s')"
    by blast
  note at = withRetryOnConflict_atomic [OF assms(1) edits_keep_etag(1) w]
  from atomic_add [OF at] assms(2) p(1) r at show ?thesis
    by (intro exI [of _ p] exI [of _ changed]) (auto simp: createSuccess_def)
qed


section \<open>A service that keeps the contract\<close>

text \<open>The versions of one policy, each with its number in unary as the etag.\<close>

definition numbered :: "Policy list \<Rightarrow> Policy list" where
  "numbered ps = map (\<lambda>i. (ps ! i)\<lparr>pol_Etag := replicate i CHR ''x''\<rparr>) [0..<length ps]"

definition stored_versions :: "Policy list \<Rightarrow> string \<Rightarrow> Policy list" where
  "stored_versions ps project = numbered ps"

definition policy_store :: "Policy list iam_service" where
  "policy_store =
     \<lparr>is_new = (\<lambda>opts. None),
      is_GetIamPolicy = (\<lambda>ps project. if ps = [] then (Inl (ErrText ''no policy''), ps) else (Inr (last (numbered ps)), ps)),
      is_SetIamPolicy = (\<lambda>ps project p.
        if ps \<noteq> [] \<and> pol_Etag p = replicate (length ps - 1) CHR ''x'' then (Inr p, ps @ [p])
        else (Inl (script_error 409), ps))\<rparr>"

lemma numbered_snoc: "numbered (ps @ [p]) = numbered ps @ [p\<lparr>pol_Etag := replicate (length ps) CHR ''x''\<rparr>]"
  by (simp add: numbered_def nth_append)

lemma numbered_empty [simp]: "numbered ps = [] \<longleftrightarrow> ps = []"
  by (auto simp: numbered_def)

lemma numbered_last: "ps \<noteq> [] \<Longrightarrow> pol_Etag (last (numbered ps)) = replicate (length ps - 1) CHR ''x''"
  by (cases ps rule: rev_cases) (simp_all add: numbered_snoc)

lemma policy_store_contract: "etag_contract policy_store stored_versions"
  unfolding etag_contract_def
proof (intro conjI allI impI)
  show "distinct (map pol_Etag (stored_versions w project))" for w project
    by (simp add: stored_versions_def numbered_def comp_def distinct_map inj_on_def)
qed (auto simp: policy_store_def stored_versions_def numbered_snoc numbered_last split: if_splits)

definition demo_policy :: Policy where
  "demo_policy = \<lparr>pol_Bindings = [\<lparr>bi_Role = ''viewer'', bi_Members = [''ann''], bi_Condition = None\<rparr>],
     pol_Etag = [], pol_Version = 1, pol_AuditConfigs = []\<rparr>"

definition demo_grant :: CreateRequest where
  "demo_grant = \<lparr>cr_ResourceType = ''T'', cr_TargetConfig = RawNil,
     cr_Properties = RawDoc (JObj [(''project'', JStr ''prj''), (''role'', JStr ''viewer''), (''member'', JStr ''bob'')])\<rparr>"

definition demo_member :: "string \<Rightarrow> memberProps" where
  "demo_member m = \<lparr>mp_Project = ''prj'', mp_Role = ''viewer'', mp_Member = m\<rparr>"

definition policy_machine :: "Policy list \<Rightarrow> Policy list machine" where
  "policy_machine ps = \<lparr>m_world = ps, m_creds = Map.empty, m_log = []\<rparr>"

definition with_members :: "string list \<Rightarrow> Policy" where
  "with_members ms = demo_policy\<lparr>pol_Bindings := (if ms = [] then [] else
     [\<lparr>bi_Role = ''viewer'', bi_Members = ms, bi_Condition = None\<rparr>])\<rparr>"

lemma demo_grant_props: "propsFromRaw (cr_Properties demo_grant) = Inr (demo_member ''bob'')"
  by (simp add: propsFromRaw_def decode_props_def demo_grant_def demo_member_def decode_props_step_def field_match_def
      field_error_def ToLower_def lower_char_def less_eq_char_def char_of_eq_iff)

lemma demo_service: "newService idle_env policy_store (cfgFrom RawNil None) s = (None, s)"
  by (simp add: newService_def ToClientOptions_def cfgFrom_def FromTargetConfig_def effectiveAuth_def zero_config_def
      idle_env_def policy_store_def Let_def)

lemma demo_numbered: "numbered [p] = [p\<lparr>pol_Etag := []\<rparr>]"
  by (simp add: numbered_def)

lemma demo_edits:
  "addMember (demo_policy\<lparr>pol_Etag := []\<rparr>) ''viewer'' ''bob'' = (True, with_members [''ann'', ''bob''])"
  "removeMember (demo_policy\<lparr>pol_Etag := []\<rparr>) ''viewer'' ''ann'' = (True, with_members [])"
  by (simp_all add: addMember_def removeMember_def demo_policy_def with_members_def)

lemma demo_rmw:
  assumes "mutate (demo_policy\<lparr>pol_Etag := []\<rparr>) = (True, with_members ms)"
  shows "withRetryOnConflict policy_store project mutate (policy_machine [demo_policy])
     = (Inr True, policy_machine [demo_policy, with_members ms])"
  using assms
  by (simp add: withRetryOnConflict_def maxSetPolicyAttempts_def numeral_3_eq_3 policy_machine_def)
    (simp add: policy_store_def demo_numbered with_members_def demo_policy_def)

lemma demo_versions_wf:
  "distinct ms \<Longrightarrow> \<forall>project. \<forall>p \<in> set (stored_versions [demo_policy, with_members ms] project). policy_wf p"
  using numbered_snoc [of "[demo_policy]"]
  by (simp add: stored_versions_def demo_numbered policy_wf_def demo_policy_def with_members_def)

theorem Member_Create_atomic_witness:
  "\<exists>r s'. Member_Create idle_env policy_store None demo_grant (policy_machine [demo_policy]) = (Ok r, s')
     \<and> (''viewer'', ''bob'') \<in> grants (last (stored_versions (m_world s') ''prj''))"
proof -
  have c: "Member_Create idle_env policy_store None demo_grant (policy_machine [demo_policy])
      = (Ok (createSuccess (buildMemberID (demo_member ''bob'')) (cr_Properties demo_grant)),
         policy_machine [demo_policy, with_members [''ann'', ''bob'']])"
  proof -
    have "propagate_loop idle_env policy_store (demo_member ''bob'') props left (policy_machine [demo_policy])
        = (Ok (createSuccess (buildMemberID (demo_member ''bob'')) props),
           policy_machine [demo_policy, with_members [''ann'', ''bob'']])" for props left
      using demo_rmw [of "\<lambda>pol. addMember pol ''viewer'' ''bob''" "[''ann'', ''bob'']"] demo_edits(1)
      by (subst propagate_loop.simps) (simp add: demo_member_def)
    moreover have "cr_TargetConfig demo_grant = RawNil" by (simp add: demo_grant_def)
    ultimately show ?thesis using demo_service by (simp add: Member_Create_def demo_grant_props)
  qed
  from Member_Create_atomic [OF policy_store_contract _ c] demo_versions_wf [of "[''ann'', ''bob'']"] c
  show ?thesis by (auto simp: demo_grant_props demo_member_def policy_machine_def createSuccess_def)
qed


end
