(* ===== verification/Compute_Api.thy ===== *)
theory Compute_Api
  imports Base_Resource
begin

text \<open>
  The Compute Engine API: paths, native IDs and operations
  (\<^verbatim>\<open>src/pkg/resources/compute/api.go\<close>).
\<close>

definition compute_scope :: "PathContext \<Rightarrow> string" where
  "compute_scope ctx =
     (if pc_Zone ctx \<noteq> [] then ''zones/'' @ pc_Zone ctx
      else if pc_Region ctx \<noteq> [] then ''regions/'' @ pc_Region ctx
      else ''global'')"

definition computePathBuilder :: "PathContext \<Rightarrow> string" where
  "computePathBuilder ctx =
     ''/projects/'' @ pc_Project ctx @ ''/'' @ compute_scope ctx @ ''/'' @ pc_ResourceType ctx
       @ (if pc_ResourceName ctx \<noteq> [] then ''/'' @ pc_ResourceName ctx else [])"

definition extractComputeOperationID :: "obj \<Rightarrow> string" where
  "extractComputeOperationID response =
     (case as_string (map_of response ''selfLink'') of
        Some link \<Rightarrow> last (Split link CHR ''/'')
      | None \<Rightarrow> string_or_empty (as_string (map_of response ''name'')))"

definition buildComputeOperationURL :: "PathContext \<Rightarrow> string \<Rightarrow> string" where
  "buildComputeOperationURL ctx operationID =
     (if pc_Zone ctx \<noteq> [] then
        ''projects/'' @ pc_Project ctx @ ''/zones/'' @ pc_Zone ctx @ ''/operations/'' @ operationID
      else if pc_Region ctx \<noteq> [] then
        ''projects/'' @ pc_Project ctx @ ''/regions/'' @ pc_Region ctx @ ''/operations/'' @ operationID
      else ''projects/'' @ pc_Project ctx @ ''/global/operations/'' @ operationID)"

definition extractPathFromURL :: "string \<Rightarrow> string" where
  "extractPathFromURL url =
     (case Index url ''/projects/'' of None \<Rightarrow> [] | Some idx \<Rightarrow> drop (idx + 1) url)"

definition extractComputeNativeID :: "obj \<Rightarrow> PathContext \<Rightarrow> string" where
  "extractComputeNativeID response ctx =
     (case as_string (map_of response ''targetLink'') of
        Some link \<Rightarrow> extractPathFromURL link
      | None \<Rightarrow>
     (case as_string (map_of response ''selfLink'') of
        Some link \<Rightarrow> extractPathFromURL link
      | None \<Rightarrow>
     (case as_string (map_of response ''name'') of
        Some name \<Rightarrow>
          tl (computePathBuilder
                (empty_ctx\<lparr>pc_Project := pc_Project ctx, pc_Region := pc_Region ctx, pc_Zone := pc_Zone ctx,
                           pc_ResourceType := pc_ResourceType ctx, pc_ResourceName := name\<rparr>))
      | None \<Rightarrow> [])))"

text \<open>The loop over the segments; a segment without a successor is skipped.\<close>

fun parse_compute_segments :: "string list \<Rightarrow> PathContext \<Rightarrow> PathContext" where
  "parse_compute_segments (key # value # rest) ctx =
     (if key = ''projects'' then parse_compute_segments rest (ctx\<lparr>pc_Project := value\<rparr>)
      else if key = ''global'' then parse_compute_segments (value # rest) ctx
      else if key = ''regions'' then parse_compute_segments rest (ctx\<lparr>pc_Region := value\<rparr>)
      else if key = ''zones'' then parse_compute_segments rest (ctx\<lparr>pc_Zone := value\<rparr>)
      else parse_compute_segments rest (ctx\<lparr>pc_ResourceType := key, pc_ResourceName := value\<rparr>))"
| "parse_compute_segments _ ctx = ctx"

definition parseComputeNativeID :: "string \<Rightarrow> goerr + PathContext" where
  "parseComputeNativeID nativeID =
     (let parts = Split nativeID CHR ''/''
      in if length parts < 4 then Inl (ErrText (''invalid compute native ID: '' @ nativeID))
         else Inr (parse_compute_segments parts empty_ctx))"

definition unknown_operation_error :: goerr where
  "unknown_operation_error = ErrText ''operation failed with unknown error''"

text \<open>The error an operation carries, when it says what it is.\<close>

definition compute_operation_error :: "obj option \<Rightarrow> goerr option" where
  "compute_operation_error errorObj =
     (case errorObj of
        None \<Rightarrow> None
      | Some e \<Rightarrow>
          (case as_arr (map_of e ''errors'') of
             Some (x # xs) \<Rightarrow>
               (case as_obj (Some x) of
                  Some first \<Rightarrow>
                    (case as_string (map_of first ''message'') of
                       Some msg \<Rightarrow> Some (ErrText (''operation failed: '' @ msg))
                     | None \<Rightarrow> Some unknown_operation_error)
                | None \<Rightarrow> Some unknown_operation_error)
           | _ \<Rightarrow> None))"

definition checkComputeOperationStatus :: "obj \<Rightarrow> bool \<times> goerr option" where
  "checkComputeOperationStatus op =
     (let errorObj = as_obj (map_of op ''error'')
      in case compute_operation_error errorObj of
           Some e \<Rightarrow> (True, Some e)
         | None \<Rightarrow>
             (case as_string (map_of op ''status'') of
                None \<Rightarrow> (False, Some (ErrText ''operation response missing status field''))
              | Some status \<Rightarrow>
                  if status \<noteq> ''DONE'' then (False, None)
                  else if errorObj \<noteq> None then (True, Some unknown_operation_error)
                  else (True, None)))"

definition ComputeAPI :: APIConfig where
  "ComputeAPI = \<lparr>ac_BaseURL = ''https://compute.googleapis.com/compute/v1'', ac_APIVersion = ''v1'',
     ac_PathBuilder = Some computePathBuilder, ac_Pagination = None\<rparr>"

definition ComputeOperations :: OperationConfig where
  "ComputeOperations =
     \<lparr>oc_Synchronous = False, oc_OperationIDExtractor = Some extractComputeOperationID,
      oc_OperationURLBuilder = Some buildComputeOperationURL,
      oc_NativeIDExtractor = Some extractComputeNativeID,
      oc_OperationStatusChecker = Some checkComputeOperationStatus, oc_RetryableError = None\<rparr>"

definition ComputeNativeID :: NativeIDConfig where
  "ComputeNativeID = \<lparr>ni_Format = FullPathFormat, ni_PathTemplate = [], ni_Parser = Some parseComputeNativeID\<rparr>"

section \<open>Properties\<close>

definition compute_keywords :: "string list" where
  "compute_keywords = [''projects'', ''global'', ''regions'', ''zones'']"

text \<open>A context whose parts can stand in a path.\<close>

definition path_ok :: "PathContext \<Rightarrow> bool" where
  "path_ok ctx \<longleftrightarrow>
     seg (pc_Project ctx) \<and> seg (pc_Region ctx) \<and> seg (pc_Zone ctx) \<and> seg (pc_ResourceType ctx)
     \<and> seg (pc_ResourceName ctx) \<and> pc_ResourceName ctx \<noteq> [] \<and> pc_ResourceType ctx \<notin> set compute_keywords"

definition canonical :: "PathContext \<Rightarrow> PathContext" where
  "canonical ctx =
     empty_ctx\<lparr>pc_Project := pc_Project ctx, pc_Zone := pc_Zone ctx,
               pc_Region := (if pc_Zone ctx \<noteq> [] then [] else pc_Region ctx),
               pc_ResourceType := pc_ResourceType ctx, pc_ResourceName := pc_ResourceName ctx\<rparr>"

lemma canonical_path: "computePathBuilder (canonical ctx) = computePathBuilder ctx"
  by (simp add: computePathBuilder_def compute_scope_def canonical_def empty_ctx_def)

lemma parse_compute_path:
  assumes "path_ok ctx"
  shows "parseComputeNativeID (tl (computePathBuilder ctx)) = Inr (canonical ctx)"
proof -
  have kw: "pc_ResourceType ctx \<noteq> ''projects''" "pc_ResourceType ctx \<noteq> ''global''"
    "pc_ResourceType ctx \<noteq> ''regions''" "pc_ResourceType ctx \<noteq> ''zones''"
    using assms by (auto simp: path_ok_def compute_keywords_def)
  show ?thesis
    using assms kw
    by (auto simp: path_ok_def computePathBuilder_def compute_scope_def parseComputeNativeID_def segment
        canonical_def empty_ctx_def)
qed

lemma extract_compute_path: "extractPathFromURL (ac_BaseURL ComputeAPI @ computePathBuilder ctx) = tl (computePathBuilder ctx)"
  by (simp add: extractPathFromURL_def ComputeAPI_def computePathBuilder_def)

text \<open>
  What Compute reports is what the plugin addresses. The native ID taken from a resource's self
  link, or built from its name in the context of the request, parses to a context whose path is
  the path the link names; so a Read or a Delete after a Create reaches the resource created.
\<close>
lemma compute_native_id_addresses:
  assumes "path_ok ctx"
  shows "\<exists>ctx'. parseComputeNativeID (extractComputeNativeID
             [(''selfLink'', JStr (ac_BaseURL ComputeAPI @ computePathBuilder ctx))] c) = Inr ctx'
         \<and> parseComputeNativeID (extractComputeNativeID [(''name'', JStr (pc_ResourceName ctx))] ctx) = Inr ctx'
         \<and> computePathBuilder ctx' = computePathBuilder ctx \<and> pc_ResourceName ctx' = pc_ResourceName ctx"
proof -
  have "tl (computePathBuilder (empty_ctx\<lparr>pc_Project := pc_Project ctx, pc_Region := pc_Region ctx,
      pc_Zone := pc_Zone ctx, pc_ResourceType := pc_ResourceType ctx, pc_ResourceName := pc_ResourceName ctx\<rparr>))
      = tl (computePathBuilder ctx)"
    by (simp add: computePathBuilder_def compute_scope_def empty_ctx_def)
  then show ?thesis
    using parse_compute_path [OF assms] canonical_path
    by (intro exI [of _ "canonical ctx"])
      (simp add: extractComputeNativeID_def extract_compute_path canonical_def empty_ctx_def)
qed

text \<open>
  A Compute operation's error is read first. An operation that names an error is finished and
  failed whatever its status; one without is still running exactly while its status is something
  other than DONE, and it succeeded exactly if it is DONE with no error object at all.
\<close>
lemma compute_operation_status_exact:
  "(\<exists>e x xs. map_of op ''error'' = Some (JObj e) \<and> map_of e ''errors'' = Some (JArr (x # xs)))
     = (\<exists>e. checkComputeOperationStatus op = (True, Some e)
            \<and> compute_operation_error (as_obj (map_of op ''error'')) = Some e)
   \<and> (checkComputeOperationStatus op = (True, None) \<longleftrightarrow>
        map_of op ''status'' = Some (JStr ''DONE'') \<and> as_obj (map_of op ''error'') = None)
   \<and> (checkComputeOperationStatus op = (False, None) \<longleftrightarrow>
        (\<exists>st. map_of op ''status'' = Some (JStr st) \<and> st \<noteq> ''DONE'')
        \<and> compute_operation_error (as_obj (map_of op ''error'')) = None)"
proof -
  have named: "(\<exists>err. compute_operation_error eo = Some err) \<longleftrightarrow>
      (\<exists>e x xs. eo = Some e \<and> map_of e ''errors'' = Some (JArr (x # xs)))" for eo
    by (auto simp: compute_operation_error_def split: option.splits list.splits)
  have 1: "(\<exists>e x xs. map_of op ''error'' = Some (JObj e) \<and> map_of e ''errors'' = Some (JArr (x # xs))) \<longleftrightarrow>
      (\<exists>err. compute_operation_error (as_obj (map_of op ''error'')) = Some err)"
    unfolding named by simp
  show ?thesis
    unfolding 1 checkComputeOperationStatus_def Let_def
    by (cases "compute_operation_error (as_obj (map_of op ''error''))"; cases "as_obj (map_of op ''error'')";
        cases "as_string (map_of op ''status'')") (auto simp: compute_operation_error_def split: option.splits)
qed

end
