(* ===== verification/Slot_Array.thy ===== *)
theory Slot_Array
  imports Go_Prelude
begin

text \<open>
  Named entries kept in an array: the contract behind every resource that is an element of its
  parent's list. A client finds the slot of a name and appends, replaces or drops an entry; what
  it writes back must differ from what it read in that entry only.
\<close>

text \<open>
  \<open>edits name_of n new old upd\<close>: \<open>upd\<close> is \<open>old\<close> with the first entry named \<open>n\<close> replaced by \<open>new\<close> (or
  dropped), or with \<open>new\<close> at its end if no entry has that name.
\<close>

definition edits :: "('a \<Rightarrow> string) \<Rightarrow> string \<Rightarrow> 'a option \<Rightarrow> 'a list \<Rightarrow> 'a list \<Rightarrow> bool" where
  "edits name_of n new old upd \<longleftrightarrow>
     (\<exists>pre was post. old = pre @ was @ post \<and> upd = pre @ (case new of None \<Rightarrow> [] | Some x \<Rightarrow> [x]) @ post
        \<and> (\<forall>x \<in> set pre. name_of x \<noteq> n)
        \<and> (was = [] \<and> post = [] \<or> (\<exists>x. was = [x] \<and> name_of x = n)))"

text \<open>Every entry of another name survives, in order.\<close>

lemma edits_siblings:
  assumes "edits name_of n new old upd" and "\<And>x. new = Some x \<Longrightarrow> name_of x = n"
  shows "filter (\<lambda>x. name_of x \<noteq> n) upd = filter (\<lambda>x. name_of x \<noteq> n) old"
proof -
  from assms(1) obtain pre was post where *: "old = pre @ was @ post"
      "upd = pre @ (case new of None \<Rightarrow> [] | Some x \<Rightarrow> [x]) @ post"
      "was = [] \<and> post = [] \<or> (\<exists>x. was = [x] \<and> name_of x = n)"
    by (auto simp: edits_def)
  then show ?thesis using assms(2) by (cases new) auto
qed

lemma edits_dropped:
  assumes "edits name_of n None old upd" and "distinct (map name_of old)"
  shows "n \<notin> name_of ` set upd"
proof -
  from assms(1) obtain pre was post where *: "old = pre @ was @ post" "upd = pre @ post"
      "\<forall>x \<in> set pre. name_of x \<noteq> n"
      "was = [] \<and> post = [] \<or> (\<exists>x. was = [x] \<and> name_of x = n)"
    unfolding edits_def by auto
  with assms(2) show ?thesis by auto
qed

locale slot_array =
  fixes name_of :: "'a \<Rightarrow> string"
    and find :: "'a list \<Rightarrow> string \<Rightarrow> nat option"
  assumes find_None: "find xs n = None \<longleftrightarrow> n \<notin> name_of ` set xs"
    and find_Some: "find xs n = Some i \<Longrightarrow>
          i < length xs \<and> name_of (xs ! i) = n \<and> (\<forall>x \<in> set (take i xs). name_of x \<noteq> n)"
begin

lemma append_edits: "find xs n = None \<Longrightarrow> edits name_of n (Some x) xs (xs @ [x])"
  unfolding find_None edits_def by (intro exI [of _ xs] exI [of _ "[]"]) auto

lemma split_slot:
  assumes "find xs n = Some i"
  shows "xs = take i xs @ [xs ! i] @ drop (Suc i) xs"
  using find_Some [OF assms] id_take_nth_drop by auto

lemma replace_edits:
  assumes "find xs n = Some i"
  shows "edits name_of n (Some x) xs (xs[i := x])"
  unfolding edits_def
  using find_Some [OF assms] split_slot [OF assms]
  by (intro exI [of _ "take i xs"] exI [of _ "[xs ! i]"] exI [of _ "drop (Suc i) xs"])
    (simp add: upd_conv_take_nth_drop)

lemma drop_edits:
  assumes "find xs n = Some i"
  shows "edits name_of n None xs (take i xs @ drop (Suc i) xs)"
  unfolding edits_def
  using find_Some [OF assms] split_slot [OF assms]
  by (intro exI [of _ "take i xs"] exI [of _ "[xs ! i]"] exI [of _ "drop (Suc i) xs"]) simp

text \<open>Looking a name up after each change.\<close>

lemma find_written:
  assumes "edits name_of n (Some x) old upd" and "name_of x = n"
  shows "\<exists>i. find upd n = Some i \<and> upd ! i = x"
proof -
  from assms(1) obtain pre post where u: "upd = pre @ x # post" "\<forall>y \<in> set pre. name_of y \<noteq> n"
    unfolding edits_def by auto
  then have "find upd n \<noteq> None" using assms(2) by (auto simp: find_None)
  then obtain i where i: "find upd n = Some i" by auto
  from find_Some [OF this] have f: "i < length upd" "name_of (upd ! i) = n" "\<forall>y \<in> set (take i upd). name_of y \<noteq> n"
    by auto
  have "\<not> i < length pre" using f(2) u by (metis nth_append nth_mem)
  moreover have "\<not> length pre < i"
  proof
    assume "length pre < i"
    then have "x \<in> set (take i upd)"
      using u(1) by (cases "i - length pre") simp_all
    with f(3) assms(2) show False by blast
  qed
  ultimately show ?thesis using u(1) i by (auto simp: nth_append)
qed

lemma find_other:
  assumes "edits name_of n new old upd" and "\<And>x. new = Some x \<Longrightarrow> name_of x = n" and "m \<noteq> n"
  shows "map_option ((!) upd) (find upd m) = map_option ((!) old) (find old m)"
proof -
  have *: "map_option ((!) xs) (find xs m) = (case filter (\<lambda>x. name_of x = m) xs of [] \<Rightarrow> None | x # _ \<Rightarrow> Some x)" for xs
  proof (cases "find xs m")
    case None
    then have "filter (\<lambda>x. name_of x = m) xs = []" by (auto simp: find_None filter_empty_conv)
    then show ?thesis using None by simp
  next
    case (Some i)
    have "filter (\<lambda>x. name_of x = m) xs
        = filter (\<lambda>x. name_of x = m) (take i xs) @ filter (\<lambda>x. name_of x = m) ([xs ! i] @ drop (Suc i) xs)"
      using split_slot [OF Some] by (metis filter_append)
    moreover have "filter (\<lambda>x. name_of x = m) (take i xs) = []"
      using find_Some [OF Some] by (auto simp: filter_empty_conv)
    ultimately have "filter (\<lambda>x. name_of x = m) xs = xs ! i # filter (\<lambda>x. name_of x = m) (drop (Suc i) xs)"
      using find_Some [OF Some] by simp
    then show ?thesis using Some by simp
  qed
  have "filter (\<lambda>x. name_of x = m) xs = filter (\<lambda>x. name_of x = m) (filter (\<lambda>x. name_of x \<noteq> n) xs)" for xs
    using assms(3) by (induction xs) auto
  then have "filter (\<lambda>x. name_of x = m) upd = filter (\<lambda>x. name_of x = m) old"
    using edits_siblings [OF assms(1,2)] by metis
  then show ?thesis using * by simp
qed

end

end
