(* ===== verification/Router_Nat.thy ===== *)
theory Router_Nat
  imports Compute_Api Slot_Array
begin

text \<open>
  Cloud NAT (\<^verbatim>\<open>src/pkg/resources/compute/router_nat.go\<close>): a NAT is an element of its router's
  \<^verbatim>\<open>nats\<close> array, and every change is a read-modify-write of that array.
\<close>

definition nat_config :: "Config option \<Rightarrow> 'w BaseResource" where
  "nat_config cfg =
     \<lparr>b_Config = cfg, b_APIConfig = ComputeAPI, b_OperationConfig = ComputeOperations,
      b_ResourceConfig =
        \<lparr>rc_ResourceType = ''routers'', rc_Scope = Some ScopeRegional, rc_ParentResource = None,
         rc_SupportsUpdate = False, rc_UpdateMethod = UpdateMethodUnset, rc_UpdateQueryParams = [],
         rc_UpdateMaskFromBody = False, rc_DeleteQueryParams = [], rc_OptimisticLocking = None,
         rc_RequestWrapper = [], rc_ListItemsKey = [], rc_ReadTreatAsMissing = None,
         rc_ReadErrorTreatAsMissing = None, rc_CreateIDParam = []\<rparr>,
      b_NativeIDConfig = ComputeNativeID, b_RequestTransformer = None, b_ResponseTransformer = None\<rparr>"

section \<open>Identifiers\<close>

record nat_id =
  nid_project :: string
  nid_region :: string
  nid_router :: string
  nid_nat :: string

definition natRequestIDDelim :: string where "natRequestIDDelim = ''|nat=''"

definition encodeNatRequestID :: "string \<Rightarrow> string \<Rightarrow> string" where
  "encodeNatRequestID opPath natID = opPath @ natRequestIDDelim @ natID"

definition parseNatRequestID :: "string \<Rightarrow> string \<times> string" where
  "parseNatRequestID requestID =
     (case Index requestID natRequestIDDelim of
        Some i \<Rightarrow> (take i requestID, drop (i + length natRequestIDDelim) requestID)
      | None \<Rightarrow> (requestID, []))"

text \<open>
  The regular expression \<^verbatim>\<open>^projects/([^/]+)/regions/([^/]+)/routers/([^/]+)/nats/([^/]+)$\<close>, on
  the segments between slashes.
\<close>

definition parseNatNativeID :: "string \<Rightarrow> goerr + nat_id" where
  "parseNatNativeID ident =
     (case Split ident CHR ''/'' of
        [a, project, b, region, c, router, d, natName] \<Rightarrow>
          if a = ''projects'' \<and> project \<noteq> [] \<and> b = ''regions'' \<and> region \<noteq> [] \<and> c = ''routers''
             \<and> router \<noteq> [] \<and> d = ''nats'' \<and> natName \<noteq> []
          then Inr \<lparr>nid_project = project, nid_region = region, nid_router = router, nid_nat = natName\<rparr>
          else Inl (ErrText (''invalid RouterNat NativeID: '' @ ident))
      | _ \<Rightarrow> Inl (ErrText (''invalid RouterNat NativeID: '' @ ident)))"

definition buildNatNativeID :: "nat_id \<Rightarrow> string" where
  "buildNatNativeID n =
     ''projects/'' @ nid_project n @ ''/regions/'' @ nid_region n @ ''/routers/'' @ nid_router n
       @ ''/nats/'' @ nid_nat n"

definition routerURL :: "string \<Rightarrow> string \<Rightarrow> string \<Rightarrow> string" where
  "routerURL project region router =
     ac_BaseURL ComputeAPI @ ''/projects/'' @ project @ ''/regions/'' @ region @ ''/routers/'' @ router"

definition routerRefName :: "json option \<Rightarrow> string" where
  "routerRefName v =
     (let s = string_or_empty (as_string v)
      in case LastIndex s CHR ''/'' of Some i \<Rightarrow> drop (i + 1) s | None \<Rightarrow> s)"

section \<open>The array of NATs\<close>

definition formaeOnlyProps :: "string list" where
  "formaeOnlyProps = [''router'', ''region'', ''target'', ''stack'', ''label'']"

definition natBodyFromProps :: "obj \<Rightarrow> obj" where
  "natBodyFromProps props = filter (\<lambda>(k, v). k \<notin> set formaeOnlyProps) props"

fun nat_name :: "json \<Rightarrow> string" where
  "nat_name (JObj n) = GetString n ''name''"
| "nat_name _ = []"

fun findNat :: "json list \<Rightarrow> string \<Rightarrow> nat option" where
  "findNat [] name = None"
| "findNat (n # nats) name = (if nat_name n = name then Some 0 else map_option Suc (findNat nats name))"

definition natsOf :: "obj \<Rightarrow> json list" where
  "natsOf router = (case as_arr (map_of router ''nats'') of Some xs \<Rightarrow> xs | None \<Rightarrow> [])"

text \<open>The three changes: append, replace a slot, drop a slot.\<close>

definition append_nat :: "json list \<Rightarrow> obj \<Rightarrow> json list" where
  "append_nat nats props = nats @ [JObj (natBodyFromProps props)]"

definition replace_nat :: "json list \<Rightarrow> nat \<Rightarrow> obj \<Rightarrow> json list" where
  "replace_nat nats idx props = nats[idx := JObj (natBodyFromProps props)]"

definition prune_nat :: "json list \<Rightarrow> nat \<Rightarrow> json list" where
  "prune_nat nats idx = take idx nats @ drop (Suc idx) nats"

section \<open>Requests\<close>

text \<open>\<^verbatim>\<open>fetchRouter\<close>: \<^const>\<open>None\<close> when the router is gone.\<close>

definition fetchRouter ::
    "'w env \<Rightarrow> Client \<Rightarrow> string \<Rightarrow> string \<Rightarrow> string \<Rightarrow> 'w machine \<Rightarrow> (goerr + obj option) \<times> 'w machine" where
  "fetchRouter E client project region router s =
     (case SendRequest E client (request_options ''GET'' (routerURL project region router) None) s of
        (Inl e, s1) \<Rightarrow>
          (let te = wrap_err e ''failed to read router''
           in if ToResourceErrorCode (te_Code te) = NotFound then (Inr None, s1)
              else (Inl (terror_err te), s1))
      | (Inr resp, s1) \<Rightarrow> (Inr (rs_Body resp), s1))"

definition patchNats ::
    "'w env \<Rightarrow> Client \<Rightarrow> string \<Rightarrow> string \<Rightarrow> string \<Rightarrow> json list \<Rightarrow> 'w machine
      \<Rightarrow> (goerr + Response) \<times> 'w machine" where
  "patchNats E client project region router nats s =
     SendRequest E client
       (request_options ''PATCH'' (routerURL project region router) (Some [(''nats'', JArr nats)])) s"

definition nat_failure :: "Operation \<Rightarrow> OperationErrorCode \<Rightarrow> string \<Rightarrow> ProgressResult" where
  "nat_failure operation code msg =
     (progress operation OperationStatusFailure)\<lparr>pr_ErrorCode := code, pr_Message := msg\<rparr>"

definition nat_in_progress :: "Operation \<Rightarrow> nat_id \<Rightarrow> obj option \<Rightarrow> string \<Rightarrow> ProgressResult" where
  "nat_in_progress operation n body msg =
     (let nativeID = buildNatNativeID n;
          ctx = empty_ctx\<lparr>pc_Project := nid_project n, pc_Region := nid_region n, pc_ResourceType := ''routers''\<rparr>;
          opPath = buildComputeOperationURL ctx (extractComputeOperationID (obj_of body))
      in (progress operation OperationStatusInProgress)
           \<lparr>pr_NativeID := nativeID, pr_RequestID := encodeNatRequestID opPath nativeID, pr_Message := msg\<rparr>)"

text \<open>The last step of every change: send the array, report the operation.\<close>

definition patch_and_report ::
    "'w env \<Rightarrow> Client \<Rightarrow> Operation \<Rightarrow> nat_id \<Rightarrow> json list \<Rightarrow> string \<Rightarrow> ('w, ProgressResult) op" where
  "patch_and_report E client operation n nats msg s =
     (case patchNats E client (nid_project n) (nid_region n) (nid_router n) nats s of
        (Inl e, s1) \<Rightarrow>
          (let te = wrap_err e ''failed to patch router''
           in (Ok (nat_failure operation (ToResourceErrorCode (te_Code te)) (te_Message te)), s1))
      | (Inr resp, s1) \<Rightarrow> (Ok (nat_in_progress operation n (rs_Body resp) msg), s1))"

section \<open>Operations\<close>

definition Nat_Create :: "'w env \<Rightarrow> Config option \<Rightarrow> CreateRequest \<Rightarrow> ('w, ProgressResult) op" where
  "Nat_Create E cfg request s =
     (case NewClient E cfg s of
        (Inl e, s1) \<Rightarrow> (Err (client_error e), s1)
      | (Inr client, s1) \<Rightarrow>
     (case unmarshal_map (cr_Properties request) of
        Inl e \<Rightarrow> (Ok (nat_failure OperationCreate InvalidRequest (''invalid properties: '' @ e)), s1)
      | Inr raw_props \<Rightarrow>
          (let props = obj_of raw_props; name = GetString props ''name''; region = GetString props ''region'';
               router = routerRefName (map_of props ''router'');
               n = \<lparr>nid_project = c_Project (FromTargetConfig (cr_TargetConfig request) (Deps cfg)),
                    nid_region = region, nid_router = router, nid_nat = name\<rparr>
           in if name = [] \<or> region = [] \<or> router = [] then
                (Ok (nat_failure OperationCreate InvalidRequest
                       ''RouterNat requires non-empty name, region, and router''), s1)
              else case fetchRouter E client (nid_project n) region router s1 of
                (Inl e, s2) \<Rightarrow> (Ok (nat_failure OperationCreate ServiceInternalError (err_text e)), s2)
              | (Inr None, s2) \<Rightarrow>
                  (Ok (nat_failure OperationCreate NotFound
                         (''parent router '' @ router @ '' not found in region '' @ region)), s2)
              | (Inr (Some parent), s2) \<Rightarrow>
                  (case findNat (natsOf parent) name of
                     Some idx \<Rightarrow>
                       (Ok (nat_failure OperationCreate AlreadyExists
                              (''RouterNat '' @ name @ '' already exists on router '' @ router)), s2)
                   | None \<Rightarrow>
                       patch_and_report E client OperationCreate n (append_nat (natsOf parent) props)
                         ''RouterNat creation in progress'' s2))))"

definition hidden_nat_fields :: "string list" where
  "hidden_nat_fields =
     [''effectiveTcpTimeWaitTimeoutSec'', ''enableEndpointIndependentMapping'', ''type'',
      ''autoNetworkTier'', ''endpointTypes'']"

definition nat_properties :: "nat_id \<Rightarrow> json \<Rightarrow> obj" where
  "nat_properties n entry =
     filter (\<lambda>(k, v). k \<notin> set hidden_nat_fields)
       (AList.update ''region'' (JStr (nid_region n))
         (AList.update ''router'' (JStr (nid_router n)) (obj_of (as_obj (Some entry)))))"

definition Nat_Read :: "'w env \<Rightarrow> Config option \<Rightarrow> ReadRequest \<Rightarrow> ('w, ReadResult) op" where
  "Nat_Read E cfg request s =
     (case parseNatNativeID (rd_NativeID request) of
        Inl e \<Rightarrow> (Ok (read_error InvalidRequest), s)
      | Inr n \<Rightarrow>
     (case NewClient E cfg s of
        (Inl e, s1) \<Rightarrow> (Err (client_error e), s1)
      | (Inr client, s1) \<Rightarrow>
     (case fetchRouter E client (nid_project n) (nid_region n) (nid_router n) s1 of
        (Inl e, s2) \<Rightarrow> (Ok (read_error ServiceInternalError), s2)
      | (Inr None, s2) \<Rightarrow> (Ok (read_error NotFound), s2)
      | (Inr (Some parent), s2) \<Rightarrow>
          (case findNat (natsOf parent) (nid_nat n) of
             None \<Rightarrow> (Ok (read_error NotFound), s2)
           | Some idx \<Rightarrow>
               (Ok (case Marshal (JObj (nat_properties n (natsOf parent ! idx))) of
                      Inr r \<Rightarrow> read_properties r | Inl e \<Rightarrow> read_error NoErrorCode), s2)))))"

definition Nat_Update :: "'w env \<Rightarrow> Config option \<Rightarrow> UpdateRequest \<Rightarrow> ('w, ProgressResult) op" where
  "Nat_Update E cfg request s =
     (case parseNatNativeID (up_NativeID request) of
        Inl e \<Rightarrow> (Ok (nat_failure OperationUpdate InvalidRequest (err_text e)), s)
      | Inr n \<Rightarrow>
     (case unmarshal_map (up_DesiredProperties request) of
        Inl e \<Rightarrow> (Ok (nat_failure OperationUpdate InvalidRequest (''invalid desired properties: '' @ e)), s)
      | Inr desired \<Rightarrow>
     (case NewClient E cfg s of
        (Inl e, s1) \<Rightarrow> (Err (client_error e), s1)
      | (Inr client, s1) \<Rightarrow>
     (case fetchRouter E client (nid_project n) (nid_region n) (nid_router n) s1 of
        (Inl e, s2) \<Rightarrow> (Ok (nat_failure OperationUpdate ServiceInternalError (err_text e)), s2)
      | (Inr None, s2) \<Rightarrow>
          (Ok (nat_failure OperationUpdate NotFound (''router '' @ nid_router n @ '' not found'')), s2)
      | (Inr (Some parent), s2) \<Rightarrow>
          (case findNat (natsOf parent) (nid_nat n) of
             None \<Rightarrow>
               (Ok (nat_failure OperationUpdate NotFound
                      (''nat '' @ nid_nat n @ '' not found on router '' @ nid_router n)), s2)
           | Some idx \<Rightarrow>
               patch_and_report E client OperationUpdate n
                 (replace_nat (natsOf parent) idx (obj_of desired))
                 ''RouterNat update in progress'' s2)))))"

definition Nat_Delete :: "'w env \<Rightarrow> Config option \<Rightarrow> DeleteRequest \<Rightarrow> ('w, ProgressResult) op" where
  "Nat_Delete E cfg request s =
     (case parseNatNativeID (dl_NativeID request) of
        Inl e \<Rightarrow> (Ok (nat_failure OperationDelete InvalidRequest (err_text e)), s)
      | Inr n \<Rightarrow>
     (case NewClient E cfg s of
        (Inl e, s1) \<Rightarrow> (Err (client_error e), s1)
      | (Inr client, s1) \<Rightarrow>
     (case fetchRouter E client (nid_project n) (nid_region n) (nid_router n) s1 of
        (Inl e, s2) \<Rightarrow> (Ok (nat_failure OperationDelete ServiceInternalError (err_text e)), s2)
      | (Inr None, s2) \<Rightarrow>
          (Ok ((progress OperationDelete OperationStatusSuccess)
                 \<lparr>pr_Message := ''parent router already deleted''\<rparr>), s2)
      | (Inr (Some parent), s2) \<Rightarrow>
          (case findNat (natsOf parent) (nid_nat n) of
             None \<Rightarrow>
               (Ok ((progress OperationDelete OperationStatusSuccess)
                      \<lparr>pr_Message := ''RouterNat already absent''\<rparr>), s2)
           | Some idx \<Rightarrow>
               patch_and_report E client OperationDelete n (prune_nat (natsOf parent) idx)
                 ''RouterNat deletion in progress'' s2))))"

definition router_nat_ids :: "string \<Rightarrow> string \<Rightarrow> json \<Rightarrow> string list" where
  "router_nat_ids project region item =
     (let router = obj_of (as_obj (Some item)); routerName = GetString router ''name''
      in concat (map (\<lambda>n. if routerName \<noteq> [] \<and> nat_name n \<noteq> []
                           then [buildNatNativeID \<lparr>nid_project = project, nid_region = region,
                                   nid_router = routerName, nid_nat = nat_name n\<rparr>]
                           else []) (natsOf router)))"

definition Nat_List :: "'w env \<Rightarrow> Config option \<Rightarrow> ListRequest \<Rightarrow> ('w, ListResult) op" where
  "Nat_List E cfg request s =
     (case NewClient E cfg s of
        (Inl e, s1) \<Rightarrow> (Err (client_error e), s1)
      | (Inr client, s1) \<Rightarrow>
          (let c = FromTargetConfig (ls_TargetConfig request) (Deps cfg)
           in if c_Region c = [] then (Ok \<lparr>lr_NativeIDs = [], lr_NextPageToken = None\<rparr>, s1)
              else case SendRequest E client
                     (request_options ''GET''
                        (ac_BaseURL ComputeAPI @ ''/projects/'' @ c_Project c @ ''/regions/'' @ c_Region c
                           @ ''/routers'') None) s1 of
                (Inl e, s2) \<Rightarrow> (Err (terror_err (wrap_err e ''failed to list routers'')), s2)
              | (Inr resp, s2) \<Rightarrow>
                  (let items = (case as_arr (map_of (obj_of (rs_Body resp)) ''items'') of
                                  Some xs \<Rightarrow> xs | None \<Rightarrow> [])
                   in (Ok \<lparr>lr_NativeIDs = concat (map (router_nat_ids (c_Project c) (c_Region c)) items),
                           lr_NextPageToken = None\<rparr>, s2))))"

definition nat_status :: "StatusRequest \<Rightarrow> string \<Rightarrow> OperationStatus \<Rightarrow> OperationErrorCode \<Rightarrow> string \<Rightarrow> ProgressResult" where
  "nat_status request natID st code msg =
     (progress OperationCheckStatus st)
       \<lparr>pr_ErrorCode := code, pr_Message := msg, pr_RequestID := st_RequestID request, pr_NativeID := natID\<rparr>"

definition nat_read_back ::
    "'w env \<Rightarrow> Config option \<Rightarrow> StatusRequest \<Rightarrow> string \<Rightarrow> ProgressResult \<Rightarrow> ('w, ProgressResult) op" where
  "nat_read_back E cfg request natID r s =
     (if natID = [] then (Ok r, s)
      else case Nat_Read E cfg (status_read_request request natID) s of
        (Panic p, s1) \<Rightarrow> (Panic p, s1)
      | (Err e, s1) \<Rightarrow> (Ok r, s1)
      | (Ok rr, s1) \<Rightarrow>
          (Ok (if rr_ErrorCode rr = NoErrorCode \<and> rr_Properties rr \<noteq> None
               then r\<lparr>pr_Properties := rr_Properties rr\<rparr> else r), s1))"

definition Nat_Status :: "'w env \<Rightarrow> Config option \<Rightarrow> StatusRequest \<Rightarrow> ('w, ProgressResult) op" where
  "Nat_Status E cfg request s =
     (case parseNatRequestID (st_RequestID request) of
        (opPath, natID) \<Rightarrow>
          if opPath = [] then
            (Ok ((progress OperationCheckStatus OperationStatusFailure)
                   \<lparr>pr_ErrorCode := InvalidRequest, pr_Message := ''RequestID missing operation path'',
                    pr_RequestID := st_RequestID request\<rparr>), s)
          else case NewClient E cfg s of
            (Inl e, s1) \<Rightarrow> (Err (client_error e), s1)
          | (Inr client, s1) \<Rightarrow>
              (case SendRequest E client
                      (request_options ''GET'' (ac_BaseURL ComputeAPI @ ''/'' @ opPath) None) s1 of
                 (Inl e, s2) \<Rightarrow>
                   (let te = wrap_err e ''failed to get operation status''
                    in (Ok (nat_status request natID OperationStatusFailure
                              (ToResourceErrorCode (te_Code te)) (te_Message te)), s2))
               | (Inr resp, s2) \<Rightarrow>
                   (case checkComputeOperationStatus (obj_of (rs_Body resp)) of
                      (done, Some e) \<Rightarrow>
                        (Ok (nat_status request natID OperationStatusFailure ServiceInternalError (err_text e)), s2)
                    | (False, None) \<Rightarrow>
                        (Ok (nat_status request natID OperationStatusInProgress NoErrorCode
                               ''Operation in progress''), s2)
                    | (True, None) \<Rightarrow>
                        nat_read_back E cfg request natID
                          (nat_status request natID OperationStatusSuccess NoErrorCode
                             ''Operation completed successfully'') s2)))"

section \<open>Identifiers read back\<close>

definition nat_id_valid :: "nat_id \<Rightarrow> bool" where
  "nat_id_valid n \<longleftrightarrow> (\<forall>x \<in> {nid_project n, nid_region n, nid_router n, nid_nat n}. x \<noteq> [] \<and> seg x)"

interpretation nat_codec: id_codec buildNatNativeID parseNatNativeID nat_id_valid
proof
  fix n assume "nat_id_valid n"
  then show "parseNatNativeID (buildNatNativeID n) = Inr n"
    by (simp add: nat_id_valid_def buildNatNativeID_def parseNatNativeID_def segment)
next
  fix ident n assume p: "parseNatNativeID ident = Inr n"
  then obtain project region router natName
    where "Split ident CHR ''/'' = [''projects'', project, ''regions'', region, ''routers'', router, ''nats'', natName]"
      "project \<noteq> []" "region \<noteq> []" "router \<noteq> []" "natName \<noteq> []"
      "n = \<lparr>nid_project = project, nid_region = region, nid_router = router, nid_nat = natName\<rparr>"
    by (auto simp: parseNatNativeID_def split: list.splits if_splits)
  moreover have "\<forall>x \<in> set (Split ident CHR ''/''). seg x" using Split_member_seg by blast
  moreover have "Join (Split ident CHR ''/'') ''/'' = ident" by (rule Join_Split)
  ultimately show "nat_id_valid n \<and> buildNatNativeID n = ident"
    by (simp add: nat_id_valid_def buildNatNativeID_def)
qed

lemma nat_request_id_roundtrip:
  assumes "CHR ''|'' \<notin> set opPath"
  shows "parseNatRequestID (encodeNatRequestID opPath natID) = (opPath, natID)"
proof -
  have "Index (opPath @ natRequestIDDelim @ natID) natRequestIDDelim = Some (length opPath)"
    using assms by (induction opPath) (auto simp: natRequestIDDelim_def HasPrefix_def)
  then show ?thesis by (simp add: parseNatRequestID_def encodeNatRequestID_def)
qed

section \<open>What a change writes\<close>

interpretation nat_slots: slot_array nat_name findNat
proof
  show none: "findNat xs n = None \<longleftrightarrow> n \<notin> nat_name ` set xs" for xs n
    by (induction xs) auto
  show "findNat xs n = Some i \<Longrightarrow>
      i < length xs \<and> nat_name (xs ! i) = n \<and> (\<forall>x \<in> set (take i xs). nat_name x \<noteq> n)" for xs n i
    by (induction xs arbitrary: i) (auto split: if_splits)
qed

text \<open>The three requests that change a router, the NAT each is about, and the entry it wants there.\<close>

datatype nat_change = NatCreate CreateRequest | NatUpdate UpdateRequest | NatDelete DeleteRequest

fun run_change :: "'w env \<Rightarrow> Config option \<Rightarrow> nat_change \<Rightarrow> ('w, ProgressResult) op" where
  "run_change E cfg (NatCreate r) = Nat_Create E cfg r"
| "run_change E cfg (NatUpdate r) = Nat_Update E cfg r"
| "run_change E cfg (NatDelete r) = Nat_Delete E cfg r"

fun change_target :: "Config option \<Rightarrow> nat_change \<Rightarrow> nat_id option" where
  "change_target cfg (NatCreate r) =
     (case unmarshal_map (cr_Properties r) of
        Inl e \<Rightarrow> None
      | Inr m \<Rightarrow> Some \<lparr>nid_project = c_Project (FromTargetConfig (cr_TargetConfig r) (Deps cfg)),
          nid_region = GetString (obj_of m) ''region'', nid_router = routerRefName (map_of (obj_of m) ''router''),
          nid_nat = GetString (obj_of m) ''name''\<rparr>)"
| "change_target cfg (NatUpdate r) = (case parseNatNativeID (up_NativeID r) of Inr n \<Rightarrow> Some n | Inl e \<Rightarrow> None)"
| "change_target cfg (NatDelete r) = (case parseNatNativeID (dl_NativeID r) of Inr n \<Rightarrow> Some n | Inl e \<Rightarrow> None)"

fun change_entry :: "nat_change \<Rightarrow> json option" where
  "change_entry (NatCreate r) =
     (case unmarshal_map (cr_Properties r) of Inr m \<Rightarrow> Some (JObj (natBodyFromProps (obj_of m))) | Inl e \<Rightarrow> None)"
| "change_entry (NatUpdate r) =
     (case unmarshal_map (up_DesiredProperties r) of Inr m \<Rightarrow> Some (JObj (natBodyFromProps (obj_of m))) | Inl e \<Rightarrow> None)"
| "change_entry (NatDelete r) = None"

text \<open>The request that writes an array of NATs to a router.\<close>

definition writes_nats :: "nat_id \<Rightarrow> json list \<Rightarrow> http_request \<Rightarrow> bool" where
  "writes_nats n nats req \<longleftrightarrow>
     hq_Method req = ''PATCH''
     \<and> AddQueryParam (routerURL (nid_project n) (nid_region n) (nid_router n)) ''alt'' ''json'' = Inr (hq_URL req)
     \<and> hq_Body req = JsonBody (RawDoc (JObj [(''nats'', JArr nats)]))"

lemma patch_and_report_sent:
  assumes "patch_and_report (logged E) client operation n nats msg s = (r, s')"
  shows "(\<exists>p. r = Ok p \<and> pr_Status p = OperationStatusFailure) \<and> sent s' = sent s
       \<or> (\<exists>req p. r = Ok p \<and> sent s' = sent s @ [req] \<and> writes_nats n nats req)"
proof -
  define opts where "opts = request_options ''PATCH''
      (routerURL (nid_project n) (nid_region n) (nid_router n)) (Some [(''nats'', JArr nats)])"
  obtain a s2 where a: "SendRequest (logged E) client opts s = (a, s2)" by (metis surj_pair)
  have r: "(r, s') = (case a of
        Inl e \<Rightarrow> (let te = wrap_err e ''failed to patch router''
           in (Ok (nat_failure operation (ToResourceErrorCode (te_Code te)) (te_Message te)), s2))
      | Inr resp \<Rightarrow> (Ok (nat_in_progress operation n (rs_Body resp) msg), s2))"
    using assms a by (simp add: patch_and_report_def patchNats_def opts_def split: sum.splits)
  have w: "writes_nats n nats req" if "sends client opts req" for req
    using that by (auto simp: writes_nats_def sends_def opts_def request_options_def request_body_def Marshal_def
        split: sum.splits if_splits)
  from SendRequest_logged [OF a] show ?thesis
  proof
    assume "sent s2 = sent s \<and> (\<exists>e. a = Inl e)"
    with r show ?thesis by (auto simp: nat_failure_def Let_def)
  next
    assume "\<exists>req. sends client opts req \<and> sent s2 = sent s @ [req]"
    with r w show ?thesis by (cases a) (auto simp: Let_def)
  qed
qed

definition unwritten :: "(goerr, ProgressResult) outcome \<Rightarrow> bool" where
  "unwritten r \<longleftrightarrow> (\<exists>p. r = Ok p \<and> pr_Status p \<in> {OperationStatusFailure, OperationStatusSuccess})"

lemma change_patches:
  assumes "change_target cfg q = Some n"
    and "NewClient (logged E) cfg s = (Inr client, s1)"
    and "fetchRouter (logged E) client (nid_project n) (nid_region n) (nid_router n) s1 = (Inr (Some parent), s2)"
    and "run_change (logged E) cfg q s = (r, s')"
  shows "unwritten r \<and> s' \<in> {s, s1, s2}
     \<or> (\<exists>operation nats msg. patch_and_report (logged E) client operation n nats msg s2 = (r, s')
          \<and> edits nat_name (nid_nat n) (change_entry q) (natsOf parent) nats)"
proof (cases q)
  case (NatCreate request)
  with assms(1) obtain m where m: "unmarshal_map (cr_Properties request) = Inr m"
    by (auto split: sum.splits)
  show ?thesis
  proof (cases "nid_nat n = [] \<or> nid_region n = [] \<or> nid_router n = [] \<or> findNat (natsOf parent) (nid_nat n) \<noteq> None")
    case True
    with assms NatCreate m show ?thesis
      by (auto simp: Nat_Create_def unwritten_def nat_failure_def Let_def split: if_splits)
  next
    case False
    with assms NatCreate m have "patch_and_report (logged E) client OperationCreate n
        (natsOf parent @ [JObj (natBodyFromProps (obj_of m))]) ''RouterNat creation in progress'' s2 = (r, s')"
      by (auto simp: Nat_Create_def append_nat_def Let_def)
    moreover have "edits nat_name (nid_nat n) (change_entry q) (natsOf parent)
        (natsOf parent @ [JObj (natBodyFromProps (obj_of m))])"
      using False NatCreate m nat_slots.append_edits by simp
    ultimately show ?thesis by blast
  qed
next
  case (NatUpdate request)
  with assms(1) have n: "parseNatNativeID (up_NativeID request) = Inr n" by (simp split: sum.splits)
  show ?thesis
  proof (cases "\<exists>m i. unmarshal_map (up_DesiredProperties request) = Inr m \<and> findNat (natsOf parent) (nid_nat n) = Some i")
    case True
    then obtain m i where m: "unmarshal_map (up_DesiredProperties request) = Inr m"
      and i: "findNat (natsOf parent) (nid_nat n) = Some i" by blast
    with assms n NatUpdate have "patch_and_report (logged E) client OperationUpdate n
        ((natsOf parent)[i := JObj (natBodyFromProps (obj_of m))]) ''RouterNat update in progress'' s2 = (r, s')"
      by (auto simp: Nat_Update_def replace_nat_def)
    moreover have "edits nat_name (nid_nat n) (change_entry q) (natsOf parent)
        ((natsOf parent)[i := JObj (natBodyFromProps (obj_of m))])"
      using i m NatUpdate nat_slots.replace_edits by simp
    ultimately show ?thesis by blast
  next
    case False
    with assms n NatUpdate show ?thesis
      by (cases "unmarshal_map (up_DesiredProperties request)"; cases "findNat (natsOf parent) (nid_nat n)")
        (auto simp: Nat_Update_def unwritten_def nat_failure_def)
  qed
next
  case (NatDelete request)
  with assms(1) have n: "parseNatNativeID (dl_NativeID request) = Inr n" by (simp split: sum.splits)
  show ?thesis
  proof (cases "findNat (natsOf parent) (nid_nat n)")
    case None
    with assms n NatDelete show ?thesis by (auto simp: Nat_Delete_def unwritten_def progress_def)
  next
    case (Some i)
    with assms n NatDelete have "patch_and_report (logged E) client OperationDelete n
        (take i (natsOf parent) @ drop (Suc i) (natsOf parent)) ''RouterNat deletion in progress'' s2 = (r, s')"
      by (auto simp: Nat_Delete_def prune_nat_def)
    moreover have "edits nat_name (nid_nat n) (change_entry q) (natsOf parent)
        (take i (natsOf parent) @ drop (Suc i) (natsOf parent))"
      using Some NatDelete nat_slots.drop_edits by simp
    ultimately show ?thesis by blast
  qed
qed

text \<open>
  C2: A change of one NAT leaves the others alone. Once the router was read, a create, update or
  delete of a NAT either writes nothing (and reports a failure, or that there is nothing to do), or
  sends one PATCH of that router whose array is the one read with exactly the NAT's own entry
  added, replaced or dropped; so every NAT of another name is written back as it was read, in the
  same order.
\<close>
theorem nat_change_keeps_siblings:
  assumes "change_target cfg q = Some n"
    and "NewClient (logged E) cfg s = (Inr client, s1)"
    and "fetchRouter (logged E) client (nid_project n) (nid_region n) (nid_router n) s1 = (Inr (Some parent), s2)"
    and "run_change (logged E) cfg q s = (r, s')"
    and "\<And>x. change_entry q = Some x \<Longrightarrow> nat_name x = nid_nat n"
  shows "unwritten r \<and> sent s' \<in> {sent s, sent s2}
     \<or> (\<exists>req nats. sent s' = sent s2 @ [req] \<and> writes_nats n nats req
          \<and> edits nat_name (nid_nat n) (change_entry q) (natsOf parent) nats
          \<and> filter (\<lambda>x. nat_name x \<noteq> nid_nat n) nats = filter (\<lambda>x. nat_name x \<noteq> nid_nat n) (natsOf parent))"
  using change_patches [OF assms(1-4)]
proof
  assume "unwritten r \<and> s' \<in> {s, s1, s2}"
  then show ?thesis using NewClient_sent [OF assms(2)] by auto
next
  assume "\<exists>operation nats msg. patch_and_report (logged E) client operation n nats msg s2 = (r, s')
     \<and> edits nat_name (nid_nat n) (change_entry q) (natsOf parent) nats"
  then obtain operation nats msg where p: "patch_and_report (logged E) client operation n nats msg s2 = (r, s')"
    and e: "edits nat_name (nid_nat n) (change_entry q) (natsOf parent) nats" by blast
  from patch_and_report_sent [OF p] e edits_siblings [OF e assms(5)] show ?thesis
    by (auto simp: unwritten_def)
qed

text \<open>A router with two NATs, one of which is deleted.\<close>

definition demo_nat :: nat_id where
  "demo_nat = \<lparr>nid_project = ''p'', nid_region = ''r'', nid_router = ''rt'', nid_nat = ''a''\<rparr>"

definition demo_router :: obj where
  "demo_router = [(''nats'', JArr [JObj [(''name'', JStr ''a'')], JObj [(''name'', JStr ''b'')]])]"

definition demo_delete :: DeleteRequest where
  "demo_delete = \<lparr>dl_NativeID = buildNatNativeID demo_nat, dl_ResourceType = ''T'', dl_TargetConfig = RawNil\<rparr>"

lemma demo_router_url: "Parse (routerURL ''p'' ''r'' ''rt'') \<noteq> None"
  by (simp add: routerURL_def ComputeAPI_def Parse_def before_def control_char_def Let_def)

lemma demo_nat_parses: "parseNatNativeID (dl_NativeID demo_delete) = Inr demo_nat"
  by (simp add: demo_delete_def nat_codec.parse_build nat_id_valid_def demo_nat_def)

lemma demo_nat_sel: "nid_project demo_nat = ''p''" "nid_region demo_nat = ''r''" "nid_router demo_nat = ''rt''"
  "nid_nat demo_nat = ''a''"
  by (simp_all add: demo_nat_def)

lemma demo_nats: "findNat (natsOf demo_router) ''a'' = Some 0"
  "prune_nat (natsOf demo_router) 0 = [JObj [(''name'', JStr ''b'')]]"
  "filter (\<lambda>x. nat_name x \<noteq> ''a'') (natsOf demo_router) = [JObj [(''name'', JStr ''b'')]]"
  by (simp_all add: natsOf_def demo_router_def prune_nat_def GetString_as_string string_or_empty_def)

lemma demo_fetch:
  "\<exists>get. fetchRouter (logged script_env) demo_client ''p'' ''r'' ''rt'' (script_start (scripted 200 (JObj demo_router) # rest))
     = (Inr (Some demo_router), (script_start [])\<lparr>m_world := (rest, [get])\<rparr>)"
  using script_accepts [OF demo_router_url methods_ok(1), of None NoBody "script_start (scripted 200 (JObj demo_router) # rest)"
      200 demo_router rest "[]" demo_client]
  by (auto simp: fetchRouter_def request_body_def request_options_def script_start_def)

theorem nat_change_keeps_siblings_witness:
  "\<exists>r s' get req nats. run_change (logged script_env) (b_Config (demo :: demo_world BaseResource)) (NatDelete demo_delete)
       (script_start [scripted 200 (JObj demo_router), scripted 200 (JObj [])]) = (r, s')
     \<and> sent s' = [get, req] \<and> writes_nats demo_nat nats req
     \<and> filter (\<lambda>x. nat_name x \<noteq> ''a'') nats = [JObj [(''name'', JStr ''b'')]]"
proof -
  let ?s = "script_start [scripted 200 (JObj demo_router), scripted 200 (JObj [])]"
  obtain get where g: "fetchRouter (logged script_env) demo_client ''p'' ''r'' ''rt'' ?s
      = (Inr (Some demo_router), (script_start [])\<lparr>m_world := ([scripted 200 (JObj [])], [get])\<rparr>)"
    using demo_fetch by blast
  let ?s2 = "(script_start [])\<lparr>m_world := ([scripted 200 (JObj [])], [get])\<rparr>"
  let ?nats = "[JObj [(''name'', JStr ''b'')]]"
  obtain r s' where run: "run_change (logged script_env) (b_Config (demo :: demo_world BaseResource))
      (NatDelete demo_delete) ?s = (r, s')" by (metis surj_pair)
  have "request_body (request_options ''PATCH'' (routerURL ''p'' ''r'' ''rt'') (Some [(''nats'', JArr ?nats)]))
      = Inr (JsonBody (RawDoc (JObj [(''nats'', JArr ?nats)])))"
    by (simp add: request_body_def request_options_def Marshal_def)
  from script_accepts [OF demo_router_url methods_ok(4) this, of ?s2 200 "[]" "[]" "[get]" demo_client]
  obtain req resp where q: "patchNats (logged script_env) demo_client ''p'' ''r'' ''rt'' ?nats ?s2
      = (Inr resp, ?s2\<lparr>m_world := ([], [get, req])\<rparr>)"
    by (auto simp: patchNats_def)
  have "r = Ok (nat_in_progress OperationDelete demo_nat (rs_Body resp) ''RouterNat deletion in progress'')"
    using run g q by (simp add: Nat_Delete_def demo_nat_parses demo_NewClient patch_and_report_def demo_nats demo_nat_sel)
  then have "\<not> unwritten r" by (simp add: unwritten_def nat_in_progress_def Let_def)
  with nat_change_keeps_siblings [OF _ demo_NewClient _ run, of demo_nat demo_router ?s2] g demo_nat_parses
  show ?thesis using run
    by (auto simp: demo_nat_sel demo_nats sent_def)
qed

end
