(* ===== verification/Compute_Verbs.thy ===== *)
theory Compute_Verbs
  imports Router_Nat
begin

text \<open>
  What the hand-written Compute provisioners share: an object that lives inside a parent is changed
  by a verb on the parent, read out of the parent, and discovered by walking the parents
  (\<^verbatim>\<open>issueVerb\<close>, \<^verbatim>\<open>projectFor\<close> and \<^verbatim>\<open>regionFor\<close>, which each of them repeats, and
  \<^verbatim>\<open>src/pkg/resources/compute/collection_names.go\<close>).
\<close>

section \<open>Target and address\<close>

definition compute_base :: "Config option \<Rightarrow> string \<Rightarrow> ScopeType \<Rightarrow> 'w BaseResource" where
  "compute_base cfg resourceType scope =
     (nat_config cfg)\<lparr>b_ResourceConfig :=
        (b_ResourceConfig (nat_config cfg))\<lparr>rc_ResourceType := resourceType, rc_Scope := Some scope\<rparr>\<rparr>"

definition projectFor :: "raw \<Rightarrow> string \<Rightarrow> string" where
  "projectFor targetConfig fallback =
     (let p = tp_Project (PathFromTargetConfig targetConfig) in if p \<noteq> [] then p else fallback)"

definition regionFor :: "obj \<Rightarrow> raw \<Rightarrow> string \<Rightarrow> string" where
  "regionFor props targetConfig fallback =
     (let r = string_or_empty (as_string (map_of props ''region''));
          t = tp_Region (PathFromTargetConfig targetConfig)
      in if r \<noteq> [] then r else if t \<noteq> [] then t else fallback)"

text \<open>A string property, or the empty string; and one of the additional properties of a list.\<close>

definition prop_string :: "obj \<Rightarrow> string \<Rightarrow> string" where
  "prop_string props k = string_or_empty (as_string (map_of props k))"

definition extra :: "ListRequest \<Rightarrow> string \<Rightarrow> string" where
  "extra request k = (case map_of (ls_AdditionalProperties request) k of Some v \<Rightarrow> v | None \<Rightarrow> [])"

text \<open>The error of \<^verbatim>\<open>strconv.Atoi\<close>, and the value it returns beside it.\<close>

definition atoi_syntax :: "string \<Rightarrow> bool" where
  "atoi_syntax s =
     (let ds = (case s of c # t \<Rightarrow> if c \<in> {CHR ''-'', CHR ''+''} then t else s | [] \<Rightarrow> [])
      in ds \<noteq> [] \<and> list_all is_digit ds)"

definition atoi_error :: "string \<Rightarrow> goerr" where
  "atoi_error s =
     ErrText (''strconv.Atoi: parsing '' @ quoted s
       @ (if atoi_syntax s then '': value out of range'' else '': invalid syntax''))"

definition atoi_value :: "string \<Rightarrow> int" where
  "atoi_value s =
     (case Atoi s of
        Some i \<Rightarrow> i
      | None \<Rightarrow> if \<not> atoi_syntax s then 0 else if hd s = CHR ''-'' then min_int64 else max_int64)"

record part_id =
  pi_project :: string
  pi_region :: string
  pi_parent :: string
  pi_name :: string

definition part_located :: "raw \<Rightarrow> part_id \<Rightarrow> part_id" where
  "part_located target i = i\<lparr>pi_project := projectFor target (pi_project i)\<rparr>"

section \<open>Verbs\<close>

definition op_context :: "string \<Rightarrow> string \<Rightarrow> PathContext" where
  "op_context project region = empty_ctx\<lparr>pc_Project := project, pc_Region := region\<rparr>"

definition issue_verb ::
    "'w env \<Rightarrow> Config option \<Rightarrow> string \<Rightarrow> string \<Rightarrow> obj option \<Rightarrow> PathContext \<Rightarrow> 'w machine
      \<Rightarrow> (terror + string) \<times> 'w machine" where
  "issue_verb E cfg failed url body ctx s =
     (case NewClient E cfg s of
        (Inl e, s1) \<Rightarrow> (Inl (wrap_err e ''failed to create transport client''), s1)
      | (Inr client, s1) \<Rightarrow>
          (case SendRequest E client (request_options ''POST'' url body) s1 of
             (Inl e, s2) \<Rightarrow> (Inl (wrap_err e failed), s2)
           | (Inr resp, s2) \<Rightarrow>
               (Inr (buildComputeOperationURL ctx (extractComputeOperationID (obj_of (rs_Body resp)))), s2)))"

definition verb_started :: "Operation \<Rightarrow> string \<Rightarrow> string \<Rightarrow> string \<Rightarrow> ProgressResult" where
  "verb_started operation nativeID requestID msg =
     (progress operation OperationStatusInProgress)
       \<lparr>pr_NativeID := nativeID, pr_RequestID := requestID, pr_Message := msg\<rparr>"

definition verb_failed :: "Operation \<Rightarrow> terror \<Rightarrow> ProgressResult" where
  "verb_failed operation te = nat_failure operation (ToResourceErrorCode (te_Code te)) (te_Message te)"

definition verb_result ::
    "Operation \<Rightarrow> string \<Rightarrow> string \<Rightarrow> (terror + string) \<times> 'w machine
      \<Rightarrow> (goerr, ProgressResult) outcome \<times> 'w machine" where
  "verb_result operation nativeID msg rs =
     (case rs of
        (Inl te, s) \<Rightarrow> (Ok (verb_failed operation te), s)
      | (Inr rid, s) \<Rightarrow> (Ok (verb_started operation nativeID rid msg), s))"

definition compute_get ::
    "'w env \<Rightarrow> Client \<Rightarrow> string \<Rightarrow> string \<Rightarrow> 'w machine \<Rightarrow> (terror + obj option) \<times> 'w machine" where
  "compute_get E client url failed s =
     (case SendRequest E client (request_options ''GET'' url None) s of
        (Inl e, s1) \<Rightarrow> (Inl (wrap_err e failed), s1)
      | (Inr resp, s1) \<Rightarrow> (Inr (rs_Body resp), s1))"

text \<open>The answer of a Read that marshals the properties it put together.\<close>

definition marshalled :: "string \<Rightarrow> obj \<Rightarrow> (goerr, ReadResult) outcome" where
  "marshalled what props =
     (case Marshal (JObj props) of
        Inl e \<Rightarrow> Err (errorf_w (''failed to marshal '' @ what @ '' properties: '') (ErrText e))
      | Inr r \<Rightarrow> Ok (read_properties r))"

section \<open>What a verb sends\<close>

text \<open>The object that a request carries as its body.\<close>

definition carries :: "http_request \<Rightarrow> obj \<Rightarrow> bool" where
  "carries req m \<longleftrightarrow> hq_Body req = JsonBody (RawDoc (JObj m))"

lemma sends_carries: "sends c (request_options meth url (Some m)) req \<Longrightarrow> carries req m"
  by (auto simp: carries_def sends_def request_options_def request_body_def Marshal_def split: sum.splits if_splits)

text \<open>A POST of a body, or of none, to a URL.\<close>

definition posts_to :: "string \<Rightarrow> obj option \<Rightarrow> http_request \<Rightarrow> bool" where
  "posts_to url body req \<longleftrightarrow> hq_Method req = ''POST'' \<and> AddQueryParam url ''alt'' ''json'' = Inr (hq_URL req)
     \<and> hq_Body req = (case body of None \<Rightarrow> NoBody | Some m \<Rightarrow> JsonBody (RawDoc (JObj m)))"

lemma sends_posts: "sends c (request_options ''POST'' url body) req \<Longrightarrow> posts_to url body req"
  by (auto simp: posts_to_def sends_def request_options_def request_body_def Marshal_def
      split: option.splits sum.splits if_splits)

lemma posts_carries: "posts_to url (Some m) req \<Longrightarrow> carries req m"
  by (simp add: posts_to_def carries_def)

lemma issue_verb_sent:
  assumes "issue_verb (logged E) cfg failed url body ctx s = (r, s')"
  shows "(sent s' = sent s \<and> (\<exists>te. r = Inl te)) \<or> (\<exists>req. sent s' = sent s @ [req] \<and> posts_to url body req)"
proof -
  obtain q s1 where q: "NewClient (logged E) cfg s = (q, s1)" by (metis surj_pair)
  note s1 = NewClient_sent [OF q]
  show ?thesis
  proof (cases q)
    case (Inl e)
    with assms q s1 show ?thesis by (auto simp: issue_verb_def)
  next
    case (Inr client)
    obtain a s2 where a: "SendRequest (logged E) client (request_options ''POST'' url body) s1 = (a, s2)"
      by (metis surj_pair)
    have "s' = s2" using assms q Inr a by (simp add: issue_verb_def split: sum.splits)
    moreover have "\<exists>te. r = Inl te" if "a = Inl e" for e using assms q Inr a that by (auto simp: issue_verb_def)
    ultimately show ?thesis using SendRequest_logged [OF a] s1 sends_posts by auto
  qed
qed

lemma projectFor_fixed: "projectFor target [] \<noteq> [] \<Longrightarrow> projectFor target (projectFor target []) = projectFor target []"
  by (simp add: projectFor_def Let_def)

lemma verb_result_started:
  assumes "verb_result operation nativeID msg rs = (Ok p, s')" and "pr_Status p \<noteq> OperationStatusFailure"
  shows "pr_NativeID p = nativeID \<and> (\<exists>rid. rs = (Inr rid, s'))"
  using assms by (auto simp: verb_result_def verb_failed_def verb_started_def nat_failure_def split: prod.splits sum.splits)

section \<open>Walking the parents\<close>

definition array_of :: "obj \<Rightarrow> string \<Rightarrow> json list" where
  "array_of m k = (case as_arr (map_of m k) of Some xs \<Rightarrow> xs | None \<Rightarrow> [])"

definition names_of :: "string \<Rightarrow> json list \<Rightarrow> string list" where
  "names_of k xs = filter (\<lambda>n. n \<noteq> []) (map (\<lambda>m. prop_string m k) (objects xs))"

definition listComputeCollectionNames ::
    "'w env \<Rightarrow> Client \<Rightarrow> string \<Rightarrow> string \<Rightarrow> 'w machine \<Rightarrow> (terror + string list) \<times> 'w machine" where
  "listComputeCollectionNames E client url what s =
     (case compute_get E client url (''failed to list '' @ what) s of
        (Inl te, s1) \<Rightarrow> (Inl te, s1)
      | (Inr body, s1) \<Rightarrow> (Inr (names_of ''name'' (array_of (obj_of body) ''items'')), s1))"

text \<open>
  The loop over parents: an error ends it when the caller named the parent, and is passed over when
  the parents were discovered.
\<close>

fun walk_parents ::
    "bool \<Rightarrow> (string \<Rightarrow> 'w machine \<Rightarrow> (terror + string list) \<times> 'w machine) \<Rightarrow> string list \<Rightarrow> 'w machine
      \<Rightarrow> (terror + string list) \<times> 'w machine" where
  "walk_parents named f [] s = (Inr [], s)"
| "walk_parents named f (n # ns) s =
     (case f n s of
        (Inl te, s1) \<Rightarrow> if named then (Inl te, s1) else walk_parents named f ns s1
      | (Inr ids, s1) \<Rightarrow>
          (case walk_parents named f ns s1 of
             (Inl te, s2) \<Rightarrow> (Inl te, s2)
           | (Inr rest, s2) \<Rightarrow> (Inr (ids @ rest), s2)))"

definition listed :: "(terror + string list) \<times> 'w machine \<Rightarrow> (goerr, ListResult) outcome \<times> 'w machine" where
  "listed rs =
     (case rs of
        (Inl te, s) \<Rightarrow> (Err (terror_err te), s)
      | (Inr ids, s) \<Rightarrow> (Ok \<lparr>lr_NativeIDs = ids, lr_NextPageToken = None\<rparr>, s))"

definition nothing_listed :: ListResult where
  "nothing_listed = \<lparr>lr_NativeIDs = [], lr_NextPageToken = None\<rparr>"

definition walk_or_named ::
    "'w env \<Rightarrow> Client \<Rightarrow> string \<Rightarrow> string \<Rightarrow> string
      \<Rightarrow> (string \<Rightarrow> 'w machine \<Rightarrow> (terror + string list) \<times> 'w machine) \<Rightarrow> ('w, ListResult) op" where
  "walk_or_named E client parent url what f s =
     (if parent \<noteq> [] then listed (walk_parents True f [parent] s)
      else case listComputeCollectionNames E client url what s of
        (Inl te, s1) \<Rightarrow> (Err (terror_err te), s1)
      | (Inr names, s1) \<Rightarrow> listed (walk_parents False f names s1))"

section \<open>What a walk finds\<close>

text \<open>The states a walk passes through, one per parent.\<close>

fun walk_states ::
    "(string \<Rightarrow> 'w machine \<Rightarrow> (terror + string list) \<times> 'w machine) \<Rightarrow> string list \<Rightarrow> 'w machine
      \<Rightarrow> (string \<times> 'w machine) list" where
  "walk_states f [] s = []"
| "walk_states f (n # ns) s = (n, s) # walk_states f ns (snd (f n s))"

lemma walk_states_parents: "map fst (walk_states f ns s) = ns"
  by (induction ns arbitrary: s) auto

definition readable_ids ::
    "(string \<Rightarrow> 'w machine \<Rightarrow> (terror + string list) \<times> 'w machine) \<Rightarrow> string \<times> 'w machine \<Rightarrow> string list" where
  "readable_ids f ns = (case f (fst ns) (snd ns) of (Inr ids, _) \<Rightarrow> ids | (Inl te, _) \<Rightarrow> [])"

lemma walk_discovered:
  "\<exists>s'. walk_parents False f ns s = (Inr (concat (map (readable_ids f) (walk_states f ns s))), s')"
proof (induction ns arbitrary: s)
  case (Cons n ns)
  obtain r s1 where r: "f n s = (r, s1)" by (metis surj_pair)
  from Cons.IH [of s1] obtain s' where
    "walk_parents False f ns s1 = (Inr (concat (map (readable_ids f) (walk_states f ns s1))), s')" by blast
  with r show ?case by (cases r) (auto simp: readable_ids_def [of f "(n, s)"])
qed simp

text \<open>What every parent's identifiers satisfy, the whole walk's do.\<close>

lemma walk_parents_all:
  assumes "walk_parents named f ns s = (Inr ids, s')"
    and "\<And>n s ids s' x. n \<in> set ns \<Longrightarrow> f n s = (Inr ids, s') \<Longrightarrow> x \<in> set ids \<Longrightarrow> P n x"
    and "x \<in> set ids"
  shows "\<exists>n \<in> set ns. P n x"
  using assms
proof (induction ns arbitrary: s ids)
  case (Cons n ns)
  obtain r s1 where r: "f n s = (r, s1)" by (metis surj_pair)
  have own: "y \<in> set own \<Longrightarrow> P n y" if "r = Inr own" for own y
    using Cons.prems(2) [of n s own s1 y] r that by simp
  have rest: "\<exists>m \<in> set ns. P m x" if "walk_parents named f ns s1 = (Inr is, s')" "x \<in> set is" for "is"
    using Cons.IH [of s1 "is"] Cons.prems(2) that by auto
  from Cons.prems(1) r show ?case
    using own rest Cons.prems(3) by (auto split: sum.splits if_splits prod.splits)
qed simp

lemma walk_or_named_all:
  assumes "walk_or_named E client parent url what f s = (Ok r, s')"
    and "\<And>n s ids s' x. f n s = (Inr ids, s') \<Longrightarrow> x \<in> set ids \<Longrightarrow> P n x"
    and "x \<in> set (lr_NativeIDs r)"
  shows "\<exists>n. P n x"
proof -
  have l: "walk_parents named f ns s1 = (Inr (lr_NativeIDs r), s')" if "listed (walk_parents named f ns s1) = (Ok r, s')"
    for named ns s1
    using that by (auto simp: listed_def split: sum.splits prod.splits)
  have "\<exists>named ns s1. listed (walk_parents named f ns s1) = (Ok r, s')"
  proof (cases "parent = []")
    case True
    with assms(1) show ?thesis by (auto simp: walk_or_named_def split: sum.splits prod.splits)
  next
    case False
    with assms(1) have "listed (walk_parents True f [parent] s) = (Ok r, s')" by (simp only: walk_or_named_def if_True not_False_eq_True)
    then show ?thesis by blast
  qed
  then obtain named ns s1 where "walk_parents named f ns s1 = (Inr (lr_NativeIDs r), s')" using l by blast
  from walk_parents_all [OF this, of P x] assms(2,3) show ?thesis by blast
qed

section \<open>Parts that are added and removed by verbs\<close>

text \<open>
  The interface of a provisioner whose object is added to its parent by one verb and removed by
  another: the identifier it hands out at creation is the one a delete reads back.
\<close>

locale verb_resource = id_reader build parse valid
  for build :: "'a \<Rightarrow> string" and parse :: "string \<Rightarrow> goerr + 'a" and valid :: "'a \<Rightarrow> bool" +
  fixes create :: "('w \<times> http_request list) env \<Rightarrow> Config option \<Rightarrow> CreateRequest
        \<Rightarrow> ('w \<times> http_request list, ProgressResult) op"
    and delete :: "('w \<times> http_request list) env \<Rightarrow> Config option \<Rightarrow> DeleteRequest
        \<Rightarrow> ('w \<times> http_request list, ProgressResult) op"
    and locate :: "raw \<Rightarrow> 'a \<Rightarrow> 'a"
    and declared :: "CreateRequest \<Rightarrow> 'a option"
    and add_url remove_url :: "'a \<Rightarrow> string"
    and add_body :: "CreateRequest \<Rightarrow> obj"
    and remove_body :: "'a \<Rightarrow> obj option"
  assumes create_adds: "create E cfg request s = (Ok p, s') \<Longrightarrow> pr_Status p \<noteq> OperationStatusFailure \<Longrightarrow>
            \<exists>i failed ctx rid. declared request = Some i \<and> pr_NativeID p = build i
              \<and> locate (cr_TargetConfig request) i = i
              \<and> issue_verb E cfg failed (add_url i) (Some (add_body request)) ctx s = (Inr rid, s')"
    and delete_removes: "parse (dl_NativeID d) = Inr i \<Longrightarrow>
            \<exists>failed ctx msg. delete E cfg d s = verb_result OperationDelete (dl_NativeID d) msg
              (issue_verb E cfg failed (remove_url (locate (dl_TargetConfig d) i))
                 (remove_body (locate (dl_TargetConfig d) i)) ctx s)"
begin

lemma create_then_delete:
  assumes "create (logged E) cfg request s = (Ok p, s1)" and "pr_Status p \<noteq> OperationStatusFailure"
    and "declared request = Some i" and "valid i"
    and "dl_NativeID d = pr_NativeID p" and "dl_TargetConfig d = cr_TargetConfig request"
    and "delete (logged E) cfg d s2 = (r, s3)"
  shows "(\<exists>add. sent s1 = sent s @ [add] \<and> posts_to (add_url i) (Some (add_body request)) add)
    \<and> ((sent s3 = sent s2 \<and> (\<exists>q. r = Ok q \<and> pr_Status q = OperationStatusFailure))
      \<or> (\<exists>rem. sent s3 = sent s2 @ [rem] \<and> posts_to (remove_url i) (remove_body i) rem))"
proof -
  from create_adds [OF assms(1,2)] assms(3) obtain failed ctx rid where
      id: "pr_NativeID p = build i" "locate (cr_TargetConfig request) i = i"
      and add: "issue_verb (logged E) cfg failed (add_url i) (Some (add_body request)) ctx s = (Inr rid, s1)" by auto
  have "parse (dl_NativeID d) = Inr i" using parse_build assms(4,5) id(1) by simp
  from delete_removes [OF this, of "logged E" cfg s2] obtain failed' ctx' msg where
      d: "(r, s3) = verb_result OperationDelete (dl_NativeID d) msg
        (issue_verb (logged E) cfg failed' (remove_url i) (remove_body i) ctx' s2)"
    using assms(6,7) id(2) by auto
  obtain v s4 where v: "issue_verb (logged E) cfg failed' (remove_url i) (remove_body i) ctx' s2 = (v, s4)"
    by (metis surj_pair)
  have "s4 = s3" using d v by (simp add: verb_result_def split: sum.splits)
  moreover have "\<exists>q. r = Ok q \<and> pr_Status q = OperationStatusFailure" if "v = Inl te" for te
    using d v that by (simp add: verb_result_def verb_failed_def nat_failure_def)
  ultimately show ?thesis using issue_verb_sent [OF add] issue_verb_sent [OF v] by auto
qed

end

text \<open>What a create request declares, once its properties decode.\<close>

definition declared_by :: "(raw \<Rightarrow> obj \<Rightarrow> 'a) \<Rightarrow> CreateRequest \<Rightarrow> 'a option" where
  "declared_by f request =
     (case unmarshal_map (cr_Properties request) of
        Inl e \<Rightarrow> None | Inr m \<Rightarrow> Some (f (cr_TargetConfig request) (obj_of m)))"

definition props_of :: "CreateRequest \<Rightarrow> obj" where
  "props_of request = (case unmarshal_map (cr_Properties request) of Inl e \<Rightarrow> [] | Inr m \<Rightarrow> obj_of m)"

lemma part_located_declared:
  "pi_project i = projectFor target [] \<Longrightarrow> pi_project i \<noteq> [] \<Longrightarrow> part_located target i = i"
  using projectFor_fixed [of target] by (simp add: part_located_def)

text \<open>A create that has got past its refusals.\<close>

lemma declared_create:
  assumes "unmarshal_map (cr_Properties request) = Inr m" and "i = f (cr_TargetConfig request) (obj_of m)"
    and "pi_project i = projectFor (cr_TargetConfig request) []" and "pi_project i \<noteq> []"
    and "verb_result OperationCreate (build i) msg (issue_verb E cfg failed (url i) (Some (body (obj_of m))) ctx s) = (Ok p, s')"
    and "pr_Status p \<noteq> OperationStatusFailure"
  shows "\<exists>i failed ctx rid. declared_by f request = Some i \<and> pr_NativeID p = build i
    \<and> part_located (cr_TargetConfig request) i = i
    \<and> issue_verb E cfg failed (url i) (Some (body (props_of request))) ctx s = (Inr rid, s')"
  using verb_result_started [OF assms(5,6)] part_located_declared [OF assms(3,4)] assms(1,2)
  by (auto simp: declared_by_def props_of_def)

section \<open>Scripted answers\<close>

text \<open>The machine with answers left to give and requests already sent.\<close>

definition script_at :: "script \<Rightarrow> http_request list \<Rightarrow> demo_world machine" where
  "script_at rest l = (script_start [])\<lparr>m_world := (rest, l)\<rparr>"

lemma script_at_start: "script_at rest [] = script_start rest"
  by (simp add: script_at_def script_start_def)

lemma sent_script_at [simp]: "sent (script_at rest l) = l"
  by (simp add: sent_def script_at_def)

abbreviation demo_cfg :: "Config option" where
  "demo_cfg \<equiv> b_Config (demo :: demo_world BaseResource)"

lemma script_send:
  assumes "Parse url \<noteq> None" and "list_all method_char meth" and "\<And>m. body = Some m \<Longrightarrow> marshalable (JObj m)"
  shows "\<exists>req. SendRequest (logged script_env) demo_client (request_options meth url body)
      (script_at (scripted 200 (JObj m) # rest) l)
    = (Inr \<lparr>rs_StatusCode = 200, rs_Body = Some m, rs_Headers = []\<rparr>, script_at rest (l @ [req]))"
proof -
  have "\<exists>rb. request_body (request_options meth url body) = Inr rb"
    using assms(3) by (cases body) (auto simp: request_body_def request_options_def Marshal_def)
  then obtain rb where "request_body (request_options meth url body) = Inr rb" ..
  from script_accepts [OF assms(1,2) this, of "script_at (scripted 200 (JObj m) # rest) l" 200 m rest l demo_client]
  show ?thesis by (auto simp: script_at_def)
qed

lemma script_get:
  assumes "Parse url \<noteq> None"
  shows "\<exists>get. compute_get (logged script_env) demo_client url failed (script_at (scripted 200 (JObj m) # rest) l)
    = (Inr (Some m), script_at rest (l @ [get]))"
  using script_send [OF assms methods_ok(1), of None m rest l] by (auto simp: compute_get_def)

lemma script_verb:
  assumes "Parse url \<noteq> None" and "\<And>m. body = Some m \<Longrightarrow> marshalable (JObj m)"
  shows "\<exists>req rid. issue_verb (logged script_env) (b_Config (demo :: demo_world BaseResource)) failed url body ctx
      (script_at (scripted 200 (JObj m) # rest) l) = (Inr rid, script_at rest (l @ [req]))"
  using script_send [OF assms(1) methods_ok(2), of body m rest l] assms(2)
  by (auto simp: issue_verb_def demo_NewClient)

text \<open>A target that names a project, a region and a zone.\<close>

definition demo_target :: raw where
  "demo_target = RawDoc (JObj [(''Type'', JStr ''GCP''), (''Project'', JStr ''p''), (''Region'', JStr ''r''), (''Zone'', JStr ''z'')])"

lemma demo_target_path:
  "tp_Project (PathFromTargetConfig demo_target) = ''p''"
  "tp_Region (PathFromTargetConfig demo_target) = ''r''"
  "tp_Zone (PathFromTargetConfig demo_target) = ''z''"
  by code_simp+

lemma demo_target_project [simp]: "projectFor demo_target x = ''p''"
  by (simp add: projectFor_def demo_target_path)

end
