(* ===== verification/Keyed_Merge.thy ===== *)
theory Keyed_Merge
  imports Go_Prelude
begin

text \<open>
  Named entries kept in an array that is rebuilt on every change, with the entries of one key
  replaced, dropped or added. Seen through lookups, an array under this operation is a map: router
  interfaces and project metadata interpret the contract.
\<close>

definition lookup_key :: "('a \<Rightarrow> string) \<Rightarrow> 'a list \<Rightarrow> string \<Rightarrow> 'a option" where
  "lookup_key key xs = (\<lambda>k. find (\<lambda>x. key x = k) xs)"

lemma find_filter: "find P xs = (case filter P xs of [] \<Rightarrow> None | x # _ \<Rightarrow> Some x)"
  by (induction xs) auto

lemma find_conj: "(\<And>x. P x \<Longrightarrow> Q x) \<Longrightarrow> find P (filter Q xs) = find P xs"
  by (induction xs) auto

locale keyed_merge =
  fixes key :: "'a \<Rightarrow> string"
    and merge :: "'a list \<Rightarrow> string \<Rightarrow> 'a option \<Rightarrow> 'a list"
  assumes merge_others: "(\<And>w. wanted = Some w \<Longrightarrow> key w = n) \<Longrightarrow>
            filter (\<lambda>x. key x \<noteq> n) (merge xs n wanted) = filter (\<lambda>x. key x \<noteq> n) xs"
    and merge_written: "key w = n \<Longrightarrow> \<exists>c. filter (\<lambda>x. key x = n) (merge xs n (Some w)) = w # replicate c w"
    and merge_removed: "filter (\<lambda>x. key x = n) (merge xs n None) = []"
begin

text \<open>The refinement: a merge is an update of the map.\<close>

lemma lookup_merge:
  assumes "\<And>w. wanted = Some w \<Longrightarrow> key w = n"
  shows "lookup_key key (merge xs n wanted) = (lookup_key key xs)(n := wanted)"
proof
  fix k
  show "lookup_key key (merge xs n wanted) k = ((lookup_key key xs)(n := wanted)) k"
  proof (cases "k = n")
    case True
    show ?thesis
    proof (cases wanted)
      case None
      then show ?thesis using True merge_removed by (simp add: lookup_key_def find_filter)
    next
      case (Some w)
      with assms merge_written [of w n xs] obtain c where
        "filter (\<lambda>x. key x = n) (merge xs n wanted) = w # replicate c w" by auto
      then show ?thesis using True Some by (simp add: lookup_key_def find_filter)
    qed
  next
    case False
    have "find (\<lambda>x. key x = k) (filter (\<lambda>x. key x \<noteq> n) ys) = find (\<lambda>x. key x = k) ys" for ys
      using False by (intro find_conj) auto
    then show ?thesis
      using merge_others [of wanted n xs] assms False unfolding lookup_key_def by (metis fun_upd_other)
  qed
qed

text \<open>So changes of different keys commute, as far as lookups can tell, and the last one of a key wins.\<close>

lemma merge_commute:
  assumes "\<And>w. v = Some w \<Longrightarrow> key w = n" and "\<And>w. u = Some w \<Longrightarrow> key w = m" and "n \<noteq> m"
  shows "lookup_key key (merge (merge xs n v) m u) = lookup_key key (merge (merge xs m u) n v)"
  using assms by (simp add: lookup_merge fun_upd_twist)

lemma merge_last:
  assumes "\<And>w. v = Some w \<Longrightarrow> key w = n" and "\<And>w. u = Some w \<Longrightarrow> key w = n"
  shows "lookup_key key (merge (merge xs n v) n u) = lookup_key key (merge xs n u)"
  using assms by (simp add: lookup_merge)

end

section \<open>The loop\<close>

text \<open>
  The loop that both clients run: entries of the key are replaced or dropped, and an entry that was
  not found is added at the end; \<open>wanted\<close> is \<^const>\<open>None\<close> for a removal.
\<close>

fun merge_loop :: "('a \<Rightarrow> string) \<Rightarrow> 'a list \<Rightarrow> string \<Rightarrow> 'a option \<Rightarrow> bool \<Rightarrow> 'a list" where
  "merge_loop key [] n wanted found =
     (case wanted of Some w \<Rightarrow> if found then [] else [w] | None \<Rightarrow> [])"
| "merge_loop key (x # xs) n wanted found =
     (if key x = n
      then (case wanted of Some w \<Rightarrow> [w] | None \<Rightarrow> []) @ merge_loop key xs n wanted True
      else x # merge_loop key xs n wanted found)"

definition merged :: "('a \<Rightarrow> string) \<Rightarrow> 'a list \<Rightarrow> string \<Rightarrow> 'a option \<Rightarrow> 'a list" where
  "merged key xs n wanted = merge_loop key xs n wanted False"

lemma merge_loop_others:
  assumes "\<And>w. wanted = Some w \<Longrightarrow> key w = n"
  shows "filter (\<lambda>x. key x \<noteq> n) (merge_loop key xs n wanted found) = filter (\<lambda>x. key x \<noteq> n) xs"
  using assms by (induction xs arbitrary: found) (auto split: option.splits)

lemma merge_loop_own:
  "key w = n \<Longrightarrow> filter (\<lambda>x. key x = n) (merge_loop key xs n (Some w) found)
     = replicate (length (filter (\<lambda>x. key x = n) xs) + (if found \<or> n \<in> key ` set xs then 0 else 1)) w"
  by (induction xs arbitrary: found) auto

lemma merge_loop_gone: "filter (\<lambda>x. key x = n) (merge_loop key xs n None found) = []"
  by (induction xs arbitrary: found) auto

interpretation merged_loop: keyed_merge key "merged key" for key :: "'a \<Rightarrow> string"
proof
  show "filter (\<lambda>x. key x \<noteq> n) (merged key xs n wanted) = filter (\<lambda>x. key x \<noteq> n) xs"
    if "\<And>w. wanted = Some w \<Longrightarrow> key w = n" for wanted n xs
    unfolding merged_def using that by (rule merge_loop_others)
  show "filter (\<lambda>x. key x = n) (merged key xs n None) = []" for n xs
    by (simp add: merged_def merge_loop_gone)
  fix w n xs assume "key w = n"
  then have "filter (\<lambda>x. key x = n) (merged key xs n (Some w))
      = replicate (length (filter (\<lambda>x. key x = n) xs) + (if n \<in> key ` set xs then 0 else 1)) w"
    by (simp add: merged_def merge_loop_own)
  moreover have "length (filter (\<lambda>x. key x = n) xs) + (if n \<in> key ` set xs then 0 else 1) \<noteq> 0"
    by (auto simp: filter_empty_conv)
  ultimately show "\<exists>c. filter (\<lambda>x. key x = n) (merged key xs n (Some w)) = w # replicate c w"
    by (metis not0_implies_Suc replicate_Suc)
qed

end
