(* ===== verification/Router_Parts.thy ===== *)
theory Router_Parts
  imports Compute_Verbs Keyed_Merge
begin

text \<open>
  Objects inside a Cloud Router: route policies and named sets
  (\<^verbatim>\<open>src/pkg/resources/compute/router_sub_resource.go\<close>), which have verbs of their own, and
  interfaces (\<^verbatim>\<open>router_interface.go\<close>), which are entries of an array that is read, merged and
  patched.
\<close>

section \<open>Route policies and named sets\<close>

record routerSubKind =
  sk_segment :: string
  sk_updateVerb :: string
  sk_getVerb :: string
  sk_deleteVerb :: string
  sk_listVerb :: string
  sk_queryParam :: string
  sk_label :: string

definition routePolicyKind :: routerSubKind where
  "routePolicyKind =
     \<lparr>sk_segment = ''routePolicies'', sk_updateVerb = ''updateRoutePolicy'', sk_getVerb = ''getRoutePolicy'',
      sk_deleteVerb = ''deleteRoutePolicy'', sk_listVerb = ''listRoutePolicies'', sk_queryParam = ''policy'',
      sk_label = ''router route policy''\<rparr>"

definition namedSetKind :: routerSubKind where
  "namedSetKind =
     \<lparr>sk_segment = ''namedSets'', sk_updateVerb = ''updateNamedSet'', sk_getVerb = ''getNamedSet'',
      sk_deleteVerb = ''deleteNamedSet'', sk_listVerb = ''listNamedSets'', sk_queryParam = ''namedSet'',
      sk_label = ''router named set''\<rparr>"

definition sub_nativeID :: "routerSubKind \<Rightarrow> part_id \<Rightarrow> string" where
  "sub_nativeID k i =
     ''projects/'' @ pi_project i @ ''/regions/'' @ pi_region i @ ''/routers/'' @ pi_parent i
       @ ''/'' @ sk_segment k @ ''/'' @ pi_name i"

definition sub_parseNativeID :: "routerSubKind \<Rightarrow> string \<Rightarrow> goerr + part_id" where
  "sub_parseNativeID k nativeID =
     (case Split nativeID CHR ''/'' of
        [a, project, b, region, c, router, kind, name] \<Rightarrow>
          if a = ''projects'' \<and> b = ''regions'' \<and> region \<noteq> [] \<and> c = ''routers'' \<and> kind = sk_segment k \<and> name \<noteq> []
          then Inr \<lparr>pi_project = project, pi_region = region, pi_parent = router, pi_name = name\<rparr>
          else Inl (ErrText (''invalid '' @ sk_label k @ '' native ID: '' @ nativeID))
      | _ \<Rightarrow> Inl (ErrText (''invalid '' @ sk_label k @ '' native ID: '' @ nativeID)))"

definition routerSubBody :: "obj \<Rightarrow> obj" where
  "routerSubBody props = filter (\<lambda>(k, v). k \<notin> {''router'', ''region'', ''fingerprint''}) props"

definition sub_issueVerb ::
    "'w env \<Rightarrow> Config option \<Rightarrow> routerSubKind \<Rightarrow> string \<Rightarrow> obj option \<Rightarrow> string \<Rightarrow> string \<Rightarrow> 'w machine
      \<Rightarrow> (terror + string) \<times> 'w machine" where
  "sub_issueVerb E cfg k url body project region =
     issue_verb E cfg (sk_label k @ '' verb failed'') url body (op_context project region)"

definition sub_object_url :: "routerSubKind \<Rightarrow> string \<Rightarrow> part_id \<Rightarrow> string" where
  "sub_object_url k verb i =
     routerURL (pi_project i) (pi_region i) (pi_parent i) @ ''/'' @ verb @ ''?'' @ sk_queryParam k @ ''='' @ pi_name i"

text \<open>\<^const>\<open>None\<close> for an object that is gone.\<close>

definition sub_fetch ::
    "'w env \<Rightarrow> Config option \<Rightarrow> routerSubKind \<Rightarrow> part_id \<Rightarrow> 'w machine \<Rightarrow> (terror + obj option) \<times> 'w machine" where
  "sub_fetch E cfg k i s =
     (case NewClient E cfg s of
        (Inl e, s1) \<Rightarrow> (Inl (wrap_err e ''failed to create transport client''), s1)
      | (Inr client, s1) \<Rightarrow>
          (case compute_get E client (sub_object_url k (sk_getVerb k) i) (''failed to read '' @ sk_label k) s1 of
             (Inl te, s2) \<Rightarrow>
               (let msg = ToLower (te_Message te)
                in if ToResourceErrorCode (te_Code te) = NotFound \<or> Contains msg ''does not exist''
                      \<or> Contains msg ''not found''
                   then (Inr None, s2) else (Inl te, s2))
           | (Inr body, s2) \<Rightarrow> (Inr (as_obj (map_of (obj_of body) ''resource'')), s2)))"

definition router_part_declared :: "raw \<Rightarrow> obj \<Rightarrow> part_id" where
  "router_part_declared target props =
     \<lparr>pi_project = projectFor target [], pi_region = regionFor props target [],
      pi_parent = prop_string props ''router'', pi_name = prop_string props ''name''\<rparr>"

definition Sub_Create ::
    "'w env \<Rightarrow> Config option \<Rightarrow> routerSubKind \<Rightarrow> CreateRequest \<Rightarrow> ('w, ProgressResult) op" where
  "Sub_Create E cfg k request s =
     (case unmarshal_map (cr_Properties request) of
        Inl e \<Rightarrow> (Ok (nat_failure OperationCreate InvalidRequest (''invalid properties: '' @ e)), s)
      | Inr m \<Rightarrow>
          (let props = obj_of m; i = router_part_declared (cr_TargetConfig request) props
           in if pi_parent i = [] \<or> pi_name i = [] then
                (Ok (nat_failure OperationCreate InvalidRequest ''router and name are required''), s)
              else if pi_project i = [] \<or> pi_region i = [] then
                (Ok (nat_failure OperationCreate InvalidRequest ''target project and region are required''), s)
              else verb_result OperationCreate (sub_nativeID k i) (sk_label k @ '' creation in progress'')
                     (sub_issueVerb E cfg k
                        (routerURL (pi_project i) (pi_region i) (pi_parent i) @ ''/'' @ sk_updateVerb k)
                        (Some (routerSubBody props)) (pi_project i) (pi_region i) s)))"

definition sub_properties :: "part_id \<Rightarrow> obj \<Rightarrow> obj" where
  "sub_properties i policy =
     AList.update ''region'' (JStr (pi_region i)) (AList.update ''router'' (JStr (pi_parent i)) policy)"

definition Sub_Read ::
    "'w env \<Rightarrow> Config option \<Rightarrow> routerSubKind \<Rightarrow> ReadRequest \<Rightarrow> ('w, ReadResult) op" where
  "Sub_Read E cfg k request s =
     (case sub_parseNativeID k (rd_NativeID request) of
        Inl e \<Rightarrow> (Ok (read_error InvalidRequest), s)
      | Inr i0 \<Rightarrow>
          (let i = part_located (rd_TargetConfig request) i0
           in case sub_fetch E cfg k i s of
                (Inl te, s1) \<Rightarrow> (Ok (read_error (ToResourceErrorCode (te_Code te))), s1)
              | (Inr None, s1) \<Rightarrow> (Ok (read_error NotFound), s1)
              | (Inr (Some policy), s1) \<Rightarrow> (marshalled ''route policy'' (sub_properties i policy), s1)))"

text \<open>The body of an update: the declared properties and the fingerprint just read.\<close>

definition sub_update_body :: "obj \<Rightarrow> obj \<Rightarrow> obj" where
  "sub_update_body props current =
     (let fingerprint = prop_string current ''fingerprint''
      in if fingerprint \<noteq> [] then AList.update ''fingerprint'' (JStr fingerprint) (routerSubBody props)
         else routerSubBody props)"

definition Sub_Update ::
    "'w env \<Rightarrow> Config option \<Rightarrow> routerSubKind \<Rightarrow> UpdateRequest \<Rightarrow> ('w, ProgressResult) op" where
  "Sub_Update E cfg k request s =
     (case unmarshal_map (up_DesiredProperties request) of
        Inl e \<Rightarrow> (Ok (nat_failure OperationUpdate InvalidRequest (''invalid properties: '' @ e)), s)
      | Inr m \<Rightarrow>
     (case sub_parseNativeID k (up_NativeID request) of
        Inl e \<Rightarrow> (Ok (nat_failure OperationUpdate InvalidRequest (err_text e)), s)
      | Inr i0 \<Rightarrow>
          (let i = part_located (up_TargetConfig request) i0
           in case sub_fetch E cfg k i s of
                (Inl te, s1) \<Rightarrow> (Ok (verb_failed OperationUpdate te), s1)
              | (Inr None, s1) \<Rightarrow>
                  (Ok (nat_failure OperationUpdate NotFound (sk_label k @ '' no longer exists'')), s1)
              | (Inr (Some current), s1) \<Rightarrow>
                  verb_result OperationUpdate (up_NativeID request) (sk_label k @ '' update in progress'')
                    (sub_issueVerb E cfg k
                       (routerURL (pi_project i) (pi_region i) (pi_parent i) @ ''/'' @ sk_updateVerb k)
                       (Some (sub_update_body (obj_of m) current)) (pi_project i) (pi_region i) s1))))"

definition Sub_Delete ::
    "'w env \<Rightarrow> Config option \<Rightarrow> routerSubKind \<Rightarrow> DeleteRequest \<Rightarrow> ('w, ProgressResult) op" where
  "Sub_Delete E cfg k request s =
     (case sub_parseNativeID k (dl_NativeID request) of
        Inl e \<Rightarrow> (Ok (nat_failure OperationDelete InvalidRequest (err_text e)), s)
      | Inr i0 \<Rightarrow>
          (let i = part_located (dl_TargetConfig request) i0
           in verb_result OperationDelete (dl_NativeID request) (sk_label k @ '' deletion in progress'')
                (sub_issueVerb E cfg k (sub_object_url k (sk_deleteVerb k) i) None (pi_project i) (pi_region i) s)))"

definition sub_ids ::
    "'w env \<Rightarrow> Client \<Rightarrow> routerSubKind \<Rightarrow> string \<Rightarrow> string \<Rightarrow> string \<Rightarrow> 'w machine
      \<Rightarrow> (terror + string list) \<times> 'w machine" where
  "sub_ids E client k project region router s =
     (case compute_get E client (routerURL project region router @ ''/'' @ sk_listVerb k)
             (''failed to list '' @ sk_label k @ ''s'') s of
        (Inl te, s1) \<Rightarrow> (Inl te, s1)
      | (Inr body, s1) \<Rightarrow>
          (Inr (map (\<lambda>n. sub_nativeID k \<lparr>pi_project = project, pi_region = region, pi_parent = router, pi_name = n\<rparr>)
                  (names_of ''name'' (array_of (obj_of body) ''result''))), s1))"

definition routers_url :: "string \<Rightarrow> string \<Rightarrow> string" where
  "routers_url project region =
     ac_BaseURL ComputeAPI @ ''/projects/'' @ project @ ''/regions/'' @ region @ ''/routers''"

definition Sub_List :: "'w env \<Rightarrow> Config option \<Rightarrow> routerSubKind \<Rightarrow> ListRequest \<Rightarrow> ('w, ListResult) op" where
  "Sub_List E cfg k request s =
     (let project = projectFor (ls_TargetConfig request) [];
          region = regionFor [(''region'', JStr (extra request ''region''))] (ls_TargetConfig request) []
      in if project = [] \<or> region = [] then (Ok nothing_listed, s)
         else case NewClient E cfg s of
           (Inl e, s1) \<Rightarrow> (Err (client_error e), s1)
         | (Inr client, s1) \<Rightarrow>
             walk_or_named E client (extra request ''router'') (routers_url project region) ''routers''
               (sub_ids E client k project region) s1)"

definition router_part_config :: "Config option \<Rightarrow> 'w BaseResource" where
  "router_part_config cfg = compute_base cfg ''routers'' ScopeRegional"

definition Sub_Status ::
    "'w env \<Rightarrow> Config option \<Rightarrow> routerSubKind \<Rightarrow> StatusRequest \<Rightarrow> ('w, ProgressResult) op" where
  "Sub_Status E cfg k request =
     StatusWithRead E (router_part_config cfg) (Some (Sub_Read E cfg k)) request"

section \<open>Interfaces\<close>

definition buildRouterInterfaceNativeID :: "part_id \<Rightarrow> string" where
  "buildRouterInterfaceNativeID i =
     ''projects/'' @ pi_project i @ ''/regions/'' @ pi_region i @ ''/routers/'' @ pi_parent i
       @ ''/interfaces/'' @ pi_name i"

definition parseRouterInterfaceNativeID :: "string \<Rightarrow> goerr + part_id" where
  "parseRouterInterfaceNativeID nativeID =
     (case Split nativeID CHR ''/'' of
        [a, project, b, region, c, router, d, name] \<Rightarrow>
          if a = ''projects'' \<and> b = ''regions'' \<and> region \<noteq> [] \<and> c = ''routers'' \<and> d = ''interfaces'' \<and> name \<noteq> []
          then Inr \<lparr>pi_project = project, pi_region = region, pi_parent = router, pi_name = name\<rparr>
          else Inl (ErrText (''invalid router interface native ID: '' @ nativeID))
      | _ \<Rightarrow> Inl (ErrText (''invalid router interface native ID: '' @ nativeID)))"

definition routerInterfaceBody :: "obj \<Rightarrow> obj" where
  "routerInterfaceBody props = filter (\<lambda>(k, v). k \<notin> {''router'', ''region''}) props"

definition iface_name :: "obj \<Rightarrow> string" where
  "iface_name x = prop_string x ''name''"

text \<open>
  \<open>wanted\<close> is \<^const>\<open>None\<close> for a removal; entries that are no objects are dropped.
\<close>

definition mergeRouterInterface :: "json list \<Rightarrow> string \<Rightarrow> obj option \<Rightarrow> json list" where
  "mergeRouterInterface interfaces name wanted = map JObj (merged iface_name (objects interfaces) name wanted)"

definition findRouterInterface :: "obj \<Rightarrow> string \<Rightarrow> obj option" where
  "findRouterInterface router name =
     find (\<lambda>x. prop_string x ''name'' = name) (objects (array_of router ''interfaces''))"

text \<open>\<^const>\<open>None\<close> for a router that is gone.\<close>

definition iface_fetchRouter ::
    "'w env \<Rightarrow> Config option \<Rightarrow> string \<Rightarrow> string \<Rightarrow> string \<Rightarrow> 'w machine
      \<Rightarrow> (terror + obj option option) \<times> 'w machine" where
  "iface_fetchRouter E cfg project region router s =
     (case NewClient E cfg s of
        (Inl e, s1) \<Rightarrow> (Inl (wrap_err e ''failed to create transport client''), s1)
      | (Inr client, s1) \<Rightarrow>
          (case compute_get E client (routerURL project region router) ''failed to read router'' s1 of
             (Inl te, s2) \<Rightarrow>
               if ToResourceErrorCode (te_Code te) = NotFound then (Inr None, s2) else (Inl te, s2)
           | (Inr body, s2) \<Rightarrow> (Inr (Some body), s2)))"

definition patchInterfaces ::
    "'w env \<Rightarrow> Config option \<Rightarrow> string \<Rightarrow> string \<Rightarrow> string \<Rightarrow> json list \<Rightarrow> 'w machine
      \<Rightarrow> (terror + string) \<times> 'w machine" where
  "patchInterfaces E cfg project region router interfaces s =
     (case NewClient E cfg s of
        (Inl e, s1) \<Rightarrow> (Inl (wrap_err e ''failed to create transport client''), s1)
      | (Inr client, s1) \<Rightarrow>
          (case SendRequest E client
                  (request_options ''PATCH'' (routerURL project region router)
                     (Some [(''interfaces'', JArr interfaces)])) s1 of
             (Inl e, s2) \<Rightarrow> (Inl (wrap_err e ''failed to patch router interfaces''), s2)
           | (Inr resp, s2) \<Rightarrow>
               (Inr (buildComputeOperationURL (op_context project region)
                       (extractComputeOperationID (obj_of (rs_Body resp)))), s2)))"

definition router_missing :: "string \<Rightarrow> terror" where
  "router_missing router =
     \<lparr>te_Code = ErrorCodeResourceNotFound, te_Message = ''router '' @ router @ '' not found'',
      te_HTTPCode = 0, te_Underlying = None\<rparr>"

definition writeInterface ::
    "'w env \<Rightarrow> Config option \<Rightarrow> part_id \<Rightarrow> obj option \<Rightarrow> 'w machine \<Rightarrow> (terror + string) \<times> 'w machine" where
  "writeInterface E cfg i wanted s =
     (case iface_fetchRouter E cfg (pi_project i) (pi_region i) (pi_parent i) s of
        (Inl te, s1) \<Rightarrow> (Inl te, s1)
      | (Inr None, s1) \<Rightarrow> (Inl (router_missing (pi_parent i)), s1)
      | (Inr (Some current), s1) \<Rightarrow>
          patchInterfaces E cfg (pi_project i) (pi_region i) (pi_parent i)
            (mergeRouterInterface (array_of (obj_of current) ''interfaces'') (pi_name i) wanted) s1)"

definition Iface_Create :: "'w env \<Rightarrow> Config option \<Rightarrow> CreateRequest \<Rightarrow> ('w, ProgressResult) op" where
  "Iface_Create E cfg request s =
     (case unmarshal_map (cr_Properties request) of
        Inl e \<Rightarrow> (Ok (nat_failure OperationCreate InvalidRequest (''invalid properties: '' @ e)), s)
      | Inr m \<Rightarrow>
          (let props = obj_of m; i = router_part_declared (cr_TargetConfig request) props
           in if pi_parent i = [] \<or> pi_name i = [] then
                (Ok (nat_failure OperationCreate InvalidRequest ''router and name are required''), s)
              else if pi_project i = [] \<or> pi_region i = [] then
                (Ok (nat_failure OperationCreate InvalidRequest ''target project and region are required''), s)
              else verb_result OperationCreate (buildRouterInterfaceNativeID i) ''router interface creation in progress''
                     (writeInterface E cfg i (Some (routerInterfaceBody props)) s)))"

definition Iface_Read :: "'w env \<Rightarrow> Config option \<Rightarrow> ReadRequest \<Rightarrow> ('w, ReadResult) op" where
  "Iface_Read E cfg request s =
     (case parseRouterInterfaceNativeID (rd_NativeID request) of
        Inl e \<Rightarrow> (Ok (read_error InvalidRequest), s)
      | Inr i0 \<Rightarrow>
          (let i = part_located (rd_TargetConfig request) i0
           in case iface_fetchRouter E cfg (pi_project i) (pi_region i) (pi_parent i) s of
                (Inl te, s1) \<Rightarrow> (Ok (read_error (ToResourceErrorCode (te_Code te))), s1)
              | (Inr None, s1) \<Rightarrow> (Ok (read_error NotFound), s1)
              | (Inr (Some current), s1) \<Rightarrow>
                  (case findRouterInterface (obj_of current) (pi_name i) of
                     None \<Rightarrow> (Ok (read_error NotFound), s1)
                   | Some iface \<Rightarrow> (marshalled ''router interface'' (sub_properties i iface), s1))))"

definition Iface_Update :: "UpdateRequest \<Rightarrow> ('w, ProgressResult) op" where
  "Iface_Update request s =
     (Ok (nat_failure OperationUpdate NotUpdatable
            ''a router interface cannot be changed in place; a change replaces it''), s)"

definition Iface_Delete :: "'w env \<Rightarrow> Config option \<Rightarrow> DeleteRequest \<Rightarrow> ('w, ProgressResult) op" where
  "Iface_Delete E cfg request s =
     (case parseRouterInterfaceNativeID (dl_NativeID request) of
        Inl e \<Rightarrow> (Ok (nat_failure OperationDelete InvalidRequest (err_text e)), s)
      | Inr i0 \<Rightarrow>
          (let i = part_located (dl_TargetConfig request) i0
           in case writeInterface E cfg i None s of
                (Inl te, s1) \<Rightarrow>
                  (Ok (if ToResourceErrorCode (te_Code te) = NotFound
                       then (progress OperationDelete OperationStatusSuccess)
                              \<lparr>pr_NativeID := dl_NativeID request, pr_Message := ''router already deleted''\<rparr>
                       else verb_failed OperationDelete te), s1)
              | (Inr rid, s1) \<Rightarrow>
                  (Ok (verb_started OperationDelete (dl_NativeID request) rid
                         ''router interface deletion in progress''), s1)))"

definition iface_ids ::
    "'w env \<Rightarrow> Config option \<Rightarrow> string \<Rightarrow> string \<Rightarrow> string \<Rightarrow> 'w machine \<Rightarrow> (terror + string list) \<times> 'w machine" where
  "iface_ids E cfg project region router s =
     (case iface_fetchRouter E cfg project region router s of
        (Inl te, s1) \<Rightarrow> (Inl te, s1)
      | (Inr None, s1) \<Rightarrow> (Inr [], s1)
      | (Inr (Some current), s1) \<Rightarrow>
          (Inr (map (\<lambda>n. buildRouterInterfaceNativeID
                       \<lparr>pi_project = project, pi_region = region, pi_parent = router, pi_name = n\<rparr>)
                  (names_of ''name'' (array_of (obj_of current) ''interfaces''))), s1))"

definition Iface_List :: "'w env \<Rightarrow> Config option \<Rightarrow> ListRequest \<Rightarrow> ('w, ListResult) op" where
  "Iface_List E cfg request s =
     (let project = projectFor (ls_TargetConfig request) [];
          region = regionFor [(''region'', JStr (extra request ''region''))] (ls_TargetConfig request) [];
          router = extra request ''router''
      in if project = [] \<or> region = [] then (Ok nothing_listed, s)
         else if router \<noteq> [] then listed (walk_parents True (iface_ids E cfg project region) [router] s)
         else case NewClient E cfg s of
           (Inl e, s1) \<Rightarrow> (Err (client_error e), s1)
         | (Inr client, s1) \<Rightarrow>
             walk_or_named E client [] (routers_url project region) ''routers'' (iface_ids E cfg project region) s1)"

definition Iface_Status :: "'w env \<Rightarrow> Config option \<Rightarrow> StatusRequest \<Rightarrow> ('w, ProgressResult) op" where
  "Iface_Status E cfg request =
     StatusWithRead E (router_part_config cfg) (Some (Iface_Read E cfg)) request"

section \<open>Identifiers\<close>

definition part_ok :: "part_id \<Rightarrow> bool" where
  "part_ok i \<longleftrightarrow> seg (pi_project i) \<and> seg (pi_region i) \<and> seg (pi_parent i) \<and> seg (pi_name i)
     \<and> pi_region i \<noteq> [] \<and> pi_name i \<noteq> []"

lemma eight_segments:
  assumes "Split s CHR ''/'' = [a, b, c, d, e, f, g, h]"
  shows "s = a @ ''/'' @ b @ ''/'' @ c @ ''/'' @ d @ ''/'' @ e @ ''/'' @ f @ ''/'' @ g @ ''/'' @ h
    \<and> (\<forall>x \<in> {a, b, c, d, e, f, g, h}. seg x)"
proof -
  have "\<forall>x \<in> set (Split s CHR ''/''). seg x" using Split_member_seg by blast
  moreover have "Join (Split s CHR ''/'') ''/'' = s" by (rule Join_Split)
  ultimately show ?thesis using assms by simp
qed

interpretation sub_codec: id_codec "sub_nativeID k" "sub_parseNativeID k" "\<lambda>i. part_ok i \<and> seg (sk_segment k)" for k
proof
  fix i assume "part_ok i \<and> seg (sk_segment k)"
  then show "sub_parseNativeID k (sub_nativeID k i) = Inr i"
    by (simp add: part_ok_def sub_nativeID_def sub_parseNativeID_def segment)
next
  fix s i assume "sub_parseNativeID k s = Inr i"
  then have "Split s CHR ''/'' = [''projects'', pi_project i, ''regions'', pi_region i, ''routers'', pi_parent i,
      sk_segment k, pi_name i] \<and> pi_region i \<noteq> [] \<and> pi_name i \<noteq> []"
    by (auto simp: sub_parseNativeID_def split: list.splits if_splits)
  then show "(part_ok i \<and> seg (sk_segment k)) \<and> sub_nativeID k i = s"
    using eight_segments by (fastforce simp: part_ok_def sub_nativeID_def)
qed

interpretation iface_codec: id_codec buildRouterInterfaceNativeID parseRouterInterfaceNativeID part_ok
proof
  fix i assume "part_ok i"
  then show "parseRouterInterfaceNativeID (buildRouterInterfaceNativeID i) = Inr i"
    by (simp add: part_ok_def buildRouterInterfaceNativeID_def parseRouterInterfaceNativeID_def segment)
next
  fix s i assume "parseRouterInterfaceNativeID s = Inr i"
  then have "Split s CHR ''/'' = [''projects'', pi_project i, ''regions'', pi_region i, ''routers'', pi_parent i,
      ''interfaces'', pi_name i] \<and> pi_region i \<noteq> [] \<and> pi_name i \<noteq> []"
    by (auto simp: parseRouterInterfaceNativeID_def split: list.splits if_splits)
  then show "part_ok i \<and> buildRouterInterfaceNativeID i = s"
    using eight_segments by (fastforce simp: part_ok_def buildRouterInterfaceNativeID_def)
qed

section \<open>Route policies and named sets are removed where they were added\<close>

interpretation sub_verbs: verb_resource "sub_nativeID k" "sub_parseNativeID k" "\<lambda>i. part_ok i \<and> seg (sk_segment k)"
  "\<lambda>E cfg. Sub_Create E cfg k" "\<lambda>E cfg. Sub_Delete E cfg k" part_located "declared_by router_part_declared"
  "\<lambda>i. routerURL (pi_project i) (pi_region i) (pi_parent i) @ ''/'' @ sk_updateVerb k" "sub_object_url k (sk_deleteVerb k)"
  "\<lambda>request. routerSubBody (props_of request)" "\<lambda>_. None" for k
proof
  fix E :: "('w \<times> http_request list) env" and cfg s p s' and request :: CreateRequest
  assume c: "Sub_Create E cfg k request s = (Ok p, s')" and ok: "pr_Status p \<noteq> OperationStatusFailure"
  obtain m where m: "unmarshal_map (cr_Properties request) = Inr m"
    using c ok by (cases "unmarshal_map (cr_Properties request)") (auto simp: Sub_Create_def nat_failure_def)
  show "\<exists>i failed ctx rid. declared_by router_part_declared request = Some i \<and> pr_NativeID p = sub_nativeID k i
      \<and> part_located (cr_TargetConfig request) i = i
      \<and> issue_verb E cfg failed (routerURL (pi_project i) (pi_region i) (pi_parent i) @ ''/'' @ sk_updateVerb k)
          (Some (routerSubBody (props_of request))) ctx s = (Inr rid, s')"
    by (rule declared_create [OF m refl _ _ _ ok])
      (use c ok m in \<open>auto simp: Sub_Create_def sub_issueVerb_def router_part_declared_def nat_failure_def Let_def split: if_splits\<close>)
next
  fix E :: "('w \<times> http_request list) env" and cfg s i and d :: DeleteRequest
  assume "sub_parseNativeID k (dl_NativeID d) = Inr i"
  then show "\<exists>failed ctx msg. Sub_Delete E cfg k d s = verb_result OperationDelete (dl_NativeID d) msg
      (issue_verb E cfg failed (sub_object_url k (sk_deleteVerb k) (part_located (dl_TargetConfig d) i)) None ctx s)"
    by (auto simp: Sub_Delete_def sub_issueVerb_def Let_def)
qed

section \<open>What an interface change writes\<close>

text \<open>
  C7: A router interface is an entry of a map, and a create or delete updates exactly that entry. Once
  the router was read, the change sends at most one PATCH, whose list, looked up by name, is the
  list read with this one name set or removed, and keeps the other interfaces in their order.
\<close>
theorem interface_change_updates_map:
  assumes "iface_fetchRouter (logged E) cfg (pi_project i) (pi_region i) (pi_parent i) s = (Inr (Some current), s1)"
    and "writeInterface (logged E) cfg i wanted s = (r, s')"
    and "\<And>w. wanted = Some w \<Longrightarrow> iface_name w = pi_name i"
    and "old = objects (array_of (obj_of current) ''interfaces'')"
  shows "(sent s' = sent s1 \<and> (\<exists>te. r = Inl te))
    \<or> (\<exists>req xs. sent s' = sent s1 @ [req] \<and> hq_Method req = ''PATCH'' \<and> carries req [(''interfaces'', JArr (map JObj xs))]
         \<and> lookup_key iface_name xs = (lookup_key iface_name old)(pi_name i := wanted)
         \<and> filter (\<lambda>x. iface_name x \<noteq> pi_name i) xs = filter (\<lambda>x. iface_name x \<noteq> pi_name i) old)"
proof -
  define xs where "xs = merged iface_name old (pi_name i) wanted"
  have p: "patchInterfaces (logged E) cfg (pi_project i) (pi_region i) (pi_parent i) (map JObj xs) s1 = (r, s')"
    using assms(1,2,4) by (simp add: writeInterface_def mergeRouterInterface_def xs_def)
  obtain q s2 where q: "NewClient (logged E) cfg s1 = (q, s2)" by (metis surj_pair)
  note s2 = NewClient_sent [OF q]
  show ?thesis
  proof (cases q)
    case (Inl e)
    with p q s2 show ?thesis by (auto simp: patchInterfaces_def)
  next
    case (Inr client)
    define opts where "opts = request_options ''PATCH'' (routerURL (pi_project i) (pi_region i) (pi_parent i))
        (Some [(''interfaces'', JArr (map JObj xs))])"
    obtain a s3 where a: "SendRequest (logged E) client opts s2 = (a, s3)" by (metis surj_pair)
    have s': "s' = s3" using p q Inr a by (simp add: patchInterfaces_def opts_def split: sum.splits)
    have e: "\<exists>te. r = Inl te" if "a = Inl e" for e
      using p q Inr a that by (auto simp: patchInterfaces_def opts_def)
    have "hq_Method req = ''PATCH''" if "sends client opts req" for req
      using that by (simp add: opts_def sends_def request_options_def)
    moreover have "carries req [(''interfaces'', JArr (map JObj xs))]" if "sends client opts req" for req
      using sends_carries that unfolding opts_def by blast
    moreover have "lookup_key iface_name xs = (lookup_key iface_name old)(pi_name i := wanted)"
      unfolding xs_def using assms(3) by (rule merged_loop.lookup_merge)
    moreover have "filter (\<lambda>x. iface_name x \<noteq> pi_name i) xs = filter (\<lambda>x. iface_name x \<noteq> pi_name i) old"
      unfolding xs_def using assms(3) by (rule merged_loop.merge_others)
    ultimately show ?thesis using SendRequest_logged [OF a] s' e s2 by auto
  qed
qed

lemma map_of_routerSubBody:
  "map_of (routerSubBody props) k = (if k \<in> {''router'', ''region'', ''fingerprint''} then None else map_of props k)"
  unfolding routerSubBody_def by (subst map_of_filter_keys) simp

text \<open>
  C33: An update of a route policy or a named set carries the fingerprint of the object as it was just
  read, never the declared one, and a create carries none; every other declared property, except the
  two that address the object, is sent as declared.
\<close>
theorem sub_update_sends_fresh_fingerprint:
  assumes "unmarshal_map (up_DesiredProperties request) = Inr m"
    and "sub_parseNativeID k (up_NativeID request) = Inr i"
    and "sub_fetch (logged E) cfg k (part_located (up_TargetConfig request) i) s = (Inr (Some current), s1)"
    and "Sub_Update (logged E) cfg k request s = (r, s')"
  shows "(sent s' = sent s1 \<and> (\<exists>p. r = Ok p \<and> pr_Status p = OperationStatusFailure))
    \<or> (\<exists>req body. sent s' = sent s1 @ [req] \<and> hq_Method req = ''POST'' \<and> carries req body
         \<and> map_of body ''fingerprint'' = (let f = prop_string current ''fingerprint'' in if f = [] then None else Some (JStr f))
         \<and> map_of (routerSubBody (obj_of m)) ''fingerprint'' = None
         \<and> (\<forall>p. p \<notin> {''router'', ''region'', ''fingerprint''} \<longrightarrow> map_of body p = map_of (obj_of m) p))"
proof -
  define body where "body = sub_update_body (obj_of m) current"
  define j where "j = part_located (up_TargetConfig request) i"
  define url where "url = routerURL (pi_project j) (pi_region j) (pi_parent j) @ ''/'' @ sk_updateVerb k"
  obtain v s2 where v: "sub_issueVerb (logged E) cfg k url (Some body) (pi_project j) (pi_region j) s1 = (v, s2)"
    by (metis surj_pair)
  have rs: "(r, s') = verb_result OperationUpdate (up_NativeID request) (sk_label k @ '' update in progress'') (v, s2)"
    using assms v by (simp add: Sub_Update_def body_def j_def url_def Let_def)
  have b: "map_of body p = (if p = ''fingerprint'' then (let f = prop_string current ''fingerprint'' in if f = [] then None else Some (JStr f))
      else if p \<in> {''router'', ''region''} then None else map_of (obj_of m) p)" for p
    by (simp add: body_def sub_update_body_def map_of_routerSubBody update_conv' Let_def)
  from issue_verb_sent [OF v [unfolded sub_issueVerb_def]] show ?thesis
  proof
    assume "sent s2 = sent s1 \<and> (\<exists>te. v = Inl te)"
    with rs show ?thesis by (auto simp: verb_result_def verb_failed_def nat_failure_def)
  next
    assume "\<exists>req. sent s2 = sent s1 @ [req] \<and> posts_to url (Some body) req"
    then obtain req where req: "sent s2 = sent s1 @ [req]" "posts_to url (Some body) req" by blast
    have "s' = s2" using rs by (simp add: verb_result_def split: sum.splits)
    with req posts_carries [OF req(2)] b show ?thesis
      by (intro disjI2 exI [of _ req] exI [of _ body]) (auto simp: map_of_routerSubBody posts_to_def)
  qed
qed

section \<open>The properties on a concrete router\<close>

definition demo_iface_router :: obj where
  "demo_iface_router = [(''interfaces'', JArr [JObj [(''name'', JStr ''a'')], JObj [(''name'', JStr ''b'')]])]"

definition demo_part :: part_id where
  "demo_part = \<lparr>pi_project = ''p'', pi_region = ''r'', pi_parent = ''rt'', pi_name = ''a''\<rparr>"

lemma demo_part_sel [simp]: "pi_project demo_part = ''p''" "pi_region demo_part = ''r''" "pi_parent demo_part = ''rt''"
  "pi_name demo_part = ''a''"
  by (simp_all add: demo_part_def)

lemma demo_ifaces:
  "objects (array_of demo_iface_router ''interfaces'') = [[(''name'', JStr ''a'')], [(''name'', JStr ''b'')]]"
  by (simp add: demo_iface_router_def array_of_def objects_def)

theorem interface_change_updates_map_witness:
  "\<exists>r s' get req xs. writeInterface (logged script_env) (b_Config (demo :: demo_world BaseResource)) demo_part None
       (script_at [scripted 200 (JObj demo_iface_router), scripted 200 (JObj [])] []) = (r, s')
     \<and> sent s' = [get, req] \<and> carries req [(''interfaces'', JArr (map JObj xs))]
     \<and> lookup_key iface_name xs ''a'' = None \<and> lookup_key iface_name xs ''b'' = Some [(''name'', JStr ''b'')]"
proof -
  let ?E = "logged script_env" and ?cfg = "b_Config (demo :: demo_world BaseResource)"
  let ?s = "script_at [scripted 200 (JObj demo_iface_router), scripted 200 (JObj [])] []"
  obtain get where g: "iface_fetchRouter ?E ?cfg ''p'' ''r'' ''rt'' ?s
      = (Inr (Some (Some demo_iface_router)), script_at [scripted 200 (JObj [])] [get])"
    using script_get [OF demo_router_url, of "''failed to read router''" demo_iface_router "[scripted 200 (JObj [])]" "[]"]
    by (auto simp: iface_fetchRouter_def demo_NewClient)
  let ?s1 = "script_at [scripted 200 (JObj [])] [get]"
  obtain r s' where w: "writeInterface ?E ?cfg demo_part None ?s = (r, s')" by (metis surj_pair)
  have "mergeRouterInterface (array_of demo_iface_router ''interfaces'') ''a'' None = [JObj [(''name'', JStr ''b'')]]"
    by (simp add: mergeRouterInterface_def merged_def iface_name_def demo_ifaces prop_string_def string_or_empty_def)
  then have p: "patchInterfaces ?E ?cfg ''p'' ''r'' ''rt'' [JObj [(''name'', JStr ''b'')]] ?s1 = (r, s')"
    using w g by (simp add: writeInterface_def obj_of_def)
  have "\<exists>x. r = Inr x"
    using p script_send [OF demo_router_url methods_ok(4), of "Some [(''interfaces'', JArr [JObj [(''name'', JStr ''b'')]])]" "[]" "[]" "[get]"]
    by (auto simp: patchInterfaces_def demo_NewClient)
  with interface_change_updates_map [OF g [folded demo_part_sel] w _ refl] obtain req xs where
      q: "sent s' = [get, req]" "carries req [(''interfaces'', JArr (map JObj xs))]"
        "lookup_key iface_name xs = (lookup_key iface_name [[(''name'', JStr ''a'')], [(''name'', JStr ''b'')]])(''a'' := None)"
    by (auto simp: obj_of_def demo_ifaces)
  have "lookup_key iface_name xs ''a'' = None \<and> lookup_key iface_name xs ''b'' = Some [(''name'', JStr ''b'')]"
    unfolding q(3) by (simp add: lookup_key_def iface_name_def prop_string_def string_or_empty_def)
  then show ?thesis using w q by blast
qed

definition demo_sub_update :: UpdateRequest where
  "demo_sub_update = \<lparr>up_NativeID = sub_nativeID routePolicyKind demo_part, up_ResourceType = ''T'',
     up_TargetConfig = RawNil,
     up_DesiredProperties = RawDoc (JObj [(''fingerprint'', JStr ''stale''), (''type'', JStr ''t'')])\<rparr>"

theorem sub_update_sends_fresh_fingerprint_witness:
  "\<exists>r s' get req body. Sub_Update (logged script_env) (b_Config (demo :: demo_world BaseResource)) routePolicyKind
       demo_sub_update
       (script_at [scripted 200 (JObj [(''resource'', JObj [(''fingerprint'', JStr ''fresh'')])]), scripted 200 (JObj [])] [])
       = (r, s')
     \<and> sent s' = [get, req] \<and> carries req body \<and> map_of body ''fingerprint'' = Some (JStr ''fresh'')
     \<and> map_of body ''type'' = Some (JStr ''t'')"
proof -
  let ?E = "logged script_env" and ?cfg = "b_Config (demo :: demo_world BaseResource)"
  let ?cur = "[(''fingerprint'', JStr ''fresh'')]" and ?props = "[(''fingerprint'', JStr ''stale''), (''type'', JStr ''t'')]"
  let ?s = "script_at [scripted 200 (JObj [(''resource'', JObj ?cur)]), scripted 200 (JObj [])] []"
  have u: "Parse (sub_object_url routePolicyKind ''getRoutePolicy'' demo_part) \<noteq> None"
      "Parse (routerURL ''p'' ''r'' ''rt'' @ ''/updateRoutePolicy'') \<noteq> None"
    by (simp_all add: sub_object_url_def routePolicyKind_def routerURL_def ComputeAPI_def Parse_def before_def
        control_char_def Let_def)
  have i: "sub_parseNativeID routePolicyKind (up_NativeID demo_sub_update) = Inr demo_part"
    by (simp add: demo_sub_update_def sub_codec.parse_build part_ok_def routePolicyKind_def)
  have loc: "part_located (up_TargetConfig demo_sub_update) demo_part = demo_part"
    by (simp add: demo_sub_update_def part_located_def projectFor_def PathFromTargetConfig_def demo_part_def)
  obtain get where g: "sub_fetch ?E ?cfg routePolicyKind demo_part ?s
      = (Inr (Some ?cur), script_at [scripted 200 (JObj [])] [get])"
    using script_get [OF u(1), of "''failed to read router route policy''" "[(''resource'', JObj ?cur)]" "[scripted 200 (JObj [])]" "[]"]
    by (auto simp: sub_fetch_def demo_NewClient routePolicyKind_def obj_of_def)
  then have g': "sub_fetch ?E ?cfg routePolicyKind (part_located (up_TargetConfig demo_sub_update) demo_part) ?s
      = (Inr (Some ?cur), script_at [scripted 200 (JObj [])] [get])" by (simp only: loc)
  have m: "unmarshal_map (up_DesiredProperties demo_sub_update) = Inr (Some ?props)"
    by (simp add: demo_sub_update_def)
  obtain r s' where w: "Sub_Update ?E ?cfg routePolicyKind demo_sub_update ?s = (r, s')" by (metis surj_pair)
  have "sub_update_body ?props ?cur = [(''type'', JStr ''t''), (''fingerprint'', JStr ''fresh'')]"
    by (simp add: sub_update_body_def routerSubBody_def prop_string_def string_or_empty_def)
  then have "\<exists>p. r = Ok p \<and> pr_Status p = OperationStatusInProgress"
    using w m i g loc
      script_send [OF u(2) methods_ok(2), of "Some [(''type'', JStr ''t''), (''fingerprint'', JStr ''fresh'')]" "[]" "[]" "[get]"]
    by (auto simp: Sub_Update_def sub_issueVerb_def issue_verb_def demo_NewClient verb_result_def verb_started_def
        routePolicyKind_def obj_of_def)
  with sub_update_sends_fresh_fingerprint [OF m i g' w] obtain req body where
      q: "sent s' = [get, req]" "carries req body"
        "map_of body ''fingerprint'' = (let f = prop_string ?cur ''fingerprint'' in if f = [] then None else Some (JStr f))"
        "\<forall>p. p \<notin> {''router'', ''region'', ''fingerprint''} \<longrightarrow> map_of body p = map_of (obj_of (Some ?props)) p"
    by auto
  from q(3) have "map_of body ''fingerprint'' = Some (JStr ''fresh'')"
    by (simp add: prop_string_def string_or_empty_def)
  moreover from q(4) [rule_format, of "''type''"] have "map_of body ''type'' = Some (JStr ''t'')"
    by (simp add: obj_of_def)
  ultimately show ?thesis using w q by blast
qed

end
