(* ===== verification/Policy_Rule.thy ===== *)
theory Policy_Rule
  imports Compute_Verbs
begin

text \<open>
  Rules of network firewall policies and of Cloud Armor security policies
  (\<^verbatim>\<open>src/pkg/resources/compute/policy_rule.go\<close>). A rule has no collection of its own: it is
  addressed by its policy and its priority, through verbs on the policy.
\<close>

section \<open>The kinds of rule\<close>

record policyRuleKind =
  rk_collection :: string
  rk_policyProperty :: string
  rk_priorityFloor :: int
  rk_regional :: bool
  rk_label :: string

definition impliedRulePriorityFloor :: int where "impliedRulePriorityFloor = 2147483644"
definition defaultSecurityRulePriority :: int where "defaultSecurityRulePriority = 2147483647"

definition firewallPolicyRuleKind :: policyRuleKind where
  "firewallPolicyRuleKind =
     \<lparr>rk_collection = ''firewallPolicies'', rk_policyProperty = ''firewallPolicy'',
      rk_priorityFloor = impliedRulePriorityFloor, rk_regional = False, rk_label = ''firewall policy rule''\<rparr>"

definition securityPolicyRuleKind :: policyRuleKind where
  "securityPolicyRuleKind =
     \<lparr>rk_collection = ''securityPolicies'', rk_policyProperty = ''securityPolicy'',
      rk_priorityFloor = defaultSecurityRulePriority, rk_regional = False, rk_label = ''security policy rule''\<rparr>"

definition regionSecurityPolicyRuleKind :: policyRuleKind where
  "regionSecurityPolicyRuleKind =
     \<lparr>rk_collection = ''securityPolicies'', rk_policyProperty = ''securityPolicy'',
      rk_priorityFloor = defaultSecurityRulePriority, rk_regional = True,
      rk_label = ''regional security policy rule''\<rparr>"

definition rule_scopeType :: "policyRuleKind \<Rightarrow> ScopeType" where
  "rule_scopeType k = (if rk_regional k then ScopeRegional else ScopeGlobal)"

definition rule_config :: "Config option \<Rightarrow> policyRuleKind \<Rightarrow> 'w BaseResource" where
  "rule_config cfg k = compute_base cfg (rk_collection k) (rule_scopeType k)"

section \<open>Identifiers\<close>

record rule_id =
  ri_project :: string
  ri_region :: string
  ri_policy :: string
  ri_priority :: int

definition scopePath :: "policyRuleKind \<Rightarrow> string \<Rightarrow> string" where
  "scopePath k region = (if rk_regional k then ''regions/'' @ region else ''global'')"

definition rule_nativeID :: "policyRuleKind \<Rightarrow> rule_id \<Rightarrow> string" where
  "rule_nativeID k i =
     ''projects/'' @ ri_project i @ ''/'' @ scopePath k (ri_region i) @ ''/'' @ rk_collection k @ ''/''
       @ ri_policy i @ ''/rules/'' @ Itoa (ri_priority i)"

definition rule_parseNativeID :: "policyRuleKind \<Rightarrow> string \<Rightarrow> goerr + rule_id" where
  "rule_parseNativeID k nativeID =
     (let invalid = Inl (ErrText (''invalid '' @ rk_label k @ '' native ID: '' @ nativeID));
          parts = Split nativeID CHR ''/'';
          off = (if rk_regional k then 1 else 0)
      in if length parts \<noteq> 7 + off \<or> parts ! 0 \<noteq> ''projects'' then invalid
         else if rk_regional k \<and> (parts ! 2 \<noteq> ''regions'' \<or> parts ! 3 = []) then invalid
         else if \<not> rk_regional k \<and> parts ! 2 \<noteq> ''global'' then invalid
         else if parts ! (3 + off) \<noteq> rk_collection k \<or> parts ! (5 + off) \<noteq> ''rules'' then invalid
         else case Atoi (parts ! (6 + off)) of
           None \<Rightarrow> Inl (errorf_w (''invalid priority in native ID '' @ nativeID @ '': '') (atoi_error (parts ! (6 + off))))
         | Some priority \<Rightarrow>
             Inr \<lparr>ri_project = parts ! 1, ri_region = (if rk_regional k then parts ! 3 else []),
                  ri_policy = parts ! (4 + off), ri_priority = priority\<rparr>)"

section \<open>Bodies and addresses\<close>

definition rule_body :: "policyRuleKind \<Rightarrow> obj \<Rightarrow> bool \<Rightarrow> obj" where
  "rule_body k props keepPriority =
     filter (\<lambda>(key, v). \<not> (key = rk_policyProperty k \<or> key = ''region'' \<and> rk_regional k
               \<or> key = ''priority'' \<and> \<not> keepPriority)) props"

definition policyURL :: "policyRuleKind \<Rightarrow> string \<Rightarrow> string \<Rightarrow> string \<Rightarrow> string" where
  "policyURL k project region policy =
     ac_BaseURL ComputeAPI @ ''/projects/'' @ project @ ''/'' @ scopePath k region @ ''/'' @ rk_collection k
       @ ''/'' @ policy"

definition rule_regionFor :: "policyRuleKind \<Rightarrow> obj \<Rightarrow> raw \<Rightarrow> string" where
  "rule_regionFor k props targetConfig = (if rk_regional k then regionFor props targetConfig [] else [])"

definition rule_issueVerb ::
    "'w env \<Rightarrow> Config option \<Rightarrow> policyRuleKind \<Rightarrow> string \<Rightarrow> obj option \<Rightarrow> string \<Rightarrow> string \<Rightarrow> 'w machine
      \<Rightarrow> (terror + string) \<times> 'w machine" where
  "rule_issueVerb E cfg k url body project region =
     issue_verb E cfg (rk_label k @ '' verb failed'') url body (op_context project region)"

definition priorityOf :: "obj \<Rightarrow> goerr + int" where
  "priorityOf props =
     (case map_of props ''priority'' of
        Some (JNum m k) \<Rightarrow> Inr (float_to_int64 m k)
      | Some (JInt i) \<Rightarrow> Inr i
      | Some (JNumber s) \<Rightarrow> (case Atoi s of Some i \<Rightarrow> Inr i | None \<Rightarrow> Inl (atoi_error s))
      | Some (JStr s) \<Rightarrow> (case Atoi s of Some i \<Rightarrow> Inr i | None \<Rightarrow> Inl (atoi_error s))
      | _ \<Rightarrow> Inl (ErrText ''priority is required and must be a number''))"

section \<open>Operations\<close>

definition rule_declared :: "policyRuleKind \<Rightarrow> raw \<Rightarrow> obj \<Rightarrow> int \<Rightarrow> rule_id" where
  "rule_declared k target props priority =
     \<lparr>ri_project = projectFor target [], ri_region = rule_regionFor k props target,
      ri_policy = prop_string props (rk_policyProperty k), ri_priority = priority\<rparr>"

definition rule_located :: "raw \<Rightarrow> rule_id \<Rightarrow> rule_id" where
  "rule_located target i = i\<lparr>ri_project := projectFor target (ri_project i)\<rparr>"

definition rule_policy_url :: "policyRuleKind \<Rightarrow> rule_id \<Rightarrow> string" where
  "rule_policy_url k i = policyURL k (ri_project i) (ri_region i) (ri_policy i)"

definition rule_url :: "policyRuleKind \<Rightarrow> string \<Rightarrow> rule_id \<Rightarrow> string" where
  "rule_url k verb i = rule_policy_url k i @ ''/'' @ verb @ ''?priority='' @ Itoa (ri_priority i)"

definition Rule_Create :: "'w env \<Rightarrow> Config option \<Rightarrow> policyRuleKind \<Rightarrow> CreateRequest \<Rightarrow> ('w, ProgressResult) op" where
  "Rule_Create E cfg k request s =
     (case unmarshal_map (cr_Properties request) of
        Inl e \<Rightarrow> (Ok (nat_failure OperationCreate InvalidRequest (''invalid properties: '' @ e)), s)
      | Inr m \<Rightarrow>
          (if prop_string (obj_of m) (rk_policyProperty k) = [] then
             (Ok (nat_failure OperationCreate InvalidRequest (rk_policyProperty k @ '' is required'')), s)
           else case priorityOf (obj_of m) of
             Inl e \<Rightarrow> (Ok (nat_failure OperationCreate InvalidRequest (err_text e)), s)
           | Inr priority \<Rightarrow>
               (let i = rule_declared k (cr_TargetConfig request) (obj_of m) priority
                in if ri_project i = [] then
                     (Ok (nat_failure OperationCreate InvalidRequest ''target project is required''), s)
                   else if rk_regional k \<and> ri_region i = [] then
                     (Ok (nat_failure OperationCreate InvalidRequest ''region is required''), s)
                   else verb_result OperationCreate (rule_nativeID k i) (rk_label k @ '' creation in progress'')
                          (rule_issueVerb E cfg k (rule_policy_url k i @ ''/addRule'')
                             (Some (rule_body k (obj_of m) True)) (ri_project i) (ri_region i) s))))"

definition rule_properties :: "policyRuleKind \<Rightarrow> rule_id \<Rightarrow> obj \<Rightarrow> obj" where
  "rule_properties k i body =
     (let props = AList.update (rk_policyProperty k) (JStr (ri_policy i)) body
      in if rk_regional k then AList.update ''region'' (JStr (ri_region i)) props else props)"

text \<open>A rule that was removed answers 400 and speaks of its priority.\<close>

definition rule_read_code :: "terror \<Rightarrow> OperationErrorCode" where
  "rule_read_code te =
     (let code = ToResourceErrorCode (te_Code te)
      in if code = InvalidRequest \<and> Contains (ToLower (te_Message te)) ''priority'' then NotFound else code)"

definition Rule_Read :: "'w env \<Rightarrow> Config option \<Rightarrow> policyRuleKind \<Rightarrow> ReadRequest \<Rightarrow> ('w, ReadResult) op" where
  "Rule_Read E cfg k request s =
     (case rule_parseNativeID k (rd_NativeID request) of
        Inl e \<Rightarrow> (Ok (read_error InvalidRequest), s)
      | Inr i0 \<Rightarrow>
          (let i = rule_located (rd_TargetConfig request) i0
           in case NewClient E cfg s of
                (Inl e, s1) \<Rightarrow> (Err (client_error e), s1)
              | (Inr client, s1) \<Rightarrow>
                  (case compute_get E client (rule_url k ''getRule'' i) (''failed to read '' @ rk_label k) s1 of
                     (Inl te, s2) \<Rightarrow> (Ok (read_error (rule_read_code te)), s2)
                   | (Inr body, s2) \<Rightarrow> (marshalled ''rule'' (rule_properties k i (obj_of body)), s2))))"

definition Rule_Update :: "'w env \<Rightarrow> Config option \<Rightarrow> policyRuleKind \<Rightarrow> UpdateRequest \<Rightarrow> ('w, ProgressResult) op" where
  "Rule_Update E cfg k request s =
     (case unmarshal_map (up_DesiredProperties request) of
        Inl e \<Rightarrow> (Ok (nat_failure OperationUpdate InvalidRequest (''invalid properties: '' @ e)), s)
      | Inr m \<Rightarrow>
     (case rule_parseNativeID k (up_NativeID request) of
        Inl e \<Rightarrow> (Ok (nat_failure OperationUpdate InvalidRequest (err_text e)), s)
      | Inr i0 \<Rightarrow>
          (let i = rule_located (up_TargetConfig request) i0
           in verb_result OperationUpdate (up_NativeID request) (rk_label k @ '' update in progress'')
                (rule_issueVerb E cfg k (rule_url k ''patchRule'' i) (Some (rule_body k (obj_of m) True))
                   (ri_project i) (ri_region i) s))))"

definition Rule_Delete :: "'w env \<Rightarrow> Config option \<Rightarrow> policyRuleKind \<Rightarrow> DeleteRequest \<Rightarrow> ('w, ProgressResult) op" where
  "Rule_Delete E cfg k request s =
     (case rule_parseNativeID k (dl_NativeID request) of
        Inl e \<Rightarrow> (Ok (nat_failure OperationDelete InvalidRequest (err_text e)), s)
      | Inr i0 \<Rightarrow>
          (let i = rule_located (dl_TargetConfig request) i0
           in verb_result OperationDelete (dl_NativeID request) (rk_label k @ '' deletion in progress'')
                (rule_issueVerb E cfg k (rule_url k ''removeRule'' i) None (ri_project i) (ri_region i) s)))"

definition manageable :: "policyRuleKind \<Rightarrow> obj \<Rightarrow> int option" where
  "manageable k rule =
     (case priorityOf rule of
        Inl e \<Rightarrow> None
      | Inr priority \<Rightarrow> if priority \<ge> rk_priorityFloor k then None else Some priority)"

definition rulesOfPolicy ::
    "'w env \<Rightarrow> Client \<Rightarrow> policyRuleKind \<Rightarrow> string \<Rightarrow> string \<Rightarrow> string \<Rightarrow> 'w machine
      \<Rightarrow> (terror + string list) \<times> 'w machine" where
  "rulesOfPolicy E client k project region policy s =
     (case compute_get E client (policyURL k project region policy) (''failed to list '' @ rk_label k @ ''s'') s of
        (Inl te, s1) \<Rightarrow> (Inl te, s1)
      | (Inr body, s1) \<Rightarrow>
          (Inr (map (\<lambda>p. rule_nativeID k \<lparr>ri_project = project, ri_region = region, ri_policy = policy, ri_priority = p\<rparr>)
                  (List.map_filter (manageable k) (objects (array_of (obj_of body) ''rules'')))), s1))"

definition policies_url :: "policyRuleKind \<Rightarrow> string \<Rightarrow> string \<Rightarrow> string" where
  "policies_url k project region =
     ac_BaseURL ComputeAPI @ ''/projects/'' @ project @ ''/'' @ scopePath k region @ ''/'' @ rk_collection k"

definition Rule_List :: "'w env \<Rightarrow> Config option \<Rightarrow> policyRuleKind \<Rightarrow> ListRequest \<Rightarrow> ('w, ListResult) op" where
  "Rule_List E cfg k request s =
     (let project = projectFor (ls_TargetConfig request) [];
          region = rule_regionFor k [(''region'', JStr (extra request ''region''))] (ls_TargetConfig request)
      in if project = [] \<or> rk_regional k \<and> region = [] then (Ok nothing_listed, s)
         else case NewClient E cfg s of
           (Inl e, s1) \<Rightarrow> (Err (client_error e), s1)
         | (Inr client, s1) \<Rightarrow>
             walk_or_named E client (extra request (rk_policyProperty k)) (policies_url k project region)
               (rk_label k @ '' policies'') (rulesOfPolicy E client k project region) s1)"

definition Rule_Status :: "'w env \<Rightarrow> Config option \<Rightarrow> policyRuleKind \<Rightarrow> StatusRequest \<Rightarrow> ('w, ProgressResult) op" where
  "Rule_Status E cfg k request = StatusWithRead E (rule_config cfg k) (Some (Rule_Read E cfg k)) request"

section \<open>Identifiers read back\<close>

definition rule_ok :: "policyRuleKind \<Rightarrow> rule_id \<Rightarrow> bool" where
  "rule_ok k i \<longleftrightarrow> seg (ri_project i) \<and> seg (ri_region i) \<and> seg (ri_policy i) \<and> seg (rk_collection k)
     \<and> (rk_regional k \<longleftrightarrow> ri_region i \<noteq> []) \<and> min_int64 \<le> ri_priority i \<and> ri_priority i \<le> max_int64"

lemma seg_Itoa [segment]: "seg (Itoa i)"
  by (simp add: seg_def Itoa_no_slash)

interpretation rule_reader: id_reader "rule_nativeID k" "rule_parseNativeID k" "rule_ok k" for k
proof
  fix i assume ok: "rule_ok k i"
  show "rule_parseNativeID k (rule_nativeID k i) = Inr i"
  proof (cases "rk_regional k")
    case True
    with ok have "Split (rule_nativeID k i) CHR ''/'' =
        [''projects'', ri_project i, ''regions'', ri_region i, rk_collection k, ri_policy i, ''rules'', Itoa (ri_priority i)]"
      by (simp add: rule_nativeID_def scopePath_def rule_ok_def segment)
    with True ok show ?thesis by (simp add: rule_parseNativeID_def rule_ok_def)
  next
    case False
    with ok have "Split (rule_nativeID k i) CHR ''/'' =
        [''projects'', ri_project i, ''global'', rk_collection k, ri_policy i, ''rules'', Itoa (ri_priority i)]"
      by (simp add: rule_nativeID_def scopePath_def rule_ok_def segment)
    with False ok show ?thesis by (simp add: rule_parseNativeID_def rule_ok_def)
  qed
qed

section \<open>Rules of the provider are not discovered\<close>

definition rule_kinds :: "policyRuleKind list" where
  "rule_kinds = [firewallPolicyRuleKind, securityPolicyRuleKind, regionSecurityPolicyRuleKind]"

lemma rule_kinds_floor: "k \<in> set rule_kinds \<Longrightarrow> rk_priorityFloor k \<le> max_int64 \<and> seg (rk_collection k)"
  by (auto simp: rule_kinds_def firewallPolicyRuleKind_def securityPolicyRuleKind_def regionSecurityPolicyRuleKind_def
      impliedRulePriorityFloor_def defaultSecurityRulePriority_def max_int64_def)

lemma map_filter_manageable: "p \<in> set (List.map_filter (manageable k) xs) \<Longrightarrow> p < rk_priorityFloor k"
  by (auto simp: map_filter_def manageable_def split: sum.splits if_splits)

lemma rulesOfPolicy_ids:
  assumes "rulesOfPolicy E client k project region policy s = (Inr ids, s')" and "x \<in> set ids"
  shows "\<exists>p < rk_priorityFloor k. x = rule_nativeID k
     \<lparr>ri_project = project, ri_region = region, ri_policy = policy, ri_priority = p\<rparr>"
proof -
  from assms(1) obtain body where "ids = map (\<lambda>p. rule_nativeID k
      \<lparr>ri_project = project, ri_region = region, ri_policy = policy, ri_priority = p\<rparr>)
      (List.map_filter (manageable k) (objects (array_of (obj_of body) ''rules'')))"
    by (auto simp: rulesOfPolicy_def split: prod.splits sum.splits)
  with assms(2) show ?thesis using map_filter_manageable by (auto simp: image_iff)
qed

text \<open>
  C9: Discovery reports only rules below the priority at which the provider's own rules start, and
  reports each by an identifier that reads back as that very rule: same project, region, policy and
  priority, so what was discovered can be read, updated and deleted.
\<close>
theorem discovered_rules_manageable:
  assumes "k \<in> set rule_kinds" and "Rule_List E cfg k request s = (Ok r, s')" and "x \<in> set (lr_NativeIDs r)"
  shows "\<exists>i. x = rule_nativeID k i \<and> ri_priority i < rk_priorityFloor k
     \<and> ri_project i = projectFor (ls_TargetConfig request) []
     \<and> (seg (ri_project i) \<and> seg (ri_region i) \<and> seg (ri_policy i) \<and> min_int64 \<le> ri_priority i
          \<longrightarrow> rule_parseNativeID k x = Inr i)"
proof -
  define project where "project = projectFor (ls_TargetConfig request) []"
  define region where "region = rule_regionFor k [(''region'', JStr (extra request ''region''))] (ls_TargetConfig request)"
  have nonempty: "\<not> (project = [] \<or> rk_regional k \<and> region = [])"
    using assms(2,3) by (auto simp: Rule_List_def project_def region_def nothing_listed_def Let_def split: if_splits)
  then obtain client s1 where "walk_or_named E client (extra request (rk_policyProperty k)) (policies_url k project region)
      (rk_label k @ '' policies'') (rulesOfPolicy E client k project region) s1 = (Ok r, s')"
    using assms(2) unfolding Rule_List_def Let_def project_def [symmetric] region_def [symmetric]
    by (auto split: sum.splits prod.splits)
  from walk_or_named_all [OF this _ assms(3), of "\<lambda>policy x. \<exists>p < rk_priorityFloor k. x = rule_nativeID k
      \<lparr>ri_project = project, ri_region = region, ri_policy = policy, ri_priority = p\<rparr>"] rulesOfPolicy_ids
  obtain policy p where
    p: "p < rk_priorityFloor k" "x = rule_nativeID k
      \<lparr>ri_project = project, ri_region = region, ri_policy = policy, ri_priority = p\<rparr>" (is "_ = rule_nativeID k ?i") by metis
  have "rk_regional k \<longleftrightarrow> region \<noteq> []" using nonempty by (auto simp: region_def rule_regionFor_def)
  then have "rule_ok k ?i" if "seg project" "seg region" "seg policy" "min_int64 \<le> p"
    using that p(1) rule_kinds_floor [OF assms(1)] by (simp add: rule_ok_def)
  then show ?thesis using p rule_reader.parse_build [of k ?i] by (intro exI [of _ ?i]) (auto simp: project_def)
qed

section \<open>A rule is removed where it was added\<close>

definition rule_of_create :: "policyRuleKind \<Rightarrow> CreateRequest \<Rightarrow> rule_id option" where
  "rule_of_create k request =
     (case unmarshal_map (cr_Properties request) of
        Inl e \<Rightarrow> None
      | Inr m \<Rightarrow> (case priorityOf (obj_of m) of
           Inl e \<Rightarrow> None | Inr p \<Rightarrow> Some (rule_declared k (cr_TargetConfig request) (obj_of m) p)))"

definition rule_add_body :: "policyRuleKind \<Rightarrow> CreateRequest \<Rightarrow> obj" where
  "rule_add_body k request =
     (case unmarshal_map (cr_Properties request) of Inl e \<Rightarrow> [] | Inr m \<Rightarrow> rule_body k (obj_of m) True)"

interpretation rule_verbs: verb_resource "rule_nativeID k" "rule_parseNativeID k" "rule_ok k"
  "\<lambda>E cfg. Rule_Create E cfg k" "\<lambda>E cfg. Rule_Delete E cfg k" rule_located "rule_of_create k"
  "\<lambda>i. rule_policy_url k i @ ''/addRule''" "rule_url k ''removeRule''" "rule_add_body k" "\<lambda>_. None" for k
proof
  fix E :: "('w \<times> http_request list) env" and cfg request s p s'
  assume c: "Rule_Create E cfg k request s = (Ok p, s')" and ok: "pr_Status p \<noteq> OperationStatusFailure"
  from c ok obtain m priority where m: "unmarshal_map (cr_Properties request) = Inr m" "priorityOf (obj_of m) = Inr priority"
    by (fastforce simp: Rule_Create_def nat_failure_def split: sum.splits if_splits)
  define i where "i = rule_declared k (cr_TargetConfig request) (obj_of m) priority"
  have pr: "ri_project i \<noteq> []"
    using c ok m by (auto simp: Rule_Create_def nat_failure_def i_def Let_def split: if_splits)
  have loc: "rule_located (cr_TargetConfig request) i = i"
    using pr projectFor_fixed by (simp add: rule_located_def i_def rule_declared_def)
  have v: "verb_result OperationCreate (rule_nativeID k i) (rk_label k @ '' creation in progress'')
      (rule_issueVerb E cfg k (rule_policy_url k i @ ''/addRule'') (Some (rule_body k (obj_of m) True))
        (ri_project i) (ri_region i) s) = (Ok p, s')"
    using c ok m unfolding i_def by (auto simp: Rule_Create_def nat_failure_def Let_def split: if_splits)
  from verb_result_started [OF v ok] obtain rid where "pr_NativeID p = rule_nativeID k i"
    "rule_issueVerb E cfg k (rule_policy_url k i @ ''/addRule'') (Some (rule_body k (obj_of m) True))
        (ri_project i) (ri_region i) s = (Inr rid, s')" by blast
  moreover have "rule_of_create k request = Some i" "rule_add_body k request = rule_body k (obj_of m) True"
    using m by (simp_all add: rule_of_create_def rule_add_body_def i_def)
  ultimately show "\<exists>i failed ctx rid. rule_of_create k request = Some i \<and> pr_NativeID p = rule_nativeID k i
      \<and> rule_located (cr_TargetConfig request) i = i
      \<and> issue_verb E cfg failed (rule_policy_url k i @ ''/addRule'') (Some (rule_add_body k request)) ctx s = (Inr rid, s')"
    using loc unfolding rule_issueVerb_def by metis
next
  fix E :: "('w \<times> http_request list) env" and cfg s i and d :: DeleteRequest
  assume "rule_parseNativeID k (dl_NativeID d) = Inr i"
  then show "\<exists>failed ctx msg. Rule_Delete E cfg k d s = verb_result OperationDelete (dl_NativeID d) msg
      (issue_verb E cfg failed (rule_url k ''removeRule'' (rule_located (dl_TargetConfig d) i)) None ctx s)"
    by (auto simp: Rule_Delete_def rule_issueVerb_def Let_def)
qed

text \<open>
  C8: A rule is removed where it was added. When the rule a Create was asked for has started to be
  created, by one POST of addRule to its policy, then a Delete with the identifier Create handed out
  sends at most one request, removeRule to the same policy with the same priority, and reports a failure
  when it sends none.
\<close>
theorem rule_removed_where_added:
  assumes "Rule_Create (logged E) cfg k request s = (Ok p, s1)" and "pr_Status p \<noteq> OperationStatusFailure"
    and "rule_of_create k request = Some i" and "rule_ok k i"
    and "dl_NativeID d = pr_NativeID p" and "dl_TargetConfig d = cr_TargetConfig request"
    and "Rule_Delete (logged E) cfg k d s2 = (r, s3)"
  shows "(\<exists>add. sent s1 = sent s @ [add] \<and> posts_to (rule_policy_url k i @ ''/addRule'') (Some (rule_add_body k request)) add)
    \<and> ((sent s3 = sent s2 \<and> (\<exists>q. r = Ok q \<and> pr_Status q = OperationStatusFailure))
      \<or> (\<exists>rem. sent s3 = sent s2 @ [rem]
           \<and> posts_to (rule_policy_url k i @ ''/removeRule?priority='' @ Itoa (ri_priority i)) None rem))"
  using rule_verbs.create_then_delete [OF assms] by (simp add: rule_url_def)

section \<open>The properties on a concrete policy\<close>

definition demo_rule :: rule_id where
  "demo_rule = \<lparr>ri_project = ''p'', ri_region = [], ri_policy = ''fw'', ri_priority = 1000\<rparr>"

definition demo_rule_request :: CreateRequest where
  "demo_rule_request = \<lparr>cr_ResourceType = ''T'', cr_TargetConfig = demo_target,
     cr_Properties = RawDoc (JObj [(''firewallPolicy'', JStr ''fw''), (''priority'', JNum 1000 0)])\<rparr>"

lemma demo_rule_created: "rule_of_create firewallPolicyRuleKind demo_rule_request = Some demo_rule"
  by (simp add: rule_of_create_def demo_rule_request_def rule_declared_def priorityOf_def float_to_int64_def
      min_int64_def max_int64_def obj_of_def demo_target_project rule_regionFor_def firewallPolicyRuleKind_def
      prop_string_def string_or_empty_def demo_rule_def)

lemma demo_rule_ok: "rule_ok firewallPolicyRuleKind demo_rule"
  by (simp add: rule_ok_def firewallPolicyRuleKind_def demo_rule_def min_int64_def max_int64_def)

lemma Itoa_1000: "Itoa 1000 = ''1000''"
  by code_simp

lemma demo_rule_urls:
  "Parse (rule_policy_url firewallPolicyRuleKind demo_rule) \<noteq> None"
  "Parse (rule_policy_url firewallPolicyRuleKind demo_rule @ ''/addRule'') \<noteq> None"
  "Parse (rule_url firewallPolicyRuleKind ''removeRule'' demo_rule) \<noteq> None"
  by (simp_all add: rule_url_def rule_policy_url_def policyURL_def scopePath_def firewallPolicyRuleKind_def demo_rule_def
      ComputeAPI_def Itoa_1000 Parse_def before_def control_char_def Let_def)

lemma demo_rule_create:
  "\<exists>p add. Rule_Create (logged script_env) demo_cfg firewallPolicyRuleKind demo_rule_request (script_at [scripted 200 (JObj [])] [])
      = (Ok p, script_at [] [add])
    \<and> pr_Status p = OperationStatusInProgress \<and> pr_NativeID p = rule_nativeID firewallPolicyRuleKind demo_rule"
proof -
  let ?props = "[(''firewallPolicy'', JStr ''fw''), (''priority'', JNum 1000 0)]" and ?k = firewallPolicyRuleKind
  have *: "priorityOf ?props = Inr 1000" "rule_declared ?k demo_target ?props 1000 = demo_rule"
      "prop_string ?props (rk_policyProperty ?k) = ''fw''"
    by (simp_all add: priorityOf_def float_to_int64_def min_int64_def max_int64_def rule_declared_def demo_rule_def
        rule_regionFor_def firewallPolicyRuleKind_def prop_string_def string_or_empty_def)
  have "marshalable (JObj (rule_body ?k ?props True))" by (simp add: rule_body_def)
  with script_verb [OF demo_rule_urls(2), of "Some (rule_body ?k ?props True)" "rk_label ?k @ '' verb failed''" "op_context ''p'' []" "[]" "[]" "[]"]
  obtain req rid where "rule_issueVerb (logged script_env) demo_cfg ?k (rule_policy_url ?k demo_rule @ ''/addRule'')
      (Some (rule_body ?k ?props True)) ''p'' [] (script_at [scripted 200 (JObj [])] []) = (Inr rid, script_at [] [req])"
    by (auto simp: rule_issueVerb_def)
  moreover have "\<not> rk_regional ?k" "ri_project demo_rule = ''p''" "ri_region demo_rule = []"
    by (simp_all add: firewallPolicyRuleKind_def demo_rule_def)
  ultimately show ?thesis
    using * by (auto simp: Rule_Create_def demo_rule_request_def obj_of_def verb_result_def verb_started_def)
qed

theorem rule_removed_where_added_witness:
  "\<exists>p s1 r s3 add rem d.
     Rule_Create (logged script_env) demo_cfg firewallPolicyRuleKind demo_rule_request
       (script_at [scripted 200 (JObj [])] []) = (Ok p, s1)
     \<and> dl_NativeID d = pr_NativeID p
     \<and> Rule_Delete (logged script_env) demo_cfg firewallPolicyRuleKind d (script_at [scripted 200 (JObj [])] [add]) = (r, s3)
     \<and> sent s1 = [add] \<and> sent s3 = [add, rem]
     \<and> posts_to (rule_policy_url firewallPolicyRuleKind demo_rule @ ''/removeRule?priority='' @ Itoa (ri_priority demo_rule)) None rem"
proof -
  let ?k = firewallPolicyRuleKind
  obtain p add where c: "Rule_Create (logged script_env) demo_cfg ?k demo_rule_request (script_at [scripted 200 (JObj [])] [])
      = (Ok p, script_at [] [add])"
      and p: "pr_Status p = OperationStatusInProgress" "pr_NativeID p = rule_nativeID ?k demo_rule"
    using demo_rule_create by blast
  let ?s2 = "script_at [scripted 200 (JObj [])] [add]"
  define d where "d = \<lparr>dl_NativeID = pr_NativeID p, dl_ResourceType = ''T'', dl_TargetConfig = cr_TargetConfig demo_rule_request\<rparr>"
  obtain r s3 where del: "Rule_Delete (logged script_env) demo_cfg ?k d ?s2 = (r, s3)" by (metis surj_pair)
  have i: "rule_parseNativeID ?k (dl_NativeID d) = Inr demo_rule"
    using rule_reader.parse_build [OF demo_rule_ok] p(2) by (simp add: d_def)
  have "rule_located (dl_TargetConfig d) demo_rule = demo_rule"
    by (simp add: d_def demo_rule_request_def rule_located_def demo_rule_def)
  with script_verb [OF demo_rule_urls(3), of None "rk_label ?k @ '' verb failed''" "op_context (ri_project demo_rule) (ri_region demo_rule)" "[]" "[]" "[add]"] i del
  have "\<exists>q. r = Ok q \<and> pr_Status q = OperationStatusInProgress"
    by (auto simp: Rule_Delete_def rule_issueVerb_def verb_result_def verb_started_def)
  moreover have "dl_NativeID d = pr_NativeID p" "dl_TargetConfig d = cr_TargetConfig demo_rule_request"
    by (simp_all add: d_def)
  moreover note rule_removed_where_added [OF c _ demo_rule_created demo_rule_ok this del]
  ultimately obtain rem where "sent s3 = [add, rem]"
      "posts_to (rule_policy_url ?k demo_rule @ ''/removeRule?priority='' @ Itoa (ri_priority demo_rule)) None rem"
    using p(1) by auto
  moreover have "sent (script_at [] [add]) = [add]" by simp
  ultimately show ?thesis using c del \<open>dl_NativeID d = pr_NativeID p\<close> by blast
qed

definition demo_rule_list :: ListRequest where
  "demo_rule_list = \<lparr>ls_ResourceType = ''T'', ls_TargetConfig = demo_target, ls_PageSize = 0, ls_PageToken = None,
     ls_AdditionalProperties = [(''firewallPolicy'', ''fw'')]\<rparr>"

theorem discovered_rules_manageable_witness:
  "\<exists>r s' x. Rule_List (logged script_env) demo_cfg firewallPolicyRuleKind demo_rule_list
      (script_at [scripted 200 (JObj [(''rules'', JArr [JObj [(''priority'', JNum 1000 0)], JObj [(''priority'', JNum 2147483647 0)]])])] [])
      = (Ok r, s')
    \<and> lr_NativeIDs r = [x] \<and> (\<exists>i. x = rule_nativeID firewallPolicyRuleKind i \<and> ri_priority i < 2147483644)"
proof -
  let ?k = firewallPolicyRuleKind
  let ?body = "[(''rules'', JArr [JObj [(''priority'', JNum 1000 0)], JObj [(''priority'', JNum 2147483647 0)]])]"
  have u: "Parse (policyURL ?k ''p'' [] ''fw'') \<noteq> None"
    using demo_rule_urls(1) by (simp add: rule_policy_url_def demo_rule_def)
  have m: "List.map_filter (manageable ?k) (objects (array_of (obj_of (Some ?body)) ''rules'')) = [1000]"
    by (simp add: obj_of_def array_of_def objects_def map_filter_def manageable_def priorityOf_def float_to_int64_def
        min_int64_def max_int64_def firewallPolicyRuleKind_def impliedRulePriorityFloor_def)
  obtain get where "compute_get (logged script_env) demo_client (policyURL ?k ''p'' [] ''fw'') (''failed to list '' @ rk_label ?k @ ''s'')
      (script_at [scripted 200 (JObj ?body)] []) = (Inr (Some ?body), script_at [] [get])"
    using script_get [OF u, of "''failed to list '' @ rk_label ?k @ ''s''" ?body "[]" "[]"] by auto
  then have "rulesOfPolicy (logged script_env) demo_client ?k ''p'' [] ''fw'' (script_at [scripted 200 (JObj ?body)] [])
      = (Inr [rule_nativeID ?k demo_rule], script_at [] [get])"
    using m by (simp add: rulesOfPolicy_def demo_rule_def)
  then have l: "Rule_List (logged script_env) demo_cfg ?k demo_rule_list (script_at [scripted 200 (JObj ?body)] [])
      = (Ok \<lparr>lr_NativeIDs = [rule_nativeID ?k demo_rule], lr_NextPageToken = None\<rparr>, script_at [] [get])"
    by (simp add: Rule_List_def demo_rule_list_def rule_regionFor_def extra_def demo_NewClient walk_or_named_def listed_def
        firewallPolicyRuleKind_def)
  have "?k \<in> set rule_kinds" by (simp add: rule_kinds_def)
  from discovered_rules_manageable [OF this l, of "rule_nativeID ?k demo_rule"] l show ?thesis
    by (auto simp: firewallPolicyRuleKind_def impliedRulePriorityFloor_def)
qed

end
