(* ===== verification/Network_Parts.thy ===== *)
theory Network_Parts
  imports Compute_Verbs
begin

text \<open>
  Objects that exist only inside another Compute resource and are added and removed by verbs on it:
  associations of firewall policies (\<^verbatim>\<open>firewall_policy_association.go\<close>), network peerings
  (\<^verbatim>\<open>network_peering.go\<close>), signed URL keys (\<^verbatim>\<open>backend_service_signed_url_key.go\<close>),
  resource policies attached to disks (\<^verbatim>\<open>disk_resource_policy_attachment.go\<close>) and endpoints of
  global network endpoint groups (\<^verbatim>\<open>global_network_endpoint.go\<close>), all under
  \<^verbatim>\<open>src/pkg/resources/compute/\<close>.
\<close>

text \<open>The part of the project that these verbs address, and a refusal to update.\<close>

definition compute_url :: "string \<Rightarrow> string \<Rightarrow> string" where
  "compute_url project path = ac_BaseURL ComputeAPI @ ''/projects/'' @ project @ ''/'' @ path"

definition not_updatable :: "string \<Rightarrow> ('w, ProgressResult) op" where
  "not_updatable msg s = (Ok (nat_failure OperationUpdate NotUpdatable msg), s)"

section \<open>Associations of firewall policies\<close>

definition associationPolicyProperty :: string where "associationPolicyProperty = ''firewallPolicy''"

definition assoc_scope :: "bool \<Rightarrow> ScopeType" where
  "assoc_scope regional = (if regional then ScopeRegional else ScopeGlobal)"

definition assoc_scopePath :: "bool \<Rightarrow> string \<Rightarrow> string" where
  "assoc_scopePath regional region = (if regional then ''regions/'' @ region else ''global'')"

definition buildAssociationNativeID :: "bool \<Rightarrow> part_id \<Rightarrow> string" where
  "buildAssociationNativeID regional i =
     ''projects/'' @ pi_project i @ ''/'' @ assoc_scopePath regional (pi_region i) @ ''/firewallPolicies/''
       @ pi_parent i @ ''/associations/'' @ pi_name i"

definition parseAssociationNativeID :: "bool \<Rightarrow> string \<Rightarrow> goerr + part_id" where
  "parseAssociationNativeID regional nativeID =
     (let invalid = Inl (ErrText (''invalid firewall policy association native ID: '' @ nativeID));
          parts = Split nativeID CHR ''/'';
          off = (if regional then 1 else 0)
      in if length parts \<noteq> 7 + off \<or> parts ! 0 \<noteq> ''projects'' then invalid
         else if regional \<and> (parts ! 2 \<noteq> ''regions'' \<or> parts ! 3 = []) then invalid
         else if \<not> regional \<and> parts ! 2 \<noteq> ''global'' then invalid
         else if parts ! (3 + off) \<noteq> ''firewallPolicies'' \<or> parts ! (5 + off) \<noteq> ''associations''
                 \<or> parts ! (6 + off) = [] then invalid
         else Inr \<lparr>pi_project = parts ! 1, pi_region = (if regional then parts ! 3 else []),
                   pi_parent = parts ! (4 + off), pi_name = parts ! (6 + off)\<rparr>)"

definition associationBody :: "obj \<Rightarrow> obj" where
  "associationBody props =
     (let name = prop_string props ''name''; target = prop_string props ''attachmentTarget''
      in (if name \<noteq> [] then [(''name'', JStr name)] else [])
         @ (if target \<noteq> [] then [(''attachmentTarget'', JStr target)] else []))"

definition assoc_policyURL :: "bool \<Rightarrow> string \<Rightarrow> string \<Rightarrow> string \<Rightarrow> string" where
  "assoc_policyURL regional project region policy =
     compute_url project (assoc_scopePath regional region @ ''/firewallPolicies/'' @ policy)"

definition assoc_regionFor :: "bool \<Rightarrow> obj \<Rightarrow> raw \<Rightarrow> string" where
  "assoc_regionFor regional props target = (if regional then regionFor props target [] else [])"

definition assoc_issueVerb ::
    "'w env \<Rightarrow> Config option \<Rightarrow> string \<Rightarrow> obj option \<Rightarrow> string \<Rightarrow> string \<Rightarrow> 'w machine
      \<Rightarrow> (terror + string) \<times> 'w machine" where
  "assoc_issueVerb E cfg url body project region =
     issue_verb E cfg ''firewall policy association verb failed'' url body (op_context project region)"

definition assoc_url :: "bool \<Rightarrow> part_id \<Rightarrow> string" where
  "assoc_url regional i = assoc_policyURL regional (pi_project i) (pi_region i) (pi_parent i)"

definition assoc_declared :: "bool \<Rightarrow> raw \<Rightarrow> obj \<Rightarrow> part_id" where
  "assoc_declared regional target props =
     \<lparr>pi_project = projectFor target [], pi_region = assoc_regionFor regional props target,
      pi_parent = prop_string props associationPolicyProperty, pi_name = prop_string props ''name''\<rparr>"

definition Assoc_Create :: "'w env \<Rightarrow> Config option \<Rightarrow> bool \<Rightarrow> CreateRequest \<Rightarrow> ('w, ProgressResult) op" where
  "Assoc_Create E cfg regional request s =
     (case unmarshal_map (cr_Properties request) of
        Inl e \<Rightarrow> (Ok (nat_failure OperationCreate InvalidRequest (''invalid properties: '' @ e)), s)
      | Inr m \<Rightarrow>
          (let i = assoc_declared regional (cr_TargetConfig request) (obj_of m)
           in if pi_parent i = [] \<or> pi_name i = [] \<or> prop_string (obj_of m) ''attachmentTarget'' = [] then
                (Ok (nat_failure OperationCreate InvalidRequest
                       ''firewallPolicy, name and attachmentTarget are required''), s)
              else if pi_project i = [] then
                (Ok (nat_failure OperationCreate InvalidRequest ''target project is required''), s)
              else if regional \<and> pi_region i = [] then
                (Ok (nat_failure OperationCreate InvalidRequest ''region is required''), s)
              else verb_result OperationCreate (buildAssociationNativeID regional i)
                     ''firewall policy association in progress''
                     (assoc_issueVerb E cfg (assoc_url regional i @ ''/addAssociation'')
                        (Some (associationBody (obj_of m))) (pi_project i) (pi_region i) s)))"

text \<open>An association that was removed answers 400.\<close>

definition assoc_read_code :: "terror \<Rightarrow> OperationErrorCode" where
  "assoc_read_code te =
     (let code = ToResourceErrorCode (te_Code te)
      in if code = InvalidRequest \<and> Contains (ToLower (te_Message te)) ''does not exist'' then NotFound else code)"

definition assoc_properties :: "bool \<Rightarrow> part_id \<Rightarrow> obj \<Rightarrow> obj" where
  "assoc_properties regional i body =
     (let props = AList.update associationPolicyProperty (JStr (pi_parent i)) body
      in if regional then AList.update ''region'' (JStr (pi_region i)) props else props)"

definition Assoc_Read :: "'w env \<Rightarrow> Config option \<Rightarrow> bool \<Rightarrow> ReadRequest \<Rightarrow> ('w, ReadResult) op" where
  "Assoc_Read E cfg regional request s =
     (case parseAssociationNativeID regional (rd_NativeID request) of
        Inl e \<Rightarrow> (Ok (read_error InvalidRequest), s)
      | Inr i0 \<Rightarrow>
          (let i = part_located (rd_TargetConfig request) i0
           in case NewClient E cfg s of
                (Inl e, s1) \<Rightarrow> (Err (client_error e), s1)
              | (Inr client, s1) \<Rightarrow>
                  (case compute_get E client (assoc_url regional i @ ''/getAssociation?name='' @ pi_name i)
                          ''failed to read firewall policy association'' s1 of
                     (Inl te, s2) \<Rightarrow> (Ok (read_error (assoc_read_code te)), s2)
                   | (Inr body, s2) \<Rightarrow> (marshalled ''association'' (assoc_properties regional i (obj_of body)), s2))))"

definition Assoc_Update :: "UpdateRequest \<Rightarrow> ('w, ProgressResult) op" where
  "Assoc_Update request =
     not_updatable ''a firewall policy association is a (policy, network) pair; a change replaces it''"

definition Assoc_Delete :: "'w env \<Rightarrow> Config option \<Rightarrow> bool \<Rightarrow> DeleteRequest \<Rightarrow> ('w, ProgressResult) op" where
  "Assoc_Delete E cfg regional request s =
     (case parseAssociationNativeID regional (dl_NativeID request) of
        Inl e \<Rightarrow> (Ok (nat_failure OperationDelete InvalidRequest (err_text e)), s)
      | Inr i0 \<Rightarrow>
          (let i = part_located (dl_TargetConfig request) i0
           in verb_result OperationDelete (dl_NativeID request) ''firewall policy association removal in progress''
                (assoc_issueVerb E cfg (assoc_url regional i @ ''/removeAssociation?name='' @ pi_name i) None
                   (pi_project i) (pi_region i) s)))"

definition assoc_ids ::
    "'w env \<Rightarrow> Client \<Rightarrow> bool \<Rightarrow> string \<Rightarrow> string \<Rightarrow> string \<Rightarrow> 'w machine \<Rightarrow> (terror + string list) \<times> 'w machine" where
  "assoc_ids E client regional project region policy s =
     (case compute_get E client (assoc_policyURL regional project region policy)
             ''failed to list firewall policy associations'' s of
        (Inl te, s1) \<Rightarrow> (Inl te, s1)
      | (Inr body, s1) \<Rightarrow>
          (Inr (map (\<lambda>n. buildAssociationNativeID regional
                       \<lparr>pi_project = project, pi_region = region, pi_parent = policy, pi_name = n\<rparr>)
                  (names_of ''name'' (array_of (obj_of body) ''associations''))), s1))"

definition Assoc_List :: "'w env \<Rightarrow> Config option \<Rightarrow> bool \<Rightarrow> ListRequest \<Rightarrow> ('w, ListResult) op" where
  "Assoc_List E cfg regional request s =
     (let project = projectFor (ls_TargetConfig request) [];
          region = assoc_regionFor regional [(''region'', JStr (extra request ''region''))] (ls_TargetConfig request)
      in if project = [] \<or> regional \<and> region = [] then (Ok nothing_listed, s)
         else case NewClient E cfg s of
           (Inl e, s1) \<Rightarrow> (Err (client_error e), s1)
         | (Inr client, s1) \<Rightarrow>
             walk_or_named E client (extra request associationPolicyProperty)
               (compute_url project (assoc_scopePath regional region @ ''/firewallPolicies'')) ''firewall policies''
               (assoc_ids E client regional project region) s1)"

definition assoc_config :: "Config option \<Rightarrow> bool \<Rightarrow> 'w BaseResource" where
  "assoc_config cfg regional = compute_base cfg ''firewallPolicies'' (assoc_scope regional)"

definition Assoc_Status :: "'w env \<Rightarrow> Config option \<Rightarrow> bool \<Rightarrow> StatusRequest \<Rightarrow> ('w, ProgressResult) op" where
  "Assoc_Status E cfg regional request =
     StatusWithRead E (assoc_config cfg regional)
       (Some (Assoc_Read E cfg regional)) request"

section \<open>Network peerings\<close>

definition peeringNetworkField :: string where "peeringNetworkField = ''network''"
definition peeringPeerField :: string where "peeringPeerField = ''peerNetwork''"

definition buildPeeringNativeID :: "part_id \<Rightarrow> string" where
  "buildPeeringNativeID i =
     ''projects/'' @ pi_project i @ ''/global/networks/'' @ pi_parent i @ ''/peerings/'' @ pi_name i"

definition parsePeeringNativeID :: "string \<Rightarrow> goerr + part_id" where
  "parsePeeringNativeID nativeID =
     (case Split nativeID CHR ''/'' of
        [a, project, b, c, network, d, name] \<Rightarrow>
          if a = ''projects'' \<and> b = ''global'' \<and> c = ''networks'' \<and> d = ''peerings''
          then Inr \<lparr>pi_project = project, pi_region = [], pi_parent = network, pi_name = name\<rparr>
          else Inl (ErrText (''invalid network peering native ID: '' @ nativeID))
      | _ \<Rightarrow> Inl (ErrText (''invalid network peering native ID: '' @ nativeID)))"

definition peering_entry :: "string \<times> json \<Rightarrow> obj" where
  "peering_entry kv =
     (case kv of (k, v) \<Rightarrow>
        if k \<in> {peeringNetworkField, ''state'', ''stateDetails''} then []
        else if k = peeringPeerField then [(''network'', v)] else [(k, v)])"

definition peering_of :: "obj \<Rightarrow> obj" where
  "peering_of props = concat (map peering_entry props)"

definition peeringBody :: "obj \<Rightarrow> obj" where
  "peeringBody props = [(''networkPeering'', JObj (peering_of props))]"

definition networkURL :: "string \<Rightarrow> string \<Rightarrow> string" where
  "networkURL project network = compute_url project (''global/networks/'' @ network)"

definition peering_issueVerb ::
    "'w env \<Rightarrow> Config option \<Rightarrow> string \<Rightarrow> obj option \<Rightarrow> string \<Rightarrow> 'w machine
      \<Rightarrow> (terror + string) \<times> 'w machine" where
  "peering_issueVerb E cfg url body project =
     issue_verb E cfg ''network peering verb failed'' url body (op_context project [])"

definition findPeering ::
    "'w env \<Rightarrow> Config option \<Rightarrow> string \<Rightarrow> string \<Rightarrow> string \<Rightarrow> 'w machine \<Rightarrow> (terror + obj option) \<times> 'w machine" where
  "findPeering E cfg project network name s =
     (case NewClient E cfg s of
        (Inl e, s1) \<Rightarrow> (Inl (wrap_err e ''failed to create transport client''), s1)
      | (Inr client, s1) \<Rightarrow>
          (case compute_get E client (networkURL project network) ''failed to read owning network'' s1 of
             (Inl te, s2) \<Rightarrow> (Inl te, s2)
           | (Inr body, s2) \<Rightarrow>
               (Inr (find (\<lambda>x. map_of x ''name'' = Some (JStr name)) (objects (array_of (obj_of body) ''peerings''))), s2)))"

definition peering_declared :: "raw \<Rightarrow> obj \<Rightarrow> part_id" where
  "peering_declared target props =
     \<lparr>pi_project = projectFor target [], pi_region = [], pi_parent = prop_string props peeringNetworkField,
      pi_name = prop_string props ''name''\<rparr>"

definition Peering_Create :: "'w env \<Rightarrow> Config option \<Rightarrow> CreateRequest \<Rightarrow> ('w, ProgressResult) op" where
  "Peering_Create E cfg request s =
     (case unmarshal_map (cr_Properties request) of
        Inl e \<Rightarrow> (Ok (nat_failure OperationCreate InvalidRequest (''invalid properties: '' @ e)), s)
      | Inr m \<Rightarrow>
          (let i = peering_declared (cr_TargetConfig request) (obj_of m)
           in if pi_parent i = [] \<or> pi_name i = [] then
                (Ok (nat_failure OperationCreate InvalidRequest ''name and network are required''), s)
              else if pi_project i = [] then
                (Ok (nat_failure OperationCreate InvalidRequest ''target project is required''), s)
              else verb_result OperationCreate (buildPeeringNativeID i) ''network peering creation in progress''
                     (peering_issueVerb E cfg (networkURL (pi_project i) (pi_parent i) @ ''/addPeering'')
                        (Some (peeringBody (obj_of m))) (pi_project i) s)))"

text \<open>The far side is renamed and the owning network put back; both assignments range over a map.\<close>

definition peering_properties :: "string \<Rightarrow> obj \<Rightarrow> obj" where
  "peering_properties network peering =
     AList.update peeringNetworkField (JStr network)
       (fold (\<lambda>(k, v). AList.update (if k = ''network'' then peeringPeerField else k) v) peering [])"

definition Peering_Read :: "'w env \<Rightarrow> Config option \<Rightarrow> ReadRequest \<Rightarrow> ('w, ReadResult) op" where
  "Peering_Read E cfg request s =
     (case parsePeeringNativeID (rd_NativeID request) of
        Inl e \<Rightarrow> (Ok (read_error InvalidRequest), s)
      | Inr i0 \<Rightarrow>
          (let i = part_located (rd_TargetConfig request) i0
           in case findPeering E cfg (pi_project i) (pi_parent i) (pi_name i) s of
                (Inl te, s1) \<Rightarrow> (Ok (read_error (ToResourceErrorCode (te_Code te))), s1)
              | (Inr None, s1) \<Rightarrow> (Ok (read_error NotFound), s1)
              | (Inr (Some peering), s1) \<Rightarrow> (marshalled ''peering'' (peering_properties (pi_parent i) peering), s1)))"

definition Peering_Update :: "UpdateRequest \<Rightarrow> ('w, ProgressResult) op" where
  "Peering_Update request =
     not_updatable ''network peerings cannot be updated in place; the change replaces the peering''"

definition Peering_Delete :: "'w env \<Rightarrow> Config option \<Rightarrow> DeleteRequest \<Rightarrow> ('w, ProgressResult) op" where
  "Peering_Delete E cfg request s =
     (case parsePeeringNativeID (dl_NativeID request) of
        Inl e \<Rightarrow> (Ok (nat_failure OperationDelete InvalidRequest (err_text e)), s)
      | Inr i0 \<Rightarrow>
          (let i = part_located (dl_TargetConfig request) i0
           in verb_result OperationDelete (dl_NativeID request) ''network peering deletion in progress''
                (peering_issueVerb E cfg (networkURL (pi_project i) (pi_parent i) @ ''/removePeering'')
                   (Some [(''name'', JStr (pi_name i))]) (pi_project i) s)))"

definition network_peering_ids :: "string \<Rightarrow> obj \<Rightarrow> string list" where
  "network_peering_ids project network =
     map (\<lambda>n. buildPeeringNativeID
            \<lparr>pi_project = project, pi_region = [], pi_parent = prop_string network ''name'', pi_name = n\<rparr>)
       (names_of ''name'' (array_of network ''peerings''))"

definition Peering_List :: "'w env \<Rightarrow> Config option \<Rightarrow> ListRequest \<Rightarrow> ('w, ListResult) op" where
  "Peering_List E cfg request s =
     (let project = projectFor (ls_TargetConfig request) []
      in if project = [] then (Ok nothing_listed, s)
         else case NewClient E cfg s of
           (Inl e, s1) \<Rightarrow> (Err (client_error e), s1)
         | (Inr client, s1) \<Rightarrow>
             (case compute_get E client (compute_url project ''global/networks'') ''failed to list networks'' s1 of
                (Inl te, s2) \<Rightarrow> (Err (terror_err te), s2)
              | (Inr body, s2) \<Rightarrow>
                  (Ok \<lparr>lr_NativeIDs = concat (map (network_peering_ids project) (objects (array_of (obj_of body) ''items''))),
                       lr_NextPageToken = None\<rparr>, s2)))"

definition peering_config :: "Config option \<Rightarrow> 'w BaseResource" where
  "peering_config cfg = compute_base cfg ''networks'' ScopeGlobal"

definition Peering_Status :: "'w env \<Rightarrow> Config option \<Rightarrow> StatusRequest \<Rightarrow> ('w, ProgressResult) op" where
  "Peering_Status E cfg request =
     StatusWithRead E (peering_config cfg) (Some (Peering_Read E cfg)) request"

section \<open>Signed URL keys\<close>

definition signedUrlKeyBackendProperty :: string where "signedUrlKeyBackendProperty = ''backendService''"

definition buildSignedUrlKeyNativeID :: "part_id \<Rightarrow> string" where
  "buildSignedUrlKeyNativeID i =
     ''projects/'' @ pi_project i @ ''/global/backendServices/'' @ pi_parent i @ ''/signedUrlKeys/'' @ pi_name i"

definition parseSignedUrlKeyNativeID :: "string \<Rightarrow> goerr + part_id" where
  "parseSignedUrlKeyNativeID nativeID =
     (case Split nativeID CHR ''/'' of
        [a, project, b, c, backendService, d, keyName] \<Rightarrow>
          if a = ''projects'' \<and> b = ''global'' \<and> c = ''backendServices'' \<and> d = ''signedUrlKeys'' \<and> keyName \<noteq> []
          then Inr \<lparr>pi_project = project, pi_region = [], pi_parent = backendService, pi_name = keyName\<rparr>
          else Inl (ErrText (''invalid signed URL key native ID: '' @ nativeID))
      | _ \<Rightarrow> Inl (ErrText (''invalid signed URL key native ID: '' @ nativeID)))"

definition backendServiceURL :: "string \<Rightarrow> string \<Rightarrow> string" where
  "backendServiceURL project backendService = compute_url project (''global/backendServices/'' @ backendService)"

definition key_issueVerb ::
    "'w env \<Rightarrow> Config option \<Rightarrow> string \<Rightarrow> obj option \<Rightarrow> string \<Rightarrow> 'w machine
      \<Rightarrow> (terror + string) \<times> 'w machine" where
  "key_issueVerb E cfg url body project =
     issue_verb E cfg ''signed URL key verb failed'' url body (op_context project [])"

definition key_declared :: "raw \<Rightarrow> obj \<Rightarrow> part_id" where
  "key_declared target props =
     \<lparr>pi_project = projectFor target [], pi_region = [], pi_parent = prop_string props signedUrlKeyBackendProperty,
      pi_name = prop_string props ''keyName''\<rparr>"

definition key_body :: "obj \<Rightarrow> obj" where
  "key_body props =
     [(''keyName'', JStr (prop_string props ''keyName'')), (''keyValue'', JStr (prop_string props ''keyValue''))]"

definition Key_Create :: "'w env \<Rightarrow> Config option \<Rightarrow> CreateRequest \<Rightarrow> ('w, ProgressResult) op" where
  "Key_Create E cfg request s =
     (case unmarshal_map (cr_Properties request) of
        Inl e \<Rightarrow> (Ok (nat_failure OperationCreate InvalidRequest (''invalid properties: '' @ e)), s)
      | Inr m \<Rightarrow>
          (let i = key_declared (cr_TargetConfig request) (obj_of m)
           in if pi_parent i = [] \<or> pi_name i = [] \<or> prop_string (obj_of m) ''keyValue'' = [] then
                (Ok (nat_failure OperationCreate InvalidRequest ''backendService, keyName and keyValue are required''), s)
              else if pi_project i = [] then
                (Ok (nat_failure OperationCreate InvalidRequest ''target project is required''), s)
              else verb_result OperationCreate (buildSignedUrlKeyNativeID i) ''signed URL key creation in progress''
                     (key_issueVerb E cfg (backendServiceURL (pi_project i) (pi_parent i) @ ''/addSignedUrlKey'')
                        (Some (key_body (obj_of m))) (pi_project i) s)))"

definition strings :: "json list \<Rightarrow> string list" where
  "strings xs = filter (\<lambda>n. n \<noteq> []) (map (\<lambda>x. string_or_empty (as_string (Some x))) xs)"

definition signedUrlKeyNames :: "obj \<Rightarrow> string list" where
  "signedUrlKeyNames backendService =
     (case as_obj (map_of backendService ''cdnPolicy'') of
        None \<Rightarrow> []
      | Some cdnPolicy \<Rightarrow> strings (array_of cdnPolicy ''signedUrlKeyNames''))"

definition signedUrlKeyPresent :: "obj \<Rightarrow> string \<Rightarrow> bool" where
  "signedUrlKeyPresent backendService keyName \<longleftrightarrow> keyName \<in> set (signedUrlKeyNames backendService)"

definition Key_Read :: "'w env \<Rightarrow> Config option \<Rightarrow> ReadRequest \<Rightarrow> ('w, ReadResult) op" where
  "Key_Read E cfg request s =
     (case parseSignedUrlKeyNativeID (rd_NativeID request) of
        Inl e \<Rightarrow> (Ok (read_error InvalidRequest), s)
      | Inr i0 \<Rightarrow>
          (let i = part_located (rd_TargetConfig request) i0
           in case NewClient E cfg s of
                (Inl e, s1) \<Rightarrow> (Err (client_error e), s1)
              | (Inr client, s1) \<Rightarrow>
                  (case compute_get E client (backendServiceURL (pi_project i) (pi_parent i))
                          ''failed to read backend service'' s1 of
                     (Inl te, s2) \<Rightarrow> (Ok (read_error (ToResourceErrorCode (te_Code te))), s2)
                   | (Inr body, s2) \<Rightarrow>
                       if \<not> signedUrlKeyPresent (obj_of body) (pi_name i) then (Ok (read_error NotFound), s2)
                       else (marshalled ''signed URL key''
                               [(''keyName'', JStr (pi_name i)), (signedUrlKeyBackendProperty, JStr (pi_parent i))], s2))))"

definition Key_Update :: "UpdateRequest \<Rightarrow> ('w, ProgressResult) op" where
  "Key_Update request =
     not_updatable ''a signed URL key cannot be changed in place; rotating it removes and re-adds the key''"

definition Key_Delete :: "'w env \<Rightarrow> Config option \<Rightarrow> DeleteRequest \<Rightarrow> ('w, ProgressResult) op" where
  "Key_Delete E cfg request s =
     (case parseSignedUrlKeyNativeID (dl_NativeID request) of
        Inl e \<Rightarrow> (Ok (nat_failure OperationDelete InvalidRequest (err_text e)), s)
      | Inr i0 \<Rightarrow>
          (let i = part_located (dl_TargetConfig request) i0
           in verb_result OperationDelete (dl_NativeID request) ''signed URL key removal in progress''
                (key_issueVerb E cfg
                   (backendServiceURL (pi_project i) (pi_parent i) @ ''/deleteSignedUrlKey?keyName='' @ pi_name i)
                   None (pi_project i) s)))"

definition service_key_ids :: "string \<Rightarrow> string \<Rightarrow> obj \<Rightarrow> string list" where
  "service_key_ids project service body =
     map (\<lambda>n. buildSignedUrlKeyNativeID \<lparr>pi_project = project, pi_region = [], pi_parent = service, pi_name = n\<rparr>)
       (signedUrlKeyNames body)"

text \<open>The entries of an aggregated list: a map from scopes to objects that hold an array each.\<close>

definition aggregated :: "obj \<Rightarrow> (string \<times> obj) list" where
  "aggregated body =
     concat (map (\<lambda>(scope, payload). case as_obj (Some payload) of Some entry \<Rightarrow> [(scope, entry)] | None \<Rightarrow> [])
       (obj_of (as_obj (map_of body ''items''))))"

definition aggregated_key_ids :: "string \<Rightarrow> obj \<Rightarrow> string list" where
  "aggregated_key_ids project body =
     concat (map (\<lambda>(scope, entry).
       concat (map (\<lambda>svc. let name = prop_string svc ''name''
                          in if name = [] then [] else service_key_ids project name svc)
         (objects (array_of entry ''backendServices'')))) (aggregated body))"

definition Key_List :: "'w env \<Rightarrow> Config option \<Rightarrow> ListRequest \<Rightarrow> ('w, ListResult) op" where
  "Key_List E cfg request s =
     (let project = projectFor (ls_TargetConfig request) [];
          service = extra request signedUrlKeyBackendProperty
      in if project = [] then (Ok nothing_listed, s)
         else case NewClient E cfg s of
           (Inl e, s1) \<Rightarrow> (Err (client_error e), s1)
         | (Inr client, s1) \<Rightarrow>
             if service \<noteq> [] then
               (case compute_get E client (backendServiceURL project service) ''failed to read backend service'' s1 of
                  (Inl te, s2) \<Rightarrow> (Err (terror_err te), s2)
                | (Inr body, s2) \<Rightarrow>
                    (Ok \<lparr>lr_NativeIDs = service_key_ids project service (obj_of body), lr_NextPageToken = None\<rparr>, s2))
             else
               (case compute_get E client (compute_url project ''aggregated/backendServices'')
                       ''failed to list backend services'' s1 of
                  (Inl te, s2) \<Rightarrow> (Err (terror_err te), s2)
                | (Inr body, s2) \<Rightarrow>
                    (Ok \<lparr>lr_NativeIDs = aggregated_key_ids project (obj_of body), lr_NextPageToken = None\<rparr>, s2)))"

definition key_config :: "Config option \<Rightarrow> 'w BaseResource" where
  "key_config cfg = compute_base cfg ''backendServices'' ScopeGlobal"

definition Key_Status :: "'w env \<Rightarrow> Config option \<Rightarrow> StatusRequest \<Rightarrow> ('w, ProgressResult) op" where
  "Key_Status E cfg request =
     StatusWithRead E (key_config cfg) (Some (Key_Read E cfg)) request"

section \<open>Identifiers read back\<close>

definition assoc_ok :: "bool \<Rightarrow> part_id \<Rightarrow> bool" where
  "assoc_ok regional i \<longleftrightarrow> seg (pi_project i) \<and> seg (pi_region i) \<and> seg (pi_parent i) \<and> seg (pi_name i)
     \<and> (regional \<longleftrightarrow> pi_region i \<noteq> []) \<and> pi_name i \<noteq> []"

interpretation assoc_reader: id_reader "buildAssociationNativeID regional" "parseAssociationNativeID regional"
  "assoc_ok regional" for regional
proof
  fix i assume "assoc_ok regional i"
  then show "parseAssociationNativeID regional (buildAssociationNativeID regional i) = Inr i"
    by (cases regional) (simp_all add: assoc_ok_def buildAssociationNativeID_def parseAssociationNativeID_def
        assoc_scopePath_def segment)
qed

definition global_ok :: "part_id \<Rightarrow> bool" where
  "global_ok i \<longleftrightarrow> seg (pi_project i) \<and> seg (pi_parent i) \<and> seg (pi_name i) \<and> pi_region i = []"

lemma seven_segments:
  assumes "Split s CHR ''/'' = [a, b, c, d, e, f, g]"
  shows "s = a @ ''/'' @ b @ ''/'' @ c @ ''/'' @ d @ ''/'' @ e @ ''/'' @ f @ ''/'' @ g
    \<and> (\<forall>x \<in> {a, b, c, d, e, f, g}. seg x)"
proof -
  have "\<forall>x \<in> set (Split s CHR ''/''). seg x" using Split_member_seg by blast
  moreover have "Join (Split s CHR ''/'') ''/'' = s" by (rule Join_Split)
  ultimately show ?thesis using assms by simp
qed

interpretation peering_codec: id_codec buildPeeringNativeID parsePeeringNativeID global_ok
proof
  fix i assume "global_ok i"
  then show "parsePeeringNativeID (buildPeeringNativeID i) = Inr i"
    by (simp add: global_ok_def buildPeeringNativeID_def parsePeeringNativeID_def segment)
next
  fix s i assume "parsePeeringNativeID s = Inr i"
  then have "Split s CHR ''/'' = [''projects'', pi_project i, ''global'', ''networks'', pi_parent i, ''peerings'', pi_name i]
      \<and> pi_region i = []"
    by (auto simp: parsePeeringNativeID_def split: list.splits if_splits)
  then show "global_ok i \<and> buildPeeringNativeID i = s"
    using seven_segments by (fastforce simp: global_ok_def buildPeeringNativeID_def)
qed

interpretation key_codec: id_codec buildSignedUrlKeyNativeID parseSignedUrlKeyNativeID
  "\<lambda>i. global_ok i \<and> pi_name i \<noteq> []"
proof
  fix i assume "global_ok i \<and> pi_name i \<noteq> []"
  then show "parseSignedUrlKeyNativeID (buildSignedUrlKeyNativeID i) = Inr i"
    by (simp add: global_ok_def buildSignedUrlKeyNativeID_def parseSignedUrlKeyNativeID_def segment)
next
  fix s i assume "parseSignedUrlKeyNativeID s = Inr i"
  then have "Split s CHR ''/'' = [''projects'', pi_project i, ''global'', ''backendServices'', pi_parent i,
      ''signedUrlKeys'', pi_name i] \<and> pi_region i = [] \<and> pi_name i \<noteq> []"
    by (auto simp: parseSignedUrlKeyNativeID_def split: list.splits if_splits)
  then show "(global_ok i \<and> pi_name i \<noteq> []) \<and> buildSignedUrlKeyNativeID i = s"
    using seven_segments by (fastforce simp: global_ok_def buildSignedUrlKeyNativeID_def)
qed

section \<open>Parts are removed where they were added\<close>

interpretation assoc_verbs: verb_resource "buildAssociationNativeID regional" "parseAssociationNativeID regional"
  "assoc_ok regional" "\<lambda>E cfg. Assoc_Create E cfg regional" "\<lambda>E cfg. Assoc_Delete E cfg regional" part_located
  "declared_by (assoc_declared regional)" "\<lambda>i. assoc_url regional i @ ''/addAssociation''"
  "\<lambda>i. assoc_url regional i @ ''/removeAssociation?name='' @ pi_name i" "\<lambda>request. associationBody (props_of request)" "\<lambda>_. None"
  for regional
proof
  fix E :: "('w \<times> http_request list) env" and cfg s p s' and request :: CreateRequest
  assume c: "Assoc_Create E cfg regional request s = (Ok p, s')" and ok: "pr_Status p \<noteq> OperationStatusFailure"
  obtain m where m: "unmarshal_map (cr_Properties request) = Inr m"
    using c ok by (cases "unmarshal_map (cr_Properties request)") (auto simp: Assoc_Create_def nat_failure_def)
  show "\<exists>i failed ctx rid. declared_by (assoc_declared regional) request = Some i
      \<and> pr_NativeID p = buildAssociationNativeID regional i \<and> part_located (cr_TargetConfig request) i = i
      \<and> issue_verb E cfg failed (assoc_url regional i @ ''/addAssociation'') (Some (associationBody (props_of request))) ctx s
        = (Inr rid, s')"
    by (rule declared_create [OF m refl _ _ _ ok])
      (use c ok m in \<open>auto simp: Assoc_Create_def assoc_issueVerb_def assoc_declared_def nat_failure_def Let_def split: if_splits\<close>)
next
  fix E :: "('w \<times> http_request list) env" and cfg s i and d :: DeleteRequest
  assume "parseAssociationNativeID regional (dl_NativeID d) = Inr i"
  then show "\<exists>failed ctx msg. Assoc_Delete E cfg regional d s = verb_result OperationDelete (dl_NativeID d) msg
      (issue_verb E cfg failed (assoc_url regional (part_located (dl_TargetConfig d) i) @ ''/removeAssociation?name=''
        @ pi_name (part_located (dl_TargetConfig d) i)) None ctx s)"
    by (auto simp: Assoc_Delete_def assoc_issueVerb_def Let_def)
qed

interpretation peering_verbs: verb_resource buildPeeringNativeID parsePeeringNativeID "global_ok" Peering_Create Peering_Delete part_located "declared_by peering_declared"
  "\<lambda>i. networkURL (pi_project i) (pi_parent i) @ ''/addPeering''" "\<lambda>i. networkURL (pi_project i) (pi_parent i) @ ''/removePeering''" "\<lambda>request. peeringBody (props_of request)" "\<lambda>i. Some [(''name'', JStr (pi_name i))]"
proof
  fix E :: "('w \<times> http_request list) env" and cfg s p s' and request :: CreateRequest
  assume c: "Peering_Create E cfg request s = (Ok p, s')" and ok: "pr_Status p \<noteq> OperationStatusFailure"
  obtain m where m: "unmarshal_map (cr_Properties request) = Inr m"
    using c ok by (cases "unmarshal_map (cr_Properties request)") (auto simp: Peering_Create_def nat_failure_def)
  show "\<exists>i failed ctx rid. declared_by peering_declared request = Some i
      \<and> pr_NativeID p = buildPeeringNativeID i \<and> part_located (cr_TargetConfig request) i = i
      \<and> issue_verb E cfg failed (networkURL (pi_project i) (pi_parent i) @ ''/addPeering'') (Some (peeringBody (props_of request))) ctx s = (Inr rid, s')"
    by (rule declared_create [OF m refl _ _ _ ok])
      (use c ok m in \<open>auto simp: Peering_Create_def peering_issueVerb_def peering_declared_def nat_failure_def Let_def split: if_splits\<close>)
next
  fix E :: "('w \<times> http_request list) env" and cfg s i and d :: DeleteRequest
  assume "parsePeeringNativeID (dl_NativeID d) = Inr i"
  then show "\<exists>failed ctx msg. Peering_Delete E cfg d s = verb_result OperationDelete (dl_NativeID d) msg
      (issue_verb E cfg failed (networkURL (pi_project (part_located (dl_TargetConfig d) i)) (pi_parent (part_located (dl_TargetConfig d) i)) @ ''/removePeering'') (Some [(''name'', JStr (pi_name (part_located (dl_TargetConfig d) i)))]) ctx s)"
    by (auto simp: Peering_Delete_def peering_issueVerb_def Let_def)
qed

interpretation key_verbs: verb_resource buildSignedUrlKeyNativeID parseSignedUrlKeyNativeID "\<lambda>i. global_ok i \<and> pi_name i \<noteq> []" Key_Create Key_Delete part_located "declared_by key_declared"
  "\<lambda>i. backendServiceURL (pi_project i) (pi_parent i) @ ''/addSignedUrlKey''" "\<lambda>i. backendServiceURL (pi_project i) (pi_parent i) @ ''/deleteSignedUrlKey?keyName='' @ pi_name i" "\<lambda>request. key_body (props_of request)" "\<lambda>i. None"
proof
  fix E :: "('w \<times> http_request list) env" and cfg s p s' and request :: CreateRequest
  assume c: "Key_Create E cfg request s = (Ok p, s')" and ok: "pr_Status p \<noteq> OperationStatusFailure"
  obtain m where m: "unmarshal_map (cr_Properties request) = Inr m"
    using c ok by (cases "unmarshal_map (cr_Properties request)") (auto simp: Key_Create_def nat_failure_def)
  show "\<exists>i failed ctx rid. declared_by key_declared request = Some i
      \<and> pr_NativeID p = buildSignedUrlKeyNativeID i \<and> part_located (cr_TargetConfig request) i = i
      \<and> issue_verb E cfg failed (backendServiceURL (pi_project i) (pi_parent i) @ ''/addSignedUrlKey'') (Some (key_body (props_of request))) ctx s = (Inr rid, s')"
    by (rule declared_create [OF m refl _ _ _ ok])
      (use c ok m in \<open>auto simp: Key_Create_def key_issueVerb_def key_declared_def nat_failure_def Let_def split: if_splits\<close>)
next
  fix E :: "('w \<times> http_request list) env" and cfg s i and d :: DeleteRequest
  assume "parseSignedUrlKeyNativeID (dl_NativeID d) = Inr i"
  then show "\<exists>failed ctx msg. Key_Delete E cfg d s = verb_result OperationDelete (dl_NativeID d) msg
      (issue_verb E cfg failed (backendServiceURL (pi_project (part_located (dl_TargetConfig d) i)) (pi_parent (part_located (dl_TargetConfig d) i)) @ ''/deleteSignedUrlKey?keyName='' @ pi_name (part_located (dl_TargetConfig d) i)) (None) ctx s)"
    by (auto simp: Key_Delete_def key_issueVerb_def Let_def)
qed

section \<open>A peering reads back as it was declared\<close>

definition peering_key :: "string \<Rightarrow> string" where
  "peering_key k = (if k = ''network'' then peeringPeerField else k)"

lemma map_of_fold_update:
  "distinct (map f (map fst m)) \<Longrightarrow> map_of (fold (\<lambda>(k, v). AList.update (f k) v) m acc) x
     = (case map_of (map (\<lambda>(k, v). (f k, v)) m) x of Some v \<Rightarrow> Some v | None \<Rightarrow> map_of acc x)"
proof (induction m arbitrary: acc)
  case (Cons kv m)
  obtain k v where kv: "kv = (k, v)" by (cases kv)
  have "map_of (map (\<lambda>(k, v). (f k, v)) m) (f k) = None"
    using Cons.prems kv by (force simp: map_of_eq_None_iff)
  with Cons kv show ?case by (auto simp: update_conv' split: option.splits)
qed simp

lemma peering_renamed:
  "map (\<lambda>(k, v). (peering_key k, v)) (peering_of props)
     = filter (\<lambda>(k, v). k \<notin> {peeringNetworkField, ''state'', ''stateDetails''}) props"
  by (induction props)
    (auto simp: peering_of_def peering_entry_def peering_key_def peeringNetworkField_def peeringPeerField_def)

text \<open>
  A network peering reads back as it was declared: putting the properties Read reports together
  from the very object that addPeering carried gives back every declared property, the owning network
  and the renamed far side included. Only the two fields that the API computes are left out.
\<close>
lemma peering_reads_back:
  assumes "distinct (map fst props)" and "map_of props ''network'' = Some (JStr network)"
  shows "peeringBody props = [(''networkPeering'', JObj (peering_of props))]
    \<and> map_of (peering_properties network (peering_of props)) k
       = (if k \<in> {''state'', ''stateDetails''} then None else map_of props k)"
proof -
  let ?kept = "filter (\<lambda>(k, v). k \<notin> {peeringNetworkField, ''state'', ''stateDetails''}) props"
  have "map peering_key (map fst (peering_of props)) = map fst (map (\<lambda>(k, v). (peering_key k, v)) (peering_of props))"
    by (simp add: case_prod_unfold)
  also have "\<dots> = map fst ?kept" by (simp only: peering_renamed)
  finally have d: "distinct (map peering_key (map fst (peering_of props)))"
    using assms(1) by (simp add: distinct_map_filter)
  have "map_of (peering_properties network (peering_of props)) k
      = (if k = peeringNetworkField then Some (JStr network) else map_of ?kept k)"
    unfolding peering_properties_def peering_key_def [symmetric]
    by (simp add: update_conv' map_of_fold_update [OF d] peering_renamed split: option.splits)
  also have "map_of ?kept k = (if k \<notin> {peeringNetworkField, ''state'', ''stateDetails''} then map_of props k else None)"
    by (rule map_of_filter_keys)
  finally show ?thesis using assms(2) by (simp add: peeringBody_def peeringNetworkField_def)
qed

end
