(* ===== verification/Attached_Parts.thy ===== *)
theory Attached_Parts
  imports Network_Parts
begin

text \<open>
  Pairs that are attached and detached: resource policies on disks
  (\<^verbatim>\<open>src/pkg/resources/compute/disk_resource_policy_attachment.go\<close>) and endpoints in global
  network endpoint groups (\<^verbatim>\<open>src/pkg/resources/compute/global_network_endpoint.go\<close>).
\<close>

section \<open>Resource policies on disks\<close>

text \<open>\<open>pi_region\<close> holds the zone of a zonal disk, the region of a regional one.\<close>

definition attachment_scope :: "bool \<Rightarrow> ScopeType" where
  "attachment_scope regional = (if regional then ScopeRegional else ScopeZonal)"

definition locationSegment :: "bool \<Rightarrow> string \<Rightarrow> string" where
  "locationSegment regional location = (if regional then ''regions/'' @ location else ''zones/'' @ location)"

definition locationKey :: "bool \<Rightarrow> string" where
  "locationKey regional = (if regional then ''region'' else ''zone'')"

definition buildAttachmentNativeID :: "bool \<Rightarrow> part_id \<Rightarrow> string" where
  "buildAttachmentNativeID regional i =
     ''projects/'' @ pi_project i @ ''/'' @ locationSegment regional (pi_region i) @ ''/disks/'' @ pi_parent i
       @ ''/resourcePolicies/'' @ pi_name i"

definition parseAttachmentNativeID :: "bool \<Rightarrow> string \<Rightarrow> goerr + part_id" where
  "parseAttachmentNativeID regional nativeID =
     (let wantScope = (if regional then ''regions'' else ''zones'')
      in case Split nativeID CHR ''/'' of
           [a, project, b, location, c, disk, d, policy] \<Rightarrow>
             if a = ''projects'' \<and> b = wantScope \<and> location \<noteq> [] \<and> c = ''disks'' \<and> d = ''resourcePolicies''
             then Inr \<lparr>pi_project = project, pi_region = location, pi_parent = disk, pi_name = policy\<rparr>
             else Inl (ErrText (''invalid disk resource policy attachment native ID: '' @ nativeID))
         | _ \<Rightarrow> Inl (ErrText (''invalid disk resource policy attachment native ID: '' @ nativeID)))"

definition diskURL :: "bool \<Rightarrow> string \<Rightarrow> string \<Rightarrow> string \<Rightarrow> string" where
  "diskURL regional project location disk = compute_url project (locationSegment regional location @ ''/disks/'' @ disk)"

definition regionOfZone :: "string \<Rightarrow> string" where
  "regionOfZone zone =
     (let parts = Split zone CHR ''-'' in if length parts = 3 then Join (take 2 parts) ''-'' else zone)"

definition policyURLFor :: "string \<Rightarrow> string \<Rightarrow> string \<Rightarrow> string" where
  "policyURLFor project zone policy =
     (if Contains policy ''/'' then policy
      else ''projects/'' @ project @ ''/regions/'' @ regionOfZone zone @ ''/resourcePolicies/'' @ policy)"

definition policyNameOf :: "string \<Rightarrow> string" where
  "policyNameOf url = (case LastIndex url CHR ''/'' of Some i \<Rightarrow> drop (i + 1) url | None \<Rightarrow> url)"

definition locationFor :: "bool \<Rightarrow> raw \<Rightarrow> string \<Rightarrow> string" where
  "locationFor regional targetConfig fallback =
     (let cfg = PathFromTargetConfig targetConfig
      in if regional \<and> tp_Region cfg \<noteq> [] then tp_Region cfg
         else if \<not> regional \<and> tp_Zone cfg \<noteq> [] then tp_Zone cfg
         else fallback)"

definition attachment_context :: "bool \<Rightarrow> string \<Rightarrow> string \<Rightarrow> PathContext" where
  "attachment_context regional project location =
     (if regional then empty_ctx\<lparr>pc_Project := project, pc_Region := location\<rparr>
      else empty_ctx\<lparr>pc_Project := project, pc_Zone := location\<rparr>)"

definition attachment_issueVerb ::
    "'w env \<Rightarrow> Config option \<Rightarrow> bool \<Rightarrow> string \<Rightarrow> string \<Rightarrow> string \<Rightarrow> string \<Rightarrow> 'w machine
      \<Rightarrow> (terror + string) \<times> 'w machine" where
  "attachment_issueVerb E cfg regional url policy project location =
     issue_verb E cfg ''disk resource policy verb failed'' url
       (Some [(''resourcePolicies'', JArr [JStr policy])]) (attachment_context regional project location)"

definition attachment_declared :: "bool \<Rightarrow> raw \<Rightarrow> obj \<Rightarrow> part_id" where
  "attachment_declared regional target props =
     (let l = prop_string props (locationKey regional)
      in \<lparr>pi_project = projectFor target [],
          pi_region = (if l \<noteq> [] then l else locationFor regional target []),
          pi_parent = prop_string props ''disk'', pi_name = prop_string props ''name''\<rparr>)"

definition attachment_url :: "bool \<Rightarrow> part_id \<Rightarrow> string" where
  "attachment_url regional i = diskURL regional (pi_project i) (pi_region i) (pi_parent i)"

definition attached_policy :: "part_id \<Rightarrow> string" where
  "attached_policy i = policyURLFor (pi_project i) (pi_region i) (pi_name i)"

definition Attachment_Create :: "'w env \<Rightarrow> Config option \<Rightarrow> bool \<Rightarrow> CreateRequest \<Rightarrow> ('w, ProgressResult) op" where
  "Attachment_Create E cfg regional request s =
     (case unmarshal_map (cr_Properties request) of
        Inl e \<Rightarrow> (Ok (nat_failure OperationCreate InvalidRequest (''invalid properties: '' @ e)), s)
      | Inr m \<Rightarrow>
          (let i = attachment_declared regional (cr_TargetConfig request) (obj_of m)
           in if pi_parent i = [] \<or> pi_name i = [] then
                (Ok (nat_failure OperationCreate InvalidRequest ''name (the policy) and disk are required''), s)
              else if pi_project i = [] \<or> pi_region i = [] then
                (Ok (nat_failure OperationCreate InvalidRequest
                       (''target project and '' @ locationKey regional @ '' are required'')), s)
              else verb_result OperationCreate (buildAttachmentNativeID regional i)
                     ''disk resource policy attachment in progress''
                     (attachment_issueVerb E cfg regional (attachment_url regional i @ ''/addResourcePolicies'')
                        (attached_policy i) (pi_project i) (pi_region i) s)))"

definition attached :: "obj \<Rightarrow> string \<Rightarrow> bool" where
  "attached disk policy \<longleftrightarrow>
     (\<exists>x \<in> set (array_of disk ''resourcePolicies''). case x of JStr url \<Rightarrow> policyNameOf url = policy | _ \<Rightarrow> False)"

definition Attachment_Read :: "'w env \<Rightarrow> Config option \<Rightarrow> bool \<Rightarrow> ReadRequest \<Rightarrow> ('w, ReadResult) op" where
  "Attachment_Read E cfg regional request s =
     (case parseAttachmentNativeID regional (rd_NativeID request) of
        Inl e \<Rightarrow> (Ok (read_error InvalidRequest), s)
      | Inr i0 \<Rightarrow>
          (let i = part_located (rd_TargetConfig request) i0
           in case NewClient E cfg s of
                (Inl e, s1) \<Rightarrow> (Err (client_error e), s1)
              | (Inr client, s1) \<Rightarrow>
                  (case compute_get E client (attachment_url regional i) ''failed to read disk'' s1 of
                     (Inl te, s2) \<Rightarrow> (Ok (read_error (ToResourceErrorCode (te_Code te))), s2)
                   | (Inr body, s2) \<Rightarrow>
                       if \<not> attached (obj_of body) (pi_name i) then (Ok (read_error NotFound), s2)
                       else (marshalled ''attachment''
                               [(''name'', JStr (pi_name i)), (''disk'', JStr (pi_parent i)),
                                (locationKey regional, JStr (pi_region i))], s2))))"

definition Attachment_Update :: "UpdateRequest \<Rightarrow> ('w, ProgressResult) op" where
  "Attachment_Update request =
     not_updatable ''a disk resource policy attachment is a (disk, policy) pair; a change replaces it''"

definition Attachment_Delete :: "'w env \<Rightarrow> Config option \<Rightarrow> bool \<Rightarrow> DeleteRequest \<Rightarrow> ('w, ProgressResult) op" where
  "Attachment_Delete E cfg regional request s =
     (case parseAttachmentNativeID regional (dl_NativeID request) of
        Inl e \<Rightarrow> (Ok (nat_failure OperationDelete InvalidRequest (err_text e)), s)
      | Inr i0 \<Rightarrow>
          (let i = part_located (dl_TargetConfig request) i0
           in verb_result OperationDelete (dl_NativeID request) ''disk resource policy detachment in progress''
                (attachment_issueVerb E cfg regional (attachment_url regional i @ ''/removeResourcePolicies'')
                   (attached_policy i) (pi_project i) (pi_region i) s)))"

definition disk_attachment_ids :: "bool \<Rightarrow> string \<Rightarrow> string \<Rightarrow> obj \<Rightarrow> string list" where
  "disk_attachment_ids regional project location disk =
     (let diskName = prop_string disk ''name''
      in if diskName = [] then []
         else map (\<lambda>u. buildAttachmentNativeID regional
                     \<lparr>pi_project = project, pi_region = location, pi_parent = diskName, pi_name = policyNameOf u\<rparr>)
                (strings (array_of disk ''resourcePolicies'')))"

definition aggregated_attachment_ids :: "bool \<Rightarrow> string \<Rightarrow> obj \<Rightarrow> string list" where
  "aggregated_attachment_ids regional project body =
     (let wantPrefix = locationSegment regional []
      in concat (map (\<lambda>(scope, entry).
           if \<not> HasPrefix scope wantPrefix then []
           else concat (map (disk_attachment_ids regional project (drop (length wantPrefix) scope))
                  (objects (array_of entry ''disks'')))) (aggregated body)))"

definition Attachment_List :: "'w env \<Rightarrow> Config option \<Rightarrow> bool \<Rightarrow> ListRequest \<Rightarrow> ('w, ListResult) op" where
  "Attachment_List E cfg regional request s =
     (let project = projectFor (ls_TargetConfig request) []
      in if project = [] then (Ok nothing_listed, s)
         else case NewClient E cfg s of
           (Inl e, s1) \<Rightarrow> (Err (client_error e), s1)
         | (Inr client, s1) \<Rightarrow>
             (case compute_get E client (compute_url project ''aggregated/disks'') ''failed to list disks'' s1 of
                (Inl te, s2) \<Rightarrow> (Err (terror_err te), s2)
              | (Inr body, s2) \<Rightarrow>
                  (Ok \<lparr>lr_NativeIDs = aggregated_attachment_ids regional project (obj_of body),
                       lr_NextPageToken = None\<rparr>, s2)))"

definition attachment_config :: "Config option \<Rightarrow> bool \<Rightarrow> 'w BaseResource" where
  "attachment_config cfg regional = compute_base cfg ''disks'' (attachment_scope regional)"

definition Attachment_Status :: "'w env \<Rightarrow> Config option \<Rightarrow> bool \<Rightarrow> StatusRequest \<Rightarrow> ('w, ProgressResult) op" where
  "Attachment_Status E cfg regional request =
     StatusWithRead E (attachment_config cfg regional)
       (Some (Attachment_Read E cfg regional)) request"

section \<open>Endpoints of global groups\<close>

record endpoint_id =
  ei_project :: string
  ei_group :: string
  ei_host :: string
  ei_port :: int

definition buildEndpointNativeID :: "endpoint_id \<Rightarrow> string" where
  "buildEndpointNativeID i =
     ''projects/'' @ ei_project i @ ''/global/networkEndpointGroups/'' @ ei_group i @ ''/networkEndpoints/''
       @ ei_host i @ ''|'' @ Itoa (ei_port i)"

text \<open>\<^verbatim>\<open>strings.Cut(s, "|")\<close>: \<^const>\<open>None\<close> where the separator is not found.\<close>

definition cut_pipe :: "string \<Rightarrow> (string \<times> string) option" where
  "cut_pipe s = (case Index s ''|'' of None \<Rightarrow> None | Some i \<Rightarrow> Some (take i s, drop (Suc i) s))"

definition parseEndpointNativeID :: "string \<Rightarrow> goerr + endpoint_id" where
  "parseEndpointNativeID nativeID =
     (let invalid = Inl (ErrText (''invalid global network endpoint native ID: '' @ nativeID))
      in case Split nativeID CHR ''/'' of
           [a, project, b, c, grp, d, key] \<Rightarrow>
             if a = ''projects'' \<and> b = ''global'' \<and> c = ''networkEndpointGroups'' \<and> d = ''networkEndpoints'' then
               (case cut_pipe key of
                  None \<Rightarrow> Inl (ErrText (''invalid endpoint key '' @ quoted key @ '' in native ID: '' @ nativeID))
                | Some (host, portStr) \<Rightarrow>
                    if host = [] then
                      Inl (ErrText (''invalid endpoint key '' @ quoted key @ '' in native ID: '' @ nativeID))
                    else case Atoi portStr of
                      None \<Rightarrow> Inl (errorf_w (''invalid port in native ID '' @ nativeID @ '': '') (atoi_error portStr))
                    | Some port \<Rightarrow> Inr \<lparr>ei_project = project, ei_group = grp, ei_host = host, ei_port = port\<rparr>)
             else invalid
         | _ \<Rightarrow> invalid)"

text \<open>The port, and the error beside it.\<close>

definition portOf :: "obj \<Rightarrow> int \<times> goerr option" where
  "portOf props =
     (case map_of props ''port'' of
        Some (JNum m k) \<Rightarrow> (float_to_int64 m k, None)
      | Some (JInt i) \<Rightarrow> (i, None)
      | Some (JStr s) \<Rightarrow> (atoi_value s, if Atoi s = None then Some (atoi_error s) else None)
      | _ \<Rightarrow> (0, Some (ErrText ''port is required and must be a number'')))"

definition endpointOf :: "obj \<Rightarrow> goerr + obj \<times> string \<times> int" where
  "endpointOf props =
     (let fqdn = prop_string props ''fqdn''; ip = prop_string props ''ipAddress''
      in if fqdn \<noteq> [] \<and> ip \<noteq> [] then Inl (ErrText ''set either fqdn or ipAddress, not both'')
         else if fqdn = [] \<and> ip = [] then Inl (ErrText ''one of fqdn or ipAddress is required'')
         else case portOf props of
           (port, Some e) \<Rightarrow> Inl e
         | (port, None) \<Rightarrow>
             Inr ((if fqdn \<noteq> [] then [(''fqdn'', JStr fqdn)] else [(''ipAddress'', JStr ip)]) @ [(''port'', JInt port)],
                  if fqdn \<noteq> [] then fqdn else ip, port))"

definition groupURL :: "string \<Rightarrow> string \<Rightarrow> string" where
  "groupURL project grp = compute_url project (''global/networkEndpointGroups/'' @ grp)"

definition endpoint_payload :: "obj \<Rightarrow> obj" where
  "endpoint_payload endpoint = [(''networkEndpoints'', JArr [JObj endpoint])]"

definition endpoint_issueVerb ::
    "'w env \<Rightarrow> Config option \<Rightarrow> string \<Rightarrow> obj \<Rightarrow> string \<Rightarrow> 'w machine \<Rightarrow> (terror + string) \<times> 'w machine" where
  "endpoint_issueVerb E cfg url endpoint project =
     issue_verb E cfg ''network endpoint verb failed'' url (Some (endpoint_payload endpoint)) (op_context project [])"

definition listEndpoints ::
    "'w env \<Rightarrow> Config option \<Rightarrow> string \<Rightarrow> string \<Rightarrow> 'w machine \<Rightarrow> (terror + obj list) \<times> 'w machine" where
  "listEndpoints E cfg project grp s =
     (case NewClient E cfg s of
        (Inl e, s1) \<Rightarrow> (Inl (wrap_err e ''failed to create transport client''), s1)
      | (Inr client, s1) \<Rightarrow>
          (case SendRequest E client (request_options ''POST'' (groupURL project grp @ ''/listNetworkEndpoints'') (Some [])) s1 of
             (Inl e, s2) \<Rightarrow> (Inl (wrap_err e ''failed to list network endpoints''), s2)
           | (Inr resp, s2) \<Rightarrow>
               (Inr (List.map_filter (\<lambda>w. as_obj (map_of w ''networkEndpoint''))
                       (objects (array_of (obj_of (rs_Body resp)) ''items''))), s2)))"

definition endpoint_group_url :: "endpoint_id \<Rightarrow> string" where
  "endpoint_group_url i = groupURL (ei_project i) (ei_group i)"

definition Endpoint_Create :: "'w env \<Rightarrow> Config option \<Rightarrow> CreateRequest \<Rightarrow> ('w, ProgressResult) op" where
  "Endpoint_Create E cfg request s =
     (case unmarshal_map (cr_Properties request) of
        Inl e \<Rightarrow> (Ok (nat_failure OperationCreate InvalidRequest (''invalid properties: '' @ e)), s)
      | Inr m \<Rightarrow>
          (let grp = prop_string (obj_of m) ''networkEndpointGroup''; project = projectFor (cr_TargetConfig request) []
           in if grp = [] then
                (Ok (nat_failure OperationCreate InvalidRequest ''networkEndpointGroup is required''), s)
              else case endpointOf (obj_of m) of
                Inl e \<Rightarrow> (Ok (nat_failure OperationCreate InvalidRequest (err_text e)), s)
              | Inr (endpoint, host, port) \<Rightarrow>
                  if project = [] then
                    (Ok (nat_failure OperationCreate InvalidRequest ''target project is required''), s)
                  else verb_result OperationCreate
                         (buildEndpointNativeID \<lparr>ei_project = project, ei_group = grp, ei_host = host, ei_port = port\<rparr>)
                         ''network endpoint attachment in progress''
                         (endpoint_issueVerb E cfg (groupURL project grp @ ''/attachNetworkEndpoints'') endpoint project s)))"

definition endpoint_located :: "raw \<Rightarrow> endpoint_id \<Rightarrow> endpoint_id" where
  "endpoint_located target i = i\<lparr>ei_project := projectFor target (ei_project i)\<rparr>"

definition is_endpoint :: "endpoint_id \<Rightarrow> obj \<Rightarrow> bool" where
  "is_endpoint i endpoint \<longleftrightarrow>
     fst (portOf endpoint) = ei_port i
     \<and> (prop_string endpoint ''fqdn'' = ei_host i \<or> prop_string endpoint ''ipAddress'' = ei_host i)"

definition endpoint_properties :: "string \<Rightarrow> obj \<Rightarrow> obj" where
  "endpoint_properties grp endpoint =
     (let fqdn = prop_string endpoint ''fqdn''; ip = prop_string endpoint ''ipAddress''
      in [(''networkEndpointGroup'', JStr grp), (''port'', JInt (fst (portOf endpoint)))]
         @ (if fqdn \<noteq> [] then [(''fqdn'', JStr fqdn)] else [])
         @ (if ip \<noteq> [] then [(''ipAddress'', JStr ip)] else []))"

definition Endpoint_Read :: "'w env \<Rightarrow> Config option \<Rightarrow> ReadRequest \<Rightarrow> ('w, ReadResult) op" where
  "Endpoint_Read E cfg request s =
     (case parseEndpointNativeID (rd_NativeID request) of
        Inl e \<Rightarrow> (Ok (read_error InvalidRequest), s)
      | Inr i0 \<Rightarrow>
          (let i = endpoint_located (rd_TargetConfig request) i0
           in case listEndpoints E cfg (ei_project i) (ei_group i) s of
                (Inl te, s1) \<Rightarrow> (Ok (read_error (ToResourceErrorCode (te_Code te))), s1)
              | (Inr endpoints, s1) \<Rightarrow>
                  (case find (is_endpoint i) endpoints of
                     None \<Rightarrow> (Ok (read_error NotFound), s1)
                   | Some endpoint \<Rightarrow> (marshalled ''endpoint'' (endpoint_properties (ei_group i) endpoint), s1))))"

definition Endpoint_Update :: "UpdateRequest \<Rightarrow> ('w, ProgressResult) op" where
  "Endpoint_Update request =
     not_updatable ''a network endpoint is a (host, port) pair; a change detaches and reattaches''"

definition has_letter :: "string \<Rightarrow> bool" where
  "has_letter host \<longleftrightarrow> (\<exists>c \<in> set host. CHR ''a'' \<le> c \<and> c \<le> CHR ''z'')"

definition detached_endpoint :: "endpoint_id \<Rightarrow> obj" where
  "detached_endpoint i =
     [(''port'', JInt (ei_port i)),
      if has_letter (ei_host i) then (''fqdn'', JStr (ei_host i)) else (''ipAddress'', JStr (ei_host i))]"

definition Endpoint_Delete :: "'w env \<Rightarrow> Config option \<Rightarrow> DeleteRequest \<Rightarrow> ('w, ProgressResult) op" where
  "Endpoint_Delete E cfg request s =
     (case parseEndpointNativeID (dl_NativeID request) of
        Inl e \<Rightarrow> (Ok (nat_failure OperationDelete InvalidRequest (err_text e)), s)
      | Inr i0 \<Rightarrow>
          (let i = endpoint_located (dl_TargetConfig request) i0
           in verb_result OperationDelete (dl_NativeID request) ''network endpoint detachment in progress''
                (endpoint_issueVerb E cfg (endpoint_group_url i @ ''/detachNetworkEndpoints'') (detached_endpoint i)
                   (ei_project i) s)))"

definition endpoint_ids :: "string \<Rightarrow> string \<Rightarrow> obj list \<Rightarrow> string list" where
  "endpoint_ids project grp endpoints =
     concat (map (\<lambda>endpoint.
       let fqdn = prop_string endpoint ''fqdn''; host = (if fqdn \<noteq> [] then fqdn else prop_string endpoint ''ipAddress'')
       in case portOf endpoint of
            (port, Some e) \<Rightarrow> []
          | (port, None) \<Rightarrow>
              if host = [] then []
              else [buildEndpointNativeID \<lparr>ei_project = project, ei_group = grp, ei_host = host, ei_port = port\<rparr>])
       endpoints)"

definition group_endpoint_ids ::
    "'w env \<Rightarrow> Config option \<Rightarrow> string \<Rightarrow> string \<Rightarrow> 'w machine \<Rightarrow> (terror + string list) \<times> 'w machine" where
  "group_endpoint_ids E cfg project grp s =
     (case listEndpoints E cfg project grp s of
        (Inl te, s1) \<Rightarrow> (Inl te, s1)
      | (Inr endpoints, s1) \<Rightarrow> (Inr (endpoint_ids project grp endpoints), s1))"

definition listGroups ::
    "'w env \<Rightarrow> Config option \<Rightarrow> string \<Rightarrow> 'w machine \<Rightarrow> (terror + string list) \<times> 'w machine" where
  "listGroups E cfg project s =
     (case NewClient E cfg s of
        (Inl e, s1) \<Rightarrow> (Inl (wrap_err e ''failed to create transport client''), s1)
      | (Inr client, s1) \<Rightarrow>
          (case compute_get E client (compute_url project ''global/networkEndpointGroups'')
                  ''failed to list global network endpoint groups'' s1 of
             (Inl te, s2) \<Rightarrow> (Inl te, s2)
           | (Inr body, s2) \<Rightarrow> (Inr (names_of ''name'' (array_of (obj_of body) ''items'')), s2)))"

definition Endpoint_List :: "'w env \<Rightarrow> Config option \<Rightarrow> ListRequest \<Rightarrow> ('w, ListResult) op" where
  "Endpoint_List E cfg request s =
     (let project = projectFor (ls_TargetConfig request) []; grp = extra request ''networkEndpointGroup''
      in if project = [] then (Ok nothing_listed, s)
         else if grp \<noteq> [] then listed (walk_parents False (group_endpoint_ids E cfg project) [grp] s)
         else case listGroups E cfg project s of
           (Inl te, s1) \<Rightarrow> (Err (terror_err te), s1)
         | (Inr groups, s1) \<Rightarrow> listed (walk_parents False (group_endpoint_ids E cfg project) groups s1))"

definition endpoint_config :: "Config option \<Rightarrow> 'w BaseResource" where
  "endpoint_config cfg = compute_base cfg ''networkEndpointGroups'' ScopeGlobal"

definition Endpoint_Status :: "'w env \<Rightarrow> Config option \<Rightarrow> StatusRequest \<Rightarrow> ('w, ProgressResult) op" where
  "Endpoint_Status E cfg request =
     StatusWithRead E (endpoint_config cfg) (Some (Endpoint_Read E cfg)) request"

section \<open>Identifiers read back\<close>

definition attachment_ok :: "part_id \<Rightarrow> bool" where
  "attachment_ok i \<longleftrightarrow> seg (pi_project i) \<and> seg (pi_region i) \<and> seg (pi_parent i) \<and> seg (pi_name i) \<and> pi_region i \<noteq> []"

interpretation attachment_reader: id_reader "buildAttachmentNativeID regional" "parseAttachmentNativeID regional" attachment_ok
  for regional
proof
  fix i assume "attachment_ok i"
  then show "parseAttachmentNativeID regional (buildAttachmentNativeID regional i) = Inr i"
    by (cases regional) (simp_all add: attachment_ok_def buildAttachmentNativeID_def parseAttachmentNativeID_def
        locationSegment_def segment)
qed

definition endpoint_ok :: "endpoint_id \<Rightarrow> bool" where
  "endpoint_ok i \<longleftrightarrow> seg (ei_project i) \<and> seg (ei_group i) \<and> seg (ei_host i) \<and> CHR ''|'' \<notin> set (ei_host i) \<and> ei_host i \<noteq> []
     \<and> min_int64 \<le> ei_port i \<and> ei_port i \<le> max_int64"

lemma Index_char: "c \<notin> set a \<Longrightarrow> Index (a @ c # s) [c] = Some (length a)"
  by (induction a) auto

lemma cut_pipe_first: "CHR ''|'' \<notin> set a \<Longrightarrow> cut_pipe (a @ CHR ''|'' # s) = Some (a, s)"
  by (simp add: cut_pipe_def Index_char)

lemma seg_append [segment]: "seg (a @ b) \<longleftrightarrow> seg a \<and> seg b"
  by (auto simp: seg_def)

interpretation endpoint_reader: id_reader buildEndpointNativeID parseEndpointNativeID endpoint_ok
proof
  fix i assume ok: "endpoint_ok i"
  have "seg (ei_host i @ CHR ''|'' # Itoa (ei_port i))" using ok by (simp add: endpoint_ok_def seg_append seg_def Itoa_no_slash)
  with ok have "Split (buildEndpointNativeID i) CHR ''/'' = [''projects'', ei_project i, ''global'', ''networkEndpointGroups'',
      ei_group i, ''networkEndpoints'', ei_host i @ CHR ''|'' # Itoa (ei_port i)]"
    by (simp add: endpoint_ok_def buildEndpointNativeID_def segment)
  with ok show "parseEndpointNativeID (buildEndpointNativeID i) = Inr i"
    by (simp add: parseEndpointNativeID_def endpoint_ok_def cut_pipe_first)
qed

section \<open>Parts are detached where they were attached\<close>

definition policy_body :: "string \<Rightarrow> obj" where
  "policy_body policy = [(''resourcePolicies'', JArr [JStr policy])]"

definition attachment_add_body :: "bool \<Rightarrow> CreateRequest \<Rightarrow> obj" where
  "attachment_add_body regional request =
     policy_body (attached_policy (attachment_declared regional (cr_TargetConfig request) (props_of request)))"

lemma attachment_project: "pi_project (attachment_declared regional target props) = projectFor target []"
  by (simp add: attachment_declared_def Let_def)

interpretation attachment_verbs: verb_resource "buildAttachmentNativeID regional" "parseAttachmentNativeID regional"
  attachment_ok "\<lambda>E cfg. Attachment_Create E cfg regional" "\<lambda>E cfg. Attachment_Delete E cfg regional" part_located
  "declared_by (attachment_declared regional)" "\<lambda>i. attachment_url regional i @ ''/addResourcePolicies''"
  "\<lambda>i. attachment_url regional i @ ''/removeResourcePolicies''" "attachment_add_body regional"
  "\<lambda>i. Some (policy_body (attached_policy i))" for regional
proof
  fix E :: "('w \<times> http_request list) env" and cfg s p s' and request :: CreateRequest
  assume c: "Attachment_Create E cfg regional request s = (Ok p, s')" and ok: "pr_Status p \<noteq> OperationStatusFailure"
  obtain m where m: "unmarshal_map (cr_Properties request) = Inr m"
    using c ok by (cases "unmarshal_map (cr_Properties request)") (auto simp: Attachment_Create_def nat_failure_def)
  show "\<exists>i failed ctx rid. declared_by (attachment_declared regional) request = Some i
      \<and> pr_NativeID p = buildAttachmentNativeID regional i \<and> part_located (cr_TargetConfig request) i = i
      \<and> issue_verb E cfg failed (attachment_url regional i @ ''/addResourcePolicies'') (Some (attachment_add_body regional request)) ctx s
        = (Inr rid, s')"
    unfolding attachment_add_body_def
    by (rule declared_create [OF m refl _ _ _ ok])
      (use c ok m in \<open>auto simp: Attachment_Create_def attachment_issueVerb_def attachment_project policy_body_def
        nat_failure_def Let_def split: if_splits\<close>)
next
  fix E :: "('w \<times> http_request list) env" and cfg s i and d :: DeleteRequest
  assume "parseAttachmentNativeID regional (dl_NativeID d) = Inr i"
  then show "\<exists>failed ctx msg. Attachment_Delete E cfg regional d s = verb_result OperationDelete (dl_NativeID d) msg
      (issue_verb E cfg failed (attachment_url regional (part_located (dl_TargetConfig d) i) @ ''/removeResourcePolicies'')
        (Some (policy_body (attached_policy (part_located (dl_TargetConfig d) i)))) ctx s)"
    by (auto simp: Attachment_Delete_def attachment_issueVerb_def policy_body_def Let_def)
qed

definition endpoint_of_create :: "CreateRequest \<Rightarrow> endpoint_id option" where
  "endpoint_of_create request =
     (case endpointOf (props_of request) of
        Inl e \<Rightarrow> None
      | Inr (endpoint, host, port) \<Rightarrow>
          Some \<lparr>ei_project = projectFor (cr_TargetConfig request) [],
                ei_group = prop_string (props_of request) ''networkEndpointGroup'', ei_host = host, ei_port = port\<rparr>)"

definition attached_endpoint :: "CreateRequest \<Rightarrow> obj" where
  "attached_endpoint request = (case endpointOf (props_of request) of Inl e \<Rightarrow> [] | Inr (endpoint, hp) \<Rightarrow> endpoint)"

interpretation endpoint_verbs: verb_resource buildEndpointNativeID parseEndpointNativeID endpoint_ok Endpoint_Create
  Endpoint_Delete endpoint_located endpoint_of_create "\<lambda>i. endpoint_group_url i @ ''/attachNetworkEndpoints''"
  "\<lambda>i. endpoint_group_url i @ ''/detachNetworkEndpoints''" "\<lambda>request. endpoint_payload (attached_endpoint request)"
  "\<lambda>i. Some (endpoint_payload (detached_endpoint i))"
proof
  fix E :: "('w \<times> http_request list) env" and cfg s p s' and request :: CreateRequest
  assume c: "Endpoint_Create E cfg request s = (Ok p, s')" and ok: "pr_Status p \<noteq> OperationStatusFailure"
  obtain m where m: "unmarshal_map (cr_Properties request) = Inr m"
    using c ok by (cases "unmarshal_map (cr_Properties request)") (auto simp: Endpoint_Create_def nat_failure_def)
  then have po: "props_of request = obj_of m" by (simp add: props_of_def)
  obtain endpoint host port where e: "endpointOf (obj_of m) = Inr (endpoint, host, port)"
    using c ok m by (cases "endpointOf (obj_of m)") (auto simp: Endpoint_Create_def nat_failure_def Let_def split: if_splits)
  define i where "i = \<lparr>ei_project = projectFor (cr_TargetConfig request) [],
      ei_group = prop_string (obj_of m) ''networkEndpointGroup'', ei_host = host, ei_port = port\<rparr>"
  have k: "ei_project i \<noteq> []" "verb_result OperationCreate (buildEndpointNativeID i) ''network endpoint attachment in progress''
      (endpoint_issueVerb E cfg (endpoint_group_url i @ ''/attachNetworkEndpoints'') endpoint (ei_project i) s) = (Ok p, s')"
    using c ok m e by (auto simp: Endpoint_Create_def nat_failure_def i_def endpoint_group_url_def Let_def split: if_splits)
  from k(1) have "endpoint_located (cr_TargetConfig request) i = i"
    using projectFor_fixed by (simp add: endpoint_located_def i_def)
  with verb_result_started [OF k(2) ok]
  show "\<exists>i failed ctx rid. endpoint_of_create request = Some i \<and> pr_NativeID p = buildEndpointNativeID i
      \<and> endpoint_located (cr_TargetConfig request) i = i
      \<and> issue_verb E cfg failed (endpoint_group_url i @ ''/attachNetworkEndpoints'')
          (Some (endpoint_payload (attached_endpoint request))) ctx s = (Inr rid, s')"
    using e by (auto simp: endpoint_of_create_def attached_endpoint_def po i_def endpoint_issueVerb_def)
next
  fix E :: "('w \<times> http_request list) env" and cfg s i and d :: DeleteRequest
  assume "parseEndpointNativeID (dl_NativeID d) = Inr i"
  then show "\<exists>failed ctx msg. Endpoint_Delete E cfg d s = verb_result OperationDelete (dl_NativeID d) msg
      (issue_verb E cfg failed (endpoint_group_url (endpoint_located (dl_TargetConfig d) i) @ ''/detachNetworkEndpoints'')
        (Some (endpoint_payload (detached_endpoint (endpoint_located (dl_TargetConfig d) i)))) ctx s)"
    by (auto simp: Endpoint_Delete_def endpoint_issueVerb_def Let_def)
qed

lemma detached_matches:
  assumes "endpoint_of_create request = Some i"
  shows "map_of (detached_endpoint i) = map_of (attached_endpoint request)
    \<longleftrightarrow> (prop_string (props_of request) ''fqdn'' \<noteq> [] \<longleftrightarrow> has_letter (ei_host i))"
proof -
  let ?fqdn = "prop_string (props_of request) ''fqdn''" and ?ip = "prop_string (props_of request) ''ipAddress''"
  obtain port where e: "endpointOf (props_of request) = Inr ((if ?fqdn \<noteq> [] then [(''fqdn'', JStr ?fqdn)]
      else [(''ipAddress'', JStr ?ip)]) @ [(''port'', JInt port)], if ?fqdn \<noteq> [] then ?fqdn else ?ip, port)"
    using assms by (auto simp: endpoint_of_create_def endpointOf_def Let_def split: if_splits prod.splits option.splits)
  then have a: "attached_endpoint request = (if ?fqdn \<noteq> [] then [(''fqdn'', JStr ?fqdn)] else [(''ipAddress'', JStr ?ip)]) @ [(''port'', JInt port)]"
      "ei_host i = (if ?fqdn \<noteq> [] then ?fqdn else ?ip)" "ei_port i = port"
    using assms by (auto simp: endpoint_of_create_def attached_endpoint_def)
  have at: "map_of (attached_endpoint request) ''fqdn'' = (if ?fqdn \<noteq> [] then Some (JStr ?fqdn) else None)"
    by (simp add: a(1))
  have de: "map_of (detached_endpoint i) ''fqdn'' = (if has_letter (ei_host i) then Some (JStr (ei_host i)) else None)"
    by (simp add: detached_endpoint_def)
  show ?thesis
  proof
    assume "map_of (detached_endpoint i) = map_of (attached_endpoint request)"
    then show "?fqdn \<noteq> [] \<longleftrightarrow> has_letter (ei_host i)" using at de by (metis option.distinct(1))
  next
    assume g: "?fqdn \<noteq> [] \<longleftrightarrow> has_letter (ei_host i)"
    show "map_of (detached_endpoint i) = map_of (attached_endpoint request)"
      using g a by (cases "?fqdn = []") (auto simp: detached_endpoint_def fun_upd_twist)
  qed
qed

text \<open>
  C34: An endpoint that was attached by Create is detached by Delete from the same group, and the object
  Delete names is the one Create attached exactly if the guess from the host is right: a domain name has
  a lower-case letter, an address has none. So an IPv6 address with a hexadecimal letter is detached as
  if it were a domain name.
\<close>
theorem endpoint_detached_as_attached:
  assumes "Endpoint_Create (logged E) cfg request s = (Ok p, s1)" and "pr_Status p \<noteq> OperationStatusFailure"
    and "endpoint_of_create request = Some i" and "endpoint_ok i"
    and "dl_NativeID d = pr_NativeID p" and "dl_TargetConfig d = cr_TargetConfig request"
    and "Endpoint_Delete (logged E) cfg d s2 = (r, s3)"
  shows "(\<exists>add. sent s1 = sent s @ [add]
       \<and> posts_to (endpoint_group_url i @ ''/attachNetworkEndpoints'') (Some (endpoint_payload (attached_endpoint request))) add)
    \<and> ((sent s3 = sent s2 \<and> (\<exists>q. r = Ok q \<and> pr_Status q = OperationStatusFailure))
      \<or> (\<exists>rem. sent s3 = sent s2 @ [rem]
           \<and> posts_to (endpoint_group_url i @ ''/detachNetworkEndpoints'') (Some (endpoint_payload (detached_endpoint i))) rem))
    \<and> (map_of (detached_endpoint i) = map_of (attached_endpoint request)
         \<longleftrightarrow> (prop_string (props_of request) ''fqdn'' \<noteq> [] \<longleftrightarrow> has_letter (ei_host i)))"
  using endpoint_verbs.create_then_delete [OF assms] detached_matches [OF assms(3)] by simp

section \<open>An IPv6 endpoint\<close>

definition demo_endpoint :: endpoint_id where
  "demo_endpoint = \<lparr>ei_project = ''p'', ei_group = ''g'', ei_host = ''fe80::1'', ei_port = 443\<rparr>"

definition demo_endpoint_request :: CreateRequest where
  "demo_endpoint_request = \<lparr>cr_ResourceType = ''T'', cr_TargetConfig = demo_target,
     cr_Properties = RawDoc (JObj [(''networkEndpointGroup'', JStr ''g''), (''ipAddress'', JStr ''fe80::1''), (''port'', JNum 443 0)])\<rparr>"

lemma demo_endpoint_of:
  "endpointOf (props_of demo_endpoint_request)
     = Inr ([(''ipAddress'', JStr ''fe80::1''), (''port'', JInt 443)], ''fe80::1'', 443)"
  by (simp add: props_of_def demo_endpoint_request_def endpointOf_def portOf_def float_to_int64_def min_int64_def max_int64_def
      obj_of_def prop_string_def string_or_empty_def Let_def)

lemma demo_endpoint_sel:
  "prop_string (props_of demo_endpoint_request) ''networkEndpointGroup'' = ''g''"
  "prop_string (props_of demo_endpoint_request) ''fqdn'' = []"
  "cr_TargetConfig demo_endpoint_request = demo_target"
  by (simp_all add: props_of_def demo_endpoint_request_def obj_of_def prop_string_def string_or_empty_def)

lemma demo_endpoint_created: "endpoint_of_create demo_endpoint_request = Some demo_endpoint"
  by (simp add: endpoint_of_create_def demo_endpoint_of demo_endpoint_def demo_endpoint_sel)

lemma demo_endpoint_ok: "endpoint_ok demo_endpoint"
  by (simp add: endpoint_ok_def demo_endpoint_def min_int64_def max_int64_def)

lemma demo_endpoint_urls:
  "Parse (endpoint_group_url demo_endpoint @ ''/attachNetworkEndpoints'') \<noteq> None"
  "Parse (endpoint_group_url demo_endpoint @ ''/detachNetworkEndpoints'') \<noteq> None"
  by (simp_all add: endpoint_group_url_def groupURL_def compute_url_def demo_endpoint_def
      ComputeAPI_def Parse_def before_def control_char_def Let_def)

lemma demo_endpoint_create:
  "\<exists>p add. Endpoint_Create (logged script_env) demo_cfg demo_endpoint_request (script_at [scripted 200 (JObj [])] [])
      = (Ok p, script_at [] [add])
    \<and> pr_Status p = OperationStatusInProgress \<and> pr_NativeID p = buildEndpointNativeID demo_endpoint"
proof -
  let ?ep = "[(''ipAddress'', JStr ''fe80::1''), (''port'', JInt 443)]"
  have u: "groupURL ''p'' ''g'' = endpoint_group_url demo_endpoint"
    by (simp add: endpoint_group_url_def demo_endpoint_def)
  have "marshalable (JObj (endpoint_payload ?ep))" by (simp add: endpoint_payload_def)
  with script_verb [OF demo_endpoint_urls(1), of "Some (endpoint_payload ?ep)" "''network endpoint verb failed''" "op_context ''p'' []" "[]" "[]" "[]"]
  obtain req rid where "endpoint_issueVerb (logged script_env) demo_cfg (groupURL ''p'' ''g'' @ ''/attachNetworkEndpoints'')
      ?ep ''p'' (script_at [scripted 200 (JObj [])] []) = (Inr rid, script_at [] [req])"
    by (auto simp: endpoint_issueVerb_def u)
  moreover obtain m where m: "unmarshal_map (cr_Properties demo_endpoint_request) = Inr m" "obj_of m = props_of demo_endpoint_request"
    by (simp add: props_of_def demo_endpoint_request_def)
  ultimately show ?thesis
    by (auto simp: demo_endpoint_sel Endpoint_Create_def demo_endpoint_of verb_result_def verb_started_def demo_endpoint_def)
qed

theorem endpoint_detached_as_attached_witness:
  "\<exists>p s1 r s3 add d.
     Endpoint_Create (logged script_env) demo_cfg demo_endpoint_request (script_at [scripted 200 (JObj [])] []) = (Ok p, s1)
     \<and> dl_NativeID d = pr_NativeID p \<and> sent s1 = [add]
     \<and> Endpoint_Delete (logged script_env) demo_cfg d (script_at [] [add]) = (r, s3)
     \<and> map_of (detached_endpoint demo_endpoint) \<noteq> map_of (attached_endpoint demo_endpoint_request)"
proof -
  obtain p add where c: "Endpoint_Create (logged script_env) demo_cfg demo_endpoint_request (script_at [scripted 200 (JObj [])] [])
      = (Ok p, script_at [] [add])" and p: "pr_Status p = OperationStatusInProgress"
    using demo_endpoint_create by blast
  define d where "d = \<lparr>dl_NativeID = pr_NativeID p, dl_ResourceType = ''T'', dl_TargetConfig = cr_TargetConfig demo_endpoint_request\<rparr>"
  have d: "dl_NativeID d = pr_NativeID p" "dl_TargetConfig d = cr_TargetConfig demo_endpoint_request"
    by (simp_all add: d_def)
  obtain r s3 where del: "Endpoint_Delete (logged script_env) demo_cfg d (script_at [] [add]) = (r, s3)" by (metis surj_pair)
  have "has_letter (ei_host demo_endpoint)"
    by (simp add: has_letter_def demo_endpoint_def less_eq_char_def)
  then have "map_of (detached_endpoint demo_endpoint) \<noteq> map_of (attached_endpoint demo_endpoint_request)"
    using endpoint_detached_as_attached [OF c _ demo_endpoint_created demo_endpoint_ok d del] p
    by (simp add: demo_endpoint_sel)
  moreover have "sent (script_at [] [add]) = [add]" by simp
  ultimately show ?thesis using c d(1) del by blast
qed

end
