(* ===== verification/Guarded_Writes.thy ===== *)
theory Guarded_Writes
  imports Compute_Verbs
begin

text \<open>
  The contract of a read-modify-write loop over HTTP: read the object with its fingerprint or etag,
  write it back changed, and start over when the write was refused. Every request but a read then
  carries the answer of the read directly before it, and the loop sends two requests per attempt at
  most. Project metadata and the policies of Pub/Sub are written this way.
\<close>

type_synonym 'w logged_machine = "('w \<times> http_request list) machine"

definition fresh_writes ::
    "('w logged_machine \<Rightarrow> ('e + 'a) \<times> 'w logged_machine) \<Rightarrow> ('a \<Rightarrow> http_request \<Rightarrow> bool)
      \<Rightarrow> http_request list \<Rightarrow> http_request list \<Rightarrow> bool" where
  "fresh_writes fetch carried earlier reqs \<longleftrightarrow>
     (\<forall>pre req post. reqs = pre @ req # post \<and> hq_Method req \<noteq> ''GET'' \<longrightarrow>
        (\<exists>t0 t a. fetch t0 = (Inr a, t) \<and> sent t = earlier @ pre \<and> carried a req))"

lemma fresh_writesD:
  "fresh_writes fetch carried earlier (pre @ req # post) \<Longrightarrow> hq_Method req \<noteq> ''GET'' \<Longrightarrow>
     \<exists>t0 t a. fetch t0 = (Inr a, t) \<and> sent t = earlier @ pre \<and> carried a req"
  unfolding fresh_writes_def by blast

lemma fresh_writes_append:
  assumes "fresh_writes fetch carried earlier xs" and "fresh_writes fetch carried (earlier @ xs) ys"
  shows "fresh_writes fetch carried earlier (xs @ ys)"
  unfolding fresh_writes_def
proof (intro allI impI)
  fix pre req post assume *: "xs @ ys = pre @ req # post \<and> hq_Method req \<noteq> ''GET''"
  then consider us where "xs = pre @ req # us" | us where "pre = xs @ us" "ys = us @ req # post"
    by (auto simp: append_eq_append_conv2 append_eq_Cons_conv)
  then show "\<exists>t0 t a. fetch t0 = (Inr a, t) \<and> sent t = earlier @ pre \<and> carried a req"
    using assms * unfolding fresh_writes_def by cases fastforce+
qed

lemma fresh_writes_read: "hq_Method get = ''GET'' \<Longrightarrow> fresh_writes fetch carried earlier [get]"
  by (auto simp: fresh_writes_def Cons_eq_append_conv)

lemma fresh_writes_none: "fresh_writes fetch carried earlier []"
  by (simp add: fresh_writes_def)

lemma fresh_writes_pair:
  assumes "fetch s = (Inr a, s1)" and "sent s1 = earlier @ [get]" and "hq_Method get = ''GET''" and "carried a req"
  shows "fresh_writes fetch carried earlier [get, req]"
proof -
  have "fresh_writes fetch carried (earlier @ [get]) [req]"
    unfolding fresh_writes_def
  proof (intro allI impI)
    fix pre x post assume "[req] = pre @ x # post \<and> hq_Method x \<noteq> ''GET''"
    then have "pre = []" "x = req" by (auto simp: Cons_eq_append_conv)
    then show "\<exists>t0 t a. fetch t0 = (Inr a, t) \<and> sent t = (earlier @ [get]) @ pre \<and> carried a x"
      using assms(1,2,4) by auto
  qed
  from fresh_writes_append [OF fresh_writes_read [OF assms(3)] this] show ?thesis by simp
qed

text \<open>
  \<open>fetch\<close> reads, \<open>store\<close> writes what was read and changed, and \<open>rounds n\<close> relates the states before and
  after the loop with \<open>n\<close> more attempts after the first to its answer. \<open>changes\<close> says whether there is anything to write.
\<close>

locale guarded_writes =
  fixes fetch :: "'w logged_machine \<Rightarrow> ('e + 'a) \<times> 'w logged_machine"
    and store :: "'a \<Rightarrow> 'w logged_machine \<Rightarrow> ('f + 'b) \<times> 'w logged_machine"
    and changes :: "'a \<Rightarrow> bool"
    and carried :: "'a \<Rightarrow> http_request \<Rightarrow> bool"
    and rounds :: "nat \<Rightarrow> 'w logged_machine \<Rightarrow> 'g + 'c \<Rightarrow> 'w logged_machine \<Rightarrow> bool"
  assumes fetch_sent: "fetch s = (q, s1) \<Longrightarrow>
      (sent s1 = sent s \<and> isl q) \<or> (\<exists>get. sent s1 = sent s @ [get] \<and> hq_Method get = ''GET'')"
    and store_sent: "store a s = (x, s1) \<Longrightarrow>
      (sent s1 = sent s \<and> isl x) \<or> (\<exists>req. sent s1 = sent s @ [req] \<and> hq_Method req = ''POST'' \<and> carried a req)"
    and attempt: "rounds n s r s' \<Longrightarrow> fetch s = (q, s1) \<Longrightarrow>
      (case q of Inl e \<Rightarrow> isl r \<and> s' = s1
       | Inr a \<Rightarrow>
           if \<not> changes a then s' = s1
           else (\<exists>x s2. store a s1 = (x, s2)
              \<and> (s' = s2 \<and> (isl x \<longrightarrow> isl r) \<or> isl x \<and> (\<exists>m. n = Suc m \<and> rounds m s2 r s'))))"
begin

text \<open>Why the loop succeeded: nothing had to be written, or the last request was a write.\<close>

definition settled :: "http_request list \<Rightarrow> 'w logged_machine \<Rightarrow> bool" where
  "settled reqs s' \<longleftrightarrow>
     reqs \<noteq> [] \<and> (hq_Method (last reqs) = ''POST'' \<or> (\<exists>t0 a. fetch t0 = (Inr a, s') \<and> \<not> changes a))"

lemma round:
  assumes "rounds n s r s'"
  shows "\<exists>s2 reqs. sent s2 = sent s @ reqs \<and> length reqs \<le> 2 \<and> fresh_writes fetch carried (sent s) reqs
    \<and> (s' = s2 \<and> (isl r \<or> settled reqs s') \<or> (\<exists>m. n = Suc m \<and> rounds m s2 r s'))"
proof -
  obtain q s1 where q: "fetch s = (q, s1)" by (metis surj_pair)
  show ?thesis
  proof (cases q)
    case (Inl e)
    with attempt [OF assms q] have "isl r" "s' = s1" by auto
    with fetch_sent [OF q] fresh_writes_none fresh_writes_read show ?thesis
      by (intro exI [of _ s1]) fastforce
  next
    case (Inr a)
    with fetch_sent [OF q] obtain get where g: "sent s1 = sent s @ [get]" "hq_Method get = ''GET''" by auto
    show ?thesis
    proof (cases "changes a")
      case False
      with attempt [OF assms q] Inr have "s' = s1" by simp
      with g fresh_writes_read q Inr False show ?thesis
        by (intro exI [of _ s1] exI [of _ "[get]"]) (auto simp: settled_def)
    next
      case True
      with attempt [OF assms q] Inr obtain x s2 where x: "store a s1 = (x, s2)"
          "s' = s2 \<and> (isl x \<longrightarrow> isl r) \<or> isl x \<and> (\<exists>m. n = Suc m \<and> rounds m s2 r s')" by auto
      from store_sent [OF x(1)] show ?thesis
      proof
        assume "sent s2 = sent s1 \<and> isl x"
        then show ?thesis using x(2) g fresh_writes_read
          by (intro exI [of _ s2] exI [of _ "[get]"]) auto
      next
        assume "\<exists>req. sent s2 = sent s1 @ [req] \<and> hq_Method req = ''POST'' \<and> carried a req"
        then obtain req where req: "sent s2 = sent s @ [get, req]" "hq_Method req = ''POST''" "carried a req"
          using g(1) by auto
        have "fresh_writes fetch carried (sent s) [get, req]"
          using fresh_writes_pair [of fetch, OF q [unfolded Inr] g, of carried] req(3) by blast
        then show ?thesis using x(2) req
          by (intro exI [of _ s2] exI [of _ "[get, req]"]) (auto simp: settled_def)
      qed
    qed
  qed
qed

lemma rounds_sent:
  "rounds n s r s' \<Longrightarrow>
     \<exists>reqs. sent s' = sent s @ reqs \<and> length reqs \<le> 2 * Suc n \<and> fresh_writes fetch carried (sent s) reqs
       \<and> (isl r \<or> settled reqs s')"
proof (induction n arbitrary: s)
  case 0
  from round [OF 0] show ?case by auto
next
  case (Suc n)
  from round [OF Suc.prems] obtain s2 xs where
    x: "sent s2 = sent s @ xs" "length xs \<le> 2" "fresh_writes fetch carried (sent s) xs"
    and "s' = s2 \<and> (isl r \<or> settled xs s') \<or> rounds n s2 r s'" by auto
  then show ?case
  proof (elim disjE)
    assume "rounds n s2 r s'"
    from Suc.IH [OF this] obtain ys where
      "sent s' = sent s2 @ ys" "length ys \<le> 2 * Suc n" "fresh_writes fetch carried (sent s2) ys" "isl r \<or> settled ys s'" by blast
    with x fresh_writes_append [OF x(3)] show ?thesis
      by (intro exI [of _ "xs @ ys"]) (auto simp: settled_def)
  qed (intro exI [of _ xs], auto)
qed

end

end
