(* ===== verification/Project_Metadata.thy ===== *)
theory Project_Metadata
  imports Guarded_Writes Keyed_Merge
begin

text \<open>
  One key of a project's common instance metadata
  (\<^verbatim>\<open>src/pkg/resources/compute/project_metadata_item.go\<close>). The API replaces the whole list at
  once, so a write reads the list, changes one key and sends the rest back under the fingerprint
  it read.
\<close>

section \<open>Identifiers\<close>

definition buildMetadataItemNativeID :: "string \<times> string \<Rightarrow> string" where
  "buildMetadataItemNativeID pk = ''projects/'' @ fst pk @ ''/commonInstanceMetadata/items/'' @ snd pk"

definition parseMetadataItemNativeID :: "string \<Rightarrow> goerr + string \<times> string" where
  "parseMetadataItemNativeID nativeID =
     (case Split nativeID CHR ''/'' of
        [a, project, b, c, key] \<Rightarrow>
          if a = ''projects'' \<and> b = ''commonInstanceMetadata'' \<and> c = ''items'' \<and> key \<noteq> []
          then Inr (project, key)
          else Inl (ErrText (''invalid project metadata item native ID: '' @ nativeID))
      | _ \<Rightarrow> Inl (ErrText (''invalid project metadata item native ID: '' @ nativeID)))"

section \<open>The list of items\<close>

text \<open>
  What a write keeps of an item: its key, and its value if that is a string. Items that are no
  objects or have no key are dropped.
\<close>

type_synonym item = "string \<times> string option"

definition item_of :: "obj \<Rightarrow> item" where
  "item_of x = (prop_string x ''key'', as_string (map_of x ''value''))"

definition items_of :: "json list \<Rightarrow> item list" where
  "items_of xs = filter (\<lambda>i. fst i \<noteq> []) (map item_of (objects xs))"

definition render_item :: "item \<Rightarrow> json" where
  "render_item i =
     JObj ((''key'', JStr (fst i)) # (case snd i of Some v \<Rightarrow> [(''value'', JStr v)] | None \<Rightarrow> []))"

text \<open>\<open>wanted\<close> is the new value, or \<^const>\<open>None\<close> to remove the key.\<close>

definition mergeMetadataItem :: "json list \<Rightarrow> string \<Rightarrow> string option \<Rightarrow> json list" where
  "mergeMetadataItem items key wanted =
     map render_item (merged fst (items_of items) key (map_option (\<lambda>v. (key, Some v)) wanted))"

definition metadataItemValue :: "json list \<Rightarrow> string \<Rightarrow> string option" where
  "metadataItemValue items key =
     map_option (\<lambda>x. prop_string x ''value'') (find (\<lambda>x. prop_string x ''key'' = key) (objects items))"

section \<open>Requests\<close>

definition projectURL :: "string \<Rightarrow> string" where
  "projectURL project = ac_BaseURL ComputeAPI @ ''/projects/'' @ project"

definition metadata_of :: "obj \<Rightarrow> json list \<times> string" where
  "metadata_of body =
     (case as_obj (map_of body ''commonInstanceMetadata'') of
        None \<Rightarrow> ([], [])
      | Some metadata \<Rightarrow> (array_of metadata ''items'', prop_string metadata ''fingerprint''))"

definition readMetadata ::
    "'w env \<Rightarrow> Config option \<Rightarrow> string \<Rightarrow> 'w machine \<Rightarrow> (terror + json list \<times> string) \<times> 'w machine" where
  "readMetadata E cfg project s =
     (case NewClient E cfg s of
        (Inl e, s1) \<Rightarrow> (Inl (wrap_err e ''failed to create transport client''), s1)
      | (Inr client, s1) \<Rightarrow>
          (case compute_get E client (projectURL project) ''failed to read project metadata'' s1 of
             (Inl te, s2) \<Rightarrow> (Inl te, s2)
           | (Inr body, s2) \<Rightarrow> (Inr (metadata_of (obj_of body)), s2)))"

definition metadata_body :: "json list \<times> string \<Rightarrow> string \<Rightarrow> string option \<Rightarrow> obj" where
  "metadata_body current key wanted =
     [(''fingerprint'', JStr (snd current)), (''items'', JArr (mergeMetadataItem (fst current) key wanted))]"

text \<open>
  The loop: \<open>n\<close> is the number of attempts that remain after this one. Only a refusal that speaks
  of the fingerprint is tried again.
\<close>

fun write_attempts ::
    "nat \<Rightarrow> 'w env \<Rightarrow> Client \<Rightarrow> Config option \<Rightarrow> string \<Rightarrow> string \<Rightarrow> string option \<Rightarrow> 'w machine
      \<Rightarrow> (terror + string) \<times> 'w machine" where
  "write_attempts n E client cfg project key wanted s =
     (case readMetadata E cfg project s of
        (Inl te, s1) \<Rightarrow> (Inl te, s1)
      | (Inr current, s1) \<Rightarrow>
          (case SendRequest E client
                  (request_options ''POST'' (projectURL project @ ''/setCommonInstanceMetadata'')
                     (Some (metadata_body current key wanted))) s1 of
             (Inr resp, s2) \<Rightarrow>
               (Inr (buildComputeOperationURL (op_context project []) (extractComputeOperationID (obj_of (rs_Body resp)))), s2)
           | (Inl e, s2) \<Rightarrow>
               (let te = wrap_err e ''failed to set project metadata''
                in if \<not> Contains (ToLower (te_Message te)) ''fingerprint'' then (Inl te, s2)
                   else case n of
                     0 \<Rightarrow> (Inl te, s2)
                   | Suc m \<Rightarrow> write_attempts m E client cfg project key wanted s2)))"

declare write_attempts.simps [simp del]

definition writeMetadataItem ::
    "'w env \<Rightarrow> Config option \<Rightarrow> string \<Rightarrow> string \<Rightarrow> string option \<Rightarrow> 'w machine \<Rightarrow> (terror + string) \<times> 'w machine" where
  "writeMetadataItem E cfg project key wanted s =
     (case NewClient E cfg s of
        (Inl e, s1) \<Rightarrow> (Inl (wrap_err e ''failed to create transport client''), s1)
      | (Inr client, s1) \<Rightarrow> write_attempts 1 E client cfg project key wanted s1)"

section \<open>Operations\<close>

definition Metadata_Create :: "'w env \<Rightarrow> Config option \<Rightarrow> CreateRequest \<Rightarrow> ('w, ProgressResult) op" where
  "Metadata_Create E cfg request s =
     (case unmarshal_map (cr_Properties request) of
        Inl e \<Rightarrow> (Ok (nat_failure OperationCreate InvalidRequest (''invalid properties: '' @ e)), s)
      | Inr m \<Rightarrow>
          (let key = prop_string (obj_of m) ''key''; project = projectFor (cr_TargetConfig request) []
           in if key = [] then (Ok (nat_failure OperationCreate InvalidRequest ''key is required''), s)
              else if project = [] then
                (Ok (nat_failure OperationCreate InvalidRequest ''target project is required''), s)
              else verb_result OperationCreate (buildMetadataItemNativeID (project, key))
                     ''project metadata item creation in progress''
                     (writeMetadataItem E cfg project key (Some (prop_string (obj_of m) ''value'')) s)))"

definition Metadata_Read :: "'w env \<Rightarrow> Config option \<Rightarrow> ReadRequest \<Rightarrow> ('w, ReadResult) op" where
  "Metadata_Read E cfg request s =
     (case parseMetadataItemNativeID (rd_NativeID request) of
        Inl e \<Rightarrow> (Ok (read_error InvalidRequest), s)
      | Inr (project, key) \<Rightarrow>
          (case readMetadata E cfg (projectFor (rd_TargetConfig request) project) s of
             (Inl te, s1) \<Rightarrow> (Ok (read_error (ToResourceErrorCode (te_Code te))), s1)
           | (Inr (items, fingerprint), s1) \<Rightarrow>
               (case metadataItemValue items key of
                  None \<Rightarrow> (Ok (read_error NotFound), s1)
                | Some v \<Rightarrow> (marshalled ''metadata item'' [(''key'', JStr key), (''value'', JStr v)], s1))))"

definition Metadata_Update :: "'w env \<Rightarrow> Config option \<Rightarrow> UpdateRequest \<Rightarrow> ('w, ProgressResult) op" where
  "Metadata_Update E cfg request s =
     (case unmarshal_map (up_DesiredProperties request) of
        Inl e \<Rightarrow> (Ok (nat_failure OperationUpdate InvalidRequest (''invalid properties: '' @ e)), s)
      | Inr m \<Rightarrow>
     (case parseMetadataItemNativeID (up_NativeID request) of
        Inl e \<Rightarrow> (Ok (nat_failure OperationUpdate InvalidRequest (err_text e)), s)
      | Inr (project, key) \<Rightarrow>
          verb_result OperationUpdate (up_NativeID request) ''project metadata item update in progress''
            (writeMetadataItem E cfg (projectFor (up_TargetConfig request) project) key
               (Some (prop_string (obj_of m) ''value'')) s)))"

definition Metadata_Delete :: "'w env \<Rightarrow> Config option \<Rightarrow> DeleteRequest \<Rightarrow> ('w, ProgressResult) op" where
  "Metadata_Delete E cfg request s =
     (case parseMetadataItemNativeID (dl_NativeID request) of
        Inl e \<Rightarrow> (Ok (nat_failure OperationDelete InvalidRequest (err_text e)), s)
      | Inr (project, key) \<Rightarrow>
          verb_result OperationDelete (dl_NativeID request) ''project metadata item deletion in progress''
            (writeMetadataItem E cfg (projectFor (dl_TargetConfig request) project) key None s))"

definition Metadata_List :: "'w env \<Rightarrow> Config option \<Rightarrow> ListRequest \<Rightarrow> ('w, ListResult) op" where
  "Metadata_List E cfg request s =
     (let project = projectFor (ls_TargetConfig request) []
      in if project = [] then (Ok nothing_listed, s)
         else case readMetadata E cfg project s of
           (Inl te, s1) \<Rightarrow> (Err (terror_err te), s1)
         | (Inr (items, fingerprint), s1) \<Rightarrow>
             (Ok \<lparr>lr_NativeIDs = map (\<lambda>k. buildMetadataItemNativeID (project, k)) (names_of ''key'' items),
                  lr_NextPageToken = None\<rparr>, s1))"

definition metadata_config :: "Config option \<Rightarrow> 'w BaseResource" where
  "metadata_config cfg = compute_base cfg ''projects'' ScopeGlobal"

definition Metadata_Status :: "'w env \<Rightarrow> Config option \<Rightarrow> StatusRequest \<Rightarrow> ('w, ProgressResult) op" where
  "Metadata_Status E cfg request =
     StatusWithRead E (metadata_config cfg) (Some (Metadata_Read E cfg)) request"

section \<open>Identifiers read back\<close>

interpretation metadata_reader: id_reader buildMetadataItemNativeID parseMetadataItemNativeID
  "\<lambda>(project, key). seg project \<and> seg key \<and> key \<noteq> []"
  by unfold_locales (auto simp: buildMetadataItemNativeID_def parseMetadataItemNativeID_def segment)

section \<open>A write is an update of a map\<close>

lemma metadataItemValue_items:
  "key \<noteq> [] \<Longrightarrow> metadataItemValue xs key
     = map_option (\<lambda>i. string_or_empty (snd i)) (lookup_key fst (items_of xs) key)"
proof -
  assume k: "key \<noteq> []"
  have "find (\<lambda>i. fst i = key) (filter (\<lambda>i. fst i \<noteq> []) ys) = find (\<lambda>i. fst i = key) ys" for ys :: "item list"
    using k by (intro find_conj) auto
  moreover have "find (\<lambda>i. fst i = key) (map item_of ys) = map_option item_of (find (\<lambda>x. prop_string x ''key'' = key) ys)" for ys
    by (induction ys) (auto simp: item_of_def)
  ultimately show ?thesis
    by (simp add: metadataItemValue_def lookup_key_def items_of_def option.map_comp comp_def item_of_def prop_string_def)
qed

lemma items_of_render: "items_of (map render_item ys) = filter (\<lambda>i. fst i \<noteq> []) ys"
proof -
  have "item_of (case render_item i of JObj m \<Rightarrow> m) = i" for i
    by (cases i; cases "snd i") (auto simp: render_item_def item_of_def prop_string_def string_or_empty_def)
  moreover have "objects (map render_item ys) = map (\<lambda>i. case render_item i of JObj m \<Rightarrow> m) ys"
    by (simp add: objects_def render_item_def comp_def)
  ultimately show ?thesis by (simp add: items_of_def comp_def)
qed

lemma merge_metadata_map:
  assumes "key \<noteq> []" and "k \<noteq> []"
  shows "metadataItemValue (mergeMetadataItem items key wanted) k = ((metadataItemValue items)(key := wanted)) k"
proof -
  let ?w = "map_option (\<lambda>v. (key, Some v)) wanted"
  have f: "lookup_key fst (filter (\<lambda>i. fst i \<noteq> []) ys) k = lookup_key fst ys k" for ys :: "item list"
    using assms(2) unfolding lookup_key_def by (intro find_conj) auto
  have "lookup_key fst (merged fst (items_of items) key ?w) = (lookup_key fst (items_of items))(key := ?w)"
    by (rule merged_loop.lookup_merge) auto
  then have "metadataItemValue (mergeMetadataItem items key wanted) k
      = map_option (\<lambda>i. string_or_empty (snd i)) (((lookup_key fst (items_of items))(key := ?w)) k)"
    using assms(2) by (simp add: metadataItemValue_items mergeMetadataItem_def items_of_render f)
  then show ?thesis
    using metadataItemValue_items [OF assms(2), of items]
    by (simp add: option.map_comp comp_def string_or_empty_def option.map_ident)
qed

section \<open>What a write sends\<close>

lemma readMetadata_sent:
  assumes "readMetadata (logged E) cfg project s = (r, s')"
  shows "(sent s' = sent s \<and> (\<exists>te. r = Inl te)) \<or> (\<exists>get. sent s' = sent s @ [get] \<and> hq_Method get = ''GET'')"
proof -
  obtain q s1 where q: "NewClient (logged E) cfg s = (q, s1)" by (metis surj_pair)
  note s1 = NewClient_sent [OF q]
  show ?thesis
  proof (cases q)
    case (Inl e)
    with assms q s1 show ?thesis by (auto simp: readMetadata_def)
  next
    case (Inr client)
    obtain a s2 where a: "SendRequest (logged E) client (request_options ''GET'' (projectURL project) None) s1 = (a, s2)"
      by (metis surj_pair)
    have "s' = s2 \<and> ((\<exists>e. a = Inl e) \<longrightarrow> (\<exists>te. r = Inl te))"
      using assms q Inr a by (auto simp: readMetadata_def compute_get_def split: sum.splits)
    moreover have "hq_Method get = ''GET''" if "sends client (request_options ''GET'' (projectURL project) None) get" for get
      using that by (simp add: sends_def request_options_def)
    ultimately show ?thesis using SendRequest_logged [OF a] s1 by auto
  qed
qed

text \<open>The loop keeps the contract of \<open>guarded_writes\<close>: every write carries the metadata just read.\<close>

definition metadata_store ::
    "'w env \<Rightarrow> Client \<Rightarrow> string \<Rightarrow> string \<Rightarrow> string option \<Rightarrow> json list \<times> string \<Rightarrow> 'w machine \<Rightarrow> (goerr + Response) \<times> 'w machine" where
  "metadata_store E client project key wanted current =
     SendRequest E client (request_options ''POST'' (projectURL project @ ''/setCommonInstanceMetadata'')
       (Some (metadata_body current key wanted)))"

interpretation metadata: guarded_writes "readMetadata (logged E) cfg project" "metadata_store (logged E) client project key wanted"
    "\<lambda>_. True" "\<lambda>current req. carries req (metadata_body current key wanted)"
    "\<lambda>n s r s'. write_attempts n (logged E) client cfg project key wanted s = (r, s')" for E client cfg project key wanted
proof
  fix s s1 :: "('a \<times> http_request list) machine" and q
  assume "readMetadata (logged E) cfg project s = (q, s1)"
  from readMetadata_sent [OF this]
  show "(sent s1 = sent s \<and> isl q) \<or> (\<exists>get. sent s1 = sent s @ [get] \<and> hq_Method get = ''GET'')" by auto
next
  fix s s1 :: "('a \<times> http_request list) machine" and current x
  assume "metadata_store (logged E) client project key wanted current s = (x, s1)"
  from SendRequest_logged [OF this [unfolded metadata_store_def]] sends_posts posts_carries
  show "(sent s1 = sent s \<and> isl x)
      \<or> (\<exists>req. sent s1 = sent s @ [req] \<and> hq_Method req = ''POST'' \<and> carries req (metadata_body current key wanted))"
    by (fastforce simp: posts_to_def)
next
  fix n and s s' s1 :: "('a \<times> http_request list) machine" and r q
  assume "write_attempts n (logged E) client cfg project key wanted s = (r, s')" "readMetadata (logged E) cfg project s = (q, s1)"
  then show "case q of Inl e \<Rightarrow> isl r \<and> s' = s1
       | Inr a \<Rightarrow> if \<not> True then s' = s1
           else (\<exists>x s2. metadata_store (logged E) client project key wanted a s1 = (x, s2)
              \<and> (s' = s2 \<and> (isl x \<longrightarrow> isl r)
                \<or> isl x \<and> (\<exists>m. n = Suc m \<and> write_attempts m (logged E) client cfg project key wanted s2 = (r, s'))))"
    by (auto simp: write_attempts.simps [of n] metadata_store_def Let_def split: sum.splits prod.splits if_splits nat.splits)
qed


section \<open>The property on a concrete project\<close>

definition demo_project :: obj where
  "demo_project = [(''commonInstanceMetadata'', JObj [(''fingerprint'', JStr ''f''),
     (''items'', JArr [JObj [(''key'', JStr ''a''), (''value'', JStr ''1'')], JObj [(''key'', JStr ''b''), (''value'', JStr ''2'')]])])]"

lemma demo_project_urls:
  "Parse (projectURL ''p'') \<noteq> None" "Parse (projectURL ''p'' @ ''/setCommonInstanceMetadata'') \<noteq> None"
  by (simp_all add: projectURL_def ComputeAPI_def Parse_def before_def control_char_def Let_def)

lemma demo_project_merged:
  "metadata_body (metadata_of (obj_of (Some demo_project))) ''a'' None
     = [(''fingerprint'', JStr ''f''), (''items'', JArr [JObj [(''key'', JStr ''b''), (''value'', JStr ''2'')]])]"
  by (simp add: metadata_body_def metadata_of_def obj_of_def demo_project_def array_of_def mergeMetadataItem_def items_of_def
      objects_def item_of_def prop_string_def string_or_empty_def merged_def render_item_def)


end
