(* ===== verification/Compute_Transformers.thy ===== *)
theory Compute_Transformers
  imports Compute_Api
begin

text \<open>
  How bodies are prepared for the Compute API and how its answers are brought back to the form a
  forma declares: the transformer files of \<^verbatim>\<open>src/pkg/resources/compute/\<close>
  (\<^verbatim>\<open>autoscaler.go\<close>, \<^verbatim>\<open>disk_transformers.go\<close>, \<^verbatim>\<open>firewall.go\<close>, \<^verbatim>\<open>instance_transformers.go\<close>,
  \<^verbatim>\<open>network.go\<close>, \<^verbatim>\<open>packet_mirroring.go\<close>, \<^verbatim>\<open>regiondisk.go\<close>, \<^verbatim>\<open>rollout_plan.go\<close>, \<^verbatim>\<open>router.go\<close>,
  \<^verbatim>\<open>ssl_certificate.go\<close>, \<^verbatim>\<open>subnetwork.go\<close>, \<^verbatim>\<open>vpntunnel.go\<close>, \<^verbatim>\<open>zone_vm_extension_policy.go\<close>).

  A transformer that copies the map first answers a map even for a nil one; one that changes its
  argument answers nil for nil, or panics where it writes unconditionally.
\<close>

section \<open>Helpers\<close>

text \<open>\<^verbatim>\<open>if v := utils.GetString(m, k); v != "" { out[k'] = v }\<close>.\<close>

definition put_string :: "string \<Rightarrow> string \<Rightarrow> obj \<Rightarrow> obj" where
  "put_string k v out = (if v \<noteq> [] then AList.update k (JStr v) out else out)"

definition put_json :: "string \<Rightarrow> json option \<Rightarrow> obj \<Rightarrow> obj" where
  "put_json k v out = (case v of Some x \<Rightarrow> AList.update k x out | None \<Rightarrow> out)"

text \<open>\<^verbatim>\<open>len(utils.GetArray(m, k)) > 0\<close>, with the array.\<close>

definition nonempty_array :: "obj \<Rightarrow> string \<Rightarrow> json list option" where
  "nonempty_array m k = (case GetArray m k of Some (x # xs) \<Rightarrow> Some (x # xs) | _ \<Rightarrow> None)"

text \<open>An update of one field that holds an array, or an object; nothing if it does not.\<close>

definition map_array :: "string \<Rightarrow> (json list \<Rightarrow> json list) \<Rightarrow> obj \<Rightarrow> obj" where
  "map_array k f m = (case as_arr (map_of m k) of Some xs \<Rightarrow> AList.update k (JArr (f xs)) m | None \<Rightarrow> m)"

definition map_object :: "string \<Rightarrow> (obj \<Rightarrow> obj) \<Rightarrow> obj \<Rightarrow> obj" where
  "map_object k f m = (case as_obj (map_of m k) of Some o' \<Rightarrow> AList.update k (JObj (f o')) m | None \<Rightarrow> m)"

fun on_object :: "(obj \<Rightarrow> obj) \<Rightarrow> json \<Rightarrow> json" where
  "on_object f (JObj m) = JObj (f m)"
| "on_object f v = v"

fun on_array :: "(json list \<Rightarrow> json list) \<Rightarrow> json \<Rightarrow> json" where
  "on_array f (JArr xs) = JArr (f xs)"
| "on_array f v = v"

fun on_string :: "(string \<Rightarrow> string) \<Rightarrow> json \<Rightarrow> json" where
  "on_string f (JStr s) = JStr (f s)"
| "on_string f v = v"

definition without :: "string list \<Rightarrow> obj \<Rightarrow> obj" where
  "without ks m = filter (\<lambda>(k, v). k \<notin> set ks) m"

section \<open>autoscaler.go\<close>

definition autoscalerAPITargetField :: string where "autoscalerAPITargetField = ''target''"
definition autoscalerSchemaTargetField :: string where "autoscalerSchemaTargetField = ''instanceGroupManager''"

definition renameKey :: "obj option \<Rightarrow> string \<Rightarrow> string \<Rightarrow> obj option" where
  "renameKey props src dst =
     (case map_of (obj_of props) src of
        None \<Rightarrow> props
      | Some val \<Rightarrow> Some (AList.update dst val (without [src] (obj_of props))))"

definition autoscalerRequestTransformer :: request_transformer where
  "autoscalerRequestTransformer props ctx =
     Ok (renameKey props autoscalerSchemaTargetField autoscalerAPITargetField)"

definition autoscalerResponseTransformer :: response_transformer where
  "autoscalerResponseTransformer =
     CompositeResponseTransformer
       [ZoneResponseTransformer,
        \<lambda>apiResponse ctx. Ok (renameKey apiResponse autoscalerAPITargetField autoscalerSchemaTargetField)]"

definition regionAutoscalerResponseTransformer :: response_transformer where
  "regionAutoscalerResponseTransformer =
     CompositeResponseTransformer
       [RegionResponseTransformer,
        \<lambda>apiResponse ctx. Ok (renameKey apiResponse autoscalerAPITargetField autoscalerSchemaTargetField)]"

section \<open>disk\_transformers.go, regiondisk.go\<close>

definition diskRequestTransformer :: request_transformer where
  "diskRequestTransformer props ctx =
     (let diskType = GetString (obj_of props) ''type''
      in if diskType \<noteq> [] \<and> \<not> HasPrefix diskType ''projects/'' \<and> \<not> HasPrefix diskType ''zones/''
         then assign props ''type''
                (JStr (''projects/'' @ tc_Project ctx @ ''/zones/'' @ tc_Zone ctx @ ''/diskTypes/'' @ diskType))
         else Ok props)"

definition extractProjectsPath :: "string \<Rightarrow> string" where
  "extractProjectsPath url = (case Index url ''projects/'' of Some i \<Rightarrow> drop i url | None \<Rightarrow> url)"

definition projects_field :: "obj \<Rightarrow> string \<Rightarrow> obj" where
  "projects_field m k =
     (case as_string (map_of m k) of
        Some v \<Rightarrow> if v \<noteq> [] then AList.update k (JStr (extractProjectsPath v)) m else m
      | None \<Rightarrow> m)"

definition diskResponseTransformer :: response_transformer where
  "diskResponseTransformer apiResponse ctx =
     bind_outcome
       (assign (map_option (\<lambda>m. projects_field (segment_field (segment_field m ''zone'') ''type'') ''sourceImage'')
                  apiResponse)
          ''project'' (JStr (tc_Project ctx)))
       (\<lambda>m. Ok (map_option (without [''lastAttachTimestamp'', ''users'']) m))"

definition expand_zone :: "string \<Rightarrow> string \<Rightarrow> string" where
  "expand_zone project zone =
     (if Contains zone ''/'' then zone
      else ''https://www.googleapis.com/compute/v1/projects/'' @ project @ ''/zones/'' @ zone)"

definition regionDiskRequestTransformer :: request_transformer where
  "regionDiskRequestTransformer props ctx =
     (let diskType = GetString (obj_of props) ''type'';
          typed = (if diskType \<noteq> [] \<and> \<not> HasPrefix diskType ''projects/'' \<and> \<not> Contains diskType ''/''
                   then assign props ''type''
                          (JStr (''projects/'' @ tc_Project ctx @ ''/regions/'' @ tc_Region ctx @ ''/diskTypes/'' @ diskType))
                   else Ok props)
      in bind_outcome typed (\<lambda>m. Ok (map_option
           (map_array ''replicaZones'' (map (on_string (expand_zone (tc_Project ctx))))) m)))"

definition regionDiskResponseTransformer :: response_transformer where
  "regionDiskResponseTransformer apiResponse ctx =
     assign (map_option
        (\<lambda>m. projects_field
               (map_array ''replicaZones'' (map (on_string ExtractLastSegment))
                  (segment_field (segment_field m ''region'') ''type''))
               ''sourceImage'') apiResponse)
       ''project'' (JStr (tc_Project ctx))"

section \<open>firewall.go, network.go, router.go, subnetwork.go, vpntunnel.go\<close>

definition normalize_rule :: "obj \<Rightarrow> obj" where
  "normalize_rule rule = (if map_of rule ''ports'' = None then AList.update ''ports'' (JArr []) rule else rule)"

definition normalizeFirewallRules :: "json list \<Rightarrow> json list" where
  "normalizeFirewallRules rules = map (on_object normalize_rule) rules"

definition firewallResponseTransformer :: response_transformer where
  "firewallResponseTransformer apiResponse ctx =
     Ok (Some (map_array ''denied'' normalizeFirewallRules
                 (map_array ''allowed'' normalizeFirewallRules (obj_of apiResponse))))"

definition networkResponseTransformer :: response_transformer where
  "networkResponseTransformer apiResponse ctx =
     Ok (Some (without [''subnetworks'', ''peerings''] (obj_of apiResponse)))"

definition routerResponseTransformer :: response_transformer where
  "routerResponseTransformer apiResponse ctx =
     bind_outcome (RegionResponseTransformer apiResponse ctx) (\<lambda>m. Ok (map_option (without [''nats'']) m))"

definition subnetworkResponseTransformer :: response_transformer where
  "subnetworkResponseTransformer apiResponse ctx = Ok (Some (segment_field (obj_of apiResponse) ''region''))"

definition vpnTunnelResponseTransformer :: response_transformer where
  "vpnTunnelResponseTransformer apiResponse ctx =
     Ok (map_option (\<lambda>m. segment_field (without [''sharedSecret'', ''sharedSecretHash''] m) ''region'') apiResponse)"

section \<open>packet\_mirroring.go\<close>

definition packetMirroringSelectors :: "string list" where
  "packetMirroringSelectors = [''instances'', ''subnetworks'', ''tags'']"

definition fill_selectors :: "obj \<Rightarrow> obj" where
  "fill_selectors mirrored =
     foldl (\<lambda>filled selector. if map_of filled selector = None then AList.update selector (JArr []) filled else filled)
       mirrored packetMirroringSelectors"

definition packetMirroringRequestTransformer :: request_transformer where
  "packetMirroringRequestTransformer props ctx =
     (if tc_Operation ctx \<noteq> OperationUpdate then Ok props
      else Ok (Some (map_object ''mirroredResources'' fill_selectors (without [''network''] (obj_of props)))))"

definition stripCanonicalURL :: "obj \<Rightarrow> obj" where
  "stripCanonicalURL ref = without [''canonicalUrl''] ref"

fun stripCanonicalURLs :: "json \<Rightarrow> json" where
  "stripCanonicalURLs (JArr entries) = JArr (map (on_object stripCanonicalURL) entries)"
| "stripCanonicalURLs v = v"

definition clean_mirrored :: "obj \<Rightarrow> obj" where
  "clean_mirrored mirrored =
     map (\<lambda>(k, v). (k, if k = ''instances'' \<or> k = ''subnetworks'' then stripCanonicalURLs v else v)) mirrored"

definition packetMirroringResponseTransformer :: response_transformer where
  "packetMirroringResponseTransformer apiResponse ctx =
     Ok (Some (segment_field
       (map_object ''mirroredResources'' clean_mirrored
          (map_object ''collectorIlb'' stripCanonicalURL
             (map_object ''network'' stripCanonicalURL (obj_of apiResponse)))) ''region''))"

section \<open>rollout\_plan.go, zone\_vm\_extension\_policy.go\<close>

definition rolloutPlanResponseTransformer :: response_transformer where
  "rolloutPlanResponseTransformer apiResponse ctx =
     Ok (Some (map_array ''waves'' (map (on_object (without [''number'']))) (obj_of apiResponse)))"

definition vmExtensionPolicyEchoedMembers :: "string list" where
  "vmExtensionPolicyEchoedMembers = [''stringConfig'']"

definition drop_echoed :: "obj \<Rightarrow> obj" where
  "drop_echoed entry =
     foldl (\<lambda>m k. if as_string (map_of m k) = Some [] then without [k] m else m)
       entry vmExtensionPolicyEchoedMembers"

definition zoneVmExtensionPolicyResponseTransformer :: response_transformer where
  "zoneVmExtensionPolicyResponseTransformer apiResponse ctx =
     Ok (Some (map_object ''extensionPolicies'' (map (\<lambda>(name, raw'). (name, on_object drop_echoed raw')))
                 (obj_of apiResponse)))"

section \<open>ssl\_certificate.go\<close>

definition self_managed :: "obj \<Rightarrow> obj" where
  "self_managed props =
     put_json ''privateKey'' (map_of props ''privateKey'') (put_json ''certificate'' (map_of props ''certificate'') [])"

definition sslCertificateRequestTransformer :: request_transformer where
  "sslCertificateRequestTransformer props ctx =
     (let m = obj_of props;
          body = without [''managedDomains'', ''certificate'', ''privateKey''] m;
          managed = put_json ''managed'' (map_option (\<lambda>d. JObj [(''domains'', d)]) (map_of m ''managedDomains'')) body
      in Ok (Some (if self_managed m \<noteq> [] then AList.update ''selfManaged'' (JObj (self_managed m)) managed
                   else managed)))"

definition lift_member :: "string \<Rightarrow> string \<Rightarrow> string \<Rightarrow> obj \<Rightarrow> obj \<Rightarrow> obj" where
  "lift_member wrapper member field apiResponse result =
     (case as_obj (map_of apiResponse wrapper) of
        None \<Rightarrow> result
      | Some w \<Rightarrow> without [wrapper] (put_json field (map_of w member) result))"

definition sslCertificateResponseTransformer :: response_transformer where
  "sslCertificateResponseTransformer apiResponse ctx =
     (let m = obj_of apiResponse
      in Ok (Some (lift_member ''selfManaged'' ''certificate'' ''certificate'' m
                     (lift_member ''managed'' ''domains'' ''managedDomains'' m m))))"

section \<open>instance\_transformers.go: the request\<close>

definition instance_machineType :: "obj \<Rightarrow> TransformContext \<Rightarrow> string" where
  "instance_machineType props ctx =
     (let machineType = GetString props ''machineType'';
          zone = (if GetString props ''zone'' = [] then tc_Region ctx @ ''-a'' else GetString props ''zone'')
      in if machineType = [] \<or> HasPrefix machineType ''zones/'' then machineType
         else ''zones/'' @ zone @ ''/machineTypes/'' @ machineType)"

definition buildAccessConfigs :: "json list \<Rightarrow> json list" where
  "buildAccessConfigs configs =
     map (\<lambda>cfg. JObj (put_string ''natIP'' (GetString cfg ''natIP'')
                       (put_string ''type'' (GetString cfg ''type'')
                         (put_string ''name'' (GetString cfg ''name'') []))))
       (objects configs)"

definition buildNetworkInterfaces :: "json list \<Rightarrow> json list" where
  "buildNetworkInterfaces interfaces =
     map (\<lambda>iface. JObj (put_json ''accessConfigs''
                          (map_option (\<lambda>xs. JArr (buildAccessConfigs xs)) (nonempty_array iface ''accessConfigs''))
                         (put_string ''subnetwork'' (GetString iface ''subnetwork'')
                           (put_string ''network'' (GetString iface ''network'') []))))
       (objects interfaces)"

definition disk_init_params :: "string \<Rightarrow> obj \<Rightarrow> obj" where
  "disk_init_params zone initParams =
     (let size = GetInt64 initParams ''diskSizeGb'';
          diskType = GetString initParams ''diskType''
      in put_string ''sourceImage'' (GetString initParams ''sourceImage'')
           (put_string ''diskType''
              (if diskType = [] \<or> HasPrefix diskType ''zones/'' then diskType
               else ''zones/'' @ zone @ ''/diskTypes/'' @ diskType)
              (if size > 0 then [(''diskSizeGb'', JInt64 size)] else [])))"

definition buildDisks :: "json list \<Rightarrow> string \<Rightarrow> string \<Rightarrow> json list" where
  "buildDisks disks project zone =
     map (\<lambda>disk. JObj (put_json ''initializeParams''
                         (map_option (\<lambda>ip. JObj (disk_init_params zone ip)) (GetObject disk ''initializeParams''))
                        (put_string ''source'' (GetString disk ''source'')
                          (put_string ''deviceName'' (GetString disk ''deviceName'')
                            [(''boot'', JBool (GetBool disk ''boot'')),
                             (''autoDelete'', JBool (GetBool disk ''autoDelete''))]))))
       (objects disks)"

definition buildServiceAccounts :: "json list \<Rightarrow> json list" where
  "buildServiceAccounts accounts =
     map (\<lambda>acct. JObj (put_json ''scopes''
                         (map_option (\<lambda>xs. JArr (map JStr (strings xs))) (nonempty_array acct ''scopes''))
                        (put_string ''email'' (GetString acct ''email'') [])))
       (objects accounts)"

definition buildScheduling :: "obj \<Rightarrow> json" where
  "buildScheduling s =
     JObj [(''preemptible'', JBool (GetBool s ''preemptible'')),
           (''onHostMaintenance'', JStr (GetString s ''onHostMaintenance'')),
           (''automaticRestart'', JBool (GetBool s ''automaticRestart''))]"

definition shielded_config :: "obj \<Rightarrow> json" where
  "shielded_config m =
     JObj [(''enableSecureBoot'', JBool (GetBool m ''enableSecureBoot'')),
           (''enableVtpm'', JBool (GetBool m ''enableVtpm'')),
           (''enableIntegrityMonitoring'', JBool (GetBool m ''enableIntegrityMonitoring''))]"

fun string_values :: "obj \<Rightarrow> obj" where
  "string_values [] = []"
| "string_values ((k, JStr s) # m) = (k, JStr s) # string_values m"
| "string_values (_ # m) = string_values m"

definition instance_arrays :: "obj \<Rightarrow> TransformContext \<Rightarrow> obj \<Rightarrow> obj" where
  "instance_arrays m ctx body =
     put_json ''serviceAccounts''
       (map_option (\<lambda>xs. JArr (buildServiceAccounts xs)) (nonempty_array m ''serviceAccounts''))
       (put_json ''disks''
          (map_option (\<lambda>xs. JArr (buildDisks xs (tc_Project ctx) (tc_Zone ctx))) (nonempty_array m ''disks''))
          (put_json ''networkInterfaces''
             (map_option (\<lambda>xs. JArr (buildNetworkInterfaces xs)) (nonempty_array m ''networkInterfaces'')) body))"

definition instance_settings :: "obj \<Rightarrow> obj \<Rightarrow> obj" where
  "instance_settings m body =
     put_json ''shieldedInstanceConfig'' (map_option shielded_config (GetObject m ''shieldedInstanceConfig''))
       (put_json ''scheduling'' (map_option buildScheduling (GetObject m ''scheduling''))
          (put_json ''labels'' (map_option (\<lambda>l. JObj (string_values l)) (GetObject m ''labels''))
             (put_json ''tags''
                (map_option (\<lambda>xs. JObj [(''items'', JArr (map JStr (strings xs)))]) (nonempty_array m ''tags''))
                (put_json ''metadata'' (map_option JObj (GetObject m ''metadata'')) body))))"

definition instanceBodyBuilder :: request_transformer where
  "instanceBodyBuilder props ctx =
     (let m = obj_of props
      in Ok (Some (put_string ''fingerprint'' (GetString m ''fingerprint'')
           (instance_settings m
              (instance_arrays m ctx
                 (put_string ''description'' (GetString m ''description'')
                    (put_string ''machineType'' (instance_machineType m ctx)
                       (put_string ''name'' (GetString m ''name'') []))))))))"

section \<open>instance\_transformers.go: the response\<close>

definition autoDeviceName :: "string \<Rightarrow> bool" where
  "autoDeviceName name =
     (let prefix = ''persistent-disk-'';
          suffix = drop (length prefix) name
      in HasPrefix name prefix \<and> suffix \<noteq> [] \<and> list_all is_digit suffix)"

definition normalize_disk :: "obj \<Rightarrow> obj" where
  "normalize_disk dm =
     (let dn = GetString dm ''deviceName''
      in put_string ''deviceName'' (if autoDeviceName dn then [] else dn)
           (put_string ''source'' (GetString dm ''source'')
              (put_json ''autoDelete'' (map_of dm ''autoDelete'')
                 (if GetBool dm ''boot'' then [(''boot'', JBool True)] else []))))"

definition normalizeInstanceDisks :: "json list \<Rightarrow> json list" where
  "normalizeInstanceDisks disks = map (\<lambda>dm. JObj (normalize_disk dm)) (objects disks)"

definition normalize_interface :: "obj \<Rightarrow> obj" where
  "normalize_interface im =
     put_json ''accessConfigs'' (map_option JArr (nonempty_array im ''accessConfigs''))
       (put_string ''networkIP'' (GetString im ''networkIP'')
          (put_string ''name'' (GetString im ''name'')
             (put_string ''subnetwork'' (GetString im ''subnetwork'')
                (put_string ''network'' (GetString im ''network'') []))))"

definition normalizeInstanceNetworkInterfaces :: "json list \<Rightarrow> json list" where
  "normalizeInstanceNetworkInterfaces ifaces = map (\<lambda>im. JObj (normalize_interface im)) (objects ifaces)"

definition extractProjectFromSelfLink :: "string \<Rightarrow> string" where
  "extractProjectFromSelfLink selfLink =
     (case Index selfLink ''/projects/'' of
        None \<Rightarrow> []
      | Some idx \<Rightarrow>
          (let remaining = drop (idx + length ''/projects/'') selfLink
           in case Index remaining ''/'' of None \<Rightarrow> remaining | Some endIdx \<Rightarrow> take endIdx remaining))"

definition normalize_nonempty :: "string \<Rightarrow> (json list \<Rightarrow> json list) \<Rightarrow> obj \<Rightarrow> obj" where
  "normalize_nonempty k f m = (case nonempty_array m k of Some xs \<Rightarrow> AList.update k (JArr (f xs)) m | None \<Rightarrow> m)"

definition instance_project :: "obj \<Rightarrow> obj" where
  "instance_project m =
     put_string ''project'' (extractProjectFromSelfLink (GetString m ''selfLink'')) m"

definition instanceResponseTransformer :: response_transformer where
  "instanceResponseTransformer apiResponse ctx =
     Ok (map_option
       (\<lambda>m. map_object ''metadata'' (without [''kind''])
              (normalize_nonempty ''networkInterfaces'' normalizeInstanceNetworkInterfaces
                 (normalize_nonempty ''disks'' normalizeInstanceDisks
                    (segment_field (segment_field (instance_project m) ''zone'') ''machineType''))))
       apiResponse)"

section \<open>Lookups in transformed objects\<close>

lemma obj_of_Some [simp]: "obj_of (Some m) = m"
  by (simp add: obj_of_def)

lemma map_of_put_string [simp]:
  "map_of (put_string k v m) = (if v \<noteq> [] then (map_of m)(k \<mapsto> JStr v) else map_of m)"
  by (simp add: put_string_def)

lemma map_of_put_json [simp]:
  "map_of (put_json k v m) = (case v of Some x \<Rightarrow> (map_of m)(k \<mapsto> x) | None \<Rightarrow> map_of m)"
  by (simp add: put_json_def split: option.split)

lemma map_of_without [simp]: "map_of (without ks m) k = (if k \<in> set ks then None else map_of m k)"
  by (induction m) (auto simp: without_def)

lemma map_of_map_array [simp]:
  "map_of (map_array k f m) j =
     (if j = k then map_option (on_array f) (map_of m k) else map_of m j)"
proof (cases "map_of m k")
  case (Some v)
  then show ?thesis by (cases v) (auto simp: map_array_def)
qed (auto simp: map_array_def)

lemma map_of_map_object [simp]:
  "map_of (map_object k f m) j =
     (if j = k then map_option (on_object f) (map_of m k) else map_of m j)"
proof (cases "map_of m k")
  case (Some v)
  then show ?thesis by (cases v) (auto simp: map_object_def)
qed (auto simp: map_object_def)

lemma map_of_segment_field [simp]:
  "map_of (segment_field m k) j =
     (if j = k then map_option (on_string ExtractLastSegment) (map_of m k) else map_of m j)"
proof (cases "map_of m k")
  case (Some v)
  then show ?thesis by (cases v) (auto simp: segment_field_def ExtractLastSegment_def)
qed (auto simp: segment_field_def)

lemma map_of_projects_field [simp]:
  "map_of (projects_field m k) j =
     (if j = k then map_option (on_string extractProjectsPath) (map_of m k) else map_of m j)"
proof (cases "map_of m k")
  case (Some v)
  then show ?thesis by (cases v) (auto simp: projects_field_def extractProjectsPath_def)
qed (auto simp: projects_field_def)

lemma map_of_normalize_nonempty [simp]:
  "map_of (normalize_nonempty k f m) j =
     (if j = k \<and> nonempty_array m k \<noteq> None then Some (JArr (f (the (nonempty_array m k)))) else map_of m j)"
  by (auto simp: normalize_nonempty_def split: option.split)

lemma nonempty_array_cong: "map_of m k = map_of m' k \<Longrightarrow> nonempty_array m k = nonempty_array m' k"
  by (simp add: nonempty_array_def GetArray_def)

lemma map_of_renameKey:
  "map_of (obj_of (renameKey p src dst)) =
     (case map_of (obj_of p) src of
        None \<Rightarrow> map_of (obj_of p)
      | Some v \<Rightarrow> (map_of (obj_of p))(src := None, dst \<mapsto> v))"
  by (auto simp: renameKey_def obj_of_def fun_eq_iff split: option.split)

section \<open>Normal forms\<close>

lemma ExtractLastSegment_slash_free [simp]: "CHR ''/'' \<notin> set s \<Longrightarrow> ExtractLastSegment s = s"
  by (simp add: ExtractLastSegment_def Split_no_sep)

lemma no_slash_in_last: "CHR ''/'' \<notin> set (ExtractLastSegment s)"
  unfolding ExtractLastSegment_def using Split_segments last_in_set Split_nonempty by metis

lemma Index_drop: "Index s p = Some i \<Longrightarrow> Index (drop i s) p = Some 0"
  by (induction s p arbitrary: i rule: Index.induct) (auto split: if_splits option.splits)

lemma extractProjectsPath_idem [simp]: "extractProjectsPath (extractProjectsPath s) = extractProjectsPath s"
  by (auto simp: extractProjectsPath_def Index_drop split: option.split)

text \<open>Two runs of an idempotent function are one, at each kind of field.\<close>

lemma on_string_idem: "(\<And>s. f (f s) = f s) \<Longrightarrow> on_string f (on_string f v) = on_string f v"
  by (cases v) auto

lemma on_array_idem: "(\<And>xs. f (f xs) = f xs) \<Longrightarrow> on_array f (on_array f v) = on_array f v"
  by (cases v) auto

lemma on_object_idem: "(\<And>m. f (f m) = f m) \<Longrightarrow> on_object f (on_object f v) = on_object f v"
  by (cases v) auto

lemma map_idem: "(\<And>x. f (f x) = f x) \<Longrightarrow> map f (map f xs) = map f xs"
  by simp

lemma last_segment_idem [simp]:
  "on_string ExtractLastSegment (on_string ExtractLastSegment v) = on_string ExtractLastSegment v"
  by (rule on_string_idem) (simp add: no_slash_in_last)

lemma projects_path_idem [simp]:
  "on_string extractProjectsPath (on_string extractProjectsPath v) = on_string extractProjectsPath v"
  by (rule on_string_idem) simp

lemma without_idem [simp]: "without ks (without ks m) = without ks m"
  by (simp add: without_def)

lemma normalize_rule_idem [simp]: "normalize_rule (normalize_rule r) = normalize_rule r"
  by (simp add: normalize_rule_def)

lemma drop_echoed_idem [simp]: "drop_echoed (drop_echoed m) = drop_echoed m"
  by (simp add: drop_echoed_def vmExtensionPolicyEchoedMembers_def)

lemma stripCanonicalURLs_idem [simp]: "stripCanonicalURLs (stripCanonicalURLs v) = stripCanonicalURLs v"
  by (cases v) (simp_all add: stripCanonicalURL_def on_object_idem)

lemma clean_mirrored_idem [simp]: "clean_mirrored (clean_mirrored m) = clean_mirrored m"
  by (simp add: clean_mirrored_def split_beta)

text \<open>What a disk or an interface is reduced to depends on a few lookups only, which it keeps.\<close>

lemma objects_JObj [simp]: "objects (map (\<lambda>m. JObj (f m)) ms) = map f ms"
  by (induction ms) (auto simp: objects_def)

lemma nonempty_array_of: "nonempty_array m k = (case map_of m k of Some (JArr (x # xs)) \<Rightarrow> Some (x # xs) | _ \<Rightarrow> None)"
  by (simp add: nonempty_array_def GetArray_def split: option.split json.split list.split)

lemma normalize_disk_lookups:
  "GetString (normalize_disk d) ''deviceName'' =
     (if autoDeviceName (GetString d ''deviceName'') then [] else GetString d ''deviceName'')"
  "GetString (normalize_disk d) ''source'' = GetString d ''source''"
  "map_of (normalize_disk d) ''autoDelete'' = map_of d ''autoDelete''"
  "GetBool (normalize_disk d) ''boot'' = GetBool d ''boot''"
  unfolding normalize_disk_def Let_def GetString_as_string GetBool_def
  by (auto simp: string_or_empty_def split: option.split)

lemma normalize_disk_idem [simp]: "normalize_disk (normalize_disk d) = normalize_disk d"
  by (subst (1 3) normalize_disk_def) (simp add: normalize_disk_lookups Let_def autoDeviceName_def HasPrefix_def)

lemma nonempty_array_Some: "nonempty_array m k = Some xs \<longleftrightarrow> map_of m k = Some (JArr xs) \<and> xs \<noteq> []"
  by (auto simp: nonempty_array_of split: option.splits json.splits list.splits)

lemma nonempty_array_put:
  "nonempty_array (put_json k (map_option JArr (nonempty_array m j)) m') k =
     (if nonempty_array m j = None then nonempty_array m' k else nonempty_array m j)"
proof (cases "nonempty_array m j")
  case None
  then show ?thesis by (simp add: nonempty_array_of)
next
  case (Some xs)
  then obtain y ys where "xs = y # ys" using nonempty_array_Some by (cases xs) blast+
  then show ?thesis unfolding Some by (simp add: nonempty_array_of)
qed

lemma GetString_put_string [simp]:
  "GetString (put_string k v m) j = (if j = k \<and> v \<noteq> [] then v else GetString m j)"
  by (simp add: GetString_def)

lemma GetString_put_json: "j \<noteq> k \<Longrightarrow> GetString (put_json k v m) j = GetString m j"
  by (simp add: GetString_def split: option.split)

lemma GetString_Nil [simp]: "GetString [] j = []"
  by (simp add: GetString_def)

lemma normalize_interface_lookups:
  "GetString (normalize_interface i) ''network'' = GetString i ''network''"
  "GetString (normalize_interface i) ''subnetwork'' = GetString i ''subnetwork''"
  "GetString (normalize_interface i) ''name'' = GetString i ''name''"
  "GetString (normalize_interface i) ''networkIP'' = GetString i ''networkIP''"
  by (simp_all add: normalize_interface_def GetString_put_json)

lemma normalize_interface_configs:
  "nonempty_array (normalize_interface i) ''accessConfigs'' = nonempty_array i ''accessConfigs''"
  unfolding normalize_interface_def by (subst nonempty_array_put) (simp add: nonempty_array_of)

lemma normalize_interface_idem [simp]: "normalize_interface (normalize_interface i) = normalize_interface i"
  by (subst (1 3) normalize_interface_def) (simp add: normalize_interface_lookups normalize_interface_configs)

lemma normalizeInstanceDisks_idem [simp]:
  "normalizeInstanceDisks (normalizeInstanceDisks ds) = normalizeInstanceDisks ds"
  by (simp add: normalizeInstanceDisks_def)

lemma normalizeInstanceNetworkInterfaces_idem [simp]:
  "normalizeInstanceNetworkInterfaces (normalizeInstanceNetworkInterfaces ds) = normalizeInstanceNetworkInterfaces ds"
  by (simp add: normalizeInstanceNetworkInterfaces_def)

lemma map_of_normalize_nonempty_idem:
  assumes "\<And>xs. f (f xs) = f xs" and "map_of m' k = map_of (normalize_nonempty k f m) k"
  shows "map_of (normalize_nonempty k f m') k = map_of m' k"
proof (cases "nonempty_array m k")
  case None
  then have "nonempty_array m' k = None" using assms(2) by (simp add: nonempty_array_of)
  then show ?thesis by simp
next
  case (Some xs)
  then have m': "map_of m' k = Some (JArr (f xs))" using assms(2) by simp
  show ?thesis
  proof (cases "nonempty_array m' k")
    case (Some ys)
    then have "ys = f xs" using m' by (simp add: nonempty_array_Some)
    then show ?thesis using Some m' assms(1) by simp
  qed simp
qed

section \<open>The contract of a reading\<close>

text \<open>
  What the state of a resource is made of must not depend on how often it was read, or every
  reconcile would find a difference. A response transformer answers for every answer of the API,
  changes no field but the ones it is there for, and finds nothing left to change in what it made.
\<close>

locale reading =
  fixes read_as :: response_transformer
    and touched :: "string set"
  assumes answers: "\<exists>r. read_as (Some m) ctx = Ok (Some r)"
    and keeps: "read_as (Some m) ctx = Ok (Some r) \<Longrightarrow> k \<notin> touched \<Longrightarrow> map_of r k = map_of m k"
    and settles: "read_as (Some m) ctx = Ok (Some r) \<Longrightarrow> read_as (Some r) ctx = Ok (Some r') \<Longrightarrow>
          map_of r' = map_of r"
begin

text \<open>However often the answer is read again, the fields stay what the first reading made them.\<close>

fun reread :: "nat \<Rightarrow> obj \<Rightarrow> TransformContext \<Rightarrow> (goerr, obj option) outcome" where
  "reread 0 m ctx = Ok (Some m)"
| "reread (Suc n) m ctx = bind_outcome (reread n m ctx) (\<lambda>r. read_as r ctx)"

lemma reread_answers: "\<exists>q. reread n m ctx = Ok (Some q)"
  by (induction n) (use answers in \<open>auto\<close>)

lemma reread_stable:
  "\<exists>r1 r. read_as (Some m) ctx = Ok (Some r1) \<and> reread (Suc n) m ctx = Ok (Some r) \<and> map_of r = map_of r1"
proof (induction n)
  case 0
  then show ?case using answers [of m ctx] by auto
next
  case (Suc n)
  then obtain r1 r where r: "read_as (Some m) ctx = Ok (Some r1)" "reread (Suc n) m ctx = Ok (Some r)"
      "map_of r = map_of r1" by blast
  obtain q where "reread n m ctx = Ok (Some q)" using reread_answers by blast
  then have q: "read_as (Some q) ctx = Ok (Some r)" using r(2) by simp
  obtain r' where r': "read_as (Some r) ctx = Ok (Some r')" using answers by blast
  then have "reread (Suc (Suc n)) m ctx = Ok (Some r')" using r(2) by (simp del: reread.simps(2) add: reread.simps(2) [of "Suc n"])
  moreover have "map_of r' = map_of r1" using settles [OF q r'] r(3) by simp
  ultimately show ?case using r(1) by blast
qed

end

text \<open>The form in which the transformers are shown to meet it.\<close>

lemma readingI:
  assumes "\<And>m ctx. t (Some m) ctx = Ok (Some (g ctx m))"
    and "\<And>m ctx k. k \<notin> T \<Longrightarrow> map_of (g ctx m) k = map_of m k"
    and "\<And>m ctx k. k \<in> T \<Longrightarrow> map_of (g ctx (g ctx m)) k = map_of (g ctx m) k"
  shows "reading t T"
proof
  fix m ctx r r'
  assume "t (Some m) ctx = Ok (Some r)" "t (Some r) ctx = Ok (Some r')"
  then have g: "r = g ctx m" "r' = g ctx (g ctx m)" using assms(1) by simp_all
  show "map_of r' = map_of r"
  proof
    fix k show "map_of r' k = map_of r k" using assms(2,3) g by (cases "k \<in> T") auto
  qed
qed (use assms in auto)

interpretation firewall_reading: reading firewallResponseTransformer "{''allowed'', ''denied''}"
  by (rule readingI [where g = "\<lambda>_ m. map_array ''denied'' normalizeFirewallRules
          (map_array ''allowed'' normalizeFirewallRules m)"])
    (auto simp: firewallResponseTransformer_def obj_of_def option.map_comp o_def normalizeFirewallRules_def
       on_array_idem on_object_idem)

interpretation network_reading: reading networkResponseTransformer "{''subnetworks'', ''peerings''}"
  by (rule readingI [where g = "\<lambda>_. without [''subnetworks'', ''peerings'']"])
    (auto simp: networkResponseTransformer_def obj_of_def)

interpretation subnetwork_reading: reading subnetworkResponseTransformer "{''region''}"
  by (rule readingI [where g = "\<lambda>_ m. segment_field m ''region''"])
    (auto simp: subnetworkResponseTransformer_def obj_of_def option.map_comp o_def)

interpretation region_reading: reading RegionResponseTransformer "{''region''}"
  by (rule readingI [where g = "\<lambda>_ m. segment_field m ''region''"])
    (auto simp: RegionResponseTransformer_def URLSegmentResponseTransformer_def obj_of_def option.map_comp o_def)

interpretation zone_reading: reading ZoneResponseTransformer "{''zone''}"
  by (rule readingI [where g = "\<lambda>_ m. segment_field m ''zone''"])
    (auto simp: ZoneResponseTransformer_def URLSegmentResponseTransformer_def obj_of_def option.map_comp o_def)

interpretation router_reading: reading routerResponseTransformer "{''region'', ''nats''}"
  by (rule readingI [where g = "\<lambda>_ m. without [''nats''] (segment_field m ''region'')"])
    (auto simp: routerResponseTransformer_def RegionResponseTransformer_def URLSegmentResponseTransformer_def
       obj_of_def option.map_comp o_def)

interpretation tunnel_reading: reading vpnTunnelResponseTransformer "{''sharedSecret'', ''sharedSecretHash'', ''region''}"
  by (rule readingI [where g = "\<lambda>_ m. segment_field (without [''sharedSecret'', ''sharedSecretHash''] m) ''region''"])
    (auto simp: vpnTunnelResponseTransformer_def option.map_comp o_def)

interpretation mirroring_reading: reading packetMirroringResponseTransformer
    "{''network'', ''collectorIlb'', ''mirroredResources'', ''region''}"
  by (rule readingI [where g = "\<lambda>_ m. segment_field (map_object ''mirroredResources'' clean_mirrored
          (map_object ''collectorIlb'' stripCanonicalURL (map_object ''network'' stripCanonicalURL m))) ''region''"])
    (auto simp: packetMirroringResponseTransformer_def obj_of_def option.map_comp o_def stripCanonicalURL_def
       on_object_idem)

interpretation rollout_reading: reading rolloutPlanResponseTransformer "{''waves''}"
  by (rule readingI [where g = "\<lambda>_. map_array ''waves'' (map (on_object (without [''number''])))"])
    (auto simp: rolloutPlanResponseTransformer_def obj_of_def option.map_comp o_def on_array_idem on_object_idem)

interpretation extension_reading: reading zoneVmExtensionPolicyResponseTransformer "{''extensionPolicies''}"
  by (rule readingI [where g = "\<lambda>_. map_object ''extensionPolicies'' (map (\<lambda>(n, v). (n, on_object drop_echoed v)))"])
    (auto simp: zoneVmExtensionPolicyResponseTransformer_def obj_of_def option.map_comp o_def on_object_idem split_beta)

lemma renameKey_Some: "\<exists>r. renameKey (Some m) src dst = Some r"
  by (simp add: renameKey_def split: option.split)

text \<open>Both autoscalers shorten a location and rename the target.\<close>

definition autoscaler_state :: "string \<Rightarrow> obj \<Rightarrow> obj" where
  "autoscaler_state loc m = obj_of (renameKey (Some (segment_field m loc)) ''target'' ''instanceGroupManager'')"

lemma autoscaler_state_renames:
  "Some (autoscaler_state loc m) = renameKey (Some (segment_field m loc)) ''target'' ''instanceGroupManager''"
  using renameKey_Some [of "segment_field m loc" "''target''" "''instanceGroupManager''"]
  by (auto simp: autoscaler_state_def obj_of_def)

lemma map_of_autoscaler_state:
  "loc \<notin> {''target'', ''instanceGroupManager''} \<Longrightarrow>
   map_of (autoscaler_state loc m) =
     (\<lambda>k. if k = loc then map_option (on_string ExtractLastSegment) (map_of m loc)
          else if k = ''target'' then None
          else if k = ''instanceGroupManager'' \<and> map_of m ''target'' \<noteq> None then map_of m ''target''
          else map_of m k)"
  by (auto simp: autoscaler_state_def map_of_renameKey obj_of_def [of "Some _"] fun_eq_iff split: option.split)

interpretation autoscaler_reading: reading autoscalerResponseTransformer "{''zone'', ''target'', ''instanceGroupManager''}"
  by (rule readingI [where g = "\<lambda>_. autoscaler_state ''zone''"])
    (auto simp: autoscalerResponseTransformer_def ZoneResponseTransformer_def URLSegmentResponseTransformer_def
       obj_of_def [of "Some _"] autoscalerAPITargetField_def autoscalerSchemaTargetField_def
       autoscaler_state_renames map_of_autoscaler_state option.map_comp o_def)

interpretation region_autoscaler_reading: reading regionAutoscalerResponseTransformer
    "{''region'', ''target'', ''instanceGroupManager''}"
  by (rule readingI [where g = "\<lambda>_. autoscaler_state ''region''"])
    (auto simp: regionAutoscalerResponseTransformer_def RegionResponseTransformer_def
       URLSegmentResponseTransformer_def obj_of_def [of "Some _"] autoscalerAPITargetField_def
       autoscalerSchemaTargetField_def autoscaler_state_renames map_of_autoscaler_state option.map_comp o_def)

definition certificate_state :: "obj \<Rightarrow> obj" where
  "certificate_state m =
     lift_member ''selfManaged'' ''certificate'' ''certificate'' m
       (lift_member ''managed'' ''domains'' ''managedDomains'' m m)"

lemma lift_member_none: "as_obj (map_of m w) = None \<Longrightarrow> lift_member w x f m r = r"
  by (simp add: lift_member_def)

lemma lift_member_other: "k \<noteq> w \<Longrightarrow> k \<noteq> f \<Longrightarrow> map_of (lift_member w x f m r) k = map_of r k"
  by (simp add: lift_member_def split: option.split)

lemma lift_member_lifts:
  "as_obj (map_of m w) = Some v \<Longrightarrow> f \<noteq> w \<Longrightarrow> map_of (lift_member w x f m r) w = None"
  "as_obj (map_of m w) = Some v \<Longrightarrow> f \<noteq> w \<Longrightarrow> map_of v x = Some y \<Longrightarrow> map_of (lift_member w x f m r) f = Some y"
  by (simp_all add: lift_member_def)

lemma certificate_state_unwrapped:
  "as_obj (map_of (certificate_state m) ''managed'') = None"
  "as_obj (map_of (certificate_state m) ''selfManaged'') = None"
proof -
  let ?i = "lift_member ''managed'' ''domains'' ''managedDomains'' m m"
  have "as_obj (map_of ?i ''managed'') = None"
    by (cases "as_obj (map_of m ''managed'')") (auto simp: lift_member_lifts lift_member_none)
  then show "as_obj (map_of (certificate_state m) ''managed'') = None"
    by (simp add: certificate_state_def lift_member_other)
  show "as_obj (map_of (certificate_state m) ''selfManaged'') = None"
    by (cases "as_obj (map_of m ''selfManaged'')")
      (auto simp: certificate_state_def lift_member_lifts lift_member_none lift_member_other)
qed

lemma certificate_state_idem: "certificate_state (certificate_state m) = certificate_state m"
  by (subst certificate_state_def) (simp add: lift_member_none certificate_state_unwrapped)

interpretation certificate_reading: reading sslCertificateResponseTransformer
    "{''managed'', ''managedDomains'', ''selfManaged'', ''certificate''}"
  by (rule readingI [where g = "\<lambda>_. certificate_state"])
    (simp_all add: sslCertificateResponseTransformer_def obj_of_def [of "Some _"] certificate_state_idem
       certificate_state_def [symmetric], simp add: certificate_state_def lift_member_other)

interpretation disk_reading: reading diskResponseTransformer
    "{''zone'', ''type'', ''sourceImage'', ''project'', ''lastAttachTimestamp'', ''users''}"
  by (rule readingI [where g = "\<lambda>ctx m. without [''lastAttachTimestamp'', ''users'']
          (AList.update ''project'' (JStr (tc_Project ctx))
             (projects_field (segment_field (segment_field m ''zone'') ''type'') ''sourceImage''))"])
    (auto simp: diskResponseTransformer_def assign_def option.map_comp o_def)

interpretation region_disk_reading: reading regionDiskResponseTransformer
    "{''region'', ''type'', ''replicaZones'', ''sourceImage'', ''project''}"
  by (rule readingI [where g = "\<lambda>ctx m. AList.update ''project'' (JStr (tc_Project ctx))
          (projects_field (map_array ''replicaZones'' (map (on_string ExtractLastSegment))
             (segment_field (segment_field m ''region'') ''type'')) ''sourceImage'')"])
    (auto simp: regionDiskResponseTransformer_def assign_def option.map_comp o_def on_array_idem)

definition instance_state :: "obj \<Rightarrow> obj" where
  "instance_state m =
     map_object ''metadata'' (without [''kind''])
       (normalize_nonempty ''networkInterfaces'' normalizeInstanceNetworkInterfaces
          (normalize_nonempty ''disks'' normalizeInstanceDisks
             (segment_field (segment_field (instance_project m) ''zone'') ''machineType'')))"

lemma map_of_instance_project_other: "k \<noteq> ''project'' \<Longrightarrow> map_of (instance_project m) k = map_of m k"
  by (simp add: instance_project_def)

lemma instance_state_other:
  "k \<notin> {''project'', ''zone'', ''machineType'', ''disks'', ''networkInterfaces'', ''metadata''} \<Longrightarrow>
   map_of (instance_state m) k = map_of m k"
  by (simp add: instance_state_def map_of_instance_project_other)

lemma instance_state_fields:
  "map_of (instance_state m) ''project'' = map_of (instance_project m) ''project''"
  "map_of (instance_state m) ''zone'' = map_option (on_string ExtractLastSegment) (map_of m ''zone'')"
  "map_of (instance_state m) ''machineType'' = map_option (on_string ExtractLastSegment) (map_of m ''machineType'')"
  "map_of (instance_state m) ''metadata'' = map_option (on_object (without [''kind''])) (map_of m ''metadata'')"
  "map_of (instance_state m) ''disks'' = map_of (normalize_nonempty ''disks'' normalizeInstanceDisks m) ''disks''"
  "map_of (instance_state m) ''networkInterfaces'' =
     map_of (normalize_nonempty ''networkInterfaces'' normalizeInstanceNetworkInterfaces m) ''networkInterfaces''"
  by (simp_all add: instance_state_def map_of_instance_project_other nonempty_array_of)

lemma six_cases:
  "\<lbrakk>k = a \<Longrightarrow> P; k = b \<Longrightarrow> P; k = c \<Longrightarrow> P; k = d \<Longrightarrow> P; k = e \<Longrightarrow> P; k = f \<Longrightarrow> P; k \<notin> {a, b, c, d, e, f} \<Longrightarrow> P\<rbrakk> \<Longrightarrow> P"
  by blast

lemma instance_state_settles: "map_of (instance_state (instance_state m)) k = map_of (instance_state m) k"
proof (rule six_cases [of k "''project''" _ "''zone''" "''machineType''" "''disks''" "''networkInterfaces''" "''metadata''"])
  assume k: "k = ''project''"
  show ?thesis
    using instance_state_other [of "''selfLink''" m] instance_state_fields(1) [of m]
    unfolding k instance_state_fields(1) [of "instance_state m"] by (simp add: instance_project_def GetString_def)
next
  assume k: "k = ''disks''"
  show ?thesis unfolding k instance_state_fields(5) [of "instance_state m"]
    by (rule map_of_normalize_nonempty_idem [where m = m])
      (simp_all only: normalizeInstanceDisks_idem instance_state_fields(5))
next
  assume k: "k = ''networkInterfaces''"
  show ?thesis unfolding k instance_state_fields(6) [of "instance_state m"]
    by (rule map_of_normalize_nonempty_idem [where m = m])
      (simp_all only: normalizeInstanceNetworkInterfaces_idem instance_state_fields(6))
qed ((simp only: instance_state_fields option.map_comp o_def last_segment_idem on_object_idem without_idem)+,
    rule instance_state_other)

interpretation instance_reading: reading instanceResponseTransformer
    "{''project'', ''zone'', ''machineType'', ''disks'', ''networkInterfaces'', ''metadata''}"
proof (rule readingI [where g = "\<lambda>_. instance_state"])
  show "instanceResponseTransformer (Some m) ctx = Ok (Some (instance_state m))" for m ctx
    by (simp add: instanceResponseTransformer_def instance_state_def)
qed (rule instance_state_other, assumption, rule instance_state_settles)

section \<open>What is declared reads back\<close>

text \<open>
  An answer mirrors a body if it has every field of the body, with members of its own added to
  objects; members and fields that are write-only may be missing.
\<close>

fun reflects :: "string set \<Rightarrow> json \<Rightarrow> json \<Rightarrow> bool" where
  "reflects secret (JObj w) (JObj w') = (\<forall>j x. j \<notin> secret \<longrightarrow> map_of w j = Some x \<longrightarrow> map_of w' j = Some x)"
| "reflects secret v u = (u = v)"

definition mirrors :: "string set \<Rightarrow> obj \<Rightarrow> obj \<Rightarrow> bool" where
  "mirrors secret b a \<longleftrightarrow>
     (\<forall>k v. k \<notin> secret \<longrightarrow> map_of b k = Some v \<longrightarrow> (\<exists>u. map_of a k = Some u \<and> reflects secret v u))"

lemma reflects_atom: "(\<And>w. v \<noteq> JObj w) \<Longrightarrow> reflects secret v u \<longleftrightarrow> u = v"
  by (cases v) auto

lemma reflects_string [simp]: "reflects secret (JStr s) u \<longleftrightarrow> u = JStr s"
  by simp

lemma reflects_refl [simp]: "reflects secret v v"
  by (cases v) auto

lemma mirrorsD: "mirrors secret b a \<Longrightarrow> k \<notin> secret \<Longrightarrow> map_of b k = Some v \<Longrightarrow> \<exists>u. map_of a k = Some u \<and> reflects secret v u"
  by (simp add: mirrors_def)

locale declared_reading =
  fixes send_as :: request_transformer
    and read_as :: response_transformer
    and declarable :: "TransformContext \<Rightarrow> obj \<Rightarrow> bool"
    and secret :: "string set"
  assumes sends: "declarable ctx m \<Longrightarrow> \<exists>b. send_as (Some m) ctx = Ok (Some b)"
    and reads_back: "declarable ctx m \<Longrightarrow> send_as (Some m) ctx = Ok (Some b) \<Longrightarrow> mirrors secret b a \<Longrightarrow>
          read_as (Some a) ctx = Ok (Some r) \<Longrightarrow> mirrors secret m r"
begin

text \<open>A service that stores what it is sent, up to its own additions, is read without drift.\<close>

lemma no_drift:
  assumes "declarable ctx m"
    and "\<And>b. \<exists>a. stored b = Some a \<and> mirrors secret b a"
    and "\<And>a. \<exists>r. read_as (Some a) ctx = Ok (Some r)"
  shows "\<exists>b r. send_as (Some m) ctx = Ok (Some b) \<and> read_as (stored b) ctx = Ok (Some r) \<and> mirrors secret m r"
proof -
  obtain b where b: "send_as (Some m) ctx = Ok (Some b)" using sends assms(1) by blast
  obtain a where a: "stored b = Some a" "mirrors secret b a" using assms(2) by blast
  obtain r where r: "read_as (Some a) ctx = Ok (Some r)" using assms(3) by blast
  show ?thesis using b a r reads_back [OF assms(1) b a(2) r] by auto
qed

end

subsection \<open>Autoscalers\<close>

definition short :: "json option \<Rightarrow> bool" where
  "short v \<longleftrightarrow> (\<forall>s. v = Some (JStr s) \<longrightarrow> CHR ''/'' \<notin> set s)"

lemma short_last: "short (Some v) \<Longrightarrow> on_string ExtractLastSegment v = v"
  by (cases v) (auto simp: short_def)

lemma short_reflected:
  "short (Some v) \<Longrightarrow> reflects secret v u \<Longrightarrow> reflects secret v (on_string ExtractLastSegment u)"
  using short_last by (cases v; cases u) (auto simp: short_def)

definition autoscaler_declarable :: "string \<Rightarrow> TransformContext \<Rightarrow> obj \<Rightarrow> bool" where
  "autoscaler_declarable loc ctx m \<longleftrightarrow> map_of m ''target'' = None \<and> short (map_of m loc)"

lemma autoscaler_reads_back:
  assumes loc: "loc \<notin> {''target'', ''instanceGroupManager''}"
    and m: "autoscaler_declarable loc ctx m"
    and b: "autoscalerRequestTransformer (Some m) ctx = Ok (Some b)" and a: "mirrors {} b a"
  shows "mirrors {} m (autoscaler_state loc a)"
  unfolding mirrors_def
proof (intro allI impI)
  fix k v assume v: "map_of m k = Some v"
  have b_of: "map_of b = (case map_of m ''instanceGroupManager'' of None \<Rightarrow> map_of m
      | Some v \<Rightarrow> (map_of m)(''instanceGroupManager'' := None, ''target'' \<mapsto> v))"
    using b map_of_renameKey [of "Some m" "''instanceGroupManager''" "''target''", unfolded obj_of_Some]
    by (simp add: autoscalerRequestTransformer_def autoscalerSchemaTargetField_def autoscalerAPITargetField_def)
  show "\<exists>u. map_of (autoscaler_state loc a) k = Some u \<and> reflects {} v u"
  proof (cases "k = ''instanceGroupManager''")
    case True
    then have "map_of b ''target'' = Some v" using b_of v by simp
    then show ?thesis using mirrorsD [OF a] True loc by (fastforce simp: map_of_autoscaler_state)
  next
    case False
    have kt: "k \<noteq> ''target''" using v m by (auto simp: autoscaler_declarable_def)
    then have "map_of b k = Some v" using b_of v False by (simp split: option.split)
    then obtain u where u: "map_of a k = Some u" "reflects {} v u" using mirrorsD [OF a] by blast
    show ?thesis
    proof (cases "k = loc")
      case True
      then have "short (Some v)" using m v by (simp add: autoscaler_declarable_def)
      then show ?thesis using u True loc by (simp add: map_of_autoscaler_state short_reflected)
    qed (use u kt False loc in \<open>simp add: map_of_autoscaler_state\<close>)
  qed
qed

lemma autoscaler_sends: "\<exists>b. autoscalerRequestTransformer (Some m) ctx = Ok (Some b)"
  using renameKey_Some by (simp add: autoscalerRequestTransformer_def)

interpretation autoscaler_declared: declared_reading autoscalerRequestTransformer autoscalerResponseTransformer
    "autoscaler_declarable ''zone''" "{}"
proof
  fix ctx m b a r
  assume "autoscaler_declarable ''zone'' ctx m" "autoscalerRequestTransformer (Some m) ctx = Ok (Some b)" "mirrors {} b a"
  then have "mirrors {} m (autoscaler_state ''zone'' a)" by (intro autoscaler_reads_back) simp_all
  moreover assume "autoscalerResponseTransformer (Some a) ctx = Ok (Some r)"
  ultimately show "mirrors {} m r"
    by (simp add: autoscalerResponseTransformer_def ZoneResponseTransformer_def URLSegmentResponseTransformer_def
        obj_of_def [of "Some _"] autoscalerAPITargetField_def autoscalerSchemaTargetField_def
        autoscaler_state_renames [symmetric])
qed (rule autoscaler_sends)

interpretation region_autoscaler_declared: declared_reading autoscalerRequestTransformer
    regionAutoscalerResponseTransformer "autoscaler_declarable ''region''" "{}"
proof
  fix ctx m b a r
  assume "autoscaler_declarable ''region'' ctx m" "autoscalerRequestTransformer (Some m) ctx = Ok (Some b)" "mirrors {} b a"
  then have "mirrors {} m (autoscaler_state ''region'' a)" by (intro autoscaler_reads_back) simp_all
  moreover assume "regionAutoscalerResponseTransformer (Some a) ctx = Ok (Some r)"
  ultimately show "mirrors {} m r"
    by (simp add: regionAutoscalerResponseTransformer_def RegionResponseTransformer_def URLSegmentResponseTransformer_def
        obj_of_def [of "Some _"] autoscalerAPITargetField_def autoscalerSchemaTargetField_def
        autoscaler_state_renames [symmetric])
qed (rule autoscaler_sends)

subsection \<open>Certificates\<close>

definition certificate_declarable :: "TransformContext \<Rightarrow> obj \<Rightarrow> bool" where
  "certificate_declarable ctx m \<longleftrightarrow> map_of m ''managed'' = None \<and> map_of m ''selfManaged'' = None"

lemma map_of_self_managed:
  "map_of (self_managed m) j = (if j = ''certificate'' \<or> j = ''privateKey'' then map_of m j else None)"
  by (simp add: self_managed_def split: option.split)

lemma self_managed_Nil: "map_of m ''certificate'' = Some v \<Longrightarrow> self_managed m \<noteq> []"
  using map_of_self_managed [of m "''certificate''"] by auto

definition certificate_body :: "obj \<Rightarrow> obj" where
  "certificate_body m =
     (let managed = put_json ''managed'' (map_option (\<lambda>d. JObj [(''domains'', d)]) (map_of m ''managedDomains''))
                      (without [''managedDomains'', ''certificate'', ''privateKey''] m)
      in if self_managed m \<noteq> [] then AList.update ''selfManaged'' (JObj (self_managed m)) managed else managed)"

lemma map_of_certificate_body:
  "map_of (certificate_body m) ''managed'' =
     (case map_of m ''managedDomains'' of Some d \<Rightarrow> Some (JObj [(''domains'', d)]) | None \<Rightarrow> map_of m ''managed'')"
  "self_managed m \<noteq> [] \<Longrightarrow> map_of (certificate_body m) ''selfManaged'' = Some (JObj (self_managed m))"
  "k \<notin> {''managed'', ''selfManaged'', ''managedDomains'', ''certificate'', ''privateKey''} \<Longrightarrow>
     map_of (certificate_body m) k = map_of m k"
  by (simp_all add: certificate_body_def Let_def split: option.split)

lemma certificate_transformers:
  "sslCertificateRequestTransformer (Some m) ctx = Ok (Some (certificate_body m))"
  "sslCertificateResponseTransformer (Some m) ctx = Ok (Some (certificate_state m))"
  by (simp_all add: sslCertificateRequestTransformer_def certificate_body_def sslCertificateResponseTransformer_def
      certificate_state_def Let_def)

lemma certificate_mirrors:
  assumes m: "certificate_declarable ctx m" and a: "mirrors {''privateKey''} (certificate_body m) a"
  shows "mirrors {''privateKey''} m (certificate_state a)"
  unfolding mirrors_def
proof (intro allI impI)
  fix k v assume k: "k \<notin> {''privateKey''}" and v: "map_of m k = Some v"
  let ?i = "lift_member ''managed'' ''domains'' ''managedDomains'' a a"
  have k2: "k \<noteq> ''managed''" "k \<noteq> ''selfManaged''" using v m by (auto simp: certificate_declarable_def)
  show "\<exists>u. map_of (certificate_state a) k = Some u \<and> reflects {''privateKey''} v u"
  proof (cases "k = ''certificate''")
    case True
    then have "self_managed m \<noteq> []" using v self_managed_Nil by blast
    from mirrorsD [OF a _ map_of_certificate_body(2) [OF this]]
    obtain u where "map_of a ''selfManaged'' = Some u" "reflects {''privateKey''} (JObj (self_managed m)) u" by auto
    then obtain w where w: "map_of a ''selfManaged'' = Some (JObj w)" "map_of w ''certificate'' = Some v"
      using v True map_of_self_managed [of m "''certificate''"] by (cases u) auto
    then have "map_of (certificate_state a) ''certificate'' = Some v"
      unfolding certificate_state_def by (intro lift_member_lifts(2)) simp_all
    then show ?thesis using True by simp
  next
    case nc: False
    then have st: "map_of (certificate_state a) k = map_of ?i k"
      using k2 by (simp add: certificate_state_def lift_member_other)
    show ?thesis
    proof (cases "k = ''managedDomains''")
      case True
      then have "map_of (certificate_body m) ''managed'' = Some (JObj [(''domains'', v)])"
        using v map_of_certificate_body(1) by simp
      from mirrorsD [OF a _ this]
      obtain u where "map_of a ''managed'' = Some u" "reflects {''privateKey''} (JObj [(''domains'', v)]) u" by auto
      then obtain w where "map_of a ''managed'' = Some (JObj w)" "map_of w ''domains'' = Some v"
        by (cases u) auto
      then have "map_of ?i ''managedDomains'' = Some v" by (intro lift_member_lifts(2)) simp_all
      then show ?thesis using st True by simp
    next
      case False
      then have "map_of (certificate_body m) k = Some v"
        using v k k2 nc map_of_certificate_body(3) [of k m] by simp
      then show ?thesis using mirrorsD [OF a k] st False k2 by (simp add: lift_member_other)
    qed
  qed
qed

interpretation certificate_declared: declared_reading sslCertificateRequestTransformer
    sslCertificateResponseTransformer certificate_declarable "{''privateKey''}"
  by unfold_locales (auto simp: certificate_transformers intro: certificate_mirrors)

subsection \<open>Disks\<close>

text \<open>Where sending and reading work field by field, it is enough that they undo each other in each field.\<close>

lemma mirrors_fieldwise:
  assumes "mirrors {} b a"
    and "\<And>k v. map_of m k = Some v \<Longrightarrow> map_of b k = Some (F k v)"
    and "\<And>k v u. map_of m k = Some v \<Longrightarrow> map_of a k = Some u \<Longrightarrow> map_of r k = Some (G k u)"
    and "\<And>k v u. map_of m k = Some v \<Longrightarrow> reflects {} (F k v) u \<Longrightarrow> reflects {} v (G k u)"
  shows "mirrors {} m r"
  using assms unfolding mirrors_def by (metis empty_iff)

lemma slash_free_not_contained: "CHR ''/'' \<notin> set s \<Longrightarrow> \<not> Contains s ''/''"
  by (simp add: Contains_iff_sublist sublist_def) (auto simp: append_eq_Cons_conv)

lemma slash_free_no_prefix: "CHR ''/'' \<notin> set s \<Longrightarrow> CHR ''/'' \<in> set p \<Longrightarrow> \<not> HasPrefix s p"
  by (auto simp: HasPrefix_iff)

text \<open>What a forma may write in the fields the API spells as URLs.\<close>

definition image_path :: "json option \<Rightarrow> bool" where
  "image_path v \<longleftrightarrow> (\<forall>s. v = Some (JStr s) \<longrightarrow> extractProjectsPath s = s)"

definition in_project :: "TransformContext \<Rightarrow> obj \<Rightarrow> bool" where
  "in_project ctx m \<longleftrightarrow> map_of m ''project'' \<in> {None, Some (JStr (tc_Project ctx))}"

definition short_strings :: "json option \<Rightarrow> bool" where
  "short_strings v \<longleftrightarrow> (\<forall>xs. v = Some (JArr xs) \<longrightarrow> (\<forall>x \<in> set xs. short (Some x)))"

definition disk_declarable :: "TransformContext \<Rightarrow> obj \<Rightarrow> bool" where
  "disk_declarable ctx m \<longleftrightarrow>
     short (map_of m ''zone'') \<and> short (map_of m ''type'') \<and> image_path (map_of m ''sourceImage'') \<and> in_project ctx m
     \<and> map_of m ''lastAttachTimestamp'' = None \<and> map_of m ''users'' = None"

definition region_disk_declarable :: "TransformContext \<Rightarrow> obj \<Rightarrow> bool" where
  "region_disk_declarable ctx m \<longleftrightarrow>
     short (map_of m ''region'') \<and> short (map_of m ''type'') \<and> image_path (map_of m ''sourceImage'') \<and> in_project ctx m
     \<and> short_strings (map_of m ''replicaZones'')"

text \<open>The expansion of a short name, and that reading undoes it.\<close>

definition expand_type :: "string \<Rightarrow> json \<Rightarrow> json" where
  "expand_type pre v = on_string (\<lambda>t. if t = [] then [] else pre @ CHR ''/'' # t) v"

lemma read_expanded_type:
  "short (Some v) \<Longrightarrow> reflects {} (expand_type pre v) u \<Longrightarrow> reflects {} v (on_string ExtractLastSegment u)"
  by (cases v; cases u) (auto simp: expand_type_def short_def ExtractLastSegment_suffix split: if_splits)

lemma read_expanded_zone: "short (Some x) \<Longrightarrow> on_string ExtractLastSegment (on_string (expand_zone p) x) = x"
proof (cases x)
  case (JStr z)
  moreover assume "short (Some x)"
  ultimately have z: "CHR ''/'' \<notin> set z" by (simp add: short_def)
  have "ExtractLastSegment ((''https://www.googleapis.com/compute/v1/projects/'' @ p @ ''/zones'') @ CHR ''/'' # z) = z"
    using z by (rule ExtractLastSegment_suffix)
  then show ?thesis using JStr z by (simp add: expand_zone_def slash_free_not_contained)
qed auto

lemma read_expanded_zones:
  "short_strings (Some v) \<Longrightarrow> reflects {} (on_array (map (on_string (expand_zone p))) v) u \<Longrightarrow>
   reflects {} v (on_array (map (on_string ExtractLastSegment)) u)"
  by (cases v; cases u) (auto simp: short_strings_def o_def read_expanded_zone intro!: map_idI)

lemma read_image: "image_path (Some v) \<Longrightarrow> reflects {} v u \<Longrightarrow> reflects {} v (on_string extractProjectsPath u)"
  by (cases v; cases u) (auto simp: image_path_def)

definition region_disk_body :: "TransformContext \<Rightarrow> string \<Rightarrow> json \<Rightarrow> json" where
  "region_disk_body ctx k v =
     (if k = ''type'' then expand_type (''projects/'' @ tc_Project ctx @ ''/regions/'' @ tc_Region ctx @ ''/diskTypes'') v
      else if k = ''replicaZones'' then on_array (map (on_string (expand_zone (tc_Project ctx)))) v
      else v)"

definition region_disk_state :: "TransformContext \<Rightarrow> string \<Rightarrow> json \<Rightarrow> json" where
  "region_disk_state ctx k u =
     (if k = ''region'' \<or> k = ''type'' then on_string ExtractLastSegment u
      else if k = ''replicaZones'' then on_array (map (on_string ExtractLastSegment)) u
      else if k = ''sourceImage'' then on_string extractProjectsPath u
      else if k = ''project'' then JStr (tc_Project ctx) else u)"

lemma region_disk_request:
  assumes "short (map_of m ''type'')"
  shows "\<exists>b. regionDiskRequestTransformer (Some m) ctx = Ok (Some b) \<and>
    (\<forall>k v. map_of m k = Some v \<longrightarrow> map_of b k = Some (region_disk_body ctx k v))"
proof (cases "GetString m ''type'' = []")
  case True
  then have "map_of m ''type'' = Some v \<Longrightarrow> expand_type pre v = v" for v pre
    by (cases v) (auto simp: expand_type_def GetString_def)
  then show ?thesis using True by (auto simp: regionDiskRequestTransformer_def region_disk_body_def)
next
  case False
  then obtain t where t: "map_of m ''type'' = Some (JStr t)" "t \<noteq> []"
    by (auto simp: GetString_def split: option.splits json.splits)
  then have "CHR ''/'' \<notin> set t" using assms by (simp add: short_def)
  then show ?thesis using t
    by (auto simp: regionDiskRequestTransformer_def region_disk_body_def GetString_def assign_def expand_type_def
        slash_free_not_contained slash_free_no_prefix)
qed

lemma region_disk_response:
  "\<exists>r. regionDiskResponseTransformer (Some a) ctx = Ok (Some r) \<and>
    (\<forall>k u. map_of a k = Some u \<longrightarrow> map_of r k = Some (region_disk_state ctx k u))"
  by (simp add: regionDiskResponseTransformer_def assign_def region_disk_state_def)

lemma in_project_value: "in_project ctx m \<Longrightarrow> map_of m ''project'' = Some v \<Longrightarrow> v = JStr (tc_Project ctx)"
  by (simp add: in_project_def)

lemma region_disk_undone:
  assumes m: "region_disk_declarable ctx m" and v: "map_of m k = Some v"
    and u: "reflects {} (region_disk_body ctx k v) u"
  shows "reflects {} v (region_disk_state ctx k u)"
proof (rule six_cases [of k "''type''" _ "''replicaZones''" "''region''" "''sourceImage''" "''project''" "''id''"])
  assume k: "k = ''type''"
  show ?thesis using m v u unfolding k region_disk_declarable_def
    by (simp add: region_disk_body_def region_disk_state_def read_expanded_type del: reflects.simps)
next
  assume k: "k = ''replicaZones''"
  show ?thesis using m v u unfolding k region_disk_declarable_def
    by (simp add: region_disk_body_def region_disk_state_def read_expanded_zones del: reflects.simps)
next
  assume k: "k = ''region''"
  show ?thesis using m v u unfolding k region_disk_declarable_def
    by (simp add: region_disk_body_def region_disk_state_def short_reflected del: reflects.simps)
next
  assume k: "k = ''sourceImage''"
  show ?thesis using m v u unfolding k region_disk_declarable_def
    by (simp add: region_disk_body_def region_disk_state_def read_image del: reflects.simps)
next
  assume k: "k = ''id''"
  show ?thesis using u unfolding k by (simp add: region_disk_body_def region_disk_state_def del: reflects.simps)
next
  assume k: "k = ''project''"
  then have "v = JStr (tc_Project ctx)" using m v unfolding region_disk_declarable_def by (blast intro: in_project_value)
  then show ?thesis using k by (simp add: region_disk_state_def)
next
  assume "k \<notin> {''type'', ''replicaZones'', ''region'', ''sourceImage'', ''project'', ''id''}"
  then show ?thesis using u by (simp add: region_disk_body_def region_disk_state_def del: reflects.simps)
qed

interpretation region_disk_declared: declared_reading regionDiskRequestTransformer regionDiskResponseTransformer
    region_disk_declarable "{}"
proof
  fix ctx m b a r
  assume m: "region_disk_declarable ctx m" and b: "regionDiskRequestTransformer (Some m) ctx = Ok (Some b)"
    and a: "mirrors {} b a" and r: "regionDiskResponseTransformer (Some a) ctx = Ok (Some r)"
  show "mirrors {} m r"
  proof (rule mirrors_fieldwise [OF a])
    show "map_of b k = Some (region_disk_body ctx k v)" if "map_of m k = Some v" for k v
      using region_disk_request [of m ctx] m b that by (auto simp: region_disk_declarable_def)
    show "map_of r k = Some (region_disk_state ctx k u)" if "map_of a k = Some u" for k u
      using region_disk_response [of a ctx] r that by auto
    show "reflects {} v (region_disk_state ctx k u)"
      if "map_of m k = Some v" and "reflects {} (region_disk_body ctx k v) u" for k v u
      using m that by (rule region_disk_undone)
  qed
next
  show "\<exists>b. regionDiskRequestTransformer (Some m) ctx = Ok (Some b)" if "region_disk_declarable ctx m" for ctx m
    using region_disk_request [of m ctx] that by (auto simp: region_disk_declarable_def)
qed

definition disk_body :: "TransformContext \<Rightarrow> string \<Rightarrow> json \<Rightarrow> json" where
  "disk_body ctx k v =
     (if k = ''type'' then expand_type (''projects/'' @ tc_Project ctx @ ''/zones/'' @ tc_Zone ctx @ ''/diskTypes'') v else v)"

definition disk_state :: "TransformContext \<Rightarrow> string \<Rightarrow> json \<Rightarrow> json" where
  "disk_state ctx k u =
     (if k = ''zone'' \<or> k = ''type'' then on_string ExtractLastSegment u
      else if k = ''sourceImage'' then on_string extractProjectsPath u
      else if k = ''project'' then JStr (tc_Project ctx) else u)"

lemma disk_request:
  assumes "short (map_of m ''type'')"
  shows "\<exists>b. diskRequestTransformer (Some m) ctx = Ok (Some b) \<and>
    (\<forall>k v. map_of m k = Some v \<longrightarrow> map_of b k = Some (disk_body ctx k v))"
proof (cases "GetString m ''type'' = []")
  case True
  then have "map_of m ''type'' = Some v \<Longrightarrow> expand_type pre v = v" for v pre
    by (cases v) (auto simp: expand_type_def GetString_def)
  then show ?thesis using True by (auto simp: diskRequestTransformer_def disk_body_def)
next
  case False
  then obtain t where t: "map_of m ''type'' = Some (JStr t)" "t \<noteq> []"
    by (auto simp: GetString_def split: option.splits json.splits)
  then have "CHR ''/'' \<notin> set t" using assms by (simp add: short_def)
  then show ?thesis using t
    by (auto simp: diskRequestTransformer_def disk_body_def GetString_def assign_def expand_type_def
        slash_free_no_prefix)
qed

lemma disk_response:
  "\<exists>r. diskResponseTransformer (Some a) ctx = Ok (Some r) \<and>
    (\<forall>k u. k \<noteq> ''lastAttachTimestamp'' \<longrightarrow> k \<noteq> ''users'' \<longrightarrow> map_of a k = Some u \<longrightarrow> map_of r k = Some (disk_state ctx k u))"
  by (simp add: diskResponseTransformer_def assign_def disk_state_def)

lemma disk_undone:
  assumes m: "disk_declarable ctx m" and v: "map_of m k = Some v" and u: "reflects {} (disk_body ctx k v) u"
  shows "reflects {} v (disk_state ctx k u)"
proof -
  consider "k = ''type''" | "k = ''zone''" | "k = ''sourceImage''" | "k = ''project''"
    | "k \<noteq> ''type''" "k \<noteq> ''zone''" "k \<noteq> ''sourceImage''" "k \<noteq> ''project''" by argo
  then show ?thesis
  proof cases
    case 4
    then have "v = JStr (tc_Project ctx)" using m v unfolding disk_declarable_def by (blast intro: in_project_value)
    then show ?thesis using 4 by (simp add: disk_state_def)
  qed (use m v u in \<open>simp_all add: disk_declarable_def disk_body_def disk_state_def read_expanded_type short_reflected
         read_image del: reflects.simps\<close>)
qed

interpretation disk_declared: declared_reading diskRequestTransformer diskResponseTransformer disk_declarable "{}"
proof
  fix ctx m b a r
  assume m: "disk_declarable ctx m" and b: "diskRequestTransformer (Some m) ctx = Ok (Some b)"
    and a: "mirrors {} b a" and r: "diskResponseTransformer (Some a) ctx = Ok (Some r)"
  show "mirrors {} m r"
  proof (rule mirrors_fieldwise [OF a])
    show "map_of b k = Some (disk_body ctx k v)" if "map_of m k = Some v" for k v
      using disk_request [of m ctx] m b that by (auto simp: disk_declarable_def)
    show "map_of r k = Some (disk_state ctx k u)" if "map_of m k = Some v" "map_of a k = Some u" for k v u
    proof -
      have "k \<noteq> ''lastAttachTimestamp'' \<and> k \<noteq> ''users''" using m that(1) by (auto simp: disk_declarable_def)
      then show ?thesis using disk_response [of a ctx] r that(2) by auto
    qed
    show "reflects {} v (disk_state ctx k u)"
      if "map_of m k = Some v" and "reflects {} (disk_body ctx k v) u" for k v u
      using m that by (rule disk_undone)
  qed
next
  show "\<exists>b. diskRequestTransformer (Some m) ctx = Ok (Some b)" if "disk_declarable ctx m" for ctx m
    using disk_request [of m ctx] that by (auto simp: disk_declarable_def)
qed

section \<open>Properties\<close>

text \<open>
  A certificate reads back as declared. The schema writes the domains, the certificate and the key
  at the top level, the API in two wrapper objects. Whatever is declared (unless it uses the names of the
  wrappers), if the API answers with what it was sent, with members of its own added and the private key
  left out, then the state read has every declared field but the key, with the declared value.
\<close>
lemma certificate_reads_back:
  assumes "map_of m ''managed'' = None" and "map_of m ''selfManaged'' = None"
    and "sslCertificateRequestTransformer (Some m) ctx = Ok (Some b)" and "mirrors {''privateKey''} b a"
    and "sslCertificateResponseTransformer (Some a) ctx = Ok (Some r)"
  shows "mirrors {''privateKey''} m r"
  using certificate_declared.reads_back [OF _ assms(3-5)] assms(1,2) by (simp add: certificate_declarable_def)

text \<open>
  A regional disk reads back as declared. A forma may write the disk type, the replica zones and
  the region as short names and the image as a path; the API takes and answers URLs. If the API answers
  with what it was sent, with fields of its own added, the state read has every declared field with the
  declared value: expanding the names for the request and shortening them in the answer cancel out.
\<close>
lemma region_disk_reads_back:
  assumes "region_disk_declarable ctx m"
    and "regionDiskRequestTransformer (Some m) ctx = Ok (Some b)" and "mirrors {} b a"
    and "regionDiskResponseTransformer (Some a) ctx = Ok (Some r)"
  shows "mirrors {} m r"
  using region_disk_declared.reads_back assms .

end
