(* ===== verification/Type_Table.thy ===== *)
theory Type_Table
  imports Registry
begin

text \<open>
  Packages that are a table: a list of \<^verbatim>\<open>base.ResourceDefinition\<close>s handed to
  \<^verbatim>\<open>ResourceRegistry.RegisterAll\<close> by the package's \<^verbatim>\<open>init\<close>. This theory has the zero value such
  an entry starts from, and the contract under which the registry serves every entry as written.
\<close>

section \<open>Entries\<close>

definition zero_api :: APIConfig where
  "zero_api = \<lparr>ac_BaseURL = [], ac_APIVersion = [], ac_PathBuilder = None, ac_Pagination = None\<rparr>"

definition zero_operations :: OperationConfig where
  "zero_operations =
     \<lparr>oc_Synchronous = False, oc_OperationIDExtractor = None, oc_OperationURLBuilder = None,
      oc_NativeIDExtractor = None, oc_OperationStatusChecker = None, oc_RetryableError = None\<rparr>"

definition zero_native_id :: NativeIDConfig where
  "zero_native_id = \<lparr>ni_Format = NoFormat, ni_PathTemplate = [], ni_Parser = None\<rparr>"

definition zero_resource :: "'w ResourceConfig" where
  "zero_resource =
     \<lparr>rc_ResourceType = [], rc_Scope = None, rc_ParentResource = None, rc_SupportsUpdate = False,
      rc_UpdateMethod = UpdateMethodUnset, rc_UpdateQueryParams = [], rc_UpdateMaskFromBody = False,
      rc_DeleteQueryParams = [], rc_OptimisticLocking = None, rc_RequestWrapper = [], rc_ListItemsKey = [],
      rc_ReadTreatAsMissing = None, rc_ReadErrorTreatAsMissing = None, rc_CreateIDParam = []\<rparr>"

text \<open>
  An entry in the order of the source: type, collection, scope, whether it can be updated, the field
  of its optimistic lock in the body, and the transformers; everything else has its zero value.
\<close>

definition body_lock :: "string \<Rightarrow> OptimisticLockingConfig" where
  "body_lock field = \<lparr>ol_Enabled = True, ol_FieldName = field, ol_LocationInURL = False\<rparr>"

definition table_type ::
    "string \<Rightarrow> string \<Rightarrow> ScopeType \<Rightarrow> bool \<Rightarrow> string option \<Rightarrow> request_transformer option
      \<Rightarrow> response_transformer option \<Rightarrow> 'w ResourceDefinition" where
  "table_type t collection scope updatable lock req resp =
     \<lparr>rd_Type = t, rd_APIConfig = zero_api, rd_OperationConfig = zero_operations,
      rd_ResourceConfig = zero_resource\<lparr>rc_ResourceType := collection, rc_Scope := Some scope,
        rc_SupportsUpdate := updatable, rc_OptimisticLocking := map_option body_lock lock\<rparr>,
      rd_NativeIDConfig = zero_native_id, rd_RequestTransformer = req, rd_ResponseTransformer = resp,
      rd_Operations = None\<rparr>"

definition with_method :: "UpdateMethod \<Rightarrow> 'w ResourceDefinition \<Rightarrow> 'w ResourceDefinition" where
  "with_method method d = d\<lparr>rd_ResourceConfig := (rd_ResourceConfig d)\<lparr>rc_UpdateMethod := method\<rparr>\<rparr>"

definition with_update_query :: "(string \<times> string) list \<Rightarrow> 'w ResourceDefinition \<Rightarrow> 'w ResourceDefinition" where
  "with_update_query q d = d\<lparr>rd_ResourceConfig := (rd_ResourceConfig d)\<lparr>rc_UpdateQueryParams := q\<rparr>\<rparr>"

definition with_operations :: "Operation list \<Rightarrow> 'w ResourceDefinition \<Rightarrow> 'w ResourceDefinition" where
  "with_operations ops d = d\<lparr>rd_Operations := Some ops\<rparr>"

text \<open>What the entries' combinators leave in each part of an entry.\<close>

lemma table_type_sel [simp]:
  "rd_Type (table_type t c sc u l q p) = t"
  "rd_RequestTransformer (table_type t c sc u l q p) = q"
  "rd_ResponseTransformer (table_type t c sc u l q p) = p"
  "rd_Operations (table_type t c sc u l q p) = None"
  "rd_APIConfig (table_type t c sc u l q p) = zero_api"
  "rd_OperationConfig (table_type t c sc u l q p) = zero_operations"
  "rd_NativeIDConfig (table_type t c sc u l q p) = zero_native_id"
  "rc_ResourceType (rd_ResourceConfig (table_type t c sc u l q p)) = c"
  "rc_Scope (rd_ResourceConfig (table_type t c sc u l q p)) = Some sc"
  "rc_SupportsUpdate (rd_ResourceConfig (table_type t c sc u l q p)) = u"
  "rc_OptimisticLocking (rd_ResourceConfig (table_type t c sc u l q p)) = map_option body_lock l"
  by (simp_all add: table_type_def)

lemma with_method_sel [simp]:
  "rd_Type (with_method m d) = rd_Type d"
  "rd_RequestTransformer (with_method m d) = rd_RequestTransformer d"
  "rd_ResponseTransformer (with_method m d) = rd_ResponseTransformer d"
  "rd_Operations (with_method m d) = rd_Operations d"
  "rd_APIConfig (with_method m d) = rd_APIConfig d"
  "rd_OperationConfig (with_method m d) = rd_OperationConfig d"
  "rd_NativeIDConfig (with_method m d) = rd_NativeIDConfig d"
  "rc_ResourceType (rd_ResourceConfig (with_method m d)) = rc_ResourceType (rd_ResourceConfig d)"
  "rc_Scope (rd_ResourceConfig (with_method m d)) = rc_Scope (rd_ResourceConfig d)"
  "rc_SupportsUpdate (rd_ResourceConfig (with_method m d)) = rc_SupportsUpdate (rd_ResourceConfig d)"
  "rc_OptimisticLocking (rd_ResourceConfig (with_method m d)) = rc_OptimisticLocking (rd_ResourceConfig d)"
  by (simp_all add: with_method_def)

lemma with_update_query_sel [simp]:
  "rd_Type (with_update_query m d) = rd_Type d"
  "rd_RequestTransformer (with_update_query m d) = rd_RequestTransformer d"
  "rd_ResponseTransformer (with_update_query m d) = rd_ResponseTransformer d"
  "rd_Operations (with_update_query m d) = rd_Operations d"
  "rd_APIConfig (with_update_query m d) = rd_APIConfig d"
  "rd_OperationConfig (with_update_query m d) = rd_OperationConfig d"
  "rd_NativeIDConfig (with_update_query m d) = rd_NativeIDConfig d"
  "rc_ResourceType (rd_ResourceConfig (with_update_query m d)) = rc_ResourceType (rd_ResourceConfig d)"
  "rc_Scope (rd_ResourceConfig (with_update_query m d)) = rc_Scope (rd_ResourceConfig d)"
  "rc_SupportsUpdate (rd_ResourceConfig (with_update_query m d)) = rc_SupportsUpdate (rd_ResourceConfig d)"
  "rc_OptimisticLocking (rd_ResourceConfig (with_update_query m d)) = rc_OptimisticLocking (rd_ResourceConfig d)"
  by (simp_all add: with_update_query_def)

lemma with_operations_sel [simp]:
  "rd_Type (with_operations m d) = rd_Type d"
  "rd_RequestTransformer (with_operations m d) = rd_RequestTransformer d"
  "rd_ResponseTransformer (with_operations m d) = rd_ResponseTransformer d"
  "rd_Operations (with_operations m d) = Some m"
  "rd_APIConfig (with_operations m d) = rd_APIConfig d"
  "rd_OperationConfig (with_operations m d) = rd_OperationConfig d"
  "rd_NativeIDConfig (with_operations m d) = rd_NativeIDConfig d"
  "rd_ResourceConfig (with_operations m d) = rd_ResourceConfig d"
  by (simp_all add: with_operations_def)

section \<open>Registration\<close>

lemma Register_defines:
  assumes "gr_store R i = Some r" and "rd_Type d \<noteq> []"
  shows "\<exists>R' r'. Register i d R = Ok R' \<and> gr_store R' i = Some r'
    \<and> rg_Definitions r' = (rg_Definitions r)(rd_Type d \<mapsto> complete_definition r d)
    \<and> complete_definition r' = complete_definition r
    \<and> (\<forall>n. gr_table R' n = (if n = rd_Type d
          then Register_table n (the (rd_Operations (complete_definition r d))) (UnifiedFactory i n) (gr_table R) n
          else gr_table R n))"
  using assms by (simp add: Register_def Let_def Register_table_lookup complete_definition_def fun_eq_iff)

definition entry_operations :: "'w ResourceDefinition \<Rightarrow> Operation list" where
  "entry_operations d = (case rd_Operations d of None \<Rightarrow> StandardOperations | Some ops \<Rightarrow> ops)"

lemma RegisterAll_defines:
  assumes "gr_store R i = Some r" and "\<And>d. d \<in> set defs \<Longrightarrow> rd_Type d \<noteq> []" and "distinct (map rd_Type defs)"
  shows "\<exists>R' r'. RegisterAll i defs R = (None, Ok R') \<and> gr_store R' i = Some r'
    \<and> complete_definition r' = complete_definition r
    \<and> (\<forall>d \<in> set defs. rg_Definitions r' (rd_Type d) = Some (complete_definition r d))
    \<and> (\<forall>d \<in> set defs. \<forall>operation \<in> set (entry_operations d).
          \<exists>m. gr_table R' (rd_Type d) = Some m \<and> m operation = Some (UnifiedFactory i (rd_Type d)))
    \<and> (\<forall>n. n \<notin> rd_Type ` set defs \<longrightarrow> gr_table R' n = gr_table R n \<and> rg_Definitions r' n = rg_Definitions r n)"
  using assms
proof (induction defs arbitrary: R r)
  case Nil
  then show ?case by auto
next
  case (Cons d defs)
  then obtain R1 r1 where 1: "Register i d R = Ok R1" "gr_store R1 i = Some r1"
      "rg_Definitions r1 = (rg_Definitions r)(rd_Type d \<mapsto> complete_definition r d)"
      "complete_definition r1 = complete_definition r"
      "\<forall>n. gr_table R1 n = (if n = rd_Type d
          then Register_table n (the (rd_Operations (complete_definition r d))) (UnifiedFactory i n) (gr_table R) n
          else gr_table R n)"
    using Register_defines [of R i r d] by force
  have d1: "\<exists>m. gr_table R1 (rd_Type d) = Some m \<and> m operation = Some (UnifiedFactory i (rd_Type d))"
    if "operation \<in> set (entry_operations d)" for operation
    using 1(5) that by (auto simp: Register_table_lookup entry_operations_def)
  from Cons.IH [OF 1(2)] Cons.prems obtain R2 r2 where 2:
      "RegisterAll i defs R1 = (None, Ok R2)" "gr_store R2 i = Some r2"
      "complete_definition r2 = complete_definition r1"
      "\<forall>d \<in> set defs. rg_Definitions r2 (rd_Type d) = Some (complete_definition r1 d)"
      "\<forall>d \<in> set defs. \<forall>operation \<in> set (entry_operations d).
          \<exists>m. gr_table R2 (rd_Type d) = Some m \<and> m operation = Some (UnifiedFactory i (rd_Type d))"
      "\<forall>n. n \<notin> rd_Type ` set defs \<longrightarrow> gr_table R2 n = gr_table R1 n \<and> rg_Definitions r2 n = rg_Definitions r1 n"
    by force
  have new: "rd_Type d \<notin> rd_Type ` set defs" using Cons.prems(3) by auto
  have "RegisterAll i (d # defs) R = (None, Ok R2)" using 1(1) 2(1) by simp
  moreover have "rg_Definitions r2 (rd_Type d) = Some (complete_definition r d)" using 2(6) new 1(3) by simp
  moreover have "\<forall>n. n \<notin> rd_Type ` set (d # defs) \<longrightarrow> gr_table R2 n = gr_table R n \<and> rg_Definitions r2 n = rg_Definitions r n"
    using 2(6) 1(3,5) by simp
  moreover have "\<forall>operation \<in> set (entry_operations d).
      \<exists>m. gr_table R2 (rd_Type d) = Some m \<and> m operation = Some (UnifiedFactory i (rd_Type d))"
    using d1 2(6) new by simp
  ultimately show ?case using 2 1(4) by (intro exI [of _ R2] exI [of _ r2]) auto
qed

text \<open>
  The contract of a table: its types are named, and no name occurs twice. Then a registry built from
  it serves each entry by the generic resource configured as the entry says, whatever was registered
  before.
\<close>

locale type_table =
  fixes api :: APIConfig and oper :: OperationConfig and nid :: NativeIDConfig
    and defs :: "'w ResourceDefinition list"
  assumes named: "d \<in> set defs \<Longrightarrow> rd_Type d \<noteq> []"
    and unique: "distinct (map rd_Type defs)"
begin

lemma table_served:
  assumes "gr_store R i = Some (NewResourceRegistry api oper nid)"
  shows "\<exists>R'. RegisterAll i defs R = (None, Ok R')
    \<and> (\<forall>d \<in> set defs. \<forall>operation \<in> set (entry_operations d). \<forall>E cfg.
          Get E R' (rd_Type d) operation cfg = Ok (Some (UnifiedProvisioner E
            (base_resource cfg (complete_definition (NewResourceRegistry api oper nid) d)))))"
proof -
  from RegisterAll_defines [OF assms named unique] obtain R' r' where R':
      "RegisterAll i defs R = (None, Ok R')" "gr_store R' i = Some r'"
      "\<forall>d \<in> set defs. rg_Definitions r' (rd_Type d) = Some (complete_definition (NewResourceRegistry api oper nid) d)"
      "\<forall>d \<in> set defs. \<forall>operation \<in> set (entry_operations d).
          \<exists>m. gr_table R' (rd_Type d) = Some m \<and> m operation = Some (UnifiedFactory i (rd_Type d))" by blast
  have "Get E R' (rd_Type d) operation cfg = Ok (Some (UnifiedProvisioner E
            (base_resource cfg (complete_definition (NewResourceRegistry api oper nid) d))))"
    if "d \<in> set defs" "operation \<in> set (entry_operations d)" for d operation E cfg
    using R' that by (fastforce simp: Get_def CreateProvisioner_def)
  then show ?thesis using R'(1) by blast
qed

end

end
