(* ===== verification/Compute_Types.thy ===== *)
theory Compute_Types
  imports Compute_Transformers Type_Table
begin

text \<open>
  The table of \<^verbatim>\<open>src/pkg/resources/compute/resources.go\<close>: the Compute types served by the generic
  resource, in the order of the source, and what holds of every one of them.
\<close>

section \<open>The table\<close>

definition wrapInstanceBodyBuilder :: request_transformer where
  "wrapInstanceBodyBuilder props ctx = instanceBodyBuilder props ctx"

definition wrapInstanceResponseTransformer :: response_transformer where
  "wrapInstanceResponseTransformer apiResponse ctx = instanceResponseTransformer apiResponse ctx"

definition compute_core_types :: "'w ResourceDefinition list" where
  "compute_core_types =
     [table_type ''GCP::Compute::Address'' ''addresses'' ScopeRegional False None None (Some RegionResponseTransformer),
      with_update_query [(''mostDisruptiveAllowedAction'', ''REFRESH'')] (with_method UpdateMethodPut (table_type ''GCP::Compute::Instance'' ''instances'' ScopeZonal True (Some ''labelFingerprint'') (Some wrapInstanceBodyBuilder) (Some wrapInstanceResponseTransformer))),
      table_type ''GCP::Compute::Network'' ''networks'' ScopeGlobal True None None (Some networkResponseTransformer),
      table_type ''GCP::Compute::Firewall'' ''firewalls'' ScopeGlobal True (Some ''fingerprint'') None (Some firewallResponseTransformer),
      table_type ''GCP::Compute::Subnetwork'' ''subnetworks'' ScopeRegional True (Some ''fingerprint'') None (Some subnetworkResponseTransformer),
      table_type ''GCP::Compute::Router'' ''routers'' ScopeRegional True None None (Some routerResponseTransformer)]"

definition compute_backend_types :: "'w ResourceDefinition list" where
  "compute_backend_types =
     [table_type ''GCP::Compute::SslCertificate'' ''sslCertificates'' ScopeGlobal False None (Some sslCertificateRequestTransformer) (Some sslCertificateResponseTransformer),
      table_type ''GCP::Compute::GlobalNetworkEndpointGroup'' ''networkEndpointGroups'' ScopeGlobal False None None None,
      table_type ''GCP::Compute::NetworkEndpointGroup'' ''networkEndpointGroups'' ScopeRegional False None None (Some RegionResponseTransformer),
      table_type ''GCP::Compute::GlobalAddress'' ''addresses'' ScopeGlobal False None None None,
      table_type ''GCP::Compute::Route'' ''routes'' ScopeGlobal False None None None,
      with_method UpdateMethodPatch (table_type ''GCP::Compute::ServiceAttachment'' ''serviceAttachments'' ScopeRegional True (Some ''fingerprint'') None (Some RegionResponseTransformer)),
      with_method UpdateMethodPatch (table_type ''GCP::Compute::NetworkAttachment'' ''networkAttachments'' ScopeRegional True (Some ''fingerprint'') None (Some RegionResponseTransformer)),
      table_type ''GCP::Compute::TargetInstance'' ''targetInstances'' ScopeZonal False None None (Some ZoneResponseTransformer)]"

definition compute_health_types :: "'w ResourceDefinition list" where
  "compute_health_types =
     [table_type ''GCP::Compute::RegionCompositeHealthCheck'' ''compositeHealthChecks'' ScopeRegional True (Some ''fingerprint'') None (Some RegionResponseTransformer),
      table_type ''GCP::Compute::RegionHealthSource'' ''healthSources'' ScopeRegional False None None (Some RegionResponseTransformer),
      table_type ''GCP::Compute::RegionHealthAggregationPolicy'' ''healthAggregationPolicies'' ScopeRegional False None None (Some RegionResponseTransformer),
      with_method UpdateMethodPatch (table_type ''GCP::Compute::RegionNetworkFirewallPolicy'' ''firewallPolicies'' ScopeRegional True (Some ''fingerprint'') (Some (DropFieldsOnUpdate [''name''])) (Some RegionResponseTransformer)),
      with_method UpdateMethodPatch (table_type ''GCP::Compute::NetworkFirewallPolicy'' ''firewallPolicies'' ScopeGlobal True (Some ''fingerprint'') (Some (DropFieldsOnUpdate [''name''])) None),
      with_method UpdateMethodPatch (table_type ''GCP::Compute::HttpsHealthCheck'' ''httpsHealthChecks'' ScopeGlobal True None None None),
      with_method UpdateMethodPatch (table_type ''GCP::Compute::HttpHealthCheck'' ''httpHealthChecks'' ScopeGlobal True None None None)]"

definition compute_vpn_disk_types :: "'w ResourceDefinition list" where
  "compute_vpn_disk_types =
     [table_type ''GCP::Compute::ExternalVpnGateway'' ''externalVpnGateways'' ScopeGlobal False None None None,
      table_type ''GCP::Compute::HaVpnGateway'' ''vpnGateways'' ScopeRegional False None None (Some RegionResponseTransformer),
      table_type ''GCP::Compute::TargetVpnGateway'' ''targetVpnGateways'' ScopeRegional False None None (Some RegionResponseTransformer),
      table_type ''GCP::Compute::VpnTunnel'' ''vpnTunnels'' ScopeRegional False None None (Some vpnTunnelResponseTransformer),
      table_type ''GCP::Compute::RegionDisk'' ''disks'' ScopeRegional False None (Some regionDiskRequestTransformer) (Some regionDiskResponseTransformer),
      with_method UpdateMethodPatch (table_type ''GCP::Compute::RegionSslPolicy'' ''sslPolicies'' ScopeRegional True (Some ''fingerprint'') None (Some RegionResponseTransformer)),
      with_method UpdateMethodPatch (table_type ''GCP::Compute::SslPolicy'' ''sslPolicies'' ScopeGlobal True (Some ''fingerprint'') None None),
      table_type ''GCP::Compute::NodeTemplate'' ''nodeTemplates'' ScopeRegional False None None (Some RegionResponseTransformer)]"

definition compute_snapshot_types :: "'w ResourceDefinition list" where
  "compute_snapshot_types =
     [table_type ''GCP::Compute::RegionSnapshot'' ''snapshots'' ScopeRegional False None None (Some RegionResponseTransformer),
      table_type ''GCP::Compute::RegionInstantSnapshot'' ''instantSnapshots'' ScopeRegional False None None (Some RegionResponseTransformer),
      table_type ''GCP::Compute::InstantSnapshot'' ''instantSnapshots'' ScopeZonal False None None (Some ZoneResponseTransformer),
      table_type ''GCP::Compute::Snapshot'' ''snapshots'' ScopeGlobal False None None None,
      table_type ''GCP::Compute::MachineImage'' ''machineImages'' ScopeGlobal False None None None,
      table_type ''GCP::Compute::Image'' ''images'' ScopeGlobal False None None None,
      table_type ''GCP::Compute::ResourcePolicy'' ''resourcePolicies'' ScopeRegional False None None (Some RegionResponseTransformer),
      with_method UpdateMethodPatch (table_type ''GCP::Compute::BackendBucket'' ''backendBuckets'' ScopeGlobal True None None None),
      with_method UpdateMethodPatch (table_type ''GCP::Compute::RegionBackendBucket'' ''backendBuckets'' ScopeRegional True None None None)]"

definition compute_group_types :: "'w ResourceDefinition list" where
  "compute_group_types =
     [with_operations [OperationCreate, OperationRead, OperationDelete, OperationList, OperationCheckStatus] (table_type ''GCP::Compute::RolloutPlan'' ''rolloutPlans'' ScopeGlobal False None None (Some rolloutPlanResponseTransformer)),
      with_method UpdateMethodPatch (table_type ''GCP::Compute::ZoneVmExtensionPolicy'' ''vmExtensionPolicies'' ScopeZonal True None None (Some zoneVmExtensionPolicyResponseTransformer)),
      table_type ''GCP::Compute::RegionAutoscaler'' ''autoscalers'' ScopeRegional False None (Some autoscalerRequestTransformer) (Some regionAutoscalerResponseTransformer),
      table_type ''GCP::Compute::Autoscaler'' ''autoscalers'' ScopeZonal False None (Some autoscalerRequestTransformer) (Some autoscalerResponseTransformer),
      table_type ''GCP::Compute::RegionInstanceGroupManager'' ''instanceGroupManagers'' ScopeRegional False None None (Some RegionResponseTransformer),
      table_type ''GCP::Compute::InstanceGroupManager'' ''instanceGroupManagers'' ScopeZonal False None None (Some ZoneResponseTransformer),
      table_type ''GCP::Compute::RegionInstanceTemplate'' ''instanceTemplates'' ScopeRegional False None None (Some RegionResponseTransformer),
      table_type ''GCP::Compute::InstanceTemplate'' ''instanceTemplates'' ScopeGlobal False None None None]"

definition compute_global_lb_types :: "'w ResourceDefinition list" where
  "compute_global_lb_types =
     [table_type ''GCP::Compute::RegionSecurityPolicy'' ''securityPolicies'' ScopeRegional False None None (Some RegionResponseTransformer),
      table_type ''GCP::Compute::SecurityPolicy'' ''securityPolicies'' ScopeGlobal False None None None,
      table_type ''GCP::Compute::HealthCheck'' ''healthChecks'' ScopeGlobal True None None None,
      table_type ''GCP::Compute::BackendService'' ''backendServices'' ScopeGlobal True (Some ''fingerprint'') None None,
      table_type ''GCP::Compute::UrlMap'' ''urlMaps'' ScopeGlobal True (Some ''fingerprint'') None None,
      table_type ''GCP::Compute::TargetGrpcProxy'' ''targetGrpcProxies'' ScopeGlobal True (Some ''fingerprint'') None None,
      table_type ''GCP::Compute::TargetHttpProxy'' ''targetHttpProxies'' ScopeGlobal True None None None,
      table_type ''GCP::Compute::TargetHttpsProxy'' ''targetHttpsProxies'' ScopeGlobal True None None None]"

definition compute_proxy_types :: "'w ResourceDefinition list" where
  "compute_proxy_types =
     [table_type ''GCP::Compute::TargetTcpProxy'' ''targetTcpProxies'' ScopeGlobal False None None None,
      table_type ''GCP::Compute::TargetSslProxy'' ''targetSslProxies'' ScopeGlobal False None None None,
      table_type ''GCP::Compute::GlobalForwardingRule'' ''forwardingRules'' ScopeGlobal True (Some ''labelFingerprint'') None None,
      table_type ''GCP::Compute::RegionHealthCheck'' ''healthChecks'' ScopeRegional True None None (Some RegionResponseTransformer),
      table_type ''GCP::Compute::RegionBackendService'' ''backendServices'' ScopeRegional True (Some ''fingerprint'') None (Some RegionResponseTransformer),
      table_type ''GCP::Compute::RegionUrlMap'' ''urlMaps'' ScopeRegional True (Some ''fingerprint'') None (Some RegionResponseTransformer),
      table_type ''GCP::Compute::RegionTargetHttpProxy'' ''targetHttpProxies'' ScopeRegional False None None (Some RegionResponseTransformer)]"

definition compute_regional_lb_types :: "'w ResourceDefinition list" where
  "compute_regional_lb_types =
     [table_type ''GCP::Compute::RegionTargetHttpsProxy'' ''targetHttpsProxies'' ScopeRegional True (Some ''fingerprint'') None (Some RegionResponseTransformer),
      table_type ''GCP::Compute::RegionTargetTcpProxy'' ''targetTcpProxies'' ScopeRegional False None None (Some RegionResponseTransformer),
      table_type ''GCP::Compute::ForwardingRule'' ''forwardingRules'' ScopeRegional True (Some ''labelFingerprint'') None (Some RegionResponseTransformer),
      with_method UpdateMethodPatch (table_type ''GCP::Compute::PacketMirroring'' ''packetMirrorings'' ScopeRegional True None (Some packetMirroringRequestTransformer) (Some packetMirroringResponseTransformer)),
      table_type ''GCP::Compute::TargetPool'' ''targetPools'' ScopeRegional False None None (Some RegionResponseTransformer)]"

definition compute_definitions :: "'w ResourceDefinition list" where
  "compute_definitions =
     compute_core_types @ compute_backend_types @ compute_health_types @ compute_vpn_disk_types
       @ compute_snapshot_types @ compute_group_types @ compute_global_lb_types @ compute_proxy_types
       @ compute_regional_lb_types"

lemmas compute_table =
  compute_definitions_def compute_core_types_def compute_backend_types_def compute_health_types_def
  compute_vpn_disk_types_def compute_snapshot_types_def compute_group_types_def compute_global_lb_types_def
  compute_proxy_types_def compute_regional_lb_types_def

section \<open>Well-formed entries\<close>

definition entry_collection :: "'w ResourceDefinition \<Rightarrow> string" where
  "entry_collection d = rc_ResourceType (rd_ResourceConfig d)"

definition entry_scope :: "'w ResourceDefinition \<Rightarrow> ScopeType option" where
  "entry_scope d = rc_Scope (rd_ResourceConfig d)"

definition entry_lock :: "'w ResourceDefinition \<Rightarrow> OptimisticLockingConfig option" where
  "entry_lock d = rc_OptimisticLocking (rd_ResourceConfig d)"

lemmas entry_parts = entry_collection_def entry_scope_def entry_lock_def

text \<open>Bodies of requests and places in the path follow the same few shapes in all entries.\<close>

definition entry_ok :: "'w ResourceDefinition \<Rightarrow> bool" where
  "entry_ok d \<longleftrightarrow>
     HasPrefix (rd_Type d) ''GCP::Compute::''
     \<and> entry_scope d \<in> {Some ScopeGlobal, Some ScopeRegional, Some ScopeZonal}
     \<and> entry_collection d \<noteq> [] \<and> CHR ''/'' \<notin> set (entry_collection d) \<and> entry_collection d \<notin> set compute_keywords
     \<and> entry_lock d \<in> {None, Some (body_lock ''fingerprint''), Some (body_lock ''labelFingerprint'')}
     \<and> (entry_lock d \<noteq> None \<longrightarrow> rc_SupportsUpdate (rd_ResourceConfig d))"

lemma compute_type_names: "distinct (map rd_Type compute_definitions)"
  by (simp add: compute_table)

lemma compute_places: "distinct (map (\<lambda>d. (entry_collection d, entry_scope d)) compute_definitions)"
  by (simp add: compute_table entry_parts)

lemma compute_entries_ok: "list_all entry_ok compute_definitions"
  by (simp add: compute_table entry_ok_def entry_parts compute_keywords_def)

interpretation compute_types: type_table ComputeAPI ComputeOperations ComputeNativeID compute_definitions
  using compute_entries_ok compute_type_names by unfold_locales (auto simp: list_all_iff entry_ok_def)

section \<open>Identities\<close>

text \<open>Where a resource of a scope is: a zone for a zonal one, a region and no zone for a regional one.\<close>

definition at_scope :: "ScopeType \<Rightarrow> PathContext \<Rightarrow> bool" where
  "at_scope scope ctx \<longleftrightarrow>
     (case scope of
        ScopeZonal \<Rightarrow> pc_Zone ctx \<noteq> []
      | ScopeRegional \<Rightarrow> pc_Zone ctx = [] \<and> pc_Region ctx \<noteq> []
      | _ \<Rightarrow> pc_Zone ctx = [] \<and> pc_Region ctx = [])"

definition names_entry :: "'w ResourceDefinition \<Rightarrow> PathContext \<Rightarrow> bool" where
  "names_entry d ctx \<longleftrightarrow>
     path_ok ctx \<and> pc_ResourceType ctx = entry_collection d
     \<and> (\<exists>scope. entry_scope d = Some scope \<and> at_scope scope ctx)"

lemma path_inj:
  assumes "path_ok c1" and "path_ok c2" and "computePathBuilder c1 = computePathBuilder c2"
  shows "canonical c1 = canonical c2"
  using parse_compute_path [OF assms(1)] parse_compute_path [OF assms(2)] assms(3) by simp

lemma canonical_at_scope:
  "canonical c1 = canonical c2 \<Longrightarrow> at_scope s1 c1 \<Longrightarrow> at_scope s2 c2 \<Longrightarrow>
   s1 \<in> {ScopeGlobal, ScopeRegional, ScopeZonal} \<Longrightarrow> s2 \<in> {ScopeGlobal, ScopeRegional, ScopeZonal} \<Longrightarrow> s1 = s2"
  by (auto simp: canonical_def at_scope_def empty_ctx_def split: if_splits)

lemma compute_path_entry:
  assumes d: "d1 \<in> set (compute_definitions :: 'w ResourceDefinition list)" "d2 \<in> set (compute_definitions :: 'w ResourceDefinition list)"
    and n: "names_entry d1 c1" "names_entry d2 c2" and eq: "computePathBuilder c1 = computePathBuilder c2"
  shows "d1 = d2"
proof -
  obtain s1 s2 where s: "entry_scope d1 = Some s1" "at_scope s1 c1" "entry_scope d2 = Some s2" "at_scope s2 c2"
    using n by (auto simp: names_entry_def)
  have can: "canonical c1 = canonical c2" using path_inj n eq by (auto simp: names_entry_def)
  then have "pc_ResourceType c1 = pc_ResourceType c2" by (simp add: canonical_def empty_ctx_def)
  then have "entry_collection d1 = entry_collection d2" using n by (simp add: names_entry_def)
  moreover have "s1 \<in> {ScopeGlobal, ScopeRegional, ScopeZonal}" "s2 \<in> {ScopeGlobal, ScopeRegional, ScopeZonal}"
    using compute_entries_ok d s by (auto simp: list_all_iff entry_ok_def)
  then have "s1 = s2" using canonical_at_scope [OF can s(2,4)] by simp
  ultimately have "(entry_collection d1, entry_scope d1) = (entry_collection d2, entry_scope d2)" using s by simp
  moreover have "inj_on (\<lambda>d. (entry_collection d, entry_scope d)) (set compute_definitions)"
    using compute_places distinct_map by blast
  ultimately show ?thesis using d inj_onD by fastforce
qed

section \<open>Readings\<close>

definition compute_readings :: "response_transformer set" where
  "compute_readings =
     {RegionResponseTransformer, ZoneResponseTransformer, wrapInstanceResponseTransformer, networkResponseTransformer,
      firewallResponseTransformer, subnetworkResponseTransformer, routerResponseTransformer,
      sslCertificateResponseTransformer, vpnTunnelResponseTransformer, regionDiskResponseTransformer,
      rolloutPlanResponseTransformer, zoneVmExtensionPolicyResponseTransformer, autoscalerResponseTransformer,
      regionAutoscalerResponseTransformer, packetMirroringResponseTransformer}"

lemma compute_transformers_listed:
  "list_all (\<lambda>d. \<forall>t. rd_ResponseTransformer d = Some t \<longrightarrow> t \<in> compute_readings) compute_definitions"
  by (simp add: compute_table compute_readings_def)

lemma wrapped_instance: "wrapInstanceResponseTransformer = instanceResponseTransformer"
  by (simp add: wrapInstanceResponseTransformer_def fun_eq_iff)

definition keeps_identity :: "response_transformer \<Rightarrow> bool" where
  "keeps_identity t \<longleftrightarrow> (\<exists>T. reading t T \<and> ''id'' \<notin> T \<and> ''name'' \<notin> T \<and> ''selfLink'' \<notin> T)"

lemma keeps_identityI: "reading t T \<Longrightarrow> ''id'' \<notin> T \<and> ''name'' \<notin> T \<and> ''selfLink'' \<notin> T \<Longrightarrow> keeps_identity t"
  by (auto simp: keeps_identity_def)

lemmas compute_keeps =
  region_reading.reading_axioms [THEN keeps_identityI] zone_reading.reading_axioms [THEN keeps_identityI]
  instance_reading.reading_axioms [THEN keeps_identityI] network_reading.reading_axioms [THEN keeps_identityI]
  firewall_reading.reading_axioms [THEN keeps_identityI] subnetwork_reading.reading_axioms [THEN keeps_identityI]
  router_reading.reading_axioms [THEN keeps_identityI] certificate_reading.reading_axioms [THEN keeps_identityI]
  tunnel_reading.reading_axioms [THEN keeps_identityI] region_disk_reading.reading_axioms [THEN keeps_identityI]
  rollout_reading.reading_axioms [THEN keeps_identityI] extension_reading.reading_axioms [THEN keeps_identityI]
  autoscaler_reading.reading_axioms [THEN keeps_identityI]
  region_autoscaler_reading.reading_axioms [THEN keeps_identityI]
  mirroring_reading.reading_axioms [THEN keeps_identityI]

lemma compute_readings_contract: "\<forall>t \<in> compute_readings. keeps_identity t"
  unfolding compute_readings_def wrapped_instance ball_simps
  by (intro conjI TrueI) (rule compute_keeps, simp)+

lemma keeps_identity_reads:
  assumes "keeps_identity t"
  shows "\<exists>r r'. t (Some m) ctx = Ok (Some r) \<and> t (Some r) ctx = Ok (Some r') \<and> map_of r' = map_of r
    \<and> (\<forall>k \<in> {''id'', ''name'', ''selfLink''}. map_of r k = map_of m k)"
proof -
  obtain T where T: "reading t T" "''id'' \<notin> T" "''name'' \<notin> T" "''selfLink'' \<notin> T"
    using assms by (auto simp: keeps_identity_def)
  obtain r r' where r: "t (Some m) ctx = Ok (Some r)" "t (Some r) ctx = Ok (Some r')"
    using reading.answers [OF T(1)] by meson
  then show ?thesis using reading.settles [OF T(1) r] reading.keeps [OF T(1) r(1)] T by auto
qed

section \<open>Properties\<close>

lemma compute_complete:
  assumes "d \<in> set compute_definitions"
  shows "rd_APIConfig d = zero_api \<and> rd_OperationConfig d = zero_operations \<and> rd_NativeIDConfig d = zero_native_id"
proof -
  have "list_all (\<lambda>d. rd_APIConfig d = zero_api \<and> rd_OperationConfig d = zero_operations \<and> rd_NativeIDConfig d = zero_native_id)
    (compute_definitions :: 'a ResourceDefinition list)"
    by (simp add: compute_table)
  with assms show ?thesis by (simp add: list_all_iff)
qed

definition serves_entry :: "'w ResourceDefinition \<Rightarrow> 'w BaseResource \<Rightarrow> bool" where
  "serves_entry d b \<longleftrightarrow>
     b_APIConfig b = ComputeAPI \<and> b_OperationConfig b = ComputeOperations \<and> b_NativeIDConfig b = ComputeNativeID
     \<and> b_ResourceConfig b = rd_ResourceConfig d \<and> b_RequestTransformer b = rd_RequestTransformer d
     \<and> b_ResponseTransformer b = rd_ResponseTransformer d"

lemma completed_serves:
  assumes "d \<in> set compute_definitions"
  shows "serves_entry d (base_resource cfg (complete_definition (NewResourceRegistry ComputeAPI ComputeOperations ComputeNativeID) d))"
  using compute_complete [OF assms]
  by (simp add: serves_entry_def base_resource_def complete_definition_def NewResourceRegistry_def zero_api_def
      zero_operations_def zero_native_id_def)

text \<open>
  C14: Resources of different Compute types never share an identity. Whatever project, location and name
  two resources of different entries of the table have, the native IDs taken from their self links
  differ; a native ID of one type is never taken for one of another.
\<close>
theorem compute_ids_disjoint:
  assumes "d1 \<in> set (compute_definitions :: 'w ResourceDefinition list)"
    and "d2 \<in> set (compute_definitions :: 'w ResourceDefinition list)"
    and "rd_Type d1 \<noteq> rd_Type d2" and "names_entry d1 c1" and "names_entry d2 c2"
  shows "extractComputeNativeID [(''selfLink'', JStr (ac_BaseURL ComputeAPI @ computePathBuilder c1))] x1
     \<noteq> extractComputeNativeID [(''selfLink'', JStr (ac_BaseURL ComputeAPI @ computePathBuilder c2))] x2"
proof
  assume "extractComputeNativeID [(''selfLink'', JStr (ac_BaseURL ComputeAPI @ computePathBuilder c1))] x1
    = extractComputeNativeID [(''selfLink'', JStr (ac_BaseURL ComputeAPI @ computePathBuilder c2))] x2"
  then have "tl (computePathBuilder c1) = tl (computePathBuilder c2)"
    by (simp add: extractComputeNativeID_def extract_compute_path)
  then have "computePathBuilder c1 = computePathBuilder c2" by (simp add: computePathBuilder_def)
  with compute_path_entry assms show False by metis
qed

theorem compute_ids_disjoint_witness:
  "extractComputeNativeID [(''selfLink'', JStr (ac_BaseURL ComputeAPI @ computePathBuilder
       (empty_ctx\<lparr>pc_Project := ''p'', pc_Region := ''eu'', pc_ResourceType := ''addresses'', pc_ResourceName := ''a''\<rparr>)))] empty_ctx
   \<noteq> extractComputeNativeID [(''selfLink'', JStr (ac_BaseURL ComputeAPI @ computePathBuilder
       (empty_ctx\<lparr>pc_Project := ''p'', pc_ResourceType := ''addresses'', pc_ResourceName := ''a''\<rparr>)))] empty_ctx"
proof -
  let ?d1 = "table_type ''GCP::Compute::Address'' ''addresses'' ScopeRegional False None None (Some RegionResponseTransformer) :: unit ResourceDefinition"
  let ?d2 = "table_type ''GCP::Compute::GlobalAddress'' ''addresses'' ScopeGlobal False None None None :: unit ResourceDefinition"
  have "?d1 \<in> set compute_definitions" "?d2 \<in> set compute_definitions"
    by (simp_all add: compute_definitions_def compute_core_types_def compute_backend_types_def)
  then show ?thesis
    by (rule compute_ids_disjoint)
      (simp_all add: names_entry_def path_ok_def compute_keywords_def entry_parts at_scope_def empty_ctx_def)
qed

text \<open>
  C15: Reading a Compute resource settles. For every entry of the table with a response transformer and
  every answer of the API, the transformer answers, leaves the fields that references resolve against
  (id, name, self link) as they came, and a second pass over what it made changes no field: two reads of
  the same resource never differ by the transformer.
\<close>
theorem compute_reads_settle:
  assumes "d \<in> set (compute_definitions :: 'w ResourceDefinition list)" and "rd_ResponseTransformer d = Some t"
  shows "\<exists>r r'. t (Some m) ctx = Ok (Some r) \<and> t (Some r) ctx = Ok (Some r') \<and> map_of r' = map_of r
    \<and> (\<forall>k \<in> {''id'', ''name'', ''selfLink''}. map_of r k = map_of m k)"
proof -
  have "t \<in> compute_readings" using compute_transformers_listed assms by (auto simp: list_all_iff)
  then show ?thesis using keeps_identity_reads compute_readings_contract by blast
qed

theorem compute_reads_settle_witness:
  "\<exists>r r'. RegionResponseTransformer (Some [(''name'', JStr ''a''), (''region'', JStr ''x/regions/eu'')])
        (buildTransformContext empty_ctx OperationRead) = Ok (Some r)
    \<and> RegionResponseTransformer (Some r) (buildTransformContext empty_ctx OperationRead) = Ok (Some r') \<and> map_of r' = map_of r \<and> map_of r ''name'' = Some (JStr ''a'')"
proof -
  let ?d = "table_type ''GCP::Compute::Address'' ''addresses'' ScopeRegional False None None (Some RegionResponseTransformer) :: unit ResourceDefinition"
  have "?d \<in> set compute_definitions" by (simp add: compute_definitions_def compute_core_types_def)
  from compute_reads_settle [OF this table_type_sel(3), of "[(''name'', JStr ''a''), (''region'', JStr ''x/regions/eu'')]"
      "buildTransformContext empty_ctx OperationRead"]
  show ?thesis by auto
qed

text \<open>
  Every entry of the Compute table is served as written. Registering the table succeeds whatever was
  registered before, and then each of its types has, for each of its operations, the generic resource
  configured with the Compute API, the entry's own configuration and the entry's transformers.
\<close>
lemma compute_types_served:
  assumes "gr_store R i = Some (NewResourceRegistry ComputeAPI ComputeOperations ComputeNativeID)"
  shows "\<exists>R'. RegisterAll i compute_definitions R = (None, Ok R')
    \<and> (\<forall>d \<in> set compute_definitions. \<forall>operation \<in> set (entry_operations d).
          \<exists>b. Get E R' (rd_Type d) operation cfg = Ok (Some (UnifiedProvisioner E b)) \<and> b_Config b = cfg \<and> serves_entry d b)"
proof -
  obtain R' where R': "RegisterAll i compute_definitions R = (None, Ok R')"
    "\<forall>d \<in> set compute_definitions. \<forall>operation \<in> set (entry_operations d). \<forall>E cfg.
        Get E R' (rd_Type d) operation cfg = Ok (Some (UnifiedProvisioner E
          (base_resource cfg (complete_definition (NewResourceRegistry ComputeAPI ComputeOperations ComputeNativeID) d))))"
    using compute_types.table_served [OF assms] by blast
  then show ?thesis using completed_serves by (fastforce simp: base_resource_def)
qed

end
