(* ===== verification/Disk.thy ===== *)
theory Disk
  imports Compute_Verbs Compute_Types
begin

text \<open>
  Zonal disks (\<^verbatim>\<open>src/pkg/resources/compute/disk.go\<close>, \<^verbatim>\<open>disk_provisioner.go\<close>): the generic resource,
  except that an update sets the labels, through a verb that takes the fingerprint of the labels it
  replaces.
\<close>

definition newDiskProvisioner :: "Config option \<Rightarrow> 'w BaseResource" where
  "newDiskProvisioner cfg =
     \<lparr>b_Config = cfg, b_APIConfig = ComputeAPI, b_OperationConfig = ComputeOperations,
      b_ResourceConfig = zero_resource\<lparr>rc_ResourceType := ''disks'', rc_Scope := Some ScopeZonal,
        rc_SupportsUpdate := True, rc_OptimisticLocking := Some (body_lock ''labelFingerprint'')\<rparr>,
      b_NativeIDConfig = ComputeNativeID, b_RequestTransformer = Some diskRequestTransformer,
      b_ResponseTransformer = Some diskResponseTransformer\<rparr>"

definition setLabels_body :: "obj \<Rightarrow> obj \<Rightarrow> obj" where
  "setLabels_body props current =
     [(''labels'', JObj (case GetObject props ''labels'' of Some l \<Rightarrow> l | None \<Rightarrow> [])),
      (''labelFingerprint'', JStr (string_or_empty (as_string (map_of current ''labelFingerprint''))))]"

definition disk_label_update :: "string \<Rightarrow> string \<Rightarrow> string \<Rightarrow> ProgressResult" where
  "disk_label_update resourceType nativeID requestID =
     (progress OperationUpdate OperationStatusInProgress)
       \<lparr>pr_NativeID := nativeID, pr_RequestID := requestID, pr_Message := resourceType @ '' label update in progress''\<rparr>"

definition send_labels ::
    "'w env \<Rightarrow> 'w BaseResource \<Rightarrow> Client \<Rightarrow> UpdateRequest \<Rightarrow> obj \<Rightarrow> PathContext \<Rightarrow> string \<Rightarrow> ('w, ProgressResult) op" where
  "send_labels E p client request props ctx url s =
     (case SendRequest E client (request_options ''GET'' url None) s of
        (Inl e, s1) \<Rightarrow>
          (let te = wrap_err e ''failed to read disk for label update''
           in (Ok (updateFailureResult (up_NativeID request) (ToResourceErrorCode (te_Code te)) (te_Message te)), s1))
      | (Inr current, s1) \<Rightarrow>
          (case SendRequest E client
                  (request_options ''POST'' (url @ ''/setLabels'')
                     (Some (setLabels_body props (obj_of (rs_Body current))))) s1 of
             (Inl e, s2) \<Rightarrow>
               (let te = wrap_err e ''failed to update disk labels''
                in (Ok (updateFailureResult (up_NativeID request) (ToResourceErrorCode (te_Code te)) (te_Message te)), s2))
           | (Inr response, s2) \<Rightarrow>
               (bind_outcome (call_operation_id p (rs_Body response)) (\<lambda>operationID.
                bind_outcome (call_operation_url p ctx operationID) (\<lambda>requestID.
                  Ok (disk_label_update (rc_ResourceType (b_ResourceConfig p)) (up_NativeID request) requestID))), s2)))"

definition Disk_Update :: "'w env \<Rightarrow> 'w BaseResource \<Rightarrow> UpdateRequest \<Rightarrow> ('w, ProgressResult) op" where
  "Disk_Update E p request s =
     (case NewClient E (b_Config p) s of
        (Inl e, s1) \<Rightarrow> (Err (client_error e), s1)
      | (Inr client, s1) \<Rightarrow>
          (case unmarshal_map (up_DesiredProperties request) of
             Inl e \<Rightarrow>
               (Ok (updateFailureResult (up_NativeID request) InvalidRequest (''failed to parse properties: '' @ e)), s1)
           | Inr props \<Rightarrow>
               (case ParseNativeID (b_NativeIDConfig p) (up_NativeID request) of
                  Inl e \<Rightarrow>
                    (Ok (updateFailureResult (up_NativeID request) InvalidRequest (''invalid native ID: '' @ err_text e)), s1)
                | Inr ctx0 \<Rightarrow>
                    (let ctx = resource_context p (up_TargetConfig request) ctx0
                     in case resource_url p ctx of
                          Err e \<Rightarrow> (Err e, s1)
                        | Panic m \<Rightarrow> (Panic m, s1)
                        | Ok url \<Rightarrow> send_labels E p client request (obj_of props) ctx url s1))))"

definition Disk_Create :: "'w env \<Rightarrow> 'w BaseResource \<Rightarrow> CreateRequest \<Rightarrow> ('w, ProgressResult) op" where
  "Disk_Create E p request = Create E p request"

definition Disk_Read :: "'w env \<Rightarrow> 'w BaseResource \<Rightarrow> ReadRequest \<Rightarrow> ('w, ReadResult) op" where
  "Disk_Read E p request = Read E p request"

definition Disk_Delete :: "'w env \<Rightarrow> 'w BaseResource \<Rightarrow> DeleteRequest \<Rightarrow> ('w, ProgressResult) op" where
  "Disk_Delete E p request = Delete E p request"

definition Disk_List :: "'w env \<Rightarrow> 'w BaseResource \<Rightarrow> ListRequest \<Rightarrow> ('w, ListResult) op" where
  "Disk_List E p request = List E p request"

definition Disk_Status :: "'w env \<Rightarrow> 'w BaseResource \<Rightarrow> StatusRequest \<Rightarrow> ('w, ProgressResult) op" where
  "Disk_Status E p request s =
     (case Status E p request s of
        (Err e, s1) \<Rightarrow> (Err e, s1)
      | (Panic m, s1) \<Rightarrow> (Panic m, s1)
      | (Ok r, s1) \<Rightarrow>
          if pr_Status r = OperationStatusSuccess \<and> pr_NativeID r \<noteq> []
          then (case Disk_Read E p (status_read_request request (pr_NativeID r)) s1 of
                  (Panic m, s2) \<Rightarrow> (Panic m, s2)
                | (Err e, s2) \<Rightarrow> (Ok r, s2)
                | (Ok rr, s2) \<Rightarrow>
                    (Ok (if rr_ErrorCode rr = NoErrorCode
                         then r\<lparr>pr_Properties := Some (case rr_Properties rr of None \<Rightarrow> RawNil | Some q \<Rightarrow> q)\<rparr> else r), s2))
          else (Ok r, s1))"

definition DiskProvisioner :: "'w env \<Rightarrow> Config option \<Rightarrow> 'w Provisioner" where
  "DiskProvisioner E cfg =
     (let p = newDiskProvisioner cfg
      in \<lparr>p_Create = Disk_Create E p, p_Update = Disk_Update E p, p_Delete = Disk_Delete E p,
          p_Status = Disk_Status E p, p_Read = Disk_Read E p, p_List = Disk_List E p\<rparr>)"

section \<open>Properties\<close>

text \<open>Its own Status repeats the one every table type has.\<close>

lemma Disk_Status_unified: "Disk_Status E p = Unified_Status E p"
  by (rule ext)+ (simp only: Disk_Status_def Unified_Status_def Disk_Read_def)

lemma send_labels_sends:
  assumes "SendRequest (logged E) client (request_options ''GET'' url None) s = (Inr current, s1)"
    and "send_labels (logged E) p client request props ctx url s = (r, s')"
  shows "(sent s' = sent s1 \<and> (\<exists>q. r = Ok q \<and> pr_Status q = OperationStatusFailure))
    \<or> (\<exists>req. sent s' = sent s1 @ [req]
         \<and> posts_to (url @ ''/setLabels'') (Some (setLabels_body props (obj_of (rs_Body current)))) req)"
proof -
  let ?opts = "request_options ''POST'' (url @ ''/setLabels'') (Some (setLabels_body props (obj_of (rs_Body current))))"
  obtain a s2 where a: "SendRequest (logged E) client ?opts s1 = (a, s2)" by (metis surj_pair)
  have s': "s' = s2" using assms a by (auto simp: send_labels_def Let_def split: sum.splits)
  have f: "\<exists>q. r = Ok q \<and> pr_Status q = OperationStatusFailure" if "a = Inl e" for e
    using assms a that by (auto simp: send_labels_def Let_def updateFailureResult_def)
  show ?thesis using SendRequest_logged [OF a] sends_posts s' f by blast
qed

text \<open>
  C30: A disk's labels are replaced as a whole, under the fingerprint they have at that moment. Once the
  disk has been read, an update sends at most one more request, a POST to the disk's own setLabels, whose
  body is exactly the declared labels (none, if none are declared) and the fingerprint the API just
  returned; nothing else of the declared properties can reach the API through an update.
\<close>
theorem disk_update_sets_labels:
  fixes E :: "'w env"
  assumes "unmarshal_map (up_DesiredProperties request) = Inr m"
    and "ParseNativeID ComputeNativeID (up_NativeID request) = Inr ctx0"
    and "NewClient (logged E) cfg s = (Inr client, s0)"
    and "resource_url (newDiskProvisioner cfg :: ('w \<times> http_request list) BaseResource)
           (resource_context (newDiskProvisioner cfg :: ('w \<times> http_request list) BaseResource)
              (up_TargetConfig request) ctx0) = Ok url"
    and "SendRequest (logged E) client (request_options ''GET'' url None) s0 = (Inr current, s1)"
    and "Disk_Update (logged E) (newDiskProvisioner cfg) request s = (r, s')"
  shows "(sent s' = sent s1 \<and> (\<exists>q. r = Ok q \<and> pr_Status q = OperationStatusFailure))
    \<or> (\<exists>req. sent s' = sent s1 @ [req] \<and> posts_to (url @ ''/setLabels'')
          (Some [(''labels'', JObj (case GetObject (obj_of m) ''labels'' of Some l \<Rightarrow> l | None \<Rightarrow> [])),
                 (''labelFingerprint'', JStr (GetString (obj_of (rs_Body current)) ''labelFingerprint''))]) req)"
proof -
  let ?p = "newDiskProvisioner cfg :: ('w \<times> http_request list) BaseResource"
  have p: "b_Config ?p = cfg" "b_NativeIDConfig ?p = ComputeNativeID"
    by (simp_all add: newDiskProvisioner_def)
  have "send_labels (logged E) ?p client request (obj_of m)
      (resource_context ?p (up_TargetConfig request) ctx0) url s0 = (r, s')"
    using assms(1-4,6) by (simp add: Disk_Update_def p Let_def)
  from send_labels_sends [OF assms(5) this] show ?thesis by (simp add: setLabels_body_def GetString_as_string)
qed

definition demo_disk_url :: string where
  "demo_disk_url = ''https://compute.googleapis.com/compute/v1/projects/p/zones/z/disks/d''"

definition demo_disk_update :: UpdateRequest where
  "demo_disk_update = \<lparr>up_NativeID = ''projects/p/zones/z/disks/d'', up_ResourceType = ''T'', up_TargetConfig = RawNil,
     up_DesiredProperties = RawDoc (JObj [(''labels'', JObj [(''a'', JStr ''b'')]), (''sizeGb'', JStr ''9'')])\<rparr>"

definition demo_disk_ctx :: PathContext where
  "demo_disk_ctx = empty_ctx\<lparr>pc_Project := ''p'', pc_Zone := ''z'', pc_ResourceType := ''disks'', pc_ResourceName := ''d''\<rparr>"

lemma demo_disk_parse: "ParseNativeID ComputeNativeID ''projects/p/zones/z/disks/d'' = Inr demo_disk_ctx"
  by (simp add: ParseNativeID_def ComputeNativeID_def parseComputeNativeID_def demo_disk_ctx_def empty_ctx_def)

lemma demo_disk_context: "resource_context (newDiskProvisioner cfg :: demo_world BaseResource) RawNil demo_disk_ctx = demo_disk_ctx"
  by (simp add: resource_context_def fillPathContextFromTarget_def newDiskProvisioner_def PathFromTargetConfig_def
      demo_disk_ctx_def empty_ctx_def fill_def Let_def)

lemma demo_disk_resource: "resource_url (newDiskProvisioner cfg :: demo_world BaseResource) demo_disk_ctx = Ok demo_disk_url"
  by (simp add: resource_url_def ResourceURL_def NewURLBuilder_def build_url_def newDiskProvisioner_def ComputeAPI_def
      computePathBuilder_def compute_scope_def demo_disk_ctx_def demo_disk_url_def empty_ctx_def)

theorem disk_update_sets_labels_witness:
  "\<exists>r s' get req. Disk_Update (logged script_env) (newDiskProvisioner demo_cfg) demo_disk_update
       (script_at [scripted 200 (JObj [(''labelFingerprint'', JStr ''f1'')]), scripted 200 (JObj [])] []) = (r, s')
     \<and> sent s' = [get, req] \<and> posts_to (demo_disk_url @ ''/setLabels'')
          (Some [(''labels'', JObj [(''a'', JStr ''b'')]), (''labelFingerprint'', JStr ''f1'')]) req"
proof -
  let ?E = "logged script_env" and ?p = "newDiskProvisioner demo_cfg :: demo_world BaseResource"
  let ?s = "script_at [scripted 200 (JObj [(''labelFingerprint'', JStr ''f1'')]), scripted 200 (JObj [])] []"
  let ?body = "[(''labels'', JObj [(''a'', JStr ''b'')]), (''labelFingerprint'', JStr ''f1'')]"
  have u: "Parse demo_disk_url \<noteq> None" "Parse (demo_disk_url @ ''/setLabels'') \<noteq> None"
    by (simp_all add: demo_disk_url_def Parse_def before_def control_char_def Let_def)
  obtain get where g: "SendRequest ?E demo_client (request_options ''GET'' demo_disk_url None) ?s
      = (Inr \<lparr>rs_StatusCode = 200, rs_Body = Some [(''labelFingerprint'', JStr ''f1'')], rs_Headers = []\<rparr>,
         script_at [scripted 200 (JObj [])] [get])"
    using script_send [OF u(1) methods_ok(1), of None "[(''labelFingerprint'', JStr ''f1'')]" "[scripted 200 (JObj [])]" "[]"]
    by auto
  obtain r s' where w: "Disk_Update ?E ?p demo_disk_update ?s = (r, s')" by (metis surj_pair)
  have m: "unmarshal_map (up_DesiredProperties demo_disk_update)
      = Inr (Some [(''labels'', JObj [(''a'', JStr ''b'')]), (''sizeGb'', JStr ''9'')])"
    and i: "ParseNativeID ComputeNativeID (up_NativeID demo_disk_update) = Inr demo_disk_ctx"
    and url: "resource_url ?p (resource_context ?p (up_TargetConfig demo_disk_update) demo_disk_ctx) = Ok demo_disk_url"
    by (simp_all add: demo_disk_update_def demo_disk_parse demo_disk_context demo_disk_resource)
  have b: "setLabels_body [(''labels'', JObj [(''a'', JStr ''b'')]), (''sizeGb'', JStr ''9'')] [(''labelFingerprint'', JStr ''f1'')] = ?body"
    by (simp add: setLabels_body_def GetObject_def string_or_empty_def)
  obtain req where p: "SendRequest ?E demo_client (request_options ''POST'' (demo_disk_url @ ''/setLabels'') (Some ?body))
      (script_at [scripted 200 (JObj [])] [get])
      = (Inr \<lparr>rs_StatusCode = 200, rs_Body = Some [], rs_Headers = []\<rparr>, script_at [] [get, req])"
    using script_send [OF u(2) methods_ok(2), of "Some ?body" "[]" "[]" "[get]"] by auto
  have c: "b_Config ?p = demo_cfg" "b_NativeIDConfig ?p = ComputeNativeID" by (simp_all add: newDiskProvisioner_def)
  have "Disk_Update ?E ?p demo_disk_update ?s = send_labels ?E ?p demo_client demo_disk_update
      [(''labels'', JObj [(''a'', JStr ''b'')]), (''sizeGb'', JStr ''9'')]
      (resource_context ?p (up_TargetConfig demo_disk_update) demo_disk_ctx) demo_disk_url ?s"
    by (simp only: Disk_Update_def c demo_NewClient m i url prod.case sum.case outcome.case Let_def obj_of_Some)
  then have "sent s' = [get, req]" using w g p b by (auto simp: send_labels_def)
  moreover from disk_update_sets_labels [OF m i demo_NewClient url g w] this
  have "posts_to (demo_disk_url @ ''/setLabels'') (Some ?body) req"
    by (auto simp: GetObject_def GetString_def)
  ultimately show ?thesis using w by blast
qed

end
