(* ===== verification/Base64.thy ===== *)
theory Base64
  imports Codec
begin

text \<open>
  \<^verbatim>\<open>base64.RawURLEncoding\<close>: the URL-safe alphabet without padding. The decoder skips line ends and does
  not look at the bits left over in the last character, as Go's does outside strict mode. And
  \<^verbatim>\<open>base64.StdEncoding\<close>, which has two other characters and pads to a multiple of four.
\<close>

definition b64_char :: "nat \<Rightarrow> char" where
  "b64_char n =
     (if n < 26 then char_of (65 + n)
      else if n < 52 then char_of (71 + n)
      else if n < 62 then char_of (n - 4)
      else if n = 62 then CHR ''-'' else CHR ''_'')"

definition b64_value :: "char \<Rightarrow> nat option" where
  "b64_value c =
     (let n = of_char c :: nat
      in if 65 \<le> n \<and> n \<le> 90 then Some (n - 65)
         else if 97 \<le> n \<and> n \<le> 122 then Some (n - 71)
         else if 48 \<le> n \<and> n \<le> 57 then Some (n + 4)
         else if c = CHR ''-'' then Some 62
         else if c = CHR ''_'' then Some 63
         else None)"

abbreviation byte :: "char \<Rightarrow> nat" where "byte \<equiv> of_char"

fun EncodeToString :: "string \<Rightarrow> string" where
  "EncodeToString [] = []"
| "EncodeToString [a] = [b64_char (byte a div 4), b64_char (byte a mod 4 * 16)]"
| "EncodeToString [a, b] =
     [b64_char (byte a div 4), b64_char (byte a mod 4 * 16 + byte b div 16), b64_char (byte b mod 16 * 4)]"
| "EncodeToString (a # b # c # rest) =
     b64_char (byte a div 4) # b64_char (byte a mod 4 * 16 + byte b div 16)
       # b64_char (byte b mod 16 * 4 + byte c div 64) # b64_char (byte c mod 64) # EncodeToString rest"

fun decode_values :: "nat list \<Rightarrow> string option" where
  "decode_values [] = Some []"
| "decode_values [p] = None"
| "decode_values [p, q] = Some [char_of (p * 4 + q div 16)]"
| "decode_values [p, q, r] = Some [char_of (p * 4 + q div 16), char_of (q mod 16 * 16 + r div 4)]"
| "decode_values (p # q # r # t # rest) =
     map_option (\<lambda>s. char_of (p * 4 + q div 16) # char_of (q mod 16 * 16 + r div 4) # char_of (r mod 4 * 64 + t) # s)
       (decode_values rest)"

definition line_end :: "char \<Rightarrow> bool" where
  "line_end c \<longleftrightarrow> of_char c \<in> {10 :: nat, 13}"

definition DecodeString :: "string \<Rightarrow> string option" where
  "DecodeString s =
     (let vs = map b64_value (filter (\<lambda>c. \<not> line_end c) s)
      in if None \<in> set vs then None else decode_values (map the vs))"

lemma b64_value_char [simp]: "n < 64 \<Longrightarrow> b64_value (b64_char n) = Some n"
  by (auto simp: b64_char_def b64_value_def Let_def)

lemma b64_char_line [simp]: "n < 64 \<Longrightarrow> \<not> line_end (b64_char n)"
  by (auto simp: b64_char_def line_end_def)

lemma byte_bound: "byte c < 256"
  using range_nat_of_char by auto

lemma sextets:
  "byte a div 4 < 64" "byte a mod 4 * 16 < 64" "byte a mod 4 * 16 + byte b div 16 < 64"
  "byte b mod 16 * 4 < 64" "byte b mod 16 * 4 + byte c div 64 < 64" "byte c mod 64 < 64"
  using byte_bound [of a] byte_bound [of b] byte_bound [of c] by linarith+

lemma split_digits: "z < n \<Longrightarrow> (k * n + z) div n = k" "z < n \<Longrightarrow> (k * n + z) mod n = z" for k z n :: nat
  by simp_all

lemma octets:
  "byte a div 4 * 4 + (byte a mod 4 * 16 + byte b div 16) div 16 = byte a"
  "byte a div 4 * 4 + byte a mod 4 * 16 div 16 = byte a"
  "(byte a mod 4 * 16 + byte b div 16) mod 16 * 16 + (byte b mod 16 * 4 + byte c div 64) div 4 = byte b"
  "(byte a mod 4 * 16 + byte b div 16) mod 16 * 16 + byte b mod 16 * 4 div 4 = byte b"
  "(byte b mod 16 * 4 + byte c div 64) mod 4 * 64 + byte c mod 64 = byte c"
proof -
  have b: "byte b div 16 < 16" and c: "byte c div 64 < 4" using byte_bound [of b] byte_bound [of c] by linarith+
  show "byte a div 4 * 4 + (byte a mod 4 * 16 + byte b div 16) div 16 = byte a"
    "byte a div 4 * 4 + byte a mod 4 * 16 div 16 = byte a"
    "(byte a mod 4 * 16 + byte b div 16) mod 16 * 16 + (byte b mod 16 * 4 + byte c div 64) div 4 = byte b"
    "(byte a mod 4 * 16 + byte b div 16) mod 16 * 16 + byte b mod 16 * 4 div 4 = byte b"
    "(byte b mod 16 * 4 + byte c div 64) mod 4 * 64 + byte c mod 64 = byte c"
    unfolding split_digits [OF b] split_digits [OF c] by simp_all
qed

lemma DecodeString_Cons4:
  assumes "p < 64" "q < 64" "r < 64" "t < 64"
  shows "DecodeString (b64_char p # b64_char q # b64_char r # b64_char t # s) =
    map_option (\<lambda>u. char_of (p * 4 + q div 16) # char_of (q mod 16 * 16 + r div 4) # char_of (r mod 4 * 64 + t) # u)
      (DecodeString s)"
  using assms by (simp add: DecodeString_def Let_def)

lemma DecodeString_tail:
  "p < 64 \<Longrightarrow> q < 64 \<Longrightarrow> DecodeString [b64_char p, b64_char q] = Some [char_of (p * 4 + q div 16)]"
  "p < 64 \<Longrightarrow> q < 64 \<Longrightarrow> r < 64 \<Longrightarrow> DecodeString [b64_char p, b64_char q, b64_char r]
      = Some [char_of (p * 4 + q div 16), char_of (q mod 16 * 16 + r div 4)]"
  by (simp_all add: DecodeString_def Let_def)

lemma DecodeString_EncodeToString [simp]: "DecodeString (EncodeToString s) = Some s"
proof (induction s rule: EncodeToString.induct)
  case 1
  then show ?case by (simp add: DecodeString_def)
next
  case (2 a)
  then show ?case by (simp only: EncodeToString.simps DecodeString_tail sextets octets char_of_char)
next
  case (3 a b)
  then show ?case by (simp only: EncodeToString.simps DecodeString_tail sextets octets char_of_char)
next
  case (4 a b c rest)
  then show ?case by (simp only: EncodeToString.simps DecodeString_Cons4 sextets octets char_of_char option.map)
qed

interpretation base64: id_reader EncodeToString "\<lambda>s. case DecodeString s of Some v \<Rightarrow> Inr v | None \<Rightarrow> Inl ()" "\<lambda>_. True"
  by unfold_locales simp

section \<open>The standard encoding\<close>

definition std_char :: "char \<Rightarrow> char" where
  "std_char c = (if c = CHR ''-'' then CHR ''+'' else if c = CHR ''_'' then CHR ''/'' else c)"

definition url_char :: "char \<Rightarrow> char" where
  "url_char c = (if c = CHR ''+'' then CHR ''-'' else if c = CHR ''/'' then CHR ''_'' else c)"

definition StdEncodeToString :: "string \<Rightarrow> string" where
  "StdEncodeToString s = map std_char (EncodeToString s) @ replicate ((3 - length s mod 3) mod 3) CHR ''=''"

text \<open>Only the API decodes it: four characters at a time, the last ones padded, nothing of the other alphabet.\<close>

definition StdDecodeString :: "string \<Rightarrow> string option" where
  "StdDecodeString s =
     (let body = takeWhile (\<lambda>c. c \<noteq> CHR ''='') s
      in if 4 dvd length s \<and> drop (length body) s \<in> {[], ''='', ''==''} \<and> CHR ''-'' \<notin> set body \<and> CHR ''_'' \<notin> set body
         then DecodeString (map url_char body) else None)"

lemma b64_char_alphabet: "n < 64 \<Longrightarrow> b64_char n \<notin> {CHR ''+'', CHR ''/'', CHR ''=''}"
proof -
  assume "n < 64"
  then have "b64_value (b64_char n) \<noteq> None" by simp
  moreover have "\<forall>c \<in> {CHR ''+'', CHR ''/'', CHR ''=''}. b64_value c = None" by (simp add: b64_value_def)
  ultimately show ?thesis by metis
qed

lemma EncodeToString_chars: "set (EncodeToString s) \<subseteq> b64_char ` {..<64}"
  by (induction s rule: EncodeToString.induct)
    (simp_all only: EncodeToString.simps list.set insert_subset empty_subsetI imageI lessThan_iff sextets simp_thms)

lemma EncodeToString_alphabet: "c \<in> set (EncodeToString s) \<Longrightarrow> c \<notin> {CHR ''+'', CHR ''/'', CHR ''=''}"
proof -
  assume "c \<in> set (EncodeToString s)"
  then have "c \<in> b64_char ` {..<64}" using EncodeToString_chars by (rule rev_subsetD)
  then show ?thesis using b64_char_alphabet by (elim imageE) (simp only: lessThan_iff not_False_eq_True)
qed

lemma EncodeToString_length: "length (EncodeToString s) + (3 - length s mod 3) mod 3 = 4 * ((length s + 2) div 3)"
proof (induction s rule: EncodeToString.induct)
  case (4 a b c rest)
  have "(length (a # b # c # rest) + 2) div 3 = Suc ((length rest + 2) div 3)" by simp
  then show ?case using 4 by simp
qed auto

lemma StdDecodeString_StdEncodeToString [simp]: "StdDecodeString (StdEncodeToString s) = Some s"
proof -
  let ?body = "map std_char (EncodeToString s)" and ?pad = "replicate ((3 - length s mod 3) mod 3) CHR ''=''"
  have alphabet: "std_char c \<notin> {CHR ''='', CHR ''-'', CHR ''_''} \<and> url_char (std_char c) = c" if "c \<in> set (EncodeToString s)" for c
    using EncodeToString_alphabet [OF that] by (simp add: std_char_def url_char_def)
  then have body: "takeWhile (\<lambda>c. c \<noteq> CHR ''='') (StdEncodeToString s) = ?body"
    unfolding StdEncodeToString_def by (subst takeWhile_append2) (auto simp: takeWhile_replicate)
  have "?pad \<in> {[], ''='', ''==''}"
  proof -
    have "(3 - length s mod 3) mod 3 \<in> {0, 1, 2}" by auto
    then show ?thesis by (elim insertE) (simp_all only: replicate.simps numeral_2_eq_2 One_nat_def, simp_all)
  qed
  moreover have "map url_char ?body = EncodeToString s" using alphabet by (simp add: map_idI)
  moreover have "4 dvd length (StdEncodeToString s)" by (simp add: StdEncodeToString_def EncodeToString_length)
  moreover have "drop (length ?body) (StdEncodeToString s) = ?pad" by (simp add: StdEncodeToString_def)
  moreover have "CHR ''-'' \<notin> set ?body" "CHR ''_'' \<notin> set ?body" using alphabet by fastforce+
  ultimately show ?thesis unfolding StdDecodeString_def Let_def body by simp
qed

interpretation std_base64: id_reader StdEncodeToString "\<lambda>s. case StdDecodeString s of Some v \<Rightarrow> Inr v | None \<Rightarrow> Inl ()" "\<lambda>_. True"
  by unfold_locales simp

end
