(* ===== verification/Instance_Group.thy ===== *)
theory Instance_Group
  imports Compute_Verbs Compute_Types Base64
begin

text \<open>
  Unmanaged instance groups (\<^verbatim>\<open>src/pkg/resources/compute/instance_group.go\<close>). The group is an object of
  the API, its members are not: they are listed, added and removed by verbs, each of which starts an
  operation. Create and Update only record the wanted members in the request ID they answer; Status
  drives the group there, one verb per poll, deciding each time from what the API reports.

  The request ID carries the plan as JSON in base64. The text of JSON is not modelled, so writing and
  reading it are the fields of \<open>json_codec\<close>.
\<close>

record json_codec =
  jc_text :: "json \<Rightarrow> string"
  jc_read :: "string \<Rightarrow> raw"

section \<open>Membership\<close>

definition rawPageMembers :: "obj \<Rightarrow> string list" where
  "rawPageMembers body =
     filter (\<lambda>url. url \<noteq> []) (map (\<lambda>item. GetString item ''instance'') (objects (array_of body ''items'')))"

definition membersFromListInstancesResponse :: "obj \<Rightarrow> string list" where
  "membersFromListInstancesResponse body = sort (rawPageMembers body)"

definition diffMembers :: "string list \<Rightarrow> string list \<Rightarrow> string list \<times> string list" where
  "diffMembers desired current =
     (sort (filter (\<lambda>d. d \<notin> set current) desired), sort (filter (\<lambda>c. c \<notin> set desired) current))"

definition instancesVerbBody :: "string list \<Rightarrow> obj" where
  "instancesVerbBody urls = [(''instances'', JArr (map (\<lambda>u. JObj [(''instance'', JStr u)]) urls))]"

definition nil_array :: "json list option \<Rightarrow> json" where
  "nil_array xs = (case xs of None \<Rightarrow> JNull | Some ys \<Rightarrow> JArr ys)"

definition setNamedPortsBody :: "json list option \<Rightarrow> string \<Rightarrow> obj" where
  "setNamedPortsBody namedPorts fingerprint =
     [(''namedPorts'', nil_array namedPorts), (''fingerprint'', JStr fingerprint)]"

definition desiredMembers :: "obj \<Rightarrow> string list option" where
  "desiredMembers props =
     (let out = sort (filter (\<lambda>s. s \<noteq> []) (strings (array_of props ''instances'')))
      in if out = [] then None else Some out)"

definition mergeMembershipIntoProps :: "obj option \<Rightarrow> string list \<Rightarrow> (goerr, obj option) outcome" where
  "mergeMembershipIntoProps props members =
     (if members = [] then Ok (map_option (AList.delete ''instances'') props)
      else assign props ''instances'' (JArr (map JStr (sort members))))"

definition stripProviderEchoedFields :: "obj option \<Rightarrow> obj option" where
  "stripProviderEchoedFields props = map_option (without [''network'', ''subnetwork'']) props"

definition stripInstancesForInsert :: request_transformer where
  "stripInstancesForInsert props ctx = Ok (Some (without [''instances''] (obj_of props)))"

section \<open>Named ports\<close>

lemma size_in_zip: "(a, b) \<in> set (zip xs ys) \<Longrightarrow> size a < size (JArr xs)"
  using set_zip_leftD size_in_arr by metis

text \<open>\<^verbatim>\<open>reflect.DeepEqual\<close> on decoded values: maps are compared by key.\<close>

function deep_equal :: "json \<Rightarrow> json \<Rightarrow> bool" where
  "deep_equal (JObj a) v =
     (case v of JObj b \<Rightarrow> length a = length b
        \<and> list_all (\<lambda>(k, x). case map_of b k of Some y \<Rightarrow> deep_equal x y | None \<Rightarrow> False) a
      | _ \<Rightarrow> False)"
| "deep_equal (JArr xs) v =
     (case v of JArr ys \<Rightarrow> length xs = length ys \<and> list_all (\<lambda>(x, y). deep_equal x y) (zip xs ys) | _ \<Rightarrow> False)"
| "deep_equal JNull v = (v = JNull)"
| "deep_equal (JBool b) v = (v = JBool b)"
| "deep_equal (JNum m k) v = (v = JNum m k)"
| "deep_equal (JInt i) v = (v = JInt i)"
| "deep_equal (JInt64 i) v = (v = JInt64 i)"
| "deep_equal (JNumber s) v = (v = JNumber s)"
| "deep_equal (JStr s) v = (v = JStr s)"
  by pat_completeness auto
termination
  by (relation "measure (\<lambda>(x, y). size x)") (auto dest: size_in_obj size_in_zip)

definition namedPortMap :: "json list \<Rightarrow> obj" where
  "namedPortMap ports =
     foldl (\<lambda>m p. AList.update (GetString p ''name'')
               (case map_of p ''port'' of Some v \<Rightarrow> v | None \<Rightarrow> JNull) m) [] (objects ports)"

definition namedPortsEqual :: "json list option \<Rightarrow> json list option \<Rightarrow> bool" where
  "namedPortsEqual a b =
     (let xs = (case a of None \<Rightarrow> [] | Some x \<Rightarrow> x); ys = (case b of None \<Rightarrow> [] | Some y \<Rightarrow> y)
      in length xs = length ys \<and> deep_equal (JObj (namedPortMap xs)) (JObj (namedPortMap ys)))"

section \<open>The plan in the request ID\<close>

definition igmDelim :: string where "igmDelim = ''|igm=''"

record reconcilePlan =
  rp_M :: "string list option"
  rp_NP :: "json list option"

definition plan_json :: "reconcilePlan \<Rightarrow> json" where
  "plan_json p = JObj [(''m'', nil_array (map_option (map JStr) (rp_M p))), (''np'', nil_array (rp_NP p))]"

definition encodeReconcile :: "json_codec \<Rightarrow> string \<Rightarrow> reconcilePlan \<Rightarrow> string" where
  "encodeReconcile J opPath p = opPath @ igmDelim @ EncodeToString (jc_text J (plan_json p))"

text \<open>Decoding into the struct: a null leaves the zero value, and an element of the wrong type is an error.\<close>

fun field_members :: "json option \<Rightarrow> string list option option" where
  "field_members None = Some None"
| "field_members (Some JNull) = Some None"
| "field_members (Some (JArr xs)) = map_option Some (string_elements xs)"
| "field_members (Some _) = None"

fun field_ports :: "json option \<Rightarrow> json list option option" where
  "field_ports None = Some None"
| "field_ports (Some JNull) = Some None"
| "field_ports (Some (JArr xs)) = Some (Some xs)"
| "field_ports (Some _) = None"

fun read_plan :: "raw \<Rightarrow> reconcilePlan option" where
  "read_plan (RawDoc (JObj m)) =
     (case (field_members (struct_field m ''m''), field_ports (struct_field m ''np'')) of
        (Some ms, Some ps) \<Rightarrow> Some \<lparr>rp_M = ms, rp_NP = ps\<rparr>
      | _ \<Rightarrow> None)"
| "read_plan (RawDoc JNull) = Some \<lparr>rp_M = None, rp_NP = None\<rparr>"
| "read_plan _ = None"

definition decodeReconcile :: "json_codec \<Rightarrow> string \<Rightarrow> string \<times> reconcilePlan option" where
  "decodeReconcile J requestID =
     (case Index requestID igmDelim of
        None \<Rightarrow> (requestID, None)
      | Some i \<Rightarrow>
          (take i requestID,
           case DecodeString (drop (i + length igmDelim) requestID) of
             None \<Rightarrow> None
           | Some text \<Rightarrow> read_plan (jc_read J text)))"

section \<open>Requests\<close>

definition newInstanceGroupProvisioner :: "Config option \<Rightarrow> 'w BaseResource" where
  "newInstanceGroupProvisioner cfg =
     \<lparr>b_Config = cfg, b_APIConfig = ComputeAPI, b_OperationConfig = ComputeOperations,
      b_ResourceConfig = zero_resource\<lparr>rc_ResourceType := ''instanceGroups'', rc_Scope := Some ScopeZonal,
        rc_SupportsUpdate := True\<rparr>,
      b_NativeIDConfig = ComputeNativeID, b_RequestTransformer = Some stripInstancesForInsert,
      b_ResponseTransformer = Some ZoneResponseTransformer\<rparr>"

definition unmanaged_groupURL :: "'w BaseResource \<Rightarrow> raw \<Rightarrow> string \<Rightarrow> (goerr, string \<times> PathContext) outcome" where
  "unmanaged_groupURL p targetConfig nativeID =
     (case ParseNativeID (b_NativeIDConfig p) nativeID of
        Inl e \<Rightarrow> Err e
      | Inr ctx0 \<Rightarrow>
          (let ctx = resource_context p targetConfig ctx0
           in bind_outcome (resource_url p ctx) (\<lambda>url. Ok (url, ctx))))"

definition group_issueVerb ::
    "'w env \<Rightarrow> 'w BaseResource \<Rightarrow> Client \<Rightarrow> string \<Rightarrow> obj \<Rightarrow> PathContext \<Rightarrow> ('w, string) op" where
  "group_issueVerb E p client verbURL body ctx s =
     (case SendRequest E client (request_options ''POST'' verbURL (Some body)) s of
        (Inl e, s1) \<Rightarrow> (Err (terror_err (wrap_err e ''instance group verb failed'')), s1)
      | (Inr resp, s1) \<Rightarrow>
          (bind_outcome (call_operation_id p (rs_Body resp)) (call_operation_url p ctx), s1))"

text \<open>
  The loop over the pages of the member list. Nothing bounds it but the API, which ends it with an
  empty token; \<^const>\<open>None\<close> is a loop that never ends.
\<close>

definition page_of :: "string \<Rightarrow> string \<Rightarrow> goerr + string" where
  "page_of url pageToken = (if pageToken = [] then Inr url else AddQueryParam url ''pageToken'' pageToken)"

definition list_request :: "string \<Rightarrow> RequestOptions" where
  "list_request url = request_options ''POST'' url (Some [(''instanceState'', JStr ''ALL'')])"

partial_function (option) list_pages ::
    "'w env \<Rightarrow> Client \<Rightarrow> string \<Rightarrow> string \<Rightarrow> string list \<Rightarrow> 'w machine
      \<Rightarrow> ((goerr + string list) \<times> 'w machine) option" where
  "list_pages E client url pageToken found s =
     (case page_of url pageToken of
        Inl e \<Rightarrow> Some (Inl e, s)
      | Inr u \<Rightarrow>
          (case SendRequest E client (list_request u) s of
             (Inl e, s1) \<Rightarrow>
               (let te = wrap_err e ''failed to list instance group members''
                in if ToResourceErrorCode (te_Code te) = NotFound then Some (Inr (sort found), s1)
                   else Some (Inl (terror_err te), s1))
           | (Inr resp, s1) \<Rightarrow>
               (let body = obj_of (rs_Body resp); found1 = found @ rawPageMembers body;
                    token = GetString body ''nextPageToken''
                in if token = [] then Some (Inr (sort found1), s1)
                   else list_pages E client url token found1 s1)))"

definition listMembers ::
    "'w env \<Rightarrow> Client \<Rightarrow> string \<Rightarrow> 'w machine \<Rightarrow> ((goerr + string list) \<times> 'w machine) option" where
  "listMembers E client url s = list_pages E client (url @ ''/listInstances'') [] [] s"

section \<open>Operations\<close>

definition group_properties :: "ReadResult \<Rightarrow> string list \<Rightarrow> (goerr, ReadResult) outcome" where
  "group_properties res members =
     (case unmarshal_map (case rr_Properties res of None \<Rightarrow> RawNil | Some r \<Rightarrow> r) of
        Inl e \<Rightarrow> Err (errorf_w ''failed to parse base read properties: '' (ErrText e))
      | Inr props \<Rightarrow>
          bind_outcome (mergeMembershipIntoProps (stripProviderEchoedFields props) members) (\<lambda>m.
            case Marshal (map_value m) of
              Inl e \<Rightarrow> Err (errorf_w ''failed to marshal properties: '' (ErrText e))
            | Inr r \<Rightarrow> Ok (read_properties r)))"

definition Group_Read ::
    "'w env \<Rightarrow> 'w BaseResource \<Rightarrow> ReadRequest \<Rightarrow> 'w machine \<Rightarrow> ((goerr, ReadResult) outcome \<times> 'w machine) option" where
  "Group_Read E p request s =
     (case Read E p request s of
        (Err e, s1) \<Rightarrow> Some (Err e, s1)
      | (Panic m, s1) \<Rightarrow> Some (Panic m, s1)
      | (Ok res, s1) \<Rightarrow>
          if rr_ErrorCode res \<noteq> NoErrorCode then Some (Ok res, s1)
          else (case NewClient E (b_Config p) s1 of
             (Inl e, s2) \<Rightarrow> Some (Err (client_error e), s2)
           | (Inr client, s2) \<Rightarrow>
               (case unmanaged_groupURL p (rd_TargetConfig request) (rd_NativeID request) of
                  Err e \<Rightarrow> Some (Ok (read_error InvalidRequest), s2)
                | Panic m \<Rightarrow> Some (Panic m, s2)
                | Ok (url, ctx) \<Rightarrow>
                    (case listMembers E client url s2 of
                       None \<Rightarrow> None
                     | Some (Inl e, s3) \<Rightarrow> Some (Ok (read_error ServiceInternalError), s3)
                     | Some (Inr members, s3) \<Rightarrow> Some (group_properties res members, s3)))))"

definition plan_of :: "obj \<Rightarrow> reconcilePlan" where
  "plan_of props = \<lparr>rp_M = desiredMembers props, rp_NP = GetArray props ''namedPorts''\<rparr>"

definition Group_Create ::
    "'w env \<Rightarrow> json_codec \<Rightarrow> 'w BaseResource \<Rightarrow> CreateRequest \<Rightarrow> ('w, ProgressResult) op" where
  "Group_Create E J p request s =
     (case unmarshal_map (cr_Properties request) of
        Inl e \<Rightarrow> (Ok (nat_failure OperationCreate InvalidRequest (''invalid properties: '' @ e)), s)
      | Inr props \<Rightarrow>
          (case Create E p request s of
             (Err e, s1) \<Rightarrow> (Err e, s1)
           | (Panic m, s1) \<Rightarrow> (Panic m, s1)
           | (Ok r, s1) \<Rightarrow>
               if pr_Status r = OperationStatusFailure then (Ok r, s1)
               else (Ok (r\<lparr>pr_RequestID := encodeReconcile J (pr_RequestID r) (plan_of (obj_of props)),
                           pr_Message := ''instance group creation in progress''\<rparr>), s1)))"

definition Group_Update :: "json_codec \<Rightarrow> UpdateRequest \<Rightarrow> ('w, ProgressResult) op" where
  "Group_Update J request s =
     (case unmarshal_map (up_DesiredProperties request) of
        Inl e \<Rightarrow> (Ok (nat_failure OperationUpdate InvalidRequest (''invalid desired properties: '' @ e)), s)
      | Inr desired \<Rightarrow>
          (Ok ((progress OperationUpdate OperationStatusInProgress)
                 \<lparr>pr_NativeID := up_NativeID request,
                  pr_RequestID := encodeReconcile J [] (plan_of (obj_of desired)),
                  pr_Message := ''instance group reconcile pending''\<rparr>), s))"

definition Group_Delete :: "'w env \<Rightarrow> 'w BaseResource \<Rightarrow> DeleteRequest \<Rightarrow> ('w, ProgressResult) op" where
  "Group_Delete E p request = Delete E p request"

definition Group_List :: "'w env \<Rightarrow> 'w BaseResource \<Rightarrow> ListRequest \<Rightarrow> ('w, ListResult) op" where
  "Group_List E p request = List E p request"

section \<open>Status\<close>

definition statusInProgress :: "StatusRequest \<Rightarrow> string \<Rightarrow> ProgressResult" where
  "statusInProgress request msg =
     (progress OperationCheckStatus OperationStatusInProgress)
       \<lparr>pr_NativeID := st_NativeID request, pr_RequestID := st_RequestID request, pr_Message := msg\<rparr>"

definition statusFailure :: "StatusRequest \<Rightarrow> OperationErrorCode \<Rightarrow> string \<Rightarrow> ProgressResult" where
  "statusFailure request code msg =
     (progress OperationCheckStatus OperationStatusFailure)
       \<lparr>pr_ErrorCode := code, pr_Message := msg, pr_NativeID := st_NativeID request, pr_RequestID := st_RequestID request\<rparr>"

definition statusSuccess ::
    "'w env \<Rightarrow> 'w BaseResource \<Rightarrow> StatusRequest \<Rightarrow> 'w machine
      \<Rightarrow> ((goerr, ProgressResult) outcome \<times> 'w machine) option" where
  "statusSuccess E p request s =
     (let r = (progress OperationCheckStatus OperationStatusSuccess)
                \<lparr>pr_NativeID := st_NativeID request, pr_Message := ''instance group reconcile completed''\<rparr>
      in case Group_Read E p (status_read_request request (st_NativeID request)) s of
           None \<Rightarrow> None
         | Some (Panic m, s1) \<Rightarrow> Some (Panic m, s1)
         | Some (Err e, s1) \<Rightarrow> Some (Ok r, s1)
         | Some (Ok rr, s1) \<Rightarrow>
             Some (Ok (if rr_ErrorCode rr = NoErrorCode
                       then r\<lparr>pr_Properties := Some (case rr_Properties rr of None \<Rightarrow> RawNil | Some q \<Rightarrow> q)\<rparr>
                       else r), s1))"

text \<open>The wait for the pending operation: \<open>Ok None\<close> when there is nothing left to wait for.\<close>

definition group_wait ::
    "'w env \<Rightarrow> 'w BaseResource \<Rightarrow> Client \<Rightarrow> StatusRequest \<Rightarrow> string \<Rightarrow> ('w, ProgressResult option) op" where
  "group_wait E p client request opPath s =
     (if opPath = [] then (Ok None, s)
      else case SendRequest E client
                  (request_options ''GET'' (ac_BaseURL (b_APIConfig p) @ ''/'' @ opPath) None) s of
        (Inl e, s1) \<Rightarrow>
          (let te = wrap_err e ''failed to get operation status''
           in (Ok (Some (statusFailure request (ToResourceErrorCode (te_Code te)) (te_Message te))), s1))
      | (Inr resp, s1) \<Rightarrow>
          (case oc_OperationStatusChecker (b_OperationConfig p) of
             None \<Rightarrow> (Panic nil_panic, s1)
           | Some check \<Rightarrow>
               (case check (obj_of (rs_Body resp)) of
                  (completed, Some e) \<Rightarrow> (Ok (Some (statusFailure request ServiceInternalError (err_text e))), s1)
                | (completed, None) \<Rightarrow>
                    (Ok (if completed then None else Some (statusInProgress request ''operation in progress'')), s1))))"

definition the_members :: "reconcilePlan \<Rightarrow> string list" where
  "the_members plan = (case rp_M plan of None \<Rightarrow> [] | Some ms \<Rightarrow> ms)"

text \<open>The one verb that is due, if the group is not what the plan says.\<close>

definition due_verb :: "reconcilePlan \<Rightarrow> string list \<Rightarrow> obj \<Rightarrow> (string \<times> obj) option" where
  "due_verb plan current grp =
     (case diffMembers (the_members plan) current of
        (toAdd, toRemove) \<Rightarrow>
          if toAdd \<noteq> [] then Some (''/addInstances'', instancesVerbBody toAdd)
          else if toRemove \<noteq> [] then Some (''/removeInstances'', instancesVerbBody toRemove)
          else if \<not> namedPortsEqual (rp_NP plan) (GetArray grp ''namedPorts'')
          then Some (''/setNamedPorts'', setNamedPortsBody (rp_NP plan) (GetString grp ''fingerprint''))
          else None)"

definition group_reconcile ::
    "'w env \<Rightarrow> json_codec \<Rightarrow> 'w BaseResource \<Rightarrow> Client \<Rightarrow> StatusRequest \<Rightarrow> reconcilePlan \<Rightarrow> string \<Rightarrow> PathContext
      \<Rightarrow> 'w machine \<Rightarrow> ((goerr, ProgressResult) outcome \<times> 'w machine) option" where
  "group_reconcile E J p client request plan url ctx s =
     (case listMembers E client url s of
        None \<Rightarrow> None
      | Some (Inl e, s1) \<Rightarrow> Some (Ok (statusFailure request ServiceInternalError (err_text e)), s1)
      | Some (Inr current, s1) \<Rightarrow>
          (case SendRequest E client (request_options ''GET'' url None) s1 of
             (Inl e, s2) \<Rightarrow>
               (let te = wrap_err e ''failed to read instance group''
                in Some (Ok (statusFailure request (ToResourceErrorCode (te_Code te)) (te_Message te)), s2))
           | (Inr getResp, s2) \<Rightarrow>
               (case due_verb plan current (obj_of (rs_Body getResp)) of
                  None \<Rightarrow> statusSuccess E p request s2
                | Some (verb, body) \<Rightarrow>
                    (case group_issueVerb E p client (url @ verb) body ctx s2 of
                       (Panic m, s3) \<Rightarrow> Some (Panic m, s3)
                     | (Err e, s3) \<Rightarrow> Some (Ok (statusFailure request ServiceInternalError (err_text e)), s3)
                     | (Ok newOp, s3) \<Rightarrow>
                         Some (Ok ((progress OperationCheckStatus OperationStatusInProgress)
                             \<lparr>pr_NativeID := st_NativeID request, pr_RequestID := encodeReconcile J newOp plan,
                              pr_Message := ''instance group reconcile in progress''\<rparr>), s3)))))"

definition Group_Status ::
    "'w env \<Rightarrow> json_codec \<Rightarrow> 'w BaseResource \<Rightarrow> StatusRequest \<Rightarrow> 'w machine
      \<Rightarrow> ((goerr, ProgressResult) outcome \<times> 'w machine) option" where
  "Group_Status E J p request s =
     (case decodeReconcile J (st_RequestID request) of
        (opPath, None) \<Rightarrow> Some (Status E p request s)
      | (opPath, Some plan) \<Rightarrow>
          (case NewClient E (b_Config p) s of
             (Inl e, s1) \<Rightarrow> Some (Err (client_error e), s1)
           | (Inr client, s1) \<Rightarrow>
               (case unmanaged_groupURL p (st_TargetConfig request) (st_NativeID request) of
                  Err e \<Rightarrow> Some (Ok (statusFailure request InvalidRequest (err_text e)), s1)
                | Panic m \<Rightarrow> Some (Panic m, s1)
                | Ok (url, ctx) \<Rightarrow>
                    (case group_wait E p client request opPath s1 of
                       (Err e, s2) \<Rightarrow> Some (Err e, s2)
                     | (Panic m, s2) \<Rightarrow> Some (Panic m, s2)
                     | (Ok (Some r), s2) \<Rightarrow> Some (Ok r, s2)
                     | (Ok None, s2) \<Rightarrow> group_reconcile E J p client request plan url ctx s2))))"

section \<open>The request ID keeps the plan\<close>

text \<open>What the code relies on of \<^verbatim>\<open>encoding/json\<close>: a plan that was written is read back.\<close>

definition json_keeps :: "json_codec \<Rightarrow> reconcilePlan \<Rightarrow> bool" where
  "json_keeps J plan \<longleftrightarrow> jc_read J (jc_text J (plan_json plan)) = RawDoc (plan_json plan)"

lemma string_elements_JStr [simp]: "string_elements (map JStr ss) = Some ss"
  by (induction ss) auto

lemma read_plan_json [simp]: "read_plan (RawDoc (plan_json plan)) = Some plan"
proof -
  have f: "struct_field [(''m'', x), (''np'', y)] ''m'' = Some x" "struct_field [(''m'', x), (''np'', y)] ''np'' = Some y"
    for x y by (simp_all add: struct_field_def ToLower_def lower_char_def)
  have "field_members (Some (nil_array (map_option (map JStr) m))) = Some m" for m
    by (cases m) (simp_all add: nil_array_def)
  moreover have "field_ports (Some (nil_array np)) = Some np" for np
    by (cases np) (simp_all add: nil_array_def)
  ultimately show ?thesis by (simp add: plan_json_def f)
qed

lemma Index_delim:
  assumes "CHR ''|'' \<notin> set op"
  shows "Index (op @ igmDelim @ rest) igmDelim = Some (length op)"
  using assms by (induction op) (auto simp: igmDelim_def)

lemma decode_encode:
  assumes "CHR ''|'' \<notin> set op" and "json_keeps J plan"
  shows "decodeReconcile J (encodeReconcile J op plan) = (op, Some plan)"
  using assms Index_delim [OF assms(1)]
  by (simp add: decodeReconcile_def encodeReconcile_def json_keeps_def igmDelim_def)

interpretation plan_reader: id_reader "\<lambda>(op, plan). encodeReconcile J op plan"
    "\<lambda>s. case decodeReconcile J s of (op, Some plan) \<Rightarrow> Inr (op, plan) | (op, None) \<Rightarrow> Inl op"
    "\<lambda>(op, plan). CHR ''|'' \<notin> set op \<and> json_keeps J plan" for J
  by unfold_locales (auto simp: decode_encode)

section \<open>Reconciliation\<close>

lemma diffMembers_sets:
  "set (fst (diffMembers desired current)) = set desired - set current"
  "set (snd (diffMembers desired current)) = set current - set desired"
  by (auto simp: diffMembers_def)

lemma due_verb_None:
  "due_verb plan current grp = None \<longleftrightarrow>
     set current = set (the_members plan) \<and> namedPortsEqual (rp_NP plan) (GetArray grp ''namedPorts'')"
proof -
  obtain a r where d: "diffMembers (the_members plan) current = (a, r)" by (metis surj_pair)
  have "set a = set (the_members plan) - set current" "set r = set current - set (the_members plan)"
    using diffMembers_sets [of "the_members plan" current] d by simp_all
  then have "a = [] \<and> r = [] \<longleftrightarrow> set current = set (the_members plan)" by (auto simp: set_empty [symmetric])
  then show ?thesis using d by (auto simp: due_verb_def)
qed

lemma deep_equal_refl: "decoded v \<Longrightarrow> deep_equal v v"
proof (induction v rule: decoded.induct)
  case (1 m)
  then have "map_of m k = Some x" if "(k, x) \<in> set m" for k x using that by simp
  then show ?case using 1 by (fastforce simp: list_all_iff)
next
  case (2 xs)
  then show ?case by (auto simp: list_all_iff zip_same_conv_map)
qed simp_all

definition ports_ok :: "reconcilePlan \<Rightarrow> bool" where
  "ports_ok plan \<longleftrightarrow> decoded (JArr (case rp_NP plan of None \<Rightarrow> [] | Some ps \<Rightarrow> ps))"

lemma decoded_update: "decoded (JObj m) \<Longrightarrow> decoded v \<Longrightarrow> decoded (JObj (AList.update k v m))"
proof -
  assume "decoded (JObj m)" "decoded v"
  then have "distinct (map fst (AList.update k v m))" by (simp add: distinct_update)
  moreover have "set (AList.update k v m) \<subseteq> insert (k, v) (set m)" by (induction m) auto
  ultimately show ?thesis using \<open>decoded (JObj m)\<close> \<open>decoded v\<close> by (auto simp: list_all_iff)
qed

lemma in_objects: "m \<in> set (objects xs) \<longleftrightarrow> JObj m \<in> set xs"
proof (induction xs)
  case (Cons x xs)
  then show ?case by (cases x) (auto simp: objects_def)
qed (simp add: objects_def)

lemma in_strings: "u \<in> set (strings xs) \<longleftrightarrow> JStr u \<in> set xs"
proof (induction xs)
  case (Cons x xs)
  then show ?case by (cases x) (auto simp: strings_def)
qed (simp add: strings_def)

lemma decoded_namedPortMap: "decoded (JArr ports) \<Longrightarrow> decoded (JObj (namedPortMap ports))"
proof -
  assume ports: "decoded (JArr ports)"
  have "decoded (JObj m)" if "m \<in> set (objects ports)" for m
    using that ports in_objects [of m ports] by (simp add: list_all_iff del: decoded.simps(1))
  then have port: "decoded (case map_of m ''port'' of Some v \<Rightarrow> v | None \<Rightarrow> JNull)" if "m \<in> set (objects ports)" for m
    using that by (auto simp: list_all_iff split: option.split dest!: map_of_SomeD)
  have "decoded (JObj acc) \<Longrightarrow> (\<And>m. m \<in> set ms \<Longrightarrow> decoded (case map_of m ''port'' of Some v \<Rightarrow> v | None \<Rightarrow> JNull)) \<Longrightarrow>
      decoded (JObj (foldl (\<lambda>m p. AList.update (GetString p ''name'')
               (case map_of p ''port'' of Some v \<Rightarrow> v | None \<Rightarrow> JNull) m) acc ms))" for acc ms
    by (induction ms arbitrary: acc) (simp_all add: decoded_update del: decoded.simps)
  from this [of "[]" "objects ports"] show ?thesis using port unfolding namedPortMap_def by simp
qed

lemma namedPortsEqual_same:
  assumes "ports_ok plan"
  shows "namedPortsEqual (rp_NP plan) (Some (case rp_NP plan of None \<Rightarrow> [] | Some ps \<Rightarrow> ps))"
  using deep_equal_refl [OF decoded_namedPortMap [OF assms [unfolded ports_ok_def]]]
  by (simp add: namedPortsEqual_def Let_def del: deep_equal.simps)

text \<open>
  What a poll sees of a group: the members listed and the object read. A poll sees a group if its plan decodes, its
  pending operation is over and both reads are answered.
\<close>

type_synonym group_view = "string list \<times> obj"

definition reconciled :: "reconcilePlan \<Rightarrow> group_view \<Rightarrow> bool" where
  "reconciled plan v \<longleftrightarrow> set (fst v) = set (the_members plan) \<and> namedPortsEqual (rp_NP plan) (GetArray (snd v) ''namedPorts'')"

definition poll_sees ::
    "'w env \<Rightarrow> json_codec \<Rightarrow> ('w \<times> http_request list) BaseResource \<Rightarrow> reconcilePlan \<Rightarrow> string \<Rightarrow> group_view
      \<Rightarrow> StatusRequest \<Rightarrow> ('w \<times> http_request list) machine \<Rightarrow> bool" where
  "poll_sees E J p plan url v request s \<longleftrightarrow>
     (\<exists>opPath client s0 ctx s1 s2 getResp s3. decodeReconcile J (st_RequestID request) = (opPath, Some plan)
        \<and> NewClient (logged E) (b_Config p) s = (Inr client, s0)
        \<and> unmanaged_groupURL p (st_TargetConfig request) (st_NativeID request) = Ok (url, ctx)
        \<and> group_wait (logged E) p client request opPath s0 = (Ok None, s1)
        \<and> listMembers (logged E) client url s1 = Some (Inr (fst v), s2)
        \<and> SendRequest (logged E) client (request_options ''GET'' url None) s2 = (Inr getResp, s3)
        \<and> snd v = obj_of (rs_Body getResp))"

text \<open>
  What the Compute API documents of the three verbs, as the effect of a request on what a later poll sees: the
  members named are added or removed and the ports kept, or the ports are replaced and the members kept. The API
  itself is the parameter \<open>applies\<close>: which views may follow a request once its operation is over.
\<close>

definition port_list :: "obj \<Rightarrow> json list" where
  "port_list g = (case GetArray g ''namedPorts'' of None \<Rightarrow> [] | Some ps \<Rightarrow> ps)"

definition documented_effect :: "string \<Rightarrow> http_request \<Rightarrow> group_view \<Rightarrow> group_view \<Rightarrow> bool" where
  "documented_effect url req v v' \<longleftrightarrow>
     (\<forall>us. posts_to (url @ ''/addInstances'') (Some (instancesVerbBody us)) req \<longrightarrow>
        set (fst v') = set (fst v) \<union> set us \<and> port_list (snd v') = port_list (snd v))
     \<and> (\<forall>us. posts_to (url @ ''/removeInstances'') (Some (instancesVerbBody us)) req \<longrightarrow>
        set (fst v') = set (fst v) - set us \<and> port_list (snd v') = port_list (snd v))
     \<and> (\<forall>np f. posts_to (url @ ''/setNamedPorts'') (Some (setNamedPortsBody np f)) req \<longrightarrow>
        set (fst v') = set (fst v) \<and> port_list (snd v') = (case np of None \<Rightarrow> [] | Some ps \<Rightarrow> ps))"

definition group_api :: "string \<Rightarrow> (http_request \<Rightarrow> group_view \<Rightarrow> group_view \<Rightarrow> bool) \<Rightarrow> bool" where
  "group_api url applies \<longleftrightarrow> (\<forall>req v v'. applies req v v' \<longrightarrow> documented_effect url req v v')"

text \<open>
  One round of a reconciliation: a poll sees the group, Status answers that it is in progress, and the next poll sees what
  the API made of the last request Status sent.
\<close>

inductive group_step for E J p plan url applies where
  round: "\<lbrakk>poll_sees E J p plan url v request s; Group_Status (logged E) J p request s = Some (Ok r, t);
     pr_Status r = OperationStatusInProgress; applies (last (sent t)) v v'\<rbrakk> \<Longrightarrow> group_step E J p plan url applies v v'"

inductive_cases group_stepE: "group_step E J p plan url applies v v'"

lemma due_verb_reconciled: "due_verb plan (fst v) (snd v) = None \<longleftrightarrow> reconciled plan v"
  unfolding due_verb_None reconciled_def ..

lemma group_issueVerb_sent:
  assumes "group_issueVerb (logged E) p client url body ctx s = (Ok op, s')"
  shows "sent s' \<noteq> [] \<and> posts_to url (Some body) (last (sent s'))"
proof -
  obtain a s1 where a: "SendRequest (logged E) client (request_options ''POST'' url (Some body)) s = (a, s1)" by (metis surj_pair)
  then have "s' = s1 \<and> (\<exists>response. a = Inr response)" using assms by (auto simp: group_issueVerb_def split: sum.splits)
  then show ?thesis using SendRequest_logged [OF a] sends_posts by auto
qed

text \<open>What Status does with the group it sees: nothing but success if it is reconciled, otherwise the verb that is due.\<close>

lemma poll_answers:
  assumes "poll_sees E J p plan url v request s" and "Group_Status (logged E) J p request s = Some (Ok r, t)"
  shows "if reconciled plan v then pr_Status r = OperationStatusSuccess
    else pr_Status r = OperationStatusFailure \<or> pr_Status r = OperationStatusInProgress
      \<and> (\<exists>verb body. due_verb plan (fst v) (snd v) = Some (verb, body) \<and> posts_to (url @ verb) (Some body) (last (sent t)))"
proof -
  from assms(1) obtain client ctx s3 where run: "(case due_verb plan (fst v) (snd v) of
        None \<Rightarrow> statusSuccess (logged E) p request s3
      | Some (verb, body) \<Rightarrow>
          (case group_issueVerb (logged E) p client (url @ verb) body ctx s3 of
             (Panic m, s3) \<Rightarrow> Some (Panic m, s3)
           | (Err e, s3) \<Rightarrow> Some (Ok (statusFailure request ServiceInternalError (err_text e)), s3)
           | (Ok newOp, s3) \<Rightarrow>
               Some (Ok ((progress OperationCheckStatus OperationStatusInProgress)
                   \<lparr>pr_NativeID := st_NativeID request, pr_RequestID := encodeReconcile J newOp plan,
                    pr_Message := ''instance group reconcile in progress''\<rparr>), s3))) = Some (Ok r, t)"
    using assms(2) unfolding poll_sees_def by (auto simp: Group_Status_def group_reconcile_def)
  show ?thesis
  proof (cases "due_verb plan (fst v) (snd v)")
    case None
    then have "statusSuccess (logged E) p request s3 = Some (Ok r, t)" using run by simp
    then have "pr_Status r = OperationStatusSuccess"
      by (auto simp: statusSuccess_def Let_def split: option.splits prod.splits outcome.splits)
    then show ?thesis using None due_verb_reconciled [of plan v] by simp
  next
    case (Some x)
    obtain verb body where x: "x = (verb, body)" by (metis surj_pair)
    obtain a s4 where a: "group_issueVerb (logged E) p client (url @ verb) body ctx s3 = (a, s4)" by (metis surj_pair)
    have "\<not> reconciled plan v" using Some due_verb_reconciled [of plan v] by simp
    then show ?thesis
      using run Some x a group_issueVerb_sent [of E p client "url @ verb" body ctx s3] by (cases a) (auto simp: statusFailure_def)
  qed
qed

text \<open>What is left to do: members to add, members to remove, ports to set.\<close>

definition remaining :: "reconcilePlan \<Rightarrow> group_view \<Rightarrow> nat" where
  "remaining plan v =
     (if set (the_members plan) - set (fst v) = {} then 0 else 1)
     + (if set (fst v) - set (the_members plan) = {} then 0 else 1)
     + (if namedPortsEqual (rp_NP plan) (GetArray (snd v) ''namedPorts'') then 0 else 1)"

lemma namedPortsEqual_list: "namedPortsEqual np (GetArray g ''namedPorts'') \<longleftrightarrow> namedPortsEqual np (Some (port_list g))"
  by (simp add: namedPortsEqual_def port_list_def split: option.split)

lemma due_verb_remaining:
  assumes "due_verb plan (fst v) (snd v) = Some (verb, body)" and "posts_to (url @ verb) (Some body) req"
    and "documented_effect url req v v'" and "ports_ok plan"
  shows "remaining plan v' < remaining plan v"
proof -
  obtain a r where d: "diffMembers (the_members plan) (fst v) = (a, r)" by (metis surj_pair)
  have a: "set a = set (the_members plan) - set (fst v)" and r: "set r = set (fst v) - set (the_members plan)"
    using diffMembers_sets [of "the_members plan" "fst v"] d by simp_all
  show ?thesis
  proof (cases "a = []")
    case False
    then have "set (fst v') = set (fst v) \<union> set a" "port_list (snd v') = port_list (snd v)"
      using assms(1-3) d by (auto simp: due_verb_def documented_effect_def)
    moreover have "set (the_members plan) - set (fst v) \<noteq> {}" using False unfolding a [symmetric] by simp
    ultimately show ?thesis unfolding remaining_def namedPortsEqual_list using a by auto
  next
    case a0: True
    show ?thesis
    proof (cases "r = []")
      case False
      then have "set (fst v') = set (fst v) - set r" "port_list (snd v') = port_list (snd v)"
        using assms(1-3) d a0 by (auto simp: due_verb_def documented_effect_def)
      moreover have "set (fst v) - set (the_members plan) \<noteq> {}" using False unfolding r [symmetric] by simp
      ultimately show ?thesis unfolding remaining_def namedPortsEqual_list using a a0 r by auto
    next
      case True
      then have "set (fst v') = set (fst v)" "port_list (snd v') = (case rp_NP plan of None \<Rightarrow> [] | Some ps \<Rightarrow> ps)"
          "\<not> namedPortsEqual (rp_NP plan) (GetArray (snd v) ''namedPorts'')"
        using assms(1-3) d a0 by (auto simp: due_verb_def documented_effect_def split: if_splits)
      then show ?thesis
        using namedPortsEqual_same [OF assms(4)] unfolding remaining_def namedPortsEqual_list by simp
    qed
  qed
qed

lemma step_remaining:
  assumes "group_step E J p plan url applies v v'" and "group_api url applies" and "ports_ok plan"
  shows "remaining plan v' < remaining plan v"
  using assms(1)
proof (rule group_stepE)
  fix request s r t
  assume s: "poll_sees E J p plan url v request s" "Group_Status (logged E) J p request s = Some (Ok r, t)"
    "pr_Status r = OperationStatusInProgress" "applies (last (sent t)) v v'"
  then obtain verb body where "due_verb plan (fst v) (snd v) = Some (verb, body)" "posts_to (url @ verb) (Some body) (last (sent t))"
    using poll_answers [OF s(1,2)] by (auto split: if_splits)
  then show ?thesis using due_verb_remaining assms(2,3) s(4) unfolding group_api_def by blast
qed

lemma steps_remaining:
  assumes "group_api url applies" and "ports_ok plan"
  shows "(group_step E J p plan url applies ^^ n) v v' \<Longrightarrow> n + remaining plan v' \<le> remaining plan v"
proof (induction n arbitrary: v')
  case (Suc n)
  then obtain u where u: "(group_step E J p plan url applies ^^ n) v u" "group_step E J p plan url applies u v'" by auto
  show ?case using Suc.IH [OF u(1)] step_remaining [OF u(2) assms] by simp
qed simp

section \<open>Properties\<close>

text \<open>
  C10: An instance group reaches its plan in at most three rounds of Status. Suppose the API carries out the three verbs as
  documented and nobody else changes the group. Then, whatever members and ports it starts with and whatever happens
  between the polls, at most three polls that see the group answer that it is still in progress, each having posted
  the verb that is due; and a poll that sees the group and answers reports success exactly if the members are the
  planned ones and the ports match, and after three rounds it always does.
\<close>
theorem group_converges:
  assumes "ports_ok plan" and "group_api url applies" and "(group_step E J p plan url applies ^^ n) v v'"
    and "poll_sees E J p plan url v' request s" and "Group_Status (logged E) J p request s = Some (Ok r, t)"
  shows "n \<le> 3 \<and> (pr_Status r = OperationStatusSuccess \<longleftrightarrow> reconciled plan v') \<and> (n = 3 \<longrightarrow> pr_Status r = OperationStatusSuccess)
    \<and> (\<not> reconciled plan v' \<longrightarrow> pr_Status r = OperationStatusFailure \<or> pr_Status r = OperationStatusInProgress
         \<and> (\<exists>verb body. due_verb plan (fst v') (snd v') = Some (verb, body) \<and> posts_to (url @ verb) (Some body) (last (sent t))))"
proof -
  have left: "n + remaining plan v' \<le> remaining plan v" using steps_remaining [OF assms(2,1,3)] .
  have "remaining plan v \<le> 3" by (simp add: remaining_def)
  then have "n \<le> 3" "n = 3 \<longrightarrow> remaining plan v' = 0" using left by auto
  moreover have "reconciled plan v'" if "remaining plan v' = 0"
    using that by (auto simp: remaining_def reconciled_def split: if_splits)
  moreover note poll_answers [OF assms(4,5)]
  ultimately show ?thesis by (auto split: if_splits)
qed

lemma reconcile_success:
  assumes "group_reconcile E J p client request plan url ctx s = Some (Ok r, s')" and "pr_Status r = OperationStatusSuccess"
  shows "\<exists>current s1 getResp s2. listMembers E client url s = Some (Inr current, s1)
    \<and> SendRequest E client (request_options ''GET'' url None) s1 = (Inr getResp, s2)
    \<and> due_verb plan current (obj_of (rs_Body getResp)) = None"
  using assms
  by (auto simp: group_reconcile_def statusFailure_def Let_def split: option.splits prod.splits sum.splits outcome.splits)

text \<open>
  C11: Success means reconciled. Status reports that a group with a plan is finished only in a poll in
  which the pending operation was over and then the members the API listed were exactly the planned ones and the ports of the group it returned
  matched the plan; a finished operation alone is never taken for that.
\<close>
theorem group_success_means_reconciled:
  assumes "decodeReconcile J (st_RequestID request) = (opPath, Some plan)"
    and "Group_Status E J p request s = Some (Ok r, s')" and "pr_Status r = OperationStatusSuccess"
  shows "\<exists>client s0 url ctx s1 current s2 getResp s3. NewClient E (b_Config p) s = (Inr client, s0)
    \<and> unmanaged_groupURL p (st_TargetConfig request) (st_NativeID request) = Ok (url, ctx)
    \<and> group_wait E p client request opPath s0 = (Ok None, s1)
    \<and> listMembers E client url s1 = Some (Inr current, s2)
    \<and> SendRequest E client (request_options ''GET'' url None) s2 = (Inr getResp, s3)
    \<and> set current = set (the_members plan)
    \<and> namedPortsEqual (rp_NP plan) (GetArray (obj_of (rs_Body getResp)) ''namedPorts'')"
proof -
  have wait: "pr_Status q \<noteq> OperationStatusSuccess" if "group_wait E p client request opPath s1 = (Ok (Some q), s2)" for client s1 q s2
    using that by (auto simp: group_wait_def statusFailure_def statusInProgress_def Let_def
        split: if_splits sum.splits option.splits prod.splits)
  have "\<exists>client s0 url ctx s1. NewClient E (b_Config p) s = (Inr client, s0)
      \<and> unmanaged_groupURL p (st_TargetConfig request) (st_NativeID request) = Ok (url, ctx)
      \<and> group_wait E p client request opPath s0 = (Ok None, s1)
      \<and> group_reconcile E J p client request plan url ctx s1 = Some (Ok r, s')"
    using assms(1,2) wait assms(3)
    by (auto simp: Group_Status_def statusFailure_def split: prod.splits sum.splits outcome.splits option.splits)
  then obtain client s0 url ctx s1 where g: "NewClient E (b_Config p) s = (Inr client, s0)
      \<and> unmanaged_groupURL p (st_TargetConfig request) (st_NativeID request) = Ok (url, ctx)
      \<and> group_wait E p client request opPath s0 = (Ok None, s1)"
    "group_reconcile E J p client request plan url ctx s1 = Some (Ok r, s')" by blast
  obtain current s2 getResp s3 where "listMembers E client url s1 = Some (Inr current, s2)"
      "SendRequest E client (request_options ''GET'' url None) s2 = (Inr getResp, s3)"
      "due_verb plan current (obj_of (rs_Body getResp)) = None"
    using reconcile_success [OF g(2) assms(3)] by blast
  then show ?thesis using g(1) unfolding due_verb_None by blast
qed

definition demo_plan :: reconcilePlan where
  "demo_plan = \<lparr>rp_M = Some [''a'', ''b''], rp_NP = None\<rparr>"

definition constant_codec :: "reconcilePlan \<Rightarrow> json_codec" where
  "constant_codec plan = \<lparr>jc_text = \<lambda>_. ''{}'', jc_read = \<lambda>_. RawDoc (plan_json plan)\<rparr>"

lemma constant_codec_keeps: "json_keeps (constant_codec plan) plan"
  by (simp add: json_keeps_def constant_codec_def)

definition demo_group_url :: string where
  "demo_group_url = ''https://compute.googleapis.com/compute/v1/projects/p/zones/z/instanceGroups/g''"

definition demo_group_ctx :: PathContext where
  "demo_group_ctx = empty_ctx\<lparr>pc_Project := ''p'', pc_Zone := ''z'', pc_ResourceType := ''instanceGroups'', pc_ResourceName := ''g''\<rparr>"

definition demo_group_poll :: StatusRequest where
  "demo_group_poll = \<lparr>st_RequestID = encodeReconcile (constant_codec demo_plan) [] demo_plan,
     st_NativeID = ''projects/p/zones/z/instanceGroups/g'', st_ResourceType = [], st_TargetConfig = RawNil\<rparr>"

abbreviation demo_group :: "demo_world BaseResource" where
  "demo_group \<equiv> newInstanceGroupProvisioner demo_cfg"

lemma demo_unmanaged_URL: "unmanaged_groupURL demo_group RawNil ''projects/p/zones/z/instanceGroups/g'' = Ok (demo_group_url, demo_group_ctx)"
proof -
  have "ParseNativeID (b_NativeIDConfig demo_group) ''projects/p/zones/z/instanceGroups/g'' = Inr demo_group_ctx"
    by (simp add: newInstanceGroupProvisioner_def ParseNativeID_def ComputeNativeID_def parseComputeNativeID_def
        demo_group_ctx_def empty_ctx_def)
  moreover have "resource_context demo_group RawNil demo_group_ctx = demo_group_ctx"
    by (simp add: resource_context_def fillPathContextFromTarget_def newInstanceGroupProvisioner_def PathFromTargetConfig_def
      demo_group_ctx_def empty_ctx_def fill_def Let_def)
  moreover have "resource_url demo_group demo_group_ctx = Ok demo_group_url"
    by (simp add: resource_url_def ResourceURL_def NewURLBuilder_def build_url_def newInstanceGroupProvisioner_def ComputeAPI_def
      computePathBuilder_def compute_scope_def demo_group_ctx_def demo_group_url_def empty_ctx_def)
  ultimately show ?thesis by (simp add: unmanaged_groupURL_def Let_def)
qed

definition demo_listing :: obj where
  "demo_listing = [(''items'', JArr [JObj [(''instance'', JStr ''b'')], JObj [(''instance'', JStr ''a'')]])]"

lemma demo_group_lists:
  "\<exists>req. listMembers (logged script_env) demo_client demo_group_url (script_at (scripted 200 (JObj demo_listing) # rest) l)
     = Some (Inr [''a'', ''b''], script_at rest (l @ [req]))"
proof -
  have u: "Parse (demo_group_url @ ''/listInstances'') \<noteq> None"
    by (simp add: demo_group_url_def Parse_def before_def control_char_def Let_def)
  have "\<exists>req. SendRequest (logged script_env) demo_client (list_request (demo_group_url @ ''/listInstances''))
      (script_at (scripted 200 (JObj demo_listing) # rest) l)
    = (Inr \<lparr>rs_StatusCode = 200, rs_Body = Some demo_listing, rs_Headers = []\<rparr>, script_at rest (l @ [req]))"
    unfolding list_request_def by (rule script_send [OF u methods_ok(2)]) auto
  moreover have "sort (rawPageMembers demo_listing) = [''a'', ''b'']" "GetString demo_listing ''nextPageToken'' = []"
    by (simp_all add: demo_listing_def rawPageMembers_def array_of_def objects_def GetString_def GetArray_def)
  ultimately show ?thesis
    unfolding listMembers_def by (subst list_pages.simps) (auto simp: page_of_def Let_def)
qed

lemma demo_group_polled:
  "\<exists>r s'. Group_Status (logged script_env) (constant_codec demo_plan) demo_group demo_group_poll
       (script_at [scripted 200 (JObj demo_listing), scripted 200 (JObj []), scripted 403 JNull] []) = Some (Ok r, s')
     \<and> pr_Status r = OperationStatusSuccess"
proof -
  let ?E = "logged script_env" and ?J = "constant_codec demo_plan"
  have u: "Parse demo_group_url \<noteq> None"
    by (simp add: demo_group_url_def Parse_def before_def control_char_def Let_def)
  obtain l1 where l1: "listMembers ?E demo_client demo_group_url
      (script_at [scripted 200 (JObj demo_listing), scripted 200 (JObj []), scripted 403 JNull] [])
      = Some (Inr [''a'', ''b''], script_at [scripted 200 (JObj []), scripted 403 JNull] [l1])"
    using demo_group_lists [of "[scripted 200 (JObj []), scripted 403 JNull]" "[]"] by auto
  obtain g1 where g1: "SendRequest ?E demo_client (request_options ''GET'' demo_group_url None)
      (script_at [scripted 200 (JObj []), scripted 403 JNull] [l1])
      = (Inr \<lparr>rs_StatusCode = 200, rs_Body = Some [], rs_Headers = []\<rparr>, script_at [scripted 403 JNull] [l1, g1])"
    using script_send [OF u methods_ok(1), of None "[]" "[scripted 403 JNull]" "[l1]"] by auto
  obtain s3 where s3: "SendRequest ?E demo_client (request_options ''GET'' demo_group_url None)
      (script_at [scripted 403 JNull] [l1, g1]) = (Inl (script_error 403), s3)"
    using script_refuses [OF u methods_ok(1) demo_get_body, of "script_at [scripted 403 JNull] [l1, g1]" 403 JNull "[]" "[l1, g1]" demo_client]
    by (auto simp: script_at_def)
  have cfg: "b_Config demo_group = demo_cfg" by (simp add: newInstanceGroupProvisioner_def)
  have k: "ClassifyError (Some (script_error 403)) = ErrorCodeUnauthorized"
    by (simp add: ClassifyError_def script_error_def classifyGoogleError_def)
  have g: "ParseNativeID (b_NativeIDConfig demo_group) ''projects/p/zones/z/instanceGroups/g'' = Inr c \<Longrightarrow>
      resource_url demo_group (resource_context demo_group RawNil c) = Ok demo_group_url" for c
    using demo_unmanaged_URL by (cases "resource_url demo_group (resource_context demo_group RawNil c)") (auto simp: unmanaged_groupURL_def Let_def)
  have "\<exists>c. ParseNativeID (b_NativeIDConfig demo_group) ''projects/p/zones/z/instanceGroups/g'' = Inr c"
    using demo_unmanaged_URL by (auto simp: unmanaged_groupURL_def split: sum.splits)
  then have "Group_Read ?E demo_group (status_read_request demo_group_poll (st_NativeID demo_group_poll))
      (script_at [scripted 403 JNull] [l1, g1])
    = Some (Ok (read_error (ToResourceErrorCode ErrorCodeUnauthorized)), logUnauthorizedRead demo_group_url (script_error 403) s3)"
    using g s3 k
    by (auto simp: Group_Read_def Read_def cfg demo_NewClient status_read_request_def demo_group_poll_def Let_def
        error_is_missing_def newInstanceGroupProvisioner_def zero_resource_def read_error_def)
  then have f: "\<exists>r s'. statusSuccess ?E demo_group demo_group_poll (script_at [scripted 403 JNull] [l1, g1]) = Some (Ok r, s')
      \<and> pr_Status r = OperationStatusSuccess"
    by (simp add: statusSuccess_def Let_def)
  have dv: "due_verb demo_plan [''a'', ''b''] (obj_of (Some [])) = None"
    unfolding due_verb_None by (simp add: demo_plan_def the_members_def namedPortsEqual_def GetArray_def namedPortMap_def objects_def)
  have d: "decodeReconcile ?J (st_RequestID demo_group_poll) = ([], Some demo_plan)"
    unfolding demo_group_poll_def by (simp add: decode_encode constant_codec_keeps)
  have "unmanaged_groupURL demo_group (st_TargetConfig demo_group_poll) (st_NativeID demo_group_poll) = Ok (demo_group_url, demo_group_ctx)"
    using demo_unmanaged_URL by (simp add: demo_group_poll_def)
  then show ?thesis using f l1 g1 dv
    by (simp add: Group_Status_def d cfg demo_NewClient group_wait_def group_reconcile_def)
qed

text \<open>A round before it: the group still has a port, and the API answers the request that clears the ports.\<close>

definition demo_ported :: obj where
  "demo_ported = [(''namedPorts'', JArr [JObj [(''name'', JStr ''http''), (''port'', JNum 80 0)]]), (''fingerprint'', JStr ''f'')]"

definition demo_clear :: obj where "demo_clear = setNamedPortsBody None ''f''"

definition demo_group_api :: "http_request \<Rightarrow> group_view \<Rightarrow> group_view \<Rightarrow> bool" where
  "demo_group_api req v v' \<longleftrightarrow> v = ([''a'', ''b''], demo_ported) \<and> v' = ([''a'', ''b''], [])
     \<and> posts_to (demo_group_url @ ''/setNamedPorts'') (Some demo_clear) req"

lemma demo_group_api_ok: "group_api demo_group_url demo_group_api"
  by (auto simp: group_api_def demo_group_api_def documented_effect_def posts_to_def demo_clear_def setNamedPortsBody_def
      instancesVerbBody_def port_list_def GetArray_def nil_array_def split: option.splits)

lemma demo_group_decodes: "decodeReconcile (constant_codec demo_plan) (st_RequestID demo_group_poll) = ([], Some demo_plan)"
  unfolding demo_group_poll_def by (simp add: decode_encode constant_codec_keeps)

lemma demo_group_at:
  "unmanaged_groupURL demo_group (st_TargetConfig demo_group_poll) (st_NativeID demo_group_poll) = Ok (demo_group_url, demo_group_ctx)"
  "b_Config demo_group = demo_cfg" "Parse demo_group_url \<noteq> None" "Parse (demo_group_url @ ''/setNamedPorts'') \<noteq> None"
  using demo_unmanaged_URL
  by (simp_all add: demo_group_poll_def newInstanceGroupProvisioner_def demo_group_url_def Parse_def before_def control_char_def Let_def)

text \<open>What the polls see: the answers to their two reads.\<close>

lemma demo_group_seen:
  assumes "rest = scripted 200 (JObj g) # later"
  shows "\<exists>l1 g1. listMembers (logged script_env) demo_client demo_group_url (script_at (scripted 200 (JObj demo_listing) # rest) [])
        = Some (Inr [''a'', ''b''], script_at rest [l1])
     \<and> SendRequest (logged script_env) demo_client (request_options ''GET'' demo_group_url None) (script_at rest [l1])
        = (Inr \<lparr>rs_StatusCode = 200, rs_Body = Some g, rs_Headers = []\<rparr>, script_at later [l1, g1])
     \<and> poll_sees script_env (constant_codec demo_plan) demo_group demo_plan demo_group_url ([''a'', ''b''], g) demo_group_poll
         (script_at (scripted 200 (JObj demo_listing) # rest) [])"
proof -
  obtain l1 where l1: "listMembers (logged script_env) demo_client demo_group_url (script_at (scripted 200 (JObj demo_listing) # rest) [])
      = Some (Inr [''a'', ''b''], script_at rest [l1])" using demo_group_lists [of rest "[]"] by auto
  obtain g1 where g1: "SendRequest (logged script_env) demo_client (request_options ''GET'' demo_group_url None) (script_at rest [l1])
      = (Inr \<lparr>rs_StatusCode = 200, rs_Body = Some g, rs_Headers = []\<rparr>, script_at later [l1, g1])"
    using script_send [OF demo_group_at(3) methods_ok(1), of None g later "[l1]"] by (auto simp: assms)
  have "poll_sees script_env (constant_codec demo_plan) demo_group demo_plan demo_group_url ([''a'', ''b''], g) demo_group_poll
         (script_at (scripted 200 (JObj demo_listing) # rest) [])"
    unfolding poll_sees_def demo_group_at(2) demo_NewClient
    using demo_group_decodes demo_group_at(1) l1 g1 by (fastforce simp: group_wait_def obj_of_def)
  then show ?thesis using l1 g1 by blast
qed

lemma demo_group_step:
  "group_step script_env (constant_codec demo_plan) demo_group demo_plan demo_group_url demo_group_api
     ([''a'', ''b''], demo_ported) ([''a'', ''b''], [])"
proof -
  let ?E = "logged script_env" and ?J = "constant_codec demo_plan" and ?op = "[(''name'', JStr ''op'')]"
  let ?s = "script_at [scripted 200 (JObj demo_listing), scripted 200 (JObj demo_ported), scripted 200 (JObj ?op)] []"
  obtain l1 g1 where l1: "listMembers ?E demo_client demo_group_url ?s
        = Some (Inr [''a'', ''b''], script_at [scripted 200 (JObj demo_ported), scripted 200 (JObj ?op)] [l1])"
    and g1: "SendRequest ?E demo_client (request_options ''GET'' demo_group_url None)
        (script_at [scripted 200 (JObj demo_ported), scripted 200 (JObj ?op)] [l1])
        = (Inr \<lparr>rs_StatusCode = 200, rs_Body = Some demo_ported, rs_Headers = []\<rparr>, script_at [scripted 200 (JObj ?op)] [l1, g1])"
    and sees: "poll_sees script_env ?J demo_group demo_plan demo_group_url ([''a'', ''b''], demo_ported) demo_group_poll ?s"
    using demo_group_seen [OF refl, of demo_ported "[scripted 200 (JObj ?op)]"] by blast
  have m: "marshalable (JObj demo_clear)" by (simp add: demo_clear_def setNamedPortsBody_def nil_array_def)
  obtain put where put: "SendRequest ?E demo_client (request_options ''POST'' (demo_group_url @ ''/setNamedPorts'') (Some demo_clear))
        (script_at [scripted 200 (JObj ?op)] [l1, g1])
        = (Inr \<lparr>rs_StatusCode = 200, rs_Body = Some ?op, rs_Headers = []\<rparr>, script_at [] [l1, g1, put])"
    using script_send [OF demo_group_at(4) methods_ok(2), of "Some demo_clear" ?op "[]" "[l1, g1]"] m by auto
  have op: "\<exists>opURL. group_issueVerb ?E demo_group demo_client (demo_group_url @ ''/setNamedPorts'') demo_clear demo_group_ctx
      (script_at [scripted 200 (JObj ?op)] [l1, g1]) = (Ok opURL, script_at [] [l1, g1, put])"
    by (simp add: group_issueVerb_def put call_operation_id_def call_operation_url_def newInstanceGroupProvisioner_def
        ComputeOperations_def)
  have dv: "due_verb demo_plan [''a'', ''b''] (obj_of (Some demo_ported)) = Some (''/setNamedPorts'', demo_clear)"
    by (simp add: due_verb_def diffMembers_def the_members_def demo_plan_def namedPortsEqual_def demo_ported_def GetArray_def
        GetString_def demo_clear_def obj_of_def)
  obtain r where r: "Group_Status ?E ?J demo_group demo_group_poll ?s = Some (Ok r, script_at [] [l1, g1, put])"
      "pr_Status r = OperationStatusInProgress"
    using op dv l1 g1 by (auto simp: Group_Status_def demo_group_decodes demo_group_at demo_NewClient group_wait_def group_reconcile_def)
  have "posts_to (demo_group_url @ ''/setNamedPorts'') (Some demo_clear) put"
    using SendRequest_logged [OF put] sends_posts by (auto simp: sent_script_at)
  then have "demo_group_api (last (sent (script_at [] [l1, g1, put]))) ([''a'', ''b''], demo_ported) ([''a'', ''b''], [])"
    by (simp add: demo_group_api_def sent_script_at)
  with sees r show ?thesis by (rule group_step.round)
qed

theorem group_converges_witness:
  "\<exists>r t. (group_step script_env (constant_codec demo_plan) demo_group demo_plan demo_group_url demo_group_api ^^ 1)
       ([''a'', ''b''], demo_ported) ([''a'', ''b''], [])
     \<and> Group_Status (logged script_env) (constant_codec demo_plan) demo_group demo_group_poll
         (script_at [scripted 200 (JObj demo_listing), scripted 200 (JObj []), scripted 403 JNull] []) = Some (Ok r, t)
     \<and> (pr_Status r = OperationStatusSuccess \<longleftrightarrow> reconciled demo_plan ([''a'', ''b''], []))"
proof -
  have step: "(group_step script_env (constant_codec demo_plan) demo_group demo_plan demo_group_url demo_group_api ^^ 1)
       ([''a'', ''b''], demo_ported) ([''a'', ''b''], [])" using demo_group_step by (simp only: relpowp_1)
  obtain r t where r: "Group_Status (logged script_env) (constant_codec demo_plan) demo_group demo_group_poll
         (script_at [scripted 200 (JObj demo_listing), scripted 200 (JObj []), scripted 403 JNull] []) = Some (Ok r, t)"
    using demo_group_polled by blast
  have ok: "ports_ok demo_plan" by (simp add: ports_ok_def demo_plan_def)
  have sees: "poll_sees script_env (constant_codec demo_plan) demo_group demo_plan demo_group_url ([''a'', ''b''], []) demo_group_poll
      (script_at [scripted 200 (JObj demo_listing), scripted 200 (JObj []), scripted 403 JNull] [])"
    using demo_group_seen [OF refl, of "[]" "[scripted 403 JNull]"] by blast
  from group_converges [OF ok demo_group_api_ok step sees r] show ?thesis using step r by blast
qed

theorem group_success_means_reconciled_witness:
  "\<exists>client url s1 current s2 getResp s3.
     listMembers (logged script_env) client url s1 = Some (Inr current, s2)
     \<and> SendRequest (logged script_env) client (request_options ''GET'' url None) s2 = (Inr getResp, s3)
     \<and> set current = {''a'', ''b''}"
proof -
  obtain r s' where r: "Group_Status (logged script_env) (constant_codec demo_plan) demo_group demo_group_poll
       (script_at [scripted 200 (JObj demo_listing), scripted 200 (JObj []), scripted 403 JNull] []) = Some (Ok r, s')"
     "pr_Status r = OperationStatusSuccess" using demo_group_polled by blast
  have d: "decodeReconcile (constant_codec demo_plan) (st_RequestID demo_group_poll) = ([], Some demo_plan)"
    unfolding demo_group_poll_def by (simp add: decode_encode constant_codec_keeps)
  have m: "set (the_members demo_plan) = {''a'', ''b''}" by (simp add: the_members_def demo_plan_def)
  show ?thesis using group_success_means_reconciled [OF d r] unfolding m
    by (elim exE conjE) (intro exI conjI, assumption+)
qed

text \<open>
  The plan survives the round trip through formae. The request ID an update of an instance group
  answers decodes, in the Status that polls it, to exactly the members (sorted, empty ones dropped) and
  the ports the update declared, with no operation to wait for.
\<close>
lemma group_update_plan_survives:
  assumes "unmarshal_map (up_DesiredProperties request) = Inr m" and "json_keeps J (plan_of (obj_of m))"
    and "Group_Update J request s = (Ok r, s')"
  shows "pr_Status r = OperationStatusInProgress \<and> s' = s
    \<and> decodeReconcile J (pr_RequestID r) = ([], Some (plan_of (obj_of m)))
    \<and> set (the_members (plan_of (obj_of m))) = {u. JStr u \<in> set (array_of (obj_of m) ''instances'') \<and> u \<noteq> []}
    \<and> sorted (the_members (plan_of (obj_of m)))"
proof -
  let ?p = "obj_of m"
  have m: "the_members (plan_of ?p) = sort (filter (\<lambda>s. s \<noteq> []) (strings (array_of ?p ''instances'')))"
    by (simp add: the_members_def plan_of_def desiredMembers_def Let_def)
  have "set (the_members (plan_of ?p)) = {u. JStr u \<in> set (array_of ?p ''instances'') \<and> u \<noteq> []}"
    unfolding m set_sort set_filter in_strings by (rule refl)
  moreover have "sorted (the_members (plan_of ?p))" unfolding m by (rule sorted_sort)
  moreover have "pr_Status r = OperationStatusInProgress" "s' = s"
    "pr_RequestID r = encodeReconcile J [] (plan_of ?p)"
    using assms(1,3) by (auto simp: Group_Update_def simp del: obj_of_Some)
  moreover have "decodeReconcile J (encodeReconcile J [] (plan_of ?p)) = ([], Some (plan_of ?p))"
    using assms(2) by (intro decode_encode) simp_all
  ultimately show ?thesis by (simp only: simp_thms)
qed

end
