(* ===== verification/Run_Iam_Member.thy ===== *)
theory Run_Iam_Member
  imports Iam_Member
begin

text \<open>
  One (role, member) pair of the policy of a Cloud Run service
  (\<^verbatim>\<open>src/pkg/resources/cloudrun/service_iam_member.go\<close>): the edits and the retry loop of the project
  policy (theory \<open>Iam_Member\<close>), on a policy that is addressed by the path of a service.

  The Cloud Run client is a third-party package: its two policy calls are an \<open>iam_service\<close> whose
  policies are named by path, and its paged list of services is one more field.
\<close>

record 'w run_service =
  ru_policies :: "'w iam_service"
  ru_ServiceNames :: "'w \<Rightarrow> string \<Rightarrow> (goerr + string list) \<times> 'w"

section \<open>Properties and identifiers\<close>

record serviceIamMemberProps =
  sp_Service :: string
  sp_Location :: string
  sp_Project :: string
  sp_Role :: string
  sp_Member :: string

definition siamCfg :: "raw \<Rightarrow> Config option \<Rightarrow> Config" where
  "siamCfg target fallback =
     (let c = FromTargetConfig target (Deps fallback)
      in case fallback of
           None \<Rightarrow> c
         | Some f \<Rightarrow>
             (let c1 = (if c_Project c = [] then c\<lparr>c_Project := c_Project f\<rparr> else c);
                  c2 = (if c_Location c1 = [] then c1\<lparr>c_Location := c_Location f\<rparr> else c1)
              in if c_Region c2 = [] then c2\<lparr>c_Region := c_Region f\<rparr> else c2))"

definition run_location :: "Config \<Rightarrow> string" where
  "run_location cfg = (if c_Location cfg = [] then c_Region cfg else c_Location cfg)"

definition servicePath :: "string \<Rightarrow> Config \<Rightarrow> string \<Rightarrow> string \<Rightarrow> goerr + string" where
  "servicePath service cfg propLocation propProject =
     (if HasPrefix service ''projects/'' then Inr service
      else
        (let project = (if propProject = [] then c_Project cfg else propProject);
             location = (if propLocation = [] then run_location cfg else propLocation)
         in if project = [] \<or> location = [] \<or> service = []
            then Inl (ErrText (''service path needs project, location and service (got project='' @ quoted project
                   @ '' location='' @ quoted location @ '' service='' @ quoted service @ '')''))
            else Inr (''projects/'' @ project @ ''/locations/'' @ location @ ''/services/'' @ service)))"

definition siamBuildNativeID :: "serviceIamMemberProps \<Rightarrow> string" where
  "siamBuildNativeID p = Join [sp_Location p, sp_Project p, sp_Service p, sp_Role p, sp_Member p] ''|''"

definition siamParseNativeID :: "string \<Rightarrow> goerr + serviceIamMemberProps" where
  "siamParseNativeID ident =
     (case SplitN ident CHR ''|'' 5 of
        [location, project, service, role, member] \<Rightarrow>
          if service = [] \<or> role = [] \<or> member = []
          then Inl (ErrText (''invalid ServiceIamMember NativeID: '' @ quoted ident))
          else Inr \<lparr>sp_Service = service, sp_Location = location, sp_Project = project, sp_Role = role, sp_Member = member\<rparr>
      | _ \<Rightarrow> Inl (ErrText (''invalid ServiceIamMember NativeID: '' @ quoted ident)))"

definition siam_decode_step ::
    "string option \<times> serviceIamMemberProps \<Rightarrow> string \<times> json \<Rightarrow> string option \<times> serviceIamMemberProps" where
  "siam_decode_step acc kv =
     (case (acc, kv) of ((err, p), (k, v)) \<Rightarrow>
        (let first = (\<lambda>name. case err of Some e \<Rightarrow> Some e | None \<Rightarrow> field_error ''serviceIamMemberProps'' name v)
         in if field_match ''service'' k then (first ''service'', p\<lparr>sp_Service := set_string v (sp_Service p)\<rparr>)
            else if field_match ''location'' k then (first ''location'', p\<lparr>sp_Location := set_string v (sp_Location p)\<rparr>)
            else if field_match ''project'' k then (first ''project'', p\<lparr>sp_Project := set_string v (sp_Project p)\<rparr>)
            else if field_match ''role'' k then (first ''role'', p\<lparr>sp_Role := set_string v (sp_Role p)\<rparr>)
            else if field_match ''member'' k then (first ''member'', p\<lparr>sp_Member := set_string v (sp_Member p)\<rparr>)
            else (err, p)))"

definition siam_zero :: serviceIamMemberProps where
  "siam_zero = \<lparr>sp_Service = [], sp_Location = [], sp_Project = [], sp_Role = [], sp_Member = []\<rparr>"

definition siam_decode :: "raw \<Rightarrow> string option \<times> serviceIamMemberProps" where
  "siam_decode r =
     (case r of
        RawNil \<Rightarrow> (Some ''unexpected end of JSON input'', siam_zero)
      | RawBad e \<Rightarrow> (Some e, siam_zero)
      | RawDoc (JObj m) \<Rightarrow> foldl siam_decode_step (None, siam_zero) m
      | RawDoc JNull \<Rightarrow> (None, siam_zero)
      | RawDoc v \<Rightarrow>
          (Some (''json: cannot unmarshal '' @ json_kind v @ '' into Go value of type cloudrun.serviceIamMemberProps''),
           siam_zero))"

definition siamProps :: "raw \<Rightarrow> goerr + serviceIamMemberProps" where
  "siamProps r =
     (case siam_decode r of
        (Some e, p) \<Rightarrow> Inl (errorf_w ''decode properties: '' (ErrText e))
      | (None, p) \<Rightarrow>
          if sp_Service p = [] then Inl (ErrText ''service is required'')
          else if sp_Role p = [] then Inl (ErrText ''role is required'')
          else if sp_Member p = [] then Inl (ErrText ''member is required'')
          else Inr p)"

text \<open>The struct as JSON: location and project are left out when empty.\<close>

definition omitempty :: "string \<Rightarrow> string \<Rightarrow> obj" where
  "omitempty k v = (if v = [] then [] else [(k, JStr v)])"

definition siam_value :: "serviceIamMemberProps \<Rightarrow> json" where
  "siam_value p =
     JObj ([(''service'', JStr (sp_Service p))] @ omitempty ''location'' (sp_Location p)
           @ omitempty ''project'' (sp_Project p) @ [(''role'', JStr (sp_Role p)), (''member'', JStr (sp_Member p))])"

section \<open>The policy\<close>

definition siamMaxAttempts :: nat where "siamMaxAttempts = 3"

definition siamAddMember :: "Policy \<Rightarrow> string \<Rightarrow> string \<Rightarrow> bool \<times> Policy" where
  "siamAddMember policy role member =
     (case add_binding (pol_Bindings policy) role member of (changed, bs) \<Rightarrow> (changed, policy\<lparr>pol_Bindings := bs\<rparr>))"

definition siamRemoveMember :: "Policy \<Rightarrow> string \<Rightarrow> string \<Rightarrow> bool \<times> Policy" where
  "siamRemoveMember policy role member =
     (case remove_binding (pol_Bindings policy) role member of (changed, bs) \<Rightarrow> (changed, policy\<lparr>pol_Bindings := bs\<rparr>))"

definition siamHasMember :: "Policy \<Rightarrow> string \<Rightarrow> string \<Rightarrow> bool" where
  "siamHasMember policy role member = has_binding (pol_Bindings policy) role member"

definition siam_withRetryOnConflict ::
    "'w iam_service \<Rightarrow> string \<Rightarrow> (Policy \<Rightarrow> bool \<times> Policy) \<Rightarrow> 'w machine \<Rightarrow> (goerr + bool) \<times> 'w machine" where
  "siam_withRetryOnConflict S path mutate s =
     (case retry_loop S path mutate siamMaxAttempts None (m_world s) of (r, w) \<Rightarrow> (r, s\<lparr>m_world := w\<rparr>))"

definition siamMapError :: "goerr option \<Rightarrow> OperationErrorCode" where
  "siamMapError err =
     (case err of None \<Rightarrow> NotSet
      | Some e \<Rightarrow>
          (case as_google e of None \<Rightarrow> ServiceInternalError
           | Some g \<Rightarrow>
               (let c = ge_Code g in
                if c = 400 then InvalidRequest
                else if c = 401 \<or> c = 403 then AccessDenied
                else if c = 404 then NotFound
                else if c = 409 \<or> c = 412 then ResourceConflict
                else if c = 429 then Throttling
                else ServiceInternalError)))"

section \<open>Operations\<close>

definition Service_Create ::
    "'w env \<Rightarrow> 'w run_service \<Rightarrow> Config option \<Rightarrow> CreateRequest \<Rightarrow> ('w, ProgressResult) op" where
  "Service_Create E R cfg request s =
     (case siamProps (cr_Properties request) of
        Inl e \<Rightarrow> (Ok (iam_failure OperationCreate InvalidRequest (err_text e)), s)
      | Inr p \<Rightarrow>
          (let c = siamCfg (cr_TargetConfig request) cfg
           in case servicePath (sp_Service p) c (sp_Location p) (sp_Project p) of
                Inl e \<Rightarrow> (Ok (iam_failure OperationCreate InvalidRequest (err_text e)), s)
              | Inr path \<Rightarrow>
                  (case newService E (ru_policies R) c s of
                     (Some e, s1) \<Rightarrow> (Err e, s1)
                   | (None, s1) \<Rightarrow>
                       (case siam_withRetryOnConflict (ru_policies R) path
                               (\<lambda>pol. siamAddMember pol (sp_Role p) (sp_Member p)) s1 of
                          (Inl e, s2) \<Rightarrow> (Ok (iam_failure OperationCreate (siamMapError (Some e)) (err_text e)), s2)
                        | (Inr changed, s2) \<Rightarrow>
                            (Ok (createSuccess (siamBuildNativeID p) (RawDoc (siam_value p))), s2)))))"

definition Service_Read ::
    "'w env \<Rightarrow> 'w run_service \<Rightarrow> Config option \<Rightarrow> ReadRequest \<Rightarrow> ('w, ReadResult) op" where
  "Service_Read E R cfg request s =
     (case siamParseNativeID (rd_NativeID request) of
        Inl e \<Rightarrow> (Ok (read_error InvalidRequest), s)
      | Inr p \<Rightarrow>
          (let c = siamCfg (rd_TargetConfig request) cfg
           in case servicePath (sp_Service p) c (sp_Location p) (sp_Project p) of
                Inl e \<Rightarrow> (Ok (read_error InvalidRequest), s)
              | Inr path \<Rightarrow>
                  (case newService E (ru_policies R) c s of
                     (Some e, s1) \<Rightarrow> (Err e, s1)
                   | (None, s1) \<Rightarrow>
                       (case is_GetIamPolicy (ru_policies R) (m_world s1) path of
                          (Inl e, w) \<Rightarrow> (Ok (read_error (siamMapError (Some e))), s1\<lparr>m_world := w\<rparr>)
                        | (Inr policy, w) \<Rightarrow>
                            (Ok (if \<not> siamHasMember policy (sp_Role p) (sp_Member p) then read_error NotFound
                                 else (read_properties (RawDoc (siam_value p)))\<lparr>rr_ResourceType := rd_ResourceType request\<rparr>),
                             s1\<lparr>m_world := w\<rparr>)))))"

definition Service_Update :: "UpdateRequest \<Rightarrow> ('w, ProgressResult) op" where
  "Service_Update request s =
     (Ok ((progress OperationUpdate OperationStatusSuccess)\<lparr>pr_NativeID := up_NativeID request\<rparr>), s)"

definition Service_Delete ::
    "'w env \<Rightarrow> 'w run_service \<Rightarrow> Config option \<Rightarrow> DeleteRequest \<Rightarrow> ('w, ProgressResult) op" where
  "Service_Delete E R cfg request s =
     (case siamParseNativeID (dl_NativeID request) of
        Inl e \<Rightarrow> (Ok (iam_failure OperationDelete InvalidRequest (err_text e)), s)
      | Inr p \<Rightarrow>
          (let c = siamCfg (dl_TargetConfig request) cfg
           in case servicePath (sp_Service p) c (sp_Location p) (sp_Project p) of
                Inl e \<Rightarrow> (Ok (iam_failure OperationDelete InvalidRequest (err_text e)), s)
              | Inr path \<Rightarrow>
                  (case newService E (ru_policies R) c s of
                     (Some e, s1) \<Rightarrow> (Err e, s1)
                   | (None, s1) \<Rightarrow>
                       (case siam_withRetryOnConflict (ru_policies R) path
                               (\<lambda>pol. siamRemoveMember pol (sp_Role p) (sp_Member p)) s1 of
                          (Inl e, s2) \<Rightarrow>
                            (Ok (if siamMapError (Some e) \<noteq> NotFound
                                 then iam_failure OperationDelete (siamMapError (Some e)) (err_text e)
                                 else deleteSuccess (dl_NativeID request)), s2)
                        | (Inr changed, s2) \<Rightarrow> (Ok (deleteSuccess (dl_NativeID request)), s2)))))"

text \<open>One policy per service; the first that cannot be read ends the list.\<close>

definition service_ids :: "string \<Rightarrow> string \<Rightarrow> Policy \<Rightarrow> string list" where
  "service_ids location name policy =
     concat (map (\<lambda>b. map (\<lambda>m. siamBuildNativeID
           \<lparr>sp_Service = ExtractLastSegment name, sp_Location = location, sp_Project = [], sp_Role = bi_Role b, sp_Member = m\<rparr>)
         (bi_Members b)) (pol_Bindings policy))"

fun service_walk :: "'w iam_service \<Rightarrow> string \<Rightarrow> string list \<Rightarrow> 'w \<Rightarrow> (goerr + string list) \<times> 'w" where
  "service_walk S location [] w = (Inr [], w)"
| "service_walk S location (name # names) w =
     (case is_GetIamPolicy S w name of
        (Inl e, w1) \<Rightarrow> (Inl e, w1)
      | (Inr policy, w1) \<Rightarrow>
          (case service_walk S location names w1 of
             (Inl e, w2) \<Rightarrow> (Inl e, w2)
           | (Inr ids, w2) \<Rightarrow> (Inr (service_ids location name policy @ ids), w2)))"

definition Service_List ::
    "'w env \<Rightarrow> 'w run_service \<Rightarrow> Config option \<Rightarrow> ListRequest \<Rightarrow> ('w, ListResult) op" where
  "Service_List E R cfg request s =
     (let c = siamCfg (ls_TargetConfig request) cfg; location = run_location c
      in if c_Project c = [] \<or> location = [] then (Ok \<lparr>lr_NativeIDs = [], lr_NextPageToken = None\<rparr>, s)
         else case newService E (ru_policies R) c s of
           (Some e, s1) \<Rightarrow> (Err e, s1)
         | (None, s1) \<Rightarrow>
             (case ru_ServiceNames R (m_world s1) (''projects/'' @ c_Project c @ ''/locations/'' @ location) of
                (Inl e, w) \<Rightarrow> (Err e, s1\<lparr>m_world := w\<rparr>)
              | (Inr names, w) \<Rightarrow>
                  (case service_walk (ru_policies R) location names w of
                     (Inl e, w1) \<Rightarrow> (Err e, s1\<lparr>m_world := w1\<rparr>)
                   | (Inr ids, w1) \<Rightarrow> (Ok \<lparr>lr_NativeIDs = ids, lr_NextPageToken = None\<rparr>, s1\<lparr>m_world := w1\<rparr>))))"

definition Service_Status :: "StatusRequest \<Rightarrow> ('w, ProgressResult) op" where
  "Service_Status request s =
     (Ok ((progress OperationCheckStatus OperationStatusSuccess)
            \<lparr>pr_NativeID := st_NativeID request, pr_RequestID := st_RequestID request\<rparr>), s)"

section \<open>The shared parts\<close>

text \<open>The functions are the ones of the project policy, line by line; what was proved there carries over.\<close>

lemma siam_shared:
  "siamAddMember = addMember" "siamRemoveMember = removeMember" "siamHasMember = hasMember"
  "siam_withRetryOnConflict = withRetryOnConflict" "siamMapError = mapGoogleErrorCode"
proof -
  show "siamAddMember = addMember" by (intro ext) (simp add: siamAddMember_def addMember_def)
  show "siamRemoveMember = removeMember" by (intro ext) (simp add: siamRemoveMember_def removeMember_def)
  show "siamHasMember = hasMember" by (intro ext) (simp add: siamHasMember_def hasMember_def)
  show "siam_withRetryOnConflict = withRetryOnConflict"
    by (intro ext) (simp add: siam_withRetryOnConflict_def withRetryOnConflict_def siamMaxAttempts_def maxSetPolicyAttempts_def)
  show "siamMapError = mapGoogleErrorCode" by (intro ext) (simp add: siamMapError_def mapGoogleErrorCode_def)
qed

interpretation service_policy: membership grants policy_wf siamAddMember siamRemoveMember siamHasMember
  unfolding siam_shared by (rule policy.membership_axioms)

text \<open>A grant on a service, and which identifiers can carry one.\<close>

definition siam_valid :: "serviceIamMemberProps \<Rightarrow> bool" where
  "siam_valid p \<longleftrightarrow>
     sp_Service p \<noteq> [] \<and> sp_Role p \<noteq> [] \<and> sp_Member p \<noteq> []
     \<and> (\<forall>x \<in> {sp_Location p, sp_Project p, sp_Service p, sp_Role p}. CHR ''|'' \<notin> set x)"

lemma SplitN_parts:
  "0 < n \<Longrightarrow> SplitN s c n = xs \<Longrightarrow> Join xs [c] = s \<and> (\<forall>x \<in> set (butlast xs). c \<notin> set x)"
proof (induction s c n arbitrary: xs rule: SplitN.induct)
  case (2 s c n)
  show ?case
  proof (cases "n = 0 \<or> c \<notin> set s")
    case False
    then obtain ys where ys: "SplitN (tl (dropWhile (\<lambda>x. x \<noteq> c) s)) c n = ys" "ys \<noteq> []"
      by (cases n) auto
    with 2 False have "Join ys [c] = tl (dropWhile (\<lambda>x. x \<noteq> c) s)" "\<forall>x \<in> set (butlast ys). c \<notin> set x" by auto
    moreover have "c \<notin> set (takeWhile (\<lambda>x. x \<noteq> c) s)" by (auto dest: set_takeWhileD)
    moreover have "xs = takeWhile (\<lambda>x. x \<noteq> c) s # ys" using 2(3) False ys(1) by simp
    moreover have "takeWhile (\<lambda>x. x \<noteq> c) s @ c # tl (dropWhile (\<lambda>x. x \<noteq> c) s) = s"
      using split_at [of c s] False by simp
    ultimately show ?thesis using ys(2) by (simp add: Join_Cons)
  qed (use 2 in auto)
qed simp

interpretation siam_codec: id_codec siamBuildNativeID siamParseNativeID siam_valid
proof
  fix p assume "siam_valid p"
  then show "siamParseNativeID (siamBuildNativeID p) = Inr p"
    by (simp add: siam_valid_def siamBuildNativeID_def siamParseNativeID_def eval_nat_numeral SplitN_append_sep)
next
  fix ident p assume a: "siamParseNativeID ident = Inr p"
  then have x: "SplitN ident CHR ''|'' 5 = [sp_Location p, sp_Project p, sp_Service p, sp_Role p, sp_Member p]"
    and "sp_Service p \<noteq> []" "sp_Role p \<noteq> []" "sp_Member p \<noteq> []"
    by (auto simp: siamParseNativeID_def split: list.splits if_splits)
  with SplitN_parts [OF _ x] show "siam_valid p \<and> siamBuildNativeID p = ident"
    by (simp add: siam_valid_def siamBuildNativeID_def)
qed

section \<open>Properties\<close>

lemma siamProps_nonempty:
  "siamProps r = Inr p \<Longrightarrow> sp_Service p \<noteq> [] \<and> sp_Role p \<noteq> [] \<and> sp_Member p \<noteq> []"
  by (auto simp: siamProps_def split: prod.splits option.splits if_splits)

lemma Service_Create_success:
  assumes "Service_Create E R cfg request s = (Ok r, s')" and "pr_Status r = OperationStatusSuccess"
    and "siamProps (cr_Properties request) = Inr p"
    and "servicePath (sp_Service p) (siamCfg (cr_TargetConfig request) cfg) (sp_Location p) (sp_Project p) = Inr path"
  shows "r = createSuccess (siamBuildNativeID p) (RawDoc (siam_value p))
    \<and> (\<exists>s1 changed. withRetryOnConflict (ru_policies R) path (\<lambda>pol. addMember pol (sp_Role p) (sp_Member p)) s1
          = (Inr changed, s'))"
  using assms by (auto simp: Service_Create_def siam_shared iam_failure_def Let_def split: prod.splits option.splits sum.splits)


lemma service_walk_ids:
  assumes "service_walk S location names w = (Inr ids, w')" and "i \<in> set ids"
  shows "\<exists>name \<in> set names. \<exists>w1 policy. fst (is_GetIamPolicy S w1 name) = Inr policy \<and> i \<in> set (service_ids location name policy)"
  using assms
proof (induction names arbitrary: w ids)
  case (Cons name names)
  then obtain policy w1 ids' where p: "is_GetIamPolicy S w name = (Inr policy, w1)"
      "service_walk S location names w1 = (Inr ids', w')" "ids = service_ids location name policy @ ids'"
    by (auto split: prod.splits sum.splits)
  show ?case
  proof (cases "i \<in> set ids'")
    case True
    with Cons.IH [OF p(2)] show ?thesis by auto
  next
    case False
    with Cons.prems(2) p have "i \<in> set (service_ids location name policy)" "fst (is_GetIamPolicy S w name) = Inr policy" by auto
    then show ?thesis by auto
  qed
qed simp

text \<open>
  What the API documents: services are listed under the parent they were asked for, and every
  binding names a role and members, none of them with the delimiter of the identifiers.
\<close>

definition names_services :: "'w run_service \<Rightarrow> bool" where
  "names_services R \<longleftrightarrow>
     (\<forall>w parent names n. fst (ru_ServiceNames R w parent) = Inr names \<longrightarrow> n \<in> set names \<longrightarrow>
        (\<exists>svc. n = parent @ ''/services/'' @ svc \<and> svc \<noteq> [] \<and> seg svc \<and> CHR ''|'' \<notin> set svc))
   \<and> (\<forall>w path pol b m. fst (is_GetIamPolicy (ru_policies R) w path) = Inr pol \<longrightarrow> b \<in> set (pol_Bindings pol) \<longrightarrow>
        m \<in> set (bi_Members b) \<longrightarrow> m \<noteq> [] \<and> bi_Role b \<noteq> [] \<and> CHR ''|'' \<notin> set (bi_Role b))"

text \<open>
  Every grant that is discovered can be managed. An identifier List reports is accepted by Read and
  Delete under the same target, leads them to the policy of a service that exists there, and names a
  role and a member that this policy holds.
\<close>
lemma service_grants_discovered:
  assumes "names_services R" and "Service_List E R cfg request s = (Ok l, s')" and "nid \<in> set (lr_NativeIDs l)"
    and "c = siamCfg (ls_TargetConfig request) cfg" and "CHR ''|'' \<notin> set (run_location c)"
  shows "\<exists>p path w policy. siamParseNativeID nid = Inr p
    \<and> servicePath (sp_Service p) c (sp_Location p) (sp_Project p) = Inr path
    \<and> fst (is_GetIamPolicy (ru_policies R) w path) = Inr policy \<and> (sp_Role p, sp_Member p) \<in> grants policy"
proof -
  let ?parent = "''projects/'' @ c_Project c @ ''/locations/'' @ run_location c"
  obtain w names w1 w2 where l: "c_Project c \<noteq> []" "run_location c \<noteq> []" "ru_ServiceNames R w ?parent = (Inr names, w1)"
      "service_walk (ru_policies R) (run_location c) names w1 = (Inr (lr_NativeIDs l), w2)"
    using assms(2,3) unfolding Service_List_def assms(4) [symmetric]
    by (auto simp: Let_def split: if_splits prod.splits option.splits sum.splits)
  obtain name w3 policy where n: "name \<in> set names" "fst (is_GetIamPolicy (ru_policies R) w3 name) = Inr policy"
      "nid \<in> set (service_ids (run_location c) name policy)"
    using service_walk_ids [OF l(4) assms(3)] by blast
  then obtain b m where b: "b \<in> set (pol_Bindings policy)" "m \<in> set (bi_Members b)"
      "nid = siamBuildNativeID \<lparr>sp_Service = ExtractLastSegment name, sp_Location = run_location c, sp_Project = [],
         sp_Role = bi_Role b, sp_Member = m\<rparr>" by (auto simp: service_ids_def)
  have bm: "m \<noteq> []" "bi_Role b \<noteq> []" "CHR ''|'' \<notin> set (bi_Role b)"
    using assms(1) n(2) b(1,2) unfolding names_services_def by blast+
  have "fst (ru_ServiceNames R w ?parent) = Inr names" using l(3) by simp
  then obtain svc where v: "name = ?parent @ ''/services/'' @ svc" "svc \<noteq> []" "seg svc" "CHR ''|'' \<notin> set svc"
    using assms(1) n(1) unfolding names_services_def by blast
  have svc: "ExtractLastSegment name = svc"
    using ExtractLastSegment_suffix [of svc "?parent @ ''/services''"] v(1,3) by (simp add: seg_def)
  define p where "p = \<lparr>sp_Service = svc, sp_Location = run_location c, sp_Project = [], sp_Role = bi_Role b, sp_Member = m\<rparr>"
  have "siam_valid p" using v(2,4) bm assms(5) by (simp add: siam_valid_def p_def)
  then have "siamParseNativeID nid = Inr p" using siam_codec.parse_build b(3) svc by (simp add: p_def)
  moreover have "\<not> HasPrefix svc ''projects/''" using v(3) by (auto simp: HasPrefix_iff seg_def)
  then have "servicePath (sp_Service p) c (sp_Location p) (sp_Project p) = Inr name"
    using l(1,2) v by (simp add: servicePath_def p_def)
  moreover have "(sp_Role p, sp_Member p) \<in> grants policy" using b(1,2) by (auto simp: p_def grants_def binding_grants_def)
  ultimately show ?thesis using n(2) by blast
qed

section \<open>The properties on a concrete service\<close>

definition demo_run :: "Policy list run_service" where
  "demo_run = \<lparr>ru_policies = policy_store, ru_ServiceNames = (\<lambda>w parent. (Inr [parent @ ''/services/web''], w))\<rparr>"

definition demo_run_cfg :: "Config option" where
  "demo_run_cfg = Some (zero_config\<lparr>c_Project := ''prj'', c_Location := ''eu''\<rparr>)"

definition demo_run_grant :: CreateRequest where
  "demo_run_grant = \<lparr>cr_ResourceType = ''T'', cr_TargetConfig = RawNil,
     cr_Properties = RawDoc (JObj [(''service'', JStr ''web''), (''role'', JStr ''viewer''), (''member'', JStr ''bob'')])\<rparr>"

definition demo_run_member :: serviceIamMemberProps where
  "demo_run_member = \<lparr>sp_Service = ''web'', sp_Location = [], sp_Project = [], sp_Role = ''viewer'', sp_Member = ''bob''\<rparr>"

lemma demo_run_sel:
  "siamProps (cr_Properties demo_run_grant) = Inr demo_run_member" "cr_TargetConfig demo_run_grant = RawNil"
  "siam_valid demo_run_member"
  "servicePath (sp_Service demo_run_member) (siamCfg RawNil demo_run_cfg) (sp_Location demo_run_member) (sp_Project demo_run_member)
     = Inr ''projects/prj/locations/eu/services/web''"
  "newService idle_env (ru_policies demo_run) (siamCfg RawNil demo_run_cfg) s = (None, s)"
proof -
  show "siamProps (cr_Properties demo_run_grant) = Inr demo_run_member"
    by (simp add: siamProps_def siam_decode_def siam_zero_def demo_run_grant_def demo_run_member_def siam_decode_step_def
        field_match_def field_error_def ToLower_def lower_char_def less_eq_char_def char_of_eq_iff)
  have c: "siamCfg RawNil demo_run_cfg = zero_config\<lparr>c_Project := ''prj'', c_Location := ''eu''\<rparr>"
    by (simp add: siamCfg_def demo_run_cfg_def FromTargetConfig_def zero_config_def Deps_def Let_def)
  show "servicePath (sp_Service demo_run_member) (siamCfg RawNil demo_run_cfg) (sp_Location demo_run_member) (sp_Project demo_run_member)
     = Inr ''projects/prj/locations/eu/services/web''"
    by (simp add: c servicePath_def demo_run_member_def run_location_def zero_config_def)
  show "newService idle_env (ru_policies demo_run) (siamCfg RawNil demo_run_cfg) s = (None, s)"
    by (simp add: c newService_def ToClientOptions_def effectiveAuth_def zero_config_def idle_env_def policy_store_def
        demo_run_def Let_def)
qed (simp_all add: demo_run_grant_def demo_run_member_def siam_valid_def)


end
