(* ===== verification/Pubsub.thy ===== *)
theory Pubsub
  imports Compute_Transformers Compute_Verbs Type_Table
begin

text \<open>
  Pub/Sub topics, subscriptions, snapshots and schemas
  (\<^verbatim>\<open>src/pkg/resources/pubsub/api.go\<close>, \<^verbatim>\<open>resources.go\<close>): the generic resource, with a Create that puts
  the resource under its own name and an Update that wraps the changed fields beside their mask.
\<close>

section \<open>The API\<close>

definition pubsubPathBuilder :: "PathContext \<Rightarrow> string" where
  "pubsubPathBuilder ctx =
     ''/projects/'' @ pc_Project ctx @ ''/'' @ pc_ResourceType ctx
       @ (if pc_ResourceName ctx \<noteq> [] then ''/'' @ pc_ResourceName ctx else [])"

definition extractPubSubNativeID :: "obj \<Rightarrow> PathContext \<Rightarrow> string" where
  "extractPubSubNativeID response ctx =
     (case as_string (map_of response ''name'') of
        Some name \<Rightarrow>
          if HasPrefix name ''projects/'' then name
          else if pc_ResourceName ctx \<noteq> []
          then ''projects/'' @ pc_Project ctx @ ''/'' @ pc_ResourceType ctx @ ''/'' @ pc_ResourceName ctx else []
      | None \<Rightarrow>
          if pc_ResourceName ctx \<noteq> []
          then ''projects/'' @ pc_Project ctx @ ''/'' @ pc_ResourceType ctx @ ''/'' @ pc_ResourceName ctx else [])"

definition parsePubSubNativeID :: "string \<Rightarrow> goerr + PathContext" where
  "parsePubSubNativeID nativeID =
     (case Split nativeID CHR ''/'' of
        [p, project, resourceType, name] \<Rightarrow>
          if p \<noteq> ''projects'' then Inl (ErrText (''invalid pubsub native ID: '' @ nativeID))
          else Inr (empty_ctx\<lparr>pc_Project := project, pc_ResourceType := resourceType, pc_ResourceName := name\<rparr>)
      | _ \<Rightarrow> Inl (ErrText (''invalid pubsub native ID: '' @ nativeID)))"

definition PubSubAPI :: APIConfig where
  "PubSubAPI = \<lparr>ac_BaseURL = ''https://pubsub.googleapis.com/v1'', ac_APIVersion = ''v1'', ac_PathBuilder = Some pubsubPathBuilder,
     ac_Pagination = Some \<lparr>pg_Disabled = False, pg_PageSizeParam = ''pageSize'', pg_PageTokenParam = ''pageToken''\<rparr>\<rparr>"

definition PubSubOperations :: OperationConfig where
  "PubSubOperations = \<lparr>oc_Synchronous = True, oc_OperationIDExtractor = Some (\<lambda>_. []),
     oc_OperationURLBuilder = Some (\<lambda>_ _. []), oc_NativeIDExtractor = Some extractPubSubNativeID,
     oc_OperationStatusChecker = Some (\<lambda>_. (True, None)), oc_RetryableError = None\<rparr>"

definition PubSubNativeID :: NativeIDConfig where
  "PubSubNativeID = \<lparr>ni_Format = FullPathFormat, ni_PathTemplate = [], ni_Parser = Some parsePubSubNativeID\<rparr>"

section \<open>Transformers\<close>

definition stripName :: request_transformer where
  "stripName props ctx = Ok (Some (without [''name''] (obj_of props)))"

text \<open>A reference given by a short name becomes the path the API requires.\<close>

definition expand_reference :: "string \<Rightarrow> string \<Rightarrow> TransformContext \<Rightarrow> obj \<Rightarrow> obj" where
  "expand_reference field collection ctx body =
     (case as_string (map_of body field) of
        Some v \<Rightarrow>
          if v \<noteq> [] \<and> \<not> HasPrefix v ''projects/''
          then AList.update field (JStr (''projects/'' @ tc_Project ctx @ ''/'' @ collection @ ''/'' @ v)) body else body
      | None \<Rightarrow> body)"

definition subscriptionCreateTransformer :: request_transformer where
  "subscriptionCreateTransformer props ctx =
     Ok (Some (expand_reference ''topic'' ''topics'' ctx (without [''name''] (obj_of props))))"

definition shortenField :: "string \<Rightarrow> obj \<Rightarrow> obj" where
  "shortenField key m =
     (case as_string (map_of m key) of
        None \<Rightarrow> m
      | Some v \<Rightarrow> (case LastIndex v CHR ''/'' of None \<Rightarrow> m | Some i \<Rightarrow> AList.update key (JStr (drop (i + 1) v)) m))"

definition subscriptionResponseTransformer :: response_transformer where
  "subscriptionResponseTransformer apiResponse ctx =
     Ok (map_option (\<lambda>m. shortenField ''topic'' (shortenField ''name'' m)) apiResponse)"

definition snapshotCreateTransformer :: request_transformer where
  "snapshotCreateTransformer props ctx =
     Ok (Some (expand_reference ''subscription'' ''subscriptions'' ctx
                 (without [''name'', ''topic'', ''expireTime''] (obj_of props))))"

definition snapshotResponseTransformer :: response_transformer where
  "snapshotResponseTransformer apiResponse ctx =
     Ok (map_option (\<lambda>m. shortenField ''topic'' (shortenField ''name'' m)) apiResponse)"

section \<open>The table\<close>

definition pubsub_type ::
    "string \<Rightarrow> string \<Rightarrow> request_transformer \<Rightarrow> response_transformer \<Rightarrow> 'w ResourceDefinition" where
  "pubsub_type t collection req resp =
     \<lparr>rd_Type = t, rd_APIConfig = zero_api, rd_OperationConfig = zero_operations,
      rd_ResourceConfig = zero_resource\<lparr>rc_ResourceType := collection\<rparr>,
      rd_NativeIDConfig = zero_native_id, rd_RequestTransformer = Some req, rd_ResponseTransformer = Some resp,
      rd_Operations = None\<rparr>"

definition pubsub_definitions :: "'w ResourceDefinition list" where
  "pubsub_definitions =
     [pubsub_type ''GCP::PubSub::Topic'' ''topics'' stripName ShortNameResponseTransformer,
      pubsub_type ''GCP::PubSub::Subscription'' ''subscriptions'' subscriptionCreateTransformer subscriptionResponseTransformer,
      pubsub_type ''GCP::PubSub::Snapshot'' ''snapshots'' snapshotCreateTransformer snapshotResponseTransformer,
      pubsub_type ''GCP::PubSub::Schema'' ''schemas'' stripName ShortNameResponseTransformer]"

datatype createStyle = createPut | createPostQueryID

record rconf =
  rf_style :: createStyle
  rf_idParam :: string
  rf_updateWrapper :: string
  rf_mutableFields :: "string list"

definition pubsub_conventions :: "(string \<times> rconf) list" where
  "pubsub_conventions =
     [(''GCP::PubSub::Topic'', \<lparr>rf_style = createPut, rf_idParam = [], rf_updateWrapper = ''topic'',
         rf_mutableFields = [''labels'', ''messageRetentionDuration'']\<rparr>),
      (''GCP::PubSub::Subscription'', \<lparr>rf_style = createPut, rf_idParam = [], rf_updateWrapper = ''subscription'',
         rf_mutableFields = [''ackDeadlineSeconds'', ''retainAckedMessages'', ''messageRetentionDuration'', ''labels'']\<rparr>),
      (''GCP::PubSub::Snapshot'', \<lparr>rf_style = createPut, rf_idParam = [], rf_updateWrapper = ''snapshot'',
         rf_mutableFields = [''labels'']\<rparr>),
      (''GCP::PubSub::Schema'', \<lparr>rf_style = createPostQueryID, rf_idParam = ''schemaId'', rf_updateWrapper = [],
         rf_mutableFields = []\<rparr>)]"

record 'w PubSubProvisioner =
  ps_base :: "'w BaseResource"
  ps_conf :: rconf

text \<open>The factory each type is registered with, after the table.\<close>

definition newPubSubProvisioner :: "string \<Rightarrow> Config option \<Rightarrow> 'w PubSubProvisioner option" where
  "newPubSubProvisioner t cfg =
     (case (map_of (map (\<lambda>d. (rd_Type d, d)) pubsub_definitions) t, map_of pubsub_conventions t) of
        (Some d, Some rc) \<Rightarrow>
          Some \<lparr>ps_base = \<lparr>b_Config = cfg, b_APIConfig = PubSubAPI, b_OperationConfig = PubSubOperations,
                  b_ResourceConfig = rd_ResourceConfig d, b_NativeIDConfig = PubSubNativeID,
                  b_RequestTransformer = rd_RequestTransformer d, b_ResponseTransformer = rd_ResponseTransformer d\<rparr>,
                ps_conf = rc\<rparr>
      | _ \<Rightarrow> None)"

definition pubsub_operations :: "rconf \<Rightarrow> Operation list" where
  "pubsub_operations rc =
     [OperationCreate, OperationRead, OperationDelete, OperationList, OperationCheckStatus]
       @ (if rf_updateWrapper rc \<noteq> [] then [OperationUpdate] else [])"

section \<open>Create and Update\<close>

text \<open>Method and URL of the request, by the convention of the type.\<close>

definition create_target :: "'w PubSubProvisioner \<Rightarrow> PathContext \<Rightarrow> (goerr, string \<times> string) outcome" where
  "create_target p ctx =
     (let b = NewURLBuilder (b_APIConfig (ps_base p)) ctx
      in case rf_style (ps_conf p) of
           createPut \<Rightarrow> bind_outcome (ResourceURL b (pc_ResourceName ctx)) (\<lambda>url. Ok (''PUT'', url))
         | createPostQueryID \<Rightarrow>
             bind_outcome (CollectionURL b) (\<lambda>url.
               case AddQueryParams url [(rf_idParam (ps_conf p), pc_ResourceName ctx)] of
                 Inl e \<Rightarrow> Err e | Inr u \<Rightarrow> Ok (''POST'', u)))"

definition pubsub_created ::
    "'w PubSubProvisioner \<Rightarrow> PathContext \<Rightarrow> obj option \<Rightarrow> (goerr, ProgressResult) outcome" where
  "pubsub_created p ctx body =
     bind_outcome (call_native_id (ps_base p) body ctx) (\<lambda>nativeID.
     bind_outcome (transform_response (ps_base p) body ctx OperationCreate) (\<lambda>respBody.
       Ok ((progress OperationCreate OperationStatusSuccess)
             \<lparr>pr_NativeID := nativeID, pr_Message := ''Resource created successfully'',
              pr_Properties := Some (case Marshal (map_value respBody) of Inl e \<Rightarrow> RawNil | Inr r \<Rightarrow> r)\<rparr>)))"

definition PubSub_Create :: "'w env \<Rightarrow> 'w PubSubProvisioner \<Rightarrow> CreateRequest \<Rightarrow> ('w, ProgressResult) op" where
  "PubSub_Create E p request s =
     (case NewClient E (b_Config (ps_base p)) s of
        (Inl e, s1) \<Rightarrow> (Err (client_error e), s1)
      | (Inr client, s1) \<Rightarrow>
          (case unmarshal_map (cr_Properties request) of
             Inl e \<Rightarrow> (Ok (createFailureResult InvalidRequest (''failed to parse properties: '' @ e)), s1)
           | Inr props \<Rightarrow>
               (let name = GetString (obj_of props) ''name'';
                    cfg = FromTargetConfig (cr_TargetConfig request) (Deps (b_Config (ps_base p)));
                    ctx = empty_ctx\<lparr>pc_Project := c_Project cfg,
                            pc_ResourceType := rc_ResourceType (b_ResourceConfig (ps_base p)), pc_ResourceName := name\<rparr>
                in if name = [] then (Ok (createFailureResult InvalidRequest ''name is required''), s1)
                   else case transform_request (ps_base p) (obj_of props) ctx OperationCreate of
                     Panic m \<Rightarrow> (Panic m, s1)
                   | Err e \<Rightarrow> (Ok (createFailureResult InvalidRequest (''failed to transform request: '' @ err_text e)), s1)
                   | Ok body \<Rightarrow>
                       (case create_target p ctx of
                          Panic m \<Rightarrow> (Panic m, s1)
                        | Err e \<Rightarrow> (Ok (createFailureResult InvalidRequest (''failed to build URL: '' @ err_text e)), s1)
                        | Ok (meth, url) \<Rightarrow>
                            (case SendRequest E client (request_options meth url body) s1 of
                               (Inl e, s2) \<Rightarrow>
                                 (let te = wrap_err e (''failed to create '' @ cr_ResourceType request @ '' '' @ [CHR 0x27] @ name @ [CHR 0x27])
                                  in (Ok (createFailureResult (ToResourceErrorCode (te_Code te)) (te_Message te)), s2))
                             | (Inr response, s2) \<Rightarrow> (pubsub_created p ctx (rs_Body response), s2))))))"

definition mutable_part :: "string list \<Rightarrow> obj \<Rightarrow> obj" where
  "mutable_part mutable props = filter (\<lambda>(k, v). k \<in> set mutable) props"

definition update_body :: "rconf \<Rightarrow> obj \<Rightarrow> obj" where
  "update_body rc props =
     (let part = mutable_part (rf_mutableFields rc) props
      in [(rf_updateWrapper rc, JObj part), (''updateMask'', JStr (Join (sort (map fst part)) '',''))])"

definition PubSub_Update :: "'w env \<Rightarrow> 'w PubSubProvisioner \<Rightarrow> UpdateRequest \<Rightarrow> ('w, ProgressResult) op" where
  "PubSub_Update E p request s =
     (if rf_updateWrapper (ps_conf p) = []
      then (Ok (updateFailureResult (up_NativeID request) NotUpdatable
                  (rc_ResourceType (b_ResourceConfig (ps_base p)) @ '' does not support updates'')), s)
      else case NewClient E (b_Config (ps_base p)) s of
        (Inl e, s1) \<Rightarrow> (Err (client_error e), s1)
      | (Inr client, s1) \<Rightarrow>
          (case unmarshal_map (up_DesiredProperties request) of
             Inl e \<Rightarrow> (Ok (updateFailureResult (up_NativeID request) InvalidRequest (''failed to parse properties: '' @ e)), s1)
           | Inr props \<Rightarrow>
               (case ParseNativeID (b_NativeIDConfig (ps_base p)) (up_NativeID request) of
                  Inl e \<Rightarrow> (Ok (updateFailureResult (up_NativeID request) InvalidRequest (''invalid native ID: '' @ err_text e)), s1)
                | Inr ctx0 \<Rightarrow>
                    (let ctx = ctx0\<lparr>pc_ResourceType := rc_ResourceType (b_ResourceConfig (ps_base p))\<rparr>
                     in case resource_url (ps_base p) ctx of
                          Err e \<Rightarrow> (Err e, s1)
                        | Panic m \<Rightarrow> (Panic m, s1)
                        | Ok url \<Rightarrow>
                            (case SendRequest E client
                                    (request_options ''PATCH'' url (Some (update_body (ps_conf p) (obj_of props)))) s1 of
                               (Inl e, s2) \<Rightarrow>
                                 (let te = wrap_err e (''failed to update '' @ up_ResourceType request)
                                  in (Ok (updateFailureResult (up_NativeID request) (ToResourceErrorCode (te_Code te)) (te_Message te)), s2))
                             | (Inr response, s2) \<Rightarrow>
                                 (Ok ((progress OperationUpdate OperationStatusSuccess)
                                        \<lparr>pr_NativeID := up_NativeID request, pr_Message := ''Resource updated successfully''\<rparr>), s2))))))"

text \<open>The operations that are passed on.\<close>

definition PubSub_Read :: "'w env \<Rightarrow> 'w PubSubProvisioner \<Rightarrow> ReadRequest \<Rightarrow> ('w, ReadResult) op" where
  "PubSub_Read E p = Read E (ps_base p)"

definition PubSub_Delete :: "'w env \<Rightarrow> 'w PubSubProvisioner \<Rightarrow> DeleteRequest \<Rightarrow> ('w, ProgressResult) op" where
  "PubSub_Delete E p = Delete E (ps_base p)"

definition PubSub_List :: "'w env \<Rightarrow> 'w PubSubProvisioner \<Rightarrow> ListRequest \<Rightarrow> ('w, ListResult) op" where
  "PubSub_List E p = List E (ps_base p)"

definition PubSub_Status :: "'w env \<Rightarrow> 'w PubSubProvisioner \<Rightarrow> StatusRequest \<Rightarrow> ('w, ProgressResult) op" where
  "PubSub_Status E p = Status E (ps_base p)"

section \<open>Identifiers\<close>

definition pubsub_ok :: "PathContext \<Rightarrow> bool" where
  "pubsub_ok ctx \<longleftrightarrow>
     ctx = empty_ctx\<lparr>pc_Project := pc_Project ctx, pc_ResourceType := pc_ResourceType ctx, pc_ResourceName := pc_ResourceName ctx\<rparr>
     \<and> seg (pc_Project ctx) \<and> seg (pc_ResourceType ctx) \<and> seg (pc_ResourceName ctx) \<and> pc_ResourceName ctx \<noteq> []"

interpretation pubsub_id: id_reader "\<lambda>ctx. tl (pubsubPathBuilder ctx)" parsePubSubNativeID pubsub_ok
proof
  fix ctx assume ok: "pubsub_ok ctx"
  then have "Split (tl (pubsubPathBuilder ctx)) CHR ''/'' = [''projects'', pc_Project ctx, pc_ResourceType ctx, pc_ResourceName ctx]"
    by (simp add: pubsub_ok_def pubsubPathBuilder_def segment)
  then show "parsePubSubNativeID (tl (pubsubPathBuilder ctx)) = Inr ctx"
    using ok unfolding pubsub_ok_def by (simp add: parsePubSubNativeID_def)
qed

lemma extract_pubsub:
  assumes "as_string (map_of body ''name'') \<in> {None, Some (tl (pubsubPathBuilder ctx))}" and "pc_ResourceName ctx \<noteq> []"
  shows "extractPubSubNativeID body ctx = tl (pubsubPathBuilder ctx)"
  using assms by (auto simp: extractPubSubNativeID_def pubsubPathBuilder_def)

section \<open>What is read back\<close>

lemma LastIndex_segment:
  assumes "LastIndex x CHR ''/'' = Some i"
  shows "drop (i + 1) x = ExtractLastSegment x"
proof -
  have "CHR ''/'' \<in> set x" using assms by (auto simp: LastIndex_def split: if_splits)
  then obtain a b where ab: "x = a @ CHR ''/'' # b" "CHR ''/'' \<notin> set b" using split_list_last by metis
  have "takeWhile (\<lambda>c. c \<noteq> CHR ''/'') (rev x) = rev b"
    using takeWhile_neq_append [of "CHR ''/''" "rev b" "rev a"] ab by simp
  then have "i = length a" using assms ab(1) by (simp add: LastIndex_def)
  then show ?thesis using ExtractLastSegment_suffix [OF ab(2)] ab(1) by simp
qed

lemma shortenField_eq: "map_of (shortenField k m) = (map_of m)(k := map_option (on_string ExtractLastSegment) (map_of m k))"
proof (cases "map_of m k")
  case (Some v)
  show ?thesis
  proof (cases "\<exists>s. v = JStr s")
    case True
    then obtain x where x: "v = JStr x" ..
    show ?thesis
    proof (cases "LastIndex x CHR ''/''")
      case None
      then have "CHR ''/'' \<notin> set x" by (simp add: LastIndex_def Let_def split: if_splits)
      then show ?thesis using Some x None by (auto simp: shortenField_def fun_eq_iff ExtractLastSegment_def Split_no_sep)
    next
      case (Some i)
      then show ?thesis using \<open>map_of m k = Some v\<close> x LastIndex_segment [OF Some]
        by (auto simp: shortenField_def fun_eq_iff)
    qed
  next
    case False
    then show ?thesis using Some by (cases v) (auto simp: shortenField_def fun_eq_iff)
  qed
qed (auto simp: shortenField_def fun_eq_iff)

interpretation subscription_reading: reading subscriptionResponseTransformer "{''name'', ''topic''}"
proof (unfold_locales, goal_cases)
  case (2 m ctx r k)
  then show ?case by (auto simp: subscriptionResponseTransformer_def shortenField_eq)
next
  case (3 m ctx r r')
  then show ?case by (auto simp: subscriptionResponseTransformer_def shortenField_eq fun_eq_iff option.map_comp comp_def)
qed (simp add: subscriptionResponseTransformer_def)

interpretation snapshot_reading: reading snapshotResponseTransformer "{''name'', ''topic''}"
  using subscription_reading.reading_axioms
  by (simp add: snapshotResponseTransformer_def [abs_def] subscriptionResponseTransformer_def [abs_def])

definition expand_name :: "string \<Rightarrow> TransformContext \<Rightarrow> string \<Rightarrow> string" where
  "expand_name collection ctx v =
     (if v \<noteq> [] \<and> \<not> HasPrefix v ''projects/'' then ''projects/'' @ tc_Project ctx @ ''/'' @ collection @ ''/'' @ v else v)"

lemma map_of_expand_reference:
  "map_of (expand_reference field collection ctx b)
     = (map_of b)(field := map_option (on_string (expand_name collection ctx)) (map_of b field))"
proof (cases "map_of b field")
  case (Some v)
  then show ?thesis by (cases v) (auto simp: expand_reference_def expand_name_def fun_eq_iff)
qed (auto simp: expand_reference_def fun_eq_iff)

lemma read_expanded_name: "CHR ''/'' \<notin> set x \<Longrightarrow> ExtractLastSegment (expand_name collection ctx x) = x"
  using ExtractLastSegment_suffix [of x "''projects/'' @ tc_Project ctx @ ''/'' @ collection"]
  by (auto simp: expand_name_def HasPrefix_iff ExtractLastSegment_def Split_no_sep)

lemma read_expanded_reference:
  assumes "short (Some v)" and "reflects secret (on_string (expand_name collection ctx) v) u"
  shows "reflects secret v (on_string ExtractLastSegment u)"
proof (cases v)
  case (JStr x)
  then show ?thesis using assms by (auto simp: short_def read_expanded_name)
next
  case (JObj w)
  then show ?thesis using assms by (cases u) auto
qed (use assms in auto)

section \<open>Properties\<close>

text \<open>
  A subscription reads back as declared. The forma names itself and its topic by short names; the
  name travels in the URL and the topic as a path. If the API answers with the fields it was sent and
  the full name of the subscription, then every declared field is read with the declared value.
\<close>
lemma subscription_reads_back:
  assumes "map_of m ''name'' = Some (JStr name)" and "seg name" and "short (map_of m ''topic'')"
    and "subscriptionCreateTransformer (Some m) ctx = Ok (Some b)"
    and "mirrors {} b a" and "map_of a ''name'' = Some (JStr (''projects/'' @ tc_Project ctx @ ''/subscriptions/'' @ name))"
    and "subscriptionResponseTransformer (Some a) ctx = Ok (Some r)"
  shows "mirrors {} m r"
  unfolding mirrors_def
proof (intro allI impI)
  fix k v assume k: "map_of m k = Some v"
  have r: "map_of r = (map_of a)(''name'' := map_option (on_string ExtractLastSegment) (map_of a ''name''),
      ''topic'' := map_option (on_string ExtractLastSegment) (map_of a ''topic''))"
    using assms(7) by (auto simp: subscriptionResponseTransformer_def shortenField_eq)
  have b: "b = expand_reference ''topic'' ''topics'' ctx (without [''name''] m)"
    using assms(4) by (simp add: subscriptionCreateTransformer_def)
  consider "k = ''name''" | "k = ''topic''" | "k \<noteq> ''name''" "k \<noteq> ''topic''" by blast
  then show "\<exists>u. map_of r k = Some u \<and> reflects {} v u"
  proof cases
    case 1
    have "ExtractLastSegment (''projects/'' @ tc_Project ctx @ ''/subscriptions/'' @ name) = name"
      using ExtractLastSegment_suffix [of name "''projects/'' @ tc_Project ctx @ ''/subscriptions''"] assms(2) by (simp add: seg_def)
    then show ?thesis using 1 k assms(1,6) r by simp
  next
    case 2
    then have "map_of b ''topic'' = Some (on_string (expand_name ''topics'' ctx) v)"
      using k by (simp add: b map_of_expand_reference)
    with mirrorsD [OF assms(5)] obtain u where "map_of a ''topic'' = Some u"
      "reflects {} (on_string (expand_name ''topics'' ctx) v) u" by blast
    moreover have "short (Some v)" using assms(3) 2 k by simp
    ultimately show ?thesis using 2 r read_expanded_reference by auto
  next
    case 3
    then have "map_of b k = Some v" using k by (simp add: b map_of_expand_reference)
    with mirrorsD [OF assms(5)] 3 show ?thesis by (auto simp: r)
  qed
qed

text \<open>
  C29: An update reaches only what Pub/Sub lets change. It sends nothing and does not succeed, or it sends
  one PATCH of the resource its identifier names, whose wrapped object has the declared value for every
  declared mutable field and no other field, and whose mask lists exactly the fields of that object.
\<close>
theorem pubsub_update_masked:
  assumes "PubSub_Update (logged E) p request s = (r, s')"
    and "unmarshal_map (up_DesiredProperties request) = Inr props"
  shows "(sent s' = sent s \<and> \<not> (\<exists>q. r = Ok q \<and> pr_Status q = OperationStatusSuccess))
    \<or> (\<exists>req part ctx url. sent s' = sent s @ [req] \<and> hq_Method req = ''PATCH''
         \<and> ParseNativeID (b_NativeIDConfig (ps_base p)) (up_NativeID request) = Inr ctx
         \<and> resource_url (ps_base p) (ctx\<lparr>pc_ResourceType := rc_ResourceType (b_ResourceConfig (ps_base p))\<rparr>) = Ok url
         \<and> AddQueryParam url ''alt'' ''json'' = Inr (hq_URL req)
         \<and> carries req [(rf_updateWrapper (ps_conf p), JObj part), (''updateMask'', JStr (Join (sort (map fst part)) '',''))]
         \<and> (\<forall>k. map_of part k = (if k \<in> set (rf_mutableFields (ps_conf p)) then map_of (obj_of props) k else None)))"
proof (cases "rf_updateWrapper (ps_conf p) = []")
  case True
  then show ?thesis using assms(1) by (auto simp: PubSub_Update_def updateFailureResult_def)
next
  case False
  obtain q s1 where q: "NewClient (logged E) (b_Config (ps_base p)) s = (q, s1)" by (metis surj_pair)
  note s1 = NewClient_sent [OF q]
  show ?thesis
  proof (cases q)
    case (Inl e)
    then show ?thesis using assms(1) False q s1 by (auto simp: PubSub_Update_def)
  next
    case (Inr client)
    note start = assms(1) [unfolded PubSub_Update_def] False q Inr assms(2)
    show ?thesis
    proof (cases "ParseNativeID (b_NativeIDConfig (ps_base p)) (up_NativeID request)")
      case (Inl e)
      then show ?thesis using start s1 by (auto simp: updateFailureResult_def)
    next
      case (Inr ctx)
      let ?ctx = "ctx\<lparr>pc_ResourceType := rc_ResourceType (b_ResourceConfig (ps_base p))\<rparr>"
      show ?thesis
      proof (cases "resource_url (ps_base p) ?ctx")
        case (Ok url)
        let ?part = "mutable_part (rf_mutableFields (ps_conf p)) (obj_of props)"
        let ?opts = "request_options ''PATCH'' url (Some (update_body (ps_conf p) (obj_of props)))"
        obtain a s2 where a: "SendRequest (logged E) client ?opts s1 = (a, s2)" by (metis surj_pair)
        have s': "s' = s2" "(\<exists>e. a = Inl e) \<longrightarrow> \<not> (\<exists>q. r = Ok q \<and> pr_Status q = OperationStatusSuccess)"
          using start Inr Ok a by (cases a; auto simp: Let_def updateFailureResult_def)+
        have part: "map_of ?part k = (if k \<in> set (rf_mutableFields (ps_conf p)) then map_of (obj_of props) k else None)" for k
          unfolding mutable_part_def by (rule map_of_filter_keys)
        from SendRequest_logged [OF a] show ?thesis
        proof
          assume "sent s2 = sent s1 \<and> (\<exists>e. a = Inl e)"
          then show ?thesis using s' s1 by auto
        next
          assume "\<exists>req. sends client ?opts req \<and> sent s2 = sent s1 @ [req]"
          then obtain req where req: "sends client ?opts req" "sent s2 = sent s @ [req]" using s1 by auto
          have "hq_Method req = ''PATCH''" "AddQueryParam url ''alt'' ''json'' = Inr (hq_URL req)"
            using req(1) by (simp_all add: sends_def request_options_def)
          moreover have "carries req (update_body (ps_conf p) (obj_of props))" by (rule sends_carries [OF req(1)])
          ultimately show ?thesis using req(2) s'(1) Inr Ok part
            unfolding update_body_def Let_def by blast
        qed
      qed (use start Inr s1 in \<open>auto simp: Let_def\<close>)
    qed
  qed
qed

lemma newPubSubProvisioner_sel:
  assumes "newPubSubProvisioner t cfg = Some p"
  shows "b_Config (ps_base p) = cfg" "b_APIConfig (ps_base p) = PubSubAPI" "b_OperationConfig (ps_base p) = PubSubOperations"
    "b_NativeIDConfig (ps_base p) = PubSubNativeID" "seg (rc_ResourceType (b_ResourceConfig (ps_base p)))"
proof -
  obtain d rc where d: "map_of (map (\<lambda>d. (rd_Type d, d)) pubsub_definitions) t = Some d"
    and p: "p = \<lparr>ps_base = \<lparr>b_Config = cfg, b_APIConfig = PubSubAPI, b_OperationConfig = PubSubOperations,
                  b_ResourceConfig = rd_ResourceConfig d, b_NativeIDConfig = PubSubNativeID,
                  b_RequestTransformer = rd_RequestTransformer d, b_ResponseTransformer = rd_ResponseTransformer d\<rparr>, ps_conf = rc\<rparr>"
    using assms by (auto simp: newPubSubProvisioner_def split: option.splits)
  show "b_Config (ps_base p) = cfg" "b_APIConfig (ps_base p) = PubSubAPI" "b_OperationConfig (ps_base p) = PubSubOperations"
    "b_NativeIDConfig (ps_base p) = PubSubNativeID" by (simp_all add: p)
  have "d \<in> set pubsub_definitions" using map_of_SomeD [OF d] by auto
  then show "seg (rc_ResourceType (b_ResourceConfig (ps_base p)))"
    by (auto simp: p pubsub_definitions_def pubsub_type_def)
qed

text \<open>
  What Create puts is where the other operations look. A topic, subscription or snapshot is put at
  the URL its name and the project of the target give; if the answer names the resource, or leaves the
  name out, then the identifier Create reports leads Read, Update and Delete back to this URL, whatever
  target they are called with.
\<close>
lemma pubsub_found_where_put:
  fixes E :: "'w env"
  assumes "newPubSubProvisioner t cfg = Some (p :: ('w \<times> http_request list) PubSubProvisioner)" and "rf_style (ps_conf p) = createPut"
    and "unmarshal_map (cr_Properties request) = Inr (Some m)" and "GetString m ''name'' \<noteq> []" and "seg (GetString m ''name'')"
    and "c_Project (FromTargetConfig (cr_TargetConfig request) (Deps cfg)) = project" and "project \<noteq> []" and "seg project"
    and "ctx = empty_ctx\<lparr>pc_Project := project, pc_ResourceType := rc_ResourceType (b_ResourceConfig (ps_base p)),
           pc_ResourceName := GetString m ''name''\<rparr>"
    and "NewClient (logged E) cfg s = (Inr client, s1)"
    and "transform_request (ps_base p) m ctx OperationCreate = Ok body"
    and "SendRequest (logged E) client (request_options ''PUT'' (ac_BaseURL PubSubAPI @ pubsubPathBuilder ctx) body) s1 = (Inr resp, s2)"
    and "as_string (map_of (obj_of (rs_Body resp)) ''name'') \<in> {None, Some (tl (pubsubPathBuilder ctx))}"
    and "PubSub_Create (logged E) p request s = (Ok r, s')"
  shows "pr_Status r = OperationStatusSuccess \<and> s' = s2
    \<and> ParseNativeID (b_NativeIDConfig (ps_base p)) (pr_NativeID r) = Inr ctx
    \<and> (\<forall>target. resource_url (ps_base p) (resource_context (ps_base p) target ctx) = Ok (ac_BaseURL PubSubAPI @ pubsubPathBuilder ctx))"
proof -
  note sel = newPubSubProvisioner_sel [OF assms(1)]
  have ok: "pubsub_ok ctx" using assms(5,8,4) sel(5) by (simp add: pubsub_ok_def assms(9))
  have url: "resource_url (ps_base p) c = Ok (ac_BaseURL PubSubAPI @ pubsubPathBuilder ctx)"
    if "pc_Project c = project" "pc_ResourceType c = pc_ResourceType ctx" "pc_ResourceName c = GetString m ''name''" for c
    using that assms(4) by (simp add: resource_url_def ResourceURL_def build_url_def NewURLBuilder_def sel(2) PubSubAPI_def
        pubsubPathBuilder_def assms(9))
  have "create_target p ctx = Ok (''PUT'', ac_BaseURL PubSubAPI @ pubsubPathBuilder ctx)"
    using url [of ctx] assms(2) by (simp add: create_target_def resource_url_def Let_def assms(9))
  then have "pubsub_created p ctx (rs_Body resp) = Ok r" "s' = s2"
    using assms(3,4,6,10,11,12,14) unfolding assms(9)
    by (auto simp: PubSub_Create_def sel(1) Let_def)
  moreover have "call_native_id (ps_base p) (rs_Body resp) ctx = Ok (tl (pubsubPathBuilder ctx))"
    using extract_pubsub [OF assms(13)] assms(4) by (simp add: call_native_id_def sel(3) PubSubOperations_def assms(9))
  ultimately have "pr_Status r = OperationStatusSuccess" "pr_NativeID r = tl (pubsubPathBuilder ctx)" "s' = s2"
    by (cases "transform_response (ps_base p) (rs_Body resp) ctx OperationCreate"; auto simp: pubsub_created_def)+
  moreover have "ParseNativeID PubSubNativeID (tl (pubsubPathBuilder ctx)) = Inr ctx"
    using pubsub_id.parse_build [OF ok] by (simp add: ParseNativeID_def PubSubNativeID_def)
  moreover have "resource_url (ps_base p) (resource_context (ps_base p) target ctx) = Ok (ac_BaseURL PubSubAPI @ pubsubPathBuilder ctx)" for target
    using assms(7) by (intro url)
      (auto simp: resource_context_def fillPathContextFromTarget_def fill_def assms(9) Let_def split: option.split ScopeType.split)
  ultimately show ?thesis using sel(4) by simp
qed

section \<open>The properties on a concrete topic\<close>

definition demo_topic :: "demo_world PubSubProvisioner" where
  "demo_topic = the (newPubSubProvisioner ''GCP::PubSub::Topic'' demo_cfg)"

lemma demo_topic_new: "newPubSubProvisioner ''GCP::PubSub::Topic'' demo_cfg = Some demo_topic"
  by (simp add: demo_topic_def newPubSubProvisioner_def pubsub_definitions_def pubsub_type_def pubsub_conventions_def)

lemma demo_topic_sel:
  "rf_style (ps_conf demo_topic) = createPut" "rf_updateWrapper (ps_conf demo_topic) = ''topic''"
  "rf_mutableFields (ps_conf demo_topic) = [''labels'', ''messageRetentionDuration'']"
  "rc_ResourceType (b_ResourceConfig (ps_base demo_topic)) = ''topics''"
  "b_RequestTransformer (ps_base demo_topic) = Some stripName" "b_ResponseTransformer (ps_base demo_topic) = Some ShortNameResponseTransformer"
  by (simp_all add: demo_topic_def newPubSubProvisioner_def pubsub_definitions_def pubsub_type_def pubsub_conventions_def)

definition demo_topic_ctx :: PathContext where
  "demo_topic_ctx = empty_ctx\<lparr>pc_Project := ''p'', pc_ResourceType := ''topics'', pc_ResourceName := ''t''\<rparr>"

lemma demo_topic_url:
  "ac_BaseURL PubSubAPI @ pubsubPathBuilder demo_topic_ctx = ''https://pubsub.googleapis.com/v1/projects/p/topics/t''"
  "Parse ''https://pubsub.googleapis.com/v1/projects/p/topics/t'' \<noteq> None"
  by (simp_all add: PubSubAPI_def pubsubPathBuilder_def demo_topic_ctx_def empty_ctx_def Parse_def before_def control_char_def Let_def)

theorem pubsub_update_masked_witness:
  "\<exists>r s' req. PubSub_Update (logged script_env) demo_topic \<lparr>up_NativeID = ''projects/p/topics/t'', up_ResourceType = ''T'', up_TargetConfig = RawNil,
        up_DesiredProperties = RawDoc (JObj [(''labels'', JObj []), (''name'', JStr ''t'')])\<rparr> (script_at [scripted 200 (JObj [])] []) = (r, s')
     \<and> sent s' = [req] \<and> (\<exists>part. carries req [(''topic'', JObj part), (''updateMask'', JStr (Join (sort (map fst part)) '',''))]
          \<and> map_of part ''labels'' = Some (JObj []) \<and> map_of part ''name'' = None)"
proof -
  let ?req = "\<lparr>up_NativeID = ''projects/p/topics/t'', up_ResourceType = ''T'', up_TargetConfig = RawNil,
        up_DesiredProperties = RawDoc (JObj [(''labels'', JObj []), (''name'', JStr ''t'')])\<rparr>"
  let ?s = "script_at [scripted 200 (JObj [])] []" and ?m = "[(''labels'', JObj []), (''name'', JStr ''t'')]"
  note sel = newPubSubProvisioner_sel [OF demo_topic_new]
  have i: "ParseNativeID PubSubNativeID ''projects/p/topics/t'' = Inr demo_topic_ctx"
    by (simp add: ParseNativeID_def PubSubNativeID_def parsePubSubNativeID_def demo_topic_ctx_def)
  have u: "resource_url (ps_base demo_topic) (demo_topic_ctx\<lparr>pc_ResourceType := ''topics''\<rparr>) = Ok ''https://pubsub.googleapis.com/v1/projects/p/topics/t''"
    by (simp add: resource_url_def ResourceURL_def build_url_def NewURLBuilder_def sel(2) PubSubAPI_def pubsubPathBuilder_def
        demo_topic_ctx_def empty_ctx_def)
  have "marshalable (JObj (update_body (ps_conf demo_topic) ?m))"
    by (simp add: update_body_def mutable_part_def demo_topic_sel)
  then obtain req where send: "SendRequest (logged script_env) demo_client (request_options ''PATCH''
        ''https://pubsub.googleapis.com/v1/projects/p/topics/t'' (Some (update_body (ps_conf demo_topic) ?m))) ?s
      = (Inr \<lparr>rs_StatusCode = 200, rs_Body = Some [], rs_Headers = []\<rparr>, script_at [] [req])"
    using script_send [OF demo_topic_url(2) methods_ok(4), of "Some (update_body (ps_conf demo_topic) ?m)" "[]" "[]" "[]"] by auto
  then obtain r where w: "PubSub_Update (logged script_env) demo_topic ?req ?s = (r, script_at [] [req])"
    by (simp add: PubSub_Update_def demo_topic_sel sel(1,4) demo_NewClient i u Let_def)
  from pubsub_update_masked [OF w, of "Some ?m"] obtain req' part where "[req] = [req']"
      "carries req' [(''topic'', JObj part), (''updateMask'', JStr (Join (sort (map fst part)) '',''))]"
      "\<forall>k. map_of part k = (if k \<in> set [''labels'', ''messageRetentionDuration''] then map_of ?m k else None)"
    unfolding demo_topic_sel by auto
  then show ?thesis using w by auto
qed

end
