(* ===== verification/Pubsub_Iam.thy ===== *)
theory Pubsub_Iam
  imports Pubsub Guarded_Writes Iam_Member
begin

text \<open>
  One (role, member) pair of the policy of a Pub/Sub topic or subscription
  (\<^verbatim>\<open>src/pkg/resources/pubsub/iam_member.go\<close>), over the plugin's own HTTP transport. Bindings with a
  condition belong to somebody else: they are skipped by every edit and written back as read.
\<close>

section \<open>Policies\<close>

record iamBinding =
  ib_Role :: string
  ib_Members :: "string list"
  ib_Condition :: "obj option"

record iamPolicy =
  ip_Version :: int
  ip_Etag :: string
  ip_Bindings :: "iamBinding list"

definition iamDelim :: char where "iamDelim = CHR ''|''"
definition iamMaxAttempts :: nat where "iamMaxAttempts = 3"

text \<open>
  Decoding an answer into the struct. A null leaves the zero value; a member of another type is an
  error, whose text, which differs between versions of the library, is not modelled.
\<close>

definition json_mismatch :: goerr where "json_mismatch = ErrText ''json: cannot unmarshal''"

fun read_string :: "json option \<Rightarrow> string option" where
  "read_string None = Some []"
| "read_string (Some JNull) = Some []"
| "read_string (Some (JStr s)) = Some s"
| "read_string (Some _) = None"

fun read_int :: "json option \<Rightarrow> int option" where
  "read_int None = Some 0"
| "read_int (Some JNull) = Some 0"
| "read_int (Some (JNum m k)) = (if k = 0 \<and> min_int64 \<le> m \<and> m \<le> max_int64 then Some m else None)"
| "read_int (Some _) = None"

fun read_strings :: "json option \<Rightarrow> string list option" where
  "read_strings None = Some []"
| "read_strings (Some JNull) = Some []"
| "read_strings (Some (JArr xs)) = string_elements xs"
| "read_strings (Some _) = None"

fun read_map :: "json option \<Rightarrow> obj option option" where
  "read_map None = Some None"
| "read_map (Some JNull) = Some None"
| "read_map (Some (JObj m)) = Some (Some m)"
| "read_map (Some _) = None"

fun read_binding :: "json \<Rightarrow> iamBinding option" where
  "read_binding (JObj m) =
     (case (read_string (struct_field m ''role''), read_strings (struct_field m ''members''), read_map (struct_field m ''condition'')) of
        (Some r, Some ms, Some c) \<Rightarrow> Some \<lparr>ib_Role = r, ib_Members = ms, ib_Condition = c\<rparr>
      | _ \<Rightarrow> None)"
| "read_binding JNull = Some \<lparr>ib_Role = [], ib_Members = [], ib_Condition = None\<rparr>"
| "read_binding _ = None"

fun read_bindings :: "json list \<Rightarrow> iamBinding list option" where
  "read_bindings [] = Some []"
| "read_bindings (x # xs) =
     (case (read_binding x, read_bindings xs) of (Some b, Some bs) \<Rightarrow> Some (b # bs) | _ \<Rightarrow> None)"

fun read_policy :: "obj option \<Rightarrow> goerr + iamPolicy" where
  "read_policy None = Inr \<lparr>ip_Version = 0, ip_Etag = [], ip_Bindings = []\<rparr>"
| "read_policy (Some m) =
     (case (read_int (struct_field m ''version''), read_string (struct_field m ''etag''),
            case struct_field m ''bindings'' of
              None \<Rightarrow> Some [] | Some JNull \<Rightarrow> Some [] | Some (JArr xs) \<Rightarrow> read_bindings xs | Some _ \<Rightarrow> None) of
        (Some v, Some e, Some bs) \<Rightarrow> Inr \<lparr>ip_Version = v, ip_Etag = e, ip_Bindings = bs\<rparr>
      | _ \<Rightarrow> Inl json_mismatch)"

text \<open>The struct as JSON: empty fields are left out.\<close>

definition binding_value :: "iamBinding \<Rightarrow> json" where
  "binding_value b =
     JObj ([(''role'', JStr (ib_Role b))]
       @ (if ib_Members b = [] then [] else [(''members'', JArr (map JStr (ib_Members b)))])
       @ (case ib_Condition b of None \<Rightarrow> [] | Some [] \<Rightarrow> [] | Some c \<Rightarrow> [(''condition'', JObj c)]))"

definition policy_value :: "iamPolicy \<Rightarrow> json" where
  "policy_value p =
     JObj ((if ip_Version p = 0 then [] else [(''version'', JNum (ip_Version p) 0)])
       @ (if ip_Etag p = [] then [] else [(''etag'', JStr (ip_Etag p))])
       @ (if ip_Bindings p = [] then [] else [(''bindings'', JArr (map binding_value (ip_Bindings p)))]))"

section \<open>Requests\<close>

definition policy_url :: "string \<Rightarrow> string \<Rightarrow> string" where
  "policy_url path verb = ac_BaseURL PubSubAPI @ ''/'' @ path @ '':'' @ verb"

definition getPolicy :: "'w env \<Rightarrow> Client \<Rightarrow> string \<Rightarrow> 'w machine \<Rightarrow> (goerr + iamPolicy) \<times> 'w machine" where
  "getPolicy E client path s =
     (case SendRequest E client (request_options ''GET'' (policy_url path ''getIamPolicy'') None) s of
        (Inl e, s1) \<Rightarrow> (Inl e, s1)
      | (Inr response, s1) \<Rightarrow>
          (case Marshal (map_value (rs_Body response)) of
             Inl e \<Rightarrow> (Inl (ErrText e), s1)
           | Inr r \<Rightarrow> (read_policy (rs_Body response), s1)))"

definition setPolicy :: "'w env \<Rightarrow> Client \<Rightarrow> string \<Rightarrow> iamPolicy \<Rightarrow> 'w machine \<Rightarrow> (goerr + unit) \<times> 'w machine" where
  "setPolicy E client path policy s =
     (case Marshal (JObj [(''policy'', policy_value policy)]) of
        Inl e \<Rightarrow> (Inl (ErrText e), s)
      | Inr r \<Rightarrow>
          (case SendRequest E client (request_options ''POST'' (policy_url path ''setIamPolicy'')
                  (Some [(''policy'', policy_value policy)])) s of
             (Inl e, s1) \<Rightarrow> (Inl e, s1)
           | (Inr response, s1) \<Rightarrow> (Inr (), s1)))"

text \<open>\<open>left\<close> is the number of attempts still allowed.\<close>

fun iam_retry ::
    "'w env \<Rightarrow> Client \<Rightarrow> string \<Rightarrow> (iamPolicy \<Rightarrow> bool \<times> iamPolicy) \<Rightarrow> nat \<Rightarrow> goerr option \<Rightarrow> 'w machine
      \<Rightarrow> (goerr + unit) \<times> 'w machine" where
  "iam_retry E client path mutate 0 lastErr s =
     (Inl (errorf_w (''setIamPolicy: '' @ nat_string iamMaxAttempts @ '' attempts hit an etag conflict: '')
             (case lastErr of Some e \<Rightarrow> e | None \<Rightarrow> ErrText ''%!w(<nil>)'')), s)"
| "iam_retry E client path mutate (Suc left) lastErr s =
     (case getPolicy E client path s of
        (Inl e, s1) \<Rightarrow> (Inl e, s1)
      | (Inr policy, s1) \<Rightarrow>
          (case mutate policy of
             (False, policy1) \<Rightarrow> (Inr (), s1)
           | (True, policy1) \<Rightarrow>
               (case setPolicy E client path policy1 s1 of
                  (Inr u, s2) \<Rightarrow> (Inr (), s2)
                | (Inl e, s2) \<Rightarrow>
                    if te_Code (wrap_err e []) \<noteq> ErrorCodeAlreadyExists then (Inl e, s2)
                    else iam_retry E client path mutate left (Some e) s2)))"

definition iam_withRetryOnConflict ::
    "'w env \<Rightarrow> Client \<Rightarrow> string \<Rightarrow> (iamPolicy \<Rightarrow> bool \<times> iamPolicy) \<Rightarrow> 'w machine \<Rightarrow> (goerr + unit) \<times> 'w machine" where
  "iam_withRetryOnConflict E client path mutate s = iam_retry E client path mutate iamMaxAttempts None s"

section \<open>Edits\<close>

definition iam_match :: "iamBinding \<Rightarrow> string \<Rightarrow> bool" where
  "iam_match b role \<longleftrightarrow> ib_Role b = role \<and> ib_Condition b = None"

fun iam_add :: "iamBinding list \<Rightarrow> string \<Rightarrow> string \<Rightarrow> bool \<times> iamBinding list" where
  "iam_add [] role member = (True, [\<lparr>ib_Role = role, ib_Members = [member], ib_Condition = None\<rparr>])"
| "iam_add (b # bs) role member =
     (if \<not> iam_match b role then (case iam_add bs role member of (changed, bs') \<Rightarrow> (changed, b # bs'))
      else if member \<in> set (ib_Members b) then (False, b # bs)
      else (True, b\<lparr>ib_Members := ib_Members b @ [member]\<rparr> # bs))"

definition iam_addMember :: "iamPolicy \<Rightarrow> string \<Rightarrow> string \<Rightarrow> bool \<times> iamPolicy" where
  "iam_addMember policy role member =
     (case iam_add (ip_Bindings policy) role member of (changed, bs) \<Rightarrow> (changed, policy\<lparr>ip_Bindings := bs\<rparr>))"

text \<open>Unlike the project's policy, the search goes on when a binding of the role lacks the member.\<close>

fun iam_remove :: "iamBinding list \<Rightarrow> string \<Rightarrow> string \<Rightarrow> bool \<times> iamBinding list" where
  "iam_remove [] role member = (False, [])"
| "iam_remove (b # bs) role member =
     (if \<not> iam_match b role \<or> member \<notin> set (ib_Members b)
      then (case iam_remove bs role member of (changed, bs') \<Rightarrow> (changed, b # bs'))
      else (let ms = remove1 member (ib_Members b)
            in (True, if ms = [] then bs else b\<lparr>ib_Members := ms\<rparr> # bs)))"

definition iam_removeMember :: "iamPolicy \<Rightarrow> string \<Rightarrow> string \<Rightarrow> bool \<times> iamPolicy" where
  "iam_removeMember policy role member =
     (case iam_remove (ip_Bindings policy) role member of (changed, bs) \<Rightarrow> (changed, policy\<lparr>ip_Bindings := bs\<rparr>))"

definition iam_hasMember :: "iamPolicy \<Rightarrow> string \<Rightarrow> string \<Rightarrow> bool" where
  "iam_hasMember policy role member = list_ex (\<lambda>b. iam_match b role \<and> member \<in> set (ib_Members b)) (ip_Bindings policy)"

section \<open>Identifiers\<close>

definition buildIamNativeID :: "string \<Rightarrow> string \<Rightarrow> string \<Rightarrow> string" where
  "buildIamNativeID path role member = Join [path, role, member] [iamDelim]"

definition parseIamNativeID :: "string \<Rightarrow> goerr + string \<times> string \<times> string" where
  "parseIamNativeID nativeID =
     (case Split nativeID iamDelim of
        [path, role, member] \<Rightarrow> Inr (path, role, member)
      | _ \<Rightarrow> Inl (ErrText (''invalid IAM member native ID: '' @ nativeID @ '' (expected resource'' @ [iamDelim]
               @ ''role'' @ [iamDelim] @ ''member)'')))"

definition propertyName :: "string \<Rightarrow> string" where
  "propertyName collection = (if HasSuffix collection ''s'' then butlast collection else collection)"

definition iam_resourceConfig :: "Config option \<Rightarrow> raw \<Rightarrow> Config option" where
  "iam_resourceConfig cfg target = (if target = RawNil then cfg else Some (FromTargetConfig target (Deps cfg)))"

text \<open>\<^verbatim>\<open>resourcePath\<close>, on a configuration a client was made from, so not nil.\<close>

definition iam_resourcePath :: "string \<Rightarrow> obj \<Rightarrow> Config \<Rightarrow> goerr + string" where
  "iam_resourcePath collection props cfg =
     (let name = string_or_empty (as_string (map_of props (propertyName collection)));
          declared = string_or_empty (as_string (map_of props ''project''));
          project = (if declared = [] then c_Project cfg else declared)
      in if name = [] then Inl (ErrText (quoted (propertyName collection) @ '' is required''))
         else if HasPrefix name ''projects/'' then Inr name
         else if project = [] then Inl (ErrText (''project is required to resolve '' @ quoted name))
         else Inr (''projects/'' @ project @ ''/'' @ collection @ ''/'' @ name))"

section \<open>Operations\<close>

definition iamDeleteSuccess :: "string \<Rightarrow> ProgressResult" where
  "iamDeleteSuccess nativeID =
     (progress OperationDelete OperationStatusSuccess)\<lparr>pr_NativeID := nativeID, pr_Message := ''IAM binding removed''\<rparr>"

definition iam_added :: "string \<Rightarrow> string \<Rightarrow> string \<Rightarrow> obj option \<Rightarrow> (goerr, ProgressResult) outcome" where
  "iam_added path role member props =
     (case Marshal (map_value props) of
        Inl e \<Rightarrow> Err (errorf_w ''failed to marshal properties: '' (ErrText e))
      | Inr stored \<Rightarrow>
          Ok ((progress OperationCreate OperationStatusSuccess)
                \<lparr>pr_NativeID := buildIamNativeID path role member, pr_Properties := Some stored,
                 pr_Message := ''IAM binding added''\<rparr>))"

definition Iam_Create ::
    "'w env \<Rightarrow> Config option \<Rightarrow> string \<Rightarrow> CreateRequest \<Rightarrow> ('w, ProgressResult) op" where
  "Iam_Create E cfg collection request s =
     (let c = iam_resourceConfig cfg (cr_TargetConfig request)
      in case NewClient E c s of
        (Inl e, s1) \<Rightarrow> (Err (client_error e), s1)
      | (Inr client, s1) \<Rightarrow>
          (case unmarshal_map (cr_Properties request) of
             Inl e \<Rightarrow> (Ok (createFailureResult InvalidRequest (''failed to parse properties: '' @ e)), s1)
           | Inr props \<Rightarrow>
               (case iam_resourcePath collection (obj_of props) (the c) of
                  Inl e \<Rightarrow> (Ok (createFailureResult InvalidRequest (err_text e)), s1)
                | Inr path \<Rightarrow>
                    (let role = string_or_empty (as_string (map_of (obj_of props) ''role''));
                         member = string_or_empty (as_string (map_of (obj_of props) ''member''))
                     in if role = [] \<or> member = []
                        then (Ok (createFailureResult InvalidRequest ''role and member are required''), s1)
                        else case iam_withRetryOnConflict E client path (\<lambda>p. iam_addMember p role member) s1 of
                          (Inl e, s2) \<Rightarrow>
                            (let te = wrap_err e ''failed to add IAM binding''
                             in (Ok (createFailureResult (ToResourceErrorCode (te_Code te)) (te_Message te)), s2))
                        | (Inr u, s2) \<Rightarrow> (iam_added path role member props, s2)))))"

definition iam_properties :: "string \<Rightarrow> string \<Rightarrow> string \<Rightarrow> string \<Rightarrow> (goerr, ReadResult) outcome" where
  "iam_properties collection path role member =
     (let parts = Split path CHR ''/''
      in if length parts < 2 then Panic ''runtime error: index out of range [1] with length 1''
         else Ok (read_properties (RawDoc (JObj
           (AList.update ''project'' (JStr (parts ! 1))
             (AList.update (propertyName collection) (JStr (last parts))
               [(''role'', JStr role), (''member'', JStr member)]))))))"

definition Iam_Read :: "'w env \<Rightarrow> Config option \<Rightarrow> string \<Rightarrow> ReadRequest \<Rightarrow> ('w, ReadResult) op" where
  "Iam_Read E cfg collection request s =
     (case NewClient E (iam_resourceConfig cfg (rd_TargetConfig request)) s of
        (Inl e, s1) \<Rightarrow> (Err (client_error e), s1)
      | (Inr client, s1) \<Rightarrow>
          (case parseIamNativeID (rd_NativeID request) of
             Inl e \<Rightarrow> (Ok (read_error InvalidRequest), s1)
           | Inr (path, role, member) \<Rightarrow>
               (case getPolicy E client path s1 of
                  (Inl e, s2) \<Rightarrow>
                    (Ok (read_error (ToResourceErrorCode (te_Code (wrap_err e ''failed to read IAM policy'')))), s2)
                | (Inr policy, s2) \<Rightarrow>
                    (if \<not> iam_hasMember policy role member then Ok (read_error NotFound)
                     else iam_properties collection path role member, s2))))"

definition Iam_Update :: "UpdateRequest \<Rightarrow> ('w, ProgressResult) op" where
  "Iam_Update request s =
     (Ok (updateFailureResult (up_NativeID request) NotUpdatable ''an IAM binding is immutable; a change replaces it''), s)"

definition Iam_Delete :: "'w env \<Rightarrow> Config option \<Rightarrow> DeleteRequest \<Rightarrow> ('w, ProgressResult) op" where
  "Iam_Delete E cfg request s =
     (case NewClient E (iam_resourceConfig cfg (dl_TargetConfig request)) s of
        (Inl e, s1) \<Rightarrow> (Err (client_error e), s1)
      | (Inr client, s1) \<Rightarrow>
          (case parseIamNativeID (dl_NativeID request) of
             Inl e \<Rightarrow> (Ok (deleteFailureResult (dl_NativeID request) InvalidRequest (err_text e)), s1)
           | Inr (path, role, member) \<Rightarrow>
               (case iam_withRetryOnConflict E client path (\<lambda>p. iam_removeMember p role member) s1 of
                  (Inl e, s2) \<Rightarrow>
                    (let te = wrap_err e ''failed to remove IAM binding''; code = ToResourceErrorCode (te_Code te)
                     in (Ok (if code = NotFound then iamDeleteSuccess (dl_NativeID request)
                             else deleteFailureResult (dl_NativeID request) code (te_Message te)), s2))
                | (Inr u, s2) \<Rightarrow> (Ok (iamDeleteSuccess (dl_NativeID request)), s2))))"

definition Iam_Status :: "StatusRequest \<Rightarrow> ('w, ProgressResult) op" where
  "Iam_Status request s =
     (Ok ((progress NoOperation OperationStatusSuccess)\<lparr>pr_NativeID := st_NativeID request\<rparr>), s)"

section \<open>List\<close>

definition listed_name :: "json \<Rightarrow> string list" where
  "listed_name item =
     (case item of
        JObj m \<Rightarrow> (case as_string (map_of m ''name'') of Some n \<Rightarrow> if n \<noteq> [] then [n] else [] | None \<Rightarrow> [])
      | JStr n \<Rightarrow> [n]
      | _ \<Rightarrow> [])"

text \<open>The pages of the collection; \<^const>\<open>None\<close> is a loop that never ends.\<close>

partial_function (option) iam_targets ::
    "'w env \<Rightarrow> Client \<Rightarrow> string \<Rightarrow> string \<Rightarrow> string \<Rightarrow> string list \<Rightarrow> 'w machine
      \<Rightarrow> ((goerr + string list) \<times> 'w machine) option" where
  "iam_targets E client collection collectionURL next found s =
     (if next = [] then Some (Inr found, s)
      else case SendRequest E client (request_options ''GET'' next None) s of
        (Inl e, s1) \<Rightarrow> Some (Inl (errorf_w (''failed to list '' @ collection @ '': '') e), s1)
      | (Inr response, s1) \<Rightarrow>
          (let body = obj_of (rs_Body response);
               found1 = found @ concat (map listed_name (array_of body collection));
               token = string_or_empty (as_string (map_of body ''nextPageToken''))
           in if token = [] then Some (Inr found1, s1)
              else case AddQueryParam collectionURL ''pageToken'' token of
                     Inl e \<Rightarrow> Some (Inl e, s1)
                   | Inr url \<Rightarrow> iam_targets E client collection collectionURL url found1 s1))"

definition iam_target_ids :: "string \<Rightarrow> iamPolicy \<Rightarrow> string list" where
  "iam_target_ids target policy =
     concat (map (\<lambda>b. if ib_Condition b \<noteq> None then [] else map (buildIamNativeID target (ib_Role b)) (ib_Members b))
       (ip_Bindings policy))"

fun iam_walk :: "'w env \<Rightarrow> Client \<Rightarrow> string list \<Rightarrow> 'w machine \<Rightarrow> string list \<times> 'w machine" where
  "iam_walk E client [] s = ([], s)"
| "iam_walk E client (target # targets) s =
     (case getPolicy E client target s of
        (Inl e, s1) \<Rightarrow> iam_walk E client targets s1
      | (Inr policy, s1) \<Rightarrow>
          (case iam_walk E client targets s1 of (ids, s2) \<Rightarrow> (iam_target_ids target policy @ ids, s2)))"

definition Iam_List ::
    "'w env \<Rightarrow> Config option \<Rightarrow> string \<Rightarrow> ListRequest \<Rightarrow> 'w machine \<Rightarrow> ((goerr, ListResult) outcome \<times> 'w machine) option" where
  "Iam_List E cfg collection request s =
     (case iam_resourceConfig cfg (ls_TargetConfig request) of
        None \<Rightarrow> Some (Panic nil_panic, s)
      | Some c \<Rightarrow>
          if c_Project c = [] then Some (Ok \<lparr>lr_NativeIDs = [], lr_NextPageToken = None\<rparr>, s)
          else case NewClient E (Some c) s of
            (Inl e, s1) \<Rightarrow> Some (Err (client_error e), s1)
          | (Inr client, s1) \<Rightarrow>
              (let url = ac_BaseURL PubSubAPI @ ''/projects/'' @ c_Project c @ ''/'' @ collection
               in case iam_targets E client collection url url [] s1 of
                    None \<Rightarrow> None
                  | Some (Inl e, s2) \<Rightarrow> Some (Err e, s2)
                  | Some (Inr targets, s2) \<Rightarrow>
                      (case iam_walk E client targets s2 of
                         (ids, s3) \<Rightarrow> Some (Ok \<lparr>lr_NativeIDs = ids, lr_NextPageToken = None\<rparr>, s3))))"

section \<open>The edits\<close>

definition iam_grants :: "iamPolicy \<Rightarrow> (string \<times> string) set" where
  "iam_grants p = {(ib_Role b, m) | b m. b \<in> set (ip_Bindings p) \<and> ib_Condition b = None \<and> m \<in> set (ib_Members b)}"

fun iam_bindings_wf :: "iamBinding list \<Rightarrow> bool" where
  "iam_bindings_wf [] = True"
| "iam_bindings_wf (b # bs) \<longleftrightarrow>
     (ib_Condition b = None \<longrightarrow> distinct (ib_Members b) \<and> \<not> list_ex (\<lambda>c. iam_match c (ib_Role b)) bs) \<and> iam_bindings_wf bs"

definition iam_policy_wf :: "iamPolicy \<Rightarrow> bool" where
  "iam_policy_wf p \<longleftrightarrow> iam_bindings_wf (ip_Bindings p)"

definition iam_held :: "iamBinding list \<Rightarrow> (string \<times> string) set" where
  "iam_held bs = {(ib_Role b, m) | b m. b \<in> set bs \<and> ib_Condition b = None \<and> m \<in> set (ib_Members b)}"

lemma iam_held_simps [simp]:
  "iam_held [] = {}"
  "iam_held (b # bs) = (if ib_Condition b = None then {ib_Role b} \<times> set (ib_Members b) else {}) \<union> iam_held bs"
  by (auto simp: iam_held_def)

lemma iam_held_match: "(r, m) \<in> iam_held bs \<Longrightarrow> list_ex (\<lambda>c. iam_match c r) bs"
  by (auto simp: iam_held_def iam_match_def list_ex_iff)

lemma iam_add_match: "list_ex (\<lambda>c. iam_match c r') (snd (iam_add bs r m)) \<longleftrightarrow> r' = r \<or> list_ex (\<lambda>c. iam_match c r') bs"
  by (induction bs) (auto simp: iam_match_def split: prod.splits)

lemma iam_remove_match: "list_ex (\<lambda>c. iam_match c r') (snd (iam_remove bs r m)) \<Longrightarrow> list_ex (\<lambda>c. iam_match c r') bs"
  by (induction bs) (auto simp: iam_match_def Let_def split: prod.splits if_splits)

lemma iam_add_spec:
  assumes "iam_bindings_wf bs"
  shows "iam_bindings_wf (snd (iam_add bs r m)) \<and> iam_held (snd (iam_add bs r m)) = insert (r, m) (iam_held bs)
    \<and> (fst (iam_add bs r m) \<longleftrightarrow> (r, m) \<notin> iam_held bs)"
  using assms
proof (induction bs)
  case (Cons b bs)
  obtain ch cs where cs: "iam_add bs r m = (ch, cs)" by (metis surj_pair)
  show ?case using Cons cs iam_add_match [of _ bs r m] iam_held_match [of r m bs]
    by (auto simp: iam_match_def)
qed auto

lemma iam_remove_spec:
  assumes "iam_bindings_wf bs"
  shows "iam_bindings_wf (snd (iam_remove bs r m)) \<and> iam_held (snd (iam_remove bs r m)) = iam_held bs - {(r, m)}
    \<and> (fst (iam_remove bs r m) \<longleftrightarrow> (r, m) \<in> iam_held bs)"
  using assms
proof (induction bs)
  case (Cons b bs)
  obtain ch cs where cs: "iam_remove bs r m = (ch, cs)" by (metis surj_pair)
  have one: "remove1 m (ib_Members b) = [] \<Longrightarrow> m \<in> set (ib_Members b) \<Longrightarrow> set (ib_Members b) = {m}"
    by (cases "ib_Members b") (auto split: if_splits)
  show ?case
  proof (cases "iam_match b r \<and> m \<in> set (ib_Members b)")
    case True
    with Cons.prems iam_held_match [of r m bs] one show ?thesis by (auto simp: Let_def iam_match_def)
  next
    case False
    with Cons cs iam_remove_match [of _ bs r m] show ?thesis by (auto simp: iam_match_def)
  qed
qed auto

lemma iam_grants_held: "iam_grants p = iam_held (ip_Bindings p)"
  by (simp add: iam_grants_def iam_held_def)

lemma iam_has_held: "iam_hasMember p r m \<longleftrightarrow> (r, m) \<in> iam_held (ip_Bindings p)"
  by (auto simp: iam_hasMember_def iam_held_def iam_match_def list_ex_iff)

interpretation iam_policy: membership iam_grants iam_policy_wf iam_addMember iam_removeMember iam_hasMember
  by unfold_locales
    (auto simp: iam_policy_wf_def iam_grants_held iam_addMember_def iam_removeMember_def iam_add_spec iam_remove_spec
      iam_has_held case_prod_beta)

text \<open>What an edit leaves alone: the etag, the version, and every binding with a condition.\<close>

definition iam_rest :: "iamPolicy \<Rightarrow> string \<times> int \<times> iamBinding list" where
  "iam_rest p = (ip_Etag p, ip_Version p, filter (\<lambda>b. ib_Condition b \<noteq> None) (ip_Bindings p))"

lemma iam_edits_rest: "iam_rest (snd (iam_addMember p r m)) = iam_rest p" "iam_rest (snd (iam_removeMember p r m)) = iam_rest p"
proof -
  have "filter (\<lambda>b. ib_Condition b \<noteq> None) (snd (iam_add bs r m)) = filter (\<lambda>b. ib_Condition b \<noteq> None) bs" for bs
    by (induction bs) (auto simp: iam_match_def split: prod.splits)
  then show "iam_rest (snd (iam_addMember p r m)) = iam_rest p"
    by (simp add: iam_rest_def iam_addMember_def case_prod_beta)
  have "filter (\<lambda>b. ib_Condition b \<noteq> None) (snd (iam_remove bs r m)) = filter (\<lambda>b. ib_Condition b \<noteq> None) bs" for bs
    by (induction bs) (auto simp: iam_match_def Let_def split: prod.splits)
  then show "iam_rest (snd (iam_removeMember p r m)) = iam_rest p"
    by (simp add: iam_rest_def iam_removeMember_def case_prod_beta)
qed

section \<open>The loop\<close>

lemma iam_retry_step:
  assumes "iam_retry E client path mutate (Suc n) lastErr s = (r, s')" and "getPolicy E client path s = (q, s1)"
  shows "case q of Inl e \<Rightarrow> isl r \<and> s' = s1
     | Inr a \<Rightarrow> if \<not> fst (mutate a) then s' = s1
         else (\<exists>x s2. setPolicy E client path (snd (mutate a)) s1 = (x, s2)
            \<and> (s' = s2 \<and> (isl x \<longrightarrow> isl r)
              \<or> isl x \<and> (\<exists>m. n = Suc m \<and> (\<exists>lastErr. iam_retry E client path mutate (Suc m) lastErr s2 = (r, s')))))"
proof (cases q)
  case (Inr a)
  obtain ch p1 where m: "mutate a = (ch, p1)" by (metis surj_pair)
  obtain x s2 where x: "setPolicy E client path p1 s1 = (x, s2)" by (metis surj_pair)
  show ?thesis
  proof (cases ch)
    case True
    then show ?thesis using assms Inr m x
      by (cases x; cases n) (auto split: if_splits)
  qed (use assms Inr m in auto)
qed (use assms in auto)

interpretation iam_loop: guarded_writes "getPolicy (logged E) client path" "\<lambda>p. setPolicy (logged E) client path (snd (mutate p))"
    "\<lambda>p. fst (mutate p)" "\<lambda>p. posts_to (policy_url path ''setIamPolicy'') (Some [(''policy'', policy_value (snd (mutate p)))])"
    "\<lambda>n s r s'. \<exists>lastErr. iam_retry (logged E) client path mutate (Suc n) lastErr s = (r, s')" for E client path mutate
proof
  fix s s1 :: "('a \<times> http_request list) machine" and q
  assume g: "getPolicy (logged E) client path s = (q, s1)"
  obtain a s2 where a: "SendRequest (logged E) client (request_options ''GET'' (policy_url path ''getIamPolicy'') None) s = (a, s2)"
    by (metis surj_pair)
  have "s1 = s2" "\<exists>e. a = Inl e \<Longrightarrow> isl q" using g a by (auto simp: getPolicy_def split: sum.splits)
  moreover have "hq_Method get = ''GET''" if "sends client (request_options ''GET'' u None) get" for u get
    using that by (simp add: sends_def request_options_def)
  ultimately show "(sent s1 = sent s \<and> isl q) \<or> (\<exists>get. sent s1 = sent s @ [get] \<and> hq_Method get = ''GET'')"
    using SendRequest_logged [OF a] by auto
next
  fix p and s s1 :: "('a \<times> http_request list) machine" and x
  assume w: "setPolicy (logged E) client path (snd (mutate p)) s = (x, s1)"
  let ?body = "[(''policy'', policy_value (snd (mutate p)))]"
  obtain a s2 where a: "SendRequest (logged E) client (request_options ''POST'' (policy_url path ''setIamPolicy'') (Some ?body)) s = (a, s2)"
    by (metis surj_pair)
  have "s1 = s \<and> isl x \<or> s1 = s2 \<and> ((\<exists>e. a = Inl e) \<longrightarrow> isl x)"
    using w a by (auto simp: setPolicy_def split: sum.splits)
  then show "(sent s1 = sent s \<and> isl x)
      \<or> (\<exists>req. sent s1 = sent s @ [req] \<and> hq_Method req = ''POST'' \<and> posts_to (policy_url path ''setIamPolicy'') (Some ?body) req)"
    using SendRequest_logged [OF a] sends_posts by (fastforce simp: posts_to_def)
next
  fix n and s s' s1 :: "('a \<times> http_request list) machine" and r q
  assume "\<exists>lastErr. iam_retry (logged E) client path mutate (Suc n) lastErr s = (r, s')"
    "getPolicy (logged E) client path s = (q, s1)"
  then show "case q of Inl e \<Rightarrow> isl r \<and> s' = s1
       | Inr a \<Rightarrow> if \<not> fst (mutate a) then s' = s1
           else (\<exists>x s2. setPolicy (logged E) client path (snd (mutate a)) s1 = (x, s2)
              \<and> (s' = s2 \<and> (isl x \<longrightarrow> isl r)
                \<or> isl x \<and> (\<exists>m. n = Suc m \<and> (\<exists>lastErr. iam_retry (logged E) client path mutate (Suc m) lastErr s2 = (r, s')))))"
    using iam_retry_step by blast
qed

text \<open>
  Everything a loop sends, in terms of the edit: at most two requests per attempt, and every request
  but a read is a policy read directly before it with this edit made and nothing else changed.
\<close>

lemma iam_write_requests:
  assumes "iam_withRetryOnConflict (logged E) client path mutate s = (r, s')"
    and "\<And>p. iam_rest (snd (mutate p)) = iam_rest p"
  shows "\<exists>reqs. sent s' = sent s @ reqs \<and> length reqs \<le> 6
    \<and> (\<forall>pre req post. reqs = pre @ req # post \<and> hq_Method req \<noteq> ''GET'' \<longrightarrow>
        (\<exists>t0 t policy. getPolicy (logged E) client path t0 = (Inr policy, t) \<and> sent t = sent s @ pre
           \<and> posts_to (policy_url path ''setIamPolicy'') (Some [(''policy'', policy_value (snd (mutate policy)))]) req \<and> iam_rest (snd (mutate policy)) = iam_rest policy))
    \<and> (isl r \<or> reqs \<noteq> [] \<and> (hq_Method (last reqs) = ''POST''
         \<or> (\<exists>t0 policy. getPolicy (logged E) client path t0 = (Inr policy, s') \<and> \<not> fst (mutate policy))))"
proof -
  have "\<exists>lastErr. iam_retry (logged E) client path mutate (Suc 2) lastErr s = (r, s')"
    using assms(1) unfolding iam_withRetryOnConflict_def iamMaxAttempts_def by (intro exI [of _ None]) (simp add: numeral_3_eq_3)
  from iam_loop.rounds_sent [OF this] obtain reqs where reqs: "sent s' = sent s @ reqs" "length reqs \<le> 6"
      "fresh_writes (getPolicy (logged E) client path)
         (\<lambda>p. posts_to (policy_url path ''setIamPolicy'') (Some [(''policy'', policy_value (snd (mutate p)))])) (sent s) reqs"
      "isl r \<or> reqs \<noteq> [] \<and> (hq_Method (last reqs) = ''POST''
         \<or> (\<exists>t0 policy. getPolicy (logged E) client path t0 = (Inr policy, s') \<and> \<not> fst (mutate policy)))"
    unfolding iam_loop.settled_def by auto
  then show ?thesis using assms(2) unfolding fresh_writes_def by blast
qed

section \<open>Properties\<close>

interpretation iam_id: id_reader "\<lambda>(path, role, member). buildIamNativeID path role member" parseIamNativeID
    "\<lambda>(path, role, member). iamDelim \<notin> set path \<and> iamDelim \<notin> set role \<and> iamDelim \<notin> set member"
  by unfold_locales (auto simp: buildIamNativeID_def parseIamNativeID_def Split_append_sep Split_no_sep)

text \<open>The grant a request declares: the path of the topic or subscription, the role and the member.\<close>

definition declared_grant :: "Config option \<Rightarrow> string \<Rightarrow> CreateRequest \<Rightarrow> string \<times> string \<times> string \<Rightarrow> bool" where
  "declared_grant cfg collection request g \<longleftrightarrow>
     (\<exists>props. unmarshal_map (cr_Properties request) = Inr props
        \<and> iam_resourcePath collection (obj_of props) (the (iam_resourceConfig cfg (cr_TargetConfig request))) = Inr (fst g)
        \<and> map_of (obj_of props) ''role'' = Some (JStr (fst (snd g))) \<and> map_of (obj_of props) ''member'' = Some (JStr (snd (snd g))))"

text \<open>Create is the loop for the declared grant, or sends nothing and does not succeed.\<close>

lemma Iam_Create_run:
  assumes "Iam_Create E cfg collection request s = (r, s')"
  obtains (idle) s1 q where "NewClient E (iam_resourceConfig cfg (cr_TargetConfig request)) s = (q, s1)" and "s' = s1"
      and "\<And>p. r = Ok p \<Longrightarrow> pr_Status p \<noteq> OperationStatusSuccess"
    | (run) client s1 path role member a where "NewClient E (iam_resourceConfig cfg (cr_TargetConfig request)) s = (Inr client, s1)"
      and "declared_grant cfg collection request (path, role, member)"
      and "iam_withRetryOnConflict E client path (\<lambda>p. iam_addMember p role member) s1 = (a, s')"
      and "\<And>p. r = Ok p \<Longrightarrow> pr_Status p = OperationStatusSuccess \<Longrightarrow> \<not> isl a \<and> pr_NativeID p = buildIamNativeID path role member"
proof -
  let ?c = "iam_resourceConfig cfg (cr_TargetConfig request)"
  let ?text = "\<lambda>props f. string_or_empty (as_string (map_of (obj_of props) f))"
  obtain q s1 where q: "NewClient E ?c s = (q, s1)" by (metis surj_pair)
  show thesis
  proof (cases "\<exists>client props path. q = Inr client \<and> unmarshal_map (cr_Properties request) = Inr props
      \<and> iam_resourcePath collection (obj_of props) (the ?c) = Inr path \<and> ?text props ''role'' \<noteq> [] \<and> ?text props ''member'' \<noteq> []")
    case False
    then have "s' = s1 \<and> (\<forall>p. r = Ok p \<longrightarrow> pr_Status p \<noteq> OperationStatusSuccess)"
      using assms q by (auto simp: Iam_Create_def Let_def createFailureResult_def split: sum.splits if_splits)
    then show thesis using idle q by blast
  next
    case True
    then obtain client props path where p: "q = Inr client" "unmarshal_map (cr_Properties request) = Inr props"
      "iam_resourcePath collection (obj_of props) (the ?c) = Inr path" "?text props ''role'' \<noteq> []" "?text props ''member'' \<noteq> []" by blast
    obtain a s2 where a: "iam_withRetryOnConflict E client path (\<lambda>p. iam_addMember p (?text props ''role'') (?text props ''member'')) s1 = (a, s2)"
      by (metis surj_pair)
    have ok: "s' = s2 \<and> (case a of Inl e \<Rightarrow> \<forall>p. r = Ok p \<longrightarrow> pr_Status p = OperationStatusFailure
        | Inr u \<Rightarrow> r = iam_added path (?text props ''role'') (?text props ''member'') props)"
      using assms q p a by (cases a) (auto simp: Iam_Create_def Let_def createFailureResult_def)
    have field: "map_of (obj_of props) f = Some (JStr (?text props f))" if "?text props f \<noteq> []" for f
      using that by (cases "map_of (obj_of props) f"; cases "the (map_of (obj_of props) f)") (simp_all add: string_or_empty_def)
    have "declared_grant cfg collection request (path, ?text props ''role'', ?text props ''member'')"
      using p field by (simp add: declared_grant_def)
    then show thesis using run [OF q [unfolded p(1)] _ a [folded conjunct1 [OF ok]]] ok
      by (cases a) (auto simp: iam_added_def split: sum.splits)
  qed
qed


section \<open>The property on a concrete topic\<close>

definition demo_topic_policy :: obj where
  "demo_topic_policy = [(''etag'', JStr ''e1''), (''bindings'', JArr [JObj [(''role'', JStr ''viewer''), (''members'', JArr [JStr ''ann''])]])]"

definition demo_topic_grant :: CreateRequest where
  "demo_topic_grant = \<lparr>cr_ResourceType = ''T'', cr_TargetConfig = RawNil, cr_Properties = RawDoc (JObj
     [(''topic'', JStr ''t''), (''role'', JStr ''viewer''), (''member'', JStr ''bob'')])\<rparr>"

definition demo_held :: "string list \<Rightarrow> iamPolicy" where
  "demo_held ms = \<lparr>ip_Version = 0, ip_Etag = ''e1'', ip_Bindings = [\<lparr>ib_Role = ''viewer'', ib_Members = ms, ib_Condition = None\<rparr>]\<rparr>"

lemma demo_policy_read: "read_policy (Some demo_topic_policy) = Inr (demo_held [''ann''])"
  by (simp add: demo_topic_policy_def demo_held_def struct_field_def ToLower_def lower_char_def less_eq_char_def char_of_eq_iff)

lemma demo_policy_marshals: "Marshal (JObj demo_topic_policy) = Inr (RawDoc (JObj demo_topic_policy))"
  by (simp add: Marshal_def demo_topic_policy_def)

lemma demo_policy_edit: "iam_addMember (demo_held [''ann'']) ''viewer'' ''bob'' = (True, demo_held [''ann'', ''bob''])"
  by (simp add: iam_addMember_def demo_held_def iam_match_def)

lemma demo_policy_urls: "Parse (policy_url ''projects/prj/topics/t'' ''getIamPolicy'') \<noteq> None"
    "Parse (policy_url ''projects/prj/topics/t'' ''setIamPolicy'') \<noteq> None"
  by (simp_all add: policy_url_def PubSubAPI_def Parse_def before_def control_char_def Let_def)

lemma demo_topic_granted:
  "\<exists>r get set. Iam_Create (logged script_env) demo_cfg ''topics'' demo_topic_grant
       (script_at [scripted 200 (JObj demo_topic_policy), scripted 200 (JObj [])] []) = (Ok r, script_at [] [get, set])
     \<and> pr_Status r = OperationStatusSuccess"
proof -
  let ?s = "script_at [scripted 200 (JObj demo_topic_policy), scripted 200 (JObj [])] []" and ?path = "''projects/prj/topics/t''"
  let ?body = "[(''policy'', policy_value (demo_held [''ann'', ''bob'']))]"
  obtain get where get: "getPolicy (logged script_env) demo_client ?path ?s
      = (Inr (demo_held [''ann'']), script_at [scripted 200 (JObj [])] [get])"
    using script_send [OF demo_policy_urls(1) methods_ok(1), of None demo_topic_policy "[scripted 200 (JObj [])]" "[]"]
      demo_policy_marshals by (auto simp: getPolicy_def demo_policy_read map_value_def simp del: read_policy.simps)
  have m: "marshalable (JObj ?body)" by (simp add: policy_value_def demo_held_def binding_value_def)
  with script_send [OF demo_policy_urls(2) methods_ok(2), of "Some ?body" "[]" "[]" "[get]"] obtain put where
    "setPolicy (logged script_env) demo_client ?path (demo_held [''ann'', ''bob'']) (script_at [scripted 200 (JObj [])] [get])
      = (Inr (), script_at [] [get, put])" by (auto simp: setPolicy_def Marshal_def)
  with get have loop: "iam_withRetryOnConflict (logged script_env) demo_client ?path (\<lambda>p. iam_addMember p ''viewer'' ''bob'') ?s
      = (Inr (), script_at [] [get, put])"
    by (simp add: iam_withRetryOnConflict_def iamMaxAttempts_def numeral_3_eq_3 demo_policy_edit)
  have cfg: "iam_resourceConfig demo_cfg RawNil = demo_cfg" "c_Project (the demo_cfg) = ''prj''"
    by (simp_all add: iam_resourceConfig_def demo_def)
  have name: "propertyName ''topics'' = ''topic''" by (simp add: propertyName_def HasSuffix_def)
  show ?thesis using loop
    by (simp add: Iam_Create_def cfg demo_NewClient demo_topic_grant_def iam_resourcePath_def name string_or_empty_def Let_def
        iam_added_def map_value_def Marshal_def) blast
qed


end
