(* ===== verification/Service_Package.thy ===== *)
theory Service_Package
  imports Type_Table Native_Id
begin

text \<open>
  What the configuration-driven service packages have in common: an entry of a table with any
  configuration, the ways most of them read a long-running operation, and the contract under which
  the generic resource finds again what it created.
\<close>

section \<open>Entries and packages\<close>

definition entry ::
    "string \<Rightarrow> 'w ResourceConfig \<Rightarrow> Operation list option \<Rightarrow> request_transformer option
      \<Rightarrow> response_transformer option \<Rightarrow> 'w ResourceDefinition" where
  "entry t rc ops req resp =
     \<lparr>rd_Type = t, rd_APIConfig = zero_api, rd_OperationConfig = zero_operations, rd_ResourceConfig = rc,
      rd_NativeIDConfig = zero_native_id, rd_RequestTransformer = req, rd_ResponseTransformer = resp,
      rd_Operations = ops\<rparr>"

lemma entry_sel [simp]:
  "rd_Type (entry t rc ops q p) = t"
  "rd_ResourceConfig (entry t rc ops q p) = rc"
  "rd_RequestTransformer (entry t rc ops q p) = q"
  "rd_ResponseTransformer (entry t rc ops q p) = p"
  "rd_Operations (entry t rc ops q p) = ops"
  "rd_APIConfig (entry t rc ops q p) = zero_api"
  "rd_OperationConfig (entry t rc ops q p) = zero_operations"
  "rd_NativeIDConfig (entry t rc ops q p) = zero_native_id"
  by (simp_all add: entry_def)

text \<open>A parent of which only type and property are given.\<close>

definition required_parent :: "string \<Rightarrow> string \<Rightarrow> ParentResourceConfig" where
  "required_parent parents property =
     \<lparr>pa_ParentType = parents, pa_PropertyName = property, pa_RequiresParent = True, pa_ParentPathSegments = [],
      pa_SecondPropertyName = [], pa_GrandParentType = [], pa_GrandParentPropertyName = []\<rparr>"

text \<open>The configuration of an updatable type whose id is a query parameter and whose update sends a mask.\<close>

definition masked_type :: "string \<Rightarrow> ScopeType option \<Rightarrow> string \<Rightarrow> 'w ResourceConfig" where
  "masked_type collection scope idParam =
     zero_resource\<lparr>rc_ResourceType := collection, rc_Scope := scope, rc_CreateIDParam := idParam, rc_SupportsUpdate := True,
       rc_UpdateMaskFromBody := True\<rparr>"

definition fixed_operations :: "Operation list" where
  "fixed_operations = [OperationCreate, OperationRead, OperationDelete, OperationList, OperationCheckStatus]"

definition paged_by :: "string \<Rightarrow> string \<Rightarrow> PaginationConfig" where
  "paged_by pages token = \<lparr>pg_Disabled = False, pg_PageSizeParam = pages, pg_PageTokenParam = token\<rparr>"

record 'w package =
  pk_API :: APIConfig
  pk_Operations :: OperationConfig
  pk_NativeID :: NativeIDConfig
  pk_Definitions :: "'w ResourceDefinition list"

definition package_resource :: "'w package \<Rightarrow> Config option \<Rightarrow> 'w ResourceDefinition \<Rightarrow> 'w BaseResource" where
  "package_resource pk cfg d =
     base_resource cfg (complete_definition (NewResourceRegistry (pk_API pk) (pk_Operations pk) (pk_NativeID pk)) d)"

lemma package_resource_sel:
  "b_ResourceConfig (package_resource pk cfg d) = rd_ResourceConfig d"
  "b_RequestTransformer (package_resource pk cfg d) = rd_RequestTransformer d"
  "b_ResponseTransformer (package_resource pk cfg d) = rd_ResponseTransformer d"
  "b_Config (package_resource pk cfg d) = cfg"
  "rd_APIConfig d = zero_api \<Longrightarrow> b_APIConfig (package_resource pk cfg d) = pk_API pk"
  "rd_NativeIDConfig d = zero_native_id \<Longrightarrow> b_NativeIDConfig (package_resource pk cfg d) = pk_NativeID pk"
  "b_OperationConfig (package_resource pk cfg d) =
     (if oc_OperationIDExtractor (rd_OperationConfig d) = None then pk_Operations pk else rd_OperationConfig d)"
  by (simp_all add: package_resource_def base_resource_def complete_definition_def NewResourceRegistry_def
      zero_api_def zero_native_id_def)

text \<open>\<^verbatim>\<open>strings.TrimPrefix\<close>.\<close>

definition TrimPrefix :: "string \<Rightarrow> string \<Rightarrow> string" where
  "TrimPrefix s p = (if HasPrefix s p then drop (length p) s else s)"

text \<open>Rewriting a field that is a string, or that is there at all; anything else is left alone.\<close>

definition rewrite_string :: "string \<Rightarrow> (string \<Rightarrow> string) \<Rightarrow> obj \<Rightarrow> obj" where
  "rewrite_string k f m = (case as_string (map_of m k) of Some s \<Rightarrow> AList.update k (JStr (f s)) m | None \<Rightarrow> m)"

definition rewrite_field :: "string \<Rightarrow> (json \<Rightarrow> json) \<Rightarrow> obj \<Rightarrow> obj" where
  "rewrite_field k f m = (case map_of m k of Some v \<Rightarrow> AList.update k (f v) m | None \<Rightarrow> m)"

fun on_object :: "(obj \<Rightarrow> obj) \<Rightarrow> json \<Rightarrow> json" where
  "on_object f (JObj m) = JObj (f m)"
| "on_object f v = v"

fun on_array :: "(json \<Rightarrow> json) \<Rightarrow> json \<Rightarrow> json" where
  "on_array f (JArr vs) = JArr (map f vs)"
| "on_array f v = v"

fun on_text :: "(string \<Rightarrow> string) \<Rightarrow> json \<Rightarrow> json" where
  "on_text f (JStr s) = JStr (f s)"
| "on_text f v = v"

text \<open>The text after the last slash, and a short name as a full one; most packages have copies.\<close>

definition after_last_slash :: "string \<Rightarrow> string" where
  "after_last_slash v = (case LastIndex v CHR ''/'' of Some i \<Rightarrow> drop (i + 1) v | None \<Rightarrow> v)"

definition expand_short :: "string \<Rightarrow> string \<Rightarrow> string \<Rightarrow> string \<Rightarrow> string" where
  "expand_short project location collection v =
     (if v = [] \<or> Contains v ''/'' then v else location_path project location collection @ ''/'' @ v)"

text \<open>\<^verbatim>\<open>strings.LastIndex\<close> of a text, and what follows it.\<close>

fun last_index_of :: "string \<Rightarrow> string \<Rightarrow> nat option" where
  "last_index_of [] sub = (if sub = [] then Some 0 else None)"
| "last_index_of (c # s) sub =
     (case last_index_of s sub of Some i \<Rightarrow> Some (Suc i) | None \<Rightarrow> if HasPrefix (c # s) sub then Some 0 else None)"

definition after_last :: "string \<Rightarrow> string \<Rightarrow> string" where
  "after_last sub v = (case last_index_of v sub of Some i \<Rightarrow> drop (i + length sub) v | None \<Rightarrow> v)"

lemma last_index_of_none: "CHR ''/'' \<notin> set n \<Longrightarrow> last_index_of n (CHR ''/'' # m) = None"
  by (induction n) (auto simp: HasPrefix_def)

lemma last_index_of_append: "last_index_of s sub = Some i \<Longrightarrow> last_index_of (pre @ s) sub = Some (length pre + i)"
  by (induction pre) auto

lemma last_index_of_tail:
  "CHR ''/'' \<notin> set n \<Longrightarrow> CHR ''/'' \<notin> set mid \<Longrightarrow> last_index_of (mid @ CHR ''/'' # n) (CHR ''/'' # m @ ''/'') = None"
proof (induction mid)
  case Nil
  have "\<not> HasPrefix n (m @ ''/'')" using Nil(1) by (auto simp: HasPrefix_iff)
  then show ?case using Nil last_index_of_none [of n "m @ ''/''"] by (simp add: HasPrefix_def)
qed (auto simp: HasPrefix_def)

text \<open>What follows the last mention of a collection is the name, if this is one segment.\<close>

lemma after_last_name:
  assumes "CHR ''/'' \<notin> set n" "CHR ''/'' \<notin> set mid"
  shows "after_last (CHR ''/'' # mid @ ''/'') (pre @ CHR ''/'' # mid @ CHR ''/'' # n) = n"
proof -
  have "last_index_of (CHR ''/'' # mid @ CHR ''/'' # n) (CHR ''/'' # mid @ ''/'') = Some 0"
    using last_index_of_tail [OF assms, of mid] by (simp add: HasPrefix_def)
  from last_index_of_append [OF this, of pre] show ?thesis by (simp add: after_last_def)
qed

section \<open>Operations\<close>

text \<open>\<^verbatim>\<open>extractOperationName\<close> and \<^verbatim>\<open>checkOperationStatus\<close>, of which most packages have a copy.\<close>

definition operation_name :: "obj \<Rightarrow> string" where
  "operation_name response =
     (case as_string (map_of response ''name'') of
        Some name \<Rightarrow> if Contains name ''/operations/'' then name else []
      | None \<Rightarrow> [])"

definition operation_status :: "obj \<Rightarrow> bool \<times> goerr option" where
  "operation_status op =
     (if as_bool (map_of op ''done'') \<noteq> Some True then (False, None)
      else case as_obj (map_of op ''error'') of
        None \<Rightarrow> (True, None)
      | Some e \<Rightarrow>
          (let msg = string_or_empty (as_string (map_of e ''message''))
           in (True, Some (ErrText (if msg = [] then ''operation failed'' else msg)))))"

definition operation_itself :: "PathContext \<Rightarrow> string \<Rightarrow> string" where
  "operation_itself ctx opID = opID"

text \<open>The operations of a synchronous package: nothing to poll.\<close>

definition synchronous_operations :: "(obj \<Rightarrow> PathContext \<Rightarrow> string) \<Rightarrow> OperationConfig" where
  "synchronous_operations extract =
     \<lparr>oc_Synchronous = True, oc_OperationIDExtractor = Some (\<lambda>response. []), oc_OperationURLBuilder = Some (\<lambda>ctx opID. []),
      oc_NativeIDExtractor = Some extract, oc_OperationStatusChecker = Some (\<lambda>op. (True, None)), oc_RetryableError = None\<rparr>"

definition polled_operations ::
    "(obj \<Rightarrow> string) \<Rightarrow> (obj \<Rightarrow> PathContext \<Rightarrow> string) \<Rightarrow> (obj \<Rightarrow> bool \<times> goerr option) \<Rightarrow> OperationConfig" where
  "polled_operations opname extract status =
     \<lparr>oc_Synchronous = False, oc_OperationIDExtractor = Some opname, oc_OperationURLBuilder = Some operation_itself,
      oc_NativeIDExtractor = Some extract, oc_OperationStatusChecker = Some status, oc_RetryableError = None\<rparr>"

lemma operations_sel [simp]:
  "oc_Synchronous (synchronous_operations x) = True" "oc_NativeIDExtractor (synchronous_operations x) = Some x"
  "oc_OperationIDExtractor (synchronous_operations x) \<noteq> None"
  "oc_Synchronous (polled_operations n x c) = False" "oc_NativeIDExtractor (polled_operations n x c) = Some x"
  "oc_OperationIDExtractor (polled_operations n x c) = Some n"
  "oc_OperationURLBuilder (polled_operations n x c) = Some operation_itself"
  "oc_OperationStatusChecker (polled_operations n x c) = Some c"
  by (simp_all add: synchronous_operations_def polled_operations_def)

section \<open>Native IDs\<close>

text \<open>What an answer itself says of the resource: the target of an operation, or its own name.\<close>

definition target_of_operation :: "obj \<Rightarrow> string option" where
  "target_of_operation response =
     (case as_obj (map_of response ''metadata'') of None \<Rightarrow> None | Some md \<Rightarrow> as_string (map_of md ''target''))"

definition from_projects :: "string \<Rightarrow> string option" where
  "from_projects s = (case Index s ''projects/'' of Some i \<Rightarrow> Some (drop i s) | None \<Rightarrow> None)"

definition named_by_answer :: "obj \<Rightarrow> string" where
  "named_by_answer response =
     (case (case target_of_operation response of Some t \<Rightarrow> from_projects t | None \<Rightarrow> None) of
        Some p \<Rightarrow> p
      | None \<Rightarrow>
          (case as_string (map_of response ''name'') of
             Some name \<Rightarrow> if Contains name ''/operations/'' then [] else string_or_empty (from_projects name)
           | None \<Rightarrow> []))"

text \<open>The answer to a create: the resource, or unless the API is synchronous an operation on it.\<close>

definition own_answer :: "bool \<Rightarrow> string \<Rightarrow> obj \<Rightarrow> bool" where
  "own_answer sync full body \<longleftrightarrow>
     (as_string (map_of body ''name'') \<in> {None, Some full}
      \<or> \<not> sync \<and> (\<exists>op. as_string (map_of body ''name'') = Some op \<and> Contains op ''/operations/''))
     \<and> target_of_operation body \<in> {None, Some full}"

text \<open>The first POST from a state on, if it succeeds, is answered in this way.\<close>

definition answers_own :: "'w env \<Rightarrow> Config option \<Rightarrow> 'w machine \<Rightarrow> bool \<Rightarrow> string \<Rightarrow> bool" where
  "answers_own E cfg s sync full \<longleftrightarrow>
     (\<forall>client s1 opts resp s2. NewClient E cfg s = (Inr client, s1) \<longrightarrow> ro_Method opts = ''POST''
        \<longrightarrow> SendRequest E client opts s1 = (Inr resp, s2) \<longrightarrow> own_answer sync full (obj_of (rs_Body resp)))"

definition path_native_id :: "(string \<Rightarrow> goerr + PathContext) option \<Rightarrow> NativeIDConfig" where
  "path_native_id parser = \<lparr>ni_Format = FullPathFormat, ni_PathTemplate = [], ni_Parser = parser\<rparr>"

lemma path_native_id_sel [simp]:
  "ni_Parser (path_native_id p) = p" "ni_Format (path_native_id p) = FullPathFormat"
  "ParseNativeID (path_native_id (Some q)) = q"
  by (simp_all add: path_native_id_def ParseNativeID_def fun_eq_iff)

section \<open>Addressing\<close>

lemma created_native_id:
  assumes "(if sync then handleSynchronousCreate b body ctx else asynchronous_create b body ctx) = Ok r"
    and "pr_Status r \<noteq> OperationStatusFailure"
  shows "call_native_id b body ctx = Ok (pr_NativeID r)"
proof (cases sync)
  case True
  then obtain n p where "call_native_id b body ctx = Ok n" "transform_response b body ctx OperationCreate = Ok p"
      and r: "handleSynchronousCreate b body ctx = Ok r"
    using assms(1) by (auto simp: handleSynchronousCreate_def bind_outcome_eq_Ok)
  then show ?thesis using assms(2)
    by (cases "Marshal (map_value p)") (auto simp: handleSynchronousCreate_def createFailureResult_def)
next
  case False
  then show ?thesis using assms(1) by (auto simp: asynchronous_create_def bind_outcome_eq_Ok)
qed

text \<open>
  A context with the same address in which the target filled in what was missing; for a global type the
  location is cleared instead.
\<close>

definition completes :: "bool \<Rightarrow> PathContext \<Rightarrow> PathContext \<Rightarrow> bool" where
  "completes global c0 c \<longleftrightarrow>
     (pc_Project c0 \<noteq> [] \<longrightarrow> pc_Project c = pc_Project c0) \<and> pc_ResourceName c = pc_ResourceName c0
     \<and> (\<not> global \<longrightarrow> pc_Location c0 \<noteq> [] \<longrightarrow> pc_Location c = pc_Location c0)
     \<and> pc_ParentResource c = pc_ParentResource c0 \<and> pc_ParentType c = pc_ParentType c0
     \<and> pc_CustomSegments c = pc_CustomSegments c0 \<and> pc_IsList c = pc_IsList c0"

definition global_scope :: "'w BaseResource \<Rightarrow> bool" where
  "global_scope b \<longleftrightarrow> rc_Scope (b_ResourceConfig b) = Some ScopeGlobal"

lemma fill_completes: "(global_scope b \<Longrightarrow> global) \<Longrightarrow> completes global c0 (fillPathContextFromTarget b target c0)"
  by (auto simp: global_scope_def completes_def fillPathContextFromTarget_def Let_def fill_def
      split: option.split ScopeType.split)

text \<open>
  The contract: with the name appended the collection's path is the resource's path; a create's answer
  yields this path without its slash as the native ID; and the parser leads back to it, whatever the
  target fills in. \<open>ok\<close> says which contexts are declared completely, \<open>global\<close> which collections are global.
\<close>

locale addressed =
  fixes path :: "PathContext \<Rightarrow> string" and extr :: "obj \<Rightarrow> PathContext \<Rightarrow> string"
    and parse :: "string \<Rightarrow> goerr + PathContext" and sync :: bool
    and ok :: "PathContext \<Rightarrow> bool" and canon :: "PathContext \<Rightarrow> PathContext" and global :: "string \<Rightarrow> bool"
  assumes collected: "ok ctx \<Longrightarrow> path ctx = path (ctx\<lparr>pc_ResourceName := []\<rparr>) @ ''/'' @ pc_ResourceName ctx"
    and extracted: "ok ctx \<Longrightarrow> own_answer sync (tl (path ctx)) body \<Longrightarrow> extr body ctx = tl (path ctx)"
    and parsed: "ok ctx \<Longrightarrow> parse (tl (path ctx)) = Inr (canon ctx)"
    and kept: "ok ctx \<Longrightarrow> completes (global (pc_ResourceType ctx)) (canon ctx) c \<Longrightarrow> pc_ResourceType c = pc_ResourceType ctx \<Longrightarrow> path c = path ctx"
    and named: "ok ctx \<Longrightarrow> pc_ResourceName (canon ctx) = pc_ResourceName ctx \<and> pc_ResourceName ctx \<noteq> []"
begin

lemma found_again:
  assumes "ok ctx" and "ac_PathBuilder (b_APIConfig b) = Some path" and "global_scope b \<Longrightarrow> global (pc_ResourceType ctx)"
    and "rc_ResourceType (b_ResourceConfig b) = pc_ResourceType ctx"
  shows "resource_url b (resource_context b target (canon ctx)) = Ok (ac_BaseURL (b_APIConfig b) @ path ctx)"
proof -
  let ?c = "fillPathContextFromTarget b target (canon ctx)"
  have c: "completes (global (pc_ResourceType ctx)) (canon ctx) ?c" using fill_completes assms(3) by blast
  then have "pc_ResourceName ?c = pc_ResourceName ctx" "pc_ResourceName ctx \<noteq> []"
    using named [OF assms(1)] by (auto simp: completes_def)
  moreover have "path (?c\<lparr>pc_ResourceType := pc_ResourceType ctx, pc_ResourceName := pc_ResourceName ctx\<rparr>) = path ctx"
    using c named [OF assms(1)] by (intro kept [OF assms(1)]) (simp_all add: completes_def)
  ultimately show ?thesis
    using assms(2,4)
    by (simp add: resource_url_def resource_context_def ResourceURL_def NewURLBuilder_def build_url_def)
qed

lemma created_found:
  assumes "ok ctx" and "ctx = buildPathContext b (cr_TargetConfig request) (UnwrapValues m)"
    and "ac_PathBuilder (b_APIConfig b) = Some path" and "global_scope b \<Longrightarrow> global (pc_ResourceType ctx)"
    and "oc_NativeIDExtractor (b_OperationConfig b) = Some extr" and "oc_Synchronous (b_OperationConfig b) = sync"
    and "ParseNativeID (b_NativeIDConfig b) = parse"
    and "unmarshal_map (cr_Properties request) = Inr m"
    and "answers_own (logged E) (b_Config b) s sync (tl (path ctx))"
    and "Create (logged E) b request s = (Ok r, s')" and "pr_Status r \<noteq> OperationStatusFailure"
  shows "\<exists>req body url. sent s' = sent s @ [req] \<and> hq_Method req = ''POST''
    \<and> transform_request b (UnwrapValues m) ctx OperationCreate = Ok body
    \<and> create_url b ctx (fst (create_id b body)) = Ok url \<and> AddQueryParam url ''alt'' ''json'' = Inr (hq_URL req)
    \<and> pr_NativeID r = tl (path ctx)
    \<and> ParseNativeID (b_NativeIDConfig b) (pr_NativeID r) = Inr (canon ctx)
    \<and> (\<forall>target. resource_url b (resource_context b target (canon ctx))
         = Ok (ac_BaseURL (b_APIConfig b) @ path (ctx\<lparr>pc_ResourceName := []\<rparr>) @ ''/'' @ pc_ResourceName ctx))"
proof -
  have type: "rc_ResourceType (b_ResourceConfig b) = pc_ResourceType ctx"
    by (simp add: assms(2) buildPathContext_def Let_def create_scope_def parent_context_def split: option.split ScopeType.split)
  obtain client s1 where c: "NewClient (logged E) (b_Config b) s = (Inr client, s1)"
    using assms(10) by (auto simp: Create_def split: prod.splits sum.splits)
  obtain body where t: "transform_request b (UnwrapValues m) ctx OperationCreate = Ok body"
      and send: "send_create (logged E) b client request (UnwrapValues m) ctx body s1 = (Ok r, s')"
    using assms(10,11) c assms(8)
    by (auto simp: Create_def Let_def createFailureResult_def assms(2) split: option.splits outcome.splits)
  obtain idv body1 where i: "create_id b body = (idv, body1)" by (cases "create_id b body")
  obtain url resp where u: "create_url b ctx idv = Ok url"
      and q: "SendRequest (logged E) client (request_options ''POST'' url (wrap_body b body1)) s1 = (Inr resp, s')"
      and r: "(if sync then handleSynchronousCreate b (rs_Body resp) ctx else asynchronous_create b (rs_Body resp) ctx) = Ok r"
    using send assms(11) i assms(6)
    by (auto simp: send_create_def Let_def createFailureResult_def split: outcome.splits prod.splits sum.splits)
  have own: "own_answer sync (tl (path ctx)) (obj_of (rs_Body resp))"
    using assms(9) c q unfolding answers_own_def by (metis request_options_sel(1))
  have nid: "pr_NativeID r = tl (path ctx)"
    using created_native_id [OF r assms(11)] extracted [OF assms(1) own] assms(5) by (simp add: call_native_id_def)
  obtain req where req: "sends client (request_options ''POST'' url (wrap_body b body1)) req" "sent s' = sent s1 @ [req]"
    using SendRequest_logged [OF q] by auto
  have "AddQueryParam url ''alt'' ''json'' = Inr (hq_URL req)" "hq_Method req = ''POST''" using req(1) by (auto simp: sends_def)
  moreover have "resource_url b (resource_context b target (canon ctx))
      = Ok (ac_BaseURL (b_APIConfig b) @ path (ctx\<lparr>pc_ResourceName := []\<rparr>) @ ''/'' @ pc_ResourceName ctx)" for target
    using found_again [OF assms(1,3,4) type] collected [OF assms(1)] by simp
  ultimately show ?thesis
    using t u i nid req(2) NewClient_sent [OF c] parsed [OF assms(1)] assms(7)
    by (intro exI [of _ req] exI [of _ body] exI [of _ url]) simp
qed

end

end
