(* ===== verification/Location_Services.thy ===== *)
theory Location_Services
  imports Service_Package
begin

text \<open>
  The packages whose resources live at \<^verbatim>\<open>projects/{project}/locations/{location}/{collection}/{name}\<close>
  and need nothing but a table: Cloud KMS, Serverless VPC Access, Backup for GKE, Memorystore for
  Redis and Memcached, Workflows, Cloud Scheduler and Cloud Tasks. Each section has the package's
  configuration and its table, then shows that it keeps the contract of such a package.
\<close>

section \<open>The contract at a location\<close>

definition located :: "PathContext \<Rightarrow> PathContext" where
  "located ctx = empty_ctx\<lparr>pc_Project := pc_Project ctx, pc_Location := pc_Location ctx,
     pc_ResourceType := pc_ResourceType ctx, pc_ResourceName := pc_ResourceName ctx\<rparr>"

definition location_ok :: "PathContext \<Rightarrow> bool" where
  "location_ok ctx \<longleftrightarrow>
     list_all seg [pc_Project ctx, pc_Location ctx, pc_ResourceType ctx, pc_ResourceName ctx]
     \<and> pc_Project ctx \<noteq> [] \<and> pc_Location ctx \<noteq> [] \<and> pc_ResourceName ctx \<noteq> [] \<and> pc_ResourceType ctx \<notin> set path_keywords"

definition full_name :: "PathContext \<Rightarrow> string" where
  "full_name ctx = location_path (pc_Project ctx) (pc_Location ctx) (pc_ResourceType ctx) @ ''/'' @ pc_ResourceName ctx"

lemma location_path_full: "location_ok ctx \<Longrightarrow> tl (LocationPathBuilder ctx) = full_name ctx"
  by (simp add: location_ok_def LocationPathBuilder_def full_name_def)

lemma full_name_parts:
  "full_name ctx = ''projects/'' @ pc_Project ctx @ ''/locations/'' @ pc_Location ctx @ ''/'' @ pc_ResourceType ctx @ ''/''
     @ pc_ResourceName ctx"
  by (simp add: full_name_def location_path_def)

lemma full_name_segments:
  "location_ok ctx \<Longrightarrow> Split (full_name ctx) CHR ''/''
     = [''projects'', pc_Project ctx, ''locations'', pc_Location ctx, pc_ResourceType ctx, pc_ResourceName ctx]"
  by (simp add: location_ok_def full_name_parts segment)

lemma from_projects_full [simp]: "from_projects (full_name ctx) = Some (full_name ctx)"
  by (simp add: from_projects_def full_name_parts Index_prefix)

lemma full_name_simps [simp]: "HasPrefix (full_name ctx) ''projects/''" "full_name ctx \<noteq> []" "Index (full_name ctx) ''projects/'' = Some 0"
  by (simp_all add: full_name_parts Index_prefix)

locale location_addressed =
  fixes extr :: "obj \<Rightarrow> PathContext \<Rightarrow> string" and parse :: "string \<Rightarrow> goerr + PathContext" and sync :: bool
  assumes names: "location_ok ctx \<Longrightarrow> own_answer sync (full_name ctx) body \<Longrightarrow> extr body ctx = full_name ctx"
    and reads: "location_ok ctx \<Longrightarrow> parse (full_name ctx) = Inr (located ctx)"

sublocale location_addressed \<subseteq> addressed LocationPathBuilder extr parse sync location_ok located "\<lambda>t. False"
proof
  fix ctx c body assume ok: "location_ok ctx"
  then show "LocationPathBuilder ctx = LocationPathBuilder (ctx\<lparr>pc_ResourceName := []\<rparr>) @ ''/'' @ pc_ResourceName ctx"
    by (simp add: location_ok_def LocationPathBuilder_def)
  show "pc_ResourceName (located ctx) = pc_ResourceName ctx \<and> pc_ResourceName ctx \<noteq> []"
    using ok by (simp add: located_def location_ok_def)
  show "parse (tl (LocationPathBuilder ctx)) = Inr (located ctx)" using reads [OF ok] location_path_full [OF ok] by simp
  show "LocationPathBuilder c = LocationPathBuilder ctx" if "completes False (located ctx) c" "pc_ResourceType c = pc_ResourceType ctx"
    using that ok by (simp add: completes_def located_def location_ok_def LocationPathBuilder_def)
  show "extr body ctx = tl (LocationPathBuilder ctx)" if "own_answer sync (tl (LocationPathBuilder ctx)) body"
    using that names [OF ok] location_path_full [OF ok] by simp
qed

context location_addressed
begin

lemma is_addressed: "addressed LocationPathBuilder extr parse sync location_ok located (\<lambda>t. False)"
  by (rule addressed_axioms)

end

text \<open>The parser of a package that configures none.\<close>

lemma default_parser:
  assumes "ni_Parser c = None" and "ni_Format c = FullPathFormat" and "location_ok ctx"
  shows "ParseNativeID c (full_name ctx) = Inr (located ctx)"
  using assms full_name_segments [OF assms(3)]
  by (simp add: ParseNativeID_def parsePathNativeID_def located_def location_ok_def path_keywords_def)

text \<open>The extractor most asynchronous packages have a copy of: the declared name, else what the answer says.\<close>

definition located_name :: "obj \<Rightarrow> PathContext \<Rightarrow> string" where
  "located_name response ctx = (if pc_ResourceName ctx \<noteq> [] then full_name ctx else named_by_answer response)"

lemma located_name_full: "location_ok ctx \<Longrightarrow> located_name body ctx = full_name ctx"
  by (simp add: located_name_def location_ok_def)

section \<open>Cloud KMS\<close>

definition kmsPathBuilder :: "PathContext \<Rightarrow> string" where
  "kmsPathBuilder = LocationPathBuilder"

definition extractKMSNativeID :: "obj \<Rightarrow> PathContext \<Rightarrow> string" where
  "extractKMSNativeID response ctx =
     (case as_string (map_of response ''name'') of
        Some name \<Rightarrow> if HasPrefix name ''projects/'' then name
                     else if pc_ResourceName ctx \<noteq> [] then full_name ctx else []
      | None \<Rightarrow> if pc_ResourceName ctx \<noteq> [] then full_name ctx else [])"

definition KMSAPI :: APIConfig where
  "KMSAPI = \<lparr>ac_BaseURL = ''https://cloudkms.googleapis.com/v1'', ac_APIVersion = ''v1'', ac_PathBuilder = Some kmsPathBuilder,
     ac_Pagination = Some (paged_by ''pageSize'' ''pageToken'')\<rparr>"

definition KMSOperations :: OperationConfig where
  "KMSOperations = synchronous_operations extractKMSNativeID"

definition KMSNativeID :: NativeIDConfig where
  "KMSNativeID = path_native_id None"

definition kms_definitions :: "'w ResourceDefinition list" where
  "kms_definitions =
     [entry ''GCP::KMS::KeyRing''
        (zero_resource\<lparr>rc_ResourceType := ''keyRings'', rc_Scope := Some ScopeLocationBased, rc_CreateIDParam := ''keyRingId''\<rparr>)
        (Some fixed_operations) None (Some ShortNameResponseTransformer)]"

interpretation kms: location_addressed extractKMSNativeID "ParseNativeID KMSNativeID" True
  by unfold_locales (auto simp: extractKMSNativeID_def own_answer_def location_ok_def KMSNativeID_def default_parser)

section \<open>Serverless VPC Access\<close>

definition vpcAccessPathBuilder :: "PathContext \<Rightarrow> string" where
  "vpcAccessPathBuilder = LocationPathBuilder"

definition vpc_extractOperationName :: "obj \<Rightarrow> string" where
  "vpc_extractOperationName = operation_name"

definition extractVpcAccessNativeID :: "obj \<Rightarrow> PathContext \<Rightarrow> string" where
  "extractVpcAccessNativeID = located_name"

definition vpc_checkOperationStatus :: "obj \<Rightarrow> bool \<times> goerr option" where
  "vpc_checkOperationStatus = operation_status"

definition VpcAccessAPI :: APIConfig where
  "VpcAccessAPI = \<lparr>ac_BaseURL = ''https://vpcaccess.googleapis.com/v1'', ac_APIVersion = ''v1'',
     ac_PathBuilder = Some vpcAccessPathBuilder, ac_Pagination = Some (paged_by ''pageSize'' [])\<rparr>"

definition VpcAccessOperations :: OperationConfig where
  "VpcAccessOperations = polled_operations vpc_extractOperationName extractVpcAccessNativeID vpc_checkOperationStatus"

definition VpcAccessNativeID :: NativeIDConfig where
  "VpcAccessNativeID = path_native_id None"

definition vpcaccess_definitions :: "'w ResourceDefinition list" where
  "vpcaccess_definitions =
     [entry ''GCP::Vpcaccess::Connector''
        (zero_resource\<lparr>rc_ResourceType := ''connectors'', rc_Scope := Some ScopeLocationBased, rc_CreateIDParam := ''connectorId''\<rparr>)
        (Some fixed_operations) None (Some ShortNameResponseTransformer)]"

interpretation vpcaccess: location_addressed extractVpcAccessNativeID "ParseNativeID VpcAccessNativeID" False
  by unfold_locales (simp_all add: extractVpcAccessNativeID_def located_name_full VpcAccessNativeID_def default_parser)

section \<open>Backup for GKE\<close>

definition gkeBackupPathBuilder :: "PathContext \<Rightarrow> string" where
  "gkeBackupPathBuilder = LocationPathBuilder"

definition gkebackup_extractOperationName :: "obj \<Rightarrow> string" where
  "gkebackup_extractOperationName = operation_name"

definition extractGKEBackupNativeID :: "obj \<Rightarrow> PathContext \<Rightarrow> string" where
  "extractGKEBackupNativeID = located_name"

definition gkebackup_checkOperationStatus :: "obj \<Rightarrow> bool \<times> goerr option" where
  "gkebackup_checkOperationStatus = operation_status"

definition GKEBackupAPI :: APIConfig where
  "GKEBackupAPI = \<lparr>ac_BaseURL = ''https://gkebackup.googleapis.com/v1'', ac_APIVersion = ''v1'',
     ac_PathBuilder = Some gkeBackupPathBuilder, ac_Pagination = Some (paged_by ''pageSize'' [])\<rparr>"

definition GKEBackupOperations :: OperationConfig where
  "GKEBackupOperations =
     polled_operations gkebackup_extractOperationName extractGKEBackupNativeID gkebackup_checkOperationStatus"

definition GKEBackupNativeID :: NativeIDConfig where
  "GKEBackupNativeID = path_native_id None"

definition gkebackup_definitions :: "'w ResourceDefinition list" where
  "gkebackup_definitions =
     [entry ''GCP::GKEBackup::BackupPlan''
        (zero_resource\<lparr>rc_ResourceType := ''backupPlans'', rc_Scope := Some ScopeLocationBased, rc_CreateIDParam := ''backupPlanId''\<rparr>)
        (Some fixed_operations) None (Some ShortNameResponseTransformer)]"

interpretation gkebackup: location_addressed extractGKEBackupNativeID "ParseNativeID GKEBackupNativeID" False
  by unfold_locales (simp_all add: extractGKEBackupNativeID_def located_name_full GKEBackupNativeID_def default_parser)

section \<open>Workflows\<close>

definition workflowsPathBuilder :: "PathContext \<Rightarrow> string" where
  "workflowsPathBuilder = LocationPathBuilder"

definition parseWorkflowsNativeID :: "string \<Rightarrow> goerr + PathContext" where
  "parseWorkflowsNativeID nativeID =
     (case Split nativeID CHR ''/'' of
        [a, project, c, location, kind, name] \<Rightarrow>
          if a \<noteq> ''projects'' \<or> c \<noteq> ''locations'' then Inl (ErrText (''invalid workflows native ID: '' @ nativeID))
          else Inr (empty_ctx\<lparr>pc_Project := project, pc_Location := location, pc_ResourceType := kind, pc_ResourceName := name\<rparr>)
      | _ \<Rightarrow> Inl (ErrText (''invalid workflows native ID: '' @ nativeID)))"

definition workflows_extractOperationName :: "obj \<Rightarrow> string" where
  "workflows_extractOperationName = operation_name"

definition extractWorkflowsNativeID :: "obj \<Rightarrow> PathContext \<Rightarrow> string" where
  "extractWorkflowsNativeID = located_name"

definition workflows_checkOperationStatus :: "obj \<Rightarrow> bool \<times> goerr option" where
  "workflows_checkOperationStatus = operation_status"

definition WorkflowsAPI :: APIConfig where
  "WorkflowsAPI = \<lparr>ac_BaseURL = ''https://workflows.googleapis.com/v1'', ac_APIVersion = ''v1'',
     ac_PathBuilder = Some workflowsPathBuilder, ac_Pagination = Some (paged_by ''pageSize'' [])\<rparr>"

definition WorkflowsOperations :: OperationConfig where
  "WorkflowsOperations =
     polled_operations workflows_extractOperationName extractWorkflowsNativeID workflows_checkOperationStatus"

definition WorkflowsNativeID :: NativeIDConfig where
  "WorkflowsNativeID = path_native_id (Some parseWorkflowsNativeID)"

definition workflows_definitions :: "'w ResourceDefinition list" where
  "workflows_definitions =
     [entry ''GCP::Workflows::Workflow''
        (zero_resource\<lparr>rc_ResourceType := ''workflows'', rc_Scope := Some ScopeLocationBased, rc_CreateIDParam := ''workflowId'',
           rc_SupportsUpdate := True, rc_UpdateMaskFromBody := True\<rparr>)
        (Some StandardOperations) None (Some ShortNameResponseTransformer)]"

interpretation workflows: location_addressed extractWorkflowsNativeID "ParseNativeID WorkflowsNativeID" False
  by unfold_locales
    (simp_all add: extractWorkflowsNativeID_def located_name_full WorkflowsNativeID_def parseWorkflowsNativeID_def
      full_name_segments located_def)

section \<open>Memorystore for Redis\<close>

definition redisPathBuilder :: "PathContext \<Rightarrow> string" where
  "redisPathBuilder = LocationPathBuilder"

definition redis_extractOperationName :: "obj \<Rightarrow> string" where
  "redis_extractOperationName = operation_name"

definition extractRedisNativeID :: "obj \<Rightarrow> PathContext \<Rightarrow> string" where
  "extractRedisNativeID = located_name"

definition redis_checkOperationStatus :: "obj \<Rightarrow> bool \<times> goerr option" where
  "redis_checkOperationStatus = operation_status"

definition RedisAPI :: APIConfig where
  "RedisAPI = \<lparr>ac_BaseURL = ''https://redis.googleapis.com/v1'', ac_APIVersion = ''v1'', ac_PathBuilder = Some redisPathBuilder,
     ac_Pagination = Some (paged_by ''pageSize'' [])\<rparr>"

definition RedisOperations :: OperationConfig where
  "RedisOperations = polled_operations redis_extractOperationName extractRedisNativeID redis_checkOperationStatus"

definition RedisNativeID :: NativeIDConfig where
  "RedisNativeID = path_native_id None"

text \<open>ACL policies are created synchronously, unlike the instances of the same API.\<close>

definition RedisSyncOperations :: OperationConfig where
  "RedisSyncOperations =
     (polled_operations redis_extractOperationName LocationNativeIDExtractor redis_checkOperationStatus)\<lparr>oc_Synchronous := True\<rparr>"

definition aclPolicyDeleting :: "obj \<Rightarrow> bool" where
  "aclPolicyDeleting body = (string_or_empty (as_string (map_of body ''state'')) = ''DELETING'')"

definition aclPolicyOutputOnly :: "string list" where
  "aclPolicyOutputOnly = [''state'', ''version'', ''etag'', ''createTime'', ''updateTime'']"

definition aclPolicyRequestTransformer :: request_transformer where
  "aclPolicyRequestTransformer props ctx =
     (let dropped = aclPolicyOutputOnly @ [''clusterAclPolicyAttachments'']
            @ (if tc_Operation ctx = OperationUpdate then [''name''] else [])
      in Ok (Some (filter (\<lambda>(k, v). k \<notin> set dropped) (obj_of props))))"

definition aclPolicyResponseTransformer :: response_transformer where
  "aclPolicyResponseTransformer apiResponse ctx =
     bind_outcome (ShortNameResponseTransformer apiResponse ctx)
       (\<lambda>out. Ok (map_option (AList.delete ''clusterAclPolicyAttachments'') out))"

definition redis_definitions :: "'w ResourceDefinition list" where
  "redis_definitions =
     [entry ''GCP::Redis::Instance''
        (zero_resource\<lparr>rc_ResourceType := ''instances'', rc_Scope := Some ScopeLocationBased, rc_CreateIDParam := ''instanceId''\<rparr>)
        (Some fixed_operations) None (Some ShortNameResponseTransformer),
      (entry ''GCP::Redis::AclPolicy''
        (zero_resource\<lparr>rc_ResourceType := ''aclPolicies'', rc_Scope := Some ScopeLocationBased, rc_CreateIDParam := ''aclPolicyId'',
           rc_SupportsUpdate := True, rc_UpdateMaskFromBody := True, rc_ReadTreatAsMissing := Some aclPolicyDeleting\<rparr>)
        None (Some aclPolicyRequestTransformer) (Some aclPolicyResponseTransformer))
        \<lparr>rd_OperationConfig := RedisSyncOperations\<rparr>]"

lemma LocationNativeIDExtractor_full:
  "location_ok ctx \<Longrightarrow> own_answer True (full_name ctx) body \<Longrightarrow> LocationNativeIDExtractor body ctx = full_name ctx"
  by (auto simp: LocationNativeIDExtractor_def own_answer_def location_ok_def string_or_empty_def; simp add: full_name_def)

interpretation redis: location_addressed extractRedisNativeID "ParseNativeID RedisNativeID" False
  by unfold_locales (simp_all add: extractRedisNativeID_def located_name_full RedisNativeID_def default_parser)

interpretation acl_policies: location_addressed LocationNativeIDExtractor "ParseNativeID RedisNativeID" True
  by unfold_locales (simp_all add: LocationNativeIDExtractor_full RedisNativeID_def default_parser)

section \<open>Cloud Scheduler and Cloud Tasks\<close>

definition SchedulerAPI :: APIConfig where
  "SchedulerAPI = \<lparr>ac_BaseURL = ''https://cloudscheduler.googleapis.com/v1'', ac_APIVersion = ''v1'',
     ac_PathBuilder = Some LocationPathBuilder, ac_Pagination = Some (paged_by ''pageSize'' [])\<rparr>"

definition SchedulerOperations :: OperationConfig where
  "SchedulerOperations = synchronous_operations LocationNativeIDExtractor"

definition SchedulerNativeID :: NativeIDConfig where
  "SchedulerNativeID = \<lparr>ni_Format = FullPathFormat, ni_PathTemplate = location_template, ni_Parser = None\<rparr>"

definition scheduler_definitions :: "'w ResourceDefinition list" where
  "scheduler_definitions =
     [entry ''GCP::CloudScheduler::Job''
        (zero_resource\<lparr>rc_ResourceType := ''jobs'', rc_Scope := Some ScopeLocationBased, rc_SupportsUpdate := False\<rparr>)
        None (Some FullResourceNameExpander) (Some ShortNameResponseTransformer)]"

definition TasksAPI :: APIConfig where
  "TasksAPI = \<lparr>ac_BaseURL = ''https://cloudtasks.googleapis.com/v2'', ac_APIVersion = ''v2'',
     ac_PathBuilder = Some LocationPathBuilder, ac_Pagination = Some (paged_by ''pageSize'' [])\<rparr>"

definition TasksOperations :: OperationConfig where
  "TasksOperations = synchronous_operations LocationNativeIDExtractor"

definition TasksNativeID :: NativeIDConfig where
  "TasksNativeID = \<lparr>ni_Format = FullPathFormat, ni_PathTemplate = location_template, ni_Parser = None\<rparr>"

definition tasks_definitions :: "'w ResourceDefinition list" where
  "tasks_definitions =
     [entry ''GCP::CloudTasks::Queue''
        (zero_resource\<lparr>rc_ResourceType := ''queues'', rc_Scope := Some ScopeLocationBased, rc_SupportsUpdate := False\<rparr>)
        None (Some FullResourceNameExpander) (Some ShortNameResponseTransformer)]"

interpretation scheduler: location_addressed LocationNativeIDExtractor "ParseNativeID SchedulerNativeID" True
  by unfold_locales (simp_all add: LocationNativeIDExtractor_full SchedulerNativeID_def default_parser)

interpretation tasks: location_addressed LocationNativeIDExtractor "ParseNativeID TasksNativeID" True
  by unfold_locales (simp_all add: LocationNativeIDExtractor_full TasksNativeID_def default_parser)

section \<open>Memorystore for Memcached\<close>

definition memcachePathBuilder :: "PathContext \<Rightarrow> string" where
  "memcachePathBuilder ctx =
     ''/projects/'' @ pc_Project ctx @ ''/locations/'' @ pc_Location ctx @ ''/instances''
       @ (if pc_ResourceName ctx \<noteq> [] then ''/'' @ pc_ResourceName ctx else [])"

definition extractMemcacheNativeID :: "obj \<Rightarrow> PathContext \<Rightarrow> string" where
  "extractMemcacheNativeID response ctx =
     (let name = GetString response ''name''; target = string_or_empty (target_of_operation response)
      in if name \<noteq> [] \<and> \<not> Contains name ''/operations/'' then name
         else if target \<noteq> [] then target
         else if pc_ResourceName ctx = [] then [] else TrimPrefix (memcachePathBuilder ctx) ''/'')"

definition parseMemcacheNativeID :: "string \<Rightarrow> goerr + PathContext" where
  "parseMemcacheNativeID nativeID =
     (case Split nativeID CHR ''/'' of
        [a, project, c, location, e, name] \<Rightarrow>
          if a \<noteq> ''projects'' \<or> c \<noteq> ''locations'' \<or> e \<noteq> ''instances'' then Inl (ErrText (''invalid memcache native ID: '' @ nativeID))
          else Inr (empty_ctx\<lparr>pc_Project := project, pc_Location := location, pc_ResourceType := ''instances'', pc_ResourceName := name\<rparr>)
      | _ \<Rightarrow> Inl (ErrText (''invalid memcache native ID: '' @ nativeID)))"

definition MemcacheAPI :: APIConfig where
  "MemcacheAPI = \<lparr>ac_BaseURL = ''https://memcache.googleapis.com/v1'', ac_APIVersion = ''v1'',
     ac_PathBuilder = Some memcachePathBuilder, ac_Pagination = Some (paged_by ''pageSize'' [])\<rparr>"

definition MemcacheOperations :: OperationConfig where
  "MemcacheOperations = polled_operations (\<lambda>r. GetString r ''name'') extractMemcacheNativeID CheckLROStatus"

definition MemcacheNativeID :: NativeIDConfig where
  "MemcacheNativeID = path_native_id (Some parseMemcacheNativeID)"

definition memcache_serverSet :: "string list" where
  "memcache_serverSet =
     [''state'', ''discoveryEndpoint'', ''createTime'', ''updateTime'', ''memcacheNodes'', ''memcacheFullVersion'']"

definition normalizeNetwork :: "string \<Rightarrow> string \<Rightarrow> string" where
  "normalizeNetwork n project =
     (case Index n ''/projects/'' of
        Some i \<Rightarrow> drop (i + 1) n
      | None \<Rightarrow> if \<not> Contains n ''/'' then ''projects/'' @ project @ ''/global/networks/'' @ n else n)"

definition memcache_requestTransformer :: request_transformer where
  "memcache_requestTransformer props ctx =
     (let declared = string_or_empty (as_string (map_of (obj_of props) ''project''));
          project = (if declared = [] then tc_Project ctx else declared);
          dropped = memcache_serverSet @ [''project'', ''region''] @ (if tc_Operation ctx = OperationUpdate then [''name''] else []);
          body = filter (\<lambda>(k, v). k \<notin> set dropped) (obj_of props)
      in Ok (Some (rewrite_string ''authorizedNetwork'' (\<lambda>n. if n = [] then n else normalizeNetwork n project) body)))"

definition memcache_place :: "obj \<Rightarrow> obj" where
  "memcache_place m =
     (case as_string (map_of m ''name'') of
        None \<Rightarrow> m
      | Some name \<Rightarrow>
          (case Split name CHR ''/'' of
             [a, project, c, region, e, n] \<Rightarrow>
               if c = ''locations'' \<and> e = ''instances''
               then AList.update ''name'' (JStr n) (AList.update ''region'' (JStr region) (AList.update ''project'' (JStr project) m))
               else m
           | _ \<Rightarrow> m))"

definition memcache_responseTransformer :: response_transformer where
  "memcache_responseTransformer apiResponse ctx =
     (let placed = memcache_place (obj_of apiResponse);
          owned = (if tc_Project ctx \<noteq> [] then AList.update ''project'' (JStr (tc_Project ctx)) placed else placed)
      in Ok (Some (rewrite_string ''authorizedNetwork'' after_last_slash owned)))"

definition memcache_definitions :: "'w ResourceDefinition list" where
  "memcache_definitions =
     [entry ''GCP::Memcache::Instance''
        (zero_resource\<lparr>rc_ResourceType := ''instances'', rc_Scope := Some ScopeLocationBased, rc_CreateIDParam := ''instanceId'',
           rc_SupportsUpdate := True, rc_UpdateMaskFromBody := True, rc_ListItemsKey := ''instances''\<rparr>)
        (Some StandardOperations) (Some memcache_requestTransformer) (Some memcache_responseTransformer)]"

definition memcache_ok :: "PathContext \<Rightarrow> bool" where
  "memcache_ok ctx \<longleftrightarrow> location_ok ctx \<and> pc_ResourceType ctx = ''instances''"

lemma memcache_path: "pc_ResourceType ctx = ''instances'' \<Longrightarrow> memcachePathBuilder ctx = LocationPathBuilder ctx"
  by (simp add: memcachePathBuilder_def LocationPathBuilder_def location_path_def)

lemma memcache_full: "memcache_ok ctx \<Longrightarrow> memcachePathBuilder ctx = ''/'' @ full_name ctx"
  by (simp add: memcache_ok_def memcachePathBuilder_def full_name_parts location_ok_def)

interpretation memcache: addressed memcachePathBuilder extractMemcacheNativeID "ParseNativeID MemcacheNativeID" False memcache_ok
  located "\<lambda>t. False"
proof
  fix ctx c body assume ok: "memcache_ok ctx"
  note full = memcache_full [OF ok]
  show "memcachePathBuilder ctx = memcachePathBuilder (ctx\<lparr>pc_ResourceName := []\<rparr>) @ ''/'' @ pc_ResourceName ctx"
    using ok by (simp add: memcache_ok_def location_ok_def memcachePathBuilder_def)
  show "ParseNativeID MemcacheNativeID (tl (memcachePathBuilder ctx)) = Inr (located ctx)"
    using ok full_name_segments [of ctx]
    by (simp add: full MemcacheNativeID_def parseMemcacheNativeID_def located_def memcache_ok_def)
  show "memcachePathBuilder c = memcachePathBuilder ctx" if "completes False (located ctx) c" "pc_ResourceType c = pc_ResourceType ctx"
    using that ok by (simp add: completes_def located_def memcache_ok_def location_ok_def memcachePathBuilder_def)
  show "pc_ResourceName (located ctx) = pc_ResourceName ctx \<and> pc_ResourceName ctx \<noteq> []"
    using ok by (simp add: located_def memcache_ok_def location_ok_def)
  show "extractMemcacheNativeID body ctx = tl (memcachePathBuilder ctx)"
    if "own_answer False (tl (memcachePathBuilder ctx)) body"
    using that ok
    by (auto simp: full extractMemcacheNativeID_def own_answer_def GetString_as_string Let_def string_or_empty_def TrimPrefix_def
        memcache_ok_def location_ok_def)
qed

end
