(* ===== verification/Nested_Services.thy ===== *)
theory Nested_Services
  imports Service_Package
begin

text \<open>
  The packages whose resources may hang off another resource of the same location, at
  \<^verbatim>\<open>projects/{project}/locations/{location}/{parents}/{parent}/{collection}/{name}\<close>: the shape they share
  as a contract, and two of them, Cloud Deploy and Certificate Manager.
\<close>

section \<open>The shape\<close>

definition has_parent :: "PathContext \<Rightarrow> bool" where
  "has_parent ctx \<longleftrightarrow> pc_ParentType ctx \<noteq> [] \<and> pc_ParentResource ctx \<noteq> []"

text \<open>\<open>loc\<close> is the package's \<^verbatim>\<open>locationOf\<close>, \<open>wild\<close> its \<^verbatim>\<open>parentCollectionOf\<close> (empty where there is no entry).\<close>

definition nested_path :: "(PathContext \<Rightarrow> string) \<Rightarrow> (string \<Rightarrow> string) \<Rightarrow> PathContext \<Rightarrow> string" where
  "nested_path loc wild ctx =
     ''/projects/'' @ pc_Project ctx @ ''/locations/'' @ loc ctx
     @ (if has_parent ctx then ''/'' @ pc_ParentType ctx @ ''/'' @ pc_ParentResource ctx
        else if wild (pc_ResourceType ctx) \<noteq> [] then ''/'' @ wild (pc_ResourceType ctx) @ ''/-'' else [])
     @ ''/'' @ pc_ResourceType ctx @ (if pc_ResourceName ctx \<noteq> [] then ''/'' @ pc_ResourceName ctx else [])"

definition nested_id :: "(PathContext \<Rightarrow> string) \<Rightarrow> PathContext \<Rightarrow> string" where
  "nested_id loc ctx =
     ''projects/'' @ pc_Project ctx @ ''/locations/'' @ loc ctx @ ''/''
     @ (if has_parent ctx then pc_ParentType ctx @ ''/'' @ pc_ParentResource ctx @ ''/'' else [])
     @ pc_ResourceType ctx @ ''/'' @ pc_ResourceName ctx"

definition nested_name :: "(PathContext \<Rightarrow> string) \<Rightarrow> obj \<Rightarrow> PathContext \<Rightarrow> string" where
  "nested_name loc response ctx = (if pc_ResourceName ctx \<noteq> [] then nested_id loc ctx else named_by_answer response)"

definition parse_nested :: "string \<Rightarrow> string \<Rightarrow> goerr + PathContext" where
  "parse_nested what nativeID =
     (let refused = Inl (ErrText (''invalid '' @ what @ '' native ID: '' @ nativeID))
      in case Split nativeID CHR ''/'' of
           [a, project, c, location, kind, name] \<Rightarrow>
             if a \<noteq> ''projects'' \<or> c \<noteq> ''locations'' then refused
             else Inr (empty_ctx\<lparr>pc_Project := project, pc_Location := location, pc_ResourceType := kind, pc_ResourceName := name\<rparr>)
         | [a, project, c, location, parents, parent, kind, name] \<Rightarrow>
             if a \<noteq> ''projects'' \<or> c \<noteq> ''locations'' then refused
             else Inr (empty_ctx\<lparr>pc_Project := project, pc_Location := location, pc_ResourceType := kind, pc_ResourceName := name,
                    pc_ParentResource := parent, pc_ParentType := parents\<rparr>)
         | _ \<Rightarrow> refused)"

definition nested_ok :: "(PathContext \<Rightarrow> string) \<Rightarrow> (string \<Rightarrow> string) \<Rightarrow> PathContext \<Rightarrow> bool" where
  "nested_ok loc wild ctx \<longleftrightarrow>
     list_all seg [pc_Project ctx, loc ctx, pc_ResourceType ctx, pc_ResourceName ctx, pc_ParentType ctx, pc_ParentResource ctx]
     \<and> pc_Project ctx \<noteq> [] \<and> loc ctx \<noteq> [] \<and> pc_ResourceName ctx \<noteq> [] \<and> \<not> pc_IsList ctx
     \<and> (has_parent ctx \<or> pc_ParentType ctx = [] \<and> pc_ParentResource ctx = [] \<and> wild (pc_ResourceType ctx) = [])"

definition nested_canon :: "(PathContext \<Rightarrow> string) \<Rightarrow> PathContext \<Rightarrow> PathContext" where
  "nested_canon loc ctx = empty_ctx\<lparr>pc_Project := pc_Project ctx, pc_Location := loc ctx, pc_ResourceType := pc_ResourceType ctx,
     pc_ResourceName := pc_ResourceName ctx, pc_ParentResource := pc_ParentResource ctx, pc_ParentType := pc_ParentType ctx\<rparr>"

lemma nested_path_id: "nested_ok loc wild ctx \<Longrightarrow> nested_path loc wild ctx = ''/'' @ nested_id loc ctx"
  by (auto simp: nested_ok_def nested_path_def nested_id_def has_parent_def)

lemma nested_id_segments:
  "nested_ok loc wild ctx \<Longrightarrow> Split (nested_id loc ctx) CHR ''/''
     = [''projects'', pc_Project ctx, ''locations'', loc ctx]
       @ (if has_parent ctx then [pc_ParentType ctx, pc_ParentResource ctx] else []) @ [pc_ResourceType ctx, pc_ResourceName ctx]"
  by (simp add: nested_ok_def nested_id_def segment)

lemma parse_nested_id: "nested_ok loc wild ctx \<Longrightarrow> parse_nested what (nested_id loc ctx) = Inr (nested_canon loc ctx)"
proof (cases "has_parent ctx")
  case True
  assume ok: "nested_ok loc wild ctx"
  show ?thesis using True by (simp add: parse_nested_def nested_id_segments [OF ok] nested_canon_def)
next
  case False
  assume ok: "nested_ok loc wild ctx"
  then have "pc_ParentType ctx = []" "pc_ParentResource ctx = []" using False by (simp_all add: nested_ok_def)
  then show ?thesis using False by (simp add: parse_nested_def nested_id_segments [OF ok] nested_canon_def empty_ctx_def)
qed

lemma nested_name_id: "nested_ok loc wild ctx \<Longrightarrow> nested_name loc body ctx = nested_id loc ctx"
  by (simp add: nested_name_def nested_ok_def)

lemma nested_ok_name: "nested_ok loc wild ctx \<Longrightarrow> pc_ResourceName ctx \<noteq> []"
  by (simp add: nested_ok_def)

lemma nested_id_projects [simp]: "HasPrefix (nested_id loc ctx) ''projects/''" "from_projects (nested_id loc ctx) = Some (nested_id loc ctx)"
  by (simp_all add: nested_id_def from_projects_def Index_prefix)

locale nested_addressed =
  fixes loc :: "PathContext \<Rightarrow> string" and wild :: "string \<Rightarrow> string" and extr :: "obj \<Rightarrow> PathContext \<Rightarrow> string"
    and parse :: "string \<Rightarrow> goerr + PathContext" and sync :: bool and global :: "string \<Rightarrow> bool"
  assumes unnamed: "loc (ctx\<lparr>pc_ResourceName := n\<rparr>) = loc ctx"
    and located: "pc_ResourceType c = pc_ResourceType ctx \<Longrightarrow> (\<not> global (pc_ResourceType ctx) \<Longrightarrow> pc_Location c = loc ctx)
        \<Longrightarrow> loc ctx \<noteq> [] \<Longrightarrow> loc c = loc ctx"
    and names: "nested_ok loc wild ctx \<Longrightarrow> own_answer sync (nested_id loc ctx) body \<Longrightarrow> extr body ctx = nested_id loc ctx"
    and reads: "nested_ok loc wild ctx \<Longrightarrow> parse (nested_id loc ctx) = Inr (nested_canon loc ctx)"

sublocale nested_addressed \<subseteq>
  addressed "nested_path loc wild" extr parse sync "nested_ok loc wild" "nested_canon loc" global
proof
  fix ctx c body assume ok: "nested_ok loc wild ctx"
  note pid = nested_path_id [OF ok]
  show "parse (tl (nested_path loc wild ctx)) = Inr (nested_canon loc ctx)" using reads [OF ok] pid by simp
  show "pc_ResourceName (nested_canon loc ctx) = pc_ResourceName ctx \<and> pc_ResourceName ctx \<noteq> []"
    using ok by (simp add: nested_canon_def nested_ok_def)
  show "extr body ctx = tl (nested_path loc wild ctx)" if "own_answer sync (tl (nested_path loc wild ctx)) body"
    using that names [OF ok] pid by simp
  show "nested_path loc wild c = nested_path loc wild ctx"
    if "completes (global (pc_ResourceType ctx)) (nested_canon loc ctx) c" "pc_ResourceType c = pc_ResourceType ctx"
  proof -
    have "loc c = loc ctx" using that ok by (intro located) (auto simp: completes_def nested_canon_def nested_ok_def)
    then show ?thesis using that ok by (simp add: completes_def nested_canon_def nested_ok_def nested_path_def has_parent_def)
  qed
  show "nested_path loc wild ctx = nested_path loc wild (ctx\<lparr>pc_ResourceName := []\<rparr>) @ ''/'' @ pc_ResourceName ctx"
    using ok by (simp add: nested_path_def nested_ok_def unnamed has_parent_def)
qed

context nested_addressed
begin

lemma is_addressed: "addressed (nested_path loc wild) extr parse sync (nested_ok loc wild) (nested_canon loc) global"
  by (rule addressed_axioms)

end

section \<open>Cloud Deploy\<close>

definition deploy_parentCollectionOf :: "string \<Rightarrow> string" where
  "deploy_parentCollectionOf collection = (if collection = ''automations'' then ''deliveryPipelines'' else [])"

definition deploy_locationOf :: "PathContext \<Rightarrow> string" where
  "deploy_locationOf ctx = (if pc_Location ctx \<noteq> [] then pc_Location ctx else pc_Region ctx)"

definition cloudDeployPathBuilder :: "PathContext \<Rightarrow> string" where
  "cloudDeployPathBuilder = nested_path deploy_locationOf deploy_parentCollectionOf"

definition parseCloudDeployNativeID :: "string \<Rightarrow> goerr + PathContext" where
  "parseCloudDeployNativeID = parse_nested ''cloud deploy''"

definition deploy_extractOperationName :: "obj \<Rightarrow> string" where
  "deploy_extractOperationName = operation_name"

definition extractCloudDeployNativeID :: "obj \<Rightarrow> PathContext \<Rightarrow> string" where
  "extractCloudDeployNativeID = nested_name deploy_locationOf"

definition deploy_checkOperationStatus :: "obj \<Rightarrow> bool \<times> goerr option" where
  "deploy_checkOperationStatus = operation_status"

definition CloudDeployAPI :: APIConfig where
  "CloudDeployAPI = \<lparr>ac_BaseURL = ''https://clouddeploy.googleapis.com/v1'', ac_APIVersion = ''v1'',
     ac_PathBuilder = Some cloudDeployPathBuilder, ac_Pagination = Some (paged_by ''pageSize'' [])\<rparr>"

definition CloudDeployOperations :: OperationConfig where
  "CloudDeployOperations = polled_operations deploy_extractOperationName extractCloudDeployNativeID deploy_checkOperationStatus"

definition CloudDeployNativeID :: NativeIDConfig where
  "CloudDeployNativeID = path_native_id (Some parseCloudDeployNativeID)"

text \<open>\<^verbatim>\<open>target.go\<close>: a custom target type is a short name in a forma and a path in the API.\<close>

definition expandCustomTargetTypeRef :: "string \<Rightarrow> string \<Rightarrow> string \<Rightarrow> string" where
  "expandCustomTargetTypeRef project location v =
     (if project = [] \<or> location = [] then v else expand_short project location ''customTargetTypes'' v)"

definition deploy_shortenRef :: "string \<Rightarrow> string" where
  "deploy_shortenRef = after_last_slash"

definition transformCustomTarget :: "(string \<Rightarrow> string) \<Rightarrow> obj \<Rightarrow> obj" where
  "transformCustomTarget f props = rewrite_field ''customTarget'' (on_object (rewrite_string ''customTargetType'' f)) props"

definition targetLocation :: "TransformContext \<Rightarrow> string" where
  "targetLocation ctx = (if tc_Location ctx \<noteq> [] then tc_Location ctx else tc_Region ctx)"

definition targetRequestTransformer :: request_transformer where
  "targetRequestTransformer props ctx =
     bind_outcome (DropFieldsOnUpdate [''name''] props ctx)
       (\<lambda>out. Ok (map_option (transformCustomTarget (expandCustomTargetTypeRef (tc_Project ctx) (targetLocation ctx))) out))"

definition targetResponseTransformer :: response_transformer where
  "targetResponseTransformer =
     CompositeResponseTransformer [\<lambda>resp ctx. Ok (map_option (transformCustomTarget deploy_shortenRef) resp), ShortNameResponseTransformer]"

text \<open>\<^verbatim>\<open>automation.go\<close>\<close>

definition automationRuleKinds :: "string list" where
  "automationRuleKinds = [''promoteReleaseRule'', ''advanceRolloutRule'', ''repairRolloutRule'', ''timedPromoteReleaseRule'']"

definition automationRequestTransformer :: request_transformer where
  "automationRequestTransformer = CompositeRequestTransformer [DropFields [''deliveryPipeline''], DropFieldsOnUpdate [''name'']]"

definition stripRuleConditions :: "obj \<Rightarrow> obj" where
  "stripRuleConditions m =
     rewrite_field ''rules'' (on_array (on_object (\<lambda>rule.
       foldl (\<lambda>r kind. rewrite_field kind (on_object (AList.delete ''condition'')) r) rule automationRuleKinds))) m"

text \<open>The parent that a full name of eight segments tells, under the property that declares it.\<close>

definition name_parent :: "string \<Rightarrow> string \<Rightarrow> string \<Rightarrow> obj \<Rightarrow> obj" where
  "name_parent parents kind property m =
     (case as_string (map_of m ''name'') of
        None \<Rightarrow> m
      | Some name \<Rightarrow>
          (case Split name CHR ''/'' of
             [a, b, c, d, e, parent, g, h] \<Rightarrow> if e = parents \<and> g = kind then AList.update property (JStr parent) m else m
           | _ \<Rightarrow> m))"

definition automationResponseTransformer :: response_transformer where
  "automationResponseTransformer =
     CompositeResponseTransformer
       [\<lambda>resp ctx. Ok (map_option (\<lambda>m. name_parent ''deliveryPipelines'' ''automations'' ''deliveryPipeline'' (stripRuleConditions m)) resp),
        ShortNameResponseTransformer]"

definition clouddeploy_definitions :: "'w ResourceDefinition list" where
  "clouddeploy_definitions =
     [entry ''GCP::CloudDeploy::Target'' (masked_type ''targets'' None ''targetId'') None
        (Some targetRequestTransformer) (Some targetResponseTransformer),
      entry ''GCP::CloudDeploy::DeliveryPipeline'' (masked_type ''deliveryPipelines'' None ''deliveryPipelineId'') None
        (Some (DropFieldsOnUpdate [''name''])) (Some ShortNameResponseTransformer),
      entry ''GCP::CloudDeploy::CustomTargetType'' (masked_type ''customTargetTypes'' None ''customTargetTypeId'') None
        (Some (DropFieldsOnUpdate [''name''])) (Some ShortNameResponseTransformer),
      entry ''GCP::CloudDeploy::DeployPolicy'' (masked_type ''deployPolicies'' None ''deployPolicyId'') None
        (Some (DropFieldsOnUpdate [''name''])) (Some ShortNameResponseTransformer),
      entry ''GCP::CloudDeploy::Automation''
        ((masked_type ''automations'' None ''automationId'')
           \<lparr>rc_ParentResource := Some (required_parent ''deliveryPipelines'' ''deliveryPipeline'')\<rparr>) None
        (Some automationRequestTransformer) (Some automationResponseTransformer)]"

interpretation clouddeploy: nested_addressed deploy_locationOf deploy_parentCollectionOf extractCloudDeployNativeID
  "ParseNativeID CloudDeployNativeID" sync "\<lambda>t. False" for sync
  by unfold_locales
    (auto simp: deploy_locationOf_def extractCloudDeployNativeID_def nested_name_id CloudDeployNativeID_def
      parseCloudDeployNativeID_def parse_nested_id)

section \<open>Certificate Manager\<close>

definition certificateManagerLocation :: string where
  "certificateManagerLocation = ''global''"

definition certificate_parentCollectionOf :: "string \<Rightarrow> string" where
  "certificate_parentCollectionOf collection = (if collection = ''certificateMapEntries'' then ''certificateMaps'' else [])"

definition certificateManagerPathBuilder :: "PathContext \<Rightarrow> string" where
  "certificateManagerPathBuilder = nested_path (\<lambda>ctx. certificateManagerLocation) certificate_parentCollectionOf"

definition parseCertificateManagerNativeID :: "string \<Rightarrow> goerr + PathContext" where
  "parseCertificateManagerNativeID = parse_nested ''certificate manager''"

definition certificate_extractOperationName :: "obj \<Rightarrow> string" where
  "certificate_extractOperationName = operation_name"

definition extractCertificateManagerNativeID :: "obj \<Rightarrow> PathContext \<Rightarrow> string" where
  "extractCertificateManagerNativeID response ctx =
     (let own = (case as_string (map_of response ''name'') of
                   Some name \<Rightarrow> if Contains name ''/operations/'' then None else from_projects name
                 | None \<Rightarrow> None)
      in case own of
           Some n \<Rightarrow> n
         | None \<Rightarrow> if pc_ResourceName ctx = [] then [] else nested_id (\<lambda>ctx. certificateManagerLocation) ctx)"

definition certificate_checkOperationStatus :: "obj \<Rightarrow> bool \<times> goerr option" where
  "certificate_checkOperationStatus = operation_status"

definition CertificateManagerAPI :: APIConfig where
  "CertificateManagerAPI = \<lparr>ac_BaseURL = ''https://certificatemanager.googleapis.com/v1'', ac_APIVersion = ''v1'',
     ac_PathBuilder = Some certificateManagerPathBuilder, ac_Pagination = Some (paged_by ''pageSize'' [])\<rparr>"

definition CertificateManagerOperations :: OperationConfig where
  "CertificateManagerOperations =
     (polled_operations certificate_extractOperationName extractCertificateManagerNativeID certificate_checkOperationStatus)
       \<lparr>oc_RetryableError := Some (\<lambda>e. Contains (err_text e) ''referenced by a certificate'')\<rparr>"

definition CertificateManagerNativeID :: NativeIDConfig where
  "CertificateManagerNativeID = path_native_id (Some parseCertificateManagerNativeID)"

definition certificate_shortenRef :: "string \<Rightarrow> string" where
  "certificate_shortenRef = after_last_slash"

definition certificate_shortenRefList :: "json \<Rightarrow> json" where
  "certificate_shortenRefList = on_array (on_text certificate_shortenRef)"

definition expandShortRef :: "string \<Rightarrow> string \<Rightarrow> string \<Rightarrow> string" where
  "expandShortRef project collection v =
     (if project = [] then v else expand_short project certificateManagerLocation collection v)"

definition expandShortRefList :: "string \<Rightarrow> string \<Rightarrow> json \<Rightarrow> json" where
  "expandShortRefList project collection = on_array (on_text (expandShortRef project collection))"

text \<open>The value under a key, if there is one, moves to another key.\<close>

definition move_field :: "string \<Rightarrow> string \<Rightarrow> obj \<Rightarrow> obj" where
  "move_field old new m = (case map_of m old of Some v \<Rightarrow> AList.update new v (AList.delete old m) | None \<Rightarrow> m)"

definition certificateRequestTransformer :: request_transformer where
  "certificateRequestTransformer body ctx =
     bind_outcome (DropFieldsOnUpdate [''name'', ''managedCertificate'', ''selfManaged'', ''scope''] body ctx)
       (\<lambda>out. Ok (map_option (\<lambda>m. rewrite_field ''managed'' (on_object (\<lambda>managed.
           rewrite_string ''issuanceConfig'' (expandShortRef (tc_Project ctx) ''certificateIssuanceConfigs'')
             (rewrite_field ''dnsAuthorizations'' (expandShortRefList (tc_Project ctx) ''dnsAuthorizations'') managed)))
           (move_field ''managedCertificate'' ''managed'' m)) out))"

definition certificateMapEntryRequestTransformer :: request_transformer where
  "certificateMapEntryRequestTransformer body ctx =
     bind_outcome (CompositeRequestTransformer [DropFields [''certificateMap''], DropFieldsOnUpdate [''name'', ''hostname'', ''matcher'']] body ctx)
       (\<lambda>out. Ok (map_option (rewrite_field ''certificates'' (expandShortRefList (tc_Project ctx) ''certificates'')) out))"

definition read_managed :: "obj \<Rightarrow> obj" where
  "read_managed m =
     (case as_obj (map_of m ''managed'') of
        None \<Rightarrow> m
      | Some managed \<Rightarrow>
          AList.update ''managedCertificate''
            (JObj (rewrite_string ''issuanceConfig'' certificate_shortenRef
              (rewrite_field ''dnsAuthorizations'' certificate_shortenRefList
                (filter (\<lambda>(k, v). k \<notin> {''state'', ''authorizationAttemptInfo'', ''provisioningIssue''}) managed))))
            (AList.delete ''managed'' m))"

definition certificateResponseTransformer :: response_transformer where
  "certificateResponseTransformer =
     CompositeResponseTransformer [\<lambda>resp ctx. Ok (map_option read_managed resp), ShortNameResponseTransformer]"

definition certificateMapEntryResponseTransformer :: response_transformer where
  "certificateMapEntryResponseTransformer =
     CompositeResponseTransformer
       [\<lambda>resp ctx. Ok (map_option (\<lambda>m. name_parent ''certificateMaps'' ''certificateMapEntries'' ''certificateMap''
           (rewrite_field ''certificates'' certificate_shortenRefList m)) resp),
        ShortNameResponseTransformer]"

definition certificatemanager_definitions :: "'w ResourceDefinition list" where
  "certificatemanager_definitions =
     [entry ''GCP::CertificateManager::CertificateMap'' (masked_type ''certificateMaps'' None ''certificateMapId'') None
        (Some (DropFieldsOnUpdate [''name''])) (Some ShortNameResponseTransformer),
      entry ''GCP::CertificateManager::DnsAuthorization'' (masked_type ''dnsAuthorizations'' None ''dnsAuthorizationId'') None
        (Some (DropFieldsOnUpdate [''name'', ''domain''])) (Some ShortNameResponseTransformer),
      entry ''GCP::CertificateManager::TrustConfig'' (masked_type ''trustConfigs'' None ''trustConfigId'') None
        (Some (DropFieldsOnUpdate [''name''])) (Some ShortNameResponseTransformer),
      entry ''GCP::CertificateManager::Certificate'' (masked_type ''certificates'' None ''certificateId'') None
        (Some certificateRequestTransformer) (Some certificateResponseTransformer),
      entry ''GCP::CertificateManager::CertificateMapEntry''
        ((masked_type ''certificateMapEntries'' None ''certificateMapEntryId'')
           \<lparr>rc_ParentResource := Some (required_parent ''certificateMaps'' ''certificateMap'')\<rparr>) None
        (Some certificateMapEntryRequestTransformer) (Some certificateMapEntryResponseTransformer)]"

interpretation certificatemanager: nested_addressed "\<lambda>ctx. certificateManagerLocation" certificate_parentCollectionOf
  extractCertificateManagerNativeID "ParseNativeID CertificateManagerNativeID" sync "\<lambda>t. False" for sync
  by unfold_locales
    (auto simp: extractCertificateManagerNativeID_def own_answer_def CertificateManagerNativeID_def
      parseCertificateManagerNativeID_def parse_nested_id dest: nested_ok_name)

end
