(* ===== verification/Network_Services.thy ===== *)
theory Network_Services
  imports Nested_Services
begin

text \<open>
  Network Services, Network Security and Network Connectivity: packages in which some collections
  are global, so that their resources are found at \<^verbatim>\<open>locations/global\<close> whatever location the target has.
\<close>

definition defaultLocation :: string where
  "defaultLocation = ''global''"

text \<open>The properties sent: all but the dropped ones, and on an update also without the fixed ones.\<close>

definition declared_without :: "string list \<Rightarrow> string list \<Rightarrow> obj option \<Rightarrow> TransformContext \<Rightarrow> obj" where
  "declared_without always on_update props ctx =
     filter (\<lambda>(k, v). k \<notin> set always \<and> \<not> (tc_Operation ctx = OperationUpdate \<and> k \<in> set on_update)) (obj_of props)"

section \<open>Network Services\<close>

definition ns_globalResourceTypes :: "string list" where
  "ns_globalResourceTypes =
     [''meshes'', ''serviceLbPolicies'', ''endpointPolicies'', ''httpRoutes'', ''grpcRoutes'', ''tcpRoutes'', ''tlsRoutes'', ''serviceBindings'']"

definition ns_locationOf :: "PathContext \<Rightarrow> string" where
  "ns_locationOf ctx =
     (if pc_ResourceType ctx \<in> set ns_globalResourceTypes then defaultLocation
      else if pc_Location ctx \<noteq> [] then pc_Location ctx else defaultLocation)"

definition networkServicesPathBuilder :: "PathContext \<Rightarrow> string" where
  "networkServicesPathBuilder = nested_path ns_locationOf (\<lambda>t. [])"

definition parseNetworkServicesNativeID :: "string \<Rightarrow> goerr + PathContext" where
  "parseNetworkServicesNativeID = parse_nested ''network services''"

definition ns_extractOperationName :: "obj \<Rightarrow> string" where
  "ns_extractOperationName = operation_name"

definition extractNetworkServicesNativeID :: "obj \<Rightarrow> PathContext \<Rightarrow> string" where
  "extractNetworkServicesNativeID = nested_name ns_locationOf"

definition ns_checkOperationStatus :: "obj \<Rightarrow> bool \<times> goerr option" where
  "ns_checkOperationStatus = operation_status"

definition NetworkServicesAPI :: APIConfig where
  "NetworkServicesAPI = \<lparr>ac_BaseURL = ''https://networkservices.googleapis.com/v1'', ac_APIVersion = ''v1'',
     ac_PathBuilder = Some networkServicesPathBuilder, ac_Pagination = Some (paged_by ''pageSize'' [])\<rparr>"

definition NetworkServicesOperations :: OperationConfig where
  "NetworkServicesOperations = polled_operations ns_extractOperationName extractNetworkServicesNativeID ns_checkOperationStatus"

definition NetworkServicesNativeID :: NativeIDConfig where
  "NetworkServicesNativeID = path_native_id (Some parseNetworkServicesNativeID)"

text \<open>\<^verbatim>\<open>refs.go\<close>\<close>

definition expandGlobalRef :: "string \<Rightarrow> string \<Rightarrow> string \<Rightarrow> string" where
  "expandGlobalRef project collection v = expand_short project defaultLocation collection v"

definition ns_shortenRef :: "string \<Rightarrow> string" where
  "ns_shortenRef = after_last_slash"

definition expandRefList :: "string \<Rightarrow> string \<Rightarrow> json \<Rightarrow> json" where
  "expandRefList project collection = on_array (on_text (expandGlobalRef project collection))"

definition ns_shortenRefList :: "json \<Rightarrow> json" where
  "ns_shortenRefList = on_array (on_text ns_shortenRef)"

text \<open>\<^verbatim>\<open>endpoint_policy.go\<close> and \<^verbatim>\<open>route.go\<close>\<close>

definition endpointPolicyRefCollections :: "(string \<times> string) list" where
  "endpointPolicyRefCollections =
     [(''authorizationPolicy'', ''authorizationPolicies''), (''serverTlsPolicy'', ''serverTlsPolicies''),
      (''clientTlsPolicy'', ''clientTlsPolicies'')]"

definition endpointPolicyRequestTransformer :: request_transformer where
  "endpointPolicyRequestTransformer props ctx =
     Ok (Some (foldl (\<lambda>m (field, collection). rewrite_string field (expandGlobalRef (tc_Project ctx) collection) m)
        (declared_without [] [''name''] props ctx) endpointPolicyRefCollections))"

definition endpointPolicyResponseTransformer :: response_transformer where
  "endpointPolicyResponseTransformer apiResponse ctx =
     Ok (map_option (\<lambda>m. foldl (\<lambda>m (field, collection). rewrite_string field ns_shortenRef m)
        (rewrite_string ''name'' ns_shortenRef m) endpointPolicyRefCollections) apiResponse)"

definition routeRequestTransformer :: request_transformer where
  "routeRequestTransformer props ctx =
     Ok (Some (rewrite_field ''meshes'' (expandRefList (tc_Project ctx) ''meshes'') (declared_without [] [''name''] props ctx)))"

definition routeResponseTransformer :: response_transformer where
  "routeResponseTransformer apiResponse ctx =
     Ok (map_option (\<lambda>m. rewrite_field ''meshes'' ns_shortenRefList (rewrite_string ''name'' ns_shortenRef m)) apiResponse)"

definition networkservices_definitions :: "'w ResourceDefinition list" where
  "networkservices_definitions =
     [entry ''GCP::NetworkServices::Mesh'' (masked_type ''meshes'' (Some ScopeGlobal) ''meshId'') None
        (Some (DropFieldsOnUpdate [''name''])) (Some ShortNameResponseTransformer),
      entry ''GCP::NetworkServices::ServiceLbPolicy'' (masked_type ''serviceLbPolicies'' (Some ScopeGlobal) ''serviceLbPolicyId'') None
        (Some (DropFieldsOnUpdate [''name''])) (Some ShortNameResponseTransformer),
      entry ''GCP::NetworkServices::EndpointPolicy'' (masked_type ''endpointPolicies'' (Some ScopeGlobal) ''endpointPolicyId'') None
        (Some endpointPolicyRequestTransformer) (Some endpointPolicyResponseTransformer),
      entry ''GCP::NetworkServices::HttpRoute'' (masked_type ''httpRoutes'' (Some ScopeGlobal) ''httpRouteId'') None
        (Some routeRequestTransformer) (Some routeResponseTransformer),
      entry ''GCP::NetworkServices::GrpcRoute'' (masked_type ''grpcRoutes'' (Some ScopeGlobal) ''grpcRouteId'') None
        (Some routeRequestTransformer) (Some routeResponseTransformer),
      entry ''GCP::NetworkServices::TcpRoute'' (masked_type ''tcpRoutes'' (Some ScopeGlobal) ''tcpRouteId'') None
        (Some routeRequestTransformer) (Some routeResponseTransformer),
      entry ''GCP::NetworkServices::TlsRoute'' (masked_type ''tlsRoutes'' (Some ScopeGlobal) ''tlsRouteId'') None
        (Some routeRequestTransformer) (Some routeResponseTransformer)]"

interpretation networkservices: nested_addressed ns_locationOf "\<lambda>t. []" extractNetworkServicesNativeID
  "ParseNativeID NetworkServicesNativeID" sync "\<lambda>t. t \<in> set ns_globalResourceTypes" for sync
  by unfold_locales
    (auto simp: ns_locationOf_def extractNetworkServicesNativeID_def nested_name_id NetworkServicesNativeID_def
      parseNetworkServicesNativeID_def parse_nested_id)

section \<open>Network Security\<close>

definition nsec_globalResourceTypes :: "string list" where
  "nsec_globalResourceTypes =
     [''addressGroups'', ''securityProfiles'', ''securityProfileGroups'', ''clientTlsPolicies'', ''serverTlsPolicies'',
      ''backendAuthenticationConfigs'', ''authorizationPolicies'', ''dnsThreatDetectors'']"

definition nsec_parentCollectionOf :: "string \<Rightarrow> string" where
  "nsec_parentCollectionOf collection = (if collection = ''rules'' then ''gatewaySecurityPolicies'' else [])"

definition nsec_locationOf :: "PathContext \<Rightarrow> string" where
  "nsec_locationOf ctx =
     (if pc_ResourceType ctx \<in> set nsec_globalResourceTypes then defaultLocation
      else if pc_Location ctx \<noteq> [] then pc_Location ctx else ''-'')"

definition networkSecurityPathBuilder :: "PathContext \<Rightarrow> string" where
  "networkSecurityPathBuilder = nested_path nsec_locationOf nsec_parentCollectionOf"

definition parseNetworkSecurityNativeID :: "string \<Rightarrow> goerr + PathContext" where
  "parseNetworkSecurityNativeID = parse_nested ''network security''"

definition nsec_extractOperationName :: "obj \<Rightarrow> string" where
  "nsec_extractOperationName = operation_name"

definition extractNetworkSecurityNativeID :: "obj \<Rightarrow> PathContext \<Rightarrow> string" where
  "extractNetworkSecurityNativeID = nested_name nsec_locationOf"

definition nsec_checkOperationStatus :: "obj \<Rightarrow> bool \<times> goerr option" where
  "nsec_checkOperationStatus = operation_status"

definition NetworkSecurityAPI :: APIConfig where
  "NetworkSecurityAPI = \<lparr>ac_BaseURL = ''https://networksecurity.googleapis.com/v1'', ac_APIVersion = ''v1'',
     ac_PathBuilder = Some networkSecurityPathBuilder, ac_Pagination = Some (paged_by ''pageSize'' [])\<rparr>"

definition NetworkSecurityOperations :: OperationConfig where
  "NetworkSecurityOperations = polled_operations nsec_extractOperationName extractNetworkSecurityNativeID nsec_checkOperationStatus"

definition NetworkSecuritySyncOperations :: OperationConfig where
  "NetworkSecuritySyncOperations =
     (polled_operations nsec_extractOperationName extractNetworkSecurityNativeID nsec_checkOperationStatus)\<lparr>oc_Synchronous := True\<rparr>"

definition NetworkSecurityNativeID :: NativeIDConfig where
  "NetworkSecurityNativeID = path_native_id (Some parseNetworkSecurityNativeID)"

text \<open>Security profiles and the groups that name them.\<close>

definition expandSecurityProfileRef :: "string \<Rightarrow> string \<Rightarrow> string" where
  "expandSecurityProfileRef project v = expand_short project defaultLocation ''securityProfiles'' v"

definition shortenSecurityProfileRef :: "string \<Rightarrow> string" where
  "shortenSecurityProfileRef = after_last_slash"

definition securityProfileRequestTransformer :: request_transformer where
  "securityProfileRequestTransformer props ctx = Ok (Some (declared_without [''etag''] [''name'', ''type''] props ctx))"

definition securityProfileResponseTransformer :: response_transformer where
  "securityProfileResponseTransformer apiResponse ctx =
     Ok (map_option (\<lambda>m. rewrite_field ''threatPreventionProfile''
        (on_object (rewrite_field ''threatOverrides'' (on_array (on_object (AList.delete ''type'')))))
        (rewrite_string ''name'' shortenSecurityProfileRef m)) apiResponse)"

definition securityProfileRefFields :: "string list" where
  "securityProfileRefFields = [''threatPreventionProfile'', ''customInterceptProfile'', ''customMirroringProfile'', ''urlFilteringProfile'']"

definition securityProfileGroupRequestTransformer :: request_transformer where
  "securityProfileGroupRequestTransformer props ctx =
     Ok (Some (foldl (\<lambda>m f. rewrite_string f (expandSecurityProfileRef (tc_Project ctx)) m)
        (declared_without [''etag'', ''dataPathId''] [''name''] props ctx) securityProfileRefFields))"

definition securityProfileGroupResponseTransformer :: response_transformer where
  "securityProfileGroupResponseTransformer apiResponse ctx =
     Ok (map_option (\<lambda>m. foldl (\<lambda>m f. rewrite_string f shortenSecurityProfileRef m)
        (rewrite_string ''name'' shortenSecurityProfileRef m) securityProfileRefFields) apiResponse)"

text \<open>Gateway security policies and their rules.\<close>

definition dropEmptyStrings :: "string list \<Rightarrow> response_transformer" where
  "dropEmptyStrings names apiResponse ctx =
     Ok (map_option (\<lambda>m. foldl (\<lambda>m f. if as_string (map_of m f) = Some [] then AList.delete f m else m) m names) apiResponse)"

definition gatewaySecurityPolicyResponseTransformer :: response_transformer where
  "gatewaySecurityPolicyResponseTransformer =
     CompositeResponseTransformer [dropEmptyStrings [''tlsInspectionPolicy''], ShortNameResponseTransformer]"

definition gatewaySecurityPolicyRuleRequestTransformer :: request_transformer where
  "gatewaySecurityPolicyRuleRequestTransformer =
     CompositeRequestTransformer [DropFields [''gatewaySecurityPolicy''], DropFieldsOnUpdate [''name'']]"

definition parentPolicyOf :: "string \<Rightarrow> string" where
  "parentPolicyOf name =
     (case Split name CHR ''/'' of
        [a, b, c, d, e, policy, g, h] \<Rightarrow> if e = ''gatewaySecurityPolicies'' \<and> g = ''rules'' then policy else []
      | _ \<Rightarrow> [])"

definition gatewaySecurityPolicyRuleResponseTransformer :: response_transformer where
  "gatewaySecurityPolicyRuleResponseTransformer =
     CompositeResponseTransformer
       [\<lambda>resp ctx. Ok (map_option (\<lambda>m.
           case as_string (map_of m ''name'') of
             None \<Rightarrow> m
           | Some name \<Rightarrow> if parentPolicyOf name = [] then m
                          else AList.update ''gatewaySecurityPolicy'' (JStr (parentPolicyOf name)) m) resp),
        dropEmptyStrings [''applicationMatcher''], ShortNameResponseTransformer]"

definition networksecurity_definitions :: "'w ResourceDefinition list" where
  "networksecurity_definitions =
     [entry ''GCP::NetworkSecurity::AddressGroup'' (masked_type ''addressGroups'' (Some ScopeGlobal) ''addressGroupId'') None
        (Some (DropFieldsOnUpdate [''name'', ''type'', ''capacity''])) (Some ShortNameResponseTransformer),
      entry ''GCP::NetworkSecurity::UrlList'' (masked_type ''urlLists'' None ''urlListId'') None
        (Some (DropFieldsOnUpdate [''name''])) (Some ShortNameResponseTransformer),
      entry ''GCP::NetworkSecurity::SecurityProfile'' (masked_type ''securityProfiles'' (Some ScopeGlobal) ''securityProfileId'') None
        (Some securityProfileRequestTransformer) (Some securityProfileResponseTransformer),
      entry ''GCP::NetworkSecurity::SecurityProfileGroup'' (masked_type ''securityProfileGroups'' (Some ScopeGlobal) ''securityProfileGroupId'') None
        (Some securityProfileGroupRequestTransformer) (Some securityProfileGroupResponseTransformer),
      entry ''GCP::NetworkSecurity::ClientTlsPolicy'' (masked_type ''clientTlsPolicies'' (Some ScopeGlobal) ''clientTlsPolicyId'') None
        (Some (DropFieldsOnUpdate [''name''])) (Some ShortNameResponseTransformer),
      entry ''GCP::NetworkSecurity::ServerTlsPolicy'' (masked_type ''serverTlsPolicies'' (Some ScopeGlobal) ''serverTlsPolicyId'') None
        (Some (DropFieldsOnUpdate [''name''])) (Some ShortNameResponseTransformer),
      entry ''GCP::NetworkSecurity::BackendAuthenticationConfig''
        (masked_type ''backendAuthenticationConfigs'' (Some ScopeGlobal) ''backendAuthenticationConfigId'') None
        (Some (DropFieldsOnUpdate [''name'', ''etag''])) (Some ShortNameResponseTransformer),
      entry ''GCP::NetworkSecurity::AuthorizationPolicy'' (masked_type ''authorizationPolicies'' (Some ScopeGlobal) ''authorizationPolicyId'') None
        (Some (DropFieldsOnUpdate [''name''])) (Some ShortNameResponseTransformer),
      entry ''GCP::NetworkSecurity::GatewaySecurityPolicy'' (masked_type ''gatewaySecurityPolicies'' None ''gatewaySecurityPolicyId'') None
        (Some (DropFieldsOnUpdate [''name''])) (Some gatewaySecurityPolicyResponseTransformer),
      entry ''GCP::NetworkSecurity::GatewaySecurityPolicyRule''
        ((masked_type ''rules'' None ''gatewaySecurityPolicyRuleId'')
           \<lparr>rc_ParentResource := Some (required_parent ''gatewaySecurityPolicies'' ''gatewaySecurityPolicy''),
            rc_ListItemsKey := ''gatewaySecurityPolicyRules''\<rparr>) None
        (Some gatewaySecurityPolicyRuleRequestTransformer) (Some gatewaySecurityPolicyRuleResponseTransformer),
      (entry ''GCP::NetworkSecurity::DnsThreatDetector'' (masked_type ''dnsThreatDetectors'' (Some ScopeGlobal) ''dnsThreatDetectorId'') None
        (Some (DropFieldsOnUpdate [''name'', ''provider''])) (Some ShortNameResponseTransformer))
        \<lparr>rd_OperationConfig := NetworkSecuritySyncOperations\<rparr>]"

interpretation networksecurity: nested_addressed nsec_locationOf nsec_parentCollectionOf extractNetworkSecurityNativeID
  "ParseNativeID NetworkSecurityNativeID" sync "\<lambda>t. t \<in> set nsec_globalResourceTypes" for sync
  by unfold_locales
    (auto simp: nsec_locationOf_def extractNetworkSecurityNativeID_def nested_name_id NetworkSecurityNativeID_def
      parseNetworkSecurityNativeID_def parse_nested_id)

section \<open>Network Connectivity\<close>

definition nc_globalResourceTypes :: "string list" where
  "nc_globalResourceTypes = [''hubs'', ''internalRanges'', ''policyBasedRoutes'', ''spokes'']"

definition nc_locationOf :: "PathContext \<Rightarrow> string" where
  "nc_locationOf ctx =
     (if pc_ResourceType ctx \<in> set nc_globalResourceTypes then defaultLocation
      else if pc_Location ctx \<noteq> [] then pc_Location ctx else defaultLocation)"

definition networkConnectivityPathBuilder :: "PathContext \<Rightarrow> string" where
  "networkConnectivityPathBuilder ctx =
     ''/'' @ location_path (pc_Project ctx) (nc_locationOf ctx) (pc_ResourceType ctx)
       @ (if pc_ResourceName ctx \<noteq> [] then ''/'' @ pc_ResourceName ctx else [])"

definition nc_extractOperationName :: "obj \<Rightarrow> string" where
  "nc_extractOperationName = operation_name"

definition extractNetworkConnectivityNativeID :: "obj \<Rightarrow> PathContext \<Rightarrow> string" where
  "extractNetworkConnectivityNativeID response ctx =
     (if pc_ResourceName ctx \<noteq> []
      then location_path (pc_Project ctx) (nc_locationOf ctx) (pc_ResourceType ctx) @ ''/'' @ pc_ResourceName ctx
      else named_by_answer response)"

definition nc_checkOperationStatus :: "obj \<Rightarrow> bool \<times> goerr option" where
  "nc_checkOperationStatus = operation_status"

definition NetworkConnectivityAPI :: APIConfig where
  "NetworkConnectivityAPI = \<lparr>ac_BaseURL = ''https://networkconnectivity.googleapis.com/v1'', ac_APIVersion = ''v1'',
     ac_PathBuilder = Some networkConnectivityPathBuilder, ac_Pagination = Some (paged_by ''pageSize'' [])\<rparr>"

definition NetworkConnectivityOperations :: OperationConfig where
  "NetworkConnectivityOperations =
     polled_operations nc_extractOperationName extractNetworkConnectivityNativeID nc_checkOperationStatus"

definition NetworkConnectivityNativeID :: NativeIDConfig where
  "NetworkConnectivityNativeID = path_native_id None"

definition policyBasedRouteRequestTransformer :: request_transformer where
  "policyBasedRouteRequestTransformer body ctx =
     Ok (Some (rewrite_string ''network''
        (\<lambda>n. case Index n ''projects/'' of Some i \<Rightarrow> drop i n | None \<Rightarrow> n) (obj_of body)))"

definition computeSelfLinkPrefix :: string where
  "computeSelfLinkPrefix = ''https://www.googleapis.com/compute/v1/''"

definition policyBasedRouteResponseTransformer :: response_transformer where
  "policyBasedRouteResponseTransformer apiResponse ctx =
     bind_outcome (ShortNameResponseTransformer apiResponse ctx) (\<lambda>out.
       Ok (map_option (rewrite_string ''network''
         (\<lambda>n. if HasPrefix n ''projects/'' then computeSelfLinkPrefix @ n else n)) out))"

definition spokeDropOnUpdate :: request_transformer where
  "spokeDropOnUpdate =
     DropFieldsOnUpdate [''name'', ''hub'', ''linkedVpcNetwork'', ''group'', ''spokeType'', ''state'', ''uniqueId'', ''etag'']"

definition spokeLinkedVpcNetworkOutputOnly :: "string list" where
  "spokeLinkedVpcNetworkOutputOnly =
     [''vpcNetwork'', ''proposedIncludeExportRanges'', ''proposedExcludeExportRanges'', ''producerVpcSpokes'']"

definition expandHubRef :: "string \<Rightarrow> string \<Rightarrow> string" where
  "expandHubRef project v = expand_short project defaultLocation ''hubs'' v"

definition shortenHubRef :: "string \<Rightarrow> string" where
  "shortenHubRef = after_last_slash"

definition spokeRequestTransformer :: request_transformer where
  "spokeRequestTransformer props ctx =
     bind_outcome (spokeDropOnUpdate props ctx) (\<lambda>kept.
       Ok (Some (rewrite_string ''hub'' (expandHubRef (tc_Project ctx)) (obj_of kept))))"

definition spokeResponseTransformer :: response_transformer where
  "spokeResponseTransformer apiResponse ctx =
     bind_outcome (ShortNameResponseTransformer apiResponse ctx) (\<lambda>out.
       Ok (map_option (\<lambda>m. rewrite_field ''linkedVpcNetwork''
           (on_object (filter (\<lambda>(k, v). k \<notin> set spokeLinkedVpcNetworkOutputOnly))) (rewrite_string ''hub'' shortenHubRef m)) out))"

definition networkconnectivity_definitions :: "'w ResourceDefinition list" where
  "networkconnectivity_definitions =
     [entry ''GCP::NetworkConnectivity::Hub''
        (zero_resource\<lparr>rc_ResourceType := ''hubs'', rc_Scope := Some ScopeGlobal, rc_CreateIDParam := ''hubId''\<rparr>)
        (Some fixed_operations) None (Some ShortNameResponseTransformer),
      entry ''GCP::NetworkConnectivity::InternalRange'' (masked_type ''internalRanges'' (Some ScopeGlobal) ''internalRangeId'') None
        (Some (DropFieldsOnUpdate [''name'', ''network'', ''ipCidrRange'', ''prefixLength'', ''usage'', ''peering'']))
        (Some ShortNameResponseTransformer),
      entry ''GCP::NetworkConnectivity::PolicyBasedRoute''
        (zero_resource\<lparr>rc_ResourceType := ''policyBasedRoutes'', rc_Scope := Some ScopeGlobal, rc_CreateIDParam := ''policyBasedRouteId''\<rparr>)
        (Some fixed_operations) (Some policyBasedRouteRequestTransformer) (Some policyBasedRouteResponseTransformer),
      entry ''GCP::NetworkConnectivity::ServiceConnectionPolicy'' (masked_type ''serviceConnectionPolicies'' None ''serviceConnectionPolicyId'') None
        (Some (DropFieldsOnUpdate [''name'', ''serviceClass'', ''network''])) (Some ShortNameResponseTransformer),
      entry ''GCP::NetworkConnectivity::Spoke'' (masked_type ''spokes'' (Some ScopeGlobal) ''spokeId'') None
        (Some spokeRequestTransformer) (Some spokeResponseTransformer)]"

text \<open>Nothing hangs off another resource here, and the parser is the generic one.\<close>

definition nc_ok :: "PathContext \<Rightarrow> bool" where
  "nc_ok ctx \<longleftrightarrow> nested_ok nc_locationOf (\<lambda>t. []) ctx \<and> \<not> has_parent ctx \<and> pc_ResourceType ctx \<notin> set path_keywords"

lemma nc_path:
  "\<not> has_parent ctx \<Longrightarrow> networkConnectivityPathBuilder ctx = nested_path nc_locationOf (\<lambda>t. []) ctx"
  by (simp add: networkConnectivityPathBuilder_def nested_path_def location_path_def)

lemma nc_location:
  "pc_ResourceType c = pc_ResourceType ctx \<Longrightarrow> (pc_ResourceType ctx \<notin> set nc_globalResourceTypes \<Longrightarrow> pc_Location c = nc_locationOf ctx)
     \<Longrightarrow> nc_locationOf ctx \<noteq> [] \<Longrightarrow> nc_locationOf c = nc_locationOf ctx"
  by (auto simp: nc_locationOf_def)

interpretation networkconnectivity: addressed networkConnectivityPathBuilder extractNetworkConnectivityNativeID
  "ParseNativeID NetworkConnectivityNativeID" False nc_ok "nested_canon nc_locationOf" "\<lambda>t. t \<in> set nc_globalResourceTypes"
proof
  fix ctx c body assume ok: "nc_ok ctx"
  then have n: "nested_ok nc_locationOf (\<lambda>t. []) ctx" and p: "\<not> has_parent ctx" "pc_ParentType ctx = []" "pc_ParentResource ctx = []"
    by (auto simp: nc_ok_def nested_ok_def)
  have pid: "networkConnectivityPathBuilder ctx = ''/'' @ nested_id nc_locationOf ctx"
    using nc_path [OF p(1)] nested_path_id [OF n] by simp
  show "networkConnectivityPathBuilder ctx = networkConnectivityPathBuilder (ctx\<lparr>pc_ResourceName := []\<rparr>) @ ''/'' @ pc_ResourceName ctx"
    using nested_ok_name [OF n] by (simp add: networkConnectivityPathBuilder_def nc_locationOf_def)
  show "ParseNativeID NetworkConnectivityNativeID (tl (networkConnectivityPathBuilder ctx)) = Inr (nested_canon nc_locationOf ctx)"
    using ok p nested_id_segments [OF n]
    by (simp add: pid NetworkConnectivityNativeID_def ParseNativeID_def parsePathNativeID_def nested_canon_def nc_ok_def
        path_keywords_def empty_ctx_def)
  show "pc_ResourceName (nested_canon nc_locationOf ctx) = pc_ResourceName ctx \<and> pc_ResourceName ctx \<noteq> []"
    using nested_ok_name [OF n] by (simp add: nested_canon_def)
  show "extractNetworkConnectivityNativeID body ctx = tl (networkConnectivityPathBuilder ctx)"
    using nested_ok_name [OF n] by (simp add: extractNetworkConnectivityNativeID_def networkConnectivityPathBuilder_def)
  show "networkConnectivityPathBuilder c = networkConnectivityPathBuilder ctx"
    if "completes (pc_ResourceType ctx \<in> set nc_globalResourceTypes) (nested_canon nc_locationOf ctx) c"
      "pc_ResourceType c = pc_ResourceType ctx"
  proof -
    have "nc_locationOf c = nc_locationOf ctx"
      using that n by (intro nc_location) (auto simp: completes_def nested_canon_def nested_ok_def)
    then show ?thesis using that n by (simp add: networkConnectivityPathBuilder_def completes_def nested_canon_def nested_ok_def)
  qed
qed

end
