(* ===== verification/Parented_Services.thy ===== *)
theory Parented_Services
  imports Nested_Services Location_Services Base64 Compute_Verbs
begin

text \<open>
  More packages whose resources live at a location or under another resource there: Filestore,
  Analytics Hub, Artifact Registry and Parameter Manager. Each section has the package's configuration,
  its transformers and its table; the walking lists of the first three are with the other walks.
\<close>

section \<open>What they share\<close>

text \<open>The native ID of six or eight segments of which some packages report the count when it is neither.\<close>

definition parse_counted :: "string \<Rightarrow> string \<Rightarrow> goerr + PathContext" where
  "parse_counted what nativeID =
     (let parts = Split nativeID CHR ''/''; refused = ''invalid '' @ what @ '' native ID: '' @ nativeID
      in case parts of
           a # project # c # location # kind # name # rest \<Rightarrow>
             if a \<noteq> ''projects'' \<or> c \<noteq> ''locations'' then Inl (ErrText refused)
             else (case rest of
                 [] \<Rightarrow> Inr (empty_ctx\<lparr>pc_Project := project, pc_Location := location, pc_ResourceType := kind, pc_ResourceName := name\<rparr>)
               | [kind', name'] \<Rightarrow> Inr (empty_ctx\<lparr>pc_Project := project, pc_Location := location, pc_ResourceType := kind',
                    pc_ResourceName := name', pc_ParentResource := name, pc_ParentType := kind\<rparr>)
               | _ \<Rightarrow> Inl (ErrText (refused @ '' (expected 6 or 8 path segments, got '' @ Itoa (int (length parts)) @ '')'')))
         | _ \<Rightarrow> Inl (ErrText refused))"

lemma parse_counted_id: "nested_ok loc wild ctx \<Longrightarrow> parse_counted what (nested_id loc ctx) = Inr (nested_canon loc ctx)"
proof (cases "has_parent ctx")
  case True
  assume ok: "nested_ok loc wild ctx"
  show ?thesis using True by (simp add: parse_counted_def nested_id_segments [OF ok] nested_canon_def)
next
  case False
  assume ok: "nested_ok loc wild ctx"
  then have "pc_ParentType ctx = []" "pc_ParentResource ctx = []" using False by (simp_all add: nested_ok_def)
  then show ?thesis using False by (simp add: parse_counted_def nested_id_segments [OF ok] nested_canon_def empty_ctx_def)
qed

text \<open>\<^verbatim>\<open>locationResponseTransformer\<close>: the short name and the location that only the path tells.\<close>

definition located_from_name :: "string \<Rightarrow> obj \<Rightarrow> obj" where
  "located_from_name collection m =
     (case as_string (map_of m ''name'') of
        None \<Rightarrow> m
      | Some full \<Rightarrow>
          (case Split full CHR ''/'' of
             [a, project, c, location, kind, name] \<Rightarrow>
               if c = ''locations'' \<and> kind = collection
               then AList.update ''name'' (JStr name) (AList.update ''location'' (JStr location) m) else m
           | _ \<Rightarrow> m))"

text \<open>The same one level down; \<open>property\<close> is where a forma declares the parent.\<close>

definition parented_from_name :: "(string list \<Rightarrow> bool) \<Rightarrow> string \<Rightarrow> obj \<Rightarrow> obj" where
  "parented_from_name expected property m =
     (case as_string (map_of m ''name'') of
        None \<Rightarrow> m
      | Some full \<Rightarrow>
          (case Split full CHR ''/'' of
             [a, project, c, location, parents, parent, kind, name] \<Rightarrow>
               if expected [a, project, c, location, parents, parent, kind, name]
               then AList.update ''name'' (JStr name) (AList.update property (JStr parent) (AList.update ''location'' (JStr location) m))
               else m
           | _ \<Rightarrow> m))"

section \<open>Filestore\<close>

definition parseFilestoreNativeID :: "string \<Rightarrow> goerr + PathContext" where
  "parseFilestoreNativeID = parse_counted ''Filestore''"

definition filestorePathBuilder :: "PathContext \<Rightarrow> string" where
  "filestorePathBuilder = nested_path pc_Location (\<lambda>t. [])"

definition dropFilestorePathFields :: request_transformer where
  "dropFilestorePathFields props ctx = Ok (Some (filter (\<lambda>(k, v). k \<notin> {''location'', ''instance''}) (obj_of props)))"

definition first_nonempty :: "string list \<Rightarrow> string" where
  "first_nonempty ts = (case filter (\<lambda>t. t \<noteq> []) ts of [] \<Rightarrow> [] | t # _ \<Rightarrow> t)"

definition filestore_backupRequest :: request_transformer where
  "filestore_backupRequest props ctx =
     bind_outcome (dropFilestorePathFields props ctx) (\<lambda>body.
       let said = (\<lambda>k. string_or_empty (as_string (map_of (obj_of props) k)));
           location = first_nonempty [said ''sourceInstanceLocation'', said ''location'', tc_Location ctx]
       in Ok (Some (rewrite_string ''sourceInstance'' (expand_short (tc_Project ctx) location ''instances'')
            (AList.delete ''sourceInstanceLocation'' (obj_of body)))))"

definition filestore_locationResponseTransformer :: "string \<Rightarrow> response_transformer" where
  "filestore_locationResponseTransformer collection props ctx = Ok (Some (located_from_name collection (obj_of props)))"

definition filestore_backupResponse :: response_transformer where
  "filestore_backupResponse props ctx =
     bind_outcome (filestore_locationResponseTransformer ''backups'' props ctx)
       (\<lambda>out. Ok (map_option (rewrite_string ''sourceInstance'' (after_last ''/instances/'')) out))"

definition filestore_snapshotResponseTransformer :: response_transformer where
  "filestore_snapshotResponseTransformer props ctx =
     Ok (Some (parented_from_name (\<lambda>p. p ! 4 = ''instances'' \<and> p ! 6 = ''snapshots'') ''instance'' (obj_of props)))"

definition filestore_extractOperationName :: "obj \<Rightarrow> string" where
  "filestore_extractOperationName = operation_name"

definition extractFilestoreNativeID :: "obj \<Rightarrow> PathContext \<Rightarrow> string" where
  "extractFilestoreNativeID = nested_name pc_Location"

definition filestore_checkOperationStatus :: "obj \<Rightarrow> bool \<times> goerr option" where
  "filestore_checkOperationStatus = CheckLROStatus"

definition FilestoreAPI :: APIConfig where
  "FilestoreAPI = \<lparr>ac_BaseURL = ''https://file.googleapis.com/v1'', ac_APIVersion = ''v1'',
     ac_PathBuilder = Some filestorePathBuilder, ac_Pagination = Some (paged_by ''pageSize'' [])\<rparr>"

definition FilestoreOperations :: OperationConfig where
  "FilestoreOperations =
     polled_operations filestore_extractOperationName extractFilestoreNativeID filestore_checkOperationStatus"

definition FilestoreNativeID :: NativeIDConfig where
  "FilestoreNativeID = path_native_id (Some parseFilestoreNativeID)"

definition located_type :: "string \<Rightarrow> string \<Rightarrow> 'w ResourceConfig" where
  "located_type collection idParam =
     zero_resource\<lparr>rc_ResourceType := collection, rc_Scope := Some ScopeLocationBased, rc_CreateIDParam := idParam\<rparr>"

definition filestore_definitions :: "'w ResourceDefinition list" where
  "filestore_definitions =
     [entry ''GCP::Filestore::Instance'' (located_type ''instances'' ''instanceId'') (Some fixed_operations)
        (Some dropFilestorePathFields) (Some (filestore_locationResponseTransformer ''instances'')),
      entry ''GCP::Filestore::Backup'' (located_type ''backups'' ''backupId'') (Some fixed_operations)
        (Some filestore_backupRequest) (Some filestore_backupResponse),
      entry ''GCP::Filestore::Snapshot''
        ((located_type ''snapshots'' ''snapshotId'')\<lparr>rc_ParentResource := Some (required_parent ''instances'' ''instance'')\<rparr>)
        (Some fixed_operations) (Some dropFilestorePathFields) (Some filestore_snapshotResponseTransformer)]"

interpretation filestore: nested_addressed pc_Location "\<lambda>t. []" extractFilestoreNativeID "ParseNativeID FilestoreNativeID" sync
  "\<lambda>t. False" for sync
  by unfold_locales
    (auto simp: extractFilestoreNativeID_def nested_name_id FilestoreNativeID_def parseFilestoreNativeID_def parse_counted_id)

section \<open>Analytics Hub\<close>

definition analyticsHubPathBuilder :: "PathContext \<Rightarrow> string" where
  "analyticsHubPathBuilder = nested_path pc_Location (\<lambda>t. [])"

definition extractAnalyticsHubNativeID :: "obj \<Rightarrow> PathContext \<Rightarrow> string" where
  "extractAnalyticsHubNativeID response ctx =
     (case (case as_string (map_of response ''name'') of Some name \<Rightarrow> from_projects name | None \<Rightarrow> None) of
        Some n \<Rightarrow> n
      | None \<Rightarrow> nested_id pc_Location ctx)"

definition parseAnalyticsHubNativeID :: "string \<Rightarrow> goerr + PathContext" where
  "parseAnalyticsHubNativeID = parse_counted ''Analytics Hub''"

definition AnalyticsHubAPI :: APIConfig where
  "AnalyticsHubAPI = \<lparr>ac_BaseURL = ''https://analyticshub.googleapis.com/v1'', ac_APIVersion = ''v1'',
     ac_PathBuilder = Some analyticsHubPathBuilder, ac_Pagination = Some (paged_by ''pageSize'' [])\<rparr>"

definition AnalyticsHubOperations :: OperationConfig where
  "AnalyticsHubOperations = zero_operations\<lparr>oc_Synchronous := True, oc_NativeIDExtractor := Some extractAnalyticsHubNativeID\<rparr>"

definition AnalyticsHubNativeID :: NativeIDConfig where
  "AnalyticsHubNativeID = path_native_id (Some parseAnalyticsHubNativeID)"

definition shortNameWithLocation :: "string \<Rightarrow> response_transformer" where
  "shortNameWithLocation collection props ctx =
     Ok (Some (case as_string (map_of (obj_of props) ''name'') of
        None \<Rightarrow> obj_of props
      | Some full \<Rightarrow>
          if length (Split full CHR ''/'') = 6 then located_from_name collection (obj_of props)
          else parented_from_name (\<lambda>p. p ! 2 = ''locations'' \<and> p ! 6 = collection) ''dataExchange'' (obj_of props)))"

definition dropPathFields :: request_transformer where
  "dropPathFields props ctx =
     Ok (Some (filter (\<lambda>(k, v). k \<notin> {''location'', ''dataExchange''}
         \<and> (k \<in> {''name'', ''project''} \<longrightarrow> tc_Operation ctx \<noteq> OperationUpdate)) (obj_of props)))"

definition queryTemplateRequest :: request_transformer where
  "queryTemplateRequest props ctx =
     bind_outcome (dropPathFields props ctx)
       (\<lambda>body. Ok (if tc_Operation ctx \<noteq> OperationUpdate then body
          else Some (filter (\<lambda>(k, v). k \<in> {''description'', ''routine''}) (obj_of body))))"

definition full_dataset :: "string \<Rightarrow> string \<Rightarrow> string" where
  "full_dataset project v = (if v = [] \<or> Contains v ''/'' then v else ''projects/'' @ project @ ''/datasets/'' @ v)"

definition listingRequest :: request_transformer where
  "listingRequest props ctx =
     bind_outcome (dropPathFields props ctx)
       (\<lambda>body. Ok (Some (
          if tc_Operation ctx = OperationUpdate then AList.delete ''bigqueryDataset'' (obj_of body)
          else rewrite_field ''bigqueryDataset'' (on_object (rewrite_string ''dataset'' (full_dataset (tc_Project ctx)))) (obj_of body))))"

definition listingResponse :: response_transformer where
  "listingResponse props ctx =
     bind_outcome (shortNameWithLocation ''listings'' props ctx)
       (\<lambda>out. Ok (map_option (rewrite_field ''bigqueryDataset'' (on_object (\<lambda>source.
          filter (\<lambda>(k, v). k \<notin> {''effectiveReplicas'', ''restrictedExportPolicy''})
            (rewrite_string ''dataset'' (after_last ''/datasets/'') source)))) out))"

definition nestedParent :: ParentResourceConfig where
  "nestedParent = required_parent ''dataExchanges'' ''dataExchange''"

definition analyticshub_definitions :: "'w ResourceDefinition list" where
  "analyticshub_definitions =
     [entry ''GCP::AnalyticsHub::DataExchange'' (masked_type ''dataExchanges'' (Some ScopeLocationBased) ''dataExchangeId'')
        (Some StandardOperations) (Some dropPathFields) (Some (shortNameWithLocation ''dataExchanges'')),
      entry ''GCP::AnalyticsHub::Listing''
        ((masked_type ''listings'' (Some ScopeLocationBased) ''listingId'')\<lparr>rc_ParentResource := Some nestedParent\<rparr>)
        (Some StandardOperations) (Some listingRequest) (Some listingResponse),
      entry ''GCP::AnalyticsHub::QueryTemplate''
        ((masked_type ''queryTemplates'' (Some ScopeLocationBased) ''queryTemplateId'')\<lparr>rc_ParentResource := Some nestedParent\<rparr>)
        (Some StandardOperations) (Some queryTemplateRequest) (Some (shortNameWithLocation ''queryTemplates''))]"

interpretation analyticshub: nested_addressed pc_Location "\<lambda>t. []" extractAnalyticsHubNativeID "ParseNativeID AnalyticsHubNativeID" True
  "\<lambda>t. False"
  by unfold_locales
    (auto simp: extractAnalyticsHubNativeID_def own_answer_def AnalyticsHubNativeID_def parseAnalyticsHubNativeID_def parse_counted_id)

section \<open>Artifact Registry\<close>

definition parseArtifactRegistryNativeID :: "string \<Rightarrow> goerr + PathContext" where
  "parseArtifactRegistryNativeID = parse_nested ''artifact registry''"

definition artifactRegistryPathBuilder :: "PathContext \<Rightarrow> string" where
  "artifactRegistryPathBuilder = nested_path pc_Location (\<lambda>t. [])"

definition artifact_extractOperationName :: "obj \<Rightarrow> string" where
  "artifact_extractOperationName = operation_name"

definition extractArtifactRegistryNativeID :: "obj \<Rightarrow> PathContext \<Rightarrow> string" where
  "extractArtifactRegistryNativeID = nested_name pc_Location"

definition artifact_checkOperationStatus :: "obj \<Rightarrow> bool \<times> goerr option" where
  "artifact_checkOperationStatus = operation_status"

definition ArtifactRegistryAPI :: APIConfig where
  "ArtifactRegistryAPI = \<lparr>ac_BaseURL = ''https://artifactregistry.googleapis.com/v1'', ac_APIVersion = ''v1'',
     ac_PathBuilder = Some artifactRegistryPathBuilder, ac_Pagination = Some (paged_by ''pageSize'' [])\<rparr>"

definition ArtifactRegistryOperations :: OperationConfig where
  "ArtifactRegistryOperations =
     polled_operations artifact_extractOperationName extractArtifactRegistryNativeID artifact_checkOperationStatus"

definition ArtifactRegistryRuleOperations :: OperationConfig where
  "ArtifactRegistryRuleOperations = synchronous_operations extractArtifactRegistryNativeID"

definition ArtifactRegistryNativeID :: NativeIDConfig where
  "ArtifactRegistryNativeID = path_native_id (Some parseArtifactRegistryNativeID)"

definition ruleRequestTransformer :: request_transformer where
  "ruleRequestTransformer props ctx = Ok (Some (filter (\<lambda>(k, v). k \<notin> {''repository'', ''location''}) (obj_of props)))"

definition ruleResponseTransformer :: response_transformer where
  "ruleResponseTransformer props ctx =
     Ok (Some (parented_from_name (\<lambda>p. p ! 2 = ''locations'' \<and> p ! 4 = ''repositories'' \<and> p ! 6 = ''rules'') ''repository'' (obj_of props)))"

definition artifactregistry_definitions :: "'w ResourceDefinition list" where
  "artifactregistry_definitions =
     [entry ''GCP::ArtifactRegistry::Repository'' (located_type ''repositories'' ''repositoryId'') (Some fixed_operations)
        None (Some ShortNameResponseTransformer),
      (entry ''GCP::ArtifactRegistry::Rule''
        ((masked_type ''rules'' None ''ruleId'')\<lparr>rc_ParentResource := Some (required_parent ''repositories'' ''repository'')\<rparr>)
        (Some StandardOperations) (Some ruleRequestTransformer) (Some ruleResponseTransformer))
          \<lparr>rd_OperationConfig := ArtifactRegistryRuleOperations\<rparr>]"

interpretation artifactregistry: nested_addressed pc_Location "\<lambda>t. []" extractArtifactRegistryNativeID
  "ParseNativeID ArtifactRegistryNativeID" sync "\<lambda>t. False" for sync
  by unfold_locales
    (auto simp: extractArtifactRegistryNativeID_def nested_name_id ArtifactRegistryNativeID_def parseArtifactRegistryNativeID_def
      parse_nested_id)

section \<open>Parameter Manager\<close>

text \<open>A regional parameter is reachable on the region's own host only, so every address here is global.\<close>

definition parameter_globalLocation :: string where
  "parameter_globalLocation = ''global''"

definition parameter_parentCollectionOf :: "string \<Rightarrow> string" where
  "parameter_parentCollectionOf collection = (if collection = ''versions'' then ''parameters'' else [])"

definition parameterManagerPathBuilder :: "PathContext \<Rightarrow> string" where
  "parameterManagerPathBuilder = nested_path (\<lambda>ctx. parameter_globalLocation) parameter_parentCollectionOf"

definition parseParameterManagerNativeID :: "string \<Rightarrow> goerr + PathContext" where
  "parseParameterManagerNativeID = parse_nested ''parameter manager''"

definition extractParameterManagerNativeID :: "obj \<Rightarrow> PathContext \<Rightarrow> string" where
  "extractParameterManagerNativeID response ctx =
     (case (case as_string (map_of response ''name'') of Some name \<Rightarrow> from_projects name | None \<Rightarrow> None) of
        Some n \<Rightarrow> n
      | None \<Rightarrow> if pc_ResourceName ctx = [] then [] else nested_id (\<lambda>ctx. parameter_globalLocation) ctx)"

definition parameter_extractOperationName :: "obj \<Rightarrow> string" where
  "parameter_extractOperationName = operation_name"

definition parameter_checkOperationStatus :: "obj \<Rightarrow> bool \<times> goerr option" where
  "parameter_checkOperationStatus = operation_status"

definition ParameterManagerAPI :: APIConfig where
  "ParameterManagerAPI = \<lparr>ac_BaseURL = ''https://parametermanager.googleapis.com/v1'', ac_APIVersion = ''v1'',
     ac_PathBuilder = Some parameterManagerPathBuilder, ac_Pagination = Some (paged_by ''pageSize'' [])\<rparr>"

definition ParameterManagerOperations :: OperationConfig where
  "ParameterManagerOperations =
     (polled_operations parameter_extractOperationName extractParameterManagerNativeID parameter_checkOperationStatus)
       \<lparr>oc_Synchronous := True\<rparr>"

definition ParameterManagerNativeID :: NativeIDConfig where
  "ParameterManagerNativeID = path_native_id (Some parseParameterManagerNativeID)"

definition encodeParameterVersionPayload :: request_transformer where
  "encodeParameterVersionPayload props ctx =
     (let out = filter (\<lambda>(k, v). k \<noteq> ''data'') (obj_of props); data = string_or_empty (as_string (map_of (obj_of props) ''data''))
      in Ok (Some (if tc_Operation ctx = OperationUpdate \<or> data = [] then out
           else AList.update ''payload'' (JObj [(''data'', JStr (StdEncodeToString data))]) out)))"

definition parameterVersionRequestTransformer :: request_transformer where
  "parameterVersionRequestTransformer =
     CompositeRequestTransformer [DropFields [''parameter''], DropFieldsOnUpdate [''name''], encodeParameterVersionPayload]"

definition parentParameterOf :: "string \<Rightarrow> string" where
  "parentParameterOf name =
     (case Split name CHR ''/'' of
        [a, b, c, d, e, parent, g, h] \<Rightarrow> if e = ''parameters'' \<and> g = ''versions'' then parent else []
      | _ \<Rightarrow> [])"

definition dropParameterVersionPayload :: response_transformer where
  "dropParameterVersionPayload resp ctx = Ok (map_option (AList.delete ''payload'') resp)"

definition parameter_from_name :: "obj \<Rightarrow> obj" where
  "parameter_from_name m =
     (case as_string (map_of m ''name'') of
        None \<Rightarrow> m
      | Some name \<Rightarrow> if parentParameterOf name = [] then m else AList.update ''parameter'' (JStr (parentParameterOf name)) m)"

definition parameterVersionResponseTransformer :: response_transformer where
  "parameterVersionResponseTransformer =
     CompositeResponseTransformer
       [\<lambda>resp ctx. Ok (map_option parameter_from_name resp), dropParameterVersionPayload, ShortNameResponseTransformer]"

definition parametermanager_definitions :: "'w ResourceDefinition list" where
  "parametermanager_definitions =
     [entry ''GCP::ParameterManager::Parameter'' (masked_type ''parameters'' (Some ScopeGlobal) ''parameterId'') None
        (Some (DropFieldsOnUpdate [''name'', ''format''])) (Some ShortNameResponseTransformer),
      entry ''GCP::ParameterManager::ParameterVersion''
        ((masked_type ''versions'' None ''parameterVersionId'')
           \<lparr>rc_ParentResource := Some (required_parent ''parameters'' ''parameter''), rc_ListItemsKey := ''parameterVersions''\<rparr>) None
        (Some parameterVersionRequestTransformer) (Some parameterVersionResponseTransformer)]"

interpretation parametermanager: nested_addressed "\<lambda>ctx. parameter_globalLocation" parameter_parentCollectionOf extractParameterManagerNativeID
  "ParseNativeID ParameterManagerNativeID" True "\<lambda>t. t = ''parameters''"
  by unfold_locales
    (auto simp: extractParameterManagerNativeID_def own_answer_def ParameterManagerNativeID_def parseParameterManagerNativeID_def
      parse_nested_id dest: nested_ok_name)

section \<open>The packages\<close>

definition filestore_package :: "'w package" where
  "filestore_package = \<lparr>pk_API = FilestoreAPI, pk_Operations = FilestoreOperations, pk_NativeID = FilestoreNativeID,
     pk_Definitions = filestore_definitions\<rparr>"

definition analyticshub_package :: "'w package" where
  "analyticshub_package = \<lparr>pk_API = AnalyticsHubAPI, pk_Operations = AnalyticsHubOperations, pk_NativeID = AnalyticsHubNativeID,
     pk_Definitions = analyticshub_definitions\<rparr>"

definition artifactregistry_package :: "'w package" where
  "artifactregistry_package = \<lparr>pk_API = ArtifactRegistryAPI, pk_Operations = ArtifactRegistryOperations,
     pk_NativeID = ArtifactRegistryNativeID, pk_Definitions = artifactregistry_definitions\<rparr>"

definition parametermanager_package :: "'w package" where
  "parametermanager_package = \<lparr>pk_API = ParameterManagerAPI, pk_Operations = ParameterManagerOperations,
     pk_NativeID = ParameterManagerNativeID, pk_Definitions = parametermanager_definitions\<rparr>"

section \<open>What a forma declares reads back\<close>

lemma short_seg: "seg v \<Longrightarrow> CHR ''/'' \<notin> set v"
  by (simp add: seg_def)

text \<open>A reference by short name goes out as a full path and comes back as the short name.\<close>

lemma reference_back:
  assumes "seg v" "v \<noteq> []" "seg collection"
  shows "after_last (CHR ''/'' # collection @ ''/'') (expand_short project location collection v) = v"
proof -
  have "\<not> Contains v ''/''" using assms(1) by (auto simp: Contains_iff_sublist seg_def dest: set_mono_sublist)
  then show ?thesis
    using after_last_name [of v collection "''projects/'' @ project @ ''/locations/'' @ location"] assms
    by (simp add: expand_short_def location_path_def short_seg)
qed

lemma dataset_back: "seg v \<Longrightarrow> v \<noteq> [] \<Longrightarrow> after_last ''/datasets/'' (full_dataset project v) = v"
proof -
  assume v: "seg v" "v \<noteq> []"
  then have "\<not> Contains v ''/''" by (auto simp: Contains_iff_sublist seg_def dest: set_mono_sublist)
  then show ?thesis using after_last_name [of v "''datasets''" "''projects/'' @ project"] v
    by (simp add: full_dataset_def short_seg)
qed

text \<open>What a path tells and a response does not: location, parent and short name.\<close>

lemma located_from_name_back:
  assumes "location_ok ctx" and "map_of m ''name'' = Some (JStr (full_name ctx))"
  shows "map_of (located_from_name (pc_ResourceType ctx) m) ''name'' = Some (JStr (pc_ResourceName ctx))"
    "map_of (located_from_name (pc_ResourceType ctx) m) ''location'' = Some (JStr (pc_Location ctx))"
  using assms full_name_segments [OF assms(1)] by (simp_all add: located_from_name_def update_conv')

lemma parented_from_name_back:
  assumes "nested_ok pc_Location wild ctx" "has_parent ctx" and "map_of m ''name'' = Some (JStr (nested_id pc_Location ctx))"
    and "expected (Split (nested_id pc_Location ctx) CHR ''/'')" and "property \<notin> {''name'', ''location''}"
  shows "map_of (parented_from_name expected property m) ''name'' = Some (JStr (pc_ResourceName ctx))"
    "map_of (parented_from_name expected property m) property = Some (JStr (pc_ParentResource ctx))"
    "map_of (parented_from_name expected property m) ''location'' = Some (JStr (pc_Location ctx))"
  using assms nested_id_segments [OF assms(1)] by (auto simp: parented_from_name_def update_conv')

section \<open>What is stored of a payload\<close>

text \<open>What the generic resource stores as properties is what the response transformer let through.\<close>

definition let_through :: "'w BaseResource \<Rightarrow> raw \<Rightarrow> bool" where
  "let_through b q \<longleftrightarrow> (\<exists>body ctx operation m. transform_response b body ctx operation = Ok m \<and> q = RawDoc (map_value m))"

lemma let_throughI: "transform_response b body ctx operation = Ok m \<Longrightarrow> Marshal (map_value m) = Inr q \<Longrightarrow> let_through b q"
  unfolding let_through_def Marshal_def by (metis sum.sel(2) sum.distinct(1))

lemma read_body_stores: "read_body b ctx body = Ok r \<Longrightarrow> rr_Properties r = Some q \<Longrightarrow> let_through b q"
proof -
  assume r: "read_body b ctx body = Ok r" "rr_Properties r = Some q"
  then obtain m where m: "transform_response b body ctx OperationRead = Ok m"
    by (auto simp: read_body_def bind_outcome_eq_Ok read_error_def split: if_splits)
  then have "Marshal (map_value m) = Inr q"
    using r by (auto simp: read_body_def read_error_def read_properties_def split: if_splits sum.splits)
  with m show ?thesis by (rule let_throughI)
qed

lemma Read_stores: "Read E b request s = (Ok r, s') \<Longrightarrow> rr_Properties r = Some q \<Longrightarrow> let_through b q"
  by (auto simp: Read_def read_error_def Let_def intro: read_body_stores
      split: prod.splits sum.splits outcome.splits if_splits bool.splits)

lemma created_stores: "handleSynchronousCreate b body ctx = Ok p \<Longrightarrow> pr_Properties p = Some q \<Longrightarrow> let_through b q"
proof -
  assume p: "handleSynchronousCreate b body ctx = Ok p" "pr_Properties p = Some q"
  then obtain n m where m: "call_native_id b body ctx = Ok n" "transform_response b body ctx OperationCreate = Ok m"
    by (auto simp: handleSynchronousCreate_def bind_outcome_eq_Ok)
  then have "Marshal (map_value m) = Inr q"
    using p by (auto simp: handleSynchronousCreate_def createFailureResult_def split: sum.splits)
  with m(2) show ?thesis by (rule let_throughI)
qed

lemma Create_stores:
  assumes "Create E b request s = (Ok p, s')" and "pr_Properties p = Some q"
  shows "let_through b q"
proof -
  have "asynchronous_create b body ctx \<noteq> Ok p" for body ctx
    using assms(2) by (auto simp: asynchronous_create_def bind_outcome_eq_Ok)
  then show ?thesis using assms created_stores
    by (fastforce simp: Create_def send_create_def createFailureResult_def Let_def
        split: prod.splits sum.splits outcome.splits option.splits if_splits)
qed

lemma finish_update_stores:
  assumes "finish_update E b request ctx answer s = (Ok p, s')" and "pr_Properties p = Some q"
  shows "let_through b q"
  using assms
  by (auto simp: finish_update_def readBackAfterUpdate_def updateFailureResult_def Let_def bind_outcome_eq_Ok
      intro: Read_stores split: sum.splits if_splits prod.splits outcome.splits)

lemma Update_stores:
  assumes "Update E b request s = (Ok p, s')" and "pr_Properties p = Some q"
  shows "let_through b q"
proof -
  have "let_through b q" if "performUpdate E b client request props ctx s1 = (Ok p, s')" for client props ctx s1
    using that assms(2) finish_update_stores
    by (fastforce simp: performUpdate_def updateFailureResult_def Let_def split: outcome.splits prod.splits)
  moreover have "let_through b q" if "updateWithOptimisticLocking E b lock client request props ctx s1 = (Ok p, s')"
    for lock client props ctx s1
    using that assms(2) finish_update_stores
    by (fastforce simp: updateWithOptimisticLocking_def updateFailureResult_def Let_def split: outcome.splits prod.splits sum.splits)
  ultimately show ?thesis using assms
    by (auto simp: Update_def updateFailureResult_def Let_def split: prod.splits sum.splits option.splits if_splits)
qed

definition version_resource :: "Config option \<Rightarrow> 'w BaseResource" where
  "version_resource cfg = package_resource parametermanager_package cfg (parametermanager_definitions ! 1)"

lemma version_resource_sel:
  "b_ResponseTransformer (version_resource cfg) = Some parameterVersionResponseTransformer"
  "b_RequestTransformer (version_resource cfg) = Some parameterVersionRequestTransformer"
  "b_Config (version_resource cfg) = cfg" "b_APIConfig (version_resource cfg) = ParameterManagerAPI"
  "b_NativeIDConfig (version_resource cfg) = ParameterManagerNativeID"
  "rc_ResourceType (b_ResourceConfig (version_resource cfg)) = ''versions''"
  "rc_ReadTreatAsMissing (b_ResourceConfig (version_resource cfg)) = None"
  "rc_Scope (b_ResourceConfig (version_resource cfg)) = None"
  by (simp_all add: version_resource_def parametermanager_definitions_def package_resource_sel parametermanager_package_def
      masked_type_def zero_resource_def)

lemma version_response_sealed:
  "parameterVersionResponseTransformer resp ctx = Ok (Some m) \<Longrightarrow> map_of m ''payload'' = None"
  by (cases resp)
    (auto simp: parameterVersionResponseTransformer_def dropParameterVersionPayload_def ShortNameResponseTransformer_def obj_of_def
      assign_def update_conv' delete_conv' split: option.splits)

lemma version_let_through: "let_through (version_resource cfg) (RawDoc (JObj m)) \<Longrightarrow> map_of m ''payload'' = None"
  by (auto simp: let_through_def transform_response_def version_resource_sel map_value_def split: option.splits
      dest: version_response_sealed)

lemma version_request:
  "parameterVersionRequestTransformer (Some props) ctx =
     Ok (Some (let update = (tc_Operation ctx = OperationUpdate); data = string_or_empty (as_string (map_of props ''data''));
        out = filter (\<lambda>(k, v). k \<noteq> ''parameter'' \<and> k \<noteq> ''data'' \<and> (update \<longrightarrow> k \<noteq> ''name'')) props
      in if update \<or> data = [] then out
         else AList.update ''payload'' (JObj [(''data'', JStr (StdEncodeToString data))]) out))"
  by (auto simp: parameterVersionRequestTransformer_def DropFields_def DropFieldsOnUpdate_def encodeParameterVersionPayload_def obj_of_def
      Let_def map_of_filter_keys intro!: filter_cong arg_cong [where f = "AList.update _ _"])

text \<open>
  C24: The payload of a parameter version is written and never kept, although the API hands it back on every
  read and on the create itself. Whatever the API answers, no Create, Read or Update of the generic resource
  stores a payload; on create the declared data, if there is any, goes out as base64 under the payload and
  nowhere else; and an update sends neither data nor what addresses the version, so that its mask names none.
\<close>
theorem parameter_payload_sealed:
  assumes "b = version_resource cfg"
  shows "(Create E b create s = (Ok p, s1) \<and> pr_Properties p = Some (RawDoc (JObj m)) \<longrightarrow> map_of m ''payload'' = None)
    \<and> (Read E b read s = (Ok r, s2) \<and> rr_Properties r = Some (RawDoc (JObj m)) \<longrightarrow> map_of m ''payload'' = None)
    \<and> (Update E b update s = (Ok u, s3) \<and> pr_Properties u = Some (RawDoc (JObj m)) \<longrightarrow> map_of m ''payload'' = None)
    \<and> (map_of props ''data'' = Some (JStr data) \<and> data \<noteq> [] \<longrightarrow>
        (\<exists>body payload. transform_request b props ctx OperationCreate = Ok (Some body)
          \<and> map_of body ''payload'' = Some (JObj [(''data'', JStr payload)]) \<and> StdDecodeString payload = Some data
          \<and> map_of body ''data'' = None \<and> map_of body ''name'' = map_of props ''name''))
    \<and> (\<exists>body. transform_request b props ctx OperationUpdate = Ok (Some body)
        \<and> (\<forall>k. map_of body k = (if k \<in> {''data'', ''name'', ''parameter''} then None else map_of props k)))"
proof (intro conjI impI; (elim conjE)?)
  show "map_of m ''payload'' = None" if "Create E b create s = (Ok p, s1)" "pr_Properties p = Some (RawDoc (JObj m))"
    using Create_stores [OF that] assms version_let_through by blast
  show "map_of m ''payload'' = None" if "Read E b read s = (Ok r, s2)" "rr_Properties r = Some (RawDoc (JObj m))"
    using Read_stores [OF that] assms version_let_through by blast
  show "map_of m ''payload'' = None" if "Update E b update s = (Ok u, s3)" "pr_Properties u = Some (RawDoc (JObj m))"
    using Update_stores [OF that] assms version_let_through by blast
  show "\<exists>body payload. transform_request b props ctx OperationCreate = Ok (Some body)
          \<and> map_of body ''payload'' = Some (JObj [(''data'', JStr payload)]) \<and> StdDecodeString payload = Some data
          \<and> map_of body ''data'' = None \<and> map_of body ''name'' = map_of props ''name''"
    if "map_of props ''data'' = Some (JStr data)" "data \<noteq> []"
    using that by (auto simp: transform_request_def assms version_resource_sel version_request buildTransformContext_def Let_def
        update_conv' map_of_filter_keys string_or_empty_def)
  show "\<exists>body. transform_request b props ctx OperationUpdate = Ok (Some body)
        \<and> (\<forall>k. map_of body k = (if k \<in> {''data'', ''name'', ''parameter''} then None else map_of props k))"
    by (auto simp: transform_request_def assms version_resource_sel version_request buildTransformContext_def Let_def map_of_filter_keys)
qed

definition demo_version_id :: string where
  "demo_version_id = ''projects/p/locations/global/parameters/a/versions/v''"

definition demo_version_answer :: obj where
  "demo_version_answer = [(''name'', JStr demo_version_id), (''payload'', JObj [(''data'', JStr ''aGk='')])]"

definition demo_version_read :: ReadRequest where
  "demo_version_read = \<lparr>rd_NativeID = demo_version_id, rd_ResourceType = ''T'', rd_TargetConfig = RawNil\<rparr>"

lemma demo_version_parse:
  "ParseNativeID ParameterManagerNativeID demo_version_id =
     Inr (empty_ctx\<lparr>pc_Project := ''p'', pc_Location := ''global'', pc_ResourceType := ''versions'', pc_ResourceName := ''v'',
       pc_ParentResource := ''a'', pc_ParentType := ''parameters''\<rparr>)"
  unfolding ParameterManagerNativeID_def path_native_id_sel parseParameterManagerNativeID_def demo_version_id_def by code_simp

lemma demo_version_url:
  "resource_url (version_resource cfg) (resource_context (version_resource cfg) RawNil (empty_ctx\<lparr>pc_Project := ''p'',
     pc_Location := ''global'', pc_ResourceType := ''versions'', pc_ResourceName := ''v'', pc_ParentResource := ''a'',
     pc_ParentType := ''parameters''\<rparr>)) = Ok (''https://parametermanager.googleapis.com/v1/'' @ demo_version_id)"
  by (simp add: resource_url_def resource_context_def ResourceURL_def NewURLBuilder_def build_url_def version_resource_sel
      ParameterManagerAPI_def parameterManagerPathBuilder_def nested_path_def has_parent_def parameter_globalLocation_def
      fillPathContextFromTarget_def fill_def Let_def demo_version_id_def empty_ctx_def)

theorem parameter_payload_sealed_witness:
  "\<exists>r m s'. Read (logged script_env) (version_resource demo_cfg) demo_version_read (script_at [scripted 200 (JObj demo_version_answer)] [])
      = (Ok r, s') \<and> rr_Properties r = Some (RawDoc (JObj m)) \<and> map_of m ''name'' = Some (JStr ''v'') \<and> map_of m ''payload'' = None"
proof -
  let ?url = "''https://parametermanager.googleapis.com/v1/'' @ demo_version_id" and ?b = "version_resource demo_cfg :: demo_world BaseResource"
  have "Parse ?url \<noteq> None" unfolding demo_version_id_def by code_simp
  then obtain req where send: "SendRequest (logged script_env) demo_client (request_options ''GET'' ?url None)
      (script_at [scripted 200 (JObj demo_version_answer)] [])
      = (Inr \<lparr>rs_StatusCode = 200, rs_Body = Some demo_version_answer, rs_Headers = []\<rparr>, script_at [] [req])"
    using script_send [OF _ methods_ok(1), of ?url None demo_version_answer "[]" "[]"] by auto
  let ?m = "[(''name'', JStr ''v''), (''parameter'', JStr ''a'')]"
  have t: "parameterVersionResponseTransformer (Some demo_version_answer) ctx = Ok (Some ?m)" for ctx
    unfolding demo_version_answer_def demo_version_id_def by code_simp
  have run: "Read (logged script_env) ?b demo_version_read (script_at [scripted 200 (JObj demo_version_answer)] [])
      = (Ok (read_properties (RawDoc (JObj ?m))), script_at [] [req])"
    using send t
    by (simp add: Read_def version_resource_sel demo_NewClient demo_version_read_def demo_version_parse demo_version_url read_body_def
        body_is_missing_def transform_response_def map_value_def Marshal_def)
  have "map_of ?m ''payload'' = None"
    by (rule parameter_payload_sealed [OF refl, THEN conjunct2, THEN conjunct1, THEN mp, OF conjI, OF run]) (simp add: read_properties_def)
  then show ?thesis using run by (intro exI conjI) (assumption | simp add: read_properties_def)+
qed

end
