(* ===== verification/Project_Services.thy ===== *)
theory Project_Services
  imports Parented_Services
begin

text \<open>
  Packages whose resources live directly below a project, Organization Policy, Essential Contacts and
  Cloud Logging; the last has types at a location too, and a Read of its own for its buckets.
\<close>

section \<open>Directly below a project\<close>

definition project_path :: "PathContext \<Rightarrow> string" where
  "project_path ctx =
     ''/projects/'' @ pc_Project ctx @ ''/'' @ pc_ResourceType ctx
       @ (if pc_ResourceName ctx \<noteq> [] then ''/'' @ pc_ResourceName ctx else [])"

definition project_id :: "PathContext \<Rightarrow> string" where
  "project_id ctx = ''projects/'' @ pc_Project ctx @ ''/'' @ pc_ResourceType ctx @ ''/'' @ pc_ResourceName ctx"

definition parse_project :: "(string \<Rightarrow> bool) \<Rightarrow> string \<Rightarrow> string \<Rightarrow> goerr + PathContext" where
  "parse_project expected what nativeID =
     (case Split nativeID CHR ''/'' of
        [root, project, kind, name] \<Rightarrow>
          if root = ''projects'' \<and> expected kind
          then Inr (empty_ctx\<lparr>pc_Project := project, pc_ResourceType := kind, pc_ResourceName := name\<rparr>)
          else Inl (ErrText (''invalid '' @ what @ '' native ID: '' @ nativeID))
      | _ \<Rightarrow> Inl (ErrText (''invalid '' @ what @ '' native ID: '' @ nativeID)))"

definition project_ok :: "(string \<Rightarrow> bool) \<Rightarrow> PathContext \<Rightarrow> bool" where
  "project_ok expected ctx \<longleftrightarrow>
     list_all (\<lambda>s. seg s \<and> s \<noteq> []) [pc_Project ctx, pc_ResourceType ctx, pc_ResourceName ctx] \<and> expected (pc_ResourceType ctx)"

definition project_canon :: "PathContext \<Rightarrow> PathContext" where
  "project_canon ctx = empty_ctx\<lparr>pc_Project := pc_Project ctx, pc_ResourceType := pc_ResourceType ctx, pc_ResourceName := pc_ResourceName ctx\<rparr>"

lemma project_path_id: "project_ok expected ctx \<Longrightarrow> tl (project_path ctx) = project_id ctx"
  by (simp add: project_ok_def project_path_def project_id_def)

lemma parse_project_id: "project_ok expected ctx \<Longrightarrow> parse_project expected what (project_id ctx) = Inr (project_canon ctx)"
proof -
  assume ok: "project_ok expected ctx"
  then have "Split (project_id ctx) CHR ''/'' = [''projects'', pc_Project ctx, pc_ResourceType ctx, pc_ResourceName ctx]"
    by (simp add: project_ok_def project_id_def seg_def segment)
  then show ?thesis using ok by (simp add: parse_project_def project_canon_def project_ok_def)
qed

locale project_addressed =
  fixes extr :: "obj \<Rightarrow> PathContext \<Rightarrow> string" and parse :: "string \<Rightarrow> goerr + PathContext" and sync :: bool and expected :: "string \<Rightarrow> bool"
  assumes names: "project_ok expected ctx \<Longrightarrow> own_answer sync (project_id ctx) body \<Longrightarrow> extr body ctx = project_id ctx"
    and reads: "project_ok expected ctx \<Longrightarrow> parse (project_id ctx) = Inr (project_canon ctx)"

sublocale project_addressed \<subseteq> addressed project_path extr parse sync "project_ok expected" project_canon "\<lambda>t. True"
proof
  fix ctx c body assume ok: "project_ok expected ctx"
  note id = project_path_id [OF ok]
  show "project_path ctx = project_path (ctx\<lparr>pc_ResourceName := []\<rparr>) @ ''/'' @ pc_ResourceName ctx"
    using ok by (simp add: project_path_def project_ok_def)
  show "parse (tl (project_path ctx)) = Inr (project_canon ctx)" using reads [OF ok] id by simp
  show "extr body ctx = tl (project_path ctx)" if "own_answer sync (tl (project_path ctx)) body" using that names [OF ok] id by simp
  show "pc_ResourceName (project_canon ctx) = pc_ResourceName ctx \<and> pc_ResourceName ctx \<noteq> []"
    using ok by (simp add: project_canon_def project_ok_def)
  show "project_path c = project_path ctx" if "completes True (project_canon ctx) c" "pc_ResourceType c = pc_ResourceType ctx"
    using that ok by (simp add: completes_def project_canon_def project_ok_def project_path_def)
qed

text \<open>The name of an answer if it is a full one, else the declared name; two packages have a copy.\<close>

definition project_named :: "obj \<Rightarrow> PathContext \<Rightarrow> string" where
  "project_named response ctx =
     (case as_string (map_of response ''name'') of
        Some name \<Rightarrow> if HasPrefix name ''projects/'' then name else if pc_ResourceName ctx \<noteq> [] then project_id ctx else []
      | None \<Rightarrow> if pc_ResourceName ctx \<noteq> [] then project_id ctx else [])"

lemma project_named_own: "project_ok expected ctx \<Longrightarrow> own_answer True (project_id ctx) body \<Longrightarrow> project_named body ctx = project_id ctx"
  by (auto simp: project_named_def own_answer_def project_ok_def)

text \<open>
  These APIs name what they create: a policy under the number of the project, a contact by an id of its own.
  Any full name an answer gives is the native ID, and it leads back to the path the API knows the resource by.
\<close>

lemma project_named_by_answer:
  assumes "as_string (map_of body ''name'') = Some (project_id given)" and "project_ok expected given"
  shows "project_named body ctx = project_id given"
    and "parse_project expected what (project_named body ctx) = Inr (project_canon given)"
    and "tl (project_path (project_canon given)) = project_named body ctx"
proof -
  show id: "project_named body ctx = project_id given"
    using assms(1) by (simp add: project_named_def project_id_def)
  show "parse_project expected what (project_named body ctx) = Inr (project_canon given)"
    unfolding id using assms(2) by (rule parse_project_id)
  show "tl (project_path (project_canon given)) = project_named body ctx"
    unfolding id project_path_id [OF assms(2), symmetric] by (simp add: project_path_def project_canon_def)
qed

section \<open>Organization Policy\<close>

definition orgPolicyPathBuilder :: "PathContext \<Rightarrow> string" where "orgPolicyPathBuilder = project_path"

definition extractOrgPolicyNativeID :: "obj \<Rightarrow> PathContext \<Rightarrow> string" where "extractOrgPolicyNativeID = project_named"

definition parseOrgPolicyNativeID :: "string \<Rightarrow> goerr + PathContext" where
  "parseOrgPolicyNativeID = parse_project (\<lambda>kind. kind = ''policies'') ''org policy''"

definition OrgPolicyAPI :: APIConfig where
  "OrgPolicyAPI = \<lparr>ac_BaseURL = ''https://orgpolicy.googleapis.com/v2'', ac_APIVersion = ''v2'', ac_PathBuilder = Some orgPolicyPathBuilder,
     ac_Pagination = Some (paged_by ''pageSize'' ''pageToken'')\<rparr>"

definition OrgPolicyOperations :: OperationConfig where
  "OrgPolicyOperations = synchronous_operations extractOrgPolicyNativeID"

definition OrgPolicyNativeID :: NativeIDConfig where
  "OrgPolicyNativeID = path_native_id (Some parseOrgPolicyNativeID)"

definition expandNameRequestTransformer :: request_transformer where
  "expandNameRequestTransformer props ctx =
     Ok (Some (rewrite_string ''name''
       (\<lambda>n. if n = [] \<or> Contains n ''/'' then n else ''projects/'' @ tc_Project ctx @ ''/policies/'' @ n) (obj_of props)))"

definition orgpolicy_definitions :: "'w ResourceDefinition list" where
  "orgpolicy_definitions =
     [entry ''GCP::OrgPolicy::Policy'' (zero_resource\<lparr>rc_ResourceType := ''policies'', rc_Scope := Some ScopeProjectLevel\<rparr>)
        (Some fixed_operations) (Some expandNameRequestTransformer) (Some ShortNameResponseTransformer)]"

definition orgpolicy_package :: "'w package" where
  "orgpolicy_package = \<lparr>pk_API = OrgPolicyAPI, pk_Operations = OrgPolicyOperations, pk_NativeID = OrgPolicyNativeID,
     pk_Definitions = orgpolicy_definitions\<rparr>"

interpretation orgpolicy: project_addressed extractOrgPolicyNativeID "ParseNativeID OrgPolicyNativeID" True "\<lambda>kind. kind = ''policies''"
  by unfold_locales
    (auto simp: extractOrgPolicyNativeID_def project_named_own OrgPolicyNativeID_def parseOrgPolicyNativeID_def parse_project_id)

section \<open>Essential Contacts\<close>

definition essentialContactsPathBuilder :: "PathContext \<Rightarrow> string" where "essentialContactsPathBuilder = project_path"

definition extractEssentialContactsNativeID :: "obj \<Rightarrow> PathContext \<Rightarrow> string" where "extractEssentialContactsNativeID = project_named"

definition parseEssentialContactsNativeID :: "string \<Rightarrow> goerr + PathContext" where
  "parseEssentialContactsNativeID = parse_project (\<lambda>kind. True) ''essential contacts''"

definition EssentialContactsAPI :: APIConfig where
  "EssentialContactsAPI = \<lparr>ac_BaseURL = ''https://essentialcontacts.googleapis.com/v1'', ac_APIVersion = ''v1'',
     ac_PathBuilder = Some essentialContactsPathBuilder, ac_Pagination = Some (paged_by ''pageSize'' ''pageToken'')\<rparr>"

definition EssentialContactsOperations :: OperationConfig where
  "EssentialContactsOperations = synchronous_operations extractEssentialContactsNativeID"

definition EssentialContactsNativeID :: NativeIDConfig where
  "EssentialContactsNativeID = path_native_id (Some parseEssentialContactsNativeID)"

definition essentialcontacts_definitions :: "'w ResourceDefinition list" where
  "essentialcontacts_definitions =
     [entry ''GCP::EssentialContacts::Contact'' (zero_resource\<lparr>rc_ResourceType := ''contacts'', rc_Scope := Some ScopeProjectLevel\<rparr>)
        (Some fixed_operations) None (Some ShortNameResponseTransformer)]"

definition essentialcontacts_package :: "'w package" where
  "essentialcontacts_package = \<lparr>pk_API = EssentialContactsAPI, pk_Operations = EssentialContactsOperations,
     pk_NativeID = EssentialContactsNativeID, pk_Definitions = essentialcontacts_definitions\<rparr>"

interpretation essentialcontacts: project_addressed extractEssentialContactsNativeID "ParseNativeID EssentialContactsNativeID" True
  "\<lambda>kind. True"
  by unfold_locales
    (auto simp: extractEssentialContactsNativeID_def project_named_own EssentialContactsNativeID_def parseEssentialContactsNativeID_def
      parse_project_id)

section \<open>Cloud Logging\<close>

definition loggingPathBuilder :: "PathContext \<Rightarrow> string" where "loggingPathBuilder = project_path"

definition extractLoggingNativeID :: "obj \<Rightarrow> PathContext \<Rightarrow> string" where
  "extractLoggingNativeID response ctx =
     (let name = (if pc_ResourceName ctx \<noteq> [] then pc_ResourceName ctx else string_or_empty (as_string (map_of response ''name'')))
      in if name = [] then [] else ''projects/'' @ pc_Project ctx @ ''/'' @ pc_ResourceType ctx @ ''/'' @ name)"

definition parseLoggingNativeID :: "string \<Rightarrow> goerr + PathContext" where
  "parseLoggingNativeID = parse_project (\<lambda>kind. True) ''Logging''"

definition or_global :: "string \<Rightarrow> string" where
  "or_global location = (if location = [] then ''global'' else location)"

definition loggingLocationPathBuilder :: "PathContext \<Rightarrow> string" where
  "loggingLocationPathBuilder ctx =
     ''/projects/'' @ pc_Project ctx @ ''/locations/''
       @ (if pc_ResourceType ctx = ''logScopes'' then ''global'' else or_global (pc_Location ctx))
       @ (if pc_ParentResource ctx \<noteq> [] then ''/'' @ pc_ParentType ctx @ ''/'' @ pc_ParentResource ctx else [])
       @ ''/'' @ pc_ResourceType ctx @ (if pc_ResourceName ctx \<noteq> [] then ''/'' @ pc_ResourceName ctx else [])"

definition parse_location_scoped :: "string \<Rightarrow> string \<Rightarrow> string \<Rightarrow> goerr + PathContext" where
  "parse_location_scoped what resourceType nativeID =
     (let refused = Inl (ErrText (''invalid Logging '' @ what @ '' native ID: '' @ nativeID))
      in case Split nativeID CHR ''/'' of
           [a, project, c, location, kind, name] \<Rightarrow>
             if a \<noteq> ''projects'' \<or> c \<noteq> ''locations'' \<or> kind \<noteq> resourceType then refused
             else Inr (empty_ctx\<lparr>pc_Project := project, pc_Location := location, pc_ResourceType := kind, pc_ResourceName := name\<rparr>)
         | _ \<Rightarrow> refused)"

definition LocationScopedNativeID :: "string \<Rightarrow> NativeIDConfig" where
  "LocationScopedNativeID resourceType = path_native_id (Some (parse_location_scoped resourceType resourceType))"

definition parseLoggingBucketNativeID :: "string \<Rightarrow> goerr + PathContext" where
  "parseLoggingBucketNativeID = parse_location_scoped ''bucket'' ''buckets''"

definition parseLoggingViewNativeID :: "string \<Rightarrow> goerr + PathContext" where
  "parseLoggingViewNativeID nativeID =
     (let refused = Inl (ErrText (''invalid Logging view native ID: '' @ nativeID))
      in case Split nativeID CHR ''/'' of
           [a, project, c, location, parents, bucket, kind, name] \<Rightarrow>
             if a \<noteq> ''projects'' \<or> c \<noteq> ''locations'' \<or> parents \<noteq> ''buckets'' \<or> kind \<noteq> ''views'' then refused
             else Inr (empty_ctx\<lparr>pc_Project := project, pc_Location := location, pc_ResourceType := kind, pc_ResourceName := name,
                    pc_ParentResource := bucket, pc_ParentType := ''buckets''\<rparr>)
         | _ \<Rightarrow> refused)"

definition name_from_projects :: "obj \<Rightarrow> string option" where
  "name_from_projects response = (case as_string (map_of response ''name'') of Some name \<Rightarrow> from_projects name | None \<Rightarrow> None)"

definition extractLoggingLocationNativeID :: "obj \<Rightarrow> PathContext \<Rightarrow> string" where
  "extractLoggingLocationNativeID response ctx =
     (case name_from_projects response of
        Some n \<Rightarrow> n
      | None \<Rightarrow> if pc_ResourceName ctx = [] then []
          else location_path (pc_Project ctx) (or_global (pc_Location ctx)) (pc_ResourceType ctx) @ ''/'' @ pc_ResourceName ctx)"

definition extractLoggingViewNativeID :: "obj \<Rightarrow> PathContext \<Rightarrow> string" where
  "extractLoggingViewNativeID response ctx =
     (case name_from_projects response of
        Some n \<Rightarrow> n
      | None \<Rightarrow> if pc_ResourceName ctx = [] \<or> pc_ParentResource ctx = [] then []
          else ''projects/'' @ pc_Project ctx @ ''/locations/'' @ or_global (pc_Location ctx) @ ''/buckets/'' @ pc_ParentResource ctx
            @ ''/views/'' @ pc_ResourceName ctx)"

definition logging_api :: "(PathContext \<Rightarrow> string) \<Rightarrow> APIConfig" where
  "logging_api path = \<lparr>ac_BaseURL = ''https://logging.googleapis.com/v2'', ac_APIVersion = ''v2'', ac_PathBuilder = Some path,
     ac_Pagination = Some (paged_by ''pageSize'' [])\<rparr>"

definition LoggingAPI :: APIConfig where "LoggingAPI = logging_api loggingPathBuilder"
definition LoggingLocationAPI :: APIConfig where "LoggingLocationAPI = logging_api loggingLocationPathBuilder"
definition LoggingViewAPI :: APIConfig where "LoggingViewAPI = logging_api loggingLocationPathBuilder"
definition LoggingOperations :: OperationConfig where "LoggingOperations = synchronous_operations extractLoggingNativeID"
definition LoggingLocationOperations :: OperationConfig where
  "LoggingLocationOperations = synchronous_operations extractLoggingLocationNativeID"
definition LoggingViewOperations :: OperationConfig where "LoggingViewOperations = synchronous_operations extractLoggingViewNativeID"
definition LoggingNativeID :: NativeIDConfig where "LoggingNativeID = path_native_id (Some parseLoggingNativeID)"
definition LoggingBucketNativeID :: NativeIDConfig where "LoggingBucketNativeID = path_native_id (Some parseLoggingBucketNativeID)"
definition LoggingViewNativeID :: NativeIDConfig where "LoggingViewNativeID = path_native_id (Some parseLoggingViewNativeID)"

definition logBucketResponseTransformer :: response_transformer where
  "logBucketResponseTransformer props ctx =
     Ok (Some (case parseLoggingBucketNativeID (GetString (obj_of props) ''name'') of
        Inl e \<Rightarrow> obj_of props
      | Inr c \<Rightarrow> AList.update ''name'' (JStr (pc_ResourceName c)) (AList.update ''location'' (JStr (pc_Location c)) (obj_of props))))"

text \<open>Every segment is looked at, also one that is itself a value; the last one counts.\<close>

fun path_parts :: "string list \<Rightarrow> obj \<Rightarrow> obj" where
  "path_parts (a # b # rest) m =
     path_parts (b # rest) (if a = ''locations'' then AList.update ''location'' (JStr b) m
       else if a = ''buckets'' then AList.update ''bucket'' (JStr b) m else m)"
| "path_parts _ m = m"

definition pathPartsFromName :: response_transformer where
  "pathPartsFromName resp ctx =
     Ok (map_option (\<lambda>m. case as_string (map_of m ''name'') of None \<Rightarrow> m | Some name \<Rightarrow> path_parts (Split name CHR ''/'') m) resp)"

definition patched_type :: "string \<Rightarrow> ScopeType option \<Rightarrow> string \<Rightarrow> 'w ResourceConfig" where
  "patched_type collection scope idParam = (masked_type collection scope idParam)\<lparr>rc_UpdateMethod := UpdateMethodPatch\<rparr>"

definition dropped :: "string list \<Rightarrow> request_transformer" where
  "dropped keys = CompositeRequestTransformer [DropFields keys, DropFieldsOnUpdate [''name'']]"

definition named_by_path :: response_transformer where
  "named_by_path = CompositeResponseTransformer [pathPartsFromName, ShortNameResponseTransformer]"

definition configured :: "APIConfig \<Rightarrow> OperationConfig \<Rightarrow> NativeIDConfig \<Rightarrow> 'w ResourceDefinition \<Rightarrow> 'w ResourceDefinition" where
  "configured api operations ids d = d\<lparr>rd_APIConfig := api, rd_OperationConfig := operations, rd_NativeIDConfig := ids\<rparr>"

definition logging_definitions :: "'w ResourceDefinition list" where
  "logging_definitions =
     [entry ''GCP::Logging::LogMetric'' (zero_resource\<lparr>rc_ResourceType := ''metrics'', rc_Scope := Some ScopeProjectLevel\<rparr>)
        (Some fixed_operations) None (Some ShortNameResponseTransformer),
      entry ''GCP::Logging::ProjectSink'' (patched_type ''sinks'' (Some ScopeProjectLevel) []) None
        (Some (DropFieldsOnUpdate [''name'', ''writerIdentity''])) None,
      entry ''GCP::Logging::ProjectExclusion'' (patched_type ''exclusions'' (Some ScopeProjectLevel) []) None
        (Some (DropFieldsOnUpdate [''name''])) None,
      configured LoggingViewAPI LoggingViewOperations LoggingBucketNativeID
        (entry ''GCP::Logging::LogBucket'' (patched_type ''buckets'' None ''bucketId'') None
          (Some (dropped [''location''])) (Some logBucketResponseTransformer)),
      configured LoggingViewAPI LoggingViewOperations LoggingViewNativeID
        (entry ''GCP::Logging::LogView''
          ((patched_type ''views'' None ''viewId'')\<lparr>rc_ParentResource := Some (required_parent ''buckets'' ''bucket'')\<rparr>) None
          (Some (dropped [''bucket'', ''location''])) (Some named_by_path)),
      configured LoggingLocationAPI LoggingLocationOperations (LocationScopedNativeID ''savedQueries'')
        (entry ''GCP::Logging::SavedQuery'' (patched_type ''savedQueries'' None ''savedQueryId'') None
          (Some (dropped [''location''])) (Some named_by_path)),
      configured LoggingLocationAPI LoggingLocationOperations (LocationScopedNativeID ''logScopes'')
        (entry ''GCP::Logging::LogScope'' (zero_resource\<lparr>rc_ResourceType := ''logScopes'', rc_CreateIDParam := ''logScopeId''\<rparr>) None
          (Some (dropped [''location''])) (Some named_by_path))]"

definition logging_package :: "'w package" where
  "logging_package = \<lparr>pk_API = LoggingAPI, pk_Operations = LoggingOperations, pk_NativeID = LoggingNativeID,
     pk_Definitions = logging_definitions\<rparr>"

text \<open>\<^verbatim>\<open>log_bucket.go\<close>: a deleted bucket answers for a week.\<close>

definition logBucketDeleteRequested :: string where "logBucketDeleteRequested = ''DELETE_REQUESTED''"

definition bucket_read :: "ReadRequest \<Rightarrow> ReadResult \<Rightarrow> ReadResult" where
  "bucket_read request r =
     (if rr_ErrorCode r \<noteq> NoErrorCode then r
      else case rr_Properties r of
        None \<Rightarrow> r
      | Some doc \<Rightarrow>
          (case unmarshal_map doc of
             Inl e \<Rightarrow> r
           | Inr props \<Rightarrow>
               if GetString (obj_of props) ''lifecycleState'' = logBucketDeleteRequested
               then (read_error NotFound)\<lparr>rr_ResourceType := rd_ResourceType request\<rparr> else r))"

definition LogBucket_Read :: "(ReadRequest \<Rightarrow> ('w, ReadResult) op) \<Rightarrow> ReadRequest \<Rightarrow> ('w, ReadResult) op" where
  "LogBucket_Read read request s =
     (case read request s of
        (Ok r, s1) \<Rightarrow> (Ok (bucket_read request r), s1)
      | (Err e, s1) \<Rightarrow> (Err e, s1)
      | (Panic p, s1) \<Rightarrow> (Panic p, s1))"

interpretation logging: project_addressed extractLoggingNativeID "ParseNativeID LoggingNativeID" sync "\<lambda>kind. True" for sync
proof
  show "extractLoggingNativeID body ctx = project_id ctx" if "project_ok (\<lambda>kind. True) ctx" for body ctx
    using that by (simp add: extractLoggingNativeID_def project_ok_def project_id_def Let_def)
  show "ParseNativeID LoggingNativeID (project_id ctx) = Inr (project_canon ctx)" if "project_ok (\<lambda>kind. True) ctx" for ctx
    using that by (simp add: LoggingNativeID_def parseLoggingNativeID_def parse_project_id)
qed

end
