(* ===== verification/Deep_Services.thy ===== *)
theory Deep_Services
  imports Project_Services
begin

text \<open>
  Packages whose collections nest three deep: Service Directory, where a service is in a namespace and an
  endpoint in a service, and Cloud Spanner, where a database is in an instance and a backup schedule in a
  database. The walking lists of both are with the other walks.
\<close>

section \<open>What they share\<close>

text \<open>Path segments, each after a slash.\<close>

definition slashed :: "string list \<Rightarrow> string" where
  "slashed segments = concat (map (\<lambda>s. CHR ''/'' # s) segments)"

lemma Split_slashed: "list_all seg segments \<Longrightarrow> segments \<noteq> [] \<Longrightarrow> Split (tl (slashed segments)) CHR ''/'' = segments"
proof (induction segments)
  case (Cons s rest)
  then show ?case
    by (cases rest) (simp_all add: slashed_def segment)
qed simp

lemma slashed_append [simp]: "slashed (xs @ ys) = slashed xs @ slashed ys" "slashed [] = []" "slashed (x # ys) = CHR ''/'' # x @ slashed ys"
  by (simp_all add: slashed_def)

text \<open>
  What stands between the root and the collection: the grandparent, which a context has as its first custom
  segment, and the parent.
\<close>

definition above :: "string \<Rightarrow> PathContext \<Rightarrow> string list" where
  "above grand ctx =
     (case pc_CustomSegments ctx of [] \<Rightarrow> [] | g # _ \<Rightarrow> if g \<noteq> [] then [grand, g] else [])
     @ (if has_parent ctx then [pc_ParentType ctx, pc_ParentResource ctx] else [])"

definition deep_path :: "(PathContext \<Rightarrow> string list) \<Rightarrow> string \<Rightarrow> PathContext \<Rightarrow> string" where
  "deep_path root grand ctx =
     slashed (root ctx @ above grand ctx @ [pc_ResourceType ctx] @ (if pc_ResourceName ctx \<noteq> [] then [pc_ResourceName ctx] else []))"

definition deep_id :: "(PathContext \<Rightarrow> string list) \<Rightarrow> string \<Rightarrow> PathContext \<Rightarrow> string" where
  "deep_id root grand ctx = tl (slashed (root ctx @ above grand ctx @ [pc_ResourceType ctx, pc_ResourceName ctx]))"

text \<open>Three collections, each inside the one before.\<close>

datatype levels = Levels (outer_of: string) (middle_of: string) (inner_of: string)

definition deep_levels :: "levels \<Rightarrow> PathContext \<Rightarrow> string list \<Rightarrow> PathContext option" where
  "deep_levels l ctx segments =
     (case segments of
        [a, x] \<Rightarrow> if a = outer_of l then Some (ctx\<lparr>pc_ResourceType := a, pc_ResourceName := x\<rparr>) else None
      | [a, x, b, y] \<Rightarrow>
          if a = outer_of l \<and> b = middle_of l
          then Some (ctx\<lparr>pc_ResourceType := b, pc_ResourceName := y, pc_ParentResource := x, pc_ParentType := outer_of l\<rparr>) else None
      | [a, x, b, y, c, z] \<Rightarrow>
          if a = outer_of l \<and> b = middle_of l \<and> c = inner_of l
          then Some (ctx\<lparr>pc_ResourceType := c, pc_ResourceName := z, pc_ParentResource := y, pc_ParentType := middle_of l,
                 pc_CustomSegments := [x]\<rparr>)
          else None
      | _ \<Rightarrow> None)"

definition proper :: "string \<Rightarrow> bool" where
  "proper s \<longleftrightarrow> seg s \<and> s \<noteq> []"

definition deep_ok :: "(PathContext \<Rightarrow> string list) \<Rightarrow> levels \<Rightarrow> PathContext \<Rightarrow> bool" where
  "deep_ok root l ctx \<longleftrightarrow>
     list_all proper (root ctx) \<and> root ctx \<noteq> [] \<and> proper (pc_ResourceName ctx) \<and> \<not> pc_IsList ctx
     \<and> (pc_ResourceType ctx = outer_of l \<and> pc_ParentType ctx = [] \<and> pc_ParentResource ctx = [] \<and> pc_CustomSegments ctx = []
        \<or> pc_ResourceType ctx = middle_of l \<and> pc_ParentType ctx = outer_of l \<and> proper (pc_ParentResource ctx) \<and> pc_CustomSegments ctx = []
        \<or> pc_ResourceType ctx = inner_of l \<and> pc_ParentType ctx = middle_of l \<and> proper (pc_ParentResource ctx)
          \<and> (\<exists>g. proper g \<and> pc_CustomSegments ctx = [g]))"

definition proper_levels :: "levels \<Rightarrow> bool" where
  "proper_levels l \<longleftrightarrow> proper (outer_of l) \<and> proper (middle_of l) \<and> proper (inner_of l)"

lemma deep_ok_cases:
  assumes "deep_ok root l ctx"
  obtains (outermost) "pc_ResourceType ctx = outer_of l" "pc_ParentType ctx = []" "pc_ParentResource ctx = []" "pc_CustomSegments ctx = []"
  | (between) "pc_ResourceType ctx = middle_of l" "pc_ParentType ctx = outer_of l" "proper (pc_ParentResource ctx)" "pc_CustomSegments ctx = []"
  | (innermost) g where "pc_ResourceType ctx = inner_of l" "pc_ParentType ctx = middle_of l" "proper (pc_ParentResource ctx)" "proper g"
      "pc_CustomSegments ctx = [g]"
  using assms unfolding deep_ok_def by (elim conjE disjE exE)

lemma deep_path_id: "deep_ok root l ctx \<Longrightarrow> tl (deep_path root grand ctx) = deep_id root grand ctx"
  by (simp add: deep_ok_def deep_path_def deep_id_def proper_def)

lemma deep_id_segments:
  assumes "deep_ok root l ctx" "proper_levels l" "grand = outer_of l"
  shows "Split (deep_id root grand ctx) CHR ''/'' = root ctx @ above grand ctx @ [pc_ResourceType ctx, pc_ResourceName ctx]"
proof -
  have "list_all seg (above grand ctx @ [pc_ResourceType ctx, pc_ResourceName ctx])"
    using assms(1)
  proof (cases rule: deep_ok_cases)
    case outermost
    then show ?thesis using assms by (simp add: above_def has_parent_def proper_levels_def proper_def deep_ok_def)
  next
    case between
    then show ?thesis using assms by (simp add: above_def has_parent_def proper_levels_def proper_def deep_ok_def)
  next
    case (innermost g)
    then show ?thesis using assms by (simp add: above_def has_parent_def proper_levels_def proper_def deep_ok_def)
  qed
  moreover have "list_all seg (root ctx)" using assms(1) by (simp add: deep_ok_def list_all_iff proper_def)
  ultimately have "list_all seg (root ctx @ above grand ctx @ [pc_ResourceType ctx, pc_ResourceName ctx])"
    by (simp only: list_all_append)
  then show ?thesis unfolding deep_id_def by (rule Split_slashed) simp
qed

lemma deep_levels_back:
  assumes "deep_ok root l ctx" "proper_levels l" "pc_ParentType c0 = []" "pc_ParentResource c0 = []" "pc_CustomSegments c0 = []"
  shows "deep_levels l c0 (above (outer_of l) ctx @ [pc_ResourceType ctx, pc_ResourceName ctx])
    = Some (c0\<lparr>pc_ResourceType := pc_ResourceType ctx, pc_ResourceName := pc_ResourceName ctx, pc_ParentResource := pc_ParentResource ctx,
        pc_ParentType := pc_ParentType ctx, pc_CustomSegments := pc_CustomSegments ctx\<rparr>)"
  using assms(1)
proof (cases rule: deep_ok_cases)
  case outermost
  then show ?thesis using assms(3-5) by (cases c0) (simp add: above_def has_parent_def deep_levels_def)
next
  case between
  then show ?thesis using assms(2-5)
    by (cases c0) (simp add: above_def has_parent_def deep_levels_def proper_levels_def proper_def)
next
  case (innermost g)
  then show ?thesis using assms(2-5)
    by (cases c0) (simp add: above_def has_parent_def deep_levels_def proper_levels_def proper_def)
qed

text \<open>A context with the same place has the same path.\<close>

lemma deep_path_same:
  assumes "root c = root ctx" "pc_ResourceType c = pc_ResourceType ctx" "pc_ResourceName c = pc_ResourceName ctx"
    "pc_ParentType c = pc_ParentType ctx" "pc_ParentResource c = pc_ParentResource ctx" "pc_CustomSegments c = pc_CustomSegments ctx"
  shows "deep_path root grand c = deep_path root grand ctx"
  using assms by (simp add: deep_path_def above_def has_parent_def)

lemma deep_path_collected:
  assumes "deep_ok root l ctx" "root (ctx\<lparr>pc_ResourceName := []\<rparr>) = root ctx"
  shows "deep_path root grand ctx = deep_path root grand (ctx\<lparr>pc_ResourceName := []\<rparr>) @ ''/'' @ pc_ResourceName ctx"
  using assms by (simp add: deep_path_def above_def has_parent_def deep_ok_def proper_def)

section \<open>Service Directory\<close>

definition sd_root :: "PathContext \<Rightarrow> string list" where
  "sd_root ctx = [''projects'', pc_Project ctx, ''locations'', pc_Location ctx]"

definition sd_levels :: levels where "sd_levels = Levels ''namespaces'' ''services'' ''endpoints''"

definition serviceDirectoryPathBuilder :: "PathContext \<Rightarrow> string" where
  "serviceDirectoryPathBuilder = deep_path sd_root ''namespaces''"

definition parseServiceDirectoryNativeID :: "string \<Rightarrow> goerr + PathContext" where
  "parseServiceDirectoryNativeID nativeID =
     (let refused = Inl (ErrText (''invalid service directory native ID: '' @ nativeID))
      in case Split nativeID CHR ''/'' of
           a # project # c # location # rest \<Rightarrow>
             if a \<noteq> ''projects'' \<or> c \<noteq> ''locations'' then refused
             else (case deep_levels sd_levels (empty_ctx\<lparr>pc_Project := project, pc_Location := location\<rparr>) rest of
                     Some ctx \<Rightarrow> Inr ctx | None \<Rightarrow> refused)
         | _ \<Rightarrow> refused)"

definition extractServiceDirectoryNativeID :: "obj \<Rightarrow> PathContext \<Rightarrow> string" where
  "extractServiceDirectoryNativeID response ctx =
     (case name_from_projects response of
        Some n \<Rightarrow> n
      | None \<Rightarrow> if pc_ResourceName ctx = [] then [] else deep_id sd_root ''namespaces'' ctx)"

definition ServiceDirectoryAPI :: APIConfig where
  "ServiceDirectoryAPI = \<lparr>ac_BaseURL = ''https://servicedirectory.googleapis.com/v1'', ac_APIVersion = ''v1'',
     ac_PathBuilder = Some serviceDirectoryPathBuilder, ac_Pagination = Some (paged_by ''pageSize'' [])\<rparr>"

definition ServiceDirectoryOperations :: OperationConfig where
  "ServiceDirectoryOperations = synchronous_operations extractServiceDirectoryNativeID"

definition ServiceDirectoryNativeID :: NativeIDConfig where
  "ServiceDirectoryNativeID = path_native_id (Some parseServiceDirectoryNativeID)"

definition sd_pathParts :: "obj \<Rightarrow> nat \<Rightarrow> string list option" where
  "sd_pathParts props n =
     (let name = string_or_empty (as_string (map_of props ''name'')); parts = Split name CHR ''/''
      in if name = [] \<or> length parts \<noteq> n \<or> parts ! 2 \<noteq> ''locations'' \<or> parts ! 4 \<noteq> ''namespaces'' then None else Some parts)"

definition serviceResponseTransformer :: response_transformer where
  "serviceResponseTransformer props ctx =
     Ok (Some (case sd_pathParts (obj_of props) 8 of
        Some parts \<Rightarrow>
          if parts ! 6 = ''services''
          then AList.update ''name'' (JStr (parts ! 7)) (AList.update ''namespace'' (JStr (parts ! 5)) (obj_of props)) else obj_of props
      | None \<Rightarrow> obj_of props))"

definition endpointResponseTransformer :: response_transformer where
  "endpointResponseTransformer props ctx =
     Ok (Some (case sd_pathParts (obj_of props) 10 of
        Some parts \<Rightarrow>
          if parts ! 6 = ''services'' \<and> parts ! 8 = ''endpoints''
          then AList.update ''name'' (JStr (parts ! 9)) (AList.update ''service'' (JStr (parts ! 7))
                 (AList.update ''namespace'' (JStr (parts ! 5)) (obj_of props)))
          else obj_of props
      | None \<Rightarrow> obj_of props))"

definition required_grandparent :: "string \<Rightarrow> string \<Rightarrow> string \<Rightarrow> string \<Rightarrow> ParentResourceConfig" where
  "required_grandparent parents property grands grandProperty =
     (required_parent parents property)\<lparr>pa_GrandParentType := grands, pa_GrandParentPropertyName := grandProperty\<rparr>"

definition servicedirectory_definitions :: "'w ResourceDefinition list" where
  "servicedirectory_definitions =
     [entry ''GCP::ServiceDirectory::Namespace'' (masked_type ''namespaces'' (Some ScopeLocationBased) ''namespaceId'') None
        (Some (DropFieldsOnUpdate [''name''])) (Some ShortNameResponseTransformer),
      entry ''GCP::ServiceDirectory::Service''
        ((masked_type ''services'' (Some ScopeLocationBased) ''serviceId'')
          \<lparr>rc_ParentResource := Some (required_parent ''namespaces'' ''namespace'')\<rparr>) None
        (Some (dropped [''namespace''])) (Some serviceResponseTransformer),
      entry ''GCP::ServiceDirectory::Endpoint''
        ((masked_type ''endpoints'' (Some ScopeLocationBased) ''endpointId'')
          \<lparr>rc_ParentResource := Some (required_grandparent ''services'' ''service'' ''namespaces'' ''namespace'')\<rparr>) None
        (Some (dropped [''namespace'', ''service''])) (Some endpointResponseTransformer)]"

definition servicedirectory_package :: "'w package" where
  "servicedirectory_package = \<lparr>pk_API = ServiceDirectoryAPI, pk_Operations = ServiceDirectoryOperations,
     pk_NativeID = ServiceDirectoryNativeID, pk_Definitions = servicedirectory_definitions\<rparr>"

definition deep_canon :: "PathContext \<Rightarrow> PathContext" where
  "deep_canon ctx = empty_ctx\<lparr>pc_Project := pc_Project ctx, pc_Location := pc_Location ctx, pc_ResourceType := pc_ResourceType ctx,
     pc_ResourceName := pc_ResourceName ctx, pc_ParentResource := pc_ParentResource ctx, pc_ParentType := pc_ParentType ctx,
     pc_CustomSegments := pc_CustomSegments ctx\<rparr>"

lemma sd_proper: "proper_levels sd_levels" "outer_of sd_levels = ''namespaces''"
  by (simp_all add: proper_levels_def sd_levels_def proper_def seg_def)

lemma parse_sd_id:
  assumes "deep_ok sd_root sd_levels ctx"
  shows "parseServiceDirectoryNativeID (deep_id sd_root ''namespaces'' ctx) = Inr (deep_canon ctx)"
proof -
  let ?c0 = "empty_ctx\<lparr>pc_Project := pc_Project ctx, pc_Location := pc_Location ctx\<rparr>"
  have "deep_levels sd_levels ?c0 (above ''namespaces'' ctx @ [pc_ResourceType ctx, pc_ResourceName ctx]) = Some (deep_canon ctx)"
    using deep_levels_back [OF assms sd_proper(1), of ?c0] by (simp add: sd_proper(2) deep_canon_def empty_ctx_def)
  then show ?thesis
    using deep_id_segments [OF assms sd_proper(1), of "''namespaces''"]
    by (simp add: parseServiceDirectoryNativeID_def sd_root_def sd_proper(2))
qed

lemma sd_id_projects: "from_projects (deep_id sd_root grand ctx) = Some (deep_id sd_root grand ctx)"
  by (simp add: deep_id_def sd_root_def from_projects_def Index_prefix)

interpretation servicedirectory: addressed serviceDirectoryPathBuilder extractServiceDirectoryNativeID
  "ParseNativeID ServiceDirectoryNativeID" True "deep_ok sd_root sd_levels" deep_canon "\<lambda>t. False"
proof
  fix ctx c body assume ok: "deep_ok sd_root sd_levels ctx"
  note id = deep_path_id [OF ok, of "''namespaces''"]
  show "serviceDirectoryPathBuilder ctx = serviceDirectoryPathBuilder (ctx\<lparr>pc_ResourceName := []\<rparr>) @ ''/'' @ pc_ResourceName ctx"
    unfolding serviceDirectoryPathBuilder_def by (rule deep_path_collected [OF ok]) (simp add: sd_root_def)
  show "extractServiceDirectoryNativeID body ctx = tl (serviceDirectoryPathBuilder ctx)"
    if "own_answer True (tl (serviceDirectoryPathBuilder ctx)) body"
    using that ok id
    by (auto simp: serviceDirectoryPathBuilder_def own_answer_def extractServiceDirectoryNativeID_def name_from_projects_def
        sd_id_projects deep_ok_def proper_def)
  show "ParseNativeID ServiceDirectoryNativeID (tl (serviceDirectoryPathBuilder ctx)) = Inr (deep_canon ctx)"
    using parse_sd_id [OF ok] id by (simp add: serviceDirectoryPathBuilder_def ServiceDirectoryNativeID_def)
  show "serviceDirectoryPathBuilder c = serviceDirectoryPathBuilder ctx"
    if "completes False (deep_canon ctx) c" "pc_ResourceType c = pc_ResourceType ctx"
    unfolding serviceDirectoryPathBuilder_def
    by (rule deep_path_same) (use that ok in \<open>auto simp: completes_def deep_canon_def sd_root_def deep_ok_def proper_def\<close>)
  show "pc_ResourceName (deep_canon ctx) = pc_ResourceName ctx \<and> pc_ResourceName ctx \<noteq> []"
    using ok by (simp add: deep_canon_def deep_ok_def proper_def)
qed

section \<open>Cloud Spanner\<close>

definition spanner_root :: "PathContext \<Rightarrow> string list" where
  "spanner_root ctx = [''projects'', pc_Project ctx]"

definition spanner_levels :: levels where "spanner_levels = Levels ''instances'' ''databases'' ''backupSchedules''"

definition spannerPathBuilder :: "PathContext \<Rightarrow> string" where
  "spannerPathBuilder = deep_path spanner_root ''instances''"

definition parseSpannerNativeID :: "string \<Rightarrow> goerr + PathContext" where
  "parseSpannerNativeID nativeID =
     (let refused = Inl (ErrText (''invalid spanner native ID: '' @ nativeID))
      in case Split nativeID CHR ''/'' of
           a # project # kind # name # rest \<Rightarrow>
             if a \<noteq> ''projects'' then refused
             else if kind = ''instanceConfigs''
             then if rest \<noteq> [] then refused
                  else Inr (empty_ctx\<lparr>pc_Project := project, pc_ResourceType := kind, pc_ResourceName := name\<rparr>)
             else (case deep_levels spanner_levels (empty_ctx\<lparr>pc_Project := project\<rparr>) (kind # name # rest) of
                     Some ctx \<Rightarrow> Inr ctx | None \<Rightarrow> refused)
         | _ \<Rightarrow> refused)"

definition spanner_extractOperationName :: "obj \<Rightarrow> string" where
  "spanner_extractOperationName = operation_name"

definition before_operations :: "string \<Rightarrow> string" where
  "before_operations name = (case Index name ''/operations/'' of Some i \<Rightarrow> take i name | None \<Rightarrow> name)"

definition extractSpannerNativeID :: "obj \<Rightarrow> PathContext \<Rightarrow> string" where
  "extractSpannerNativeID response ctx =
     (let name = before_operations (string_or_empty (as_string (map_of response ''name'')))
      in if HasPrefix name ''projects/'' then name
         else if pc_ResourceName ctx = [] then [] else deep_id spanner_root ''instances'' ctx)"

definition spanner_checkOperationStatus :: "obj \<Rightarrow> bool \<times> goerr option" where
  "spanner_checkOperationStatus = operation_status"

definition SpannerAPI :: APIConfig where
  "SpannerAPI = \<lparr>ac_BaseURL = ''https://spanner.googleapis.com/v1'', ac_APIVersion = ''v1'', ac_PathBuilder = Some spannerPathBuilder,
     ac_Pagination = Some (paged_by ''pageSize'' [])\<rparr>"

definition SpannerOperations :: OperationConfig where
  "SpannerOperations = polled_operations spanner_extractOperationName extractSpannerNativeID spanner_checkOperationStatus"

definition SpannerSyncOperations :: OperationConfig where
  "SpannerSyncOperations = synchronous_operations extractSpannerNativeID"

definition SpannerNativeID :: NativeIDConfig where
  "SpannerNativeID = path_native_id (Some parseSpannerNativeID)"

subsection \<open>Instances and their configurations\<close>

definition instanceMutableFields :: "string list" where
  "instanceMutableFields = [''displayName'', ''labels'', ''processingUnits'', ''nodeCount'', ''edition'']"

definition qualifyInstanceConfigPath :: "string \<Rightarrow> string \<Rightarrow> string" where
  "qualifyInstanceConfigPath project name =
     (if name = [] \<or> Contains name ''/'' then name else ''projects/'' @ project @ ''/instanceConfigs/'' @ name)"

definition qualifyInstanceConfig :: "string \<Rightarrow> json \<Rightarrow> json" where
  "qualifyInstanceConfig project = on_text (qualifyInstanceConfigPath project)"

definition qualifyBaseConfig :: "string \<Rightarrow> json \<Rightarrow> json" where
  "qualifyBaseConfig project = on_text (qualifyInstanceConfigPath project)"

definition instance_body :: "string \<Rightarrow> obj \<Rightarrow> obj" where
  "instance_body project props =
     map (\<lambda>(k, v). (k, if k = ''config'' then qualifyInstanceConfig project v else v)) (filter (\<lambda>(k, v). k \<noteq> ''name'') props)"

definition instance_mask :: "obj \<Rightarrow> string list" where
  "instance_mask instance = filter (\<lambda>f. map_of instance f \<noteq> None) instanceMutableFields"

definition spanner_instanceRequestTransformer :: request_transformer where
  "spanner_instanceRequestTransformer props ctx =
     (let name = string_or_empty (as_string (map_of (obj_of props) ''name'')); instance = instance_body (tc_Project ctx) (obj_of props)
      in if tc_Operation ctx \<noteq> OperationUpdate then Ok (Some [(''instanceId'', JStr name), (''instance'', JObj instance)])
         else
           (let patched = AList.update ''name'' (JStr (''projects/'' @ tc_Project ctx @ ''/instances/'' @ name)) instance;
                mask = instance_mask patched
            in if mask = [] then Err (ErrText ''no mutable spanner instance fields to update'')
               else Ok (Some [(''instance'', JObj patched), (''fieldMask'', JStr (Join mask '',''))])))"

definition spanner_instanceResponseTransformer :: response_transformer where
  "spanner_instanceResponseTransformer props ctx =
     Ok (Some (rewrite_string ''config'' after_last_slash (rewrite_string ''name'' after_last_slash (obj_of props))))"

definition instanceConfigUpdateMask :: string where "instanceConfigUpdateMask = ''displayName,labels''"

definition instanceConfigStripFromResponse :: "string list" where
  "instanceConfigStripFromResponse =
     [''optionalReplicas'', ''reconciling'', ''leaderOptions'', ''freeInstanceAvailability'', ''quorumType'', ''storageLimitPerProcessingUnit'']"

definition instanceConfigOutputOnly :: "string list" where
  "instanceConfigOutputOnly =
     [''configType'', ''etag'', ''state'', ''optionalReplicas'', ''reconciling'', ''leaderOptions'', ''freeInstanceAvailability'',
      ''quorumType'', ''storageLimitPerProcessingUnit'']"

definition fields_present :: "string list \<Rightarrow> obj \<Rightarrow> obj" where
  "fields_present ks m = concat (map (\<lambda>k. case map_of m k of Some v \<Rightarrow> [(k, v)] | None \<Rightarrow> []) ks)"

definition instanceConfigRequestTransformer :: request_transformer where
  "instanceConfigRequestTransformer props ctx =
     (let name = string_or_empty (as_string (map_of (obj_of props) ''name'')); fullName = qualifyInstanceConfigPath (tc_Project ctx) name
      in if name = [] then Err (ErrText ''spanner instance config requires a name'')
         else if tc_Operation ctx = OperationUpdate
         then Ok (Some [(''updateMask'', JStr instanceConfigUpdateMask),
                (''instanceConfig'', JObj ((''name'', JStr fullName) # fields_present [''displayName'', ''labels''] (obj_of props)))])
         else Ok (Some [(''instanceConfigId'', JStr name),
                (''instanceConfig'', JObj (AList.update ''name'' (JStr fullName)
                   (map (\<lambda>(k, v). (k, if k = ''baseConfig'' then qualifyBaseConfig (tc_Project ctx) v else v))
                     (filter (\<lambda>(k, v). k \<notin> set instanceConfigOutputOnly) (obj_of props)))))]))"

definition normalizeReplicas :: "json list \<Rightarrow> json list" where
  "normalizeReplicas = map (on_object (filter (\<lambda>(k, v). \<not> (k = ''defaultLeaderLocation'' \<and> v = JBool False))))"

definition instanceConfigResponseTransformer :: response_transformer where
  "instanceConfigResponseTransformer props ctx =
     (let named = rewrite_string ''baseConfig'' after_last_slash (rewrite_string ''name'' after_last_slash (obj_of props));
          out = filter (\<lambda>(k, v). k \<notin> set instanceConfigStripFromResponse) named
      in Ok (Some (case GetArray out ''replicas'' of
           Some replicas \<Rightarrow> AList.update ''replicas'' (JArr (normalizeReplicas replicas)) out
         | None \<Rightarrow> out)))"

text \<open>What an instance is sent as.\<close>

lemma map_of_one_mapped: "map_of (map (\<lambda>(k, v). (k, if k = c then f v else v)) m) = (map_of m)(c := map_option f (map_of m c))"
  by (induction m) (auto simp: fun_eq_iff)

lemma map_of_dropped: "map_of (filter (\<lambda>(k, v). k \<noteq> c) m) = (map_of m)(c := None)"
  using map_of_filter_keys [of "\<lambda>k. k \<noteq> c" m] by (simp add: fun_eq_iff)

lemma instance_body_of:
  "map_of (instance_body project m) = (map_of m)(''name'' := None, ''config'' := map_option (qualifyInstanceConfig project) (map_of m ''config''))"
  unfolding instance_body_def by (simp add: map_of_one_mapped map_of_dropped)

lemma rewrite_string_of: "map_of (rewrite_string k f m) = (map_of m)(k := map_option (on_text f) (map_of m k))"
proof (cases "map_of m k")
  case (Some v)
  then show ?thesis by (cases v) (auto simp: rewrite_string_def update_conv fun_eq_iff)
qed (simp add: rewrite_string_def fun_upd_idem)

lemma after_last_slash_suffix: "seg n \<Longrightarrow> after_last_slash (pre @ CHR ''/'' # n) = n" "seg n \<Longrightarrow> after_last_slash n = n"
  using takeWhile_neq_append [of "CHR ''/''" "rev n" "rev pre"] by (simp_all add: after_last_slash_def seg_def LastIndex_def)

text \<open>A configuration named by its id is sent as a path and read back as the id.\<close>

lemma instance_config_back: "seg v \<Longrightarrow> after_last_slash (qualifyInstanceConfigPath project v) = v"
  using after_last_slash_suffix(1) [of v "''projects/'' @ project @ ''/instanceConfigs''"] after_last_slash_suffix(2) [of v]
  by (simp add: qualifyInstanceConfigPath_def)

lemma instance_reads_back:
  assumes "map_of m ''name'' = Some (JStr n)" "seg n" "\<forall>v. map_of m ''config'' = Some v \<longrightarrow> (\<exists>c. v = JStr c \<and> seg c)"
    and "map_of answer = (map_of (instance_body project m))(''name'' \<mapsto> JStr (''projects/'' @ p @ ''/instances/'' @ n))"
  shows "\<exists>out. spanner_instanceResponseTransformer (Some answer) ctx = Ok (Some out) \<and> map_of out = map_of m"
proof -
  have "map_option (on_text after_last_slash) (map_option (qualifyInstanceConfig project) (map_of m ''config'')) = map_of m ''config''"
    using assms(3) by (cases "map_of m ''config''") (auto simp: qualifyInstanceConfig_def instance_config_back)
  moreover have "on_text after_last_slash (JStr (''projects/'' @ p @ ''/instances/'' @ n)) = JStr n"
    using after_last_slash_suffix(1) [OF assms(2), of "''projects/'' @ p @ ''/instances''"] by simp
  ultimately have "map_of (rewrite_string ''config'' after_last_slash (rewrite_string ''name'' after_last_slash answer)) = map_of m"
    using assms(1) by (simp add: rewrite_string_of assms(4) instance_body_of fun_eq_iff)
  then show ?thesis by (simp add: spanner_instanceResponseTransformer_def obj_of_def)
qed

text \<open>The mask of a patch names the mutable fields that are declared. A field that is no longer declared is not among them, so it stays as it is.\<close>

lemma instance_mask_declared:
  "instance_mask (AList.update ''name'' v (instance_body project m)) = filter (\<lambda>f. map_of m f \<noteq> None) instanceMutableFields"
proof -
  have "list_all (\<lambda>f. f \<noteq> ''name'' \<and> f \<noteq> ''config'') instanceMutableFields" by (simp add: instanceMutableFields_def)
  then show ?thesis unfolding instance_mask_def list_all_iff by (intro filter_cong) (simp_all add: update_conv' instance_body_of)
qed

subsection \<open>Databases and backup schedules\<close>

definition quoted_id :: "string \<Rightarrow> string \<Rightarrow> string" where
  "quoted_id dialect name = (let q = (if dialect = ''POSTGRESQL'' then CHR 0x22 else CHR 0x60) in [q] @ name @ [q])"

definition databaseRequestTransformer :: request_transformer where
  "databaseRequestTransformer props ctx =
     (let said = (\<lambda>k. string_or_empty (as_string (map_of (obj_of props) k))); name = said ''name''
      in if name = [] then Err (ErrText ''spanner database requires a name'')
         else Ok (Some ((''createStatement'', JStr (''CREATE DATABASE '' @ quoted_id (said ''databaseDialect'') name))
                # fields_present [''databaseDialect'', ''encryptionConfig'', ''extraStatements''] (obj_of props))))"

definition spanner_pathParts :: "obj \<Rightarrow> nat \<Rightarrow> string list option" where
  "spanner_pathParts props n =
     (let name = string_or_empty (as_string (map_of props ''name'')); parts = Split name CHR ''/''
      in if name = [] \<or> length parts \<noteq> n \<or> parts ! 0 \<noteq> ''projects'' \<or> parts ! 2 \<noteq> ''instances'' \<or> parts ! 4 \<noteq> ''databases''
         then None else Some parts)"

definition databaseResponseTransformer :: response_transformer where
  "databaseResponseTransformer props ctx =
     Ok (Some (case spanner_pathParts (obj_of props) 6 of
        Some parts \<Rightarrow> AList.update ''name'' (JStr (parts ! 5)) (AList.update ''instance'' (JStr (parts ! 3)) (obj_of props))
      | None \<Rightarrow> obj_of props))"

definition backupScheduleResponseTransformer :: response_transformer where
  "backupScheduleResponseTransformer props ctx =
     Ok (Some (case spanner_pathParts (obj_of props) 8 of
        Some parts \<Rightarrow>
          if parts ! 6 = ''backupSchedules''
          then AList.update ''name'' (JStr (parts ! 7)) (AList.update ''database'' (JStr (parts ! 5))
                 (AList.update ''instance'' (JStr (parts ! 3)) (obj_of props)))
          else obj_of props
      | None \<Rightarrow> obj_of props))"

definition spanner_definitions :: "'w ResourceDefinition list" where
  "spanner_definitions =
     [entry ''GCP::Spanner::Instance''
        (zero_resource\<lparr>rc_ResourceType := ''instances'', rc_Scope := Some ScopeProjectLevel, rc_SupportsUpdate := True,
           rc_UpdateMethod := UpdateMethodPatch\<rparr>) None
        (Some spanner_instanceRequestTransformer) (Some spanner_instanceResponseTransformer),
      entry ''GCP::Spanner::InstanceConfig''
        (zero_resource\<lparr>rc_ResourceType := ''instanceConfigs'', rc_Scope := Some ScopeProjectLevel, rc_SupportsUpdate := True,
           rc_UpdateMethod := UpdateMethodPatch\<rparr>) None
        (Some instanceConfigRequestTransformer) (Some instanceConfigResponseTransformer),
      entry ''GCP::Spanner::Database''
        (zero_resource\<lparr>rc_ResourceType := ''databases'', rc_Scope := Some ScopeProjectLevel,
           rc_ParentResource := Some (required_parent ''instances'' ''instance'')\<rparr>) (Some fixed_operations)
        (Some databaseRequestTransformer) (Some databaseResponseTransformer),
      (entry ''GCP::Spanner::BackupSchedule''
        (zero_resource\<lparr>rc_ResourceType := ''backupSchedules'', rc_Scope := Some ScopeProjectLevel,
           rc_ParentResource := Some (required_grandparent ''databases'' ''database'' ''instances'' ''instance''),
           rc_CreateIDParam := ''backupScheduleId'', rc_SupportsUpdate := True,
           rc_UpdateQueryParams := [(''updateMask'', ''retentionDuration,spec.cronSpec.text'')]\<rparr>) None
        (Some (dropped [''instance'', ''database''])) (Some backupScheduleResponseTransformer))
          \<lparr>rd_OperationConfig := SpannerSyncOperations\<rparr>]"

definition spanner_package :: "'w package" where
  "spanner_package = \<lparr>pk_API = SpannerAPI, pk_Operations = SpannerOperations, pk_NativeID = SpannerNativeID,
     pk_Definitions = spanner_definitions\<rparr>"

subsection \<open>Addressing\<close>

lemma Index_skip: "CHR ''/'' \<notin> set s \<Longrightarrow> Index (s @ t) (CHR ''/'' # m) = map_option ((+) (length s)) (Index t (CHR ''/'' # m))"
  by (induction s; cases "Index t (CHR ''/'' # m)") (auto simp: HasPrefix_def)

lemma Index_segments:
  "list_all seg (s # segments) \<Longrightarrow> m \<notin> set segments \<Longrightarrow> seg m \<Longrightarrow>
     Index (s @ slashed segments @ ''/'' @ m @ ''/'' @ r) (''/'' @ m @ ''/'') = Some (length (s @ slashed segments))"
proof (induction segments arbitrary: s)
  case Nil
  then show ?case using Index_skip [of s "''/'' @ m @ ''/'' @ r" "m @ ''/''"] by (simp add: seg_def Index_prefix HasPrefix_def)
next
  case (Cons t rest)
  let ?tail = "slashed rest @ ''/'' @ m @ ''/'' @ r"
  have "HasPrefix (CHR ''/'' # t @ ?tail) (''/'' @ m @ ''/'') \<Longrightarrow> t = m"
    using Cons.prems by (cases rest) (auto simp: HasPrefix_iff seg_def append_eq_append_conv2 append_eq_Cons_conv Cons_eq_append_conv)
  then have "Index (CHR ''/'' # t @ ?tail) (''/'' @ m @ ''/'') = map_option Suc (Index (t @ ?tail) (''/'' @ m @ ''/''))"
    using Cons.prems by auto
  then show ?case
    using Cons.IH [of t] Cons.prems Index_skip [of s "CHR ''/'' # t @ ?tail" "m @ ''/''"] by (simp add: seg_def)
qed

lemma Index_segments_none:
  "list_all seg (s # segments) \<Longrightarrow> m \<notin> set segments \<Longrightarrow> seg m \<Longrightarrow> Index (s @ slashed segments) (''/'' @ m @ ''/'') = None"
proof (induction segments arbitrary: s)
  case Nil
  then show ?case using Index_skip [of s "[]" "m @ ''/''"] by (simp add: seg_def)
next
  case (Cons t rest)
  have "HasPrefix (CHR ''/'' # t @ slashed rest) (''/'' @ m @ ''/'') \<Longrightarrow> t = m"
    using Cons.prems by (cases rest) (auto simp: HasPrefix_iff seg_def append_eq_append_conv2 append_eq_Cons_conv Cons_eq_append_conv)
  then have "Index (CHR ''/'' # t @ slashed rest) (''/'' @ m @ ''/'') = map_option Suc (Index (t @ slashed rest) (''/'' @ m @ ''/''))"
    using Cons.prems by auto
  then show ?case
    using Cons.IH [of t] Cons.prems Index_skip [of s "CHR ''/'' # t @ slashed rest" "m @ ''/''"] by (simp add: seg_def)
qed

definition config_ok :: "PathContext \<Rightarrow> bool" where
  "config_ok ctx \<longleftrightarrow>
     proper (pc_Project ctx) \<and> proper (pc_ResourceName ctx) \<and> pc_ResourceType ctx = ''instanceConfigs'' \<and> pc_ParentType ctx = []
     \<and> pc_ParentResource ctx = [] \<and> pc_CustomSegments ctx = []"

definition spanner_ok :: "PathContext \<Rightarrow> bool" where
  "spanner_ok ctx \<longleftrightarrow> deep_ok spanner_root spanner_levels ctx \<or> config_ok ctx"

definition spanner_segments :: "PathContext \<Rightarrow> string list" where
  "spanner_segments ctx = [pc_Project ctx] @ above ''instances'' ctx @ [pc_ResourceType ctx, pc_ResourceName ctx]"

lemma spanner_proper: "proper_levels spanner_levels" "outer_of spanner_levels = ''instances''"
  by (simp_all add: proper_levels_def spanner_levels_def proper_def seg_def)

lemma spanner_id: "deep_id spanner_root ''instances'' ctx = ''projects'' @ slashed (spanner_segments ctx)"
  by (simp add: deep_id_def spanner_root_def spanner_segments_def)

lemma spanner_path: "spanner_ok ctx \<Longrightarrow> spannerPathBuilder ctx = ''/'' @ deep_id spanner_root ''instances'' ctx"
  by (auto simp: spanner_ok_def config_ok_def deep_ok_def proper_def spannerPathBuilder_def deep_path_def deep_id_def spanner_root_def)

lemma spanner_id_split:
  assumes "spanner_ok ctx"
  shows "Split (deep_id spanner_root ''instances'' ctx) CHR ''/'' = ''projects'' # spanner_segments ctx"
  using assms unfolding spanner_ok_def
proof
  assume "deep_ok spanner_root spanner_levels ctx"
  then show ?thesis
    using deep_id_segments [OF _ spanner_proper(1), of spanner_root ctx] by (simp add: spanner_proper(2) spanner_root_def spanner_segments_def)
next
  assume c: "config_ok ctx"
  then have "list_all seg (''projects'' # spanner_segments ctx)"
    by (simp add: config_ok_def spanner_segments_def above_def has_parent_def proper_def seg_def)
  from Split_slashed [OF this] show ?thesis by (simp add: spanner_id)
qed

lemma Split_seg_all: "list_all seg (Split s CHR ''/'')"
  using Split_segments unfolding list_all_iff seg_def by blast

lemma before_operations_id:
  assumes "spanner_ok ctx" "''operations'' \<notin> set (spanner_segments ctx)"
  shows "before_operations (deep_id spanner_root ''instances'' ctx) = deep_id spanner_root ''instances'' ctx"
    and "before_operations (deep_id spanner_root ''instances'' ctx @ ''/operations/'' @ op) = deep_id spanner_root ''instances'' ctx"
proof -
  have "list_all seg (''projects'' # spanner_segments ctx)"
    using Split_seg_all [of "deep_id spanner_root ''instances'' ctx"] spanner_id_split [OF assms(1)] by simp
  note segs = this assms(2)
  have "seg ''operations''" by (simp add: seg_def)
  from Index_segments_none [OF segs this] Index_segments [OF segs this, of op]
  show "before_operations (deep_id spanner_root ''instances'' ctx) = deep_id spanner_root ''instances'' ctx"
    "before_operations (deep_id spanner_root ''instances'' ctx @ ''/operations/'' @ op) = deep_id spanner_root ''instances'' ctx"
    by (simp_all add: before_operations_def spanner_id)
qed

lemma parse_spanner_id:
  assumes "spanner_ok ctx"
  shows "parseSpannerNativeID (deep_id spanner_root ''instances'' ctx) = Inr (deep_canon (ctx\<lparr>pc_Location := []\<rparr>))"
  using assms unfolding spanner_ok_def
proof
  assume c: "config_ok ctx"
  then have "spanner_segments ctx = [pc_Project ctx, ''instanceConfigs'', pc_ResourceName ctx]"
    by (simp add: config_ok_def spanner_segments_def above_def has_parent_def)
  then show ?thesis using c by (simp add: parseSpannerNativeID_def spanner_id_split [OF assms] config_ok_def deep_canon_def empty_ctx_def)
next
  assume d: "deep_ok spanner_root spanner_levels ctx"
  let ?c0 = "empty_ctx\<lparr>pc_Project := pc_Project ctx\<rparr>"
  obtain kind name rest where s: "above ''instances'' ctx @ [pc_ResourceType ctx, pc_ResourceName ctx] = kind # name # rest"
    by (cases "above ''instances'' ctx @ [pc_ResourceType ctx, pc_ResourceName ctx]" rule: remdups_adj.cases) simp_all
  have l: "deep_levels spanner_levels ?c0 (kind # name # rest) = Some (deep_canon (ctx\<lparr>pc_Location := []\<rparr>))"
    using deep_levels_back [OF d spanner_proper(1), of ?c0] by (simp add: spanner_proper(2) s deep_canon_def empty_ctx_def)
  have "kind = outer_of spanner_levels" using d
    by (rule deep_ok_cases) (use s in \<open>simp_all add: above_def has_parent_def spanner_proper(2) proper_def\<close>)
  then have "kind \<noteq> ''instanceConfigs''" by (simp add: spanner_proper(2))
  then show ?thesis using l by (simp add: parseSpannerNativeID_def spanner_id_split [OF assms] spanner_segments_def s)
qed

text \<open>The answer to a create: nothing of a name, the resource, or an operation, which Spanner hangs below the resource.\<close>

definition spanner_answer :: "string \<Rightarrow> obj \<Rightarrow> bool" where
  "spanner_answer full body \<longleftrightarrow>
     (case as_string (map_of body ''name'') of None \<Rightarrow> True | Some n \<Rightarrow> n = full \<or> (\<exists>op. n = full @ ''/operations/'' @ op))"

text \<open>
  The name of an answer is cut at the first segment called operations, which need not be the one the API
  appended: a database in an instance of that name is recorded under an identifier no parser accepts.
\<close>

definition demo_operations_database :: PathContext where
  "demo_operations_database = empty_ctx\<lparr>pc_Project := ''p'', pc_ResourceType := ''databases'', pc_ResourceName := ''d'',
     pc_ParentResource := ''operations'', pc_ParentType := ''instances''\<rparr>"

lemma spanner_operations_lost:
  "spanner_ok demo_operations_database"
  "extractSpannerNativeID [(''name'', JStr ''projects/p/instances/operations/databases/d/operations/o'')] demo_operations_database
     = ''projects/p/instances''"
  "parseSpannerNativeID ''projects/p/instances'' = Inl (ErrText ''invalid spanner native ID: projects/p/instances'')"
  by (simp_all add: demo_operations_database_def spanner_ok_def deep_ok_def spanner_root_def spanner_levels_def proper_def seg_def
      empty_ctx_def extractSpannerNativeID_def before_operations_def string_or_empty_def parseSpannerNativeID_def Let_def)

text \<open>
  C19: A resource of Cloud Spanner, an instance, a configuration, a database or a backup schedule, is found
  where it was created, provided that no segment of its path is called operations. Whether the API answers the
  creation with the resource, with an operation below it or without any name, the native ID recorded is the
  path of the resource, and it is read back as a context with the same path. A resource in or called
  operations is lost, as \<^term>\<open>demo_operations_database\<close> shows.
\<close>
theorem spanner_created_found:
  assumes "spanner_ok ctx" and "''operations'' \<notin> set (spanner_segments ctx)" and "spanner_answer (tl (spannerPathBuilder ctx)) body"
  shows "\<exists>c. parseSpannerNativeID (extractSpannerNativeID body ctx) = Inr c \<and> spannerPathBuilder c = spannerPathBuilder ctx
    \<and> ''/'' @ extractSpannerNativeID body ctx = spannerPathBuilder ctx"
proof -
  let ?id = "deep_id spanner_root ''instances'' ctx"
  have p: "HasPrefix ?id ''projects/''" by (simp add: spanner_id spanner_segments_def HasPrefix_def)
  have n: "\<not> HasPrefix (before_operations []) ''projects/''" by (simp add: before_operations_def HasPrefix_def)
  have "pc_ResourceName ctx \<noteq> []" using assms(1) by (auto simp: spanner_ok_def deep_ok_def config_ok_def proper_def)
  then have e: "extractSpannerNativeID body ctx = ?id"
    using assms(3) p before_operations_id [OF assms(1,2)] n
    by (auto simp: spanner_answer_def spanner_path [OF assms(1)] extractSpannerNativeID_def Let_def string_or_empty_def split: option.splits)
  moreover have "spannerPathBuilder (deep_canon (ctx\<lparr>pc_Location := []\<rparr>)) = spannerPathBuilder ctx"
    unfolding spannerPathBuilder_def by (rule deep_path_same) (simp_all add: deep_canon_def spanner_root_def)
  ultimately show ?thesis using parse_spanner_id [OF assms(1)] spanner_path [OF assms(1)] by simp
qed

definition demo_schedule :: PathContext where
  "demo_schedule = empty_ctx\<lparr>pc_Project := ''p'', pc_ResourceType := ''backupSchedules'', pc_ResourceName := ''b'',
     pc_ParentResource := ''d'', pc_ParentType := ''databases'', pc_CustomSegments := [''i'']\<rparr>"

theorem spanner_created_found_witness:
  "\<exists>c. parseSpannerNativeID (extractSpannerNativeID [(''name'', JStr ''projects/p/instances/i/databases/d/backupSchedules/b/operations/o'')]
       demo_schedule) = Inr c \<and> spannerPathBuilder c = ''/projects/p/instances/i/databases/d/backupSchedules/b''"
proof -
  have path: "spannerPathBuilder demo_schedule = ''/projects/p/instances/i/databases/d/backupSchedules/b''"
    by (simp add: demo_schedule_def spannerPathBuilder_def deep_path_def spanner_root_def above_def has_parent_def empty_ctx_def)
  have "spanner_ok demo_schedule"
    by (simp add: demo_schedule_def spanner_ok_def deep_ok_def spanner_root_def spanner_levels_def proper_def seg_def empty_ctx_def)
  moreover have "''operations'' \<notin> set (spanner_segments demo_schedule)"
    by (simp add: demo_schedule_def spanner_segments_def above_def has_parent_def empty_ctx_def)
  moreover have "spanner_answer (tl (spannerPathBuilder demo_schedule))
      [(''name'', JStr ''projects/p/instances/i/databases/d/backupSchedules/b/operations/o'')]"
    by (simp add: path spanner_answer_def)
  ultimately have "\<exists>c. parseSpannerNativeID (extractSpannerNativeID
        [(''name'', JStr ''projects/p/instances/i/databases/d/backupSchedules/b/operations/o'')] demo_schedule) = Inr c
      \<and> spannerPathBuilder c = spannerPathBuilder demo_schedule"
    using spanner_created_found by blast
  then show ?thesis by (simp add: path)
qed

end
