(* ===== verification/Fleet.thy ===== *)
theory Fleet
  imports Deep_Services
begin

text \<open>
  The fleet of GKE (\<^verbatim>\<open>gkehub\<close>): memberships and features, with a Create of their own that sends the id as a
  query parameter and keeps features at the global location, and a Status that reads what was created.
\<close>

section \<open>Configuration\<close>

definition gkehubPathBuilder :: "PathContext \<Rightarrow> string" where
  "gkehubPathBuilder ctx =
     (let location = (if pc_ResourceType ctx = ''features'' \<and> pc_IsList ctx \<or> pc_Location ctx = [] then ''global'' else pc_Location ctx)
      in ''/projects/'' @ pc_Project ctx @ ''/locations/'' @ location @ ''/'' @ pc_ResourceType ctx
         @ (if pc_ResourceName ctx \<noteq> [] then ''/'' @ pc_ResourceName ctx else []))"

definition hub_extractOperationID :: "obj \<Rightarrow> string" where
  "hub_extractOperationID response = string_or_empty (as_string (map_of response ''name''))"

definition hub_buildOperationURL :: "PathContext \<Rightarrow> string \<Rightarrow> string" where
  "hub_buildOperationURL ctx operationID = operationID"

definition hub_extractPathFromURL :: "string \<Rightarrow> string" where
  "hub_extractPathFromURL url =
     (case Index url ''/projects/'' of
        None \<Rightarrow> if HasPrefix url ''projects/'' then url else []
      | Some idx \<Rightarrow> drop (idx + 1) url)"

definition hub_extractNativeID :: "obj \<Rightarrow> PathContext \<Rightarrow> string" where
  "hub_extractNativeID response ctx =
     (case (case as_obj (map_of response ''response'') of Some f \<Rightarrow> as_string (map_of f ''name'') | None \<Rightarrow> None) of
        Some name \<Rightarrow> hub_extractPathFromURL name
      | None \<Rightarrow>
          (let target = (case target_of_operation response of Some t \<Rightarrow> hub_extractPathFromURL t | None \<Rightarrow> [])
           in case as_string (map_of response ''name'') of
                None \<Rightarrow> target
              | Some name \<Rightarrow>
                  if \<not> Contains name ''/operations/'' then hub_extractPathFromURL name
                  else if pc_ResourceName ctx \<noteq> []
                  then location_path (pc_Project ctx) (or_global (pc_Location ctx)) (pc_ResourceType ctx) @ ''/'' @ pc_ResourceName ctx
                  else target))"

text \<open>The loop takes the segments two by two; a last one that stands alone is not looked at.\<close>

fun hub_segments :: "string list \<Rightarrow> PathContext \<Rightarrow> PathContext" where
  "hub_segments (a # b # rest) ctx =
     hub_segments rest
       (if a = ''projects'' then ctx\<lparr>pc_Project := b\<rparr>
        else if a = ''locations'' then ctx\<lparr>pc_Location := b\<rparr>
        else ctx\<lparr>pc_ResourceType := a, pc_ResourceName := b\<rparr>)"
| "hub_segments _ ctx = ctx"

definition hub_parseNativeID :: "string \<Rightarrow> goerr + PathContext" where
  "hub_parseNativeID nativeID =
     (let parts = Split nativeID CHR ''/''
      in if length parts < 6 then Inl (ErrText (''invalid gke hub native ID: '' @ nativeID)) else Inr (hub_segments parts empty_ctx))"

definition hub_checkOperationStatus :: "obj \<Rightarrow> bool \<times> goerr option" where
  "hub_checkOperationStatus op =
     (if as_bool (map_of op ''done'') \<noteq> Some True then (False, None)
      else case as_obj (map_of op ''error'') of
        None \<Rightarrow> (True, None)
      | Some e \<Rightarrow>
          (case as_string (map_of e ''message'') of
             Some message \<Rightarrow> (True, Some (ErrText (''operation failed: '' @ message)))
           | None \<Rightarrow> (True, Some (ErrText ''operation failed with unknown error''))))"

definition GKEHubAPI :: APIConfig where
  "GKEHubAPI = \<lparr>ac_BaseURL = ''https://gkehub.googleapis.com/v1'', ac_APIVersion = ''v1'', ac_PathBuilder = Some gkehubPathBuilder,
     ac_Pagination = Some (paged_by ''pageSize'' [])\<rparr>"

definition GKEHubOperations :: OperationConfig where
  "GKEHubOperations =
     \<lparr>oc_Synchronous = False, oc_OperationIDExtractor = Some hub_extractOperationID, oc_OperationURLBuilder = Some hub_buildOperationURL,
      oc_NativeIDExtractor = Some hub_extractNativeID, oc_OperationStatusChecker = Some hub_checkOperationStatus, oc_RetryableError = None\<rparr>"

definition GKEHubNativeID :: NativeIDConfig where
  "GKEHubNativeID = \<lparr>ni_Format = FullPathFormat, ni_PathTemplate = ''projects/{project}/locations/{location}/memberships/{name}'',
     ni_Parser = Some hub_parseNativeID\<rparr>"

section \<open>Bodies\<close>

definition said_field :: "string \<Rightarrow> obj \<Rightarrow> obj" where
  "said_field k m = (if GetString m k \<noteq> [] then [(k, JStr (GetString m k))] else [])"

definition object_field :: "string \<Rightarrow> obj \<Rightarrow> obj" where
  "object_field k m = (case as_obj (map_of m k) of Some v \<Rightarrow> [(k, JObj v)] | None \<Rightarrow> [])"

definition nonempty_field :: "string \<Rightarrow> obj \<Rightarrow> obj" where
  "nonempty_field k m = (if m \<noteq> [] then [(k, JObj m)] else [])"

definition membershipBodyBuilder :: "obj \<Rightarrow> obj" where
  "membershipBodyBuilder props =
     said_field ''description'' props @ object_field ''labels'' props
     @ (case GetObject props ''endpoint'' of
          None \<Rightarrow> []
        | Some endpoint \<Rightarrow> nonempty_field ''endpoint''
            (case GetObject endpoint ''gkeCluster'' of
               None \<Rightarrow> []
             | Some cluster \<Rightarrow> nonempty_field ''gkeCluster'' (said_field ''resourceLink'' cluster)))
     @ (case GetObject props ''authority'' of
          None \<Rightarrow> []
        | Some authority \<Rightarrow> nonempty_field ''authority'' (said_field ''issuer'' authority))"

definition featureBodyBuilder :: "obj \<Rightarrow> obj" where
  "featureBodyBuilder props =
     object_field ''labels'' props @ object_field ''membershipSpecs'' props @ object_field ''fleetDefaultMemberConfig'' props"

definition membershipResponseTransformer :: "obj \<Rightarrow> obj" where
  "membershipResponseTransformer apiResponse = rewrite_string ''name'' ExtractLastSegment apiResponse"

definition featureResponseTransformer :: "obj \<Rightarrow> obj" where
  "featureResponseTransformer apiResponse = rewrite_string ''name'' ExtractLastSegment apiResponse"

definition wrapMembershipBodyBuilder :: request_transformer where
  "wrapMembershipBodyBuilder props ctx = Ok (Some (membershipBodyBuilder (obj_of props)))"

definition wrapMembershipResponseTransformer :: response_transformer where
  "wrapMembershipResponseTransformer apiResponse ctx = Ok (Some (membershipResponseTransformer (obj_of apiResponse)))"

definition wrapFeatureBodyBuilder :: request_transformer where
  "wrapFeatureBodyBuilder props ctx = Ok (Some (featureBodyBuilder (obj_of props)))"

definition wrapFeatureResponseTransformer :: response_transformer where
  "wrapFeatureResponseTransformer apiResponse ctx = Ok (Some (featureResponseTransformer (obj_of apiResponse)))"

definition hub_type :: "string \<Rightarrow> 'w ResourceConfig" where
  "hub_type collection = zero_resource\<lparr>rc_ResourceType := collection, rc_Scope := Some ScopeLocationBased, rc_SupportsUpdate := True,
     rc_ListItemsKey := ''resources''\<rparr>"

definition gkehub_definitions :: "'w ResourceDefinition list" where
  "gkehub_definitions =
     [entry ''GCP::GKEHub::Membership'' (hub_type ''memberships'') None (Some wrapMembershipBodyBuilder) (Some wrapMembershipResponseTransformer),
      entry ''GCP::GKEHub::Feature'' (hub_type ''features'') None (Some wrapFeatureBodyBuilder) (Some wrapFeatureResponseTransformer)]"

definition gkehub_package :: "'w package" where
  "gkehub_package = \<lparr>pk_API = GKEHubAPI, pk_Operations = GKEHubOperations, pk_NativeID = GKEHubNativeID, pk_Definitions = gkehub_definitions\<rparr>"

text \<open>\<^verbatim>\<open>NewGKEHubProvisioner\<close>: the entry of the table with the package's configurations.\<close>

definition hub_resource :: "Config option \<Rightarrow> 'w ResourceDefinition \<Rightarrow> 'w BaseResource" where
  "hub_resource cfg d =
     \<lparr>b_Config = cfg, b_APIConfig = GKEHubAPI, b_OperationConfig = GKEHubOperations, b_ResourceConfig = rd_ResourceConfig d,
      b_NativeIDConfig = GKEHubNativeID, b_RequestTransformer = rd_RequestTransformer d, b_ResponseTransformer = rd_ResponseTransformer d\<rparr>"

section \<open>Create and Status\<close>

definition hub_context :: "'w BaseResource \<Rightarrow> raw \<Rightarrow> string \<Rightarrow> PathContext" where
  "hub_context b target name =
     (let cfg = FromTargetConfig target (Deps (b_Config b)); kind = rc_ResourceType (b_ResourceConfig b)
      in empty_ctx\<lparr>pc_Project := c_Project cfg,
           pc_Location := (if kind = ''features'' then ''global'' else or_global (c_Location cfg)),
           pc_ResourceType := kind, pc_ResourceName := name\<rparr>)"

definition hub_transform_context :: "PathContext \<Rightarrow> TransformContext" where
  "hub_transform_context ctx =
     \<lparr>tc_Project = pc_Project ctx, tc_Region = [], tc_Zone = [], tc_Location = pc_Location ctx, tc_ResourceType = pc_ResourceType ctx,
      tc_Operation = OperationCreate, tc_ParentResource = [], tc_ParentType = []\<rparr>"

definition hub_id_param :: "string \<Rightarrow> string" where
  "hub_id_param kind = (if kind = ''features'' then ''featureId'' else ''membershipId'')"

definition hub_created :: "'w BaseResource \<Rightarrow> PathContext \<Rightarrow> goerr + Response \<Rightarrow> (goerr, ProgressResult) outcome" where
  "hub_created b ctx answer =
     (case answer of
        Inl e \<Rightarrow>
          (let te = wrap_err e ''failed to create membership''
           in Ok (createFailureResult (ToResourceErrorCode (te_Code te)) (te_Message te)))
      | Inr response \<Rightarrow>
          bind_outcome (call_native_id b (rs_Body response) ctx) (\<lambda>nativeID.
          bind_outcome (call_operation_id b (rs_Body response)) (\<lambda>operationID.
          bind_outcome (call_operation_url b ctx operationID) (\<lambda>requestID.
            Ok ((progress OperationCreate OperationStatusInProgress)
                  \<lparr>pr_NativeID := nativeID, pr_RequestID := requestID,
                   pr_Message := rc_ResourceType (b_ResourceConfig b) @ '' creation in progress''\<rparr>)))))"

definition send_hub :: "'w env \<Rightarrow> 'w BaseResource \<Rightarrow> Client \<Rightarrow> PathContext \<Rightarrow> obj option \<Rightarrow> ('w, ProgressResult) op" where
  "send_hub E b client ctx body s =
     (case CollectionURL (NewURLBuilder (b_APIConfig b) ctx) of
        Panic p \<Rightarrow> (Panic p, s)
      | Err e \<Rightarrow> (Err e, s)
      | Ok collection \<Rightarrow>
          (case AddQueryParams collection [(hub_id_param (rc_ResourceType (b_ResourceConfig b)), pc_ResourceName ctx)] of
             Inl e \<Rightarrow> (Ok (createFailureResult InvalidRequest (''failed to build URL: '' @ err_text e)), s)
           | Inr url \<Rightarrow>
               (case SendRequest E client (request_options ''POST'' url body) s of (answer, s1) \<Rightarrow> (hub_created b ctx answer, s1))))"

definition Hub_Create :: "'w env \<Rightarrow> 'w BaseResource \<Rightarrow> CreateRequest \<Rightarrow> ('w, ProgressResult) op" where
  "Hub_Create E b request s =
     (case NewClient E (b_Config b) s of
        (Inl e, s1) \<Rightarrow> (Err (client_error e), s1)
      | (Inr client, s1) \<Rightarrow>
          (case unmarshal_map (cr_Properties request) of
             Inl e \<Rightarrow> (Ok (createFailureResult InvalidRequest (''failed to parse properties: '' @ e)), s1)
           | Inr props \<Rightarrow>
               (let name = GetString (obj_of props) ''name''; ctx = hub_context b (cr_TargetConfig request) name
                in if name = [] then (Ok (createFailureResult InvalidRequest ''resource name is required''), s1)
                   else case (case b_RequestTransformer b of None \<Rightarrow> Ok props | Some t \<Rightarrow> t props (hub_transform_context ctx)) of
                     Panic p \<Rightarrow> (Panic p, s1)
                   | Err e \<Rightarrow> (Ok (createFailureResult InvalidRequest (''failed to transform request: '' @ err_text e)), s1)
                   | Ok body \<Rightarrow> send_hub E b client ctx body s1)))"

definition Hub_Status :: "'w env \<Rightarrow> 'w BaseResource \<Rightarrow> StatusRequest \<Rightarrow> ('w, ProgressResult) op" where
  "Hub_Status E b request s =
     (case Status E b request s of
        (Ok r, s1) \<Rightarrow>
          if pr_Status r \<noteq> OperationStatusSuccess \<or> pr_NativeID r = [] then (Ok r, s1)
          else (case Read E b (status_read_request request (pr_NativeID r)) s1 of
                  (Panic p, s2) \<Rightarrow> (Panic p, s2)
                | (Err e, s2) \<Rightarrow> (Ok r, s2)
                | (Ok rr, s2) \<Rightarrow>
                    (Ok (if rr_Properties rr \<noteq> None \<and> rr_ErrorCode rr = NoErrorCode then r\<lparr>pr_Properties := rr_Properties rr\<rparr> else r), s2))
      | (Err e, s1) \<Rightarrow> (Err e, s1)
      | (Panic p, s1) \<Rightarrow> (Panic p, s1))"

section \<open>What is created is found\<close>

text \<open>The answer to a create: an operation, or the resource itself; a finished operation carries the resource.\<close>

definition hub_answer :: "string \<Rightarrow> obj \<Rightarrow> bool" where
  "hub_answer full body \<longleftrightarrow>
     (\<exists>n. as_string (map_of body ''name'') = Some n \<and> (n = full \<or> Contains n ''/operations/''))
     \<and> (case as_obj (map_of body ''response'') of Some f \<Rightarrow> as_string (map_of f ''name'') \<in> {None, Some full} | None \<Rightarrow> True)"

lemma extractPath_full: "location_ok ctx \<Longrightarrow> Index (full_name ctx) ''/projects/'' = None \<Longrightarrow> hub_extractPathFromURL (full_name ctx) = full_name ctx"
  by (simp add: hub_extractPathFromURL_def)

lemma full_name_no_projects:
  assumes "location_ok ctx" "''projects'' \<notin> {pc_Project ctx, pc_Location ctx, pc_ResourceType ctx, pc_ResourceName ctx}"
  shows "Index (full_name ctx) ''/projects/'' = None"
  using assms Index_segments_none [of "''projects''" "[pc_Project ctx, ''locations'', pc_Location ctx, pc_ResourceType ctx, pc_ResourceName ctx]" "''projects''"]
  by (simp add: full_name_parts location_ok_def seg_def)

lemma hub_extracted:
  assumes "location_ok ctx" "''projects'' \<notin> {pc_Project ctx, pc_Location ctx, pc_ResourceType ctx, pc_ResourceName ctx}"
    and "hub_answer (full_name ctx) body"
  shows "hub_extractNativeID body ctx = full_name ctx"
  using assms(3) extractPath_full [OF assms(1) full_name_no_projects [OF assms(1,2)]] assms(1)
  by (auto simp: hub_answer_def hub_extractNativeID_def location_ok_def or_global_def full_name_def Let_def split: option.splits)

lemma hub_parsed: "location_ok ctx \<Longrightarrow> hub_parseNativeID (full_name ctx) = Inr (located ctx)"
  using full_name_segments [of ctx]
  by (simp add: hub_parseNativeID_def Let_def located_def location_ok_def path_keywords_def empty_ctx_def)

lemma hub_path: "\<not> pc_IsList c \<Longrightarrow> pc_Location c \<noteq> [] \<Longrightarrow> gkehubPathBuilder c = LocationPathBuilder c"
  by (simp add: gkehubPathBuilder_def LocationPathBuilder_def location_path_def)

lemma hub_resource_sel:
  "b_Config (hub_resource cfg d) = cfg" "b_APIConfig (hub_resource cfg d) = GKEHubAPI" "b_OperationConfig (hub_resource cfg d) = GKEHubOperations"
  "b_NativeIDConfig (hub_resource cfg d) = GKEHubNativeID" "b_ResourceConfig (hub_resource cfg d) = rd_ResourceConfig d"
  "b_RequestTransformer (hub_resource cfg d) = rd_RequestTransformer d"
  by (simp_all add: hub_resource_def)

lemma hub_entries:
  assumes "d \<in> set gkehub_definitions"
  shows "rc_ResourceType (rd_ResourceConfig d) \<in> {''memberships'', ''features''}" "rc_Scope (rd_ResourceConfig d) = Some ScopeLocationBased"
    "\<exists>t. rd_RequestTransformer d = Some t \<and> (\<forall>props ctx. \<exists>body. t props ctx = Ok (Some body))"
  using assms by (auto simp: gkehub_definitions_def hub_type_def zero_resource_def wrapMembershipBodyBuilder_def wrapFeatureBodyBuilder_def)

lemma hub_found:
  assumes "d \<in> set gkehub_definitions" and "b = hub_resource cfg d" and "location_ok ctx" "pc_ResourceType ctx = rc_ResourceType (rd_ResourceConfig d)"
  shows "resource_url b (resource_context b target (located ctx)) = Ok (ac_BaseURL GKEHubAPI @ ''/'' @ full_name ctx)"
proof -
  let ?c = "fillPathContextFromTarget b target (located ctx)"
  have "completes False (located ctx) ?c"
    using hub_entries(2) [OF assms(1)] by (intro fill_completes) (simp add: assms(2) global_scope_def hub_resource_sel)
  then have "pc_Project ?c = pc_Project ctx" "pc_Location ?c = pc_Location ctx" "pc_ResourceName ?c = pc_ResourceName ctx" "\<not> pc_IsList ?c"
    using assms(3) by (auto simp: completes_def located_def location_ok_def empty_ctx_def)
  then show ?thesis
    using assms(3) by (simp add: resource_url_def resource_context_def assms(2,4) hub_resource_sel GKEHubAPI_def ResourceURL_def NewURLBuilder_def
        build_url_def gkehubPathBuilder_def full_name_def location_path_def location_ok_def)
qed

text \<open>How far a create got that does not fail: a client, a declared name, and the transformed body on its way.\<close>

lemma hub_create_sends:
  assumes "d \<in> set gkehub_definitions" and "b = hub_resource cfg d" and "Hub_Create (logged E) b request s = (Ok r, s')"
    and "pr_Status r \<noteq> OperationStatusFailure"
  obtains client s1 m body where "NewClient (logged E) cfg s = (Inr client, s1)" "unmarshal_map (cr_Properties request) = Inr m"
    "GetString (obj_of m) ''name'' \<noteq> []"
    "send_hub (logged E) b client (hub_context b (cr_TargetConfig request) (GetString (obj_of m) ''name'')) (Some body) s1 = (Ok r, s')"
proof -
  note sel = hub_resource_sel assms(2)
  obtain client s1 where c: "NewClient (logged E) cfg s = (Inr client, s1)"
    using assms(3) by (auto simp: Hub_Create_def sel split: prod.splits sum.splits)
  then obtain m where m: "unmarshal_map (cr_Properties request) = Inr m"
    using assms(3,4) by (auto simp: Hub_Create_def sel createFailureResult_def split: sum.splits)
  define ctx where "ctx = hub_context b (cr_TargetConfig request) (GetString (obj_of m) ''name'')"
  obtain t body where t: "rd_RequestTransformer d = Some t" "t m (hub_transform_context ctx) = Ok (Some body)"
    using hub_entries(3) [OF assms(1)] by blast
  have name: "pc_ResourceName ctx = GetString (obj_of m) ''name''" by (simp add: ctx_def hub_context_def Let_def)
  have "pc_ResourceName ctx \<noteq> []" "send_hub (logged E) b client ctx (Some body) s1 = (Ok r, s')"
    using assms(3,4) c m t name
    by (auto simp: Hub_Create_def sel createFailureResult_def Let_def ctx_def [unfolded assms(2)] split: if_splits)
  then show thesis using that c m name ctx_def by simp
qed

text \<open>
  C20: What the fleet creates is found again, and a feature is global wherever the target points. A create that
  does not fail sent exactly one POST to the collection of the project, with the declared name as the id of the
  query, and the native ID it reports is taken from what the API answered to this request. If that answer is an
  operation or the resource under its full name, and the parts of the path are single segments other than the
  words projects, locations and operations, then the native ID is the full path of the resource, at the global location for
  a feature, and leads Read, Update and Delete to it from any target.
\<close>
theorem fleet_created_found:
  assumes "d \<in> set gkehub_definitions" and "b = hub_resource cfg d" and "Hub_Create (logged E) b request s = (Ok r, s')"
    and "pr_Status r \<noteq> OperationStatusFailure"
  shows "\<exists>m ctx client s1 url body req response.
    unmarshal_map (cr_Properties request) = Inr m \<and> ctx = hub_context b (cr_TargetConfig request) (GetString (obj_of m) ''name'')
    \<and> pc_ResourceName ctx \<noteq> [] \<and> (pc_ResourceType ctx = ''features'' \<longrightarrow> pc_Location ctx = ''global'')
    \<and> sent s' = sent s @ [req] \<and> hq_Method req = ''POST''
    \<and> AddQueryParams (ac_BaseURL GKEHubAPI @ ''/'' @ location_path (pc_Project ctx) (pc_Location ctx) (pc_ResourceType ctx))
        [(hub_id_param (pc_ResourceType ctx), pc_ResourceName ctx)] = Inr url
    \<and> AddQueryParam url ''alt'' ''json'' = Inr (hq_URL req)
    \<and> NewClient (logged E) cfg s = (Inr client, s1)
    \<and> SendRequest (logged E) client (request_options ''POST'' url (Some body)) s1 = (Inr response, s')
    \<and> pr_NativeID r = hub_extractNativeID (obj_of (rs_Body response)) ctx
    \<and> (location_ok ctx \<longrightarrow> ''projects'' \<notin> {pc_Project ctx, pc_Location ctx, pc_ResourceType ctx, pc_ResourceName ctx}
        \<longrightarrow> hub_answer (full_name ctx) (obj_of (rs_Body response))
        \<longrightarrow> pr_NativeID r = full_name ctx \<and> ParseNativeID (b_NativeIDConfig b) (pr_NativeID r) = Inr (located ctx)
          \<and> (\<forall>target. resource_url b (resource_context b target (located ctx)) = Ok (ac_BaseURL GKEHubAPI @ ''/'' @ pr_NativeID r)))"
proof -
  note sel = hub_resource_sel assms(2)
  obtain client s1 m body where c: "NewClient (logged E) cfg s = (Inr client, s1)" and m: "unmarshal_map (cr_Properties request) = Inr m"
      and name: "GetString (obj_of m) ''name'' \<noteq> []"
      and run: "send_hub (logged E) b client (hub_context b (cr_TargetConfig request) (GetString (obj_of m) ''name'')) (Some body) s1 = (Ok r, s')"
    by (rule hub_create_sends [OF assms])
  define ctx where "ctx = hub_context b (cr_TargetConfig request) (GetString (obj_of m) ''name'')"
  note run = run [folded ctx_def]
  have n: "pc_ResourceName ctx \<noteq> []" and kind: "pc_ResourceType ctx = rc_ResourceType (rd_ResourceConfig d)"
      and list: "\<not> pc_IsList ctx" and loc: "pc_Location ctx \<noteq> []" "pc_ResourceType ctx = ''features'' \<longrightarrow> pc_Location ctx = ''global''"
    using name by (simp_all add: ctx_def hub_context_def Let_def empty_ctx_def sel or_global_def)
  have url0: "CollectionURL (NewURLBuilder (b_APIConfig b) ctx)
      = Ok (ac_BaseURL GKEHubAPI @ ''/'' @ location_path (pc_Project ctx) (pc_Location ctx) (pc_ResourceType ctx))"
    using list loc(1) by (simp add: CollectionURL_def NewURLBuilder_def build_url_def sel GKEHubAPI_def gkehubPathBuilder_def location_path_def)
  then obtain url where url: "AddQueryParams (ac_BaseURL GKEHubAPI @ ''/'' @ location_path (pc_Project ctx) (pc_Location ctx) (pc_ResourceType ctx))
        [(hub_id_param (pc_ResourceType ctx), pc_ResourceName ctx)] = Inr url"
    using run assms(4) kind by (auto simp: send_hub_def sel createFailureResult_def split: sum.splits)
  then obtain answer where send: "SendRequest (logged E) client (request_options ''POST'' url (Some body)) s1 = (answer, s')"
      and fin: "hub_created b ctx answer = Ok r"
    using run url0 kind by (auto simp: send_hub_def sel split: prod.splits)
  then obtain response where response: "answer = Inr response"
    using assms(4) by (auto simp: hub_created_def createFailureResult_def Let_def split: sum.splits)
  have id: "pr_NativeID r = hub_extractNativeID (obj_of (rs_Body response)) ctx"
    using fin by (auto simp: response hub_created_def bind_outcome_eq_Ok call_native_id_def sel GKEHubOperations_def)
  obtain req where req: "sends client (request_options ''POST'' url (Some body)) req" "sent s' = sent s1 @ [req]"
    using SendRequest_logged [OF send] response by auto
  then have q: "hq_Method req = ''POST''" "AddQueryParam url ''alt'' ''json'' = Inr (hq_URL req)" "sent s' = sent s @ [req]"
    using NewClient_sent [OF c] by (auto simp: sends_def)
  have found: "pr_NativeID r = full_name ctx \<and> ParseNativeID (b_NativeIDConfig b) (pr_NativeID r) = Inr (located ctx)
      \<and> (\<forall>target. resource_url b (resource_context b target (located ctx)) = Ok (ac_BaseURL GKEHubAPI @ ''/'' @ pr_NativeID r))"
    if "location_ok ctx" "''projects'' \<notin> {pc_Project ctx, pc_Location ctx, pc_ResourceType ctx, pc_ResourceName ctx}"
      "hub_answer (full_name ctx) (obj_of (rs_Body response))"
    using hub_extracted [OF that] hub_parsed [OF that(1)] hub_found [OF assms(1,2) that(1) kind] id
    by (simp add: sel GKEHubNativeID_def ParseNativeID_def)
  show ?thesis
    by (intro exI [of _ m] exI [of _ ctx] exI [of _ client] exI [of _ s1] exI [of _ url] exI [of _ body] exI [of _ req]
        exI [of _ response] conjI)
      (rule m, rule ctx_def, rule n, rule loc(2), rule q(3), rule q(1), rule url, rule q(2), rule c, rule send [unfolded response],
       rule id, intro impI, rule found)
qed

definition demo_feature :: CreateRequest where
  "demo_feature = \<lparr>cr_ResourceType = ''GCP::GKEHub::Feature'',
     cr_TargetConfig = RawDoc (JObj [(''Project'', JStr ''p''), (''Location'', JStr ''eu'')]),
     cr_Properties = RawDoc (JObj [(''name'', JStr ''mesh'')])\<rparr>"

definition demo_hub :: "demo_world BaseResource" where
  "demo_hub = hub_resource demo_cfg (gkehub_definitions ! 1)"

definition demo_operation :: obj where
  "demo_operation = [(''name'', JStr ''projects/p/locations/global/operations/o'')]"

lemma demo_hub_sel:
  "b_Config demo_hub = demo_cfg" "b_APIConfig demo_hub = GKEHubAPI" "b_OperationConfig demo_hub = GKEHubOperations"
  "rc_ResourceType (b_ResourceConfig demo_hub) = ''features''" "b_RequestTransformer demo_hub = Some wrapFeatureBodyBuilder"
  by (simp_all add: demo_hub_def hub_resource_sel gkehub_definitions_def hub_type_def zero_resource_def)

lemma demo_hub_context:
  "hub_context demo_hub (cr_TargetConfig demo_feature) ''mesh''
     = empty_ctx\<lparr>pc_Project := ''p'', pc_Location := ''global'', pc_ResourceType := ''features'', pc_ResourceName := ''mesh''\<rparr>"
proof -
  have "c_Project (FromTargetConfig (cr_TargetConfig demo_feature) (Deps demo_cfg)) = ''p''"
    by (simp add: demo_feature_def FromTargetConfig_def, code_simp)
  then show ?thesis by (simp add: hub_context_def Let_def demo_hub_sel)
qed

lemma demo_hub_run:
  "\<exists>r s'. Hub_Create (logged script_env) demo_hub demo_feature (script_at [scripted 200 (JObj demo_operation)] []) = (Ok r, s')
     \<and> pr_Status r = OperationStatusInProgress \<and> pr_NativeID r = ''projects/p/locations/global/features/mesh''"
proof -
  let ?ctx = "empty_ctx\<lparr>pc_Project := ''p'', pc_Location := ''global'', pc_ResourceType := ''features'', pc_ResourceName := ''mesh''\<rparr>"
  let ?s = "script_at [scripted 200 (JObj demo_operation)] []"
  let ?url = "''https://gkehub.googleapis.com/v1/projects/p/locations/global/features?featureId=mesh''"
  have url: "CollectionURL (NewURLBuilder GKEHubAPI ?ctx) = Ok ''https://gkehub.googleapis.com/v1/projects/p/locations/global/features''"
    by (simp add: CollectionURL_def NewURLBuilder_def build_url_def GKEHubAPI_def gkehubPathBuilder_def empty_ctx_def)
  have query: "AddQueryParams ''https://gkehub.googleapis.com/v1/projects/p/locations/global/features'' [(''featureId'', ''mesh'')] = Inr ?url"
    by code_simp
  have "Parse ?url \<noteq> None" by code_simp
  then obtain req where send: "SendRequest (logged script_env) demo_client (request_options ''POST'' ?url (Some [])) ?s
      = (Inr \<lparr>rs_StatusCode = 200, rs_Body = Some demo_operation, rs_Headers = []\<rparr>, script_at [] [req])"
    using script_send [OF _ methods_ok(2), of ?url "Some []" demo_operation "[]" "[]"] by auto
  have fin: "hub_created demo_hub ?ctx (Inr \<lparr>rs_StatusCode = 200, rs_Body = Some demo_operation, rs_Headers = []\<rparr>)
      = Ok ((progress OperationCreate OperationStatusInProgress)\<lparr>pr_NativeID := ''projects/p/locations/global/features/mesh'',
          pr_RequestID := ''projects/p/locations/global/operations/o'', pr_Message := ''features creation in progress''\<rparr>)"
    by (simp add: hub_created_def call_native_id_def call_operation_id_def call_operation_url_def demo_hub_sel GKEHubOperations_def
        hub_extractNativeID_def hub_extractOperationID_def hub_buildOperationURL_def demo_operation_def obj_of_def Contains_def HasPrefix_def
        or_global_def location_path_def string_or_empty_def target_of_operation_def empty_ctx_def Let_def)
  have "send_hub (logged script_env) demo_hub demo_client ?ctx (Some []) ?s
      = (hub_created demo_hub ?ctx (Inr \<lparr>rs_StatusCode = 200, rs_Body = Some demo_operation, rs_Headers = []\<rparr>), script_at [] [req])"
    using url query send by (simp add: send_hub_def demo_hub_sel hub_id_param_def)
  then show ?thesis
    using fin demo_hub_context
    by (simp add: Hub_Create_def demo_hub_sel demo_NewClient demo_feature_def GetString_def obj_of_def wrapFeatureBodyBuilder_def
        featureBodyBuilder_def object_field_def Let_def)
qed

theorem fleet_created_found_witness:
  "\<exists>r s' req. Hub_Create (logged script_env) demo_hub demo_feature (script_at [scripted 200 (JObj demo_operation)] []) = (Ok r, s')
     \<and> pr_NativeID r = ''projects/p/locations/global/features/mesh''
     \<and> sent s' = sent (script_at [scripted 200 (JObj demo_operation)] []) @ [req] \<and> hq_Method req = ''POST''"
proof -
  obtain r s' where r: "Hub_Create (logged script_env) demo_hub demo_feature (script_at [scripted 200 (JObj demo_operation)] []) = (Ok r, s')"
      "pr_Status r = OperationStatusInProgress" and id: "pr_NativeID r = ''projects/p/locations/global/features/mesh''"
    using demo_hub_run by blast
  have mem: "gkehub_definitions ! 1 \<in> set (gkehub_definitions :: demo_world ResourceDefinition list)" by (simp add: gkehub_definitions_def)
  have ok: "pr_Status r \<noteq> OperationStatusFailure" using r(2) by simp
  from fleet_created_found [OF mem demo_hub_def r(1) ok] obtain req where
      "sent s' = sent (script_at [scripted 200 (JObj demo_operation)] []) @ [req]" "hq_Method req = ''POST''" by blast
  then show ?thesis using r(1) id by blast
qed

end
