(* ===== verification/Wildcard_Services.thy ===== *)
theory Wildcard_Services
  imports Parented_Services
begin

text \<open>
  The packages whose discovery asks across every parent or location by a wildcard, which only a listing
  may do: Private CA (\<^verbatim>\<open>certificateauthority\<close>), Datastream, AlloyDB and Eventarc. A certificate authority has a
  Delete and a Read of its own, and a trigger a Create of its own.
\<close>

section \<open>Addresses that differ on a listing only\<close>

text \<open>The contract carries over to functions that agree on the contexts in question.\<close>

lemma addressed_agree:
  assumes base: "addressed path extr parse sync ok canon global"
    and "\<And>ctx. ok' ctx \<Longrightarrow> ok ctx"
    and "\<And>ctx. ok' ctx \<Longrightarrow> path' ctx = path ctx \<and> path' (ctx\<lparr>pc_ResourceName := []\<rparr>) = path (ctx\<lparr>pc_ResourceName := []\<rparr>)"
    and "\<And>ctx c. ok' ctx \<Longrightarrow> completes (global (pc_ResourceType ctx)) (canon ctx) c \<Longrightarrow> pc_ResourceType c = pc_ResourceType ctx
        \<Longrightarrow> path' c = path c"
    and "\<And>ctx body. ok' ctx \<Longrightarrow> own_answer sync (tl (path ctx)) body \<Longrightarrow> extr' body ctx = tl (path ctx)"
    and "\<And>ctx. ok' ctx \<Longrightarrow> parse' (tl (path ctx)) = Inr (canon ctx)"
  shows "addressed path' extr' parse' sync ok' canon global"
proof
  fix ctx c body assume ok': "ok' ctx"
  then have ok: "ok ctx" by (rule assms(2))
  show "path' ctx = path' (ctx\<lparr>pc_ResourceName := []\<rparr>) @ ''/'' @ pc_ResourceName ctx"
    using assms(3) [OF ok'] addressed.collected [OF base ok] by simp
  show "parse' (tl (path' ctx)) = Inr (canon ctx)" using assms(3) [OF ok'] assms(6) [OF ok'] by simp
  show "pc_ResourceName (canon ctx) = pc_ResourceName ctx \<and> pc_ResourceName ctx \<noteq> []" by (rule addressed.named [OF base ok])
  show "extr' body ctx = tl (path' ctx)" if "own_answer sync (tl (path' ctx)) body"
    using that assms(3) [OF ok'] assms(5) [OF ok'] by simp
  show "path' c = path' ctx" if c: "completes (global (pc_ResourceType ctx)) (canon ctx) c" "pc_ResourceType c = pc_ResourceType ctx"
    using assms(3) [OF ok'] assms(4) [OF ok' c] addressed.kept [OF base ok c] by simp
qed

interpretation plain_nested: nested_addressed pc_Location "\<lambda>t. []" "nested_name pc_Location" "parse_nested []" sync "\<lambda>t. False" for sync
  by unfold_locales (auto simp: nested_name_id parse_nested_id)

lemma nested_id_tl: "nested_ok loc wild ctx \<Longrightarrow> tl (nested_path loc wild ctx) = nested_id loc ctx"
  by (simp add: nested_path_id)

lemma nested_ok_off_list: "nested_ok loc wild ctx \<Longrightarrow> \<not> pc_IsList ctx" "nested_ok loc wild ctx \<Longrightarrow> pc_ResourceName ctx \<noteq> []"
  by (simp_all add: nested_ok_def)

lemma completes_off_list: "completes g (nested_canon loc ctx) c \<Longrightarrow> \<not> pc_IsList c" "completes g (located ctx) c \<Longrightarrow> \<not> pc_IsList c"
  by (simp_all add: completes_def nested_canon_def located_def empty_ctx_def)

section \<open>Private CA\<close>

definition parsePrivateCANativeID :: "string \<Rightarrow> goerr + PathContext" where
  "parsePrivateCANativeID = parse_counted ''privateca''"

definition nestedInPool :: "string \<Rightarrow> bool" where
  "nestedInPool collection \<longleftrightarrow> collection = ''certificateAuthorities''"

definition certificateAuthorityPathBuilder :: "PathContext \<Rightarrow> string" where
  "certificateAuthorityPathBuilder ctx =
     nested_path pc_Location (\<lambda>t. if pc_IsList ctx \<and> nestedInPool t then ''caPools'' else []) ctx"

definition ca_extractOperationName :: "obj \<Rightarrow> string" where
  "ca_extractOperationName = operation_name"

definition extractCaPoolNativeID :: "obj \<Rightarrow> PathContext \<Rightarrow> string" where
  "extractCaPoolNativeID = nested_name pc_Location"

definition ca_checkOperationStatus :: "obj \<Rightarrow> bool \<times> goerr option" where
  "ca_checkOperationStatus = CheckLROStatus"

definition CertificateAuthorityAPI :: APIConfig where
  "CertificateAuthorityAPI = \<lparr>ac_BaseURL = ''https://privateca.googleapis.com/v1'', ac_APIVersion = ''v1'',
     ac_PathBuilder = Some certificateAuthorityPathBuilder, ac_Pagination = Some (paged_by ''pageSize'' [])\<rparr>"

definition CertificateAuthorityOperations :: OperationConfig where
  "CertificateAuthorityOperations = polled_operations ca_extractOperationName extractCaPoolNativeID ca_checkOperationStatus"

definition CertificateAuthorityNativeID :: NativeIDConfig where
  "CertificateAuthorityNativeID = path_native_id (Some parsePrivateCANativeID)"

definition dropCAPathFields :: request_transformer where
  "dropCAPathFields props ctx = Ok (Some (filter (\<lambda>(k, v). k \<notin> {''location'', ''caPool''}) (obj_of props)))"

definition ca_locationResponseTransformer :: "string \<Rightarrow> response_transformer" where
  "ca_locationResponseTransformer collection props ctx = Ok (Some (located_from_name collection (obj_of props)))"

definition caResponseTransformer :: response_transformer where
  "caResponseTransformer props ctx =
     Ok (Some (parented_from_name (\<lambda>p. p ! 2 = ''locations'' \<and> p ! 6 = ''certificateAuthorities'') ''caPool'' (obj_of props)))"

definition ca_definitions :: "'w ResourceDefinition list" where
  "ca_definitions =
     [entry ''GCP::CertificateAuthority::CaPool'' (located_type ''caPools'' ''caPoolId'') (Some fixed_operations)
        None (Some ShortNameResponseTransformer),
      entry ''GCP::CertificateAuthority::CertificateAuthority''
        ((located_type ''certificateAuthorities'' ''certificateAuthorityId'')
           \<lparr>rc_ParentResource := Some (required_parent ''caPools'' ''caPool'')\<rparr>)
        (Some fixed_operations) (Some dropCAPathFields) (Some caResponseTransformer),
      entry ''GCP::CertificateAuthority::CertificateTemplate'' (located_type ''certificateTemplates'' ''certificateTemplateId'')
        (Some fixed_operations) (Some dropCAPathFields) (Some (ca_locationResponseTransformer ''certificateTemplates''))]"

definition ca_package :: "'w package" where
  "ca_package = \<lparr>pk_API = CertificateAuthorityAPI, pk_Operations = CertificateAuthorityOperations,
     pk_NativeID = CertificateAuthorityNativeID, pk_Definitions = ca_definitions\<rparr>"

interpretation privateca: addressed certificateAuthorityPathBuilder extractCaPoolNativeID "ParseNativeID CertificateAuthorityNativeID"
  sync "nested_ok pc_Location (\<lambda>t. [])" "nested_canon pc_Location" "\<lambda>t. False" for sync
  by (rule addressed_agree [OF plain_nested.is_addressed])
    (auto simp: certificateAuthorityPathBuilder_def nested_ok_off_list nested_id_tl extractCaPoolNativeID_def nested_name_id
      CertificateAuthorityNativeID_def parsePrivateCANativeID_def parse_counted_id dest: completes_off_list)

text \<open>\<^verbatim>\<open>ca_delete.go\<close>: a plain DELETE leaves the authority behind for thirty days.\<close>

definition caDeleteParams :: "(string \<times> string) list" where
  "caDeleteParams =
     [(''skipGracePeriod'', ''true''), (''ignoreActiveCertificates'', ''true''), (''ignoreDependentResources'', ''true'')]"

definition deleteProgress :: "string \<Rightarrow> OperationStatus \<Rightarrow> string \<Rightarrow> string \<Rightarrow> ProgressResult" where
  "deleteProgress nativeID status message requestID =
     (progress OperationDelete status)\<lparr>pr_NativeID := nativeID, pr_RequestID := requestID, pr_Message := message\<rparr>"

definition ca_deleted :: "'w BaseResource \<Rightarrow> string \<Rightarrow> PathContext \<Rightarrow> goerr + Response \<Rightarrow> (goerr, ProgressResult) outcome" where
  "ca_deleted b nativeID ctx answer =
     (case answer of
        Inl e \<Rightarrow>
          (let te = wrap_err e ''failed to delete certificate authority''; code = ToResourceErrorCode (te_Code te)
           in Ok (if code = NotFound then deleteProgress nativeID OperationStatusSuccess ''certificateAuthorities already deleted'' []
                  else deleteFailureResult nativeID code (te_Message te)))
      | Inr response \<Rightarrow>
          bind_outcome (call_operation_id b (rs_Body response)) (\<lambda>operationID.
            if operationID = [] then Ok (deleteProgress nativeID OperationStatusSuccess ''Resource deleted successfully'' [])
            else bind_outcome (call_operation_url b ctx operationID) (\<lambda>requestID.
              Ok (deleteProgress nativeID OperationStatusInProgress ''certificateAuthorities deletion in progress'' requestID))))"

definition CA_Delete :: "'w env \<Rightarrow> 'w BaseResource \<Rightarrow> DeleteRequest \<Rightarrow> ('w, ProgressResult) op" where
  "CA_Delete E b request s =
     (case NewClient E (b_Config b) s of
        (Inl e, s1) \<Rightarrow> (Err (client_error e), s1)
      | (Inr client, s1) \<Rightarrow>
          (let nativeID = dl_NativeID request
           in case ParseNativeID (b_NativeIDConfig b) nativeID of
                Inl e \<Rightarrow> (Ok (deleteFailureResult nativeID InvalidRequest (''invalid native ID: '' @ err_text e)), s1)
              | Inr ctx \<Rightarrow>
                  (case AddQueryParams (ac_BaseURL (b_APIConfig b) @ ''/'' @ nativeID) caDeleteParams of
                     Inl e \<Rightarrow> (Ok (deleteFailureResult nativeID InvalidRequest (''failed to build URL: '' @ err_text e)), s1)
                   | Inr url \<Rightarrow>
                       (case SendRequest E client (request_options ''DELETE'' url None) s1 of
                          (answer, s2) \<Rightarrow> (ca_deleted b nativeID ctx answer, s2)))))"

definition isDeletedTombstone :: "obj \<Rightarrow> bool" where
  "isDeletedTombstone props \<longleftrightarrow> as_string (map_of props ''state'') = Some ''DELETED''"

definition without_tombstone :: "ReadResult \<Rightarrow> ReadResult" where
  "without_tombstone r =
     (case rr_Properties r of
        None \<Rightarrow> r
      | Some doc \<Rightarrow>
          (case unmarshal_map doc of
             Inl e \<Rightarrow> r
           | Inr props \<Rightarrow> if isDeletedTombstone (obj_of props) then read_error NotFound else r))"

definition CA_Read :: "'w env \<Rightarrow> 'w BaseResource \<Rightarrow> ReadRequest \<Rightarrow> ('w, ReadResult) op" where
  "CA_Read E b request s =
     (case Read E b request s of
        (Ok r, s1) \<Rightarrow> (Ok (without_tombstone r), s1)
      | (Err e, s1) \<Rightarrow> (Err e, s1)
      | (Panic p, s1) \<Rightarrow> (Panic p, s1))"

text \<open>What Delete leaves behind is gone to Read: a tombstone is not found, anything else is what the API says.\<close>

lemma ca_read_tombstone:
  assumes "Read E b request s = (Ok r, s')" and "rr_Properties r = Some (RawDoc (JObj m))"
  shows "CA_Read E b request s = (Ok (if as_string (map_of m ''state'') = Some ''DELETED'' then read_error NotFound else r), s')"
  using assms by (simp add: CA_Read_def without_tombstone_def isDeletedTombstone_def obj_of_def)

text \<open>A deletion in progress was asked for by one DELETE of the authority itself, with everything that makes it go now.\<close>

lemma ca_delete_request:
  assumes "CA_Delete (logged E) b request s = (Ok p, s')" and "pr_Status p = OperationStatusInProgress"
  shows "\<exists>url req. AddQueryParams (ac_BaseURL (b_APIConfig b) @ ''/'' @ dl_NativeID request) caDeleteParams = Inr url
    \<and> sent s' = sent s @ [req] \<and> hq_Method req = ''DELETE'' \<and> AddQueryParam url ''alt'' ''json'' = Inr (hq_URL req)
    \<and> pr_NativeID p = dl_NativeID request"
proof -
  obtain client s1 where c: "NewClient (logged E) (b_Config b) s = (Inr client, s1)"
    using assms by (auto simp: CA_Delete_def split: prod.splits sum.splits)
  then obtain ctx where ctx: "ParseNativeID (b_NativeIDConfig b) (dl_NativeID request) = Inr ctx"
    using assms by (auto simp: CA_Delete_def deleteFailureResult_def Let_def split: sum.splits)
  then obtain url where url: "AddQueryParams (ac_BaseURL (b_APIConfig b) @ ''/'' @ dl_NativeID request) caDeleteParams = Inr url"
    using assms c by (auto simp: CA_Delete_def deleteFailureResult_def Let_def split: sum.splits)
  obtain answer where send: "SendRequest (logged E) client (request_options ''DELETE'' url None) s1 = (answer, s')"
      and fin: "ca_deleted b (dl_NativeID request) ctx answer = Ok p"
    using assms(1) c ctx url by (auto simp: CA_Delete_def Let_def split: prod.splits)
  have ok: "\<exists>response. answer = Inr response" and id: "pr_NativeID p = dl_NativeID request"
    using fin assms(2)
    by (auto simp: ca_deleted_def deleteProgress_def deleteFailureResult_def Let_def bind_outcome_eq_Ok split: sum.splits if_splits)
  obtain req where req: "sends client (request_options ''DELETE'' url None) req" "sent s' = sent s1 @ [req]"
    using SendRequest_logged [OF send] ok by auto
  have "hq_Method req = ''DELETE'' \<and> AddQueryParam url ''alt'' ''json'' = Inr (hq_URL req)" using req(1) by (auto simp: sends_def)
  then show ?thesis using url id req(2) NewClient_sent [OF c] by (intro exI [of _ url] exI [of _ req]) simp
qed

section \<open>Datastream\<close>

definition parseDatastreamNativeID :: "string \<Rightarrow> goerr + PathContext" where
  "parseDatastreamNativeID = parse_counted ''Datastream''"

definition forceOnCreate :: "string \<Rightarrow> bool" where
  "forceOnCreate collection \<longleftrightarrow> collection \<in> {''streams'', ''connectionProfiles''}"

definition nestedInPrivateConnection :: "string \<Rightarrow> bool" where
  "nestedInPrivateConnection collection \<longleftrightarrow> collection = ''routes''"

definition datastreamPathBuilder :: "PathContext \<Rightarrow> string" where
  "datastreamPathBuilder ctx =
     nested_path pc_Location (\<lambda>t. if pc_IsList ctx \<and> nestedInPrivateConnection t then ''privateConnections'' else []) ctx
       @ (if pc_ResourceName ctx = [] \<and> \<not> pc_IsList ctx \<and> forceOnCreate (pc_ResourceType ctx) then ''?force=true'' else [])"

definition datastream_extractOperationName :: "obj \<Rightarrow> string" where
  "datastream_extractOperationName = operation_name"

definition extractDatastreamNativeID :: "obj \<Rightarrow> PathContext \<Rightarrow> string" where
  "extractDatastreamNativeID = nested_name pc_Location"

definition datastream_checkOperationStatus :: "obj \<Rightarrow> bool \<times> goerr option" where
  "datastream_checkOperationStatus = CheckLROStatus"

definition DatastreamAPI :: APIConfig where
  "DatastreamAPI = \<lparr>ac_BaseURL = ''https://datastream.googleapis.com/v1'', ac_APIVersion = ''v1'',
     ac_PathBuilder = Some datastreamPathBuilder, ac_Pagination = Some (paged_by ''pageSize'' [])\<rparr>"

definition DatastreamOperations :: OperationConfig where
  "DatastreamOperations =
     polled_operations datastream_extractOperationName extractDatastreamNativeID datastream_checkOperationStatus"

definition DatastreamNativeID :: NativeIDConfig where
  "DatastreamNativeID = path_native_id (Some parseDatastreamNativeID)"

definition dropDatastreamPathFields :: request_transformer where
  "dropDatastreamPathFields props ctx = Ok (Some (filter (\<lambda>(k, v). k \<noteq> ''privateConnection'') (obj_of props)))"

definition expandProfile :: "string \<Rightarrow> string \<Rightarrow> TransformContext \<Rightarrow> obj \<Rightarrow> obj" where
  "expandProfile configKey field ctx =
     rewrite_field configKey (on_object (rewrite_string field (expand_short (tc_Project ctx) (tc_Location ctx) ''connectionProfiles'')))"

definition shortenProfile :: "string \<Rightarrow> string \<Rightarrow> obj \<Rightarrow> obj" where
  "shortenProfile configKey field = rewrite_field configKey (on_object (rewrite_string field (after_last ''/connectionProfiles/'')))"

definition streamRequest :: request_transformer where
  "streamRequest props ctx =
     bind_outcome (dropDatastreamPathFields props ctx) (\<lambda>body. Ok (map_option (\<lambda>m.
       expandProfile ''destinationConfig'' ''destinationConnectionProfile'' ctx
         (expandProfile ''sourceConfig'' ''sourceConnectionProfile'' ctx m)) body))"

definition streamResponse :: response_transformer where
  "streamResponse props ctx =
     bind_outcome (ShortNameResponseTransformer props ctx) (\<lambda>out. Ok (map_option (\<lambda>m.
       shortenProfile ''destinationConfig'' ''destinationConnectionProfile''
         (shortenProfile ''sourceConfig'' ''sourceConnectionProfile'' m)) out))"

text \<open>The private connection, read off the full name before this is shortened.\<close>

definition routeResponse :: response_transformer where
  "routeResponse props ctx =
     bind_outcome (ShortNameResponseTransformer props ctx) (\<lambda>out.
       case Split (string_or_empty (as_string (map_of (obj_of props) ''name''))) CHR ''/'' of
         [a, b, c, d, e, connection, g, h] \<Rightarrow>
           if e = ''privateConnections'' \<and> g = ''routes'' then assign out ''privateConnection'' (JStr connection) else Ok out
       | _ \<Rightarrow> Ok out)"

definition datastream_definitions :: "'w ResourceDefinition list" where
  "datastream_definitions =
     [entry ''GCP::Datastream::ConnectionProfile'' (located_type ''connectionProfiles'' ''connectionProfileId'') (Some fixed_operations)
        None (Some ShortNameResponseTransformer),
      entry ''GCP::Datastream::Stream'' (located_type ''streams'' ''streamId'') (Some fixed_operations)
        (Some streamRequest) (Some streamResponse),
      entry ''GCP::Datastream::PrivateConnection'' (located_type ''privateConnections'' ''privateConnectionId'') (Some fixed_operations)
        (Some dropDatastreamPathFields) (Some ShortNameResponseTransformer),
      entry ''GCP::Datastream::Route''
        ((located_type ''routes'' ''routeId'')\<lparr>rc_ParentResource := Some (required_parent ''privateConnections'' ''privateConnection'')\<rparr>)
        (Some fixed_operations) (Some dropDatastreamPathFields) (Some routeResponse)]"

definition datastream_package :: "'w package" where
  "datastream_package = \<lparr>pk_API = DatastreamAPI, pk_Operations = DatastreamOperations, pk_NativeID = DatastreamNativeID,
     pk_Definitions = datastream_definitions\<rparr>"

interpretation datastream: addressed datastreamPathBuilder extractDatastreamNativeID "ParseNativeID DatastreamNativeID"
  sync "\<lambda>ctx. nested_ok pc_Location (\<lambda>t. []) ctx \<and> \<not> forceOnCreate (pc_ResourceType ctx)" "nested_canon pc_Location" "\<lambda>t. False" for sync
  by (rule addressed_agree [OF plain_nested.is_addressed])
    (auto simp: datastreamPathBuilder_def nested_ok_off_list nested_id_tl extractDatastreamNativeID_def nested_name_id
      DatastreamNativeID_def parseDatastreamNativeID_def parse_counted_id dest: completes_off_list)

text \<open>Only a create of the two types that would be validated asks to skip it; a listing or a read never does.\<close>

lemma datastream_forced:
  "nested_ok pc_Location (\<lambda>t. []) ctx \<Longrightarrow>
     datastreamPathBuilder ctx = ''/'' @ nested_id pc_Location ctx
     \<and> datastreamPathBuilder (ctx\<lparr>pc_ResourceName := []\<rparr>) =
         nested_path pc_Location (\<lambda>t. []) (ctx\<lparr>pc_ResourceName := []\<rparr>) @ (if forceOnCreate (pc_ResourceType ctx) then ''?force=true'' else [])"
  by (simp add: datastreamPathBuilder_def nested_path_id nested_ok_off_list)

lemma stream_profiles_back:
  "seg v \<Longrightarrow> v \<noteq> [] \<Longrightarrow> after_last ''/connectionProfiles/'' (expand_short project location ''connectionProfiles'' v) = v"
  using reference_back [of v "''connectionProfiles''"] by (simp add: seg_def)

end
