(* ===== verification/Regional_Services.thy ===== *)
theory Regional_Services
  imports Wildcard_Services
begin

text \<open>
  AlloyDB and Eventarc: packages at a location whose listing asks across clusters or across locations.
  A trigger of Eventarc has a Create of its own, because its id is wanted in two places.
\<close>

section \<open>AlloyDB\<close>

definition alloyDBPathBuilder :: "PathContext \<Rightarrow> string" where
  "alloyDBPathBuilder ctx =
     (let wild = (pc_ParentResource ctx = [] \<and> pc_IsList ctx \<and> pc_ResourceType ctx = ''instances'');
          parent = (if wild then ''-'' else pc_ParentResource ctx); parentType = (if wild then ''clusters'' else pc_ParentType ctx)
      in ''/projects/'' @ pc_Project ctx @ ''/locations/'' @ pc_Location ctx
         @ (if parentType \<noteq> [] \<and> parent \<noteq> [] then ''/'' @ parentType @ ''/'' @ parent else [])
         @ ''/'' @ pc_ResourceType ctx @ (if pc_ResourceName ctx \<noteq> [] then ''/'' @ pc_ResourceName ctx else []))"

definition parse_cluster_scoped :: "string \<Rightarrow> string \<Rightarrow> goerr + PathContext" where
  "parse_cluster_scoped resourceType nativeID =
     (let refused = Inl (ErrText (''invalid AlloyDB '' @ resourceType @ '' native ID: '' @ nativeID))
      in case Split nativeID CHR ''/'' of
           [a, project, c, location, parents, cluster, kind, name] \<Rightarrow>
             if a \<noteq> ''projects'' \<or> c \<noteq> ''locations'' \<or> parents \<noteq> ''clusters'' \<or> kind \<noteq> resourceType then refused
             else Inr (empty_ctx\<lparr>pc_Project := project, pc_Location := location, pc_ResourceType := kind, pc_ResourceName := name,
                    pc_ParentResource := cluster, pc_ParentType := ''clusters''\<rparr>)
         | _ \<Rightarrow> refused)"

definition ClusterScopedNativeID :: "string \<Rightarrow> NativeIDConfig" where
  "ClusterScopedNativeID resourceType = path_native_id (Some (parse_cluster_scoped resourceType))"

definition AlloyDBNativeID :: NativeIDConfig where
  "AlloyDBNativeID = path_native_id None"

definition AlloyDBInstanceNativeID :: NativeIDConfig where
  "AlloyDBInstanceNativeID = ClusterScopedNativeID ''instances''"

definition AlloyDBUserNativeID :: NativeIDConfig where
  "AlloyDBUserNativeID = ClusterScopedNativeID ''users''"

definition cluster_scoped_path :: "PathContext \<Rightarrow> string \<Rightarrow> string" where
  "cluster_scoped_path ctx kind =
     ''projects/'' @ pc_Project ctx @ ''/locations/'' @ pc_Location ctx @ ''/clusters/'' @ pc_ParentResource ctx @ ''/'' @ kind @ ''/''
       @ pc_ResourceName ctx"

definition extractUserNativeID :: "obj \<Rightarrow> PathContext \<Rightarrow> string" where
  "extractUserNativeID response ctx =
     (case (case as_string (map_of response ''name'') of Some name \<Rightarrow> from_projects name | None \<Rightarrow> None) of
        Some n \<Rightarrow> n
      | None \<Rightarrow> if pc_ResourceName ctx = [] \<or> pc_ParentResource ctx = [] then [] else cluster_scoped_path ctx ''users'')"

definition extractInstanceNativeID :: "obj \<Rightarrow> PathContext \<Rightarrow> string" where
  "extractInstanceNativeID response ctx =
     (if pc_ResourceName ctx \<noteq> [] \<and> pc_ParentResource ctx \<noteq> [] then cluster_scoped_path ctx ''instances'' else named_by_answer response)"

definition alloydb_extractOperationName :: "obj \<Rightarrow> string" where
  "alloydb_extractOperationName = operation_name"

definition extractAlloyDBNativeID :: "obj \<Rightarrow> PathContext \<Rightarrow> string" where
  "extractAlloyDBNativeID = located_name"

definition alloydb_checkOperationStatus :: "obj \<Rightarrow> bool \<times> goerr option" where
  "alloydb_checkOperationStatus = operation_status"

definition AlloyDBAPI :: APIConfig where
  "AlloyDBAPI = \<lparr>ac_BaseURL = ''https://alloydb.googleapis.com/v1'', ac_APIVersion = ''v1'', ac_PathBuilder = Some alloyDBPathBuilder,
     ac_Pagination = Some (paged_by ''pageSize'' [])\<rparr>"

definition AlloyDBOperations :: OperationConfig where
  "AlloyDBOperations = polled_operations alloydb_extractOperationName extractAlloyDBNativeID alloydb_checkOperationStatus"

definition AlloyDBInstanceOperations :: OperationConfig where
  "AlloyDBInstanceOperations = polled_operations alloydb_extractOperationName extractInstanceNativeID alloydb_checkOperationStatus"

definition AlloyDBUserOperations :: OperationConfig where
  "AlloyDBUserOperations = synchronous_operations extractUserNativeID"

text \<open>\<^verbatim>\<open>cluster_transformers.go\<close>: the API answers with the project's number where a forma has its id.\<close>

definition canonical_network :: "string \<Rightarrow> string \<Rightarrow> string" where
  "canonical_network project network =
     (if HasPrefix network ''projects/''
      then (case Index (drop 9 network) ''/'' of
              Some i \<Rightarrow> ''projects/'' @ project @ drop i (drop 9 network)
            | None \<Rightarrow> network)
      else network)"

definition networkCanonicalizeTransformer :: response_transformer where
  "networkCanonicalizeTransformer resp ctx =
     Ok (map_option (rewrite_field ''networkConfig'' (on_object (rewrite_string ''network'' (canonical_network (tc_Project ctx))))) resp)"

definition clusterResponseTransformer :: response_transformer where
  "clusterResponseTransformer = CompositeResponseTransformer [networkCanonicalizeTransformer, ShortNameResponseTransformer]"

fun segment_after :: "string \<Rightarrow> string list \<Rightarrow> string option" where
  "segment_after k (a # b # rest) = (if a = k then Some b else segment_after k (b # rest))"
| "segment_after k _ = None"

definition cluster_from_name :: "obj \<Rightarrow> obj" where
  "cluster_from_name m =
     (case as_string (map_of m ''name'') of
        None \<Rightarrow> m
      | Some name \<Rightarrow>
          (case segment_after ''clusters'' (Split name CHR ''/'') of
             Some cluster \<Rightarrow> AList.update ''cluster'' (JStr cluster) m
           | None \<Rightarrow> m))"

definition instanceClusterFromName :: response_transformer where
  "instanceClusterFromName resp ctx = Ok (map_option cluster_from_name resp)"

definition alloydb_instanceResponseTransformer :: response_transformer where
  "alloydb_instanceResponseTransformer = CompositeResponseTransformer [instanceClusterFromName, ShortNameResponseTransformer]"

definition alloydb_userResponseTransformer :: response_transformer where
  "alloydb_userResponseTransformer =
     CompositeResponseTransformer
       [instanceClusterFromName,
        \<lambda>resp ctx. Ok (map_option (\<lambda>m. AList.delete ''keepExtraRoles'' (AList.delete ''password'' m)) resp),
        ShortNameResponseTransformer]"

definition backupRequestTransformer :: request_transformer where
  "backupRequestTransformer props ctx =
     (let out = filter (\<lambda>(k, v). k \<noteq> ''cluster'') (obj_of props);
          cluster = string_or_empty (as_string (map_of (obj_of props) ''cluster''))
      in Ok (Some (if cluster = [] then out
           else AList.update ''clusterName''
             (JStr (if HasPrefix cluster ''projects/'' then cluster
                    else location_path (tc_Project ctx) (tc_Location ctx) ''clusters'' @ ''/'' @ cluster)) out)))"

definition cluster_short :: "obj \<Rightarrow> obj" where
  "cluster_short m =
     (let cn = string_or_empty (as_string (map_of m ''clusterName''))
      in if cn = [] then m
         else AList.delete ''clusterName''
           (case LastIndex cn CHR ''/'' of Some i \<Rightarrow> AList.update ''cluster'' (JStr (drop (i + 1) cn)) m | None \<Rightarrow> m))"

definition backupResponseTransformer :: response_transformer where
  "backupResponseTransformer =
     CompositeResponseTransformer [\<lambda>resp ctx. Ok (map_option cluster_short resp), ShortNameResponseTransformer]"

definition alloydb_definitions :: "'w ResourceDefinition list" where
  "alloydb_definitions =
     [entry ''GCP::AlloyDB::Cluster'' (located_type ''clusters'' ''clusterId'') (Some fixed_operations) None (Some clusterResponseTransformer),
      (entry ''GCP::AlloyDB::Instance''
        ((located_type ''instances'' ''instanceId'')\<lparr>rc_ParentResource := Some (required_parent ''clusters'' ''cluster'')\<rparr>)
        (Some fixed_operations) (Some (DropFields [''cluster''])) (Some alloydb_instanceResponseTransformer))
          \<lparr>rd_OperationConfig := AlloyDBInstanceOperations, rd_NativeIDConfig := AlloyDBInstanceNativeID\<rparr>,
      (entry ''GCP::AlloyDB::User''
        ((located_type ''users'' ''userId'')\<lparr>rc_ParentResource := Some (required_parent ''clusters'' ''cluster'')\<rparr>)
        (Some fixed_operations) (Some (DropFields [''cluster''])) (Some alloydb_userResponseTransformer))
          \<lparr>rd_OperationConfig := AlloyDBUserOperations, rd_NativeIDConfig := AlloyDBUserNativeID\<rparr>,
      entry ''GCP::AlloyDB::Backup'' (located_type ''backups'' ''backupId'') (Some fixed_operations)
        (Some backupRequestTransformer) (Some backupResponseTransformer)]"

definition alloydb_package :: "'w package" where
  "alloydb_package = \<lparr>pk_API = AlloyDBAPI, pk_Operations = AlloyDBOperations, pk_NativeID = AlloyDBNativeID,
     pk_Definitions = alloydb_definitions\<rparr>"

definition cluster_ok :: "string \<Rightarrow> PathContext \<Rightarrow> bool" where
  "cluster_ok kind ctx \<longleftrightarrow>
     nested_ok pc_Location (\<lambda>t. []) ctx \<and> has_parent ctx \<and> pc_ParentType ctx = ''clusters'' \<and> pc_ResourceType ctx = kind"

lemma alloy_nested: "\<not> pc_IsList c \<Longrightarrow> alloyDBPathBuilder c = nested_path pc_Location (\<lambda>t. []) c"
  by (simp add: alloyDBPathBuilder_def nested_path_def has_parent_def Let_def)

lemma alloy_located: "\<not> pc_IsList c \<Longrightarrow> pc_ParentResource c = [] \<Longrightarrow> alloyDBPathBuilder c = LocationPathBuilder c"
  by (simp add: alloyDBPathBuilder_def LocationPathBuilder_def location_path_def Let_def)

lemma cluster_path_id: "cluster_ok kind ctx \<Longrightarrow> cluster_scoped_path ctx kind = nested_id pc_Location ctx"
  by (simp add: cluster_ok_def cluster_scoped_path_def nested_id_def)

lemma parse_cluster_id: "cluster_ok kind ctx \<Longrightarrow> parse_cluster_scoped kind (nested_id pc_Location ctx) = Inr (nested_canon pc_Location ctx)"
  using nested_id_segments [of pc_Location "\<lambda>t. []" ctx]
  by (simp add: cluster_ok_def parse_cluster_scoped_def nested_canon_def)

interpretation alloydb_instances: addressed alloyDBPathBuilder extractInstanceNativeID "ParseNativeID AlloyDBInstanceNativeID"
  sync "cluster_ok ''instances''" "nested_canon pc_Location" "\<lambda>t. False" for sync
proof (rule addressed_agree [OF plain_nested.is_addressed])
  fix ctx body assume ok: "cluster_ok ''instances'' ctx"
  then have n: "nested_ok pc_Location (\<lambda>t. []) ctx" "has_parent ctx" by (simp_all add: cluster_ok_def)
  show "nested_ok pc_Location (\<lambda>t. []) ctx" by (rule n)
  show "alloyDBPathBuilder ctx = nested_path pc_Location (\<lambda>t. []) ctx
      \<and> alloyDBPathBuilder (ctx\<lparr>pc_ResourceName := []\<rparr>) = nested_path pc_Location (\<lambda>t. []) (ctx\<lparr>pc_ResourceName := []\<rparr>)"
    using n by (simp add: alloy_nested nested_ok_off_list)
  show "extractInstanceNativeID body ctx = tl (nested_path pc_Location (\<lambda>t. []) ctx)"
    using n ok by (simp add: extractInstanceNativeID_def cluster_path_id nested_id_tl nested_ok_off_list has_parent_def)
  show "ParseNativeID AlloyDBInstanceNativeID (tl (nested_path pc_Location (\<lambda>t. []) ctx)) = Inr (nested_canon pc_Location ctx)"
    using n ok by (simp add: AlloyDBInstanceNativeID_def ClusterScopedNativeID_def nested_id_tl parse_cluster_id)
qed (simp add: alloy_nested completes_off_list)

interpretation alloydb_users: addressed alloyDBPathBuilder extractUserNativeID "ParseNativeID AlloyDBUserNativeID"
  True "cluster_ok ''users''" "nested_canon pc_Location" "\<lambda>t. False"
proof (rule addressed_agree [OF plain_nested.is_addressed])
  fix ctx body assume ok: "cluster_ok ''users'' ctx"
  then have n: "nested_ok pc_Location (\<lambda>t. []) ctx" "has_parent ctx" by (simp_all add: cluster_ok_def)
  show "nested_ok pc_Location (\<lambda>t. []) ctx" by (rule n)
  show "alloyDBPathBuilder ctx = nested_path pc_Location (\<lambda>t. []) ctx
      \<and> alloyDBPathBuilder (ctx\<lparr>pc_ResourceName := []\<rparr>) = nested_path pc_Location (\<lambda>t. []) (ctx\<lparr>pc_ResourceName := []\<rparr>)"
    using n by (simp add: alloy_nested nested_ok_off_list)
  show "extractUserNativeID body ctx = tl (nested_path pc_Location (\<lambda>t. []) ctx)"
    if "own_answer True (tl (nested_path pc_Location (\<lambda>t. []) ctx)) body"
    using that n ok by (auto simp: extractUserNativeID_def own_answer_def cluster_path_id nested_id_tl nested_ok_off_list has_parent_def)
  show "ParseNativeID AlloyDBUserNativeID (tl (nested_path pc_Location (\<lambda>t. []) ctx)) = Inr (nested_canon pc_Location ctx)"
    using n ok by (simp add: AlloyDBUserNativeID_def ClusterScopedNativeID_def nested_id_tl parse_cluster_id)
qed (simp add: alloy_nested completes_off_list)

interpretation alloydb: addressed alloyDBPathBuilder extractAlloyDBNativeID "ParseNativeID AlloyDBNativeID"
  False "\<lambda>ctx. location_ok ctx \<and> \<not> pc_IsList ctx \<and> pc_ParentResource ctx = []" located "\<lambda>t. False"
proof (rule addressed_agree [OF vpcaccess.is_addressed])
  show "alloyDBPathBuilder c = LocationPathBuilder c" if "completes False (located ctx) c" for ctx c
    using that by (intro alloy_located) (simp_all add: completes_def located_def empty_ctx_def)
qed (auto simp: alloy_located location_path_full extractAlloyDBNativeID_def located_name_full AlloyDBNativeID_def default_parser)

text \<open>The cluster a backup declares by its short id reads back as that id.\<close>

section \<open>Eventarc\<close>

definition advancedCollections :: "string \<Rightarrow> bool" where
  "advancedCollections collection \<longleftrightarrow> collection \<in> {''messageBuses'', ''pipelines'', ''enrollments'', ''googleApiSources''}"

definition eventarcPathBuilder :: "PathContext \<Rightarrow> string" where
  "eventarcPathBuilder ctx =
     (if pc_IsList ctx \<and> advancedCollections (pc_ResourceType ctx)
      then ''/projects/'' @ pc_Project ctx @ ''/locations/-/'' @ pc_ResourceType ctx
      else ''/projects/'' @ pc_Project ctx @ ''/locations/'' @ pc_Location ctx @ ''/'' @ pc_ResourceType ctx
        @ (if pc_ResourceName ctx \<noteq> [] then ''/'' @ pc_ResourceName ctx else []))"

definition eventarc_extractOperationName :: "obj \<Rightarrow> string" where
  "eventarc_extractOperationName = operation_name"

definition extractEventarcNativeID :: "obj \<Rightarrow> PathContext \<Rightarrow> string" where
  "extractEventarcNativeID = located_name"

definition eventarc_checkOperationStatus :: "obj \<Rightarrow> bool \<times> goerr option" where
  "eventarc_checkOperationStatus = CheckLROStatus"

definition EventarcAPI :: APIConfig where
  "EventarcAPI = \<lparr>ac_BaseURL = ''https://eventarc.googleapis.com/v1'', ac_APIVersion = ''v1'', ac_PathBuilder = Some eventarcPathBuilder,
     ac_Pagination = Some (paged_by ''pageSize'' [])\<rparr>"

definition EventarcOperations :: OperationConfig where
  "EventarcOperations = polled_operations eventarc_extractOperationName extractEventarcNativeID eventarc_checkOperationStatus"

definition EventarcNativeID :: NativeIDConfig where
  "EventarcNativeID = path_native_id None"

definition eventarcRequestTransformer :: request_transformer where
  "eventarcRequestTransformer props ctx = Ok (Some (filter (\<lambda>(k, v). k \<noteq> ''location'') (obj_of props)))"

definition location_declared :: "obj option \<Rightarrow> TransformContext \<Rightarrow> string" where
  "location_declared props ctx =
     (let l = string_or_empty (as_string (map_of (obj_of props) ''location'')) in if l = [] then tc_Location ctx else l)"

definition pipelineRequestTransformer :: request_transformer where
  "pipelineRequestTransformer props ctx =
     bind_outcome (eventarcRequestTransformer props ctx) (\<lambda>body. Ok (map_option (rewrite_field ''destinations'' (on_array (on_object
       (rewrite_string ''messageBus'' (expand_short (tc_Project ctx) (location_declared props ctx) ''messageBuses''))))) body))"

definition eventarc_locationResponseTransformer :: "string \<Rightarrow> response_transformer" where
  "eventarc_locationResponseTransformer collection props ctx = Ok (Some (located_from_name collection (obj_of props)))"

definition pipelineResponseTransformer :: response_transformer where
  "pipelineResponseTransformer props ctx =
     bind_outcome (eventarc_locationResponseTransformer ''pipelines'' props ctx) (\<lambda>out. Ok (map_option (rewrite_field ''destinations''
       (on_array (on_object (rewrite_string ''messageBus'' (after_last ''/messageBuses/''))))) out))"

text \<open>\<^verbatim>\<open>advanced_refs.go\<close>: which fields name what. The fields are distinct, so their order does not matter.\<close>

definition expandRef :: "string \<Rightarrow> string \<Rightarrow> string \<Rightarrow> string \<Rightarrow> obj \<Rightarrow> obj" where
  "expandRef field collection project location body = rewrite_string field (expand_short project location collection) body"

definition shortenRef :: "string \<Rightarrow> string \<Rightarrow> obj \<Rightarrow> obj" where
  "shortenRef field collection out = rewrite_string field (after_last (''/'' @ collection @ ''/'')) out"

definition advanced_request :: "(string \<times> string) list \<Rightarrow> request_transformer" where
  "advanced_request refs props ctx =
     bind_outcome (eventarcRequestTransformer props ctx) (\<lambda>body. Ok (map_option (\<lambda>m.
       fold (\<lambda>(field, target). expandRef field target (tc_Project ctx) (location_declared props ctx)) refs m) body))"

definition advanced_response :: "string \<Rightarrow> (string \<times> string) list \<Rightarrow> response_transformer" where
  "advanced_response collection refs props ctx =
     bind_outcome (eventarc_locationResponseTransformer collection props ctx) (\<lambda>out. Ok (map_option (\<lambda>m.
       fold (\<lambda>(field, target). shortenRef field target) refs m) out))"

definition enrollment_refs :: "(string \<times> string) list" where
  "enrollment_refs = [(''messageBus'', ''messageBuses''), (''destination'', ''pipelines'')]"

definition google_source_refs :: "(string \<times> string) list" where
  "google_source_refs = [(''destination'', ''messageBuses'')]"

definition triggerRequest :: request_transformer where
  "triggerRequest props ctx =
     bind_outcome (eventarcRequestTransformer props ctx) (\<lambda>body. Ok (map_option (rewrite_field ''destination'' (on_object
       (rewrite_string ''workflow'' (expand_short (tc_Project ctx) (location_declared props ctx) ''workflows'')))) body))"

definition triggerResponse :: response_transformer where
  "triggerResponse props ctx =
     bind_outcome (ShortNameResponseTransformer props ctx) (\<lambda>out. Ok (map_option (rewrite_field ''destination'' (on_object
       (rewrite_string ''workflow'' (after_last ''/workflows/'')))) out))"

definition eventarc_definitions :: "'w ResourceDefinition list" where
  "eventarc_definitions =
     [entry ''GCP::Eventarc::Trigger'' (located_type ''triggers'' ''triggerId'') (Some fixed_operations)
        (Some triggerRequest) (Some triggerResponse),
      entry ''GCP::Eventarc::MessageBus'' (masked_type ''messageBuses'' (Some ScopeLocationBased) ''messageBusId'') (Some StandardOperations)
        (Some eventarcRequestTransformer) (Some (eventarc_locationResponseTransformer ''messageBuses'')),
      entry ''GCP::Eventarc::Pipeline'' (masked_type ''pipelines'' (Some ScopeLocationBased) ''pipelineId'') (Some StandardOperations)
        (Some pipelineRequestTransformer) (Some pipelineResponseTransformer),
      entry ''GCP::Eventarc::Enrollment'' (masked_type ''enrollments'' (Some ScopeLocationBased) ''enrollmentId'') (Some StandardOperations)
        (Some (advanced_request enrollment_refs)) (Some (advanced_response ''enrollments'' enrollment_refs)),
      entry ''GCP::Eventarc::GoogleApiSource'' (masked_type ''googleApiSources'' (Some ScopeLocationBased) ''googleApiSourceId'')
        (Some StandardOperations) (Some (advanced_request google_source_refs))
        (Some (advanced_response ''googleApiSources'' google_source_refs))]"

definition eventarc_package :: "'w package" where
  "eventarc_package = \<lparr>pk_API = EventarcAPI, pk_Operations = EventarcOperations, pk_NativeID = EventarcNativeID,
     pk_Definitions = eventarc_definitions\<rparr>"

lemma eventarc_located: "\<not> pc_IsList c \<Longrightarrow> eventarcPathBuilder c = LocationPathBuilder c"
  by (simp add: eventarcPathBuilder_def LocationPathBuilder_def location_path_def)

interpretation eventarc: addressed eventarcPathBuilder extractEventarcNativeID "ParseNativeID EventarcNativeID"
  False "\<lambda>ctx. location_ok ctx \<and> \<not> pc_IsList ctx" located "\<lambda>t. False"
  by (rule addressed_agree [OF vpcaccess.is_addressed])
    (auto simp: eventarc_located completes_off_list location_path_full extractEventarcNativeID_def located_name_full EventarcNativeID_def
      default_parser)

section \<open>Creating a trigger\<close>

definition trigger_resource :: "Config option \<Rightarrow> 'w BaseResource" where
  "trigger_resource cfg = package_resource eventarc_package cfg (hd eventarc_definitions)"

definition trigger_context :: "string \<Rightarrow> string \<Rightarrow> TransformContext" where
  "trigger_context project location =
     \<lparr>tc_Project = project, tc_Region = [], tc_Zone = [], tc_Location = location, tc_ResourceType = [], tc_Operation = OperationCreate,
      tc_ParentResource = [], tc_ParentType = []\<rparr>"

definition trigger_created :: "'w BaseResource \<Rightarrow> string \<Rightarrow> goerr + Response \<Rightarrow> (goerr, ProgressResult) outcome" where
  "trigger_created b nativeID answer =
     (case answer of
        Inl e \<Rightarrow>
          (let te = wrap_err e ''failed to create trigger''
           in Ok (createFailureResult (ToResourceErrorCode (te_Code te)) (te_Message te)))
      | Inr response \<Rightarrow>
          bind_outcome (call_operation_id b (rs_Body response)) (\<lambda>operationID.
            if operationID = []
            then Ok ((progress OperationCreate OperationStatusSuccess)
                       \<lparr>pr_NativeID := nativeID, pr_Message := ''triggers created successfully''\<rparr>)
            else bind_outcome (call_operation_url b empty_ctx operationID) (\<lambda>requestID.
              Ok ((progress OperationCreate OperationStatusInProgress)
                    \<lparr>pr_NativeID := nativeID, pr_RequestID := requestID, pr_Message := ''triggers creation in progress''\<rparr>))))"

definition trigger_place :: "'w BaseResource \<Rightarrow> raw \<Rightarrow> obj \<Rightarrow> string \<times> string" where
  "trigger_place b target props =
     (let cfg = FromTargetConfig target (Deps (b_Config b)); l = string_or_empty (as_string (map_of props ''location''))
      in (c_Project cfg, if l = [] then c_Location cfg else l))"

definition send_trigger ::
    "'w env \<Rightarrow> 'w BaseResource \<Rightarrow> Client \<Rightarrow> string \<Rightarrow> string \<Rightarrow> string \<Rightarrow> obj option \<Rightarrow> ('w, ProgressResult) op" where
  "send_trigger E b client project location name body s =
     (let nativeID = location_path project location ''triggers'' @ ''/'' @ name
      in case assign body ''name'' (JStr nativeID) of
           Panic p \<Rightarrow> (Panic p, s)
         | Err e \<Rightarrow> (Err e, s)
         | Ok named \<Rightarrow>
             (case AddQueryParam (ac_BaseURL (b_APIConfig b) @ ''/'' @ location_path project location ''triggers'') ''triggerId'' name of
                Inl e \<Rightarrow> (Ok (createFailureResult InvalidRequest (''failed to build URL: '' @ err_text e)), s)
              | Inr url \<Rightarrow>
                  (case SendRequest E client (request_options ''POST'' url named) s of
                     (answer, s1) \<Rightarrow> (trigger_created b nativeID answer, s1))))"

definition Trigger_Create :: "'w env \<Rightarrow> 'w BaseResource \<Rightarrow> CreateRequest \<Rightarrow> ('w, ProgressResult) op" where
  "Trigger_Create E b request s =
     (case NewClient E (b_Config b) s of
        (Inl e, s1) \<Rightarrow> (Err (client_error e), s1)
      | (Inr client, s1) \<Rightarrow>
          (case unmarshal_map (cr_Properties request) of
             Inl e \<Rightarrow> (Ok (createFailureResult InvalidRequest (''failed to parse properties: '' @ e)), s1)
           | Inr raw_props \<Rightarrow>
               (let props = UnwrapValues raw_props; name = string_or_empty (as_string (map_of props ''name''));
                    place = trigger_place b (cr_TargetConfig request) props
                in if name = [] then (Ok (createFailureResult InvalidRequest ''name is required''), s1)
                   else case triggerRequest (Some props) (trigger_context (fst place) (snd place)) of
                     Panic p \<Rightarrow> (Panic p, s1)
                   | Err e \<Rightarrow> (Ok (createFailureResult InvalidRequest (''failed to transform request: '' @ err_text e)), s1)
                   | Ok body \<Rightarrow> send_trigger E b client (fst place) (snd place) name body s1)))"

definition Trigger_Status :: "'w env \<Rightarrow> 'w BaseResource \<Rightarrow> StatusRequest \<Rightarrow> ('w, ProgressResult) op" where
  "Trigger_Status E b request s = StatusWithRead E b (Some (Read E b)) request s"

lemma trigger_resource_sel:
  "b_Config (trigger_resource cfg) = cfg" "b_APIConfig (trigger_resource cfg) = EventarcAPI"
  "b_OperationConfig (trigger_resource cfg) = EventarcOperations" "b_NativeIDConfig (trigger_resource cfg) = EventarcNativeID"
  "rc_ResourceType (b_ResourceConfig (trigger_resource cfg)) = ''triggers''" "\<not> global_scope (trigger_resource cfg)"
  by (simp_all add: trigger_resource_def eventarc_definitions_def package_resource_sel eventarc_package_def located_type_def
      zero_resource_def zero_operations_def global_scope_def)

text \<open>The native ID of a trigger leads back to where the trigger is.\<close>

lemma trigger_found:
  fixes b :: "'w BaseResource"
  assumes "b = trigger_resource cfg" and "list_all (\<lambda>t. seg t \<and> t \<noteq> []) [project, location, name]"
  shows "\<exists>c. ParseNativeID EventarcNativeID (location_path project location ''triggers'' @ ''/'' @ name) = Inr c
    \<and> (\<forall>target. resource_url b (resource_context b target c)
          = Ok (ac_BaseURL EventarcAPI @ ''/'' @ location_path project location ''triggers'' @ ''/'' @ name))"
proof -
  let ?ctx = "empty_ctx\<lparr>pc_Project := project, pc_Location := location, pc_ResourceType := ''triggers'', pc_ResourceName := name\<rparr>"
  have ok: "location_ok ?ctx \<and> \<not> pc_IsList ?ctx"
    using assms(2) by (simp add: location_ok_def empty_ctx_def path_keywords_def seg_def)
  have path: "eventarcPathBuilder ?ctx = ''/'' @ location_path project location ''triggers'' @ ''/'' @ name"
    using assms(2) by (simp add: eventarcPathBuilder_def location_path_def empty_ctx_def)
  have "resource_url b (resource_context b target (located ?ctx))
      = Ok (ac_BaseURL EventarcAPI @ eventarcPathBuilder ?ctx)" for target
    using eventarc.found_again [OF ok, of b target] by (simp add: assms(1) trigger_resource_sel EventarcAPI_def)
  moreover have "ParseNativeID EventarcNativeID (location_path project location ''triggers'' @ ''/'' @ name) = Inr (located ?ctx)"
    using eventarc.parsed [OF ok] unfolding path by simp
  ultimately show ?thesis unfolding path by (intro exI [of _ "located ?ctx"]) simp
qed

lemma triggerRequest_body: "\<exists>body. triggerRequest (Some props) ctx = Ok (Some body) \<and> map_of body ''location'' = None"
  by (auto simp: triggerRequest_def eventarcRequestTransformer_def rewrite_field_def obj_of_def update_conv' map_of_filter_keys
      split: option.split)

text \<open>
  C25: A trigger is created with its id where the API wants it, twice. A create that does not fail sent
  exactly one request, a POST to the triggers of the project and the declared or configured location, with the
  declared name as the id of the query and with a body whose name is the full path and which has no location;
  this path is the native ID reported, and from it Read and Delete find the trigger again.
\<close>
theorem trigger_created_named:
  assumes "b = trigger_resource cfg" and "Trigger_Create (logged E) b request s = (Ok r, s')"
    and "pr_Status r \<noteq> OperationStatusFailure"
  shows "\<exists>m name project location url req body.
    unmarshal_map (cr_Properties request) = Inr m \<and> map_of (UnwrapValues m) ''name'' = Some (JStr name) \<and> name \<noteq> []
    \<and> trigger_place b (cr_TargetConfig request) (UnwrapValues m) = (project, location)
    \<and> sent s' = sent s @ [req] \<and> hq_Method req = ''POST''
    \<and> AddQueryParam (ac_BaseURL EventarcAPI @ ''/'' @ location_path project location ''triggers'') ''triggerId'' name = Inr url
    \<and> AddQueryParam url ''alt'' ''json'' = Inr (hq_URL req)
    \<and> carries req body \<and> map_of body ''name'' = Some (JStr (pr_NativeID r)) \<and> map_of body ''location'' = None
    \<and> pr_NativeID r = location_path project location ''triggers'' @ ''/'' @ name
    \<and> (list_all (\<lambda>t. seg t \<and> t \<noteq> []) [project, location, name] \<longrightarrow>
        (\<exists>c. ParseNativeID (b_NativeIDConfig b) (pr_NativeID r) = Inr c
          \<and> (\<forall>target. resource_url b (resource_context b target c) = Ok (ac_BaseURL EventarcAPI @ ''/'' @ pr_NativeID r))))"
proof -
  obtain client s1 where c: "NewClient (logged E) cfg s = (Inr client, s1)"
    using assms by (auto simp: Trigger_Create_def trigger_resource_sel split: prod.splits sum.splits)
  then obtain m where m: "unmarshal_map (cr_Properties request) = Inr m"
    using assms by (auto simp: Trigger_Create_def trigger_resource_sel createFailureResult_def split: sum.splits)
  obtain project location where place: "trigger_place b (cr_TargetConfig request) (UnwrapValues m) = (project, location)" by fastforce
  obtain body0 where body0: "triggerRequest (Some (UnwrapValues m)) (trigger_context project location) = Ok (Some body0)"
      "map_of body0 ''location'' = None" using triggerRequest_body by blast
  let ?name = "string_or_empty (as_string (map_of (UnwrapValues m) ''name''))"
  have name: "?name \<noteq> []" and run: "send_trigger (logged E) b client project location ?name (Some body0) s1 = (Ok r, s')"
    using assms c m place body0 by (auto simp: Trigger_Create_def trigger_resource_sel createFailureResult_def Let_def split: if_splits)
  then have n: "map_of (UnwrapValues m) ''name'' = Some (JStr ?name)"
    by (auto simp: string_or_empty_def split: option.splits)
  let ?id = "location_path project location ''triggers'' @ ''/'' @ ?name"
  let ?body = "AList.update ''name'' (JStr ?id) body0"
  obtain url where url: "AddQueryParam (ac_BaseURL EventarcAPI @ ''/'' @ location_path project location ''triggers'') ''triggerId'' ?name = Inr url"
    using run assms(1,3) by (auto simp: send_trigger_def assign_def trigger_resource_sel createFailureResult_def Let_def split: sum.splits)
  obtain answer where send: "SendRequest (logged E) client (request_options ''POST'' url (Some ?body)) s1 = (answer, s')"
      and fin: "trigger_created b ?id answer = Ok r"
    using run url assms(1) by (auto simp: send_trigger_def assign_def trigger_resource_sel Let_def split: prod.splits)
  have id: "pr_NativeID r = ?id" and ok: "\<exists>response. answer = Inr response"
    using fin assms(1,3)
    by (auto simp: trigger_created_def createFailureResult_def Let_def bind_outcome_eq_Ok split: sum.splits if_splits)
  obtain req where req: "sends client (request_options ''POST'' url (Some ?body)) req" "sent s' = sent s1 @ [req]"
    using SendRequest_logged [OF send] ok by auto
  have "hq_Method req = ''POST'' \<and> AddQueryParam url ''alt'' ''json'' = Inr (hq_URL req)" using req(1) by (auto simp: sends_def)
  moreover have "carries req ?body" using sends_carries req(1) .
  moreover have "map_of ?body ''name'' = Some (JStr ?id)" "map_of ?body ''location'' = None" using body0(2) by (simp_all add: update_conv')
  moreover have "sent s' = sent s @ [req]" using req(2) NewClient_sent [OF c] by simp
  ultimately show ?thesis
    using m n name place url id trigger_found [OF assms(1), of project location ?name] assms(1)
    by (intro exI [of _ m] exI [of _ ?name] exI [of _ project] exI [of _ location] exI [of _ url] exI [of _ req] exI [of _ ?body])
      (simp add: trigger_resource_sel)
qed

definition demo_trigger :: CreateRequest where
  "demo_trigger = \<lparr>cr_ResourceType = ''GCP::Eventarc::Trigger'', cr_TargetConfig = RawDoc (JObj [(''Project'', JStr ''p'')]),
     cr_Properties = RawDoc (JObj [(''name'', JStr ''t''), (''location'', JStr ''eu'')])\<rparr>"

lemma demo_trigger_run:
  "\<exists>r s'. Trigger_Create (logged script_env) (trigger_resource demo_cfg) demo_trigger (script_at [scripted 200 (JObj [])] []) = (Ok r, s')
     \<and> pr_Status r = OperationStatusSuccess \<and> pr_NativeID r = ''projects/p/locations/eu/triggers/t''"
proof -
  let ?props = "[(''name'', JStr ''t''), (''location'', JStr ''eu'')]" and ?id = "''projects/p/locations/eu/triggers/t''"
  let ?url = "''https://eventarc.googleapis.com/v1/projects/p/locations/eu/triggers?triggerId=t''" and ?body = "[(''name'', JStr ?id)]"
  have props: "UnwrapValues (Some ?props) = ?props"
    by (simp add: UnwrapValues_def obj_of_def unwrapValue_obj is_wrapper_def)
  have place: "trigger_place (trigger_resource demo_cfg :: demo_world BaseResource) (cr_TargetConfig demo_trigger) ?props = (''p'', ''eu'')"
    by (simp add: trigger_place_def demo_trigger_def FromTargetConfig_def, code_simp)
  have body: "triggerRequest (Some ?props) (trigger_context ''p'' ''eu'') = Ok (Some [(''name'', JStr ''t'')])" by code_simp
  have url: "AddQueryParam (ac_BaseURL EventarcAPI @ ''/'' @ location_path ''p'' ''eu'' ''triggers'') ''triggerId'' ''t'' = Inr ?url"
    unfolding EventarcAPI_def by code_simp
  have "Parse ?url \<noteq> None" by code_simp
  then obtain req where send: "SendRequest (logged script_env) demo_client (request_options ''POST'' ?url (Some ?body))
      (script_at [scripted 200 (JObj [])] [])
      = (Inr \<lparr>rs_StatusCode = 200, rs_Body = Some [], rs_Headers = []\<rparr>, script_at [] [req])"
    using script_send [OF _ methods_ok(2), of ?url "Some ?body" "[]" "[]" "[]"] by auto
  have id: "location_path ''p'' ''eu'' ''triggers'' @ ''/'' @ ''t'' = ?id" by (simp add: location_path_def)
  have run: "send_trigger (logged script_env) (trigger_resource demo_cfg) demo_client ''p'' ''eu'' ''t'' (Some [(''name'', JStr ''t'')])
      (script_at [scripted 200 (JObj [])] [])
      = (trigger_created (trigger_resource demo_cfg :: demo_world BaseResource) ?id
           (Inr \<lparr>rs_StatusCode = 200, rs_Body = Some [], rs_Headers = []\<rparr>), script_at [] [req])"
    unfolding send_trigger_def id assign_def Let_def using url send by (simp add: trigger_resource_sel)
  have fin: "trigger_created (trigger_resource demo_cfg :: demo_world BaseResource) ?id
      (Inr \<lparr>rs_StatusCode = 200, rs_Body = Some [], rs_Headers = []\<rparr>)
      = Ok ((progress OperationCreate OperationStatusSuccess)\<lparr>pr_NativeID := ?id, pr_Message := ''triggers created successfully''\<rparr>)"
    by (simp add: trigger_created_def call_operation_id_def trigger_resource_sel EventarcOperations_def eventarc_extractOperationName_def
        operation_name_def obj_of_def)
  show ?thesis
    using run fin props place body
    by (simp add: Trigger_Create_def trigger_resource_sel demo_NewClient demo_trigger_def string_or_empty_def Let_def)
qed

theorem trigger_created_named_witness:
  "\<exists>r s' req body. Trigger_Create (logged script_env) (trigger_resource demo_cfg) demo_trigger (script_at [scripted 200 (JObj [])] []) = (Ok r, s')
     \<and> sent s' = sent (script_at [scripted 200 (JObj [])] []) @ [req] \<and> carries req body
     \<and> map_of body ''name'' = Some (JStr ''projects/p/locations/eu/triggers/t'')"
proof -
  obtain r s' where r: "Trigger_Create (logged script_env) (trigger_resource demo_cfg) demo_trigger (script_at [scripted 200 (JObj [])] []) = (Ok r, s')"
      "pr_Status r = OperationStatusSuccess" and id: "pr_NativeID r = ''projects/p/locations/eu/triggers/t''"
    using demo_trigger_run by blast
  have ok: "pr_Status r \<noteq> OperationStatusFailure" using r(2) by simp
  from trigger_created_named [OF refl r(1) ok] obtain req body where
      "sent s' = sent (script_at [scripted 200 (JObj [])] []) @ [req]" "carries req body" "map_of body ''name'' = Some (JStr (pr_NativeID r))"
    by blast
  then show ?thesis using r(1) id by (intro exI conjI) auto
qed

section \<open>References come back\<close>

text \<open>A field that names another resource of Eventarc by its short name reads back as declared.\<close>

lemma ref_back:
  assumes "map_of m field = Some (JStr v)" and "seg v" "v \<noteq> []" "seg collection"
  shows "map_of (shortenRef field collection (expandRef field collection project location m)) field = Some (JStr v)"
proof -
  have "map_of (expandRef field collection project location m) field = Some (JStr (expand_short project location collection v))"
    using assms(1) by (simp add: expandRef_def rewrite_string_def update_conv')
  then show ?thesis using reference_back [OF assms(2,3,4)] by (simp add: shortenRef_def rewrite_string_def update_conv')
qed

end
