(* ===== verification/Service_Catalog.thy ===== *)
theory Service_Catalog
  imports Location_Services Network_Services Fleet Regional_Services Compute_Verbs Compute_Types
begin

text \<open>
  The packages that are a configuration and a table, side by side: how their initialisers fill the
  registries, and what holds of every type of every one of them, also where a type is registered once
  more with a listing or a Delete of its own.
\<close>

section \<open>The packages\<close>

definition kms_package :: "'w package" where
  "kms_package = \<lparr>pk_API = KMSAPI, pk_Operations = KMSOperations, pk_NativeID = KMSNativeID, pk_Definitions = kms_definitions\<rparr>"

definition vpcaccess_package :: "'w package" where
  "vpcaccess_package = \<lparr>pk_API = VpcAccessAPI, pk_Operations = VpcAccessOperations, pk_NativeID = VpcAccessNativeID,
     pk_Definitions = vpcaccess_definitions\<rparr>"

definition gkebackup_package :: "'w package" where
  "gkebackup_package = \<lparr>pk_API = GKEBackupAPI, pk_Operations = GKEBackupOperations, pk_NativeID = GKEBackupNativeID,
     pk_Definitions = gkebackup_definitions\<rparr>"

definition workflows_package :: "'w package" where
  "workflows_package = \<lparr>pk_API = WorkflowsAPI, pk_Operations = WorkflowsOperations, pk_NativeID = WorkflowsNativeID,
     pk_Definitions = workflows_definitions\<rparr>"

definition redis_package :: "'w package" where
  "redis_package = \<lparr>pk_API = RedisAPI, pk_Operations = RedisOperations, pk_NativeID = RedisNativeID, pk_Definitions = redis_definitions\<rparr>"

definition scheduler_package :: "'w package" where
  "scheduler_package = \<lparr>pk_API = SchedulerAPI, pk_Operations = SchedulerOperations, pk_NativeID = SchedulerNativeID,
     pk_Definitions = scheduler_definitions\<rparr>"

definition tasks_package :: "'w package" where
  "tasks_package = \<lparr>pk_API = TasksAPI, pk_Operations = TasksOperations, pk_NativeID = TasksNativeID, pk_Definitions = tasks_definitions\<rparr>"

definition memcache_package :: "'w package" where
  "memcache_package = \<lparr>pk_API = MemcacheAPI, pk_Operations = MemcacheOperations, pk_NativeID = MemcacheNativeID,
     pk_Definitions = memcache_definitions\<rparr>"

definition clouddeploy_package :: "'w package" where
  "clouddeploy_package = \<lparr>pk_API = CloudDeployAPI, pk_Operations = CloudDeployOperations, pk_NativeID = CloudDeployNativeID,
     pk_Definitions = clouddeploy_definitions\<rparr>"

definition certificatemanager_package :: "'w package" where
  "certificatemanager_package = \<lparr>pk_API = CertificateManagerAPI, pk_Operations = CertificateManagerOperations,
     pk_NativeID = CertificateManagerNativeID, pk_Definitions = certificatemanager_definitions\<rparr>"

definition networkservices_package :: "'w package" where
  "networkservices_package = \<lparr>pk_API = NetworkServicesAPI, pk_Operations = NetworkServicesOperations,
     pk_NativeID = NetworkServicesNativeID, pk_Definitions = networkservices_definitions\<rparr>"

definition networksecurity_package :: "'w package" where
  "networksecurity_package = \<lparr>pk_API = NetworkSecurityAPI, pk_Operations = NetworkSecurityOperations,
     pk_NativeID = NetworkSecurityNativeID, pk_Definitions = networksecurity_definitions\<rparr>"

definition networkconnectivity_package :: "'w package" where
  "networkconnectivity_package = \<lparr>pk_API = NetworkConnectivityAPI, pk_Operations = NetworkConnectivityOperations,
     pk_NativeID = NetworkConnectivityNativeID, pk_Definitions = networkconnectivity_definitions\<rparr>"

definition located_packages :: "'w package list" where
  "located_packages =
     [kms_package, vpcaccess_package, gkebackup_package, workflows_package, redis_package, scheduler_package, tasks_package,
      memcache_package, clouddeploy_package, certificatemanager_package, networkservices_package, networksecurity_package,
      networkconnectivity_package, parametermanager_package]"

text \<open>
  Packages of which a type is registered once more, with a listing or a Delete of its own: what is created
  and where it is looked for is still what the table says.
\<close>

definition overridden_packages :: "'w package list" where
  "overridden_packages =
     [filestore_package, analyticshub_package, artifactregistry_package, ca_package, alloydb_package, servicedirectory_package]"

text \<open>Packages whose types are directly below the project.\<close>

definition project_packages :: "'w package list" where
  "project_packages = [orgpolicy_package, essentialcontacts_package]"

text \<open>With the Compute table, and one that asks to skip a validation on create, everything that is registered by a table alone.\<close>

definition compute_package :: "'w package" where
  "compute_package = \<lparr>pk_API = ComputeAPI, pk_Operations = ComputeOperations, pk_NativeID = ComputeNativeID,
     pk_Definitions = compute_definitions\<rparr>"

definition table_packages :: "'w package list" where
  "table_packages = compute_package # datastream_package # located_packages @ project_packages"

section \<open>Completely declared resources\<close>

definition declared_fully :: "'w BaseResource \<Rightarrow> PathContext \<Rightarrow> bool" where
  "declared_fully b ctx \<longleftrightarrow>
     list_all proper [pc_Project ctx, pc_ResourceName ctx]
     \<and> (rc_Scope (b_ResourceConfig b) \<noteq> Some ScopeProjectLevel \<longrightarrow> proper (pc_Location ctx))
     \<and> pc_ResourceType ctx = rc_ResourceType (b_ResourceConfig b) \<and> \<not> pc_IsList ctx
     \<and> (case rc_ParentResource (b_ResourceConfig b) of
          None \<Rightarrow> pc_ParentType ctx = [] \<and> pc_ParentResource ctx = [] \<and> pc_CustomSegments ctx = []
        | Some pa \<Rightarrow> pc_ParentType ctx = pa_ParentType pa \<and> proper (pc_ParentResource ctx)
            \<and> (if pa_GrandParentType pa = [] then pc_CustomSegments ctx = [] else \<exists>g. proper g \<and> pc_CustomSegments ctx = [g]))"

definition placed ::
    "'w BaseResource \<Rightarrow> (PathContext \<Rightarrow> string) \<Rightarrow> (PathContext \<Rightarrow> PathContext) \<Rightarrow> bool" where
  "placed b path canon \<longleftrightarrow>
     (\<exists>extr ok global. addressed path extr (ParseNativeID (b_NativeIDConfig b)) (oc_Synchronous (b_OperationConfig b)) ok canon global
        \<and> ac_PathBuilder (b_APIConfig b) = Some path \<and> oc_NativeIDExtractor (b_OperationConfig b) = Some extr
        \<and> (global_scope b \<longrightarrow> global (rc_ResourceType (b_ResourceConfig b))) \<and> (\<forall>ctx. declared_fully b ctx \<longrightarrow> ok ctx))"

lemma placedI:
  assumes "addressed path extr (ParseNativeID (b_NativeIDConfig b)) (oc_Synchronous (b_OperationConfig b)) ok canon global"
    and "ac_PathBuilder (b_APIConfig b) = Some path" and "oc_NativeIDExtractor (b_OperationConfig b) = Some extr"
    and "global_scope b \<Longrightarrow> global (rc_ResourceType (b_ResourceConfig b))" and "\<And>ctx. declared_fully b ctx \<Longrightarrow> ok ctx"
  shows "placed b path canon"
  using assms unfolding placed_def by blast

lemma placed_created_found:
  assumes "placed b path canon" and "declared_fully b ctx"
    and "ctx = buildPathContext b (cr_TargetConfig request) (UnwrapValues m)"
    and "unmarshal_map (cr_Properties request) = Inr m"
    and "answers_own (logged E) (b_Config b) s (oc_Synchronous (b_OperationConfig b)) (tl (path ctx))"
    and "Create (logged E) b request s = (Ok r, s')" and "pr_Status r \<noteq> OperationStatusFailure"
  shows "\<exists>req body url. sent s' = sent s @ [req] \<and> hq_Method req = ''POST''
    \<and> transform_request b (UnwrapValues m) ctx OperationCreate = Ok body
    \<and> create_url b ctx (fst (create_id b body)) = Ok url \<and> AddQueryParam url ''alt'' ''json'' = Inr (hq_URL req)
    \<and> pr_NativeID r = tl (path ctx)
    \<and> ParseNativeID (b_NativeIDConfig b) (pr_NativeID r) = Inr (canon ctx)
    \<and> (\<forall>target. resource_url b (resource_context b target (canon ctx))
         = Ok (ac_BaseURL (b_APIConfig b) @ path (ctx\<lparr>pc_ResourceName := []\<rparr>) @ ''/'' @ pc_ResourceName ctx))"
proof -
  obtain extr ok global where a: "addressed path extr (ParseNativeID (b_NativeIDConfig b)) (oc_Synchronous (b_OperationConfig b)) ok canon global"
      "ac_PathBuilder (b_APIConfig b) = Some path" "oc_NativeIDExtractor (b_OperationConfig b) = Some extr"
      "global_scope b \<longrightarrow> global (rc_ResourceType (b_ResourceConfig b))" "ok ctx"
    using assms(1,2) unfolding placed_def by blast
  have g: "global_scope b \<Longrightarrow> global (pc_ResourceType ctx)" using a(4) assms(2) by (simp add: declared_fully_def proper_def)
  show ?thesis
    by (rule addressed.created_found [OF a(1,5) assms(3) a(2) g a(3) refl refl assms(4,5,6,7)])
qed

section \<open>Every type is placed\<close>

lemma located_placed:
  assumes "location_addressed extr (ParseNativeID (b_NativeIDConfig b)) (oc_Synchronous (b_OperationConfig b))"
    and "ac_PathBuilder (b_APIConfig b) = Some LocationPathBuilder" and "oc_NativeIDExtractor (b_OperationConfig b) = Some extr"
    and "\<not> global_scope b" and "rc_Scope (b_ResourceConfig b) \<noteq> Some ScopeProjectLevel" and "seg (rc_ResourceType (b_ResourceConfig b))" "rc_ResourceType (b_ResourceConfig b) \<notin> set path_keywords"
  shows "placed b LocationPathBuilder located"
  by (rule placedI [OF location_addressed.is_addressed [OF assms(1)]]) (use assms in \<open>auto simp: declared_fully_def proper_def location_ok_def\<close>)

lemma nested_placed:
  assumes "nested_addressed loc wild extr (ParseNativeID (b_NativeIDConfig b)) (oc_Synchronous (b_OperationConfig b)) global"
    and "ac_PathBuilder (b_APIConfig b) = Some (nested_path loc wild)" and "oc_NativeIDExtractor (b_OperationConfig b) = Some extr"
    and "global_scope b \<Longrightarrow> global (rc_ResourceType (b_ResourceConfig b))"
    and "seg (rc_ResourceType (b_ResourceConfig b))"
    and "\<And>ctx. declared_fully b ctx \<Longrightarrow> seg (loc ctx) \<and> loc ctx \<noteq> []"
    and "case rc_ParentResource (b_ResourceConfig b) of
           None \<Rightarrow> wild (rc_ResourceType (b_ResourceConfig b)) = []
         | Some pa \<Rightarrow> seg (pa_ParentType pa) \<and> pa_ParentType pa \<noteq> []"
  shows "placed b (nested_path loc wild) (nested_canon loc)"
proof (rule placedI [OF nested_addressed.is_addressed [OF assms(1)] assms(2,3,4)])
  fix ctx assume d: "declared_fully b ctx"
  then show "nested_ok loc wild ctx" using assms(5,7) assms(6) [OF d]
    by (auto simp: declared_fully_def proper_def nested_ok_def has_parent_def split: option.splits)
qed

text \<open>An entry that leaves the configurations to its package.\<close>

definition plain_entry :: "'w ResourceDefinition \<Rightarrow> bool" where
  "plain_entry d \<longleftrightarrow> rd_APIConfig d = zero_api \<and> rd_NativeIDConfig d = zero_native_id
     \<and> seg (rc_ResourceType (rd_ResourceConfig d)) \<and> rc_ResourceType (rd_ResourceConfig d) \<notin> set path_keywords
     \<and> rc_Scope (rd_ResourceConfig d) \<noteq> Some ScopeProjectLevel"

definition entry_operation_config :: "'w package \<Rightarrow> 'w ResourceDefinition \<Rightarrow> OperationConfig" where
  "entry_operation_config pk d =
     (if oc_OperationIDExtractor (rd_OperationConfig d) = None then pk_Operations pk else rd_OperationConfig d)"

lemma plain_resource:
  assumes "plain_entry d"
  shows "b_APIConfig (package_resource pk cfg d) = pk_API pk" "b_NativeIDConfig (package_resource pk cfg d) = pk_NativeID pk"
    "b_OperationConfig (package_resource pk cfg d) = entry_operation_config pk d"
    "b_ResourceConfig (package_resource pk cfg d) = rd_ResourceConfig d"
  using assms by (simp_all add: plain_entry_def package_resource_sel entry_operation_config_def)

lemma located_package:
  assumes "location_addressed extr (ParseNativeID (pk_NativeID pk)) (oc_Synchronous (entry_operation_config pk d))"
    and "ac_PathBuilder (pk_API pk) = Some LocationPathBuilder" and "oc_NativeIDExtractor (entry_operation_config pk d) = Some extr"
    and "plain_entry d" and "rc_Scope (rd_ResourceConfig d) \<noteq> Some ScopeGlobal"
  shows "placed (package_resource pk cfg d) LocationPathBuilder located"
  using assms by (intro located_placed) (simp_all add: plain_resource global_scope_def, simp_all add: plain_entry_def)

definition nested_entry ::
    "'w package \<Rightarrow> (obj \<Rightarrow> PathContext \<Rightarrow> string) \<Rightarrow> (string \<Rightarrow> string) \<Rightarrow> (string \<Rightarrow> bool) \<Rightarrow> 'w ResourceDefinition \<Rightarrow> bool" where
  "nested_entry pk extr wild global d \<longleftrightarrow>
     plain_entry d \<and> oc_NativeIDExtractor (entry_operation_config pk d) = Some extr
     \<and> (rc_Scope (rd_ResourceConfig d) = Some ScopeGlobal \<longrightarrow> global (rc_ResourceType (rd_ResourceConfig d)))
     \<and> (case rc_ParentResource (rd_ResourceConfig d) of
           None \<Rightarrow> wild (rc_ResourceType (rd_ResourceConfig d)) = []
         | Some pa \<Rightarrow> seg (pa_ParentType pa) \<and> pa_ParentType pa \<noteq> [])"

lemma nested_package:
  assumes "list_all (nested_entry pk extr wild global) (pk_Definitions pk)" and "d \<in> set (pk_Definitions pk)"
    and "nested_addressed loc wild extr (ParseNativeID (pk_NativeID pk)) (oc_Synchronous (entry_operation_config pk d)) global"
    and "ac_PathBuilder (pk_API pk) = Some (nested_path loc wild)"
    and "\<And>ctx. seg (pc_Location ctx) \<Longrightarrow> pc_Location ctx \<noteq> [] \<Longrightarrow> seg (loc ctx) \<and> loc ctx \<noteq> []"
  shows "placed (package_resource pk cfg d) (nested_path loc wild) (nested_canon loc)"
proof -
  have e: "nested_entry pk extr wild global d" using assms(1,2) by (simp add: list_all_iff)
  then have p: "plain_entry d" by (simp add: nested_entry_def)
  show ?thesis
    by (rule nested_placed [of loc wild extr _ global])
      (use e p assms(3-5) in \<open>simp_all add: nested_entry_def plain_resource global_scope_def declared_fully_def proper_def package_resource_sel(1)\<close>,
       auto simp: plain_entry_def package_resource_sel(1) split: option.split)
qed

lemmas entry_checks = plain_entry_def entry_operation_config_def zero_operations_def zero_resource_def masked_type_def located_type_def
  required_parent_def path_keywords_def

lemmas package_defs =
  kms_package_def KMSAPI_def KMSOperations_def kmsPathBuilder_def
  vpcaccess_package_def VpcAccessAPI_def VpcAccessOperations_def vpcAccessPathBuilder_def
  gkebackup_package_def GKEBackupAPI_def GKEBackupOperations_def gkeBackupPathBuilder_def
  workflows_package_def WorkflowsAPI_def WorkflowsOperations_def workflowsPathBuilder_def
  redis_package_def RedisAPI_def RedisOperations_def redisPathBuilder_def RedisSyncOperations_def
  scheduler_package_def SchedulerAPI_def SchedulerOperations_def
  tasks_package_def TasksAPI_def TasksOperations_def
  memcache_package_def MemcacheAPI_def MemcacheOperations_def
  clouddeploy_package_def CloudDeployAPI_def CloudDeployOperations_def cloudDeployPathBuilder_def
  certificatemanager_package_def CertificateManagerAPI_def CertificateManagerOperations_def certificateManagerPathBuilder_def
  networkservices_package_def NetworkServicesAPI_def NetworkServicesOperations_def networkServicesPathBuilder_def
  networksecurity_package_def NetworkSecurityAPI_def NetworkSecurityOperations_def NetworkSecuritySyncOperations_def networkSecurityPathBuilder_def
  networkconnectivity_package_def NetworkConnectivityAPI_def NetworkConnectivityOperations_def
  filestore_package_def FilestoreAPI_def FilestoreOperations_def
  analyticshub_package_def AnalyticsHubAPI_def AnalyticsHubOperations_def
  artifactregistry_package_def ArtifactRegistryAPI_def ArtifactRegistryOperations_def ArtifactRegistryRuleOperations_def
  parametermanager_package_def ParameterManagerAPI_def ParameterManagerOperations_def
  ca_package_def CertificateAuthorityAPI_def CertificateAuthorityOperations_def
  alloydb_package_def AlloyDBAPI_def AlloyDBOperations_def

lemma kms_placed: "d \<in> set kms_definitions \<Longrightarrow> placed (package_resource kms_package cfg d) LocationPathBuilder located"
  by (rule located_package [of extractKMSNativeID])
    (use kms.location_addressed_axioms in \<open>auto simp: package_defs kms_definitions_def entry_checks\<close>)

lemma vpcaccess_placed: "d \<in> set vpcaccess_definitions \<Longrightarrow> placed (package_resource vpcaccess_package cfg d) LocationPathBuilder located"
  by (rule located_package [of extractVpcAccessNativeID])
    (use vpcaccess.location_addressed_axioms in \<open>auto simp: package_defs vpcaccess_definitions_def entry_checks\<close>)

lemma gkebackup_placed: "d \<in> set gkebackup_definitions \<Longrightarrow> placed (package_resource gkebackup_package cfg d) LocationPathBuilder located"
  by (rule located_package [of extractGKEBackupNativeID])
    (use gkebackup.location_addressed_axioms in \<open>auto simp: package_defs gkebackup_definitions_def entry_checks\<close>)

lemma workflows_placed: "d \<in> set workflows_definitions \<Longrightarrow> placed (package_resource workflows_package cfg d) LocationPathBuilder located"
  by (rule located_package [of extractWorkflowsNativeID])
    (use workflows.location_addressed_axioms in \<open>auto simp: package_defs workflows_definitions_def entry_checks\<close>)

lemma scheduler_placed: "d \<in> set scheduler_definitions \<Longrightarrow> placed (package_resource scheduler_package cfg d) LocationPathBuilder located"
  by (rule located_package [of LocationNativeIDExtractor])
    (use scheduler.location_addressed_axioms in \<open>auto simp: package_defs scheduler_definitions_def entry_checks\<close>)

lemma tasks_placed: "d \<in> set tasks_definitions \<Longrightarrow> placed (package_resource tasks_package cfg d) LocationPathBuilder located"
  by (rule located_package [of LocationNativeIDExtractor])
    (use tasks.location_addressed_axioms in \<open>auto simp: package_defs tasks_definitions_def entry_checks\<close>)

lemma redis_placed: "d \<in> set redis_definitions \<Longrightarrow> placed (package_resource redis_package cfg d) LocationPathBuilder located"
  by (rule located_package [of "if rd_Type d = ''GCP::Redis::Instance'' then extractRedisNativeID else LocationNativeIDExtractor"])
    (use redis.location_addressed_axioms acl_policies.location_addressed_axioms in
      \<open>auto simp: package_defs redis_definitions_def entry_checks\<close>)

lemma memcache_placed: "d \<in> set memcache_definitions \<Longrightarrow> placed (package_resource memcache_package cfg d) memcachePathBuilder located"
  by (rule placedI [of _ extractMemcacheNativeID _ memcache_ok _ "\<lambda>t. False"])
    (use memcache.addressed_axioms in
      \<open>auto simp: package_defs memcache_definitions_def package_resource_sel entry_checks global_scope_def declared_fully_def proper_def
        memcache_ok_def location_ok_def\<close>)

lemma clouddeploy_entries:
  "list_all (nested_entry clouddeploy_package extractCloudDeployNativeID deploy_parentCollectionOf (\<lambda>t. False)) (pk_Definitions clouddeploy_package)"
  by (simp add: nested_entry_def package_defs clouddeploy_definitions_def entry_checks deploy_parentCollectionOf_def)

lemma clouddeploy_placed:
  "d \<in> set clouddeploy_definitions \<Longrightarrow>
     placed (package_resource clouddeploy_package cfg d) cloudDeployPathBuilder (nested_canon deploy_locationOf)"
  unfolding cloudDeployPathBuilder_def
  by (rule nested_package [OF clouddeploy_entries])
    (use clouddeploy.nested_addressed_axioms in \<open>auto simp: package_defs entry_operation_config_def operations_sel deploy_locationOf_def\<close>)

lemma certificatemanager_entries:
  "list_all (nested_entry certificatemanager_package extractCertificateManagerNativeID certificate_parentCollectionOf (\<lambda>t. False)) (pk_Definitions certificatemanager_package)"
  by (simp add: nested_entry_def package_defs certificatemanager_definitions_def entry_checks certificate_parentCollectionOf_def)

lemma certificatemanager_placed:
  "d \<in> set certificatemanager_definitions \<Longrightarrow>
     placed (package_resource certificatemanager_package cfg d) certificateManagerPathBuilder (nested_canon (\<lambda>ctx. certificateManagerLocation))"
  unfolding certificateManagerPathBuilder_def
  by (rule nested_package [OF certificatemanager_entries])
    (use certificatemanager.nested_addressed_axioms in \<open>auto simp: package_defs entry_operation_config_def operations_sel certificateManagerLocation_def\<close>)

lemma networkservices_entries:
  "list_all (nested_entry networkservices_package extractNetworkServicesNativeID (\<lambda>t. []) (\<lambda>t. t \<in> set ns_globalResourceTypes)) (pk_Definitions networkservices_package)"
  by (simp add: nested_entry_def package_defs networkservices_definitions_def entry_checks ns_globalResourceTypes_def)

lemma networkservices_placed:
  "d \<in> set networkservices_definitions \<Longrightarrow>
     placed (package_resource networkservices_package cfg d) networkServicesPathBuilder (nested_canon ns_locationOf)"
  unfolding networkServicesPathBuilder_def
  by (rule nested_package [OF networkservices_entries])
    (use networkservices.nested_addressed_axioms in \<open>auto simp: package_defs entry_operation_config_def operations_sel ns_locationOf_def defaultLocation_def\<close>)

lemma networksecurity_entries:
  "list_all (nested_entry networksecurity_package extractNetworkSecurityNativeID nsec_parentCollectionOf (\<lambda>t. t \<in> set nsec_globalResourceTypes)) (pk_Definitions networksecurity_package)"
  by (simp add: nested_entry_def package_defs networksecurity_definitions_def entry_checks nsec_parentCollectionOf_def nsec_globalResourceTypes_def)

lemma networksecurity_placed:
  "d \<in> set networksecurity_definitions \<Longrightarrow>
     placed (package_resource networksecurity_package cfg d) networkSecurityPathBuilder (nested_canon nsec_locationOf)"
  unfolding networkSecurityPathBuilder_def
  by (rule nested_package [OF networksecurity_entries])
    (use networksecurity.nested_addressed_axioms in \<open>auto simp: package_defs entry_operation_config_def operations_sel nsec_locationOf_def defaultLocation_def\<close>)

lemma networkconnectivity_entries:
  "list_all (\<lambda>d. nested_entry networkconnectivity_package extractNetworkConnectivityNativeID (\<lambda>t. []) (\<lambda>t. t \<in> set nc_globalResourceTypes) d
      \<and> rc_ParentResource (rd_ResourceConfig d) = None \<and> \<not> oc_Synchronous (entry_operation_config networkconnectivity_package d))
     (pk_Definitions networkconnectivity_package)"
  by (simp add: nested_entry_def package_defs networkconnectivity_definitions_def entry_checks nc_globalResourceTypes_def)

lemma nc_locationOf_declared: "seg (pc_Location ctx) \<Longrightarrow> pc_Location ctx \<noteq> [] \<Longrightarrow> seg (nc_locationOf ctx) \<and> nc_locationOf ctx \<noteq> []"
  by (simp add: nc_locationOf_def defaultLocation_def)

lemma networkconnectivity_placed:
  assumes "d \<in> set (pk_Definitions networkconnectivity_package)"
  shows "placed (package_resource networkconnectivity_package cfg d) networkConnectivityPathBuilder (nested_canon nc_locationOf)"
proof -
  have e: "nested_entry networkconnectivity_package extractNetworkConnectivityNativeID (\<lambda>t. []) (\<lambda>t. t \<in> set nc_globalResourceTypes) d"
      "rc_ParentResource (rd_ResourceConfig d) = None" "\<not> oc_Synchronous (entry_operation_config networkconnectivity_package d)"
    using networkconnectivity_entries [unfolded list_all_iff, THEN bspec, OF assms] by blast+
  then have p: "plain_entry d" by (simp add: nested_entry_def)
  have api: "ac_PathBuilder (pk_API networkconnectivity_package) = Some networkConnectivityPathBuilder"
      "pk_NativeID networkconnectivity_package = NetworkConnectivityNativeID"
    by (simp_all add: networkconnectivity_package_def NetworkConnectivityAPI_def)
  show ?thesis
  proof (rule placedI [of _ extractNetworkConnectivityNativeID _ nc_ok _ "\<lambda>t. t \<in> set nc_globalResourceTypes"])
    show "nc_ok ctx" if "declared_fully (package_resource networkconnectivity_package cfg d) ctx" for ctx
      using that e(2) p nc_locationOf_declared [of ctx]
      by (simp add: declared_fully_def proper_def plain_resource [OF p] nc_ok_def nested_ok_def has_parent_def, simp add: plain_entry_def)
  qed (use e p networkconnectivity.addressed_axioms in \<open>simp_all add: plain_resource [OF p] api nested_entry_def global_scope_def\<close>)
qed

text \<open>Packages that differ from the nested or the located shape on a listing only.\<close>

lemma nested_like:
  assumes "list_all (nested_entry pk extr (\<lambda>t. []) (\<lambda>t. False)) (pk_Definitions pk)" and "d \<in> set (pk_Definitions pk)"
    and "addressed path extr (ParseNativeID (pk_NativeID pk)) (oc_Synchronous (entry_operation_config pk d)) (nested_ok pc_Location (\<lambda>t. []))
      canon (\<lambda>t. False)"
    and "ac_PathBuilder (pk_API pk) = Some path"
  shows "placed (package_resource pk cfg d) path canon"
proof -
  have e: "nested_entry pk extr (\<lambda>t. []) (\<lambda>t. False) d" using assms(1,2) by (simp add: list_all_iff)
  then have p: "plain_entry d" by (simp add: nested_entry_def)
  show ?thesis
  proof (rule placedI [of _ extr _ "nested_ok pc_Location (\<lambda>t. [])" _ "\<lambda>t. False"])
    show "nested_ok pc_Location (\<lambda>t. []) ctx" if "declared_fully (package_resource pk cfg d) ctx" for ctx
      using that e p
      by (auto simp: declared_fully_def proper_def plain_resource [OF p] nested_entry_def plain_entry_def nested_ok_def has_parent_def split: option.splits)
  qed (use e assms(3,4) in \<open>simp_all add: plain_resource [OF p] nested_entry_def global_scope_def\<close>)
qed

lemma filestore_placed:
  "d \<in> set (pk_Definitions filestore_package) \<Longrightarrow> placed (package_resource filestore_package cfg d) filestorePathBuilder (nested_canon pc_Location)"
  by (rule nested_like [of _ extractFilestoreNativeID])
    (use filestore.addressed_axioms in
      \<open>simp_all add: nested_entry_def package_defs filestore_definitions_def entry_checks filestorePathBuilder_def\<close>)

lemma analyticshub_placed:
  "d \<in> set (pk_Definitions analyticshub_package) \<Longrightarrow>
     placed (package_resource analyticshub_package cfg d) analyticsHubPathBuilder (nested_canon pc_Location)"
  by (rule nested_like [of _ extractAnalyticsHubNativeID])
    (use analyticshub.addressed_axioms in
      \<open>auto simp: nested_entry_def package_defs analyticshub_definitions_def entry_checks analyticsHubPathBuilder_def nestedParent_def\<close>)

lemma artifactregistry_placed:
  "d \<in> set (pk_Definitions artifactregistry_package) \<Longrightarrow>
     placed (package_resource artifactregistry_package cfg d) artifactRegistryPathBuilder (nested_canon pc_Location)"
  by (rule nested_like [of _ extractArtifactRegistryNativeID])
    (use artifactregistry.addressed_axioms in
      \<open>simp_all add: nested_entry_def package_defs artifactregistry_definitions_def entry_checks artifactRegistryPathBuilder_def\<close>)

lemma ca_placed:
  "d \<in> set (pk_Definitions ca_package) \<Longrightarrow> placed (package_resource ca_package cfg d) certificateAuthorityPathBuilder (nested_canon pc_Location)"
  by (rule nested_like [of _ extractCaPoolNativeID])
    (use privateca.addressed_axioms in \<open>simp_all add: nested_entry_def package_defs ca_definitions_def entry_checks\<close>)

lemma parametermanager_entries:
  "list_all (nested_entry parametermanager_package extractParameterManagerNativeID parameter_parentCollectionOf (\<lambda>t. t = ''parameters''))
     (pk_Definitions parametermanager_package)"
  by (simp add: nested_entry_def package_defs parametermanager_definitions_def entry_checks parameter_parentCollectionOf_def)

lemma parametermanager_placed:
  "d \<in> set (pk_Definitions parametermanager_package) \<Longrightarrow>
     placed (package_resource parametermanager_package cfg d) parameterManagerPathBuilder (nested_canon (\<lambda>ctx. parameter_globalLocation))"
  unfolding parameterManagerPathBuilder_def
  by (rule nested_package [OF parametermanager_entries])
    (use parametermanager.nested_addressed_axioms in
      \<open>auto simp: package_defs parametermanager_definitions_def entry_checks parameterManagerPathBuilder_def parameter_globalLocation_def\<close>)

lemma package_resource_own:
  "b_APIConfig (package_resource pk cfg d) = (if ac_BaseURL (rd_APIConfig d) = [] then pk_API pk else rd_APIConfig d)"
  "b_NativeIDConfig (package_resource pk cfg d) = (if ni_Format (rd_NativeIDConfig d) = NoFormat then pk_NativeID pk else rd_NativeIDConfig d)"
  by (simp_all add: package_resource_def base_resource_def complete_definition_def NewResourceRegistry_def)

lemmas alloydb_checks = package_resource_own package_resource_sel alloydb_definitions_def package_defs entry_checks located_type_def zero_api_def
  zero_native_id_def global_scope_def declared_fully_def proper_def seg_def

lemma alloydb_located_placed:
  "i \<in> {0, 3} \<Longrightarrow> placed (package_resource alloydb_package cfg (alloydb_definitions ! i)) alloyDBPathBuilder located"
  by (rule placedI [of _ extractAlloyDBNativeID _ "\<lambda>ctx. location_ok ctx \<and> \<not> pc_IsList ctx \<and> pc_ParentResource ctx = []" _ "\<lambda>t. False"])
    (use alloydb.addressed_axioms in \<open>auto simp: alloydb_checks location_ok_def\<close>)

lemma alloydb_instance_placed:
  "placed (package_resource alloydb_package cfg (alloydb_definitions ! 1)) alloyDBPathBuilder (nested_canon pc_Location)"
  by (rule placedI [of _ extractInstanceNativeID _ "cluster_ok ''instances''" _ "\<lambda>t. False"])
    (use alloydb_instances.addressed_axioms in
      \<open>auto simp: alloydb_checks cluster_ok_def nested_ok_def has_parent_def AlloyDBInstanceOperations_def AlloyDBInstanceNativeID_def
        ClusterScopedNativeID_def\<close>)

lemma alloydb_user_placed:
  "placed (package_resource alloydb_package cfg (alloydb_definitions ! 2)) alloyDBPathBuilder (nested_canon pc_Location)"
  by (rule placedI [of _ extractUserNativeID _ "cluster_ok ''users''" _ "\<lambda>t. False"])
    (use alloydb_users.addressed_axioms in
      \<open>auto simp: alloydb_checks cluster_ok_def nested_ok_def has_parent_def AlloyDBUserOperations_def AlloyDBUserNativeID_def
        ClusterScopedNativeID_def\<close>)

lemma alloydb_placed:
  fixes d :: "'w ResourceDefinition"
  assumes "d \<in> set (pk_Definitions alloydb_package)"
  shows "\<exists>path canon. placed (package_resource alloydb_package cfg d) path canon"
proof -
  obtain i where i: "i < length (alloydb_definitions :: 'w ResourceDefinition list)" "d = alloydb_definitions ! i"
    using assms by (auto simp: alloydb_package_def in_set_conv_nth)
  then have "i \<in> {0, 3} \<or> i = 1 \<or> i = 2" by (auto simp: alloydb_definitions_def)
  then show ?thesis unfolding i(2) using alloydb_located_placed alloydb_instance_placed alloydb_user_placed by metis
qed

lemmas project_checks = orgpolicy_package_def OrgPolicyAPI_def OrgPolicyOperations_def orgPolicyPathBuilder_def orgpolicy_definitions_def
  essentialcontacts_package_def EssentialContactsAPI_def EssentialContactsOperations_def essentialContactsPathBuilder_def
  essentialcontacts_definitions_def package_resource_sel zero_operations_def zero_resource_def declared_fully_def project_ok_def proper_def seg_def

lemma orgpolicy_placed:
  "d \<in> set (pk_Definitions orgpolicy_package) \<Longrightarrow> placed (package_resource orgpolicy_package cfg d) orgPolicyPathBuilder project_canon"
  by (rule placedI [of _ extractOrgPolicyNativeID _ "project_ok (\<lambda>kind. kind = ''policies'')" _ "\<lambda>t. True"])
    (use orgpolicy.addressed_axioms in \<open>auto simp: project_checks\<close>)

lemma essentialcontacts_placed:
  "d \<in> set (pk_Definitions essentialcontacts_package) \<Longrightarrow>
     placed (package_resource essentialcontacts_package cfg d) essentialContactsPathBuilder project_canon"
  by (rule placedI [of _ extractEssentialContactsNativeID _ "project_ok (\<lambda>kind. True)" _ "\<lambda>t. True"])
    (use essentialcontacts.addressed_axioms in \<open>auto simp: project_checks\<close>)

lemmas sd_checks = servicedirectory_package_def ServiceDirectoryAPI_def ServiceDirectoryOperations_def servicedirectory_definitions_def
  package_resource_sel zero_operations_def zero_resource_def masked_type_def required_parent_def required_grandparent_def global_scope_def

lemma servicedirectory_declared:
  assumes "d \<in> set servicedirectory_definitions" and "declared_fully (package_resource servicedirectory_package cfg d) ctx"
  shows "deep_ok sd_root sd_levels ctx"
proof -
  have "rc_Scope (rd_ResourceConfig d) = Some ScopeLocationBased" using assms(1) by (auto simp: sd_checks)
  then have "list_all proper (sd_root ctx)" "proper (pc_ResourceName ctx)" "\<not> pc_IsList ctx"
    using assms(2) by (simp_all add: declared_fully_def package_resource_sel sd_root_def proper_def seg_def)
  moreover have "d = servicedirectory_definitions ! 0 \<or> d = servicedirectory_definitions ! 1 \<or> d = servicedirectory_definitions ! 2"
    using assms(1) by (auto simp: servicedirectory_definitions_def)
  ultimately show ?thesis using assms(2) unfolding deep_ok_def sd_levels_def
    by (elim disjE) (simp_all add: declared_fully_def sd_checks sd_root_def)
qed

lemma servicedirectory_placed:
  assumes "d \<in> set (pk_Definitions servicedirectory_package)"
  shows "placed (package_resource servicedirectory_package cfg d) serviceDirectoryPathBuilder deep_canon"
proof (rule placedI [of _ extractServiceDirectoryNativeID _ "deep_ok sd_root sd_levels" _ "\<lambda>t. False"])
  have d: "d \<in> set servicedirectory_definitions" using assms by (simp add: servicedirectory_package_def)
  then show "deep_ok sd_root sd_levels ctx" if "declared_fully (package_resource servicedirectory_package cfg d) ctx" for ctx
    using servicedirectory_declared that by blast
qed (use assms servicedirectory.addressed_axioms in \<open>auto simp: sd_checks\<close>)

section \<open>Properties\<close>

lemma package_tables:
  "pk_Definitions kms_package = kms_definitions" "pk_Definitions vpcaccess_package = vpcaccess_definitions"
  "pk_Definitions gkebackup_package = gkebackup_definitions" "pk_Definitions workflows_package = workflows_definitions"
  "pk_Definitions redis_package = redis_definitions" "pk_Definitions scheduler_package = scheduler_definitions"
  "pk_Definitions tasks_package = tasks_definitions" "pk_Definitions memcache_package = memcache_definitions"
  "pk_Definitions clouddeploy_package = clouddeploy_definitions"
  "pk_Definitions certificatemanager_package = certificatemanager_definitions"
  "pk_Definitions networkservices_package = networkservices_definitions"
  "pk_Definitions networksecurity_package = networksecurity_definitions"
  "pk_Definitions networkconnectivity_package = networkconnectivity_definitions"
  "pk_Definitions parametermanager_package = parametermanager_definitions" "pk_Definitions datastream_package = datastream_definitions"
  "pk_Definitions orgpolicy_package = orgpolicy_definitions" "pk_Definitions essentialcontacts_package = essentialcontacts_definitions"
  by (simp_all add: package_defs datastream_package_def orgpolicy_package_def essentialcontacts_package_def)

lemmas all_placed = kms_placed vpcaccess_placed gkebackup_placed workflows_placed redis_placed scheduler_placed tasks_placed
  memcache_placed clouddeploy_placed certificatemanager_placed networkservices_placed networksecurity_placed
  networkconnectivity_placed [unfolded package_tables] parametermanager_placed [unfolded package_tables]

lemma all_packages_placed:
  "list_all (\<lambda>pk. \<forall>d \<in> set (pk_Definitions pk). \<exists>path canon. placed (package_resource pk cfg d) path canon) located_packages"
  unfolding located_packages_def list.pred_inject package_tables
  by (intro conjI ballI exI list.pred_inject(1); erule all_placed)

lemma overridden_packages_placed:
  "list_all (\<lambda>pk. \<forall>d \<in> set (pk_Definitions pk). \<exists>path canon. placed (package_resource pk cfg d) path canon) overridden_packages"
  unfolding overridden_packages_def list.pred_inject
  by (intro conjI ballI list.pred_inject(1);
      (erule alloydb_placed | intro exI, erule filestore_placed analyticshub_placed artifactregistry_placed ca_placed servicedirectory_placed))

lemma project_packages_placed:
  "list_all (\<lambda>pk. \<forall>d \<in> set (pk_Definitions pk). \<exists>path canon. placed (package_resource pk cfg d) path canon) project_packages"
  unfolding project_packages_def list.pred_inject
  by (intro conjI ballI exI list.pred_inject(1); erule orgpolicy_placed essentialcontacts_placed)

lemma packages_placed:
  assumes "pk \<in> set (located_packages @ overridden_packages)" and "d \<in> set (pk_Definitions pk)"
  shows "\<exists>path canon. placed (package_resource pk cfg d) path canon"
  using assms all_packages_placed [unfolded list_all_iff] overridden_packages_placed [unfolded list_all_iff]
  unfolding set_append by blast

section \<open>Initialisation\<close>

text \<open>
  The initialisers run one after another, each with a registry of its own; one whose table is refused
  panics. Where a registry lives in memory is its number.
\<close>

fun init_packages :: "nat \<Rightarrow> 'w package list \<Rightarrow> 'w registries \<Rightarrow> (goerr, 'w registries) outcome" where
  "init_packages i [] R = Ok R"
| "init_packages i (pk # pks) R =
     (case RegisterAll i (pk_Definitions pk)
             (R\<lparr>gr_store := (gr_store R)(i \<mapsto> NewResourceRegistry (pk_API pk) (pk_Operations pk) (pk_NativeID pk))\<rparr>) of
        (None, Ok R1) \<Rightarrow> init_packages (Suc i) pks R1
      | (None, Panic p) \<Rightarrow> Panic p
      | (_, _) \<Rightarrow> Panic ''registration failed'')"

lemma RegisterAll_store: "RegisterAll i defs R = (None, Ok R') \<Longrightarrow> j \<noteq> i \<Longrightarrow> gr_store R' j = gr_store R j"
proof (induction defs arbitrary: R)
  case (Cons d defs)
  then obtain R1 where "Register i d R = Ok R1" "RegisterAll i defs R1 = (None, Ok R')" by (auto split: outcome.splits)
  then show ?case using Cons by (auto simp: Register_def Let_def split: if_splits option.splits)
qed simp

definition serves :: "'w registries \<Rightarrow> 'w package \<Rightarrow> bool" where
  "serves R pk \<longleftrightarrow> (\<forall>d \<in> set (pk_Definitions pk). \<forall>operation \<in> set (entry_operations d). \<forall>E cfg.
     Get E R (rd_Type d) operation cfg = Ok (Some (UnifiedProvisioner E (package_resource pk cfg d))))"

text \<open>A registry that holds a package's entries and stays, with the table's entries for its types, serves it.\<close>

definition holds :: "'w registries \<Rightarrow> nat \<Rightarrow> 'w package \<Rightarrow> bool" where
  "holds R i pk \<longleftrightarrow> (\<exists>r. gr_store R i = Some r
     \<and> (\<forall>d \<in> set (pk_Definitions pk).
          rg_Definitions r (rd_Type d)
            = Some (complete_definition (NewResourceRegistry (pk_API pk) (pk_Operations pk) (pk_NativeID pk)) d)
          \<and> (\<forall>operation \<in> set (entry_operations d).
               \<exists>m. gr_table R (rd_Type d) = Some m \<and> m operation = Some (UnifiedFactory i (rd_Type d)))))"

lemma holds_serves: "holds R i pk \<Longrightarrow> serves R pk"
  unfolding holds_def serves_def by (fastforce simp: Get_def CreateProvisioner_def package_resource_def)

abbreviation package_types :: "'w package \<Rightarrow> string list" where
  "package_types pk \<equiv> map rd_Type (pk_Definitions pk)"

lemma init_packages_holds:
  assumes "distinct (concat (map package_types pks))" and "\<forall>pk \<in> set pks. [] \<notin> set (package_types pk)"
  shows "\<exists>R'. init_packages i pks R = Ok R'
    \<and> (\<forall>pk \<in> set pks. \<exists>j. holds R' j pk)
    \<and> (\<forall>j < i. gr_store R' j = gr_store R j)
    \<and> (\<forall>t. t \<notin> set (concat (map package_types pks)) \<longrightarrow> gr_table R' t = gr_table R t)"
  using assms
proof (induction pks arbitrary: i R)
  case (Cons pk pks)
  let ?r = "NewResourceRegistry (pk_API pk) (pk_Operations pk) (pk_NativeID pk)"
  let ?R = "R\<lparr>gr_store := (gr_store R)(i \<mapsto> ?r)\<rparr>"
  have named: "rd_Type d \<noteq> []" if "d \<in> set (pk_Definitions pk)" for d using Cons.prems(2) that by force
  have uniq: "distinct (package_types pk)" using Cons.prems(1) by simp
  obtain R1 r1 where 1: "RegisterAll i (pk_Definitions pk) ?R = (None, Ok R1)" "gr_store R1 i = Some r1"
      "\<forall>d \<in> set (pk_Definitions pk). rg_Definitions r1 (rd_Type d) = Some (complete_definition ?r d)"
      "\<forall>d \<in> set (pk_Definitions pk). \<forall>operation \<in> set (entry_operations d).
          \<exists>m. gr_table R1 (rd_Type d) = Some m \<and> m operation = Some (UnifiedFactory i (rd_Type d))"
      "\<forall>n. n \<notin> rd_Type ` set (pk_Definitions pk) \<longrightarrow> gr_table R1 n = gr_table ?R n \<and> rg_Definitions r1 n = rg_Definitions ?r n"
    using RegisterAll_defines [of ?R i ?r "pk_Definitions pk"] named uniq by auto
  obtain R2 where 2: "init_packages (Suc i) pks R1 = Ok R2" "\<forall>pk \<in> set pks. \<exists>j. holds R2 j pk"
      "\<forall>j < Suc i. gr_store R2 j = gr_store R1 j"
      "\<forall>t. t \<notin> set (concat (map package_types pks)) \<longrightarrow> gr_table R2 t = gr_table R1 t"
    using Cons.IH [of "Suc i" R1] Cons.prems by auto
  have table: "gr_table R2 (rd_Type d) = gr_table R1 (rd_Type d)" if "d \<in> set (pk_Definitions pk)" for d
    using 2(4) Cons.prems(1) that by force
  have "holds R2 i pk" unfolding holds_def using 1(2,3,4) 2(3) table by (intro exI [of _ r1]) simp
  moreover have "gr_store R2 j = gr_store R j" if "j < i" for j
    using 2(3) RegisterAll_store [OF 1(1), of j] that by simp
  moreover have "gr_table R2 t = gr_table R t" if "t \<notin> set (concat (map package_types (pk # pks)))" for t
    using 2(4) 1(5) that by auto
  ultimately show ?case using 1(1) 2(1,2) by auto
qed simp

lemmas all_tables = located_packages_def package_tables kms_definitions_def vpcaccess_definitions_def gkebackup_definitions_def
  workflows_definitions_def redis_definitions_def scheduler_definitions_def tasks_definitions_def memcache_definitions_def
  clouddeploy_definitions_def certificatemanager_definitions_def networkservices_definitions_def networksecurity_definitions_def
  networkconnectivity_definitions_def parametermanager_definitions_def datastream_definitions_def
  project_packages_def orgpolicy_definitions_def essentialcontacts_definitions_def

lemma located_types_distinct: "distinct (concat (map package_types (datastream_package # located_packages @ project_packages)))"
  by (simp add: all_tables)

lemma located_types_elsewhere: "list_all (\<lambda>t. t \<noteq> [] \<and> \<not> HasPrefix t ''GCP::Compute::'') (concat (map package_types (datastream_package # located_packages @ project_packages)))"
  by (simp add: all_tables)

lemma compute_types_prefixed: "list_all (\<lambda>t. HasPrefix t ''GCP::Compute::'') (package_types compute_package)"
  by (simp add: compute_package_def compute_table)

lemma catalog_types_distinct: "distinct (concat (map package_types (table_packages :: 'w package list)))"
proof -
  have "set (package_types (compute_package :: 'w package)) \<inter> set (concat (map package_types (datastream_package # located_packages @ project_packages :: 'w package list))) = {}"
    using located_types_elsewhere [where 'a = 'w] compute_types_prefixed [where 'a = 'w] unfolding list_all_iff by blast
  then show ?thesis using compute_type_names located_types_distinct by (simp add: table_packages_def compute_package_def)
qed

lemma catalog_types_named: "pk \<in> set (table_packages :: 'w package list) \<Longrightarrow> [] \<notin> set (package_types pk)"
  using located_types_elsewhere [where 'a = 'w] compute_types_prefixed [where 'a = 'w]
  unfolding table_packages_def list_all_iff by fastforce

text \<open>
  C13: The packages, Compute among them, do not get in each other's way. Whatever is registered already, and in whatever order
  the packages are initialised, all their tables are accepted, and afterwards every type of every package
  has for each of its operations the generic resource configured as its own entry and package say.
\<close>
theorem packages_served:
  assumes "mset pks = mset table_packages"
  shows "\<exists>R'. init_packages i pks R = Ok R' \<and> (\<forall>pk \<in> set pks. serves R' pk)"
proof -
  have "mset (concat (map package_types pks)) = mset (concat (map package_types (table_packages :: 'a package list)))"
    using assms by (simp add: mset_concat sum_mset_sum_list [symmetric] del: sum_mset_sum_list)
  then have d: "distinct (concat (map package_types pks))" using catalog_types_distinct mset_eq_imp_distinct_iff by metis
  have "\<forall>pk \<in> set pks. [] \<notin> set (package_types pk)"
  proof
    fix pk assume "pk \<in> set pks"
    then have "pk \<in> set table_packages" using mset_eq_setD [OF assms] by simp
    then show "[] \<notin> set (package_types pk)" by (rule catalog_types_named)
  qed
  from init_packages_holds [OF d this, of i R] obtain R' where
      "init_packages i pks R = Ok R'" "\<forall>pk \<in> set pks. \<exists>j. holds R' j pk" by (elim exE conjE)
  then show ?thesis using holds_serves by (intro exI [of _ R']) fast
qed

text \<open>
  C12: What is created is where it is looked for. For every type of the fourteen packages served by their table
  alone and of the six that override a listing or a Delete: a completely declared resource, one whose project,
  name, location and parents as far as its type has them are each a single path segment, is created by one
  POST to its collection. If the API answers it without a name, with the name the resource has under the
  configured project, or, for an asynchronous package, with an operation, then the native ID reported is
  that full name, which leads Read, Update and Delete to the collection's path followed by the declared
  name, whatever target they are called with. Organization policies and essential contacts, which the API
  names itself, are not among these packages: see the lemmas on \<^const>\<open>project_named\<close>.
\<close>
theorem packages_found_again:
  fixes E :: "'w env"
  assumes "pk \<in> set (located_packages @ overridden_packages)" and "d \<in> set (pk_Definitions pk)" and "b = package_resource pk cfg d"
    and "ac_PathBuilder (b_APIConfig b) = Some path"
    and "unmarshal_map (cr_Properties request) = Inr m"
    and "ctx = buildPathContext b (cr_TargetConfig request) (UnwrapValues m)" and "declared_fully b ctx"
    and "answers_own (logged E) cfg s (oc_Synchronous (b_OperationConfig b)) (tl (path ctx))"
    and "Create (logged E) b request s = (Ok r, s')" and "pr_Status r \<noteq> OperationStatusFailure"
  shows "\<exists>req body url c. sent s' = sent s @ [req] \<and> hq_Method req = ''POST''
    \<and> transform_request b (UnwrapValues m) ctx OperationCreate = Ok body
    \<and> create_url b ctx (fst (create_id b body)) = Ok url \<and> AddQueryParam url ''alt'' ''json'' = Inr (hq_URL req)
    \<and> pr_NativeID r = tl (path ctx) \<and> ParseNativeID (b_NativeIDConfig b) (pr_NativeID r) = Inr c
    \<and> (\<forall>target. resource_url b (resource_context b target c)
         = Ok (ac_BaseURL (b_APIConfig b) @ path (ctx\<lparr>pc_ResourceName := []\<rparr>) @ ''/'' @ pc_ResourceName ctx))"
proof -
  obtain path' canon where p: "placed b path' canon" using packages_placed [OF assms(1,2)] assms(3) by blast
  then have "path' = path" using assms(4) by (auto simp: placed_def)
  then have p: "placed b path canon" using p by simp
  have "b_Config b = cfg" by (simp add: assms(3) package_resource_sel)
  then have "answers_own (logged E) (b_Config b) s (oc_Synchronous (b_OperationConfig b)) (tl (path ctx))" using assms(8) by simp
  from placed_created_found [OF p assms(7,6,5) this assms(9,10)] show ?thesis by blast
qed

section \<open>Witnesses\<close>

definition demo_registries :: "'w registries" where
  "demo_registries = \<lparr>gr_table = Map.empty, gr_store = Map.empty\<rparr>"

theorem packages_served_witness:
  "\<exists>R'. init_packages 0 (rev (table_packages :: demo_world package list)) demo_registries = Ok R' \<and> serves R' clouddeploy_package"
proof -
  have "mset (rev (table_packages :: demo_world package list)) = mset table_packages" by simp
  from packages_served [OF this, of 0 demo_registries] obtain R' where
      "init_packages 0 (rev table_packages) demo_registries = Ok R'"
      "\<forall>pk \<in> set (rev (table_packages :: demo_world package list)). serves R' pk" by blast
  moreover have "clouddeploy_package \<in> set (rev (table_packages :: demo_world package list))"
    by (simp add: table_packages_def located_packages_def)
  ultimately show ?thesis by blast
qed

definition demo_queue :: "demo_world BaseResource" where
  "demo_queue = package_resource tasks_package demo_cfg (hd tasks_definitions)"

lemma demo_queue_sel:
  "b_Config demo_queue = demo_cfg" "b_APIConfig demo_queue = TasksAPI" "b_OperationConfig demo_queue = TasksOperations"
  "b_RequestTransformer demo_queue = Some FullResourceNameExpander" "b_ResponseTransformer demo_queue = Some ShortNameResponseTransformer"
  "rc_ParentResource (b_ResourceConfig demo_queue) = None" "rc_Scope (b_ResourceConfig demo_queue) = Some ScopeLocationBased"
  "rc_ResourceType (b_ResourceConfig demo_queue) = ''queues''" "rc_CreateIDParam (b_ResourceConfig demo_queue) = []"
  "rc_RequestWrapper (b_ResourceConfig demo_queue) = []"
  by (simp_all add: demo_queue_def tasks_definitions_def package_resource_sel tasks_package_def zero_operations_def zero_resource_def)

definition demo_queue_props :: obj where
  "demo_queue_props = [(''name'', JStr ''q''), (''location'', JStr ''eu'')]"

definition demo_queue_create :: CreateRequest where
  "demo_queue_create = \<lparr>cr_ResourceType = ''T'', cr_TargetConfig = demo_target, cr_Properties = RawDoc (JObj demo_queue_props)\<rparr>"

definition demo_queue_ctx :: PathContext where
  "demo_queue_ctx = buildPathContext demo_queue demo_target demo_queue_props"

lemma demo_queue_unwrap: "UnwrapValues (Some demo_queue_props) = demo_queue_props"
  by (simp add: UnwrapValues_def obj_of_def unwrapValue_obj is_wrapper_def demo_queue_props_def)

lemma demo_queue_context:
  "pc_Project demo_queue_ctx = ''p''" "pc_Location demo_queue_ctx = ''eu''" "pc_ResourceType demo_queue_ctx = ''queues''"
  "pc_ResourceName demo_queue_ctx = ''q''" "pc_ParentType demo_queue_ctx = []" "pc_ParentResource demo_queue_ctx = []"
  "\<not> pc_IsList demo_queue_ctx" "pc_CustomSegments demo_queue_ctx = []"
  by (simp_all add: demo_queue_ctx_def buildPathContext_def Let_def create_scope_def parent_context_def demo_queue_sel
      demo_queue_props_def demo_target_path empty_ctx_def)

lemma demo_queue_placed: "declared_fully demo_queue demo_queue_ctx"
  by (simp add: declared_fully_def proper_def demo_queue_context demo_queue_sel)

definition demo_queue_body :: obj where
  "demo_queue_body = [(''name'', JStr ''projects/p/locations/eu/queues/q''), (''location'', JStr ''eu'')]"

lemma demo_queue_transformed:
  "transform_request demo_queue demo_queue_props demo_queue_ctx OperationCreate = Ok (Some demo_queue_body)"
  by (simp add: transform_request_def demo_queue_sel FullResourceNameExpander_def demo_queue_props_def buildTransformContext_def
      demo_queue_context location_path_def demo_queue_body_def obj_of_def)

definition demo_queue_url :: string where
  "demo_queue_url = ''https://cloudtasks.googleapis.com/v2/projects/p/locations/eu/queues''"

lemma demo_queue_urls: "create_url demo_queue demo_queue_ctx [] = Ok demo_queue_url" "Parse demo_queue_url \<noteq> None"
  by (simp_all add: create_url_def CollectionURL_def build_url_def NewURLBuilder_def demo_queue_sel TasksAPI_def LocationPathBuilder_def
      location_path_def demo_queue_context demo_queue_url_def Parse_def before_def control_char_def Let_def)

lemma demo_queue_answers: "answers_own (logged script_env) demo_cfg (script_at [scripted 200 (JObj [])] []) True full"
  unfolding answers_own_def demo_NewClient
proof (intro allI impI)
  fix client s1 opts resp s2
  assume "(Inr demo_client, script_at [scripted 200 (JObj [])] []) = (Inr client, s1)"
    and q: "SendRequest (logged script_env) client opts s1 = (Inr resp, s2)"
  then have s1: "s1 = script_at [scripted 200 (JObj [])] []" by simp
  show "own_answer True full (obj_of (rs_Body resp))"
    using q by (rule SendRequest_cases)
      (auto simp: s1 script_at_def script_start_def logged_def script_env_def scripted_def decode_body_def own_answer_def
        target_of_operation_def obj_of_def split: if_splits)
qed

lemma demo_queue_run:
  "\<exists>r s'. Create (logged script_env) demo_queue demo_queue_create (script_at [scripted 200 (JObj [])] []) = (Ok r, s')
     \<and> pr_Status r = OperationStatusSuccess"
proof -
  obtain req where "SendRequest (logged script_env) demo_client (request_options ''POST'' demo_queue_url (Some demo_queue_body))
      (script_at [scripted 200 (JObj [])] [])
      = (Inr \<lparr>rs_StatusCode = 200, rs_Body = Some [], rs_Headers = []\<rparr>, script_at [] [req])"
    using script_send [OF demo_queue_urls(2) methods_ok(2), of "Some demo_queue_body" "[]" "[]" "[]"]
    by (auto simp: demo_queue_body_def)
  then show ?thesis
    by (simp add: Create_def demo_queue_sel demo_NewClient demo_queue_create_def demo_queue_unwrap demo_queue_ctx_def [symmetric]
        missing_second_def demo_queue_transformed send_create_def create_id_def demo_queue_urls wrap_body_def Let_def
        handleSynchronousCreate_def TasksOperations_def call_native_id_def transform_response_def ShortNameResponseTransformer_def
        Marshal_def obj_of_def map_value_def)
qed

theorem packages_found_again_witness:
  "\<exists>r s' c. Create (logged script_env) demo_queue demo_queue_create (script_at [scripted 200 (JObj [])] []) = (Ok r, s')
     \<and> pr_NativeID r = ''projects/p/locations/eu/queues/q'' \<and> ParseNativeID TasksNativeID (pr_NativeID r) = Inr c
     \<and> resource_url demo_queue (resource_context demo_queue demo_target c)
         = Ok ''https://cloudtasks.googleapis.com/v2/projects/p/locations/eu/queues/q''"
proof -
  have mem: "tasks_package \<in> set (located_packages @ overridden_packages :: demo_world package list)" "hd tasks_definitions \<in> set (pk_Definitions tasks_package)"
    by (simp_all add: located_packages_def package_tables tasks_definitions_def)
  have path: "ac_PathBuilder (b_APIConfig demo_queue) = Some LocationPathBuilder" by (simp add: demo_queue_sel TasksAPI_def)
  have m: "unmarshal_map (cr_Properties demo_queue_create) = Inr (Some demo_queue_props)" by (simp add: demo_queue_create_def)
  have ctx: "demo_queue_ctx = buildPathContext demo_queue (cr_TargetConfig demo_queue_create) (UnwrapValues (Some demo_queue_props))"
    by (simp add: demo_queue_ctx_def demo_queue_create_def demo_queue_unwrap)
  have a: "answers_own (logged script_env) demo_cfg (script_at [scripted 200 (JObj [])] [])
      (oc_Synchronous (b_OperationConfig demo_queue)) (tl (LocationPathBuilder demo_queue_ctx))"
    using demo_queue_answers by (simp add: demo_queue_sel TasksOperations_def)
  obtain r s' where r: "Create (logged script_env) demo_queue demo_queue_create (script_at [scripted 200 (JObj [])] []) = (Ok r, s')"
      "pr_Status r = OperationStatusSuccess" using demo_queue_run by blast
  then have ok: "pr_Status r \<noteq> OperationStatusFailure" by simp
  from packages_found_again [OF mem demo_queue_def path m ctx demo_queue_placed a r(1) ok]
  show ?thesis using r(1)
    by (auto simp: demo_queue_sel TasksAPI_def LocationPathBuilder_def location_path_def demo_queue_context demo_queue_def
        package_resource_sel tasks_definitions_def tasks_package_def)
qed

end
