(* ===== verification/Walks.thy ===== *)
theory Walks
  imports Base_Resource
begin

text \<open>
  Discovery of resources that only exist underneath another one. No endpoint spans the parents, so a
  package lists the parents first and asks each of them in turn. The packages under
  \<^verbatim>\<open>src/pkg/resources\<close> repeat the same loops; this theory has the loops, and a record \<open>walker\<close> of
  what a package puts into them. A loop over pages ends only when the API sends an empty token, so
  everything that contains one returns an \<^typ>\<open>'a option\<close>, where \<^const>\<open>None\<close> is a loop that never ends.
\<close>

section \<open>Reading a collection\<close>

definition fetch :: "'w env \<Rightarrow> Client \<Rightarrow> string \<Rightarrow> 'w machine \<Rightarrow> (goerr + obj) \<times> 'w machine" where
  "fetch E client url s =
     (case SendRequest E client (request_options ''GET'' url None) s of
        (Inl e, s1) \<Rightarrow> (Inl e, s1)
      | (Inr response, s1) \<Rightarrow> (Inr (obj_of (rs_Body response)), s1))"

definition items_at :: "string \<Rightarrow> obj \<Rightarrow> obj list" where
  "items_at key body = (case as_arr (map_of body key) of None \<Rightarrow> [] | Some xs \<Rightarrow> objects xs)"

definition text_at :: "string \<Rightarrow> obj \<Rightarrow> string" where
  "text_at field item = string_or_empty (as_string (map_of item field))"

text \<open>The names of the items of a page, without those that have none.\<close>

definition names_at :: "string \<Rightarrow> string \<Rightarrow> obj \<Rightarrow> string list" where
  "names_at key field body = filter (\<lambda>n. n \<noteq> []) (map (text_at field) (items_at key body))"

definition page_token :: "obj \<Rightarrow> string" where
  "page_token body = text_at ''nextPageToken'' body"

partial_function (option) page_loop ::
    "'w env \<Rightarrow> Client \<Rightarrow> (obj \<Rightarrow> 'a list) \<Rightarrow> string \<Rightarrow> string \<Rightarrow> 'a list \<Rightarrow> 'w machine
      \<Rightarrow> ((goerr + 'a list) \<times> 'w machine) option" where
  "page_loop E client harvest url next found s =
     (if next = [] then Some (Inr found, s)
      else case fetch E client next s of
        (Inl e, s1) \<Rightarrow> Some (Inl e, s1)
      | (Inr body, s1) \<Rightarrow>
          (let found1 = found @ harvest body
           in if page_token body = [] then Some (Inr found1, s1)
              else case AddQueryParam url ''pageToken'' (page_token body) of
                Inl e \<Rightarrow> Some (Inl e, s1)
              | Inr u \<Rightarrow> page_loop E client harvest url u found1 s1))"

datatype paging = OnePage | EveryPage

definition read_collection ::
    "paging \<Rightarrow> 'w env \<Rightarrow> Client \<Rightarrow> (obj \<Rightarrow> 'a list) \<Rightarrow> string \<Rightarrow> 'w machine
      \<Rightarrow> ((goerr + 'a list) \<times> 'w machine) option" where
  "read_collection pg E client harvest url s =
     (case pg of
        EveryPage \<Rightarrow> page_loop E client harvest url url [] s
      | OnePage \<Rightarrow>
          (case fetch E client url s of
             (Inl e, s1) \<Rightarrow> Some (Inl e, s1)
           | (Inr body, s1) \<Rightarrow> Some (Inr (harvest body), s1)))"

section \<open>Visiting the parents\<close>

text \<open>What the readable parents hold, and the errors of the others, both in the order of the visits.\<close>

fun walk ::
    "('p \<Rightarrow> 'w machine \<Rightarrow> ((goerr + 'a list) \<times> 'w machine) option) \<Rightarrow> 'p list \<Rightarrow> 'a list \<Rightarrow> goerr list
      \<Rightarrow> 'w machine \<Rightarrow> (('a list \<times> goerr list) \<times> 'w machine) option" where
  "walk visit [] found errs s = Some ((found, errs), s)"
| "walk visit (p # ps) found errs s =
     (case visit p s of
        None \<Rightarrow> None
      | Some (Inl e, s1) \<Rightarrow> walk visit ps found (errs @ [e]) s1
      | Some (Inr xs, s1) \<Rightarrow> walk visit ps (found @ xs) errs s1)"

record walker =
  wk_start :: "TargetPath \<Rightarrow> string option"
  wk_start_paging :: paging
  wk_start_error :: "goerr \<Rightarrow> goerr"
  wk_parents :: "TargetPath \<Rightarrow> obj \<Rightarrow> string list"
  wk_collection :: "TargetPath \<Rightarrow> string \<Rightarrow> string"
  wk_paging :: paging
  wk_ids :: "TargetPath \<Rightarrow> string \<Rightarrow> obj \<Rightarrow> string list"
  wk_blind :: "(nat \<Rightarrow> string) option"

text \<open>
  \<open>wk_start\<close> is the collection of the parents, \<^const>\<open>None\<close> where the target leaves nothing to list;
  \<open>wk_blind\<close> is what a walk says when no parent at all could be read, \<^const>\<open>None\<close> in the packages that
  say nothing.
\<close>

definition no_ids :: ListResult where
  "no_ids = \<lparr>lr_NativeIDs = [], lr_NextPageToken = None\<rparr>"

definition found_ids :: "string list \<Rightarrow> ListResult" where
  "found_ids ids = \<lparr>lr_NativeIDs = ids, lr_NextPageToken = None\<rparr>"

definition walk_verdict ::
    "(nat \<Rightarrow> string) option \<Rightarrow> string list \<Rightarrow> string list \<Rightarrow> goerr list \<Rightarrow> (goerr, ListResult) outcome" where
  "walk_verdict blind parents ids errs =
     (case blind of
        None \<Rightarrow> Ok (found_ids ids)
      | Some text \<Rightarrow>
          if ids = [] \<and> 0 < length errs \<and> length errs = length parents
          then Err (errorf_w (text (length errs)) (last errs))
          else Ok (found_ids ids))"

type_synonym 'w walk_op = "'w machine \<Rightarrow> ((goerr, ListResult) outcome \<times> 'w machine) option"

definition visit_parent :: "walker \<Rightarrow> TargetPath \<Rightarrow> 'w env \<Rightarrow> Client \<Rightarrow> string \<Rightarrow> 'w machine
    \<Rightarrow> ((goerr + string list) \<times> 'w machine) option" where
  "visit_parent w path E client p s =
     read_collection (wk_paging w) E client (wk_ids w path p) (wk_collection w path p) s"

definition walk_under :: "walker \<Rightarrow> TargetPath \<Rightarrow> 'w env \<Rightarrow> Client \<Rightarrow> string list \<Rightarrow> 'w walk_op" where
  "walk_under w path E client parents s =
     (case walk (visit_parent w path E client) parents [] [] s of
        None \<Rightarrow> None
      | Some ((ids, errs), s1) \<Rightarrow> Some (walk_verdict (wk_blind w) parents ids errs, s1))"

definition walk_from :: "walker \<Rightarrow> TargetPath \<Rightarrow> 'w env \<Rightarrow> Client \<Rightarrow> string \<Rightarrow> 'w walk_op" where
  "walk_from w path E client url s =
     (case read_collection (wk_start_paging w) E client (wk_parents w path) url s of
        None \<Rightarrow> None
      | Some (Inl e, s1) \<Rightarrow> Some (Err (wk_start_error w e), s1)
      | Some (Inr parents, s1) \<Rightarrow> walk_under w path E client parents s1)"

definition walk_list :: "walker \<Rightarrow> 'w env \<Rightarrow> Config option \<Rightarrow> ListRequest \<Rightarrow> 'w walk_op" where
  "walk_list w E cfg request s =
     (let path = PathFromTargetConfig (ls_TargetConfig request)
      in case wk_start w path of
           None \<Rightarrow> Some (Ok no_ids, s)
         | Some url \<Rightarrow>
             (case NewClient E cfg s of
                (Inl e, s1) \<Rightarrow> Some (Err (client_error e), s1)
              | (Inr client, s1) \<Rightarrow> walk_from w path E client url s1))"

text \<open>A caller that names the parents is told by the generic list of the type.\<close>

definition names_parent :: "string list \<Rightarrow> ListRequest \<Rightarrow> bool" where
  "names_parent props request \<longleftrightarrow>
     list_all (\<lambda>p. string_or_empty (map_of (ls_AdditionalProperties request) p) \<noteq> []) props"

definition walk_or_delegate ::
    "string list \<Rightarrow> walker \<Rightarrow> 'w env \<Rightarrow> Config option \<Rightarrow> (ListRequest \<Rightarrow> ('w, ListResult) op) \<Rightarrow> ListRequest
      \<Rightarrow> 'w walk_op" where
  "walk_or_delegate props w E cfg delegate request s =
     (if names_parent props request then Some (delegate request s) else walk_list w E cfg request s)"

text \<open>The two sides of a list of results.\<close>

fun rights :: "('e + 'a) list \<Rightarrow> 'a list" where
  "rights [] = []"
| "rights (Inl e # rs) = rights rs"
| "rights (Inr x # rs) = x # rights rs"

fun lefts :: "('e + 'a) list \<Rightarrow> 'e list" where
  "lefts [] = []"
| "lefts (Inl e # rs) = e # lefts rs"
| "lefts (Inr x # rs) = lefts rs"

section \<open>A steady API\<close>

text \<open>
  An API that nobody else changes while a walk runs: what it answers to a GET depends on the request
  and not on what was asked before.
\<close>

definition steady :: "'w env \<Rightarrow> bool" where
  "steady E \<longleftrightarrow> (\<forall>w v req. hq_Method req = ''GET'' \<longrightarrow> fst (env_http_do E w req) = fst (env_http_do E v req))"

definition api_answer :: "'w env \<Rightarrow> Client \<Rightarrow> 'w machine \<Rightarrow> string \<Rightarrow> goerr + obj" where
  "api_answer E client s url = fst (fetch E client url s)"

lemma new_request_method: "new_request m url body hs = Inr req \<Longrightarrow> m \<noteq> [] \<Longrightarrow> hq_Method req = m"
  by (auto simp: new_request_def split: if_splits option.splits)

lemma steady_send:
  assumes "steady E" and "ro_Method opts = ''GET''"
  shows "fst (SendRequest E client opts s) = fst (SendRequest E client opts s0)"
proof -
  have same: "fst (env_http_do E (m_world s) req) = fst (env_http_do E (m_world s0) req)"
    if "new_request (ro_Method opts) u body hs = Inr req" for u body hs req
    using new_request_method [OF that] assms by (simp add: steady_def)
  show ?thesis
  proof (cases "request_body opts")
    case (Inr body)
    show ?thesis
    proof (cases "AddQueryParam (ro_URL opts) ''alt'' ''json''")
      case (Inr u)
      show ?thesis
      proof (cases "new_request (ro_Method opts) u body (request_headers client opts)")
        case (Inr req)
        obtain r w v where "env_http_do E (m_world s) req = (r, w)" "env_http_do E (m_world s0) req = (r, v)"
          using same [OF Inr] by (metis fst_conv surj_pair)
        with Inr \<open>AddQueryParam _ _ _ = Inr u\<close> \<open>request_body opts = Inr body\<close> show ?thesis
          by (cases r) (simp_all add: SendRequest_def)
      qed (use Inr \<open>request_body opts = Inr body\<close> in \<open>simp add: SendRequest_def\<close>)
    qed (use Inr in \<open>simp add: SendRequest_def\<close>)
  qed (simp add: SendRequest_def)
qed

lemma steady_fetch:
  assumes "steady E"
  shows "fst (fetch E client url s) = api_answer E client s0 url"
proof -
  have "ro_Method (request_options ''GET'' url None) = ''GET''" by (simp add: request_options_def)
  from steady_send [OF assms this, of client s s0] show ?thesis
    by (auto simp: fetch_def api_answer_def split: prod.splits sum.splits)
qed

lemma steady_fetchE:
  assumes "steady E"
  obtains s' where "fetch E client url s = (api_answer E client s0 url, s')"
  using steady_fetch [OF assms, of client url s s0] by (metis prod.collapse)

section \<open>What a collection holds\<close>

text \<open>
  The pages of a collection, read from the answers of the API: the items of every page up to the one
  without a token, or the error that stopped the reading.
\<close>

inductive paged ::
    "(string \<Rightarrow> goerr + obj) \<Rightarrow> (obj \<Rightarrow> 'a list) \<Rightarrow> string \<Rightarrow> string \<Rightarrow> goerr + 'a list \<Rightarrow> bool"
  for ask harvest url where
  ended: "paged ask harvest url [] (Inr [])"
| failed: "next \<noteq> [] \<Longrightarrow> ask next = Inl e \<Longrightarrow> paged ask harvest url next (Inl e)"
| last_page: "next \<noteq> [] \<Longrightarrow> ask next = Inr body \<Longrightarrow> page_token body = []
    \<Longrightarrow> paged ask harvest url next (Inr (harvest body))"
| stuck: "next \<noteq> [] \<Longrightarrow> ask next = Inr body \<Longrightarrow> page_token body \<noteq> []
    \<Longrightarrow> AddQueryParam url ''pageToken'' (page_token body) = Inl e \<Longrightarrow> paged ask harvest url next (Inl e)"
| next_page: "next \<noteq> [] \<Longrightarrow> ask next = Inr body \<Longrightarrow> page_token body \<noteq> []
    \<Longrightarrow> AddQueryParam url ''pageToken'' (page_token body) = Inr u \<Longrightarrow> paged ask harvest url u r
    \<Longrightarrow> paged ask harvest url next (map_sum id ((@) (harvest body)) r)"

text \<open>What a collection holds, over all its pages; and what a walk reads of it, which may be the first page only.\<close>

definition collection_holds :: "(string \<Rightarrow> goerr + obj) \<Rightarrow> (obj \<Rightarrow> 'a list) \<Rightarrow> string \<Rightarrow> goerr + 'a list \<Rightarrow> bool" where
  "collection_holds ask harvest url r \<longleftrightarrow> url \<noteq> [] \<and> paged ask harvest url url r"

fun collection_reads :: "paging \<Rightarrow> (string \<Rightarrow> goerr + obj) \<Rightarrow> (obj \<Rightarrow> 'a list) \<Rightarrow> string \<Rightarrow> goerr + 'a list \<Rightarrow> bool" where
  "collection_reads EveryPage ask harvest url r \<longleftrightarrow> paged ask harvest url url r"
| "collection_reads OnePage ask harvest url r \<longleftrightarrow> r = map_sum id harvest (ask url)"

text \<open>Where a walk reads one page, that page is the whole collection.\<close>

definition page_suffices :: "paging \<Rightarrow> (string \<Rightarrow> goerr + obj) \<Rightarrow> string \<Rightarrow> bool" where
  "page_suffices pg ask url \<longleftrightarrow> (pg = OnePage \<longrightarrow> (\<forall>body. ask url = Inr body \<longrightarrow> page_token body = []))"

lemma reads_what_is_held:
  assumes "collection_holds ask harvest url r" and "page_suffices pg ask url"
  shows "collection_reads pg ask harvest url r"
proof (cases pg)
  case OnePage
  have "paged ask harvest url url r" "url \<noteq> []" using assms(1) by (simp_all add: collection_holds_def)
  then show ?thesis using OnePage assms(2) by cases (auto simp: page_suffices_def)
qed (use assms in \<open>simp add: collection_holds_def\<close>)

lemma page_loop_reads:
  assumes "steady E" and "paged (api_answer E client s0) harvest url next r"
  shows "\<exists>s'. page_loop E client harvest url next found s = Some (map_sum id ((@) found) r, s')"
  using assms(2)
proof (induction arbitrary: found s rule: paged.induct)
  case ended
  show ?case by (simp add: page_loop.simps)
next
  case (failed page e)
  obtain s1 where "fetch E client page s = (api_answer E client s0 page, s1)" using steady_fetchE [OF assms(1)] .
  with failed show ?case by (simp add: page_loop.simps)
next
  case (last_page page body)
  obtain s1 where "fetch E client page s = (api_answer E client s0 page, s1)" using steady_fetchE [OF assms(1)] .
  with last_page show ?case by (simp add: page_loop.simps)
next
  case (stuck page body e)
  obtain s1 where "fetch E client page s = (api_answer E client s0 page, s1)" using steady_fetchE [OF assms(1)] .
  with stuck show ?case by (simp add: page_loop.simps)
next
  case (next_page page body u r)
  obtain s1 where s1: "fetch E client page s = (api_answer E client s0 page, s1)" using steady_fetchE [OF assms(1)] .
  obtain s2 where "page_loop E client harvest url u (found @ harvest body) s1 =
      Some (map_sum id ((@) (found @ harvest body)) r, s2)" using next_page.IH by blast
  with s1 next_page.hyps show ?case by (cases r) (simp_all add: page_loop.simps [of _ _ _ _ page])
qed

section \<open>What a walk finds\<close>

text \<open>
  The contract between a walk and what it visits: on a steady API a visit returns what it is said
  to read of the visited parent.
\<close>

locale visited =
  fixes visit :: "'w env \<Rightarrow> Client \<Rightarrow> 'p \<Rightarrow> 'w machine \<Rightarrow> ((goerr + 'a list) \<times> 'w machine) option"
    and contents :: "(string \<Rightarrow> goerr + obj) \<Rightarrow> 'p \<Rightarrow> goerr + 'a list \<Rightarrow> bool"
  assumes visits: "steady E \<Longrightarrow> contents (api_answer E c s0) p r \<Longrightarrow> \<exists>s'. visit E c p s = Some (r, s')"
begin

lemma walk_reads:
  assumes "steady E" and "list_all2 (contents (api_answer E c s0)) ps rs"
  shows "\<exists>s'. walk (visit E c) ps found errs s =
    Some ((found @ concat (rights rs), errs @ lefts rs), s')"
  using assms(2)
proof (induction ps rs arbitrary: found errs s rule: list_all2_induct)
  case (Cons p ps r rs)
  obtain s1 where v: "visit E c p s = Some (r, s1)" using visits [OF assms(1) Cons(1)] by blast
  show ?case
  proof (cases r)
    case (Inl e)
    with v Cons.IH [of found "errs @ [e]" s1] show ?thesis by auto
  next
    case (Inr xs)
    with v Cons.IH [of "found @ xs" errs s1] show ?thesis by auto
  qed
qed simp

lemma walk_returns:
  assumes "steady E" and "list_all (\<lambda>p. \<exists>r. contents (api_answer E c s0) p r) ps"
  shows "walk (visit E c) ps found errs s \<noteq> None"
proof -
  let ?C = "contents (api_answer E c s0)"
  have "list_all2 ?C ps (map (\<lambda>p. SOME r. ?C p r) ps)"
    using assms(2) by (auto simp: list_all2_map2 list_all2_same list_all_iff intro: someI_ex)
  from walk_reads [OF assms(1) this] show ?thesis by fastforce
qed

end

lemma read_collection_reads:
  assumes "steady E" and "collection_reads pg (api_answer E c s0) harvest url r"
  shows "\<exists>s'. read_collection pg E c harvest url s = Some (r, s')"
proof (cases pg)
  case OnePage
  obtain s1 where "fetch E c url s = (api_answer E c s0 url, s1)" using steady_fetchE [OF assms(1)] .
  with OnePage assms(2) show ?thesis by (cases "api_answer E c s0 url") (simp_all add: read_collection_def)
next
  case EveryPage
  with page_loop_reads [OF assms(1), of c s0 harvest url url r "[]" s] assms(2) show ?thesis
    by (cases r) (simp_all add: read_collection_def)
qed

interpretation collection: visited "\<lambda>E c url. read_collection pg E c harvest url" "\<lambda>ask url. collection_reads pg ask harvest url"
  for pg harvest
  by unfold_locales (rule read_collection_reads)

definition parent_reads :: "walker \<Rightarrow> TargetPath \<Rightarrow> (string \<Rightarrow> goerr + obj) \<Rightarrow> string \<Rightarrow> goerr + string list \<Rightarrow> bool" where
  "parent_reads w path ask p = collection_reads (wk_paging w) ask (wk_ids w path p) (wk_collection w path p)"

interpretation parents: visited "visit_parent w path" "parent_reads w path" for w path
  by unfold_locales (simp add: visit_parent_def parent_reads_def read_collection_reads)

lemma rights_lefts: "length (rights rs) + length (lefts rs) = length rs"
  by (induction rs rule: rights.induct) simp_all

lemma lefts_all: "length (lefts rs) = length rs \<longleftrightarrow> rights rs = []"
  using rights_lefts [of rs] by (metis add_cancel_right_left length_0_conv)

text \<open>No parent could be read.\<close>

definition all_unreadable :: "(goerr + string list) list \<Rightarrow> bool" where
  "all_unreadable rs \<longleftrightarrow> rs \<noteq> [] \<and> rights rs = []"

lemma walk_verdict_exact:
  assumes "length parents = length rs"
  shows "walk_verdict blind parents (concat (rights rs)) (lefts rs) =
     (case blind of
        Some text \<Rightarrow> if all_unreadable rs then Err (errorf_w (text (length rs)) (last (lefts rs)))
                     else Ok (found_ids (concat (rights rs)))
      | None \<Rightarrow> Ok (found_ids (concat (rights rs))))"
proof (cases "rights rs = []")
  case True
  with lefts_all [of rs] assms show ?thesis
    by (auto simp: walk_verdict_def all_unreadable_def split: option.split)
next
  case False
  with lefts_all [of rs] assms show ?thesis
    by (auto simp: walk_verdict_def all_unreadable_def split: option.split)
qed

lemma walk_under_finds:
  assumes "steady E" and "list_all2 (parent_reads w path (api_answer E c s0)) parents rs"
  shows "\<exists>s'. walk_under w path E c parents s =
     Some (walk_verdict (wk_blind w) parents (concat (rights rs)) (lefts rs), s')"
  using parents.walk_reads [OF assms, of "[]" "[]" s] by (auto simp: walk_under_def)

lemma walk_list_finds:
  assumes "steady E" and "NewClient E cfg s = (Inr c, s1)"
    and "wk_start w (PathFromTargetConfig (ls_TargetConfig request)) = Some url"
    and "collection_reads (wk_start_paging w) (api_answer E c s1) (wk_parents w (PathFromTargetConfig (ls_TargetConfig request))) url (Inr parents)"
    and "list_all2 (parent_reads w (PathFromTargetConfig (ls_TargetConfig request)) (api_answer E c s1)) parents rs"
  shows "\<exists>s'. walk_list w E cfg request s =
     Some (case wk_blind w of
        Some text \<Rightarrow> if all_unreadable rs then Err (errorf_w (text (length rs)) (last (lefts rs)))
                     else Ok (found_ids (concat (rights rs)))
      | None \<Rightarrow> Ok (found_ids (concat (rights rs))), s')"
proof -
  let ?path = "PathFromTargetConfig (ls_TargetConfig request)"
  obtain s2 where s2: "read_collection (wk_start_paging w) E c (wk_parents w ?path) url s1 = Some (Inr parents, s2)"
    using read_collection_reads [OF assms(1,4)] by blast
  obtain s3 where "walk_under w ?path E c parents s2 =
      Some (walk_verdict (wk_blind w) parents (concat (rights rs)) (lefts rs), s3)"
    using walk_under_finds [OF assms(1,5)] by blast
  with s2 assms(2,3) show ?thesis
    by (simp add: walk_list_def walk_from_def walk_verdict_exact [OF list_all2_lengthD [OF assms(5)]])
qed

lemma walk_list_unlisted:
  assumes "steady E" and "NewClient E cfg s = (Inr c, s1)"
    and "wk_start w (PathFromTargetConfig (ls_TargetConfig request)) = Some url"
    and "collection_reads (wk_start_paging w) (api_answer E c s1) (wk_parents w (PathFromTargetConfig (ls_TargetConfig request))) url (Inl e)"
  shows "\<exists>s'. walk_list w E cfg request s = Some (Err (wk_start_error w e), s')"
proof -
  let ?path = "PathFromTargetConfig (ls_TargetConfig request)"
  obtain s2 where "read_collection (wk_start_paging w) E c (wk_parents w ?path) url s1 = Some (Inl e, s2)"
    using read_collection_reads [OF assms(1,4)] by blast
  with assms(2,3) show ?thesis by (simp add: walk_list_def walk_from_def)
qed

section \<open>Walks that always return\<close>

text \<open>A walk that reads one page of each collection returns, whatever the API answers.\<close>

lemma read_one_page: "read_collection OnePage E client harvest url s \<noteq> None"
  by (auto simp: read_collection_def split: prod.splits sum.splits)

lemma walk_total:
  assumes "\<And>p s. visit p s \<noteq> None"
  shows "walk visit ps found errs s \<noteq> None"
proof (induction ps arbitrary: found errs s)
  case (Cons p ps)
  obtain r s1 where v: "visit p s = Some (r, s1)" using assms [of p s] by auto
  show ?case using Cons.IH v by (cases r) auto
qed simp

lemma walk_or_delegate_returns:
  assumes "wk_start_paging w = OnePage" and "wk_paging w = OnePage"
  shows "walk_or_delegate props w E cfg delegate request s \<noteq> None"
proof -
  have "visit_parent w path E client p t \<noteq> None" for path client p and t :: "'a machine"
    using read_one_page assms(2) by (simp add: visit_parent_def del: not_None_eq)
  then have "walk (visit_parent w path E client) parents [] [] t \<noteq> None" for path client parents and t :: "'a machine"
    by (rule walk_total)
  then have "walk_under w path E client parents t \<noteq> None" for path client parents and t :: "'a machine"
    by (auto simp: walk_under_def split: option.splits)
  then have "walk_from w path E client url t \<noteq> None" for path client url and t :: "'a machine"
    using read_one_page assms(1) by (auto simp: walk_from_def split: option.splits sum.splits)
  then show ?thesis
    by (auto simp: walk_or_delegate_def walk_list_def Let_def split: option.splits prod.splits sum.splits)
qed

section \<open>A served world\<close>

text \<open>An API that answers what a table holds for a URL, and refuses every other request, for concrete runs.\<close>

definition served_env :: "(string \<Rightarrow> obj option) \<Rightarrow> unit env" where
  "served_env f =
     \<lparr>env_getenv = (\<lambda>v. []), env_detect = (\<lambda>scopes src. Inr ''ambient''),
      env_parse_provider = (\<lambda>n. Inl (ErrText ''no provider'')),
      env_exchange = (\<lambda>w c. (Inl (ErrText ''no exchange''), w)),
      env_clock = (\<lambda>w. 0), env_ctx_err = (\<lambda>w. None), env_sleep = (\<lambda>w d. w),
      env_select_after = (\<lambda>w d. (None, w)), env_http_new = (\<lambda>opts. None),
      env_http_do = (\<lambda>w r. (case f (hq_URL r) of Some m \<Rightarrow> scripted 200 (JObj m) | None \<Rightarrow> scripted 404 JNull, w)),
      env_check_response = (\<lambda>r. if hr_StatusCode r < 300 then None else Some (script_error (hr_StatusCode r)))\<rparr>"

definition served_config :: Config where "served_config = zero_config\<lparr>c_Project := ''prj''\<rparr>"

definition served_start :: "unit machine" where
  "served_start = \<lparr>m_world = (), m_creds = Map.empty, m_log = []\<rparr>"

definition served_request :: ListRequest where
  "served_request = \<lparr>ls_ResourceType = [], ls_TargetConfig = RawDoc (JObj [(''project'', JStr ''prj''), (''location'', JStr ''eu'')]),
     ls_PageSize = 0, ls_PageToken = None, ls_AdditionalProperties = []\<rparr>"

definition served_path :: TargetPath where
  "served_path = \<lparr>tp_Project = ''prj'', tp_Region = [], tp_Zone = [], tp_Location = ''eu''\<rparr>"

lemma served_steady: "steady (served_env f)"
  by (simp add: steady_def served_env_def)

lemma served_client: "NewClient (served_env f) (Some served_config) s =
    (Inr \<lparr>cl_config = served_config, cl_userAgent = DefaultUserAgent\<rparr>, s)"
  by (simp add: NewClient_def served_config_def ToClientOptions_def effectiveAuth_def zero_config_def served_env_def Let_def)

lemma served_request_path: "PathFromTargetConfig (ls_TargetConfig served_request) = served_path"
  by (simp add: PathFromTargetConfig_def served_request_def served_path_def) code_simp

lemma served_unnamed: "props \<noteq> [] \<Longrightarrow> \<not> names_parent props served_request"
  by (cases props) (simp_all add: names_parent_def served_request_def string_or_empty_def)

lemma served_answer:
  assumes "AddQueryParam url ''alt'' ''json'' = Inr u"
  shows "api_answer (served_env f) client s url = (case f u of Some m \<Rightarrow> Inr m | None \<Rightarrow> Inl (script_error 404))"
proof -
  have "request_body (request_options ''GET'' url None) = Inr NoBody"
    by (simp add: request_body_def request_options_def)
  moreover obtain v where "Parse u = Some v" using AddQueryParam_sets [OF assms] by auto
  ultimately show ?thesis using assms methods_ok(1)
    by (auto simp: api_answer_def fetch_def SendRequest_def new_request_def request_options_def served_env_def scripted_def
        decode_body_def script_error_def obj_of_def split: option.split)
qed

end
