(* ===== verification/Walking_Lists.thy ===== *)
theory Walking_Lists
  imports Walks Service_Package
begin

text \<open>
  The packages that discover a type by walking its parents: what each of them puts into the loops of
  \<open>Walks\<close>, and its \<^verbatim>\<open>List\<close>. The delegate is the generic list of the type, which a caller that names
  the parent gets.
\<close>

section \<open>Pieces\<close>

definition location_or_region :: "TargetPath \<Rightarrow> string" where
  "location_or_region path = (if tp_Location path = [] then tp_Region path else tp_Location path)"

text \<open>\<^verbatim>\<open>transport.WrapError\<close> returned as an error, and \<^verbatim>\<open>fmt.Errorf\<close> with the error as its last verb.\<close>

definition wrapped :: "string \<Rightarrow> goerr \<Rightarrow> goerr" where
  "wrapped context e = terror_err (wrap_err e context)"

definition projects_path :: "string \<Rightarrow> string" where
  "projects_path s = (case from_projects s of None \<Rightarrow> s | Some p \<Rightarrow> p)"

text \<open>The names that contain a given collection segment.\<close>

definition paths_at :: "string \<Rightarrow> string \<Rightarrow> obj \<Rightarrow> string list" where
  "paths_at key segment body = filter (\<lambda>n. Contains n segment) (map (text_at ''name'') (items_at key body))"

section \<open>AlloyDB users\<close>

definition AlloyDB_BaseURL :: string where "AlloyDB_BaseURL = ''https://alloydb.googleapis.com/v1''"

definition user_walk :: walker where
  "user_walk =
     \<lparr>wk_start = (\<lambda>path. if tp_Project path = [] \<or> location_or_region path = [] then None
        else Some (AlloyDB_BaseURL @ ''/projects/'' @ tp_Project path @ ''/locations/'' @ location_or_region path @ ''/clusters'')),
      wk_start_paging = OnePage, wk_start_error = wrapped ''failed to list alloydb clusters'',
      wk_parents = (\<lambda>path. paths_at ''clusters'' ''/clusters/''),
      wk_collection = (\<lambda>path cluster. AlloyDB_BaseURL @ ''/'' @ cluster @ ''/users''), wk_paging = OnePage,
      wk_ids = (\<lambda>path cluster. paths_at ''users'' ''/users/''), wk_blind = None\<rparr>"

definition User_List where "User_List = walk_or_delegate [''cluster''] user_walk"

section \<open>Analytics Hub listings and query templates\<close>

definition collected_names :: "string \<Rightarrow> obj \<Rightarrow> string list" where
  "collected_names key body = map projects_path (names_at key ''name'' body)"

definition exchange_walk :: "string \<Rightarrow> string \<Rightarrow> walker" where
  "exchange_walk base_url kind =
     \<lparr>wk_start = (\<lambda>path. if tp_Location path = [] then None
        else Some (base_url @ ''/projects/'' @ tp_Project path @ ''/locations/'' @ tp_Location path @ ''/dataExchanges'')),
      wk_start_paging = EveryPage, wk_start_error = errorf_w ''failed to list data exchanges: '',
      wk_parents = (\<lambda>path. collected_names ''dataExchanges''),
      wk_collection = (\<lambda>path exchange. base_url @ ''/'' @ exchange @ ''/'' @ kind), wk_paging = EveryPage,
      wk_ids = (\<lambda>path exchange. collected_names kind), wk_blind = None\<rparr>"

definition Nested_List :: "'w env \<Rightarrow> 'w BaseResource \<Rightarrow> ListRequest \<Rightarrow> 'w walk_op" where
  "Nested_List E b =
     walk_or_delegate [''dataExchange''] (exchange_walk (ac_BaseURL (b_APIConfig b)) (rc_ResourceType (b_ResourceConfig b)))
       E (b_Config b) (List E b)"

section \<open>Filestore snapshots\<close>

definition snapshot_walk :: "string \<Rightarrow> walker" where
  "snapshot_walk base_url =
     \<lparr>wk_start = (\<lambda>path. if tp_Location path = [] then None
        else Some (base_url @ ''/projects/'' @ tp_Project path @ ''/locations/'' @ tp_Location path @ ''/instances'')),
      wk_start_paging = EveryPage, wk_start_error = errorf_w ''failed to list Filestore instances: '',
      wk_parents = (\<lambda>path. collected_names ''instances''),
      wk_collection = (\<lambda>path inst. base_url @ ''/'' @ inst @ ''/snapshots''), wk_paging = EveryPage,
      wk_ids = (\<lambda>path inst. collected_names ''snapshots''), wk_blind = None\<rparr>"

definition Snapshot_List :: "'w env \<Rightarrow> 'w BaseResource \<Rightarrow> ListRequest \<Rightarrow> 'w walk_op" where
  "Snapshot_List E b =
     walk_or_delegate [''instance''] (snapshot_walk (ac_BaseURL (b_APIConfig b))) E (b_Config b) (List E b)"

section \<open>Artifact Registry rules\<close>

definition ArtifactRegistry_BaseURL :: string where
  "ArtifactRegistry_BaseURL = ''https://artifactregistry.googleapis.com/v1''"

definition repositories_url :: "TargetPath \<Rightarrow> string" where
  "repositories_url path =
     ArtifactRegistry_BaseURL @ ''/projects/'' @ tp_Project path @ ''/locations/'' @ location_or_region path @ ''/repositories''"

definition rule_walk :: walker where
  "rule_walk =
     \<lparr>wk_start = (\<lambda>path. if tp_Project path = [] \<or> location_or_region path = [] then None else Some (repositories_url path)),
      wk_start_paging = OnePage, wk_start_error = wrapped ''failed to list artifact registry repositories'',
      wk_parents = (\<lambda>path. names_at ''repositories'' ''name''),
      wk_collection = (\<lambda>path repo. repositories_url path @ ''/'' @ after_last_slash repo @ ''/rules''), wk_paging = OnePage,
      wk_ids = (\<lambda>path repo. paths_at ''rules'' ''/rules/''), wk_blind = None\<rparr>"

definition ArtifactRule_List where "ArtifactRule_List = walk_or_delegate [''repository''] rule_walk"

section \<open>Cloud Logging views\<close>

definition Logging_BaseURL :: string where "Logging_BaseURL = ''https://logging.googleapis.com/v2''"

definition view_walk :: walker where
  "view_walk =
     \<lparr>wk_start = (\<lambda>path. if tp_Project path = [] then None
        else Some (Logging_BaseURL @ ''/projects/'' @ tp_Project path @ ''/locations/-/buckets'')),
      wk_start_paging = OnePage, wk_start_error = wrapped ''failed to list logging buckets'',
      wk_parents = (\<lambda>path. paths_at ''buckets'' ''/buckets/''),
      wk_collection = (\<lambda>path bucket. Logging_BaseURL @ ''/'' @ bucket @ ''/views''), wk_paging = OnePage,
      wk_ids = (\<lambda>path bucket. paths_at ''views'' ''/views/''), wk_blind = None\<rparr>"

definition View_List where "View_List = walk_or_delegate [''bucket''] view_walk"

section \<open>Cloud DNS\<close>

definition DNS_BaseURL :: string where "DNS_BaseURL = ''https://dns.googleapis.com/dns/v1''"

definition dns_policies_url :: "TargetPath \<Rightarrow> string" where
  "dns_policies_url path = DNS_BaseURL @ ''/projects/'' @ tp_Project path @ ''/responsePolicies''"

definition policy_rule_walk :: walker where
  "policy_rule_walk =
     \<lparr>wk_start = (\<lambda>path. if tp_Project path = [] then None else Some (dns_policies_url path)),
      wk_start_paging = OnePage, wk_start_error = wrapped ''failed to list DNS response policies'',
      wk_parents = (\<lambda>path. names_at ''responsePolicies'' ''responsePolicyName''),
      wk_collection = (\<lambda>path policy. dns_policies_url path @ ''/'' @ policy @ ''/rules''), wk_paging = OnePage,
      wk_ids = (\<lambda>path policy body.
        map (\<lambda>n. ''projects/'' @ tp_Project path @ ''/responsePolicies/'' @ policy @ ''/rules/'' @ n)
          (names_at ''responsePolicyRules'' ''ruleName'' body)),
      wk_blind = None\<rparr>"

definition PolicyRule_List where "PolicyRule_List = walk_or_delegate [''responsePolicy''] policy_rule_walk"

definition zones_url :: "TargetPath \<Rightarrow> string" where
  "zones_url path = DNS_BaseURL @ ''/projects/'' @ tp_Project path @ ''/managedZones''"

definition record_set_ids :: "string \<Rightarrow> string \<Rightarrow> obj \<Rightarrow> string list" where
  "record_set_ids project zone body =
     map (\<lambda>i. ''projects/'' @ project @ ''/managedZones/'' @ zone @ ''/rrsets/'' @ text_at ''name'' i @ ''/'' @ text_at ''type'' i)
       (filter (\<lambda>i. text_at ''name'' i \<noteq> [] \<and> text_at ''type'' i \<noteq> []) (items_at ''rrsets'' body))"

definition record_set_walk :: walker where
  "record_set_walk =
     \<lparr>wk_start = (\<lambda>path. if tp_Project path = [] then None else Some (zones_url path)),
      wk_start_paging = OnePage, wk_start_error = wrapped ''failed to list DNS managed zones'',
      wk_parents = (\<lambda>path. names_at ''managedZones'' ''name''),
      wk_collection = (\<lambda>path zone. zones_url path @ ''/'' @ zone @ ''/rrsets''), wk_paging = OnePage,
      wk_ids = (\<lambda>path zone. record_set_ids (tp_Project path) zone), wk_blind = None\<rparr>"

definition RecordSet_List where "RecordSet_List = walk_or_delegate [''managedZone''] record_set_walk"

text \<open>A response policy is no child, but names itself by another field than the generic list reads.\<close>

definition ResponsePolicy_List :: "'w env \<Rightarrow> Config option \<Rightarrow> ListRequest \<Rightarrow> ('w, ListResult) op" where
  "ResponsePolicy_List E cfg request s =
     (let path = PathFromTargetConfig (ls_TargetConfig request)
      in if tp_Project path = [] then (Ok no_ids, s)
         else case NewClient E cfg s of
           (Inl e, s1) \<Rightarrow> (Err (client_error e), s1)
         | (Inr client, s1) \<Rightarrow>
             (case fetch E client (dns_policies_url path) s1 of
                (Inl e, s2) \<Rightarrow> (Err (wrapped ''failed to list DNS response policies'' e), s2)
              | (Inr body, s2) \<Rightarrow>
                  (Ok (found_ids (map (\<lambda>n. ''projects/'' @ tp_Project path @ ''/responsePolicies/'' @ n)
                         (names_at ''responsePolicies'' ''responsePolicyName'' body))), s2)))"

section \<open>Bigtable\<close>

definition Bigtable_BaseURL :: string where "Bigtable_BaseURL = ''https://bigtableadmin.googleapis.com/v2''"

definition bigtable_instances_url :: "TargetPath \<Rightarrow> string" where
  "bigtable_instances_url path = Bigtable_BaseURL @ ''/projects/'' @ tp_Project path @ ''/instances''"

definition instance_walk :: "string \<Rightarrow> walker" where
  "instance_walk kind =
     \<lparr>wk_start = (\<lambda>path. if tp_Project path = [] then None else Some (bigtable_instances_url path)),
      wk_start_paging = OnePage, wk_start_error = wrapped ''failed to list bigtable instances'',
      wk_parents = (\<lambda>path. names_at ''instances'' ''name''),
      wk_collection = (\<lambda>path inst. bigtable_instances_url path @ ''/'' @ after_last_slash inst @ ''/'' @ kind),
      wk_paging = OnePage,
      wk_ids = (\<lambda>path inst body. filter (\<lambda>n. HasPrefix n ''projects/'') (map (text_at ''name'') (items_at kind body))),
      wk_blind = None\<rparr>"

definition Instance_List where "Instance_List kind = walk_or_delegate [''instance''] (instance_walk kind)"

definition bigtable_names :: "string \<Rightarrow> obj \<Rightarrow> string list" where
  "bigtable_names key body = map (\<lambda>n. if HasPrefix n ''/'' then tl n else n) (names_at key ''name'' body)"

definition backup_suffix :: "string \<Rightarrow> string" where
  "backup_suffix kind = (if kind = ''backups'' then ''clusters/-/backups'' else kind)"

definition bigtable_walk :: "string \<Rightarrow> string \<Rightarrow> walker" where
  "bigtable_walk base_url kind =
     \<lparr>wk_start = (\<lambda>path. if tp_Project path = [] then None
        else Some (base_url @ ''/projects/'' @ tp_Project path @ ''/instances'')),
      wk_start_paging = OnePage, wk_start_error = errorf_w ''failed to list Bigtable instances: '',
      wk_parents = (\<lambda>path. bigtable_names ''instances''),
      wk_collection = (\<lambda>path inst. base_url @ ''/'' @ inst @ ''/'' @ backup_suffix kind), wk_paging = OnePage,
      wk_ids = (\<lambda>path inst. bigtable_names kind),
      wk_blind = Some (\<lambda>n. ''could not list '' @ kind @ '' on any of '' @ nat_string n @ '' instances: '')\<rparr>"

text \<open>A named instance narrows this walk: a backup needs the cluster segment that only the walk supplies.\<close>

definition named_instance :: "TargetPath \<Rightarrow> string \<Rightarrow> string" where
  "named_instance path inst =
     (if HasPrefix inst ''projects/'' then inst else ''projects/'' @ tp_Project path @ ''/instances/'' @ inst)"

definition Bigtable_List :: "'w env \<Rightarrow> 'w BaseResource \<Rightarrow> ListRequest \<Rightarrow> 'w walk_op" where
  "Bigtable_List E b request s =
     (let path = PathFromTargetConfig (ls_TargetConfig request);
          w = bigtable_walk (ac_BaseURL (b_APIConfig b)) (rc_ResourceType (b_ResourceConfig b));
          inst = string_or_empty (map_of (ls_AdditionalProperties request) ''instance'')
      in case wk_start w path of
           None \<Rightarrow> Some (Ok no_ids, s)
         | Some url \<Rightarrow>
             (case NewClient E (b_Config b) s of
                (Inl e, s1) \<Rightarrow> Some (Err (client_error e), s1)
              | (Inr client, s1) \<Rightarrow>
                  if inst = [] then walk_from w path E client url s1
                  else walk_under w path E client [named_instance path inst] s1))"

section \<open>API Gateway\<close>

definition config_walk :: "string \<Rightarrow> walker" where
  "config_walk base_url =
     \<lparr>wk_start = (\<lambda>path. if tp_Project path = [] then None
        else Some (base_url @ ''/projects/'' @ tp_Project path @ ''/locations/global/apis'')),
      wk_start_paging = OnePage, wk_start_error = errorf_w ''failed to list api gateway apis: '',
      wk_parents = (\<lambda>path. names_at ''apis'' ''name''),
      wk_collection = (\<lambda>path api. base_url @ ''/'' @ api @ ''/configs''), wk_paging = OnePage,
      wk_ids = (\<lambda>path api. names_at ''apiConfigs'' ''name''),
      wk_blind = Some (\<lambda>n. ''could not list configs on any of '' @ nat_string n @ '' apis: '')\<rparr>"

definition ApiConfig_List :: "'w env \<Rightarrow> 'w BaseResource \<Rightarrow> ListRequest \<Rightarrow> 'w walk_op" where
  "ApiConfig_List E b =
     walk_or_delegate [''api''] (config_walk (ac_BaseURL (b_APIConfig b))) E (b_Config b) (List E b)"

definition Gateway_List :: "'w env \<Rightarrow> 'w BaseResource \<Rightarrow> ListRequest \<Rightarrow> ('w, ListResult) op" where
  "Gateway_List E b request s =
     (let path = PathFromTargetConfig (ls_TargetConfig request)
      in if tp_Project path = [] then (Ok no_ids, s)
         else case NewClient E (b_Config b) s of
           (Inl e, s1) \<Rightarrow> (Err (client_error e), s1)
         | (Inr client, s1) \<Rightarrow>
             (case fetch E client (ac_BaseURL (b_APIConfig b) @ ''/projects/'' @ tp_Project path @ ''/locations/-/gateways'') s1 of
                (Inl e, s2) \<Rightarrow> (Err (errorf_w ''failed to list api gateway gateways: '' e), s2)
              | (Inr body, s2) \<Rightarrow> (Ok (found_ids (names_at ''gateways'' ''name'' body)), s2)))"

section \<open>GKE node pools\<close>

definition pathFromSelfLink :: "obj \<Rightarrow> string" where
  "pathFromSelfLink cluster =
     (let link = text_at ''selfLink'' cluster in case Index link ''projects/'' of None \<Rightarrow> [] | Some i \<Rightarrow> drop i link)"

definition cluster_path :: "string \<Rightarrow> obj \<Rightarrow> string list" where
  "cluster_path project cluster =
     (let path = pathFromSelfLink cluster; name = text_at ''name'' cluster; location = text_at ''location'' cluster
      in if path \<noteq> [] then [path]
         else if name = [] \<or> location = [] then []
         else [''projects/'' @ project @ ''/locations/'' @ location @ ''/clusters/'' @ name])"

definition pool_walk :: "string \<Rightarrow> walker" where
  "pool_walk base_url =
     \<lparr>wk_start = (\<lambda>path. if tp_Project path = [] then None
        else Some (base_url @ ''/projects/'' @ tp_Project path @ ''/locations/-/clusters'')),
      wk_start_paging = OnePage, wk_start_error = errorf_w ''failed to list GKE clusters: '',
      wk_parents = (\<lambda>path body. concat (map (cluster_path (tp_Project path)) (items_at ''clusters'' body))),
      wk_collection = (\<lambda>path cluster. base_url @ ''/'' @ cluster @ ''/nodePools''), wk_paging = OnePage,
      wk_ids = (\<lambda>path cluster body. map (\<lambda>n. cluster @ ''/nodePools/'' @ n) (names_at ''nodePools'' ''name'' body)),
      wk_blind = None\<rparr>"

text \<open>The location of a named cluster must be concrete: the aggregate is not valid beneath a cluster.\<close>

definition pool_location :: "ListRequest \<Rightarrow> string" where
  "pool_location request =
     (let given = string_or_empty (map_of (ls_AdditionalProperties request) ''location'');
          target = tp_Location (PathFromTargetConfig (ls_TargetConfig request))
      in if given = [] \<and> target \<noteq> ''-'' then target else given)"

definition NodePool_List :: "'w env \<Rightarrow> 'w BaseResource \<Rightarrow> ListRequest \<Rightarrow> 'w walk_op" where
  "NodePool_List E b request s =
     (let path = PathFromTargetConfig (ls_TargetConfig request);
          w = pool_walk (ac_BaseURL (b_APIConfig b));
          parent = string_or_empty (map_of (ls_AdditionalProperties request) ''cluster'');
          location = pool_location request
      in if parent = [] then walk_list w E (b_Config b) request s
         else if location = [] \<or> location = ''-''
         then Some (Err (ErrText (''cannot list node pools for cluster '' @ quoted parent @ '' without a concrete location'')), s)
         else case NewClient E (b_Config b) s of
           (Inl e, s1) \<Rightarrow> Some (Err (client_error e), s1)
         | (Inr client, s1) \<Rightarrow>
             (case visit_parent w path E client
                     (''projects/'' @ tp_Project path @ ''/locations/'' @ location @ ''/clusters/'' @ parent) s1 of
                None \<Rightarrow> None
              | Some (Inl e, s2) \<Rightarrow>
                  Some (Err (errorf_w (''failed to list node pools for cluster '' @ quoted parent @ '': '') e), s2)
              | Some (Inr ids, s2) \<Rightarrow> Some (Ok (found_ids ids), s2)))"

section \<open>Unreadable parents hide nothing\<close>

text \<open>
  C16: A walk over an API that does not change meanwhile finds everything its readable parents hold, in order and
  over all pages, however many of the parents cannot be read. This is so for the walks that read every page; one that
  reads a single page finds as much where that page is the whole collection. Only when there are
  parents and none of them can be read does a walk with a message of its own fail, with the last parent's error,
  instead of reporting that nothing exists; and a walk whose parents cannot be listed fails with that error.
\<close>

theorem walk_finds_readable:
  assumes "steady E" and "NewClient E cfg s = (Inr c, s1)"
    and "path = PathFromTargetConfig (ls_TargetConfig request)" and "wk_start w path = Some url"
    and "collection_holds (api_answer E c s1) (wk_parents w path) url ps" and "page_suffices (wk_start_paging w) (api_answer E c s1) url"
    and "list_all2 (\<lambda>p r. collection_holds (api_answer E c s1) (wk_ids w path p) (wk_collection w path p) r
           \<and> page_suffices (wk_paging w) (api_answer E c s1) (wk_collection w path p)) (case ps of Inl e \<Rightarrow> [] | Inr parents \<Rightarrow> parents) rs"
  shows "\<exists>s'. walk_list w E cfg request s =
     Some (case ps of Inl e \<Rightarrow> Err (wk_start_error w e)
       | Inr parents \<Rightarrow>
           (case wk_blind w of
              Some text \<Rightarrow> if all_unreadable rs then Err (errorf_w (text (length rs)) (last (lefts rs)))
                           else Ok (found_ids (concat (rights rs)))
            | None \<Rightarrow> Ok (found_ids (concat (rights rs)))), s')"
proof (cases ps)
  case (Inl e)
  then show ?thesis
    using walk_list_unlisted [OF assms(1,2) assms(4) [unfolded assms(3)]] reads_what_is_held [OF assms(5,6)] assms(3) by simp
next
  case (Inr parents)
  have "list_all2 (parent_reads w path (api_answer E c s1)) parents rs"
    using assms(7) unfolding Inr sum.case by (rule list_all2_mono) (simp add: parent_reads_def reads_what_is_held)
  then show ?thesis
    using walk_list_finds [OF assms(1,2) assms(4) [unfolded assms(3)]] reads_what_is_held [OF assms(5,6)] assms(3) Inr by simp
qed

text \<open>Two apis, of which the first cannot be read, and the configs of the second.\<close>

definition half_readable :: "string \<Rightarrow> obj option" where
  "half_readable url =
     (if url = ''https://h/projects/prj/locations/global/apis?alt=json''
      then Some [(''apis'', JArr [JObj [(''name'', JStr ''a'')], JObj [(''name'', JStr ''b'')]])]
      else if url = ''https://h/b/configs?alt=json''
      then Some [(''apiConfigs'', JArr [JObj [(''name'', JStr ''b/configs/c'')]])]
      else None)"

theorem walk_finds_readable_witness:
  "\<exists>s'. walk_list (config_walk ''https://h'') (served_env half_readable) (Some served_config) served_request served_start
     = Some (Ok (found_ids [''b/configs/c'']), s')"
proof -
  have 1: "AddQueryParam ''https://h/projects/prj/locations/global/apis'' ''alt'' ''json''
      = Inr ''https://h/projects/prj/locations/global/apis?alt=json''" by code_simp
  have 2: "AddQueryParam ''https://h/a/configs'' ''alt'' ''json'' = Inr ''https://h/a/configs?alt=json''" by code_simp
  have 3: "AddQueryParam ''https://h/b/configs'' ''alt'' ''json'' = Inr ''https://h/b/configs?alt=json''" by code_simp
  have start: "wk_start (config_walk ''https://h'') served_path = Some ''https://h/projects/prj/locations/global/apis''"
    by (simp add: config_walk_def served_path_def)
  let ?ask = "api_answer (served_env half_readable) \<lparr>cl_config = served_config, cl_userAgent = DefaultUserAgent\<rparr> served_start"
  have a: "?ask ''https://h/projects/prj/locations/global/apis''
        = Inr [(''apis'', JArr [JObj [(''name'', JStr ''a'')], JObj [(''name'', JStr ''b'')]])]"
      "?ask ''https://h/a/configs'' = Inl (script_error 404)"
      "?ask ''https://h/b/configs'' = Inr [(''apiConfigs'', JArr [JObj [(''name'', JStr ''b/configs/c'')]])]"
    using served_answer [OF 1, of half_readable] served_answer [OF 2, of half_readable] served_answer [OF 3, of half_readable]
    by (simp_all add: half_readable_def)
  have one: "collection_holds ?ask harvest u (map_sum id harvest (?ask u)) \<and> page_suffices pg ?ask u"
    if "u \<noteq> []" "\<And>body. ?ask u = Inr body \<Longrightarrow> page_token body = []" for harvest :: "obj \<Rightarrow> string list" and u pg
    using that by (cases "?ask u") (auto simp: collection_holds_def page_suffices_def intro: paged.intros)
  have apis: "collection_holds ?ask (wk_parents (config_walk ''https://h'') served_path) ''https://h/projects/prj/locations/global/apis''
        (Inr [''a'', ''b''])"
      "page_suffices (wk_start_paging (config_walk ''https://h'')) ?ask ''https://h/projects/prj/locations/global/apis''"
    using one [of "''https://h/projects/prj/locations/global/apis''" "wk_parents (config_walk ''https://h'') served_path"] a(1)
    by (simp_all add: page_token_def config_walk_def names_at_def items_at_def text_at_def objects_def string_or_empty_def)
  have "list_all2 (\<lambda>p r. collection_holds ?ask (wk_ids (config_walk ''https://h'') served_path p) (wk_collection (config_walk ''https://h'') served_path p) r
         \<and> page_suffices (wk_paging (config_walk ''https://h'')) ?ask (wk_collection (config_walk ''https://h'') served_path p))
       (case Inr [''a'', ''b''] of Inl (e :: goerr) \<Rightarrow> [] | Inr parents \<Rightarrow> parents) [Inl (script_error 404), Inr [''b/configs/c'']]"
    using one [of "''https://h/a/configs''" "wk_ids (config_walk ''https://h'') served_path ''a''"]
      one [of "''https://h/b/configs''" "wk_ids (config_walk ''https://h'') served_path ''b''"] a(2,3)
    by (simp add: page_token_def config_walk_def names_at_def items_at_def text_at_def objects_def string_or_empty_def)
  from walk_finds_readable [OF served_steady served_client served_request_path [symmetric] start apis this]
  show ?thesis by (simp add: config_walk_def all_unreadable_def)
qed

end
