(* ===== verification/Storage.thy ===== *)
theory Storage
  imports Walking_Lists Compute_Transformers Compute_Verbs
begin

text \<open>
  Cloud Storage (\<^verbatim>\<open>src/pkg/resources/storage\<close>): the table of configured types, the native IDs of what
  lives in a bucket or on an object, the walks that discover it, and objects themselves, which are
  uploaded and read back byte by byte. An object's name may contain slashes, so both its native ID and
  its URL have to keep them apart from the slashes between segments.
\<close>

section \<open>Escaping a segment\<close>

text \<open>\<^verbatim>\<open>url.PathEscape\<close>.\<close>

definition segment_kept :: "char \<Rightarrow> bool" where
  "segment_kept c \<longleftrightarrow> unreserved c \<or> c \<in> set ''$&+:=@''"

definition PathEscape :: "string \<Rightarrow> string" where
  "PathEscape s = concat (map (\<lambda>c. if segment_kept c then [c] else percent c) s)"

section \<open>api.go\<close>

definition storagePathBuilder :: "PathContext \<Rightarrow> string" where
  "storagePathBuilder ctx =
     (let name = pc_ResourceName ctx; kind = pc_ResourceType ctx; parent = pc_ParentResource ctx
      in if kind = ''b'' then (if name \<noteq> [] then ''/b/'' @ name else ''/b?project='' @ pc_Project ctx)
         else if parent = [] then
           (if name \<noteq> [] then ''/projects/'' @ pc_Project ctx @ ''/'' @ kind @ ''/'' @ name
            else ''/projects/'' @ pc_Project ctx @ ''/'' @ kind)
         else case SplitN parent CHR ''/'' 2 of
           [bucket, object] \<Rightarrow>
             (if name \<noteq> [] then ''/b/'' @ bucket @ ''/o/'' @ PathEscape object @ ''/'' @ kind @ ''/'' @ name
              else ''/b/'' @ bucket @ ''/o/'' @ PathEscape object @ ''/'' @ kind)
         | _ \<Rightarrow>
             (if name \<noteq> [] then ''/b/'' @ parent @ ''/'' @ kind @ ''/'' @ PathEscape name
              else ''/b/'' @ parent @ ''/'' @ kind))"

definition buildStorageNativeID :: "string \<Rightarrow> PathContext \<Rightarrow> string" where
  "buildStorageNativeID name ctx =
     (let kind = pc_ResourceType ctx; parent = pc_ParentResource ctx
      in if kind = ''b'' then name
         else if parent = [] then ''projects/'' @ pc_Project ctx @ ''/'' @ kind @ ''/'' @ name
         else case SplitN parent CHR ''/'' 2 of
           [bucket, object] \<Rightarrow> ''b/'' @ bucket @ ''/o/'' @ object @ ''/'' @ kind @ ''/'' @ name
         | _ \<Rightarrow> ''b/'' @ parent @ ''/'' @ kind @ ''/'' @ name)"

text \<open>The first of these fields that is a string names the resource, even when it is empty.\<close>

fun first_text :: "string list \<Rightarrow> obj \<Rightarrow> string" where
  "first_text [] response = []"
| "first_text (k # ks) response = (case as_string (map_of response k) of Some s \<Rightarrow> s | None \<Rightarrow> first_text ks response)"

definition storage_name_fields :: "string list" where
  "storage_name_fields = [''accessId'', ''entity'', ''anywhereCacheId'', ''name'', ''id'']"

definition extractStorageNativeID :: "obj \<Rightarrow> PathContext \<Rightarrow> string" where
  "extractStorageNativeID response ctx =
     buildStorageNativeID (first_text storage_name_fields response) ctx"

definition parseStorageNativeID :: "string \<Rightarrow> goerr + PathContext" where
  "parseStorageNativeID nativeID =
     (let parts = Split nativeID CHR ''/''; n = length parts
      in if \<not> Contains nativeID ''/'' then Inr (empty_ctx\<lparr>pc_ResourceType := ''b'', pc_ResourceName := nativeID\<rparr>)
         else if 4 \<le> n \<and> hd parts = ''projects'' then
           Inr (empty_ctx\<lparr>pc_Project := parts ! 1, pc_ResourceType := parts ! 2, pc_ResourceName := parts ! 3\<rparr>)
         else if 4 \<le> n \<and> hd parts = ''b'' \<and> parts ! 2 \<noteq> ''o'' then
           Inr (empty_ctx\<lparr>pc_ParentResource := parts ! 1, pc_ResourceType := parts ! 2,
                  pc_ResourceName := Join (drop 3 parts) ''/''\<rparr>)
         else if 6 \<le> n \<and> hd parts = ''b'' \<and> parts ! 2 = ''o'' then
           Inr (empty_ctx\<lparr>pc_ParentResource := parts ! 1 @ ''/'' @ Join (drop 3 (take (n - 2) parts)) ''/'',
                  pc_ResourceType := parts ! (n - 2), pc_ResourceName := parts ! (n - 1)\<rparr>)
         else Inl (ErrText (''invalid storage native ID format: '' @ nativeID)))"

definition StorageAPI :: APIConfig where
  "StorageAPI = \<lparr>ac_BaseURL = ''https://storage.googleapis.com/storage/v1'', ac_APIVersion = ''v1'',
     ac_PathBuilder = Some storagePathBuilder, ac_Pagination = None\<rparr>"

definition StorageOperations :: OperationConfig where
  "StorageOperations = synchronous_operations extractStorageNativeID"

definition StorageNativeID :: NativeIDConfig where
  "StorageNativeID = path_native_id (Some parseStorageNativeID)"

section \<open>Bodies\<close>

definition bucketScopedBodyBuilder :: request_transformer where
  "bucketScopedBodyBuilder props ctx = Ok (Some (without [''bucket''] (obj_of props)))"

definition aclBodyBuilder :: request_transformer where
  "aclBodyBuilder props ctx = Ok (Some (without [''bucket''] (obj_of props)))"

definition objectAclBodyBuilder :: request_transformer where
  "objectAclBodyBuilder props ctx = Ok (Some (without [''bucket'', ''object''] (obj_of props)))"

definition bucket_fields :: "string list" where
  "bucket_fields = [''name'', ''location'', ''storageClass'', ''labels'', ''versioning'', ''cors'', ''website'', ''encryption'',
     ''logging'', ''retentionPolicy'', ''rpo'', ''iamConfiguration'', ''hierarchicalNamespace'']"

definition copied :: "string list \<Rightarrow> obj \<Rightarrow> obj" where
  "copied ks props = concat (map (\<lambda>k. case map_of props k of None \<Rightarrow> [] | Some v \<Rightarrow> [(k, v)]) ks)"

text \<open>Setting a field of the IAM configuration, which is made when it is absent or null and must be an object otherwise.\<close>

definition set_iam :: "string \<Rightarrow> json \<Rightarrow> obj \<Rightarrow> (goerr, obj) outcome" where
  "set_iam k v body =
     (case map_of body ''iamConfiguration'' of
        None \<Rightarrow> Ok (AList.update ''iamConfiguration'' (JObj [(k, v)]) body)
      | Some JNull \<Rightarrow> Ok (AList.update ''iamConfiguration'' (JObj [(k, v)]) body)
      | Some (JObj m) \<Rightarrow> Ok (AList.update ''iamConfiguration'' (JObj (AList.update k v m)) body)
      | Some other \<Rightarrow> Panic (''interface conversion: interface {} is '' @ type_name (Some other)
                                 @ '', not map[string]interface {}''))"

definition bucketBodyBuilder :: request_transformer where
  "bucketBodyBuilder props0 ctx =
     (let props = obj_of props0;
          body = copied bucket_fields props;
          body1 = (case as_arr (map_of props ''lifecycleRule'') of
                     None \<Rightarrow> body | Some rules \<Rightarrow> AList.update ''lifecycle'' (JObj [(''rule'', JArr rules)]) body)
      in bind_outcome (case as_bool (map_of props ''uniformBucketLevelAccess'') of
             None \<Rightarrow> Ok body1 | Some ubla \<Rightarrow> set_iam ''uniformBucketLevelAccess'' (JObj [(''enabled'', JBool ubla)]) body1) (\<lambda>body2.
         bind_outcome (case as_string (map_of props ''publicAccessPrevention'') of
             None \<Rightarrow> Ok body2 | Some pap \<Rightarrow> set_iam ''publicAccessPrevention'' (JStr pap) body2) (\<lambda>body3.
         Ok (Some (case as_bool (map_of props ''requesterPays'') of
             None \<Rightarrow> body3 | Some pays \<Rightarrow> AList.update ''billing'' (JObj [(''requesterPays'', JBool pays)]) body3)))))"

definition bucketResponseTransformer :: response_transformer where
  "bucketResponseTransformer response ctx = Ok (map_option (rewrite_string ''location'' ToLower) response)"

definition bucketScopedResponseTransformer :: response_transformer where
  "bucketScopedResponseTransformer response ctx =
     Ok (Some (without [''kind'', ''selfLink'', ''metageneration'', ''id''] (obj_of response)))"

definition notificationTopicPrefix :: string where
  "notificationTopicPrefix = ''//pubsub.googleapis.com/''"

definition full_topic :: "string \<Rightarrow> string \<Rightarrow> string" where
  "full_topic project topic =
     (if topic = [] \<or> HasPrefix topic notificationTopicPrefix then topic
      else notificationTopicPrefix
        @ (if HasPrefix topic ''projects/'' then topic else ''projects/'' @ project @ ''/topics/'' @ topic))"

definition notificationRequest :: request_transformer where
  "notificationRequest props ctx =
     Ok (Some (rewrite_string ''topic'' (full_topic (tc_Project ctx)) (without [''bucket'', ''id'', ''selfLink''] (obj_of props))))"

definition short_topic :: "string \<Rightarrow> string" where
  "short_topic topic =
     (let t = TrimPrefix topic notificationTopicPrefix
      in case last_index_of t ''/topics/'' of None \<Rightarrow> t | Some i \<Rightarrow> drop (i + 8) t)"

definition bucketFromSelfLink :: "json option \<Rightarrow> string" where
  "bucketFromSelfLink raw =
     (case as_string raw of
        None \<Rightarrow> []
      | Some link \<Rightarrow> (case Index link ''/b/'' of None \<Rightarrow> [] | Some i \<Rightarrow> before CHR ''/'' (drop (i + 3) link)))"

definition notificationResponse :: response_transformer where
  "notificationResponse props ctx =
     (let out = rewrite_string ''topic'' short_topic (obj_of props);
          bucket = bucketFromSelfLink (map_of (obj_of props) ''selfLink'')
      in Ok (Some (if bucket = [] then out else AList.update ''bucket'' (JStr bucket) out)))"

section \<open>resources.go\<close>

definition no_lock :: OptimisticLockingConfig where
  "no_lock = \<lparr>ol_Enabled = False, ol_FieldName = [], ol_LocationInURL = False\<rparr>"

definition in_bucket :: "string \<Rightarrow> string \<Rightarrow> string list \<Rightarrow> ParentResourceConfig" where
  "in_bucket property second segments =
     \<lparr>pa_ParentType = ''bucket'', pa_PropertyName = property, pa_RequiresParent = True, pa_ParentPathSegments = segments,
      pa_SecondPropertyName = second, pa_GrandParentType = [], pa_GrandParentPropertyName = []\<rparr>"

definition bucket_child :: "string \<Rightarrow> 'w ResourceConfig" where
  "bucket_child kind = zero_resource\<lparr>rc_ResourceType := kind, rc_ParentResource := Some (in_bucket [] [] [''b''])\<rparr>"

definition storage_definitions :: "'w ResourceDefinition list" where
  "storage_definitions =
     [entry ''GCP::Storage::Bucket''
        (zero_resource\<lparr>rc_ResourceType := ''b'', rc_SupportsUpdate := True, rc_OptimisticLocking := Some no_lock\<rparr>)
        None (Some bucketBodyBuilder) (Some bucketResponseTransformer),
      entry ''GCP::Storage::AnywhereCache''
        ((bucket_child ''anywhereCaches'')\<lparr>rc_SupportsUpdate := True, rc_OptimisticLocking := Some no_lock\<rparr>)
        None (Some bucketScopedBodyBuilder) None,
      entry ''GCP::Storage::Notification'' (bucket_child ''notificationConfigs'') (Some fixed_operations)
        (Some notificationRequest) (Some notificationResponse),
      entry ''GCP::Storage::BucketAccessControl''
        ((bucket_child ''acl'')\<lparr>rc_SupportsUpdate := True, rc_OptimisticLocking := Some no_lock\<rparr>)
        None (Some aclBodyBuilder) None,
      entry ''GCP::Storage::DefaultObjectAccessControl''
        ((bucket_child ''defaultObjectAcl'')\<lparr>rc_SupportsUpdate := True, rc_OptimisticLocking := Some no_lock\<rparr>)
        None (Some aclBodyBuilder) None,
      entry ''GCP::Storage::ObjectAccessControl''
        (zero_resource\<lparr>rc_ResourceType := ''acl'', rc_ParentResource := Some (in_bucket ''bucket'' ''object'' [''b'', ''o'']),
           rc_SupportsUpdate := True\<rparr>)
        None (Some objectAclBodyBuilder) None,
      entry ''GCP::Storage::ManagedFolder'' (bucket_child ''managedFolders'') None
        (Some (DropFields [''bucket''])) (Some bucketScopedResponseTransformer),
      entry ''GCP::Storage::Folder'' (bucket_child ''folders'') None
        (Some (DropFields [''bucket''])) (Some bucketScopedResponseTransformer)]"

definition storage_package :: "'w package" where
  "storage_package = \<lparr>pk_API = StorageAPI, pk_Operations = StorageOperations, pk_NativeID = StorageNativeID,
     pk_Definitions = storage_definitions\<rparr>"

section \<open>Walking the buckets\<close>

definition uniformBucketLevelAccess :: "obj \<Rightarrow> bool" where
  "uniformBucketLevelAccess bucket =
     (let iam = obj_of (as_obj (map_of bucket ''iamConfiguration''))
      in list_ex (\<lambda>key. case as_obj (map_of iam key) of
             None \<Rightarrow> False | Some setting \<Rightarrow> as_bool (map_of setting ''enabled'') = Some True)
           [''uniformBucketLevelAccess'', ''bucketPolicyOnly''])"

definition bucketsWithLegacyACLs :: "obj \<Rightarrow> string list" where
  "bucketsWithLegacyACLs body =
     map (text_at ''name'') (filter (\<lambda>b. text_at ''name'' b \<noteq> [] \<and> \<not> uniformBucketLevelAccess b) (items_at ''items'' body))"

definition buckets_url :: "string \<Rightarrow> TargetPath \<Rightarrow> string option" where
  "buckets_url base_url path = (if tp_Project path = [] then None else Some (base_url @ ''/b?project='' @ tp_Project path))"

definition entity_ids :: "string \<Rightarrow> string \<Rightarrow> obj \<Rightarrow> string list" where
  "entity_ids bucket kind body =
     map (\<lambda>e. ''b/'' @ bucket @ ''/'' @ kind @ ''/'' @ e)
       (filter (\<lambda>e. \<not> Contains e ''/'') (names_at ''items'' ''entity'' body))"

definition acl_walk :: "string \<Rightarrow> string \<Rightarrow> walker" where
  "acl_walk base_url kind =
     \<lparr>wk_start = buckets_url base_url, wk_start_paging = EveryPage, wk_start_error = errorf_w ''failed to list buckets: '',
      wk_parents = (\<lambda>path. bucketsWithLegacyACLs),
      wk_collection = (\<lambda>path bucket. base_url @ ''/b/'' @ bucket @ ''/'' @ kind), wk_paging = OnePage,
      wk_ids = (\<lambda>path bucket. entity_ids bucket kind),
      wk_blind = Some (\<lambda>n. ''could not read '' @ kind @ '' on any of '' @ nat_string n @ '' buckets: '')\<rparr>"

definition bucketIsUniform :: "'w env \<Rightarrow> string \<Rightarrow> Client \<Rightarrow> string \<Rightarrow> 'w machine \<Rightarrow> (goerr + bool) \<times> 'w machine" where
  "bucketIsUniform E base_url client bucket s =
     (case fetch E client (base_url @ ''/b/'' @ bucket @ ''?fields=iamConfiguration'') s of
        (Inl e, s1) \<Rightarrow> (Inl (wrapped (''failed to read bucket '' @ bucket) e), s1)
      | (Inr body, s1) \<Rightarrow> (Inr (uniformBucketLevelAccess body), s1))"

text \<open>A uniform bucket has no ACL to list and would refuse the question, so its setting is read first.\<close>

definition acl_named ::
    "'w env \<Rightarrow> 'w BaseResource \<Rightarrow> ListRequest \<Rightarrow> Client \<Rightarrow> string \<Rightarrow> ('w, ListResult) op" where
  "acl_named E b request client bucket s =
     (case bucketIsUniform E (ac_BaseURL (b_APIConfig b)) client bucket s of
        (Inl e, s1) \<Rightarrow> (Err e, s1)
      | (Inr True, s1) \<Rightarrow>
          (Ok no_ids, log_add (''INFO'', ''bucket has uniform bucket-level access, no legacy ACLs to list'',
             [(''resourceType'', rc_ResourceType (b_ResourceConfig b)), (''bucket'', bucket)]) s1)
      | (Inr False, s1) \<Rightarrow> List E b request s1)"

definition Acl_List :: "'w env \<Rightarrow> 'w BaseResource \<Rightarrow> ListRequest \<Rightarrow> 'w walk_op" where
  "Acl_List E b request s =
     (let path = PathFromTargetConfig (ls_TargetConfig request);
          w = acl_walk (ac_BaseURL (b_APIConfig b)) (rc_ResourceType (b_ResourceConfig b));
          bucket = string_or_empty (map_of (ls_AdditionalProperties request) ''bucket'')
      in case wk_start w path of
           None \<Rightarrow> Some (Ok no_ids, s)
         | Some url \<Rightarrow>
             (case NewClient E (b_Config b) s of
                (Inl e, s1) \<Rightarrow> Some (Err (client_error e), s1)
              | (Inr client, s1) \<Rightarrow>
                  if bucket \<noteq> [] then Some (acl_named E b request client bucket s1)
                  else walk_from w path E client url s1))"

definition notification_walk :: "string \<Rightarrow> walker" where
  "notification_walk base_url =
     \<lparr>wk_start = buckets_url base_url, wk_start_paging = EveryPage, wk_start_error = errorf_w ''failed to list buckets: '',
      wk_parents = (\<lambda>path. names_at ''items'' ''name''),
      wk_collection = (\<lambda>path bucket. base_url @ ''/b/'' @ bucket @ ''/notificationConfigs''), wk_paging = OnePage,
      wk_ids = (\<lambda>path bucket body. map (\<lambda>i. ''b/'' @ bucket @ ''/notificationConfigs/'' @ i) (names_at ''items'' ''id'' body)),
      wk_blind = Some (\<lambda>n. ''could not read notifications on any of '' @ nat_string n @ '' buckets: '')\<rparr>"

definition Notification_List :: "'w env \<Rightarrow> 'w BaseResource \<Rightarrow> ListRequest \<Rightarrow> 'w walk_op" where
  "Notification_List E b =
     walk_or_delegate [''bucket''] (notification_walk (ac_BaseURL (b_APIConfig b))) E (b_Config b) (List E b)"

definition object_entries :: "string \<Rightarrow> obj \<Rightarrow> string list" where
  "object_entries bucket item =
     (if text_at ''name'' item = [] then []
      else map (\<lambda>e. ''b/'' @ bucket @ ''/o/'' @ text_at ''name'' item @ ''/acl/'' @ e)
             (filter (\<lambda>e. \<not> Contains e ''/'') (names_at ''acl'' ''entity'' item)))"

definition object_acl_walk :: "string \<Rightarrow> walker" where
  "object_acl_walk base_url =
     \<lparr>wk_start = buckets_url base_url, wk_start_paging = EveryPage, wk_start_error = errorf_w ''failed to list buckets: '',
      wk_parents = (\<lambda>path. names_at ''items'' ''name''),
      wk_collection = (\<lambda>path bucket. base_url @ ''/b/'' @ bucket @ ''/o?projection=full''), wk_paging = EveryPage,
      wk_ids = (\<lambda>path bucket body. concat (map (object_entries bucket) (items_at ''items'' body))),
      wk_blind = Some (\<lambda>n. ''could not read object ACLs on any of '' @ nat_string n @ '' buckets: '')\<rparr>"

definition ObjectAcl_List :: "'w env \<Rightarrow> 'w BaseResource \<Rightarrow> ListRequest \<Rightarrow> 'w walk_op" where
  "ObjectAcl_List E b =
     walk_or_delegate [''bucket'', ''object''] (object_acl_walk (ac_BaseURL (b_APIConfig b))) E (b_Config b) (List E b)"

definition folder_walk :: "string \<Rightarrow> walker" where
  "folder_walk kind =
     \<lparr>wk_start = buckets_url (ac_BaseURL StorageAPI), wk_start_paging = OnePage,
      wk_start_error = wrapped ''failed to list storage buckets'',
      wk_parents = (\<lambda>path. names_at ''items'' ''name''),
      wk_collection = (\<lambda>path bucket. ac_BaseURL StorageAPI @ ''/b/'' @ bucket @ ''/'' @ kind), wk_paging = OnePage,
      wk_ids = (\<lambda>path bucket body. map (\<lambda>n. ''b/'' @ bucket @ ''/'' @ kind @ ''/'' @ n) (names_at ''items'' ''name'' body)),
      wk_blind = None\<rparr>"

definition Folder_List where "Folder_List kind = walk_or_delegate [''bucket''] (folder_walk kind)"

section \<open>Objects\<close>

definition objectNativeID :: "string \<Rightarrow> string \<Rightarrow> string" where
  "objectNativeID bucket name = ''b/'' @ bucket @ ''/o/'' @ name"

text \<open>The slice that ends before it starts panics: an identifier whose bucket is the letter of the marker.\<close>

definition parseObjectNativeID :: "string \<Rightarrow> (goerr, string \<times> string) outcome" where
  "parseObjectNativeID nativeID =
     (let bad = Err (ErrText (''invalid object native ID: '' @ nativeID))
      in if \<not> HasPrefix nativeID ''b/'' then bad
         else case Index nativeID ''/o/'' of
           None \<Rightarrow> bad
         | Some i \<Rightarrow>
             if i < 2 then Panic (''runtime error: slice bounds out of range [2:'' @ nat_string i @ '']'')
             else (let bucket = take (i - 2) (drop 2 nativeID); name = drop (i + 3) nativeID
                   in if bucket = [] \<or> name = [] then bad else Ok (bucket, name)))"

definition uploadBase :: "string \<Rightarrow> string" where
  "uploadBase apiBase =
     (case Index apiBase ''/storage/v1'' of
        None \<Rightarrow> apiBase
      | Some i \<Rightarrow> take i apiBase @ ''/upload/storage/v1'' @ drop (i + 11) apiBase)"

definition object_props :: "raw \<Rightarrow> goerr + obj" where
  "object_props r =
     (case unmarshal_map r of
        Inl e \<Rightarrow> Inl (errorf_w ''failed to parse properties: '' (ErrText e))
      | Inr m \<Rightarrow> Inr (UnwrapValues m))"

definition object_url :: "string \<Rightarrow> string \<Rightarrow> string" where
  "object_url bucket name = ac_BaseURL StorageAPI @ ''/b/'' @ PathEscape bucket @ ''/o/'' @ PathEscape name"

definition objectFailure :: "Operation \<Rightarrow> string \<Rightarrow> OperationErrorCode \<Rightarrow> string \<Rightarrow> ProgressResult" where
  "objectFailure op nativeID code msg =
     (progress op OperationStatusFailure)\<lparr>pr_ErrorCode := code, pr_Message := msg, pr_NativeID := nativeID\<rparr>"

definition upload_url :: "string \<Rightarrow> string \<Rightarrow> string" where
  "upload_url bucket name =
     uploadBase (ac_BaseURL StorageAPI) @ ''/b/'' @ PathEscape bucket @ ''/o?uploadType=media&name='' @ QueryEscape name"

text \<open>The bytes of an object are read as text; \<open>text\<close> stands for the bytes of a response body.\<close>

definition object_properties :: "string \<Rightarrow> string \<Rightarrow> obj \<Rightarrow> string option \<Rightarrow> obj" where
  "object_properties bucket name metadata content =
     [(''bucket'', JStr bucket), (''name'', JStr name)] @ copied [''contentType'', ''generation'', ''size''] metadata
       @ (case content of None \<Rightarrow> [] | Some c \<Rightarrow> [(''content'', JStr c)])"

definition readContent ::
    "'w env \<Rightarrow> (raw \<Rightarrow> string) \<Rightarrow> Client \<Rightarrow> string \<Rightarrow> 'w machine \<Rightarrow> (goerr + string) \<times> 'w machine" where
  "readContent E text client url s =
     (case SendRaw E client (request_options ''GET'' (url @ ''?alt=media'') None) s of
        (Inl e, s1) \<Rightarrow> (Inl e, s1)
      | (Inr r, s1) \<Rightarrow> (Inr (text r), s1))"

definition Object_Read :: "'w env \<Rightarrow> (raw \<Rightarrow> string) \<Rightarrow> Config option \<Rightarrow> ReadRequest \<Rightarrow> ('w, ReadResult) op" where
  "Object_Read E text cfg request s =
     (case NewClient E cfg s of
        (Inl e, s1) \<Rightarrow> (Err (client_error e), s1)
      | (Inr client, s1) \<Rightarrow>
          (case parseObjectNativeID (rd_NativeID request) of
             Err e \<Rightarrow> (Ok (read_error InvalidRequest), s1)
           | Panic p \<Rightarrow> (Panic p, s1)
           | Ok (bucket, name) \<Rightarrow>
               (case SendRequest E client (request_options ''GET'' (object_url bucket name) None) s1 of
                  (Inl e, s2) \<Rightarrow> (Ok (read_error (ToResourceErrorCode (te_Code (wrap_err e ''failed to read object'')))), s2)
                | (Inr metadata, s2) \<Rightarrow>
                    (case readContent E text client (object_url bucket name) s2 of
                       (content, s3) \<Rightarrow>
                         (case Marshal (JObj (object_properties bucket name (obj_of (rs_Body metadata))
                                  (case content of Inl e \<Rightarrow> None | Inr c \<Rightarrow> Some c))) of
                            Inl e \<Rightarrow> (Err (errorf_w ''failed to marshal properties: '' (ErrText e)), s3)
                          | Inr r \<Rightarrow> (Ok (read_properties r), s3))))))"

definition created_object :: "string \<Rightarrow> ProgressResult" where
  "created_object nativeID =
     (progress OperationCreate OperationStatusSuccess)\<lparr>pr_NativeID := nativeID, pr_Message := ''object uploaded''\<rparr>"

text \<open>What the read after the upload reports is kept; its failure is not a failed create.\<close>

definition with_read_back :: "(goerr, ReadResult) outcome \<Rightarrow> ProgressResult \<Rightarrow> (goerr, ProgressResult) outcome" where
  "with_read_back answer p =
     (case answer of
        Panic m \<Rightarrow> Panic m
      | Err e \<Rightarrow> Ok p
      | Ok r \<Rightarrow> Ok (if rr_ErrorCode r = NoErrorCode \<and> rr_Properties r \<noteq> None then p\<lparr>pr_Properties := rr_Properties r\<rparr> else p))"

definition Object_Create :: "'w env \<Rightarrow> (raw \<Rightarrow> string) \<Rightarrow> Config option \<Rightarrow> CreateRequest \<Rightarrow> ('w, ProgressResult) op" where
  "Object_Create E text cfg request s =
     (case NewClient E cfg s of
        (Inl e, s1) \<Rightarrow> (Err (client_error e), s1)
      | (Inr client, s1) \<Rightarrow>
          (case object_props (cr_Properties request) of
             Inl e \<Rightarrow> (Ok (objectFailure OperationCreate [] InvalidRequest (err_text e)), s1)
           | Inr props \<Rightarrow>
               (let bucket = text_at ''bucket'' props; name = text_at ''name'' props
                in if bucket = [] \<or> name = []
                   then (Ok (objectFailure OperationCreate [] InvalidRequest ''bucket and name are required''), s1)
                   else case SendRequest E client
                          ((request_options ''POST'' (upload_url bucket name) None)
                             \<lparr>ro_RawBody := Some (text_at ''content'' props), ro_ContentType := text_at ''contentType'' props\<rparr>) s1 of
                     (Inl e, s2) \<Rightarrow>
                       (let te = wrap_err e ''failed to upload object''
                        in (Ok (objectFailure OperationCreate [] (ToResourceErrorCode (te_Code te)) (te_Message te)), s2))
                   | (Inr response, s2) \<Rightarrow>
                       (let nativeID = objectNativeID bucket name
                        in case Object_Read E text cfg
                             \<lparr>rd_NativeID = nativeID, rd_ResourceType = cr_ResourceType request, rd_TargetConfig = cr_TargetConfig request\<rparr> s2 of
                          (answer, s3) \<Rightarrow> (with_read_back answer (created_object nativeID), s3)))))"

definition as_update :: "ProgressResult \<Rightarrow> ProgressResult" where
  "as_update p = p\<lparr>pr_Operation := OperationUpdate,
     pr_Message := (if pr_Message p = ''object uploaded'' then ''object replaced'' else pr_Message p)\<rparr>"

definition Object_Update :: "'w env \<Rightarrow> (raw \<Rightarrow> string) \<Rightarrow> Config option \<Rightarrow> UpdateRequest \<Rightarrow> ('w, ProgressResult) op" where
  "Object_Update E text cfg request s =
     (case Object_Create E text cfg \<lparr>cr_ResourceType = up_ResourceType request, cr_TargetConfig = up_TargetConfig request,
             cr_Properties = up_DesiredProperties request\<rparr> s of
        (Ok p, s1) \<Rightarrow> (Ok (as_update p), s1)
      | (Err e, s1) \<Rightarrow> (Err e, s1)
      | (Panic m, s1) \<Rightarrow> (Panic m, s1))"

definition Object_Delete :: "'w env \<Rightarrow> Config option \<Rightarrow> DeleteRequest \<Rightarrow> ('w, ProgressResult) op" where
  "Object_Delete E cfg request s =
     (let nativeID = dl_NativeID request;
          gone = (progress OperationDelete OperationStatusSuccess)\<lparr>pr_NativeID := nativeID, pr_Message := ''object deleted''\<rparr>
      in case NewClient E cfg s of
           (Inl e, s1) \<Rightarrow> (Err (client_error e), s1)
         | (Inr client, s1) \<Rightarrow>
             (case parseObjectNativeID nativeID of
                Err e \<Rightarrow> (Ok (objectFailure OperationDelete nativeID InvalidRequest (err_text e)), s1)
              | Panic p \<Rightarrow> (Panic p, s1)
              | Ok (bucket, name) \<Rightarrow>
                  (case SendRequest E client (request_options ''DELETE'' (object_url bucket name) None) s1 of
                     (Inl e, s2) \<Rightarrow>
                       (let te = wrap_err e ''failed to delete object''; code = ToResourceErrorCode (te_Code te)
                        in (Ok (if code = NotFound then gone else objectFailure OperationDelete nativeID code (te_Message te)), s2))
                   | (Inr response, s2) \<Rightarrow> (Ok gone, s2))))"

definition object_walk :: walker where
  "object_walk =
     \<lparr>wk_start = buckets_url (ac_BaseURL StorageAPI), wk_start_paging = EveryPage,
      wk_start_error = errorf_w ''failed to list buckets: '',
      wk_parents = (\<lambda>path. names_at ''items'' ''name''),
      wk_collection = (\<lambda>path bucket. ac_BaseURL StorageAPI @ ''/b/'' @ PathEscape bucket @ ''/o''), wk_paging = OnePage,
      wk_ids = (\<lambda>path bucket body. map (objectNativeID bucket) (names_at ''items'' ''name'' body)),
      wk_blind = None\<rparr>"

definition Object_List :: "'w env \<Rightarrow> Config option \<Rightarrow> ListRequest \<Rightarrow> 'w walk_op" where
  "Object_List E cfg request s =
     (let path = PathFromTargetConfig (ls_TargetConfig request);
          bucket = string_or_empty (map_of (ls_AdditionalProperties request) ''bucket'')
      in case NewClient E cfg s of
           (Inl e, s1) \<Rightarrow> Some (Err (client_error e), s1)
         | (Inr client, s1) \<Rightarrow>
             if bucket \<noteq> [] then walk_under object_walk path E client [bucket] s1
             else case wk_start object_walk path of
               None \<Rightarrow> Some (Ok no_ids, s1)
             | Some url \<Rightarrow> walk_from object_walk path E client url s1)"

definition Object_Status :: "StatusRequest \<Rightarrow> ('w, ProgressResult) op" where
  "Object_Status request s =
     (Ok ((progress NoOperation OperationStatusSuccess)\<lparr>pr_NativeID := st_NativeID request\<rparr>), s)"

section \<open>A segment is escaped without loss\<close>

lemma unescape_PathEscape: "unescape False (PathEscape s) = Some s"
proof (induction s)
  case (Cons c s)
  then show ?case by (auto simp: PathEscape_def segment_kept_def unescape_percent unreserved_def)
qed (simp add: PathEscape_def)

lemma PathEscape_inj: "PathEscape a = PathEscape b \<Longrightarrow> a = b"
  using unescape_PathEscape by (metis option.inject)

lemma PathEscape_segment: "CHR ''/'' \<notin> set (PathEscape s)" "CHR ''?'' \<notin> set (PathEscape s)" "CHR ''#'' \<notin> set (PathEscape s)"
proof -
  have "x \<in> set (percent c) \<Longrightarrow> unreserved x \<or> x = CHR ''%''" for x c
    using hex_char_unreserved [OF char_div_16 [of c]] hex_char_unreserved [of "of_char c mod 16"] by (auto simp: percent_def)
  then have *: "x \<in> set (PathEscape s) \<Longrightarrow> segment_kept x \<or> x = CHR ''%''" for x
    by (auto simp: PathEscape_def segment_kept_def split: if_splits)
  show "CHR ''/'' \<notin> set (PathEscape s)" "CHR ''?'' \<notin> set (PathEscape s)" "CHR ''#'' \<notin> set (PathEscape s)"
    using * [of "CHR ''/''"] * [of "CHR ''?''"] * [of "CHR ''#''"] by (auto simp: segment_kept_def unreserved_def)
qed

section \<open>Native IDs are read back\<close>

lemma Contains_slash: "Contains s ''/'' \<longleftrightarrow> \<not> seg s"
  by (simp add: Contains_iff_sublist seg_def sublist_def in_set_conv_decomp)

lemma SplitN_slash: "seg a \<Longrightarrow> SplitN (a @ ''/'' @ b) CHR ''/'' 2 = [a, b]"
  using SplitN_append_sep [of "CHR ''/''" a] by (simp add: seg_def numeral_2_eq_2)

text \<open>
  What the identifiers are made of. A bucket is one segment, and so are the collection and the name on an object;
  the name in a bucket and the object may have any slashes in them.
\<close>

definition storage_ok :: "PathContext \<Rightarrow> bool" where
  "storage_ok ctx \<longleftrightarrow>
     (let kind = pc_ResourceType ctx; parent = pc_ParentResource ctx; name = pc_ResourceName ctx
      in name \<noteq> [] \<and> seg kind
         \<and> (if kind = ''b'' then seg name
            else if parent = [] then seg (pc_Project ctx) \<and> pc_Project ctx \<noteq> [] \<and> seg name
            else case SplitN parent CHR ''/'' 2 of [bucket, object] \<Rightarrow> seg bucket \<and> seg name | _ \<Rightarrow> seg parent \<and> kind \<noteq> ''o''))"

text \<open>What an identifier keeps of a context: a bucket and what is in one have no project of their own.\<close>

definition storage_canon :: "PathContext \<Rightarrow> PathContext" where
  "storage_canon ctx = empty_ctx
     \<lparr>pc_Project := (if pc_ResourceType ctx \<noteq> ''b'' \<and> pc_ParentResource ctx = [] then pc_Project ctx else []),
      pc_ResourceType := pc_ResourceType ctx, pc_ResourceName := pc_ResourceName ctx,
      pc_ParentResource := (if pc_ResourceType ctx = ''b'' then [] else pc_ParentResource ctx)\<rparr>"

lemma SplitN_2_seg: "seg s \<Longrightarrow> SplitN s CHR ''/'' 2 = [s]"
  by (simp add: seg_def numeral_2_eq_2 SplitN.simps)

lemma SplitN_2_cases:
  obtains "seg parent" "SplitN parent CHR ''/'' 2 = [parent]"
  | bucket object where "seg bucket" "parent = bucket @ ''/'' @ object" "SplitN parent CHR ''/'' 2 = [bucket, object]"
proof (cases "seg parent")
  case True
  then show ?thesis using that(1) SplitN_2_seg by blast
next
  case False
  then obtain bucket object where "parent = bucket @ CHR ''/'' # object" "CHR ''/'' \<notin> set bucket"
    using split_list_first [of "CHR ''/''" parent] by (auto simp: seg_def)
  then show ?thesis using that(2) [of bucket object] SplitN_slash [of bucket object] by (simp add: seg_def)
qed

lemma parse_object_scoped:
  assumes "seg bucket" "seg kind" "seg name"
  shows "parseStorageNativeID (''b/'' @ bucket @ ''/o/'' @ object @ ''/'' @ kind @ ''/'' @ name) =
    Inr (empty_ctx\<lparr>pc_ParentResource := bucket @ ''/'' @ object, pc_ResourceType := kind, pc_ResourceName := name\<rparr>)"
proof -
  let ?id = "''b/'' @ bucket @ ''/o/'' @ object @ ''/'' @ kind @ ''/'' @ name"
  have parts: "Split ?id CHR ''/'' = [''b'', bucket, ''o''] @ Split object CHR ''/'' @ [kind, name]"
    using assms by (simp add: seg_def segment Split_append)
  have n: "length (Split object CHR ''/'') \<noteq> 0" by simp
  have "Contains ?id ''/''" by (simp add: Contains_slash seg_def)
  then show ?thesis unfolding parseStorageNativeID_def Let_def parts
    using n by (simp add: nth_append Join_Split empty_ctx_def Suc_le_eq)
qed

lemma parse_bucket_scoped:
  assumes "seg bucket" "seg kind" "kind \<noteq> ''o''"
  shows "parseStorageNativeID (''b/'' @ bucket @ ''/'' @ kind @ ''/'' @ name) =
    Inr (empty_ctx\<lparr>pc_ParentResource := bucket, pc_ResourceType := kind, pc_ResourceName := name\<rparr>)"
proof -
  let ?id = "''b/'' @ bucket @ ''/'' @ kind @ ''/'' @ name"
  have parts: "Split ?id CHR ''/'' = [''b'', bucket, kind] @ Split name CHR ''/''"
    using assms by (simp add: seg_def segment)
  have "Contains ?id ''/''" by (simp add: Contains_slash seg_def)
  then show ?thesis unfolding parseStorageNativeID_def Let_def parts
    using assms(3) by (simp add: Join_Split empty_ctx_def Suc_le_eq)
qed

lemma parse_project_scoped:
  assumes "seg project" "seg kind" "seg name"
  shows "parseStorageNativeID (''projects/'' @ project @ ''/'' @ kind @ ''/'' @ name) =
    Inr (empty_ctx\<lparr>pc_Project := project, pc_ResourceType := kind, pc_ResourceName := name\<rparr>)"
proof -
  let ?id = "''projects/'' @ project @ ''/'' @ kind @ ''/'' @ name"
  have parts: "Split ?id CHR ''/'' = [''projects'', project, kind, name]" using assms by (simp add: seg_def segment)
  have "Contains ?id ''/''" by (simp add: Contains_slash seg_def)
  then show ?thesis unfolding parseStorageNativeID_def Let_def parts by (simp add: empty_ctx_def)
qed

lemma storage_parsed:
  assumes "storage_ok ctx"
  shows "parseStorageNativeID (buildStorageNativeID (pc_ResourceName ctx) ctx) = Inr (storage_canon ctx)"
proof (cases "pc_ResourceType ctx = ''b'' \<or> pc_ParentResource ctx = []")
  case True
  then show ?thesis
  proof (cases "pc_ResourceType ctx = ''b''")
    case True
    with assms have "\<not> Contains (pc_ResourceName ctx) ''/''"
      by (simp_all add: storage_ok_def Let_def Contains_slash)
    with True show ?thesis
      by (simp add: buildStorageNativeID_def storage_canon_def parseStorageNativeID_def empty_ctx_def)
  next
    case False
    with \<open>pc_ResourceType ctx = ''b'' \<or> _\<close> have p: "pc_ParentResource ctx = []" by simp
    with False assms have "list_all seg [pc_Project ctx, pc_ResourceType ctx, pc_ResourceName ctx]"
      by (simp add: storage_ok_def Let_def)
    with False p parse_project_scoped [of "pc_Project ctx" "pc_ResourceType ctx" "pc_ResourceName ctx"] show ?thesis
      by (simp add: buildStorageNativeID_def storage_canon_def empty_ctx_def)
  qed
next
  case False
  show ?thesis
  proof (cases rule: SplitN_2_cases [of "pc_ParentResource ctx"])
    case 1
    with False assms parse_bucket_scoped [of "pc_ParentResource ctx" "pc_ResourceType ctx" "pc_ResourceName ctx"] show ?thesis
      by (simp add: storage_ok_def Let_def buildStorageNativeID_def storage_canon_def empty_ctx_def)
  next
    case (2 bucket object)
    with False assms parse_object_scoped [of bucket "pc_ResourceType ctx" "pc_ResourceName ctx" object] show ?thesis
      by (simp add: storage_ok_def Let_def buildStorageNativeID_def storage_canon_def empty_ctx_def)
  qed
qed

lemma resource_context_name: "pc_ResourceName (resource_context b target c) = pc_ResourceName c"
  by (simp add: resource_context_def fillPathContextFromTarget_def Let_def split: option.splits ScopeType.splits)

text \<open>Whatever project a target fills in, the path is the one the resource was created at.\<close>

lemma storage_path_completed:
  assumes "storage_ok ctx" and "pc_ResourceType ctx = rc_ResourceType (b_ResourceConfig b)"
  shows "storagePathBuilder ((resource_context b target (storage_canon ctx))\<lparr>pc_ResourceName := pc_ResourceName ctx\<rparr>)
    = storagePathBuilder ctx"
proof -
  let ?c = "(resource_context b target (storage_canon ctx))\<lparr>pc_ResourceName := pc_ResourceName ctx\<rparr>"
  have same: "pc_ResourceType ?c = pc_ResourceType ctx" "pc_ResourceName ?c = pc_ResourceName ctx"
    "pc_ResourceType ctx \<noteq> ''b'' \<Longrightarrow> pc_ParentResource ?c = pc_ParentResource ctx"
    "pc_ResourceType ctx \<noteq> ''b'' \<Longrightarrow> pc_ParentResource ctx = [] \<Longrightarrow> pc_Project ?c = pc_Project ctx"
    using assms by (simp_all add: resource_context_def fillPathContextFromTarget_def storage_canon_def storage_ok_def fill_def
        empty_ctx_def Let_def split: option.splits ScopeType.splits)
  have "pc_ResourceName ctx \<noteq> []" using assms(1) by (simp add: storage_ok_def Let_def)
  then show ?thesis using same unfolding storagePathBuilder_def Let_def by (auto split: list.splits)
qed

text \<open>
  C21: What the table of Cloud Storage creates, a bucket, a cache, a notification, an access control or a folder,
  is found again under its native ID, also where an object or a folder has slashes in its name. The context is
  the one Create builds from the target and the declared properties, the name the one the API answers with. As
  long as the bucket, the name of a bucket and the name on an object are single segments, the identifier
  recorded is parsed, and the URL that Read, Update and Delete use with it, called with any target, is the one
  of the resource in its declared bucket and object.
\<close>

theorem storage_ids_read_back:
  assumes "d \<in> set storage_definitions" and "b = package_resource storage_package cfg d"
    and "ctx = (buildPathContext b target props)\<lparr>pc_ResourceName := first_text storage_name_fields answer\<rparr>" and "storage_ok ctx"
  shows "\<exists>c. ParseNativeID (b_NativeIDConfig b) (extractStorageNativeID answer (buildPathContext b target props)) = Inr c
     \<and> pc_ResourceName c = first_text storage_name_fields answer
     \<and> (\<forall>target'. resource_url b (resource_context b target' c) = Ok (ac_BaseURL StorageAPI @ storagePathBuilder ctx))"
proof -
  note sel = assms(2) package_resource_sel storage_package_def
  have api: "b_APIConfig b = StorageAPI" "b_NativeIDConfig b = StorageNativeID"
    using assms(1) by (auto simp: sel storage_definitions_def)
  have kind: "pc_ResourceType ctx = rc_ResourceType (b_ResourceConfig b)"
    by (simp add: assms(3) buildPathContext_def create_scope_def parent_context_def Let_def split: option.splits ScopeType.splits)
  have "buildStorageNativeID n ctx = buildStorageNativeID n (buildPathContext b target props)" for n
    by (simp add: assms(3) buildStorageNativeID_def Let_def)
  then have "ParseNativeID (b_NativeIDConfig b) (extractStorageNativeID answer (buildPathContext b target props)) = Inr (storage_canon ctx)"
    using storage_parsed [OF assms(4)] by (simp add: api StorageNativeID_def extractStorageNativeID_def assms(3))
  moreover have n: "pc_ResourceName (storage_canon ctx) = pc_ResourceName ctx" "pc_ResourceName ctx \<noteq> []"
    using assms(4) by (simp_all add: storage_canon_def storage_ok_def Let_def)
  moreover have "resource_url b (resource_context b target' (storage_canon ctx)) = Ok (ac_BaseURL StorageAPI @ storagePathBuilder ctx)" for target'
    using storage_path_completed [OF assms(4) kind, of target'] n
    by (simp add: resource_context_name resource_url_def ResourceURL_def build_url_def NewURLBuilder_def api StorageAPI_def)
  ultimately show ?thesis by (auto simp: assms(3))
qed

definition demo_object_acl :: "unit BaseResource" where
  "demo_object_acl = package_resource storage_package None (storage_definitions ! 5)"

definition demo_acl_props :: obj where
  "demo_acl_props = [(''bucket'', JStr ''bkt''), (''object'', JStr ''dir/a.txt''), (''entity'', JStr ''allUsers'')]"

lemma demo_object_acl_sel:
  "rc_ResourceType (b_ResourceConfig demo_object_acl) = ''acl''" "rc_Scope (b_ResourceConfig demo_object_acl) = None"
  "rc_ParentResource (b_ResourceConfig demo_object_acl) = Some (in_bucket ''bucket'' ''object'' [''b'', ''o''])"
  "b_NativeIDConfig demo_object_acl = StorageNativeID"
  by (simp_all add: demo_object_acl_def package_resource_sel storage_definitions_def storage_package_def zero_resource_def)

lemma demo_acl_context:
  "pc_ResourceType (buildPathContext demo_object_acl demo_target demo_acl_props) = ''acl''"
  "pc_ParentResource (buildPathContext demo_object_acl demo_target demo_acl_props) = ''bkt/dir/a.txt''"
  "pc_Project (buildPathContext demo_object_acl demo_target demo_acl_props) = ''p''"
  by (simp_all add: buildPathContext_def demo_object_acl_sel create_scope_def parent_context_def in_bucket_def parent_property_def
      demo_acl_props_def demo_target_path string_or_empty_def empty_ctx_def Let_def)

theorem storage_ids_read_back_witness:
  "\<exists>c. ParseNativeID StorageNativeID ''b/bkt/o/dir/a.txt/acl/allUsers'' = Inr c
     \<and> pc_Project (buildPathContext demo_object_acl demo_target demo_acl_props) = ''p''
     \<and> resource_url demo_object_acl (resource_context demo_object_acl demo_target c)
         = Ok ''https://storage.googleapis.com/storage/v1/b/bkt/o/dir%2Fa.txt/acl/allUsers''"
proof -
  let ?made = "buildPathContext demo_object_acl demo_target demo_acl_props"
  let ?answer = "[(''kind'', JStr ''storage#objectAccessControl''), (''entity'', JStr ''allUsers''), (''role'', JStr ''READER'')]"
  let ?ctx = "?made\<lparr>pc_ResourceName := first_text storage_name_fields ?answer\<rparr>"
  have name: "first_text storage_name_fields ?answer = ''allUsers''" by (simp add: storage_name_fields_def)
  have split: "SplitN ''bkt/dir/a.txt'' CHR ''/'' 2 = [''bkt'', ''dir/a.txt'']" using SplitN_slash [of "''bkt''" "''dir/a.txt''"] by simp
  have ok: "storage_ok ?ctx" by (simp add: storage_ok_def Let_def split seg_def demo_acl_context name)
  have mem: "storage_definitions ! 5 \<in> set (storage_definitions :: unit ResourceDefinition list)" by (simp add: storage_definitions_def)
  have "extractStorageNativeID ?answer ?made = ''b/bkt/o/dir/a.txt/acl/allUsers''"
    by (simp add: extractStorageNativeID_def name buildStorageNativeID_def Let_def split demo_acl_context)
  moreover have "PathEscape ''dir/a.txt'' = ''dir%2Fa.txt''" by code_simp
  then have "storagePathBuilder ?ctx = ''/b/bkt/o/dir%2Fa.txt/acl/allUsers''"
    by (simp add: storagePathBuilder_def Let_def split demo_acl_context name)
  ultimately show ?thesis using storage_ids_read_back [OF mem demo_object_acl_def refl ok] demo_acl_context(3)
    by (auto simp: StorageAPI_def demo_object_acl_sel)
qed

section \<open>What a walk lists can be read\<close>

text \<open>The walks whose identifiers are those of the table's types, with the collection each one lists.\<close>

definition child_walks :: "string \<Rightarrow> (string \<times> walker) list" where
  "child_walks base_url =
     [(''acl'', acl_walk base_url ''acl''), (''defaultObjectAcl'', acl_walk base_url ''defaultObjectAcl''),
      (''notificationConfigs'', notification_walk base_url),
      (''managedFolders'', folder_walk ''managedFolders''), (''folders'', folder_walk ''folders'')]"

lemma names_at_nonempty: "n \<in> set (names_at key field body) \<Longrightarrow> n \<noteq> []"
  by (simp add: names_at_def)

lemma child_walk_ids:
  assumes "(kind, w) \<in> set (child_walks base_url)" and "i \<in> set (wk_ids w path bucket body)"
  obtains name where "i = ''b/'' @ bucket @ ''/'' @ kind @ ''/'' @ name" "name \<noteq> []"
  using assms
  by (auto simp: child_walks_def acl_walk_def notification_walk_def folder_walk_def entity_ids_def dest!: names_at_nonempty)

lemma child_walk_kinds: "(kind, w) \<in> set (child_walks base_url) \<Longrightarrow> seg kind \<and> kind \<noteq> ''o'' \<and> kind \<noteq> ''b''"
  by (auto simp: child_walks_def seg_def)

lemma child_walk_collection:
  "(kind, w) \<in> set (child_walks (ac_BaseURL StorageAPI)) \<Longrightarrow> wk_collection w path bucket = ac_BaseURL StorageAPI @ ''/b/'' @ bucket @ ''/'' @ kind"
  by (auto simp: child_walks_def acl_walk_def notification_walk_def folder_walk_def)

text \<open>
  Every identifier a Cloud Storage walk lists below a bucket can be read: it is parsed, and the URL it stands
  for is one segment below the collection that was listed, the escaped name of the entry.
\<close>

lemma storage_walk_readable:
  assumes "(kind, w) \<in> set (child_walks (ac_BaseURL StorageAPI))" and "seg bucket" and "bucket \<noteq> []"
    and "i \<in> set (wk_ids w path bucket body)"
  shows "\<exists>c name. parseStorageNativeID i = Inr c \<and> name \<noteq> []
     \<and> ac_BaseURL StorageAPI @ storagePathBuilder c = wk_collection w path bucket @ ''/'' @ PathEscape name"
proof -
  obtain name where i: "i = ''b/'' @ bucket @ ''/'' @ kind @ ''/'' @ name" "name \<noteq> []"
    using child_walk_ids [OF assms(1,4)] .
  note k = child_walk_kinds [OF assms(1)]
  let ?c = "empty_ctx\<lparr>pc_ParentResource := bucket, pc_ResourceType := kind, pc_ResourceName := name\<rparr>"
  have "parseStorageNativeID i = Inr ?c" using parse_bucket_scoped assms(2) k i(1) by blast
  moreover have "storagePathBuilder ?c = ''/b/'' @ bucket @ ''/'' @ kind @ ''/'' @ PathEscape name"
    using assms(2,3) k i(2) by (simp add: storagePathBuilder_def Let_def SplitN_2_seg empty_ctx_def)
  ultimately show ?thesis using i(2) child_walk_collection [OF assms(1)] by auto
qed

section \<open>Objects are read where they were written\<close>

lemma Index_no_slash: "seg a \<Longrightarrow> Index (a @ ''/o/'' @ b) ''/o/'' = Some (length a)"
proof (induction a)
  case (Cons c a)
  then show ?case by (auto simp: seg_def HasPrefix_def)
qed (simp add: HasPrefix_def)

lemma parse_objectNativeID:
  assumes "seg bucket" and "bucket \<noteq> []" and "name \<noteq> []"
  shows "parseObjectNativeID (objectNativeID bucket name) =
    (if bucket = ''o'' then Panic ''runtime error: slice bounds out of range [2:1]'' else Ok (bucket, name))"
proof -
  let ?rest = "bucket @ ''/o/'' @ name"
  have id: "objectNativeID bucket name = CHR ''b'' # CHR ''/'' # ?rest" by (simp add: objectNativeID_def)
  have top: "HasPrefix (CHR ''/'' # ?rest) ''/o/'' \<longleftrightarrow> bucket = ''o''"
    using assms(1,2) by (cases bucket; cases "tl bucket") (auto simp: HasPrefix_def seg_def)
  have "Index (objectNativeID bucket name) ''/o/'' = (if bucket = ''o'' then Some 1 else Some (2 + length bucket))"
    using top Index_no_slash [OF assms(1), of name] unfolding id by (simp add: HasPrefix_def)
  moreover have "nat_string 1 = ''1''" by code_simp
  moreover have "HasPrefix (objectNativeID bucket name) ''b/''" by (simp add: id)
  moreover have "drop (2 + length bucket + 3) (objectNativeID bucket name) = name"
    "take (2 + length bucket - 2) (drop 2 (objectNativeID bucket name)) = bucket"
    by (simp_all add: objectNativeID_def numeral_eq_Suc)
  ultimately show ?thesis using assms(2,3) by (simp add: parseObjectNativeID_def Let_def)
qed

lemma SendRaw_logged:
  assumes "SendRaw (logged E) c (request_options ''GET'' url None) s = (r, s')"
  shows "\<exists>reqs. sent s' = sent s @ reqs \<and> (\<forall>q \<in> set reqs. hq_Method q = ''GET'')"
  using assms
  by (auto simp: SendRaw_def new_request_def logged_def sent_def Let_def split: sum.splits prod.splits option.splits if_splits)

lemma Object_Read_sent:
  assumes "Object_Read (logged E) text cfg request s = (r, s')"
  shows "\<exists>reqs. sent s' = sent s @ reqs \<and> (\<forall>q \<in> set reqs. hq_Method q = ''GET'')"
proof -
  have read: "\<exists>reqs. sent s2 = sent s1 @ reqs \<and> (\<forall>q \<in> set reqs. hq_Method q = ''GET'')"
    if "SendRequest (logged E) client (request_options ''GET'' url None) s1 = (a, s2)" for client url s1 a s2
    using logged_send [OF that] by auto
  show ?thesis using assms
    by (auto simp: Object_Read_def readContent_def split: prod.splits sum.splits outcome.splits
        dest!: NewClient_sent read SendRaw_logged)
qed

lemma PathEscape_kept: "x \<in> set (PathEscape s) \<Longrightarrow> segment_kept x \<or> x = CHR ''%''"
proof -
  have "x \<in> set (percent c) \<Longrightarrow> unreserved x \<or> x = CHR ''%''" for x c
    using hex_char_unreserved [OF char_div_16 [of c]] hex_char_unreserved [of "of_char c mod 16"] by (auto simp: percent_def)
  then show "x \<in> set (PathEscape s) \<Longrightarrow> segment_kept x \<or> x = CHR ''%''"
    by (auto simp: PathEscape_def segment_kept_def split: if_splits)
qed

lemma unescape_escaped: "unescape False r \<noteq> None \<Longrightarrow> unescape False (PathEscape s @ r) \<noteq> None"
proof (induction s)
  case (Cons c s)
  then show ?case by (auto simp: PathEscape_def segment_kept_def unescape_percent unreserved_def)
qed (simp add: PathEscape_def)

lemma unescape_plain: "list_all (\<lambda>c. c \<noteq> CHR ''%'') a \<Longrightarrow> unescape False r \<noteq> None \<Longrightarrow> unescape False (a @ r) \<noteq> None"
  by (induction a) auto

lemma segment_kept_plain: "segment_kept c \<Longrightarrow> \<not> control_char c \<and> c \<noteq> CHR ''#'' \<and> c \<noteq> CHR ''?''"
  by (auto simp: segment_kept_def unreserved_def control_char_def)

lemma object_url_parses: "Parse (object_url bucket name) \<noteq> None"
proof -
  have plain: "\<not> control_char x \<and> x \<noteq> CHR ''#'' \<and> x \<noteq> CHR ''?''" if "x \<in> set (object_url bucket name)" for x
  proof -
    have lit: "list_all (\<lambda>x. \<not> control_char x \<and> x \<noteq> CHR ''#'' \<and> x \<noteq> CHR ''?'') (ac_BaseURL StorageAPI @ ''/b//o/%'')"
      by (simp add: StorageAPI_def control_char_def)
    have "x \<in> set (ac_BaseURL StorageAPI @ ''/b//o/%'') \<or> segment_kept x"
      using that by (auto simp: object_url_def dest: PathEscape_kept)
    then show ?thesis
    proof
      assume "segment_kept x"
      then show ?thesis by (rule segment_kept_plain)
    qed (use lit in \<open>blast dest: list_all_iff [THEN iffD1]\<close>)
  qed
  have "takeWhile (\<lambda>x. x \<noteq> CHR ''#'') (object_url bucket name) = object_url bucket name"
    "takeWhile (\<lambda>x. x \<noteq> CHR ''?'') (object_url bucket name) = object_url bucket name"
    using plain by (simp_all add: takeWhile_eq_all_conv)
  moreover have "\<not> list_ex control_char (object_url bucket name)" using plain by (auto simp: list_ex_iff)
  moreover have "unescape False (object_url bucket name) \<noteq> None"
  proof -
    have "list_all (\<lambda>c. c \<noteq> CHR ''%'') (ac_BaseURL StorageAPI)" "list_all (\<lambda>c. c \<noteq> CHR ''%'') ''/b/''"
      "list_all (\<lambda>c. c \<noteq> CHR ''%'') ''/o/''"
      by (simp_all add: StorageAPI_def)
    moreover have "unescape False (PathEscape name) \<noteq> None" using unescape_PathEscape by simp
    ultimately show ?thesis unfolding object_url_def
      by - (rule unescape_plain, assumption, rule unescape_plain, assumption, rule unescape_escaped, rule unescape_plain, assumption+)
  qed
  moreover from this obtain w where "unescape False (object_url bucket name) = Some w" by blast
  ultimately show ?thesis unfolding Parse_def before_def Let_def by (simp only: if_False option.case option.distinct not_False_eq_True)
qed

lemma object_delete_sent:
  assumes "Object_Delete (logged E) cfg request s = (out, s')" and "parseObjectNativeID (dl_NativeID request) = Ok (bucket, name)"
  shows "sent s' = sent s \<and> (\<exists>e. out = Err (client_error e))
    \<or> (\<exists>del. sent s' = sent s @ [del] \<and> hq_Method del = ''DELETE'' \<and> hq_Body del = NoBody
          \<and> AddQueryParam (object_url bucket name) ''alt'' ''json'' = Inr (hq_URL del))"
proof (cases "NewClient (logged E) cfg s")
  case (Pair c s1)
  note sent1 = NewClient_sent [OF Pair]
  show ?thesis
  proof (cases c)
    case (Inl e)
    then show ?thesis using assms(1) Pair sent1 by (auto simp: Object_Delete_def Let_def)
  next
    case (Inr client)
    obtain a s2 where q: "SendRequest (logged E) client (request_options ''DELETE'' (object_url bucket name) None) s1 = (a, s2)"
      by fastforce
    have "s' = s2" using assms Pair Inr q by (auto simp: Object_Delete_def Let_def split: sum.splits)
    then show ?thesis using parsed_sends [OF q object_url_parses methods_ok(3)] sent1
      by (auto simp: sends_def request_body_def request_options_def)
  qed
qed

text \<open>
  C22: An object is removed where it was uploaded. A create of an object that does not fail sends, before it
  reads anything, one POST of the declared content to the upload URL of the declared bucket and name. If the
  bucket's name is one segment other than the letter o, a Delete of the native ID it reports, with whatever target
  and at whatever time, sends exactly one DELETE, to the URL of this bucket and name, unless it cannot make a
  client; slashes in the name of the object are escaped in both URLs.
\<close>

theorem object_deleted_where_uploaded:
  assumes "Object_Create (logged E) text cfg request s = (Ok r, s')" and "pr_Status r \<noteq> OperationStatusFailure"
    and "object_props (cr_Properties request) = Inr props"
    and "seg (text_at ''bucket'' props)" and "text_at ''bucket'' props \<noteq> ''o''"
    and "dl_NativeID delete = pr_NativeID r" and "Object_Delete (logged F) cfg' delete t = (out, t')"
  shows "\<exists>req reads. sent s' = sent s @ req # reads \<and> (\<forall>q \<in> set reads. hq_Method q = ''GET'')
    \<and> hq_Method req = ''POST'' \<and> hq_Body req = RawBytes (text_at ''content'' props)
    \<and> AddQueryParam (upload_url (text_at ''bucket'' props) (text_at ''name'' props)) ''alt'' ''json'' = Inr (hq_URL req)
    \<and> (sent t' = sent t \<and> (\<exists>e. out = Err (client_error e))
        \<or> (\<exists>del. sent t' = sent t @ [del] \<and> hq_Method del = ''DELETE'' \<and> hq_Body del = NoBody
            \<and> AddQueryParam (object_url (text_at ''bucket'' props) (text_at ''name'' props)) ''alt'' ''json'' = Inr (hq_URL del)))"
proof -
  let ?b = "text_at ''bucket'' props" and ?n = "text_at ''name'' props"
  let ?opts = "(request_options ''POST'' (upload_url ?b ?n) None)
    \<lparr>ro_RawBody := Some (text_at ''content'' props), ro_ContentType := text_at ''contentType'' props\<rparr>"
  obtain client s1 response s2 answer where c: "NewClient (logged E) cfg s = (Inr client, s1)" and n: "?b \<noteq> []" "?n \<noteq> []"
      and up: "SendRequest (logged E) client ?opts s1 = (Inr response, s2)"
      and reread: "Object_Read (logged E) text cfg \<lparr>rd_NativeID = objectNativeID ?b ?n, rd_ResourceType = cr_ResourceType request,
        rd_TargetConfig = cr_TargetConfig request\<rparr> s2 = (answer, s')"
      and r: "with_read_back answer (created_object (objectNativeID ?b ?n)) = Ok r"
    using assms(1-3) by (auto simp: Object_Create_def objectFailure_def Let_def split: prod.splits sum.splits if_splits)
  obtain req where req: "sends client ?opts req" "sent s2 = sent s1 @ [req]" using SendRequest_logged [OF up] by auto
  obtain reads where reads: "sent s' = sent s2 @ reads" "\<forall>q \<in> set reads. hq_Method q = ''GET''" using Object_Read_sent [OF reread] by blast
  have id: "pr_NativeID r = objectNativeID ?b ?n"
    using r by (auto simp: with_read_back_def created_object_def split: outcome.splits if_splits)
  have parsed: "parseObjectNativeID (dl_NativeID delete) = Ok (?b, ?n)" using parse_objectNativeID [OF assms(4) n] assms(5,6) id by simp
  have "sent t' = sent t \<and> (\<exists>e. out = Err (client_error e))
      \<or> (\<exists>del. sent t' = sent t @ [del] \<and> hq_Method del = ''DELETE'' \<and> hq_Body del = NoBody
            \<and> AddQueryParam (object_url ?b ?n) ''alt'' ''json'' = Inr (hq_URL del))"
    using object_delete_sent [OF assms(7) parsed] .
  then show ?thesis using req reads NewClient_sent [OF c] by (auto simp: sends_def request_body_def)
qed

definition demo_object :: CreateRequest where
  "demo_object = \<lparr>cr_ResourceType = ''GCP::Storage::Object'', cr_TargetConfig = demo_target,
     cr_Properties = RawDoc (JObj [(''bucket'', JStr ''bkt''), (''name'', JStr ''dir/a.txt''), (''content'', JStr ''hi'')])\<rparr>"

lemma demo_object_props:
  "object_props (cr_Properties demo_object) = Inr [(''bucket'', JStr ''bkt''), (''name'', JStr ''dir/a.txt''), (''content'', JStr ''hi'')]"
  by (simp add: demo_object_def object_props_def) code_simp

lemma demo_object_uploaded:
  "\<exists>r s'. Object_Create (logged script_env) text demo_cfg demo_object (script_at [scripted 200 (JObj [])] []) = (Ok r, s')
     \<and> pr_Status r = OperationStatusSuccess \<and> pr_NativeID r = ''b/bkt/o/dir/a.txt''"
proof -
  let ?s = "script_at [scripted 200 (JObj [])] []"
  let ?opts = "(request_options ''POST'' (upload_url ''bkt'' ''dir/a.txt'') None)\<lparr>ro_RawBody := Some ''hi'', ro_ContentType := []\<rparr>"
  have url: "Parse (upload_url ''bkt'' ''dir/a.txt'') \<noteq> None" by code_simp
  obtain s1 where up: "SendRequest (logged script_env) demo_client ?opts ?s
      = (Inr \<lparr>rs_StatusCode = 200, rs_Body = Some [], rs_Headers = []\<rparr>, s1)"
    using SendRequest_answers [of ?opts "RawBytes ''hi''" "logged script_env" ?s
      "\<lparr>hr_StatusCode = 200, hr_Headers = [], hr_Body = RawDoc (JObj [])\<rparr>" "\<lambda>req. ([], [req])" "Some []" demo_client] url methods_ok(2)
    by (auto simp: request_body_def logged_def script_env_def script_at_def scripted_def decode_body_def)
  obtain answer s2 where reread: "Object_Read (logged script_env) text demo_cfg \<lparr>rd_NativeID = objectNativeID ''bkt'' ''dir/a.txt'',
      rd_ResourceType = cr_ResourceType demo_object, rd_TargetConfig = cr_TargetConfig demo_object\<rparr> s1 = (answer, s2)"
    by fastforce
  have "parseObjectNativeID (objectNativeID ''bkt'' ''dir/a.txt'') = Ok (''bkt'', ''dir/a.txt'')"
    using parse_objectNativeID [of "''bkt''" "''dir/a.txt''"] by (simp add: seg_def)
  then have "\<forall>p. answer \<noteq> Panic p" using reread
    by (auto simp: Object_Read_def demo_NewClient split: prod.splits sum.splits)
  then show ?thesis using up reread
    by (cases answer) (auto simp: Object_Create_def progress_def demo_NewClient demo_object_props text_at_def string_or_empty_def with_read_back_def created_object_def
        objectNativeID_def Let_def)
qed

theorem object_deleted_where_uploaded_witness:
  "\<exists>r s' del t'. Object_Create (logged script_env) (\<lambda>raw. []) demo_cfg demo_object (script_at [scripted 200 (JObj [])] []) = (Ok r, s')
     \<and> snd (Object_Delete (logged script_env) demo_cfg \<lparr>dl_NativeID = pr_NativeID r, dl_ResourceType = ''GCP::Storage::Object'',
          dl_TargetConfig = demo_target\<rparr> (script_at [scripted 200 (JObj [])] [])) = t'
     \<and> sent t' = [del] \<and> hq_Method del = ''DELETE''
     \<and> hq_URL del = ''https://storage.googleapis.com/storage/v1/b/bkt/o/dir%2Fa.txt?alt=json''"
proof -
  obtain r s' where r: "Object_Create (logged script_env) (\<lambda>raw. []) demo_cfg demo_object (script_at [scripted 200 (JObj [])] []) = (Ok r, s')"
      "pr_Status r = OperationStatusSuccess" using demo_object_uploaded by blast
  let ?delete = "\<lparr>dl_NativeID = pr_NativeID r, dl_ResourceType = ''GCP::Storage::Object'', dl_TargetConfig = demo_target\<rparr>"
  obtain out t' where d: "Object_Delete (logged script_env) demo_cfg ?delete (script_at [scripted 200 (JObj [])] []) = (out, t')"
    by fastforce
  have no: "out \<noteq> Err (client_error e)" for e
    using d by (auto simp: Object_Delete_def demo_NewClient Let_def split: prod.splits sum.splits outcome.splits)
  have "AddQueryParam (object_url ''bkt'' ''dir/a.txt'') ''alt'' ''json'' = Inr ''https://storage.googleapis.com/storage/v1/b/bkt/o/dir%2Fa.txt?alt=json''"
    by code_simp
  moreover have ok: "pr_Status r \<noteq> OperationStatusFailure" using r(2) by simp
  ultimately show ?thesis
    using object_deleted_where_uploaded [OF r(1) ok demo_object_props _ _ _ d] r(1) d no by (auto simp: seg_def text_at_def string_or_empty_def)
qed

end
