(* ===== verification/Sql.thy ===== *)
theory Sql
  imports Walking_Lists Compute_Transformers Gcp_Utils
begin

text \<open>
  Cloud SQL (\<^verbatim>\<open>src/pkg/resources/sql\<close>): the table of its types, the operations the package writes by
  hand (deleting a user, reading a backup run, listing what lives under an instance), and the order
  in which its initialiser registers them, where the last registration of an operation wins.
\<close>

section \<open>api.go\<close>

definition sqlPathBuilder :: "PathContext \<Rightarrow> string" where
  "sqlPathBuilder ctx =
     (let top = ''/projects/'' @ pc_Project ctx;
          prefix = (if pc_ParentType ctx \<noteq> [] \<and> pc_ParentResource ctx \<noteq> []
                    then top @ ''/'' @ pc_ParentType ctx @ ''/'' @ pc_ParentResource ctx else top)
      in if pc_ResourceName ctx \<noteq> [] then prefix @ ''/'' @ pc_ResourceType ctx @ ''/'' @ pc_ResourceName ctx
         else prefix @ ''/'' @ pc_ResourceType ctx)"

definition nested_sql_id :: "PathContext \<Rightarrow> string \<Rightarrow> string" where
  "nested_sql_id ctx name =
     ''projects/'' @ pc_Project ctx @ ''/'' @ pc_ParentType ctx @ ''/'' @ pc_ParentResource ctx @ ''/'' @ pc_ResourceType ctx @ ''/'' @ name"

definition extractSQLNativeID :: "obj \<Rightarrow> PathContext \<Rightarrow> string" where
  "extractSQLNativeID response ctx =
     (let nested = (pc_ParentType ctx \<noteq> [] \<and> pc_ParentResource ctx \<noteq> []); name = GetString response ''name''
      in if nested \<and> pc_ResourceName ctx \<noteq> [] then nested_sql_id ctx (pc_ResourceName ctx)
         else case as_string (map_of response ''targetLink'') of
           Some link \<Rightarrow> SelfLinkToNativeID link
         | None \<Rightarrow>
             if name = [] then []
             else if nested then nested_sql_id ctx name
             else ''projects/'' @ pc_Project ctx @ ''/'' @ pc_ResourceType ctx @ ''/'' @ name)"

definition parseSQLNativeID :: "string \<Rightarrow> goerr + PathContext" where
  "parseSQLNativeID nativeID =
     (let parts = Split nativeID CHR ''/''
      in if hd parts \<noteq> ''projects'' then Inl (ErrText (''invalid SQL native ID format: '' @ nativeID))
         else case parts of
           [_, project, kind, name] \<Rightarrow>
             Inr (empty_ctx\<lparr>pc_Project := project, pc_ResourceType := kind, pc_ResourceName := name\<rparr>)
         | [_, project, parentType, parent, kind, name] \<Rightarrow>
             Inr (empty_ctx\<lparr>pc_Project := project, pc_ParentType := parentType, pc_ParentResource := parent,
                    pc_ResourceType := kind, pc_ResourceName := name\<rparr>)
         | _ \<Rightarrow> Inl (ErrText (''invalid SQL native ID format: '' @ nativeID @ '' (expected 4 or 6 path segments)'')))"

definition sql_operation_status :: "obj \<Rightarrow> bool \<times> goerr option" where
  "sql_operation_status response =
     (if GetString response ''status'' \<noteq> ''DONE'' then (False, None)
      else case as_obj (map_of response ''error'') of
        None \<Rightarrow> (True, None)
      | Some eo \<Rightarrow>
          (case as_arr (map_of eo ''errors'') of
             Some (JObj first # rest) \<Rightarrow> (True, Some (ErrText (''operation failed: '' @ GetString first ''message'')))
           | _ \<Rightarrow> (True, None)))"

definition sql_operation_url :: "PathContext \<Rightarrow> string \<Rightarrow> string" where
  "sql_operation_url ctx operationID = ''projects/'' @ pc_Project ctx @ ''/operations/'' @ operationID"

definition isRetryableSQLError :: "goerr \<Rightarrow> bool" where
  "isRetryableSQLError e \<longleftrightarrow>
     Contains (err_text e) ''is being accessed by other users''
     \<or> Contains (err_text e) ''another operation was already in progress''"

definition sql_operations :: "(obj \<Rightarrow> string) \<Rightarrow> (obj \<Rightarrow> PathContext \<Rightarrow> string) \<Rightarrow> OperationConfig" where
  "sql_operations opID extract =
     \<lparr>oc_Synchronous = False, oc_OperationIDExtractor = Some opID, oc_OperationURLBuilder = Some sql_operation_url,
      oc_NativeIDExtractor = Some extract, oc_OperationStatusChecker = Some sql_operation_status,
      oc_RetryableError = Some isRetryableSQLError\<rparr>"

definition SQLOperations :: OperationConfig where
  "SQLOperations = sql_operations (\<lambda>response. GetString response ''name'') extractSQLNativeID"

definition SQLAPI :: APIConfig where
  "SQLAPI = \<lparr>ac_BaseURL = ''https://sqladmin.googleapis.com/v1'', ac_APIVersion = ''v1'', ac_PathBuilder = Some sqlPathBuilder,
     ac_Pagination = None\<rparr>"

definition SQLNativeID :: NativeIDConfig where
  "SQLNativeID = \<lparr>ni_Format = FullPathFormat, ni_PathTemplate = ''projects/{project}/{resourceType}/{name}'',
     ni_Parser = Some parseSQLNativeID\<rparr>"

text \<open>A child read refused with an ambiguous 403: only an explicit answer that the instance does not exist settles it.\<close>

definition has_reason :: "string \<Rightarrow> google_error \<Rightarrow> bool" where
  "has_reason reason g = list_ex (\<lambda>i. gi_Reason i = reason) (ge_Errors g)"

definition parentInstanceGone ::
    "goerr \<Rightarrow> ('w machine \<Rightarrow> goerr option \<times> 'w machine) \<Rightarrow> 'w machine \<Rightarrow> bool \<times> 'w machine" where
  "parentInstanceGone e readParent s =
     (case as_google e of
        None \<Rightarrow> (False, s)
      | Some g \<Rightarrow>
          if ge_Code g \<noteq> 403 \<or> \<not> has_reason ''notAuthorized'' g then (False, s)
          else case readParent s of
            (None, s1) \<Rightarrow> (False, s1)
          | (Some pe, s1) \<Rightarrow>
              (case as_google pe of
                 None \<Rightarrow> (False, s1)
               | Some pg \<Rightarrow> (ge_Code pg = 404 \<and> has_reason ''instanceDoesNotExist'' pg, s1)))"

definition read_parent :: "'w env \<Rightarrow> Client \<Rightarrow> string \<Rightarrow> 'w machine \<Rightarrow> goerr option \<times> 'w machine" where
  "read_parent E client url s =
     (case SendRequest E client (request_options ''GET'' url None) s of
        (Inl e, s1) \<Rightarrow> (Some e, s1) | (Inr r, s1) \<Rightarrow> (None, s1))"

definition sqlReadErrorTreatAsMissing ::
    "'w env \<Rightarrow> Client \<Rightarrow> PathContext \<Rightarrow> goerr \<Rightarrow> 'w machine \<Rightarrow> bool \<times> 'w machine" where
  "sqlReadErrorTreatAsMissing E client ctx e s =
     (if pc_Project ctx = [] \<or> pc_ParentType ctx \<noteq> ''instances'' \<or> pc_ParentResource ctx = [] then (False, s)
      else parentInstanceGone e
             (read_parent E client (ac_BaseURL SQLAPI @ ''/projects/'' @ pc_Project ctx @ ''/instances/'' @ pc_ParentResource ctx)) s)"

section \<open>Certificates, backup runs and instances\<close>

definition extractSslCertOperationID :: "obj \<Rightarrow> string" where
  "extractSslCertOperationID response =
     (case as_obj (map_of response ''operation'') of
        Some operation \<Rightarrow> GetString operation ''name'' | None \<Rightarrow> GetString response ''name'')"

definition cert_info :: "obj \<Rightarrow> obj option" where
  "cert_info response =
     (case as_obj (map_of response ''clientCert'') of None \<Rightarrow> None | Some c \<Rightarrow> as_obj (map_of c ''certInfo''))"

definition sslCertFingerprint :: "obj \<Rightarrow> string" where
  "sslCertFingerprint response =
     (let fp = text_at ''sha1Fingerprint'' response
      in if fp \<noteq> [] then fp
         else case cert_info response of Some info \<Rightarrow> text_at ''sha1Fingerprint'' info | None \<Rightarrow> [])"

definition child_of_instance :: "PathContext \<Rightarrow> string \<Rightarrow> string \<Rightarrow> string" where
  "child_of_instance ctx kind i =
     (if i = [] \<or> pc_ParentResource ctx = [] then []
      else ''projects/'' @ pc_Project ctx @ ''/instances/'' @ pc_ParentResource ctx @ ''/'' @ kind @ ''/'' @ i)"

definition extractSslCertNativeID :: "obj \<Rightarrow> PathContext \<Rightarrow> string" where
  "extractSslCertNativeID response ctx = child_of_instance ctx ''sslCerts'' (sslCertFingerprint response)"

definition sslCertResponseTransformer :: response_transformer where
  "sslCertResponseTransformer props ctx =
     Ok (Some (without [''certPrivateKey'', ''kind'', ''selfLink'', ''project'']
       (case cert_info (obj_of props) of Some info \<Rightarrow> info | None \<Rightarrow> obj_of props)))"

definition SQLSslCertOperations :: OperationConfig where
  "SQLSslCertOperations = sql_operations extractSslCertOperationID extractSslCertNativeID"

definition backupRunID :: "obj \<Rightarrow> string" where
  "backupRunID response =
     (let i = GetString response ''id''
      in if i \<noteq> [] then i
         else case as_obj (map_of response ''backupContext'') of
           Some context \<Rightarrow> GetString context ''backupId'' | None \<Rightarrow> [])"

definition liveBackupRunID :: "obj \<Rightarrow> string" where
  "liveBackupRunID item = (if GetString item ''status'' = ''DELETED'' then [] else backupRunID item)"

definition extractBackupRunNativeID :: "obj \<Rightarrow> PathContext \<Rightarrow> string" where
  "extractBackupRunNativeID response ctx = child_of_instance ctx ''backupRuns'' (backupRunID response)"

definition backupRunResponseTransformer :: response_transformer where
  "backupRunResponseTransformer props ctx = Ok (Some (without [''kind'', ''selfLink'', ''project''] (obj_of props)))"

definition SQLBackupRunOperations :: OperationConfig where
  "SQLBackupRunOperations = sql_operations (\<lambda>response. GetString response ''name'') extractBackupRunNativeID"

text \<open>A deleted backup run stays readable, as a tombstone.\<close>

definition BackupRun_Read :: "(ReadRequest \<Rightarrow> ('w, ReadResult) op) \<Rightarrow> ReadRequest \<Rightarrow> ('w, ReadResult) op" where
  "BackupRun_Read read request s =
     (case read request s of
        (Ok r, s1) \<Rightarrow>
          if rr_ErrorCode r \<noteq> NoErrorCode then (Ok r, s1)
          else (case unmarshal_map (case rr_Properties r of None \<Rightarrow> RawNil | Some p \<Rightarrow> p) of
             Inl e \<Rightarrow> (Ok r, s1)
           | Inr props \<Rightarrow>
               if GetString (obj_of props) ''status'' = ''DELETED''
               then (Ok ((read_error NotFound)\<lparr>rr_ResourceType := rd_ResourceType request\<rparr>), s1)
               else (Ok r, s1))
      | (Err e, s1) \<Rightarrow> (Err e, s1)
      | (Panic p, s1) \<Rightarrow> (Panic p, s1))"

definition userResponseTransformer :: response_transformer where
  "userResponseTransformer props ctx = Ok (Some (without [''project'', ''kind'', ''etag''] (obj_of props)))"

definition disk_size :: "obj \<Rightarrow> obj" where
  "disk_size settings =
     (case as_string (map_of settings ''dataDiskSizeGb'') of
        None \<Rightarrow> settings
      | Some t \<Rightarrow>
          (case Atoi t of None \<Rightarrow> settings | Some n \<Rightarrow> AList.update ''dataDiskSizeGb'' (JInt64 n) settings))"

definition private_network :: "obj \<Rightarrow> obj" where
  "private_network =
     rewrite_field ''ipConfiguration'' (on_object
       (rewrite_string ''privateNetwork'' (\<lambda>pn. if HasPrefix pn ''projects/'' then ''https://www.googleapis.com/compute/v1/'' @ pn else pn)))"

definition databaseInstanceResponseTransformer :: response_transformer where
  "databaseInstanceResponseTransformer response ctx =
     Ok (map_option (rewrite_field ''settings'' (on_object (\<lambda>settings. private_network (disk_size settings)))) response)"

section \<open>Users\<close>

definition user_collectionURL :: "string \<Rightarrow> bool \<Rightarrow> goerr + string" where
  "user_collectionURL nativeID withIdentity =
     (case parseSQLNativeID nativeID of
        Inl e \<Rightarrow> Inl e
      | Inr ctx \<Rightarrow>
          (let url = ac_BaseURL SQLAPI @ ''/projects/'' @ pc_Project ctx @ ''/instances/'' @ pc_ParentResource ctx @ ''/users''
           in if pc_ParentType ctx \<noteq> ''instances'' \<or> pc_ParentResource ctx = [] \<or> pc_ResourceName ctx = []
              then Inl (ErrText (''invalid SQL user native ID: '' @ nativeID))
              else if \<not> withIdentity then Inr url
              else AddQueryParam url ''name'' (pc_ResourceName ctx)))"

definition user_operationRequestID :: "obj \<Rightarrow> string \<Rightarrow> string" where
  "user_operationRequestID body nativeID =
     (let opID = text_at ''name'' body
      in if opID = [] then []
         else case parseSQLNativeID nativeID of Inl e \<Rightarrow> [] | Inr ctx \<Rightarrow> sql_operation_url ctx opID)"

definition user_failedDelete :: "string \<Rightarrow> OperationErrorCode \<Rightarrow> string \<Rightarrow> ProgressResult" where
  "user_failedDelete nativeID code message =
     (progress OperationDelete OperationStatusFailure)\<lparr>pr_ErrorCode := code, pr_NativeID := nativeID, pr_Message := message\<rparr>"

definition SqlUser_Delete :: "'w env \<Rightarrow> Config option \<Rightarrow> DeleteRequest \<Rightarrow> ('w, ProgressResult) op" where
  "SqlUser_Delete E cfg request s =
     (let nativeID = dl_NativeID request
      in case user_collectionURL nativeID True of
           Inl e \<Rightarrow> (Ok (user_failedDelete nativeID InvalidRequest (err_text e)), s)
         | Inr url \<Rightarrow>
             (case NewClient E cfg s of
                (Inl e, s1) \<Rightarrow> (Err (client_error e), s1)
              | (Inr client, s1) \<Rightarrow>
                  (case SendRequest E client (request_options ''DELETE'' url None) s1 of
                     (Inl e, s2) \<Rightarrow>
                       (let te = wrap_err e ''failed to delete SQL user''; code = ToResourceErrorCode (te_Code te)
                        in (Ok (if code = NotFound
                                then (progress OperationDelete OperationStatusSuccess)
                                       \<lparr>pr_NativeID := nativeID, pr_Message := ''user already deleted''\<rparr>
                                else user_failedDelete nativeID code (te_Message te)), s2))
                   | (Inr response, s2) \<Rightarrow>
                       (Ok ((progress OperationDelete OperationStatusInProgress)
                              \<lparr>pr_NativeID := nativeID,
                               pr_RequestID := user_operationRequestID (obj_of (rs_Body response)) nativeID,
                               pr_Message := ''user deletion in progress''\<rparr>), s2))))"

section \<open>Walking the instances\<close>

definition database_walk :: "string \<Rightarrow> walker" where
  "database_walk base_url =
     \<lparr>wk_start = (\<lambda>path. if tp_Project path = [] then None
        else Some (base_url @ ''/projects/'' @ tp_Project path @ ''/instances'')),
      wk_start_paging = OnePage, wk_start_error = errorf_w ''failed to list Cloud SQL instances: '',
      wk_parents = (\<lambda>path. names_at ''items'' ''name''),
      wk_collection = (\<lambda>path inst. base_url @ ''/projects/'' @ tp_Project path @ ''/instances/'' @ inst @ ''/databases''),
      wk_paging = OnePage,
      wk_ids = (\<lambda>path inst body. map (\<lambda>n. ''projects/'' @ tp_Project path @ ''/instances/'' @ inst @ ''/databases/'' @ n)
         (names_at ''items'' ''name'' body)),
      wk_blind = Some (\<lambda>n. ''could not list databases on any of '' @ nat_string n @ '' instances: '')\<rparr>"

definition Database_List :: "'w env \<Rightarrow> 'w BaseResource \<Rightarrow> ListRequest \<Rightarrow> 'w walk_op" where
  "Database_List E b =
     walk_or_delegate [''instance''] (database_walk (ac_BaseURL (b_APIConfig b))) E (b_Config b) (List E b)"

definition sql_instance_walk :: "string \<Rightarrow> (obj \<Rightarrow> string) \<Rightarrow> walker" where
  "sql_instance_walk kind idOf =
     \<lparr>wk_start = (\<lambda>path. if tp_Project path = [] then None
        else Some (ac_BaseURL SQLAPI @ ''/projects/'' @ tp_Project path @ ''/instances'')),
      wk_start_paging = OnePage, wk_start_error = wrapped ''failed to list SQL instances'',
      wk_parents = (\<lambda>path. names_at ''items'' ''name''),
      wk_collection = (\<lambda>path inst. ac_BaseURL SQLAPI @ ''/projects/'' @ tp_Project path @ ''/instances/'' @ inst @ ''/'' @ kind),
      wk_paging = OnePage,
      wk_ids = (\<lambda>path inst body. map (\<lambda>i. ''projects/'' @ tp_Project path @ ''/instances/'' @ inst @ ''/'' @ kind @ ''/'' @ i)
         (filter (\<lambda>i. i \<noteq> []) (map idOf (items_at ''items'' body)))),
      wk_blind = None\<rparr>"

definition SqlInstance_List where
  "SqlInstance_List kind idOf = walk_or_delegate [''instance''] (sql_instance_walk kind idOf)"

section \<open>resources.go\<close>

definition sql_child :: "string \<Rightarrow> 'w ResourceConfig" where
  "sql_child kind =
     zero_resource\<lparr>rc_ResourceType := kind, rc_ReadErrorTreatAsMissing := Some sqlReadErrorTreatAsMissing,
       rc_ParentResource := Some (required_parent ''instances'' ''instance'')\<rparr>"

definition lock_off :: OptimisticLockingConfig where
  "lock_off = \<lparr>ol_Enabled = False, ol_FieldName = [], ol_LocationInURL = False\<rparr>"

definition sql_definitions :: "'w ResourceDefinition list" where
  "sql_definitions =
     [entry ''GCP::SQL::DatabaseInstance''
        (zero_resource\<lparr>rc_ResourceType := ''instances'', rc_Scope := Some ScopeProjectLevel, rc_OptimisticLocking := Some lock_off\<rparr>)
        None None (Some databaseInstanceResponseTransformer),
      entry ''GCP::SQL::Database'' ((sql_child ''databases'')\<lparr>rc_OptimisticLocking := Some lock_off\<rparr>) None None None,
      entry ''GCP::SQL::User'' (sql_child ''users'') None (Some (DropFields [''instance''])) (Some userResponseTransformer),
      (entry ''GCP::SQL::SslCert'' (sql_child ''sslCerts'') (Some fixed_operations)
        (Some (DropFields [''instance''])) (Some sslCertResponseTransformer))\<lparr>rd_OperationConfig := SQLSslCertOperations\<rparr>,
      (entry ''GCP::SQL::BackupRun'' (sql_child ''backupRuns'') (Some fixed_operations)
        (Some (DropFields [''instance''])) (Some backupRunResponseTransformer))\<lparr>rd_OperationConfig := SQLBackupRunOperations\<rparr>]"

definition sql_package :: "'w package" where
  "sql_package = \<lparr>pk_API = SQLAPI, pk_Operations = SQLOperations, pk_NativeID = SQLNativeID, pk_Definitions = sql_definitions\<rparr>"

text \<open>
  The provisioners the initialiser registers over the table: their lists read one page of each collection,
  so they return.
\<close>

definition sql_entry :: "string \<Rightarrow> 'w ResourceDefinition" where
  "sql_entry t = hd (filter (\<lambda>d. rd_Type d = t) sql_definitions)"

definition sql_generic :: "'w env \<Rightarrow> Config option \<Rightarrow> string \<Rightarrow> 'w Provisioner" where
  "sql_generic E cfg t = UnifiedProvisioner E (package_resource sql_package cfg (sql_entry t))"

definition database_provisioner :: "'w env \<Rightarrow> Config option \<Rightarrow> 'w Provisioner" where
  "database_provisioner E cfg =
     (let b = package_resource sql_package cfg (sql_entry ''GCP::SQL::Database'')
      in \<lparr>p_Create = Create E b, p_Update = Update E b, p_Delete = Delete E b, p_Status = Status E b, p_Read = Read E b,
          p_List = (\<lambda>request s. the (Database_List E b request s))\<rparr>)"

definition registerUserOverrides :: "'w env \<Rightarrow> (string \<times> Operation list \<times> 'w factory) list" where
  "registerUserOverrides E =
     [(''GCP::SQL::User'', [OperationDelete],
       CustomFactory (\<lambda>cfg. (sql_generic E cfg ''GCP::SQL::User'')\<lparr>p_Delete := SqlUser_Delete E cfg\<rparr>))]"

definition registerBackupRunReadOverride :: "'w env \<Rightarrow> (string \<times> Operation list \<times> 'w factory) list" where
  "registerBackupRunReadOverride E =
     [(''GCP::SQL::BackupRun'', [OperationRead],
       CustomFactory (\<lambda>cfg. let p = sql_generic E cfg ''GCP::SQL::BackupRun'' in p\<lparr>p_Read := BackupRun_Read (p_Read p)\<rparr>))]"

definition walking_entry :: "'w env \<Rightarrow> string \<times> string \<times> (obj \<Rightarrow> string) \<Rightarrow> string \<times> Operation list \<times> 'w factory" where
  "walking_entry E spec =
     (case spec of (t, kind, idOf) \<Rightarrow>
        (t, [OperationList], CustomFactory (\<lambda>cfg. let p = sql_generic E cfg t
           in p\<lparr>p_List := (\<lambda>request s. the (SqlInstance_List kind idOf E cfg (p_List p) request s))\<rparr>)))"

definition byName :: "obj \<Rightarrow> string" where
  "byName item = GetString item ''name''"

definition registerInstanceWalkingLists :: "'w env \<Rightarrow> (string \<times> Operation list \<times> 'w factory) list" where
  "registerInstanceWalkingLists E =
     map (walking_entry E)
       [(''GCP::SQL::User'', ''users'', byName), (''GCP::SQL::Database'', ''databases'', byName),
        (''GCP::SQL::SslCert'', ''sslCerts'', sslCertFingerprint), (''GCP::SQL::BackupRun'', ''backupRuns'', liveBackupRunID)]"

definition sql_overrides :: "'w env \<Rightarrow> (string \<times> Operation list \<times> 'w factory) list" where
  "sql_overrides E =
     (''GCP::SQL::Database'', StandardOperations, CustomFactory (database_provisioner E))
       # registerUserOverrides E @ registerBackupRunReadOverride E @ registerInstanceWalkingLists E"

fun register_all :: "(string \<times> Operation list \<times> 'w factory) list \<Rightarrow> 'w registries \<Rightarrow> 'w registries" where
  "register_all [] R = R"
| "register_all ((t, ops, f) # rest) R = register_all rest (R\<lparr>gr_table := Register_table t ops f (gr_table R)\<rparr>)"

definition sql_init :: "'w env \<Rightarrow> nat \<Rightarrow> 'w registries \<Rightarrow> (goerr, 'w registries) outcome" where
  "sql_init E i R =
     (case RegisterAll i sql_definitions (R\<lparr>gr_store := (gr_store R)(i \<mapsto> NewResourceRegistry SQLAPI SQLOperations SQLNativeID)\<rparr>) of
        (None, Ok R1) \<Rightarrow> Ok (register_all (sql_overrides E) R1)
      | (None, Panic p) \<Rightarrow> Panic p
      | (Some e, _) \<Rightarrow> Panic (err_text e)
      | (None, Err e) \<Rightarrow> Panic (err_text e))"

section \<open>Everything under an instance is found again\<close>

definition sql_nested_ok :: "PathContext \<Rightarrow> bool" where
  "sql_nested_ok ctx \<longleftrightarrow>
     list_all (\<lambda>s. seg s \<and> s \<noteq> []) [pc_Project ctx, pc_ParentType ctx, pc_ParentResource ctx, pc_ResourceType ctx, pc_ResourceName ctx]"

definition sql_nested_canon :: "PathContext \<Rightarrow> PathContext" where
  "sql_nested_canon ctx = empty_ctx\<lparr>pc_Project := pc_Project ctx, pc_ParentType := pc_ParentType ctx,
     pc_ParentResource := pc_ParentResource ctx, pc_ResourceType := pc_ResourceType ctx, pc_ResourceName := pc_ResourceName ctx\<rparr>"

lemma sql_nested_path:
  "sql_nested_ok ctx \<Longrightarrow> sqlPathBuilder ctx = ''/'' @ nested_sql_id ctx (pc_ResourceName ctx)"
  by (simp add: sql_nested_ok_def sqlPathBuilder_def nested_sql_id_def Let_def)

lemma sql_nested_parse:
  assumes "sql_nested_ok ctx"
  shows "parseSQLNativeID (nested_sql_id ctx (pc_ResourceName ctx)) = Inr (sql_nested_canon ctx)"
proof -
  have "Split (nested_sql_id ctx (pc_ResourceName ctx)) CHR ''/'' =
      [''projects'', pc_Project ctx, pc_ParentType ctx, pc_ParentResource ctx, pc_ResourceType ctx, pc_ResourceName ctx]"
    using assms by (simp add: sql_nested_ok_def seg_def nested_sql_id_def segment)
  then show ?thesis by (simp add: parseSQLNativeID_def sql_nested_canon_def)
qed

interpretation sql: addressed sqlPathBuilder extractSQLNativeID parseSQLNativeID False sql_nested_ok sql_nested_canon "\<lambda>t. False"
proof
  fix ctx c body assume ok: "sql_nested_ok ctx"
  then show "sqlPathBuilder ctx = sqlPathBuilder (ctx\<lparr>pc_ResourceName := []\<rparr>) @ ''/'' @ pc_ResourceName ctx"
    by (simp add: sql_nested_ok_def sqlPathBuilder_def Let_def)
  show "parseSQLNativeID (tl (sqlPathBuilder ctx)) = Inr (sql_nested_canon ctx)"
    using sql_nested_parse [OF ok] sql_nested_path [OF ok] by simp
  show "pc_ResourceName (sql_nested_canon ctx) = pc_ResourceName ctx \<and> pc_ResourceName ctx \<noteq> []"
    using ok by (simp add: sql_nested_ok_def sql_nested_canon_def)
  show "extractSQLNativeID body ctx = tl (sqlPathBuilder ctx)" if "own_answer False (tl (sqlPathBuilder ctx)) body"
    using sql_nested_path [OF ok] ok by (simp add: extractSQLNativeID_def sql_nested_ok_def Let_def)
  show "sqlPathBuilder c = sqlPathBuilder ctx"
    if "completes False (sql_nested_canon ctx) c" "pc_ResourceType c = pc_ResourceType ctx"
    using that ok by (simp add: completes_def sql_nested_canon_def sql_nested_ok_def sqlPathBuilder_def)
qed

section \<open>The list of databases\<close>

definition registered_database_list :: "'w env \<Rightarrow> Config option \<Rightarrow> ListRequest \<Rightarrow> 'w walk_op" where
  "registered_database_list E cfg =
     SqlInstance_List ''databases'' byName E cfg (p_List (sql_generic E cfg ''GCP::SQL::Database''))"

lemma sql_init_list:
  fixes E :: "'w env"
  shows "\<exists>R' p. sql_init E i R = Ok R' \<and> Get E R' ''GCP::SQL::Database'' OperationList cfg = Ok (Some p)
     \<and> p_List p = (\<lambda>request s. the (registered_database_list E cfg request s))"
proof -
  let ?R = "R\<lparr>gr_store := (gr_store R)(i \<mapsto> NewResourceRegistry SQLAPI SQLOperations SQLNativeID)\<rparr>"
  have "distinct (map rd_Type (sql_definitions :: 'w ResourceDefinition list))"
    "\<And>d. d \<in> set (sql_definitions :: 'w ResourceDefinition list) \<Longrightarrow> rd_Type d \<noteq> []"
    by (auto simp: sql_definitions_def)
  then obtain R1 where R1: "RegisterAll i sql_definitions ?R = (None, Ok R1)"
    using RegisterAll_defines [of ?R i "NewResourceRegistry SQLAPI SQLOperations SQLNativeID" sql_definitions] by auto
  show ?thesis unfolding sql_init_def R1
    by (simp add: sql_overrides_def registerUserOverrides_def registerBackupRunReadOverride_def
        registerInstanceWalkingLists_def walking_entry_def Get_def Register_table_lookup registered_database_list_def Let_def)
qed

lemma sql_walk_sel [simp]:
  "wk_start (sql_instance_walk kind idOf) = wk_start (database_walk (ac_BaseURL SQLAPI))"
  "wk_parents (sql_instance_walk kind idOf) = wk_parents (database_walk (ac_BaseURL SQLAPI))"
  "wk_start_paging (sql_instance_walk kind idOf) = OnePage" "wk_paging (sql_instance_walk kind idOf) = OnePage"
  "wk_start_paging (database_walk base_url) = OnePage" "wk_paging (database_walk base_url) = OnePage"
  "wk_blind (sql_instance_walk kind idOf) = None"
  "wk_blind (database_walk base_url) = Some (\<lambda>n. ''could not list databases on any of '' @ nat_string n @ '' instances: '')"
  by (simp_all add: sql_instance_walk_def database_walk_def)

lemma sql_walks_agree:
  "wk_collection (sql_instance_walk ''databases'' byName) = wk_collection (database_walk (ac_BaseURL SQLAPI))"
  "wk_ids (sql_instance_walk ''databases'' byName) = wk_ids (database_walk (ac_BaseURL SQLAPI))"
proof -
  have "byName = text_at ''name''" by (simp add: fun_eq_iff byName_def text_at_def GetString_as_string)
  then show "wk_ids (sql_instance_walk ''databases'' byName) = wk_ids (database_walk (ac_BaseURL SQLAPI))"
    by (simp add: sql_instance_walk_def database_walk_def names_at_def)
qed (simp add: sql_instance_walk_def database_walk_def)

lemma database_base: "ac_BaseURL (b_APIConfig (package_resource sql_package cfg (sql_entry ''GCP::SQL::Database''))) = ac_BaseURL SQLAPI"
    "b_Config (package_resource sql_package cfg (sql_entry ''GCP::SQL::Database'')) = cfg"
  by (simp_all add: package_resource_sel sql_entry_def sql_definitions_def sql_package_def)

text \<open>
  C27: After the initialiser has run, databases are listed by the walk that was registered last. When the
  instances are listed but none of them lets its databases be read, this walk reports that there are no
  databases, where the walk the package registered first, and documents, reports the failure.
\<close>

theorem sql_database_failure_hidden:
  assumes "steady E" and "NewClient E cfg s = (Inr client, s1)" and "\<not> names_parent [''instance''] request"
    and "path = PathFromTargetConfig (ls_TargetConfig request)" and "tp_Project path \<noteq> []"
    and "api_answer E client s1 (ac_BaseURL SQLAPI @ ''/projects/'' @ tp_Project path @ ''/instances'') = Inr body"
    and "names_at ''items'' ''name'' body = instances" and "instances \<noteq> []"
    and "\<forall>inst \<in> set instances. \<exists>e. api_answer E client s1
           (ac_BaseURL SQLAPI @ ''/projects/'' @ tp_Project path @ ''/instances/'' @ inst @ ''/databases'') = Inl e"
  shows "\<exists>R' p s2 s3 e. sql_init E i R = Ok R' \<and> Get E R' ''GCP::SQL::Database'' OperationList cfg = Ok (Some p)
     \<and> p_List p request s = (Ok (found_ids []), s2)
     \<and> Database_List E (package_resource sql_package cfg (sql_entry ''GCP::SQL::Database'')) request s = Some (Err e, s3)"
proof -
  let ?ask = "api_answer E client s1"
  let ?w = "database_walk (ac_BaseURL SQLAPI)" and ?v = "sql_instance_walk ''databases'' byName"
  define rs where "rs = map (\<lambda>inst. map_sum id (wk_ids ?w path inst) (?ask (wk_collection ?w path inst))) instances"
  have coll: "wk_collection ?w path inst = ac_BaseURL SQLAPI @ ''/projects/'' @ tp_Project path @ ''/instances/'' @ inst @ ''/databases''" for inst
    by (simp add: database_walk_def)
  have all2: "list_all2 (parent_reads u path ?ask) instances rs" if "u = ?w \<or> u = ?v" for u
    using that by (auto simp: rs_def list_all2_map2 list_all2_same parent_reads_def sql_walks_agree)
  have "rights rs = []" unfolding rs_def using assms(9) by (induction instances) (auto simp: coll)
  then have blind: "all_unreadable rs" using assms(8) by (simp add: all_unreadable_def rs_def)
  have start: "wk_start ?w path = Some (ac_BaseURL SQLAPI @ ''/projects/'' @ tp_Project path @ ''/instances'')"
    "map_sum id (wk_parents ?w path) (?ask (ac_BaseURL SQLAPI @ ''/projects/'' @ tp_Project path @ ''/instances'')) = Inr instances"
    using assms(5,6,7) by (simp_all add: database_walk_def)
  obtain s2 where "walk_list ?v E cfg request s = Some (Ok (found_ids []), s2)"
    using walk_list_finds [OF assms(1,2), of ?v request _ instances rs] start assms(4) all2 \<open>rights rs = []\<close> by auto
  then have 1: "registered_database_list E cfg request s = Some (Ok (found_ids []), s2)"
    using assms(3) by (simp add: registered_database_list_def SqlInstance_List_def walk_or_delegate_def)
  obtain e s3 where "walk_list ?w E cfg request s = Some (Err e, s3)"
    using walk_list_finds [OF assms(1,2), of ?w request _ instances rs] start assms(4) all2 blind by auto
  then have 2: "Database_List E (package_resource sql_package cfg (sql_entry ''GCP::SQL::Database'')) request s = Some (Err e, s3)"
    using assms(3) by (simp add: Database_List_def walk_or_delegate_def database_base)
  obtain R' p where "sql_init E i R = Ok R'" "Get E R' ''GCP::SQL::Database'' OperationList cfg = Ok (Some p)"
    "p_List p = (\<lambda>request s. the (registered_database_list E cfg request s))" using sql_init_list by blast
  with 1 2 show ?thesis by auto
qed

definition blind_instances :: "string \<Rightarrow> obj option" where
  "blind_instances url =
     (if url = ''https://sqladmin.googleapis.com/v1/projects/prj/instances?alt=json''
      then Some [(''items'', JArr [JObj [(''name'', JStr ''main'')]])] else None)"

theorem sql_database_failure_hidden_witness:
  "\<exists>R' p s2 s3 e. sql_init (served_env blind_instances) 0 \<lparr>gr_table = Map.empty, gr_store = Map.empty\<rparr> = Ok R'
     \<and> Get (served_env blind_instances) R' ''GCP::SQL::Database'' OperationList (Some served_config) = Ok (Some p)
     \<and> p_List p served_request served_start = (Ok (found_ids []), s2)
     \<and> Database_List (served_env blind_instances)
         (package_resource sql_package (Some served_config) (sql_entry ''GCP::SQL::Database'')) served_request served_start = Some (Err e, s3)"
proof -
  let ?E = "served_env blind_instances"
  have 1: "AddQueryParam ''https://sqladmin.googleapis.com/v1/projects/prj/instances'' ''alt'' ''json''
      = Inr ''https://sqladmin.googleapis.com/v1/projects/prj/instances?alt=json''" by code_simp
  have 2: "AddQueryParam ''https://sqladmin.googleapis.com/v1/projects/prj/instances/main/databases'' ''alt'' ''json''
      = Inr ''https://sqladmin.googleapis.com/v1/projects/prj/instances/main/databases?alt=json''" by code_simp
  show ?thesis
    using sql_database_failure_hidden [OF served_steady served_client, of served_request served_path blind_instances served_start
        "[(''items'', JArr [JObj [(''name'', JStr ''main'')]])]" "[''main'']" 0 "\<lparr>gr_table = Map.empty, gr_store = Map.empty\<rparr>"]
      served_answer [OF 1, of blind_instances] served_answer [OF 2, of blind_instances]
    by (simp add: served_request_path served_path_def served_unnamed SQLAPI_def blind_instances_def names_at_def items_at_def text_at_def
        objects_def string_or_empty_def)
qed

end
