(* ===== verification/Deep_Walks.thy ===== *)
theory Deep_Walks
  imports Walking_Lists
begin

text \<open>
  Types more than one collection below the project: Spanner databases and backup schedules, Service
  Directory services and endpoints (\<^verbatim>\<open>list.go\<close> of both packages), and BigQuery row access policies
  (\<^verbatim>\<open>src/pkg/resources/bigquery/row_access_policy_list.go\<close>). Their page loop keeps what it has when the next
  page cannot be addressed.
\<close>

section \<open>Pages that are kept\<close>

partial_function (option) kept_loop ::
    "'w env \<Rightarrow> Client \<Rightarrow> (obj \<Rightarrow> 'a list) \<Rightarrow> string \<Rightarrow> string \<Rightarrow> 'a list \<Rightarrow> 'w machine
      \<Rightarrow> ((goerr + 'a list) \<times> 'w machine) option" where
  "kept_loop E client harvest url page found s =
     (case fetch E client page s of
        (Inl e, s1) \<Rightarrow> Some (Inl e, s1)
      | (Inr body, s1) \<Rightarrow>
          (let found1 = found @ harvest body
           in if page_token body = [] then Some (Inr found1, s1)
              else case AddQueryParam url ''pageToken'' (page_token body) of
                Inl e \<Rightarrow> Some (Inr found1, s1)
              | Inr u \<Rightarrow> kept_loop E client harvest url u found1 s1))"

inductive kept_pages ::
    "(string \<Rightarrow> goerr + obj) \<Rightarrow> (obj \<Rightarrow> 'a list) \<Rightarrow> string \<Rightarrow> string \<Rightarrow> goerr + 'a list \<Rightarrow> bool"
  for ask harvest url where
  kept_failed: "ask page = Inl e \<Longrightarrow> kept_pages ask harvest url page (Inl e)"
| kept_last: "ask page = Inr body \<Longrightarrow> page_token body = [] \<or> AddQueryParam url ''pageToken'' (page_token body) = Inl e
    \<Longrightarrow> kept_pages ask harvest url page (Inr (harvest body))"
| kept_next: "ask page = Inr body \<Longrightarrow> page_token body \<noteq> [] \<Longrightarrow> AddQueryParam url ''pageToken'' (page_token body) = Inr u
    \<Longrightarrow> kept_pages ask harvest url u r \<Longrightarrow> kept_pages ask harvest url page (map_sum id ((@) (harvest body)) r)"

lemma kept_loop_reads:
  assumes "steady E" and "kept_pages (api_answer E client s0) harvest url page r"
  shows "\<exists>s'. kept_loop E client harvest url page found s = Some (map_sum id ((@) found) r, s')"
  using assms(2)
proof (induction arbitrary: found s rule: kept_pages.induct)
  case (kept_failed page e)
  obtain s1 where "fetch E client page s = (api_answer E client s0 page, s1)" using steady_fetchE [OF assms(1)] .
  with kept_failed show ?case by (simp add: kept_loop.simps)
next
  case (kept_last page body e)
  obtain s1 where "fetch E client page s = (api_answer E client s0 page, s1)" using steady_fetchE [OF assms(1)] .
  with kept_last show ?case by (auto simp: kept_loop.simps Let_def)
next
  case (kept_next page body u r)
  obtain s1 where s1: "fetch E client page s = (api_answer E client s0 page, s1)" using steady_fetchE [OF assms(1)] .
  obtain s2 where "kept_loop E client harvest url u (found @ harvest body) s1 =
      Some (map_sum id ((@) (found @ harvest body)) r, s2)" using kept_next.IH by blast
  with s1 kept_next.hyps show ?case by (cases r) (simp_all add: kept_loop.simps [of _ _ _ _ page])
qed

section \<open>Descending\<close>

definition deep_listNames ::
    "'w env \<Rightarrow> Client \<Rightarrow> string \<Rightarrow> string \<Rightarrow> 'w machine \<Rightarrow> ((goerr + string list) \<times> 'w machine) option" where
  "deep_listNames E client url collection s = kept_loop E client (names_at collection ''name'') url url [] s"

definition list_child ::
    "string \<Rightarrow> 'w env \<Rightarrow> Client \<Rightarrow> string \<Rightarrow> 'w machine \<Rightarrow> ((goerr + string list) \<times> 'w machine) option" where
  "list_child collection E client parent s = deep_listNames E client (parent @ ''/'' @ collection) collection s"

definition child_names :: "string \<Rightarrow> (string \<Rightarrow> goerr + obj) \<Rightarrow> string \<Rightarrow> goerr + string list \<Rightarrow> bool" where
  "child_names collection ask parent r =
     kept_pages ask (names_at collection ''name'') (parent @ ''/'' @ collection) (parent @ ''/'' @ collection) r"

interpretation level: visited "list_child collection" "child_names collection" for collection
proof
  fix E c s0 p r s assume "steady E" "child_names collection (api_answer E c s0) p r"
  then show "\<exists>s'. list_child collection E c p s = Some (r, s')"
    using kept_loop_reads [of E c s0 "names_at collection ''name''" "p @ ''/'' @ collection" "p @ ''/'' @ collection" r "[]" s]
    by (cases r) (auto simp: child_names_def list_child_def deep_listNames_def)
qed

text \<open>The levels below the first: one collection after another, the names of one level being the parents of the next.\<close>

fun descend ::
    "string \<Rightarrow> 'w env \<Rightarrow> Client \<Rightarrow> string list \<Rightarrow> string list \<Rightarrow> 'w machine \<Rightarrow> (string list \<times> 'w machine) option" where
  "descend base_url E client [] paths s = Some (paths, s)"
| "descend base_url E client (collection # rest) paths s =
     (case walk (list_child collection E client) paths [] [] s of
        None \<Rightarrow> None
      | Some ((names, errs), s1) \<Rightarrow> descend base_url E client rest (map (\<lambda>n. base_url @ ''/'' @ n) names) s1)"

record deep_walker =
  dw_base :: string
  dw_root :: "TargetPath \<Rightarrow> string option"
  dw_error :: string
  dw_top :: string
  dw_below :: "string list"

definition deep_list :: "deep_walker \<Rightarrow> 'w env \<Rightarrow> Config option \<Rightarrow> ListRequest \<Rightarrow> 'w walk_op" where
  "deep_list w E cfg request s =
     (case dw_root w (PathFromTargetConfig (ls_TargetConfig request)) of
        None \<Rightarrow> Some (Ok no_ids, s)
      | Some root \<Rightarrow>
          (case NewClient E cfg s of
             (Inl e, s1) \<Rightarrow> Some (Err (client_error e), s1)
           | (Inr client, s1) \<Rightarrow>
               (case list_child (dw_top w) E client root s1 of
                  None \<Rightarrow> None
                | Some (Inl e, s2) \<Rightarrow> Some (Err (wrapped (dw_error w) e), s2)
                | Some (Inr names, s2) \<Rightarrow>
                    (case descend (dw_base w) E client (dw_below w) (map (\<lambda>n. dw_base w @ ''/'' @ n) names) s2 of
                       None \<Rightarrow> None
                     | Some (paths, s3) \<Rightarrow> Some (Ok (found_ids (map (drop (length (dw_base w) + 1)) paths)), s3)))))"

definition deep_or_delegate ::
    "string list \<Rightarrow> deep_walker \<Rightarrow> 'w env \<Rightarrow> Config option \<Rightarrow> (ListRequest \<Rightarrow> ('w, ListResult) op) \<Rightarrow> ListRequest
      \<Rightarrow> 'w walk_op" where
  "deep_or_delegate parentProps w E cfg delegate request s =
     (if names_parent parentProps request then Some (delegate request s) else deep_list w E cfg request s)"

subsection \<open>Spanner\<close>

definition Spanner_BaseURL :: string where "Spanner_BaseURL = ''https://spanner.googleapis.com/v1''"

definition spanner_collections :: "string list" where "spanner_collections = [''instances'', ''databases'', ''backupSchedules'']"

text \<open>\<open>depth\<close> is the number of collections below the first.\<close>

definition spanner_walk :: "nat \<Rightarrow> deep_walker" where
  "spanner_walk depth =
     \<lparr>dw_base = Spanner_BaseURL,
      dw_root = (\<lambda>path. if tp_Project path = [] then None else Some (Spanner_BaseURL @ ''/projects/'' @ tp_Project path)),
      dw_error = ''failed to list spanner instances'', dw_top = hd spanner_collections,
      dw_below = take depth (tl spanner_collections)\<rparr>"

definition SpannerDatabase_List where "SpannerDatabase_List = deep_or_delegate [''instance''] (spanner_walk 1)"
definition BackupSchedule_List where "BackupSchedule_List = deep_or_delegate [''instance'', ''database''] (spanner_walk 2)"

subsection \<open>Service Directory\<close>

definition ServiceDirectory_BaseURL :: string where
  "ServiceDirectory_BaseURL = ''https://servicedirectory.googleapis.com/v1''"

definition directory_collections :: "string list" where "directory_collections = [''namespaces'', ''services'', ''endpoints'']"

definition directory_walk :: "nat \<Rightarrow> deep_walker" where
  "directory_walk depth =
     \<lparr>dw_base = ServiceDirectory_BaseURL,
      dw_root = (\<lambda>path. if tp_Project path = [] \<or> location_or_region path = [] then None
         else Some (ServiceDirectory_BaseURL @ ''/projects/'' @ tp_Project path @ ''/locations/'' @ location_or_region path)),
      dw_error = ''failed to list service directory namespaces'', dw_top = hd directory_collections,
      dw_below = take depth (tl directory_collections)\<rparr>"

definition DirectoryService_List where "DirectoryService_List = deep_or_delegate [''namespace''] (directory_walk 1)"
definition DirectoryEndpoint_List where "DirectoryEndpoint_List = deep_or_delegate [''namespace'', ''service''] (directory_walk 2)"

section \<open>What a descent finds\<close>

inductive below :: "string \<Rightarrow> (string \<Rightarrow> goerr + obj) \<Rightarrow> string list \<Rightarrow> string list \<Rightarrow> string list \<Rightarrow> bool"
  for base_url ask where
  bottom: "below base_url ask [] paths paths"
| one_down: "list_all2 (child_names collection ask) paths rs
    \<Longrightarrow> below base_url ask rest (map (\<lambda>n. base_url @ ''/'' @ n) (concat (rights rs))) found
    \<Longrightarrow> below base_url ask (collection # rest) paths found"

lemma descend_finds:
  assumes "steady E" and "below base_url (api_answer E client s0) collections paths found"
  shows "\<exists>s'. descend base_url E client collections paths s = Some (found, s')"
  using assms(2)
proof (induction arbitrary: s rule: below.induct)
  case (one_down collection paths rs rest found)
  obtain s1 where "walk (list_child collection E client) paths [] [] s = Some ((concat (rights rs), lefts rs), s1)"
    using level.walk_reads [OF assms(1) one_down.hyps(1), of "[]" "[]" s] by auto
  with one_down.IH [of s1] show ?case by simp
qed simp

lemma deep_list_finds:
  assumes "steady E" and "NewClient E cfg s = (Inr client, s1)"
    and "dw_root w (PathFromTargetConfig (ls_TargetConfig request)) = Some root"
    and "child_names (dw_top w) (api_answer E client s1) root (Inr names)"
    and "below (dw_base w) (api_answer E client s1) (dw_below w) (map (\<lambda>n. dw_base w @ ''/'' @ n) names)
           (map (\<lambda>n. dw_base w @ ''/'' @ n) ids)"
  shows "\<exists>s'. deep_list w E cfg request s = Some (Ok (found_ids ids), s')"
proof -
  obtain s2 where 1: "list_child (dw_top w) E client root s1 = Some (Inr names, s2)"
    using level.visits [OF assms(1,4)] by blast
  obtain s3 where 2: "descend (dw_base w) E client (dw_below w) (map (\<lambda>n. dw_base w @ ''/'' @ n) names) s2 =
      Some (map (\<lambda>n. dw_base w @ ''/'' @ n) ids, s3)" using descend_finds [OF assms(1,5)] by blast
  have "map (drop (length (dw_base w) + 1)) (map (\<lambda>n. dw_base w @ ''/'' @ n) ids) = ids"
    by (induction ids) simp_all
  with 1 2 assms(2,3) show ?thesis by (simp add: deep_list_def)
qed

section \<open>BigQuery row access policies\<close>

definition BigQuery_BaseURL :: string where "BigQuery_BaseURL = ''https://bigquery.googleapis.com/bigquery/v2''"
definition rowAccessPolicyCollection :: string where "rowAccessPolicyCollection = ''rowAccessPolicies''"
definition rowAccessPolicyRefField :: string where "rowAccessPolicyRefField = ''rowAccessPolicyReference''"

text \<open>The id sits in a reference object of the item; an item without one is left out.\<close>

definition reference_ids :: "string \<Rightarrow> string \<Rightarrow> string \<Rightarrow> obj \<Rightarrow> string list" where
  "reference_ids collection refField idField body =
     filter (\<lambda>i. i \<noteq> []) (concat (map (\<lambda>item. case as_obj (map_of item refField) of
       None \<Rightarrow> [] | Some ref \<Rightarrow> [text_at idField ref]) (items_at collection body)))"

definition listBigQueryIDs ::
    "'w env \<Rightarrow> Client \<Rightarrow> string \<Rightarrow> string \<Rightarrow> string \<Rightarrow> string \<Rightarrow> 'w machine
      \<Rightarrow> ((goerr + string list) \<times> 'w machine) option" where
  "listBigQueryIDs E client url collection refField idField s =
     kept_loop E client (reference_ids collection refField idField) url url [] s"

definition table_policies ::
    "string \<Rightarrow> string \<Rightarrow> 'w env \<Rightarrow> Client \<Rightarrow> string \<Rightarrow> 'w machine \<Rightarrow> ((goerr + string list) \<times> 'w machine) option" where
  "table_policies project dataset E client table s =
     (case listBigQueryIDs E client (BigQuery_BaseURL @ ''/projects/'' @ project @ ''/datasets/'' @ dataset @ ''/tables/'' @ table
              @ ''/'' @ rowAccessPolicyCollection) rowAccessPolicyCollection rowAccessPolicyRefField ''policyId'' s of
        None \<Rightarrow> None
      | Some (Inl e, s1) \<Rightarrow> Some (Inl e, s1)
      | Some (Inr policies, s1) \<Rightarrow>
          Some (Inr (map (\<lambda>p. ''projects/'' @ project @ ''/datasets/'' @ dataset @ ''/tables/'' @ table @ ''/''
                            @ rowAccessPolicyCollection @ ''/'' @ p) policies), s1))"

definition dataset_policies ::
    "string \<Rightarrow> 'w env \<Rightarrow> Client \<Rightarrow> string \<Rightarrow> 'w machine \<Rightarrow> ((goerr + string list) \<times> 'w machine) option" where
  "dataset_policies project E client dataset s =
     (case listBigQueryIDs E client (BigQuery_BaseURL @ ''/projects/'' @ project @ ''/datasets/'' @ dataset @ ''/tables'')
             ''tables'' ''tableReference'' ''tableId'' s of
        None \<Rightarrow> None
      | Some (Inl e, s1) \<Rightarrow> Some (Inl e, s1)
      | Some (Inr tables, s1) \<Rightarrow>
          (case walk (table_policies project dataset E client) tables [] [] s1 of
             None \<Rightarrow> None
           | Some ((ids, errs), s2) \<Rightarrow> Some (Inr ids, s2)))"

definition rowAccess_list :: "'w env \<Rightarrow> Config option \<Rightarrow> ListRequest \<Rightarrow> 'w walk_op" where
  "rowAccess_list E cfg request s =
     (let project = tp_Project (PathFromTargetConfig (ls_TargetConfig request))
      in if project = [] then Some (Ok no_ids, s)
         else case NewClient E cfg s of
           (Inl e, s1) \<Rightarrow> Some (Err (client_error e), s1)
         | (Inr client, s1) \<Rightarrow>
             (case listBigQueryIDs E client (BigQuery_BaseURL @ ''/projects/'' @ project @ ''/datasets'')
                     ''datasets'' ''datasetReference'' ''datasetId'' s1 of
                None \<Rightarrow> None
              | Some (Inl e, s2) \<Rightarrow> Some (Err (wrapped ''failed to list bigquery datasets'' e), s2)
              | Some (Inr datasets, s2) \<Rightarrow>
                  (case walk (dataset_policies project E client) datasets [] [] s2 of
                     None \<Rightarrow> None
                   | Some ((ids, errs), s3) \<Rightarrow> Some (Ok (found_ids ids), s3))))"

definition RowAccessPolicy_List ::
    "'w env \<Rightarrow> Config option \<Rightarrow> (ListRequest \<Rightarrow> ('w, ListResult) op) \<Rightarrow> ListRequest \<Rightarrow> 'w walk_op" where
  "RowAccessPolicy_List E cfg delegate request s =
     (if names_parent [''datasetId'', ''tableId''] request then Some (delegate request s) else rowAccess_list E cfg request s)"

definition id_pages :: "string \<Rightarrow> string \<Rightarrow> string \<Rightarrow> (string \<Rightarrow> goerr + obj) \<Rightarrow> string \<Rightarrow> goerr + string list \<Rightarrow> bool" where
  "id_pages collection refField idField ask url = kept_pages ask (reference_ids collection refField idField) url url"

lemma listBigQueryIDs_reads:
  assumes "steady E" and "id_pages collection refField idField (api_answer E c s0) url r"
  shows "\<exists>s'. listBigQueryIDs E c url collection refField idField s = Some (r, s')"
  using kept_loop_reads [OF assms [unfolded id_pages_def], of "[]" s] by (cases r) (auto simp: listBigQueryIDs_def)

definition table_holds :: "string \<Rightarrow> string \<Rightarrow> (string \<Rightarrow> goerr + obj) \<Rightarrow> string \<Rightarrow> goerr + string list \<Rightarrow> bool" where
  "table_holds project dataset ask table r \<longleftrightarrow>
     (\<exists>ps. id_pages rowAccessPolicyCollection rowAccessPolicyRefField ''policyId'' ask
              (BigQuery_BaseURL @ ''/projects/'' @ project @ ''/datasets/'' @ dataset @ ''/tables/'' @ table @ ''/'' @ rowAccessPolicyCollection) ps
        \<and> r = map_sum id (map (\<lambda>p. ''projects/'' @ project @ ''/datasets/'' @ dataset @ ''/tables/'' @ table @ ''/''
                 @ rowAccessPolicyCollection @ ''/'' @ p)) ps)"

interpretation tables: visited "table_policies project dataset" "table_holds project dataset" for project dataset
proof
  fix E c s0 p r s assume a: "steady E" "table_holds project dataset (api_answer E c s0) p r"
  let ?url = "BigQuery_BaseURL @ ''/projects/'' @ project @ ''/datasets/'' @ dataset @ ''/tables/'' @ p @ ''/'' @ rowAccessPolicyCollection"
  obtain ps where ps: "id_pages rowAccessPolicyCollection rowAccessPolicyRefField ''policyId'' (api_answer E c s0) ?url ps"
      "r = map_sum id (map (\<lambda>q. ''projects/'' @ project @ ''/datasets/'' @ dataset @ ''/tables/'' @ p @ ''/''
             @ rowAccessPolicyCollection @ ''/'' @ q)) ps"
    using a(2) unfolding table_holds_def by blast
  obtain s1 where "listBigQueryIDs E c ?url rowAccessPolicyCollection rowAccessPolicyRefField ''policyId'' s = Some (ps, s1)"
    using listBigQueryIDs_reads [OF a(1) ps(1)] by blast
  with ps(2) show "\<exists>s'. table_policies project dataset E c p s = Some (r, s')"
    by (cases ps) (simp_all add: table_policies_def)
qed

definition dataset_holds :: "string \<Rightarrow> (string \<Rightarrow> goerr + obj) \<Rightarrow> string \<Rightarrow> goerr + string list \<Rightarrow> bool" where
  "dataset_holds project ask dataset r \<longleftrightarrow>
     (\<exists>ts. id_pages ''tables'' ''tableReference'' ''tableId'' ask
              (BigQuery_BaseURL @ ''/projects/'' @ project @ ''/datasets/'' @ dataset @ ''/tables'') ts
        \<and> (case ts of Inl e \<Rightarrow> r = Inl e
           | Inr tables \<Rightarrow> \<exists>rs. list_all2 (table_holds project dataset ask) tables rs \<and> r = Inr (concat (rights rs))))"

interpretation datasets: visited "dataset_policies project" "dataset_holds project" for project
proof
  fix E c s0 p r s assume a: "steady E" "dataset_holds project (api_answer E c s0) p r"
  obtain ts where ts: "id_pages ''tables'' ''tableReference'' ''tableId'' (api_answer E c s0)
        (BigQuery_BaseURL @ ''/projects/'' @ project @ ''/datasets/'' @ p @ ''/tables'') ts"
      "case ts of Inl e \<Rightarrow> r = Inl e
           | Inr tables \<Rightarrow> \<exists>rs. list_all2 (table_holds project p (api_answer E c s0)) tables rs \<and> r = Inr (concat (rights rs))"
    using a(2) unfolding dataset_holds_def by blast
  obtain s1 where s1: "listBigQueryIDs E c (BigQuery_BaseURL @ ''/projects/'' @ project @ ''/datasets/'' @ p @ ''/tables'')
      ''tables'' ''tableReference'' ''tableId'' s = Some (ts, s1)" using listBigQueryIDs_reads [OF a(1) ts(1)] by blast
  show "\<exists>s'. dataset_policies project E c p s = Some (r, s')"
  proof (cases ts)
    case (Inr tables)
    then obtain rs where rs: "list_all2 (table_holds project p (api_answer E c s0)) tables rs" "r = Inr (concat (rights rs))"
      using ts(2) by auto
    then show ?thesis using tables.walk_reads [OF a(1) rs(1), of "[]" "[]" s1] s1 Inr by (auto simp: dataset_policies_def)
  qed (use ts(2) s1 in \<open>simp add: dataset_policies_def\<close>)
qed

lemma rowAccess_finds:
  assumes "steady E" and "NewClient E cfg s = (Inr client, s1)"
    and "project = tp_Project (PathFromTargetConfig (ls_TargetConfig request))" and "project \<noteq> []"
    and "id_pages ''datasets'' ''datasetReference'' ''datasetId'' (api_answer E client s1)
           (BigQuery_BaseURL @ ''/projects/'' @ project @ ''/datasets'') (Inr datasets)"
    and "list_all2 (dataset_holds project (api_answer E client s1)) datasets rs"
  shows "\<exists>s'. rowAccess_list E cfg request s = Some (Ok (found_ids (concat (rights rs))), s')"
proof -
  obtain s2 where 1: "listBigQueryIDs E client (BigQuery_BaseURL @ ''/projects/'' @ project @ ''/datasets'')
      ''datasets'' ''datasetReference'' ''datasetId'' s1 = Some (Inr datasets, s2)"
    using listBigQueryIDs_reads [OF assms(1,5)] by blast
  obtain s3 where "walk (dataset_policies project E client) datasets [] [] s2 = Some ((concat (rights rs), lefts rs), s3)"
    using datasets.walk_reads [OF assms(1,6), of "[]" "[]" s2] by auto
  with 1 assms(2-4) show ?thesis by (simp add: rowAccess_list_def Let_def)
qed

end
