(* ===== verification/Dns.thy ===== *)
theory Dns
  imports Walking_Lists Compute_Transformers Compute_Verbs
begin

text \<open>
  Cloud DNS (\<^verbatim>\<open>src/pkg/resources/dns\<close>): its table, the identifiers, of which that of a record set has two
  segments for the name and the type, and the reads that put back the parent the API leaves in the URL.
  The lists are in \<open>Walking_Lists\<close>.
\<close>

section \<open>api.go\<close>

definition dnsPathBuilder :: "PathContext \<Rightarrow> string" where
  "dnsPathBuilder ctx =
     ''/projects/'' @ pc_Project ctx
       @ (if pc_ParentType ctx \<noteq> [] \<and> pc_ParentResource ctx \<noteq> [] then ''/'' @ pc_ParentType ctx @ ''/'' @ pc_ParentResource ctx else [])
       @ ''/'' @ pc_ResourceType ctx @ (if pc_ResourceName ctx \<noteq> [] then ''/'' @ pc_ResourceName ctx else [])"

fun first_name :: "string list \<Rightarrow> obj \<Rightarrow> string" where
  "first_name [] response = []"
| "first_name (k # ks) response = (let n = text_at k response in if n \<noteq> [] then n else first_name ks response)"

definition dns_name :: "obj \<Rightarrow> PathContext \<Rightarrow> string" where
  "dns_name response ctx =
     (if pc_ResourceName ctx \<noteq> [] then pc_ResourceName ctx
      else first_name [''name'', ''responsePolicyName'', ''ruleName''] response)"

definition extractDNSNativeID :: "obj \<Rightarrow> PathContext \<Rightarrow> string" where
  "extractDNSNativeID response ctx =
     (let name = dns_name response ctx; kind = pc_ResourceType ctx; recordType = text_at ''type'' response;
          full = (if kind = ''rrsets'' \<and> \<not> Contains name ''/'' \<and> recordType \<noteq> [] then name @ ''/'' @ recordType else name)
      in if name = [] then []
         else if pc_ParentType ctx \<noteq> [] \<and> pc_ParentResource ctx \<noteq> []
         then ''projects/'' @ pc_Project ctx @ ''/'' @ pc_ParentType ctx @ ''/'' @ pc_ParentResource ctx @ ''/'' @ kind @ ''/'' @ full
         else ''projects/'' @ pc_Project ctx @ ''/'' @ kind @ ''/'' @ name)"

definition parseDNSNativeID :: "string \<Rightarrow> goerr + PathContext" where
  "parseDNSNativeID nativeID =
     (let parts = Split nativeID CHR ''/''; bad = Inl (ErrText (''invalid DNS native ID: '' @ nativeID))
      in if hd parts \<noteq> ''projects'' then bad
         else case parts of
           [_, project, kind, name] \<Rightarrow>
             Inr (empty_ctx\<lparr>pc_Project := project, pc_ResourceType := kind, pc_ResourceName := name\<rparr>)
         | [_, project, parentType, parent, kind, name, recordType] \<Rightarrow>
             if parentType \<noteq> ''managedZones'' \<or> kind \<noteq> ''rrsets'' then bad
             else Inr (empty_ctx\<lparr>pc_Project := project, pc_ParentType := parentType, pc_ParentResource := parent,
                         pc_ResourceType := kind, pc_ResourceName := name @ ''/'' @ recordType\<rparr>)
         | [_, project, parentType, parent, kind, name] \<Rightarrow>
             Inr (empty_ctx\<lparr>pc_Project := project, pc_ParentType := parentType, pc_ParentResource := parent,
                    pc_ResourceType := kind, pc_ResourceName := name\<rparr>)
         | _ \<Rightarrow> bad)"

definition DNSAPI :: APIConfig where
  "DNSAPI = \<lparr>ac_BaseURL = DNS_BaseURL, ac_APIVersion = ''v1'', ac_PathBuilder = Some dnsPathBuilder, ac_Pagination = None\<rparr>"

definition DNSOperations :: OperationConfig where
  "DNSOperations = synchronous_operations extractDNSNativeID"

definition DNSNativeID :: NativeIDConfig where
  "DNSNativeID = path_native_id (Some parseDNSNativeID)"

section \<open>resources.go\<close>

text \<open>The copy of a map with one key renamed, in the order of the list; the two keys do not occur together.\<close>

fun dns_renameKey :: "obj \<Rightarrow> string \<Rightarrow> string \<Rightarrow> obj" where
  "dns_renameKey [] from to = []"
| "dns_renameKey ((k, v) # props) from to = ((if k = from then to else k), v) # dns_renameKey props from to"

definition responsePolicyRequestTransformer :: request_transformer where
  "responsePolicyRequestTransformer props ctx = Ok (Some (dns_renameKey (obj_of props) ''name'' ''responsePolicyName''))"

definition responsePolicyResponseTransformer :: response_transformer where
  "responsePolicyResponseTransformer props ctx = Ok (Some (dns_renameKey (obj_of props) ''responsePolicyName'' ''name''))"

definition responsePolicyRuleRequestTransformer :: request_transformer where
  "responsePolicyRuleRequestTransformer props ctx =
     Ok (Some (without [''responsePolicy''] (dns_renameKey (obj_of props) ''name'' ''ruleName'')))"

definition responsePolicyRuleResponseTransformer :: response_transformer where
  "responsePolicyRuleResponseTransformer props ctx = Ok (Some (dns_renameKey (obj_of props) ''ruleName'' ''name''))"

definition resourceRecordSetResponseTransformer :: response_transformer where
  "resourceRecordSetResponseTransformer props ctx = Ok (Some (without [''kind'', ''signatureRrdatas''] (obj_of props)))"

definition dns_definitions :: "'w ResourceDefinition list" where
  "dns_definitions =
     [entry ''GCP::DNS::ManagedZone'' (zero_resource\<lparr>rc_ResourceType := ''managedZones''\<rparr>) None None (Some ShortNameResponseTransformer),
      entry ''GCP::DNS::Policy''
        (zero_resource\<lparr>rc_ResourceType := ''policies'', rc_SupportsUpdate := True, rc_UpdateMethod := UpdateMethodPatch\<rparr>) None
        (Some (DropFieldsOnUpdate [''name''])) (Some ShortNameResponseTransformer),
      entry ''GCP::DNS::ResponsePolicy''
        (zero_resource\<lparr>rc_ResourceType := ''responsePolicies'', rc_SupportsUpdate := True, rc_UpdateMethod := UpdateMethodPatch\<rparr>) None
        (Some responsePolicyRequestTransformer) (Some responsePolicyResponseTransformer),
      entry ''GCP::DNS::ResponsePolicyRule''
        (zero_resource\<lparr>rc_ResourceType := ''rules'', rc_ParentResource := Some (required_parent ''responsePolicies'' ''responsePolicy''),
           rc_ListItemsKey := ''responsePolicyRules'', rc_SupportsUpdate := True, rc_UpdateMethod := UpdateMethodPatch\<rparr>) None
        (Some responsePolicyRuleRequestTransformer) (Some responsePolicyRuleResponseTransformer),
      entry ''GCP::DNS::ResourceRecordSet''
        (zero_resource\<lparr>rc_ResourceType := ''rrsets'', rc_ParentResource := Some (required_parent ''managedZones'' ''managedZone''),
           rc_ListItemsKey := ''rrsets'', rc_SupportsUpdate := True, rc_UpdateMethod := UpdateMethodPatch\<rparr>) None
        (Some (DropFields [''managedZone''])) (Some resourceRecordSetResponseTransformer)]"

definition dns_package :: "'w package" where
  "dns_package = \<lparr>pk_API = DNSAPI, pk_Operations = DNSOperations, pk_NativeID = DNSNativeID, pk_Definitions = dns_definitions\<rparr>"

section \<open>Reads that put back the parent\<close>

text \<open>An empty text of properties is \<^const>\<open>None\<close> or \<^const>\<open>RawNil\<close>.\<close>

definition put_back :: "string \<Rightarrow> string \<Rightarrow> ReadResult \<Rightarrow> (goerr, ReadResult) outcome" where
  "put_back property nativeID r =
     (case rr_Properties r of
        None \<Rightarrow> Ok r
      | Some RawNil \<Rightarrow> Ok r
      | Some doc \<Rightarrow>
          (case parseDNSNativeID nativeID of
             Inl e \<Rightarrow> Ok r
           | Inr ctx \<Rightarrow>
               if pc_ParentResource ctx = [] then Ok r
               else case unmarshal_map doc of
                 Inl e \<Rightarrow> Ok r
               | Inr None \<Rightarrow> Panic ''assignment to entry in nil map''
               | Inr (Some props) \<Rightarrow>
                   if map_of props property \<noteq> None then Ok r
                   else case Marshal (JObj (AList.update property (JStr (pc_ParentResource ctx)) props)) of
                     Inl e \<Rightarrow> Ok r
                   | Inr enriched \<Rightarrow> Ok (r\<lparr>rr_Properties := Some enriched\<rparr>)))"

definition parent_read :: "string \<Rightarrow> (ReadRequest \<Rightarrow> ('w, ReadResult) op) \<Rightarrow> ReadRequest \<Rightarrow> ('w, ReadResult) op" where
  "parent_read property read request s =
     (case read request s of
        (Ok r, s1) \<Rightarrow> (if rr_ErrorCode r \<noteq> NoErrorCode then Ok r else put_back property (rd_NativeID request) r, s1)
      | (Err e, s1) \<Rightarrow> (Err e, s1)
      | (Panic p, s1) \<Rightarrow> (Panic p, s1))"

definition PolicyRule_Read where "PolicyRule_Read = parent_read ''responsePolicy''"
definition RecordSet_Read where "RecordSet_Read = parent_read ''managedZone''"

section \<open>Identifiers are read back\<close>

definition dns_ok :: "PathContext \<Rightarrow> bool" where
  "dns_ok ctx \<longleftrightarrow>
     list_all (\<lambda>s. seg s \<and> s \<noteq> []) [pc_Project ctx, pc_ResourceType ctx, pc_ResourceName ctx] \<and> pc_ResourceType ctx \<noteq> ''rrsets''
     \<and> (pc_ParentType ctx = [] \<and> pc_ParentResource ctx = []
        \<or> list_all (\<lambda>s. seg s \<and> s \<noteq> []) [pc_ParentType ctx, pc_ParentResource ctx])"

definition dns_canon :: "PathContext \<Rightarrow> PathContext" where
  "dns_canon ctx = empty_ctx\<lparr>pc_Project := pc_Project ctx, pc_ParentType := pc_ParentType ctx,
     pc_ParentResource := pc_ParentResource ctx, pc_ResourceType := pc_ResourceType ctx, pc_ResourceName := pc_ResourceName ctx\<rparr>"

lemma dns_parse:
  assumes "dns_ok ctx"
  shows "parseDNSNativeID (tl (dnsPathBuilder ctx)) = Inr (dns_canon ctx)"
proof (cases "pc_ParentType ctx = []")
  case True
  then have p: "pc_ParentResource ctx = []" using assms by (auto simp: dns_ok_def)
  have "Split (tl (dnsPathBuilder ctx)) CHR ''/'' = [''projects'', pc_Project ctx, pc_ResourceType ctx, pc_ResourceName ctx]"
    using True assms by (simp add: dns_ok_def seg_def dnsPathBuilder_def segment)
  then show ?thesis using True p by (simp add: parseDNSNativeID_def dns_canon_def empty_ctx_def)
next
  case False
  have "Split (tl (dnsPathBuilder ctx)) CHR ''/'' =
      [''projects'', pc_Project ctx, pc_ParentType ctx, pc_ParentResource ctx, pc_ResourceType ctx, pc_ResourceName ctx]"
    using False assms by (simp add: dns_ok_def seg_def dnsPathBuilder_def segment)
  then show ?thesis by (simp add: parseDNSNativeID_def dns_canon_def)
qed

interpretation dns: addressed dnsPathBuilder extractDNSNativeID parseDNSNativeID True dns_ok dns_canon "\<lambda>t. False"
proof
  fix ctx c body assume ok: "dns_ok ctx"
  then show "dnsPathBuilder ctx = dnsPathBuilder (ctx\<lparr>pc_ResourceName := []\<rparr>) @ ''/'' @ pc_ResourceName ctx"
    by (simp add: dns_ok_def dnsPathBuilder_def)
  show "parseDNSNativeID (tl (dnsPathBuilder ctx)) = Inr (dns_canon ctx)" by (rule dns_parse [OF ok])
  show "pc_ResourceName (dns_canon ctx) = pc_ResourceName ctx \<and> pc_ResourceName ctx \<noteq> []"
    using ok by (simp add: dns_ok_def dns_canon_def)
  show "extractDNSNativeID body ctx = tl (dnsPathBuilder ctx)"
    using ok by (auto simp: dns_ok_def extractDNSNativeID_def dns_name_def dnsPathBuilder_def Let_def)
  show "dnsPathBuilder c = dnsPathBuilder ctx" if "completes False (dns_canon ctx) c" "pc_ResourceType c = pc_ResourceType ctx"
    using that ok by (simp add: completes_def dns_canon_def dns_ok_def dnsPathBuilder_def)
qed

lemma record_set_parse:
  assumes "list_all seg [project, zone, name, recordType]"
  shows "parseDNSNativeID (''projects/'' @ project @ ''/managedZones/'' @ zone @ ''/rrsets/'' @ name @ ''/'' @ recordType) =
    Inr (empty_ctx\<lparr>pc_Project := project, pc_ParentType := ''managedZones'', pc_ParentResource := zone, pc_ResourceType := ''rrsets'',
      pc_ResourceName := name @ ''/'' @ recordType\<rparr>)"
proof -
  have "Split (''projects/'' @ project @ ''/managedZones/'' @ zone @ ''/rrsets/'' @ name @ ''/'' @ recordType) CHR ''/'' =
      [''projects'', project, ''managedZones'', zone, ''rrsets'', name, recordType]"
    using assms by (simp add: seg_def segment)
  then show ?thesis by (simp add: parseDNSNativeID_def)
qed

lemma update_absent: "map_of props k = None \<Longrightarrow> AList.update k v props = props @ [(k, v)]"
  by (induction props) auto

lemma marshal_update:
  "Marshal (JObj props) = Inr r \<Longrightarrow> map_of props k = None \<Longrightarrow> Marshal (JObj (AList.update k (JStr v) props)) = Inr (RawDoc (JObj (props @ [(k, JStr v)])))"
  by (auto simp: Marshal_def update_absent split: if_splits)

text \<open>The generic resource of record sets, whose Read the package wraps.\<close>

abbreviation record_sets :: "Config option \<Rightarrow> 'w BaseResource" where
  "record_sets cfg \<equiv> package_resource dns_package cfg (dns_definitions ! 4)"

lemma record_sets_sel:
  "b_Config (record_sets cfg) = cfg" "b_APIConfig (record_sets cfg) = DNSAPI" "b_NativeIDConfig (record_sets cfg) = DNSNativeID"
  "b_ResponseTransformer (record_sets cfg) = Some resourceRecordSetResponseTransformer"
  "rc_ResourceType (b_ResourceConfig (record_sets cfg)) = ''rrsets''" "rc_ReadTreatAsMissing (b_ResourceConfig (record_sets cfg)) = None"
  "rc_Scope (b_ResourceConfig (record_sets cfg)) = None"
  by (simp_all add: package_resource_sel dns_definitions_def dns_package_def zero_resource_def)

lemma record_set_found:
  assumes "c = empty_ctx\<lparr>pc_Project := project, pc_ParentType := ''managedZones'', pc_ParentResource := zone, pc_ResourceType := ''rrsets'',
      pc_ResourceName := name @ ''/'' @ recordType\<rparr>" and "project \<noteq> []" and "zone \<noteq> []"
  shows "resource_url (record_sets cfg) (resource_context (record_sets cfg) target c)
    = Ok (DNS_BaseURL @ ''/projects/'' @ project @ ''/managedZones/'' @ zone @ ''/rrsets/'' @ name @ ''/'' @ recordType)"
  using assms
  by (simp add: resource_url_def ResourceURL_def build_url_def NewURLBuilder_def record_sets_sel DNSAPI_def dnsPathBuilder_def
      resource_context_def fillPathContextFromTarget_def fill_def empty_ctx_def Let_def)

text \<open>What the wrapped Read makes of an answer.\<close>

definition record_set_properties :: "string \<Rightarrow> obj \<Rightarrow> obj" where
  "record_set_properties zone answer =
     without [''kind'', ''signatureRrdatas''] answer @ (if map_of answer ''managedZone'' = None then [(''managedZone'', JStr zone)] else [])"

lemma record_set_read:
  fixes b :: "'w BaseResource"
  assumes "b = record_sets cfg" and "parseDNSNativeID (rd_NativeID request) = Inr c" and "pc_ParentResource c = zone" and "zone \<noteq> []"
    and "resource_url b (resource_context b (rd_TargetConfig request) c) = Ok url"
    and "NewClient E cfg s = (Inr client, s1)" and "SendRequest E client (request_options ''GET'' url None) s1 = (Inr response, s2)"
    and "marshalable (JObj (obj_of (rs_Body response)))"
  shows "RecordSet_Read (Read E b) request s
    = (Ok (read_properties (RawDoc (JObj (record_set_properties zone (obj_of (rs_Body response)))))), s2)"
proof -
  let ?kept = "without [''kind'', ''signatureRrdatas''] (obj_of (rs_Body response))"
  have m: "marshalable (JObj ?kept)" using assms(8) by (auto simp: without_def list_all_iff)
  then have "Read E b request s = (Ok (read_properties (RawDoc (JObj ?kept))), s2)"
    using assms(1,2,5,6,7)
    by (simp add: Read_def assms(1) record_sets_sel DNSNativeID_def read_body_def body_is_missing_def transform_response_def
        resourceRecordSetResponseTransformer_def Marshal_def map_value_def Let_def)
  moreover have "map_of ?kept ''managedZone'' = map_of (obj_of (rs_Body response)) ''managedZone''" by simp
  moreover have "Marshal (JObj (AList.update ''managedZone'' (JStr zone) ?kept)) = Inr (RawDoc (JObj (?kept @ [(''managedZone'', JStr zone)])))"
    if "map_of ?kept ''managedZone'' = None"
    using marshal_update [of ?kept "RawDoc (JObj ?kept)" "''managedZone''" zone] m that by (simp add: Marshal_def)
  ultimately show ?thesis using assms(2-4)
    by (auto simp: RecordSet_Read_def parent_read_def put_back_def record_set_properties_def read_properties_def)
qed

text \<open>
  C26: A record set a walk of the zones finds enters the inventory. If project, zone, name and type are single
  segments, its identifier is parsed and names, with any target, the URL below the listed collection of the name
  and then the type of a record set on the listed page. The Read registered for the type, when the GET of this URL
  is answered by an object that can be encoded again, reports everything the answer has but \<open>kind\<close> and
  \<open>signatureRrdatas\<close>, and next to it the zone, which the API leaves out.
\<close>

theorem dns_record_set_discovered:
  fixes b :: "'w BaseResource"
  assumes "i \<in> set (wk_ids record_set_walk path zone body)" and "list_all (\<lambda>s. seg s \<and> s \<noteq> []) [tp_Project path, zone]"
    and "list_all (\<lambda>item. seg (text_at ''name'' item) \<and> seg (text_at ''type'' item)) (items_at ''rrsets'' body)"
    and "rd_NativeID request = i"
    and "d \<in> set dns_definitions" and "rd_Type d = ''GCP::DNS::ResourceRecordSet''" and "b = package_resource dns_package cfg d"
  shows "\<exists>item c url. item \<in> set (items_at ''rrsets'' body) \<and> text_at ''name'' item \<noteq> [] \<and> text_at ''type'' item \<noteq> []
     \<and> ParseNativeID (b_NativeIDConfig b) i = Inr c
     \<and> url = wk_collection record_set_walk path zone @ ''/'' @ text_at ''name'' item @ ''/'' @ text_at ''type'' item
     \<and> (\<forall>target. resource_url b (resource_context b target c) = Ok url)
     \<and> (\<forall>E s client s1 response s2. NewClient E cfg s = (Inr client, s1)
          \<longrightarrow> SendRequest E client (request_options ''GET'' url None) s1 = (Inr response, s2)
          \<longrightarrow> marshalable (JObj (obj_of (rs_Body response)))
          \<longrightarrow> RecordSet_Read (Read E b) request s
                = (Ok (read_properties (RawDoc (JObj (record_set_properties zone (obj_of (rs_Body response)))))), s2))"
proof -
  have b: "b = record_sets cfg" using assms(5-7) by (auto simp: dns_definitions_def)
  obtain item where item: "item \<in> set (items_at ''rrsets'' body)" "text_at ''name'' item \<noteq> []" "text_at ''type'' item \<noteq> []"
      "i = ''projects/'' @ tp_Project path @ ''/managedZones/'' @ zone @ ''/rrsets/'' @ text_at ''name'' item @ ''/'' @ text_at ''type'' item"
    using assms(1) by (auto simp: record_set_walk_def record_set_ids_def)
  let ?c = "empty_ctx\<lparr>pc_Project := tp_Project path, pc_ParentType := ''managedZones'', pc_ParentResource := zone,
    pc_ResourceType := ''rrsets'', pc_ResourceName := text_at ''name'' item @ ''/'' @ text_at ''type'' item\<rparr>"
  let ?url = "wk_collection record_set_walk path zone @ ''/'' @ text_at ''name'' item @ ''/'' @ text_at ''type'' item"
  have "seg (text_at ''name'' item)" "seg (text_at ''type'' item)" using assms(3) item(1) by (auto simp: list_all_iff)
  then have c: "parseDNSNativeID i = Inr ?c"
    using record_set_parse [of "tp_Project path" zone "text_at ''name'' item" "text_at ''type'' item"] assms(2) item(4) by simp
  have u: "resource_url b (resource_context b target ?c) = Ok ?url" for target
    using record_set_found [OF refl, of "tp_Project path" zone cfg target "text_at ''name'' item" "text_at ''type'' item"] assms(2)
    by (simp add: record_set_walk_def zones_url_def b)
  have z: "pc_ParentResource ?c = zone" "zone \<noteq> []" using assms(2) by (simp_all add: empty_ctx_def)
  have p': "ParseNativeID (b_NativeIDConfig b) i = Inr ?c" using c by (simp add: b record_sets_sel DNSNativeID_def)
  have p: "parseDNSNativeID (rd_NativeID request) = Inr ?c" using c assms(4) by simp
  show ?thesis
    by (intro exI [of _ item] exI [of _ ?c] exI [of _ ?url] conjI allI impI)
      (rule item p' refl u record_set_read [OF b p z u]; assumption)+
qed

definition demo_rrsets :: obj where
  "demo_rrsets = [(''rrsets'', JArr [JObj [(''name'', JStr ''www.''), (''type'', JStr ''A'')]])]"

definition demo_record_set :: obj where
  "demo_record_set = [(''kind'', JStr ''dns#resourceRecordSet''), (''name'', JStr ''www.''), (''type'', JStr ''A'')]"

lemma demo_rrset_ids: "wk_ids record_set_walk served_path ''z'' demo_rrsets = [''projects/prj/managedZones/z/rrsets/www./A'']"
  and demo_rrset_items: "items_at ''rrsets'' demo_rrsets = [[(''name'', JStr ''www.''), (''type'', JStr ''A'')]]"
  by (simp_all add: record_set_walk_def record_set_ids_def demo_rrsets_def items_at_def text_at_def objects_def string_or_empty_def
      served_path_def)

theorem dns_record_set_discovered_witness:
  "\<exists>s'. RecordSet_Read (Read (logged script_env) (record_sets demo_cfg))
       \<lparr>rd_NativeID = ''projects/prj/managedZones/z/rrsets/www./A'', rd_ResourceType = [], rd_TargetConfig = RawNil\<rparr>
       (script_at [scripted 200 (JObj demo_record_set)] [])
     = (Ok (read_properties (RawDoc (JObj [(''name'', JStr ''www.''), (''type'', JStr ''A''), (''managedZone'', JStr ''z'')]))), s')"
proof -
  let ?request = "\<lparr>rd_NativeID = ''projects/prj/managedZones/z/rrsets/www./A'', rd_ResourceType = [], rd_TargetConfig = RawNil\<rparr>"
  let ?url = "''https://dns.googleapis.com/dns/v1/projects/prj/managedZones/z/rrsets/www./A''"
  have "list_all (\<lambda>s. seg s \<and> s \<noteq> []) [tp_Project served_path, ''z'']"
    "list_all (\<lambda>item. seg (text_at ''name'' item) \<and> seg (text_at ''type'' item)) (items_at ''rrsets'' demo_rrsets)"
    by (simp_all add: served_path_def seg_def demo_rrset_items text_at_def string_or_empty_def)
  moreover have "wk_collection record_set_walk served_path ''z'' @ ''/www./A'' = ?url"
    by (simp add: record_set_walk_def zones_url_def DNS_BaseURL_def served_path_def)
  moreover obtain req where send: "SendRequest (logged script_env) demo_client (request_options ''GET'' ?url None)
      (script_at [scripted 200 (JObj demo_record_set)] [])
      = (Inr \<lparr>rs_StatusCode = 200, rs_Body = Some demo_record_set, rs_Headers = []\<rparr>, script_at [] [req])"
    using script_send [of ?url "''GET''" None demo_record_set "[]" "[]"] methods_ok(1)
    by (auto simp: Parse_def before_def control_char_def Let_def)
  moreover have "marshalable (JObj demo_record_set)" by (simp add: demo_record_set_def)
  moreover have "record_set_properties ''z'' demo_record_set = [(''name'', JStr ''www.''), (''type'', JStr ''A''), (''managedZone'', JStr ''z'')]"
    by (simp add: record_set_properties_def demo_record_set_def without_def)
  ultimately show ?thesis
    using dns_record_set_discovered [of "''projects/prj/managedZones/z/rrsets/www./A''" served_path "''z''" demo_rrsets ?request "dns_definitions ! 4" _ demo_cfg,
        OF _ _ _ _ _ _ refl]
      demo_NewClient [of "script_at [scripted 200 (JObj demo_record_set)] []"]
    by (fastforce simp: dns_definitions_def demo_rrset_ids demo_rrset_items text_at_def string_or_empty_def obj_of_def)
qed

end
