(* ===== verification/Api_Gateway.thy ===== *)
theory Api_Gateway
  imports Walking_Lists Compute_Transformers
begin

text \<open>
  API Gateway (\<^verbatim>\<open>src/pkg/resources/apigateway\<close>): apis with their configs, always global, and gateways in a
  region of their own. A config is read twice, the second time for the documents that only the full view
  carries. The lists are in \<open>Walking_Lists\<close>.
\<close>

section \<open>api.go\<close>

definition globalLocation :: string where "globalLocation = ''global''"

definition gateway_location :: "PathContext \<Rightarrow> string" where
  "gateway_location ctx =
     (if pc_ResourceType ctx \<noteq> ''gateways'' then globalLocation else if pc_Location ctx = [] then ''-'' else pc_Location ctx)"

definition apiGatewayPathBuilder :: "PathContext \<Rightarrow> string" where
  "apiGatewayPathBuilder ctx =
     ''/projects/'' @ pc_Project ctx @ ''/locations/'' @ gateway_location ctx
       @ (if pc_ParentResource ctx \<noteq> [] then ''/apis/'' @ pc_ParentResource ctx else [])
       @ ''/'' @ pc_ResourceType ctx @ (if pc_ResourceName ctx \<noteq> [] then ''/'' @ pc_ResourceName ctx else [])"

definition extractAPIGatewayNativeID :: "obj \<Rightarrow> PathContext \<Rightarrow> string" where
  "extractAPIGatewayNativeID response ctx =
     (let name = GetString response ''name'';
          target = (case as_obj (map_of response ''metadata'') of None \<Rightarrow> [] | Some m \<Rightarrow> GetString m ''target'')
      in if name \<noteq> [] \<and> \<not> Contains name ''/operations/'' then name
         else if target \<noteq> [] then target
         else if pc_ResourceName ctx = [] then []
         else TrimPrefix (apiGatewayPathBuilder ctx) ''/'')"

definition parseAPIGatewayNativeID :: "string \<Rightarrow> goerr + PathContext" where
  "parseAPIGatewayNativeID nativeID =
     (let parts = Split nativeID CHR ''/''; n = length parts; bad = Inl (ErrText (''invalid api gateway native ID: '' @ nativeID))
      in if n < 6 \<or> hd parts \<noteq> ''projects'' \<or> parts ! 2 \<noteq> ''locations'' then bad
         else let ctx = empty_ctx\<lparr>pc_Project := parts ! 1, pc_Location := parts ! 3\<rparr>
              in if n = 6 \<and> parts ! 4 = ''apis'' then Inr (ctx\<lparr>pc_ResourceType := ''apis'', pc_ResourceName := parts ! 5\<rparr>)
                 else if n = 6 \<and> parts ! 4 = ''gateways'' then Inr (ctx\<lparr>pc_ResourceType := ''gateways'', pc_ResourceName := parts ! 5\<rparr>)
                 else if n = 8 \<and> parts ! 4 = ''apis'' \<and> parts ! 6 = ''configs''
                 then Inr (ctx\<lparr>pc_ParentResource := parts ! 5, pc_ResourceType := ''configs'', pc_ResourceName := parts ! 7\<rparr>)
                 else bad)"

definition APIGatewayAPI :: APIConfig where
  "APIGatewayAPI = \<lparr>ac_BaseURL = ''https://apigateway.googleapis.com/v1'', ac_APIVersion = ''v1'',
     ac_PathBuilder = Some apiGatewayPathBuilder, ac_Pagination = Some (paged_by ''pageSize'' [])\<rparr>"

definition has_nested_resources :: "goerr \<Rightarrow> bool" where
  "has_nested_resources e \<longleftrightarrow> Contains (err_text e) ''has nested resources''"

definition APIGatewayOperations :: OperationConfig where
  "APIGatewayOperations =
     \<lparr>oc_Synchronous = False, oc_OperationIDExtractor = Some (\<lambda>r. GetString r ''name''), oc_OperationURLBuilder = Some (\<lambda>ctx i. i),
      oc_NativeIDExtractor = Some extractAPIGatewayNativeID, oc_OperationStatusChecker = Some CheckLROStatus,
      oc_RetryableError = Some has_nested_resources\<rparr>"

definition APIGatewayNativeID :: NativeIDConfig where
  "APIGatewayNativeID = path_native_id (Some parseAPIGatewayNativeID)"

section \<open>transformers.go\<close>

definition serverSetFields :: "string list" where
  "serverSetFields = [''location'', ''path'', ''managedService'', ''serviceConfigId'', ''defaultHostname'', ''state'', ''createTime'',
     ''updateTime'']"

definition createOnlyFields :: "string list" where
  "createOnlyFields = [''openapiDocuments'', ''gatewayServiceAccount'']"

definition gateway_requestTransformer :: request_transformer where
  "gateway_requestTransformer props ctx =
     Ok (Some (without (serverSetFields @ [''project'', ''api'']
       @ (if tc_Operation ctx = OperationUpdate then ''name'' # createOnlyFields else [])) (obj_of props)))"

definition with_project :: "TransformContext \<Rightarrow> obj \<Rightarrow> obj" where
  "with_project ctx out = (if tc_Project ctx \<noteq> [] then AList.update ''project'' (JStr (tc_Project ctx)) out else out)"

definition gateway_responseTransformer :: response_transformer where
  "gateway_responseTransformer response ctx =
     (let out = obj_of response; name = text_at ''name'' out; parts = Split name CHR ''/''; n = length parts
      in Ok (Some (
           if n < 6 \<or> hd parts \<noteq> ''projects'' then with_project ctx out
           else let out1 = with_project ctx (AList.update ''project'' (JStr (parts ! 1)) out)
                in if n = 6 then
                     (let out2 = AList.update ''name'' (JStr (parts ! 5)) out1
                      in if parts ! 4 = ''gateways'' then AList.update ''location'' (JStr (parts ! 3)) out2 else out2)
                   else if n = 8 \<and> parts ! 4 = ''apis'' \<and> parts ! 6 = ''configs'' then
                     AList.update ''path'' (JStr name) (AList.update ''name'' (JStr (parts ! 7)) (AList.update ''api'' (JStr (parts ! 5)) out1))
                   else out1)))"

section \<open>resources.go\<close>

definition apigateway_type :: "string \<Rightarrow> string \<Rightarrow> string \<Rightarrow> 'w ResourceConfig" where
  "apigateway_type collection idParam key = (masked_type collection None idParam)\<lparr>rc_ListItemsKey := key\<rparr>"

definition apigateway_entry :: "string \<Rightarrow> 'w ResourceConfig \<Rightarrow> 'w ResourceDefinition" where
  "apigateway_entry t rc = entry t rc (Some StandardOperations) (Some gateway_requestTransformer) (Some gateway_responseTransformer)"

definition apigateway_definitions :: "'w ResourceDefinition list" where
  "apigateway_definitions =
     [apigateway_entry ''GCP::ApiGateway::Api'' ((apigateway_type ''apis'' ''apiId'' ''apis'')\<lparr>rc_Scope := Some ScopeGlobal\<rparr>),
      apigateway_entry ''GCP::ApiGateway::ApiConfig''
        ((apigateway_type ''configs'' ''apiConfigId'' ''apiConfigs'')
           \<lparr>rc_Scope := Some ScopeGlobal, rc_ParentResource := Some (required_parent ''apis'' ''api'')\<rparr>),
      apigateway_entry ''GCP::ApiGateway::Gateway'' (apigateway_type ''gateways'' ''gatewayId'' ''gateways'')]"

definition apigateway_package :: "'w package" where
  "apigateway_package = \<lparr>pk_API = APIGatewayAPI, pk_Operations = APIGatewayOperations, pk_NativeID = APIGatewayNativeID,
     pk_Definitions = apigateway_definitions\<rparr>"

section \<open>Reading a config\<close>

definition full_view_context :: "PathContext \<Rightarrow> TransformContext" where
  "full_view_context ctx =
     \<lparr>tc_Project = pc_Project ctx, tc_Region = [], tc_Zone = [], tc_Location = [], tc_ResourceType = pc_ResourceType ctx,
      tc_Operation = OperationRead, tc_ParentResource = [], tc_ParentType = []\<rparr>"

definition readFullView :: "'w env \<Rightarrow> 'w BaseResource \<Rightarrow> ReadRequest \<Rightarrow> ('w, raw) op" where
  "readFullView E b request s =
     (case NewClient E (b_Config b) s of
        (Inl e, s1) \<Rightarrow> (Err e, s1)
      | (Inr client, s1) \<Rightarrow>
          (case ParseNativeID (b_NativeIDConfig b) (rd_NativeID request) of
             Inl e \<Rightarrow> (Err e, s1)
           | Inr parsed \<Rightarrow>
               (let ctx = parsed\<lparr>pc_ResourceType := rc_ResourceType (b_ResourceConfig b)\<rparr>
                in case ac_PathBuilder (b_APIConfig b) of
                     None \<Rightarrow> (Panic nil_panic, s1)
                   | Some path \<Rightarrow>
                       (case AddQueryParam (ac_BaseURL (b_APIConfig b) @ path ctx) ''view'' ''FULL'' of
                          Inl e \<Rightarrow> (Err e, s1)
                        | Inr url \<Rightarrow>
                            (case SendRequest E client (request_options ''GET'' url None) s1 of
                               (Inl e, s2) \<Rightarrow> (Err e, s2)
                             | (Inr response, s2) \<Rightarrow>
                                 (bind_outcome (case b_ResponseTransformer b of
                                      None \<Rightarrow> Ok (rs_Body response) | Some t \<Rightarrow> t (rs_Body response) (full_view_context ctx))
                                    (\<lambda>body. case Marshal (map_value body) of Inl e \<Rightarrow> Err (ErrText e) | Inr r \<Rightarrow> Ok r), s2))))))"

definition ApiConfig_Read :: "'w env \<Rightarrow> 'w BaseResource \<Rightarrow> ReadRequest \<Rightarrow> ('w, ReadResult) op" where
  "ApiConfig_Read E b request s =
     (case Read E b request s of
        (Ok r, s1) \<Rightarrow>
          if rr_ErrorCode r \<noteq> NoErrorCode then (Ok r, s1)
          else (case readFullView E b request s1 of
             (Ok full, s2) \<Rightarrow> (Ok (r\<lparr>rr_Properties := Some full\<rparr>), s2)
           | (Err e, s2) \<Rightarrow> (Ok r, s2)
           | (Panic p, s2) \<Rightarrow> (Panic p, s2))
      | (Err e, s1) \<Rightarrow> (Err e, s1)
      | (Panic p, s1) \<Rightarrow> (Panic p, s1))"

definition ApiConfig_Status :: "'w env \<Rightarrow> 'w BaseResource \<Rightarrow> StatusRequest \<Rightarrow> ('w, ProgressResult) op" where
  "ApiConfig_Status E b request s = StatusWithRead E b (Some (ApiConfig_Read E b)) request s"

section \<open>Identifiers are read back\<close>

definition gateway_ok :: "PathContext \<Rightarrow> bool" where
  "gateway_ok ctx \<longleftrightarrow>
     list_all (\<lambda>s. seg s \<and> s \<noteq> []) [pc_Project ctx, pc_Location ctx, pc_ResourceName ctx]
     \<and> (pc_ResourceType ctx \<in> {''apis'', ''gateways''} \<and> pc_ParentResource ctx = []
        \<or> pc_ResourceType ctx = ''configs'' \<and> seg (pc_ParentResource ctx) \<and> pc_ParentResource ctx \<noteq> [])"

lemma gateway_parse:
  assumes "gateway_ok ctx"
  shows "\<exists>c. parseAPIGatewayNativeID (tl (apiGatewayPathBuilder ctx)) = Inr c \<and> apiGatewayPathBuilder c = apiGatewayPathBuilder ctx"
proof (cases "pc_ResourceType ctx = ''configs''")
  case True
  then have "Split (tl (apiGatewayPathBuilder ctx)) CHR ''/'' =
      [''projects'', pc_Project ctx, ''locations'', ''global'', ''apis'', pc_ParentResource ctx, ''configs'', pc_ResourceName ctx]"
    using assms by (simp add: gateway_ok_def seg_def apiGatewayPathBuilder_def gateway_location_def globalLocation_def segment)
  then show ?thesis using True assms
    by (simp add: parseAPIGatewayNativeID_def apiGatewayPathBuilder_def gateway_location_def gateway_ok_def empty_ctx_def)
next
  case False
  then consider "pc_ResourceType ctx = ''apis''" | "pc_ResourceType ctx = ''gateways''" using assms by (auto simp: gateway_ok_def)
  then show ?thesis
  proof cases
    case 1
    then have "Split (tl (apiGatewayPathBuilder ctx)) CHR ''/'' =
        [''projects'', pc_Project ctx, ''locations'', ''global'', ''apis'', pc_ResourceName ctx]"
      using assms by (simp add: gateway_ok_def seg_def apiGatewayPathBuilder_def gateway_location_def globalLocation_def segment)
    then show ?thesis using 1 assms
      by (simp add: parseAPIGatewayNativeID_def apiGatewayPathBuilder_def gateway_location_def gateway_ok_def empty_ctx_def)
  next
    case 2
    then have "Split (tl (apiGatewayPathBuilder ctx)) CHR ''/'' =
        [''projects'', pc_Project ctx, ''locations'', pc_Location ctx, ''gateways'', pc_ResourceName ctx]"
      using assms by (simp add: gateway_ok_def seg_def apiGatewayPathBuilder_def gateway_location_def segment)
    then show ?thesis using 2 assms
      by (simp add: parseAPIGatewayNativeID_def apiGatewayPathBuilder_def gateway_location_def gateway_ok_def empty_ctx_def)
  qed
qed

end
