(* ===== verification/Secret_Manager.thy ===== *)
theory Secret_Manager
  imports Walks Service_Package Base64 Compute_Verbs
begin

text \<open>
  Secret Manager (\<^verbatim>\<open>src/pkg/resources/secretmanager\<close>): secrets, whose create carries the name as a query
  parameter, and their versions, which are added and destroyed by verbs of their own. The payload of a
  version is written and never read; a destroyed version still answers, and counts as gone.
\<close>

section \<open>api.go\<close>

definition secretManagerPathBuilder :: "PathContext \<Rightarrow> string" where
  "secretManagerPathBuilder ctx =
     ''/projects/'' @ pc_Project ctx @ ''/'' @ pc_ResourceType ctx
       @ (if pc_ResourceName ctx \<noteq> [] then ''/'' @ pc_ResourceName ctx else [])"

definition extractSecretManagerNativeID :: "obj \<Rightarrow> PathContext \<Rightarrow> string" where
  "extractSecretManagerNativeID response ctx =
     (let name = text_at ''name'' response
      in if HasPrefix name ''projects/'' then name
         else if pc_ResourceName ctx \<noteq> []
         then ''projects/'' @ pc_Project ctx @ ''/'' @ pc_ResourceType ctx @ ''/'' @ pc_ResourceName ctx else [])"

definition parseSecretManagerNativeID :: "string \<Rightarrow> goerr + PathContext" where
  "parseSecretManagerNativeID nativeID =
     (case Split nativeID CHR ''/'' of
        [root, project, kind, name] \<Rightarrow>
          if root = ''projects''
          then Inr (empty_ctx\<lparr>pc_Project := project, pc_ResourceType := kind, pc_ResourceName := name\<rparr>)
          else Inl (ErrText (''invalid secret manager native ID: '' @ nativeID))
      | _ \<Rightarrow> Inl (ErrText (''invalid secret manager native ID: '' @ nativeID)))"

definition SecretManagerAPI :: APIConfig where
  "SecretManagerAPI = \<lparr>ac_BaseURL = ''https://secretmanager.googleapis.com/v1'', ac_APIVersion = ''v1'',
     ac_PathBuilder = Some secretManagerPathBuilder, ac_Pagination = Some (paged_by ''pageSize'' ''pageToken'')\<rparr>"

definition SecretManagerOperations :: OperationConfig where
  "SecretManagerOperations = synchronous_operations extractSecretManagerNativeID"

definition SecretManagerNativeID :: NativeIDConfig where
  "SecretManagerNativeID = path_native_id (Some parseSecretManagerNativeID)"

section \<open>Secrets\<close>

definition secretMutableFields :: "string list" where "secretMutableFields = [''labels'']"

text \<open>A create always says how the secret is replicated.\<close>

definition replication_of :: "obj \<Rightarrow> obj" where
  "replication_of body =
     (let repl = obj_of (as_obj (map_of body ''replication''))
      in if map_of repl ''automatic'' = None \<and> map_of repl ''userManaged'' = None then AList.update ''automatic'' (JObj []) repl else repl)"

definition secretRequestTransformer :: request_transformer where
  "secretRequestTransformer props ctx =
     (let update = (tc_Operation ctx = OperationUpdate);
          body = filter (\<lambda>(k, v). k \<noteq> ''name'' \<and> (update \<longrightarrow> k \<in> set secretMutableFields)) (obj_of props)
      in Ok (Some (if update then body else AList.update ''replication'' (JObj (replication_of body)) body)))"

definition secret_definition :: "'w ResourceDefinition" where
  "secret_definition =
     entry ''GCP::SecretManager::Secret''
       (zero_resource\<lparr>rc_ResourceType := ''secrets'', rc_SupportsUpdate := True, rc_UpdateMaskFromBody := True\<rparr>)
       None (Some secretRequestTransformer) (Some ShortNameResponseTransformer)"

definition secret_package :: "'w package" where
  "secret_package = \<lparr>pk_API = SecretManagerAPI, pk_Operations = SecretManagerOperations, pk_NativeID = SecretManagerNativeID,
     pk_Definitions = [secret_definition]\<rparr>"

text \<open>The context of a transformer of which only project, type and operation are given.\<close>

definition create_context :: "PathContext \<Rightarrow> TransformContext" where
  "create_context ctx =
     \<lparr>tc_Project = pc_Project ctx, tc_Region = [], tc_Zone = [], tc_Location = [], tc_ResourceType = pc_ResourceType ctx,
      tc_Operation = OperationCreate, tc_ParentResource = [], tc_ParentType = []\<rparr>"

text \<open>A value that cannot be written leaves no properties: its error is dropped.\<close>

definition written :: "obj option \<Rightarrow> raw" where
  "written m = (case Marshal (map_value m) of Inl e \<Rightarrow> RawNil | Inr r \<Rightarrow> r)"

definition secret_created :: "'w BaseResource \<Rightarrow> PathContext \<Rightarrow> obj option \<Rightarrow> (goerr, ProgressResult) outcome" where
  "secret_created b ctx body =
     bind_outcome (call_native_id b body ctx) (\<lambda>nativeID.
       bind_outcome (case b_ResponseTransformer b of None \<Rightarrow> Ok body | Some t \<Rightarrow> t body (create_context ctx)) (\<lambda>m.
         Ok ((progress OperationCreate OperationStatusSuccess)
               \<lparr>pr_NativeID := nativeID, pr_Message := ''Resource created successfully'', pr_Properties := Some (written m)\<rparr>)))"

definition secret_context :: "'w BaseResource \<Rightarrow> raw \<Rightarrow> string \<Rightarrow> PathContext" where
  "secret_context b target name =
     empty_ctx\<lparr>pc_Project := c_Project (FromTargetConfig target (Deps (b_Config b))),
       pc_ResourceType := rc_ResourceType (b_ResourceConfig b), pc_ResourceName := name\<rparr>"

definition secret_send ::
    "'w env \<Rightarrow> 'w BaseResource \<Rightarrow> Client \<Rightarrow> CreateRequest \<Rightarrow> PathContext \<Rightarrow> obj option \<Rightarrow> ('w, ProgressResult) op" where
  "secret_send E b client request ctx body s =
     (case CollectionURL (NewURLBuilder (b_APIConfig b) ctx) of
        Panic p \<Rightarrow> (Panic p, s)
      | Err e \<Rightarrow> (Err e, s)
      | Ok collection \<Rightarrow>
          (case AddQueryParams collection [(''secretId'', pc_ResourceName ctx)] of
             Inl e \<Rightarrow> (Ok (createFailureResult InvalidRequest (''failed to build URL: '' @ err_text e)), s)
           | Inr url \<Rightarrow>
               (case SendRequest E client (request_options ''POST'' url body) s of
                  (Inl e, s1) \<Rightarrow>
                    (let te = wrap_err e (''failed to create '' @ cr_ResourceType request @ '' '' @ [CHR 0x27] @ pc_ResourceName ctx @ [CHR 0x27])
                     in (Ok (createFailureResult (ToResourceErrorCode (te_Code te)) (te_Message te)), s1))
                | (Inr response, s1) \<Rightarrow> (secret_created b ctx (rs_Body response), s1))))"

definition Secret_Create :: "'w env \<Rightarrow> 'w BaseResource \<Rightarrow> CreateRequest \<Rightarrow> ('w, ProgressResult) op" where
  "Secret_Create E b request s =
     (case NewClient E (b_Config b) s of
        (Inl e, s1) \<Rightarrow> (Err (client_error e), s1)
      | (Inr client, s1) \<Rightarrow>
          (case unmarshal_map (cr_Properties request) of
             Inl e \<Rightarrow> (Ok (createFailureResult InvalidRequest (''failed to parse properties: '' @ e)), s1)
           | Inr props \<Rightarrow>
               (let name = GetString (obj_of props) ''name''; ctx = secret_context b (cr_TargetConfig request) name
                in if name = [] then (Ok (createFailureResult InvalidRequest ''name is required''), s1)
                   else case (case b_RequestTransformer b of None \<Rightarrow> Ok props | Some t \<Rightarrow> t props (create_context ctx)) of
                     Panic p \<Rightarrow> (Panic p, s1)
                   | Err e \<Rightarrow> (Ok (createFailureResult InvalidRequest (''failed to transform request: '' @ err_text e)), s1)
                   | Ok body \<Rightarrow> secret_send E b client request ctx body s1)))"

section \<open>Versions\<close>

definition parentPath :: "string \<Rightarrow> string \<Rightarrow> string" where
  "parentPath secret project =
     (if HasPrefix secret ''projects/'' then secret else ''projects/'' @ project @ ''/secrets/'' @ secret)"

record secretVersionProps =
  sv_Secret :: string
  sv_Data :: string

text \<open>Decoding into the struct; the text of a type mismatch is not modelled.\<close>

definition struct_string :: "obj \<Rightarrow> string \<Rightarrow> string option" where
  "struct_string m k =
     (case struct_field m k of None \<Rightarrow> Some [] | Some JNull \<Rightarrow> Some [] | Some (JStr s) \<Rightarrow> Some s | Some _ \<Rightarrow> None)"

definition read_version_props :: "raw \<Rightarrow> string + secretVersionProps" where
  "read_version_props r =
     (case unmarshal_map r of
        Inl e \<Rightarrow> Inl e
      | Inr m \<Rightarrow>
          (case (struct_string (obj_of m) ''secret'', struct_string (obj_of m) ''data'') of
             (Some secret, Some data) \<Rightarrow> Inr \<lparr>sv_Secret = secret, sv_Data = data\<rparr>
           | _ \<Rightarrow> Inl ''json: cannot unmarshal''))"

definition version_config :: "Config option \<Rightarrow> raw \<Rightarrow> Config" where
  "version_config own target =
     (let c = FromTargetConfig target (Deps own)
      in case own of Some p \<Rightarrow> if c_Project c = [] then c\<lparr>c_Project := c_Project p\<rparr> else c | None \<Rightarrow> c)"

definition version_body :: "string \<Rightarrow> obj" where
  "version_body data = [(''payload'', JObj [(''data'', JStr (StdEncodeToString data))])]"

definition version_named :: "string \<Rightarrow> raw" where
  "version_named name = RawDoc (JObj [(''name'', JStr name)])"

definition version_added :: "obj option \<Rightarrow> ProgressResult" where
  "version_added body =
     (let nativeID = GetString (obj_of body) ''name''
      in if nativeID = [] then createFailureResult ServiceInternalError ''addVersion response missing version name''
         else (progress OperationCreate OperationStatusSuccess)
                \<lparr>pr_NativeID := nativeID, pr_Message := ''Secret version created successfully'',
                 pr_Properties := Some (version_named nativeID)\<rparr>)"

definition add_version_url :: "string \<Rightarrow> string \<Rightarrow> string" where
  "add_version_url secret project = ac_BaseURL SecretManagerAPI @ ''/'' @ parentPath secret project @ '':addVersion''"

definition Version_Create :: "'w env \<Rightarrow> Config option \<Rightarrow> CreateRequest \<Rightarrow> ('w, ProgressResult) op" where
  "Version_Create E own request s =
     (case read_version_props (cr_Properties request) of
        Inl e \<Rightarrow> (Ok (createFailureResult InvalidRequest (''failed to parse properties: '' @ e)), s)
      | Inr props \<Rightarrow>
          if sv_Secret props = [] then (Ok (createFailureResult InvalidRequest ''secret is required''), s)
          else if sv_Data props = [] then (Ok (createFailureResult InvalidRequest ''data is required''), s)
          else
            (let cfg = version_config own (cr_TargetConfig request)
             in case NewClient E (Some cfg) s of
                  (Inl e, s1) \<Rightarrow> (Err (client_error e), s1)
                | (Inr client, s1) \<Rightarrow>
                    (case SendRequest E client (request_options ''POST'' (add_version_url (sv_Secret props) (c_Project cfg))
                            (Some (version_body (sv_Data props)))) s1 of
                       (Inl e, s2) \<Rightarrow>
                         (let te = wrap_err e (''failed to add version to secret '' @ [CHR 0x27] @ sv_Secret props @ [CHR 0x27])
                          in (Ok (createFailureResult (ToResourceErrorCode (te_Code te)) (te_Message te)), s2))
                     | (Inr response, s2) \<Rightarrow> (Ok (version_added (rs_Body response)), s2))))"

definition version_url :: "string \<Rightarrow> string" where
  "version_url nativeID = ac_BaseURL SecretManagerAPI @ ''/'' @ nativeID"

definition version_read :: "ReadRequest \<Rightarrow> obj \<Rightarrow> ReadResult" where
  "version_read request body =
     (let name = GetString body ''name''
      in if GetString body ''state'' = ''DESTROYED'' then read_error NotFound
         else (read_properties (version_named (if name = [] then rd_NativeID request else name)))
                \<lparr>rr_ResourceType := rd_ResourceType request\<rparr>)"

definition Version_Read :: "'w env \<Rightarrow> Config option \<Rightarrow> ReadRequest \<Rightarrow> ('w, ReadResult) op" where
  "Version_Read E own request s =
     (case NewClient E (Some (version_config own (rd_TargetConfig request))) s of
        (Inl e, s1) \<Rightarrow> (Err (client_error e), s1)
      | (Inr client, s1) \<Rightarrow>
          (case SendRequest E client (request_options ''GET'' (version_url (rd_NativeID request)) None) s1 of
             (Inl e, s2) \<Rightarrow>
               (Ok (read_error (ToResourceErrorCode (te_Code
                  (wrap_err e (''failed to read secret version '' @ [CHR 0x27] @ rd_NativeID request @ [CHR 0x27]))))), s2)
           | (Inr response, s2) \<Rightarrow> (Ok (version_read request (obj_of (rs_Body response))), s2)))"

definition Version_Update :: "UpdateRequest \<Rightarrow> ('w, ProgressResult) op" where
  "Version_Update request s =
     (Ok ((progress OperationUpdate OperationStatusSuccess)\<lparr>pr_NativeID := up_NativeID request\<rparr>), s)"

definition version_deleteSuccess :: "string \<Rightarrow> ProgressResult" where
  "version_deleteSuccess nativeID = (progress OperationDelete OperationStatusSuccess)\<lparr>pr_NativeID := nativeID\<rparr>"

definition version_deleteFailure :: "OperationErrorCode \<Rightarrow> string \<Rightarrow> ProgressResult" where
  "version_deleteFailure code msg = (progress OperationDelete OperationStatusFailure)\<lparr>pr_ErrorCode := code, pr_Message := msg\<rparr>"

text \<open>A version that is gone answers 404, one that is destroyed 400.\<close>

definition Version_Delete :: "'w env \<Rightarrow> Config option \<Rightarrow> DeleteRequest \<Rightarrow> ('w, ProgressResult) op" where
  "Version_Delete E own request s =
     (case NewClient E (Some (version_config own (dl_TargetConfig request))) s of
        (Inl e, s1) \<Rightarrow> (Err (client_error e), s1)
      | (Inr client, s1) \<Rightarrow>
          (case SendRequest E client (request_options ''POST'' (version_url (dl_NativeID request) @ '':destroy'') (Some [])) s1 of
             (Inl e, s2) \<Rightarrow>
               (let te = wrap_err e (''failed to destroy secret version '' @ [CHR 0x27] @ dl_NativeID request @ [CHR 0x27]);
                    code = ToResourceErrorCode (te_Code te)
                in (Ok (if code \<noteq> NotFound \<and> code \<noteq> InvalidRequest then version_deleteFailure code (te_Message te)
                        else version_deleteSuccess (dl_NativeID request)), s2))
           | (Inr response, s2) \<Rightarrow> (Ok (version_deleteSuccess (dl_NativeID request)), s2)))"

definition Version_Status :: "StatusRequest \<Rightarrow> ('w, ProgressResult) op" where
  "Version_Status request s =
     (Ok ((progress OperationCheckStatus OperationStatusSuccess)
            \<lparr>pr_NativeID := st_NativeID request, pr_RequestID := st_RequestID request\<rparr>), s)"

section \<open>Listing versions\<close>

text \<open>The page of a collection; a URL that cannot be extended is dropped, error and all.\<close>

definition secret_page_url :: "string \<Rightarrow> string \<Rightarrow> string" where
  "secret_page_url url token = (if token = [] then url else url_or_empty (AddQueryParams url [(''pageToken'', token)]))"

partial_function (option) secret_pages ::
    "'w env \<Rightarrow> Client \<Rightarrow> string \<Rightarrow> (obj \<Rightarrow> string list) \<Rightarrow> string \<Rightarrow> string \<Rightarrow> string list \<Rightarrow> 'w machine
      \<Rightarrow> ((goerr + string list) \<times> 'w machine) option" where
  "secret_pages E client message harvest url token found s =
     (case fetch E client (secret_page_url url token) s of
        (Inl e, s1) \<Rightarrow> Some (Inl (terror_err (wrap_err e message)), s1)
      | (Inr body, s1) \<Rightarrow>
          (let found1 = found @ harvest body
           in if page_token body = [] then Some (Inr found1, s1)
              else secret_pages E client message harvest url (page_token body) found1 s1))"

definition listSecretPaths :: "'w env \<Rightarrow> Client \<Rightarrow> string \<Rightarrow> 'w machine \<Rightarrow> ((goerr + string list) \<times> 'w machine) option" where
  "listSecretPaths E client project s =
     secret_pages E client ''failed to list secrets'' (names_at ''secrets'' ''name'')
       (ac_BaseURL SecretManagerAPI @ ''/projects/'' @ project @ ''/secrets'') [] [] s"

definition live_versions :: "obj \<Rightarrow> string list" where
  "live_versions body =
     filter (\<lambda>n. n \<noteq> []) (map (text_at ''name'') (filter (\<lambda>v. text_at ''state'' v \<noteq> ''DESTROYED'') (items_at ''versions'' body)))"

definition listVersionNames :: "'w env \<Rightarrow> Client \<Rightarrow> string \<Rightarrow> 'w machine \<Rightarrow> ((goerr + string list) \<times> 'w machine) option" where
  "listVersionNames E client secretPath s =
     secret_pages E client (''failed to list versions of '' @ [CHR 0x27] @ secretPath @ [CHR 0x27]) live_versions
       (ac_BaseURL SecretManagerAPI @ ''/'' @ secretPath @ ''/versions'') [] [] s"

text \<open>Here one unreadable secret ends the listing.\<close>

fun all_versions ::
    "'w env \<Rightarrow> Client \<Rightarrow> string list \<Rightarrow> string list \<Rightarrow> 'w machine \<Rightarrow> ((goerr + string list) \<times> 'w machine) option" where
  "all_versions E client [] found s = Some (Inr found, s)"
| "all_versions E client (p # ps) found s =
     (case listVersionNames E client p s of
        None \<Rightarrow> None
      | Some (Inl e, s1) \<Rightarrow> Some (Inl e, s1)
      | Some (Inr ids, s1) \<Rightarrow> all_versions E client ps (found @ ids) s1)"

definition versions_under ::
    "'w env \<Rightarrow> Client \<Rightarrow> (goerr + string list) \<times> 'w machine \<Rightarrow> ((goerr, ListResult) outcome \<times> 'w machine) option" where
  "versions_under E client secrets =
     (case secrets of
        (Inl e, s) \<Rightarrow> Some (Err e, s)
      | (Inr paths, s) \<Rightarrow>
          (case all_versions E client paths [] s of
             None \<Rightarrow> None
           | Some (Inl e, s1) \<Rightarrow> Some (Err e, s1)
           | Some (Inr ids, s1) \<Rightarrow> Some (Ok (found_ids ids), s1)))"

definition Version_List :: "'w env \<Rightarrow> Config option \<Rightarrow> ListRequest \<Rightarrow> 'w walk_op" where
  "Version_List E own request s =
     (let cfg = version_config own (ls_TargetConfig request);
          scoped = string_or_empty (map_of (ls_AdditionalProperties request) ''secret'')
      in if c_Project cfg = [] then Some (Ok no_ids, s)
         else case NewClient E (Some cfg) s of
           (Inl e, s1) \<Rightarrow> Some (Err (client_error e), s1)
         | (Inr client, s1) \<Rightarrow>
             if scoped \<noteq> [] then versions_under E client (Inr [parentPath scoped (c_Project cfg)], s1)
             else case listSecretPaths E client (c_Project cfg) s1 of
               None \<Rightarrow> None | Some r \<Rightarrow> versions_under E client r)"

section \<open>Properties\<close>

interpretation secrets: addressed secretManagerPathBuilder extractSecretManagerNativeID parseSecretManagerNativeID True
  "\<lambda>ctx. list_all (\<lambda>s. seg s \<and> s \<noteq> []) [pc_Project ctx, pc_ResourceType ctx, pc_ResourceName ctx]"
  "\<lambda>ctx. empty_ctx\<lparr>pc_Project := pc_Project ctx, pc_ResourceType := pc_ResourceType ctx, pc_ResourceName := pc_ResourceName ctx\<rparr>" "\<lambda>t. False"
proof
  fix ctx c :: PathContext and body assume ok: "list_all (\<lambda>s. seg s \<and> s \<noteq> []) [pc_Project ctx, pc_ResourceType ctx, pc_ResourceName ctx]"
  let ?canon = "empty_ctx\<lparr>pc_Project := pc_Project ctx, pc_ResourceType := pc_ResourceType ctx, pc_ResourceName := pc_ResourceName ctx\<rparr>"
  show "secretManagerPathBuilder ctx = secretManagerPathBuilder (ctx\<lparr>pc_ResourceName := []\<rparr>) @ ''/'' @ pc_ResourceName ctx"
    using ok by (simp add: secretManagerPathBuilder_def)
  have "Split (tl (secretManagerPathBuilder ctx)) CHR ''/'' = [''projects'', pc_Project ctx, pc_ResourceType ctx, pc_ResourceName ctx]"
    using ok by (simp add: secretManagerPathBuilder_def seg_def segment)
  then show "parseSecretManagerNativeID (tl (secretManagerPathBuilder ctx)) = Inr ?canon"
    by (simp add: parseSecretManagerNativeID_def)
  show "pc_ResourceName ?canon = pc_ResourceName ctx \<and> pc_ResourceName ctx \<noteq> []" using ok by simp
  show "extractSecretManagerNativeID body ctx = tl (secretManagerPathBuilder ctx)"
    if "own_answer True (tl (secretManagerPathBuilder ctx)) body"
    using that ok by (auto simp: extractSecretManagerNativeID_def own_answer_def text_at_def string_or_empty_def
        secretManagerPathBuilder_def Let_def split: option.splits)
  show "secretManagerPathBuilder c = secretManagerPathBuilder ctx"
    if "completes False ?canon c" "pc_ResourceType c = pc_ResourceType ctx"
    using that ok by (simp add: completes_def secretManagerPathBuilder_def)
qed

text \<open>
  A destroyed version is gone to Read and to List alike: of the versions a page holds, List reports exactly
  those whose own document Read would accept.
\<close>

lemma GetString_text_at: "GetString m k = text_at k m"
  by (simp add: GetString_def text_at_def string_or_empty_def split: option.splits json.splits)

lemma live_versions_readable:
  assumes "\<And>v. v \<in> set (items_at ''versions'' body) \<Longrightarrow> text_at ''name'' v \<noteq> []"
  shows "set (live_versions body) =
    {text_at ''name'' v |v. v \<in> set (items_at ''versions'' body) \<and> rr_ErrorCode (version_read request v) = NoErrorCode}"
proof -
  have "rr_ErrorCode (version_read request v) = NoErrorCode \<longleftrightarrow> text_at ''state'' v \<noteq> ''DESTROYED''" for v
    by (simp add: version_read_def GetString_text_at Let_def read_error_def read_properties_def)
  then show ?thesis using assms by (auto simp: live_versions_def)
qed

text \<open>
  C23: The payload of a secret version is written and never kept. A create that reports success sent exactly
  one request, a POST to the addVersion verb of the declared secret whose payload is the base64 form of
  exactly the declared data, which is not empty; and what it stores as the state of the version is the name
  the API gave it and nothing else.
\<close>
theorem version_create_seals:
  assumes "Version_Create (logged E) own request s = (Ok r, s')" and "pr_Status r = OperationStatusSuccess"
  shows "\<exists>props req payload. read_version_props (cr_Properties request) = Inr props
    \<and> sent s' = sent s @ [req] \<and> hq_Method req = ''POST''
    \<and> AddQueryParam (add_version_url (sv_Secret props) (c_Project (version_config own (cr_TargetConfig request)))) ''alt'' ''json'' = Inr (hq_URL req)
    \<and> carries req [(''payload'', JObj [(''data'', JStr payload)])]
    \<and> StdDecodeString payload = Some (sv_Data props) \<and> sv_Data props \<noteq> []
    \<and> pr_NativeID r \<noteq> [] \<and> pr_Properties r = Some (RawDoc (JObj [(''name'', JStr (pr_NativeID r))]))"
proof (cases "read_version_props (cr_Properties request)")
  case (Inl e)
  then show ?thesis using assms by (auto simp: Version_Create_def createFailureResult_def)
next
  case (Inr props)
  let ?cfg = "version_config own (cr_TargetConfig request)"
  let ?opts = "request_options ''POST'' (add_version_url (sv_Secret props) (c_Project ?cfg)) (Some (version_body (sv_Data props)))"
  have full: "sv_Secret props \<noteq> []" "sv_Data props \<noteq> []"
    using assms Inr by (auto simp: Version_Create_def createFailureResult_def split: if_splits)
  obtain q s1 where q: "NewClient (logged E) (Some ?cfg) s = (q, s1)" by (metis surj_pair)
  then obtain client where client: "q = Inr client"
    using assms Inr full by (cases q) (auto simp: Version_Create_def Let_def)
  obtain a s2 where a: "SendRequest (logged E) client ?opts s1 = (a, s2)" by (metis surj_pair)
  then obtain response where ok: "a = Inr response"
    using assms Inr full q client by (cases a) (auto simp: Version_Create_def Let_def createFailureResult_def)
  then have r: "r = version_added (rs_Body response)" "s' = s2"
    using assms Inr full q client a by (auto simp: Version_Create_def Let_def)
  obtain req where req: "sends client ?opts req" "sent s2 = sent s1 @ [req]"
    using SendRequest_logged [OF a] ok by auto
  have "hq_Method req = ''POST'' \<and> AddQueryParam (ro_URL ?opts) ''alt'' ''json'' = Inr (hq_URL req)"
    using req(1) by (auto simp: sends_def)
  moreover have "carries req (version_body (sv_Data props))" using sends_carries req(1) .
  moreover have "pr_NativeID r \<noteq> [] \<and> pr_Properties r = Some (version_named (pr_NativeID r))"
    using assms(2) r by (auto simp: version_added_def Let_def createFailureResult_def split: if_splits)
  ultimately show ?thesis
    using Inr full req r NewClient_sent [OF q]
    by (intro exI [of _ props] exI [of _ req] exI [of _ "StdEncodeToString (sv_Data props)"]) (simp add: version_body_def version_named_def)
qed

definition demo_version :: CreateRequest where
  "demo_version = \<lparr>cr_ResourceType = ''GCP::SecretManager::SecretVersion'', cr_TargetConfig = RawNil,
     cr_Properties = RawDoc (JObj [(''secret'', JStr ''s''), (''data'', JStr ''pw'')])\<rparr>"

theorem version_create_seals_witness:
  "\<exists>r s'. Version_Create (logged script_env) (Some (cl_config demo_client)) demo_version
      (script_at [scripted 200 (JObj [(''name'', JStr ''projects/1/secrets/s/versions/1'')])] []) = (Ok r, s')
    \<and> pr_Status r = OperationStatusSuccess
    \<and> pr_Properties r = Some (RawDoc (JObj [(''name'', JStr ''projects/1/secrets/s/versions/1'')]))"
proof -
  let ?name = "''projects/1/secrets/s/versions/1''" and ?url = "''https://secretmanager.googleapis.com/v1/projects/prj/secrets/s:addVersion''"
  let ?s = "script_at [scripted 200 (JObj [(''name'', JStr ?name)])] []"
  have props: "read_version_props (cr_Properties demo_version) = Inr \<lparr>sv_Secret = ''s'', sv_Data = ''pw''\<rparr>"
    by code_simp
  have cfg: "version_config (Some (cl_config demo_client)) RawNil = cl_config demo_client" "c_Project (cl_config demo_client) = ''prj''"
    by (simp_all add: version_config_def FromTargetConfig_def demo_client_def Deps_def zero_config_def Let_def)
  have client: "NewClient (logged script_env) (Some (cl_config demo_client)) s = (Inr demo_client, s)" for s
    using demo_NewClient [of s] by (simp add: demo_def demo_client_def)
  have "Parse ?url \<noteq> None" by code_simp
  moreover have "marshalable (JObj (version_body ''pw''))" by (simp add: version_body_def)
  ultimately obtain req where send: "SendRequest (logged script_env) demo_client (request_options ''POST'' ?url (Some (version_body ''pw''))) ?s
      = (Inr \<lparr>rs_StatusCode = 200, rs_Body = Some [(''name'', JStr ?name)], rs_Headers = []\<rparr>, script_at [] [req])"
    using script_send [OF _ methods_ok(2), of ?url "Some (version_body ''pw'')" "[(''name'', JStr ?name)]" "[]" "[]"] by auto
  have run: "Version_Create (logged script_env) (Some (cl_config demo_client)) demo_version ?s
      = (Ok (version_added (Some [(''name'', JStr ?name)])), script_at [] [req])"
    using props send
    by (simp add: Version_Create_def demo_version_def cfg client add_version_url_def parentPath_def SecretManagerAPI_def HasPrefix_def Let_def)
  let ?r = "version_added (Some [(''name'', JStr ?name)])"
  have named: "pr_Status ?r = OperationStatusSuccess" "pr_NativeID ?r = ?name"
    by (simp_all add: version_added_def GetString_def obj_of_def Let_def)
  from version_create_seals [OF run named(1)] have "pr_Properties ?r = Some (RawDoc (JObj [(''name'', JStr ?name)]))"
    unfolding named(2) by blast
  then show ?thesis using run named(1) by blast
qed

end
