(* ===== verification/Service_Account.thy ===== *)
theory Service_Account
  imports Iam_Member Secret_Manager
begin

text \<open>
  Service accounts and custom roles (\<^verbatim>\<open>src/pkg/resources/iam\<close>: \<^verbatim>\<open>api.go\<close>, \<^verbatim>\<open>service_account.go\<close>,
  \<^verbatim>\<open>role.go\<close>). An account is listed only some time after it was created and for some time after it was
  deleted, so both operations answer that they are in progress, and Status looks at every page of the
  listing. The request ID says which of the two is being waited for.
\<close>

section \<open>api.go\<close>

definition iamPathBuilder :: "PathContext \<Rightarrow> string" where
  "iamPathBuilder ctx =
     ''/projects/'' @ pc_Project ctx @ ''/'' @ pc_ResourceType ctx
       @ (if pc_ResourceName ctx \<noteq> [] then ''/'' @ pc_ResourceName ctx else [])"

definition extractIAMNativeID :: "obj \<Rightarrow> PathContext \<Rightarrow> string" where
  "extractIAMNativeID response ctx =
     (let name = text_at ''name'' response
      in if HasPrefix name ''projects/'' then name
         else if pc_ResourceName ctx \<noteq> []
         then ''projects/'' @ pc_Project ctx @ ''/'' @ pc_ResourceType ctx @ ''/'' @ pc_ResourceName ctx else [])"

definition parseIAMNativeID :: "string \<Rightarrow> goerr + PathContext" where
  "parseIAMNativeID nativeID =
     (case Split nativeID CHR ''/'' of
        [root, project, kind, name] \<Rightarrow>
          if root = ''projects''
          then Inr (empty_ctx\<lparr>pc_Project := project, pc_ResourceType := kind, pc_ResourceName := name\<rparr>)
          else Inl (ErrText (''invalid IAM native ID: '' @ nativeID))
      | _ \<Rightarrow> Inl (ErrText (''invalid IAM native ID: '' @ nativeID)))"

definition IAMAPI :: APIConfig where
  "IAMAPI = \<lparr>ac_BaseURL = ''https://iam.googleapis.com/v1'', ac_APIVersion = ''v1'',
     ac_PathBuilder = Some iamPathBuilder, ac_Pagination = Some (paged_by ''pageSize'' ''pageToken'')\<rparr>"

definition IAMOperations :: OperationConfig where
  "IAMOperations = synchronous_operations extractIAMNativeID"

definition IAMNativeID :: NativeIDConfig where
  "IAMNativeID = path_native_id (Some parseIAMNativeID)"

section \<open>Service accounts\<close>

definition deleteStatusPrefix :: string where "deleteStatusPrefix = ''delete:''"

definition serviceAccountResponseTransformer :: response_transformer where
  "serviceAccountResponseTransformer response ctx =
     Ok (case as_string (map_of (obj_of response) ''email'') of
           None \<Rightarrow> response
         | Some email \<Rightarrow>
             (case Index email ''@'' of
                None \<Rightarrow> response
              | Some i \<Rightarrow> if 0 < i then Some (AList.update ''name'' (JStr (take i email)) (obj_of response)) else response))"

definition newServiceAccountProvisioner :: "Config option \<Rightarrow> 'w BaseResource" where
  "newServiceAccountProvisioner cfg =
     \<lparr>b_Config = cfg, b_APIConfig = IAMAPI, b_OperationConfig = IAMOperations,
      b_ResourceConfig = zero_resource\<lparr>rc_ResourceType := ''serviceAccounts'', rc_ListItemsKey := ''accounts''\<rparr>,
      b_NativeIDConfig = IAMNativeID, b_RequestTransformer = None,
      b_ResponseTransformer = Some serviceAccountResponseTransformer\<rparr>"

definition filled :: "string list \<Rightarrow> obj \<Rightarrow> obj" where
  "filled ks props = concat (map (\<lambda>k. if GetString props k = [] then [] else [(k, JStr (GetString props k))]) ks)"

definition account_body :: "obj \<Rightarrow> obj" where
  "account_body props =
     [(''accountId'', JStr (GetString props ''name'')), (''serviceAccount'', JObj (filled [''displayName'', ''description''] props))]"

definition iam_context :: "'w BaseResource \<Rightarrow> raw \<Rightarrow> string \<Rightarrow> PathContext" where
  "iam_context b target kind =
     empty_ctx\<lparr>pc_Project := c_Project (FromTargetConfig target (Deps (b_Config b))), pc_ResourceType := kind\<rparr>"

definition iam_collection :: "PathContext \<Rightarrow> string" where
  "iam_collection ctx = ac_BaseURL IAMAPI @ iamPathBuilder ctx"

definition account_created :: "string \<Rightarrow> ProgressResult" where
  "account_created nativeID =
     (if nativeID = [] then iam_failure OperationCreate ServiceInternalError ''service account create response had no resource name''
      else (progress OperationCreate OperationStatusInProgress)
             \<lparr>pr_NativeID := nativeID, pr_RequestID := nativeID,
              pr_Message := ''service account created; waiting for read consistency''\<rparr>)"

definition Account_Create :: "'w env \<Rightarrow> 'w BaseResource \<Rightarrow> CreateRequest \<Rightarrow> ('w, ProgressResult) op" where
  "Account_Create E b request s =
     (case NewClient E (b_Config b) s of
        (Inl e, s1) \<Rightarrow> (Err (client_error e), s1)
      | (Inr client, s1) \<Rightarrow>
          (case unmarshal_map (cr_Properties request) of
             Inl e \<Rightarrow> (Ok (iam_failure OperationCreate InvalidRequest (''failed to parse properties: '' @ e)), s1)
           | Inr m \<Rightarrow>
               (let props = obj_of m; name = GetString props ''name'';
                    ctx = iam_context b (cr_TargetConfig request) ''serviceAccounts''
                in if name = [] then (Ok (iam_failure OperationCreate InvalidRequest ''name (accountId) is required''), s1)
                   else case SendRequest E client (request_options ''POST'' (iam_collection ctx) (Some (account_body props))) s1 of
                     (Inl e, s2) \<Rightarrow>
                       (let te = wrap_err e (''failed to create service account '' @ [CHR 0x27] @ name @ [CHR 0x27])
                        in (Ok (iam_failure OperationCreate (ToResourceErrorCode (te_Code te)) (te_Message te)), s2))
                   | (Inr response, s2) \<Rightarrow> (Ok (account_created (extractIAMNativeID (obj_of (rs_Body response)) ctx)), s2))))"

definition account_deleted :: "string \<Rightarrow> ProgressResult \<Rightarrow> ProgressResult" where
  "account_deleted nativeID p =
     (if pr_Status p \<noteq> OperationStatusSuccess then p
      else (progress OperationDelete OperationStatusInProgress)
             \<lparr>pr_NativeID := nativeID, pr_RequestID := deleteStatusPrefix @ nativeID,
              pr_Message := ''service account deleted; waiting for it to disappear from list''\<rparr>)"

definition Account_Delete :: "'w env \<Rightarrow> 'w BaseResource \<Rightarrow> DeleteRequest \<Rightarrow> ('w, ProgressResult) op" where
  "Account_Delete E b request s =
     (case Delete E b request s of
        (Ok p, s1) \<Rightarrow> (Ok (account_deleted (dl_NativeID request) p), s1)
      | (Err e, s1) \<Rightarrow> (Err e, s1)
      | (Panic m, s1) \<Rightarrow> (Panic m, s1))"

section \<open>Looking for an account in the listing\<close>

definition listing_page :: "StatusRequest \<Rightarrow> string option \<Rightarrow> ListRequest" where
  "listing_page request token =
     \<lparr>ls_ResourceType = st_ResourceType request, ls_TargetConfig = st_TargetConfig request, ls_PageSize = 0,
      ls_PageToken = token, ls_AdditionalProperties = []\<rparr>"

partial_function (option) isListed ::
    "(ListRequest \<Rightarrow> ('w, ListResult) op) \<Rightarrow> StatusRequest \<Rightarrow> string option \<Rightarrow> 'w machine
      \<Rightarrow> ((goerr, bool) outcome \<times> 'w machine) option" where
  "isListed list request token s =
     (case list (listing_page request token) s of
        (Panic p, s1) \<Rightarrow> Some (Panic p, s1)
      | (Err e, s1) \<Rightarrow> Some (Err e, s1)
      | (Ok res, s1) \<Rightarrow>
          if st_NativeID request \<in> set (lr_NativeIDs res) then Some (Ok True, s1)
          else if string_or_empty (lr_NextPageToken res) = [] then Some (Ok False, s1)
          else isListed list request (lr_NextPageToken res) s1)"

definition status_failed :: "StatusRequest \<Rightarrow> string \<Rightarrow> goerr \<Rightarrow> ProgressResult" where
  "status_failed request text e =
     (progress OperationCheckStatus OperationStatusFailure)
       \<lparr>pr_ErrorCode := ServiceInternalError, pr_NativeID := st_NativeID request, pr_Message := text @ err_text e\<rparr>"

definition status_waiting :: "StatusRequest \<Rightarrow> string \<Rightarrow> ProgressResult" where
  "status_waiting request text =
     (progress OperationCheckStatus OperationStatusInProgress)
       \<lparr>pr_NativeID := st_NativeID request, pr_RequestID := st_RequestID request, pr_Message := text\<rparr>"

definition account_deleteStatus ::
    "(ListRequest \<Rightarrow> ('w, ListResult) op) \<Rightarrow> StatusRequest \<Rightarrow> 'w machine \<Rightarrow> ((goerr, ProgressResult) outcome \<times> 'w machine) option" where
  "account_deleteStatus list request s =
     (case isListed list request None s of
        None \<Rightarrow> None
      | Some (Panic p, s1) \<Rightarrow> Some (Panic p, s1)
      | Some (Err e, s1) \<Rightarrow> Some (Ok (status_failed request ''service account list failed during delete consistency check: '' e), s1)
      | Some (Ok False, s1) \<Rightarrow>
          Some (Ok ((progress OperationCheckStatus OperationStatusSuccess)
                      \<lparr>pr_NativeID := st_NativeID request, pr_Message := ''service account no longer listable''\<rparr>), s1)
      | Some (Ok True, s1) \<Rightarrow> Some (Ok (status_waiting request ''waiting for service account to disappear from list''), s1))"

definition account_read_back :: "StatusRequest \<Rightarrow> (goerr, ReadResult) outcome \<Rightarrow> (goerr, ProgressResult) outcome" where
  "account_read_back request answer =
     (case answer of
        Panic p \<Rightarrow> Panic p
      | Err e \<Rightarrow> Ok (status_waiting request ''waiting for service account to appear in list'')
      | Ok r \<Rightarrow>
          if rr_ErrorCode r = NoErrorCode
          then Ok ((progress OperationCheckStatus OperationStatusSuccess)
                     \<lparr>pr_NativeID := st_NativeID request,
                      pr_Properties := Some (case rr_Properties r of None \<Rightarrow> RawNil | Some p \<Rightarrow> p),
                      pr_Message := ''service account is listable''\<rparr>)
          else Ok (status_waiting request ''waiting for service account to appear in list''))"

definition Account_Status ::
    "'w env \<Rightarrow> 'w BaseResource \<Rightarrow> StatusRequest \<Rightarrow> 'w machine \<Rightarrow> ((goerr, ProgressResult) outcome \<times> 'w machine) option" where
  "Account_Status E b request s =
     (if HasPrefix (st_RequestID request) deleteStatusPrefix then account_deleteStatus (List E b) request s
      else case isListed (List E b) request None s of
        None \<Rightarrow> None
      | Some (Panic p, s1) \<Rightarrow> Some (Panic p, s1)
      | Some (Err e, s1) \<Rightarrow> Some (Ok (status_failed request ''service account list failed during consistency check: '' e), s1)
      | Some (Ok False, s1) \<Rightarrow> Some (Ok (status_waiting request ''waiting for service account to appear in list''), s1)
      | Some (Ok True, s1) \<Rightarrow>
          (case Read E b (status_read_request request (st_NativeID request)) s1 of
             (answer, s2) \<Rightarrow> Some (account_read_back request answer, s2)))"

section \<open>Custom roles\<close>

definition roleMutableFields :: "string list" where
  "roleMutableFields = [''title'', ''description'', ''includedPermissions'', ''stage'']"

definition newRoleProvisioner :: "Config option \<Rightarrow> 'w BaseResource" where
  "newRoleProvisioner cfg =
     \<lparr>b_Config = cfg, b_APIConfig = IAMAPI, b_OperationConfig = IAMOperations,
      b_ResourceConfig = zero_resource\<lparr>rc_ResourceType := ''roles''\<rparr>,
      b_NativeIDConfig = IAMNativeID, b_RequestTransformer = None, b_ResponseTransformer = Some ShortNameResponseTransformer\<rparr>"

definition pickRoleFields :: "obj \<Rightarrow> obj" where
  "pickRoleFields props = concat (map (\<lambda>k. case map_of props k of None \<Rightarrow> [] | Some v \<Rightarrow> [(k, v)]) roleMutableFields)"

text \<open>A deleted role answers for some days, marked as deleted.\<close>

definition Role_Read :: "'w env \<Rightarrow> 'w BaseResource \<Rightarrow> ReadRequest \<Rightarrow> ('w, ReadResult) op" where
  "Role_Read E b request s =
     (case Read E b request s of
        (Ok r, s1) \<Rightarrow>
          (case rr_Properties r of
             None \<Rightarrow> (Ok r, s1)
           | Some doc \<Rightarrow>
               (case unmarshal_map doc of
                  Inl e \<Rightarrow> (Ok r, s1)
                | Inr m \<Rightarrow> (Ok (if as_bool (map_of (obj_of m) ''deleted'') = Some True then read_error NotFound else r), s1)))
      | (Err e, s1) \<Rightarrow> (Err e, s1)
      | (Panic p, s1) \<Rightarrow> (Panic p, s1))"

definition role_context :: "PathContext \<Rightarrow> TransformContext" where
  "role_context ctx =
     \<lparr>tc_Project = pc_Project ctx, tc_Region = [], tc_Zone = [], tc_Location = [], tc_ResourceType = pc_ResourceType ctx,
      tc_Operation = OperationCreate, tc_ParentResource = [], tc_ParentType = []\<rparr>"

text \<open>An answer that cannot be written leaves no properties: its error is dropped.\<close>

definition role_created :: "'w BaseResource \<Rightarrow> PathContext \<Rightarrow> obj option \<Rightarrow> (goerr, ProgressResult) outcome" where
  "role_created b ctx body =
     (case b_ResponseTransformer b of
        None \<Rightarrow> Panic nil_panic
      | Some t \<Rightarrow>
          bind_outcome (t body (role_context ctx)) (\<lambda>m.
            Ok (createSuccess (extractIAMNativeID (obj_of body) ctx)
                  (case Marshal (map_value m) of Inl e \<Rightarrow> RawNil | Inr r \<Rightarrow> r))))"

definition Role_Create :: "'w env \<Rightarrow> 'w BaseResource \<Rightarrow> CreateRequest \<Rightarrow> ('w, ProgressResult) op" where
  "Role_Create E b request s =
     (case NewClient E (b_Config b) s of
        (Inl e, s1) \<Rightarrow> (Err (client_error e), s1)
      | (Inr client, s1) \<Rightarrow>
          (case unmarshal_map (cr_Properties request) of
             Inl e \<Rightarrow> (Ok (iam_failure OperationCreate InvalidRequest (''failed to parse properties: '' @ e)), s1)
           | Inr m \<Rightarrow>
               (let props = obj_of m; name = GetString props ''name''; ctx = iam_context b (cr_TargetConfig request) ''roles''
                in if name = [] then (Ok (iam_failure OperationCreate InvalidRequest ''name (roleId) is required''), s1)
                   else case AddQueryParams (iam_collection ctx) [(''roleId'', name)] of
                     Inl e \<Rightarrow> (Ok (iam_failure OperationCreate InvalidRequest (''failed to build URL: '' @ err_text e)), s1)
                   | Inr url \<Rightarrow>
                       (case SendRequest E client (request_options ''POST'' url (Some [(''role'', JObj (pickRoleFields props))])) s1 of
                          (Inl e, s2) \<Rightarrow>
                            (let te = wrap_err e (''failed to create role '' @ [CHR 0x27] @ name @ [CHR 0x27])
                             in (Ok (iam_failure OperationCreate (ToResourceErrorCode (te_Code te)) (te_Message te)), s2))
                        | (Inr response, s2) \<Rightarrow> (role_created b ctx (rs_Body response), s2)))))"

section \<open>Identifiers are read back\<close>

text \<open>The two packages have the same paths and identifiers, up to the text of an error.\<close>

lemma as_secrets: "iamPathBuilder = secretManagerPathBuilder" "extractIAMNativeID = extractSecretManagerNativeID"
  by (simp_all add: fun_eq_iff iamPathBuilder_def secretManagerPathBuilder_def extractIAMNativeID_def extractSecretManagerNativeID_def)

lemma parsed_as_secret: "parseSecretManagerNativeID i = Inr c \<Longrightarrow> parseIAMNativeID i = Inr c"
  by (auto simp: parseSecretManagerNativeID_def parseIAMNativeID_def split: list.splits if_splits)

interpretation accounts: addressed iamPathBuilder extractIAMNativeID parseIAMNativeID True
  "\<lambda>ctx. list_all (\<lambda>s. seg s \<and> s \<noteq> []) [pc_Project ctx, pc_ResourceType ctx, pc_ResourceName ctx]"
  "\<lambda>ctx. empty_ctx\<lparr>pc_Project := pc_Project ctx, pc_ResourceType := pc_ResourceType ctx, pc_ResourceName := pc_ResourceName ctx\<rparr>" "\<lambda>t. False"
  unfolding as_secrets
  by unfold_locales (rule secrets.collected secrets.extracted parsed_as_secret [OF secrets.parsed] secrets.kept secrets.named; assumption)+

section \<open>What the search has seen\<close>

text \<open>A run over the whole listing, with what its pages hold; and a run that stops at a page that has the account.\<close>

inductive listing :: "(ListRequest \<Rightarrow> ('w, ListResult) op) \<Rightarrow> StatusRequest \<Rightarrow> string option \<Rightarrow> 'w machine \<Rightarrow> string list \<Rightarrow> 'w machine \<Rightarrow> bool"
  for list request where
  last_page: "list (listing_page request token) s = (Ok res, s') \<Longrightarrow> string_or_empty (lr_NextPageToken res) = []
    \<Longrightarrow> listing list request token s (lr_NativeIDs res) s'"
| more_pages: "list (listing_page request token) s = (Ok res, s1) \<Longrightarrow> string_or_empty (lr_NextPageToken res) \<noteq> []
    \<Longrightarrow> listing list request (lr_NextPageToken res) s1 ids s' \<Longrightarrow> listing list request token s (lr_NativeIDs res @ ids) s'"

inductive seen :: "(ListRequest \<Rightarrow> ('w, ListResult) op) \<Rightarrow> StatusRequest \<Rightarrow> string option \<Rightarrow> 'w machine \<Rightarrow> 'w machine \<Rightarrow> bool"
  for list request where
  here: "list (listing_page request token) s = (Ok res, s') \<Longrightarrow> st_NativeID request \<in> set (lr_NativeIDs res)
    \<Longrightarrow> seen list request token s s'"
| later: "list (listing_page request token) s = (Ok res, s1) \<Longrightarrow> st_NativeID request \<notin> set (lr_NativeIDs res)
    \<Longrightarrow> string_or_empty (lr_NextPageToken res) \<noteq> [] \<Longrightarrow> seen list request (lr_NextPageToken res) s1 s'
    \<Longrightarrow> seen list request token s s'"

definition searched :: "(ListRequest \<Rightarrow> ('w, ListResult) op) \<Rightarrow> StatusRequest \<Rightarrow> string option \<Rightarrow> 'w machine
    \<Rightarrow> (goerr, bool) outcome \<times> 'w machine \<Rightarrow> bool" where
  "searched list request token s y \<longleftrightarrow>
     (\<forall>s'. y = (Ok True, s') \<longrightarrow> seen list request token s s')
     \<and> (\<forall>s'. y = (Ok False, s') \<longrightarrow> (\<exists>ids. listing list request token s ids s' \<and> st_NativeID request \<notin> set ids))"

lemma isListed_searched: "isListed list request token s = Some y \<Longrightarrow> searched list request token s y"
proof (rule isListed.raw_induct [where P = searched])
  fix loop list request token s y
  assume IH: "\<And>list request token s y. loop list request token s = Some y \<Longrightarrow> searched list request token s y"
    and step: "(case list (listing_page request token) s of
        (Panic p, s1) \<Rightarrow> Some (Panic p, s1)
      | (Err e, s1) \<Rightarrow> Some (Err e, s1)
      | (Ok res, s1) \<Rightarrow>
          if st_NativeID request \<in> set (lr_NativeIDs res) then Some (Ok True, s1)
          else if string_or_empty (lr_NextPageToken res) = [] then Some (Ok False, s1)
          else loop list request (lr_NextPageToken res) s1) = Some y"
  obtain q s1 where q: "list (listing_page request token) s = (q, s1)" by (metis surj_pair)
  show "searched list request token s y"
  proof (cases q)
    case (Ok res)
    consider (found) "st_NativeID request \<in> set (lr_NativeIDs res)"
      | (over) "st_NativeID request \<notin> set (lr_NativeIDs res)" "string_or_empty (lr_NextPageToken res) = []"
      | (on) "st_NativeID request \<notin> set (lr_NativeIDs res)" "string_or_empty (lr_NextPageToken res) \<noteq> []"
      by blast
    then show ?thesis
    proof cases
      case found
      then show ?thesis using step q Ok by (auto simp: searched_def intro: seen.here)
    next
      case over
      then show ?thesis using step q Ok by (auto simp: searched_def intro: listing.last_page)
    next
      case on
      then have "searched list request (lr_NextPageToken res) s1 y" using step q Ok by (intro IH) simp
      then show ?thesis unfolding searched_def
        using q Ok on by (metis UnE listing.more_pages seen.later set_append)
    qed
  qed (use step q in \<open>auto simp: searched_def\<close>)
qed

text \<open>Conversely the search ends on every listing that ends, with the right answer.\<close>

lemma isListed_ends:
  assumes "listing list request token s ids s'"
  shows "\<exists>s''. isListed list request token s = Some (Ok (st_NativeID request \<in> set ids), s'')"
  using assms
proof (induction rule: listing.induct)
  case (more_pages token s res s1 ids s')
  then show ?case by (cases "st_NativeID request \<in> set (lr_NativeIDs res)") (auto simp: isListed.simps [of _ _ token])
qed (auto simp: isListed.simps)

section \<open>Which wait a request ID stands for\<close>

lemma extracted_prefix: "pc_ResourceName ctx = [] \<Longrightarrow> extractIAMNativeID m ctx = [] \<or> HasPrefix (extractIAMNativeID m ctx) ''projects/''"
  by (simp add: extractIAMNativeID_def Let_def)

lemma prefix_heads: "HasPrefix s a \<Longrightarrow> HasPrefix s b \<Longrightarrow> a \<noteq> [] \<Longrightarrow> b \<noteq> [] \<Longrightarrow> hd a = hd b"
  by (cases s; cases a; cases b) (auto simp: HasPrefix_def)

lemma Account_Create_waits:
  assumes "Account_Create E b request s = (Ok p, s')" and "pr_Status p = OperationStatusInProgress"
  shows "pr_Operation p = OperationCreate \<and> \<not> HasPrefix (pr_RequestID p) deleteStatusPrefix"
proof -
  let ?ctx = "iam_context b (cr_TargetConfig request) ''serviceAccounts''"
  obtain m where p: "p = account_created (extractIAMNativeID m ?ctx)" "extractIAMNativeID m ?ctx \<noteq> []"
    using assms by (fastforce simp: Account_Create_def iam_failure_def account_created_def Let_def
        split: prod.splits sum.splits if_splits)
  then have "HasPrefix (pr_RequestID p) ''projects/''"
    using extracted_prefix [of ?ctx m] by (simp add: account_created_def iam_context_def empty_ctx_def)
  then have "\<not> HasPrefix (pr_RequestID p) deleteStatusPrefix" by (auto dest: prefix_heads simp: deleteStatusPrefix_def)
  then show ?thesis using p by (simp add: account_created_def)
qed

lemma synchronous_delete:
  assumes "Delete E b request s = (Ok p, s')" and "oc_Synchronous (b_OperationConfig b)"
  shows "pr_Status p \<noteq> OperationStatusInProgress"
  using assms
  by (auto simp: Delete_def finish_delete_def deleteFailureResult_def deleted_def Let_def
      split: prod.splits sum.splits outcome.splits if_splits)

lemma account_synchronous: "oc_Synchronous (b_OperationConfig (newServiceAccountProvisioner cfg))"
  by (simp add: newServiceAccountProvisioner_def IAMOperations_def synchronous_operations_def)

lemma Account_Delete_waits:
  assumes "Account_Delete E (newServiceAccountProvisioner cfg) request s = (Ok p, s')" and "pr_Status p = OperationStatusInProgress"
  shows "pr_Operation p = OperationDelete \<and> HasPrefix (pr_RequestID p) deleteStatusPrefix"
proof -
  obtain q where "Delete E (newServiceAccountProvisioner cfg) request s = (Ok q, s')" "p = account_deleted (dl_NativeID request) q"
    using assms(1) by (auto simp: Account_Delete_def split: prod.splits outcome.splits)
  then show ?thesis using assms(2) synchronous_delete [OF _ account_synchronous, of E cfg request s q s']
    by (cases "pr_Status q = OperationStatusSuccess") (auto simp: account_deleted_def HasPrefix_def)
qed

lemma created_means_readable:
  assumes "Account_Status E b request s = Some (Ok r, s')" and "pr_Status r = OperationStatusSuccess"
    and "\<not> HasPrefix (st_RequestID request) deleteStatusPrefix"
  shows "\<exists>s2 answer. seen (List E b) request None s s2
    \<and> Read E b (status_read_request request (st_NativeID request)) s2 = (Ok answer, s')
    \<and> rr_ErrorCode answer = NoErrorCode \<and> pr_Properties r = Some (case rr_Properties answer of None \<Rightarrow> RawNil | Some d \<Rightarrow> d)"
proof -
  have running: "pr_Status (status_waiting request t) \<noteq> OperationStatusSuccess" "pr_Status (status_failed request t e) \<noteq> OperationStatusSuccess" for t e
    by (simp_all add: status_waiting_def status_failed_def)
  obtain s2 where s2: "isListed (List E b) request None s = Some (Ok True, s2)"
    using assms running by (auto simp: Account_Status_def split: option.splits prod.splits outcome.splits bool.splits)
  obtain answer s3 where a: "Read E b (status_read_request request (st_NativeID request)) s2 = (answer, s3)" by (metis surj_pair)
  then have "account_read_back request answer = Ok r" "s3 = s'" using assms s2 by (auto simp: Account_Status_def)
  then obtain v where "answer = Ok v" "rr_ErrorCode v = NoErrorCode" "pr_Properties r = Some (case rr_Properties v of None \<Rightarrow> RawNil | Some d \<Rightarrow> d)"
    using assms(2) running by (auto simp: account_read_back_def split: outcome.splits if_splits)
  with a \<open>s3 = s'\<close> isListed_searched [OF s2] show ?thesis by (auto simp: searched_def)
qed

lemma deleted_means_unlisted:
  assumes "Account_Status E b request s = Some (Ok r, s')" and "pr_Status r = OperationStatusSuccess"
    and "HasPrefix (st_RequestID request) deleteStatusPrefix"
  shows "\<exists>ids. listing (List E b) request None s ids s' \<and> st_NativeID request \<notin> set ids"
proof -
  have "isListed (List E b) request None s = Some (Ok False, s')"
    using assms by (auto simp: Account_Status_def account_deleteStatus_def status_failed_def status_waiting_def
        split: option.splits prod.splits outcome.splits bool.splits)
  then show ?thesis using isListed_searched by (fastforce simp: searched_def)
qed

text \<open>
  C17: A service account settles before its operation is reported as finished. When Status succeeds for what a
  create left in progress, some page of the listing had the account and a read after it answered with the
  properties that are reported; when it succeeds for what a delete left in progress, the listing was read to
  its last page and had the account nowhere. The two waits are never confused.
\<close>
theorem account_settles:
  assumes "b = newServiceAccountProvisioner cfg"
    and "Account_Create E b creq s0 = (Ok p, s1) \<or> Account_Delete E b dreq s0 = (Ok p, s1)"
    and "pr_Status p = OperationStatusInProgress"
    and "st_RequestID request = pr_RequestID p" and "st_NativeID request = pr_NativeID p"
    and "Account_Status E b request s = Some (Ok r, s')" and "pr_Status r = OperationStatusSuccess"
  shows "if pr_Operation p = OperationCreate
    then \<exists>s2 answer. seen (List E b) request None s s2
      \<and> Read E b (status_read_request request (pr_NativeID p)) s2 = (Ok answer, s')
      \<and> rr_ErrorCode answer = NoErrorCode \<and> pr_Properties r = Some (case rr_Properties answer of None \<Rightarrow> RawNil | Some d \<Rightarrow> d)
    else \<exists>ids. listing (List E b) request None s ids s' \<and> pr_NativeID p \<notin> set ids"
  using assms(2)
proof
  assume "Account_Create E b creq s0 = (Ok p, s1)"
  note w = Account_Create_waits [OF this assms(3)]
  then show ?thesis using created_means_readable [OF assms(6,7)] assms(4,5) by simp
next
  assume "Account_Delete E b dreq s0 = (Ok p, s1)"
  note w = Account_Delete_waits [OF this [unfolded assms(1)] assms(3)]
  then show ?thesis using deleted_means_unlisted [OF assms(6,7)] assms(4,5) by simp
qed

definition demo_account :: "(script \<times> http_request list) BaseResource" where
  "demo_account = newServiceAccountProvisioner (Some (cl_config demo_client))"

definition demo_account_create :: CreateRequest where
  "demo_account_create = \<lparr>cr_ResourceType = ''GCP::IAM::ServiceAccount'', cr_TargetConfig = RawNil,
     cr_Properties = RawDoc (JObj [(''name'', JStr ''a'')])\<rparr>"

definition demo_account_doc :: obj where
  "demo_account_doc = [(''name'', JStr ''projects/p/serviceAccounts/a@p.iam''), (''email'', JStr ''a@p.iam'')]"

definition demo_account_poll :: StatusRequest where
  "demo_account_poll = \<lparr>st_RequestID = ''projects/p/serviceAccounts/a@p.iam'', st_NativeID = ''projects/p/serviceAccounts/a@p.iam'',
     st_ResourceType = ''GCP::IAM::ServiceAccount'', st_TargetConfig = RawNil\<rparr>"

lemma demo_account_client: "NewClient (logged script_env) (b_Config demo_account) s = (Inr demo_client, s)"
  using demo_NewClient [of s] by (simp add: demo_account_def newServiceAccountProvisioner_def demo_def demo_client_def)

lemma demo_account_urls:
  "Parse ''https://iam.googleapis.com/v1/projects//serviceAccounts'' \<noteq> None"
  "Parse ''https://iam.googleapis.com/v1/projects/p/serviceAccounts/a@p.iam'' \<noteq> None"
  by code_simp+

lemma demo_account_run:
  "\<exists>p s'. Account_Create (logged script_env) demo_account demo_account_create (script_at [scripted 200 (JObj demo_account_doc)] [])
      = (Ok p, s') \<and> pr_Status p = OperationStatusInProgress
    \<and> pr_RequestID p = st_RequestID demo_account_poll \<and> pr_NativeID p = st_NativeID demo_account_poll"
proof -
  let ?body = "account_body [(''name'', JStr ''a'')]"
  have "marshalable (JObj ?body)" by (simp add: account_body_def filled_def GetString_def)
  then obtain req where "SendRequest (logged script_env) demo_client
      (request_options ''POST'' ''https://iam.googleapis.com/v1/projects//serviceAccounts'' (Some ?body))
      (script_at [scripted 200 (JObj demo_account_doc)] [])
    = (Inr \<lparr>rs_StatusCode = 200, rs_Body = Some demo_account_doc, rs_Headers = []\<rparr>, script_at [] [req])"
    using script_send [OF demo_account_urls(1) methods_ok(2), of "Some ?body" demo_account_doc "[]" "[]"] by auto
  then show ?thesis
    by (simp add: Account_Create_def demo_account_client demo_account_create_def iam_context_def iam_collection_def
        FromTargetConfig_def zero_config_def IAMAPI_def iamPathBuilder_def empty_ctx_def GetString_def obj_of_def
        account_created_def extractIAMNativeID_def demo_account_doc_def text_at_def string_or_empty_def HasPrefix_def
        demo_account_poll_def Let_def)
qed

lemma demo_account_list:
  "\<exists>req. List (logged script_env) demo_account (listing_page demo_account_poll None)
      (script_at (scripted 200 (JObj [(''accounts'', JArr [JObj demo_account_doc])]) # rest) l)
    = (Ok \<lparr>lr_NativeIDs = [''projects/p/serviceAccounts/a@p.iam''], lr_NextPageToken = None\<rparr>, script_at rest (l @ [req]))"
proof -
  obtain req where "SendRequest (logged script_env) demo_client
      (request_options ''GET'' ''https://iam.googleapis.com/v1/projects//serviceAccounts'' None)
      (script_at (scripted 200 (JObj [(''accounts'', JArr [JObj demo_account_doc])]) # rest) l)
    = (Inr \<lparr>rs_StatusCode = 200, rs_Body = Some [(''accounts'', JArr [JObj demo_account_doc])], rs_Headers = []\<rparr>, script_at rest (l @ [req]))"
    using script_send [OF demo_account_urls(1) methods_ok(1), of None "[(''accounts'', JArr [JObj demo_account_doc])]" rest l] by auto
  moreover have "parseListResponse demo_account [(''accounts'', JArr [JObj demo_account_doc])] ctx
      = \<lparr>lr_NativeIDs = [''projects/p/serviceAccounts/a@p.iam''], lr_NextPageToken = None\<rparr>" for ctx
    by (simp add: parseListResponse_def demo_account_def newServiceAccountProvisioner_def zero_resource_def extractNativeIDFromItem_def
        IAMOperations_def synchronous_operations_def extractIAMNativeID_def demo_account_doc_def text_at_def string_or_empty_def HasPrefix_def Let_def)
  moreover have "list_base_url demo_account (list_parent None [] (list_context demo_account (listing_page demo_account_poll None)))
      = Ok ''https://iam.googleapis.com/v1/projects//serviceAccounts''"
    by (simp add: list_base_url_def list_parent_def list_context_def list_scope_def demo_account_def newServiceAccountProvisioner_def
        zero_resource_def listing_page_def demo_account_poll_def FromTargetConfig_def zero_config_def empty_ctx_def CollectionURL_def
        build_url_def NewURLBuilder_def IAMAPI_def iamPathBuilder_def Let_def)
  moreover have "rc_Scope (b_ResourceConfig demo_account) = None" "rc_ParentResource (b_ResourceConfig demo_account) = None"
      "page_url (b_APIConfig demo_account) (listing_page demo_account_poll None) u = u" for u
    by (simp_all add: demo_account_def newServiceAccountProvisioner_def zero_resource_def page_url_def listing_page_def string_or_empty_def Let_def)
  ultimately show ?thesis by (auto simp: List_def demo_account_client listing_page_def obj_of_def Let_def)
qed

lemma demo_account_read:
  "\<exists>r req. Read (logged script_env) demo_account (status_read_request demo_account_poll (st_NativeID demo_account_poll))
      (script_at [scripted 200 (JObj demo_account_doc)] l) = (Ok r, script_at [] (l @ [req])) \<and> rr_ErrorCode r = NoErrorCode"
proof -
  let ?url = "''https://iam.googleapis.com/v1/projects/p/serviceAccounts/a@p.iam''" and ?id = "''projects/p/serviceAccounts/a@p.iam''"
  let ?ctx = "empty_ctx\<lparr>pc_Project := ''p'', pc_ResourceType := ''serviceAccounts'', pc_ResourceName := ''a@p.iam''\<rparr>"
  have parse: "ParseNativeID (b_NativeIDConfig demo_account) ?id = Inr ?ctx"
    by (simp add: demo_account_def newServiceAccountProvisioner_def IAMNativeID_def parseIAMNativeID_def)
  have url: "resource_url demo_account (resource_context demo_account RawNil ?ctx) = Ok ?url"
    using accounts.found_again [of ?ctx demo_account RawNil]
    by (simp add: demo_account_def newServiceAccountProvisioner_def zero_resource_def IAMAPI_def iamPathBuilder_def empty_ctx_def seg_def global_scope_def)
  have body: "\<exists>r. read_body demo_account ctx (Some demo_account_doc) = Ok r \<and> rr_ErrorCode r = NoErrorCode" for ctx
    by (auto simp: read_body_def body_is_missing_def transform_response_def demo_account_def newServiceAccountProvisioner_def
        zero_resource_def serviceAccountResponseTransformer_def demo_account_doc_def Marshal_def map_value_def read_properties_def
        obj_of_def split: option.splits)
  obtain req where "SendRequest (logged script_env) demo_client (request_options ''GET'' ?url None) (script_at [scripted 200 (JObj demo_account_doc)] l)
    = (Inr \<lparr>rs_StatusCode = 200, rs_Body = Some demo_account_doc, rs_Headers = []\<rparr>, script_at [] (l @ [req]))"
    using script_send [OF demo_account_urls(2) methods_ok(1), of None demo_account_doc "[]" l] by auto
  then show ?thesis
    using body [of "resource_context demo_account RawNil ?ctx"]
    by (auto simp: Read_def demo_account_client status_read_request_def demo_account_poll_def parse url)
qed

theorem account_settles_witness:
  "\<exists>r s' s2 answer. Account_Status (logged script_env) demo_account demo_account_poll
      (script_at [scripted 200 (JObj [(''accounts'', JArr [JObj demo_account_doc])]), scripted 200 (JObj demo_account_doc)] []) = Some (Ok r, s')
    \<and> seen (List (logged script_env) demo_account) demo_account_poll None
        (script_at [scripted 200 (JObj [(''accounts'', JArr [JObj demo_account_doc])]), scripted 200 (JObj demo_account_doc)] []) s2
    \<and> Read (logged script_env) demo_account (status_read_request demo_account_poll ''projects/p/serviceAccounts/a@p.iam'') s2 = (Ok answer, s')"
proof -
  let ?s = "script_at [scripted 200 (JObj [(''accounts'', JArr [JObj demo_account_doc])]), scripted 200 (JObj demo_account_doc)] []"
  obtain p s1 where c: "Account_Create (logged script_env) demo_account demo_account_create (script_at [scripted 200 (JObj demo_account_doc)] [])
      = (Ok p, s1)" "pr_Status p = OperationStatusInProgress"
      "pr_RequestID p = st_RequestID demo_account_poll" "pr_NativeID p = st_NativeID demo_account_poll"
    using demo_account_run by blast
  obtain l1 where l: "List (logged script_env) demo_account (listing_page demo_account_poll None) ?s
      = (Ok \<lparr>lr_NativeIDs = [''projects/p/serviceAccounts/a@p.iam''], lr_NextPageToken = None\<rparr>, script_at [scripted 200 (JObj demo_account_doc)] l1)"
    using demo_account_list by blast
  obtain v s3 where v: "Read (logged script_env) demo_account (status_read_request demo_account_poll (st_NativeID demo_account_poll))
      (script_at [scripted 200 (JObj demo_account_doc)] l1) = (Ok v, s3)" "rr_ErrorCode v = NoErrorCode" using demo_account_read by blast
  have nodel: "\<not> HasPrefix (st_RequestID demo_account_poll) deleteStatusPrefix"
    by (simp add: demo_account_poll_def deleteStatusPrefix_def HasPrefix_def)
  have "isListed (List (logged script_env) demo_account) demo_account_poll None ?s = Some (Ok True, script_at [scripted 200 (JObj demo_account_doc)] l1)"
    by (simp add: isListed.simps [of _ _ None] l) (simp add: demo_account_poll_def)
  then obtain r where r: "Account_Status (logged script_env) demo_account demo_account_poll ?s = Some (Ok r, s3)" "pr_Status r = OperationStatusSuccess"
    using v nodel by (auto simp: Account_Status_def account_read_back_def)
  have "pr_Operation p = OperationCreate" using Account_Create_waits [OF c(1,2)] by simp
  with account_settles [OF demo_account_def disjI1 [OF c(1)] c(2) c(3) [symmetric] c(4) [symmetric] r] r
  show ?thesis by (simp add: c(4) demo_account_poll_def) blast
qed

end
