(* ===== verification/Monitoring.thy ===== *)
theory Monitoring
  imports Fleet Regional_Services Instance_Group
begin

text \<open>
  Cloud Monitoring: its configuration, transformers and table, and the readiness protocol of metric
  descriptors (\<^verbatim>\<open>metric_descriptor_readback.go\<close>). A descriptor cannot be read for a while after it was
  created, so Create reports it as pending, with the deadline in the request ID, and Status reads it.
\<close>

section \<open>Configuration\<close>

definition metricDescriptorsSegment :: string where "metricDescriptorsSegment = ''/metricDescriptors/''"

text \<open>
  The slice that takes the project starts after \<^verbatim>\<open>projects/\<close>; where the collection's segment starts one byte
  earlier, at the slash, it has a negative length and the program panics.
\<close>

definition parseMetricDescriptorNativeID :: "string \<Rightarrow> (goerr, PathContext) outcome" where
  "parseMetricDescriptorNativeID nativeID =
     (let refused = Err (ErrText (''invalid metric descriptor native ID: '' @ nativeID))
      in if \<not> HasPrefix nativeID ''projects/'' then refused
         else case Index nativeID metricDescriptorsSegment of
           None \<Rightarrow> refused
         | Some i \<Rightarrow>
             if i < 9 then Panic (''runtime error: slice bounds out of range [9:'' @ Itoa (int i) @ '']'')
             else
               (let project = drop 9 (take i nativeID); metricType = drop (i + length metricDescriptorsSegment) nativeID
                in if project = [] \<or> metricType = [] then refused
                   else Ok (empty_ctx\<lparr>pc_Project := project, pc_ResourceType := ''metricDescriptors'', pc_ResourceName := metricType\<rparr>)))"

text \<open>
  As a parser of the generic resource, which is a function into contexts and errors; that the program would
  panic there is kept in the definition above, which Create and Status of a descriptor call.
\<close>

definition descriptor_parser :: "string \<Rightarrow> goerr + PathContext" where
  "descriptor_parser nativeID =
     (case parseMetricDescriptorNativeID nativeID of Ok ctx \<Rightarrow> Inr ctx | Err e \<Rightarrow> Inl e | Panic p \<Rightarrow> Inl (ErrText p))"

definition userOwnedMetricFilter :: string where
  "userOwnedMetricFilter = ''metric.type = starts_with('' @ quoted ''custom.googleapis.com/'' @ '')''"

definition monitoringPathBuilder :: "PathContext \<Rightarrow> string" where
  "monitoringPathBuilder ctx =
     ''/projects/'' @ pc_Project ctx
     @ (if has_parent ctx then ''/'' @ pc_ParentType ctx @ ''/'' @ pc_ParentResource ctx
        else if pc_ResourceType ctx = ''serviceLevelObjectives'' then ''/services/-'' else [])
     @ ''/'' @ pc_ResourceType ctx @ (if pc_ResourceName ctx \<noteq> [] then ''/'' @ pc_ResourceName ctx else [])
     @ (if pc_IsList ctx \<and> pc_ResourceType ctx = ''metricDescriptors'' then ''?filter='' @ QueryEscape userOwnedMetricFilter else [])"

definition parseSloNativeID :: "string \<Rightarrow> goerr + PathContext" where
  "parseSloNativeID nativeID =
     (let refused = Inl (ErrText (''invalid SLO native ID: '' @ nativeID))
      in case Split nativeID CHR ''/'' of
           [a, project, c, service, kind, name] \<Rightarrow>
             if a \<noteq> ''projects'' \<or> c \<noteq> ''services'' \<or> kind \<noteq> ''serviceLevelObjectives'' then refused
             else Inr (empty_ctx\<lparr>pc_Project := project, pc_ResourceType := kind, pc_ResourceName := name, pc_ParentResource := service,
                    pc_ParentType := ''services''\<rparr>)
         | _ \<Rightarrow> refused)"

definition normalizeMonitoringProject :: "string \<Rightarrow> string \<Rightarrow> string" where
  "normalizeMonitoringProject path project =
     (if project = [] then path
      else case Split path CHR ''/'' of
        a # b # rest \<Rightarrow> if a \<noteq> ''projects'' then path else Join (a # project # rest) ''/''
      | _ \<Rightarrow> path)"

definition extractMonitoringNativeID :: "obj \<Rightarrow> PathContext \<Rightarrow> string" where
  "extractMonitoringNativeID response ctx =
     (case name_from_projects response of
        Some n \<Rightarrow> normalizeMonitoringProject n (pc_Project ctx)
      | None \<Rightarrow> if pc_ResourceName ctx \<noteq> [] then project_id ctx else [])"

definition monitoring_api :: "string \<Rightarrow> APIConfig" where
  "monitoring_api version = \<lparr>ac_BaseURL = ''https://monitoring.googleapis.com/'' @ version, ac_APIVersion = version,
     ac_PathBuilder = Some monitoringPathBuilder, ac_Pagination = Some (paged_by ''pageSize'' [])\<rparr>"

definition MonitoringAPI :: APIConfig where "MonitoringAPI = monitoring_api ''v3''"
definition MonitoringDashboardAPI :: APIConfig where "MonitoringDashboardAPI = monitoring_api ''v1''"
definition MonitoringOperations :: OperationConfig where "MonitoringOperations = synchronous_operations extractMonitoringNativeID"
definition MonitoringMetricDescriptorNativeID :: NativeIDConfig where
  "MonitoringMetricDescriptorNativeID = path_native_id (Some descriptor_parser)"
definition MonitoringNativeID :: NativeIDConfig where "MonitoringNativeID = path_native_id None"
definition MonitoringSloNativeID :: NativeIDConfig where "MonitoringSloNativeID = path_native_id (Some parseSloNativeID)"

section \<open>Transformers and table\<close>

text \<open>A field under another name, if it is there.\<close>

definition moved_field :: "string \<Rightarrow> string \<Rightarrow> obj \<Rightarrow> obj" where
  "moved_field old new m = (case map_of m old of None \<Rightarrow> m | Some v \<Rightarrow> AList.update new v (AList.delete old m))"

definition channelTypeToAPI :: request_transformer where
  "channelTypeToAPI props ctx = Ok (map_option (moved_field ''channelType'' ''type'') props)"

definition channelTypeFromAPI :: response_transformer where
  "channelTypeFromAPI resp ctx = Ok (map_option (moved_field ''type'' ''channelType'') resp)"

definition dashboardNameToAPI :: request_transformer where
  "dashboardNameToAPI props ctx =
     Ok (map_option (rewrite_string ''name''
       (\<lambda>n. if n = [] \<or> HasPrefix n ''projects/'' then n else ''projects/'' @ tc_Project ctx @ ''/dashboards/'' @ n)) props)"

definition customServiceMarker :: request_transformer where
  "customServiceMarker props ctx =
     Ok (if tc_Operation ctx \<noteq> OperationCreate \<or> map_of (obj_of props) ''custom'' \<noteq> None then props
         else Some (AList.update ''custom'' (JObj []) (obj_of props)))"

definition sloServiceFromName :: response_transformer where
  "sloServiceFromName resp ctx =
     Ok (map_option (\<lambda>m. case as_string (map_of m ''name'') of
        None \<Rightarrow> m
      | Some name \<Rightarrow>
          (case segment_after ''services'' (Split name CHR ''/'') of
             Some service \<Rightarrow> AList.update ''service'' (JStr service) m
           | None \<Rightarrow> m)) resp)"

definition metricDescriptorNameToType :: request_transformer where
  "metricDescriptorNameToType props ctx = Ok (map_option (moved_field ''name'' ''type'') props)"

definition metricDescriptorTypeToName :: response_transformer where
  "metricDescriptorTypeToName resp ctx =
     Ok (map_option (\<lambda>m. if string_or_empty (as_string (map_of m ''type'')) \<noteq> [] then moved_field ''type'' ''name'' m else m) resp)"

definition project_type :: "string \<Rightarrow> 'w ResourceConfig" where
  "project_type collection = zero_resource\<lparr>rc_ResourceType := collection, rc_Scope := Some ScopeProjectLevel\<rparr>"

definition monitoring_definitions :: "'w ResourceDefinition list" where
  "monitoring_definitions =
     [entry ''GCP::Monitoring::NotificationChannel'' (patched_type ''notificationChannels'' (Some ScopeProjectLevel) []) None
        (Some channelTypeToAPI) (Some (CompositeResponseTransformer [ShortNameResponseTransformer, channelTypeFromAPI])),
      entry ''GCP::Monitoring::Group''
        ((project_type ''groups'')\<lparr>rc_SupportsUpdate := True, rc_UpdateMethod := UpdateMethodPut, rc_ListItemsKey := ''group''\<rparr>) None
        None (Some ShortNameResponseTransformer),
      entry ''GCP::Monitoring::UptimeCheckConfig'' (patched_type ''uptimeCheckConfigs'' (Some ScopeProjectLevel) []) None
        None (Some ShortNameResponseTransformer),
      entry ''GCP::Monitoring::AlertPolicy'' (patched_type ''alertPolicies'' (Some ScopeProjectLevel) []) None
        None (Some ShortNameResponseTransformer),
      (entry ''GCP::Monitoring::Dashboard'' (project_type ''dashboards'') None
        (Some dashboardNameToAPI) (Some ShortNameResponseTransformer))\<lparr>rd_APIConfig := MonitoringDashboardAPI\<rparr>,
      entry ''GCP::Monitoring::CustomService'' ((project_type ''services'')\<lparr>rc_CreateIDParam := ''serviceId''\<rparr>) None
        (Some customServiceMarker) (Some ShortNameResponseTransformer),
      (entry ''GCP::Monitoring::Slo''
        ((patched_type ''serviceLevelObjectives'' None ''serviceLevelObjectiveId'')
          \<lparr>rc_ParentResource := Some (required_parent ''services'' ''service'')\<rparr>) None
        (Some (dropped [''service''])) (Some (CompositeResponseTransformer [sloServiceFromName, ShortNameResponseTransformer])))
          \<lparr>rd_NativeIDConfig := MonitoringSloNativeID\<rparr>,
      (entry ''GCP::Monitoring::MetricDescriptor'' (project_type ''metricDescriptors'') (Some fixed_operations)
        (Some metricDescriptorNameToType) (Some metricDescriptorTypeToName))\<lparr>rd_NativeIDConfig := MonitoringMetricDescriptorNativeID\<rparr>]"

definition monitoring_package :: "'w package" where
  "monitoring_package = \<lparr>pk_API = MonitoringAPI, pk_Operations = MonitoringOperations, pk_NativeID = MonitoringNativeID,
     pk_Definitions = monitoring_definitions\<rparr>"

section \<open>The readiness marker\<close>

definition metricDescriptorMarkerNamespace :: string where
  "metricDescriptorMarkerNamespace = ''formae:gcp:metric-descriptor:create-readiness:''"

definition metricDescriptorMarkerPrefix :: string where "metricDescriptorMarkerPrefix = metricDescriptorMarkerNamespace @ ''v1:''"

definition metricDescriptorMarkerMaxLength :: nat where "metricDescriptorMarkerMaxLength = 4096"

record metricDescriptorReadinessMarker =
  mk_NativeID :: string
  mk_DeadlineUnix :: int

text \<open>Times are nanoseconds; \<^verbatim>\<open>Unix\<close> gives whole seconds, rounded down.\<close>

definition second :: int where "second = 1000000000"

definition marker_json :: "metricDescriptorReadinessMarker \<Rightarrow> json" where
  "marker_json m = JObj [(''nativeID'', JStr (mk_NativeID m)), (''deadlineUnix'', JNum (mk_DeadlineUnix m) 0)]"

definition encodeMetricDescriptorReadinessMarker :: "json_codec \<Rightarrow> string \<Rightarrow> int \<Rightarrow> string" where
  "encodeMetricDescriptorReadinessMarker J nativeID deadline =
     metricDescriptorMarkerPrefix
       @ EncodeToString (jc_text J (marker_json \<lparr>mk_NativeID = nativeID, mk_DeadlineUnix = deadline div second\<rparr>))"

text \<open>
  Where the decoder gives up: at the first character that is neither of the alphabet nor a line end, or at
  the last one if one is left over.
\<close>

definition corrupt_at :: "string \<Rightarrow> nat" where
  "corrupt_at s =
     (let k = length (takeWhile (\<lambda>c. b64_value c \<noteq> None \<or> line_end c) s) in if k < length s then k else length s - 1)"

text \<open>Decoding into the struct: null leaves a zero value, an integer must be one and fit into 64 bits.\<close>

definition marker_mismatch :: "string \<Rightarrow> string \<Rightarrow> string \<Rightarrow> string" where
  "marker_mismatch what field type =
     ''json: cannot unmarshal '' @ what @ '' into Go struct field metricDescriptorReadinessMarker.'' @ field @ '' of type '' @ type"

fun text_error :: "json \<Rightarrow> string option" where
  "text_error (JStr s) = None"
| "text_error JNull = None"
| "text_error v = Some (marker_mismatch (json_kind v) ''nativeID'' ''string'')"

definition fits_int64 :: "int \<Rightarrow> nat \<Rightarrow> bool" where
  "fits_int64 m k \<longleftrightarrow> k = 0 \<and> - (2 ^ 63) \<le> m \<and> m < 2 ^ 63"

fun number_error :: "json \<Rightarrow> string option" where
  "number_error (JNum m k) =
     (if fits_int64 m k then None else Some (marker_mismatch (''number '' @ format_float m k) ''deadlineUnix'' ''int64''))"
| "number_error JNull = None"
| "number_error v = Some (marker_mismatch (json_kind v) ''deadlineUnix'' ''int64'')"

fun set_number :: "json \<Rightarrow> int \<Rightarrow> int" where
  "set_number (JNum m k) old = (if fits_int64 m k then m else old)"
| "set_number _ old = old"

definition marker_step ::
    "string option \<times> metricDescriptorReadinessMarker \<Rightarrow> string \<times> json \<Rightarrow> string option \<times> metricDescriptorReadinessMarker" where
  "marker_step acc kv =
     (case (acc, kv) of ((err, m), (k, v)) \<Rightarrow>
        let first = (\<lambda>e. case err of None \<Rightarrow> e | Some e' \<Rightarrow> Some e')
        in if field_match ''nativeID'' k then (first (text_error v), m\<lparr>mk_NativeID := set_string v (mk_NativeID m)\<rparr>)
           else if field_match ''deadlineUnix'' k then (first (number_error v), m\<lparr>mk_DeadlineUnix := set_number v (mk_DeadlineUnix m)\<rparr>)
           else (err, m))"

definition zero_marker :: metricDescriptorReadinessMarker where "zero_marker = \<lparr>mk_NativeID = [], mk_DeadlineUnix = 0\<rparr>"

fun read_marker :: "raw \<Rightarrow> string + metricDescriptorReadinessMarker" where
  "read_marker (RawDoc (JObj m)) = (case foldl marker_step (None, zero_marker) m of (None, r) \<Rightarrow> Inr r | (Some e, r) \<Rightarrow> Inl e)"
| "read_marker (RawDoc JNull) = Inr zero_marker"
| "read_marker (RawDoc v) = Inl (''json: cannot unmarshal '' @ json_kind v @ '' into Go value of type monitoring.metricDescriptorReadinessMarker'')"
| "read_marker (RawBad e) = Inl e"
| "read_marker RawNil = Inl ''unexpected end of JSON input''"

definition metricDescriptorTypeFromNativeID :: "string \<Rightarrow> (goerr, string) outcome" where
  "metricDescriptorTypeFromNativeID nativeID = bind_outcome (parseMetricDescriptorNativeID nativeID) (\<lambda>ctx. Ok (pc_ResourceName ctx))"

definition checked_marker :: "metricDescriptorReadinessMarker \<Rightarrow> (goerr, metricDescriptorReadinessMarker) outcome" where
  "checked_marker marker =
     (if mk_NativeID marker = [] then Err (ErrText ''native identity is empty'')
      else if mk_DeadlineUnix marker \<le> 0 then Err (ErrText ''deadline is missing'')
      else bind_outcome (metricDescriptorTypeFromNativeID (mk_NativeID marker)) (\<lambda>t. Ok marker))"

definition parseMetricDescriptorReadinessMarker :: "json_codec \<Rightarrow> string \<Rightarrow> (goerr, metricDescriptorReadinessMarker) outcome" where
  "parseMetricDescriptorReadinessMarker J requestID =
     (let encoded = TrimPrefix requestID metricDescriptorMarkerPrefix
      in if length requestID > metricDescriptorMarkerMaxLength
         then Err (ErrText (''marker exceeds '' @ Itoa (int metricDescriptorMarkerMaxLength) @ '' bytes''))
         else if \<not> HasPrefix requestID metricDescriptorMarkerPrefix then Err (ErrText ''unsupported marker version'')
         else if encoded = [] then Err (ErrText ''marker payload is empty'')
         else case DecodeString encoded of
           None \<Rightarrow> Err (ErrText (''decode marker payload: illegal base64 data at input byte '' @ Itoa (int (corrupt_at encoded))))
         | Some payload \<Rightarrow>
             (case read_marker (jc_read J payload) of
                Inl e \<Rightarrow> Err (ErrText (''decode marker JSON: '' @ e))
              | Inr marker \<Rightarrow> checked_marker marker))"

section \<open>Create and Status\<close>

definition descriptor_resource :: "Config option \<Rightarrow> 'w BaseResource" where
  "descriptor_resource cfg =
     \<lparr>b_Config = cfg, b_APIConfig = MonitoringAPI, b_OperationConfig = MonitoringOperations,
      b_ResourceConfig = project_type ''metricDescriptors'', b_NativeIDConfig = MonitoringMetricDescriptorNativeID,
      b_RequestTransformer = Some metricDescriptorNameToType, b_ResponseTransformer = Some metricDescriptorTypeToName\<rparr>"

definition metricDescriptorCreateFailure :: "ProgressResult \<Rightarrow> string \<Rightarrow> ProgressResult" where
  "metricDescriptorCreateFailure r message =
     r\<lparr>pr_Operation := OperationCreate, pr_Status := OperationStatusFailure, pr_RequestID := [],
       pr_ErrorCode := GeneralServiceException, pr_Message := message\<rparr>"

definition outcome_unknown :: string where
  "outcome_unknown = ''Metric descriptor creation outcome is unknown because the request deadline expired or was cancelled''"

definition descriptor_accepted :: "json_codec \<Rightarrow> int \<Rightarrow> ProgressResult \<Rightarrow> (goerr, ProgressResult) outcome" where
  "descriptor_accepted J now r =
     (case metricDescriptorTypeFromNativeID (pr_NativeID r) of
        Panic p \<Rightarrow> Panic p
      | Err e \<Rightarrow> Ok (metricDescriptorCreateFailure r ''metric descriptor creation succeeded without a usable native identity'')
      | Ok t \<Rightarrow> Ok (r\<lparr>pr_Operation := OperationCreate, pr_Status := OperationStatusInProgress,
            pr_RequestID := encodeMetricDescriptorReadinessMarker J (pr_NativeID r) (now + DefaultOperationTimeout),
            pr_ErrorCode := NoErrorCode,
            pr_Message := ''Metric descriptor creation accepted; waiting for it to become readable''\<rparr>))"

text \<open>
  Whether the bounded call was cancelled is what the environment says of its context. The constant for no error
  code is the zero value: \<^verbatim>\<open>metric_descriptor_readiness_unit_test.go\<close> compares what Create set with it.
\<close>

definition Descriptor_Create :: "'w env \<Rightarrow> json_codec \<Rightarrow> 'w BaseResource \<Rightarrow> CreateRequest \<Rightarrow> ('w, ProgressResult) op" where
  "Descriptor_Create E J b request s =
     (case Create E b request s of
        (Panic p, s1) \<Rightarrow> (Panic p, s1)
      | (Ok r, s1) \<Rightarrow>
          (if pr_Status r = OperationStatusSuccess then descriptor_accepted J (env_clock E (m_world s1)) r
           else Ok (if env_ctx_err E (m_world s1) \<noteq> None then metricDescriptorCreateFailure r outcome_unknown else r), s1)
      | (Err e, s1) \<Rightarrow>
          (if env_ctx_err E (m_world s1) \<noteq> None
           then Ok (metricDescriptorCreateFailure (progress OperationCreate OperationStatusFailure) outcome_unknown) else Err e, s1))"

definition descriptor_status :: "StatusRequest \<Rightarrow> OperationStatus \<Rightarrow> ProgressResult" where
  "descriptor_status request st =
     (progress OperationCreate st)\<lparr>pr_NativeID := st_NativeID request, pr_RequestID := st_RequestID request\<rparr>"

definition metricDescriptorStatusFailure :: "StatusRequest \<Rightarrow> OperationErrorCode \<Rightarrow> string \<Rightarrow> ProgressResult" where
  "metricDescriptorStatusFailure request code message =
     (descriptor_status request OperationStatusFailure)\<lparr>pr_ErrorCode := code, pr_Message := message\<rparr>"

definition metricDescriptorReadinessExpired :: "StatusRequest \<Rightarrow> ProgressResult" where
  "metricDescriptorReadinessExpired request =
     metricDescriptorStatusFailure request GeneralServiceException
       ''Metric descriptor creation was accepted but readiness was not confirmed before the deadline''"

definition metricDescriptorPendingOrExpired :: "int \<Rightarrow> StatusRequest \<Rightarrow> int \<Rightarrow> string \<Rightarrow> ProgressResult" where
  "metricDescriptorPendingOrExpired now request deadline message =
     (if \<not> now < deadline then metricDescriptorReadinessExpired request
      else (descriptor_status request OperationStatusInProgress)\<lparr>pr_Message := message\<rparr>)"

definition validateMetricDescriptorReadProperties :: "raw option \<Rightarrow> string \<Rightarrow> goerr option" where
  "validateMetricDescriptorReadProperties properties expectedType =
     (case unmarshal_map (case properties of None \<Rightarrow> RawNil | Some r \<Rightarrow> r) of
        Inl e \<Rightarrow> Some (ErrText (''decode properties: '' @ e))
      | Inr observed \<Rightarrow>
          (let observedType = string_or_empty (as_string (map_of (obj_of observed) ''name''))
           in if obj_of observed = [] then Some (ErrText ''properties are empty'')
              else if observedType = [] then Some (ErrText ''descriptor identity is missing'')
              else if observedType \<noteq> expectedType
              then Some (ErrText (''descriptor identity '' @ quoted observedType @ '' does not match '' @ quoted expectedType))
              else None))"

definition descriptor_observed :: "(OperationErrorCode \<Rightarrow> string) \<Rightarrow> int \<Rightarrow> StatusRequest \<Rightarrow> int \<Rightarrow> string \<Rightarrow> ReadResult \<Rightarrow> ProgressResult" where
  "descriptor_observed code_name now request deadline expectedType rr =
     (if rr_ErrorCode rr \<in> {AccessDenied, InvalidRequest}
      then metricDescriptorStatusFailure request (rr_ErrorCode rr) ''Metric descriptor readiness read returned a terminal error''
      else if rr_ErrorCode rr \<notin> {NotSet, NoErrorCode}
      then metricDescriptorPendingOrExpired now request deadline
             (''Metric descriptor creation was accepted; readiness read returned '' @ code_name (rr_ErrorCode rr))
      else case validateMetricDescriptorReadProperties (rr_Properties rr) expectedType of
        Some e \<Rightarrow> metricDescriptorStatusFailure request GeneralServiceException
            (''Metric descriptor readiness read returned an invalid descriptor: '' @ err_text e)
      | None \<Rightarrow> (descriptor_status request OperationStatusSuccess)
            \<lparr>pr_Properties := rr_Properties rr, pr_Message := ''Metric descriptor is readable''\<rparr>)"

definition descriptor_readiness ::
    "'w env \<Rightarrow> (OperationErrorCode \<Rightarrow> string) \<Rightarrow> 'w BaseResource \<Rightarrow> StatusRequest \<Rightarrow> int \<Rightarrow> string \<Rightarrow> ('w, ProgressResult) op" where
  "descriptor_readiness E code_name b request deadline expectedType s =
     (if \<not> env_clock E (m_world s) < deadline then (Ok (metricDescriptorReadinessExpired request), s)
      else case Read E b (status_read_request request (st_NativeID request)) s of
        (Panic p, s1) \<Rightarrow> (Panic p, s1)
      | (Err e, s1) \<Rightarrow>
          (Ok (metricDescriptorPendingOrExpired (env_clock E (m_world s1)) request deadline
             ''Metric descriptor creation was accepted; readiness could not yet be confirmed''), s1)
      | (Ok rr, s1) \<Rightarrow> (Ok (descriptor_observed code_name (env_clock E (m_world s1)) request deadline expectedType rr), s1))"

text \<open>\<open>code_name\<close> is the text behind an error code, which is the SDK's.\<close>

definition Descriptor_Status ::
    "'w env \<Rightarrow> json_codec \<Rightarrow> (OperationErrorCode \<Rightarrow> string) \<Rightarrow> 'w BaseResource \<Rightarrow> StatusRequest \<Rightarrow> ('w, ProgressResult) op" where
  "Descriptor_Status E J code_name b request s =
     (if \<not> HasPrefix (st_RequestID request) metricDescriptorMarkerNamespace
      then (case Status E b request s of
              (Ok r, s1) \<Rightarrow> (Ok (if pr_NativeID r = [] then r\<lparr>pr_NativeID := st_NativeID request\<rparr> else r), s1)
            | (Err e, s1) \<Rightarrow> (Err e, s1)
            | (Panic p, s1) \<Rightarrow> (Panic p, s1))
      else case parseMetricDescriptorReadinessMarker J (st_RequestID request) of
        Panic p \<Rightarrow> (Panic p, s)
      | Err e \<Rightarrow> (Ok (metricDescriptorStatusFailure request GeneralServiceException
            (''Invalid metric descriptor readiness marker: '' @ err_text e)), s)
      | Ok marker \<Rightarrow>
          if mk_NativeID marker \<noteq> st_NativeID request
          then (Ok (metricDescriptorStatusFailure request GeneralServiceException
                  ''Metric descriptor readiness marker does not match the requested native identity''), s)
          else case metricDescriptorTypeFromNativeID (mk_NativeID marker) of
            Panic p \<Rightarrow> (Panic p, s)
          | Err e \<Rightarrow> (Ok (metricDescriptorStatusFailure request GeneralServiceException
                (''Invalid metric descriptor native identity: '' @ err_text e)), s)
          | Ok expectedType \<Rightarrow> descriptor_readiness E code_name b request (mk_DeadlineUnix marker * second) expectedType s)"

section \<open>Identifiers\<close>

text \<open>Monitoring answers with the project's number or its id; the native ID has the configured project either way.\<close>

lemma monitoring_project_canonical:
  assumes "list_all seg [q, pc_ResourceType ctx, pc_ResourceName ctx]" "pc_Project ctx \<noteq> []"
    and "as_string (map_of body ''name'') = Some (''projects/'' @ q @ ''/'' @ pc_ResourceType ctx @ ''/'' @ pc_ResourceName ctx)"
  shows "extractMonitoringNativeID body ctx = project_id ctx"
proof -
  let ?name = "''projects/'' @ q @ ''/'' @ pc_ResourceType ctx @ ''/'' @ pc_ResourceName ctx"
  have "name_from_projects body = Some ?name" using assms(3) by (simp add: name_from_projects_def from_projects_def Index_prefix)
  moreover have "Split ?name CHR ''/'' = [''projects'', q, pc_ResourceType ctx, pc_ResourceName ctx]"
    using assms(1) by (simp add: segment seg_def)
  ultimately show ?thesis using assms(2) by (simp add: extractMonitoringNativeID_def normalizeMonitoringProject_def project_id_def)
qed

text \<open>The types directly below the project are found again.\<close>

definition monitoring_kind :: "string \<Rightarrow> bool" where
  "monitoring_kind kind \<longleftrightarrow> kind \<notin> set path_keywords \<and> kind \<noteq> ''serviceLevelObjectives''"

interpretation monitoring_ids: project_addressed extractMonitoringNativeID "ParseNativeID MonitoringNativeID" True monitoring_kind
proof
  fix ctx body assume ok: "project_ok monitoring_kind ctx"
  have "extractMonitoringNativeID body ctx = project_id ctx" if "as_string (map_of body ''name'') = Some (project_id ctx)"
    using ok that by (intro monitoring_project_canonical [of "pc_Project ctx"]) (simp_all add: project_ok_def project_id_def)
  moreover have "extractMonitoringNativeID body ctx = project_id ctx" if "as_string (map_of body ''name'') = None"
    using ok that by (simp add: extractMonitoringNativeID_def name_from_projects_def project_ok_def)
  ultimately show "extractMonitoringNativeID body ctx = project_id ctx" if "own_answer True (project_id ctx) body"
    using that unfolding own_answer_def by (elim conjE disjE insertE) (simp_all only: not_True_eq_False simp_thms empty_iff)
  have "Split (project_id ctx) CHR ''/'' = [''projects'', pc_Project ctx, pc_ResourceType ctx, pc_ResourceName ctx]"
    using ok by (simp add: project_ok_def project_id_def segment seg_def)
  then show "ParseNativeID MonitoringNativeID (project_id ctx) = Inr (project_canon ctx)"
    using ok by (simp add: MonitoringNativeID_def path_native_id_def ParseNativeID_def parsePathNativeID_def project_canon_def project_ok_def
        monitoring_kind_def path_keywords_def)
qed

interpretation monitoring: addressed monitoringPathBuilder extractMonitoringNativeID "ParseNativeID MonitoringNativeID" True
  "\<lambda>ctx. project_ok monitoring_kind ctx \<and> \<not> pc_IsList ctx \<and> \<not> has_parent ctx" project_canon "\<lambda>t. True"
proof (rule addressed_agree [OF monitoring_ids.addressed_axioms])
  show "monitoringPathBuilder c = project_path c"
    if "project_ok monitoring_kind ctx \<and> \<not> pc_IsList ctx \<and> \<not> has_parent ctx" "completes True (project_canon ctx) c"
      "pc_ResourceType c = pc_ResourceType ctx" for ctx c
    using that by (simp add: monitoringPathBuilder_def project_path_def completes_def project_canon_def empty_ctx_def has_parent_def
        project_ok_def monitoring_kind_def)
qed (use monitoring_ids.extracted monitoring_ids.parsed in
    \<open>auto simp: monitoringPathBuilder_def project_path_def has_parent_def project_ok_def monitoring_kind_def\<close>)

text \<open>A metric type may have slashes; it is read back whole.\<close>

lemma descriptor_id_back:
  assumes "seg p" "p \<noteq> []" "t \<noteq> []" "p \<noteq> ''metricDescriptors''"
  shows "parseMetricDescriptorNativeID (''projects/'' @ p @ ''/metricDescriptors/'' @ t)
    = Ok (empty_ctx\<lparr>pc_Project := p, pc_ResourceType := ''metricDescriptors'', pc_ResourceName := t\<rparr>)"
proof -
  have "Index (''projects'' @ slashed [p] @ ''/'' @ ''metricDescriptors'' @ ''/'' @ t) (''/'' @ ''metricDescriptors'' @ ''/'')
      = Some (length (''projects'' @ slashed [p]))"
    by (rule Index_segments) (use assms in \<open>simp_all add: seg_def\<close>)
  then have "Index (''projects/'' @ p @ ''/metricDescriptors/'' @ t) metricDescriptorsSegment = Some (9 + length p)"
    by (simp add: metricDescriptorsSegment_def)
  then show ?thesis using assms(2,3)
    by (simp add: parseMetricDescriptorNativeID_def metricDescriptorsSegment_def Let_def HasPrefix_def)
qed

text \<open>An ID without a project is not refused but makes the program panic.\<close>

lemma descriptor_id_panics:
  "parseMetricDescriptorNativeID ''projects/metricDescriptors/custom.googleapis.com'' = Panic ''runtime error: slice bounds out of range [9:8]''"
  by code_simp

text \<open>The identifier made of the context, where an answer to the creation of an SLO has no name, leads nowhere.\<close>

lemma slo_fallback_refused:
  assumes "seg (pc_Project ctx)" "seg (pc_ResourceName ctx)" "pc_ResourceName ctx \<noteq> []" "pc_ResourceType ctx = ''serviceLevelObjectives''"
  shows "\<exists>e. parseSloNativeID (extractMonitoringNativeID [] ctx) = Inl e"
proof -
  have "extractMonitoringNativeID [] ctx = project_id ctx" using assms(3) by (simp add: extractMonitoringNativeID_def name_from_projects_def)
  moreover have "Split (project_id ctx) CHR ''/'' = [''projects'', pc_Project ctx, ''serviceLevelObjectives'', pc_ResourceName ctx]"
    using assms by (simp add: project_id_def segment seg_def)
  ultimately show ?thesis by (simp add: parseSloNativeID_def)
qed

section \<open>The marker is read back\<close>

text \<open>What the code relies on of \<^verbatim>\<open>encoding/json\<close>: a marker that was written is read back.\<close>

definition marker_keeps :: "json_codec \<Rightarrow> metricDescriptorReadinessMarker \<Rightarrow> bool" where
  "marker_keeps J m \<longleftrightarrow> jc_read J (jc_text J (marker_json m)) = RawDoc (marker_json m) \<and> jc_text J (marker_json m) \<noteq> []"

lemma read_marker_json: "0 < mk_DeadlineUnix m \<Longrightarrow> mk_DeadlineUnix m < 2 ^ 63 \<Longrightarrow> read_marker (RawDoc (marker_json m)) = Inr m"
  by (cases m) (simp add: marker_json_def marker_step_def zero_marker_def field_match_def ToLower_def lower_char_def fits_int64_def)

lemma EncodeToString_nonempty: "s \<noteq> [] \<Longrightarrow> EncodeToString s \<noteq> []"
  using DecodeString_EncodeToString [of s] by (auto simp: DecodeString_def)

lemma marker_back:
  assumes "m = \<lparr>mk_NativeID = nativeID, mk_DeadlineUnix = deadline div second\<rparr>" "marker_keeps J m"
    and "metricDescriptorTypeFromNativeID nativeID = Ok t" "second \<le> deadline" "deadline < 2 ^ 63"
    and "length (encodeMetricDescriptorReadinessMarker J nativeID deadline) \<le> metricDescriptorMarkerMaxLength"
  shows "parseMetricDescriptorReadinessMarker J (encodeMetricDescriptorReadinessMarker J nativeID deadline) = Ok m"
proof -
  let ?text = "jc_text J (marker_json m)"
  have enc: "encodeMetricDescriptorReadinessMarker J nativeID deadline = metricDescriptorMarkerPrefix @ EncodeToString ?text"
    by (simp add: encodeMetricDescriptorReadinessMarker_def assms(1))
  have "nativeID \<noteq> []" using assms(3)
    by (auto simp: metricDescriptorTypeFromNativeID_def parseMetricDescriptorNativeID_def HasPrefix_def Let_def)
  moreover have "0 < deadline div second" "deadline div second < 2 ^ 63"
    using assms(4,5) by (simp_all add: second_def pos_imp_zdiv_pos_iff)
  ultimately have "checked_marker m = Ok m" "read_marker (jc_read J ?text) = Inr m"
    using assms(2,3) read_marker_json [of m] by (simp_all add: checked_marker_def assms(1) marker_keeps_def)
  moreover have "EncodeToString ?text \<noteq> []" using assms(2) EncodeToString_nonempty by (simp add: marker_keeps_def)
  ultimately show ?thesis using assms(6) unfolding enc
    by (simp add: parseMetricDescriptorReadinessMarker_def TrimPrefix_def HasPrefix_def Let_def)
qed

section \<open>Ready means read\<close>

lemma handled_status:
  assumes "handleSynchronousCreate b body ctx = Ok r"
  shows "pr_Status r \<noteq> OperationStatusInProgress"
proof -
  obtain n p where "call_native_id b body ctx = Ok n" "transform_response b body ctx OperationCreate = Ok p"
    using assms by (auto simp: handleSynchronousCreate_def bind_outcome_eq_Ok)
  then show ?thesis using assms
    by (cases "Marshal (map_value p)") (auto simp: handleSynchronousCreate_def createFailureResult_def)
qed

lemma synchronous_create_status:
  assumes "Create E b request s = (Ok r, s')" "oc_Synchronous (b_OperationConfig b)"
  shows "pr_Status r \<noteq> OperationStatusInProgress"
  using assms handled_status
  by (auto simp: Create_def send_create_def createFailureResult_def Let_def split: prod.splits sum.splits option.splits outcome.splits)

lemma descriptor_accepted_marked:
  assumes "b = descriptor_resource cfg" and "Descriptor_Create E J b request s = (Ok r, s')" and "pr_Status r = OperationStatusInProgress"
  shows "\<exists>t. metricDescriptorTypeFromNativeID (pr_NativeID r) = Ok t"
    and "pr_RequestID r = encodeMetricDescriptorReadinessMarker J (pr_NativeID r) (env_clock E (m_world s') + DefaultOperationTimeout)"
proof -
  have "oc_Synchronous (b_OperationConfig b)" by (simp add: assms(1) descriptor_resource_def MonitoringOperations_def)
  note sync = synchronous_create_status [OF _ this]
  obtain r0 where c: "Create E b request s = (Ok r0, s')" "pr_Status r0 = OperationStatusSuccess"
      "descriptor_accepted J (env_clock E (m_world s')) r0 = Ok r"
    using assms(2,3) sync
    by (auto simp: Descriptor_Create_def metricDescriptorCreateFailure_def split: prod.splits outcome.splits if_splits)
  then show "\<exists>t. metricDescriptorTypeFromNativeID (pr_NativeID r) = Ok t"
    "pr_RequestID r = encodeMetricDescriptorReadinessMarker J (pr_NativeID r) (env_clock E (m_world s') + DefaultOperationTimeout)"
    using assms(3) by (auto simp: descriptor_accepted_def metricDescriptorCreateFailure_def split: outcome.splits)
qed

lemma validated:
  assumes "validateMetricDescriptorReadProperties properties t = None"
  shows "\<exists>m. properties = Some (RawDoc (JObj m)) \<and> map_of m ''name'' = Some (JStr t)"
proof -
  obtain doc m where d: "properties = Some doc" "unmarshal_map doc = Inr (Some m)" "string_or_empty (as_string (map_of m ''name'')) = t" "t \<noteq> []"
    using assms by (auto simp: validateMetricDescriptorReadProperties_def Let_def obj_of_def split: sum.splits if_splits option.splits)
  then have "doc = RawDoc (JObj m)" by (cases doc rule: unmarshal_map.cases) auto
  then show ?thesis using d by (auto simp: string_or_empty_def split: option.splits)
qed

lemma descriptor_poll_answers:
  assumes "descriptor_readiness E code_name b poll deadline type t = (Ok q, t')"
  shows "pr_NativeID q = st_NativeID poll" "pr_RequestID q = st_RequestID poll" "pr_Operation q = OperationCreate"
    "pr_Status q \<in> {OperationStatusSuccess, OperationStatusInProgress, OperationStatusFailure}"
    "deadline \<le> env_clock E (m_world t) \<Longrightarrow> pr_Status q = OperationStatusFailure \<and> t' = t"
    "pr_Status q = OperationStatusInProgress \<Longrightarrow> env_clock E (m_world t') < deadline"
    "pr_Status q = OperationStatusSuccess \<Longrightarrow> env_clock E (m_world t) < deadline
       \<and> (\<exists>rr m. Read E b (status_read_request poll (st_NativeID poll)) t = (Ok rr, t') \<and> rr_ErrorCode rr \<in> {NotSet, NoErrorCode}
            \<and> rr_Properties rr = Some (RawDoc (JObj m)) \<and> pr_Properties q = rr_Properties rr \<and> map_of m ''name'' = Some (JStr type))"
  using assms validated
  by (auto simp: descriptor_readiness_def descriptor_observed_def metricDescriptorPendingOrExpired_def metricDescriptorReadinessExpired_def
      metricDescriptorStatusFailure_def descriptor_status_def split: if_splits prod.splits outcome.splits option.splits)

text \<open>The deadline a descriptor has that was accepted at this time: ten minutes later, in whole seconds.\<close>

definition readiness_deadline :: "int \<Rightarrow> int" where
  "readiness_deadline now = (now + DefaultOperationTimeout) div second * second"

definition readiness_marker :: "int \<Rightarrow> string \<Rightarrow> metricDescriptorReadinessMarker" where
  "readiness_marker now nativeID = \<lparr>mk_NativeID = nativeID, mk_DeadlineUnix = (now + DefaultOperationTimeout) div second\<rparr>"

text \<open>
  C18: A metric descriptor is reported as created only when it was read. Once Create reports a descriptor as
  accepted, whatever poll presents the request ID it answered stays with this descriptor; it reports success only
  before the deadline set at the creation and only with the properties of a read that has the type the native ID
  names; it reports the descriptor as pending only before the deadline; and from the deadline on it reports a
  failure without asking.
\<close>
theorem descriptor_ready_means_read:
  assumes "b = descriptor_resource cfg" and "Descriptor_Create E J b request s = (Ok r, s')" and "pr_Status r = OperationStatusInProgress"
    and "now = env_clock E (m_world s')" "0 \<le> now" "now + DefaultOperationTimeout < 2 ^ 63"
    and "marker_keeps J (readiness_marker now (pr_NativeID r))" and "length (pr_RequestID r) \<le> metricDescriptorMarkerMaxLength"
    and "st_NativeID poll = pr_NativeID r" "st_RequestID poll = pr_RequestID r" and "Descriptor_Status E J code_name b poll t = (Ok q, t')"
  shows "pr_NativeID q = pr_NativeID r \<and> pr_RequestID q = pr_RequestID r
    \<and> pr_Status q \<in> {OperationStatusSuccess, OperationStatusInProgress, OperationStatusFailure}
    \<and> (readiness_deadline now \<le> env_clock E (m_world t) \<longrightarrow> pr_Status q = OperationStatusFailure \<and> t' = t)
    \<and> (pr_Status q = OperationStatusInProgress \<longrightarrow> env_clock E (m_world t') < readiness_deadline now)
    \<and> (pr_Status q = OperationStatusSuccess \<longrightarrow> env_clock E (m_world t) < readiness_deadline now
        \<and> (\<exists>rr m type. metricDescriptorTypeFromNativeID (pr_NativeID r) = Ok type
              \<and> Read E b (status_read_request poll (pr_NativeID r)) t = (Ok rr, t') \<and> rr_ErrorCode rr \<in> {NotSet, NoErrorCode}
              \<and> pr_Properties q = Some (RawDoc (JObj m)) \<and> rr_Properties rr = pr_Properties q \<and> map_of m ''name'' = Some (JStr type)))"
proof -
  obtain type where type: "metricDescriptorTypeFromNativeID (pr_NativeID r) = Ok type"
      and id: "pr_RequestID r = encodeMetricDescriptorReadinessMarker J (pr_NativeID r) (now + DefaultOperationTimeout)"
    using descriptor_accepted_marked [OF assms(1-3)] assms(4) by blast
  have "parseMetricDescriptorReadinessMarker J (pr_RequestID r) = Ok (readiness_marker now (pr_NativeID r))"
    unfolding id by (rule marker_back [OF readiness_marker_def assms(7) type])
      (use assms(5,6,8) id in \<open>simp_all add: second_def DefaultOperationTimeout_def\<close>)
  moreover have "HasPrefix (pr_RequestID r) metricDescriptorMarkerNamespace"
    by (simp add: id encodeMetricDescriptorReadinessMarker_def metricDescriptorMarkerPrefix_def HasPrefix_def)
  ultimately have "descriptor_readiness E code_name b poll (readiness_deadline now) type t = (Ok q, t')"
    using assms(9-11) type by (simp add: Descriptor_Status_def readiness_marker_def readiness_deadline_def)
  from descriptor_poll_answers [OF this] show ?thesis using assms(9,10) type by auto
qed

definition demo_descriptor_id :: string where "demo_descriptor_id = ''projects/p/metricDescriptors/c/m''"

definition demo_descriptor :: CreateRequest where
  "demo_descriptor = \<lparr>cr_ResourceType = ''GCP::Monitoring::MetricDescriptor'', cr_TargetConfig = demo_target,
     cr_Properties = RawDoc (JObj [(''name'', JStr ''c/m'')])\<rparr>"

definition demo_descriptor_codec :: json_codec where
  "demo_descriptor_codec = \<lparr>jc_text = (\<lambda>v. ''t''), jc_read = (\<lambda>t. RawDoc (marker_json (readiness_marker 0 demo_descriptor_id)))\<rparr>"

definition demo_descriptor_answer :: obj where
  "demo_descriptor_answer = [(''name'', JStr demo_descriptor_id), (''type'', JStr ''c/m'')]"

lemma descriptor_resource_sel:
  "b_Config (descriptor_resource cfg) = cfg" "b_APIConfig (descriptor_resource cfg) = MonitoringAPI"
  "b_OperationConfig (descriptor_resource cfg) = MonitoringOperations"
  "b_ResourceConfig (descriptor_resource cfg) = project_type ''metricDescriptors''"
  "b_NativeIDConfig (descriptor_resource cfg) = MonitoringMetricDescriptorNativeID"
  "b_RequestTransformer (descriptor_resource cfg) = Some metricDescriptorNameToType"
  "b_ResponseTransformer (descriptor_resource cfg) = Some metricDescriptorTypeToName"
  by (simp_all add: descriptor_resource_def)

lemma demo_descriptor_type: "metricDescriptorTypeFromNativeID demo_descriptor_id = Ok ''c/m''"
  unfolding demo_descriptor_id_def by code_simp

lemma demo_descriptor_run:
  "\<exists>r s'. Descriptor_Create (logged script_env) demo_descriptor_codec (descriptor_resource demo_cfg) demo_descriptor
       (script_at [scripted 200 (JObj demo_descriptor_answer)] []) = (Ok r, s')
     \<and> pr_Status r = OperationStatusInProgress \<and> pr_NativeID r = demo_descriptor_id"
proof -
  let ?url = "''https://monitoring.googleapis.com/v3/projects/p/metricDescriptors''" and ?body = "[(''type'', JStr ''c/m'')]"
  let ?b = "descriptor_resource demo_cfg :: demo_world BaseResource" and ?props = "[(''name'', JStr ''c/m'')]"
  let ?ctx = "buildPathContext ?b demo_target ?props"
  have props: "UnwrapValues (Some ?props) = ?props"
    by (simp add: UnwrapValues_def obj_of_def unwrapValue_obj is_wrapper_def)
  have ctx: "pc_Project ?ctx = ''p''" "pc_ResourceType ?ctx = ''metricDescriptors''" "\<not> pc_IsList ?ctx" "pc_ParentType ?ctx = []"
    by (simp_all add: buildPathContext_def Let_def create_scope_def parent_context_def descriptor_resource_sel project_type_def zero_resource_def
        demo_target_path empty_ctx_def)
  have body: "transform_request ?b ?props ?ctx OperationCreate = Ok (Some ?body)"
    by (simp add: transform_request_def descriptor_resource_sel metricDescriptorNameToType_def moved_field_def)
  have url: "create_url ?b ?ctx [] = Ok ?url"
    by (simp add: create_url_def CollectionURL_def build_url_def NewURLBuilder_def descriptor_resource_sel MonitoringAPI_def monitoring_api_def
        monitoringPathBuilder_def has_parent_def ctx)
  have "Parse ?url \<noteq> None" by code_simp
  then obtain req where send: "SendRequest (logged script_env) demo_client (request_options ''POST'' ?url (Some ?body))
      (script_at [scripted 200 (JObj demo_descriptor_answer)] [])
      = (Inr \<lparr>rs_StatusCode = 200, rs_Body = Some demo_descriptor_answer, rs_Headers = []\<rparr>, script_at [] [req])"
    using script_send [OF _ methods_ok(2), of ?url "Some ?body" demo_descriptor_answer "[]" "[]"] by auto
  have id: "extractMonitoringNativeID demo_descriptor_answer ?ctx = demo_descriptor_id"
    unfolding extractMonitoringNativeID_def ctx demo_descriptor_answer_def demo_descriptor_id_def by code_simp
  have "\<exists>r. Create (logged script_env) ?b demo_descriptor (script_at [scripted 200 (JObj demo_descriptor_answer)] []) = (Ok r, script_at [] [req])
      \<and> pr_Status r = OperationStatusSuccess \<and> pr_NativeID r = demo_descriptor_id"
    using send body url id props
    by (simp add: Create_def descriptor_resource_sel demo_NewClient demo_descriptor_def missing_second_def send_create_def create_id_def
        project_type_def zero_resource_def wrap_body_def handleSynchronousCreate_def MonitoringOperations_def call_native_id_def
        transform_response_def metricDescriptorTypeToName_def moved_field_def demo_descriptor_answer_def demo_descriptor_id_def
        string_or_empty_def Marshal_def obj_of_def map_value_def Let_def)
  then show ?thesis using demo_descriptor_type by (auto simp: Descriptor_Create_def descriptor_accepted_def)
qed

definition demo_descriptor_poll :: "string \<Rightarrow> StatusRequest" where
  "demo_descriptor_poll requestID =
     \<lparr>st_RequestID = requestID, st_NativeID = demo_descriptor_id, st_ResourceType = ''T'', st_TargetConfig = RawNil\<rparr>"

lemma demo_descriptor_read:
  "\<exists>rr t'. Read (logged script_env) (descriptor_resource demo_cfg) (status_read_request (demo_descriptor_poll requestID) demo_descriptor_id)
      (script_at [scripted 200 (JObj demo_descriptor_answer)] []) = (Ok rr, t') \<and> rr_ErrorCode rr = NoErrorCode
      \<and> rr_Properties rr = Some (RawDoc (JObj [(''name'', JStr ''c/m'')]))"
proof -
  let ?url = "''https://monitoring.googleapis.com/v3/'' @ demo_descriptor_id" and ?b = "descriptor_resource demo_cfg :: demo_world BaseResource"
  let ?ctx = "empty_ctx\<lparr>pc_Project := ''p'', pc_ResourceType := ''metricDescriptors'', pc_ResourceName := ''c/m''\<rparr>"
  have "Parse ?url \<noteq> None" unfolding demo_descriptor_id_def by code_simp
  then obtain req where send: "SendRequest (logged script_env) demo_client (request_options ''GET'' ?url None)
      (script_at [scripted 200 (JObj demo_descriptor_answer)] [])
      = (Inr \<lparr>rs_StatusCode = 200, rs_Body = Some demo_descriptor_answer, rs_Headers = []\<rparr>, script_at [] [req])"
    using script_send [OF _ methods_ok(1), of ?url None demo_descriptor_answer "[]" "[]"] by auto
  have parse: "ParseNativeID MonitoringMetricDescriptorNativeID demo_descriptor_id = Inr ?ctx"
    unfolding MonitoringMetricDescriptorNativeID_def path_native_id_sel demo_descriptor_id_def by code_simp
  have url: "resource_url ?b (resource_context ?b RawNil ?ctx) = Ok ?url"
    by (simp add: resource_url_def resource_context_def ResourceURL_def NewURLBuilder_def build_url_def descriptor_resource_sel MonitoringAPI_def
        monitoring_api_def monitoringPathBuilder_def has_parent_def project_type_def zero_resource_def
        fillPathContextFromTarget_def fill_def Let_def demo_descriptor_id_def empty_ctx_def)
  have t: "metricDescriptorTypeToName (Some demo_descriptor_answer) ctx = Ok (Some [(''name'', JStr ''c/m'')])" for ctx
    unfolding demo_descriptor_answer_def by code_simp
  show ?thesis
    using send parse url t
    by (simp add: Read_def descriptor_resource_sel demo_NewClient status_read_request_def demo_descriptor_poll_def read_body_def
        body_is_missing_def transform_response_def project_type_def zero_resource_def map_value_def Marshal_def read_properties_def)
qed

theorem descriptor_ready_means_read_witness:
  "\<exists>r s' q t'. Descriptor_Create (logged script_env) demo_descriptor_codec (descriptor_resource demo_cfg) demo_descriptor
       (script_at [scripted 200 (JObj demo_descriptor_answer)] []) = (Ok r, s')
     \<and> Descriptor_Status (logged script_env) demo_descriptor_codec (\<lambda>c. []) (descriptor_resource demo_cfg) (demo_descriptor_poll (pr_RequestID r))
         (script_at [scripted 200 (JObj demo_descriptor_answer)] []) = (Ok q, t')
     \<and> pr_NativeID q = demo_descriptor_id \<and> pr_RequestID q = pr_RequestID r"
proof -
  obtain r s' where r: "Descriptor_Create (logged script_env) demo_descriptor_codec (descriptor_resource demo_cfg) demo_descriptor
       (script_at [scripted 200 (JObj demo_descriptor_answer)] []) = (Ok r, s')"
      "pr_Status r = OperationStatusInProgress" "pr_NativeID r = demo_descriptor_id"
    using demo_descriptor_run by blast
  have clock: "env_clock (logged script_env) (m_world t) = 0" for t by (simp add: logged_def script_env_def)
  have keeps: "marker_keeps demo_descriptor_codec (readiness_marker 0 (pr_NativeID r))"
    by (simp add: marker_keeps_def demo_descriptor_codec_def r(3))
  have id: "pr_RequestID r = encodeMetricDescriptorReadinessMarker demo_descriptor_codec demo_descriptor_id DefaultOperationTimeout"
    using descriptor_accepted_marked(2) [OF refl r(1,2)] by (simp add: clock r(3))
  have short: "length (pr_RequestID r) \<le> metricDescriptorMarkerMaxLength"
    by (simp add: id encodeMetricDescriptorReadinessMarker_def demo_descriptor_codec_def metricDescriptorMarkerPrefix_def
        metricDescriptorMarkerNamespace_def metricDescriptorMarkerMaxLength_def)
  have "parseMetricDescriptorReadinessMarker demo_descriptor_codec (pr_RequestID r) = Ok (readiness_marker 0 demo_descriptor_id)"
    unfolding id by (rule marker_back [OF _ _ demo_descriptor_type])
      (use keeps short id in \<open>simp_all add: readiness_marker_def r(3) second_def DefaultOperationTimeout_def\<close>)
  moreover have "HasPrefix (pr_RequestID r) metricDescriptorMarkerNamespace"
    by (simp add: id encodeMetricDescriptorReadinessMarker_def metricDescriptorMarkerPrefix_def HasPrefix_def)
  ultimately obtain q t' where q: "Descriptor_Status (logged script_env) demo_descriptor_codec (\<lambda>c. []) (descriptor_resource demo_cfg)
      (demo_descriptor_poll (pr_RequestID r)) (script_at [scripted 200 (JObj demo_descriptor_answer)] []) = (Ok q, t')"
    using demo_descriptor_read [of "pr_RequestID r"] demo_descriptor_type
    by (auto simp: Descriptor_Status_def demo_descriptor_poll_def readiness_marker_def descriptor_readiness_def clock second_def
        DefaultOperationTimeout_def)
  have now: "0 = env_clock (logged script_env) (m_world s')" "0 + DefaultOperationTimeout < 2 ^ 63"
    by (simp_all add: clock DefaultOperationTimeout_def)
  have poll: "st_NativeID (demo_descriptor_poll (pr_RequestID r)) = pr_NativeID r"
      "st_RequestID (demo_descriptor_poll (pr_RequestID r)) = pr_RequestID r"
    by (simp_all add: demo_descriptor_poll_def r(3))
  from descriptor_ready_means_read [OF refl r(1,2) now(1) order_refl now(2) keeps short poll q]
  have "pr_NativeID q = pr_NativeID r \<and> pr_RequestID q = pr_RequestID r" by blast
  then show ?thesis using r q by auto
qed

end
