(* ===== verification/Spec2Isabelle.thy ===== *)
theory Spec2Isabelle
  imports Credential_Cache Plugin Gcp_Utils Native_Id Iam_Member Router_Parts Policy_Rule Network_Parts Attached_Parts Project_Metadata Disk Instance_Group Run_Iam_Member Pubsub_Iam Service_Catalog
    Storage Sql Deep_Walks Dns Api_Gateway Service_Account Monitoring
begin

text \<open>
  \<^bold>\<open>The GCP plugin of formae.\<close>

  formae hands the plugin a desired state as JSON and calls it to create, read, update, delete,
  list and poll resources of Google Cloud. A call enters \<^verbatim>\<open>src/gcp.go\<close>, which turns the target
  into a configuration (\<^verbatim>\<open>src/pkg/config\<close>) and looks up the provisioner of the resource type in
  the registry (\<^verbatim>\<open>src/pkg/resources/registry\<close>). Most types are served by one generic resource
  (\<^verbatim>\<open>src/pkg/resources/base\<close>), driven by a table entry: which URLs to build, how native IDs look,
  how a long-running operation is recognised, how bodies are transformed. Types that do not fit
  have provisioners of their own, which use the generic resource for its URLs, its polling or its
  client. Everything goes out through \<^verbatim>\<open>src/pkg/transport\<close>, which attaches credentials, sends one
  request and classifies what comes back.

  \<^bold>\<open>State.\<close> An operation maps a record \<open>machine\<close> (the outside world of any type \<open>'w\<close>, the credential
  cache the plugin instance owns, the lines logged) to an outcome, \<open>Ok\<close>, \<open>Err\<close> or \<open>Panic\<close>, and the
  machine it leaves. Code outside the repository is a field of the record \<open>env\<close>: the HTTP exchange,
  \<^verbatim>\<open>googleapi.CheckResponse\<close>, the credential libraries, the clock, the process environment. The
  theorems hold for every such record; where one relies on documented behaviour of a field, this is
  a named hypothesis and its witness gives a concrete \<open>env\<close>. A nil map or function is \<open>None\<close>, and
  what Go does with it (read as empty, panic on a write or a call) is written out.

  \<^bold>\<open>Foundations.\<close>
  \<^item> \<open>Go_Prelude\<close>: outcomes, the functions of \<^verbatim>\<open>strings\<close> and \<^verbatim>\<open>strconv\<close> the sources use, segments of
    paths. \<open>Urls\<close>: \<^verbatim>\<open>net/url\<close>. \<open>Json\<close>: values as \<^verbatim>\<open>encoding/json\<close> decodes them, \<open>fmt\<close>'s rendering
    of them, the typed getters of \<^verbatim>\<open>src/pkg/utils/props.go\<close>. \<open>Formae_Sdk\<close>: the data of the SDK.
  \<^item> \<open>Codec\<close>: the contract of an identifier. \<open>id_reader\<close> says that what is written is read back,
    \<open>id_codec\<close> also that nothing else is accepted. \<open>Slot_Array\<close> and \<open>Keyed_Merge\<close>: the two ways the
    sources keep named entries in an array, as contracts with the lemma that siblings survive a
    change, and that the array refines a map. \<open>Guarded_Writes\<close>: a loop that reads, edits and writes
    until a write is not refused as stale, as a contract with the lemma that every write follows
    directly on the read it edits.

  \<^bold>\<open>Core.\<close>
  \<^item> \<open>Transport_Errors\<close> (\<^verbatim>\<open>transport/errors.go\<close>, \<^verbatim>\<open>mapper.go\<close>, \<^verbatim>\<open>service_disabled.go\<close>,
    \<^verbatim>\<open>status/errors.go\<close>): error chains and their classes. Wrapping keeps the class; exactly which
    errors count as unreachable.
  \<^item> \<open>Config\<close> (\<^verbatim>\<open>config/config.go\<close>, \<^verbatim>\<open>oidc.go\<close>): the choice of credentials. An auth block never falls
    back to ambient credentials; a cached token is used only before it expires. The cache is seen
    through the locale \<open>atomic_map\<close>, interpreted by the model of \<^verbatim>\<open>sync.Map\<close>.
  \<^item> \<open>Credential_Cache\<close>: the cache's compare-and-swap loop as a step relation over any number of
    concurrent calls. From every state of every schedule on, entries only get better, and every schedule ends.
  \<^item> \<open>Transport\<close> (\<^verbatim>\<open>transport.go\<close>, \<^verbatim>\<open>operation.go\<close>): one request per call, query parameters, and the
    polling loop. The loop may run forever, so it is a \<^theory_text>\<open>partial_function\<close>; it returns when an
    operation is done or the deadline passes, after a number of polls bounded by timeout and interval.
  \<^item> \<open>Base_Config\<close>, \<open>Native_Id\<close> (\<^verbatim>\<open>api_config.go\<close>, \<^verbatim>\<open>native_id.go\<close>, \<^verbatim>\<open>transformers.go\<close>,
    \<^verbatim>\<open>location_helpers.go\<close>, \<^verbatim>\<open>lro.go\<close>, the pure half of \<^verbatim>\<open>base_resource_helpers.go\<close>): the declarative half
    of the generic resource. Template expansion does not depend on Go's map order; unwrapping of
    resolvable values is complete; the update mask names the fields sent.
  \<^item> \<open>Base_Resource\<close> (\<^verbatim>\<open>base_resource.go\<close>, \<^verbatim>\<open>base_resource_helpers.go\<close>, \<^verbatim>\<open>unauthorized_read.go\<close>): the six
    operations on every branch. Create sends one POST and refuses a half-given parent; an update
    under optimistic locking sends the value it just read; exactly which classes of errors and which
    HTTP statuses end an operation that is polled, and which make Read report a resource as missing.
  \<^item> \<open>Registry\<close>, \<open>Plugin\<close> (\<^verbatim>\<open>resource_registry.go\<close>, \<^verbatim>\<open>registry/registry.go\<close>, \<^verbatim>\<open>gcp.go\<close>,
    \<^verbatim>\<open>gcp/client.go\<close>): registration and dispatch, and that a refusal of the API never looks like
    absence to formae: exactly which refusals Read and List turn into what, and the line each leaves in the log. \<open>Gcp_Utils\<close> (\<^verbatim>\<open>utils/gcp_utils.go\<close>): operation IDs.

  \<^bold>\<open>Compute Engine\<close> (\<^verbatim>\<open>src/pkg/resources/compute\<close>).
  \<^item> \<open>Compute_Api\<close> (\<^verbatim>\<open>api.go\<close>): paths and native IDs; a native ID addresses the resource it came from.
  \<^item> \<open>Router_Nat\<close> (\<^verbatim>\<open>router_nat.go\<close>): NATs as slots of the router's array; a change keeps the siblings.
  \<^item> \<open>Compute_Verbs\<close>: what the other hand-written provisioners repeat, and the locale
    \<open>verb_resource\<close>: Create answers the native ID by which Delete finds the same object again.
    \<open>Router_Parts\<close>, \<open>Policy_Rule\<close>, \<open>Network_Parts\<close> and \<open>Attached_Parts\<close> interpret it for route
    policies, named sets, policy rules, associations, peerings, signed URL keys, attached resource
    policies and network endpoints.
  \<^item> \<open>Router_Parts\<close> (interfaces) and \<open>Project_Metadata\<close> interpret \<open>Keyed_Merge\<close>: a change of one entry
    is an update of a map, under the fingerprint that was read.
  \<^item> \<open>Compute_Transformers\<close> (the transformer files): what is rewritten on the way to and from the API.
    The locale \<open>reading\<close> says that a response transformer settles, \<open>declared_reading\<close> that what was
    declared is read back from an answer that mirrors the request.
  \<^item> \<open>Type_Table\<close>, \<open>Compute_Types\<close> (\<^verbatim>\<open>resources.go\<close>): a table of configuration-driven types as the locale
    \<open>type_table\<close>, and the Compute table. Types and paths do not collide, every type is served as
    its entry says, and every read settles.
  \<^item> \<open>Disk\<close> (\<^verbatim>\<open>disk.go\<close>, \<^verbatim>\<open>disk_provisioner.go\<close>): updates through setLabels.
  \<^item> \<open>Base64\<close> (both encodings the sources use), \<open>Instance_Group\<close> (\<^verbatim>\<open>instance_group.go\<close>): the plan an update writes into its request ID
    survives; against an API, a parameter, that carries out its verbs as documented, at most three polls of Status
    find it pending, and Status reports success only when it is reached.

  \<^bold>\<open>IAM.\<close> \<open>Iam_Member\<close> (\<^verbatim>\<open>iam/project_iam_member.go\<close>): one member of one role. The edits of a policy
  interpret the locale \<open>membership\<close>; with a service that honours etags, Create and Delete act
  atomically on the policy, whatever other writers do in between. \<open>Run_Iam_Member\<close>
  (\<^verbatim>\<open>cloudrun/service_iam_member.go\<close>): the same for one Cloud Run service; what is granted is read back,
  and what is discovered can be managed. \<open>Pubsub_Iam\<close> (\<^verbatim>\<open>pubsub/iam_member.go\<close>): the same over plain HTTP
  for topics and subscriptions, where every write goes to the declared policy and adds the declared grant alone; its loop interprets \<open>guarded_writes\<close>, as the one of \<open>Project_Metadata\<close>
  does, and its edits \<open>membership\<close>.

  \<^bold>\<open>Pub/Sub.\<close> \<open>Pubsub\<close> (\<^verbatim>\<open>pubsub/api.go\<close>, \<^verbatim>\<open>resources.go\<close>): topics, subscriptions, snapshots and schemas.
  What Create puts is found by its identifier, an update sends the mutable fields and their mask,
  and a subscription reads back as declared.

  \<^bold>\<open>Table packages.\<close> Most services are a configuration and a table. \<open>Service_Package\<close> has what they share:
  how an operation is recognised, how an answer names a resource, and the locale \<open>addressed\<close>, the contract
  under which the generic resource finds again what it created. \<open>Location_Services\<close> (\<^verbatim>\<open>kms\<close>, \<^verbatim>\<open>vpcaccess\<close>,
  \<^verbatim>\<open>gkebackup\<close>, \<^verbatim>\<open>workflows\<close>, \<^verbatim>\<open>redis\<close>, \<^verbatim>\<open>memcache\<close>, \<^verbatim>\<open>cloudscheduler\<close>, \<^verbatim>\<open>cloudtasks\<close>), \<open>Nested_Services\<close>
  (\<^verbatim>\<open>clouddeploy\<close>, \<^verbatim>\<open>certificatemanager\<close>) and \<open>Network_Services\<close> (\<^verbatim>\<open>networkservices\<close>, \<^verbatim>\<open>networksecurity\<close>,
  \<^verbatim>\<open>networkconnectivity\<close>) interpret it, most of them through the sublocales \<open>location_addressed\<close> and
  \<open>nested_addressed\<close>, and so do \<open>Parented_Services\<close> (\<^verbatim>\<open>filestore\<close>, \<^verbatim>\<open>analyticshub\<close>, \<^verbatim>\<open>artifactregistry\<close>,
  \<^verbatim>\<open>parametermanager\<close>, whose payloads are written and never kept), \<open>Wildcard_Services\<close> (\<^verbatim>\<open>certificateauthority\<close>,
  \<^verbatim>\<open>datastream\<close>) and \<open>Regional_Services\<close> (\<^verbatim>\<open>alloydb\<close>, \<^verbatim>\<open>eventarc\<close>, whose triggers are created with the id in two places);
  in the last two a listing asks by a wildcard, and the lemma \<open>addressed_agree\<close> carries the contract over to all
  other contexts. Two types of Datastream are created at a URL that asks to skip their validation and stand outside
  the contract. \<open>Project_Services\<close> (\<^verbatim>\<open>orgpolicy\<close>, \<^verbatim>\<open>essentialcontacts\<close>, \<^verbatim>\<open>logging\<close>) has the collections of a project, through
  the sublocale \<open>project_addressed\<close>, and the read that hides a log bucket on its way out; \<open>Deep_Services\<close>
  (\<^verbatim>\<open>servicedirectory\<close>, \<^verbatim>\<open>spanner\<close>) has identifiers of several levels, and shows that what Spanner creates is found
  whether it answers with the resource, an operation or no name at all, unless a segment of its path is called
  operations. Where packages have copies of a function, the copies are defined by one shared
  definition. \<open>Service_Catalog\<close> puts the packages side by side: every type of twenty of them is found where it was created,
  if the API keeps the declared name, also where the package gives it a listing or a Delete of its own (organization
  policies and essential contacts, which the API names itself, are found under that name), and the tables that are registered as they are, with
  the one of Compute, register in any order without hiding one another.

  \<^bold>\<open>Discovery walks.\<close> Where no endpoint spans the parents of a type, its List asks every parent. \<open>Walks\<close> has
  the loops over pages and parents that the packages repeat, and the locale \<open>visited\<close>, the contract between a
  walk and what it visits: on an API that does not change meanwhile a walk finds what the readable parents
  hold, over all pages, or on the one page it reads where that is the whole collection. \<open>Walking_Lists\<close> (\<^verbatim>\<open>alloydb\<close>, \<^verbatim>\<open>analyticshub\<close>, \<^verbatim>\<open>filestore\<close>, \<^verbatim>\<open>artifactregistry\<close>, \<^verbatim>\<open>logging\<close>, \<^verbatim>\<open>dns\<close>,
  \<^verbatim>\<open>bigtable\<close>, \<^verbatim>\<open>apigateway\<close>, \<^verbatim>\<open>container\<close>) says what each package puts into the loops; \<open>Deep_Walks\<close> (\<^verbatim>\<open>spanner\<close>,
  \<^verbatim>\<open>servicedirectory\<close>, row access policies of \<^verbatim>\<open>bigquery\<close>) goes down several levels.

  \<^bold>\<open>Packages with provisioners of their own.\<close> \<open>Storage\<close> (\<^verbatim>\<open>storage\<close>): identifiers with escaped names are read
  back under any target and what the walks list can be read; objects with their upload and content, deleted where they were uploaded. \<open>Sql\<close> (\<^verbatim>\<open>sql\<close>): which of two
  lists the initialiser leaves registered, and what that hides. \<open>Dns\<close> (\<^verbatim>\<open>dns\<close>): a discovered record set is found and
  reads with its zone. \<open>Api_Gateway\<close> (\<^verbatim>\<open>apigateway\<close>): identifiers and the read of a config. \<open>Secret_Manager\<close>
  (\<^verbatim>\<open>secretmanager\<close>): the payload of a version is written and never kept. \<open>Service_Account\<close> (\<^verbatim>\<open>iam/api.go\<close>,
  \<^verbatim>\<open>service_account.go\<close>, \<^verbatim>\<open>role.go\<close>): an account settles in the listing before its operation is finished. \<open>Fleet\<close>
  (\<^verbatim>\<open>gkehub\<close>): a feature is global wherever the target points, and what is created is found. \<open>Monitoring\<close> (\<^verbatim>\<open>monitoring\<close>):
  the readiness protocol of metric descriptors, which keeps a creation pending under a deadline carried in the request
  ID and reports success only after a read. All but \<open>Storage\<close>, \<open>Api_Gateway\<close> and \<open>Fleet\<close> interpret \<open>addressed\<close>.

  \<^bold>\<open>Bounds.\<close> The loops that the sources bound are recursions on that bound: two rounds of a metadata
  write, three of an IAM write, five of the wait for propagation. No fuel is added to these. A loop
  over the pages of a collection is bounded only by the API and is a
  \<^theory_text>\<open>partial_function\<close>; for the walks and for service accounts it is proved to return where the pages end. Times are
  unbounded integers in nanoseconds, because the sources only compare and add them within the
  range of \<^verbatim>\<open>time.Duration\<close>. Priorities are compared as the 64-bit integers they are parsed to, with
  the failure of the parser outside that range.

  \<^bold>\<open>Not modelled.\<close> The text of the errors of decoding a Pub/Sub policy or the properties of a secret version.
  The service packages other than those above: BigQuery's provisioners, which are written against
  a client library, Bigtable, GKE, the services of Cloud Run, Dataproc, Dataform, Firestore, Cloud Build, Binary
  Authorization, API keys and BigQuery connections; the registration of the walks over the tables, except for Cloud SQL, where its order
  matters; of \<^verbatim>\<open>compute\<close>, service networking; the constant tables of \<^verbatim>\<open>gcp.go\<close> that the
  SDK interprets (rate limits, discovery filters, labels); \<^verbatim>\<open>main.go\<close> and the Pkl schema, which have
  no logic of their own. Contexts and their cancellation appear only as errors of the HTTP exchange and, for
  metric descriptors, as what the environment says of the context of a call.
\<close>

end
